(* ===== verification/Prelude.thy ===== *)
theory Prelude
  imports Main "HOL-Library.Word" "HOL-Library.Char_ord" "HOL-Library.List_Lexorder"
begin

text \<open>
  The vocabulary every component of the development shares.

  \<^item> \<open>'e + 'a\<close> is Rust's \<open>Result<'a, 'e>\<close>: \<open>Inl\<close> is \<open>Err\<close>, \<open>Inr\<close> is \<open>Ok\<close>.
    \<open>rbind\<close> is the \<open>?\<close> operator, \<open>ensure\<close> is \<open>anyhow::ensure!\<close>.
  \<^item> \<open>('s, 'e, 'a) proc\<close> is a fallible method that reads and updates a state \<open>'s\<close>; the
    state reached before an error is kept, as it is in the code.
  \<^item> A 64-bit unsigned value is a \<open>nat\<close>, a 64-bit signed one an \<open>int\<close>; every addition or
    subtraction that the code checks or saturates is one of the functions below, with the
    bounds of the machine type written out. Raw bytes are \<open>8 word\<close>s, identities
    \<open>128 word\<close>s.
  \<^item> A \<open>String\<close> is its UTF-8 bytes (\<open>char\<close> is a byte), so \<open>length\<close> is Rust's \<open>len()\<close>.
\<close>

section \<open>Collections of facts\<close>

named_theorems result_simps \<open>inversion and evaluation rules for fallible computations\<close>
named_theorems codec_laws \<open>documented behaviour of external encoders\<close>

section \<open>Results\<close>

fun rbind :: "'e + 'a \<Rightarrow> ('a \<Rightarrow> 'e + 'b) \<Rightarrow> 'e + 'b" where
  "rbind (Inl e) f = Inl e"
| "rbind (Inr a) f = f a"

definition ensure :: "bool \<Rightarrow> 'e \<Rightarrow> 'e + unit" where
  "ensure c e = (if c then Inr () else Inl e)"

definition ok_or :: "'e \<Rightarrow> 'a option \<Rightarrow> 'e + 'a" where
  "ok_or e x = (case x of None \<Rightarrow> Inl e | Some a \<Rightarrow> Inr a)"

definition map_err :: "('e \<Rightarrow> 'f) \<Rightarrow> 'e + 'a \<Rightarrow> 'f + 'a" where
  "map_err f r = (case r of Inl e \<Rightarrow> Inl (f e) | Inr a \<Rightarrow> Inr a)"

definition is_ok :: "'e + 'a \<Rightarrow> bool" where
  "is_ok r = (case r of Inl _ \<Rightarrow> False | Inr _ \<Rightarrow> True)"

text \<open>\<open>for x in xs { check(x)?; }\<close>\<close>

fun try_all :: "('a \<Rightarrow> 'e + unit) \<Rightarrow> 'a list \<Rightarrow> 'e + unit" where
  "try_all f [] = Inr ()"
| "try_all f (x # xs) = rbind (f x) (\<lambda>_. try_all f xs)"

text \<open>\<open>for x in xs { acc = step(acc, x)?; }\<close>\<close>

fun try_fold :: "('s \<Rightarrow> 'a \<Rightarrow> 'e + 's) \<Rightarrow> 's \<Rightarrow> 'a list \<Rightarrow> 'e + 's" where
  "try_fold f s [] = Inr s"
| "try_fold f s (x # xs) = rbind (f s x) (\<lambda>s'. try_fold f s' xs)"

lemma rbind_Inr [simp, result_simps]:
  "(rbind m f = Inr b) = (\<exists>a. m = Inr a \<and> f a = Inr b)"
  by (cases m) auto

lemma rbind_Inl [result_simps]:
  "(rbind m f = Inl e) = (m = Inl e \<or> (\<exists>a. m = Inr a \<and> f a = Inl e))"
  by (cases m) auto

lemma rbind_assoc: "rbind (rbind m f) g = rbind m (\<lambda>a. rbind (f a) g)"
  by (cases m) auto

lemma ensure_True [simp]: "ensure True e = Inr ()"
  and ensure_False [simp]: "ensure False e = Inl e"
  by (simp_all add: ensure_def)

lemma ensure_Inr [simp, result_simps]: "(ensure c e = Inr u) = c"
  by (simp add: ensure_def)

lemma ensure_Inl [simp, result_simps]: "(ensure c e = Inl e') = (\<not> c \<and> e' = e)"
  by (auto simp: ensure_def)

lemma ok_or_simps [simp]: "ok_or e None = Inl e" "ok_or e (Some a) = Inr a"
  by (simp_all add: ok_or_def)

lemma ok_or_Inr [simp, result_simps]: "(ok_or e x = Inr a) = (x = Some a)"
  by (cases x) auto

lemma ok_or_Inl [simp, result_simps]: "(ok_or e x = Inl e') = (x = None \<and> e' = e)"
  by (cases x) auto

lemma if_Inl [simp, result_simps]:
  "((if b then Inl e else m) = Inr x) = (\<not> b \<and> m = Inr x)"
  "((if b then m else Inl e) = Inr x) = (b \<and> m = Inr x)"
  by simp_all

lemma map_err_simps [simp]: "map_err f (Inl e) = Inl (f e)" "map_err f (Inr a) = Inr a"
  by (simp_all add: map_err_def)

lemma map_err_Inr [simp, result_simps]: "(map_err f r = Inr a) = (r = Inr a)"
  by (cases r) auto

lemma is_ok_simps [simp]: "is_ok (Inl e) = False" "is_ok (Inr a) = True"
  by (simp_all add: is_ok_def)

lemma is_ok_iff: "is_ok r = (\<exists>a. r = Inr a)"
  by (cases r) auto

lemma is_ok_rbind [simp]:
  "is_ok (rbind m f) = (\<exists>a. m = Inr a \<and> is_ok (f a))"
  by (cases m) auto

lemma is_ok_ensure [simp]: "is_ok (ensure c e) = c"
  by (simp add: ensure_def)

lemma is_ok_map_err [simp]: "is_ok (map_err f r) = is_ok r"
  by (cases r) auto

lemma try_all_Inr [simp, result_simps]:
  "(try_all f xs = Inr u) = (\<forall>x \<in> set xs. f x = Inr ())"
  by (induction xs) auto

lemma try_fold_append:
  "try_fold f s (xs @ ys) = rbind (try_fold f s xs) (\<lambda>s'. try_fold f s' ys)"
  by (induction xs arbitrary: s) (auto simp: rbind_assoc)

text \<open>The invariant rule of a fallible loop.\<close>

lemma try_fold_invariant:
  assumes "try_fold f s xs = Inr t" and "P s"
    and "\<And>s x t. P s \<Longrightarrow> x \<in> set xs \<Longrightarrow> f s x = Inr t \<Longrightarrow> P t"
  shows "P t"
  using assms
proof (induction xs arbitrary: s)
  case Nil
  then show ?case by simp
next
  case (Cons x xs)
  from Cons.prems(1) obtain s' where s': "f s x = Inr s'" "try_fold f s' xs = Inr t" by auto
  have "P s'" using Cons.prems(3)[OF Cons.prems(2) _ s'(1)] by simp
  then show ?case using Cons.IH[OF s'(2)] Cons.prems(3) by (meson list.set_intros(2))
qed

section \<open>Fallible methods over a state\<close>

type_synonym ('s, 'e, 'a) proc = "'s \<Rightarrow> ('e + 'a) \<times> 's"

definition sret :: "'a \<Rightarrow> ('s, 'e, 'a) proc" where
  "sret a s = (Inr a, s)"

definition sfail :: "'e \<Rightarrow> ('s, 'e, 'a) proc" where
  "sfail e s = (Inl e, s)"

definition slift :: "'e + 'a \<Rightarrow> ('s, 'e, 'a) proc" where
  "slift r s = (r, s)"

definition sbind :: "('s, 'e, 'a) proc \<Rightarrow> ('a \<Rightarrow> ('s, 'e, 'b) proc) \<Rightarrow> ('s, 'e, 'b) proc" where
  "sbind m f s = (case m s of (Inl e, s') \<Rightarrow> (Inl e, s') | (Inr a, s') \<Rightarrow> f a s')"

definition sread :: "('s \<Rightarrow> 'a) \<Rightarrow> ('s, 'e, 'a) proc" where
  "sread f s = (Inr (f s), s)"

definition swrite :: "('s \<Rightarrow> 's) \<Rightarrow> ('s, 'e, unit) proc" where
  "swrite f s = (Inr (), f s)"

definition sensure :: "bool \<Rightarrow> 'e \<Rightarrow> ('s, 'e, unit) proc" where
  "sensure c e s = (ensure c e, s)"

lemma proc_simps [simp]:
  "sret a s = (Inr a, s)" "sfail e s = (Inl e, s)" "slift r s = (r, s)"
  "sread f s = (Inr (f s), s)" "swrite g s = (Inr (), g s)"
  "sensure c e' s = (ensure c e', s)"
  by (simp_all add: sret_def sfail_def slift_def sread_def swrite_def sensure_def)

lemma sbind_Inr [simp, result_simps]:
  "(sbind m f s = (Inr b, t)) = (\<exists>a s'. m s = (Inr a, s') \<and> f a s' = (Inr b, t))"
  by (auto simp: sbind_def split: prod.splits sum.splits)

lemma sbind_eval:
  "m s = (Inr a, s') \<Longrightarrow> sbind m f s = f a s'"
  "m s = (Inl e, s') \<Longrightarrow> sbind m f s = (Inl e, s')"
  by (simp_all add: sbind_def)

lemma sbindE:
  assumes "sbind m f s = (r, t)"
  obtains (err) e where "m s = (Inl e, t)" "r = Inl e"
    | (ok) a s' where "m s = (Inr a, s')" "f a s' = (r, t)"
  using assms by (auto simp: sbind_def split: prod.splits sum.splits)

text \<open>
  A method preserves \<open>P\<close> when every outcome does, errors included. The rule set below is
  how component invariants are proved: method by method, over the shape of the code.
\<close>

definition preserves :: "('s \<Rightarrow> bool) \<Rightarrow> ('s, 'e, 'a) proc \<Rightarrow> bool" where
  "preserves P m = (\<forall>s. P s \<longrightarrow> P (snd (m s)))"

named_theorems preserves_intro \<open>invariant preservation, by the structure of a method\<close>

lemma preservesI: "(\<And>s. P s \<Longrightarrow> P (snd (m s))) \<Longrightarrow> preserves P m"
  by (simp add: preserves_def)

lemma preservesD: "preserves P m \<Longrightarrow> P s \<Longrightarrow> P (snd (m s))"
  by (simp add: preserves_def)

lemma preserves_pure [simp, preserves_intro]:
  "preserves P (sret a)" "preserves P (sfail e)" "preserves P (slift r)"
  "preserves P (sread f)" "preserves P (sensure c e')"
  by (simp_all add: preserves_def)

lemma preserves_sbind [preserves_intro]:
  "preserves P m \<Longrightarrow> (\<And>a. preserves P (f a)) \<Longrightarrow> preserves P (sbind m f)"
  by (fastforce simp: preserves_def sbind_def split: prod.splits sum.splits)

lemma preserves_if [preserves_intro]:
  "(b \<Longrightarrow> preserves P m) \<Longrightarrow> (\<not> b \<Longrightarrow> preserves P n) \<Longrightarrow> preserves P (if b then m else n)"
  by simp

lemma preserves_case_option [preserves_intro]:
  "preserves P m \<Longrightarrow> (\<And>a. preserves P (f a)) \<Longrightarrow>
    preserves P (case x of None \<Rightarrow> m | Some a \<Rightarrow> f a)"
  by (cases x) simp_all

lemma preserves_case_sum [preserves_intro]:
  "(\<And>a. preserves P (f a)) \<Longrightarrow> (\<And>b. preserves P (g b)) \<Longrightarrow>
    preserves P (case x of Inl a \<Rightarrow> f a | Inr b \<Rightarrow> g b)"
  by (cases x) simp_all

lemma preserves_case_prod [preserves_intro]:
  "(\<And>a b. preserves P (f a b)) \<Longrightarrow> preserves P (case x of (a, b) \<Rightarrow> f a b)"
  by (cases x) simp

lemma preserves_let [preserves_intro]:
  "(\<And>a. preserves P (f a)) \<Longrightarrow> preserves P (let a = x in f a)"
  by simp

section \<open>Machine integers\<close>

type_synonym byte = "8 word"
type_synonym bytes = "8 word list"
type_synonym uuid = "128 word"

abbreviation "u64_limit \<equiv> (2::nat) ^ 64"
abbreviation "i64_max \<equiv> (2::int) ^ 63 - 1"
abbreviation "i64_min \<equiv> - ((2::int) ^ 63)"

definition checked_add_u64 :: "nat \<Rightarrow> nat \<Rightarrow> nat option" where
  "checked_add_u64 a b = (if a + b < u64_limit then Some (a + b) else None)"

definition saturating_add_u64 :: "nat \<Rightarrow> nat \<Rightarrow> nat" where
  "saturating_add_u64 a b = min (a + b) (u64_limit - 1)"

definition saturating_sub_u64 :: "nat \<Rightarrow> nat \<Rightarrow> nat" where
  "saturating_sub_u64 a b = (if b \<le> a then a - b else 0)"

definition in_i64 :: "int \<Rightarrow> bool" where
  "in_i64 x = (i64_min \<le> x \<and> x \<le> i64_max)"

definition checked_sub_i64 :: "int \<Rightarrow> int \<Rightarrow> int option" where
  "checked_sub_i64 a b = (if in_i64 (a - b) then Some (a - b) else None)"

definition saturating_sub_i64 :: "int \<Rightarrow> int \<Rightarrow> int" where
  "saturating_sub_i64 a b = max i64_min (min (a - b) i64_max)"

definition saturating_add_i64 :: "int \<Rightarrow> int \<Rightarrow> int" where
  "saturating_add_i64 a b = max i64_min (min (a + b) i64_max)"

lemma checked_add_u64_Some [simp]:
  "(checked_add_u64 a b = Some c) = (c = a + b \<and> a + b < u64_limit)"
  by (auto simp: checked_add_u64_def)

lemma checked_sub_i64_Some [simp]:
  "(checked_sub_i64 a b = Some c) = (c = a - b \<and> in_i64 (a - b))"
  by (auto simp: checked_sub_i64_def)

lemma saturating_add_u64_le: "saturating_add_u64 a b \<le> a + b"
  by (simp add: saturating_add_u64_def)

text \<open>\<open>u64::to_be_bytes\<close>\<close>

definition to_be_bytes :: "nat \<Rightarrow> nat \<Rightarrow> bytes" where
  "to_be_bytes n x = map (\<lambda>i. of_nat (x div 256 ^ i)) (rev [0..<n])"

lemma length_to_be_bytes [simp]: "length (to_be_bytes n x) = n"
  by (simp add: to_be_bytes_def)

lemma to_be_bytes_Suc: "to_be_bytes (Suc n) x = to_be_bytes n (x div 256) @ [of_nat x]"
proof -
  have "[0..<Suc n] = 0 # map Suc [0..<n]"
    by (simp add: upt_conv_Cons map_Suc_upt del: upt_Suc)
  then have "rev [0..<Suc n] = map Suc (rev [0..<n]) @ [0]"
    by (simp add: rev_map del: upt_Suc)
  then show ?thesis by (simp add: to_be_bytes_def div_mult2_eq del: upt_Suc)
qed

section \<open>Text\<close>

definition as_bytes :: "string \<Rightarrow> bytes" where
  "as_bytes s = map of_char s"

text \<open>\<open>str::split(sep)\<close>: always at least one part.\<close>

fun split_on :: "char \<Rightarrow> string \<Rightarrow> string list" where
  "split_on d [] = [[]]"
| "split_on d (c # cs) =
     (if c = d then [] # split_on d cs
      else (case split_on d cs of [] \<Rightarrow> [[c]] | p # ps \<Rightarrow> (c # p) # ps))"

text \<open>\<open>str::split_once(sep)\<close>: at the first separator.\<close>

fun split_once :: "char \<Rightarrow> string \<Rightarrow> (string \<times> string) option" where
  "split_once d [] = None"
| "split_once d (c # cs) =
     (if c = d then Some ([], cs)
      else (case split_once d cs of None \<Rightarrow> None | Some (p, r) \<Rightarrow> Some (c # p, r)))"

definition strip_prefix :: "string \<Rightarrow> string \<Rightarrow> string option" where
  "strip_prefix p s = (if take (length p) s = p then Some (drop (length p) s) else None)"

definition ascii_digit :: "char \<Rightarrow> bool" where
  "ascii_digit c = (CHR ''0'' \<le> c \<and> c \<le> CHR ''9'')"

definition ascii_alphabetic :: "char \<Rightarrow> bool" where
  "ascii_alphabetic c =
     (c \<le> CHR ''Z'' \<and> CHR ''A'' \<le> c \<or> c \<le> CHR ''z'' \<and> CHR ''a'' \<le> c)"

definition ascii_alphanumeric :: "char \<Rightarrow> bool" where
  "ascii_alphanumeric c = (ascii_digit c \<or> ascii_alphabetic c)"

text \<open>The test \<open>b.is_ascii_digit() || (b'a'..=b'f').contains(&b)\<close>.\<close>

definition lower_hex :: "char \<Rightarrow> bool" where
  "lower_hex c = (ascii_digit c \<or> CHR ''a'' \<le> c \<and> c \<le> CHR ''f'')"

text \<open>
  \<open>s.chars().any(char::is_control)\<close> on the UTF-8 bytes of \<open>s\<close>: the control characters
  are U+0000 to U+001F, U+007F, and U+0080 to U+009F, which are encoded as the byte C2
  followed by a byte 80 to 9F.
\<close>

fun has_control :: "string \<Rightarrow> bool" where
  "has_control [] = False"
| "has_control (c # cs) =
     (of_char c < (32::nat) \<or> of_char c = (127::nat) \<or>
      (of_char c = (194::nat) \<and> (case cs of [] \<Rightarrow> False
         | d # _ \<Rightarrow> (128::nat) \<le> of_char d \<and> of_char d \<le> (159::nat))) \<or>
      has_control cs)"

lemma split_on_not_Nil [simp]: "split_on d s \<noteq> []"
  by (cases s) (auto split: list.splits)

lemma split_on_absent [simp]: "d \<notin> set s \<Longrightarrow> split_on d s = [s]"
  by (induction s) auto

lemma split_on_append [simp]:
  "d \<notin> set p \<Longrightarrow> split_on d (p @ d # r) = p # split_on d r"
  by (induction p) (auto split: list.splits)

lemma split_once_append [simp]: "d \<notin> set p \<Longrightarrow> split_once d (p @ d # r) = Some (p, r)"
  by (induction p) auto

lemma split_once_Some:
  "split_once d s = Some (p, r) \<Longrightarrow> s = p @ d # r \<and> d \<notin> set p"
  by (induction s arbitrary: p) (auto split: if_splits option.splits)

lemma strip_prefix_Some [simp]: "(strip_prefix p s = Some r) = (s = p @ r)"
  by (auto simp: strip_prefix_def) (metis append_take_drop_id)

lemma unat_of_char [simp]: "unat (of_char c :: 8 word) = of_char c"
proof -
  have "(of_char c :: 8 word) = of_nat (of_char c)" by (simp only: of_nat_of_char)
  moreover have "(of_char c :: nat) < 256" by (rule nat_of_char_less_256)
  ultimately show ?thesis by (simp add: unsigned_of_nat take_bit_eq_mod del: of_nat_of_char)
qed

lemma of_char_inj8: "(of_char c :: 8 word) = of_char d \<Longrightarrow> c = d"
  by (metis unat_of_char of_char_eq_iff)

lemma as_bytes_inj [simp]: "(as_bytes s = as_bytes t) = (s = t)"
  unfolding as_bytes_def using of_char_inj8 by (metis injI inj_map_eq_map)

lemma length_as_bytes [simp]: "length (as_bytes s) = length s"
  by (simp add: as_bytes_def)

section \<open>Decimal numbers\<close>

text \<open>\<open>Display\<close> of the integer types, as \<open>format!\<close> uses it.\<close>

definition decimal_digit :: "nat \<Rightarrow> char" where
  "decimal_digit d = char_of (48 + d)"

fun show_nat :: "nat \<Rightarrow> string" where
  "show_nat n = (if n < 10 then [decimal_digit n] else show_nat (n div 10) @ [decimal_digit (n mod 10)])"

declare show_nat.simps [simp del]

definition show_int :: "int \<Rightarrow> string" where
  "show_int i = (if i < 0 then CHR ''-'' # show_nat (nat (- i)) else show_nat (nat i))"

definition read_nat :: "string \<Rightarrow> nat" where
  "read_nat s = foldl (\<lambda>a c. 10 * a + (of_char c - 48)) 0 s"

lemma of_char_digit [simp]: "d < 10 \<Longrightarrow> of_char (decimal_digit d) = (48 + d :: nat)"
  by (simp add: decimal_digit_def)

lemma read_show_nat: "read_nat (show_nat n) = n"
proof (induction n rule: show_nat.induct)
  case (1 n)
  then show ?case
    by (subst show_nat.simps) (simp add: read_nat_def)
qed

lemma show_nat_inj [simp]: "(show_nat m = show_nat n) = (m = n)"
  by (metis read_show_nat)

lemma show_nat_digits: "c \<in> set (show_nat n) \<Longrightarrow> 48 \<le> (of_char c :: nat) \<and> (of_char c :: nat) < 58"
proof (induction n rule: show_nat.induct)
  case (1 n)
  from "1.prems" show ?case
    by (subst (asm) show_nat.simps) (auto split: if_splits dest: "1.IH")
qed

lemma show_nat_absent: "of_char c < (48 :: nat) \<Longrightarrow> c \<notin> set (show_nat n)"
  using show_nat_digits[of c n] by auto

lemma show_int_inj [simp]: "(show_int i = show_int j) = (i = j)"
proof -
  have minus: "CHR ''-'' \<notin> set (show_nat n)" for n by (rule show_nat_absent) simp
  have "show_nat m \<noteq> CHR ''-'' # show_nat n" for m n
    using minus[of m] by (metis list.set_intros(1))
  then show ?thesis by (auto simp: show_int_def dest: sym)
qed

lemma show_int_no_slash [simp]: "CHR ''/'' \<notin> set (show_int i)"
  by (simp add: show_int_def show_nat_absent)

text \<open>Path segments without a slash are recovered by splitting.\<close>

lemma join_segments:
  "d \<notin> set s \<Longrightarrow> split_on d s = [s]"
  "d \<notin> set s \<Longrightarrow> split_on d (s @ [d] @ r) = s # split_on d r"
  by simp_all

section \<open>A shared contract: denial that cannot be undone\<close>

text \<open>
  What a client of an authority relies on: its transitions keep the state good and never
  make a covered, denied owner admissible.
\<close>

locale irrevocable_denial =
  fixes step :: "'s \<Rightarrow> 'x \<Rightarrow> 's"
    and good :: "'s \<Rightarrow> bool"
    and covered :: "'s \<Rightarrow> 'p \<Rightarrow> bool"
    and admits :: "'s \<Rightarrow> 'p \<Rightarrow> bool"
  assumes good_step: "good s \<Longrightarrow> good (step s x)"
    and covered_step: "good s \<Longrightarrow> covered s p \<Longrightarrow> covered (step s x) p"
    and denied_step: "good s \<Longrightarrow> covered s p \<Longrightarrow> \<not> admits s p \<Longrightarrow> \<not> admits (step s x) p"
begin

lemma good_run: "good s \<Longrightarrow> good (foldl step s xs)"
  by (induction xs arbitrary: s) (auto intro: good_step)

lemma covered_run: "good s \<Longrightarrow> covered s p \<Longrightarrow> covered (foldl step s xs) p"
  by (induction xs arbitrary: s) (auto intro: good_step covered_step)

lemma denied_run:
  "good s \<Longrightarrow> covered s p \<Longrightarrow> \<not> admits s p \<Longrightarrow> \<not> admits (foldl step s xs) p"
  by (induction xs arbitrary: s) (auto simp: good_step covered_step denied_step)

end

section \<open>UTF-8\<close>

text \<open>\<open>String::from_utf8\<close>: the well-formed byte sequences of the Unicode standard.\<close>

definition utf8_cont :: "byte \<Rightarrow> bool" where
  "utf8_cont b = (0x80 \<le> b \<and> b \<le> 0xBF)"

fun utf8_valid :: "bytes \<Rightarrow> bool" where
  "utf8_valid [] = True"
| "utf8_valid (a # bs) =
     (if a < 0x80 then utf8_valid bs
      else case bs of
        [] \<Rightarrow> False
      | b # cs \<Rightarrow>
        if 0xC2 \<le> a \<and> a \<le> 0xDF then utf8_cont b \<and> utf8_valid cs
        else case cs of
          [] \<Rightarrow> False
        | c # ds \<Rightarrow>
          if 0xE0 \<le> a \<and> a \<le> 0xEF
          then (if a = 0xE0 then 0xA0 \<le> b \<and> b \<le> 0xBF
                else if a = 0xED then 0x80 \<le> b \<and> b \<le> 0x9F else utf8_cont b) \<and>
               utf8_cont c \<and> utf8_valid ds
          else case ds of
            [] \<Rightarrow> False
          | d # es \<Rightarrow>
            0xF0 \<le> a \<and> a \<le> 0xF4 \<and>
            (if a = 0xF0 then 0x90 \<le> b \<and> b \<le> 0xBF
             else if a = 0xF4 then 0x80 \<le> b \<and> b \<le> 0x8F else utf8_cont b) \<and>
            utf8_cont c \<and> utf8_cont d \<and> utf8_valid es)"

definition from_utf8 :: "bytes \<Rightarrow> string option" where
  "from_utf8 b = (if utf8_valid b then Some (map (\<lambda>x. char_of (unat x)) b) else None)"

lemma of_char_unat [simp]: "(of_char (char_of (unat (b :: 8 word))) :: 8 word) = b"
proof -
  have "unat b < 256" by (rule order_less_le_trans[OF unsigned_less]) simp
  then have "of_char (char_of (unat b)) = unat b" by simp
  then have "unat (of_char (char_of (unat b)) :: 8 word) = unat b" by (simp only: unat_of_char)
  then show ?thesis by (simp only: word_unat_eq_iff)
qed

lemma from_utf8_bytes: "from_utf8 b = Some s \<Longrightarrow> as_bytes s = b"
  by (auto simp: from_utf8_def as_bytes_def comp_def split: if_splits)

end
