(* ===== verification/Crates.thy ===== *)
theory Crates
  imports Prelude
begin

unbundle bit_operations_syntax

text \<open>
  The third-party functions the program calls, as parameters. \<open>crates\<close> collects the
  functions of the \<open>uuid\<close>, \<open>sha2\<close>, \<open>hex\<close> and \<open>subtle\<close> crates; \<open>json\<close> is one
  \<open>serde_json\<close> encoding of one type. Every definition of the development that calls such a
  function takes the record as an argument. \<open>crates_laws\<close> and \<open>json_faithful\<close> state the
  documented behaviour some properties assume, and \<open>ref_crates\<close> and \<open>table_json\<close> are
  concrete functions that satisfy it (they are used by witnesses only).
\<close>

section \<open>Interfaces\<close>

record crates =
  uuid_try_parse :: "string \<Rightarrow> uuid option"
  uuid_hyphenated :: "uuid \<Rightarrow> string"
  uuid_version :: "uuid \<Rightarrow> nat"
  uuid_rfc4122 :: "uuid \<Rightarrow> bool"
  sha256 :: "bytes \<Rightarrow> bytes"
  hex_encode :: "bytes \<Rightarrow> string"
  hex_decode :: "string \<Rightarrow> bytes option"
  ct_eq :: "bytes \<Rightarrow> bytes \<Rightarrow> bool"

record 'a json =
  to_vec :: "'a \<Rightarrow> bytes option"
  from_slice :: "bytes \<Rightarrow> 'a option"

definition hyphen_hex :: "char \<Rightarrow> bool" where
  "hyphen_hex c = (lower_hex c \<or> c = CHR ''-'')"

definition uuid_laws :: "crates \<Rightarrow> bool" where
  "uuid_laws C =
     ((\<forall>u. uuid_try_parse C (uuid_hyphenated C u) = Some u) \<and>
      (\<forall>u. length (uuid_hyphenated C u) = 36) \<and>
      (\<forall>u. list_all hyphen_hex (uuid_hyphenated C u)) \<and>
      (\<forall>u. uuid_version C u = unat (drop_bit 76 u AND 15)) \<and>
      (\<forall>u. uuid_rfc4122 C u = (drop_bit 62 u AND 3 = 2)))"

definition hash_laws :: "crates \<Rightarrow> bool" where
  "hash_laws C =
     ((\<forall>b. length (sha256 C b) = 32) \<and>
      (\<forall>b. hex_decode C (hex_encode C b) = Some b) \<and>
      (\<forall>b. length (hex_encode C b) = 2 * length b) \<and>
      (\<forall>b. list_all lower_hex (hex_encode C b)) \<and>
      (\<forall>s b. hex_decode C s = Some b \<longrightarrow> length s = 2 * length b) \<and>
      (\<forall>a b. ct_eq C a b = (a = b)))"

definition json_faithful :: "'a json \<Rightarrow> bool" where
  "json_faithful J = (\<forall>x b. to_vec J x = Some b \<longrightarrow> from_slice J b = Some x)"

lemma uuid_lawsD [codec_laws]:
  assumes "uuid_laws C"
  shows "uuid_try_parse C (uuid_hyphenated C u) = Some u"
    and "length (uuid_hyphenated C u) = 36"
    and "list_all hyphen_hex (uuid_hyphenated C u)"
    and "uuid_version C u = unat (drop_bit 76 u AND 15)"
    and "uuid_rfc4122 C u = (drop_bit 62 u AND 3 = 2)"
  using assms by (simp_all add: uuid_laws_def)

lemma hash_lawsD [codec_laws]:
  assumes "hash_laws C"
  shows "length (sha256 C b) = 32"
    and "hex_decode C (hex_encode C b) = Some b"
    and "length (hex_encode C b) = 2 * length b"
    and "list_all lower_hex (hex_encode C b)"
    and "ct_eq C a b = (a = b)"
  using assms by (simp_all add: hash_laws_def)

lemma hex_decode_length: "hash_laws C \<Longrightarrow> hex_decode C s = Some b \<Longrightarrow> length s = 2 * length b"
  by (simp add: hash_laws_def)

lemma json_faithfulD: "json_faithful J \<Longrightarrow> to_vec J x = Some b \<Longrightarrow> from_slice J b = Some x"
  by (simp add: json_faithful_def)

lemma uuid_hyphenated_inj:
  "uuid_laws C \<Longrightarrow> (uuid_hyphenated C u = uuid_hyphenated C v) = (u = v)"
  by (metis uuid_lawsD(1) option.inject)

lemma hyphen_hex_ascii: "hyphen_hex c \<Longrightarrow> c \<noteq> CHR ''_'' \<and> c \<noteq> CHR ''/''"
  by (auto simp: hyphen_hex_def lower_hex_def ascii_digit_def)

lemma uuid_hyphenated_no_sep:
  "uuid_laws C \<Longrightarrow> CHR ''_'' \<notin> set (uuid_hyphenated C u) \<and> CHR ''/'' \<notin> set (uuid_hyphenated C u)"
  using uuid_lawsD(3)[of C u] hyphen_hex_ascii by (fastforce simp: list_all_iff)

lemma hex_encode_no_sep: "hash_laws C \<Longrightarrow> CHR ''_'' \<notin> set (hex_encode C b)"
  using hash_lawsD(4)[of C b] by (fastforce simp: list_all_iff lower_hex_def ascii_digit_def)

section \<open>A concrete instance\<close>

fun to_digits :: "nat \<Rightarrow> nat \<Rightarrow> nat list" where
  "to_digits 0 n = []"
| "to_digits (Suc k) n = (n mod 16) # to_digits k (n div 16)"

fun from_digits :: "nat list \<Rightarrow> nat" where
  "from_digits [] = 0"
| "from_digits (d # ds) = d + 16 * from_digits ds"

definition hex_digit :: "nat \<Rightarrow> char" where
  "hex_digit n = ''0123456789abcdef'' ! n"

definition hex_value :: "char \<Rightarrow> nat option" where
  "hex_value c =
     (if ascii_digit c then Some (of_char c - 48)
      else if CHR ''a'' \<le> c \<and> c \<le> CHR ''f'' then Some (of_char c - 87)
      else if CHR ''A'' \<le> c \<and> c \<le> CHR ''F'' then Some (of_char c - 55)
      else None)"

fun hex_values :: "string \<Rightarrow> nat list option" where
  "hex_values [] = Some []"
| "hex_values (c # cs) =
     (case (hex_value c, hex_values cs) of (Some d, Some ds) \<Rightarrow> Some (d # ds) | _ \<Rightarrow> None)"

definition ref_hyphenated :: "uuid \<Rightarrow> string" where
  "ref_hyphenated u =
     (let h = map hex_digit (rev (to_digits 32 (unat u)))
      in take 8 h @ ''-'' @ take 4 (drop 8 h) @ ''-'' @ take 4 (drop 12 h) @ ''-'' @
         take 4 (drop 16 h) @ ''-'' @ drop 20 h)"

definition ref_try_parse :: "string \<Rightarrow> uuid option" where
  "ref_try_parse s =
     (let h = take 8 s @ take 4 (drop 9 s) @ take 4 (drop 14 s) @ take 4 (drop 19 s) @ drop 24 s
      in if length s = 36 \<and> s ! 8 = CHR ''-'' \<and> s ! 13 = CHR ''-'' \<and> s ! 18 = CHR ''-'' \<and> s ! 23 = CHR ''-''
         then map_option (\<lambda>ds. of_nat (from_digits (rev ds))) (hex_values h)
         else None)"

fun ref_hex_encode :: "bytes \<Rightarrow> string" where
  "ref_hex_encode [] = []"
| "ref_hex_encode (b # bs) =
     hex_digit (unat b div 16) # hex_digit (unat b mod 16) # ref_hex_encode bs"

fun ref_hex_decode :: "string \<Rightarrow> bytes option" where
  "ref_hex_decode [] = Some []"
| "ref_hex_decode [c] = None"
| "ref_hex_decode (c # d # cs) =
     (case (hex_value c, hex_value d, ref_hex_decode cs) of
        (Some x, Some y, Some bs) \<Rightarrow> Some (of_nat (16 * x + y) # bs) | _ \<Rightarrow> None)"

definition ref_sha256 :: "bytes \<Rightarrow> bytes" where
  "ref_sha256 b = take 32 (rev b @ replicate 32 0)"

definition ref_crates :: crates where
  "ref_crates =
     \<lparr>uuid_try_parse = ref_try_parse, uuid_hyphenated = ref_hyphenated,
      uuid_version = (\<lambda>u. unat (drop_bit 76 u AND 15)),
      uuid_rfc4122 = (\<lambda>u. drop_bit 62 u AND 3 = 2),
      sha256 = ref_sha256, hex_encode = ref_hex_encode, hex_decode = ref_hex_decode,
      ct_eq = (\<lambda>a b. a = b)\<rparr>"

text \<open>An encoding that knows the listed values: entry \<open>i\<close> is written as the byte \<open>i\<close>.\<close>

fun table_index :: "'a \<Rightarrow> 'a list \<Rightarrow> nat option" where
  "table_index x [] = None"
| "table_index x (y # ys) = (if x = y then Some 0 else map_option Suc (table_index x ys))"

definition table_json :: "'a list \<Rightarrow> 'a json" where
  "table_json xs =
     \<lparr>to_vec = (\<lambda>x. map_option (\<lambda>i. replicate i 1) (table_index x xs)),
      from_slice = (\<lambda>b. if length b < length xs then Some (xs ! length b) else None)\<rparr>"

lemma length_to_digits [simp]: "length (to_digits k n) = k"
  by (induction k arbitrary: n) auto

lemma to_digits_bound: "d \<in> set (to_digits k n) \<Longrightarrow> d < 16"
  by (induction k arbitrary: n) auto

lemma from_to_digits: "from_digits (to_digits k n) = n mod 16 ^ k"
  by (induction k arbitrary: n) (auto simp: mod_mult2_eq)

lemma hex_digits_all:
  "list_all (\<lambda>n. hex_value (hex_digit n) = Some n \<and> lower_hex (hex_digit n)) [0..<16]"
  by code_simp

lemma hex_value_digit [simp]: "n < 16 \<Longrightarrow> hex_value (hex_digit n) = Some n"
  using hex_digits_all by (simp add: list_all_iff)

lemma lower_hex_digit [simp]: "n < 16 \<Longrightarrow> lower_hex (hex_digit n)"
  using hex_digits_all by (simp add: list_all_iff)

lemma hex_values_digits: "\<forall>d \<in> set ds. d < 16 \<Longrightarrow> hex_values (map hex_digit ds) = Some ds"
  by (induction ds) auto

lemma ref_parse_hyphenated: "ref_try_parse (ref_hyphenated u) = Some u"
proof -
  define ds where "ds = rev (to_digits 32 (unat u))"
  define h where "h = map hex_digit ds"
  have len: "length h = 32" by (simp add: h_def ds_def)
  have vals: "hex_values h = Some ds"
    unfolding h_def using to_digits_bound by (intro hex_values_digits) (auto simp: ds_def)
  have "unat u < 16 ^ 32" by (rule order_less_le_trans[OF unsigned_less]) simp
  then have num: "of_nat (from_digits (rev ds)) = u"
    by (simp add: ds_def from_to_digits)
  have shape: "ref_hyphenated u = take 8 h @ ''-'' @ take 4 (drop 8 h) @ ''-'' @ take 4 (drop 12 h) @
      ''-'' @ take 4 (drop 16 h) @ ''-'' @ drop 20 h"
    by (simp add: ref_hyphenated_def h_def ds_def Let_def)
  have "take 8 h @ take 4 (drop 8 h) @ take 4 (drop 12 h) @ take 4 (drop 16 h) @ drop 20 h = h"
    using append_take_drop_id[of 8 h] append_take_drop_id[of 4 "drop 8 h"]
      append_take_drop_id[of 4 "drop 12 h"] append_take_drop_id[of 4 "drop 16 h"]
    by simp
  then show ?thesis
    unfolding ref_try_parse_def shape using len vals num
    by (simp add: nth_append Let_def)
qed

lemma ref_hyphenated_shape:
  "length (ref_hyphenated u) = 36 \<and> list_all hyphen_hex (ref_hyphenated u)"
proof -
  define h where "h = map hex_digit (rev (to_digits 32 (unat u)))"
  have len: "length h = 32" by (simp add: h_def)
  have "\<forall>c \<in> set h. hyphen_hex c"
    using to_digits_bound by (fastforce simp: h_def hyphen_hex_def)
  then show ?thesis
    unfolding ref_hyphenated_def h_def[symmetric] Let_def using len
    by (auto simp: list_all_iff hyphen_hex_def[of "CHR ''-''"] dest!: in_set_takeD in_set_dropD)
qed

lemma ref_uuid_laws: "uuid_laws ref_crates"
  by (simp add: uuid_laws_def ref_crates_def ref_parse_hyphenated ref_hyphenated_shape)

lemma unat_byte_less [simp]: "unat (b :: 8 word) < 256" "unat (b :: 8 word) div 16 < 16"
proof -
  show "unat b < 256" by (rule order_less_le_trans[OF unsigned_less]) simp
  then show "unat b div 16 < 16" by simp
qed

lemma ref_hex_roundtrip: "ref_hex_decode (ref_hex_encode b) = Some b"
  by (induction b) (auto simp: mult_div_mod_eq)

lemma ref_hex_shape: "length (ref_hex_encode b) = 2 * length b \<and> list_all lower_hex (ref_hex_encode b)"
  by (induction b) auto

lemma ref_hex_decode_length: "ref_hex_decode s = Some b \<Longrightarrow> length s = 2 * length b"
  by (induction s arbitrary: b rule: ref_hex_decode.induct) (auto split: option.splits)

lemma ref_hash_laws: "hash_laws ref_crates"
  by (auto simp: hash_laws_def ref_crates_def ref_sha256_def ref_hex_roundtrip ref_hex_shape
      ref_hex_decode_length)

lemma table_index_Some:
  "table_index x xs = Some i \<Longrightarrow> i < length xs \<and> xs ! i = x"
  by (induction xs arbitrary: i) (auto split: if_splits)

lemma table_json_faithful: "json_faithful (table_json xs)"
  by (auto simp: json_faithful_def table_json_def dest: table_index_Some)

section \<open>Answers of a service\<close>

text \<open>
  The codes of \<open>tonic::Status\<close> the supervisor answers with. Messages are not modelled.
\<close>

datatype host_status =
    Unavailable
  | InvalidArgument
  | FailedPrecondition
  | ResourceExhausted
  | AlreadyExists
  | PermissionDenied
  | NotFound
  | InternalError

end
