(* ===== verification/Ordered_Map.thy ===== *)
theory Ordered_Map
  imports Prelude
begin

text \<open>
  The standard library's \<open>BTreeMap\<close> and \<open>BTreeSet\<close>, as the list of entries in iteration
  order: strictly ascending keys. \<open>bt_get\<close>, \<open>bt_insert\<close> and \<open>bt_remove\<close> are the three
  operations the code uses. The locale \<open>keyed_map\<close> is the contract the components rely on
  (what a lookup returns after an insertion or a removal, and that the order invariant is
  kept); the components use its facts through the interpretation at the end.
\<close>

section \<open>The contract\<close>

locale keyed_map =
  fixes empty :: "'m"
    and get :: "'k \<Rightarrow> 'm \<Rightarrow> 'v option"
    and insert :: "'k \<Rightarrow> 'v \<Rightarrow> 'm \<Rightarrow> 'm"
    and remove :: "'k \<Rightarrow> 'm \<Rightarrow> 'm"
    and invar :: "'m \<Rightarrow> bool"
  assumes invar_empty: "invar empty"
    and get_empty: "get k empty = None"
    and invar_insert: "invar m \<Longrightarrow> invar (insert k v m)"
    and get_insert: "invar m \<Longrightarrow> get j (insert k v m) = (if j = k then Some v else get j m)"
    and invar_remove: "invar m \<Longrightarrow> invar (remove k m)"
    and get_remove: "invar m \<Longrightarrow> get j (remove k m) = (if j = k then None else get j m)"
begin

text \<open>Every entry satisfies \<open>P\<close>: the shape of the invariants over a keyed collection.\<close>

definition all_entries :: "('k \<Rightarrow> 'v \<Rightarrow> bool) \<Rightarrow> 'm \<Rightarrow> bool" where
  "all_entries P m = (\<forall>k v. get k m = Some v \<longrightarrow> P k v)"

lemma all_entries_empty: "all_entries P empty"
  by (simp add: all_entries_def get_empty)

lemma all_entries_insert:
  "invar m \<Longrightarrow> all_entries P m \<Longrightarrow> P k v \<Longrightarrow> all_entries P (insert k v m)"
  by (simp add: all_entries_def get_insert)

lemma all_entries_remove: "invar m \<Longrightarrow> all_entries P m \<Longrightarrow> all_entries P (remove k m)"
  by (simp add: all_entries_def get_remove)

lemma all_entriesD: "all_entries P m \<Longrightarrow> get k m = Some v \<Longrightarrow> P k v"
  by (simp add: all_entries_def)

lemma remove_insert_get: "invar m \<Longrightarrow> get k (remove k (insert k v m)) = None"
  by (simp add: invar_insert get_remove)

lemma insert_frame: "invar m \<Longrightarrow> j \<noteq> k \<Longrightarrow> get j (insert k v m) = get j m"
  by (simp add: get_insert)

lemma remove_frame: "invar m \<Longrightarrow> j \<noteq> k \<Longrightarrow> get j (remove k m) = get j m"
  by (simp add: get_remove)

end

section \<open>Ordered entry lists\<close>

type_synonym ('k, 'v) btmap = "('k \<times> 'v) list"

definition bt_get :: "'k \<Rightarrow> ('k, 'v) btmap \<Rightarrow> 'v option" where
  "bt_get k m = map_of m k"

fun bt_insert :: "'k::linorder \<Rightarrow> 'v \<Rightarrow> ('k, 'v) btmap \<Rightarrow> ('k, 'v) btmap" where
  "bt_insert k v [] = [(k, v)]"
| "bt_insert k v ((j, w) # m) =
     (if k < j then (k, v) # (j, w) # m
      else if k = j then (k, v) # m
      else (j, w) # bt_insert k v m)"

definition bt_remove :: "'k \<Rightarrow> ('k, 'v) btmap \<Rightarrow> ('k, 'v) btmap" where
  "bt_remove k m = filter (\<lambda>e. fst e \<noteq> k) m"

definition bt_contains :: "'k \<Rightarrow> ('k, 'v) btmap \<Rightarrow> bool" where
  "bt_contains k m = (bt_get k m \<noteq> None)"

definition bt_ordered :: "('k::linorder, 'v) btmap \<Rightarrow> bool" where
  "bt_ordered m = sorted_wrt (<) (map fst m)"

definition bt_values :: "('k, 'v) btmap \<Rightarrow> 'v list" where
  "bt_values m = map snd m"

lemma bt_get_simps [simp]:
  "bt_get k [] = None" "bt_get k ((j, v) # m) = (if k = j then Some v else bt_get k m)"
  by (auto simp: bt_get_def)

lemma bt_ordered_simps [simp]:
  "bt_ordered []"
  "bt_ordered ((k, v) # m) = ((\<forall>e \<in> set m. k < fst e) \<and> bt_ordered m)"
  by (auto simp: bt_ordered_def)

lemma set_bt_insert: "fst ` set (bt_insert k v m) = insert k (fst ` set m)"
  by (induction k v m rule: bt_insert.induct) auto

lemma bt_ordered_insert: "bt_ordered m \<Longrightarrow> bt_ordered (bt_insert k v m)"
proof (induction k v m rule: bt_insert.induct)
  case (2 k v j w m)
  have "\<forall>e \<in> set (bt_insert k v m). fst e = k \<or> fst e \<in> fst ` set m"
    using set_bt_insert[of k v m] by (metis image_eqI insert_iff)
  with 2 show ?case by (fastforce simp: not_less order_less_le)
qed simp

lemma bt_get_absent: "\<forall>e \<in> set m. k \<noteq> fst e \<Longrightarrow> bt_get k m = None"
  by (force simp: bt_get_def map_of_eq_None_iff)

lemma bt_get_insert_any: "bt_get j (bt_insert k v m) = (if j = k then Some v else bt_get j m)"
  by (induction k v m rule: bt_insert.induct) auto

lemma bt_ordered_remove: "bt_ordered m \<Longrightarrow> bt_ordered (bt_remove k m)"
  by (simp add: bt_ordered_def bt_remove_def sorted_wrt_map sorted_wrt_filter)

lemma bt_get_remove_any: "bt_get j (bt_remove k m) = (if j = k then None else bt_get j m)"
  by (induction m) (auto simp: bt_remove_def)

interpretation bt: keyed_map "[]" bt_get bt_insert bt_remove bt_ordered
  by unfold_locales
    (auto simp: bt_ordered_insert bt_get_insert_any bt_ordered_remove bt_get_remove_any)

lemma bt_get_insert [simp]: "bt_get j (bt_insert k v m) = (if j = k then Some v else bt_get j m)"
  by (rule bt_get_insert_any)

lemma bt_get_remove [simp]: "bt_get j (bt_remove k m) = (if j = k then None else bt_get j m)"
  by (rule bt_get_remove_any)

lemma bt_contains_simps [simp]:
  "bt_contains j (bt_insert k v m) = (j = k \<or> bt_contains j m)"
  "bt_contains j (bt_remove k m) = (j \<noteq> k \<and> bt_contains j m)"
  by (auto simp: bt_contains_def)

lemma bt_get_in_set: "bt_get k m = Some v \<Longrightarrow> (k, v) \<in> set m"
  by (simp add: bt_get_def map_of_SomeD)

lemma bt_get_iff_mem: "bt_ordered m \<Longrightarrow> (bt_get k m = Some v) = ((k, v) \<in> set m)"
  by (induction m) (force simp: order_less_le)+

lemma set_bt_remove: "set (bt_remove k m) = {e \<in> set m. fst e \<noteq> k}"
  by (auto simp: bt_remove_def)

lemma set_bt_insert_subset: "set (bt_insert k v m) \<subseteq> insert (k, v) (set m)"
  by (induction k v m rule: bt_insert.induct) auto

lemma length_bt_remove [simp]: "length (bt_remove k m) \<le> length m"
  by (simp add: bt_remove_def)

lemma length_bt_insert:
  "bt_ordered m \<Longrightarrow>
    length (bt_insert k v m) = (if bt_contains k m then length m else Suc (length m))"
proof (induction k v m rule: bt_insert.induct)
  case (2 k v j w m)
  then show ?case
    by (auto simp: bt_contains_def intro!: bt_get_absent)
qed (simp add: bt_contains_def)

text \<open>A map is determined by its lookups: \<open>PartialEq\<close> on maps is extensional.\<close>

lemma bt_ordered_distinct: "bt_ordered m \<Longrightarrow> distinct (map fst m)"
  by (simp add: bt_ordered_def strict_sorted_iff)

lemma bt_ext:
  assumes "bt_ordered m" "bt_ordered n" "\<And>k. bt_get k m = bt_get k n"
  shows "m = n"
proof -
  have "map_of m = map_of n" using assms(3) by (auto simp: bt_get_def)
  then have "set m = set n"
    using assms(1,2) by (metis bt_ordered_distinct map_of_inject_set)
  moreover have "inj_on fst (set m)"
    using assms(1) by (metis bt_ordered_distinct distinct_map)
  ultimately show ?thesis
    using assms(1,2) map_sorted_distinct_set_unique[of fst m n]
    by (simp add: bt_ordered_def strict_sorted_iff)
qed

end
