(* ===== verification/Ids.thy ===== *)
theory Ids
  imports Crates Ordered_Map
begin

text \<open>
  Public identities (\<open>crates/sandbox-protocol/src/ids.rs\<close>): a resource prefix, an underscore
  and a canonical lowercase UUIDv7. \<open>define_id!\<close> makes six newtypes of a \<open>Uuid\<close>; each is a
  datatype here, with its \<open>Display\<close> (\<open>show_\<dots>\<close>) and \<open>FromStr\<close> (\<open>parse_\<dots>\<close>). The locale
  \<open>prefixed_id\<close> is the contract of the macro: its laws are proved once and interpreted for
  the six types. A \<open>Uuid\<close> is its 128 bits (\<open>Uuid::as_u128\<close>); its derived order on the
  sixteen big-endian bytes is the order of the numbers.
\<close>

section \<open>Parsing\<close>

datatype id_parse_error =
    WrongPrefix string string
  | MissingSeparator
  | MalformedUuid string
  | WrongUuidVersion nat

definition parse_prefixed :: "crates \<Rightarrow> string \<Rightarrow> string \<Rightarrow> id_parse_error + uuid" where
  "parse_prefixed C s expected =
     (case split_once (CHR ''_'') s of
        None \<Rightarrow> Inl MissingSeparator
      | Some (prefix, rest) \<Rightarrow>
          if prefix \<noteq> expected then Inl (WrongPrefix expected prefix)
          else (case uuid_try_parse C rest of
                  None \<Rightarrow> Inl (MalformedUuid rest)
                | Some u \<Rightarrow>
                    if uuid_hyphenated C u \<noteq> rest then Inl (MalformedUuid rest)
                    else if uuid_version C u \<noteq> 7 then Inl (WrongUuidVersion (uuid_version C u))
                    else Inr u))"

definition display_prefixed :: "crates \<Rightarrow> string \<Rightarrow> uuid \<Rightarrow> string" where
  "display_prefixed C prefix u = prefix @ ''_'' @ uuid_hyphenated C u"

definition map_ok :: "('a \<Rightarrow> 'b) \<Rightarrow> 'e + 'a \<Rightarrow> 'e + 'b" where
  "map_ok f r = (case r of Inl e \<Rightarrow> Inl e | Inr a \<Rightarrow> Inr (f a))"

lemma map_ok_simps [simp]: "map_ok f (Inl e) = Inl e" "map_ok f (Inr a) = Inr (f a)"
  by (simp_all add: map_ok_def)

lemma map_ok_Inr [simp, result_simps]: "(map_ok f r = Inr b) = (\<exists>a. r = Inr a \<and> b = f a)"
  by (cases r) auto

lemma parse_prefixed_Inr:
  "parse_prefixed C s p = Inr u \<Longrightarrow>
    s = p @ ''_'' @ uuid_hyphenated C u \<and> uuid_version C u = 7"
  by (auto simp: parse_prefixed_def split: option.splits prod.splits if_splits
      dest!: split_once_Some)

lemma parse_display:
  assumes "uuid_laws C" "uuid_version C u = 7" "CHR ''_'' \<notin> set p"
  shows "parse_prefixed C (display_prefixed C p u) p = Inr u"
  using assms by (simp add: parse_prefixed_def display_prefixed_def uuid_lawsD(1))

lemma parse_wrong_prefix:
  assumes "CHR ''_'' \<notin> set q" "q \<noteq> p"
  shows "parse_prefixed C (q @ ''_'' @ r) p = Inl (WrongPrefix p q)"
  using assms by (simp add: parse_prefixed_def)

section \<open>The six identities\<close>

datatype project_id = ProjectId (project_uuid: uuid)
datatype sandbox_id = SandboxId (sandbox_uuid: uuid)
datatype operation_id = OperationId (operation_uuid: uuid)
datatype snapshot_id = SnapshotId (snapshot_uuid: uuid)
datatype allocation_id = AllocationId (allocation_uuid: uuid)
datatype host_id = HostId (host_uuid: uuid)

definition show_project :: "crates \<Rightarrow> project_id \<Rightarrow> string" where
  "show_project C i = display_prefixed C ''prj'' (project_uuid i)"
definition show_sandbox :: "crates \<Rightarrow> sandbox_id \<Rightarrow> string" where
  "show_sandbox C i = display_prefixed C ''sbx'' (sandbox_uuid i)"
definition show_operation :: "crates \<Rightarrow> operation_id \<Rightarrow> string" where
  "show_operation C i = display_prefixed C ''op'' (operation_uuid i)"
definition show_snapshot :: "crates \<Rightarrow> snapshot_id \<Rightarrow> string" where
  "show_snapshot C i = display_prefixed C ''snp'' (snapshot_uuid i)"
definition show_allocation :: "crates \<Rightarrow> allocation_id \<Rightarrow> string" where
  "show_allocation C i = display_prefixed C ''alc'' (allocation_uuid i)"
definition show_host :: "crates \<Rightarrow> host_id \<Rightarrow> string" where
  "show_host C i = display_prefixed C ''hst'' (host_uuid i)"

definition parse_project :: "crates \<Rightarrow> string \<Rightarrow> id_parse_error + project_id" where
  "parse_project C s = map_ok ProjectId (parse_prefixed C s ''prj'')"
definition parse_sandbox :: "crates \<Rightarrow> string \<Rightarrow> id_parse_error + sandbox_id" where
  "parse_sandbox C s = map_ok SandboxId (parse_prefixed C s ''sbx'')"
definition parse_operation :: "crates \<Rightarrow> string \<Rightarrow> id_parse_error + operation_id" where
  "parse_operation C s = map_ok OperationId (parse_prefixed C s ''op'')"
definition parse_snapshot :: "crates \<Rightarrow> string \<Rightarrow> id_parse_error + snapshot_id" where
  "parse_snapshot C s = map_ok SnapshotId (parse_prefixed C s ''snp'')"
definition parse_allocation :: "crates \<Rightarrow> string \<Rightarrow> id_parse_error + allocation_id" where
  "parse_allocation C s = map_ok AllocationId (parse_prefixed C s ''alc'')"
definition parse_host :: "crates \<Rightarrow> string \<Rightarrow> id_parse_error + host_id" where
  "parse_host C s = map_ok HostId (parse_prefixed C s ''hst'')"

section \<open>The contract of \<open>define_id!\<close>\<close>

locale prefixed_id =
  fixes mk :: "uuid \<Rightarrow> 'i" and un :: "'i \<Rightarrow> uuid" and pre :: string
    and show_id :: "crates \<Rightarrow> 'i \<Rightarrow> string"
    and parse_id :: "crates \<Rightarrow> string \<Rightarrow> id_parse_error + 'i"
  assumes mk_un: "mk (un i) = i" and un_mk: "un (mk u) = u"
    and pre_no_sep: "CHR ''_'' \<notin> set pre"
    and show_id: "show_id C i = display_prefixed C pre (un i)"
    and parse_id: "parse_id C s = map_ok mk (parse_prefixed C s pre)"
begin

lemma parse_show:
  "uuid_laws C \<Longrightarrow> uuid_version C (un i) = 7 \<Longrightarrow> parse_id C (show_id C i) = Inr i"
  by (simp add: show_id parse_id parse_display pre_no_sep mk_un)

lemma show_parse: "parse_id C s = Inr i \<Longrightarrow> show_id C i = s \<and> uuid_version C (un i) = 7"
  by (auto simp: show_id parse_id display_prefixed_def un_mk dest!: parse_prefixed_Inr)

lemma show_inj: "uuid_laws C \<Longrightarrow> (show_id C i = show_id C j) = (i = j)"
  by (metis show_id display_prefixed_def uuid_hyphenated_inj append_same_eq same_append_eq mk_un)

lemma parse_inj: "parse_id C s = Inr i \<Longrightarrow> parse_id C t = Inr i \<Longrightarrow> s = t"
  by (metis show_parse)

lemma other_prefix:
  "CHR ''_'' \<notin> set q \<Longrightarrow> q \<noteq> pre \<Longrightarrow> parse_id C (display_prefixed C q u) = Inl (WrongPrefix pre q)"
  by (simp add: parse_id display_prefixed_def parse_prefixed_def)

lemma no_separator: "CHR ''_'' \<notin> set s \<Longrightarrow> parse_id C s = Inl MissingSeparator"
  using split_once_Some[of "CHR ''_''" s]
  by (auto simp: parse_id parse_prefixed_def split: option.splits)

end

interpretation project: prefixed_id ProjectId project_uuid "''prj''" show_project parse_project
  by unfold_locales (simp_all add: show_project_def parse_project_def)
interpretation sandbox: prefixed_id SandboxId sandbox_uuid "''sbx''" show_sandbox parse_sandbox
  by unfold_locales (simp_all add: show_sandbox_def parse_sandbox_def)
interpretation operation: prefixed_id OperationId operation_uuid "''op''" show_operation parse_operation
  by unfold_locales (simp_all add: show_operation_def parse_operation_def)
interpretation snapshot: prefixed_id SnapshotId snapshot_uuid "''snp''" show_snapshot parse_snapshot
  by unfold_locales (simp_all add: show_snapshot_def parse_snapshot_def)
interpretation allocation: prefixed_id AllocationId allocation_uuid "''alc''" show_allocation parse_allocation
  by unfold_locales (simp_all add: show_allocation_def parse_allocation_def)
interpretation host: prefixed_id HostId host_uuid "''hst''" show_host parse_host
  by unfold_locales (simp_all add: show_host_def parse_host_def)

lemma show_id_no_slash:
  assumes "uuid_laws C"
  shows "CHR ''/'' \<notin> set (show_project C a)" "CHR ''/'' \<notin> set (show_sandbox C b)"
    "CHR ''/'' \<notin> set (show_operation C c)" "CHR ''/'' \<notin> set (show_allocation C d)"
    "CHR ''/'' \<notin> set (show_host C e)"
  using uuid_hyphenated_no_sep[OF assms]
  by (simp_all add: show_project_def show_sandbox_def show_operation_def show_allocation_def
      show_host_def display_prefixed_def)

lemmas id_roundtrips =
  project.parse_show sandbox.parse_show operation.parse_show snapshot.parse_show
  allocation.parse_show host.parse_show

text \<open>\<open>#[derive(PartialOrd, Ord)]\<close> on \<open>OperationId\<close>: the order of the underlying UUID.\<close>

instantiation operation_id :: linorder
begin

definition less_eq_operation_id :: "operation_id \<Rightarrow> operation_id \<Rightarrow> bool" where
  "less_eq_operation_id a b = (operation_uuid a \<le> operation_uuid b)"

definition less_operation_id :: "operation_id \<Rightarrow> operation_id \<Rightarrow> bool" where
  "less_operation_id a b = (operation_uuid a < operation_uuid b)"

instance
  by standard (auto simp: less_eq_operation_id_def less_operation_id_def intro: operation_id.expand)

end

end
