(* ===== verification/Allocation_Scope.thy ===== *)
theory Allocation_Scope
  imports Ids
begin

text \<open>
  The identity of one allocation and the frozen scope of its retirement: \<open>Permit\<close>
  (\<open>allocation_authority.rs\<close>), \<open>Intent\<close>, \<open>Request\<close> and \<open>ForgetRequest\<close>
  (\<open>allocation_retirement.rs\<close> of \<open>crates/sandbox-protocol/src\<close>). The locale
  \<open>bounded_codec\<close> is the contract the three stored messages share: encoding and decoding
  check the same shape and the same size bound.
\<close>

section \<open>Permits\<close>

datatype auth_error =
    AuthInvalid | AuthOwnership | AuthCapacity | AuthRegistrationOrder
  | AuthClosed | AuthUnregistered | AuthConflict

definition max_serial :: nat where "max_serial = 2 ^ 63 - 1"

record permit =
  permit_host :: host_id
  permit_project :: project_id
  permit_sandbox :: sandbox_id
  permit_allocation :: allocation_id
  permit_create_operation :: operation_id
  permit_generation :: int
  permit_original_epoch :: int
  permit_serial :: nat

definition valid_uuid :: "crates \<Rightarrow> uuid \<Rightarrow> auth_error + unit" where
  "valid_uuid C u =
     (if uuid_version C u \<noteq> 7 \<or> \<not> uuid_rfc4122 C u then Inl AuthInvalid else Inr ())"

definition permit_validate :: "crates \<Rightarrow> permit \<Rightarrow> auth_error + unit" where
  "permit_validate C p =
     rbind (try_all (valid_uuid C)
       [host_uuid (permit_host p), project_uuid (permit_project p), sandbox_uuid (permit_sandbox p),
        allocation_uuid (permit_allocation p), operation_uuid (permit_create_operation p)]) (\<lambda>_.
     if permit_generation p \<le> 0 \<or> permit_original_epoch p \<le> 0 \<or> permit_serial p = 0 \<or>
        max_serial < permit_serial p
     then Inl AuthInvalid else Inr ())"

lemma valid_uuid_Inr [simp]:
  "(valid_uuid C u = Inr x) = (uuid_version C u = 7 \<and> uuid_rfc4122 C u)"
  by (simp add: valid_uuid_def)

text \<open>The shape of a permit, as a predicate.\<close>

definition permit_ok :: "crates \<Rightarrow> permit \<Rightarrow> bool" where
  "permit_ok C p = (permit_validate C p = Inr ())"

lemma permit_ok_iff:
  "permit_ok C p \<longleftrightarrow>
     (\<forall>u \<in> {host_uuid (permit_host p), project_uuid (permit_project p), sandbox_uuid (permit_sandbox p),
        allocation_uuid (permit_allocation p), operation_uuid (permit_create_operation p)}.
        uuid_version C u = 7 \<and> uuid_rfc4122 C u) \<and>
     0 < permit_generation p \<and> 0 < permit_original_epoch p \<and> 0 < permit_serial p \<and>
     permit_serial p \<le> max_serial"
  by (auto simp: permit_ok_def permit_validate_def split: if_splits)

lemma permit_validate_Inr [simp]: "(permit_validate C p = Inr u) = permit_ok C p"
  by (simp add: permit_ok_def)

lemma permit_validate_Inl: "permit_validate C p = Inl e \<Longrightarrow> e = AuthInvalid"
  by (auto simp: permit_validate_def valid_uuid_def rbind_Inl split: if_splits)

section \<open>Retirement scope\<close>

datatype retire_error = RetireInvalid | RetireScope | RetireClaim

definition retire_max_bytes :: nat where "retire_max_bytes = 8192"

datatype domain_closure = EmptyClosure | RetiredThrough operation_id

record intent =
  intent_version :: nat
  intent_retirement :: operation_id
  intent_permit :: permit
  intent_commands :: domain_closure
  intent_files :: domain_closure
  intent_release_evidence :: string
  intent_simulated :: bool

definition valid_id :: "crates \<Rightarrow> operation_id \<Rightarrow> bool" where
  "valid_id C i = (uuid_version C (operation_uuid i) = 7 \<and> uuid_rfc4122 C (operation_uuid i))"

definition closure_check :: "crates \<Rightarrow> intent \<Rightarrow> domain_closure \<Rightarrow> retire_error + unit" where
  "closure_check C i d =
     (case d of
        EmptyClosure \<Rightarrow> Inr ()
      | RetiredThrough through \<Rightarrow>
          if \<not> valid_id C through \<or> through = intent_retirement i \<or>
             through = permit_create_operation (intent_permit i)
          then Inl RetireInvalid else Inr ())"

definition intent_validate :: "crates \<Rightarrow> intent \<Rightarrow> retire_error + unit" where
  "intent_validate C i =
     (if intent_version i \<noteq> 1 \<or> \<not> valid_id C (intent_retirement i) \<or>
         intent_retirement i = permit_create_operation (intent_permit i) \<or>
         \<not> is_ok (permit_validate C (intent_permit i)) \<or>
         length (intent_release_evidence i) \<noteq> 64 \<or>
         \<not> list_all lower_hex (intent_release_evidence i)
      then Inl RetireInvalid
      else try_all (closure_check C i) [intent_commands i, intent_files i])"

definition intent_encode :: "crates \<Rightarrow> intent json \<Rightarrow> intent \<Rightarrow> retire_error + bytes" where
  "intent_encode C J i =
     rbind (intent_validate C i) (\<lambda>_.
     rbind (ok_or RetireInvalid (to_vec J i)) (\<lambda>b.
     if retire_max_bytes < length b then Inl RetireInvalid else Inr b))"

definition intent_decode :: "crates \<Rightarrow> intent json \<Rightarrow> bytes \<Rightarrow> retire_error + intent" where
  "intent_decode C J b =
     (if retire_max_bytes < length b then Inl RetireInvalid
      else rbind (ok_or RetireInvalid (from_slice J b)) (\<lambda>i.
           rbind (intent_validate C i) (\<lambda>_. Inr i)))"

definition intent_digest :: "crates \<Rightarrow> intent json \<Rightarrow> intent \<Rightarrow> retire_error + bytes" where
  "intent_digest C J i = rbind (intent_encode C J i) (\<lambda>b. Inr (sha256 C b))"

section \<open>Delivery envelopes\<close>

record retire_request =
  req_intent :: intent
  req_reporting_epoch :: int
  req_revision :: int
  req_expires_unix_ms :: int

definition request_validate ::
    "crates \<Rightarrow> retire_request \<Rightarrow> intent \<Rightarrow> int \<Rightarrow> int \<Rightarrow> int \<Rightarrow> retire_error + unit" where
  "request_validate C r retained current_epoch minimum_revision now =
     rbind (intent_validate C (req_intent r)) (\<lambda>_.
     rbind (intent_validate C retained) (\<lambda>_.
     if req_intent r \<noteq> retained then Inl RetireScope
     else if minimum_revision \<le> 0 \<or> req_revision r < minimum_revision \<or> now \<le> 0 \<or>
             req_expires_unix_ms r \<le> now \<or>
             req_reporting_epoch r < permit_original_epoch (intent_permit (req_intent r)) \<or>
             req_reporting_epoch r \<noteq> current_epoch
     then Inl RetireClaim else Inr ()))"

definition request_encode ::
    "crates \<Rightarrow> retire_request json \<Rightarrow> retire_request \<Rightarrow> retire_error + bytes" where
  "request_encode C J r =
     rbind (intent_validate C (req_intent r)) (\<lambda>_.
     rbind (ok_or RetireInvalid (to_vec J r)) (\<lambda>b.
     if retire_max_bytes < length b then Inl RetireInvalid else Inr b))"

definition request_decode ::
    "crates \<Rightarrow> retire_request json \<Rightarrow> bytes \<Rightarrow> retire_error + retire_request" where
  "request_decode C J b =
     (if retire_max_bytes < length b then Inl RetireInvalid
      else rbind (ok_or RetireInvalid (from_slice J b)) (\<lambda>r.
           rbind (intent_validate C (req_intent r)) (\<lambda>_. Inr r)))"

record forget_request =
  forget_version :: nat
  forget_claim :: retire_request
  forget_metadata :: retire_request

definition forget_shape :: "crates \<Rightarrow> forget_request \<Rightarrow> retire_error + unit" where
  "forget_shape C f =
     rbind (intent_validate C (req_intent (forget_claim f))) (\<lambda>_.
     rbind (intent_validate C (req_intent (forget_metadata f))) (\<lambda>_.
     if forget_version f \<noteq> 1 \<or> intent_simulated (req_intent (forget_claim f)) \<or>
        req_intent (forget_claim f) \<noteq> req_intent (forget_metadata f) \<or>
        req_revision (forget_metadata f) \<le> 0 \<or> req_expires_unix_ms (forget_metadata f) \<le> 0 \<or>
        req_reporting_epoch (forget_metadata f)
          < permit_original_epoch (intent_permit (req_intent (forget_claim f))) \<or>
        req_reporting_epoch (forget_claim f) < req_reporting_epoch (forget_metadata f) \<or>
        req_revision (forget_claim f) \<le> 0 \<or> req_expires_unix_ms (forget_claim f) \<le> 0
     then Inl RetireInvalid else Inr ()))"

definition forget_validate :: "crates \<Rightarrow> forget_request \<Rightarrow> int \<Rightarrow> int \<Rightarrow> retire_error + unit" where
  "forget_validate C f epoch now =
     rbind (forget_shape C f) (\<lambda>_.
     request_validate C (forget_claim f) (req_intent (forget_metadata f)) epoch 1 now)"

definition forget_encode ::
    "crates \<Rightarrow> forget_request json \<Rightarrow> forget_request \<Rightarrow> retire_error + bytes" where
  "forget_encode C J f =
     rbind (forget_shape C f) (\<lambda>_.
     rbind (ok_or RetireInvalid (to_vec J f)) (\<lambda>b.
     if retire_max_bytes < length b then Inl RetireInvalid else Inr b))"

definition forget_decode ::
    "crates \<Rightarrow> forget_request json \<Rightarrow> bytes \<Rightarrow> retire_error + forget_request" where
  "forget_decode C J b =
     (if retire_max_bytes < length b then Inl RetireInvalid
      else rbind (ok_or RetireInvalid (from_slice J b)) (\<lambda>f.
           rbind (forget_shape C f) (\<lambda>_. Inr f)))"

section \<open>The contract of a bounded message\<close>

locale bounded_codec =
  fixes encode :: "crates \<Rightarrow> 'a json \<Rightarrow> 'a \<Rightarrow> 'e + bytes"
    and decode :: "crates \<Rightarrow> 'a json \<Rightarrow> bytes \<Rightarrow> 'e + 'a"
    and valid :: "crates \<Rightarrow> 'a \<Rightarrow> bool"
    and bound :: nat
  assumes encode_iff:
      "encode C J x = Inr b \<longleftrightarrow> valid C x \<and> to_vec J x = Some b \<and> length b \<le> bound"
    and decode_iff:
      "decode C J b = Inr x \<longleftrightarrow> length b \<le> bound \<and> from_slice J b = Some x \<and> valid C x"
begin

lemma roundtrip: "json_faithful J \<Longrightarrow> encode C J x = Inr b \<Longrightarrow> decode C J b = Inr x"
  by (auto simp: encode_iff decode_iff dest: json_faithfulD)

lemma encode_inj:
  "json_faithful J \<Longrightarrow> encode C J x = Inr b \<Longrightarrow> encode C J y = Inr b \<Longrightarrow> x = y"
  by (metis roundtrip Inr_inject)

lemma decode_valid: "decode C J b = Inr x \<Longrightarrow> valid C x \<and> length b \<le> bound"
  by (simp add: decode_iff)

end

interpretation intent: bounded_codec intent_encode intent_decode
    "\<lambda>C i. intent_validate C i = Inr ()" retire_max_bytes
  by unfold_locales (auto simp: intent_encode_def intent_decode_def)

interpretation request: bounded_codec request_encode request_decode
    "\<lambda>C r. intent_validate C (req_intent r) = Inr ()" retire_max_bytes
  by unfold_locales (auto simp: request_encode_def request_decode_def)

interpretation forget: bounded_codec forget_encode forget_decode
    "\<lambda>C f. forget_shape C f = Inr ()" retire_max_bytes
  by unfold_locales (auto simp: forget_encode_def forget_decode_def)

lemma intent_valid_iff:
  "intent_validate C i = Inr u \<longleftrightarrow>
     intent_version i = 1 \<and> valid_id C (intent_retirement i) \<and>
     intent_retirement i \<noteq> permit_create_operation (intent_permit i) \<and>
     permit_ok C (intent_permit i) \<and>
     length (intent_release_evidence i) = 64 \<and> list_all lower_hex (intent_release_evidence i) \<and>
     closure_check C i (intent_commands i) = Inr () \<and> closure_check C i (intent_files i) = Inr ()"
  by (auto simp: intent_validate_def is_ok_iff)

lemma request_valid_iff:
  "request_validate C r retained epoch minrev now = Inr u \<longleftrightarrow>
     intent_validate C retained = Inr () \<and> req_intent r = retained \<and> 0 < minrev \<and>
     minrev \<le> req_revision r \<and> 0 < now \<and> now < req_expires_unix_ms r \<and>
     permit_original_epoch (intent_permit retained) \<le> epoch \<and> req_reporting_epoch r = epoch"
  by (auto simp: request_validate_def split: if_splits)

lemma forget_valid_iff:
  "forget_validate C f epoch now = Inr u \<longleftrightarrow>
     forget_shape C f = Inr () \<and> req_reporting_epoch (forget_claim f) = epoch \<and>
     0 < now \<and> now < req_expires_unix_ms (forget_claim f)"
  by (auto simp: forget_validate_def request_valid_iff forget_shape_def split: if_splits)

end
