(* ===== verification/Authority.thy ===== *)
theory Authority
  imports Allocation_Scope
begin

text \<open>
  The allocation authority (\<open>crates/sandbox-protocol/src/allocation_authority.rs\<close>): a ledger
  of registered owners, in the order of their serials, above a high-water mark. Every
  operation is all or nothing: it returns the new ledger, or an error and the ledger stays.

  \<open>ledger_ok\<close> is the shape \<open>decode\<close> accepts; every operation keeps it. What a client of the
  ledger relies on (a fence is irrevocable, a closed serial is never admissible again) is the
  locale \<open>irrevocable_denial\<close>, interpreted on runs of operations in \<open>Authority_Runs\<close>.
\<close>

section \<open>State\<close>

definition max_entries :: nat where "max_entries = 1024"
definition max_batch :: nat where "max_batch = 32"
definition authority_max_bytes :: nat where "authority_max_bytes = 1024 * 1024"

datatype owner_state =
    Active
  | Fenced operation_id
  | Complete operation_id bytes

record entry =
  entry_permit :: permit
  entry_state :: owner_state

record ledger =
  ledger_version :: nat
  ledger_host :: host_id
  ledger_through :: nat
  ledger_entries :: "entry list"

section \<open>Operations\<close>

definition ledger_new :: "crates \<Rightarrow> host_id \<Rightarrow> auth_error + ledger" where
  "ledger_new C h =
     rbind (valid_uuid C (host_uuid h)) (\<lambda>_.
     Inr \<lparr>ledger_version = 1, ledger_host = h, ledger_through = 0, ledger_entries = []\<rparr>)"

definition ledger_retained :: "ledger \<Rightarrow> nat" where
  "ledger_retained l = length (ledger_entries l)"

definition ledger_encode :: "ledger json \<Rightarrow> ledger \<Rightarrow> auth_error + bytes" where
  "ledger_encode J l =
     rbind (ok_or AuthInvalid (to_vec J l)) (\<lambda>b.
     if authority_max_bytes < length b then Inl AuthCapacity else Inr b)"

text \<open>The accumulators of the loop of \<open>decode\<close>: the last serial and the three sets.\<close>

record scan =
  scan_previous :: nat
  scan_allocations :: "allocation_id list"
  scan_operations :: "operation_id list"
  scan_generations :: "(sandbox_id \<times> int) list"

definition scan_entry :: "crates \<Rightarrow> host_id \<Rightarrow> nat \<Rightarrow> scan \<Rightarrow> entry \<Rightarrow> auth_error + scan" where
  "scan_entry C host through s e =
     (let p = entry_permit e in
      rbind (permit_validate C p) (\<lambda>_.
      if permit_host p \<noteq> host then Inl AuthOwnership
      else if permit_serial p \<le> scan_previous s \<or> through < permit_serial p \<or>
              permit_allocation p \<in> set (scan_allocations s) \<or>
              permit_create_operation p \<in> set (scan_operations s) \<or>
              (permit_sandbox p, permit_generation p) \<in> set (scan_generations s)
      then Inl AuthInvalid
      else rbind (case entry_state e of
                    Active \<Rightarrow> Inr ()
                  | Fenced r \<Rightarrow> valid_uuid C (operation_uuid r)
                  | Complete r _ \<Rightarrow> valid_uuid C (operation_uuid r)) (\<lambda>_.
           Inr \<lparr>scan_previous = permit_serial p,
                scan_allocations = permit_allocation p # scan_allocations s,
                scan_operations = permit_create_operation p # scan_operations s,
                scan_generations = (permit_sandbox p, permit_generation p) # scan_generations s\<rparr>)))"

definition scan_start :: scan where
  "scan_start = \<lparr>scan_previous = 0, scan_allocations = [], scan_operations = [], scan_generations = []\<rparr>"

definition ledger_decode ::
    "crates \<Rightarrow> ledger json \<Rightarrow> bytes \<Rightarrow> host_id \<Rightarrow> nat \<Rightarrow> auth_error + ledger" where
  "ledger_decode C J b host minimum_through =
     (if authority_max_bytes < length b then Inl AuthCapacity
      else rbind (ok_or AuthInvalid (from_slice J b)) (\<lambda>l.
        rbind (valid_uuid C (host_uuid host)) (\<lambda>_.
        if ledger_version l \<noteq> 1 \<or> max_serial < ledger_through l \<or>
           ledger_through l < minimum_through \<or> max_entries < length (ledger_entries l)
        then Inl AuthInvalid
        else if ledger_host l \<noteq> host then Inl AuthOwnership
        else rbind (try_fold (scan_entry C host (ledger_through l)) scan_start (ledger_entries l))
          (\<lambda>_. Inr l))))"

text \<open>
  \<open>slice::binary_search_by_key\<close>: \<open>Some i\<close> is \<open>Ok(i)\<close>. The interval \<open>[lo, lo + n)\<close> halves
  at each turn.
\<close>

function search_serial :: "entry list \<Rightarrow> nat \<Rightarrow> nat \<Rightarrow> nat \<Rightarrow> nat option" where
  "search_serial es k lo n =
     (if n = 0 then None
      else let mid = lo + n div 2; s = permit_serial (entry_permit (es ! mid)) in
        if s = k then Some mid
        else if s < k then search_serial es k (Suc mid) (n - n div 2 - 1)
        else search_serial es k lo (n div 2))"
  by pat_completeness auto
termination
  by (relation "measure (\<lambda>(es, k, lo, n). n)") auto

declare search_serial.simps [simp del]

definition ledger_index :: "crates \<Rightarrow> ledger \<Rightarrow> permit \<Rightarrow> auth_error + nat" where
  "ledger_index C l p =
     rbind (permit_validate C p) (\<lambda>_.
     if permit_host p \<noteq> ledger_host l then Inl AuthOwnership
     else (case search_serial (ledger_entries l) (permit_serial p) 0 (length (ledger_entries l)) of
             Some i \<Rightarrow>
               if entry_permit (ledger_entries l ! i) = p then Inr i else Inl AuthOwnership
           | None \<Rightarrow>
               if permit_serial p \<le> ledger_through l then Inl AuthClosed else Inl AuthUnregistered))"

definition ledger_state :: "crates \<Rightarrow> ledger \<Rightarrow> permit \<Rightarrow> auth_error + owner_state" where
  "ledger_state C l p =
     rbind (ledger_index C l p) (\<lambda>i. Inr (entry_state (ledger_entries l ! i)))"

definition batch_check ::
    "crates \<Rightarrow> host_id \<Rightarrow> nat option \<Rightarrow> permit \<Rightarrow> auth_error + nat option" where
  "batch_check C host previous p =
     rbind (permit_validate C p) (\<lambda>_.
     if permit_host p \<noteq> host then Inl AuthOwnership
     else if (case previous of None \<Rightarrow> False | Some n \<Rightarrow> checked_add_u64 n 1 \<noteq> Some (permit_serial p))
     then Inl AuthRegistrationOrder
     else Inr (Some (permit_serial p)))"

definition push_active :: "ledger \<Rightarrow> permit \<Rightarrow> ledger" where
  "push_active l p =
     l\<lparr>ledger_entries := ledger_entries l @ [\<lparr>entry_permit = p, entry_state = Active\<rparr>],
       ledger_through := permit_serial p\<rparr>"

definition ledger_register ::
    "crates \<Rightarrow> ledger json \<Rightarrow> ledger \<Rightarrow> permit list \<Rightarrow> auth_error + ledger" where
  "ledger_register C J l ps =
     (case ps of
        [] \<Rightarrow> Inl AuthInvalid
      | first # _ \<Rightarrow>
        if max_batch < length ps then Inl AuthInvalid
        else rbind (try_fold (batch_check C (ledger_host l)) None ps) (\<lambda>_.
          if permit_serial first \<le> ledger_through l
          then rbind (try_all (\<lambda>p. rbind (ledger_state C l p) (\<lambda>_. Inr ())) ps) (\<lambda>_. Inr l)
          else if checked_add_u64 (ledger_through l) 1 \<noteq> Some (permit_serial first)
          then Inl AuthRegistrationOrder
          else if max_entries < length (ledger_entries l) + length ps then Inl AuthCapacity
          else let next = foldl push_active l ps in
            rbind (ledger_encode J next) (\<lambda>b.
            rbind (ledger_decode C J b (ledger_host l) (ledger_through l)) (\<lambda>_.
            Inr next))))"

definition ledger_active_allocation :: "crates \<Rightarrow> ledger \<Rightarrow> allocation_id \<Rightarrow> auth_error + permit" where
  "ledger_active_allocation C l a =
     rbind (valid_uuid C (allocation_uuid a)) (\<lambda>_.
     rbind (ok_or AuthOwnership
       (find (\<lambda>e. permit_allocation (entry_permit e) = a) (ledger_entries l))) (\<lambda>e.
     if entry_state e \<noteq> Active then Inl AuthConflict else Inr (entry_permit e)))"

definition ledger_authorize :: "crates \<Rightarrow> ledger \<Rightarrow> permit \<Rightarrow> auth_error + unit" where
  "ledger_authorize C l p =
     rbind (ledger_state C l p) (\<lambda>s. case s of Active \<Rightarrow> Inr () | _ \<Rightarrow> Inl AuthConflict)"

definition set_state :: "ledger \<Rightarrow> nat \<Rightarrow> owner_state \<Rightarrow> ledger" where
  "set_state l i s =
     l\<lparr>ledger_entries := (ledger_entries l)[i := (ledger_entries l ! i)\<lparr>entry_state := s\<rparr>]\<rparr>"

definition ledger_fence ::
    "crates \<Rightarrow> ledger \<Rightarrow> permit \<Rightarrow> operation_id \<Rightarrow> auth_error + ledger" where
  "ledger_fence C l p retirement =
     rbind (valid_uuid C (operation_uuid retirement)) (\<lambda>_.
     rbind (ledger_index C l p) (\<lambda>i.
     case entry_state (ledger_entries l ! i) of
       Active \<Rightarrow> Inr (set_state l i (Fenced retirement))
     | Fenced r \<Rightarrow> if r = retirement then Inr l else Inl AuthConflict
     | Complete r _ \<Rightarrow> if r = retirement then Inr l else Inl AuthConflict))"

definition completion_state :: "crates \<Rightarrow> intent json \<Rightarrow> intent \<Rightarrow> auth_error + owner_state" where
  "completion_state C K i =
     rbind (map_err (\<lambda>_. AuthInvalid) (intent_digest C K i)) (\<lambda>d.
     if intent_simulated i then Inl AuthInvalid else Inr (Complete (intent_retirement i) d))"

definition ledger_complete :: "crates \<Rightarrow> intent json \<Rightarrow> ledger \<Rightarrow> intent \<Rightarrow> auth_error + ledger" where
  "ledger_complete C K l i =
     rbind (completion_state C K i) (\<lambda>complete.
     rbind (ledger_index C l (intent_permit i)) (\<lambda>n.
     let retained = entry_state (ledger_entries l ! n) in
     if retained = Fenced (intent_retirement i) then Inr (set_state l n complete)
     else if retained = complete then Inr l
     else Inl AuthConflict))"

definition ledger_completed :: "crates \<Rightarrow> intent json \<Rightarrow> ledger \<Rightarrow> intent \<Rightarrow> auth_error + unit" where
  "ledger_completed C K l i =
     rbind (completion_state C K i) (\<lambda>expected.
     rbind (ledger_state C l (intent_permit i)) (\<lambda>s.
     if s \<noteq> expected then Inl AuthConflict else Inr ()))"

definition remove_nth :: "nat \<Rightarrow> 'a list \<Rightarrow> 'a list" where
  "remove_nth i xs = take i xs @ drop (Suc i) xs"

definition ledger_forget :: "crates \<Rightarrow> intent json \<Rightarrow> ledger \<Rightarrow> intent \<Rightarrow> auth_error + ledger" where
  "ledger_forget C K l i =
     rbind (ledger_completed C K l i) (\<lambda>_.
     rbind (ledger_index C l (intent_permit i)) (\<lambda>n.
     Inr (l\<lparr>ledger_entries := remove_nth n (ledger_entries l)\<rparr>)))"

section \<open>Well-formed ledgers\<close>

definition serials :: "entry list \<Rightarrow> nat list" where
  "serials es = map (\<lambda>e. permit_serial (entry_permit e)) es"

definition entry_ok :: "crates \<Rightarrow> host_id \<Rightarrow> entry \<Rightarrow> bool" where
  "entry_ok C h e =
     (permit_ok C (entry_permit e) \<and> permit_host (entry_permit e) = h \<and>
      (case entry_state e of
         Active \<Rightarrow> True
       | Fenced r \<Rightarrow> valid_id C r
       | Complete r _ \<Rightarrow> valid_id C r))"

definition entries_ok :: "crates \<Rightarrow> host_id \<Rightarrow> nat \<Rightarrow> entry list \<Rightarrow> bool" where
  "entries_ok C h through es =
     (sorted_wrt (<) (serials es) \<and> (\<forall>s \<in> set (serials es). s \<le> through) \<and>
      distinct (map (permit_allocation \<circ> entry_permit) es) \<and>
      distinct (map (permit_create_operation \<circ> entry_permit) es) \<and>
      distinct (map (\<lambda>e. (permit_sandbox (entry_permit e), permit_generation (entry_permit e))) es) \<and>
      (\<forall>e \<in> set es. entry_ok C h e))"

definition ledger_ok :: "crates \<Rightarrow> ledger \<Rightarrow> bool" where
  "ledger_ok C l =
     (ledger_version l = 1 \<and> uuid_version C (host_uuid (ledger_host l)) = 7 \<and>
      uuid_rfc4122 C (host_uuid (ledger_host l)) \<and> ledger_through l \<le> max_serial \<and>
      length (ledger_entries l) \<le> max_entries \<and>
      entries_ok C (ledger_host l) (ledger_through l) (ledger_entries l))"

end
