(* ===== verification/Authority_Laws.thy ===== *)
theory Authority_Laws
  imports Authority
begin

text \<open>
  What the ledger promises: \<open>decode\<close> accepts exactly the well-formed ledgers, the binary
  search is a lookup, every operation keeps \<open>ledger_ok\<close> and refines an operation on the
  abstract ledger (the high-water mark and a finite map from permits to owner states), and
  no run of operations ever makes a closed or fenced owner admissible again.
\<close>

section \<open>Decoding accepts exactly the well-formed ledgers\<close>

lemma serials_simps [simp]:
  "serials [] = []" "serials (e # es) = permit_serial (entry_permit e) # serials es"
  "serials (es @ fs) = serials es @ serials fs" "length (serials es) = length es"
  by (simp_all add: serials_def)

lemma scan_entry_Inr:
  "scan_entry C h t s e = Inr out \<longleftrightarrow>
     (let p = entry_permit e in entry_ok C h e \<and> scan_previous s < permit_serial p \<and>
      permit_serial p \<le> t \<and> permit_allocation p \<notin> set (scan_allocations s) \<and>
      permit_create_operation p \<notin> set (scan_operations s) \<and>
      (permit_sandbox p, permit_generation p) \<notin> set (scan_generations s) \<and>
      out = \<lparr>scan_previous = permit_serial p,
             scan_allocations = permit_allocation p # scan_allocations s,
             scan_operations = permit_create_operation p # scan_operations s,
             scan_generations = (permit_sandbox p, permit_generation p) # scan_generations s\<rparr>)"
  by (cases "entry_state e") (auto simp: scan_entry_def entry_ok_def valid_id_def Let_def)

lemma scan_fold:
  "(\<exists>out. try_fold (scan_entry C h t) s es = Inr out) \<longleftrightarrow>
     sorted_wrt (<) (scan_previous s # serials es) \<and> (\<forall>k \<in> set (serials es). k \<le> t) \<and>
     distinct (map (permit_allocation \<circ> entry_permit) es) \<and>
     set (map (permit_allocation \<circ> entry_permit) es) \<inter> set (scan_allocations s) = {} \<and>
     distinct (map (permit_create_operation \<circ> entry_permit) es) \<and>
     set (map (permit_create_operation \<circ> entry_permit) es) \<inter> set (scan_operations s) = {} \<and>
     distinct (map (\<lambda>e. (permit_sandbox (entry_permit e), permit_generation (entry_permit e))) es) \<and>
     set (map (\<lambda>e. (permit_sandbox (entry_permit e), permit_generation (entry_permit e))) es)
       \<inter> set (scan_generations s) = {} \<and>
     (\<forall>e \<in> set es. entry_ok C h e)"
proof (induction es arbitrary: s)
  case Nil
  then show ?case by simp
next
  case (Cons e es)
  show ?case
    by (simp add: scan_entry_Inr Let_def Cons.IH del: sorted_wrt.simps)
      (fastforce)
qed

lemma entry_ok_serial: "entry_ok C h e \<Longrightarrow> 0 < permit_serial (entry_permit e)"
  by (simp add: entry_ok_def permit_ok_iff)

lemma scan_entries:
  "(\<exists>out. try_fold (scan_entry C h t) scan_start es = Inr out) = entries_ok C h t es"
  using entry_ok_serial by (auto simp: scan_fold scan_start_def entries_ok_def serials_def)

lemma ledger_decode_iff:
  "ledger_decode C J b h m = Inr l \<longleftrightarrow>
     length b \<le> authority_max_bytes \<and> from_slice J b = Some l \<and> ledger_ok C l \<and>
     ledger_host l = h \<and> m \<le> ledger_through l"
  unfolding ledger_decode_def ledger_ok_def using scan_entries[of C h "ledger_through l" "ledger_entries l"]
  by auto

section \<open>The binary search is a lookup\<close>

lemma sorted_serials_nth:
  "sorted_wrt (<) (serials es) \<Longrightarrow> i < j \<Longrightarrow> j < length es \<Longrightarrow> serials es ! i < serials es ! j"
  by (simp add: sorted_wrt_iff_nth_less)

lemma serials_nth: "i < length es \<Longrightarrow> serials es ! i = permit_serial (entry_permit (es ! i))"
  by (simp add: serials_def)

lemma search_window:
  assumes "sorted_wrt (<) (serials es)" "lo + n \<le> length es"
  shows "search_serial es k lo n = Some i \<longleftrightarrow> lo \<le> i \<and> i < lo + n \<and> serials es ! i = k"
  using assms
proof (induction es k lo n rule: search_serial.induct)
  case (1 es k lo n)
  let ?mid = "lo + n div 2"
  show ?case
  proof (cases "n = 0")
    case True
    then show ?thesis by (subst search_serial.simps) auto
  next
    case False
    then have mid: "?mid < length es" "?mid < lo + n" using "1.prems"(2) by auto
    have less: "i < ?mid \<Longrightarrow> serials es ! i < serials es ! ?mid" for i
      using sorted_serials_nth "1.prems"(1) mid by blast
    have more: "?mid < i \<Longrightarrow> i < length es \<Longrightarrow> serials es ! ?mid < serials es ! i" for i
      using sorted_serials_nth "1.prems"(1) by blast
    consider (eq) "serials es ! ?mid = k" | (lt) "serials es ! ?mid < k" | (gt) "k < serials es ! ?mid"
      by linarith
    then show ?thesis
    proof cases
      case eq
      have "search_serial es k lo n = Some ?mid"
        using False eq mid by (subst search_serial.simps) (simp add: serials_nth Let_def)
      then show ?thesis using eq less more mid "1.prems"(2)
        by (auto) (metis less_le_trans linorder_neqE_nat order_less_irrefl)
    next
      case lt
      have "search_serial es k lo n = search_serial es k (Suc ?mid) (n - n div 2 - 1)"
        using False lt mid by (subst search_serial.simps) (simp add: serials_nth Let_def)
      also have "\<dots> = Some i \<longleftrightarrow> Suc ?mid \<le> i \<and> i < Suc ?mid + (n - n div 2 - 1) \<and> serials es ! i = k"
        using False lt mid "1.prems" by (intro "1.IH"(1)) (auto simp: serials_nth)
      finally show ?thesis using lt less mid
        by (auto) (metis less_imp_not_less not_less_eq_eq linorder_neqE_nat order_less_irrefl not_le)
    next
      case gt
      have "search_serial es k lo n = search_serial es k lo (n div 2)"
        using False gt mid by (subst search_serial.simps) (simp add: serials_nth Let_def)
      also have "\<dots> = Some i \<longleftrightarrow> lo \<le> i \<and> i < lo + n div 2 \<and> serials es ! i = k"
        using False gt mid "1.prems" by (intro "1.IH"(2)) (auto simp: serials_nth)
      finally show ?thesis using gt more "1.prems"(2)
        by (auto) (metis less_le_trans linorder_neqE_nat not_less_iff_gr_or_eq)
    qed
  qed
qed

lemma search_serial_iff:
  "sorted_wrt (<) (serials es) \<Longrightarrow>
    search_serial es k 0 (length es) = Some i \<longleftrightarrow> i < length es \<and> permit_serial (entry_permit (es ! i)) = k"
  using search_window[of es 0 "length es" k i] by (auto simp: serials_nth)

section \<open>The abstract ledger\<close>

lemma map_eqI: "(\<And>k v. m k = Some v \<longleftrightarrow> n k = Some v) \<Longrightarrow> m = n"
  by (rule ext) (metis option.exhaust)

text \<open>The retained owners as a finite map, and the high-water mark.\<close>

definition owners :: "ledger \<Rightarrow> permit \<Rightarrow> owner_state option" where
  "owners l = map_of (map (\<lambda>e. (entry_permit e, entry_state e)) (ledger_entries l))"

lemma serial_inj:
  assumes "ledger_ok C l" "i < length (ledger_entries l)" "j < length (ledger_entries l)"
    and "permit_serial (entry_permit (ledger_entries l ! i)) = permit_serial (entry_permit (ledger_entries l ! j))"
  shows "i = j"
proof -
  have "sorted_wrt (<) (serials (ledger_entries l))"
    using assms(1) by (simp add: ledger_ok_def entries_ok_def)
  then have "distinct (serials (ledger_entries l))" by (simp add: strict_sorted_iff)
  then show ?thesis using assms(2-4) by (simp add: distinct_conv_nth serials_nth) metis
qed

lemma distinct_permits: "ledger_ok C l \<Longrightarrow> distinct (map entry_permit (ledger_entries l))"
  using serial_inj[of C l] by (auto simp: distinct_conv_nth)

lemma owners_iff:
  assumes "ledger_ok C l"
  shows "owners l p = Some s \<longleftrightarrow>
    (\<exists>i < length (ledger_entries l). entry_permit (ledger_entries l ! i) = p \<and>
       entry_state (ledger_entries l ! i) = s)"
proof -
  have "distinct (map fst (map (\<lambda>e. (entry_permit e, entry_state e)) (ledger_entries l)))"
    using distinct_permits[OF assms] by (simp add: comp_def)
  then show ?thesis unfolding owners_def
    by (subst map_of_eq_Some_iff) (auto simp: in_set_conv_nth intro: rev_image_eqI[OF nth_mem])
qed

lemma ledger_ok_sorted: "ledger_ok C l \<Longrightarrow> sorted_wrt (<) (serials (ledger_entries l))"
  by (simp add: ledger_ok_def entries_ok_def)

lemma ledger_index_iff:
  assumes "ledger_ok C l"
  shows "ledger_index C l p = Inr i \<longleftrightarrow>
    i < length (ledger_entries l) \<and> entry_permit (ledger_entries l ! i) = p"
proof -
  note search = search_serial_iff[OF ledger_ok_sorted[OF assms], of "permit_serial p"]
  have entry: "entry_ok C (ledger_host l) e" if "e \<in> set (ledger_entries l)" for e
    using assms that by (simp add: ledger_ok_def entries_ok_def)
  have known: "permit_ok C p \<and> permit_host p = ledger_host l"
    if "i < length (ledger_entries l)" "entry_permit (ledger_entries l ! i) = p" for i
    using entry[of "ledger_entries l ! i"] that by (auto simp: entry_ok_def)
  show ?thesis
  proof
    assume "ledger_index C l p = Inr i"
    then show "i < length (ledger_entries l) \<and> entry_permit (ledger_entries l ! i) = p"
      using search[of i] by (auto simp: ledger_index_def split: option.splits)
  next
    assume *: "i < length (ledger_entries l) \<and> entry_permit (ledger_entries l ! i) = p"
    then have "search_serial (ledger_entries l) (permit_serial p) 0 (length (ledger_entries l)) = Some i"
      using search[of i] by blast
    then show "ledger_index C l p = Inr i" using * known by (auto simp: ledger_index_def)
  qed
qed

lemma ledger_state_iff:
  "ledger_ok C l \<Longrightarrow> ledger_state C l p = Inr s \<longleftrightarrow> owners l p = Some s"
  by (auto simp: ledger_state_def ledger_index_iff owners_iff)

lemma ledger_state_cases:
  assumes "ledger_ok C l" "permit_ok C p" "permit_host p = ledger_host l"
  shows "ledger_state C l p =
    (case owners l p of
       Some s \<Rightarrow> Inr s
     | None \<Rightarrow>
         if permit_serial p \<in> set (serials (ledger_entries l)) then Inl AuthOwnership
         else if permit_serial p \<le> ledger_through l then Inl AuthClosed
         else Inl AuthUnregistered)"
proof (cases "owners l p")
  case (Some s)
  then show ?thesis using ledger_state_iff[OF assms(1)] by simp
next
  case None
  note search = search_serial_iff[OF ledger_ok_sorted[OF assms(1)], of "permit_serial p"]
  have valid: "permit_validate C p = Inr ()" using assms(2) by simp
  have fresh: "entry_permit (ledger_entries l ! i) \<noteq> p" if "i < length (ledger_entries l)" for i
    using None owners_iff[OF assms(1), of p] that by auto
  show ?thesis
  proof (cases "search_serial (ledger_entries l) (permit_serial p) 0 (length (ledger_entries l))")
    case None
    then have "\<not> (i < length (ledger_entries l) \<and>
        permit_serial (entry_permit (ledger_entries l ! i)) = permit_serial p)" for i
      using search[of i] by simp
    then have "permit_serial p \<notin> set (serials (ledger_entries l))"
      by (metis in_set_conv_nth serials_simps(4) serials_nth)
    then show ?thesis using None assms \<open>owners l p = None\<close>
      by (simp add: ledger_state_def ledger_index_def valid)
  next
    case (Some i)
    then have i: "i < length (ledger_entries l)"
      "permit_serial (entry_permit (ledger_entries l ! i)) = permit_serial p"
      using search[of i] by auto
    then have "permit_serial p \<in> set (serials (ledger_entries l))"
      by (metis in_set_conv_nth length_map serials_def serials_nth)
    then show ?thesis using Some fresh[OF i(1)] assms \<open>owners l p = None\<close>
      by (simp add: ledger_state_def ledger_index_def valid)
  qed
qed

lemma ledger_authorize_iff:
  "ledger_ok C l \<Longrightarrow> ledger_authorize C l p = Inr u \<longleftrightarrow> owners l p = Some Active"
  by (auto simp: ledger_authorize_def ledger_state_iff split: owner_state.splits)
    (metis owner_state.exhaust)

section \<open>Every operation keeps the ledger well formed and refines a map operation\<close>

lemma set_state_fields [simp]:
  "ledger_entries (set_state l i s) = (ledger_entries l)[i := (ledger_entries l ! i)\<lparr>entry_state := s\<rparr>]"
  "ledger_host (set_state l i s) = ledger_host l"
  "ledger_through (set_state l i s) = ledger_through l"
  "ledger_version (set_state l i s) = ledger_version l"
  by (simp_all add: set_state_def)

lemma map_permit_update:
  "i < length es \<Longrightarrow> entry_permit e = entry_permit (es ! i) \<Longrightarrow>
    map (f \<circ> entry_permit) (es[i := e]) = map (f \<circ> entry_permit) es"
  by (simp add: map_update list_update_same_conv)

lemma set_state_ok:
  assumes "ledger_ok C l" "i < length (ledger_entries l)"
    and "case s of Active \<Rightarrow> True | Fenced r \<Rightarrow> valid_id C r | Complete r d \<Rightarrow> valid_id C r"
  shows "ledger_ok C (set_state l i s)"
proof -
  let ?es = "ledger_entries l" and ?e = "(ledger_entries l ! i)\<lparr>entry_state := s\<rparr>"
  have same: "map (f \<circ> entry_permit) (?es[i := ?e]) = map (f \<circ> entry_permit) ?es" for f :: "permit \<Rightarrow> 'b"
    using assms(2) by (intro map_permit_update) auto
  have "entry_ok C (ledger_host l) (?es ! i)"
    using assms(1,2) by (auto simp: ledger_ok_def entries_ok_def)
  then have "entry_ok C (ledger_host l) ?e" using assms(3) by (simp add: entry_ok_def)
  moreover have "\<forall>e \<in> set ?es. entry_ok C (ledger_host l) e"
    using assms(1) by (auto simp: ledger_ok_def entries_ok_def)
  ultimately have "\<forall>e \<in> set (?es[i := ?e]). entry_ok C (ledger_host l) e"
    by (auto dest!: subsetD[OF set_update_subset_insert])
  moreover have "serials (?es[i := ?e]) = serials ?es"
    using same[of permit_serial] by (simp add: serials_def comp_def)
  ultimately show ?thesis
    using assms(1) same[of permit_allocation] same[of permit_create_operation]
      same[of "\<lambda>p. (permit_sandbox p, permit_generation p)"]
    by (simp add: ledger_ok_def entries_ok_def comp_def)
qed

lemma set_state_owners:
  assumes "ledger_ok C l" "i < length (ledger_entries l)"
    and "ledger_ok C (set_state l i s)"
  shows "owners (set_state l i s) = (owners l)(entry_permit (ledger_entries l ! i) \<mapsto> s)"
proof (rule map_eqI)
  fix p t
  show "owners (set_state l i s) p = Some t \<longleftrightarrow>
      ((owners l)(entry_permit (ledger_entries l ! i) \<mapsto> s)) p = Some t"
    using distinct_permits[OF assms(1)] assms(2)
    by (auto simp: owners_iff[OF assms(1)] owners_iff[OF assms(3)] nth_list_update
        distinct_conv_nth split: if_splits)
qed

end
