(* ===== verification/Authority_Runs.thy ===== *)
theory Authority_Runs
  imports Authority_Laws
begin

text \<open>
  The four mutations of the ledger as operations on the abstract map, the preservation of
  \<open>ledger_ok\<close>, and runs of operations: a denied owner below the high-water mark stays denied.
\<close>

section \<open>Fencing, completing and forgetting\<close>

lemma ledger_fence_Inr:
  assumes "ledger_ok C l"
  shows "ledger_fence C l p r = Inr l' \<longleftrightarrow> valid_id C r \<and>
    (\<exists>i < length (ledger_entries l). entry_permit (ledger_entries l ! i) = p \<and>
      (case entry_state (ledger_entries l ! i) of
         Active \<Rightarrow> l' = set_state l i (Fenced r)
       | Fenced q \<Rightarrow> q = r \<and> l' = l
       | Complete q _ \<Rightarrow> q = r \<and> l' = l))"
  by (auto simp: ledger_fence_def ledger_index_iff[OF assms] valid_id_def split: owner_state.splits)

lemma ledger_fence_spec:
  assumes ok: "ledger_ok C l" and f: "ledger_fence C l p r = Inr l'"
  shows "ledger_ok C l'"
    and "owners l' = (if owners l p = Some Active then (owners l)(p \<mapsto> Fenced r) else owners l)"
    and "owners l' p = Some (Fenced r) \<or> (\<exists>d. owners l' p = Some (Complete r d))"
    and "ledger_through l' = ledger_through l" "ledger_host l' = ledger_host l"
proof -
  from f obtain i where r: "valid_id C r" and i: "i < length (ledger_entries l)"
      "entry_permit (ledger_entries l ! i) = p" and
    st: "case entry_state (ledger_entries l ! i) of
         Active \<Rightarrow> l' = set_state l i (Fenced r)
       | Fenced q \<Rightarrow> q = r \<and> l' = l
       | Complete q _ \<Rightarrow> q = r \<and> l' = l"
    using ledger_fence_Inr[OF ok] by blast
  have own: "owners l p = Some (entry_state (ledger_entries l ! i))"
    using owners_iff[OF ok] i by blast
  have ok': "ledger_ok C (set_state l i (Fenced r))"
    using set_state_ok[OF ok i(1)] r by simp
  note upd = set_state_owners[OF ok i(1) ok']
  show "ledger_ok C l'" and "ledger_through l' = ledger_through l" "ledger_host l' = ledger_host l"
    using st ok ok' by (auto split: owner_state.splits)
  show "owners l' = (if owners l p = Some Active then (owners l)(p \<mapsto> Fenced r) else owners l)"
    using st own upd i by (auto split: owner_state.splits)
  then show "owners l' p = Some (Fenced r) \<or> (\<exists>d. owners l' p = Some (Complete r d))"
    using st own by (auto split: owner_state.splits)
qed

lemma completion_state_Inr:
  "completion_state C K i = Inr s \<longleftrightarrow>
    (\<exists>d. intent_digest C K i = Inr d \<and> \<not> intent_simulated i \<and> s = Complete (intent_retirement i) d)"
  by (auto simp: completion_state_def)

lemma intent_digest_valid: "intent_digest C K i = Inr d \<Longrightarrow> intent_validate C i = Inr ()"
  by (auto simp: intent_digest_def intent.encode_iff)

lemma ledger_complete_spec:
  assumes ok: "ledger_ok C l" and c: "ledger_complete C K l i = Inr l'"
  shows "ledger_ok C l'"
    and "\<exists>s. completion_state C K i = Inr s \<and>
      (owners l (intent_permit i) = Some (Fenced (intent_retirement i)) \<or>
       owners l (intent_permit i) = Some s) \<and>
      owners l' = (owners l)(intent_permit i \<mapsto> s)"
    and "ledger_through l' = ledger_through l" "ledger_host l' = ledger_host l"
proof -
  from c obtain s n where s: "completion_state C K i = Inr s"
    and n: "n < length (ledger_entries l)" "entry_permit (ledger_entries l ! n) = intent_permit i"
    and st: "(entry_state (ledger_entries l ! n) = Fenced (intent_retirement i) \<and> l' = set_state l n s) \<or>
      (entry_state (ledger_entries l ! n) = s \<and> l' = l)"
    by (auto simp: ledger_complete_def ledger_index_iff[OF ok] Let_def split: if_splits)
  have own: "owners l (intent_permit i) = Some (entry_state (ledger_entries l ! n))"
    using owners_iff[OF ok] n by blast
  obtain d where d: "s = Complete (intent_retirement i) d" "intent_validate C i = Inr ()"
    using s intent_digest_valid by (auto simp: completion_state_Inr)
  have ok': "ledger_ok C (set_state l n s)"
    using set_state_ok[OF ok n(1), of s] d by (simp add: intent_valid_iff)
  note upd = set_state_owners[OF ok n(1) ok']
  show "ledger_ok C l'" and "ledger_through l' = ledger_through l" "ledger_host l' = ledger_host l"
    using st ok ok' by auto
  show "\<exists>s. completion_state C K i = Inr s \<and>
      (owners l (intent_permit i) = Some (Fenced (intent_retirement i)) \<or>
       owners l (intent_permit i) = Some s) \<and>
      owners l' = (owners l)(intent_permit i \<mapsto> s)"
    using s st own upd n by (auto simp: fun_upd_idem)
qed

lemma ledger_completed_iff:
  assumes "ledger_ok C l"
  shows "ledger_completed C K l i = Inr u \<longleftrightarrow>
    (\<exists>s. completion_state C K i = Inr s \<and> owners l (intent_permit i) = Some s)"
  by (auto simp: ledger_completed_def ledger_state_iff[OF assms])

lemma remove_nth_split:
  assumes "n < length xs"
  obtains as bs where "xs = as @ xs ! n # bs" "remove_nth n xs = as @ bs" "length as = n"
  using assms id_take_nth_drop[of n xs] by (simp add: remove_nth_def)

lemma remove_nth_beyond: "length xs \<le> n \<Longrightarrow> remove_nth n xs = xs"
  by (simp add: remove_nth_def)

lemma set_remove_nth: "set (remove_nth n xs) \<subseteq> set xs"
  unfolding remove_nth_def by (auto dest: in_set_takeD in_set_dropD)

lemma map_remove_nth: "map f (remove_nth n xs) = remove_nth n (map f xs)"
  by (simp add: remove_nth_def take_map drop_map)

lemma sorted_wrt_remove_nth:
  assumes "sorted_wrt R xs"
  shows "sorted_wrt R (remove_nth n xs)"
proof (cases "n < length xs")
  case True
  then obtain as bs where "xs = as @ xs ! n # bs" "remove_nth n xs = as @ bs"
    by (rule remove_nth_split)
  then show ?thesis using assms by (metis sorted_wrt_append sorted_wrt.simps(2) list.set_intros(2))
qed (use assms in \<open>simp add: remove_nth_beyond\<close>)

lemma distinct_remove_nth:
  assumes "distinct xs"
  shows "distinct (remove_nth n xs)"
proof (cases "n < length xs")
  case True
  then obtain as bs where "xs = as @ xs ! n # bs" "remove_nth n xs = as @ bs"
    by (rule remove_nth_split)
  then show ?thesis using assms by (metis distinct_append distinct.simps(2) list.set_intros(2)
        disjoint_iff)
qed (use assms in \<open>simp add: remove_nth_beyond\<close>)

lemma entries_ok_remove:
  assumes "entries_ok C h t es"
  shows "entries_ok C h t (remove_nth n es)"
proof -
  have "set (serials (remove_nth n es)) \<subseteq> set (serials es)"
    using set_remove_nth[of n es] by (auto simp: serials_def)
  then show ?thesis
    using assms set_remove_nth[of n es]
    by (auto simp: entries_ok_def map_remove_nth distinct_remove_nth serials_def sorted_wrt_remove_nth)
qed

lemma ledger_forget_spec:
  assumes ok: "ledger_ok C l" and f: "ledger_forget C K l i = Inr l'"
  shows "ledger_ok C l'"
    and "\<exists>s. completion_state C K i = Inr s \<and> owners l (intent_permit i) = Some s"
    and "owners l' = (owners l)(intent_permit i := None)"
    and "ledger_through l' = ledger_through l" "ledger_host l' = ledger_host l"
proof -
  let ?es = "ledger_entries l"
  from f obtain n where comp: "ledger_completed C K l i = Inr ()"
    and n: "n < length ?es" "entry_permit (?es ! n) = intent_permit i"
    and l': "l' = l\<lparr>ledger_entries := remove_nth n ?es\<rparr>"
    by (auto simp: ledger_forget_def ledger_index_iff[OF ok])
  show "\<exists>s. completion_state C K i = Inr s \<and> owners l (intent_permit i) = Some s"
    using comp ledger_completed_iff[OF ok] by blast
  have "length (remove_nth n ?es) \<le> length ?es" by (simp add: remove_nth_def)
  then show ok': "ledger_ok C l'"
    using ok by (auto simp: l' ledger_ok_def entries_ok_remove)
  show "ledger_through l' = ledger_through l" "ledger_host l' = ledger_host l"
    by (simp_all add: l')
  obtain as bs where es: "?es = as @ (?es ! n) # bs" and rem: "remove_nth n ?es = as @ bs"
    by (rule remove_nth_split[OF n(1)])
  let ?e = "?es ! n"
  have "distinct (map entry_permit (as @ ?e # bs))"
    using distinct_permits[OF ok] es by metis
  then have "intent_permit i \<notin> entry_permit ` set (as @ bs)"
    using n(2) by auto
  moreover have "owners l = map_of (map (\<lambda>e. (entry_permit e, entry_state e)) (as @ ?e # bs))"
    using es by (metis owners_def)
  moreover have "owners l' = map_of (map (\<lambda>e. (entry_permit e, entry_state e)) (as @ bs))"
    by (simp add: owners_def l' rem)
  moreover have "map_of (map (\<lambda>e. (entry_permit e, entry_state e)) as) (intent_permit i) = None"
    and "map_of (map (\<lambda>e. (entry_permit e, entry_state e)) bs) (intent_permit i) = None"
    using calculation(1) by (auto simp: map_of_eq_None_iff)
  ultimately show "owners l' = (owners l)(intent_permit i := None)"
    using n(2) by (intro ext) (simp add: map_add_def split: option.split)
qed

section \<open>Registering\<close>

lemma push_all:
  "ps \<noteq> [] \<Longrightarrow> foldl push_active l ps =
     l\<lparr>ledger_entries := ledger_entries l @ map (\<lambda>p. \<lparr>entry_permit = p, entry_state = Active\<rparr>) ps,
       ledger_through := permit_serial (last ps)\<rparr>"
  by (induction ps arbitrary: l) (auto simp: push_active_def)

lemma batch_contiguous:
  "try_fold (batch_check C h) prev ps = Inr out \<Longrightarrow>
    (\<forall>p \<in> set ps. permit_ok C p \<and> permit_host p = h) \<and>
    (\<forall>i < length ps. permit_serial (ps ! i) =
       (case prev of Some n \<Rightarrow> n + 1 + i | None \<Rightarrow> permit_serial (hd ps) + i))"
proof (induction ps arbitrary: prev)
  case (Cons p ps)
  from Cons.prems obtain s where s: "batch_check C h prev p = Inr s"
    and rest: "try_fold (batch_check C h) s ps = Inr out" by auto
  from s have p: "s = Some (permit_serial p)" "permit_ok C p" "permit_host p = h"
    "case prev of Some n \<Rightarrow> permit_serial p = n + 1 | None \<Rightarrow> True"
    by (auto simp: batch_check_def checked_add_u64_def split: option.splits if_splits)
  from Cons.IH[OF rest] p(1) have
    "\<forall>q \<in> set ps. permit_ok C q \<and> permit_host q = h"
    "\<forall>i < length ps. permit_serial (ps ! i) = permit_serial p + 1 + i" by auto
  then show ?case using p by (auto simp: nth_Cons split: nat.splits option.splits)
qed simp

lemma ledger_register_Inr:
  assumes reg: "ledger_register C J l ps = Inr l'"
  shows "ps \<noteq> []" and "length ps \<le> 32"
    and "\<forall>p \<in> set ps. permit_ok C p \<and> permit_host p = ledger_host l"
    and "\<forall>i < length ps. permit_serial (ps ! i) = permit_serial (hd ps) + i"
    and "(permit_serial (hd ps) \<le> ledger_through l \<and> l' = l \<and>
          (\<forall>p \<in> set ps. \<exists>s. ledger_state C l p = Inr s)) \<or>
         (permit_serial (hd ps) = ledger_through l + 1 \<and> l' = foldl push_active l ps \<and>
          length (ledger_entries l) + length ps \<le> max_entries \<and>
          (\<exists>b. ledger_encode J l' = Inr b \<and>
            (\<exists>m. ledger_decode C J b (ledger_host l) (ledger_through l) = Inr m)))"
proof -
  from reg obtain p qs where ps: "ps = p # qs" by (cases ps) (auto simp: ledger_register_def)
  from reg obtain out where batch: "try_fold (batch_check C (ledger_host l)) None ps = Inr out"
    by (auto simp: ledger_register_def ps)
  show "ps \<noteq> []" "length ps \<le> 32"
    using reg by (auto simp: ps ledger_register_def max_batch_def)
  show "\<forall>p \<in> set ps. permit_ok C p \<and> permit_host p = ledger_host l"
    and "\<forall>i < length ps. permit_serial (ps ! i) = permit_serial (hd ps) + i"
    using batch_contiguous[OF batch] by auto
  show "(permit_serial (hd ps) \<le> ledger_through l \<and> l' = l \<and>
          (\<forall>p \<in> set ps. \<exists>s. ledger_state C l p = Inr s)) \<or>
         (permit_serial (hd ps) = ledger_through l + 1 \<and> l' = foldl push_active l ps \<and>
          length (ledger_entries l) + length ps \<le> max_entries \<and>
          (\<exists>b. ledger_encode J l' = Inr b \<and>
            (\<exists>m. ledger_decode C J b (ledger_host l) (ledger_through l) = Inr m)))"
  proof (cases "permit_serial p \<le> ledger_through l")
    case True
    then show ?thesis using reg batch by (auto simp: ps ledger_register_def)
  next
    case False
    then show ?thesis using reg batch
      by (auto simp: ps ledger_register_def Let_def checked_add_u64_def split: if_splits)
  qed
qed

lemma ledger_register_fresh_ok:
  assumes "json_faithful J" "ledger_register C J l ps = Inr l'" "l' \<noteq> l \<or> ledger_ok C l"
  shows "ledger_ok C l'"
proof -
  note r = ledger_register_Inr[OF assms(2)]
  from r(5) show ?thesis
  proof (elim disjE conjE exE)
    assume "l' = l"
    then show ?thesis using assms(3) by simp
  next
    fix b m
    assume enc: "ledger_encode J l' = Inr b"
      and dec: "ledger_decode C J b (ledger_host l) (ledger_through l) = Inr m"
    from enc have "to_vec J l' = Some b" by (auto simp: ledger_encode_def)
    then have "m = l'" using dec assms(1) by (auto simp: ledger_decode_iff dest: json_faithfulD)
    then show ?thesis using dec by (simp add: ledger_decode_iff)
  qed
qed

lemma ledger_register_spec:
  assumes js: "json_faithful J" and ok: "ledger_ok C l" and reg: "ledger_register C J l ps = Inr l'"
  shows "ledger_ok C l'" and "ledger_host l' = ledger_host l"
    and "(l' = l \<and> (\<forall>p \<in> set ps. owners l p \<noteq> None)) \<or>
         (permit_serial (hd ps) = ledger_through l + 1 \<and>
          ledger_through l' = ledger_through l + length ps \<and>
          owners l' = (\<lambda>p. if p \<in> set ps then Some Active else owners l p) \<and>
          (\<forall>p \<in> set ps. ledger_through l < permit_serial p))"
proof -
  note r = ledger_register_Inr[OF reg]
  show ok': "ledger_ok C l'" using ledger_register_fresh_ok[OF js reg] ok by simp
  show "ledger_host l' = ledger_host l" using r(1,5) by (auto simp: push_all)
  show "(l' = l \<and> (\<forall>p \<in> set ps. owners l p \<noteq> None)) \<or>
         (permit_serial (hd ps) = ledger_through l + 1 \<and>
          ledger_through l' = ledger_through l + length ps \<and>
          owners l' = (\<lambda>p. if p \<in> set ps then Some Active else owners l p) \<and>
          (\<forall>p \<in> set ps. ledger_through l < permit_serial p))"
  proof (cases "l' = l")
    case True
    then have "\<forall>p \<in> set ps. \<exists>s. ledger_state C l p = Inr s"
      using r(1,5) by (auto simp: push_all dest: arg_cong[where f = ledger_entries])
    then show ?thesis using True ledger_state_iff[OF ok] by fastforce
  next
    case False
    then have hd: "permit_serial (hd ps) = ledger_through l + 1" and l': "l' = foldl push_active l ps"
      using r(5) by auto
    let ?new = "map (\<lambda>p. \<lparr>entry_permit = p, entry_state = Active\<rparr>) ps"
    have entries: "ledger_entries l' = ledger_entries l @ ?new" by (simp add: l' push_all r(1))
    have "permit_serial (last ps) = ledger_through l + length ps"
      using r(1,4) hd by (simp add: last_conv_nth)
    then have "ledger_through l' = ledger_through l + length ps" by (simp add: l' push_all r(1))
    moreover have "\<forall>p \<in> set ps. ledger_through l < permit_serial p"
      using r(4) hd by (auto simp: in_set_conv_nth)
    moreover have "owners l' = (\<lambda>p. if p \<in> set ps then Some Active else owners l p)"
    proof
      fix p
      have new: "map_of (map (\<lambda>e. (entry_permit e, entry_state e)) ?new) p =
          (if p \<in> set ps then Some Active else None)" by (induction ps) auto
      show "owners l' p = (if p \<in> set ps then Some Active else owners l p)"
      proof (cases "p \<in> set ps")
        case True
        then have "\<lparr>entry_permit = p, entry_state = Active\<rparr> \<in> set (ledger_entries l')"
          by (auto simp: entries)
        then show ?thesis using True owners_iff[OF ok'] by (fastforce simp: in_set_conv_nth)
      next
        case False
        then have "map_of (map (\<lambda>e. (entry_permit e, entry_state e)) ?new) p = None"
          using new by simp
        then show ?thesis using False
          by (simp add: owners_def entries map_add_def split: option.split)
      qed
    qed
    ultimately show ?thesis using hd by blast
  qed
qed

text \<open>
  The whole condition: a batch is a run of valid owners of the host with consecutive serials; it is
  a replay of retained owners, or it extends the frontier with owners whose allocations, creations
  and generations are new, and the extended ledger still fits and encodes.
\<close>

definition owner_batch :: "crates \<Rightarrow> host_id \<Rightarrow> permit list \<Rightarrow> bool" where
  "owner_batch C h ps =
     (ps \<noteq> [] \<and> length ps \<le> 32 \<and> (\<forall>p \<in> set ps. permit_ok C p \<and> permit_host p = h) \<and>
      (\<forall>i < length ps. permit_serial (ps ! i) = permit_serial (hd ps) + i))"

definition owners_distinct :: "permit list \<Rightarrow> bool" where
  "owners_distinct ps =
     (distinct (map permit_allocation ps) \<and> distinct (map permit_create_operation ps) \<and>
      distinct (map (\<lambda>p. (permit_sandbox p, permit_generation p)) ps))"

definition extended :: "ledger \<Rightarrow> permit list \<Rightarrow> ledger" where
  "extended l ps =
     l\<lparr>ledger_entries := ledger_entries l @ map (\<lambda>p. \<lparr>entry_permit = p, entry_state = Active\<rparr>) ps,
       ledger_through := ledger_through l + length ps\<rparr>"

lemma batch_accepted:
  "(\<forall>p \<in> set ps. permit_ok C p \<and> permit_host p = h) \<Longrightarrow>
   (\<forall>i < length ps. permit_serial (ps ! i) = (case prev of Some n \<Rightarrow> n + 1 + i | None \<Rightarrow> permit_serial (hd ps) + i)) \<Longrightarrow>
   \<exists>out. try_fold (batch_check C h) prev ps = Inr out"
proof (induction ps arbitrary: prev)
  case (Cons p ps)
  have p: "permit_ok C p" "permit_host p = h" using Cons.prems(1) by auto
  have small: "permit_serial p < u64_limit"
    using p(1)[unfolded permit_ok_iff] by (simp add: max_serial_def)
  have step: "permit_serial (ps ! i) = permit_serial p + 1 + i" if i: "i < length ps" for i
  proof -
    have "permit_serial ((p # ps) ! Suc i) = (case prev of Some n \<Rightarrow> n + 1 + Suc i | None \<Rightarrow> permit_serial p + Suc i)"
      using Cons.prems(2) i by (metis Suc_less_eq length_Cons list.sel(1))
    moreover have "permit_serial ((p # ps) ! 0) = (case prev of Some n \<Rightarrow> n + 1 + 0 | None \<Rightarrow> permit_serial p + 0)"
      using Cons.prems(2) by (metis length_greater_0_conv list.distinct(1) list.sel(1))
    ultimately show ?thesis by (cases prev) simp_all
  qed
  have "batch_check C h prev p = Inr (Some (permit_serial p))"
  proof (cases prev)
    case None
    then show ?thesis using p by (simp add: batch_check_def)
  next
    case (Some n)
    then have "permit_serial p = n + 1" using Cons.prems(2)[rule_format, of 0] by simp
    then show ?thesis using Some p small by (simp add: batch_check_def checked_add_u64_def)
  qed
  moreover have "\<exists>out. try_fold (batch_check C h) (Some (permit_serial p)) ps = Inr out"
    using Cons.IH[of "Some (permit_serial p)"] Cons.prems(1) step by simp
  ultimately show ?case by simp
qed simp

lemma owner_batch_iff:
  "owner_batch C h ps \<longleftrightarrow> ps \<noteq> [] \<and> length ps \<le> 32 \<and> (\<exists>out. try_fold (batch_check C h) None ps = Inr out)"
  using batch_contiguous[of C h None ps] batch_accepted[of ps C h None] by (auto simp: owner_batch_def)

lemma owner_batch_last: "owner_batch C h ps \<Longrightarrow> permit_serial (last ps) + 1 = permit_serial (hd ps) + length ps"
  by (cases ps rule: rev_cases) (auto simp: owner_batch_def nth_append)

lemma push_extended:
  "owner_batch C h ps \<Longrightarrow> permit_serial (hd ps) = ledger_through l + 1 \<Longrightarrow> foldl push_active l ps = extended l ps"
  using owner_batch_last[of C h ps] by (auto simp: extended_def push_all owner_batch_def)

lemma extended_ok:
  assumes ok: "ledger_ok C l" and batch: "owner_batch C (ledger_host l) ps"
    and hd: "permit_serial (hd ps) = ledger_through l + 1"
  shows "ledger_ok C (extended l ps) \<longleftrightarrow>
    length (ledger_entries l) + length ps \<le> max_entries \<and> owners_distinct (map entry_permit (ledger_entries l) @ ps)"
proof -
  let ?new = "map (\<lambda>p. \<lparr>entry_permit = p, entry_state = Active\<rparr>) ps"
  have valid: "permit_ok C p \<and> permit_host p = ledger_host l" if "p \<in> set ps" for p
    using batch that by (simp add: owner_batch_def)
  have serial: "permit_serial (ps ! i) = ledger_through l + 1 + i" if "i < length ps" for i
    using batch hd that by (simp add: owner_batch_def)
  have bounds: "ledger_through l < permit_serial p \<and> permit_serial p \<le> ledger_through l + length ps" if "p \<in> set ps" for p
    using that serial by (auto simp: in_set_conv_nth)
  have ne: "ps \<noteq> []" using batch by (simp add: owner_batch_def)
  have "permit_serial (last ps) \<le> max_serial" using valid[of "last ps"] ne by (simp add: permit_ok_iff)
  then have top: "ledger_through l + length ps \<le> max_serial" using owner_batch_last[OF batch] hd by simp
  have new: "serials ?new = map permit_serial ps" by (simp add: serials_def)
  have "sorted_wrt (<) (map permit_serial ps)" using serial by (simp add: sorted_wrt_iff_nth_less)
  then have sorted: "sorted_wrt (<) (serials (ledger_entries l) @ map permit_serial ps)"
    using ok bounds by (auto simp: ledger_ok_def entries_ok_def sorted_wrt_append intro: order.strict_trans1)
  have old: "\<forall>e \<in> set (ledger_entries l). entry_ok C (ledger_host l) e"
    "\<forall>s \<in> set (serials (ledger_entries l)). s \<le> ledger_through l"
    using ok by (simp_all add: ledger_ok_def entries_ok_def)
  have "\<forall>e \<in> set ?new. entry_ok C (ledger_host l) e" using valid by (auto simp: entry_ok_def)
  then show ?thesis using ok top sorted old bounds
    by (auto simp: ledger_ok_def entries_ok_def extended_def new owners_distinct_def comp_def trans_le_add1)
qed

lemma ledger_register_iff:
  assumes js: "json_faithful J" and ok: "ledger_ok C l"
  shows "ledger_register C J l ps = Inr l' \<longleftrightarrow>
    owner_batch C (ledger_host l) ps \<and>
    (permit_serial (hd ps) \<le> ledger_through l \<and> (\<forall>p \<in> set ps. owners l p \<noteq> None) \<and> l' = l \<or>
     permit_serial (hd ps) = ledger_through l + 1 \<and> length (ledger_entries l) + length ps \<le> max_entries \<and>
     owners_distinct (map entry_permit (ledger_entries l) @ ps) \<and> l' = extended l ps \<and>
     (\<exists>b. to_vec J l' = Some b \<and> length b \<le> authority_max_bytes))"
    (is "?reg \<longleftrightarrow> ?batch \<and> (?replay \<or> ?fresh)")
proof (cases ?batch)
  case False
  then show ?thesis using ledger_register_Inr[of C J l ps l'] by (auto simp: owner_batch_def)
next
  case batch: True
  then obtain out p qs where fold: "try_fold (batch_check C (ledger_host l)) None ps = Inr out"
    and ps: "ps = p # qs" "length ps \<le> 32"
    unfolding owner_batch_iff by (cases ps) auto
  have state: "(\<exists>s. ledger_state C l q = Inr s) = (owners l q \<noteq> None)" for q
    using ledger_state_iff[OF ok] by (auto simp: not_None_eq)
  show ?thesis
  proof (cases "permit_serial p \<le> ledger_through l")
    case True
    have "?reg \<longleftrightarrow> try_all (\<lambda>p. rbind (ledger_state C l p) (\<lambda>_. Inr ())) ps = Inr () \<and> l' = l"
      using fold ps True by (auto simp: ledger_register_def max_batch_def)
    also have "\<dots> \<longleftrightarrow> (\<forall>q \<in> set ps. \<exists>s. ledger_state C l q = Inr s) \<and> l' = l" by auto
    finally show ?thesis using True batch ps(1) by (auto simp: state)
  next
    case False
    have "?reg \<longleftrightarrow> permit_serial p = ledger_through l + 1 \<and> length (ledger_entries l) + length ps \<le> max_entries \<and>
        l' = foldl push_active l ps \<and> (\<exists>b m. ledger_encode J l' = Inr b \<and>
          ledger_decode C J b (ledger_host l) (ledger_through l) = Inr m)"
      using fold ps False permit_ok_iff[of C p] batch
      by (auto simp: ledger_register_def max_batch_def Let_def checked_add_u64_def owner_batch_def
          max_serial_def split: if_splits)
    also have "\<dots> \<longleftrightarrow> permit_serial p = ledger_through l + 1 \<and> length (ledger_entries l) + length ps \<le> max_entries \<and>
        l' = extended l ps \<and> ledger_ok C l' \<and> (\<exists>b. to_vec J l' = Some b \<and> length b \<le> authority_max_bytes)"
    proof -
      have dec: "(\<exists>b m. ledger_encode J l' = Inr b \<and> ledger_decode C J b (ledger_host l) (ledger_through l) = Inr m) \<longleftrightarrow>
          ledger_ok C l' \<and> (\<exists>b. to_vec J l' = Some b \<and> length b \<le> authority_max_bytes)"
        if "l' = extended l ps"
      proof -
        have fields: "ledger_host l' = ledger_host l" "ledger_through l \<le> ledger_through l'"
          by (simp_all add: that extended_def)
        have "from_slice J b = Some l'" if "to_vec J l' = Some b" for b using json_faithfulD[OF js that] .
        then show ?thesis using fields
          by (auto simp: ledger_encode_def ledger_decode_iff split: if_splits)
      qed
      then show ?thesis using push_extended[OF batch, of l] ps(1) by auto
    qed
    finally show ?thesis using False batch ps(1) extended_ok[OF ok batch] by auto
  qed
qed

section \<open>Runs\<close>

datatype ledger_op =
    OpRegister "permit list"
  | OpFence permit operation_id
  | OpComplete intent
  | OpForget intent

definition ledger_step ::
    "crates \<Rightarrow> ledger json \<Rightarrow> intent json \<Rightarrow> ledger \<Rightarrow> ledger_op \<Rightarrow> auth_error + ledger" where
  "ledger_step C J K l x =
     (case x of
        OpRegister ps \<Rightarrow> ledger_register C J l ps
      | OpFence p r \<Rightarrow> ledger_fence C l p r
      | OpComplete i \<Rightarrow> ledger_complete C K l i
      | OpForget i \<Rightarrow> ledger_forget C K l i)"

text \<open>A transition that fails leaves the ledger as it was.\<close>

definition ledger_apply ::
    "crates \<Rightarrow> ledger json \<Rightarrow> intent json \<Rightarrow> ledger \<Rightarrow> ledger_op \<Rightarrow> ledger" where
  "ledger_apply C J K l x = (case ledger_step C J K l x of Inl _ \<Rightarrow> l | Inr l' \<Rightarrow> l')"

lemma ledger_step_ok:
  assumes "json_faithful J" "ledger_ok C l" "ledger_step C J K l x = Inr l'"
  shows "ledger_ok C l' \<and> ledger_host l' = ledger_host l \<and> ledger_through l \<le> ledger_through l'"
proof (cases x)
  case (OpRegister ps)
  then have "ledger_register C J l ps = Inr l'" using assms(3) by (simp add: ledger_step_def)
  note r = ledger_register_spec[OF assms(1,2) this]
  from r(3) have "ledger_through l \<le> ledger_through l'" by (elim disjE) simp_all
  then show ?thesis using r(1,2) by simp
next
  case (OpFence p r)
  then have "ledger_fence C l p r = Inr l'" using assms(3) by (simp add: ledger_step_def)
  from ledger_fence_spec(1,4,5)[OF assms(2) this] show ?thesis by simp
next
  case (OpComplete i)
  then have "ledger_complete C K l i = Inr l'" using assms(3) by (simp add: ledger_step_def)
  from ledger_complete_spec(1,3,4)[OF assms(2) this] show ?thesis by simp
next
  case (OpForget i)
  then have "ledger_forget C K l i = Inr l'" using assms(3) by (simp add: ledger_step_def)
  from ledger_forget_spec(1,4,5)[OF assms(2) this] show ?thesis by simp
qed

lemma ledger_step_closed:
  assumes "json_faithful J" "ledger_ok C l" "ledger_step C J K l x = Inr l'"
    and "permit_serial p \<le> ledger_through l" "owners l p \<noteq> Some Active"
  shows "owners l' p \<noteq> Some Active"
proof (cases x)
  case (OpRegister ps)
  then show ?thesis using ledger_register_spec(3)[OF assms(1,2), of ps l'] assms(3-5)
    by (auto simp: ledger_step_def simp flip: not_le split: if_splits)
next
  case (OpFence q r)
  then show ?thesis using ledger_fence_spec(2)[OF assms(2), of q r l'] assms(3,5)
    by (auto simp: ledger_step_def split: if_splits)
next
  case (OpComplete i)
  then obtain s where "completion_state C K i = Inr s" "owners l' = (owners l)(intent_permit i \<mapsto> s)"
    using ledger_complete_spec(2)[OF assms(2), of K i l'] assms(3) by (auto simp: ledger_step_def)
  then show ?thesis using assms(5) by (auto simp: completion_state_Inr)
next
  case (OpForget i)
  then show ?thesis using ledger_forget_spec(3)[OF assms(2), of K i l'] assms(3,5)
    by (auto simp: ledger_step_def)
qed

interpretation ledger: irrevocable_denial "ledger_apply C J K"
    "\<lambda>l. json_faithful J \<and> ledger_ok C l" "\<lambda>l p. permit_serial p \<le> ledger_through l"
    "\<lambda>l p. ledger_authorize C l p = Inr ()"
  for C J K
proof (unfold_locales, goal_cases)
  case (1 l x)
  then show ?case using ledger_step_ok[of J C l K x]
    by (cases "ledger_step C J K l x") (simp_all add: ledger_apply_def)
next
  case (2 l p x)
  then show ?case using ledger_step_ok[of J C l K x]
    by (cases "ledger_step C J K l x") (auto simp: ledger_apply_def)
next
  case (3 l p x)
  then show ?case using ledger_step_ok[of J C l K x] ledger_step_closed[of J C l K x _ p]
    by (cases "ledger_step C J K l x") (auto simp: ledger_apply_def ledger_authorize_iff)
qed

end
