(* ===== verification/Staged_File.thy ===== *)
theory Staged_File
  imports Crates
begin

text \<open>
  The durable write both stores of the supervisor use (\<open>save\<close> in \<open>launch_authority.rs\<close> and
  \<open>host/journal.rs\<close> of \<open>crates/sandbox-supervisor/src\<close>): a private staging file is
  created, written, synced and renamed over the main file, and the directory is synced. The
  operating system may fail each step (\<open>fault\<close>); a failed step ends the write and leaves the
  files as the completed steps made them. The locale \<open>durable_store\<close> is what the stores
  promise, interpreted in \<open>Launch_Laws\<close> and \<open>Host_Laws\<close>.
\<close>

section \<open>Files\<close>

text \<open>
  \<open>mf_private\<close>: a regular file owned by root, closed to group and others; \<open>mf_links\<close>: its link
  count; \<open>mf_id\<close>: its device and inode.
\<close>

record meta_file =
  mf_bytes :: bytes
  mf_private :: bool
  mf_links :: nat
  mf_id :: "nat \<times> nat"

definition private_file :: "meta_file \<Rightarrow> bool" where
  "private_file f = (mf_private f \<and> mf_links f = 1)"

text \<open>A file created by \<open>create_new\<close> with mode 0600.\<close>

definition new_file :: "bytes \<Rightarrow> nat \<times> nat \<Rightarrow> meta_file" where
  "new_file b i = \<lparr>mf_bytes = b, mf_private = True, mf_links = 1, mf_id = i\<rparr>"

lemma new_file_simps [simp]:
  "mf_bytes (new_file b i) = b" "mf_private (new_file b i)" "private_file (new_file b i)"
  by (simp_all add: new_file_def private_file_def)

record staged =
  st_main :: "meta_file option"
  st_next :: "meta_file option"

datatype fault =
    NoFault
  | FaultRemove
  | FaultCreate
  | FaultWrite bytes
  | FaultSync
  | FaultRename
  | FaultDirSync

text \<open>From \<open>create_new\<close> on: \<open>file\<close> is the staging file with its whole content.\<close>

definition publish :: "fault \<Rightarrow> meta_file \<Rightarrow> (staged, unit, unit) proc" where
  "publish f file s =
     (if f = FaultCreate \<or> st_next s \<noteq> None then (Inl (), s)
      else case f of
        FaultWrite part \<Rightarrow> (Inl (), s\<lparr>st_next := Some (file\<lparr>mf_bytes := part\<rparr>)\<rparr>)
      | FaultSync \<Rightarrow> (Inl (), s\<lparr>st_next := Some file\<rparr>)
      | FaultRename \<Rightarrow> (Inl (), s\<lparr>st_next := Some file\<rparr>)
      | FaultDirSync \<Rightarrow> (Inl (), s\<lparr>st_main := Some file, st_next := None\<rparr>)
      | _ \<Rightarrow> (Inr (), s\<lparr>st_main := Some file, st_next := None\<rparr>))"

lemma publish_ok: "publish f file s = (Inr u, s') \<Longrightarrow> st_main s' = Some file \<and> st_next s' = None"
  by (auto simp: publish_def split: if_splits fault.splits)

lemma publish_main: "publish f file s = (r, s') \<Longrightarrow> st_main s' = st_main s \<or> st_main s' = Some file"
  by (auto simp: publish_def split: if_splits fault.splits)

lemma publish_clean: "st_next s = None \<Longrightarrow> publish NoFault file s = (Inr (), s\<lparr>st_main := Some file, st_next := None\<rparr>)"
  by (simp add: publish_def)

section \<open>The contract of a durable store\<close>

locale durable_store =
  fixes load :: "'s \<Rightarrow> 'v option"
    and save :: "'e \<Rightarrow> 'v \<Rightarrow> 's \<Rightarrow> ('x + unit) \<times> 's"
    and usable :: "'v \<Rightarrow> bool"
    and ready :: "'s \<Rightarrow> bool"
  assumes save_ready: "ready s \<Longrightarrow> save e v s = (r, s') \<Longrightarrow> ready s'"
    and save_load: "ready s \<Longrightarrow> usable v \<Longrightarrow> save e v s = (Inr u, s') \<Longrightarrow> load s' = Some v"
    and save_atomic: "ready s \<Longrightarrow> usable v \<Longrightarrow> save e v s = (r, s') \<Longrightarrow>
      load s' = load s \<or> load s' = Some v"
begin

text \<open>Whatever writes fail, the store holds what it held or a value some write offered.\<close>

lemma run_load:
  assumes "ready s" "\<forall>(e, v) \<in> set xs. usable v"
  shows "ready (foldl (\<lambda>s (e, v). snd (save e v s)) s xs) \<and>
    (load (foldl (\<lambda>s (e, v). snd (save e v s)) s xs) = load s \<or>
     load (foldl (\<lambda>s (e, v). snd (save e v s)) s xs) \<in> Some ` snd ` set xs)"
  using assms
proof (induction xs arbitrary: s)
  case (Cons x xs)
  obtain e v r s' where x: "x = (e, v)" and s': "save e v s = (r, s')"
    by (metis surj_pair)
  have "ready s'" using save_ready Cons.prems(1) s' by blast
  moreover have "load s' = load s \<or> load s' = Some v"
    using save_atomic[OF Cons.prems(1) _ s'] Cons.prems(2) by (simp add: x)
  ultimately show ?case using Cons.IH[of s'] Cons.prems(2) s' by (auto simp: x)
qed simp

end

end
