(* ===== verification/Launch_Authority.thy ===== *)
theory Launch_Authority
  imports Authority_Runs Staged_File
begin

text \<open>
  The root-owned launch authority of a host
  (\<open>crates/sandbox-supervisor/src/launch_authority.rs\<close>): a directory with a lock file, an
  activation record \<open>launch.required\<close>, the state \<open>launch.json\<close> and its staging file
  \<open>launch.next\<close>. The directory is \<open>launch_dir\<close>; every operation takes the gate (a file
  lock, exclusive or shared, whose outcome is part of \<open>gate_env\<close>), loads the ledger, and a
  mutation saves it. The guard an operation returns is the identity of the locked file.
\<close>

section \<open>State\<close>

datatype launch_error =
    LockContended
  | LaunchFailed
  | LaunchLedger auth_error

definition is_lock_contended :: "launch_error \<Rightarrow> bool" where
  "is_lock_contended e = (e = LockContended)"

record required =
  rq_version :: nat
  rq_host :: host_id
  rq_lock_device :: nat
  rq_lock_inode :: nat

record saved =
  sv_version :: nat
  sv_host :: host_id
  sv_epoch :: int
  sv_ledger_json :: string

record checkpoint =
  ck_host :: host_id
  ck_epoch :: int
  ck_through :: nat

record authority_file =
  af_host :: host_id
  af_minimum_epoch :: int
  af_minimum_through :: nat

text \<open>\<open>ld_others\<close> counts the directory entries that are none of the four files.\<close>

record launch_dir =
  ld_lock :: "meta_file option"
  ld_required :: "meta_file option"
  ld_files :: staged
  ld_others :: nat

text \<open>The JSON codecs of the four types the store reads and writes.\<close>

record launch_json =
  lj_required :: "required json"
  lj_saved :: "saved json"
  lj_ledger :: "ledger json"
  lj_intent :: "intent json"

datatype flock = Locked | WouldBlock | LockFailed

text \<open>
  What the system answers while the gate is taken: whether the root directory is private, the
  outcome of \<open>flock\<close>, the file a creating \<open>open\<close> makes, and the identity of the file the
  lock path names afterwards.
\<close>

record gate_env =
  ge_root :: bool
  ge_flock :: "bool \<Rightarrow> flock"
  ge_new_lock :: meta_file
  ge_path_id :: "(nat \<times> nat) option"

text \<open>What the system answers to a save: the failing step and the new file's identity.\<close>

record save_env =
  se_fault :: fault
  se_id :: "nat \<times> nat"

definition launch_max_bytes :: nat where
  "launch_max_bytes = authority_max_bytes * 2 + 4096"

type_synonym 'a launch = "(launch_dir, launch_error, 'a) proc"

section \<open>Reading and locking\<close>

definition launch_read :: "'a json \<Rightarrow> nat \<Rightarrow> meta_file option \<Rightarrow> launch_error + 'a" where
  "launch_read J limit f =
     rbind (ok_or LaunchFailed f) (\<lambda>f.
     rbind (ensure (private_file f) LaunchFailed) (\<lambda>_.
     rbind (ensure (length (mf_bytes f) \<le> limit) LaunchFailed) (\<lambda>_.
     ok_or LaunchFailed (from_slice J (mf_bytes f)))))"

definition launch_active :: "launch_dir \<Rightarrow> bool" where
  "launch_active d =
     (ld_required d \<noteq> None \<or> st_main (ld_files d) \<noteq> None \<or> st_next (ld_files d) \<noteq> None)"

definition open_lock :: "gate_env \<Rightarrow> meta_file launch" where
  "open_lock env =
     sbind (sread (\<lambda>d. d)) (\<lambda>d.
     case ld_lock d of
       Some f \<Rightarrow> sret f
     | None \<Rightarrow>
         if launch_active d then sfail LaunchFailed
         else sbind (swrite (ld_lock_update (\<lambda>_. Some (ge_new_lock env)))) (\<lambda>_.
              sret (ge_new_lock env)))"

definition launch_gate :: "launch_json \<Rightarrow> gate_env \<Rightarrow> bool \<Rightarrow> meta_file launch" where
  "launch_gate L env exclusive =
     sbind (sensure (ge_root env) LaunchFailed) (\<lambda>_.
     sbind (open_lock env) (\<lambda>f.
     sbind (sensure (private_file f) LaunchFailed) (\<lambda>_.
     sbind (slift (case ge_flock env exclusive of
                     Locked \<Rightarrow> Inr ()
                   | WouldBlock \<Rightarrow> Inl LockContended
                   | LockFailed \<Rightarrow> Inl LaunchFailed)) (\<lambda>_.
     sbind (sensure (ge_path_id env = Some (mf_id f)) LaunchFailed) (\<lambda>_.
     sbind (sread ld_required) (\<lambda>req.
     case req of
       None \<Rightarrow> sret f
     | Some _ \<Rightarrow>
         sbind (slift (launch_read (lj_required L) 4096 req)) (\<lambda>r.
         sbind (sensure (rq_version r = 1 \<and> (rq_lock_device r, rq_lock_inode r) = mf_id f) LaunchFailed) (\<lambda>_.
         sret f))))))))"

definition launch_load ::
    "crates \<Rightarrow> launch_json \<Rightarrow> authority_file \<Rightarrow> launch_dir \<Rightarrow> launch_error + int \<times> ledger" where
  "launch_load C L a d =
     rbind (launch_read (lj_required L) 4096 (ld_required d)) (\<lambda>r.
     rbind (ensure (rq_version r = 1 \<and> rq_host r = af_host a) LaunchFailed) (\<lambda>_.
     rbind (launch_read (lj_saved L) launch_max_bytes (st_main (ld_files d))) (\<lambda>s.
     rbind (ensure (sv_version s = 1 \<and> sv_host s = af_host a \<and> af_minimum_epoch a \<le> sv_epoch s)
              LaunchFailed) (\<lambda>_.
     rbind (map_err LaunchLedger (ledger_decode C (lj_ledger L) (as_bytes (sv_ledger_json s))
              (af_host a) (af_minimum_through a))) (\<lambda>l.
     Inr (sv_epoch s, l))))))"

section \<open>Saving\<close>

definition saved_bytes :: "launch_json \<Rightarrow> authority_file \<Rightarrow> int \<Rightarrow> ledger \<Rightarrow> launch_error + bytes" where
  "saved_bytes L a epoch l =
     rbind (map_err LaunchLedger (ledger_encode (lj_ledger L) l)) (\<lambda>b.
     rbind (ok_or LaunchFailed (from_utf8 b)) (\<lambda>text.
     rbind (ok_or LaunchFailed (to_vec (lj_saved L)
       \<lparr>sv_version = 1, sv_host = af_host a, sv_epoch = epoch, sv_ledger_json = text\<rparr>)) (\<lambda>bytes.
     rbind (ensure (length bytes \<le> launch_max_bytes) LaunchFailed) (\<lambda>_.
     Inr bytes))))"

definition set_files :: "staged \<Rightarrow> launch_dir \<Rightarrow> launch_dir" where
  "set_files s = ld_files_update (\<lambda>_. s)"

text \<open>A leftover staging file is removed only when the main record is valid.\<close>

definition clear_next :: "crates \<Rightarrow> launch_json \<Rightarrow> authority_file \<Rightarrow> save_env \<Rightarrow> unit launch" where
  "clear_next C L a env =
     sbind (sread (\<lambda>d. d)) (\<lambda>d.
     case st_next (ld_files d) of
       None \<Rightarrow> sret ()
     | Some old \<Rightarrow>
         sbind (slift (rbind (launch_load C L a d) (\<lambda>_. Inr ()))) (\<lambda>_.
         sbind (sensure (private_file old) LaunchFailed) (\<lambda>_.
         sbind (sensure (se_fault env \<noteq> FaultRemove) LaunchFailed) (\<lambda>_.
         swrite (ld_files_update (st_next_update (\<lambda>_. None)))))))"

definition publish_state :: "fault \<Rightarrow> meta_file \<Rightarrow> unit launch" where
  "publish_state f file d =
     (case publish f file (ld_files d) of
        (Inl _, s) \<Rightarrow> (Inl LaunchFailed, set_files s d)
      | (Inr _, s) \<Rightarrow> (Inr (), set_files s d))"

definition launch_save ::
    "crates \<Rightarrow> launch_json \<Rightarrow> authority_file \<Rightarrow> save_env \<Rightarrow> int \<Rightarrow> ledger \<Rightarrow> unit launch" where
  "launch_save C L a env epoch l =
     sbind (slift (saved_bytes L a epoch l)) (\<lambda>bytes.
     sbind (clear_next C L a env) (\<lambda>_.
     publish_state (se_fault env) (new_file bytes (se_id env))))"

section \<open>Operations\<close>

definition sync_dir :: "save_env \<Rightarrow> unit launch" where
  "sync_dir env = sensure (se_fault env \<noteq> FaultDirSync) LaunchFailed"

text \<open>
  The activation record: \<open>create_new\<close>, the write, the sync of the file and of the directory.
  A step that fails leaves what the steps before it made.
\<close>

definition create_required :: "launch_json \<Rightarrow> save_env \<Rightarrow> host_id \<Rightarrow> meta_file \<Rightarrow> unit launch" where
  "create_required L renv h lock =
     sbind (sensure (se_fault renv \<noteq> FaultCreate) LaunchFailed) (\<lambda>_.
     sbind (swrite (ld_required_update (\<lambda>_. Some (new_file [] (se_id renv))))) (\<lambda>_.
     sbind (slift (ok_or LaunchFailed (to_vec (lj_required L)
        \<lparr>rq_version = 1, rq_host = h, rq_lock_device = fst (mf_id lock),
         rq_lock_inode = snd (mf_id lock)\<rparr>))) (\<lambda>b.
     case se_fault renv of
       FaultWrite part \<Rightarrow>
         sbind (swrite (ld_required_update (\<lambda>_. Some (new_file part (se_id renv))))) (\<lambda>_. sfail LaunchFailed)
     | f \<Rightarrow>
         sbind (swrite (ld_required_update (\<lambda>_. Some (new_file b (se_id renv))))) (\<lambda>_.
         sensure (f \<noteq> FaultSync \<and> f \<noteq> FaultDirSync) LaunchFailed))))"

definition launch_initialize ::
    "crates \<Rightarrow> launch_json \<Rightarrow> gate_env \<Rightarrow> save_env \<Rightarrow> host_id \<Rightarrow> int \<Rightarrow> save_env \<Rightarrow> authority_file launch"
where
  "launch_initialize C L env senv h epoch renv =
     sbind (sensure (0 < epoch) LaunchFailed) (\<lambda>_.
     sbind (slift (map_err LaunchLedger (ledger_new C h))) (\<lambda>l.
     sbind (launch_gate L env True) (\<lambda>lock.
     sbind (sread (\<lambda>d. d)) (\<lambda>d.
     sbind (sensure (\<not> launch_active d \<and> ld_others d = 0) LaunchFailed) (\<lambda>_.
     sbind (create_required L renv h lock) (\<lambda>_.
     let a = \<lparr>af_host = h, af_minimum_epoch = epoch, af_minimum_through = 0\<rparr> in
     sbind (launch_save C L a senv epoch l) (\<lambda>_.
     sret a)))))))"

definition launch_open ::
    "crates \<Rightarrow> launch_json \<Rightarrow> gate_env \<Rightarrow> host_id \<Rightarrow> int \<Rightarrow> nat \<Rightarrow> authority_file launch" where
  "launch_open C L env h minimum_epoch minimum_through =
     sbind (sensure (0 < minimum_epoch) LaunchFailed) (\<lambda>_.
     let a = \<lparr>af_host = h, af_minimum_epoch = minimum_epoch, af_minimum_through = minimum_through\<rparr> in
     sbind (launch_gate L env False) (\<lambda>_.
     sbind (sread (launch_load C L a)) (\<lambda>r.
     sbind (slift r) (\<lambda>_.
     sret a))))"

definition launch_load_proc :: "crates \<Rightarrow> launch_json \<Rightarrow> authority_file \<Rightarrow> (int \<times> ledger) launch" where
  "launch_load_proc C L a = sbind (sread (launch_load C L a)) slift"

definition launch_update ::
    "crates \<Rightarrow> launch_json \<Rightarrow> authority_file \<Rightarrow> gate_env \<Rightarrow> save_env \<Rightarrow> int \<Rightarrow>
     (ledger \<Rightarrow> auth_error + ledger) \<Rightarrow> unit launch" where
  "launch_update C L a env senv reporting_epoch change =
     sbind (launch_gate L env True) (\<lambda>_.
     sbind (launch_load_proc C L a) (\<lambda>(epoch, l).
     sbind (sensure (epoch = reporting_epoch) LaunchFailed) (\<lambda>_.
     sbind (slift (map_err LaunchLedger (change l))) (\<lambda>l'.
     launch_save C L a senv epoch l'))))"

definition retained_checkpoint ::
    "crates \<Rightarrow> launch_json \<Rightarrow> authority_file \<Rightarrow> gate_env \<Rightarrow> save_env \<Rightarrow> checkpoint launch" where
  "retained_checkpoint C L a env senv =
     sbind (launch_gate L env False) (\<lambda>_.
     sbind (launch_load_proc C L a) (\<lambda>(epoch, l).
     sbind (sync_dir senv) (\<lambda>_.
     sret \<lparr>ck_host = af_host a, ck_epoch = epoch, ck_through = ledger_through l\<rparr>)))"

definition launch_checkpoint ::
    "crates \<Rightarrow> launch_json \<Rightarrow> authority_file \<Rightarrow> gate_env \<Rightarrow> save_env \<Rightarrow> int \<Rightarrow> checkpoint launch" where
  "launch_checkpoint C L a env senv reporting_epoch =
     sbind (launch_gate L env False) (\<lambda>_.
     sbind (launch_load_proc C L a) (\<lambda>(epoch, l).
     sbind (sensure (epoch = reporting_epoch) LaunchFailed) (\<lambda>_.
     sbind (sync_dir senv) (\<lambda>_.
     sret \<lparr>ck_host = af_host a, ck_epoch = epoch, ck_through = ledger_through l\<rparr>))))"

definition launch_register ::
    "crates \<Rightarrow> launch_json \<Rightarrow> authority_file \<Rightarrow> gate_env \<Rightarrow> save_env \<Rightarrow> int \<Rightarrow> permit list \<Rightarrow> checkpoint launch"
where
  "launch_register C L a env senv reporting_epoch permits =
     sbind (launch_gate L env True) (\<lambda>_.
     sbind (launch_load_proc C L a) (\<lambda>(epoch, l).
     sbind (sensure (epoch = reporting_epoch) LaunchFailed) (\<lambda>_.
     sbind (sensure (list_all (\<lambda>p. permit_original_epoch p \<le> reporting_epoch) permits) LaunchFailed) (\<lambda>_.
     sbind (slift (map_err LaunchLedger (ledger_register C (lj_ledger L) l permits))) (\<lambda>l'.
     sbind (launch_save C L a senv epoch l') (\<lambda>_.
     sret \<lparr>ck_host = af_host a, ck_epoch = epoch, ck_through = ledger_through l'\<rparr>))))))"

definition launch_advance_epoch ::
    "crates \<Rightarrow> launch_json \<Rightarrow> authority_file \<Rightarrow> gate_env \<Rightarrow> save_env \<Rightarrow> int \<Rightarrow> int \<Rightarrow> unit launch" where
  "launch_advance_epoch C L a env senv previous_epoch next_epoch =
     sbind (launch_gate L env True) (\<lambda>_.
     sbind (launch_load_proc C L a) (\<lambda>(epoch, l).
     sbind (sensure (epoch = previous_epoch \<and> epoch < next_epoch) LaunchFailed) (\<lambda>_.
     launch_save C L a senv next_epoch l)))"

definition launch_fence ::
    "crates \<Rightarrow> launch_json \<Rightarrow> authority_file \<Rightarrow> gate_env \<Rightarrow> save_env \<Rightarrow> int \<Rightarrow> permit \<Rightarrow> operation_id \<Rightarrow> unit launch"
where
  "launch_fence C L a env senv epoch p retirement =
     launch_update C L a env senv epoch (\<lambda>l. ledger_fence C l p retirement)"

definition launch_complete ::
    "crates \<Rightarrow> launch_json \<Rightarrow> authority_file \<Rightarrow> gate_env \<Rightarrow> save_env \<Rightarrow> int \<Rightarrow> intent \<Rightarrow> unit launch" where
  "launch_complete C L a env senv epoch i =
     launch_update C L a env senv epoch (\<lambda>l. ledger_complete C (lj_intent L) l i)"

definition launch_completed ::
    "crates \<Rightarrow> launch_json \<Rightarrow> authority_file \<Rightarrow> gate_env \<Rightarrow> save_env \<Rightarrow> int \<Rightarrow> intent \<Rightarrow> meta_file launch" where
  "launch_completed C L a env senv epoch i =
     sbind (launch_gate L env False) (\<lambda>lock.
     sbind (launch_load_proc C L a) (\<lambda>(current, l).
     sbind (sensure (current = epoch) LaunchFailed) (\<lambda>_.
     sbind (slift (map_err LaunchLedger (ledger_completed C (lj_intent L) l i))) (\<lambda>_.
     sbind (sync_dir senv) (\<lambda>_.
     sret lock)))))"

definition launch_forget ::
    "crates \<Rightarrow> launch_json \<Rightarrow> authority_file \<Rightarrow> gate_env \<Rightarrow> save_env \<Rightarrow> int \<Rightarrow> intent \<Rightarrow> unit launch" where
  "launch_forget C L a env senv epoch i =
     launch_update C L a env senv epoch (\<lambda>l. ledger_forget C (lj_intent L) l i)"

section \<open>Retirement guard\<close>

datatype retirement_phase = PhaseFenced | PhaseComplete | PhaseClosed

record retirement_guard =
  rg_store :: authority_file
  rg_ledger :: ledger
  rg_epoch :: int
  rg_intent :: intent
  rg_phase :: retirement_phase

definition retirement_phase_of ::
    "crates \<Rightarrow> intent json \<Rightarrow> ledger \<Rightarrow> intent \<Rightarrow> launch_error + retirement_phase" where
  "retirement_phase_of C K l i =
     (case ledger_state C l (intent_permit i) of
        Inr (Fenced r) \<Rightarrow> if r = intent_retirement i then Inr PhaseFenced else Inl LaunchFailed
      | Inr (Complete _ _) \<Rightarrow>
          rbind (map_err LaunchLedger (ledger_completed C K l i)) (\<lambda>_. Inr PhaseComplete)
      | Inl AuthClosed \<Rightarrow> Inr PhaseClosed
      | _ \<Rightarrow> Inl LaunchFailed)"

definition launch_retirement_guard ::
    "crates \<Rightarrow> launch_json \<Rightarrow> authority_file \<Rightarrow> gate_env \<Rightarrow> save_env \<Rightarrow> int \<Rightarrow> intent \<Rightarrow> retirement_guard launch"
where
  "launch_retirement_guard C L a env senv epoch i =
     sbind (slift (map_err (\<lambda>_. LaunchFailed) (intent_validate C i))) (\<lambda>_.
     sbind (sensure (\<not> intent_simulated i \<and> permit_original_epoch (intent_permit i) \<le> epoch) LaunchFailed) (\<lambda>_.
     sbind (launch_gate L env True) (\<lambda>_.
     sbind (launch_load_proc C L a) (\<lambda>(current, l).
     sbind (sensure (current = epoch) LaunchFailed) (\<lambda>_.
     sbind (slift (retirement_phase_of C (lj_intent L) l i)) (\<lambda>phase.
     sbind (sync_dir senv) (\<lambda>_.
     sret \<lparr>rg_store = a, rg_ledger = l, rg_epoch = epoch, rg_intent = i, rg_phase = phase\<rparr>)))))))"

text \<open>The guard keeps its own copy of the ledger, so a failed step leaves the new copy.\<close>

definition guard_step ::
    "crates \<Rightarrow> launch_json \<Rightarrow> save_env \<Rightarrow> (ledger \<Rightarrow> auth_error + ledger) \<Rightarrow> retirement_phase \<Rightarrow>
     retirement_guard \<Rightarrow> launch_dir \<Rightarrow> (launch_error + unit) \<times> retirement_guard \<times> launch_dir"
where
  "guard_step C L senv change phase g d =
     (case change (rg_ledger g) of
        Inl e \<Rightarrow> (Inl (LaunchLedger e), g, d)
      | Inr l \<Rightarrow>
          (let g = g\<lparr>rg_ledger := l\<rparr> in
           case launch_save C L (rg_store g) senv (rg_epoch g) l d of
             (Inl e, d') \<Rightarrow> (Inl e, g, d')
           | (Inr _, d') \<Rightarrow> (Inr (), g\<lparr>rg_phase := phase\<rparr>, d')))"

definition guard_complete ::
    "crates \<Rightarrow> launch_json \<Rightarrow> save_env \<Rightarrow> retirement_guard \<Rightarrow> launch_dir \<Rightarrow>
     (launch_error + unit) \<times> retirement_guard \<times> launch_dir" where
  "guard_complete C L senv g =
     guard_step C L senv (\<lambda>l. ledger_complete C (lj_intent L) l (rg_intent g)) PhaseComplete g"

definition guard_forget ::
    "crates \<Rightarrow> launch_json \<Rightarrow> save_env \<Rightarrow> retirement_guard \<Rightarrow> launch_dir \<Rightarrow>
     (launch_error + unit) \<times> retirement_guard \<times> launch_dir" where
  "guard_forget C L senv g =
     guard_step C L senv (\<lambda>l. ledger_forget C (lj_intent L) l (rg_intent g)) PhaseClosed g"

section \<open>Decisions\<close>

definition authorize_registered_allocation ::
    "crates \<Rightarrow> launch_json \<Rightarrow> gate_env \<Rightarrow> host_id \<Rightarrow> int \<Rightarrow> nat \<Rightarrow> allocation_id \<Rightarrow> (permit \<times> meta_file) launch"
where
  "authorize_registered_allocation C L env h epoch minimum_through allocation =
     sbind (launch_gate L env False) (\<lambda>lock.
     let a = \<lparr>af_host = h, af_minimum_epoch = epoch, af_minimum_through = minimum_through\<rparr> in
     sbind (launch_load_proc C L a) (\<lambda>(current, l).
     sbind (sensure (current = epoch) LaunchFailed) (\<lambda>_.
     sbind (slift (map_err LaunchLedger (ledger_active_allocation C l allocation))) (\<lambda>p.
     sbind (sensure (permit_original_epoch p = epoch) LaunchFailed) (\<lambda>_.
     sret (p, lock))))))"

definition launch_authorize :: "crates \<Rightarrow> launch_json \<Rightarrow> gate_env \<Rightarrow> permit option \<Rightarrow> meta_file launch" where
  "launch_authorize C L env permit =
     sbind (launch_gate L env False) (\<lambda>lock.
     case permit of
       Some p \<Rightarrow>
         sbind (launch_load_proc C L \<lparr>af_host = permit_host p, af_minimum_epoch = permit_original_epoch p,
                  af_minimum_through = permit_serial p\<rparr>) (\<lambda>(epoch, l).
         sbind (sensure (epoch = permit_original_epoch p) LaunchFailed) (\<lambda>_.
         sbind (slift (map_err LaunchLedger (ledger_authorize C l p))) (\<lambda>_.
         sret lock)))
     | None \<Rightarrow>
         sbind (sread (\<lambda>d. d)) (\<lambda>d.
         sbind (sensure (\<not> launch_active d) LaunchFailed) (\<lambda>_.
         sret lock)))"

definition authorize_cleanup ::
    "crates \<Rightarrow> launch_json \<Rightarrow> gate_env \<Rightarrow> permit option \<Rightarrow> (meta_file \<times> bool) launch" where
  "authorize_cleanup C L env permit =
     sbind (launch_gate L env False) (\<lambda>lock.
     case permit of
       Some p \<Rightarrow>
         sbind (launch_load_proc C L \<lparr>af_host = permit_host p, af_minimum_epoch = permit_original_epoch p,
                  af_minimum_through = permit_serial p\<rparr>) (\<lambda>(_, l).
         sbind (slift (map_err LaunchLedger (ledger_state C l p))) (\<lambda>s.
         case s of
           Active \<Rightarrow> sret (lock, True)
         | Fenced _ \<Rightarrow> sret (lock, False)
         | _ \<Rightarrow> sfail LaunchFailed))
     | None \<Rightarrow>
         sbind (sread (\<lambda>d. d)) (\<lambda>d.
         sbind (sensure (\<not> launch_active d) LaunchFailed) (\<lambda>_.
         sret (lock, True))))"

definition authorize_deletion ::
    "crates \<Rightarrow> launch_json \<Rightarrow> gate_env \<Rightarrow> int \<Rightarrow> nat \<Rightarrow> intent \<Rightarrow> meta_file launch" where
  "authorize_deletion C L env epoch minimum_through i =
     sbind (slift (map_err (\<lambda>_. LaunchFailed) (intent_validate C i))) (\<lambda>_.
     sbind (sensure (\<not> intent_simulated i \<and> permit_original_epoch (intent_permit i) \<le> epoch) LaunchFailed) (\<lambda>_.
     sbind (launch_gate L env True) (\<lambda>lock.
     sbind (launch_load_proc C L \<lparr>af_host = permit_host (intent_permit i), af_minimum_epoch = epoch,
              af_minimum_through = minimum_through\<rparr>) (\<lambda>(current, l).
     sbind (sensure (current = epoch) LaunchFailed) (\<lambda>_.
     sbind (slift (map_err LaunchLedger (ledger_state C l (intent_permit i)))) (\<lambda>s.
     sbind (sensure (s = Fenced (intent_retirement i)) LaunchFailed) (\<lambda>_.
     sret lock)))))))"

definition authorize_retirement ::
    "crates \<Rightarrow> launch_json \<Rightarrow> gate_env \<Rightarrow> host_id \<Rightarrow> int \<Rightarrow> nat \<Rightarrow> intent \<Rightarrow> meta_file launch" where
  "authorize_retirement C L env h epoch minimum_through i =
     sbind (slift (map_err (\<lambda>_. LaunchFailed) (intent_validate C i))) (\<lambda>_.
     sbind (sensure (permit_host (intent_permit i) = h \<and> permit_original_epoch (intent_permit i) \<le> epoch)
              LaunchFailed) (\<lambda>_.
     sbind (launch_gate L env False) (\<lambda>lock.
     sbind (launch_load_proc C L \<lparr>af_host = h, af_minimum_epoch = epoch,
              af_minimum_through = minimum_through\<rparr>) (\<lambda>(current, l).
     sbind (sensure (current = epoch) LaunchFailed) (\<lambda>_.
     sbind (slift (map_err LaunchLedger (ledger_state C l (intent_permit i)))) (\<lambda>s.
     case s of
       Active \<Rightarrow> sret lock
     | Fenced r \<Rightarrow> if r = intent_retirement i then sret lock else sfail LaunchFailed
     | _ \<Rightarrow> sfail LaunchFailed))))))"

end
