(* ===== verification/Launch_Laws.thy ===== *)
theory Launch_Laws
  imports Launch_Authority
begin

text \<open>
  What the launch authority promises on disk. \<open>disk_view\<close> is the abstract content of the
  directory: the epoch and the ledger a reader with no lower bounds would load. Every
  mutation, under every write fault, leaves the view or replaces it by the transition of the
  ledger it names; an acknowledged mutation has replaced it. A permit that is registered and
  denied is denied by every later directory.
\<close>

section \<open>The abstract directory\<close>

definition activated :: "launch_json \<Rightarrow> host_id \<Rightarrow> launch_dir \<Rightarrow> bool" where
  "activated L h d =
     (case launch_read (lj_required L) 4096 (ld_required d) of
        Inl _ \<Rightarrow> False
      | Inr r \<Rightarrow> rq_version r = 1 \<and> rq_host r = h)"

definition disk_view :: "crates \<Rightarrow> launch_json \<Rightarrow> host_id \<Rightarrow> launch_dir \<Rightarrow> (int \<times> ledger) option" where
  "disk_view C L h d =
     (if activated L h d
      then (case launch_read (lj_saved L) launch_max_bytes (st_main (ld_files d)) of
              Inl _ \<Rightarrow> None
            | Inr s \<Rightarrow>
                if sv_version s = 1 \<and> sv_host s = h
                then (case ledger_decode C (lj_ledger L) (as_bytes (sv_ledger_json s)) h 0 of
                        Inl _ \<Rightarrow> None
                      | Inr l \<Rightarrow> Some (sv_epoch s, l))
                else None)
      else None)"

definition launch_codecs :: "launch_json \<Rightarrow> bool" where
  "launch_codecs L = (json_faithful (lj_saved L) \<and> json_faithful (lj_ledger L))"

lemma disk_view_Some:
  "disk_view C L h d = Some (e, l) \<Longrightarrow> activated L h d \<and> ledger_ok C l \<and> ledger_host l = h"
  by (auto simp: disk_view_def ledger_decode_iff split: if_splits sum.splits)

lemma decode_minimum:
  "ledger_decode C J b h m = Inr l \<longleftrightarrow> ledger_decode C J b h 0 = Inr l \<and> m \<le> ledger_through l"
  by (auto simp: ledger_decode_iff)

lemma launch_load_iff:
  "launch_load C L a d = Inr (e, l) \<longleftrightarrow>
     disk_view C L (af_host a) d = Some (e, l) \<and> af_minimum_epoch a \<le> e \<and>
     af_minimum_through a \<le> ledger_through l"
  unfolding launch_load_def disk_view_def activated_def
  by (auto simp: decode_minimum[of _ _ _ _ "af_minimum_through a"] split: sum.splits if_splits)

lemma disk_view_host: "disk_view C L h d = Some v \<Longrightarrow> disk_view C L h' d = Some w \<Longrightarrow> h' = h \<and> v = w"
  by (auto simp: disk_view_def activated_def split: if_splits sum.splits)

lemma disk_view_cong:
  "ld_required d' = ld_required d \<Longrightarrow> st_main (ld_files d') = st_main (ld_files d) \<Longrightarrow>
    disk_view C L h d' = disk_view C L h d"
  by (simp add: disk_view_def activated_def)

section \<open>The gate and the save\<close>

lemma open_lock_preserves [preserves_intro]:
  "preserves (\<lambda>d. ld_required d = R \<and> ld_files d = F) (open_lock env)"
  unfolding open_lock_def by (intro preserves_intro) (simp_all add: preserves_def)

lemma launch_gate_preserves:
  "preserves (\<lambda>d. ld_required d = R \<and> ld_files d = F) (launch_gate L env x)"
  unfolding launch_gate_def
  by (intro preserves_intro)

lemma launch_gate_frame:
  "launch_gate L env x d = (r, d') \<Longrightarrow> ld_required d' = ld_required d \<and> ld_files d' = ld_files d"
  using preservesD[OF launch_gate_preserves, of d "ld_required d" "ld_files d" L env x] by simp

lemma launch_gate_view: "launch_gate L env x d = (r, d') \<Longrightarrow> disk_view C L h d' = disk_view C L h d"
  using launch_gate_frame[of L env x d r d'] by (intro disk_view_cong) simp_all

lemma clear_next_frame:
  "clear_next C L a env d = (r, d') \<Longrightarrow>
     ld_required d' = ld_required d \<and> st_main (ld_files d') = st_main (ld_files d)"
  unfolding clear_next_def
  by (auto simp: sbind_def split: prod.splits sum.splits option.splits)

lemma publish_state_cases:
  assumes "publish_state f nf d = (r, d')"
  shows "ld_required d' = ld_required d"
    and "st_main (ld_files d') = st_main (ld_files d) \<or> st_main (ld_files d') = Some nf"
    and "r = Inr u \<Longrightarrow> st_main (ld_files d') = Some nf"
  using assms publish_main[of f nf "ld_files d"] publish_ok[of f nf "ld_files d"]
  by (auto simp: publish_state_def set_files_def split: prod.splits sum.splits)

lemma saved_view:
  assumes codecs: "launch_codecs L" and ok: "ledger_ok C l" "ledger_host l = af_host a"
    and act: "activated L (af_host a) d" and bytes: "saved_bytes L a e l = Inr b"
    and main: "st_main (ld_files d) = Some (new_file b i)"
  shows "disk_view C L (af_host a) d = Some (e, l)"
proof -
  from bytes obtain lb body where enc: "ledger_encode (lj_ledger L) l = Inr lb" "from_utf8 lb = Some body"
    and vec: "to_vec (lj_saved L) \<lparr>sv_version = 1, sv_host = af_host a, sv_epoch = e, sv_ledger_json = body\<rparr> = Some b"
    and len: "length b \<le> launch_max_bytes"
    by (auto simp: saved_bytes_def)
  have lb: "to_vec (lj_ledger L) l = Some lb" "length lb \<le> authority_max_bytes"
    using enc(1) by (auto simp: ledger_encode_def)
  have "ledger_decode C (lj_ledger L) (as_bytes body) (af_host a) 0 = Inr l"
    using lb ok codecs from_utf8_bytes[OF enc(2)]
    by (auto simp: ledger_decode_iff launch_codecs_def dest: json_faithfulD)
  moreover have "launch_read (lj_saved L) launch_max_bytes (st_main (ld_files d)) =
      Inr \<lparr>sv_version = 1, sv_host = af_host a, sv_epoch = e, sv_ledger_json = body\<rparr>"
    using vec len codecs by (auto simp: launch_read_def main launch_codecs_def dest: json_faithfulD)
  ultimately show ?thesis using act by (simp add: disk_view_def)
qed

lemma launch_save_cases:
  assumes codecs: "launch_codecs L" and ok: "ledger_ok C l" "ledger_host l = af_host a"
    and act: "activated L (af_host a) d" and save: "launch_save C L a env e l d = (r, d')"
  shows "activated L (af_host a) d'"
    and "disk_view C L (af_host a) d' = disk_view C L (af_host a) d \<or>
         disk_view C L (af_host a) d' = Some (e, l)"
    and "r = Inr () \<Longrightarrow> disk_view C L (af_host a) d' = Some (e, l)"
proof -
  have cases: "(r \<noteq> Inr () \<and> ld_required d' = ld_required d \<and> st_main (ld_files d') = st_main (ld_files d)) \<or>
      (\<exists>b i. saved_bytes L a e l = Inr b \<and> ld_required d' = ld_required d \<and>
        st_main (ld_files d') = Some (new_file b i))"
    using save unfolding launch_save_def
  proof (rule sbindE)
    fix b d1 assume b: "slift (saved_bytes L a e l) d = (Inr b, d1)"
      and rest: "sbind (clear_next C L a env)
        (\<lambda>_. publish_state (se_fault env) (new_file b (se_id env))) d1 = (r, d')"
    then have d1: "d1 = d" "saved_bytes L a e l = Inr b" by simp_all
    from rest show ?thesis
    proof (rule sbindE)
      fix x assume "clear_next C L a env d1 = (Inl x, d')" "r = Inl x"
      then show ?thesis using clear_next_frame d1(1) by blast
    next
      fix u d2 assume c: "clear_next C L a env d1 = (Inr u, d2)"
        and p: "publish_state (se_fault env) (new_file b (se_id env)) d2 = (r, d')"
      from clear_next_frame[OF c] publish_state_cases[OF p] d1 show ?thesis by metis
    qed
  qed auto
  have act': "activated L (af_host a) d'" using cases act by (auto simp: activated_def)
  then show "activated L (af_host a) d'" .
  have "disk_view C L (af_host a) d' = Some (e, l)" if "saved_bytes L a e l = Inr b"
    "st_main (ld_files d') = Some (new_file b i)" for b i
    using saved_view[OF codecs ok act' that] .
  then show "disk_view C L (af_host a) d' = disk_view C L (af_host a) d \<or>
      disk_view C L (af_host a) d' = Some (e, l)"
    and "r = Inr () \<Longrightarrow> disk_view C L (af_host a) d' = Some (e, l)"
    using cases disk_view_cong[of d' d C L "af_host a"] by blast+
qed

text \<open>The directory is a durable store of epochs and well-formed ledgers.\<close>

definition store_save ::
    "crates \<Rightarrow> launch_json \<Rightarrow> authority_file \<Rightarrow> save_env \<Rightarrow> int \<times> ledger \<Rightarrow> unit launch" where
  "store_save C L a env v = launch_save C L a env (fst v) (snd v)"

interpretation launch_store: durable_store "disk_view C L (af_host a)" "store_save C L a"
    "\<lambda>v. launch_codecs L \<and> ledger_ok C (snd v) \<and> ledger_host (snd v) = af_host a"
    "activated L (af_host a)" for C L a
proof (unfold_locales, goal_cases)
  case (1 d env v r d')
  show ?case
  proof -
    have "ld_required d' = ld_required d"
      using 1(2) unfolding store_save_def launch_save_def
      by (auto elim!: sbindE dest!: clear_next_frame publish_state_cases(1))
    then show ?thesis using 1(1) by (simp add: activated_def)
  qed
next
  case (2 d v env u d')
  then show ?case using launch_save_cases(3)[of L C "snd v" a d env "fst v" "Inr ()" d']
    by (simp add: store_save_def)
next
  case (3 d v env r d')
  then show ?case using launch_save_cases(2)[of L C "snd v" a d env "fst v" r d']
    by (simp add: store_save_def)
qed

section \<open>Mutations act on the view\<close>

text \<open>
  The common shape of every mutation: take the gate, load, check, change, save. \<open>after\<close> is
  what follows the load.
\<close>

lemma load_proc_cases:
  assumes "launch_load_proc C L a d = (Inr v, d')"
  shows "d' = d" and "disk_view C L (af_host a) d = Some v"
  using assms by (cases v; auto simp: launch_load_proc_def launch_load_iff)+

lemma load_proc_frame: "launch_load_proc C L a d = (r, d') \<Longrightarrow> d' = d"
  by (auto simp: launch_load_proc_def sbind_def split: sum.splits prod.splits)

lemma gated:
  assumes view: "disk_view C L h d = Some (e, l)"
    and run: "sbind (launch_gate L env x) (\<lambda>_. sbind (launch_load_proc C L a) after) d = (r, d')"
  obtains (denied) er where "r = Inl er" "disk_view C L h d' = Some (e, l)"
    | (loaded) d1 where "af_host a = h" "disk_view C L h d1 = Some (e, l)" "after (e, l) d1 = (r, d')"
  using run
proof (rule sbindE)
  fix er assume "launch_gate L env x d = (Inl er, d')" "r = Inl er"
  then show thesis using denied launch_gate_view[of L env x d _ d' C h] view by auto
next
  fix g d1 assume g: "launch_gate L env x d = (Inr g, d1)"
    and rest: "sbind (launch_load_proc C L a) after d1 = (r, d')"
  have view1: "disk_view C L h d1 = Some (e, l)" using launch_gate_view[OF g] view by simp
  from rest show thesis
  proof (rule sbindE)
    fix er assume "launch_load_proc C L a d1 = (Inl er, d')" "r = Inl er"
    then show thesis using denied view1 load_proc_frame by blast
  next
    fix v d2 assume v: "launch_load_proc C L a d1 = (Inr v, d2)" and af: "after v d2 = (r, d')"
    have "af_host a = h \<and> v = (e, l)"
      using disk_view_host[OF view1 load_proc_cases(2)[OF v]] by auto
    then show thesis using loaded[of d1] view1 af load_proc_cases(1)[OF v] by simp
  qed
qed

lemma save_view:
  assumes "launch_codecs L" "ledger_ok C l'" "ledger_host l' = h" "af_host a = h"
    and "disk_view C L h d = Some (e, l)" "launch_save C L a env e' l' d = (r, d')"
  shows "disk_view C L h d' = Some (e, l) \<or> disk_view C L h d' = Some (e', l')"
    and "r = Inr () \<Longrightarrow> disk_view C L h d' = Some (e', l')"
  using launch_save_cases[of L C l' a d env e' r d'] assms disk_view_Some[OF assms(5)] by auto

lemma launch_update_view:
  assumes codecs: "launch_codecs L" and view: "disk_view C L h d = Some (e, l)"
    and change: "\<And>l'. change l = Inr l' \<Longrightarrow> ledger_ok C l' \<and> ledger_host l' = h"
    and run: "launch_update C L a env senv ep change d = (r, d')"
  shows "disk_view C L h d' = Some (e, l) \<or> (\<exists>l'. change l = Inr l' \<and> disk_view C L h d' = Some (e, l'))"
    and "r = Inr () \<Longrightarrow> e = ep \<and> (\<exists>l'. change l = Inr l' \<and> disk_view C L h d' = Some (e, l'))"
proof -
  have "(disk_view C L h d' = Some (e, l) \<or> (\<exists>l'. change l = Inr l' \<and> disk_view C L h d' = Some (e, l'))) \<and>
    (r = Inr () \<longrightarrow> e = ep \<and> (\<exists>l'. change l = Inr l' \<and> disk_view C L h d' = Some (e, l')))"
    using view run unfolding launch_update_def
  proof (cases rule: gated)
    case (loaded d1)
    show ?thesis
    proof (cases "e = ep \<and> (\<exists>l'. change l = Inr l')")
      case True
      then obtain l' where l': "change l = Inr l'" and ep: "e = ep" by blast
      then have "launch_save C L a senv e l' d1 = (r, d')"
        using loaded(3) by (simp add: sbind_def)
      then show ?thesis
        using save_view[OF codecs _ _ loaded(1) loaded(2)] change[OF l'] l' ep by blast
    next
      case False
      then have "(\<exists>er. r = Inl er) \<and> d' = d1"
        using loaded(3) by (cases "change l") (auto simp: sbind_def ensure_def split: if_splits)
      then show ?thesis using loaded(2) by auto
    qed
  qed auto
  then show "disk_view C L h d' = Some (e, l) \<or> (\<exists>l'. change l = Inr l' \<and> disk_view C L h d' = Some (e, l'))"
    and "r = Inr () \<Longrightarrow> e = ep \<and> (\<exists>l'. change l = Inr l' \<and> disk_view C L h d' = Some (e, l'))"
    by blast+
qed

lemma launch_update_stale:
  assumes codecs: "launch_codecs L" and view: "disk_view C L h d = Some (e, l)"
    and change: "\<And>l'. change l = Inr l' \<Longrightarrow> ledger_ok C l' \<and> ledger_host l' = h"
    and run: "launch_update C L a env senv ep change d = (r, d')" and "e \<noteq> ep"
  shows "disk_view C L h d' = Some (e, l)"
  using view run unfolding launch_update_def
proof (cases rule: gated)
  case (loaded d1)
  then show ?thesis using \<open>e \<noteq> ep\<close> by (auto simp: sbind_def ensure_def split: if_splits)
qed

lemma launch_register_view:
  assumes codecs: "launch_codecs L" and view: "disk_view C L h d = Some (e, l)"
    and run: "launch_register C L a env senv ep ps d = (r, d')"
  shows "disk_view C L h d' = Some (e, l) \<or>
      (e = ep \<and> list_all (\<lambda>p. permit_original_epoch p \<le> ep) ps \<and>
      (\<exists>l'. ledger_register C (lj_ledger L) l ps = Inr l' \<and> disk_view C L h d' = Some (e, l')))"
    and "r = Inr c \<Longrightarrow> e = ep \<and> list_all (\<lambda>p. permit_original_epoch p \<le> ep) ps \<and>
      (\<exists>l'. ledger_register C (lj_ledger L) l ps = Inr l' \<and>
      disk_view C L h d' = Some (e, l') \<and> c = \<lparr>ck_host = h, ck_epoch = e, ck_through = ledger_through l'\<rparr>)"
proof -
  have "(disk_view C L h d' = Some (e, l) \<or>
      (e = ep \<and> list_all (\<lambda>p. permit_original_epoch p \<le> ep) ps \<and>
      (\<exists>l'. ledger_register C (lj_ledger L) l ps = Inr l' \<and> disk_view C L h d' = Some (e, l')))) \<and>
    (\<forall>c. r = Inr c \<longrightarrow> e = ep \<and> list_all (\<lambda>p. permit_original_epoch p \<le> ep) ps \<and>
      (\<exists>l'. ledger_register C (lj_ledger L) l ps = Inr l' \<and>
      disk_view C L h d' = Some (e, l') \<and> c = \<lparr>ck_host = h, ck_epoch = e, ck_through = ledger_through l'\<rparr>))"
    using view run unfolding launch_register_def
  proof (cases rule: gated)
    case (loaded d1)
    show ?thesis
    proof (cases "e = ep \<and> list_all (\<lambda>p. permit_original_epoch p \<le> ep) ps \<and>
        (\<exists>l'. ledger_register C (lj_ledger L) l ps = Inr l')")
      case True
      then obtain l' where l': "ledger_register C (lj_ledger L) l ps = Inr l'"
        and ep: "e = ep" "list_all (\<lambda>p. permit_original_epoch p \<le> ep) ps" by blast
      have ok: "ledger_ok C l'" "ledger_host l' = h"
        using ledger_register_spec(1,2)[OF _ _ l'] disk_view_Some[OF view] codecs
        by (auto simp: launch_codecs_def)
      obtain q where save: "launch_save C L a senv e l' d1 = (q, d')"
        and r: "r = (case q of Inl er \<Rightarrow> Inl er
          | Inr _ \<Rightarrow> Inr \<lparr>ck_host = h, ck_epoch = e, ck_through = ledger_through l'\<rparr>)"
        using loaded(1,3) True l' by (auto simp: sbind_def ensure_def split: prod.splits sum.splits)
      then show ?thesis
        using save_view[OF codecs ok loaded(1,2) save] l' ep by (cases q) auto
    next
      case False
      then have "(\<exists>er. r = Inl er) \<and> d' = d1"
        using loaded(3) by (cases "ledger_register C (lj_ledger L) l ps")
          (auto simp: sbind_def ensure_def split: if_splits)
      then show ?thesis using loaded(2) by auto
    qed
  qed auto
  then show "disk_view C L h d' = Some (e, l) \<or>
      (e = ep \<and> list_all (\<lambda>p. permit_original_epoch p \<le> ep) ps \<and>
      (\<exists>l'. ledger_register C (lj_ledger L) l ps = Inr l' \<and> disk_view C L h d' = Some (e, l')))"
    and "r = Inr c \<Longrightarrow> e = ep \<and> list_all (\<lambda>p. permit_original_epoch p \<le> ep) ps \<and>
      (\<exists>l'. ledger_register C (lj_ledger L) l ps = Inr l' \<and>
      disk_view C L h d' = Some (e, l') \<and> c = \<lparr>ck_host = h, ck_epoch = e, ck_through = ledger_through l'\<rparr>)"
    by blast+
qed

lemma launch_advance_view:
  assumes codecs: "launch_codecs L" and view: "disk_view C L h d = Some (e, l)"
    and run: "launch_advance_epoch C L a env senv prev nxt d = (r, d')"
  shows "disk_view C L h d' = Some (e, l) \<or> (e = prev \<and> e < nxt \<and> disk_view C L h d' = Some (nxt, l))"
    and "r = Inr () \<Longrightarrow> e = prev \<and> e < nxt \<and> disk_view C L h d' = Some (nxt, l)"
proof -
  have "(disk_view C L h d' = Some (e, l) \<or> (e = prev \<and> e < nxt \<and> disk_view C L h d' = Some (nxt, l))) \<and>
    (r = Inr () \<longrightarrow> e = prev \<and> e < nxt \<and> disk_view C L h d' = Some (nxt, l))"
    using view run unfolding launch_advance_epoch_def
  proof (cases rule: gated)
    case (loaded d1)
    show ?thesis
    proof (cases "e = prev \<and> e < nxt")
      case True
      then have "launch_save C L a senv nxt l d1 = (r, d')" using loaded(3) by (simp add: sbind_def)
      then show ?thesis
        using save_view[OF codecs _ _ loaded(1,2)] disk_view_Some[OF view] True by blast
    next
      case False
      then have "(\<exists>er. r = Inl er) \<and> d' = d1"
        using loaded(3) by (auto simp: sbind_def ensure_def split: if_splits)
      then show ?thesis using loaded(2) by auto
    qed
  qed auto
  then show "disk_view C L h d' = Some (e, l) \<or> (e = prev \<and> e < nxt \<and> disk_view C L h d' = Some (nxt, l))"
    and "r = Inr () \<Longrightarrow> e = prev \<and> e < nxt \<and> disk_view C L h d' = Some (nxt, l)" by blast+
qed

section \<open>Runs of the directory\<close>

text \<open>
  A mutation with the store it is called on and what the system answers during it; a retirement
  guard is opened and then used for any steps, each with its own save, while it holds the lock.
  Readers and decisions do not change the view.
\<close>

datatype guard_op = GuardComplete save_env | GuardForget save_env

datatype launch_call =
    CallRegister authority_file gate_env save_env int "permit list"
  | CallFence authority_file gate_env save_env int permit operation_id
  | CallComplete authority_file gate_env save_env int intent
  | CallForget authority_file gate_env save_env int intent
  | CallAdvance authority_file gate_env save_env int int
  | CallGuard authority_file gate_env save_env int intent "guard_op list"
  | CallInitialize gate_env save_env host_id int save_env

fun guard_op_run ::
    "crates \<Rightarrow> launch_json \<Rightarrow> guard_op \<Rightarrow> retirement_guard \<Rightarrow> launch_dir \<Rightarrow>
     (launch_error + unit) \<times> retirement_guard \<times> launch_dir" where
  "guard_op_run C L (GuardComplete s) g = guard_complete C L s g"
| "guard_op_run C L (GuardForget s) g = guard_forget C L s g"

fun guard_ops_run ::
    "crates \<Rightarrow> launch_json \<Rightarrow> guard_op list \<Rightarrow> retirement_guard \<Rightarrow> launch_dir \<Rightarrow> bool \<times> launch_dir" where
  "guard_ops_run C L [] g d = (True, d)"
| "guard_ops_run C L (x # xs) g d =
     (case guard_op_run C L x g d of (r, g', d') \<Rightarrow>
      case guard_ops_run C L xs g' d' of (ok, t) \<Rightarrow> (is_ok r \<and> ok, t))"

definition acknowledged :: "(launch_error + 'a) \<times> launch_dir \<Rightarrow> bool \<times> launch_dir" where
  "acknowledged p = (is_ok (fst p), snd p)"

text \<open>Whether the call is acknowledged, and the directory it leaves.\<close>

definition launch_do :: "crates \<Rightarrow> launch_json \<Rightarrow> launch_call \<Rightarrow> launch_dir \<Rightarrow> bool \<times> launch_dir" where
  "launch_do C L x d =
     (case x of
        CallRegister a g s e ps \<Rightarrow> acknowledged (launch_register C L a g s e ps d)
      | CallFence a g s e p r \<Rightarrow> acknowledged (launch_fence C L a g s e p r d)
      | CallComplete a g s e i \<Rightarrow> acknowledged (launch_complete C L a g s e i d)
      | CallForget a g s e i \<Rightarrow> acknowledged (launch_forget C L a g s e i d)
      | CallAdvance a g s e n \<Rightarrow> acknowledged (launch_advance_epoch C L a g s e n d)
      | CallGuard a g s e i xs \<Rightarrow>
          (case launch_retirement_guard C L a g s e i d of
             (Inl _, d') \<Rightarrow> (False, d')
           | (Inr y, d') \<Rightarrow> guard_ops_run C L xs y d')
      | CallInitialize g s h e r \<Rightarrow> acknowledged (launch_initialize C L g s h e r d))"

definition launch_step :: "crates \<Rightarrow> launch_json \<Rightarrow> launch_dir \<Rightarrow> launch_call \<Rightarrow> launch_dir" where
  "launch_step C L d x = snd (launch_do C L x d)"

section \<open>The transitions a call names\<close>

text \<open>
  The steps of a call on the abstract content, in order: \<open>None\<close> is a step the ledger or the
  epoch refuses. A step changes the ledger or the epoch, never both.
\<close>

definition ledger_move :: "int \<Rightarrow> auth_error + ledger \<Rightarrow> (int \<times> ledger) option" where
  "ledger_move e r = (case r of Inl _ \<Rightarrow> None | Inr l \<Rightarrow> Some (e, l))"

fun guard_op_change :: "crates \<Rightarrow> launch_json \<Rightarrow> intent \<Rightarrow> guard_op \<Rightarrow> ledger \<Rightarrow> auth_error + ledger" where
  "guard_op_change C L i (GuardComplete s) l = ledger_complete C (lj_intent L) l i"
| "guard_op_change C L i (GuardForget s) l = ledger_forget C (lj_intent L) l i"

fun guard_moves :: "crates \<Rightarrow> launch_json \<Rightarrow> intent \<Rightarrow> int \<Rightarrow> guard_op list \<Rightarrow> ledger \<Rightarrow> (int \<times> ledger) option list" where
  "guard_moves C L i e [] l = []"
| "guard_moves C L i e (x # xs) l =
     (case guard_op_change C L i x l of
        Inl _ \<Rightarrow> None # guard_moves C L i e xs l
      | Inr l' \<Rightarrow> Some (e, l') # guard_moves C L i e xs l')"

definition launch_moves ::
    "crates \<Rightarrow> launch_json \<Rightarrow> launch_call \<Rightarrow> int \<times> ledger \<Rightarrow> (int \<times> ledger) option list" where
  "launch_moves C L x v =
     (case v of (e, l) \<Rightarrow>
      case x of
        CallRegister a g s ep ps \<Rightarrow>
          [if e = ep \<and> list_all (\<lambda>p. permit_original_epoch p \<le> ep) ps
           then ledger_move e (ledger_register C (lj_ledger L) l ps) else None]
      | CallFence a g s ep p r \<Rightarrow> [if e = ep then ledger_move e (ledger_fence C l p r) else None]
      | CallComplete a g s ep i \<Rightarrow> [if e = ep then ledger_move e (ledger_complete C (lj_intent L) l i) else None]
      | CallForget a g s ep i \<Rightarrow> [if e = ep then ledger_move e (ledger_forget C (lj_intent L) l i) else None]
      | CallAdvance a g s ep n \<Rightarrow> [if e = ep \<and> e < n then Some (n, l) else None]
      | CallGuard a g s ep i xs \<Rightarrow>
          (if e = ep \<and> \<not> intent_simulated i \<and> is_ok (retirement_phase_of C (lj_intent L) l i)
           then guard_moves C L i e xs l else [None])
      | CallInitialize g s h ep r \<Rightarrow> [None])"

text \<open>Any property of ledgers that the four transitions keep is kept by the moves of a call.\<close>

lemma ledger_step_simps [simp]:
  "ledger_step C J K l (OpRegister ps) = ledger_register C J l ps"
  "ledger_step C J K l (OpFence p r) = ledger_fence C l p r"
  "ledger_step C J K l (OpComplete i) = ledger_complete C K l i"
  "ledger_step C J K l (OpForget i) = ledger_forget C K l i"
  by (simp_all add: ledger_step_def)

lemma guard_op_guard:
  "guard_op_run C L x g d = guard_step C L (case x of GuardComplete s \<Rightarrow> s | GuardForget s \<Rightarrow> s)
     (guard_op_change C L (rg_intent g) x)
     (case x of GuardComplete _ \<Rightarrow> PhaseComplete | GuardForget _ \<Rightarrow> PhaseClosed) g d"
  by (cases x) (simp_all add: guard_complete_def guard_forget_def guard_step_def)

lemma guard_op_step: "guard_op_change C L i x l = Inr l' \<Longrightarrow> \<exists>y. ledger_step C J (lj_intent L) l y = Inr l'"
  by (cases x) (auto intro: exI[of _ "OpComplete i"] exI[of _ "OpForget i"])

lemma guard_moves_keep:
  assumes "\<forall>l y l'. P l \<longrightarrow> ledger_step C (lj_ledger L) (lj_intent L) l y = Inr l' \<longrightarrow> P l'"
  shows "P l \<Longrightarrow> Some (e', l') \<in> set (guard_moves C L i e xs l) \<Longrightarrow> P l' \<and> e' = e"
proof (induction xs arbitrary: l)
  case (Cons x xs)
  then show ?case
  proof (cases "guard_op_change C L i x l")
    case (Inr m)
    then obtain y where "ledger_step C (lj_ledger L) (lj_intent L) l y = Inr m" using guard_op_step by blast
    then have "P m" using assms Cons.prems(1) by blast
    then show ?thesis using Cons Inr by auto
  qed auto
qed simp

lemma launch_moves_keep:
  assumes step: "\<forall>l y l'. P l \<longrightarrow> ledger_step C (lj_ledger L) (lj_intent L) l y = Inr l' \<longrightarrow> P l'"
    and "P l" "Some (e', l') \<in> set (launch_moves C L x (e, l))"
  shows "P l' \<and> e \<le> e'"
proof -
  have one: "P m" if "ledger_step C (lj_ledger L) (lj_intent L) l y = Inr m" for y m
    using step assms(2) that by blast
  note ops = one[of "OpRegister ps" l' for ps] one[of "OpFence p r" l' for p r]
    one[of "OpComplete i" l' for i] one[of "OpForget i" l' for i]
  show ?thesis
    using assms(2,3) ops guard_moves_keep[OF step assms(2), of e' l']
    by (cases x) (auto simp: launch_moves_def ledger_move_def split: if_splits sum.splits)
qed

lemma moves_ok:
  assumes "launch_codecs L" "ledger_ok C l" "Some (e', l') \<in> set (launch_moves C L x (e, l))"
  shows "ledger_ok C l' \<and> ledger_host l' = ledger_host l \<and> ledger_through l \<le> ledger_through l'"
proof -
  let ?P = "\<lambda>m. ledger_ok C m \<and> ledger_host m = ledger_host l \<and> ledger_through l \<le> ledger_through m"
  have "\<forall>m y m'. ?P m \<longrightarrow> ledger_step C (lj_ledger L) (lj_intent L) m y = Inr m' \<longrightarrow> ?P m'"
    using ledger_step_ok[of "lj_ledger L" C] assms(1) unfolding launch_codecs_def by (metis le_trans)
  from launch_moves_keep[OF this _ assms(3)] assms(2) show ?thesis by blast
qed

lemma moves_closed:
  assumes "json_faithful (lj_ledger L)" "ledger_ok C l" "permit_serial p \<le> ledger_through l" "owners l p \<noteq> Some Active"
    and "Some (e', l') \<in> set (launch_moves C L x (e, l))"
  shows "owners l' p \<noteq> Some Active"
proof -
  let ?P = "\<lambda>m. ledger_ok C m \<and> permit_serial p \<le> ledger_through m \<and> owners m p \<noteq> Some Active"
  have "\<forall>m y m'. ?P m \<longrightarrow> ledger_step C (lj_ledger L) (lj_intent L) m y = Inr m' \<longrightarrow> ?P m'"
    using ledger_step_ok[OF assms(1)] ledger_step_closed[OF assms(1)] by (metis le_trans)
  from launch_moves_keep[OF this _ assms(5)] assms(2-4) show ?thesis by blast
qed

section \<open>Every call makes the moves it names\<close>

text \<open>One step of a guard: its ledger changes with the move, the disk follows or keeps what it had.\<close>

lemma guard_step_cases:
  assumes codecs: "launch_codecs L" and view: "disk_view C L h d = Some v"
    and change: "\<And>l'. change (rg_ledger g) = Inr l' \<Longrightarrow> ledger_ok C l' \<and> ledger_host l' = h"
    and host: "af_host (rg_store g) = h"
    and run: "guard_step C L s change ph g d = (r, g', d')"
  shows "case change (rg_ledger g) of
       Inl _ \<Rightarrow> \<not> is_ok r \<and> g' = g \<and> d' = d
     | Inr l' \<Rightarrow> rg_ledger g' = l' \<and> rg_store g' = rg_store g \<and> rg_epoch g' = rg_epoch g \<and> rg_intent g' = rg_intent g \<and>
         (disk_view C L h d' = Some v \<or> disk_view C L h d' = Some (rg_epoch g, l')) \<and>
         (is_ok r \<longrightarrow> disk_view C L h d' = Some (rg_epoch g, l'))"
proof (cases "change (rg_ledger g)")
  case (Inl e)
  then show ?thesis using run by (auto simp: guard_step_def is_ok_def)
next
  case (Inr l')
  obtain q t where save: "launch_save C L (rg_store g) s (rg_epoch g) l' d = (q, t)" by (metis surj_pair)
  obtain e l where v: "v = (e, l)" by (cases v)
  note sv = save_view[OF codecs _ _ host view[unfolded v] save]
  have "disk_view C L h t = Some v \<or> disk_view C L h t = Some (rg_epoch g, l')"
    "q = Inr () \<Longrightarrow> disk_view C L h t = Some (rg_epoch g, l')"
    using sv change[OF Inr] by (auto simp: v)
  then show ?thesis using run save Inr
    by (cases q) (auto simp: guard_step_def Let_def is_ok_def)
qed

lemma guard_ops_view:
  assumes codecs: "launch_codecs L"
  shows "disk_view C L h d = Some v \<Longrightarrow> ledger_ok C (rg_ledger g) \<Longrightarrow> ledger_host (rg_ledger g) = h \<Longrightarrow>
    af_host (rg_store g) = h \<Longrightarrow> guard_ops_run C L xs g d = (ok, d') \<Longrightarrow>
    \<exists>v'. disk_view C L h d' = Some v' \<and>
      (v' = v \<or> Some v' \<in> set (guard_moves C L (rg_intent g) (rg_epoch g) xs (rg_ledger g))) \<and>
      (ok \<longrightarrow> None \<notin> set (guard_moves C L (rg_intent g) (rg_epoch g) xs (rg_ledger g)) \<and>
        Some v' = last (Some v # guard_moves C L (rg_intent g) (rg_epoch g) xs (rg_ledger g)))"
proof (induction xs arbitrary: g d v ok)
  case Nil
  then show ?case by simp
next
  case (Cons x xs)
  let ?i = "rg_intent g" and ?e = "rg_epoch g"
  obtain r g1 d1 where x: "guard_op_run C L x g d = (r, g1, d1)" by (metis prod_cases3)
  obtain ok1 where xs: "guard_ops_run C L xs g1 d1 = (ok1, d')" and ok: "ok = (is_ok r \<and> ok1)"
    using Cons.prems(5) x by (auto split: prod.splits)
  have kept: "ledger_ok C l' \<and> ledger_host l' = h" if "guard_op_change C L ?i x (rg_ledger g) = Inr l'" for l'
    using guard_op_step[OF that, of "lj_ledger L"] ledger_step_ok[of "lj_ledger L" C "rg_ledger g"] Cons.prems(2,3) codecs
    by (auto simp: launch_codecs_def)
  note one = guard_step_cases[OF codecs Cons.prems(1) kept Cons.prems(4) x[unfolded guard_op_guard]]
  show ?case
  proof (cases "guard_op_change C L ?i x (rg_ledger g)")
    case (Inl e)
    then have "g1 = g" "d1 = d" "\<not> ok" using one ok by simp_all
    then show ?thesis using Cons.IH[OF Cons.prems(1-4)] xs Inl by auto
  next
    case (Inr l')
    then have g1: "rg_ledger g1 = l'" "rg_store g1 = rg_store g" "rg_epoch g1 = ?e" "rg_intent g1 = ?i"
      and d1: "disk_view C L h d1 = Some v \<or> disk_view C L h d1 = Some (?e, l')"
      "is_ok r \<Longrightarrow> disk_view C L h d1 = Some (?e, l')" using one by auto
    obtain w where w: "disk_view C L h d1 = Some w" "w = v \<or> w = (?e, l')" "is_ok r \<longrightarrow> w = (?e, l')"
      using d1 by fastforce
    obtain v' where v': "disk_view C L h d' = Some v'" "v' = w \<or> Some v' \<in> set (guard_moves C L ?i ?e xs l')"
      "ok1 \<longrightarrow> None \<notin> set (guard_moves C L ?i ?e xs l') \<and> Some v' = last (Some w # guard_moves C L ?i ?e xs l')"
      using Cons.IH[OF w(1) _ _ _ xs] kept[OF Inr] Cons.prems(4) by (auto simp: g1)
    have "v' = v \<or> Some v' \<in> set (guard_moves C L ?i ?e (x # xs) (rg_ledger g))"
      using v'(2) w(2) Inr by auto
    moreover have "ok \<longrightarrow> None \<notin> set (guard_moves C L ?i ?e (x # xs) (rg_ledger g)) \<and>
        Some v' = last (Some v # guard_moves C L ?i ?e (x # xs) (rg_ledger g))"
      using v'(3) w(3) ok Inr by simp
    ultimately show ?thesis using v'(1) by blast
  qed
qed

text \<open>An initialized directory is never initialized again.\<close>

lemma create_required_host:
  "launch_initialize C L g s h' e r d = (x, d') \<Longrightarrow> disk_view C L h d = Some v \<Longrightarrow> disk_view C L h d' = Some v \<and> \<not> is_ok x"
proof -
  assume run: "launch_initialize C L g s h' e r d = (x, d')" and view: "disk_view C L h d = Some v"
  have active: "launch_active t" if "disk_view C L h t = Some v" for t
    using that by (auto simp: launch_active_def disk_view_def activated_def launch_read_def split: if_splits sum.splits)
  show ?thesis
    using run view launch_gate_view[of L g True d _ _ C h] active
    by (auto simp: launch_initialize_def sbind_def is_ok_def split: sum.splits prod.splits if_splits)
qed

lemma acknowledged_iff: "acknowledged p = (ok, d') \<longleftrightarrow> (\<exists>r. p = (r, d') \<and> ok = is_ok r)"
  by (cases p) (auto simp: acknowledged_def)

definition makes_moves :: "(int \<times> ledger) option list \<Rightarrow> int \<times> ledger \<Rightarrow> bool \<Rightarrow> (int \<times> ledger) option \<Rightarrow> bool" where
  "makes_moves ms v ok w =
     (\<exists>v'. w = Some v' \<and> (v' = v \<or> Some v' \<in> set ms) \<and> (ok \<longrightarrow> None \<notin> set ms \<and> Some v' = last (Some v # ms)))"

lemma launch_guard_view:
  assumes codecs: "launch_codecs L" and view: "disk_view C L h d = Some (e, l)"
    and run: "launch_retirement_guard C L a g s ep i d = (r, d1)"
  shows "disk_view C L h d1 = Some (e, l) \<and>
    (case r of Inl _ \<Rightarrow> True | Inr y \<Rightarrow> e = ep \<and> af_host a = h \<and> \<not> intent_simulated i \<and>
       is_ok (retirement_phase_of C (lj_intent L) l i) \<and>
       rg_store y = a \<and> rg_ledger y = l \<and> rg_epoch y = e \<and> rg_intent y = i)"
proof (cases "is_ok (map_err (\<lambda>_. LaunchFailed) (intent_validate C i)) \<and>
    \<not> intent_simulated i \<and> permit_original_epoch (intent_permit i) \<le> ep")
  case False
  then show ?thesis using run view
    by (auto simp: launch_retirement_guard_def sbind_def is_ok_def ensure_def split: sum.splits if_splits)
next
  case True
  let ?after = "\<lambda>(current, l). sbind (sensure (current = ep) LaunchFailed) (\<lambda>_.
     sbind (slift (retirement_phase_of C (lj_intent L) l i)) (\<lambda>phase.
     sbind (sync_dir s) (\<lambda>_.
     sret \<lparr>rg_store = a, rg_ledger = l, rg_epoch = ep, rg_intent = i, rg_phase = phase\<rparr>)))"
  have "sbind (launch_gate L g True) (\<lambda>_. sbind (launch_load_proc C L a) ?after) d = (r, d1)"
    using run True by (auto simp: launch_retirement_guard_def sbind_def is_ok_def ensure_def split: sum.splits)
  with view show ?thesis
  proof (cases rule: gated)
    case (loaded d2)
    then show ?thesis using True
      by (auto simp: sbind_def sync_dir_def is_ok_def ensure_def split: sum.splits if_splits)
  qed auto
qed

lemma launch_do_moves:
  assumes codecs: "launch_codecs L" and view: "disk_view C L h d = Some (e, l)"
    and run: "launch_do C L x d = (ok, d')"
  shows "makes_moves (launch_moves C L x (e, l)) (e, l) ok (disk_view C L h d')"
proof -
  have lok: "ledger_ok C l" "ledger_host l = h" "json_faithful (lj_ledger L)"
    using disk_view_Some[OF view] codecs by (auto simp: launch_codecs_def)
  have stepped: "ledger_ok C l' \<and> ledger_host l' = h"
    if "ledger_step C (lj_ledger L) (lj_intent L) l y = Inr l'" for y l'
    using ledger_step_ok[OF lok(3,1) that] lok(2) by simp
  have update: "makes_moves [if e = ep then ledger_move e (change l) else None] (e, l) (is_ok r) (disk_view C L h d')"
    if "launch_update C L a g s ep change d = (r, d')" "\<And>l'. change l = Inr l' \<Longrightarrow> ledger_ok C l' \<and> ledger_host l' = h"
    for a g s ep change r
  proof -
    have v: "disk_view C L h d' = Some (e, l) \<or> (e = ep \<and> (\<exists>l'. change l = Inr l' \<and> disk_view C L h d' = Some (e, l')))"
      using launch_update_view(1)[OF codecs view that(2,1)] launch_update_stale[OF codecs view that(2,1)] by blast
    show ?thesis
      using v launch_update_view(2)[OF codecs view that(2,1)]
      by (auto simp: makes_moves_def ledger_move_def is_ok_iff split: sum.splits)
  qed
  show ?thesis
  proof (cases x)
    case (CallRegister a g s ep ps)
    then obtain r where "launch_register C L a g s ep ps d = (r, d')" "ok = is_ok r"
      using run by (auto simp: launch_do_def acknowledged_iff)
    with launch_register_view[OF codecs view this(1)] show ?thesis
      unfolding CallRegister by (auto simp: makes_moves_def launch_moves_def ledger_move_def is_ok_iff split: sum.splits)
  next
    case (CallFence a g s ep p q)
    with run obtain r where r: "launch_fence C L a g s ep p q d = (r, d')" "ok = is_ok r"
      by (auto simp: launch_do_def acknowledged_iff)
    from update[OF r(1)[unfolded launch_fence_def]] stepped[of "OpFence p q"] r(2) show ?thesis
      by (simp add: CallFence launch_moves_def)
  next
    case (CallComplete a g s ep i)
    with run obtain r where r: "launch_complete C L a g s ep i d = (r, d')" "ok = is_ok r"
      by (auto simp: launch_do_def acknowledged_iff)
    from update[OF r(1)[unfolded launch_complete_def]] stepped[of "OpComplete i"] r(2) show ?thesis
      by (simp add: CallComplete launch_moves_def)
  next
    case (CallForget a g s ep i)
    with run obtain r where r: "launch_forget C L a g s ep i d = (r, d')" "ok = is_ok r"
      by (auto simp: launch_do_def acknowledged_iff)
    from update[OF r(1)[unfolded launch_forget_def]] stepped[of "OpForget i"] r(2) show ?thesis
      by (simp add: CallForget launch_moves_def)
  next
    case (CallAdvance a g s ep n)
    with run obtain r where r: "launch_advance_epoch C L a g s ep n d = (r, d')" "ok = is_ok r"
      by (auto simp: launch_do_def acknowledged_iff)
    from launch_advance_view[OF codecs view r(1)] r(2) show ?thesis
      by (auto simp: CallAdvance makes_moves_def launch_moves_def is_ok_iff)
  next
    case (CallGuard a g s ep i xs)
    obtain r d1 where r: "launch_retirement_guard C L a g s ep i d = (r, d1)" by (metis surj_pair)
    note gv = launch_guard_view[OF codecs view r]
    show ?thesis
    proof (cases r)
      case (Inl er)
      then show ?thesis using run r gv by (auto simp: CallGuard launch_do_def makes_moves_def)
    next
      case (Inr y)
      then have ops: "guard_ops_run C L xs y d1 = (ok, d')" using run r by (simp add: CallGuard launch_do_def)
      have y: "rg_store y = a" "rg_ledger y = l" "rg_epoch y = e" "rg_intent y = i" "af_host a = h"
        and open_ok: "e = ep" "\<not> intent_simulated i" "is_ok (retirement_phase_of C (lj_intent L) l i)"
        and v1: "disk_view C L h d1 = Some (e, l)" using gv Inr by auto
      have "makes_moves (guard_moves C L i e xs l) (e, l) ok (disk_view C L h d')"
        using guard_ops_view[OF codecs v1 _ _ _ ops] lok y unfolding makes_moves_def y by blast
      then show ?thesis using open_ok by (simp add: CallGuard launch_moves_def)
    qed
  next
    case (CallInitialize g s h' ep rq)
    with run obtain r where "launch_initialize C L g s h' ep rq d = (r, d')" "ok = is_ok r"
      by (auto simp: launch_do_def acknowledged_iff)
    with create_required_host[OF this(1) view] show ?thesis by (simp add: CallInitialize makes_moves_def)
  qed
qed

lemma launch_step_view:
  assumes "launch_codecs L" "disk_view C L h d = Some (e, l)"
  obtains e' l' where "disk_view C L h (launch_step C L d x) = Some (e', l')"
    "l' = l \<and> e' = e \<or> Some (e', l') \<in> set (launch_moves C L x (e, l))"
proof -
  obtain ok d' where "launch_do C L x d = (ok, d')" by (metis surj_pair)
  with launch_do_moves[OF assms this] that show thesis by (auto simp: makes_moves_def launch_step_def)
qed

lemma launch_authorize_view:
  assumes "launch_authorize C L env (Some p) d = (Inr g, d')"
  shows "\<exists>l. disk_view C L (permit_host p) d = Some (permit_original_epoch p, l) \<and>
    ledger_authorize C l p = Inr ()"
proof -
  from assms obtain g' d1 where g': "launch_gate L env False d = (Inr g', d1)"
    and rest: "sbind (launch_load_proc C L \<lparr>af_host = permit_host p,
        af_minimum_epoch = permit_original_epoch p, af_minimum_through = permit_serial p\<rparr>) (\<lambda>(epoch, l).
        sbind (sensure (epoch = permit_original_epoch p) LaunchFailed) (\<lambda>_.
        sbind (slift (map_err LaunchLedger (ledger_authorize C l p))) (\<lambda>_. sret g'))) d1 = (Inr g, d')"
    unfolding launch_authorize_def by auto
  then show ?thesis using launch_gate_view[OF g', of C "permit_host p"]
    by (auto dest!: load_proc_cases)
qed

text \<open>
  \<open>covered\<close>: the permit's serial is not above the registered frontier; \<open>admitted\<close>: the
  ledger on disk holds it active, which every decision to launch requires.
\<close>

definition disk_covers :: "crates \<Rightarrow> launch_json \<Rightarrow> host_id \<Rightarrow> launch_dir \<Rightarrow> permit \<Rightarrow> bool" where
  "disk_covers C L h d p = (\<exists>e l. disk_view C L h d = Some (e, l) \<and> permit_serial p \<le> ledger_through l)"

definition disk_admits :: "crates \<Rightarrow> launch_json \<Rightarrow> host_id \<Rightarrow> launch_dir \<Rightarrow> permit \<Rightarrow> bool" where
  "disk_admits C L h d p = (\<exists>e l. disk_view C L h d = Some (e, l) \<and> ledger_authorize C l p = Inr ())"

interpretation launch: irrevocable_denial "launch_step C L"
    "\<lambda>d. launch_codecs L \<and> disk_view C L h d \<noteq> None" "disk_covers C L h" "disk_admits C L h"
  for C L h
proof (unfold_locales, goal_cases)
  case (1 d x)
  then obtain e l where "disk_view C L h d = Some (e, l)" by auto
  from launch_step_view[OF _ this, of x] 1 show ?case by blast
next
  case (2 d p x)
  then obtain e l where v: "disk_view C L h d = Some (e, l)" "permit_serial p \<le> ledger_through l"
    by (auto simp: disk_covers_def)
  have js: "ledger_ok C l" using disk_view_Some[OF v(1)] by simp
  obtain e' l' where v': "disk_view C L h (launch_step C L d x) = Some (e', l')"
    "l' = l \<and> e' = e \<or> Some (e', l') \<in> set (launch_moves C L x (e, l))"
    using launch_step_view[OF _ v(1), of x] 2(1) by blast
  then have "ledger_through l \<le> ledger_through l'" using moves_ok[OF _ js] 2(1) by auto
  then show ?case using v(2) v'(1) by (auto simp: disk_covers_def)
next
  case (3 d p x)
  then obtain e l where v: "disk_view C L h d = Some (e, l)" "permit_serial p \<le> ledger_through l"
    by (auto simp: disk_covers_def)
  have js: "json_faithful (lj_ledger L)" "ledger_ok C l"
    using 3(1) disk_view_Some[OF v(1)] by (auto simp: launch_codecs_def)
  have no: "owners l p \<noteq> Some Active"
    using 3(3) v(1) ledger_authorize_iff[OF js(2)] by (auto simp: disk_admits_def)
  obtain e' l' where v': "disk_view C L h (launch_step C L d x) = Some (e', l')"
    "l' = l \<and> e' = e \<or> Some (e', l') \<in> set (launch_moves C L x (e, l))"
    using launch_step_view[OF _ v(1), of x] 3(1) by blast
  have "owners l' p \<noteq> Some Active" using v'(2) no moves_closed[OF js v(2) no] by auto
  then show ?case using v'(1) ledger_authorize_iff[of C l'] disk_view_Some[OF v'(1)]
    by (auto simp: disk_admits_def)
qed

end
