(* ===== verification/Guest_Model.thy ===== *)
theory Guest_Model
  imports Ids
begin

text \<open>
  Guest commands and receipts (\<open>guest_model.rs\<close>) and their strict conversion to and from
  the wire messages of \<open>proto/guest.proto\<close> (\<open>guest_wire.rs\<close>, both in
  \<open>crates/sandbox-protocol/src\<close>). The wire records carry identities as text, enumerations
  as numbers and submessages as options. The locale \<open>wire_codec\<close> is the contract of a
  validated conversion; \<open>canonical_wire\<close> adds that a decoded message re-encodes to itself.
\<close>

section \<open>Model\<close>

definition guest_max_output :: nat where "guest_max_output = 16 * 1024 * 1024"
definition guest_max_records :: nat where "guest_max_records = 128"
definition guest_max_reserved :: nat where "guest_max_reserved = 64 * 1024 * 1024"

record guest_context =
  ctx_allocation :: allocation_id
  ctx_generation :: int
  ctx_boot :: string

record execute =
  exec_operation :: operation_id
  exec_argv :: "string list"
  exec_env :: "(string, string) btmap"
  exec_cwd :: string
  exec_deadline :: int
  exec_output_limit :: nat

definition no_nul :: "string \<Rightarrow> bool" where
  "no_nul s = (CHR 0x00 \<notin> set s)"

definition env_key_ok :: "string \<Rightarrow> bool" where
  "env_key_ok key =
     (key \<noteq> [] \<and>
      list_all (\<lambda>(i, b). b = CHR ''_'' \<or> ascii_alphabetic b \<or> (0 < i \<and> ascii_digit b))
        (zip [0..<length key] key))"

definition env_entry_check :: "string \<times> string \<Rightarrow> unit + unit" where
  "env_entry_check e = ensure (env_key_ok (fst e) \<and> no_nul (snd e)) ()"

definition execute_validate :: "execute json \<Rightarrow> execute \<Rightarrow> unit + unit" where
  "execute_validate J x =
     rbind (ensure (exec_argv x \<noteq> [] \<and> length (exec_argv x) \<le> 256) ()) (\<lambda>_.
     rbind (ensure (hd (exec_argv x) \<noteq> []) ()) (\<lambda>_.
     rbind (ensure (list_all no_nul (exec_argv x) \<and>
                    sum_list (map length (exec_argv x)) \<le> 32768) ()) (\<lambda>_.
     rbind (ensure (length (exec_env x) \<le> 128 \<and>
                    sum_list (map (\<lambda>(k, v). length k + length v) (exec_env x)) \<le> 16384) ()) (\<lambda>_.
     rbind (try_all env_entry_check (exec_env x)) (\<lambda>_.
     rbind (ensure (take 1 (exec_cwd x) = ''/'' \<and> length (exec_cwd x) \<le> 4096 \<and> no_nul (exec_cwd x)) ()) (\<lambda>_.
     rbind (ensure (1 \<le> exec_output_limit x \<and> exec_output_limit x \<le> guest_max_output) ()) (\<lambda>_.
     rbind (ok_or () (to_vec J x)) (\<lambda>b.
     ensure (length b \<le> 65536) ()))))))))"

definition execute_digest :: "crates \<Rightarrow> execute json \<Rightarrow> execute \<Rightarrow> unit + bytes" where
  "execute_digest C J x =
     rbind (ok_or () (to_vec J x)) (\<lambda>b.
     Inr (sha256 C (as_bytes (''hudson-guest-execute-v1'' @ [CHR 0x00]) @ b)))"

datatype run_state = LaunchIntent | Exited | TimedOut | Cancelled | Unknown

definition run_terminal :: "run_state \<Rightarrow> bool" where
  "run_terminal s = (s \<noteq> LaunchIntent)"

record output_stats =
  out_seen :: nat
  out_stored :: nat
  out_truncated :: bool

record receipt =
  rcpt_version :: nat
  rcpt_context :: guest_context
  rcpt_operation :: operation_id
  rcpt_digest :: bytes
  rcpt_state :: run_state
  rcpt_deadline :: int
  rcpt_output_limit :: nat
  rcpt_cancel_requested :: bool
  rcpt_cleanup_confirmed :: bool
  rcpt_exit_code :: "int option"
  rcpt_signal :: "int option"
  rcpt_stdout :: output_stats
  rcpt_stderr :: output_stats
  rcpt_reason :: "string option"

definition receipt_validate :: "receipt \<Rightarrow> unit + unit" where
  "receipt_validate r =
     rbind (ensure (rcpt_version r = 1 \<and> 0 < ctx_generation (rcpt_context r) \<and>
        ctx_boot (rcpt_context r) \<noteq> [] \<and> length (ctx_boot (rcpt_context r)) \<le> 64) ()) (\<lambda>_.
     rbind (ensure (1 \<le> rcpt_output_limit r \<and> rcpt_output_limit r \<le> guest_max_output \<and>
        out_stored (rcpt_stdout r) \<le> out_seen (rcpt_stdout r) \<and>
        out_stored (rcpt_stderr r) \<le> out_seen (rcpt_stderr r) \<and>
        (case checked_add_u64 (out_stored (rcpt_stdout r)) (out_stored (rcpt_stderr r)) of
           None \<Rightarrow> False | Some n \<Rightarrow> n \<le> rcpt_output_limit r) \<and>
        out_truncated (rcpt_stdout r) = (out_stored (rcpt_stdout r) < out_seen (rcpt_stdout r)) \<and>
        out_truncated (rcpt_stderr r) = (out_stored (rcpt_stderr r) < out_seen (rcpt_stderr r)) \<and>
        (case rcpt_reason r of None \<Rightarrow> True | Some s \<Rightarrow> length s \<le> 256)) ()) (\<lambda>_.
     rbind (if rcpt_state r = Exited
        then rbind (ensure ((rcpt_exit_code r \<noteq> None) \<noteq> (rcpt_signal r \<noteq> None)) ()) (\<lambda>_.
             ensure ((case rcpt_exit_code r of None \<Rightarrow> True | Some n \<Rightarrow> 0 \<le> n \<and> n \<le> 255) \<and>
                     (case rcpt_signal r of None \<Rightarrow> True | Some n \<Rightarrow> 1 \<le> n \<and> n \<le> 64)) ())
        else ensure (rcpt_exit_code r = None \<and> rcpt_signal r = None) ()) (\<lambda>_.
     rbind (ensure (rcpt_state r \<noteq> LaunchIntent \<or> \<not> rcpt_cleanup_confirmed r) ()) (\<lambda>_.
     rbind (ensure (rcpt_state r \<notin> {Exited, TimedOut, Cancelled} \<or> rcpt_cleanup_confirmed r) ()) (\<lambda>_.
     ensure (rcpt_state r \<noteq> Cancelled \<or> rcpt_cancel_requested r) ())))))"

text \<open>What a valid receipt says, in one place.\<close>

lemma receipt_valid_iff:
  "receipt_validate r = Inr u \<longleftrightarrow>
     rcpt_version r = 1 \<and> 0 < ctx_generation (rcpt_context r) \<and>
     ctx_boot (rcpt_context r) \<noteq> [] \<and> length (ctx_boot (rcpt_context r)) \<le> 64 \<and>
     1 \<le> rcpt_output_limit r \<and> rcpt_output_limit r \<le> guest_max_output \<and>
     out_stored (rcpt_stdout r) \<le> out_seen (rcpt_stdout r) \<and>
     out_stored (rcpt_stderr r) \<le> out_seen (rcpt_stderr r) \<and>
     out_stored (rcpt_stdout r) + out_stored (rcpt_stderr r) \<le> rcpt_output_limit r \<and>
     out_truncated (rcpt_stdout r) = (out_stored (rcpt_stdout r) < out_seen (rcpt_stdout r)) \<and>
     out_truncated (rcpt_stderr r) = (out_stored (rcpt_stderr r) < out_seen (rcpt_stderr r)) \<and>
     (\<forall>s. rcpt_reason r = Some s \<longrightarrow> length s \<le> 256) \<and>
     (case rcpt_state r of
        Exited \<Rightarrow>
          ((\<exists>n. rcpt_exit_code r = Some n \<and> 0 \<le> n \<and> n \<le> 255) \<and> rcpt_signal r = None \<or>
           rcpt_exit_code r = None \<and> (\<exists>n. rcpt_signal r = Some n \<and> 1 \<le> n \<and> n \<le> 64)) \<and>
          rcpt_cleanup_confirmed r
      | LaunchIntent \<Rightarrow> rcpt_exit_code r = None \<and> rcpt_signal r = None \<and> \<not> rcpt_cleanup_confirmed r
      | TimedOut \<Rightarrow> rcpt_exit_code r = None \<and> rcpt_signal r = None \<and> rcpt_cleanup_confirmed r
      | Cancelled \<Rightarrow> rcpt_exit_code r = None \<and> rcpt_signal r = None \<and> rcpt_cleanup_confirmed r \<and>
          rcpt_cancel_requested r
      | Unknown \<Rightarrow> rcpt_exit_code r = None \<and> rcpt_signal r = None)"
proof -
  have sum: "(case checked_add_u64 a b of None \<Rightarrow> False | Some n \<Rightarrow> n \<le> m) \<longleftrightarrow> a + b \<le> m"
    if "m \<le> guest_max_output" for a b m
    using that by (auto simp: checked_add_u64_def guest_max_output_def)
  show ?thesis
    by (cases "rcpt_state r"; cases "rcpt_exit_code r"; cases "rcpt_signal r"; cases "rcpt_reason r")
      (simp_all add: receipt_validate_def sum cong: conj_cong)
qed

section \<open>Wire messages\<close>

record wire_context =
  wctx_allocation :: string
  wctx_generation :: int
  wctx_boot :: string

definition context_to_wire :: "crates \<Rightarrow> guest_context \<Rightarrow> wire_context" where
  "context_to_wire C c =
     \<lparr>wctx_allocation = show_allocation C (ctx_allocation c), wctx_generation = ctx_generation c,
      wctx_boot = ctx_boot c\<rparr>"

definition context_of_wire :: "crates \<Rightarrow> wire_context \<Rightarrow> unit + guest_context" where
  "context_of_wire C w =
     rbind (ensure (0 < wctx_generation w \<and> length (wctx_boot w) \<le> 64) ()) (\<lambda>_.
     rbind (map_err (\<lambda>_. ()) (parse_allocation C (wctx_allocation w))) (\<lambda>a.
     Inr \<lparr>ctx_allocation = a, ctx_generation = wctx_generation w, ctx_boot = wctx_boot w\<rparr>))"

record wire_execute =
  wexec_operation :: string
  wexec_argv :: "string list"
  wexec_env :: "(string \<times> string) list"
  wexec_cwd :: string
  wexec_deadline :: int
  wexec_output_limit :: nat

text \<open>\<open>into_iter().collect()\<close> into a \<open>BTreeMap\<close>.\<close>

definition bt_collect :: "('k::linorder \<times> 'v) list \<Rightarrow> ('k, 'v) btmap" where
  "bt_collect es = foldl (\<lambda>m (k, v). bt_insert k v m) [] es"

definition execute_to_wire :: "crates \<Rightarrow> execute \<Rightarrow> wire_execute" where
  "execute_to_wire C x =
     \<lparr>wexec_operation = show_operation C (exec_operation x), wexec_argv = exec_argv x,
      wexec_env = exec_env x, wexec_cwd = exec_cwd x, wexec_deadline = exec_deadline x,
      wexec_output_limit = exec_output_limit x\<rparr>"

definition execute_of_wire :: "crates \<Rightarrow> execute json \<Rightarrow> wire_execute \<Rightarrow> unit + execute" where
  "execute_of_wire C J w =
     rbind (map_err (\<lambda>_. ()) (parse_operation C (wexec_operation w))) (\<lambda>i.
     let x = \<lparr>exec_operation = i, exec_argv = wexec_argv w, exec_env = bt_collect (wexec_env w),
              exec_cwd = wexec_cwd w, exec_deadline = wexec_deadline w,
              exec_output_limit = wexec_output_limit w\<rparr> in
     rbind (execute_validate J x) (\<lambda>_. Inr x))"

definition run_state_code :: "run_state \<Rightarrow> int" where
  "run_state_code s =
     (case s of LaunchIntent \<Rightarrow> 1 | Exited \<Rightarrow> 2 | TimedOut \<Rightarrow> 3 | Cancelled \<Rightarrow> 4 | Unknown \<Rightarrow> 5)"

definition run_state_of_code :: "int \<Rightarrow> unit + run_state" where
  "run_state_of_code n =
     (if n = 1 then Inr LaunchIntent else if n = 2 then Inr Exited else if n = 3 then Inr TimedOut
      else if n = 4 then Inr Cancelled else if n = 5 then Inr Unknown else Inl ())"

record wire_receipt =
  wrcpt_version :: nat
  wrcpt_context :: "wire_context option"
  wrcpt_operation :: string
  wrcpt_digest :: bytes
  wrcpt_state :: int
  wrcpt_deadline :: int
  wrcpt_output_limit :: nat
  wrcpt_cancel_requested :: bool
  wrcpt_cleanup_confirmed :: bool
  wrcpt_exit_code :: "int option"
  wrcpt_signal :: "int option"
  wrcpt_stdout :: "output_stats option"
  wrcpt_stderr :: "output_stats option"
  wrcpt_reason :: "string option"

definition receipt_to_wire :: "crates \<Rightarrow> receipt \<Rightarrow> wire_receipt" where
  "receipt_to_wire C r =
     \<lparr>wrcpt_version = rcpt_version r, wrcpt_context = Some (context_to_wire C (rcpt_context r)),
      wrcpt_operation = show_operation C (rcpt_operation r), wrcpt_digest = rcpt_digest r,
      wrcpt_state = run_state_code (rcpt_state r), wrcpt_deadline = rcpt_deadline r,
      wrcpt_output_limit = rcpt_output_limit r, wrcpt_cancel_requested = rcpt_cancel_requested r,
      wrcpt_cleanup_confirmed = rcpt_cleanup_confirmed r, wrcpt_exit_code = rcpt_exit_code r,
      wrcpt_signal = rcpt_signal r, wrcpt_stdout = Some (rcpt_stdout r),
      wrcpt_stderr = Some (rcpt_stderr r), wrcpt_reason = rcpt_reason r\<rparr>"

text \<open>\<open>Vec<u8>::try_into()\<close> to \<open>[u8; 32]\<close>.\<close>

definition array32 :: "bytes \<Rightarrow> unit + bytes" where
  "array32 b = (if length b = 32 then Inr b else Inl ())"

definition receipt_of_wire :: "crates \<Rightarrow> wire_receipt \<Rightarrow> unit + receipt" where
  "receipt_of_wire C w =
     rbind (ok_or () (wrcpt_context w)) (\<lambda>wc.
     rbind (context_of_wire C wc) (\<lambda>c.
     rbind (map_err (\<lambda>_. ()) (parse_operation C (wrcpt_operation w))) (\<lambda>i.
     rbind (array32 (wrcpt_digest w)) (\<lambda>d.
     rbind (run_state_of_code (wrcpt_state w)) (\<lambda>s.
     rbind (ok_or () (wrcpt_stdout w)) (\<lambda>out.
     rbind (ok_or () (wrcpt_stderr w)) (\<lambda>err.
     let r = \<lparr>rcpt_version = wrcpt_version w, rcpt_context = c, rcpt_operation = i,
              rcpt_digest = d, rcpt_state = s, rcpt_deadline = wrcpt_deadline w,
              rcpt_output_limit = wrcpt_output_limit w,
              rcpt_cancel_requested = wrcpt_cancel_requested w,
              rcpt_cleanup_confirmed = wrcpt_cleanup_confirmed w,
              rcpt_exit_code = wrcpt_exit_code w, rcpt_signal = wrcpt_signal w,
              rcpt_stdout = out, rcpt_stderr = err, rcpt_reason = wrcpt_reason w\<rparr> in
     rbind (receipt_validate r) (\<lambda>_. Inr r))))))))"

section \<open>The contract of a validated conversion\<close>

locale wire_codec =
  fixes to_wire :: "crates \<Rightarrow> 'm \<Rightarrow> 'w"
    and of_wire :: "crates \<Rightarrow> 'w \<Rightarrow> 'e + 'm"
    and ok :: "crates \<Rightarrow> 'm \<Rightarrow> bool"
  assumes of_to: "uuid_laws C \<Longrightarrow> ok C m \<Longrightarrow> of_wire C (to_wire C m) = Inr m"
    and of_ok: "of_wire C w = Inr m \<Longrightarrow> ok C m"
begin

lemma to_wire_inj: "uuid_laws C \<Longrightarrow> ok C m \<Longrightarrow> ok C n \<Longrightarrow> to_wire C m = to_wire C n \<Longrightarrow> m = n"
  by (metis of_to Inr_inject)

text \<open>A decoded message survives being forwarded.\<close>

lemma forwarded: "uuid_laws C \<Longrightarrow> of_wire C w = Inr m \<Longrightarrow> of_wire C (to_wire C m) = Inr m"
  by (rule of_to) (auto dest: of_ok)

end

text \<open>A conversion with one wire form for each message.\<close>

locale canonical_wire = wire_codec +
  assumes to_of: "of_wire C w = Inr m \<Longrightarrow> to_wire C m = w"
begin

lemma of_wire_iff: "uuid_laws C \<Longrightarrow> of_wire C w = Inr m \<longleftrightarrow> ok C m \<and> w = to_wire C m"
  using of_to of_ok to_of by metis

lemma of_wire_inj: "of_wire C v = Inr m \<Longrightarrow> of_wire C w = Inr m \<Longrightarrow> v = w"
  by (metis to_of)

end

definition context_wire_ok :: "crates \<Rightarrow> guest_context \<Rightarrow> bool" where
  "context_wire_ok C c =
     (0 < ctx_generation c \<and> length (ctx_boot c) \<le> 64 \<and>
      uuid_version C (allocation_uuid (ctx_allocation c)) = 7)"

definition receipt_wire_ok :: "crates \<Rightarrow> receipt \<Rightarrow> bool" where
  "receipt_wire_ok C r =
     (receipt_validate r = Inr () \<and> context_wire_ok C (rcpt_context r) \<and>
      length (rcpt_digest r) = 32 \<and> uuid_version C (operation_uuid (rcpt_operation r)) = 7)"

definition execute_wire_ok :: "execute json \<Rightarrow> crates \<Rightarrow> execute \<Rightarrow> bool" where
  "execute_wire_ok J C x =
     (execute_validate J x = Inr () \<and> bt_ordered (exec_env x) \<and>
      uuid_version C (operation_uuid (exec_operation x)) = 7)"

text \<open>A message rebuilt from its own fields is the message.\<close>

lemma rebuilt [simp]:
  "\<lparr>exec_operation = exec_operation x, exec_argv = exec_argv x,
      exec_env = exec_env x, exec_cwd = exec_cwd x, exec_deadline = exec_deadline x,
      exec_output_limit = exec_output_limit x\<rparr> = x"
  "\<lparr>rcpt_version = rcpt_version r, rcpt_context = rcpt_context r,
      rcpt_operation = rcpt_operation r, rcpt_digest = rcpt_digest r,
      rcpt_state = rcpt_state r, rcpt_deadline = rcpt_deadline r,
      rcpt_output_limit = rcpt_output_limit r,
      rcpt_cancel_requested = rcpt_cancel_requested r,
      rcpt_cleanup_confirmed = rcpt_cleanup_confirmed r,
      rcpt_exit_code = rcpt_exit_code r, rcpt_signal = rcpt_signal r,
      rcpt_stdout = rcpt_stdout r, rcpt_stderr = rcpt_stderr r,
      rcpt_reason = rcpt_reason r\<rparr> = r"
  by simp_all

interpretation context_wire: canonical_wire context_to_wire context_of_wire context_wire_ok
  by unfold_locales
    (auto simp: context_of_wire_def context_to_wire_def context_wire_ok_def allocation.parse_show
      dest!: allocation.show_parse)

lemma run_state_codes [simp]:
  "run_state_of_code (run_state_code s) = Inr s"
  "run_state_of_code n = Inr s \<longleftrightarrow> n = run_state_code s"
  by (cases s; auto simp: run_state_of_code_def run_state_code_def)+

lemma array32_Inr [simp]: "array32 b = Inr c \<longleftrightarrow> c = b \<and> length b = 32"
  by (auto simp: array32_def)

interpretation receipt_wire: canonical_wire receipt_to_wire receipt_of_wire receipt_wire_ok
  by unfold_locales
    (auto simp: receipt_of_wire_def receipt_to_wire_def receipt_wire_ok_def Let_def array32_def
      context_wire.of_to operation.parse_show context_wire.to_of
      dest: context_wire.of_ok dest!: operation.show_parse)

lemma bt_collect_append: "bt_collect (es @ [(k, v)]) = bt_insert k v (bt_collect es)"
  by (simp add: bt_collect_def)

lemma bt_collect_ordered: "bt_ordered (bt_collect es)"
  by (induction es rule: rev_induct) (auto simp: bt_collect_append bt_ordered_insert, simp add: bt_collect_def)

lemma bt_insert_last: "\<forall>e \<in> set m. fst e < k \<Longrightarrow> bt_insert k v m = m @ [(k, v)]"
  by (induction k v m rule: bt_insert.induct) auto

lemma bt_collect_id: "bt_ordered m \<Longrightarrow> bt_collect m = m"
proof (induction m rule: rev_induct)
  case (snoc e m)
  then show ?case
    by (cases e) (auto simp: bt_collect_append bt_ordered_def sorted_wrt_append bt_insert_last)
qed (simp add: bt_collect_def)

interpretation execute_wire: wire_codec execute_to_wire "\<lambda>C. execute_of_wire C J" "execute_wire_ok J"
  for J
  by unfold_locales
    (auto simp: execute_of_wire_def execute_to_wire_def execute_wire_ok_def Let_def bt_collect_id
      bt_collect_ordered operation.parse_show dest!: operation.show_parse)

section \<open>Frames\<close>

definition guest_wire_version :: nat where "guest_wire_version = 1"
definition max_frame :: nat where "max_frame = 128 * 1024"
definition guest_max_chunk :: nat where "guest_max_chunk = 32 * 1024"

fun from_be_bytes :: "bytes \<Rightarrow> nat" where
  "from_be_bytes bs = foldl (\<lambda>n b. 256 * n + unat b) 0 bs"

text \<open>
  \<open>decode\<close> and \<open>encode\<close> are the protobuf codec of the message type; the byte stream is a
  list, and a stream that ends early is an error, as \<open>read_exact\<close> reports it.
\<close>

definition read_frame :: "(bytes \<Rightarrow> 'm option) \<Rightarrow> bytes \<Rightarrow> unit + 'm \<times> bytes" where
  "read_frame decode input =
     rbind (ensure (4 \<le> length input) ()) (\<lambda>_.
     let len = from_be_bytes (take 4 input); rest = drop 4 input in
     rbind (ensure (0 < len \<and> len \<le> max_frame) ()) (\<lambda>_.
     rbind (ensure (len \<le> length rest) ()) (\<lambda>_.
     rbind (ok_or () (decode (take len rest))) (\<lambda>m. Inr (m, drop len rest)))))"

definition write_frame :: "('m \<Rightarrow> bytes) \<Rightarrow> 'm \<Rightarrow> unit + bytes" where
  "write_frame encode m =
     (let body = encode m in
      rbind (ensure (0 < length body \<and> length body \<le> max_frame) ()) (\<lambda>_.
      Inr (to_be_bytes 4 (length body) @ body)))"

lemma from_be_snoc: "from_be_bytes (bs @ [b]) = 256 * from_be_bytes bs + unat b"
  by simp

lemma from_to_be_bytes: "n < 256 ^ k \<Longrightarrow> from_be_bytes (to_be_bytes k n) = n"
proof (induction k arbitrary: n)
  case (Suc k)
  have "to_be_bytes (Suc k) n = to_be_bytes k (n div 256) @ [of_nat n]"
    by (rule to_be_bytes_Suc)
  moreover have "n div 256 < 256 ^ k" using Suc.prems by (simp add: less_mult_imp_div_less mult.commute)
  ultimately show ?case using Suc.IH[of "n div 256"]
    by (simp add: from_be_snoc unsigned_of_nat take_bit_eq_mod del: from_be_bytes.simps)
qed (simp add: to_be_bytes_def)

lemma frame_roundtrip:
  assumes "decode (encode m) = Some m" "write_frame encode m = Inr f"
  shows "read_frame decode (f @ rest) = Inr (m, rest)"
proof -
  let ?n = "length (encode m)"
  from assms(2) have n: "0 < ?n" "?n \<le> max_frame" and f: "f = to_be_bytes 4 ?n @ encode m"
    by (auto simp: write_frame_def Let_def)
  from n(2) have "from_be_bytes (to_be_bytes 4 ?n) = ?n"
    by (intro from_to_be_bytes) (simp add: max_frame_def)
  then show ?thesis using n assms(1)
    by (simp add: read_frame_def f Let_def del: from_be_bytes.simps)
qed

text \<open>What a reader accepts is one whole frame within the bound, and the rest of the stream.\<close>

lemma read_frame_Inr:
  assumes "read_frame decode input = Inr (m, rest)"
  shows "\<exists>body. input = take 4 input @ body @ rest \<and> decode body = Some m \<and>
    length body = from_be_bytes (take 4 input) \<and> 0 < length body \<and> length body \<le> max_frame"
proof -
  define n where "n = from_be_bytes (take 4 input)"
  have split: "take 4 input @ take n (drop 4 input) @ drop n (drop 4 input) = input"
    by (simp only: append_take_drop_id)
  show ?thesis
    using assms split unfolding read_frame_def n_def[symmetric] Let_def
    by (intro exI[of _ "take n (drop 4 input)"]) auto
qed

end
