(* ===== verification/History.thy ===== *)
theory History
  imports Guest_Model
begin

text \<open>
  Guest-local retirement barriers and the generation of operation identities above a durable
  floor (\<open>crates/sandbox-protocol/src/history.rs\<close>).
\<close>

section \<open>Barriers\<close>

datatype domain = Commands | FilesDomain

record barrier =
  bar_version :: nat
  bar_context :: guest_context
  bar_domain :: domain
  bar_through :: operation_id

definition rfc7 :: "crates \<Rightarrow> operation_id \<Rightarrow> bool" where
  "rfc7 C i = (uuid_version C (operation_uuid i) = 7 \<and> uuid_rfc4122 C (operation_uuid i))"

definition barrier_validate :: "crates \<Rightarrow> barrier \<Rightarrow> guest_context \<Rightarrow> domain \<Rightarrow> unit + unit" where
  "barrier_validate C b context d =
     rbind (ensure (bar_version b = 1 \<and> bar_domain b = d \<and> bar_context b = context) ()) (\<lambda>_.
     rbind (ensure (0 < ctx_generation context \<and> ctx_boot context \<noteq> [] \<and>
        length (ctx_boot context) \<le> 64) ()) (\<lambda>_.
     ensure (rfc7 C (bar_through b)) ()))"

definition covers :: "barrier \<Rightarrow> operation_id \<Rightarrow> bool" where
  "covers b i = (i \<le> bar_through b)"

datatype binding = Legacy guest_context | Retired barrier

definition binding_validate ::
    "crates \<Rightarrow> binding \<Rightarrow> guest_context \<Rightarrow> domain \<Rightarrow> unit + barrier option" where
  "binding_validate C x expected d =
     (case x of
        Legacy context \<Rightarrow> rbind (ensure (context = expected) ()) (\<lambda>_. Inr None)
      | Retired b \<Rightarrow> rbind (barrier_validate C b expected d) (\<lambda>_. Inr (Some b)))"

record wire_barrier =
  wbar_version :: nat
  wbar_context :: "wire_context option"
  wbar_domain :: int
  wbar_through :: string

definition domain_code :: "domain \<Rightarrow> int" where
  "domain_code d = (case d of Commands \<Rightarrow> 1 | FilesDomain \<Rightarrow> 2)"

definition domain_of_code :: "int \<Rightarrow> unit + domain" where
  "domain_of_code n = (if n = 1 then Inr Commands else if n = 2 then Inr FilesDomain else Inl ())"

definition barrier_of_wire :: "crates \<Rightarrow> wire_barrier \<Rightarrow> unit + barrier" where
  "barrier_of_wire C w =
     rbind (domain_of_code (wbar_domain w)) (\<lambda>d.
     rbind (ok_or () (wbar_context w)) (\<lambda>wc.
     rbind (context_of_wire C wc) (\<lambda>c.
     rbind (map_err (\<lambda>_. ()) (parse_operation C (wbar_through w))) (\<lambda>t.
     let b = \<lparr>bar_version = wbar_version w, bar_context = c, bar_domain = d, bar_through = t\<rparr> in
     rbind (barrier_validate C b (bar_context b) d) (\<lambda>_. Inr b)))))"

definition barrier_to_wire :: "crates \<Rightarrow> barrier \<Rightarrow> wire_barrier" where
  "barrier_to_wire C b =
     \<lparr>wbar_version = bar_version b, wbar_context = Some (context_to_wire C (bar_context b)),
      wbar_domain = domain_code (bar_domain b), wbar_through = show_operation C (bar_through b)\<rparr>"

definition barrier_wire_ok :: "crates \<Rightarrow> barrier \<Rightarrow> bool" where
  "barrier_wire_ok C b =
     (barrier_validate C b (bar_context b) (bar_domain b) = Inr () \<and> context_wire_ok C (bar_context b))"

lemma domain_codes [simp]:
  "domain_of_code (domain_code d) = Inr d" "domain_of_code n = Inr d \<longleftrightarrow> n = domain_code d"
  by (cases d; auto simp: domain_of_code_def domain_code_def)+

lemma barrier_rebuilt [simp]:
  "\<lparr>bar_version = bar_version b, bar_context = bar_context b, bar_domain = bar_domain b,
    bar_through = bar_through b\<rparr> = b"
  by simp

lemma barrier_validate_Inr:
  "barrier_validate C b c d = Inr u \<longleftrightarrow>
     bar_version b = 1 \<and> bar_domain b = d \<and> bar_context b = c \<and> 0 < ctx_generation c \<and>
     ctx_boot c \<noteq> [] \<and> length (ctx_boot c) \<le> 64 \<and> rfc7 C (bar_through b)"
  by (auto simp: barrier_validate_def)

interpretation barrier_wire: canonical_wire barrier_to_wire barrier_of_wire barrier_wire_ok
  by unfold_locales
    (auto simp: barrier_of_wire_def barrier_to_wire_def barrier_wire_ok_def Let_def
      context_wire.of_to context_wire.to_of barrier_validate_Inr rfc7_def operation.parse_show
      dest: context_wire.of_ok dest!: operation.show_parse)

text \<open>A barrier closes a downward closed set of identities.\<close>

lemma covers_down: "covers b j \<Longrightarrow> i \<le> j \<Longrightarrow> covers b i"
  by (simp add: covers_def)

section \<open>Identities above a floor\<close>

text \<open>The 122 variable bits of a version 7 UUID, as a number, and back.\<close>

definition low_mask :: uuid where "low_mask = push_bit 62 1 - 1"

definition uuid_rank :: "uuid \<Rightarrow> uuid" where
  "uuid_rank v =
     (push_bit 74 (drop_bit 80 v) OR push_bit 62 (drop_bit 64 v AND 0xFFF)) OR (v AND low_mask)"

definition uuid_of_rank :: "uuid \<Rightarrow> uuid" where
  "uuid_of_rank n =
     (((push_bit 80 (drop_bit 74 n) OR push_bit 76 7) OR push_bit 64 (drop_bit 62 n AND 0xFFF)) OR
      push_bit 62 2) OR (n AND low_mask)"

text \<open>\<open>rank + 1\<close> cannot overflow 128 bits: a rank has 122 bits.\<close>

definition advance_operation_id ::
    "crates \<Rightarrow> operation_id \<Rightarrow> operation_id option \<Rightarrow> unit + operation_id" where
  "advance_operation_id C candidate floor =
     rbind (try_all (\<lambda>i. ensure (rfc7 C i) ())
       (candidate # (case floor of None \<Rightarrow> [] | Some f \<Rightarrow> [f]))) (\<lambda>_.
     case (case floor of None \<Rightarrow> None | Some f \<Rightarrow> if candidate \<le> f then Some f else None) of
       None \<Rightarrow> Inr candidate
     | Some f \<Rightarrow>
         (let next = uuid_rank (operation_uuid f) + 1 in
          rbind (ensure (next < push_bit 122 1) ()) (\<lambda>_.
          Inr (OperationId (uuid_of_rank next)))))"

lemma or_add: "2 ^ n dvd x \<Longrightarrow> c < 2 ^ n \<Longrightarrow> x OR c = x + (c :: nat)"
proof -
  assume "2 ^ n dvd x" and c: "c < 2 ^ n"
  then obtain y where x: "x = push_bit n y" by (auto simp: push_bit_eq_mult mult.commute)
  have "take_bit n c = c" using c by (simp add: take_bit_nat_eq_self)
  then have "\<not> bit c k" if "n \<le> k" for k using that by (metis bit_take_bit_iff not_le)
  then have "x AND c = 0" unfolding x by (intro bit_eqI) (auto simp: bit_simps)
  then show "x OR c = x + c" by (simp add: disjunctive_add_eq_or)
qed

lemma unat_uuid_less: "unat (w :: uuid) < 2 ^ 128"
  by (rule order_less_le_trans[OF unsigned_less]) simp

lemma unat_shift:
  assumes "unat w * 2 ^ n < 2 ^ 128"
  shows "unat (push_bit n (w :: uuid)) = unat w * 2 ^ n"
  by (subst unsigned_push_bit_eq) (use assms in \<open>simp add: push_bit_eq_mult take_bit_eq_mod\<close>)

lemma unat_drop: "unat (drop_bit n (w :: uuid)) = unat w div 2 ^ n"
  by (subst unsigned_drop_bit_eq)
    (use unat_uuid_less[of w] in \<open>simp add: drop_bit_eq_div take_bit_eq_mod\<close>)

lemma unat_low: "n \<le> 128 \<Longrightarrow> unat ((w :: uuid) AND mask n) = unat w mod 2 ^ n"
  unfolding take_bit_eq_mask[symmetric]
  by (subst unsigned_take_bit_eq) (simp_all add: take_bit_eq_mod)

lemma mask_values: "low_mask = mask 62" "(0xFFF :: uuid) = mask 12"
  by (simp_all add: low_mask_def mask_eq_exp_minus_1 push_bit_eq_mult)

text \<open>The rank and its inverse as numbers.\<close>

lemma unat_uuid_rank:
  "unat (uuid_rank v) =
     (unat v div 2 ^ 80) * 2 ^ 74 + (unat v div 2 ^ 64 mod 2 ^ 12) * 2 ^ 62 + unat v mod 2 ^ 62"
proof -
  have hi: "unat v div 2 ^ 80 < 2 ^ 48"
    using unat_uuid_less[of v] by (simp add: less_mult_imp_div_less)
  have a: "unat (push_bit 74 (drop_bit 80 v)) = (unat v div 2 ^ 80) * 2 ^ 74"
    using hi by (subst unat_shift) (simp_all only: unat_drop, simp)
  have b: "unat (push_bit 62 (drop_bit 64 v AND mask 12)) = (unat v div 2 ^ 64 mod 2 ^ 12) * 2 ^ 62"
    by (subst unat_shift) (simp_all add: unat_drop unat_low)
  have "unat (uuid_rank v) =
      ((unat v div 2 ^ 80) * 2 ^ 74 OR (unat v div 2 ^ 64 mod 2 ^ 12) * 2 ^ 62) OR unat v mod 2 ^ 62"
    by (simp only: uuid_rank_def mask_values unsigned_or_eq a b) (simp add: unat_low)
  also have "\<dots> = ((unat v div 2 ^ 80) * 2 ^ 74 + (unat v div 2 ^ 64 mod 2 ^ 12) * 2 ^ 62) OR unat v mod 2 ^ 62"
    by (subst or_add[of 74]) simp_all
  also have "\<dots> = (unat v div 2 ^ 80) * 2 ^ 74 + (unat v div 2 ^ 64 mod 2 ^ 12) * 2 ^ 62 + unat v mod 2 ^ 62"
    by (subst or_add[of 62]) (simp_all)
  finally show ?thesis .
qed

lemma unat_uuid_of_rank:
  assumes "unat n < 2 ^ 122"
  shows "unat (uuid_of_rank n) =
     (unat n div 2 ^ 74) * 2 ^ 80 + 7 * 2 ^ 76 + (unat n div 2 ^ 62 mod 2 ^ 12) * 2 ^ 64 +
     2 * 2 ^ 62 + unat n mod 2 ^ 62"
proof -
  define a where "a = unat n div 2 ^ 74"
  define b where "b = unat n div 2 ^ 62 mod 2 ^ 12"
  define c where "c = unat n mod 2 ^ 62"
  have bounds: "a < 2 ^ 48" "b < 2 ^ 12" "c < 2 ^ 62"
    using assms by (simp_all add: a_def b_def c_def less_mult_imp_div_less)
  have pa: "unat (push_bit 80 (drop_bit 74 n)) = a * 2 ^ 80"
    using bounds(1) by (subst unat_shift) (simp_all only: unat_drop a_def, simp)
  have pb: "unat (push_bit 64 (drop_bit 62 n AND mask 12)) = b * 2 ^ 64"
    by (subst unat_shift) (simp_all add: unat_drop unat_low b_def)
  have k: "unat (push_bit 76 7 :: uuid) = 7 * 2 ^ 76" "unat (push_bit 62 2 :: uuid) = 2 * 2 ^ 62"
    by (simp_all add: push_bit_eq_mult)
  have "unat (uuid_of_rank n) = (((a * 2 ^ 80 OR 7 * 2 ^ 76) OR b * 2 ^ 64) OR 2 * 2 ^ 62) OR c"
    by (simp only: uuid_of_rank_def mask_values unsigned_or_eq pa pb k) (simp add: unat_low c_def)
  also have "a * 2 ^ 80 OR 7 * 2 ^ 76 = a * 2 ^ 80 + 7 * (2::nat) ^ 76"
    by (rule or_add[of 80]) simp_all
  also have "(a * 2 ^ 80 + 7 * 2 ^ 76) OR b * 2 ^ 64 = a * 2 ^ 80 + 7 * 2 ^ 76 + b * (2::nat) ^ 64"
    by (rule or_add[of 76]) (use bounds in simp_all)
  also have "(a * 2 ^ 80 + 7 * 2 ^ 76 + b * 2 ^ 64) OR 2 * 2 ^ 62 =
      a * 2 ^ 80 + 7 * 2 ^ 76 + b * 2 ^ 64 + 2 * (2::nat) ^ 62"
    by (rule or_add[of 64]) simp_all
  also have "(a * 2 ^ 80 + 7 * 2 ^ 76 + b * 2 ^ 64 + 2 * 2 ^ 62) OR c =
      a * 2 ^ 80 + 7 * 2 ^ 76 + b * 2 ^ 64 + 2 * (2::nat) ^ 62 + c"
    by (rule or_add[of 62]) (use bounds in simp_all)
  finally show ?thesis by (simp only: a_def b_def c_def)
qed

definition rank_value :: "nat \<Rightarrow> nat" where
  "rank_value n =
     (n div 2 ^ 74) * 2 ^ 80 + 7 * 2 ^ 76 + (n div 2 ^ 62 mod 2 ^ 12) * 2 ^ 64 + 2 * 2 ^ 62 + n mod 2 ^ 62"

lemma rank_value_strict:
  assumes "n < m"
  shows "rank_value n < rank_value m"
proof -
  have split: "k = (k div 2 ^ 74) * 2 ^ 74 + (k div 2 ^ 62 mod 2 ^ 12) * 2 ^ 62 + k mod 2 ^ 62" for k :: nat
  proof -
    have "k div 2 ^ 74 = k div 2 ^ 62 div 2 ^ 12" by (simp flip: div_mult2_eq)
    then have "(k div 2 ^ 74) * 2 ^ 12 + k div 2 ^ 62 mod 2 ^ 12 = k div 2 ^ 62"
      by (simp only: div_mult_mod_eq)
    moreover have "(k div 2 ^ 62) * 2 ^ 62 + k mod 2 ^ 62 = k" by (rule div_mult_mod_eq)
    moreover have "(x * 2 ^ 12 + y) * 2 ^ 62 + z = x * 2 ^ 74 + y * 2 ^ 62 + z" for x y z :: nat
      by (simp add: algebra_simps)
    ultimately show ?thesis by metis
  qed
  define a b c where "a = n div 2 ^ 74" and "b = n div 2 ^ 62 mod 2 ^ 12" and "c = n mod 2 ^ 62"
  define a' b' c' where "a' = m div 2 ^ 74" and "b' = m div 2 ^ 62 mod 2 ^ 12" and "c' = m mod 2 ^ 62"
  have bounds: "b < 4096" "c < 4611686018427387904" "b' < 4096" "c' < 4611686018427387904"
    by (simp_all add: b_def c_def b'_def c'_def)
  have le: "a * 2 ^ 74 + b * 2 ^ 62 + c < a' * 2 ^ 74 + b' * 2 ^ 62 + c'"
    using assms split[of n] split[of m] unfolding a_def b_def c_def a'_def b'_def c'_def by linarith
  have "a * 2 ^ 80 + b * 2 ^ 64 + c < a' * 2 ^ 80 + b' * 2 ^ 64 + c'"
  proof (cases "a < a'")
    case True
    then have "Suc a \<le> a'" by simp
    then show ?thesis using bounds by simp
  next
    case False
    then have a: "a = a'" using le bounds by simp
    show ?thesis
    proof (cases "b < b'")
      case True
      then have "Suc b \<le> b'" by simp
      then show ?thesis using a bounds by simp
    next
      case False
      then have "b = b'" using le bounds a by simp
      then show ?thesis using le a by simp
    qed
  qed
  then show ?thesis
    unfolding rank_value_def a_def b_def c_def a'_def b'_def c'_def by linarith
qed

lemma rank_value_mono: "n \<le> m \<Longrightarrow> rank_value n \<le> rank_value m"
  using rank_value_strict[of n m] by (cases "n = m") auto

lemma rfc7_iff:
  assumes "uuid_laws C"
  shows "rfc7 C i \<longleftrightarrow> unat (operation_uuid i) div 2 ^ 76 mod 16 = 7 \<and>
    unat (operation_uuid i) div 2 ^ 62 mod 4 = 2"
proof -
  have m: "(15 :: uuid) = mask 4" "(3 :: uuid) = mask 2" by (simp_all add: mask_eq_exp_minus_1)
  have "unat (drop_bit 76 u AND mask 4) = unat u div 2 ^ 76 mod 16" for u :: uuid
    by (simp add: unat_low unat_drop)
  moreover have "drop_bit 62 u AND mask 2 = (2 :: uuid) \<longleftrightarrow> unat u div 2 ^ 62 mod 4 = 2" for u :: uuid
    by (simp add: word_unat_eq_iff unat_low unat_drop)
  ultimately show ?thesis by (simp add: rfc7_def uuid_lawsD[OF assms] m)
qed

lemma rank_value_rank:
  assumes "v div 2 ^ 76 mod 16 = 7" "v div 2 ^ 62 mod 4 = 2"
  shows "rank_value ((v div 2 ^ 80) * 2 ^ 74 + (v div 2 ^ 64 mod 2 ^ 12) * 2 ^ 62 + v mod 2 ^ 62) = v"
proof -
  define a b c where "a = v div 2 ^ 80" and "b = v div 2 ^ 64 mod 2 ^ 12" and "c = v mod 2 ^ 62"
  define n where "n = a * 2 ^ 74 + b * 2 ^ 62 + c"
  have bc: "b < 2 ^ 12" "c < 2 ^ 62" by (simp_all add: b_def c_def)
  have "n div 2 ^ 74 = a \<and> n div 2 ^ 62 mod 2 ^ 12 = b \<and> n mod 2 ^ 62 = c"
  proof -
    have "n = (a * 2 ^ 12 + b) * 2 ^ 62 + c" by (simp add: n_def)
    then have "n div 2 ^ 62 = a * 2 ^ 12 + b" "n mod 2 ^ 62 = c"
      using bc(2) by (simp_all only: div_mult_self3 mod_mult_self3 div_less mod_less)
    moreover have "n div 2 ^ 74 = (n div 2 ^ 62) div 2 ^ 12" by (simp flip: div_mult2_eq)
    ultimately show ?thesis using bc(1) by simp
  qed
  moreover have "a * 2 ^ 80 + 7 * 2 ^ 76 + b * 2 ^ 64 + 2 * 2 ^ 62 + c = v"
  proof -
    have v: "v = (v div 2 ^ 62) * 2 ^ 62 + c" by (simp add: c_def)
    have q: "v div 2 ^ 62 = (v div 2 ^ 64) * 4 + 2"
      using assms(2) div_mult_mod_eq[of "v div 2 ^ 62" 4] by (simp flip: div_mult2_eq)
    have r: "v div 2 ^ 64 = (v div 2 ^ 76) * 2 ^ 12 + b"
      using div_mult_mod_eq[of "v div 2 ^ 64" "2 ^ 12"] by (simp add: b_def flip: div_mult2_eq)
    have t: "v div 2 ^ 76 = a * 16 + 7"
      using assms(1) div_mult_mod_eq[of "v div 2 ^ 76" 16] by (simp add: a_def flip: div_mult2_eq)
    show ?thesis using v q r t by simp
  qed
  ultimately show ?thesis unfolding rank_value_def n_def a_def b_def c_def by simp
qed

lemma rank_bound: "unat (uuid_rank v) < 2 ^ 122"
proof -
  have "unat v div 2 ^ 80 < 2 ^ 48"
    using unat_uuid_less[of v] by (simp add: less_mult_imp_div_less)
  moreover have "unat v div 2 ^ 64 mod 2 ^ 12 < 2 ^ 12" "unat v mod 2 ^ 62 < 2 ^ 62" by simp_all
  ultimately show ?thesis unfolding unat_uuid_rank by simp
qed

lemma of_rank_value: "unat n < 2 ^ 122 \<Longrightarrow> unat (uuid_of_rank n) = rank_value (unat n)"
  by (simp only: unat_uuid_of_rank rank_value_def)

lemma rfc7_rank_value:
  assumes "uuid_laws C" "rfc7 C i"
  shows "rank_value (unat (uuid_rank (operation_uuid i))) = unat (operation_uuid i)"
  using assms by (simp only: unat_uuid_rank rfc7_iff rank_value_rank)

lemma rank_value_fields: "rank_value n div 2 ^ 76 mod 16 = 7 \<and> rank_value n div 2 ^ 62 mod 4 = 2"
proof -
  define a b c where "a = n div 2 ^ 74" and "b = n div 2 ^ 62 mod 2 ^ 12" and "c = n mod 2 ^ 62"
  have bc: "b < 2 ^ 12" "c < 2 ^ 62" by (simp_all add: b_def c_def)
  have v: "rank_value n = a * 2 ^ 80 + 7 * 2 ^ 76 + b * 2 ^ 64 + 2 * 2 ^ 62 + c"
    by (simp only: rank_value_def a_def b_def c_def)
  have "rank_value n = (a * 16 + 7) * 2 ^ 76 + (b * 2 ^ 64 + 2 * 2 ^ 62 + c)" by (simp add: v)
  moreover have "b * 2 ^ 64 + 2 * 2 ^ 62 + c < 2 ^ 76" using bc by simp
  ultimately have "rank_value n div 2 ^ 76 = a * 16 + 7"
    by (simp only: div_mult_self3 div_less)
  moreover have "rank_value n = ((a * 2 ^ 16 + 7 * 2 ^ 12 + b) * 4 + 2) * 2 ^ 62 + c" by (simp add: v)
  then have "rank_value n div 2 ^ 62 = (a * 2 ^ 16 + 7 * 2 ^ 12 + b) * 4 + 2"
    using bc(2) by (simp only: div_mult_self3 div_less)
  moreover have "(a * 16 + 7) mod 16 = 7" "((a * 2 ^ 16 + 7 * 2 ^ 12 + b) * 4 + 2) mod 4 = 2"
    by (simp_all only: mod_mult_self3) simp_all
  ultimately show ?thesis by (simp only: simp_thms)
qed

lemma of_rank_rfc7:
  assumes "uuid_laws C" "unat n < 2 ^ 122"
  shows "rfc7 C (OperationId (uuid_of_rank n))"
  using rank_value_fields[of "unat n"] by (simp only: rfc7_iff[OF assms(1)] operation_id.sel of_rank_value[OF assms(2)])

lemma next_rank:
  assumes "uuid_rank v + 1 < push_bit 122 1"
  shows "unat (uuid_rank v + 1) = Suc (unat (uuid_rank v))" "Suc (unat (uuid_rank v)) < 2 ^ 122"
proof -
  have "Suc (unat (uuid_rank v)) < 2 ^ 128" using rank_bound[of v] by simp
  then show suc: "unat (uuid_rank v + 1) = Suc (unat (uuid_rank v))"
    by (simp add: unat_word_ariths(1))
  show "Suc (unat (uuid_rank v)) < 2 ^ 122"
    using assms unfolding suc[symmetric] by (simp add: word_less_nat_alt push_bit_eq_mult)
qed

lemma advance_least:
  assumes laws: "uuid_laws C" and adv: "advance_operation_id C candidate floor = Inr r"
  shows "rfc7 C r" and "floor = Some f \<Longrightarrow> f < r"
    and "r = candidate \<or> (\<exists>f. floor = Some f \<and> candidate \<le> f \<and> (\<forall>i. rfc7 C i \<and> f < i \<longrightarrow> r \<le> i))"
proof -
  have valid: "rfc7 C candidate" "\<And>f. floor = Some f \<Longrightarrow> rfc7 C f"
    using adv by (auto simp: advance_operation_id_def)
  consider (keep) "r = candidate" "\<And>f. floor = Some f \<Longrightarrow> f < candidate"
    | (step) f where "floor = Some f" "candidate \<le> f"
        "uuid_rank (operation_uuid f) + 1 < push_bit 122 1"
        "r = OperationId (uuid_of_rank (uuid_rank (operation_uuid f) + 1))"
    using adv by (auto simp: advance_operation_id_def Let_def not_le split: option.splits if_splits)
  note cases = this
  have stepped: "rfc7 C r \<and> f < r \<and> (\<forall>i. rfc7 C i \<and> f < i \<longrightarrow> r \<le> i)"
    if s: "floor = Some f" "uuid_rank (operation_uuid f) + 1 < push_bit 122 1"
      "r = OperationId (uuid_of_rank (uuid_rank (operation_uuid f) + 1))" for f
  proof -
    let ?k = "unat (uuid_rank (operation_uuid f))"
    note nxt = next_rank[OF s(2)]
    have r: "unat (operation_uuid r) = rank_value (Suc ?k)"
      using nxt by (simp only: s(3) operation_id.sel of_rank_value)
    have f: "unat (operation_uuid f) = rank_value ?k"
      using rfc7_rank_value[OF laws valid(2)[OF s(1)]] by simp
    have "rfc7 C r" using of_rank_rfc7[OF laws] nxt by (simp only: s(3))
    moreover have "f < r"
      using rank_value_strict[of ?k "Suc ?k"] by (simp only: less_operation_id_def word_less_nat_alt r f)
    moreover have "r \<le> i" if i: "rfc7 C i" "f < i" for i
    proof -
      let ?i = "unat (uuid_rank (operation_uuid i))"
      have val: "unat (operation_uuid i) = rank_value ?i" using rfc7_rank_value[OF laws i(1)] by simp
      have "\<not> ?i \<le> ?k"
        using i(2) rank_value_mono[of ?i ?k]
        by (auto simp only: less_operation_id_def word_less_nat_alt val f not_le[symmetric])
      then show ?thesis
        using rank_value_mono[of "Suc ?k" ?i]
        by (simp only: less_eq_operation_id_def word_le_nat_alt r val not_less_eq_eq)
    qed
    ultimately show ?thesis by blast
  qed
  show "rfc7 C r" using cases valid stepped by metis
  show "f < r" if "floor = Some f" using cases stepped that by (metis option.inject)
  show "r = candidate \<or> (\<exists>f. floor = Some f \<and> candidate \<le> f \<and> (\<forall>i. rfc7 C i \<and> f < i \<longrightarrow> r \<le> i))"
    using cases stepped by metis
qed

end
