(* ===== verification/Samples.thy ===== *)
theory Samples
  imports Launch_Laws History
begin

text \<open>
  Concrete values of the model's types, for the witnesses of the properties: version 7
  identities, a permit, a retirement scope, the ledgers a short run of the authority goes
  through, and an authority directory that holds the first of them. They use the reference
  functions of \<open>Crates\<close>.
\<close>

section \<open>Identities\<close>

definition sample_uuid :: "nat \<Rightarrow> uuid" where
  "sample_uuid n = of_nat (7 * 2 ^ 76 + 2 * 2 ^ 62 + n)"

lemma unat_sample: "n < 2 ^ 62 \<Longrightarrow> unat (sample_uuid n) = 7 * 2 ^ 76 + 2 * 2 ^ 62 + n"
  unfolding sample_uuid_def by (subst unsigned_of_nat) (simp add: take_bit_eq_mod)

lemma ref_crates_fields [simp]:
  "sha256 ref_crates = ref_sha256" "ct_eq ref_crates a b = (a = b)"
  "hex_encode ref_crates = ref_hex_encode" "hex_decode ref_crates = ref_hex_decode"
  by (simp_all add: ref_crates_def)

lemma sample_version [simp]: "n < 2 ^ 62 \<Longrightarrow> uuid_version ref_crates (sample_uuid n) = 7"
  using unat_low[of 4 "drop_bit 76 (sample_uuid n)"]
  by (simp add: uuid_lawsD[OF ref_uuid_laws] unat_drop unat_sample mask_eq_exp_minus_1)

lemma sample_rfc4122 [simp]:
  assumes "n < 2 ^ 62"
  shows "uuid_rfc4122 ref_crates (sample_uuid n)"
proof -
  have "(7 * 2 ^ 76 + 2 * 2 ^ 62 + n) div 2 ^ 62 = 114690"
    by (rule div_nat_eqI) (use assms in simp_all)
  then show ?thesis
    using assms unat_low[of 2 "drop_bit 62 (sample_uuid n)"]
    by (simp add: uuid_lawsD[OF ref_uuid_laws] unat_drop unat_sample mask_eq_exp_minus_1 word_unat_eq_iff)
qed

lemma sample_eq [simp]:
  "m < 2 ^ 62 \<Longrightarrow> n < 2 ^ 62 \<Longrightarrow> (sample_uuid m = sample_uuid n) = (m = n)"
  by (metis unat_sample add_left_cancel)

lemma sample_less [simp]:
  "m < 2 ^ 62 \<Longrightarrow> n < 2 ^ 62 \<Longrightarrow> (sample_uuid m < sample_uuid n) = (m < n)"
  "m < 2 ^ 62 \<Longrightarrow> n < 2 ^ 62 \<Longrightarrow> (sample_uuid m \<le> sample_uuid n) = (m \<le> n)"
  by (simp_all add: word_less_nat_alt word_le_nat_alt unat_sample)

section \<open>Permits and ledgers\<close>

definition sample_host :: host_id where "sample_host = HostId (sample_uuid 1)"

definition sample_permit :: "nat \<Rightarrow> permit" where
  "sample_permit k =
     \<lparr>permit_host = sample_host, permit_project = ProjectId (sample_uuid 2),
      permit_sandbox = SandboxId (sample_uuid 3), permit_allocation = AllocationId (sample_uuid (100 + k)),
      permit_create_operation = OperationId (sample_uuid (200 + k)), permit_generation = int k,
      permit_original_epoch = 1, permit_serial = k\<rparr>"

definition sample_retirement :: operation_id where "sample_retirement = OperationId (sample_uuid 300)"

definition sample_intent :: intent where
  "sample_intent =
     \<lparr>intent_version = 1, intent_retirement = sample_retirement, intent_permit = sample_permit 1,
      intent_commands = EmptyClosure, intent_files = RetiredThrough (OperationId (sample_uuid 250)),
      intent_release_evidence = replicate 64 (CHR ''a''), intent_simulated = False\<rparr>"

definition sample_intent_json :: "intent json" where
  "sample_intent_json = table_json [sample_intent]"

definition sample_ledger :: "owner_state list \<Rightarrow> ledger" where
  "sample_ledger ss =
     \<lparr>ledger_version = 1, ledger_host = sample_host, ledger_through = 2,
      ledger_entries = map (\<lambda>(k, s). \<lparr>entry_permit = sample_permit k, entry_state = s\<rparr>)
        (enumerate 1 ss)\<rparr>"

definition empty_ledger :: ledger where
  "empty_ledger = \<lparr>ledger_version = 1, ledger_host = sample_host, ledger_through = 0, ledger_entries = []\<rparr>"

abbreviation "two_active \<equiv> sample_ledger [Active, Active]"
abbreviation "first_fenced \<equiv> sample_ledger [Fenced sample_retirement, Active]"

definition sample_ledger_json :: "ledger json" where
  "sample_ledger_json = table_json [empty_ledger, two_active, first_fenced]"

lemma sample_permit_fields [simp]:
  "permit_host (sample_permit k) = sample_host" "permit_serial (sample_permit k) = k"
  "permit_allocation (sample_permit k) = AllocationId (sample_uuid (100 + k))"
  "permit_create_operation (sample_permit k) = OperationId (sample_uuid (200 + k))"
  "permit_sandbox (sample_permit k) = SandboxId (sample_uuid 3)" "permit_generation (sample_permit k) = int k"
  "permit_original_epoch (sample_permit k) = 1" "permit_project (sample_permit k) = ProjectId (sample_uuid 2)"
  by (simp_all add: sample_permit_def)

lemma sample_permit_eq [simp]: "(sample_permit j = sample_permit k) = (j = k)"
  by (metis sample_permit_fields(2))

lemma sample_permit_ok [simp]: "0 < k \<Longrightarrow> k < 1000 \<Longrightarrow> permit_ok ref_crates (sample_permit k)"
  by (simp add: permit_ok_iff sample_host_def max_serial_def)

lemma sample_intent_ok: "intent_validate ref_crates sample_intent = Inr ()"
  by (simp add: intent_valid_iff sample_intent_def valid_id_def sample_retirement_def closure_check_def
      lower_hex_def ascii_digit_def list_all_iff)

lemma sample_ledger_fields [simp]:
  "ledger_host (sample_ledger ss) = sample_host" "ledger_through (sample_ledger ss) = 2"
  "ledger_version (sample_ledger ss) = 1"
  "ledger_entries (sample_ledger [s, t]) =
     [\<lparr>entry_permit = sample_permit 1, entry_state = s\<rparr>, \<lparr>entry_permit = sample_permit 2, entry_state = t\<rparr>]"
  by (simp_all add: sample_ledger_def)

lemma sample_ledger_eq [simp]:
  "(sample_ledger [s, t] = sample_ledger [s', t']) = (s = s' \<and> t = t')"
  "empty_ledger \<noteq> sample_ledger [s, t]" "sample_ledger [s, t] \<noteq> empty_ledger"
  by (auto dest: arg_cong[where f = ledger_entries] simp: empty_ledger_def)

lemma sample_ledger_ok:
  "ledger_ok ref_crates two_active" "ledger_ok ref_crates first_fenced"
  "ledger_ok ref_crates empty_ledger"
  by (simp_all add: ledger_ok_def entries_ok_def entry_ok_def sample_host_def max_serial_def max_entries_def
      valid_id_def sample_retirement_def serials_def empty_ledger_def)

lemma sample_json_faithful:
  "json_faithful sample_ledger_json" "json_faithful sample_intent_json"
  by (simp_all add: sample_ledger_json_def sample_intent_json_def table_json_faithful)

lemma sample_encodings [simp]:
  "to_vec sample_ledger_json empty_ledger = Some []" "to_vec sample_ledger_json two_active = Some [1]"
  "to_vec sample_ledger_json first_fenced = Some [1, 1]" "to_vec sample_intent_json sample_intent = Some []"
  by (simp_all add: sample_ledger_json_def sample_intent_json_def table_json_def numeral_2_eq_2)

lemma sample_owners:
  "owners two_active (sample_permit 1) = Some Active"
  "owners first_fenced (sample_permit 1) = Some (Fenced sample_retirement)"
  by (simp_all add: owners_def)

lemma sample_fence: "ledger_fence ref_crates two_active (sample_permit 1) sample_retirement = Inr first_fenced"
proof -
  have "ledger_index ref_crates two_active (sample_permit 1) = Inr 0"
    by (simp add: ledger_index_iff[OF sample_ledger_ok(1)])
  then show ?thesis
    by (simp add: ledger_fence_def sample_retirement_def set_state_def sample_ledger_def)
qed

end
