(* ===== verification/Token.thy ===== *)
theory Token
  imports Crates
begin

text \<open>
  Project API tokens (\<open>crates/sandbox-protocol/src/token.rs\<close>): a nonsecret key identifier
  and a 256-bit secret, rendered as \<open>hsb_<key-id>_<secret>\<close>. The operating system's
  randomness is an argument of \<open>token_generate\<close> (\<open>None\<close> when \<open>getrandom::fill\<close> fails).
\<close>

datatype token_parse_error = Malformed | BadPrefix | BadKeyId | BadSecret

record project_token =
  token_key_id :: string
  token_secret :: bytes

definition token_prefix :: string where "token_prefix = ''hsb''"
definition key_id_bytes :: nat where "key_id_bytes = 8"
definition secret_bytes :: nat where "secret_bytes = 32"

definition token_generate ::
    "crates \<Rightarrow> bytes option \<Rightarrow> bytes option \<Rightarrow> unit + project_token" where
  "token_generate C key_fill secret_fill =
     rbind (ok_or () key_fill) (\<lambda>key_id.
     rbind (ok_or () secret_fill) (\<lambda>secret.
     Inr \<lparr>token_key_id = hex_encode C key_id, token_secret = secret\<rparr>))"

definition token_parse :: "crates \<Rightarrow> string \<Rightarrow> token_parse_error + project_token" where
  "token_parse C s =
     (case split_on (CHR ''_'') s of
        [prefix, key_id, secret] \<Rightarrow>
          if prefix \<noteq> token_prefix then Inl BadPrefix
          else if length key_id \<noteq> key_id_bytes * 2 \<or> hex_decode C key_id = None then Inl BadKeyId
          else if length secret \<noteq> secret_bytes * 2 then Inl BadSecret
          else (case hex_decode C secret of
                  None \<Rightarrow> Inl BadSecret
                | Some raw \<Rightarrow>
                    if length raw \<noteq> secret_bytes then Inl BadSecret
                    else Inr \<lparr>token_key_id = key_id, token_secret = raw\<rparr>)
      | _ \<Rightarrow> Inl Malformed)"

definition token_hash :: "crates \<Rightarrow> project_token \<Rightarrow> bytes" where
  "token_hash C t = sha256 C (token_secret t)"

definition token_verify :: "crates \<Rightarrow> bytes \<Rightarrow> bytes \<Rightarrow> bool" where
  "token_verify C h other = ct_eq C h other"

definition token_render :: "crates \<Rightarrow> project_token \<Rightarrow> string" where
  "token_render C t =
     token_prefix @ ''_'' @ token_key_id t @ ''_'' @ hex_encode C (token_secret t)"

text \<open>A token as issued: both halves have the documented width and the key identifier is hex.\<close>

definition issued_token :: "crates \<Rightarrow> project_token \<Rightarrow> bool" where
  "issued_token C t =
     (length (token_key_id t) = 16 \<and> list_all lower_hex (token_key_id t) \<and>
      hex_decode C (token_key_id t) \<noteq> None \<and> length (token_secret t) = 32)"

lemmas token_consts = token_prefix_def key_id_bytes_def secret_bytes_def

lemma lower_hex_no_sep: "list_all lower_hex s \<Longrightarrow> CHR ''_'' \<notin> set s"
  by (auto simp: list_all_iff lower_hex_def ascii_digit_def)

lemma generated_issued:
  assumes "hash_laws C" "token_generate C (Some k) (Some s) = Inr t" "length k = 8" "length s = 32"
  shows "issued_token C t"
  using assms by (auto simp: token_generate_def issued_token_def codec_laws)

lemma split_render:
  assumes "hash_laws C" "list_all lower_hex (token_key_id t)"
  shows "split_on (CHR ''_'') (token_render C t) =
    [token_prefix, token_key_id t, hex_encode C (token_secret t)]"
proof -
  have "CHR ''_'' \<notin> set token_prefix" by (simp add: token_prefix_def)
  then show ?thesis
    using lower_hex_no_sep[OF assms(2)] hex_encode_no_sep[OF assms(1), of "token_secret t"]
    by (simp add: token_render_def)
qed

lemma parse_render:
  assumes "hash_laws C" "issued_token C t"
  shows "token_parse C (token_render C t) = Inr t"
  using assms split_render[of C t]
  by (simp add: token_parse_def issued_token_def token_consts codec_laws)

lemma parsed_shape:
  assumes "token_parse C s = Inr t"
  shows "\<exists>secret. split_on (CHR ''_'') s = [token_prefix, token_key_id t, secret] \<and>
    hex_decode C secret = Some (token_secret t) \<and> length (token_secret t) = 32 \<and>
    length (token_key_id t) = 16"
  using assms
  by (auto simp: token_parse_def token_consts split: list.splits if_splits option.splits)

end
