(* ===== verification/Idempotency.thy ===== *)
theory Idempotency
  imports Crates
begin

text \<open>
  Idempotency keys and request digests (\<open>crates/sandbox-protocol/src/idempotency.rs\<close>).
  A JSON document is the datatype \<open>json_value\<close> (\<open>serde_json::Value\<close>; an object is its
  list of entries in the map's iteration order). The two calls of
  \<open>serde_json::to_string\<close>, on an object key and on a scalar, are the record \<open>json_text\<close>.
  \<open>canonical\<close> is what \<open>write_canonical\<close> appends to its buffer.
\<close>

section \<open>Keys\<close>

datatype key_error = TooShort | TooLong | BadCharacter

definition min_key_len :: nat where "min_key_len = 16"
definition max_key_len :: nat where "max_key_len = 128"

definition key_char :: "char \<Rightarrow> bool" where
  "key_char c = (ascii_alphanumeric c \<or> c = CHR ''.'' \<or> c = CHR ''_'' \<or> c = CHR ''-'')"

definition key_parse :: "string \<Rightarrow> key_error + string" where
  "key_parse s =
     (if length s < min_key_len then Inl TooShort
      else if max_key_len < length s then Inl TooLong
      else if \<not> list_all key_char s then Inl BadCharacter
      else Inr s)"

lemma key_parse_iff:
  "key_parse s = Inr k \<longleftrightarrow> k = s \<and> 16 \<le> length s \<and> length s \<le> 128 \<and> list_all key_char s"
  by (auto simp: key_parse_def min_key_len_def max_key_len_def)

section \<open>Canonical JSON\<close>

datatype json_value =
    JNull
  | JBool bool
  | JNumber string
  | JString string
  | JArray "json_value list"
  | JObject "(string \<times> json_value) list"

record json_text =
  key_text :: "string \<Rightarrow> string option"
  scalar_text :: "json_value \<Rightarrow> string option"

fun join_with :: "string \<Rightarrow> string list \<Rightarrow> string" where
  "join_with sep [] = []"
| "join_with sep [p] = p"
| "join_with sep (p # q # ps) = p @ sep @ join_with sep (q # ps)"

definition unwrap_or_default :: "string option \<Rightarrow> string" where
  "unwrap_or_default x = (case x of None \<Rightarrow> [] | Some s \<Rightarrow> s)"

lemma object_child_size:
  "map_of m k = Some v \<Longrightarrow> size v < Suc (size_list (size_prod (\<lambda>_. 0) size) m)"
  by (induction m) (auto split: if_splits)

function canonical :: "json_text \<Rightarrow> json_value \<Rightarrow> string" where
  "canonical J (JObject m) =
     ''{'' @ join_with '','' (map (\<lambda>k. unwrap_or_default (key_text J k) @ '':'' @
        (case map_of m k of None \<Rightarrow> [] | Some child \<Rightarrow> canonical J child)) (sort (map fst m))) @ ''}''"
| "canonical J (JArray items) = ''['' @ join_with '','' (map (canonical J) items) @ '']''"
| "canonical J JNull = unwrap_or_default (scalar_text J JNull)"
| "canonical J (JBool b) = unwrap_or_default (scalar_text J (JBool b))"
| "canonical J (JNumber n) = unwrap_or_default (scalar_text J (JNumber n))"
| "canonical J (JString s) = unwrap_or_default (scalar_text J (JString s))"
  by pat_completeness auto
termination
  by (relation "measure (\<lambda>(J, v). size v)")
    (auto dest: object_child_size simp: size_list_estimation' less_Suc_eq_le)

text \<open>
  Two documents with the same content: arrays element by element, objects with the same
  keys and the same children, whatever the order of the entries.
\<close>

inductive json_same :: "json_value \<Rightarrow> json_value \<Rightarrow> bool" where
  same_refl: "json_same v v"
| same_array: "list_all2 json_same xs ys \<Longrightarrow> json_same (JArray xs) (JArray ys)"
| same_object: "distinct (map fst m) \<Longrightarrow> distinct (map fst n) \<Longrightarrow>
    set (map fst m) = set (map fst n) \<Longrightarrow>
    (\<And>k v w. map_of m k = Some v \<Longrightarrow> map_of n k = Some w \<Longrightarrow> json_same v w) \<Longrightarrow>
    json_same (JObject m) (JObject n)"

lemma sort_keys_unique:
  "distinct (xs :: string list) \<Longrightarrow> distinct ys \<Longrightarrow> set xs = set ys \<Longrightarrow> sort xs = sort ys"
  by (metis distinct_sort sorted_distinct_set_unique sorted_sort set_sort)

lemma canonical_same: "json_same v w \<Longrightarrow> canonical J v = canonical J w"
proof (induction rule: json_same.induct)
  case (same_array xs ys)
  then have "map (canonical J) xs = map (canonical J) ys"
    by (auto simp: list_all2_conv_all_nth intro: nth_equalityI)
  then show ?case by (simp only: canonical.simps)
next
  case (same_object m n)
  have "(case map_of m k of None \<Rightarrow> [] | Some c \<Rightarrow> canonical J c) =
      (case map_of n k of None \<Rightarrow> [] | Some c \<Rightarrow> canonical J c)" for k
  proof (cases "k \<in> set (map fst m)")
    case True
    then obtain v w where "map_of m k = Some v" "map_of n k = Some w"
      using same_object.hyps(3) by (metis image_set map_of_eq_None_iff option.exhaust)
    then show ?thesis using same_object.IH by simp
  next
    case False
    then have "map_of m k = None" "map_of n k = None"
      using same_object.hyps(3) by (metis image_set map_of_eq_None_iff)+
    then show ?thesis by simp
  qed
  then show ?case using sort_keys_unique[OF same_object.hyps(1,2,3)] by simp
qed simp

section \<open>Digests\<close>

definition framed :: "bytes \<Rightarrow> bytes" where
  "framed part = to_be_bytes 8 (length part) @ part"

definition digest_preimage :: "string \<Rightarrow> string \<Rightarrow> string \<Rightarrow> bytes" where
  "digest_preimage method target canon =
     concat (map framed [as_bytes method, as_bytes target, as_bytes canon])"

text \<open>\<open>payload\<close> is the result of \<open>serde_json::to_value\<close> on the request.\<close>

definition request_digest ::
    "crates \<Rightarrow> json_text \<Rightarrow> string \<Rightarrow> string \<Rightarrow> json_value option \<Rightarrow> unit + bytes" where
  "request_digest C J method target payload =
     rbind (ok_or () payload) (\<lambda>v.
     Inr (sha256 C (digest_preimage method target (canonical J v))))"

lemma to_be_bytes_inj:
  assumes "to_be_bytes n x = to_be_bytes n y" "x < 256 ^ n" "y < 256 ^ n"
  shows "x = y"
  using assms
proof (induction n arbitrary: x y)
  case (Suc n)
  note split = to_be_bytes_Suc
  from Suc.prems(1) have hi: "to_be_bytes n (x div 256) = to_be_bytes n (y div 256)"
    and lo: "(of_nat x :: byte) = of_nat y" by (simp_all add: split)
  from hi Suc.prems(2,3) have "x div 256 = y div 256"
    by (intro Suc.IH) (auto simp: less_mult_imp_div_less mult.commute)
  moreover from lo have "x mod 256 = y mod 256"
    by (simp add: word_of_nat_eq_iff take_bit_eq_mod)
  ultimately show ?case by (metis div_mult_mod_eq)
qed simp

lemma framed_append_inj:
  assumes "framed a @ r = framed b @ s" "length a < u64_limit" "length b < u64_limit"
  shows "a = b \<and> r = s"
proof -
  have "to_be_bytes 8 (length a) = to_be_bytes 8 (length b)" "a @ r = b @ s"
    using assms(1) by (simp_all add: framed_def append_eq_append_conv)
  moreover from this(1) have "length a = length b"
    by (rule to_be_bytes_inj) (use assms(2,3) in simp_all)
  ultimately show ?thesis by (simp add: append_eq_append_conv)
qed

lemma digest_preimage_inj:
  assumes "digest_preimage m t c = digest_preimage m' t' c'"
    and "length m < u64_limit" "length m' < u64_limit"
    and "length t < u64_limit" "length t' < u64_limit"
    and "length c < u64_limit" "length c' < u64_limit"
  shows "m = m' \<and> t = t' \<and> c = c'"
proof -
  from assms(1) have
    "framed (as_bytes m) @ framed (as_bytes t) @ framed (as_bytes c) =
     framed (as_bytes m') @ framed (as_bytes t') @ framed (as_bytes c')"
    by (simp add: digest_preimage_def)
  then have "as_bytes m = as_bytes m'"
    and rest: "framed (as_bytes t) @ framed (as_bytes c) = framed (as_bytes t') @ framed (as_bytes c')"
    using framed_append_inj assms(2,3) by (metis length_as_bytes)+
  from rest have "as_bytes t = as_bytes t'" and "framed (as_bytes c) @ [] = framed (as_bytes c') @ []"
    using framed_append_inj assms(4,5) by (metis length_as_bytes append_Nil2)+
  then show ?thesis
    using \<open>as_bytes m = as_bytes m'\<close> framed_append_inj[of "as_bytes c" "[]" "as_bytes c'" "[]"] assms(6,7)
    by simp
qed

end
