(* ===== verification/Capabilities.thy ===== *)
theory Capabilities
  imports Prelude Crates
begin

text \<open>
  Guest sizes (\<open>resources.rs\<close>), the operator's image policy (\<open>images.rs\<close>) and the host
  capability contract (\<open>host_capabilities.rs\<close>) of \<open>crates/sandbox-protocol/src\<close>.
\<close>

section \<open>Guest sizes\<close>

definition min_vcpu :: int where "min_vcpu = 1"
definition max_vcpu :: int where "max_vcpu = 4"
definition min_memory_mib :: int where "min_memory_mib = 128"
definition max_memory_mib :: int where "max_memory_mib = 8192"
definition min_disk_mib :: int where "min_disk_mib = 64"
definition max_disk_mib :: int where "max_disk_mib = 65536"

lemmas size_consts = min_vcpu_def max_vcpu_def min_memory_mib_def max_memory_mib_def
  min_disk_mib_def max_disk_mib_def

definition supported :: "int \<Rightarrow> int \<Rightarrow> int \<Rightarrow> bool" where
  "supported vcpu memory_mib disk_mib =
     (min_vcpu \<le> vcpu \<and> vcpu \<le> max_vcpu \<and>
      min_memory_mib \<le> memory_mib \<and> memory_mib \<le> max_memory_mib \<and>
      min_disk_mib \<le> disk_mib \<and> disk_mib \<le> max_disk_mib)"

lemma supported_iff:
  "supported v m d \<longleftrightarrow> 1 \<le> v \<and> v \<le> 4 \<and> 128 \<le> m \<and> m \<le> 8192 \<and> 64 \<le> d \<and> d \<le> 65536"
  by (simp add: supported_def size_consts)

section \<open>Image policy\<close>

definition valid_image_digest :: "string \<Rightarrow> bool" where
  "valid_image_digest digest =
     (case strip_prefix ''sha256:'' digest of
        None \<Rightarrow> False
      | Some hex \<Rightarrow> length hex = 64 \<and> list_all lower_hex hex)"

datatype image_policy_error = PolicySize | PolicyDigest | PolicyDuplicate

text \<open>One turn of the loop of \<open>ImageAllowlist::new\<close>; the set is the list of its entries.\<close>

definition allowlist_add :: "string list \<Rightarrow> string \<Rightarrow> image_policy_error + string list" where
  "allowlist_add entries digest =
     (if 256 \<le> length entries then Inl PolicySize
      else if \<not> valid_image_digest digest then Inl PolicyDigest
      else if digest \<in> set entries then Inl PolicyDuplicate
      else Inr (digest # entries))"

definition allowlist_new :: "string list \<Rightarrow> image_policy_error + string list" where
  "allowlist_new digests =
     rbind (try_fold allowlist_add [] digests) (\<lambda>entries.
     if entries = [] then Inl PolicySize else Inr entries)"

definition allowlist_allows :: "string list \<Rightarrow> string \<Rightarrow> bool" where
  "allowlist_allows entries digest = (digest \<in> set entries)"

lemma allowlist_add_Inr:
  "allowlist_add acc d = Inr out \<longleftrightarrow>
     out = d # acc \<and> length acc < 256 \<and> valid_image_digest d \<and> d \<notin> set acc"
  by (auto simp: allowlist_add_def)

lemma allowlist_fold:
  "try_fold allowlist_add acc ds = Inr out \<longleftrightarrow>
     out = rev ds @ acc \<and> (ds = [] \<or> length acc + length ds \<le> 256) \<and>
     list_all valid_image_digest ds \<and> distinct ds \<and> set ds \<inter> set acc = {}"
proof (induction ds arbitrary: acc)
  case Nil
  then show ?case by auto
next
  case (Cons d ds)
  show ?case by (auto simp: allowlist_add_Inr Cons.IH)
qed

lemma allowlist_new_iff:
  "allowlist_new ds = Inr out \<longleftrightarrow>
     out = rev ds \<and> ds \<noteq> [] \<and> length ds \<le> 256 \<and> list_all valid_image_digest ds \<and> distinct ds"
  by (auto simp: allowlist_new_def allowlist_fold)

section \<open>Host capability contract\<close>

record image_cap =
  rootfs_digest :: string
  kernel_digest :: string
  minimum_disk_mib :: nat
  guest_version :: string
  bootstrap_version :: nat
  guest_protocol_version :: nat

record cap_limits =
  lim_vcpu :: nat
  lim_memory_mib :: nat
  lim_disk_mib :: nat

record capabilities =
  cap_version :: nat
  cap_simulated :: bool
  architecture :: string
  host_kernel_release :: string
  kvm_api_version :: nat
  cgroup_version :: nat
  supervisor_version :: string
  firecracker_version :: string
  firecracker_digest :: string
  jailer_digest :: string
  cap_limits :: cap_limits
  cap_images :: "image_cap list"

definition cap_max_bytes :: nat where "cap_max_bytes = 65536"

text \<open>\<open>env!("CARGO_PKG_VERSION")\<close>, from the workspace manifest.\<close>

definition pkg_version :: string where "pkg_version = ''0.0.0''"

definition release_char :: "char \<Rightarrow> bool" where
  "release_char c = (ascii_alphanumeric c \<or> c \<in> set ''._+-'')"

definition image_cap_ok :: "cap_limits \<Rightarrow> string list \<Rightarrow> image_cap \<Rightarrow> bool" where
  "image_cap_ok lim seen img =
     (valid_image_digest (rootfs_digest img) \<and> valid_image_digest (kernel_digest img) \<and>
      rootfs_digest img \<notin> set seen \<and>
      64 \<le> minimum_disk_mib img \<and> minimum_disk_mib img \<le> lim_disk_mib lim \<and>
      guest_version img = pkg_version \<and> bootstrap_version img = 1 \<and>
      guest_protocol_version img = 1)"

definition cap_image_step :: "cap_limits \<Rightarrow> string list \<Rightarrow> image_cap \<Rightarrow> unit + string list" where
  "cap_image_step lim seen img =
     (if image_cap_ok lim seen img then Inr (rootfs_digest img # seen) else Inl ())"

definition cap_validate :: "capabilities \<Rightarrow> unit + unit" where
  "cap_validate c =
     rbind (ensure
       (cap_version c = 1 \<and>
        (architecture c = ''x86_64'' \<or> architecture c = ''aarch64'') \<and>
        host_kernel_release c \<noteq> [] \<and> length (host_kernel_release c) \<le> 128 \<and>
        list_all release_char (host_kernel_release c) \<and>
        kvm_api_version c = 12 \<and> cgroup_version c = 2 \<and>
        supervisor_version c = pkg_version \<and> firecracker_version c = ''1.17.0'' \<and>
        valid_image_digest (firecracker_digest c) \<and> valid_image_digest (jailer_digest c) \<and>
        supported (int (lim_vcpu (cap_limits c))) (int (lim_memory_mib (cap_limits c)))
          (int (lim_disk_mib (cap_limits c))) \<and>
        cap_images c \<noteq> [] \<and> length (cap_images c) \<le> 64) ()) (\<lambda>_.
     rbind (try_fold (cap_image_step (cap_limits c)) [] (cap_images c)) (\<lambda>_. Inr ()))"

definition cap_from_json :: "capabilities json \<Rightarrow> bytes \<Rightarrow> unit + capabilities" where
  "cap_from_json J b =
     rbind (ensure (b \<noteq> [] \<and> length b \<le> cap_max_bytes) ()) (\<lambda>_.
     rbind (ok_or () (from_slice J b)) (\<lambda>c.
     rbind (cap_validate c) (\<lambda>_. Inr c)))"

definition cap_to_json :: "capabilities json \<Rightarrow> capabilities \<Rightarrow> unit + bytes" where
  "cap_to_json J c =
     rbind (cap_validate c) (\<lambda>_.
     rbind (ok_or () (to_vec J c)) (\<lambda>b.
     rbind (ensure (length b \<le> cap_max_bytes) ()) (\<lambda>_. Inr b)))"

definition cap_supports :: "capabilities \<Rightarrow> string \<Rightarrow> nat \<Rightarrow> nat \<Rightarrow> nat \<Rightarrow> bool" where
  "cap_supports c digest vcpu memory_mib disk_mib =
     (is_ok (cap_validate c) \<and>
      supported (int vcpu) (int memory_mib) (int disk_mib) \<and>
      vcpu \<le> lim_vcpu (cap_limits c) \<and> memory_mib \<le> lim_memory_mib (cap_limits c) \<and>
      disk_mib \<le> lim_disk_mib (cap_limits c) \<and>
      (\<exists>img \<in> set (cap_images c). rootfs_digest img = digest \<and> minimum_disk_mib img \<le> disk_mib))"

text \<open>The loop over the images: every image is acceptable and no root file system repeats.\<close>

lemma cap_image_step_Inr:
  "cap_image_step lim seen img = Inr out \<longleftrightarrow>
     out = rootfs_digest img # seen \<and> image_cap_ok lim [] img \<and> rootfs_digest img \<notin> set seen"
  by (auto simp: cap_image_step_def image_cap_ok_def)

lemma image_fold:
  "try_fold (cap_image_step lim) acc imgs = Inr out \<Longrightarrow>
   (\<forall>i \<in> set imgs. image_cap_ok lim [] i) \<and> distinct (map rootfs_digest imgs) \<and>
   set (map rootfs_digest imgs) \<inter> set acc = {}"
proof (induction imgs arbitrary: acc)
  case (Cons i imgs)
  then have "try_fold (cap_image_step lim) (rootfs_digest i # acc) imgs = Inr out"
    and "image_cap_ok lim [] i" "rootfs_digest i \<notin> set acc"
    by (auto simp: cap_image_step_Inr)
  with Cons.IH[of "rootfs_digest i # acc"] show ?case by auto
qed simp

lemma cap_validate_images:
  assumes "cap_validate c = Inr u"
  shows "distinct (map rootfs_digest (cap_images c))"
    and "\<forall>i \<in> set (cap_images c). image_cap_ok (cap_limits c) [] i"
  using assms image_fold[of "cap_limits c" "[]" "cap_images c"] by (auto simp: cap_validate_def)

lemma cap_json_roundtrip:
  assumes "json_faithful J" "cap_to_json J c = Inr b" "b \<noteq> []"
  shows "cap_from_json J b = Inr c"
  using assms by (auto simp: cap_to_json_def cap_from_json_def dest: json_faithfulD)

end
