(* ===== verification/Command.thy ===== *)
theory Command
  imports Guest_Model
begin

text \<open>
  Normalised command input and the host's retained command evidence
  (\<open>command.rs\<close>, and \<open>CommandInput\<close> of \<open>api.rs\<close>, in \<open>crates/sandbox-protocol/src\<close>),
  with the wire messages of \<open>proto/supervisor.proto\<close> that commands use.
\<close>

section \<open>Input\<close>

record command_input =
  input_argv :: "string list"
  input_env :: "(string, string) btmap"
  input_cwd :: string
  input_deadline :: int
  input_output_limit :: nat
  input_expected_generation :: "int option"

definition max_output :: nat where "max_output = 10 * 1024 * 1024"
definition max_duration_ms :: int where "max_duration_ms = 6 * 60 * 60 * 1000"
definition max_commands :: nat where "max_commands = 32"

definition input_for_operation :: "command_input \<Rightarrow> operation_id \<Rightarrow> execute" where
  "input_for_operation c i =
     \<lparr>exec_operation = i, exec_argv = input_argv c, exec_env = input_env c,
      exec_cwd = input_cwd c, exec_deadline = input_deadline c,
      exec_output_limit = input_output_limit c\<rparr>"

text \<open>\<open>fresh\<close> is the result of \<open>OperationId::generate()\<close>.\<close>

definition input_validate :: "execute json \<Rightarrow> operation_id \<Rightarrow> command_input \<Rightarrow> unit + unit" where
  "input_validate J fresh c =
     rbind (ensure (case input_expected_generation c of None \<Rightarrow> True | Some g \<Rightarrow> 0 < g) ()) (\<lambda>_.
     rbind (ensure (input_output_limit c \<le> max_output) ()) (\<lambda>_.
     execute_validate J (input_for_operation c fresh)))"

section \<open>Retained evidence\<close>

record command_record =
  cmd_digest :: bytes
  cmd_context :: "guest_context option"
  cmd_deadline :: int
  cmd_output_limit :: nat
  cmd_not_started :: bool
  cmd_receipt :: "receipt option"

definition command_fenced :: "bytes \<Rightarrow> command_record" where
  "command_fenced d =
     \<lparr>cmd_digest = d, cmd_context = None, cmd_deadline = 0, cmd_output_limit = 0,
      cmd_not_started = True, cmd_receipt = None\<rparr>"

definition command_pending ::
    "crates \<Rightarrow> execute json \<Rightarrow> execute \<Rightarrow> guest_context \<Rightarrow> unit + command_record" where
  "command_pending C J x c =
     rbind (execute_digest C J x) (\<lambda>d.
     Inr \<lparr>cmd_digest = d, cmd_context = Some c, cmd_deadline = exec_deadline x,
          cmd_output_limit = exec_output_limit x, cmd_not_started = False, cmd_receipt = None\<rparr>)"

definition command_finished :: "command_record \<Rightarrow> bool" where
  "command_finished r =
     (cmd_not_started r \<or>
      (case cmd_receipt r of
         None \<Rightarrow> False
       | Some t \<Rightarrow> rcpt_cleanup_confirmed t \<and> rcpt_state t \<in> {Exited, TimedOut, Cancelled}))"

definition command_validate_receipt ::
    "command_record \<Rightarrow> operation_id \<Rightarrow> receipt \<Rightarrow> unit + unit" where
  "command_validate_receipt r i t =
     rbind (receipt_validate t) (\<lambda>_.
     ensure (\<not> cmd_not_started r \<and> rcpt_operation t = i \<and> cmd_context r = Some (rcpt_context t) \<and>
             cmd_digest r = rcpt_digest t \<and> cmd_deadline r = rcpt_deadline t \<and>
             cmd_output_limit r = rcpt_output_limit t) ())"

section \<open>Observations\<close>

record ownership =
  own_host :: string
  own_project :: string
  own_sandbox :: string
  own_allocation :: string
  own_operation :: string
  own_generation :: int
  own_epoch :: int
  own_revision :: int
  own_expires :: int

record command_observation =
  cobs_ownership :: "ownership option"
  cobs_simulated :: bool
  cobs_observed :: int
  cobs_digest :: bytes
  cobs_receipt :: "wire_receipt option"
  cobs_not_started :: bool

definition command_observe ::
    "crates \<Rightarrow> command_record \<Rightarrow> ownership \<Rightarrow> bool \<Rightarrow> int \<Rightarrow> command_observation" where
  "command_observe C r owner simulated now =
     \<lparr>cobs_ownership = Some owner, cobs_simulated = simulated, cobs_observed = now,
      cobs_digest = cmd_digest r, cobs_receipt = map_option (receipt_to_wire C) (cmd_receipt r),
      cobs_not_started = cmd_not_started r\<rparr>"

section \<open>Facts\<close>

lemma execute_valid_bounds:
  assumes "execute_validate J x = Inr u"
  shows "exec_argv x \<noteq> []" "hd (exec_argv x) \<noteq> []" "\<forall>a \<in> set (exec_argv x). no_nul a"
    "\<forall>(k, v) \<in> set (exec_env x). env_key_ok k \<and> no_nul v"
    "1 \<le> exec_output_limit x" "exec_output_limit x \<le> guest_max_output"
  using assms by (auto simp: execute_validate_def env_entry_check_def list_all_iff)

lemma input_valid_execute:
  "input_validate J fresh c = Inr u \<Longrightarrow>
    execute_validate J (input_for_operation c fresh) = Inr () \<and> input_output_limit c \<le> max_output"
  by (auto simp: input_validate_def)

text \<open>The retained intent admits only receipts of the very command it was written for.\<close>

lemma pending_receipt:
  assumes "command_pending C J x c = Inr r" "command_validate_receipt r (exec_operation x) t = Inr u"
  shows "rcpt_operation t = exec_operation x" "rcpt_context t = c"
    "execute_digest C J x = Inr (rcpt_digest t)" "rcpt_deadline t = exec_deadline x"
    "rcpt_output_limit t = exec_output_limit x"
    "out_stored (rcpt_stdout t) + out_stored (rcpt_stderr t) \<le> exec_output_limit x"
  using assms by (auto simp: command_pending_def command_validate_receipt_def receipt_valid_iff)

lemma fenced_never_observed: "command_validate_receipt (command_fenced d) i t = Inl ()"
  by (cases "receipt_validate t") (simp_all add: command_validate_receipt_def command_fenced_def)

lemma finished_receipt:
  "command_finished r \<Longrightarrow> \<not> cmd_not_started r \<Longrightarrow>
    \<exists>t. cmd_receipt r = Some t \<and> rcpt_cleanup_confirmed t \<and> rcpt_state t \<in> {Exited, TimedOut, Cancelled}"
  by (auto simp: command_finished_def split: option.splits)

end
