(* ===== verification/Output.thy ===== *)
theory Output
  imports Command
begin

text \<open>
  Descriptors of archived command output (\<open>output.rs\<close>, \<open>live_output.rs\<close> in
  \<open>crates/sandbox-protocol/src\<close>): owners, tickets, plans, references and retirement
  evidence. The locale \<open>keyed_plan\<close> is the contract of a plan kept in the object store,
  which file sources share: its object key separates everything that identifies it.
\<close>

section \<open>Owners and tickets\<close>

datatype output_name = Stdout | Stderr

definition output_name_str :: "output_name \<Rightarrow> string" where
  "output_name_str n = (case n of Stdout \<Rightarrow> ''stdout'' | Stderr \<Rightarrow> ''stderr'')"

record output_owner =
  oo_project :: project_id
  oo_sandbox :: sandbox_id
  oo_operation :: operation_id
  oo_allocation :: allocation_id
  oo_generation :: int
  oo_host :: host_id
  oo_epoch :: int
  oo_boot :: string

definition owner_validate :: "output_owner \<Rightarrow> unit + unit" where
  "owner_validate w =
     (if oo_generation w \<le> 0 \<or> oo_epoch w \<le> 0 \<or> oo_boot w = [] \<or> 64 < length (oo_boot w) \<or>
         has_control (oo_boot w)
      then Inl () else Inr ())"

record output_ticket =
  tk_version :: nat
  tk_owner :: output_owner
  tk_attempt :: operation_id
  tk_output_limit :: nat
  tk_created :: int
  tk_expires :: int
  tk_delete_after :: int

definition ticket_validate :: "output_ticket \<Rightarrow> unit + unit" where
  "ticket_validate t =
     rbind (owner_validate (tk_owner t)) (\<lambda>_.
     if tk_version t \<noteq> 1 \<or> \<not> (1 \<le> tk_output_limit t \<and> tk_output_limit t \<le> max_output) \<or>
        tk_created t \<le> 0 \<or> tk_expires t \<le> tk_created t \<or> tk_delete_after t < tk_expires t
     then Inl () else Inr ())"

section \<open>Plans\<close>

record output_plan =
  pl_version :: nat
  pl_owner :: output_owner
  pl_attempt :: operation_id
  pl_name :: output_name
  pl_size :: nat
  pl_sha256 :: string
  pl_seen :: nat
  pl_truncated :: bool
  pl_created :: int
  pl_expires :: int
  pl_delete_after :: int

definition plan_validate :: "output_plan \<Rightarrow> unit + unit" where
  "plan_validate p =
     rbind (owner_validate (pl_owner p)) (\<lambda>_.
     if pl_version p \<noteq> 1 \<or> max_output < pl_size p \<or> pl_seen p < pl_size p \<or>
        pl_truncated p \<noteq> (pl_size p < pl_seen p) \<or> length (pl_sha256 p) \<noteq> 64 \<or>
        \<not> list_all lower_hex (pl_sha256 p) \<or> pl_created p \<le> 0 \<or>
        pl_expires p \<le> pl_created p \<or> pl_delete_after p < pl_expires p
     then Inl () else Inr ())"

definition plan_object_key :: "crates \<Rightarrow> output_plan \<Rightarrow> unit + string" where
  "plan_object_key C p =
     rbind (plan_validate p) (\<lambda>_.
     let w = pl_owner p in
     Inr (''output/v1/'' @ show_project C (oo_project w) @ ''/'' @ show_sandbox C (oo_sandbox w) @ ''/'' @
          show_operation C (oo_operation w) @ ''/'' @ show_allocation C (oo_allocation w) @ ''/'' @
          show_int (oo_generation w) @ ''/'' @ show_host C (oo_host w) @ ''/'' @
          show_int (oo_epoch w) @ ''/'' @ show_operation C (pl_attempt p) @ ''/'' @
          output_name_str (pl_name p)))"

definition plan_metadata_digest :: "crates \<Rightarrow> output_plan json \<Rightarrow> output_plan \<Rightarrow> unit + string" where
  "plan_metadata_digest C J p =
     rbind (plan_validate p) (\<lambda>_.
     rbind (ok_or () (to_vec J p)) (\<lambda>b. Inr (hex_encode C (sha256 C b))))"

section \<open>References and retirement evidence\<close>

record output_ref =
  ref_plan :: output_plan
  ref_etag :: string
  ref_object_version :: "string option"

text \<open>The values of \<open>once(&a).chain(b.iter())\<close>.\<close>

definition chain_option :: "'a \<Rightarrow> 'a option \<Rightarrow> 'a list" where
  "chain_option a b = a # (case b of None \<Rightarrow> [] | Some x \<Rightarrow> [x])"

definition stored_identity :: "string \<Rightarrow> unit + unit" where
  "stored_identity v =
     (if v = [] \<or> 1024 < length v \<or> has_control v then Inl () else Inr ())"

definition ref_validate :: "output_ref \<Rightarrow> unit + unit" where
  "ref_validate r =
     rbind (plan_validate (ref_plan r)) (\<lambda>_.
     try_all stored_identity (chain_option (ref_etag r) (ref_object_version r)))"

definition version_compatible :: "string option \<Rightarrow> string option \<Rightarrow> bool" where
  "version_compatible old marker =
     (case (old, marker) of
        (None, None) \<Rightarrow> True
      | (Some a, Some b) \<Rightarrow> (a = ''null'' \<and> b = ''null'') \<or> a \<noteq> b
      | _ \<Rightarrow> False)"

record output_retirement =
  ort_version :: nat
  ort_plan_sha256 :: string
  ort_previous :: "output_ref option"
  ort_marker_etag :: string
  ort_marker_version :: "string option"

definition output_retirement_validate ::
    "crates \<Rightarrow> output_plan json \<Rightarrow> output_retirement \<Rightarrow> output_plan \<Rightarrow> unit + unit" where
  "output_retirement_validate C J r p =
     rbind (if ort_version r \<noteq> 1 then Inl ()
            else rbind (plan_metadata_digest C J p) (\<lambda>d.
                 if ort_plan_sha256 r \<noteq> d then Inl () else Inr ())) (\<lambda>_.
     rbind (try_all stored_identity (chain_option (ort_marker_etag r) (ort_marker_version r))) (\<lambda>_.
     case ort_previous r of
       None \<Rightarrow> Inr ()
     | Some previous \<Rightarrow>
         rbind (ref_validate previous) (\<lambda>_.
         if ref_plan previous \<noteq> p \<or>
            \<not> version_compatible (ref_object_version previous) (ort_marker_version r)
         then Inl () else Inr ())))"

section \<open>Pairs of streams\<close>

record output_plans = plans_stdout :: output_plan plans_stderr :: output_plan
record output_refs = refs_stdout :: output_ref refs_stderr :: output_ref

definition validate_pair :: "output_plan \<Rightarrow> output_plan \<Rightarrow> output_owner \<Rightarrow> nat \<Rightarrow> unit + unit" where
  "validate_pair a b owner limit =
     (if pl_name a \<noteq> Stdout \<or> pl_name b \<noteq> Stderr \<or> pl_owner a \<noteq> owner \<or> pl_owner b \<noteq> owner \<or>
         pl_attempt a \<noteq> pl_attempt b \<or> pl_created a \<noteq> pl_created b \<or> pl_expires a \<noteq> pl_expires b \<or>
         pl_delete_after a \<noteq> pl_delete_after b \<or> \<not> (1 \<le> limit \<and> limit \<le> max_output) \<or>
         limit < pl_size a + pl_size b
      then Inl () else Inr ())"

definition plans_validate :: "output_plans \<Rightarrow> output_owner \<Rightarrow> nat \<Rightarrow> unit + unit" where
  "plans_validate ps owner limit =
     rbind (plan_validate (plans_stdout ps)) (\<lambda>_.
     rbind (plan_validate (plans_stderr ps)) (\<lambda>_.
     validate_pair (plans_stdout ps) (plans_stderr ps) owner limit))"

definition refs_validate :: "output_refs \<Rightarrow> output_owner \<Rightarrow> nat \<Rightarrow> unit + unit" where
  "refs_validate rs owner limit =
     rbind (ref_validate (refs_stdout rs)) (\<lambda>_.
     rbind (ref_validate (refs_stderr rs)) (\<lambda>_.
     validate_pair (ref_plan (refs_stdout rs)) (ref_plan (refs_stderr rs)) owner limit))"

definition refs_plans :: "output_refs \<Rightarrow> output_plans" where
  "refs_plans rs = \<lparr>plans_stdout = ref_plan (refs_stdout rs), plans_stderr = ref_plan (refs_stderr rs)\<rparr>"

definition ticket_validate_plans :: "output_ticket \<Rightarrow> output_plans \<Rightarrow> unit + unit" where
  "ticket_validate_plans t ps =
     rbind (ticket_validate t) (\<lambda>_.
     rbind (plans_validate ps (tk_owner t) (tk_output_limit t)) (\<lambda>_.
     let a = plans_stdout ps in
     if pl_attempt a \<noteq> tk_attempt t \<or> pl_created a \<noteq> tk_created t \<or>
        pl_expires a \<noteq> tk_expires t \<or> pl_delete_after a \<noteq> tk_delete_after t
     then Inl () else Inr ()))"

record live_output_scope =
  los_version :: nat
  los_owner :: output_owner
  los_command_digest :: bytes
  los_output_limit :: nat
  los_deadline :: int

definition live_scope_validate :: "live_output_scope \<Rightarrow> unit + unit" where
  "live_scope_validate s =
     rbind (owner_validate (los_owner s)) (\<lambda>_.
     if los_version s \<noteq> 1 \<or> los_deadline s \<le> 0 \<or>
        \<not> (1 \<le> los_output_limit s \<and> los_output_limit s \<le> max_output)
     then Inl () else Inr ())"

section \<open>The contract of a stored plan\<close>

text \<open>
  \<open>parts\<close> are the segments of the object key, \<open>ident\<close> what the key must separate.
\<close>

locale keyed_plan =
  fixes valid :: "'p \<Rightarrow> bool"
    and key :: "crates \<Rightarrow> 'p \<Rightarrow> unit + string"
    and parts :: "crates \<Rightarrow> 'p \<Rightarrow> string list"
    and ident :: "'p \<Rightarrow> 'k"
  assumes key_iff: "key C p = Inr s \<longleftrightarrow> valid p \<and> s = foldr (\<lambda>a b. a @ ''/'' @ b) (butlast (parts C p)) (last (parts C p))"
    and parts_slash: "uuid_laws C \<Longrightarrow> \<forall>x \<in> set (parts C p). CHR ''/'' \<notin> set x"
    and parts_nonempty: "parts C p \<noteq> []"
    and parts_inj: "uuid_laws C \<Longrightarrow> parts C p = parts C q \<Longrightarrow> ident p = ident q"
begin

lemma split_join:
  "xs \<noteq> [] \<Longrightarrow> \<forall>x \<in> set xs. CHR ''/'' \<notin> set x \<Longrightarrow>
    split_on (CHR ''/'') (foldr (\<lambda>a b. a @ ''/'' @ b) (butlast xs) (last xs)) = xs"
  by (induction xs) (auto simp: join_segments)

text \<open>Two plans share an object key only when they share every identity in it.\<close>

lemma key_inj:
  assumes "uuid_laws C" "key C p = Inr s" "key C q = Inr s"
  shows "ident p = ident q"
proof -
  have "parts C p = parts C q"
    using assms split_join[OF parts_nonempty parts_slash] by (metis key_iff)
  then show ?thesis using parts_inj assms(1) by blast
qed

end

definition plan_parts :: "crates \<Rightarrow> output_plan \<Rightarrow> string list" where
  "plan_parts C p =
     (let w = pl_owner p in
      [''output'', ''v1'', show_project C (oo_project w), show_sandbox C (oo_sandbox w),
       show_operation C (oo_operation w), show_allocation C (oo_allocation w),
       show_int (oo_generation w), show_host C (oo_host w), show_int (oo_epoch w),
       show_operation C (pl_attempt p), output_name_str (pl_name p)])"

text \<open>Everything the key must separate: the owner without its boot, the attempt, the stream.\<close>

definition plan_ident :: "output_plan \<Rightarrow> output_owner \<times> operation_id \<times> output_name" where
  "plan_ident p = ((pl_owner p)\<lparr>oo_boot := []\<rparr>, pl_attempt p, pl_name p)"

lemma output_name_str_simps [simp]:
  "CHR ''/'' \<notin> set (output_name_str n)" "(output_name_str m = output_name_str n) = (m = n)"
  by (cases m; cases n; simp add: output_name_str_def)+

interpretation output_key: keyed_plan "\<lambda>p. plan_validate p = Inr ()" plan_object_key plan_parts plan_ident
proof
  show "plan_object_key C p = Inr s \<longleftrightarrow> plan_validate p = Inr () \<and>
      s = foldr (\<lambda>a b. a @ ''/'' @ b) (butlast (plan_parts C p)) (last (plan_parts C p))" for C p s
    by (auto simp: plan_object_key_def plan_parts_def Let_def)
  show "\<forall>x \<in> set (plan_parts C p). CHR ''/'' \<notin> set x" if "uuid_laws C" for C p
    by (simp add: plan_parts_def Let_def show_id_no_slash[OF that])
  show "plan_parts C p \<noteq> []" for C p by (simp add: plan_parts_def Let_def)
  show "plan_ident p = plan_ident q" if "uuid_laws C" "plan_parts C p = plan_parts C q" for C p q
    using that(2) by (simp add: plan_parts_def plan_ident_def Let_def project.show_inj[OF that(1)]
        sandbox.show_inj[OF that(1)] operation.show_inj[OF that(1)] allocation.show_inj[OF that(1)]
        host.show_inj[OF that(1)])
qed

section \<open>Facts\<close>

lemma validate_pair_iff:
  "validate_pair a b owner limit = Inr u \<longleftrightarrow>
     pl_name a = Stdout \<and> pl_name b = Stderr \<and> pl_owner a = owner \<and> pl_owner b = owner \<and>
     pl_attempt a = pl_attempt b \<and> pl_created a = pl_created b \<and> pl_expires a = pl_expires b \<and>
     pl_delete_after a = pl_delete_after b \<and> 1 \<le> limit \<and> limit \<le> max_output \<and>
     pl_size a + pl_size b \<le> limit"
  by (auto simp: validate_pair_def)

lemma refs_plans_valid:
  "refs_validate rs owner limit = Inr u \<Longrightarrow> plans_validate (refs_plans rs) owner limit = Inr ()"
  by (auto simp: refs_validate_def plans_validate_def refs_plans_def ref_validate_def)

text \<open>\<open>a.size + b.size\<close> cannot wrap: both were bounded before.\<close>

lemma plans_size_no_wrap:
  "plans_validate ps owner limit = Inr u \<Longrightarrow>
    pl_size (plans_stdout ps) + pl_size (plans_stderr ps) < u64_limit"
  by (auto simp: plans_validate_def validate_pair_iff max_output_def)

lemma retirement_evidence:
  assumes "output_retirement_validate C J r p = Inr u"
  shows "plan_validate p = Inr ()" "plan_metadata_digest C J p = Inr (ort_plan_sha256 r)"
    "\<And>q. ort_previous r = Some q \<Longrightarrow> ref_plan q = p \<and>
       version_compatible (ref_object_version q) (ort_marker_version r)"
  using assms by (auto simp: output_retirement_validate_def plan_metadata_digest_def split: option.splits)

end
