(* ===== verification/Files.thy ===== *)
theory Files
  imports Guest_Model Command
begin

text \<open>
  File transfers (\<open>files.rs\<close>), their strict wire conversion and bounds
  (\<open>file_wire.rs\<close>) and the host's retained evidence of one transfer
  (\<open>supervisor_files.rs\<close>, all in \<open>crates/sandbox-protocol/src\<close>).
\<close>

section \<open>Paths and uploads\<close>

definition max_file_bytes :: nat where "max_file_bytes = 8 * 1024 * 1024"
definition max_chunk_bytes :: nat where "max_chunk_bytes = 32 * 1024"
definition max_transfers :: nat where "max_transfers = 128"
definition max_reserved_bytes :: nat where "max_reserved_bytes = 64 * 1024 * 1024"
definition state_directory :: string where "state_directory = ''.hudson-transfers''"

definition path_byte_bad :: "char \<Rightarrow> bool" where
  "path_byte_bad c = (of_char c < (32::nat) \<or> of_char c = (127::nat) \<or> c = CHR 0x5C)"

definition validate_path :: "string \<Rightarrow> unit + unit" where
  "validate_path path =
     rbind (ensure (path \<noteq> [] \<and> length path \<le> 4096) ()) (\<lambda>_.
     ensure (\<not> list_ex path_byte_bad path \<and>
             list_all (\<lambda>p. p \<noteq> [] \<and> p \<noteq> ''.'' \<and> p \<noteq> ''..'' \<and> length p \<le> 255) (split_on (CHR ''/'') path) \<and>
             hd (split_on (CHR ''/'') path) \<noteq> state_directory) ())"

record upload =
  up_operation :: operation_id
  up_path :: string
  up_size :: nat
  up_sha256 :: bytes
  up_mode :: nat

definition upload_validate :: "upload \<Rightarrow> unit + unit" where
  "upload_validate u =
     rbind (validate_path (up_path u)) (\<lambda>_.
     rbind (ensure (up_size u \<le> max_file_bytes) ()) (\<lambda>_.
     ensure (up_mode u = 0x1A4 \<or> up_mode u = 0x1ED) ()))"

definition upload_digest :: "crates \<Rightarrow> upload json \<Rightarrow> upload \<Rightarrow> unit + bytes" where
  "upload_digest C J u =
     rbind (upload_validate u) (\<lambda>_.
     rbind (ok_or () (to_vec J u)) (\<lambda>b.
     Inr (sha256 C (as_bytes (''hudson-file-upload-v1'' @ [CHR 0x00]) @ b))))"

datatype file_state = Staging | CommitIntent | Committed | FileUnknown | Aborted

record file_receipt =
  frcpt_version :: nat
  frcpt_context :: guest_context
  frcpt_upload :: upload
  frcpt_digest :: bytes
  frcpt_state :: file_state

definition file_receipt_validate :: "crates \<Rightarrow> upload json \<Rightarrow> file_receipt \<Rightarrow> unit + unit" where
  "file_receipt_validate C J t =
     rbind (ensure (frcpt_version t = 1 \<and> 0 < ctx_generation (frcpt_context t) \<and>
        ctx_boot (frcpt_context t) \<noteq> [] \<and> length (ctx_boot (frcpt_context t)) \<le> 64) ()) (\<lambda>_.
     rbind (upload_digest C J (frcpt_upload t)) (\<lambda>d.
     ensure (frcpt_digest t = d) ()))"

section \<open>Paths stay below the workspace\<close>

text \<open>
  The reference semantics of a slash-separated path: \<open>walk\<close> follows the components from a
  directory (a list of names from the workspace root), \<open>None\<close> when one climbs above it.
\<close>

fun walk :: "string list \<Rightarrow> string list \<Rightarrow> string list option" where
  "walk dir [] = Some dir"
| "walk dir (p # ps) =
     (if p = [] \<or> p = ''.'' then walk dir ps
      else if p = ''..'' then (if dir = [] then None else walk (butlast dir) ps)
      else walk (dir @ [p]) ps)"

lemma walk_plain:
  "list_all (\<lambda>p. p \<noteq> [] \<and> p \<noteq> ''.'' \<and> p \<noteq> ''..'') ps \<Longrightarrow> walk dir ps = Some (dir @ ps)"
  by (induction ps arbitrary: dir) auto

lemma validated_path_walk:
  assumes "validate_path p = Inr u"
  shows "walk [] (split_on (CHR ''/'') p) = Some (split_on (CHR ''/'') p)"
    and "hd (split_on (CHR ''/'') p) \<noteq> state_directory"
    and "\<forall>q \<in> set (split_on (CHR ''/'') p). length q \<le> 255"
proof -
  from assms have parts: "list_all (\<lambda>p. p \<noteq> [] \<and> p \<noteq> ''.'' \<and> p \<noteq> ''..'' \<and> length p \<le> 255) (split_on (CHR ''/'') p)"
    by (simp add: validate_path_def)
  then have "list_all (\<lambda>p. p \<noteq> [] \<and> p \<noteq> ''.'' \<and> p \<noteq> ''..'') (split_on (CHR ''/'') p)"
    by (auto simp: list_all_iff)
  from walk_plain[OF this] show "walk [] (split_on (CHR ''/'') p) = Some (split_on (CHR ''/'') p)" by simp
  show "\<forall>q \<in> set (split_on (CHR ''/'') p). length q \<le> 255" using parts by (auto simp: list_all_iff)
  show "hd (split_on (CHR ''/'') p) \<noteq> state_directory" using assms by (simp add: validate_path_def)
qed

section \<open>Wire messages\<close>

definition wire_digest :: "bytes \<Rightarrow> unit + bytes" where
  "wire_digest b = array32 b"

record wire_upload =
  wup_operation :: string
  wup_path :: string
  wup_size :: nat
  wup_sha256 :: bytes
  wup_mode :: nat

definition upload_to_wire :: "crates \<Rightarrow> upload \<Rightarrow> wire_upload" where
  "upload_to_wire C u =
     \<lparr>wup_operation = show_operation C (up_operation u), wup_path = up_path u,
      wup_size = up_size u, wup_sha256 = up_sha256 u, wup_mode = up_mode u\<rparr>"

definition upload_of_wire :: "crates \<Rightarrow> wire_upload \<Rightarrow> unit + upload" where
  "upload_of_wire C w =
     rbind (map_err (\<lambda>_. ()) (parse_operation C (wup_operation w))) (\<lambda>i.
     rbind (wire_digest (wup_sha256 w)) (\<lambda>d.
     let u = \<lparr>up_operation = i, up_path = wup_path w, up_size = wup_size w, up_sha256 = d,
              up_mode = wup_mode w\<rparr> in
     rbind (upload_validate u) (\<lambda>_. Inr u)))"

record wire_file_receipt =
  wfr_version :: nat
  wfr_context :: "wire_context option"
  wfr_upload :: "wire_upload option"
  wfr_digest :: bytes
  wfr_state :: int

definition file_state_code :: "file_state \<Rightarrow> int" where
  "file_state_code s =
     (case s of Staging \<Rightarrow> 1 | CommitIntent \<Rightarrow> 2 | Committed \<Rightarrow> 3 | FileUnknown \<Rightarrow> 4 | Aborted \<Rightarrow> 5)"

definition file_state_of_code :: "int \<Rightarrow> unit + file_state" where
  "file_state_of_code n =
     (if n = 1 then Inr Staging else if n = 2 then Inr CommitIntent else if n = 3 then Inr Committed
      else if n = 4 then Inr FileUnknown else if n = 5 then Inr Aborted else Inl ())"

definition file_receipt_to_wire :: "crates \<Rightarrow> file_receipt \<Rightarrow> wire_file_receipt" where
  "file_receipt_to_wire C t =
     \<lparr>wfr_version = frcpt_version t, wfr_context = Some (context_to_wire C (frcpt_context t)),
      wfr_upload = Some (upload_to_wire C (frcpt_upload t)), wfr_digest = frcpt_digest t,
      wfr_state = file_state_code (frcpt_state t)\<rparr>"

definition file_receipt_of_wire ::
    "crates \<Rightarrow> upload json \<Rightarrow> wire_file_receipt \<Rightarrow> unit + file_receipt" where
  "file_receipt_of_wire C J w =
     rbind (ok_or () (wfr_context w)) (\<lambda>wc.
     rbind (context_of_wire C wc) (\<lambda>c.
     rbind (ok_or () (wfr_upload w)) (\<lambda>wu.
     rbind (upload_of_wire C wu) (\<lambda>u.
     rbind (wire_digest (wfr_digest w)) (\<lambda>d.
     rbind (file_state_of_code (wfr_state w)) (\<lambda>s.
     let t = \<lparr>frcpt_version = wfr_version w, frcpt_context = c, frcpt_upload = u,
              frcpt_digest = d, frcpt_state = s\<rparr> in
     rbind (file_receipt_validate C J t) (\<lambda>_. Inr t)))))))"

record wire_file_operation =
  wfo_operation :: string
  wfo_digest :: bytes

record wire_write_file =
  wwf_operation :: "wire_file_operation option"
  wwf_offset :: nat
  wwf_data :: bytes

record wire_file_handle =
  wfh_capture :: string
  wfh_sha256 :: bytes

record wire_file_capture =
  wfc_capture :: string
  wfc_path :: string
  wfc_size :: nat
  wfc_sha256 :: bytes
  wfc_expires :: int

record wire_read_file =
  wrf_handle :: "wire_file_handle option"
  wrf_offset :: nat
  wrf_limit :: nat

definition file_operation :: "crates \<Rightarrow> upload json \<Rightarrow> upload \<Rightarrow> unit + wire_file_operation" where
  "file_operation C J u =
     rbind (upload_digest C J u) (\<lambda>d.
     Inr \<lparr>wfo_operation = show_operation C (up_operation u), wfo_digest = d\<rparr>)"

definition validate_operation :: "crates \<Rightarrow> wire_file_operation \<Rightarrow> unit + operation_id" where
  "validate_operation C v =
     rbind (ensure (length (wfo_digest v) = 32) ()) (\<lambda>_.
     map_err (\<lambda>_. ()) (parse_operation C (wfo_operation v)))"

definition validate_write :: "crates \<Rightarrow> wire_write_file \<Rightarrow> unit + operation_id" where
  "validate_write C v =
     rbind (ok_or () (wwf_operation v)) (\<lambda>w.
     rbind (validate_operation C w) (\<lambda>i.
     rbind (ensure (wwf_data v \<noteq> [] \<and> length (wwf_data v) \<le> max_chunk_bytes \<and>
        (case checked_add_u64 (wwf_offset v) (length (wwf_data v)) of
           None \<Rightarrow> False | Some n \<Rightarrow> n \<le> max_file_bytes)) ()) (\<lambda>_.
     Inr i)))"

definition validate_handle :: "crates \<Rightarrow> wire_file_handle \<Rightarrow> unit + operation_id" where
  "validate_handle C v =
     rbind (ensure (length (wfh_sha256 v) = 32) ()) (\<lambda>_.
     map_err (\<lambda>_. ()) (parse_operation C (wfh_capture v)))"

definition validate_capture :: "crates \<Rightarrow> wire_file_capture \<Rightarrow> unit + unit" where
  "validate_capture C v =
     rbind (map_err (\<lambda>_. ()) (parse_operation C (wfc_capture v))) (\<lambda>_.
     rbind (validate_path (wfc_path v)) (\<lambda>_.
     ensure (length (wfc_sha256 v) = 32 \<and> wfc_size v \<le> max_file_bytes \<and> 0 < wfc_expires v) ()))"

definition capture_handle :: "crates \<Rightarrow> wire_file_capture \<Rightarrow> unit + wire_file_handle" where
  "capture_handle C v =
     rbind (validate_capture C v) (\<lambda>_.
     Inr \<lparr>wfh_capture = wfc_capture v, wfh_sha256 = wfc_sha256 v\<rparr>)"

definition validate_read :: "crates \<Rightarrow> wire_read_file \<Rightarrow> unit + operation_id" where
  "validate_read C v =
     rbind (ok_or () (wrf_handle v)) (\<lambda>h.
     rbind (validate_handle C h) (\<lambda>i.
     rbind (ensure (1 \<le> wrf_limit v \<and> wrf_limit v \<le> max_chunk_bytes \<and>
        wrf_offset v \<le> max_file_bytes) ()) (\<lambda>_.
     Inr i)))"

definition upload_wire_ok :: "crates \<Rightarrow> upload \<Rightarrow> bool" where
  "upload_wire_ok C u =
     (upload_validate u = Inr () \<and> length (up_sha256 u) = 32 \<and>
      uuid_version C (operation_uuid (up_operation u)) = 7)"

definition file_receipt_wire_ok :: "upload json \<Rightarrow> crates \<Rightarrow> file_receipt \<Rightarrow> bool" where
  "file_receipt_wire_ok J C t =
     (file_receipt_validate C J t = Inr () \<and> context_wire_ok C (frcpt_context t) \<and>
      upload_wire_ok C (frcpt_upload t) \<and> length (frcpt_digest t) = 32)"

lemma file_state_codes [simp]:
  "file_state_of_code (file_state_code s) = Inr s"
  "file_state_of_code n = Inr s \<longleftrightarrow> n = file_state_code s"
  by (cases s; auto simp: file_state_of_code_def file_state_code_def)+

lemma file_rebuilt [simp]:
  "\<lparr>up_operation = up_operation u, up_path = up_path u, up_size = up_size u,
    up_sha256 = up_sha256 u, up_mode = up_mode u\<rparr> = u"
  "\<lparr>frcpt_version = frcpt_version t, frcpt_context = frcpt_context t, frcpt_upload = frcpt_upload t,
    frcpt_digest = frcpt_digest t, frcpt_state = frcpt_state t\<rparr> = t"
  by simp_all

interpretation upload_wire: canonical_wire upload_to_wire upload_of_wire upload_wire_ok
  by unfold_locales
    (auto simp: upload_of_wire_def upload_to_wire_def upload_wire_ok_def wire_digest_def Let_def
      array32_def operation.parse_show dest!: operation.show_parse)

interpretation file_receipt_wire: canonical_wire file_receipt_to_wire
    "\<lambda>C. file_receipt_of_wire C J" "file_receipt_wire_ok J" for J
  by unfold_locales
    (auto simp: file_receipt_of_wire_def file_receipt_to_wire_def file_receipt_wire_ok_def
      wire_digest_def Let_def array32_def context_wire.of_to upload_wire.of_to
      context_wire.to_of upload_wire.to_of dest: context_wire.of_ok upload_wire.of_ok)

section \<open>Retained evidence of a transfer\<close>

definition max_files :: nat where "max_files = 16"
definition max_host_files :: nat where "max_host_files = 1024"
definition max_record_bytes :: nat where "max_record_bytes = 2048"

record file_record =
  file_digest :: bytes
  file_context :: "guest_context option"
  file_size :: nat
  file_not_started :: bool
  file_commit_requested :: bool
  file_abort_requested :: bool
  file_status :: nat

definition file_fenced :: "bytes \<Rightarrow> file_record" where
  "file_fenced d =
     \<lparr>file_digest = d, file_context = None, file_size = 0, file_not_started = True,
      file_commit_requested = False, file_abort_requested = False, file_status = 0\<rparr>"

definition file_record_validate :: "file_record json \<Rightarrow> file_record \<Rightarrow> unit + unit" where
  "file_record_validate K r =
     rbind (ensure (file_size r \<le> max_file_bytes \<and> file_status r \<le> 5) ()) (\<lambda>_.
     rbind (if file_not_started r
            then ensure (file_context r = None \<and> file_size r = 0 \<and> file_status r = 0 \<and>
                         \<not> file_commit_requested r \<and> \<not> file_abort_requested r) ()
            else rbind (ok_or () (file_context r)) (\<lambda>c.
                 rbind (ensure (0 < ctx_generation c \<and> ctx_boot c \<noteq> [] \<and> length (ctx_boot c) \<le> 64) ()) (\<lambda>_.
                 rbind (ensure (file_status r \<notin> {2, 3} \<or> file_commit_requested r) ()) (\<lambda>_.
                 ensure (file_status r \<noteq> 5 \<or> file_abort_requested r) ())))) (\<lambda>_.
     rbind (ok_or () (to_vec K r)) (\<lambda>b.
     ensure (length b \<le> max_record_bytes) ())))"

definition file_pending ::
    "crates \<Rightarrow> upload json \<Rightarrow> file_record json \<Rightarrow> upload \<Rightarrow> guest_context \<Rightarrow> unit + file_record" where
  "file_pending C J K u c =
     rbind (upload_digest C J u) (\<lambda>d.
     let r = \<lparr>file_digest = d, file_context = Some c, file_size = up_size u,
              file_not_started = False, file_commit_requested = False,
              file_abort_requested = False, file_status = 0\<rparr> in
     rbind (file_record_validate K r) (\<lambda>_. Inr r))"

definition file_finished :: "file_record \<Rightarrow> bool" where
  "file_finished r = (file_not_started r \<or> file_status r \<in> {3, 4, 5})"

definition file_status_of :: "file_state \<Rightarrow> nat" where
  "file_status_of s =
     (case s of Staging \<Rightarrow> 1 | CommitIntent \<Rightarrow> 2 | Committed \<Rightarrow> 3 | FileUnknown \<Rightarrow> 4 | Aborted \<Rightarrow> 5)"

text \<open>\<open>observe\<close> writes the new state before its final validation.\<close>

definition file_observe ::
    "crates \<Rightarrow> upload json \<Rightarrow> file_record json \<Rightarrow> upload \<Rightarrow> file_receipt \<Rightarrow> (file_record, unit, unit) proc"
where
  "file_observe C J K u t =
     sbind (slift (file_receipt_validate C J t)) (\<lambda>_.
     sbind (sread (\<lambda>r. r)) (\<lambda>r.
     sbind (sensure (\<not> file_not_started r \<and> file_context r = Some (frcpt_context t) \<and>
        frcpt_upload t = u \<and> file_digest r = frcpt_digest t \<and> file_size r = up_size u) ()) (\<lambda>_.
     let next = file_status_of (frcpt_state t) in
     sbind (sensure (\<not> file_finished r \<or> file_status r = next) ()) (\<lambda>_.
     sbind (sensure (next \<notin> {2, 3} \<or> file_commit_requested r) ()) (\<lambda>_.
     sbind (sensure (next \<noteq> 5 \<or> file_abort_requested r) ()) (\<lambda>_.
     sbind (swrite (file_status_update (\<lambda>_. next))) (\<lambda>_.
     sbind (sread (file_record_validate K)) slift)))))))"

record file_observation =
  fobs_ownership :: "ownership option"
  fobs_simulated :: bool
  fobs_observed :: int
  fobs_digest :: bytes
  fobs_context :: "wire_context option"
  fobs_state :: int
  fobs_not_started :: bool
  fobs_stored :: "nat option"

definition file_observation_of ::
    "crates \<Rightarrow> file_record \<Rightarrow> ownership \<Rightarrow> bool \<Rightarrow> int \<Rightarrow> nat option \<Rightarrow> file_observation" where
  "file_observation_of C r owner simulated now stored =
     \<lparr>fobs_ownership = Some owner, fobs_simulated = simulated, fobs_observed = now,
      fobs_digest = file_digest r, fobs_context = map_option (context_to_wire C) (file_context r),
      fobs_state = int (file_status r), fobs_not_started = file_not_started r, fobs_stored = stored\<rparr>"

definition file_validate_identity ::
    "crates \<Rightarrow> upload json \<Rightarrow> file_record \<Rightarrow> operation_id \<Rightarrow> upload \<Rightarrow> unit + unit" where
  "file_validate_identity C J r i u =
     rbind (ensure (up_operation u = i) ()) (\<lambda>_.
     rbind (upload_digest C J u) (\<lambda>d.
     ensure (d = file_digest r) ()))"

lemma file_observe_Inr:
  "file_observe C J K u t r = (Inr v, r') \<longleftrightarrow>
     file_receipt_validate C J t = Inr () \<and> \<not> file_not_started r \<and>
     file_context r = Some (frcpt_context t) \<and> frcpt_upload t = u \<and>
     file_digest r = frcpt_digest t \<and> file_size r = up_size u \<and>
     (\<not> file_finished r \<or> file_status r = file_status_of (frcpt_state t)) \<and>
     (file_status_of (frcpt_state t) \<notin> {2, 3} \<or> file_commit_requested r) \<and>
     (file_status_of (frcpt_state t) \<noteq> 5 \<or> file_abort_requested r) \<and>
     r' = r\<lparr>file_status := file_status_of (frcpt_state t)\<rparr> \<and> file_record_validate K r' = Inr ()"
  by (auto simp: file_observe_def Let_def)

text \<open>
  A terminal outcome is final, whatever receipts arrive and whatever they are validated
  against: a later observation either fails and leaves the record, or repeats the outcome.
\<close>

lemma file_observe_final:
  assumes "file_finished r"
  shows "snd (file_observe C J K u t r) = r"
  using assms
  by (cases "file_receipt_validate C J t")
    (auto simp: file_observe_def sbind_def ensure_def Let_def split: sum.splits)

end
