(* ===== verification/File_Access.thy ===== *)
theory File_Access
  imports Files Output
begin

text \<open>
  Reading files out of an allocation (\<open>file_downloads.rs\<close>) and the immutable source objects
  of admitted file writes (\<open>file_sources.rs\<close>, both in \<open>crates/sandbox-protocol/src\<close>).
\<close>

section \<open>Read scope\<close>

record read_scope =
  rs_version :: nat
  rs_host :: host_id
  rs_epoch :: int
  rs_project :: project_id
  rs_sandbox :: sandbox_id
  rs_allocation :: allocation_id
  rs_generation :: int

definition read_scope_validate :: "read_scope \<Rightarrow> unit + unit" where
  "read_scope_validate s = ensure (rs_version s = 1 \<and> 0 < rs_epoch s \<and> 0 < rs_generation s) ()"

definition matches_owner :: "crates \<Rightarrow> read_scope \<Rightarrow> ownership \<Rightarrow> bool" where
  "matches_owner C s w =
     (show_host C (rs_host s) = own_host w \<and> rs_epoch s = own_epoch w \<and>
      show_project C (rs_project s) = own_project w \<and> show_sandbox C (rs_sandbox s) = own_sandbox w \<and>
      show_allocation C (rs_allocation s) = own_allocation w \<and> rs_generation s = own_generation w)"

definition decode_scope :: "read_scope json \<Rightarrow> bytes \<Rightarrow> int \<Rightarrow> int \<Rightarrow> unit + read_scope" where
  "decode_scope J b expires now =
     rbind (ensure (length b \<le> 4096 \<and> 1 \<le> saturating_sub_i64 expires now \<and>
        saturating_sub_i64 expires now \<le> 30000) ()) (\<lambda>_.
     rbind (ok_or () (from_slice J b)) (\<lambda>s.
     rbind (read_scope_validate s) (\<lambda>_. Inr s)))"

section \<open>Requests\<close>

record download_handle =
  dh_id :: string
  dh_context :: "wire_context option"
  dh_capture :: "wire_file_capture option"
  dh_expires :: int

record capture_request =
  cr_scope :: bytes
  cr_path :: string
  cr_expires :: int

record download_request =
  dr_scope :: bytes
  dr_handle :: "download_handle option"
  dr_offset :: nat
  dr_limit :: nat
  dr_expires :: int

record release_request =
  rr_scope :: bytes
  rr_handle :: "download_handle option"
  rr_expires :: int

record wire_file_chunk =
  ch_handle :: "wire_file_handle option"
  ch_offset :: nat
  ch_data :: bytes
  ch_next :: nat
  ch_size :: nat
  ch_at_end :: bool

datatype access_result =
    Captured download_handle
  | Chunk wire_file_chunk
  | ReleasedHandle download_handle

record access_observation =
  ao_scope :: bytes
  ao_simulated :: bool
  ao_observed :: int
  ao_result :: "access_result option"

definition check_handle :: "crates \<Rightarrow> download_handle \<Rightarrow> read_scope \<Rightarrow> unit + unit" where
  "check_handle C h s =
     rbind (map_err (\<lambda>_. ()) (parse_operation C (dh_id h))) (\<lambda>_.
     rbind (ok_or () (dh_context h)) (\<lambda>wc.
     rbind (context_of_wire C wc) (\<lambda>c.
     rbind (ensure (ctx_allocation c = rs_allocation s \<and> ctx_generation c = rs_generation s \<and>
        ctx_boot c \<noteq> [] \<and> length (ctx_boot c) \<le> 64 \<and> 0 < dh_expires h) ()) (\<lambda>_.
     rbind (ok_or () (dh_capture h)) (validate_capture C)))))"

definition check_capture_request ::
    "read_scope json \<Rightarrow> capture_request \<Rightarrow> int \<Rightarrow> unit + read_scope" where
  "check_capture_request J r now =
     rbind (decode_scope J (cr_scope r) (cr_expires r) now) (\<lambda>s.
     rbind (validate_path (cr_path r)) (\<lambda>_. Inr s))"

definition check_read_request ::
    "crates \<Rightarrow> read_scope json \<Rightarrow> download_request \<Rightarrow> int \<Rightarrow> unit + read_scope" where
  "check_read_request C J r now =
     rbind (decode_scope J (dr_scope r) (dr_expires r) now) (\<lambda>s.
     rbind (ok_or () (dr_handle r)) (\<lambda>h.
     rbind (check_handle C h s) (\<lambda>_.
     rbind (ensure (1 \<le> dr_limit r \<and> dr_limit r \<le> max_chunk_bytes) ()) (\<lambda>_.
     rbind (ok_or () (dh_capture h)) (\<lambda>c.
     rbind (ensure (dr_offset r \<le> wfc_size c) ()) (\<lambda>_. Inr s))))))"

definition check_release_request ::
    "crates \<Rightarrow> read_scope json \<Rightarrow> release_request \<Rightarrow> int \<Rightarrow> unit + read_scope" where
  "check_release_request C J r now =
     rbind (decode_scope J (rr_scope r) (rr_expires r) now) (\<lambda>s.
     rbind (ok_or () (rr_handle r)) (\<lambda>h.
     rbind (check_handle C h s) (\<lambda>_. Inr s)))"

section \<open>Responses\<close>

text \<open>\<open>i64::abs_diff\<close> never overflows: it is the distance of the two numbers.\<close>

definition check_observation ::
    "bytes \<Rightarrow> access_observation \<Rightarrow> bool \<Rightarrow> int \<Rightarrow> unit + unit" where
  "check_observation scope ob simulated now =
     ensure (ao_scope ob = scope \<and> ao_simulated ob = simulated \<and> 0 < ao_observed ob \<and>
             \<bar>ao_observed ob - now\<bar> \<le> 10000) ()"

definition check_captured ::
    "crates \<Rightarrow> read_scope json \<Rightarrow> capture_request \<Rightarrow> access_observation \<Rightarrow> bool \<Rightarrow> int \<Rightarrow> unit + download_handle"
where
  "check_captured C J r ob simulated now =
     rbind (check_capture_request J r now) (\<lambda>s.
     rbind (check_observation (cr_scope r) ob simulated now) (\<lambda>_.
     case ao_result ob of
       Some (Captured h) \<Rightarrow>
         rbind (check_handle C h s) (\<lambda>_.
         rbind (ensure ((case dh_capture h of None \<Rightarrow> False | Some c \<Rightarrow> wfc_path c = cr_path r) \<and>
                        now < dh_expires h \<and> dh_expires h \<le> saturating_add_i64 (ao_observed ob) 60000) ()) (\<lambda>_.
         Inr h))
     | _ \<Rightarrow> Inl ()))"

definition check_chunk ::
    "crates \<Rightarrow> read_scope json \<Rightarrow> download_request \<Rightarrow> access_observation \<Rightarrow> bool \<Rightarrow> int \<Rightarrow> unit + wire_file_chunk"
where
  "check_chunk C J r ob simulated now =
     rbind (check_read_request C J r now) (\<lambda>_.
     rbind (check_observation (dr_scope r) ob simulated now) (\<lambda>_.
     rbind (ok_or () (case dr_handle r of None \<Rightarrow> None | Some h \<Rightarrow> dh_capture h)) (\<lambda>capture.
     case ao_result ob of
       Some (Chunk c) \<Rightarrow>
         (let expected = min (wfc_size capture - dr_offset r) (dr_limit r);
              next = dr_offset r + expected in
          rbind (capture_handle C capture) (\<lambda>h.
          rbind (ensure (ch_handle c = Some h \<and> ch_offset c = dr_offset r \<and>
             ch_size c = wfc_size capture \<and> length (ch_data c) = expected \<and> ch_next c = next \<and>
             ch_at_end c = (next = wfc_size capture)) ()) (\<lambda>_.
          Inr c)))
     | _ \<Rightarrow> Inl ())))"

definition check_released ::
    "crates \<Rightarrow> read_scope json \<Rightarrow> release_request \<Rightarrow> access_observation \<Rightarrow> bool \<Rightarrow> int \<Rightarrow> unit + unit"
where
  "check_released C J r ob simulated now =
     rbind (check_release_request C J r now) (\<lambda>_.
     rbind (check_observation (rr_scope r) ob simulated now) (\<lambda>_.
     case ao_result ob of
       Some (ReleasedHandle h) \<Rightarrow> ensure (Some h = rr_handle r) ()
     | _ \<Rightarrow> Inl ()))"

text \<open>
  A reader that follows accepted chunks: \<open>read_all\<close> asks for the next range while the file
  has not ended, and concatenates the data. Each element of the list is one request with
  the response that was accepted for it.
\<close>

fun chunks_follow :: "nat \<Rightarrow> (download_request \<times> wire_file_chunk) list \<Rightarrow> bool" where
  "chunks_follow offset [] = True"
| "chunks_follow offset ((r, c) # rest) = (dr_offset r = offset \<and> chunks_follow (ch_next c) rest)"

definition read_all :: "(download_request \<times> wire_file_chunk) list \<Rightarrow> bytes" where
  "read_all xs = concat (map (ch_data \<circ> snd) xs)"

lemma check_chunk_Inr:
  assumes "check_chunk C J r ob simulated now = Inr c"
  obtains h cap where "dr_handle r = Some h" "dh_capture h = Some cap" "validate_capture C cap = Inr ()"
    "dr_offset r \<le> wfc_size cap" "1 \<le> dr_limit r" "dr_limit r \<le> max_chunk_bytes"
    "length (ch_data c) = min (wfc_size cap - dr_offset r) (dr_limit r)"
    "ch_offset c = dr_offset r" "ch_size c = wfc_size cap"
    "ch_next c = dr_offset r + length (ch_data c)" "ch_at_end c = (ch_next c = wfc_size cap)"
proof -
  from assms obtain h cap where h: "dr_handle r = Some h" "dh_capture h = Some cap"
    by (auto simp: check_chunk_def split: option.splits)
  from assms have res: "ao_result ob = Some (Chunk c)"
    by (cases "ao_result ob"; cases "the (ao_result ob)") (auto simp: check_chunk_def Let_def)
  show thesis
    using assms h res
    by (intro that[of h cap])
      (auto simp: check_chunk_def check_read_request_def capture_handle_def Let_def)
qed

lemma read_all_Cons: "read_all ((r, c) # xs) = ch_data c @ read_all xs"
  by (simp add: read_all_def)

lemma read_all_length:
  assumes "\<forall>(r, c) \<in> set xs. ch_next c = dr_offset r + length (ch_data c)" "chunks_follow offset xs"
    "xs \<noteq> []"
  shows "offset + length (read_all xs) = ch_next (snd (last xs))"
  using assms
proof (induction xs arbitrary: offset)
  case (Cons x xs)
  obtain r c where x: "x = (r, c)" by (cases x)
  have nxt: "ch_next c = offset + length (ch_data c)" "chunks_follow (ch_next c) xs"
    using Cons.prems by (auto simp: x)
  show ?case
  proof (cases "xs = []")
    case True
    then show ?thesis using nxt by (simp add: x read_all_def)
  next
    case False
    then have "ch_next c + length (read_all xs) = ch_next (snd (last xs))"
      using Cons.IH[OF _ nxt(2)] Cons.prems by auto
    then show ?thesis using nxt(1) False by (simp add: x read_all_Cons)
  qed
qed simp

text \<open>When every chunk holds the bytes of its range, the chunks together hold the file's.\<close>

lemma read_all_content:
  assumes "\<forall>(r, c) \<in> set xs. ch_next c = dr_offset r + length (ch_data c) \<and>
      ch_data c = take (length (ch_data c)) (drop (dr_offset r) content)"
    and "chunks_follow offset xs"
  shows "read_all xs = take (length (read_all xs)) (drop offset content)"
  using assms
proof (induction xs arbitrary: offset)
  case (Cons x xs)
  obtain r c where x: "x = (r, c)" by (cases x)
  let ?n = "length (ch_data c)"
  have here: "ch_next c = offset + ?n" "ch_data c = take ?n (drop offset content)"
    and rest: "chunks_follow (offset + ?n) xs"
    using Cons.prems by (auto simp: x)
  have "read_all xs = take (length (read_all xs)) (drop (offset + ?n) content)"
    using Cons.IH[OF _ rest] Cons.prems(1) by (auto simp: x)
  then have "ch_data c @ read_all xs =
      take ?n (drop offset content) @ take (length (read_all xs)) (drop ?n (drop offset content))"
    using here(2) by (metis drop_drop add.commute)
  also have "\<dots> = take (?n + length (read_all xs)) (drop offset content)"
    by (rule take_add[symmetric])
  finally show ?case unfolding x read_all_Cons length_append .
qed (simp add: read_all_def)

section \<open>Source objects\<close>

record source_owner =
  so_scope :: read_scope
  so_operation :: operation_id

definition source_owner_validate :: "source_owner \<Rightarrow> unit + unit" where
  "source_owner_validate w = map_err (\<lambda>_. ()) (read_scope_validate (so_scope w))"

record source_plan =
  sp_version :: nat
  sp_owner :: source_owner
  sp_upload :: upload
  sp_attempt :: operation_id
  sp_created :: int
  sp_write_expires :: int
  sp_expires :: int
  sp_delete_after :: int

definition source_plan_validate :: "source_plan \<Rightarrow> unit + unit" where
  "source_plan_validate p =
     rbind (source_owner_validate (sp_owner p)) (\<lambda>_.
     rbind (map_err (\<lambda>_. ()) (upload_validate (sp_upload p))) (\<lambda>_.
     if so_operation (sp_owner p) \<noteq> up_operation (sp_upload p) \<or> sp_version p \<noteq> 1 \<or>
        sp_created p \<le> 0 \<or> sp_write_expires p \<le> sp_created p \<or>
        sp_expires p < sp_write_expires p \<or> sp_delete_after p < sp_expires p
     then Inl () else Inr ()))"

definition source_object_key :: "crates \<Rightarrow> source_plan \<Rightarrow> unit + string" where
  "source_object_key C p =
     rbind (source_plan_validate p) (\<lambda>_.
     let s = so_scope (sp_owner p) in
     Inr (''file-source/v1/'' @ show_project C (rs_project s) @ ''/'' @ show_sandbox C (rs_sandbox s) @ ''/'' @
          show_operation C (up_operation (sp_upload p)) @ ''/'' @ show_allocation C (rs_allocation s) @ ''/'' @
          show_int (rs_generation s) @ ''/'' @ show_host C (rs_host s) @ ''/'' @
          show_int (rs_epoch s) @ ''/'' @ show_operation C (sp_attempt p)))"

definition source_metadata_digest :: "crates \<Rightarrow> source_plan json \<Rightarrow> source_plan \<Rightarrow> unit + string" where
  "source_metadata_digest C J p =
     rbind (source_plan_validate p) (\<lambda>_.
     rbind (ok_or () (to_vec J p)) (\<lambda>b.
     Inr (hex_encode C (sha256 C (as_bytes (''hudson-file-source-v1'' @ [CHR 0x00]) @ b)))))"

record source_ref =
  sr_plan :: source_plan
  sr_etag :: string
  sr_object_version :: "string option"

definition source_ref_validate :: "source_ref \<Rightarrow> unit + unit" where
  "source_ref_validate r =
     rbind (source_plan_validate (sr_plan r)) (\<lambda>_.
     try_all stored_identity (chain_option (sr_etag r) (sr_object_version r)))"

record source_retirement =
  srt_version :: nat
  srt_plan_sha256 :: string
  srt_previous :: "source_ref option"
  srt_marker_etag :: string
  srt_marker_version :: "string option"

definition source_retirement_validate ::
    "crates \<Rightarrow> source_plan json \<Rightarrow> source_retirement \<Rightarrow> source_plan \<Rightarrow> unit + unit" where
  "source_retirement_validate C J r p =
     rbind (if srt_version r \<noteq> 1 then Inl ()
            else rbind (source_metadata_digest C J p) (\<lambda>d.
                 if srt_plan_sha256 r \<noteq> d then Inl () else Inr ())) (\<lambda>_.
     rbind (try_all stored_identity (chain_option (srt_marker_etag r) (srt_marker_version r))) (\<lambda>_.
     case srt_previous r of
       None \<Rightarrow> Inr ()
     | Some previous \<Rightarrow>
         rbind (source_ref_validate previous) (\<lambda>_.
         if sr_plan previous \<noteq> p \<or>
            \<not> version_compatible (sr_object_version previous) (srt_marker_version r)
         then Inl () else Inr ())))"

definition source_parts :: "crates \<Rightarrow> source_plan \<Rightarrow> string list" where
  "source_parts C p =
     (let s = so_scope (sp_owner p) in
      [''file-source'', ''v1'', show_project C (rs_project s), show_sandbox C (rs_sandbox s),
       show_operation C (up_operation (sp_upload p)), show_allocation C (rs_allocation s),
       show_int (rs_generation s), show_host C (rs_host s), show_int (rs_epoch s),
       show_operation C (sp_attempt p)])"

definition source_ident :: "source_plan \<Rightarrow> read_scope \<times> operation_id \<times> operation_id" where
  "source_ident p =
     ((so_scope (sp_owner p))\<lparr>rs_version := 1\<rparr>, up_operation (sp_upload p), sp_attempt p)"

interpretation source_key: keyed_plan "\<lambda>p. source_plan_validate p = Inr ()" source_object_key
    source_parts source_ident
proof
  show "source_object_key C p = Inr s \<longleftrightarrow> source_plan_validate p = Inr () \<and>
      s = foldr (\<lambda>a b. a @ ''/'' @ b) (butlast (source_parts C p)) (last (source_parts C p))" for C p s
    by (auto simp: source_object_key_def source_parts_def Let_def)
  show "\<forall>x \<in> set (source_parts C p). CHR ''/'' \<notin> set x" if "uuid_laws C" for C p
    by (simp add: source_parts_def Let_def show_id_no_slash[OF that])
  show "source_parts C p \<noteq> []" for C p by (simp add: source_parts_def Let_def)
  show "source_ident p = source_ident q" if "uuid_laws C" "source_parts C p = source_parts C q" for C p q
    using that(2) by (simp add: source_parts_def source_ident_def Let_def project.show_inj[OF that(1)]
        sandbox.show_inj[OF that(1)] operation.show_inj[OF that(1)] allocation.show_inj[OF that(1)]
        host.show_inj[OF that(1)])
qed

end
