(* ===== verification/Bootstrap.thy ===== *)
theory Bootstrap
  imports Guest_Model
begin

text \<open>
  The allocation bootstrap device (\<open>crates/sandbox-protocol/src/bootstrap.rs\<close>): a magic
  number, a length and a JSON body in a fixed-size block device. Building the TLS server from
  the credentials is the argument \<open>tls\<close> of \<open>bootstrap_server_tls\<close>.
\<close>

record bootstrap =
  bs_version :: nat
  bs_allocation :: allocation_id
  bs_generation :: int
  bs_valid_until :: int
  bs_ca_pem :: string
  bs_guest_cert_pem :: string
  bs_guest_key_pem :: string
  bs_host_pin :: bytes

definition device_bytes :: nat where "device_bytes = 128 * 1024"
definition max_body :: nat where "max_body = 64 * 1024"
definition boot_magic :: bytes where "boot_magic = as_bytes ''HDSBOOT1''"

definition bootstrap_validate :: "bootstrap \<Rightarrow> unit + unit" where
  "bootstrap_validate b =
     rbind (ensure (bs_version b = 1 \<and> 0 < bs_generation b \<and> 0 < bs_valid_until b) ()) (\<lambda>_.
     rbind (try_all (\<lambda>v. ensure (v \<noteq> [] \<and> length v \<le> 16384) ())
       [bs_ca_pem b, bs_guest_cert_pem b, bs_guest_key_pem b]) (\<lambda>_.
     ensure (bs_host_pin b \<noteq> replicate 32 0) ()))"

definition bootstrap_server_tls ::
    "(string \<Rightarrow> string \<Rightarrow> string \<Rightarrow> bytes \<Rightarrow> unit + 't) \<Rightarrow> bootstrap \<Rightarrow> int \<Rightarrow> unit + 't" where
  "bootstrap_server_tls tls b now =
     rbind (bootstrap_validate b) (\<lambda>_.
     rbind (ensure (now < bs_valid_until b) ()) (\<lambda>_.
     tls (bs_ca_pem b) (bs_guest_cert_pem b) (bs_guest_key_pem b) (bs_host_pin b)))"

text \<open>\<open>Vec::resize(n, 0)\<close>\<close>

definition resize :: "nat \<Rightarrow> bytes \<Rightarrow> bytes" where
  "resize n xs = take n (xs @ replicate n 0)"

definition encode_device :: "bootstrap json \<Rightarrow> bootstrap \<Rightarrow> unit + bytes" where
  "encode_device J b =
     rbind (bootstrap_validate b) (\<lambda>_.
     rbind (ok_or () (to_vec J b)) (\<lambda>body.
     rbind (ensure (length body \<le> max_body) ()) (\<lambda>_.
     Inr (resize device_bytes (boot_magic @ to_be_bytes 4 (length body) @ body)))))"

definition read_device :: "bootstrap json \<Rightarrow> bytes \<Rightarrow> unit + bootstrap" where
  "read_device J input =
     rbind (ensure (12 \<le> length input) ()) (\<lambda>_.
     rbind (ensure (take 8 input = boot_magic) ()) (\<lambda>_.
     let len = from_be_bytes (take 4 (drop 8 input)); rest = drop 12 input in
     rbind (ensure (0 < len \<and> len \<le> max_body) ()) (\<lambda>_.
     rbind (ensure (len \<le> length rest) ()) (\<lambda>_.
     rbind (ok_or () (from_slice J (take len rest))) (\<lambda>b.
     rbind (bootstrap_validate b) (\<lambda>_. Inr b))))))"

lemma length_magic [simp]: "length boot_magic = 8"
  by (simp add: boot_magic_def)

lemma resize_prefix: "length xs \<le> n \<Longrightarrow> \<exists>z. resize n xs = xs @ z \<and> length (resize n xs) = n"
  by (auto simp: resize_def take_replicate)

lemma device_layout:
  assumes "encode_device J b = Inr d"
  obtains body z where "to_vec J b = Some body" "length body \<le> max_body" "bootstrap_validate b = Inr ()"
    "d = boot_magic @ to_be_bytes 4 (length body) @ body @ z" "length d = device_bytes"
proof -
  from assms obtain body where body: "to_vec J b = Some body" "length body \<le> max_body"
      "bootstrap_validate b = Inr ()"
    and d: "d = resize device_bytes (boot_magic @ to_be_bytes 4 (length body) @ body)"
    by (auto simp: encode_device_def)
  have "length (boot_magic @ to_be_bytes 4 (length body) @ body) \<le> device_bytes"
    using body(2) by (simp add: device_bytes_def max_body_def)
  from resize_prefix[OF this] d body that show thesis by auto
qed

lemma device_read_back:
  assumes "json_faithful J" "encode_device J b = Inr d" "to_vec J b \<noteq> Some []"
  shows "read_device J d = Inr b \<and> length d = device_bytes"
proof -
  obtain body z where body: "to_vec J b = Some body" "length body \<le> max_body"
      "bootstrap_validate b = Inr ()"
    and d: "d = boot_magic @ to_be_bytes 4 (length body) @ body @ z" "length d = device_bytes"
    by (rule device_layout[OF assms(2)])
  have len: "from_be_bytes (to_be_bytes 4 (length body)) = length body"
    using body(2) by (intro from_to_be_bytes) (simp add: max_body_def)
  have "body \<noteq> []" using body(1) assms(3) by auto
  moreover have "from_slice J body = Some b" using assms(1) body(1) by (rule json_faithfulD)
  ultimately have "read_device J d = Inr b"
    unfolding read_device_def d(1) using len body
    by (simp add: Let_def del: from_be_bytes.simps)
  then show ?thesis using d(2) by simp
qed

end
