(* ===== verification/Protocol_Properties.thy ===== *)
theory Protocol_Properties
  imports Samples Token Idempotency Capabilities Command Output File_Access Bootstrap
begin

text \<open>
  The properties of the wire protocol (\<open>crates/sandbox-protocol/src\<close>): identities, tokens,
  digests, capabilities, guest messages, command intents, objects, files, downloads,
  identity generation and the bootstrap device. Each rests on the lemmas of its component.
\<close>

section \<open>Identities and tokens\<close>

text \<open>
  for each of the six kinds, a string parses to an identity exactly when it is the
  canonical rendering of that identity and the identity is a version 7 UUID.
\<close>

theorem identity_canonical:
  assumes "uuid_laws C"
  shows "(parse_project C s = Inr p \<longleftrightarrow> s = show_project C p \<and> uuid_version C (project_uuid p) = 7) \<and>
    (parse_sandbox C s = Inr x \<longleftrightarrow> s = show_sandbox C x \<and> uuid_version C (sandbox_uuid x) = 7) \<and>
    (parse_operation C s = Inr i \<longleftrightarrow> s = show_operation C i \<and> uuid_version C (operation_uuid i) = 7) \<and>
    (parse_snapshot C s = Inr n \<longleftrightarrow> s = show_snapshot C n \<and> uuid_version C (snapshot_uuid n) = 7) \<and>
    (parse_allocation C s = Inr a \<longleftrightarrow> s = show_allocation C a \<and> uuid_version C (allocation_uuid a) = 7) \<and>
    (parse_host C s = Inr h \<longleftrightarrow> s = show_host C h \<and> uuid_version C (host_uuid h) = 7)"
  using id_roundtrips[OF assms] project.show_parse sandbox.show_parse operation.show_parse
    snapshot.show_parse allocation.show_parse host.show_parse
  by metis

theorem identity_canonical_witness:
  "parse_operation ref_crates (show_operation ref_crates (OperationId (sample_uuid 5))) =
     Inr (OperationId (sample_uuid 5))"
  using identity_canonical[OF ref_uuid_laws,
      of "show_operation ref_crates (OperationId (sample_uuid 5))" _ _ "OperationId (sample_uuid 5)"]
  by simp

text \<open>no string is an identity of two kinds: at most one of the six parsers accepts it.\<close>

theorem identity_kinds_disjoint:
  "length (filter (\<lambda>b. b) [is_ok (parse_project C s), is_ok (parse_sandbox C s), is_ok (parse_operation C s),
     is_ok (parse_snapshot C s), is_ok (parse_allocation C s), is_ok (parse_host C s)]) \<le> 1"
proof (cases "split_once (CHR ''_'') s")
  case (Some pr)
  then show ?thesis
    by (cases pr) (simp add: parse_project_def parse_sandbox_def parse_operation_def parse_snapshot_def
        parse_allocation_def parse_host_def parse_prefixed_def)
qed (simp add: parse_project_def parse_sandbox_def parse_operation_def parse_snapshot_def
    parse_allocation_def parse_host_def parse_prefixed_def)

text \<open>
  a token issued from a full fill of its two random halves parses back from its rendering,
  secret included, and verifies against its own hash and no other secret with another hash.
\<close>

theorem token_roundtrip:
  assumes "hash_laws C" "token_generate C (Some k) (Some s) = Inr t" "length k = 8" "length s = 32"
  shows "token_parse C (token_render C t) = Inr t \<and> token_secret t = s \<and>
    (token_verify C (token_hash C t) (token_hash C u) \<longleftrightarrow> sha256 C (token_secret u) = sha256 C s)"
  using parse_render[OF assms(1) generated_issued[OF assms]] assms(2) hash_lawsD(5)[OF assms(1)]
  by (auto simp: token_verify_def token_hash_def token_generate_def)

theorem token_roundtrip_witness:
  "token_parse ref_crates (token_render ref_crates
      \<lparr>token_key_id = ref_hex_encode (replicate 8 7), token_secret = replicate 32 9\<rparr>) =
    Inr \<lparr>token_key_id = ref_hex_encode (replicate 8 7), token_secret = replicate 32 9\<rparr>"
  using token_roundtrip[OF ref_hash_laws, of "replicate 8 7" "replicate 32 9"]
  by (simp add: token_generate_def)

section \<open>Request digests and images\<close>

text \<open>
  two payloads with the same content in any order of their object entries, at any depth,
  have the same request digest.
\<close>

theorem digest_order_free:
  assumes "json_same v w"
  shows "request_digest C J method target (Some v) = request_digest C J method target (Some w)"
  using canonical_same[OF assms] by (simp add: request_digest_def)

definition plain_text :: json_text where
  "plain_text = \<lparr>key_text = Some, scalar_text = (\<lambda>v. if v = JNull then Some ''null'' else Some ''true'')\<rparr>"

theorem digest_order_free_witness:
  "request_digest ref_crates plain_text ''POST'' ''/v1'' (Some (JObject [(''b'', JNull), (''a'', JBool True)])) =
   request_digest ref_crates plain_text ''POST'' ''/v1'' (Some (JObject [(''a'', JBool True), (''b'', JNull)]))"
  by (rule digest_order_free) (auto intro!: same_object same_refl split: if_splits)

text \<open>
  the bytes that are hashed determine the method, the target and the canonical body: no
  shift of characters between the three parts gives the same preimage.
\<close>

theorem digest_preimage_injective:
  assumes "digest_preimage m t c = digest_preimage m' t' c'"
    and "length m < u64_limit" "length m' < u64_limit" "length t < u64_limit" "length t' < u64_limit"
    and "length c < u64_limit" "length c' < u64_limit"
  shows "m = m' \<and> t = t' \<and> c = c'"
  using digest_preimage_inj[OF assms] .

theorem digest_preimage_injective_witness:
  "digest_preimage ''PO'' ''ST/'' ''{}'' \<noteq> digest_preimage ''POS'' ''T/'' ''{}''"
  using digest_preimage_injective[of "''PO''" "''ST/''" "''{}''" "''POS''" "''T/''" "''{}''"] by auto

text \<open>
  the image policy is built exactly from a non-empty list of at most 256 distinct
  well-formed digests, and then allows exactly the digests of the list.
\<close>

theorem allowlist_exact:
  "(\<exists>entries. allowlist_new ds = Inr entries \<and> allowlist_allows entries d) \<longleftrightarrow>
     d \<in> set ds \<and> length ds \<le> 256 \<and> list_all valid_image_digest ds \<and> distinct ds"
  by (auto simp: allowlist_new_iff allowlist_allows_def)

text \<open>
  a capability document the host writes is read back as it was, and its images are
  distinct and each within the limits and versions of the contract.
\<close>

theorem capability_roundtrip:
  assumes "json_faithful J" "cap_to_json J c = Inr b" "b \<noteq> []"
  shows "cap_from_json J b = Inr c \<and> distinct (map rootfs_digest (cap_images c)) \<and>
    (\<forall>i \<in> set (cap_images c). image_cap_ok (cap_limits c) [] i)"
proof -
  have "cap_validate c = Inr ()" using assms(2) by (auto simp: cap_to_json_def)
  then show ?thesis using cap_json_roundtrip[OF assms] cap_validate_images by blast
qed

definition sample_digest :: string where "sample_digest = ''sha256:'' @ replicate 64 (CHR ''0'')"

definition sample_capabilities :: capabilities where
  "sample_capabilities =
     \<lparr>cap_version = 1, cap_simulated = False, architecture = ''x86_64'', host_kernel_release = ''6.1'',
      kvm_api_version = 12, cgroup_version = 2, supervisor_version = ''0.0.0'',
      firecracker_version = ''1.17.0'', firecracker_digest = sample_digest, jailer_digest = sample_digest,
      cap_limits = \<lparr>lim_vcpu = 4, lim_memory_mib = 1024, lim_disk_mib = 1024\<rparr>,
      cap_images = [\<lparr>rootfs_digest = sample_digest, kernel_digest = sample_digest, minimum_disk_mib = 64,
        guest_version = ''0.0.0'', bootstrap_version = 1, guest_protocol_version = 1\<rparr>]\<rparr>"

lemma sample_digest_valid: "valid_image_digest sample_digest"
  by (simp add: valid_image_digest_def sample_digest_def strip_prefix_def lower_hex_def ascii_digit_def list_all_iff)

lemma sample_capabilities_valid: "cap_validate sample_capabilities = Inr ()"
  by (simp add: cap_validate_def sample_capabilities_def sample_digest_valid supported_iff pkg_version_def
      release_char_def ascii_alphanumeric_def ascii_alphabetic_def ascii_digit_def cap_image_step_def image_cap_ok_def)

theorem capability_roundtrip_witness:
  "cap_from_json (table_json [sample_capabilities\<lparr>cap_version := 0\<rparr>, sample_capabilities]) [1] =
     Inr sample_capabilities"
proof -
  have "sample_capabilities \<noteq> sample_capabilities\<lparr>cap_version := 0\<rparr>"
    by (simp add: sample_capabilities_def)
  then have "cap_to_json (table_json [sample_capabilities\<lparr>cap_version := 0\<rparr>, sample_capabilities])
      sample_capabilities = Inr [1]"
    by (simp add: cap_to_json_def sample_capabilities_valid table_json_def cap_max_bytes_def)
  then show ?thesis using capability_roundtrip[OF table_json_faithful] by blast
qed

section \<open>Messages and frames\<close>

definition sample_context :: guest_context where
  "sample_context = \<lparr>ctx_allocation = AllocationId (sample_uuid 101), ctx_generation = 1, ctx_boot = ''boot''\<rparr>"

definition sample_receipt :: receipt where
  "sample_receipt =
     \<lparr>rcpt_version = 1, rcpt_context = sample_context, rcpt_operation = OperationId (sample_uuid 7),
      rcpt_digest = ref_sha256 (as_bytes (''hudson-guest-execute-v1'' @ [CHR 0x00])), rcpt_state = Exited,
      rcpt_deadline = 5000, rcpt_output_limit = 10,
      rcpt_cancel_requested = False, rcpt_cleanup_confirmed = True, rcpt_exit_code = Some 0,
      rcpt_signal = None, rcpt_stdout = \<lparr>out_seen = 3, out_stored = 3, out_truncated = False\<rparr>,
      rcpt_stderr = \<lparr>out_seen = 9, out_stored = 7, out_truncated = True\<rparr>, rcpt_reason = None\<rparr>"

lemma sample_receipt_valid: "receipt_validate sample_receipt = Inr ()"
  by (simp add: receipt_valid_iff sample_receipt_def sample_context_def guest_max_output_def)

lemma ref_sha256_length [simp]: "length (ref_sha256 b) = 32"
  using hash_lawsD(1)[OF ref_hash_laws, of b] by simp

text \<open>
  C40: guest contexts, command receipts, file receipts and history barriers have one wire form
  each: a wire message is accepted as \<open>m\<close> exactly when \<open>m\<close> is valid and the message is \<open>m\<close>'s
  own encoding. So a forwarded message is never altered.
\<close>

theorem wire_messages_canonical:
  assumes "uuid_laws C"
  shows "(context_of_wire C wc = Inr c \<longleftrightarrow> context_wire_ok C c \<and> wc = context_to_wire C c) \<and>
    (receipt_of_wire C wr = Inr r \<longleftrightarrow> receipt_wire_ok C r \<and> wr = receipt_to_wire C r) \<and>
    (file_receipt_of_wire C J ft = Inr t \<longleftrightarrow> file_receipt_wire_ok J C t \<and> ft = file_receipt_to_wire C t) \<and>
    (barrier_of_wire C wb = Inr b \<longleftrightarrow> barrier_wire_ok C b \<and> wb = barrier_to_wire C b)"
  using context_wire.of_wire_iff[OF assms] receipt_wire.of_wire_iff[OF assms]
    file_receipt_wire.of_wire_iff[OF assms] barrier_wire.of_wire_iff[OF assms] by blast

theorem wire_messages_canonical_witness:
  "receipt_of_wire ref_crates (receipt_to_wire ref_crates sample_receipt) = Inr sample_receipt"
proof -
  have "receipt_wire_ok ref_crates sample_receipt"
    using sample_receipt_valid
    by (simp add: receipt_wire_ok_def context_wire_ok_def) (simp add: sample_receipt_def sample_context_def)
  then show ?thesis using wire_messages_canonical[OF ref_uuid_laws] by blast
qed

text \<open>
  a command request survives the wire when its environment is an ordered map, and what a
  receiver accepts is a valid command that survives being forwarded.
\<close>

theorem execute_wire_roundtrip:
  assumes "uuid_laws C"
  shows "(execute_wire_ok J C x \<longrightarrow> execute_of_wire C J (execute_to_wire C x) = Inr x) \<and>
    (execute_of_wire C J w = Inr x \<longrightarrow>
       execute_validate J x = Inr () \<and> execute_of_wire C J (execute_to_wire C x) = Inr x)"
  using execute_wire.of_to[OF assms] execute_wire.of_ok execute_wire.forwarded[OF assms]
  by (auto simp: execute_wire_ok_def)

definition sample_execute :: execute where
  "sample_execute =
     \<lparr>exec_operation = OperationId (sample_uuid 7), exec_argv = [''/bin/true'', ''x''],
      exec_env = [(''HOME'', ''/''), (''LANG'', ''C'')], exec_cwd = ''/work'', exec_deadline = 5000,
      exec_output_limit = 10\<rparr>"

abbreviation "sample_execute_json \<equiv> table_json [sample_execute]"

lemma sample_execute_valid: "execute_validate sample_execute_json sample_execute = Inr ()"
proof -
  have "to_vec sample_execute_json sample_execute = Some []" by (simp add: table_json_def)
  then show ?thesis
    by (simp add: execute_validate_def)
      (simp add: sample_execute_def no_nul_def env_entry_check_def env_key_ok_def ascii_alphabetic_def
        guest_max_output_def upt_rec)
qed

theorem execute_wire_roundtrip_witness:
  "execute_of_wire ref_crates sample_execute_json (execute_to_wire ref_crates sample_execute) = Inr sample_execute"
proof -
  have "execute_wire_ok sample_execute_json ref_crates sample_execute"
    using sample_execute_valid
    by (simp add: execute_wire_ok_def) (simp add: sample_execute_def bt_ordered_def)
  then show ?thesis using execute_wire_roundtrip[OF ref_uuid_laws] by blast
qed

text \<open>
  a frame that is written is read back as its message and leaves the rest of the stream,
  whatever follows it; and every frame is within the bound.
\<close>

theorem frame_read_back:
  assumes "decode (encode m) = Some m" "write_frame encode m = Inr f"
  shows "read_frame decode (f @ rest) = Inr (m, rest) \<and> length f \<le> 4 + max_frame"
  using frame_roundtrip[of decode encode m f rest, OF assms] assms(2) by (auto simp: write_frame_def Let_def)

theorem frame_read_back_witness:
  "read_frame (\<lambda>b. Some b) ([0, 0, 0, 2, 8, 9] @ [1, 2]) = Inr ([8, 9 :: byte], [1, 2])"
proof -
  have "write_frame (\<lambda>b. b) [8, 9 :: byte] = Inr [0, 0, 0, 2, 8, 9]"
    by (simp add: write_frame_def max_frame_def to_be_bytes_def upt_rec)
  then show ?thesis using frame_read_back[of "\<lambda>b. Some b" "\<lambda>b. b" "[8, 9]" "[0, 0, 0, 2, 8, 9]" "[1, 2]"] by simp
qed

section \<open>Command evidence\<close>

text \<open>
  the intent retained before a command is sent admits only receipts of that very command:
  the operation, the boot, the payload digest, the deadline and the output budget all agree. A
  fence retained in place of a command admits no receipt at all.
\<close>

theorem intent_admits_own_receipt:
  assumes "command_pending C J x c = Inr r" "command_validate_receipt r (exec_operation x) t = Inr ()"
  shows "rcpt_operation t = exec_operation x \<and> rcpt_context t = c \<and>
    execute_digest C J x = Inr (rcpt_digest t) \<and> rcpt_deadline t = exec_deadline x \<and>
    out_stored (rcpt_stdout t) + out_stored (rcpt_stderr t) \<le> exec_output_limit x \<and>
    command_validate_receipt (command_fenced d) i t = Inl ()"
  using pending_receipt[OF assms] fenced_never_observed by simp

theorem intent_admits_own_receipt_witness:
  "execute_digest ref_crates sample_execute_json sample_execute = Inr (rcpt_digest sample_receipt)"
proof -
  have vec: "to_vec sample_execute_json sample_execute = Some []" by (simp add: table_json_def)
  obtain r where r: "command_pending ref_crates sample_execute_json sample_execute sample_context = Inr r"
    by (simp add: command_pending_def execute_digest_def vec)
  then have "command_validate_receipt r (exec_operation sample_execute) sample_receipt = Inr ()"
    using sample_receipt_valid vec
    by (auto simp: command_validate_receipt_def command_pending_def execute_digest_def)
      (simp_all add: sample_receipt_def sample_execute_def)
  with r show ?thesis using intent_admits_own_receipt by blast
qed

section \<open>Objects, files and downloads\<close>

definition sample_plan :: "output_name \<Rightarrow> output_plan" where
  "sample_plan n =
     \<lparr>pl_version = 1,
      pl_owner = \<lparr>oo_project = ProjectId (sample_uuid 2), oo_sandbox = SandboxId (sample_uuid 3),
        oo_operation = OperationId (sample_uuid 7), oo_allocation = AllocationId (sample_uuid 101),
        oo_generation = 1, oo_host = HostId (sample_uuid 1), oo_epoch = 1, oo_boot = ''boot''\<rparr>,
      pl_attempt = OperationId (sample_uuid 8), pl_name = n, pl_size = 3, pl_sha256 = replicate 64 (CHR ''0''),
      pl_seen = 3, pl_truncated = False, pl_created = 1, pl_expires = 2, pl_delete_after = 3\<rparr>"

text \<open>
  the object key of an output names its owner (up to the guest boot), its attempt and its
  stream: two valid plans with one key agree on all of them. The same holds of source objects.
\<close>

theorem object_keys_separate:
  assumes "uuid_laws C" "plan_object_key C p = Inr s" "plan_object_key C q = Inr s"
    "source_object_key C a = Inr k" "source_object_key C b = Inr k"
  shows "(pl_owner p)\<lparr>oo_boot := []\<rparr> = (pl_owner q)\<lparr>oo_boot := []\<rparr> \<and> pl_attempt p = pl_attempt q \<and>
    pl_name p = pl_name q \<and>
    (so_scope (sp_owner a))\<lparr>rs_version := 1\<rparr> = (so_scope (sp_owner b))\<lparr>rs_version := 1\<rparr> \<and>
    up_operation (sp_upload a) = up_operation (sp_upload b) \<and> sp_attempt a = sp_attempt b"
  using output_key.key_inj[OF assms(1,2,3)] source_key.key_inj[OF assms(1,4,5)]
  by (simp add: plan_ident_def source_ident_def)

definition sample_upload :: upload where
  "sample_upload =
     \<lparr>up_operation = OperationId (sample_uuid 9), up_path = ''dir/a.txt'', up_size = 3,
      up_sha256 = replicate 32 5, up_mode = 0x1A4\<rparr>"

lemma sample_path_valid: "validate_path ''dir/a.txt'' = Inr ()"
  by (simp add: validate_path_def path_byte_bad_def state_directory_def)

lemma sample_upload_valid: "upload_validate sample_upload = Inr ()"
  by (simp add: upload_validate_def sample_upload_def sample_path_valid max_file_bytes_def)

definition sample_source :: "nat \<Rightarrow> source_plan" where
  "sample_source n =
     \<lparr>sp_version = 1, sp_owner = \<lparr>so_scope = \<lparr>rs_version = 1, rs_host = HostId (sample_uuid 1), rs_epoch = 1,
        rs_project = ProjectId (sample_uuid 2), rs_sandbox = SandboxId (sample_uuid 3),
        rs_allocation = AllocationId (sample_uuid 101), rs_generation = 1\<rparr>,
        so_operation = OperationId (sample_uuid 9)\<rparr>,
      sp_upload = sample_upload, sp_attempt = OperationId (sample_uuid n), sp_created = 1,
      sp_write_expires = 2, sp_expires = 3, sp_delete_after = 4\<rparr>"

lemma sample_plan_valid: "plan_validate (sample_plan n) = Inr ()"
  by (simp add: plan_validate_def owner_validate_def sample_plan_def max_output_def lower_hex_def
      ascii_digit_def list_all_iff)

lemma sample_source_valid: "source_plan_validate (sample_source n) = Inr ()"
proof -
  have "up_operation sample_upload = OperationId (sample_uuid 9)" by (simp add: sample_upload_def)
  then show ?thesis
    by (simp add: source_plan_validate_def source_owner_validate_def read_scope_validate_def sample_source_def
        sample_upload_valid)
qed

theorem object_keys_separate_witness:
  "plan_object_key ref_crates (sample_plan Stdout) \<noteq> plan_object_key ref_crates (sample_plan Stderr)"
proof
  assume eq: "plan_object_key ref_crates (sample_plan Stdout) = plan_object_key ref_crates (sample_plan Stderr)"
  obtain s where s: "plan_object_key ref_crates (sample_plan Stdout) = Inr s"
    by (simp add: plan_object_key_def sample_plan_valid Let_def)
  obtain k where k: "source_object_key ref_crates (sample_source 10) = Inr k"
    by (simp add: source_object_key_def sample_source_valid Let_def)
  have "pl_name (sample_plan Stdout) = pl_name (sample_plan Stderr)"
    using object_keys_separate[OF ref_uuid_laws s _ k k] s eq by metis
  then show False by (simp add: sample_plan_def)
qed

text \<open>
  following the components of an accepted path from the workspace never climbs: the walk
  succeeds, ends at the path's own components, and does not enter the transfer state.
\<close>

theorem path_confined:
  assumes "validate_path p = Inr ()"
  shows "walk [] (split_on (CHR ''/'') p) = Some (split_on (CHR ''/'') p) \<and>
    hd (split_on (CHR ''/'') p) \<noteq> state_directory \<and>
    (\<forall>q \<in> set (split_on (CHR ''/'') p). q \<noteq> [] \<and> length q \<le> 255)"
  using validated_path_walk[OF assms] assms by (auto simp: validate_path_def list_all_iff)

theorem path_confined_witness:
  "walk [] [''dir'', ''a.txt''] = Some [''dir'', ''a.txt''] \<and> walk [] [''dir'', ''..'', ''..'', ''etc''] = None"
  using path_confined[OF sample_path_valid] by simp

text \<open>
  a terminal transfer outcome is final: whatever receipt is observed later, the record
  stays; and an accepted observation is of the retained boot, digest and size.
\<close>

theorem transfer_outcome_final:
  assumes "file_observe C J K u t r = (x, r')"
  shows "(file_finished r \<longrightarrow> r' = r) \<and>
    (x = Inr () \<longrightarrow> file_context r = Some (frcpt_context t) \<and> file_digest r = frcpt_digest t \<and>
       file_size r = up_size u \<and> (file_status r' = 3 \<longrightarrow> file_commit_requested r) \<and>
       (file_status r' = 5 \<longrightarrow> file_abort_requested r))"
  using assms file_observe_final[of r C J K u t] file_observe_Inr[of C J K u t r "()" r']
  by auto

definition sample_file_digest :: bytes where
  "sample_file_digest = ref_sha256 (as_bytes (''hudson-file-upload-v1'' @ [CHR 0x00]))"

definition sample_file :: "nat \<Rightarrow> file_record" where
  "sample_file n =
     \<lparr>file_digest = sample_file_digest, file_context = Some sample_context, file_size = 3,
      file_not_started = False, file_commit_requested = True, file_abort_requested = False,
      file_status = n\<rparr>"

definition sample_file_receipt :: file_receipt where
  "sample_file_receipt =
     \<lparr>frcpt_version = 1, frcpt_context = sample_context, frcpt_upload = sample_upload,
      frcpt_digest = sample_file_digest, frcpt_state = Committed\<rparr>"

theorem transfer_outcome_final_witness:
  "snd (file_observe ref_crates (table_json [sample_upload]) (table_json [sample_file 3]) sample_upload
     sample_file_receipt (sample_file 3)) = sample_file 3"
proof -
  obtain x r where "file_observe ref_crates (table_json [sample_upload]) (table_json [sample_file 3])
      sample_upload sample_file_receipt (sample_file 3) = (x, r)" by (metis surj_pair)
  moreover from transfer_outcome_final[OF this] have "r = sample_file 3"
    by (simp add: file_finished_def sample_file_def)
  ultimately show ?thesis by simp
qed

lemma accepted_chunk:
  assumes "check_chunk C J r ob simulated now = Inr c" "dr_handle r = Some h" "dh_capture h = Some cap"
  shows "ch_next c = dr_offset r + length (ch_data c)" "ch_at_end c = (ch_next c = wfc_size cap)"
    "dr_offset r < ch_next c \<or> ch_at_end c"
proof -
  from assms(1) obtain h' cap' where "dr_handle r = Some h'" "dh_capture h' = Some cap'"
    and n: "length (ch_data c) = min (wfc_size cap' - dr_offset r) (dr_limit r)" "1 \<le> dr_limit r"
      "dr_offset r \<le> wfc_size cap'" "ch_next c = dr_offset r + length (ch_data c)"
      "ch_at_end c = (ch_next c = wfc_size cap')"
    by (rule check_chunk_Inr) blast
  then have "cap' = cap" using assms(2,3) by simp
  then show "ch_next c = dr_offset r + length (ch_data c)" "ch_at_end c = (ch_next c = wfc_size cap)"
    "dr_offset r < ch_next c \<or> ch_at_end c"
    using n by auto
qed

text \<open>
  a download reassembles the file. When every response of a chain of requests from offset
  zero is accepted, all for one capture, and the last one is at the end, the data of the chain
  is the captured content, provided each response holds the bytes of its range; and every
  response moves the reader on or ends the file.
\<close>

theorem download_reassembles:
  assumes accepted: "\<forall>(r, c) \<in> set xs. (\<exists>ob now. check_chunk C J r ob simulated now = Inr c) \<and>
      (\<exists>h. dr_handle r = Some h \<and> dh_capture h = Some cap)"
    and chain: "chunks_follow 0 xs" "xs \<noteq> []" "ch_at_end (snd (last xs))"
    and honest: "length content = wfc_size cap"
      "\<forall>(r, c) \<in> set xs. ch_data c = take (length (ch_data c)) (drop (dr_offset r) content)"
  shows "read_all xs = content \<and> (\<forall>(r, c) \<in> set xs. dr_offset r < ch_next c \<or> ch_at_end c)"
proof -
  have step: "ch_next c = dr_offset r + length (ch_data c) \<and> ch_at_end c = (ch_next c = wfc_size cap) \<and>
      (dr_offset r < ch_next c \<or> ch_at_end c)" if in_xs: "(r, c) \<in> set xs" for r c
  proof -
    obtain ob now h where "check_chunk C J r ob simulated now = Inr c" "dr_handle r = Some h"
      "dh_capture h = Some cap" using accepted in_xs by blast
    from accepted_chunk[OF this] show ?thesis by blast
  qed
  have "last xs \<in> set xs" using chain(2) by simp
  then have "ch_next (snd (last xs)) = wfc_size cap" using step chain(3) by (metis prod.collapse)
  moreover have "0 + length (read_all xs) = ch_next (snd (last xs))"
    by (rule read_all_length) (use step chain(1,2) in auto)
  ultimately have "length (read_all xs) = length content" using honest(1) by simp
  moreover have "read_all xs = take (length (read_all xs)) (drop 0 content)"
    by (rule read_all_content) (use step honest(2) chain(1) in blast)+
  ultimately have "read_all xs = content" by simp
  moreover have "\<forall>(r, c) \<in> set xs. dr_offset r < ch_next c \<or> ch_at_end c" using step by blast
  ultimately show ?thesis by (rule conjI)
qed

definition sample_scope :: read_scope where
  "sample_scope =
     \<lparr>rs_version = 1, rs_host = HostId (sample_uuid 1), rs_epoch = 1, rs_project = ProjectId (sample_uuid 2),
      rs_sandbox = SandboxId (sample_uuid 3), rs_allocation = AllocationId (sample_uuid 101), rs_generation = 1\<rparr>"

definition sample_capture :: wire_file_capture where
  "sample_capture =
     \<lparr>wfc_capture = show_operation ref_crates (OperationId (sample_uuid 9)), wfc_path = ''dir/a.txt'',
      wfc_size = 3, wfc_sha256 = replicate 32 5, wfc_expires = 9000\<rparr>"

definition sample_read :: "nat \<Rightarrow> download_request" where
  "sample_read offset =
     \<lparr>dr_scope = [], dr_handle = Some \<lparr>dh_id = show_operation ref_crates (OperationId (sample_uuid 11)),
        dh_context = Some (context_to_wire ref_crates sample_context), dh_capture = Some sample_capture,
        dh_expires = 9000\<rparr>, dr_offset = offset, dr_limit = 2, dr_expires = 2000\<rparr>"

definition sample_chunk :: "nat \<Rightarrow> bytes \<Rightarrow> bool \<Rightarrow> wire_file_chunk" where
  "sample_chunk offset b at_end =
     \<lparr>ch_handle = Some \<lparr>wfh_capture = wfc_capture sample_capture, wfh_sha256 = replicate 32 5\<rparr>,
      ch_offset = offset, ch_data = b, ch_next = offset + length b, ch_size = 3, ch_at_end = at_end\<rparr>"

definition sample_observation :: "wire_file_chunk \<Rightarrow> access_observation" where
  "sample_observation c = \<lparr>ao_scope = [], ao_simulated = False, ao_observed = 1000, ao_result = Some (Chunk c)\<rparr>"

lemma sample_capture_valid: "validate_capture ref_crates sample_capture = Inr ()"
  using sample_path_valid operation.parse_show[OF ref_uuid_laws, of "OperationId (sample_uuid 9)"]
  by (simp add: validate_capture_def sample_capture_def max_file_bytes_def)

lemma sample_chunk_accepted:
  assumes "b = take 2 (drop n [1, 2, 3 :: byte])" "e = (n + length b = 3)" "n \<le> 3"
  shows "check_chunk ref_crates (table_json [sample_scope]) (sample_read n)
    (sample_observation (sample_chunk n b e)) False 1500 = Inr (sample_chunk n b e)"
proof -
  have scope: "decode_scope (table_json [sample_scope]) [] 2000 1500 = Inr sample_scope"
    by (simp add: decode_scope_def table_json_def read_scope_validate_def sample_scope_def
        saturating_sub_i64_def)
  have ctx: "context_of_wire ref_crates (context_to_wire ref_crates sample_context) = Inr sample_context"
    by (rule context_wire.of_to[OF ref_uuid_laws]) (simp add: context_wire_ok_def sample_context_def)
  have handle: "check_handle ref_crates (the (dr_handle (sample_read n))) sample_scope = Inr ()"
    using ctx sample_capture_valid operation.parse_show[OF ref_uuid_laws, of "OperationId (sample_uuid 11)"]
    by (simp add: check_handle_def sample_read_def) (simp add: sample_context_def sample_scope_def)
  have "length b = min (3 - n) 2" using assms by (auto simp: min_def)
  then show ?thesis
    using scope handle sample_capture_valid assms
    by (simp add: check_chunk_def check_read_request_def check_observation_def sample_observation_def
        sample_read_def sample_chunk_def capture_handle_def sample_capture_def[THEN arg_cong, of wfc_size]
        max_chunk_bytes_def Let_def sample_capture_def[THEN arg_cong, of wfc_sha256])
qed

theorem download_reassembles_witness:
  "read_all [(sample_read 0, sample_chunk 0 [1, 2] False), (sample_read 2, sample_chunk 2 [3] True)] = [1, 2, 3]"
  by (rule download_reassembles[where cap = sample_capture and C = ref_crates
        and J = "table_json [sample_scope]" and simulated = False and content = "[1, 2, 3]",
        THEN conjunct1])
    (use sample_chunk_accepted[of "[1, 2]" 0 False] sample_chunk_accepted[of "[3]" 2 True]
     in \<open>auto simp: sample_read_def sample_chunk_def sample_capture_def\<close>)

section \<open>Generated identities and the bootstrap device\<close>

text \<open>
  an identity generated above a durable floor is a version 7 identity, lies strictly above
  the floor, and, when the clock's candidate does not, is the least such identity.
\<close>

theorem generated_above_floor:
  assumes "uuid_laws C" "advance_operation_id C candidate floor = Inr r"
  shows "rfc7 C r \<and> (\<forall>f. floor = Some f \<longrightarrow> f < r) \<and>
    (r = candidate \<or> (\<exists>f. floor = Some f \<and> candidate \<le> f \<and> (\<forall>i. rfc7 C i \<and> f < i \<longrightarrow> r \<le> i)))"
  using advance_least[OF assms] by blast

theorem generated_above_floor_witness:
  "\<exists>r. advance_operation_id ref_crates (OperationId (sample_uuid 4)) (Some (OperationId (sample_uuid 9))) = Inr r \<and>
     OperationId (sample_uuid 9) < r \<and> r \<le> OperationId (sample_uuid 10)"
proof -
  have order: "OperationId (sample_uuid m) \<le> OperationId (sample_uuid n) \<longleftrightarrow> m \<le> n"
    "OperationId (sample_uuid m) < OperationId (sample_uuid n) \<longleftrightarrow> m < n" if "m < 2 ^ 62" "n < 2 ^ 62" for m n
    using that by (simp_all add: less_eq_operation_id_def less_operation_id_def)
  have rfc: "rfc7 ref_crates (OperationId (sample_uuid n))" if "n < 2 ^ 62" for n
    using that by (simp add: rfc7_def)
  have "uuid_rank (sample_uuid 9) + 1 < push_bit 122 1"
    by (simp add: uuid_rank_def sample_uuid_def low_mask_def)
  then obtain r where r: "advance_operation_id ref_crates (OperationId (sample_uuid 4))
      (Some (OperationId (sample_uuid 9))) = Inr r"
    by (simp add: advance_operation_id_def rfc order Let_def)
  note above = generated_above_floor[OF ref_uuid_laws r]
  have "r \<noteq> OperationId (sample_uuid 4)" using above order[of 9 4] by auto
  then have "r \<le> OperationId (sample_uuid 10)" using above rfc[of 10] order(2)[of 9 10] by auto
  with r above show ?thesis by blast
qed

text \<open>
  the device image written for a guest has the fixed size and reads back as the very
  credentials it was written from.
\<close>

theorem bootstrap_device_roundtrip:
  assumes "json_faithful J" "encode_device J b = Inr d" "to_vec J b \<noteq> Some []"
  shows "read_device J d = Inr b \<and> length d = device_bytes"
  using device_read_back[OF assms] .

definition sample_bootstrap :: bootstrap where
  "sample_bootstrap =
     \<lparr>bs_version = 1, bs_allocation = AllocationId (sample_uuid 101), bs_generation = 1, bs_valid_until = 9000,
      bs_ca_pem = ''ca'', bs_guest_cert_pem = ''cert'', bs_guest_key_pem = ''key'', bs_host_pin = replicate 32 4\<rparr>"

theorem bootstrap_device_roundtrip_witness:
  "\<exists>d. encode_device (table_json [sample_bootstrap\<lparr>bs_version := 2\<rparr>, sample_bootstrap]) sample_bootstrap = Inr d \<and>
     read_device (table_json [sample_bootstrap\<lparr>bs_version := 2\<rparr>, sample_bootstrap]) d = Inr sample_bootstrap"
proof -
  let ?J = "table_json [sample_bootstrap\<lparr>bs_version := 2\<rparr>, sample_bootstrap]"
  have "sample_bootstrap \<noteq> sample_bootstrap\<lparr>bs_version := 2\<rparr>" by (simp add: sample_bootstrap_def)
  then have vec: "to_vec ?J sample_bootstrap = Some [1]" by (simp add: table_json_def)
  have "bootstrap_validate sample_bootstrap = Inr ()"
    by (simp add: bootstrap_validate_def sample_bootstrap_def)
  then obtain d where d: "encode_device ?J sample_bootstrap = Inr d"
    by (simp add: encode_device_def vec max_body_def)
  have "to_vec ?J sample_bootstrap \<noteq> Some []" using vec by simp
  from bootstrap_device_roundtrip[OF table_json_faithful d this] d show ?thesis by blast
qed

end
