(* ===== verification/Lease.thy ===== *)
theory Lease
  imports Prelude
begin

text \<open>
  The allocation deadline of a guardian (\<open>crates/sandbox-supervisor/src/lease.rs\<close>): one
  64-bit atomic cell holding a boot-clock time, zero when fenced. The cell is the state;
  \<open>swap\<close> is \<open>compare_exchange\<close>. \<open>expire\<close> is two atomic actions, a load and an exchange, so
  a run of the cell is a sequence of the atomic actions of any number of threads.
\<close>

section \<open>Operations\<close>

definition deadline_convert :: "int \<Rightarrow> int \<Rightarrow> nat \<Rightarrow> unit + nat" where
  "deadline_convert expires wall boot =
     rbind (ok_or () (checked_sub_i64 expires wall)) (\<lambda>remaining.
     rbind (ensure (1 \<le> remaining \<and> remaining \<le> 300000) ()) (\<lambda>_.
     ok_or () (checked_add_u64 boot (nat remaining))))"

definition deadline_new :: "int \<Rightarrow> int \<Rightarrow> nat \<Rightarrow> unit + nat" where
  "deadline_new expires wall boot = deadline_convert expires wall boot"

definition deadline_value :: "nat \<Rightarrow> nat" where
  "deadline_value cell = cell"

definition deadline_stop :: "(nat, unit, unit) proc" where
  "deadline_stop = swrite (\<lambda>_. 0)"

definition swap :: "nat \<Rightarrow> nat \<Rightarrow> (nat, unit, unit) proc" where
  "swap expected new cell = (if cell = expected then (Inr (), new) else (Inl (), cell))"

definition deadline_extend :: "nat \<Rightarrow> int \<Rightarrow> nat \<Rightarrow> nat \<Rightarrow> (nat, unit, unit) proc" where
  "deadline_extend prior expires wall boot =
     sbind (sensure (int wall \<le> i64_max) ()) (\<lambda>_.
     sbind (slift (deadline_convert expires (int wall) boot)) (\<lambda>next_value.
     sbind (sensure (boot < prior \<and> prior \<le> next_value) ()) (\<lambda>_.
     swap prior next_value)))"

text \<open>The exchange of \<open>expire\<close>, for the value \<open>prior\<close> an earlier load returned.\<close>

definition deadline_expire_swap :: "nat \<Rightarrow> nat \<Rightarrow> nat \<Rightarrow> bool \<times> nat" where
  "deadline_expire_swap prior boot cell =
     (if prior \<noteq> 0 \<and> prior \<le> boot
      then (case swap prior 0 cell of (r, cell') \<Rightarrow> (is_ok r, cell'))
      else (False, cell))"

definition deadline_expire :: "nat \<Rightarrow> nat \<Rightarrow> bool \<times> nat" where
  "deadline_expire boot cell = deadline_expire_swap (deadline_value cell) boot cell"

section \<open>Runs of atomic actions\<close>

datatype deadline_action =
    ActExtend nat int nat nat
  | ActStop
  | ActExpire nat nat

definition deadline_step :: "nat \<Rightarrow> deadline_action \<Rightarrow> nat" where
  "deadline_step cell x =
     (case x of
        ActExtend prior expires wall boot \<Rightarrow> snd (deadline_extend prior expires wall boot cell)
      | ActStop \<Rightarrow> snd (deadline_stop cell)
      | ActExpire prior boot \<Rightarrow> snd (deadline_expire_swap prior boot cell))"

lemma deadline_convert_Inr:
  "deadline_convert expires wall boot = Inr d \<longleftrightarrow>
     1 \<le> expires - wall \<and> expires - wall \<le> 300000 \<and> d = boot + nat (expires - wall) \<and> d < u64_limit"
  by (auto simp: deadline_convert_def in_i64_def)

lemma deadline_extend_cases:
  "deadline_extend prior expires wall boot cell = (r, cell') \<Longrightarrow>
     (\<exists>e. r = Inl e) \<and> cell' = cell \<or>
     r = Inr () \<and> cell = prior \<and> boot < cell \<and> cell \<le> cell' \<and>
     cell' = boot + nat (expires - int wall) \<and> 1 \<le> expires - int wall \<and> expires - int wall \<le> 300000"
  by (cases "deadline_convert expires (int wall) boot")
    (auto simp: deadline_extend_def sbind_def swap_def ensure_def deadline_convert_Inr split: if_splits)

text \<open>One atomic action fences the cell, or leaves it, or moves it forward while it runs.\<close>

lemma deadline_step_cases:
  "deadline_step cell x = 0 \<or> deadline_step cell x = cell \<or>
   (cell \<noteq> 0 \<and> cell \<le> deadline_step cell x)"
proof (cases x)
  case (ActExtend prior expires wall boot)
  then show ?thesis
    using deadline_extend_cases[of prior expires wall boot cell]
    by (cases "deadline_extend prior expires wall boot cell") (auto simp: deadline_step_def)
qed (auto simp: deadline_step_def deadline_stop_def deadline_expire_swap_def swap_def split: prod.splits)

interpretation lease: irrevocable_denial deadline_step "\<lambda>_. True" "\<lambda>_ (_::unit). True"
    "\<lambda>cell _. cell \<noteq> 0"
proof
  show "\<not> deadline_step cell x \<noteq> 0" if "\<not> cell \<noteq> 0" for cell x
    using that deadline_step_cases[of cell x] by auto
qed simp_all

end
