(* ===== verification/Authority_Properties.thy ===== *)
theory Authority_Properties
  imports Samples Lease
begin

text \<open>
  The properties of the allocation authority and the guardian's lease: the codecs of the
  retirement scope, the ledger as a map of owners, its transitions and their runs, and the
  deadline cell.
\<close>

section \<open>Retirement scope\<close>

text \<open>
  what one side encodes of an intent, a delivery or a forget request, the other decodes:
  encoding gives the bytes exactly when they decode to the message it was given.
\<close>

theorem retirement_messages_roundtrip:
  assumes "json_faithful J" "json_faithful K" "json_faithful M"
  shows "(intent_encode C J i = Inr b \<longleftrightarrow> to_vec J i = Some b \<and> intent_decode C J b = Inr i) \<and>
    (request_encode C K r = Inr b \<longleftrightarrow> to_vec K r = Some b \<and> request_decode C K b = Inr r) \<and>
    (forget_encode C M f = Inr b \<longleftrightarrow> to_vec M f = Some b \<and> forget_decode C M b = Inr f)"
  using assms unfolding intent.encode_iff intent.decode_iff request.encode_iff request.decode_iff
    forget.encode_iff forget.decode_iff
  by (meson json_faithfulD)

theorem retirement_messages_roundtrip_witness:
  "intent_decode ref_crates sample_intent_json [] = Inr sample_intent"
proof -
  have "intent_encode ref_crates sample_intent_json sample_intent = Inr []"
    by (simp add: intent_encode_def sample_intent_ok)
  then show ?thesis
    using retirement_messages_roundtrip[OF sample_json_faithful(2) table_json_faithful table_json_faithful]
    by blast
qed

section \<open>The ledger\<close>

text \<open>
  a ledger is read from storage exactly when it is well formed: the serials increase
  strictly and none is above the frontier, no allocation, operation or generation repeats, and
  every owner belongs to the host.
\<close>

theorem ledger_decode_exact:
  "ledger_decode C J b h m = Inr l \<longleftrightarrow>
     length b \<le> authority_max_bytes \<and> from_slice J b = Some l \<and> ledger_ok C l \<and>
     ledger_host l = h \<and> m \<le> ledger_through l"
  by (rule ledger_decode_iff)

text \<open>
  C38: the lookup by binary search is the lookup of the permit in the set of owners, and its
  failures tell the three cases apart: a serial held by another permit, one that was registered
  and forgotten, one that was never registered.
\<close>

theorem ledger_state_exact:
  assumes "ledger_ok C l" "permit_ok C p" "permit_host p = ledger_host l"
  shows "ledger_state C l p =
    (case owners l p of
       Some s \<Rightarrow> Inr s
     | None \<Rightarrow>
         if permit_serial p \<in> set (serials (ledger_entries l)) then Inl AuthOwnership
         else if permit_serial p \<le> ledger_through l then Inl AuthClosed
         else Inl AuthUnregistered)"
  using ledger_state_cases[OF assms] .

theorem ledger_state_exact_witness:
  "ledger_state ref_crates first_fenced (sample_permit 1) = Inr (Fenced sample_retirement)"
  using ledger_state_exact[OF sample_ledger_ok(2) sample_permit_ok[of 1]] sample_owners(2) by simp

text \<open>
  C36: exactly when a registration is accepted, and what it does. The batch is one to 32 valid
  owners of the host with consecutive serials. It is a replay, starting at or below the frontier,
  and every owner is still retained: the ledger is unchanged. Or it starts right after the
  frontier, the ledger has room for it, no allocation, creation or generation repeats among the
  retained and the new owners, and the extended ledger encodes within 1 MiB: the new owners are
  appended active, the other owners are unchanged and the frontier is the last serial. Anything
  else is refused. The result is well formed.
\<close>

theorem ledger_register_refines:
  assumes "json_faithful J" "ledger_ok C l"
  shows "(ledger_register C J l ps = Inr l' \<longleftrightarrow>
      ps \<noteq> [] \<and> length ps \<le> 32 \<and> (\<forall>p \<in> set ps. permit_ok C p \<and> permit_host p = ledger_host l) \<and>
      (\<forall>i < length ps. permit_serial (ps ! i) = permit_serial (hd ps) + i) \<and>
      (permit_serial (hd ps) \<le> ledger_through l \<and> (\<forall>p \<in> set ps. owners l p \<noteq> None) \<and> l' = l \<or>
       permit_serial (hd ps) = ledger_through l + 1 \<and> length (ledger_entries l) + length ps \<le> 1024 \<and>
       owners_distinct (map entry_permit (ledger_entries l) @ ps) \<and>
       l' = l\<lparr>ledger_entries := ledger_entries l @ map (\<lambda>p. \<lparr>entry_permit = p, entry_state = Active\<rparr>) ps,
              ledger_through := ledger_through l + length ps\<rparr> \<and>
       (\<exists>b. to_vec J l' = Some b \<and> length b \<le> 1024 * 1024))) \<and>
    (ledger_register C J l ps = Inr l' \<longrightarrow>
      ledger_ok C l' \<and> ledger_host l' = ledger_host l \<and>
      ((l' = l \<and> (\<forall>p \<in> set ps. owners l p \<noteq> None)) \<or>
       (permit_serial (hd ps) = ledger_through l + 1 \<and>
        ledger_through l' = ledger_through l + length ps \<and>
        owners l' = (\<lambda>p. if p \<in> set ps then Some Active else owners l p) \<and>
        (\<forall>p \<in> set ps. ledger_through l < permit_serial p))))"
proof
  show "ledger_register C J l ps = Inr l' \<longleftrightarrow>
      ps \<noteq> [] \<and> length ps \<le> 32 \<and> (\<forall>p \<in> set ps. permit_ok C p \<and> permit_host p = ledger_host l) \<and>
      (\<forall>i < length ps. permit_serial (ps ! i) = permit_serial (hd ps) + i) \<and>
      (permit_serial (hd ps) \<le> ledger_through l \<and> (\<forall>p \<in> set ps. owners l p \<noteq> None) \<and> l' = l \<or>
       permit_serial (hd ps) = ledger_through l + 1 \<and> length (ledger_entries l) + length ps \<le> 1024 \<and>
       owners_distinct (map entry_permit (ledger_entries l) @ ps) \<and>
       l' = l\<lparr>ledger_entries := ledger_entries l @ map (\<lambda>p. \<lparr>entry_permit = p, entry_state = Active\<rparr>) ps,
              ledger_through := ledger_through l + length ps\<rparr> \<and>
       (\<exists>b. to_vec J l' = Some b \<and> length b \<le> 1024 * 1024))"
    using ledger_register_iff[OF assms] unfolding owner_batch_def extended_def max_entries_def authority_max_bytes_def
    by simp
qed (use ledger_register_spec[OF assms] in blast)

theorem ledger_register_refines_witness:
  "ledger_register ref_crates sample_ledger_json empty_ledger [sample_permit 1, sample_permit 2] = Inr two_active \<and>
   ledger_register ref_crates sample_ledger_json first_fenced [sample_permit 1, sample_permit 2] = Inr first_fenced"
proof
  have ext: "two_active = empty_ledger\<lparr>ledger_entries := ledger_entries empty_ledger @
      map (\<lambda>p. \<lparr>entry_permit = p, entry_state = Active\<rparr>) [sample_permit 1, sample_permit 2],
      ledger_through := ledger_through empty_ledger + length [sample_permit 1, sample_permit 2]\<rparr>"
    by (simp add: empty_ledger_def sample_ledger_def)
  have fields: "ledger_host empty_ledger = sample_host" "ledger_through empty_ledger = 0"
    "ledger_entries empty_ledger = []" by (simp_all add: empty_ledger_def)
  have contiguous: "\<forall>i < length [sample_permit 1, sample_permit 2].
      permit_serial ([sample_permit 1, sample_permit 2] ! i) = permit_serial (hd [sample_permit 1, sample_permit 2]) + i"
    by (auto simp: less_Suc_eq)
  note fresh = ledger_register_refines[OF sample_json_faithful(1) sample_ledger_ok(3),
      of "[sample_permit 1, sample_permit 2]" two_active, THEN conjunct1]
  show "ledger_register ref_crates sample_ledger_json empty_ledger [sample_permit 1, sample_permit 2] = Inr two_active"
    using fresh contiguous sample_encodings(2) unfolding ext by (simp add: fields owners_distinct_def)
  note replay = ledger_register_refines[OF sample_json_faithful(1) sample_ledger_ok(2),
      of "[sample_permit 1, sample_permit 2]" first_fenced, THEN conjunct1]
  show "ledger_register ref_crates sample_ledger_json first_fenced [sample_permit 1, sample_permit 2] = Inr first_fenced"
    using contiguous replay by (simp add: owners_def)
qed

text \<open>
  C37: a fence changes the state of one owner only, from active to fenced by this retirement,
  and succeeds again without effect for the same retirement; a fence by another retirement is
  refused, and so is a launch of the owner from then on.
\<close>

theorem ledger_fence_refines:
  assumes "ledger_ok C l" "ledger_fence C l p r = Inr l'"
  shows "ledger_ok C l' \<and> ledger_through l' = ledger_through l \<and>
    owners l' = (if owners l p = Some Active then (owners l)(p \<mapsto> Fenced r) else owners l) \<and>
    ledger_authorize C l' p \<noteq> Inr () \<and> ledger_fence C l' p r = Inr l' \<and>
    (\<forall>q. q \<noteq> r \<longrightarrow> \<not> is_ok (ledger_fence C l' p q))"
proof -
  note f = ledger_fence_spec[OF assms]
  obtain i where i: "i < length (ledger_entries l')" "entry_permit (ledger_entries l' ! i) = p"
    "entry_state (ledger_entries l' ! i) = Fenced r \<or> (\<exists>d. entry_state (ledger_entries l' ! i) = Complete r d)"
    using f(3) owners_iff[OF f(1)] by blast
  have index: "ledger_index C l' p = Inr i" using ledger_index_iff[OF f(1)] i(1,2) by blast
  have "ledger_authorize C l' p \<noteq> Inr ()" using f(3) ledger_authorize_iff[OF f(1)] by auto
  moreover have "valid_id C r" using assms ledger_fence_Inr by blast
  then have "ledger_fence C l' p r = Inr l'" using index i(3) by (auto simp: ledger_fence_def valid_id_def)
  moreover have "\<not> is_ok (ledger_fence C l' p q)" if "q \<noteq> r" for q
    using index i(3) that by (auto simp: ledger_fence_def)
  ultimately show ?thesis using f by blast
qed

theorem ledger_fence_refines_witness:
  "ledger_authorize ref_crates first_fenced (sample_permit 1) \<noteq> Inr () \<and>
   ledger_fence ref_crates first_fenced (sample_permit 1) sample_retirement = Inr first_fenced"
  using ledger_fence_refines[OF sample_ledger_ok(1) sample_fence] by blast

text \<open>
  an owner is forgotten only after exactly this retirement completed it: the retained
  state is the completion by the intent's operation and digest, and an owner gets that state
  only from a fence by the same operation.
\<close>

theorem forgotten_only_completed:
  assumes "ledger_ok C l"
  shows "(ledger_complete C K l i = Inr l' \<longrightarrow>
      (\<exists>d. intent_digest C K i = Inr d \<and>
        owners l (intent_permit i) \<in> {Some (Fenced (intent_retirement i)), Some (Complete (intent_retirement i) d)} \<and>
        owners l' = (owners l)(intent_permit i \<mapsto> Complete (intent_retirement i) d))) \<and>
    (ledger_forget C K l i = Inr l' \<longrightarrow>
      (\<exists>d. intent_digest C K i = Inr d \<and>
        owners l (intent_permit i) = Some (Complete (intent_retirement i) d) \<and>
        owners l' = (owners l)(intent_permit i := None)) \<and> ledger_through l' = ledger_through l)"
  using ledger_complete_spec(2)[OF assms, of K i l'] ledger_forget_spec(2,3,4)[OF assms, of K i l']
  by (auto simp: completion_state_Inr)

theorem forgotten_only_completed_witness:
  "\<not> is_ok (ledger_forget ref_crates sample_intent_json first_fenced sample_intent)"
proof
  assume "is_ok (ledger_forget ref_crates sample_intent_json first_fenced sample_intent)"
  then obtain l' where "ledger_forget ref_crates sample_intent_json first_fenced sample_intent = Inr l'"
    by (auto simp: is_ok_iff)
  then have "\<exists>d. owners first_fenced (sample_permit 1) = Some (Complete sample_retirement d)"
    using forgotten_only_completed[OF sample_ledger_ok(2), of sample_intent_json sample_intent l']
    by (auto simp: sample_intent_def)
  then show False using sample_owners(2) by simp
qed

text \<open>
  C35: denial is irrevocable. Whatever registrations, fences, completions and forgets follow,
  an owner at or below the frontier that may not launch never may again, and the ledger stays
  well formed and its frontier never falls.
\<close>

theorem ledger_denial_irrevocable:
  assumes "json_faithful J" "ledger_ok C l" "permit_serial p \<le> ledger_through l"
    and "ledger_authorize C l p \<noteq> Inr ()"
  shows "ledger_authorize C (foldl (ledger_apply C J K) l xs) p \<noteq> Inr () \<and>
    ledger_ok C (foldl (ledger_apply C J K) l xs) \<and>
    permit_serial p \<le> ledger_through (foldl (ledger_apply C J K) l xs)"
  using ledger.denied_run[of J C l p K xs] ledger.good_run[of J C l K xs] ledger.covered_run[of J C l p K xs]
    assms by blast

theorem ledger_denial_irrevocable_witness:
  "ledger_authorize ref_crates (foldl (ledger_apply ref_crates sample_ledger_json sample_intent_json) first_fenced
     [OpRegister [sample_permit 1], OpComplete sample_intent, OpForget sample_intent, OpRegister [sample_permit 1]])
     (sample_permit 1) \<noteq> Inr ()"
  by (rule ledger_denial_irrevocable[OF sample_json_faithful(1) sample_ledger_ok(2), THEN conjunct1])
    (use ledger_authorize_iff[OF sample_ledger_ok(2), of "sample_permit 1"] sample_owners(2) in simp_all)

section \<open>The guardian's deadline\<close>

text \<open>
  the deadline cell, under any interleaving of extensions, stops and expiries of any
  number of threads: once fenced it stays fenced, and a running cell only moves forward.
\<close>

theorem deadline_runs:
  "foldl deadline_step cell xs = 0 \<or> (cell \<noteq> 0 \<and> cell \<le> foldl deadline_step cell xs)"
proof (cases "cell = 0")
  case True
  then show ?thesis using lease.denied_run by simp
next
  case False
  then show ?thesis
  proof (induction xs rule: rev_induct)
    case (snoc x xs)
    then show ?case using deadline_step_cases[of "foldl deadline_step cell xs" x] by auto
  qed simp
qed

text \<open>
  an extension succeeds only for an unexpired, unfenced deadline the caller has seen, to a
  later deadline within 300 seconds of now, whatever the clocks read; and the arithmetic does
  not wrap.
\<close>

theorem deadline_extension_bounds:
  assumes "deadline_extend prior expires wall boot cell = (Inr (), cell')"
  shows "cell = prior \<and> boot < cell \<and> cell \<le> cell' \<and> cell' \<le> boot + 300000 \<and> boot < cell' \<and>
    cell' < u64_limit"
  using assms deadline_extend_cases[OF assms]
  by (auto simp: deadline_extend_def deadline_convert_Inr swap_def split: if_splits)

theorem deadline_extension_bounds_witness:
  "deadline_extend 5000 21000 20000 4500 5000 = (Inr (), 5500) \<and> (5500::nat) \<le> 4500 + 300000"
proof -
  have "deadline_convert 21000 20000 4500 = Inr 5500" by (simp add: deadline_convert_Inr)
  then have "deadline_extend 5000 21000 20000 4500 5000 = (Inr (), 5500)"
    by (simp add: deadline_extend_def swap_def)
  then show ?thesis using deadline_extension_bounds by blast
qed

end
