(* ===== verification/Launch_Properties.thy ===== *)
theory Launch_Properties
  imports Samples
begin

text \<open>
  The properties of the launch authority of a host: its state file is replaced atomically, its
  mutations are transitions of the ledger, and an acknowledged fence is final.
\<close>

section \<open>Facts\<close>

lemma owner_covered:
  assumes "ledger_ok C l" "owners l p = Some s"
  shows "permit_host p = ledger_host l" "permit_serial p \<le> ledger_through l"
proof -
  obtain i where i: "i < length (ledger_entries l)" "entry_permit (ledger_entries l ! i) = p"
    using assms(2) owners_iff[OF assms(1)] by blast
  then have e: "ledger_entries l ! i \<in> set (ledger_entries l)" by simp
  have "\<forall>e \<in> set (ledger_entries l). entry_ok C (ledger_host l) e"
    using assms(1) by (simp add: ledger_ok_def entries_ok_def)
  then have "entry_ok C (ledger_host l) (ledger_entries l ! i)" using e by blast
  moreover have "permit_serial p \<in> set (serials (ledger_entries l))"
    using e i(2) by (auto simp: serials_def)
  ultimately show "permit_host p = ledger_host l" "permit_serial p \<le> ledger_through l"
    using assms(1) i(2) by (auto simp: entry_ok_def ledger_ok_def entries_ok_def)
qed

lemma active_allocation_owner:
  assumes "ledger_ok C l" "ledger_active_allocation C l a = Inr p"
  shows "owners l p = Some Active"
proof -
  from assms(2) obtain i where "i < length (ledger_entries l)" "entry_state (ledger_entries l ! i) = Active"
    "entry_permit (ledger_entries l ! i) = p"
    by (auto simp: ledger_active_allocation_def find_Some_iff split: if_splits)
  then show ?thesis using owners_iff[OF assms(1)] by blast
qed

lemma registered_allocation_view:
  assumes "authorize_registered_allocation C L env h epoch m a d = (Inr (p, g), d')"
  shows "disk_admits C L h d p"
proof -
  from assms obtain g' d1 l where g': "launch_gate L env False d = (Inr g', d1)"
    and l: "disk_view C L h d1 = Some (epoch, l)" "ledger_active_allocation C l a = Inr p"
    unfolding authorize_registered_allocation_def by (auto simp: Let_def dest!: load_proc_cases)
  have ok: "ledger_ok C l" using disk_view_Some[OF l(1)] by simp
  then show ?thesis
    using l launch_gate_view[OF g', of C h] ledger_authorize_iff[OF ok] active_allocation_owner[OF ok l(2)]
    by (auto simp: disk_admits_def)
qed

section \<open>Properties\<close>

text \<open>
  C30: whatever step of a write fails, the authority then reads as it did before or as the new
  epoch and ledger, never anything else; and an acknowledged write is what is read next.
\<close>

theorem launch_save_atomic:
  assumes "launch_codecs L" "ledger_ok C l" "ledger_host l = af_host a" "activated L (af_host a) d"
    and "launch_save C L a env e l d = (r, d')"
  shows "disk_view C L (af_host a) d' \<in> {disk_view C L (af_host a) d, Some (e, l)} \<and>
    (r = Inr () \<longrightarrow> disk_view C L (af_host a) d' = Some (e, l)) \<and>
    (\<forall>v. launch_load C L a d' = Inr v \<longrightarrow> v = (e, l) \<or> launch_load C L a d = Inr v)"
  using launch_save_cases[OF assms] by (auto simp: launch_load_iff)

definition sample_saved :: "ledger \<Rightarrow> string \<Rightarrow> saved" where
  "sample_saved l s = \<lparr>sv_version = 1, sv_host = sample_host, sv_epoch = 1, sv_ledger_json = s\<rparr>"

definition sample_launch_json :: launch_json where
  "sample_launch_json =
     \<lparr>lj_required = table_json [\<lparr>rq_version = 1, rq_host = sample_host, rq_lock_device = 8, rq_lock_inode = 9\<rparr>],
      lj_saved = table_json [sample_saved two_active [CHR 0x01], sample_saved first_fenced [CHR 0x01, CHR 0x01]],
      lj_ledger = sample_ledger_json, lj_intent = sample_intent_json\<rparr>"

definition sample_authority :: authority_file where
  "sample_authority = \<lparr>af_host = sample_host, af_minimum_epoch = 1, af_minimum_through = 0\<rparr>"

definition sample_dir :: "bytes \<Rightarrow> launch_dir" where
  "sample_dir b =
     \<lparr>ld_lock = Some \<lparr>mf_bytes = [], mf_private = True, mf_links = 1, mf_id = (8, 9)\<rparr>,
      ld_required = Some (new_file [] (8, 10)),
      ld_files = \<lparr>st_main = Some (new_file b (8, 11)), st_next = None\<rparr>, ld_others = 0\<rparr>"

definition sample_gate :: gate_env where
  "sample_gate =
     \<lparr>ge_root = True, ge_flock = (\<lambda>_. Locked), ge_new_lock = new_file [] (8, 9), ge_path_id = Some (8, 9)\<rparr>"

definition sample_save :: "fault \<Rightarrow> save_env" where
  "sample_save f = \<lparr>se_fault = f, se_id = (8, 11)\<rparr>"

lemma sample_codecs: "launch_codecs sample_launch_json"
  by (simp add: launch_codecs_def sample_launch_json_def table_json_faithful sample_json_faithful)

lemma sample_launch_fields [simp]:
  "lj_ledger sample_launch_json = sample_ledger_json" "lj_intent sample_launch_json = sample_intent_json"
  "af_host sample_authority = sample_host" "af_minimum_epoch sample_authority = 1"
  "af_minimum_through sample_authority = 0"
  by (simp_all add: sample_launch_json_def sample_authority_def)

lemma sample_required [simp]:
  "launch_read (lj_required sample_launch_json) 4096 (ld_required (sample_dir b)) =
     Inr \<lparr>rq_version = 1, rq_host = sample_host, rq_lock_device = 8, rq_lock_inode = 9\<rparr>"
  by (simp add: launch_read_def sample_launch_json_def table_json_def sample_dir_def)

lemma sample_activated: "activated sample_launch_json sample_host (sample_dir b)"
  by (simp add: activated_def)

lemma as_bytes_ones: "as_bytes [CHR 0x01] = [1]" "as_bytes [CHR 0x01, CHR 0x01] = [1, 1]"
  by (simp_all add: as_bytes_def)

lemma sample_view: "disk_view ref_crates sample_launch_json sample_host (sample_dir []) = Some (1, two_active)"
proof -
  have "launch_read (lj_saved sample_launch_json) launch_max_bytes (st_main (ld_files (sample_dir []))) =
      Inr (sample_saved two_active [CHR 0x01])"
    by (simp add: launch_read_def sample_launch_json_def table_json_def sample_dir_def)
  moreover have "ledger_decode ref_crates sample_ledger_json [1] sample_host 0 = Inr two_active"
    using json_faithfulD[OF sample_json_faithful(1) sample_encodings(2)] sample_ledger_ok(1)
    by (simp add: ledger_decode_iff authority_max_bytes_def)
  ultimately show ?thesis
    using sample_activated by (simp add: disk_view_def sample_saved_def as_bytes_ones)
qed

lemma sample_saved_bytes:
  "saved_bytes sample_launch_json sample_authority 1 first_fenced = Inr [1]"
proof -
  have "ledger_encode sample_ledger_json first_fenced = Inr [1, 1]"
    by (simp add: ledger_encode_def authority_max_bytes_def)
  moreover have "from_utf8 [1, 1] = Some [CHR 0x01, CHR 0x01]" by code_simp
  moreover have "to_vec (lj_saved sample_launch_json) (sample_saved first_fenced [CHR 0x01, CHR 0x01]) = Some [1]"
    by (simp add: sample_launch_json_def table_json_def sample_saved_def)
  ultimately show ?thesis
    by (simp add: saved_bytes_def sample_saved_def launch_max_bytes_def)
qed

theorem launch_save_atomic_witness:
  "disk_view ref_crates sample_launch_json sample_host
     (snd (launch_save ref_crates sample_launch_json sample_authority (sample_save FaultDirSync) 1 first_fenced
       (sample_dir []))) \<in> {Some (1, two_active), Some (1, first_fenced)}"
proof -
  obtain r d where "launch_save ref_crates sample_launch_json sample_authority (sample_save FaultDirSync) 1
      first_fenced (sample_dir []) = (r, d)" by (metis surj_pair)
  from launch_save_atomic[OF sample_codecs sample_ledger_ok(2) _ _ this] this sample_view sample_activated
  show ?thesis by simp
qed

text \<open>
  C31: every mutation of the directory, a retirement guard with any number of steps included, under
  every outcome of its lock and its writes, leaves the epoch and the ledger as they were or as one
  of the transitions of that very call makes them: its registration, fence, completion or forget of
  the ledger under the same epoch, or its advance of the epoch with the same ledger, each only for
  the epoch the call names. An acknowledged call has made all its transitions, and the directory
  holds the last one's result. The epoch never falls, and the frontier neither.
\<close>

theorem launch_mutations_refine:
  assumes "launch_codecs L" "disk_view C L h d = Some (e, l)" "launch_do C L x d = (ok, d')"
  shows "\<exists>e' l'. disk_view C L h d' = Some (e', l') \<and>
    ((e', l') = (e, l) \<or> Some (e', l') \<in> set (launch_moves C L x (e, l))) \<and>
    (ok \<longrightarrow> None \<notin> set (launch_moves C L x (e, l)) \<and>
      Some (e', l') = last (Some (e, l) # launch_moves C L x (e, l))) \<and>
    e \<le> e' \<and> ledger_through l \<le> ledger_through l'"
proof -
  obtain v' where v': "disk_view C L h d' = Some v'" "v' = (e, l) \<or> Some v' \<in> set (launch_moves C L x (e, l))"
    "ok \<longrightarrow> None \<notin> set (launch_moves C L x (e, l)) \<and> Some v' = last (Some (e, l) # launch_moves C L x (e, l))"
    using launch_do_moves[OF assms] unfolding makes_moves_def by blast
  obtain e' l' where p: "v' = (e', l')" by (cases v')
  have "ledger_ok C l" using disk_view_Some[OF assms(2)] by simp
  then have "e \<le> e' \<and> ledger_through l \<le> ledger_through l'"
    using v'(2) launch_moves_keep[of "\<lambda>_. True" C L l e' l' x e] moves_ok[OF assms(1), of C l e' l' x e]
    by (auto simp: p)
  then show ?thesis using v' by (auto simp: p)
qed

text \<open>
  C29: an acknowledged fence is final. After it, whatever registrations, fences, completions,
  forgets, epoch advances, initializations and retirement guards follow and whatever writes fail,
  no request to launch under the permit is authorised, and a lookup by allocation
  never returns the permit.
\<close>

theorem launch_fence_final:
  assumes "launch_codecs L" "disk_view C L (af_host a) d = Some (e, l)"
    and "launch_fence C L a g s epoch p r d = (Inr (), d1)"
  shows "\<not> is_ok (fst (launch_authorize C L env (Some p) (foldl (launch_step C L) d1 xs))) \<and>
    fst (authorize_registered_allocation C L env (af_host a) ep m alloc (foldl (launch_step C L) d1 xs)) \<noteq> Inr (p, f)"
proof -
  let ?h = "af_host a" and ?d = "foldl (launch_step C L) d1 xs"
  have ok: "ledger_ok C l" "ledger_host l = ?h" using disk_view_Some[OF assms(2)] by auto
  have change: "ledger_ok C l' \<and> ledger_host l' = ?h" if "ledger_fence C l p r = Inr l'" for l'
    using ledger_fence_spec(1,5)[OF ok(1) that] ok(2) by simp
  obtain l1 where l1: "ledger_fence C l p r = Inr l1" "disk_view C L ?h d1 = Some (e, l1)"
    using launch_update_view(2)[OF assms(1,2) change assms(3)[unfolded launch_fence_def]] by blast
  have ok1: "ledger_ok C l1" "ledger_host l1 = ?h" using change[OF l1(1)] by auto
  have denied: "owners l1 p \<noteq> None" "owners l1 p \<noteq> Some Active"
    using ledger_fence_spec(3)[OF ok(1) l1(1)] by auto
  then have own: "permit_host p = ?h" "permit_serial p \<le> ledger_through l1"
    using owner_covered[OF ok1(1), of p] ok1(2) by auto
  have "\<not> disk_admits C L ?h d1 p"
    using l1(2) denied(2) ledger_authorize_iff[OF ok1(1)] by (auto simp: disk_admits_def)
  moreover have "disk_covers C L ?h d1 p" using l1(2) own(2) by (auto simp: disk_covers_def)
  ultimately have no: "\<not> disk_admits C L ?h ?d p"
    using launch.denied_run[of L C ?h d1 p xs] assms(1) l1(2) by simp
  have "\<not> is_ok (fst (launch_authorize C L env (Some p) ?d))"
  proof
    assume "is_ok (fst (launch_authorize C L env (Some p) ?d))"
    then obtain f d2 where "launch_authorize C L env (Some p) ?d = (Inr f, d2)"
      by (metis is_ok_iff prod.collapse)
    from launch_authorize_view[OF this] no own(1) show False by (auto simp: disk_admits_def)
  qed
  moreover have "fst (authorize_registered_allocation C L env ?h ep m alloc ?d) \<noteq> Inr (p, f)"
  proof
    assume "fst (authorize_registered_allocation C L env ?h ep m alloc ?d) = Inr (p, f)"
    then have "authorize_registered_allocation C L env ?h ep m alloc ?d =
        (Inr (p, f), snd (authorize_registered_allocation C L env ?h ep m alloc ?d))"
      by (metis prod.collapse)
    from registered_allocation_view[OF this] no show False by blast
  qed
  ultimately show ?thesis by blast
qed

lemma sample_gate_passes:
  "launch_gate sample_launch_json sample_gate x (sample_dir b) =
     (Inr (the (ld_lock (sample_dir b))), sample_dir b)"
proof -
  have "open_lock sample_gate (sample_dir b) = (Inr (the (ld_lock (sample_dir b))), sample_dir b)"
    by (simp add: open_lock_def sbind_def sample_dir_def)
  moreover have "ld_required (sample_dir b) = Some (new_file [] (8, 10))" by (simp add: sample_dir_def)
  ultimately show ?thesis
    using sample_required[of b]
    by (simp add: launch_gate_def sbind_def sample_gate_def private_file_def)
      (simp add: sample_dir_def)
qed

lemma sample_fence_saved:
  "launch_fence ref_crates sample_launch_json sample_authority sample_gate (sample_save NoFault) 1
     (sample_permit 1) sample_retirement (sample_dir []) = (Inr (), sample_dir [1])"
proof -
  have "launch_load ref_crates sample_launch_json sample_authority (sample_dir []) = Inr (1, two_active)"
    using sample_view by (simp add: launch_load_iff)
  moreover have "clear_next ref_crates sample_launch_json sample_authority (sample_save NoFault) (sample_dir []) =
      (Inr (), sample_dir [])"
    by (simp add: clear_next_def sbind_def sample_dir_def)
  ultimately show ?thesis
    using sample_gate_passes sample_fence sample_saved_bytes
    by (simp add: launch_fence_def launch_update_def launch_load_proc_def sbind_def launch_save_def
        publish_state_def publish_def sample_save_def set_files_def)
      (simp add: sample_dir_def)
qed

theorem launch_mutations_refine_witness:
  "disk_view ref_crates sample_launch_json sample_host (snd (launch_do ref_crates sample_launch_json
     (CallFence sample_authority sample_gate (sample_save NoFault) 1 (sample_permit 1) sample_retirement)
     (sample_dir []))) = Some (1, first_fenced)"
proof -
  have run: "launch_do ref_crates sample_launch_json
     (CallFence sample_authority sample_gate (sample_save NoFault) 1 (sample_permit 1) sample_retirement)
     (sample_dir []) = (True, sample_dir [1])"
    using sample_fence_saved by (simp add: launch_do_def acknowledged_def is_ok_def)
  have "launch_moves ref_crates sample_launch_json
     (CallFence sample_authority sample_gate (sample_save NoFault) 1 (sample_permit 1) sample_retirement) (1, two_active) =
     [Some (1, first_fenced)]"
    using sample_fence by (simp add: launch_moves_def ledger_move_def)
  with launch_mutations_refine[OF sample_codecs sample_view run] run show ?thesis by auto
qed

theorem launch_fence_final_witness:
  "\<not> is_ok (fst (launch_authorize ref_crates sample_launch_json sample_gate (Some (sample_permit 1))
     (foldl (launch_step ref_crates sample_launch_json) (sample_dir [1])
       [CallRegister sample_authority sample_gate (sample_save FaultSync) 1 [sample_permit 1],
        CallGuard sample_authority sample_gate (sample_save NoFault) 1 sample_intent
          [GuardComplete (sample_save FaultRename), GuardForget (sample_save NoFault)]])))"
proof -
  have view: "disk_view ref_crates sample_launch_json (af_host sample_authority) (sample_dir []) = Some (1, two_active)"
    using sample_view by simp
  show ?thesis by (rule launch_fence_final[OF sample_codecs view sample_fence_saved, THEN conjunct1])
qed

end
