(* ===== verification/Archive.thy ===== *)
theory Archive
  imports Output
begin

text \<open>
  Publishing the final output of a command (\<open>archive.rs\<close>) and reading it live
  (\<open>live_output.rs\<close>, both in \<open>crates/sandbox-supervisor/src\<close>). A guest is asked for one range
  after the other; \<open>out_source\<close> is its answer to the \<open>k\<close>-th question, so a source may change its
  mind between two of them. The artifact store is a pair of functions.
\<close>

section \<open>Requests\<close>

definition max_metadata :: nat where "max_metadata = 8192"
definition max_output_chunk :: nat where "max_output_chunk = 32 * 1024"

record output_request =
  oq_ticket :: bytes
  oq_revision :: int
  oq_expires :: int
  oq_plans :: bytes

definition archive_decode ::
    "output_ticket json \<Rightarrow> output_plans json \<Rightarrow> output_request \<Rightarrow> int \<Rightarrow>
     host_status + output_ticket \<times> output_plans option" where
  "archive_decode T P q now =
     (let left = saturating_sub_i64 (oq_expires q) now in
      rbind (ensure (\<not> (oq_revision q \<le> 0 \<or> \<not> (1 \<le> left \<and> left \<le> 300000) \<or>
         max_metadata < length (oq_ticket q) \<or> max_metadata < length (oq_plans q))) InvalidArgument) (\<lambda>_.
      rbind (ok_or InvalidArgument (from_slice T (oq_ticket q))) (\<lambda>k.
      rbind (map_err (\<lambda>_. InvalidArgument) (ticket_validate k)) (\<lambda>_.
      rbind (ensure (\<not> (now < tk_created k \<or> tk_expires k \<le> now)) FailedPrecondition) (\<lambda>_.
      rbind (if oq_plans q = [] then Inr None
             else rbind (ok_or InvalidArgument (from_slice P (oq_plans q))) (\<lambda>ps.
                  rbind (map_err (\<lambda>_. InvalidArgument) (ticket_validate_plans k ps)) (\<lambda>_. Inr (Some ps)))) (\<lambda>ps.
      Inr (k, ps)))))))"

definition archive_validate_receipt :: "output_ticket \<Rightarrow> receipt \<Rightarrow> host_status + unit" where
  "archive_validate_receipt k t =
     rbind (map_err (\<lambda>_. FailedPrecondition) (receipt_validate t)) (\<lambda>_.
     let w = tk_owner k in
     if rcpt_operation t \<noteq> oo_operation w \<or> ctx_allocation (rcpt_context t) \<noteq> oo_allocation w \<or>
        ctx_generation (rcpt_context t) \<noteq> oo_generation w \<or> ctx_boot (rcpt_context t) \<noteq> oo_boot w \<or>
        rcpt_output_limit t \<noteq> tk_output_limit k \<or> \<not> rcpt_cleanup_confirmed t \<or>
        rcpt_state t \<notin> {Exited, TimedOut, Cancelled}
     then Inl FailedPrecondition else Inr ())"

definition plan_stats_changed :: "output_plan \<Rightarrow> output_stats \<Rightarrow> bool" where
  "plan_stats_changed p s =
     (pl_size p \<noteq> out_stored s \<or> pl_seen p \<noteq> out_seen s \<or> pl_truncated p \<noteq> out_truncated s)"

definition archive_validate_plans :: "output_ticket \<Rightarrow> output_plans \<Rightarrow> receipt \<Rightarrow> host_status + unit" where
  "archive_validate_plans k ps t =
     rbind (archive_validate_receipt k t) (\<lambda>_.
     rbind (map_err (\<lambda>_. FailedPrecondition) (ticket_validate_plans k ps)) (\<lambda>_.
     try_all (\<lambda>(p, s). if plan_stats_changed p s then Inl FailedPrecondition else Inr ())
       [(plans_stdout ps, rcpt_stdout t), (plans_stderr ps, rcpt_stderr t)]))"

definition archive_validate_owner :: "crates \<Rightarrow> ownership \<Rightarrow> output_ticket \<Rightarrow> host_status + unit" where
  "archive_validate_owner C w k =
     (let o' = tk_owner k in
      if own_host w \<noteq> show_host C (oo_host o') \<or> own_project w \<noteq> show_project C (oo_project o') \<or>
         own_sandbox w \<noteq> show_sandbox C (oo_sandbox o') \<or>
         own_allocation w \<noteq> show_allocation C (oo_allocation o') \<or>
         own_generation w \<noteq> oo_generation o' \<or> own_epoch w \<noteq> oo_epoch o'
      then Inl FailedPrecondition else Inr ())"

definition archive_encode :: "'a json \<Rightarrow> 'a \<Rightarrow> host_status + bytes" where
  "archive_encode J x =
     rbind (ok_or InternalError (to_vec J x)) (\<lambda>b.
     rbind (ensure (length b \<le> max_metadata) ResourceExhausted) (\<lambda>_. Inr b))"

record output_observation =
  oob_request :: "output_request option"
  oob_host :: string
  oob_epoch :: int
  oob_simulated :: bool
  oob_observed :: int
  oob_plans :: bytes
  oob_references :: bytes

definition archive_observation ::
    "output_plans json \<Rightarrow> output_refs json \<Rightarrow> output_request \<Rightarrow> string \<Rightarrow> int \<Rightarrow> bool \<Rightarrow> int \<Rightarrow> output_plans \<Rightarrow>
     output_refs option \<Rightarrow> host_status + output_observation" where
  "archive_observation P R q host epoch simulated now ps refs =
     rbind (archive_encode P ps) (\<lambda>pb.
     rbind (case refs of None \<Rightarrow> Inr [] | Some x \<Rightarrow> archive_encode R x) (\<lambda>rb.
     Inr \<lparr>oob_request = Some q, oob_host = host, oob_epoch = epoch, oob_simulated = simulated,
          oob_observed = now, oob_plans = pb, oob_references = rb\<rparr>))"

section \<open>Collecting a stream\<close>

record output_chunk =
  oc_operation :: string
  oc_stream :: int
  oc_offset :: nat
  oc_data :: bytes
  oc_next :: nat
  oc_at_end :: bool
  oc_complete :: bool

type_synonym out_source = "nat \<Rightarrow> output_name \<Rightarrow> nat \<Rightarrow> nat \<Rightarrow> host_status + output_chunk"

definition stream_code :: "output_name \<Rightarrow> int" where
  "stream_code n = (case n of Stdout \<Rightarrow> 1 | Stderr \<Rightarrow> 2)"

definition chunk_rejected :: "string \<Rightarrow> output_name \<Rightarrow> nat \<Rightarrow> nat \<Rightarrow> output_chunk \<Rightarrow> bool" where
  "chunk_rejected op n stored offset c =
     (oc_operation c \<noteq> op \<or> oc_stream c \<noteq> stream_code n \<or> oc_offset c \<noteq> offset \<or>
      max_output_chunk < length (oc_data c) \<or>
      checked_add_u64 offset (length (oc_data c)) \<noteq> Some (oc_next c) \<or>
      stored < oc_next c \<or> \<not> oc_complete c \<or> oc_at_end c \<noteq> (oc_next c = stored) \<or>
      (\<not> oc_at_end c \<and> oc_data c = []))"

lemma chunk_progress:
  assumes "\<not> chunk_rejected op n stored offset c" "\<not> oc_at_end c"
  shows "offset + length (oc_data c) < stored" "0 < length (oc_data c)"
    "stored - (offset + length (oc_data c)) < stored - offset"
proof -
  show "offset + length (oc_data c) < stored" "0 < length (oc_data c)"
    using assms by (auto simp: chunk_rejected_def)
  then show "stored - (offset + length (oc_data c)) < stored - offset" by linarith
qed

text \<open>The loop of \<open>stream\<close>; \<open>k\<close> counts the reads.\<close>

function stream_from ::
    "out_source \<Rightarrow> string \<Rightarrow> output_name \<Rightarrow> nat \<Rightarrow> nat \<Rightarrow> bytes \<Rightarrow> host_status + bytes \<times> nat" where
  "stream_from src op n stored k acc =
     (case src k n (length acc) max_output_chunk of
        Inl e \<Rightarrow> Inl e
      | Inr c \<Rightarrow>
          if chunk_rejected op n stored (length acc) c then Inl FailedPrecondition
          else if oc_at_end c then Inr (acc @ oc_data c, Suc k)
          else stream_from src op n stored (Suc k) (acc @ oc_data c))"
  by pat_completeness auto
termination
  by (relation "measure (\<lambda>(src, op, n, stored, k, acc). stored - length acc)")
    (auto intro: chunk_progress(3))

declare stream_from.simps [simp del]

definition stream_plan ::
    "crates \<Rightarrow> output_ticket \<Rightarrow> output_name \<Rightarrow> output_stats \<Rightarrow> bytes \<Rightarrow> output_plan" where
  "stream_plan C k n s b =
     \<lparr>pl_version = 1, pl_owner = tk_owner k, pl_attempt = tk_attempt k, pl_name = n, pl_size = out_stored s,
      pl_sha256 = hex_encode C (sha256 C b), pl_seen = out_seen s, pl_truncated = out_truncated s,
      pl_created = tk_created k, pl_expires = tk_expires k, pl_delete_after = tk_delete_after k\<rparr>"

definition archive_stream ::
    "crates \<Rightarrow> output_ticket \<Rightarrow> output_name \<Rightarrow> output_stats \<Rightarrow> out_source \<Rightarrow> nat \<Rightarrow>
     host_status + (bytes \<times> output_plan) \<times> nat" where
  "archive_stream C k n s src reads =
     rbind (stream_from src (show_operation C (oo_operation (tk_owner k))) n (out_stored s) reads []) (\<lambda>(b, reads').
     Inr ((b, stream_plan C k n s b), reads'))"

record captured =
  cap_plans :: output_plans
  cap_stdout :: bytes
  cap_stderr :: bytes

text \<open>\<open>timely\<close>: the reads end before the capture timeout.\<close>

definition archive_collect ::
    "crates \<Rightarrow> output_ticket \<Rightarrow> receipt \<Rightarrow> out_source \<Rightarrow> bool \<Rightarrow> host_status + captured" where
  "archive_collect C k t src timely =
     rbind (map_err (\<lambda>_. InvalidArgument) (ticket_validate k)) (\<lambda>_.
     rbind (archive_validate_receipt k t) (\<lambda>_.
     if \<not> timely then Inl Unavailable
     else
       rbind (archive_stream C k Stdout (rcpt_stdout t) src 0) (\<lambda>((out, a), n).
       rbind (archive_stream C k Stderr (rcpt_stderr t) src n) (\<lambda>((err, b), _).
       let ps = \<lparr>plans_stdout = a, plans_stderr = b\<rparr> in
       rbind (archive_validate_plans k ps t) (\<lambda>_.
       Inr \<lparr>cap_plans = ps, cap_stdout = out, cap_stderr = err\<rparr>)))))"

section \<open>Uploading\<close>

datatype store_error = StoreMissing | StoreFailed

record artifact_store =
  as_reconcile :: "output_plan \<Rightarrow> output_owner \<Rightarrow> int \<Rightarrow> store_error + output_ref"
  as_upload :: "output_plan \<Rightarrow> output_owner \<Rightarrow> int \<Rightarrow> bytes \<Rightarrow> unit + output_ref"

definition reconcile_object ::
    "artifact_store \<Rightarrow> output_plan \<Rightarrow> output_owner \<Rightarrow> int \<Rightarrow> host_status + output_ref option" where
  "reconcile_object S p w now =
     (case as_reconcile S p w now of
        Inr r \<Rightarrow> Inr (Some r)
      | Inl StoreMissing \<Rightarrow> Inr None
      | Inl StoreFailed \<Rightarrow> Inl Unavailable)"

definition place_object ::
    "artifact_store \<Rightarrow> output_plan \<Rightarrow> output_owner \<Rightarrow> int \<Rightarrow> bytes \<Rightarrow> output_ref option \<Rightarrow> host_status + output_ref" where
  "place_object S p w now b found =
     (case found of
        Some r \<Rightarrow> Inr r
      | None \<Rightarrow> map_err (\<lambda>_. Unavailable) (as_upload S p w now b))"

text \<open>\<open>clock\<close> gives the readings of \<open>now()\<close> in the order they are taken.\<close>

definition archive_upload ::
    "crates \<Rightarrow> artifact_store \<Rightarrow> output_ticket \<Rightarrow> output_plans \<Rightarrow> receipt \<Rightarrow> out_source option \<Rightarrow> bool \<Rightarrow>
     (nat \<Rightarrow> int) \<Rightarrow> host_status + output_refs" where
  "archive_upload C S k ps t src timely clock =
     rbind (archive_validate_plans k ps t) (\<lambda>_.
     rbind (reconcile_object S (plans_stdout ps) (tk_owner k) (clock 0)) (\<lambda>out.
     rbind (reconcile_object S (plans_stderr ps) (tk_owner k) (clock 1)) (\<lambda>err.
     case (out, err) of
       (Some a, Some b) \<Rightarrow> Inr \<lparr>refs_stdout = a, refs_stderr = b\<rparr>
     | _ \<Rightarrow>
         rbind (ok_or Unavailable src) (\<lambda>s.
         rbind (archive_collect C k t s timely) (\<lambda>got.
         rbind (ensure (cap_plans got = ps) FailedPrecondition) (\<lambda>_.
         rbind (place_object S (plans_stdout ps) (tk_owner k) (clock 2) (cap_stdout got) out) (\<lambda>a.
         rbind (place_object S (plans_stderr ps) (tk_owner k) (clock 3) (cap_stderr got) err) (\<lambda>b.
         Inr \<lparr>refs_stdout = a, refs_stderr = b\<rparr>))))))))"

section \<open>Live output\<close>

record read_output =
  ro_operation :: string
  ro_stream :: int
  ro_offset :: nat
  ro_limit :: nat

record live_request =
  lq_scope :: bytes
  lq_output :: "read_output option"
  lq_expires :: int

definition live_decode ::
    "crates \<Rightarrow> live_output_scope json \<Rightarrow> live_request \<Rightarrow> int \<Rightarrow> host_status + live_output_scope \<times> read_output" where
  "live_decode C J q now =
     (let left = saturating_sub_i64 (lq_expires q) now in
      rbind (ensure (\<not> (8192 < length (lq_scope q) \<or> \<not> (1 \<le> left \<and> left \<le> 30000))) InvalidArgument) (\<lambda>_.
      rbind (ok_or InvalidArgument (from_slice J (lq_scope q))) (\<lambda>s.
      rbind (map_err (\<lambda>_. InvalidArgument) (live_scope_validate s)) (\<lambda>_.
      rbind (ok_or InvalidArgument (lq_output q)) (\<lambda>r.
      rbind (ensure (\<not> (ro_operation r \<noteq> show_operation C (oo_operation (los_owner s)) \<or>
         \<not> (1 \<le> ro_limit r \<and> ro_limit r \<le> max_output_chunk) \<or> los_output_limit s < ro_offset r \<or>
         ro_stream r \<notin> {1, 2})) InvalidArgument) (\<lambda>_.
      Inr (s, r)))))))"

definition live_validate_owner ::
    "crates \<Rightarrow> live_output_scope \<Rightarrow> ownership \<Rightarrow> command_record \<Rightarrow> host_status + unit" where
  "live_validate_owner C s w c =
     (let o' = los_owner s in
      ensure (\<not> (show_project C (oo_project o') \<noteq> own_project w \<or> show_sandbox C (oo_sandbox o') \<noteq> own_sandbox w \<or>
         show_allocation C (oo_allocation o') \<noteq> own_allocation w \<or> show_host C (oo_host o') \<noteq> own_host w \<or>
         oo_epoch o' \<noteq> own_epoch w \<or> oo_generation o' \<noteq> own_generation w \<or> cmd_not_started c \<or>
         cmd_digest c \<noteq> los_command_digest s \<or> cmd_output_limit c \<noteq> los_output_limit s \<or>
         cmd_deadline c \<noteq> los_deadline s \<or>
         (case cmd_context c of
            None \<Rightarrow> True
          | Some x \<Rightarrow> ctx_allocation x \<noteq> oo_allocation o' \<or> ctx_generation x \<noteq> oo_generation o' \<or>
                      ctx_boot x \<noteq> oo_boot o'))) FailedPrecondition)"

definition live_validate_chunk ::
    "live_output_scope \<Rightarrow> read_output \<Rightarrow> command_record \<Rightarrow> output_chunk \<Rightarrow> receipt \<Rightarrow> host_status + unit" where
  "live_validate_chunk s r c ch t =
     rbind (map_err (\<lambda>_. Unavailable) (command_validate_receipt c (oo_operation (los_owner s)) t)) (\<lambda>_.
     rbind (ensure (rcpt_state t \<noteq> Unknown) Unavailable) (\<lambda>_.
     rbind (if ro_stream r = 1 then Inr (rcpt_stdout t)
            else if ro_stream r = 2 then Inr (rcpt_stderr t) else Inl InvalidArgument) (\<lambda>stats.
     let final = (rcpt_cleanup_confirmed t \<and> rcpt_state t \<in> {Exited, TimedOut, Cancelled}) in
     ensure (\<not> (oc_operation ch \<noteq> ro_operation r \<or> oc_stream ch \<noteq> ro_stream r \<or>
        oc_offset ch \<noteq> ro_offset r \<or> ro_limit r < length (oc_data ch) \<or>
        max_output_chunk < length (oc_data ch) \<or>
        checked_add_u64 (oc_offset ch) (length (oc_data ch)) \<noteq> Some (oc_next ch) \<or>
        out_stored stats < oc_next ch \<or>
        (\<not> oc_at_end ch \<and> (oc_data ch = [] \<or> out_stored stats \<le> oc_next ch)) \<or>
        (oc_complete ch \<and> (\<not> final \<or> oc_at_end ch \<noteq> (oc_next ch = out_stored stats))))) Unavailable)))"

end
