(* ===== verification/Archive_Properties.thy ===== *)
theory Archive_Properties
  imports Archive
begin

text \<open>
  What the collection of a retained stream guarantees: the bytes that are hashed, planned and
  uploaded are the stored bytes of the command, whatever the sizes of the chunks the guest
  answers with.
\<close>

definition honest :: "out_source \<Rightarrow> output_name \<Rightarrow> bytes \<Rightarrow> bool" where
  "honest src n content =
     (\<forall>k offset c. src k n offset max_output_chunk = Inr c \<longrightarrow>
        oc_data c = take (length (oc_data c)) (drop offset content))"

lemma honest_chunk:
  assumes "honest src n content" "src k n (length acc) max_output_chunk = Inr c"
    "acc = take (length acc) content"
  shows "acc @ oc_data c = take (length (acc @ oc_data c)) content"
proof -
  have "oc_data c = take (length (oc_data c)) (drop (length acc) content)"
    using assms(1,2) by (simp add: honest_def)
  then show ?thesis
    using assms(3) by (metis length_append take_add)
qed

lemma stream_from_exact:
  assumes "honest src n content" "stream_from src op n stored k acc = Inr (b, k')"
    "acc = take (length acc) content"
  shows "length b = stored \<and> b = take (length b) content"
  using assms
proof (induction src op n stored k acc rule: stream_from.induct)
  case (1 src op n stored k acc)
  obtain c where c: "src k n (length acc) max_output_chunk = Inr c" "\<not> chunk_rejected op n stored (length acc) c"
    using 1(3) by (subst (asm) stream_from.simps) (auto split: sum.splits if_splits)
  note ext = honest_chunk[OF 1(2) c(1) 1(4)]
  show ?case
  proof (cases "oc_at_end c")
    case True
    then have b: "b = acc @ oc_data c" using 1(3) c by (subst (asm) stream_from.simps) simp
    have "length acc + length (oc_data c) = stored"
      using c(2) True by (auto simp: chunk_rejected_def)
    then have "length b = stored" by (simp add: b)
    then show ?thesis using ext unfolding b by blast
  next
    case False
    then have "stream_from src op n stored (Suc k) (acc @ oc_data c) = Inr (b, k')"
      using 1(3) c by (subst (asm) stream_from.simps) simp
    from 1(1)[OF c(1,2) False 1(2) this ext] show ?thesis .
  qed
qed

text \<open>C39: A stream that is collected without an error from a guest that answers with the command's
  bytes is the stored prefix of them, all of it, and its plan has their size and digest.\<close>

theorem archive_stream_exact:
  assumes "honest src n content" "archive_stream C t n s src k = Inr ((b, p), k')"
  shows "length b = out_stored s \<and> b = take (out_stored s) content \<and>
    pl_size p = length b \<and> pl_sha256 p = hex_encode C (sha256 C b) \<and> pl_name p = n \<and> pl_owner p = tk_owner t"
proof -
  have "stream_from src (show_operation C (oo_operation (tk_owner t))) n (out_stored s) k [] = Inr (b, k')"
    and "p = stream_plan C t n s b"
    using assms(2) by (auto simp: archive_stream_def)
  then show ?thesis using stream_from_exact[OF assms(1)] by (fastforce simp: stream_plan_def)
qed

text \<open>A guest that keeps three bytes and answers with one at a time.\<close>

definition three_bytes :: bytes where "three_bytes = [7, 8, 9]"

definition slow_ticket :: output_ticket where
  "slow_ticket =
     \<lparr>tk_version = 1, tk_owner = \<lparr>oo_project = ProjectId 1, oo_sandbox = SandboxId 2, oo_operation = OperationId 3,
        oo_allocation = AllocationId 4, oo_generation = 1, oo_host = HostId 5, oo_epoch = 1, oo_boot = ''b''\<rparr>,
      tk_attempt = OperationId 6, tk_output_limit = 10, tk_created = 1, tk_expires = 2, tk_delete_after = 3\<rparr>"

definition slow_source :: out_source where
  "slow_source k n offset limit =
     (if offset < 3
      then Inr \<lparr>oc_operation = show_operation ref_crates (OperationId 3), oc_stream = stream_code n, oc_offset = offset,
             oc_data = [three_bytes ! offset], oc_next = Suc offset, oc_at_end = (offset = 2), oc_complete = True\<rparr>
      else Inl Unavailable)"

lemma slow_honest: "honest slow_source n three_bytes"
  by (auto simp: honest_def slow_source_def three_bytes_def less_Suc_eq numeral_eq_Suc split: if_splits)

lemma slow_collected:
  "archive_stream ref_crates slow_ticket Stdout \<lparr>out_seen = 3, out_stored = 3, out_truncated = False\<rparr> slow_source 0 =
     Inr ((three_bytes, stream_plan ref_crates slow_ticket Stdout \<lparr>out_seen = 3, out_stored = 3, out_truncated = False\<rparr> three_bytes), 3)"
proof -
  have fine: "\<not> chunk_rejected (show_operation ref_crates (OperationId 3)) Stdout 3 offset
      \<lparr>oc_operation = show_operation ref_crates (OperationId 3), oc_stream = stream_code Stdout, oc_offset = offset,
       oc_data = [x], oc_next = Suc offset, oc_at_end = (offset = 2), oc_complete = True\<rparr>" if "offset < 3" for offset x
    using that by (auto simp: chunk_rejected_def max_output_chunk_def checked_add_u64_def)
  have "stream_from slow_source (show_operation ref_crates (OperationId 3)) Stdout 3 2 [7, 8] = Inr (three_bytes, 3)"
    using fine[of 2 9] by (subst stream_from.simps) (simp add: slow_source_def three_bytes_def numeral_eq_Suc)
  then have "stream_from slow_source (show_operation ref_crates (OperationId 3)) Stdout 3 1 [7] = Inr (three_bytes, 3)"
    using fine[of 1 8] by (subst stream_from.simps) (simp add: slow_source_def three_bytes_def numeral_eq_Suc)
  then have "stream_from slow_source (show_operation ref_crates (OperationId 3)) Stdout 3 0 [] = Inr (three_bytes, 3)"
    using fine[of 0 7] by (subst stream_from.simps) (simp add: slow_source_def three_bytes_def numeral_eq_Suc)
  then show ?thesis
    by (simp add: archive_stream_def slow_ticket_def)
qed

theorem archive_stream_exact_witness:
  "length three_bytes = 3 \<and> three_bytes = take 3 three_bytes"
  using archive_stream_exact[OF slow_honest slow_collected] by simp

end
