(* ===== verification/Guardian_Model.thy ===== *)
theory Guardian_Model
  imports Allocation_Scope Capabilities
begin

text \<open>
  The identity of a guardian (\<open>crates/sandbox-supervisor/src/guardian/mod.rs\<close>): the
  manifest of one allocation, its receipt, and their validation. A \<open>PathBuf\<close> is its text;
  \<open>path_components\<close> is \<open>Path::components\<close> on it.
\<close>

section \<open>Paths\<close>

definition path_join :: "string \<Rightarrow> string \<Rightarrow> string" where
  "path_join a b =
     (if take 1 b = ''/'' then b
      else if a = [] \<or> last a = CHR ''/'' then a @ b
      else a @ ''/'' @ b)"

definition path_absolute :: "string \<Rightarrow> bool" where
  "path_absolute p = (take 1 p = ''/'')"

text \<open>
  Repeated separators and \<open>.\<close> components are dropped, except a leading \<open>.\<close> of a relative
  path; \<open>''/''\<close> stands for the root component.
\<close>

definition path_components :: "string \<Rightarrow> string list" where
  "path_components p =
     (if path_absolute p then [''/''] else if take 1 p = ''.'' \<and> take 2 p \<in> {''.'', ''./''} then [''.''] else []) @
     filter (\<lambda>c. c \<noteq> [] \<and> c \<noteq> ''.'') (split_on (CHR ''/'') p)"

definition path_starts_with :: "string \<Rightarrow> string \<Rightarrow> bool" where
  "path_starts_with p base =
     (take (length (path_components base)) (path_components p) = path_components base)"

definition path_eq :: "string \<Rightarrow> string \<Rightarrow> bool" where
  "path_eq p q = (path_components p = path_components q)"

section \<open>Manifests and receipts\<close>

record guardian_owner =
  go_host :: host_id
  go_project :: project_id
  go_sandbox :: sandbox_id
  go_allocation :: allocation_id
  go_create_operation :: operation_id
  go_generation :: int
  go_epoch :: int

record artifact =
  art_path :: string
  art_sha256 :: string

record guardian_config =
  gc_state_root :: string
  gc_cgroup_parent :: string
  gc_firecracker :: artifact
  gc_jailer :: artifact
  gc_kernel :: artifact
  gc_rootfs :: artifact
  gc_jail_uid :: nat
  gc_jail_gid :: nat

record guardian_start =
  gs_owner :: guardian_owner
  gs_vcpu :: nat
  gs_memory_mib :: nat
  gs_disk_mib :: nat
  gs_expires :: int

record manifest =
  mn_launch_permit :: "permit option"
  mn_config :: guardian_config
  mn_start :: guardian_start

datatype guardian_state =
    GStaging | GPrepared | GLaunchIntent | GRunning | GStopping | GFenced | GStopped

record guardian_receipt =
  gr_version :: nat
  gr_owner :: guardian_owner
  gr_digest :: string
  gr_host_boot_id :: string
  gr_state :: guardian_state
  gr_cleanup_confirmed :: bool
  gr_renewal_revision :: nat
  gr_expires :: int
  gr_guardian_pid :: "nat option"
  gr_guardian_ticks :: "nat option"
  gr_firecracker_pid :: "nat option"
  gr_cgroup_inode :: "nat option"
  gr_reason :: "string option"
  gr_identity_digest :: "string option"
  gr_identity_expires :: "int option"
  gr_guest_boot_id :: "string option"

datatype guardian_action = ActionInspect | ActionBindGuest | ActionRenew nat int | ActionStop

record guardian_response =
  gresp_receipt :: "guardian_receipt option"
  gresp_error :: "string option"

definition permit_matches_owner :: "permit \<Rightarrow> guardian_owner \<Rightarrow> bool" where
  "permit_matches_owner p w =
     (permit_host p = go_host w \<and> permit_project p = go_project w \<and>
      permit_sandbox p = go_sandbox w \<and> permit_allocation p = go_allocation w \<and>
      permit_create_operation p = go_create_operation w \<and>
      permit_generation p = go_generation w \<and> permit_original_epoch p = go_epoch w)"

definition manifest_directory :: "crates \<Rightarrow> manifest \<Rightarrow> string" where
  "manifest_directory C m =
     path_join (gc_state_root (mn_config m)) (show_allocation C (go_allocation (gs_owner (mn_start m))))"

definition manifest_group :: "crates \<Rightarrow> manifest \<Rightarrow> string" where
  "manifest_group C m =
     path_join (gc_cgroup_parent (mn_config m))
       (uuid_hyphenated C (allocation_uuid (go_allocation (gs_owner (mn_start m)))))"

definition manifest_jail_root :: "crates \<Rightarrow> manifest \<Rightarrow> string" where
  "manifest_jail_root C m =
     path_join (path_join (path_join (manifest_directory C m) ''run/chroots/firecracker'')
       (uuid_hyphenated C (allocation_uuid (go_allocation (gs_owner (mn_start m)))))) ''root''"

definition manifest_socket :: "crates \<Rightarrow> manifest \<Rightarrow> string" where
  "manifest_socket C m = path_join (manifest_directory C m) ''control.sock''"

definition manifest_digest :: "crates \<Rightarrow> manifest json \<Rightarrow> manifest \<Rightarrow> unit + string" where
  "manifest_digest C J m =
     rbind (ok_or () (to_vec J m)) (\<lambda>b. Inr (hex_encode C (sha256 C b)))"

definition artifact_ok :: "artifact \<Rightarrow> bool" where
  "artifact_ok a =
     (path_absolute (art_path a) \<and> length (art_sha256 a) = 64 \<and> list_all lower_hex (art_sha256 a))"

text \<open>\<open>is_root\<close>: the process runs as root.\<close>

definition manifest_validate :: "crates \<Rightarrow> manifest json \<Rightarrow> bool \<Rightarrow> manifest \<Rightarrow> unit + unit" where
  "manifest_validate C J is_root m =
     (let c = mn_config m; s = mn_start m; w = gs_owner s in
      rbind (ensure is_root ()) (\<lambda>_.
      rbind (case mn_launch_permit m of None \<Rightarrow> Inr () | Some p \<Rightarrow> ensure (permit_matches_owner p w) ()) (\<lambda>_.
      rbind (ensure (0 < go_generation w \<and> 0 < go_epoch w) ()) (\<lambda>_.
      rbind (ensure (supported (int (gs_vcpu s)) (int (gs_memory_mib s)) (int (gs_disk_mib s))) ()) (\<lambda>_.
      rbind (ensure (65534 \<le> gc_jail_uid c \<and> 65534 \<le> gc_jail_gid c) ()) (\<lambda>_.
      rbind (ensure (path_absolute (gc_state_root c) \<and> ''..'' \<notin> set (path_components (gc_state_root c))) ()) (\<lambda>_.
      rbind (ensure (path_starts_with (gc_cgroup_parent c) ''/sys/fs/cgroup/'' \<and>
         \<not> path_eq (gc_cgroup_parent c) ''/sys/fs/cgroup'' \<and>
         ''..'' \<notin> set (path_components (gc_cgroup_parent c))) ()) (\<lambda>_.
      rbind (ensure (length (manifest_socket C m) < 100) ()) (\<lambda>_.
      rbind (try_all (\<lambda>a. ensure (artifact_ok a) ())
        [gc_firecracker c, gc_jailer c, gc_kernel c, gc_rootfs c]) (\<lambda>_.
      rbind (ok_or () (to_vec J m)) (\<lambda>b.
      ensure (length b \<le> 65536) ())))))))))))"

definition manifest_validate_receipt ::
    "crates \<Rightarrow> manifest json \<Rightarrow> manifest \<Rightarrow> guardian_receipt \<Rightarrow> unit + unit" where
  "manifest_validate_receipt C J m r =
     rbind (ensure (gr_version r = 1 \<and> gr_owner r = gs_owner (mn_start m)) ()) (\<lambda>_.
     rbind (manifest_digest C J m) (\<lambda>d.
     ensure (gr_digest r = d \<and>
        (case gr_reason r of None \<Rightarrow> True | Some s \<Rightarrow> length s < 256) \<and>
        gr_cleanup_confirmed r = (gr_state r = GStopped)) ()))"

text \<open>What a validated manifest guarantees.\<close>

lemma validated_manifest:
  assumes "manifest_validate C J is_root m = Inr u"
  shows "is_root" "\<And>p. mn_launch_permit m = Some p \<Longrightarrow> permit_matches_owner p (gs_owner (mn_start m))"
    "gs_vcpu (mn_start m) \<le> 4" "gs_memory_mib (mn_start m) \<le> 8192" "gs_disk_mib (mn_start m) \<le> 65536"
    "length (manifest_socket C m) < 100"
  using assms by (auto simp: manifest_validate_def Let_def supported_iff)

section \<open>Deletion plans\<close>

text \<open>The retained inventory of a metadata retirement (\<open>guardian/retirement.rs\<close>).\<close>

record file_identity =
  fi_device :: nat
  fi_inode :: nat

record plan_entry =
  pe_identity :: file_identity
  pe_len :: nat
  pe_sha256 :: string

datatype plan_metadata =
    PlanAbsent
  | PlanStopped file_identity guardian_receipt "(string, plan_entry) btmap" "(string, plan_entry) btmap"

record deletion_plan =
  dp_version :: nat
  dp_intent_sha256 :: string
  dp_metadata :: plan_metadata

definition plan_receipt :: "deletion_plan \<Rightarrow> guardian_receipt option" where
  "plan_receipt p =
     (case dp_metadata p of PlanAbsent \<Rightarrow> None | PlanStopped _ r _ _ \<Rightarrow> Some r)"

end
