(* ===== verification/Deletion.thy ===== *)
theory Deletion
  imports Guardian_Model Launch_Authority
begin

text \<open>
  Removing the metadata of a stopped guardian (\<open>guardian/retirement.rs\<close> of
  \<open>crates/sandbox-supervisor/src\<close>): the plan that lists what may be unlinked, the session that
  checks the allocation directory against it, and the removal, one file per step. The caller
  retains the plan before the first step, so a session can be opened again after a crash at
  any point.

  \<open>alloc_fs\<close> is what the session sees of the machine: the allocation directory, if it exists,
  with the files in it, and whether the control group exists.
\<close>

section \<open>Plans\<close>

definition lock_name :: string where "lock_name = ''lifecycle.lock''"
definition metadata_names :: "string list" where
  "metadata_names = [''receipt.json'', ''manifest.json'', lock_name]"
definition max_staged_files :: nat where "max_staged_files = 16"
definition max_staged_bytes :: nat where "max_staged_bytes = 2 ^ 20"
definition max_metadata_bytes :: nat where "max_metadata_bytes = 65536"

text \<open>\<open>name.strip_suffix(".tmp")\<close>, parsed and printed back.\<close>

definition is_staging_name :: "crates \<Rightarrow> string \<Rightarrow> bool" where
  "is_staging_name C name =
     (let n = length name - 4; stem = take n name in
      4 \<le> length name \<and> drop n name = ''.tmp'' \<and>
      (case parse_operation C stem of
         Inl _ \<Rightarrow> False
       | Inr i \<Rightarrow> show_operation C i @ ''.tmp'' = name))"

text \<open>\<open>try_fold(0u64, checked_add)\<close>.\<close>

definition add_length :: "nat option \<Rightarrow> nat \<Rightarrow> nat option" where
  "add_length t n = (case t of None \<Rightarrow> None | Some s \<Rightarrow> checked_add_u64 s n)"

definition staged_total :: "nat \<Rightarrow> (string, plan_entry) btmap \<Rightarrow> nat option" where
  "staged_total from m = foldl add_length (Some from) (map pe_len (bt_values m))"

definition within_staged :: "nat option \<Rightarrow> bool" where
  "within_staged t = (case t of None \<Rightarrow> False | Some n \<Rightarrow> n \<le> max_staged_bytes)"

definition entry_digest_ok :: "plan_entry \<Rightarrow> bool" where
  "entry_digest_ok e =
     (0 < fi_inode (pe_identity e) \<and> pe_len e \<le> max_metadata_bytes \<and> length (pe_sha256 e) = 64 \<and>
      list_all lower_hex (pe_sha256 e))"

definition content_matches :: "crates \<Rightarrow> (string, plan_entry) btmap \<Rightarrow> string \<times> bytes \<Rightarrow> unit + unit" where
  "content_matches C files x =
     rbind (ok_or () (bt_get (fst x) files)) (\<lambda>e.
     ensure (pe_len e = length (snd x) \<and> pe_sha256 e = hex_encode C (sha256 C (snd x))) ())"

definition inventory_validate ::
    "crates \<Rightarrow> manifest json \<Rightarrow> guardian_receipt json \<Rightarrow> nat \<Rightarrow> manifest \<Rightarrow> file_identity \<Rightarrow> guardian_receipt \<Rightarrow>
     (string, plan_entry) btmap \<Rightarrow> (string, plan_entry) btmap \<Rightarrow> unit + unit" where
  "inventory_validate C M G version m dir r files staged =
     rbind (manifest_validate_receipt C M m r) (\<lambda>_.
     rbind (ensure (gr_state r = GStopped \<and> gr_cleanup_confirmed r) ()) (\<lambda>_.
     rbind (ensure (length files = length metadata_names \<and> list_all (\<lambda>n. bt_contains n files) metadata_names) ()) (\<lambda>_.
     rbind (ensure ((version = 2 \<or> staged = []) \<and> length staged \<le> max_staged_files \<and>
        within_staged (staged_total 0 staged) \<and> list_all (is_staging_name C) (map fst staged)) ()) (\<lambda>_.
     rbind (ensure (0 < fi_inode dir) ()) (\<lambda>_.
     rbind (ok_or () (to_vec G r)) (\<lambda>receipt_bytes.
     rbind (ok_or () (to_vec M m)) (\<lambda>manifest_bytes.
     rbind (try_all (content_matches C files)
        [(''receipt.json'', receipt_bytes), (''manifest.json'', manifest_bytes), (lock_name, [])]) (\<lambda>_.
     rbind (try_all (\<lambda>(name, e). ensure (entry_digest_ok e \<and> (name \<noteq> lock_name \<or> pe_len e = 0)) ()) files) (\<lambda>_.
     try_all (\<lambda>e. ensure (entry_digest_ok e) ()) (bt_values staged))))))))))"

definition plan_validate ::
    "crates \<Rightarrow> intent json \<Rightarrow> manifest json \<Rightarrow> guardian_receipt json \<Rightarrow> deletion_plan \<Rightarrow> intent \<Rightarrow> manifest option \<Rightarrow>
     unit + unit" where
  "plan_validate C K M G p i manifest =
     rbind (ensure (dp_version p = 1 \<or> dp_version p = 2) ()) (\<lambda>_.
     rbind (map_err (\<lambda>_. ()) (intent_digest C K i)) (\<lambda>d.
     rbind (ensure (dp_intent_sha256 p = hex_encode C d) ()) (\<lambda>_.
     case (dp_metadata p, manifest) of
       (PlanAbsent, None) \<Rightarrow> Inr ()
     | (PlanStopped dir r files staged, Some m) \<Rightarrow>
         inventory_validate C M G (dp_version p) m dir r files staged
     | _ \<Rightarrow> Inl ())))"

section \<open>What the session sees\<close>

record alloc_dir =
  ad_identity :: file_identity
  ad_owned :: bool
  ad_files :: "(string, meta_file) btmap"

record alloc_fs =
  fs_dir :: "alloc_dir option"
  fs_group :: bool

text \<open>\<open>entry\<close>: only a private regular file with one link and at most 64 KiB is read.\<close>

definition file_entry :: "crates \<Rightarrow> meta_file \<Rightarrow> unit + plan_entry" where
  "file_entry C f =
     rbind (ensure (private_file f \<and> length (mf_bytes f) \<le> max_metadata_bytes) ()) (\<lambda>_.
     Inr \<lparr>pe_identity = \<lparr>fi_device = fst (mf_id f), fi_inode = snd (mf_id f)\<rparr>, pe_len = length (mf_bytes f),
          pe_sha256 = hex_encode C (sha256 C (mf_bytes f))\<rparr>)"

definition same_entry :: "crates \<Rightarrow> meta_file \<Rightarrow> plan_entry \<Rightarrow> unit + unit" where
  "same_entry C f expected = rbind (file_entry C f) (\<lambda>e. ensure (e = expected) ())"

definition retirement_group_ok :: "string \<Rightarrow> bool" where
  "retirement_group_ok p =
     (path_starts_with p ''/sys/fs/cgroup/'' \<and> \<not> path_eq p ''/sys/fs/cgroup'' \<and>
      ''..'' \<notin> set (path_components p))"

text \<open>\<open>verify_absent\<close>, without the final sync of the root.\<close>

definition verify_absent :: "crates \<Rightarrow> string \<Rightarrow> intent \<Rightarrow> alloc_fs \<Rightarrow> unit + unit" where
  "verify_absent C group_parent i fs =
     rbind (map_err (\<lambda>_. ()) (intent_validate C i)) (\<lambda>_.
     rbind (ensure (\<not> intent_simulated i) ()) (\<lambda>_.
     rbind (ensure (retirement_group_ok group_parent) ()) (\<lambda>_.
     rbind (ensure (fs_dir fs = None) ()) (\<lambda>_.
     ensure (\<not> fs_group fs) ()))))"

definition scope_matches ::
    "crates \<Rightarrow> manifest json \<Rightarrow> bool \<Rightarrow> string \<Rightarrow> string \<Rightarrow> intent \<Rightarrow> manifest option \<Rightarrow> unit + unit" where
  "scope_matches C M is_root root group_parent i manifest =
     (case manifest of
        None \<Rightarrow> Inr ()
      | Some m \<Rightarrow>
          rbind (manifest_validate C M is_root m) (\<lambda>_.
          ensure (mn_launch_permit m = Some (intent_permit i) \<and>
             path_eq (gc_state_root (mn_config m)) root \<and>
             path_eq (gc_cgroup_parent (mn_config m)) group_parent) ()))"

definition verify_removed ::
    "crates \<Rightarrow> intent json \<Rightarrow> manifest json \<Rightarrow> guardian_receipt json \<Rightarrow> bool \<Rightarrow> string \<Rightarrow> string \<Rightarrow> deletion_plan \<Rightarrow>
     intent \<Rightarrow> manifest option \<Rightarrow> alloc_fs \<Rightarrow> unit + unit" where
  "verify_removed C K M G is_root root group_parent p i manifest fs =
     rbind (plan_validate C K M G p i manifest) (\<lambda>_.
     rbind (scope_matches C M is_root root group_parent i manifest) (\<lambda>_.
     verify_absent C group_parent i fs))"

section \<open>Opening a session\<close>

record found_files =
  ff_actual :: "(string, plan_entry) btmap"
  ff_staged :: "(string, plan_entry) btmap"

text \<open>One turn over the directory entries.\<close>

definition scan_file :: "crates \<Rightarrow> found_files \<Rightarrow> string \<times> meta_file \<Rightarrow> unit + found_files" where
  "scan_file C s x =
     (case x of (name, f) \<Rightarrow>
        if name \<in> set metadata_names
        then rbind (file_entry C f) (\<lambda>e. Inr (s\<lparr>ff_actual := bt_insert name e (ff_actual s)\<rparr>))
        else if is_staging_name C name
        then rbind (ensure (length (ff_staged s) < max_staged_files) ()) (\<lambda>_.
             rbind (file_entry C f) (\<lambda>e.
             rbind (ensure (within_staged (staged_total (pe_len e) (ff_staged s))) ()) (\<lambda>_.
             Inr (s\<lparr>ff_staged := bt_insert name e (ff_staged s)\<rparr>))))
        else Inl ())"

definition scan_dir :: "crates \<Rightarrow> alloc_dir \<Rightarrow> unit + found_files" where
  "scan_dir C d = try_fold (scan_file C) \<lparr>ff_actual = [], ff_staged = []\<rparr> (ad_files d)"

definition planned :: "crates \<Rightarrow> alloc_dir \<Rightarrow> (string, plan_entry) btmap \<Rightarrow> string \<Rightarrow> unit + unit" where
  "planned C d plan name =
     rbind (ok_or () (bt_get name (ad_files d))) (\<lambda>f.
     rbind (ok_or () (bt_get name plan)) (\<lambda>e. same_entry C f e))"

datatype flock_answer = FlockHeld | FlockBusy | FlockError
datatype open_error = OpenBusy | OpenFailed

text \<open>The lifecycle lock; \<open>True\<close> when it exists and was taken.\<close>

definition take_lifecycle :: "crates \<Rightarrow> flock_answer \<Rightarrow> bool \<Rightarrow> alloc_dir \<Rightarrow> open_error + bool" where
  "take_lifecycle C lk saved d =
     (case bt_get lock_name (ad_files d) of
        None \<Rightarrow> if saved then Inr False else Inl OpenFailed
      | Some f \<Rightarrow>
          rbind (map_err (\<lambda>_. OpenFailed) (file_entry C f)) (\<lambda>e.
          rbind (ensure (pe_len e = 0) OpenFailed) (\<lambda>_.
          case lk of FlockHeld \<Rightarrow> Inr True | FlockBusy \<Rightarrow> Inl OpenBusy | FlockError \<Rightarrow> Inl OpenFailed)))"

definition plan_matches_dir :: "crates \<Rightarrow> deletion_plan \<Rightarrow> alloc_dir \<Rightarrow> found_files \<Rightarrow> unit + unit" where
  "plan_matches_dir C p d s =
     (case dp_metadata p of
        PlanAbsent \<Rightarrow> Inr ()
      | PlanStopped _ _ files staged \<Rightarrow>
          rbind (try_all (planned C d files) (map fst (ff_actual s))) (\<lambda>_.
          try_all (planned C d staged) (map fst (ff_staged s))))"

text \<open>The checks of an existing directory; the result is what was found in it.\<close>

definition examine_dir ::
    "crates \<Rightarrow> flock_answer \<Rightarrow> manifest option \<Rightarrow> deletion_plan option \<Rightarrow> alloc_dir \<Rightarrow> open_error + found_files" where
  "examine_dir C lk manifest saved d =
     rbind (ensure (manifest \<noteq> None) OpenFailed) (\<lambda>_.
     rbind (take_lifecycle C lk (saved \<noteq> None) d) (\<lambda>held.
     rbind (map_err (\<lambda>_. OpenFailed) (scan_dir C d)) (\<lambda>s.
     rbind (ensure (held \<or> ff_actual s = []) OpenFailed) (\<lambda>_.
     rbind (case saved of
              Some p \<Rightarrow> map_err (\<lambda>_. OpenFailed) (plan_matches_dir C p d s)
            | None \<Rightarrow> ensure (length (ff_actual s) = length metadata_names) OpenFailed) (\<lambda>_.
     Inr s)))))"

definition check_directory :: "manifest option \<Rightarrow> deletion_plan option \<Rightarrow> alloc_fs \<Rightarrow> unit + unit" where
  "check_directory manifest saved fs =
     (case fs_dir fs of
        None \<Rightarrow> ensure (saved \<noteq> None \<or> manifest = None) ()
      | Some d \<Rightarrow>
          rbind (ensure (ad_owned d) ()) (\<lambda>_.
          case saved of
            None \<Rightarrow> Inr ()
          | Some p \<Rightarrow>
              (case dp_metadata p of
                 PlanStopped dir _ _ _ \<Rightarrow> ensure (ad_identity d = dir) ()
               | PlanAbsent \<Rightarrow> Inl ())))"

definition read_metadata :: "'a json \<Rightarrow> alloc_dir \<Rightarrow> string \<Rightarrow> unit + 'a" where
  "read_metadata J d name =
     rbind (ok_or () (bt_get name (ad_files d))) (\<lambda>f.
     rbind (ensure (length (mf_bytes f) \<le> max_metadata_bytes) ()) (\<lambda>_.
     ok_or () (from_slice J (mf_bytes f))))"

text \<open>A first plan is drawn up from the files of a stopped guardian.\<close>

definition new_metadata ::
    "crates \<Rightarrow> manifest json \<Rightarrow> guardian_receipt json \<Rightarrow> manifest option \<Rightarrow> alloc_fs \<Rightarrow> found_files \<Rightarrow>
     unit + plan_metadata" where
  "new_metadata C M G manifest fs s =
     (case manifest of
        None \<Rightarrow> Inr PlanAbsent
      | Some m \<Rightarrow>
          rbind (ok_or () (fs_dir fs)) (\<lambda>d.
          rbind (read_metadata M d ''manifest.json'') (\<lambda>disk.
          rbind (manifest_digest C M disk) (\<lambda>a.
          rbind (manifest_digest C M m) (\<lambda>b.
          rbind (ensure (a = b) ()) (\<lambda>_.
          rbind (read_metadata G d ''receipt.json'') (\<lambda>r.
          rbind (manifest_validate_receipt C M m r) (\<lambda>_.
          rbind (ensure (gr_cleanup_confirmed r \<and> gr_state r = GStopped) ()) (\<lambda>_.
          Inr (PlanStopped (ad_identity d) r (ff_actual s) (ff_staged s)))))))))))"

record session =
  ses_plan :: deletion_plan
  ses_open :: bool

text \<open>\<open>authorized\<close> is the outcome of \<open>authorize_deletion\<close> on the launch authority.\<close>

definition session_open ::
    "crates \<Rightarrow> intent json \<Rightarrow> manifest json \<Rightarrow> guardian_receipt json \<Rightarrow> bool \<Rightarrow> string \<Rightarrow> string \<Rightarrow>
     launch_error + meta_file \<Rightarrow> flock_answer \<Rightarrow> intent \<Rightarrow> manifest option \<Rightarrow> deletion_plan option \<Rightarrow> alloc_fs \<Rightarrow>
     open_error + session" where
  "session_open C K M G is_root root group_parent authorized lk i manifest saved fs =
     rbind (map_err (\<lambda>e. if is_lock_contended e then OpenBusy else OpenFailed) authorized) (\<lambda>_.
     rbind (ensure (retirement_group_ok group_parent) OpenFailed) (\<lambda>_.
     rbind (ensure (\<not> fs_group fs) OpenFailed) (\<lambda>_.
     rbind (map_err (\<lambda>_. OpenFailed) (scope_matches C M is_root root group_parent i manifest)) (\<lambda>_.
     rbind (case saved of None \<Rightarrow> Inr ()
              | Some p \<Rightarrow> map_err (\<lambda>_. OpenFailed) (plan_validate C K M G p i manifest)) (\<lambda>_.
     rbind (map_err (\<lambda>_. OpenFailed) (check_directory manifest saved fs)) (\<lambda>_.
     rbind (case fs_dir fs of None \<Rightarrow> Inr \<lparr>ff_actual = [], ff_staged = []\<rparr>
              | Some d \<Rightarrow> examine_dir C lk manifest saved d) (\<lambda>s.
     rbind (case saved of
              Some p \<Rightarrow> Inr p
            | None \<Rightarrow>
                rbind (map_err (\<lambda>_. OpenFailed) (new_metadata C M G manifest fs s)) (\<lambda>metadata.
                rbind (map_err (\<lambda>_. OpenFailed) (intent_digest C K i)) (\<lambda>d.
                Inr \<lparr>dp_version = 2, dp_intent_sha256 = hex_encode C d, dp_metadata = metadata\<rparr>))) (\<lambda>p.
     rbind (map_err (\<lambda>_. OpenFailed) (plan_validate C K M G p i manifest)) (\<lambda>_.
     Inr \<lparr>ses_plan = p, ses_open = (fs_dir fs \<noteq> None)\<rparr>)))))))))"

definition session_removed :: "session \<Rightarrow> bool" where
  "session_removed s = (\<not> ses_open s)"

section \<open>Removing\<close>

text \<open>How a step may fail: before the unlink, or at the sync after it.\<close>

datatype unlink_fault = UnlinkFine | UnlinkRefused | UnlinkUnsynced

definition drop_file :: "string \<Rightarrow> alloc_fs \<Rightarrow> alloc_fs" where
  "drop_file name fs =
     fs\<lparr>fs_dir := map_option (\<lambda>d. d\<lparr>ad_files := bt_remove name (ad_files d)\<rparr>) (fs_dir fs)\<rparr>"

definition present :: "alloc_fs \<Rightarrow> string \<Rightarrow> bool" where
  "present fs name = (case fs_dir fs of None \<Rightarrow> False | Some d \<Rightarrow> bt_contains name (ad_files d))"

definition dir_file :: "string \<Rightarrow> alloc_fs \<Rightarrow> meta_file option" where
  "dir_file name fs = (case fs_dir fs of None \<Rightarrow> None | Some d \<Rightarrow> bt_get name (ad_files d))"

text \<open>Unlinks one file that is still what the plan says; \<open>files[name]\<close> must be planned.\<close>

definition unlink_planned ::
    "crates \<Rightarrow> unlink_fault \<Rightarrow> (string, plan_entry) btmap \<Rightarrow> string \<Rightarrow> (alloc_fs, unit, bool) proc" where
  "unlink_planned C fault plan name =
     sbind (sread (dir_file name)) (\<lambda>x.
     sbind (slift (ok_or () x)) (\<lambda>f.
     sbind (slift (ok_or () (bt_get name plan))) (\<lambda>e.
     sbind (slift (same_entry C f e)) (\<lambda>_.
     sbind (sensure (fault \<noteq> UnlinkRefused) ()) (\<lambda>_.
     sbind (swrite (drop_file name)) (\<lambda>_.
     sbind (sensure (fault \<noteq> UnlinkUnsynced) ()) (\<lambda>_.
     sret False)))))))"

text \<open>\<open>remove_dir\<close> fails on a directory that is not empty.\<close>

definition remove_directory :: "unlink_fault \<Rightarrow> (session \<times> alloc_fs, unit, unit) proc" where
  "remove_directory fault =
     sbind (sread (\<lambda>(_, fs). fs_dir fs)) (\<lambda>x.
     sbind (slift (ok_or () x)) (\<lambda>d.
     sbind (sensure (ad_files d = [] \<and> fault \<noteq> UnlinkRefused) ()) (\<lambda>_.
     swrite (\<lambda>(s, fs). (s\<lparr>ses_open := False\<rparr>, fs\<lparr>fs_dir := None\<rparr>)))))"

definition on_fs :: "(alloc_fs, unit, 'a) proc \<Rightarrow> (session \<times> alloc_fs, unit, 'a) proc" where
  "on_fs m s = (case s of (x, fs) \<Rightarrow> (case m fs of (r, fs') \<Rightarrow> (r, (x, fs'))))"

text \<open>The first planned file that is present, metadata before staged files.\<close>

definition next_planned :: "plan_metadata \<Rightarrow> alloc_fs \<Rightarrow> ((string, plan_entry) btmap \<times> string) option" where
  "next_planned p fs =
     (case p of
        PlanAbsent \<Rightarrow> None
      | PlanStopped _ _ files staged \<Rightarrow>
          (case find (present fs) metadata_names of
             Some name \<Rightarrow> Some (files, name)
           | None \<Rightarrow> map_option (\<lambda>name. (staged, name)) (find (present fs) (map fst staged))))"

definition remove_next :: "crates \<Rightarrow> unlink_fault \<Rightarrow> (session \<times> alloc_fs, unit, bool) proc" where
  "remove_next C fault =
     sbind (sread fst) (\<lambda>s.
     sbind (sread snd) (\<lambda>fs.
     if ses_open s
     then case next_planned (dp_metadata (ses_plan s)) fs of
            Some (plan, name) \<Rightarrow> on_fs (unlink_planned C fault plan name)
          | None \<Rightarrow>
              sbind (remove_directory fault) (\<lambda>_.
              sbind (sensure (fault \<noteq> UnlinkUnsynced) ()) (\<lambda>_. sret True))
     else sbind (sensure (fault = UnlinkFine) ()) (\<lambda>_. sret True)))"

end
