(* ===== verification/Deletion_Laws.thy ===== *)
theory Deletion_Laws
  imports Deletion
begin

text \<open>
  What the removal of guardian metadata promises. \<open>on_plan\<close> is the relation between a retained
  plan and the directory that a session establishes and every step keeps, failed steps
  included: the directory is the planned one, each file in it is still the planned file, and
  the lifecycle lock outlives the rest of the metadata. It is all a session needs to be opened
  again, and a removal that meets no fault then ends with the directory gone.
\<close>

section \<open>Inventories\<close>

definition submap :: "('k, 'v) btmap \<Rightarrow> ('k, 'v) btmap \<Rightarrow> bool" where
  "submap m n = (\<forall>k v. bt_get k m = Some v \<longrightarrow> bt_get k n = Some v)"

lemma submap_empty [simp]: "submap [] n"
  by (simp add: submap_def)

lemma submap_set:
  assumes "bt_ordered m" "bt_ordered n" "submap m n"
  shows "set m \<subseteq> set n"
  using assms by (auto simp: submap_def bt_get_iff_mem[symmetric])

lemma submap_sum:
  fixes f :: "'k::linorder \<times> 'v \<Rightarrow> nat"
  assumes "bt_ordered m" "bt_ordered n" "submap m n"
  shows "sum_list (map f m) \<le> sum_list (map f n)"
proof -
  have "distinct m" "distinct n"
    using bt_ordered_distinct assms(1,2) distinct_map by blast+
  then show ?thesis
    using submap_set[OF assms] by (simp add: sum_list_distinct_conv_sum_set sum_mono2)
qed

lemma submap_length:
  assumes "bt_ordered m" "bt_ordered n" "submap m n"
  shows "length m \<le> length n"
  using submap_sum[OF assms, of "\<lambda>_. 1"] by (simp add: sum_list_triv)

lemma sum_bt_insert:
  fixes g :: "'v \<Rightarrow> nat"
  assumes "bt_ordered m" "bt_get k m = None"
  shows "sum_list (map g (bt_values (bt_insert k v m))) = g v + sum_list (map g (bt_values m))"
  using assms by (induction k v m rule: bt_insert.induct) (auto simp: bt_values_def split: if_splits)

lemma submap_insert: "submap m n \<Longrightarrow> bt_get k n = Some v \<Longrightarrow> submap (bt_insert k v m) n"
  by (simp add: submap_def)

lemma add_length_simps [simp]:
  "add_length None n = None" "add_length (Some a) n = checked_add_u64 a n"
  by (simp_all add: add_length_def)

lemma foldl_add_none [simp]: "foldl add_length None ys = None"
  by (induction ys) simp_all

lemma foldl_add_length:
  "foldl add_length (Some a) xs =
     (if xs = [] \<or> a + sum_list xs < u64_limit then Some (a + sum_list xs) else None)"
proof (induction xs arbitrary: a)
  case (Cons x xs)
  show ?case using Cons[of "a + x"] by (auto simp: checked_add_u64_def)
qed simp

lemma within_staged_total:
  "within_staged (staged_total a m) = (a + sum_list (map pe_len (bt_values m)) \<le> max_staged_bytes)"
  by (auto simp: staged_total_def foldl_add_length within_staged_def max_staged_bytes_def bt_values_def)

section \<open>Scanning a directory\<close>

definition files_of :: "alloc_fs \<Rightarrow> (string, meta_file) btmap" where
  "files_of fs = (case fs_dir fs of None \<Rightarrow> [] | Some d \<Rightarrow> ad_files d)"

definition slot :: "found_files \<Rightarrow> string \<Rightarrow> (string, plan_entry) btmap" where
  "slot s name = (if name \<in> set metadata_names then ff_actual s else ff_staged s)"

lemma scan_dir_fold:
  assumes "try_fold (scan_file C) s xs = Inr t" "distinct (map fst xs)"
    "bt_ordered (ff_actual s)" "bt_ordered (ff_staged s)"
  shows "(\<forall>(n, f) \<in> set xs. (n \<in> set metadata_names \<or> is_staging_name C n) \<and>
            (\<exists>e. file_entry C f = Inr e \<and> bt_get n (slot t n) = Some e)) \<and>
    (\<forall>n. n \<notin> fst ` set xs \<longrightarrow> bt_get n (slot t n) = bt_get n (slot s n)) \<and>
    (\<forall>n. n \<notin> set metadata_names \<longrightarrow> bt_get n (ff_actual t) = bt_get n (ff_actual s)) \<and>
    (\<forall>n. n \<in> set metadata_names \<longrightarrow> bt_get n (ff_staged t) = bt_get n (ff_staged s)) \<and>
    bt_ordered (ff_actual t) \<and> bt_ordered (ff_staged t)"
  using assms
proof (induction xs arbitrary: s)
  case (Cons x xs)
  obtain n f where x: "x = (n, f)" by (cases x)
  obtain s' where s': "scan_file C s (n, f) = Inr s'" and rest: "try_fold (scan_file C) s' xs = Inr t"
    using Cons.prems(1) by (auto simp: x)
  obtain e where e: "file_entry C f = Inr e" "n \<in> set metadata_names \<or> is_staging_name C n"
    and upd: "s' = (if n \<in> set metadata_names then s\<lparr>ff_actual := bt_insert n e (ff_actual s)\<rparr>
                    else s\<lparr>ff_staged := bt_insert n e (ff_staged s)\<rparr>)"
    using s' by (auto simp: scan_file_def split: if_splits)
  have ord: "bt_ordered (ff_actual s')" "bt_ordered (ff_staged s')"
    using Cons.prems(3,4) by (simp_all add: upd bt_ordered_insert)
  have here: "bt_get n (slot s' n) = Some e" by (simp add: upd slot_def)
  have other: "bt_get k (slot s' k) = bt_get k (slot s k)" if "k \<noteq> n" for k
    using that by (simp add: upd slot_def)
  have cross: "k \<notin> set metadata_names \<Longrightarrow> bt_get k (ff_actual s') = bt_get k (ff_actual s)"
    "k \<in> set metadata_names \<Longrightarrow> bt_get k (ff_staged s') = bt_get k (ff_staged s)" for k
    by (auto simp: upd)
  have n: "n \<notin> fst ` set xs" "distinct (map fst xs)" using Cons.prems(2) by (auto simp: x)
  from Cons.IH[OF rest n(2) ord] e here other cross n(1) show ?case by (auto simp: x)
qed (simp add: slot_def)

lemma scan_dirD:
  assumes "scan_dir C d = Inr s" "bt_ordered (ad_files d)"
  shows "\<And>n f. bt_get n (ad_files d) = Some f \<Longrightarrow> (n \<in> set metadata_names \<or> is_staging_name C n) \<and>
            (\<exists>e. file_entry C f = Inr e \<and> bt_get n (slot s n) = Some e)"
    and "\<And>n. bt_get n (ad_files d) = None \<Longrightarrow> bt_get n (slot s n) = None"
    and "\<And>n. n \<notin> set metadata_names \<Longrightarrow> bt_get n (ff_actual s) = None"
    and "\<And>n. n \<in> set metadata_names \<Longrightarrow> bt_get n (ff_staged s) = None"
    and "bt_ordered (ff_actual s)" "bt_ordered (ff_staged s)"
proof -
  note facts = scan_dir_fold[OF assms(1)[unfolded scan_dir_def] bt_ordered_distinct[OF assms(2)]]
  show "(n \<in> set metadata_names \<or> is_staging_name C n) \<and>
      (\<exists>e. file_entry C f = Inr e \<and> bt_get n (slot s n) = Some e)"
    if "bt_get n (ad_files d) = Some f" for n f
    using facts bt_get_in_set[OF that] by fastforce
  show "bt_get n (slot s n) = None" if "bt_get n (ad_files d) = None" for n
  proof -
    have "n \<notin> fst ` set (ad_files d)" using that by (auto simp: bt_get_def map_of_eq_None_iff)
    then show ?thesis using facts by (simp add: slot_def)
  qed
  show "bt_get n (ff_actual s) = None" if "n \<notin> set metadata_names" for n using facts that by simp
  show "bt_get n (ff_staged s) = None" if "n \<in> set metadata_names" for n using facts that by simp
  show "bt_ordered (ff_actual s)" "bt_ordered (ff_staged s)" using facts by simp_all
qed

section \<open>The relation of a plan and a directory\<close>

definition planned_file ::
    "crates \<Rightarrow> (string, plan_entry) btmap \<Rightarrow> (string, plan_entry) btmap \<Rightarrow> string \<Rightarrow> meta_file \<Rightarrow> bool" where
  "planned_file C files staged name f =
     (if name \<in> set metadata_names then \<exists>e. bt_get name files = Some e \<and> file_entry C f = Inr e
      else is_staging_name C name \<and> (\<exists>e. bt_get name staged = Some e \<and> file_entry C f = Inr e))"

definition lock_last :: "(string, meta_file) btmap \<Rightarrow> bool" where
  "lock_last m = (bt_contains lock_name m \<or> (\<forall>n \<in> set metadata_names. \<not> bt_contains n m))"

definition on_plan :: "crates \<Rightarrow> deletion_plan \<Rightarrow> alloc_fs \<Rightarrow> bool" where
  "on_plan C p fs =
     (case dp_metadata p of
        PlanAbsent \<Rightarrow> fs_dir fs = None
      | PlanStopped dir r files staged \<Rightarrow>
          (\<forall>d. fs_dir fs = Some d \<longrightarrow> ad_owned d \<and> ad_identity d = dir \<and> bt_ordered (ad_files d) \<and>
             lock_last (ad_files d) \<and>
             (\<forall>name f. bt_get name (ad_files d) = Some f \<longrightarrow> planned_file C files staged name f)))"

lemma metadata_names_distinct: "distinct metadata_names"
  by (simp add: metadata_names_def lock_name_def)

lemma on_planD:
  assumes "on_plan C p fs" "fs_dir fs = Some d"
  obtains dir r files staged where "dp_metadata p = PlanStopped dir r files staged"
    "ad_owned d" "ad_identity d = dir" "bt_ordered (ad_files d)" "lock_last (ad_files d)"
    "\<And>name f. bt_get name (ad_files d) = Some f \<Longrightarrow> planned_file C files staged name f"
proof (cases "dp_metadata p")
  case PlanAbsent
  then show thesis using assms by (simp add: on_plan_def)
next
  case (PlanStopped dir r files staged)
  then show thesis using assms that by (simp add: on_plan_def)
qed

section \<open>Steps keep the relation\<close>

lemma on_plan_gone: "fs_dir fs = None \<Longrightarrow> on_plan C p fs"
  by (auto simp: on_plan_def split: plan_metadata.splits)

text \<open>The lifecycle lock is the last of the metadata names, so it is the last one dropped.\<close>

lemma lock_last_drop:
  assumes "lock_last m" "bt_ordered m" "find (\<lambda>n. bt_contains n m) metadata_names = Some name"
  shows "lock_last (bt_remove name m)"
proof (cases "name = lock_name")
  case True
  have "\<not> bt_contains ''receipt.json'' m" "\<not> bt_contains ''manifest.json'' m"
    using assms(3) True by (auto simp: metadata_names_def lock_name_def split: if_splits)
  then show ?thesis by (auto simp: lock_last_def metadata_names_def True)
next
  case False
  have "bt_contains name m" using assms(3) by (auto simp: find_Some_iff)
  moreover have "name \<in> set metadata_names" using assms(3) by (auto simp: find_Some_iff)
  ultimately have "bt_contains lock_name m" using assms(1) by (auto simp: lock_last_def)
  then show ?thesis using False by (simp add: lock_last_def)
qed

lemma present_iff: "fs_dir fs = Some d \<Longrightarrow> present fs = (\<lambda>n. bt_contains n (ad_files d))"
  by (auto simp: present_def)

lemma next_planned_cases:
  assumes "next_planned (PlanStopped dir r files staged) fs = Some (plan, name)" "fs_dir fs = Some d"
  shows "(plan = files \<and> find (\<lambda>n. bt_contains n (ad_files d)) metadata_names = Some name) \<or>
    (plan = staged \<and> (\<forall>n \<in> set metadata_names. \<not> bt_contains n (ad_files d)) \<and>
     name \<in> fst ` set staged \<and> bt_contains name (ad_files d))"
  using assms
  by (auto simp: next_planned_def present_iff find_None_iff find_Some_iff split: option.splits)

lemma next_planned_present:
  assumes "next_planned (PlanStopped dir r files staged) fs = Some (plan, name)" "fs_dir fs = Some d"
  shows "bt_contains name (ad_files d)"
  using next_planned_cases[OF assms] by (auto simp: find_Some_iff)

lemma on_plan_drop:
  assumes on: "on_plan C p fs" and d: "fs_dir fs = Some d"
    and name: "next_planned (dp_metadata p) fs = Some (plan, name)"
  shows "on_plan C p (drop_file name fs)"
proof -
  obtain dir r files staged where p: "dp_metadata p = PlanStopped dir r files staged"
    and facts: "ad_owned d" "ad_identity d = dir" "bt_ordered (ad_files d)" "lock_last (ad_files d)"
    and files: "\<And>name f. bt_get name (ad_files d) = Some f \<Longrightarrow> planned_file C files staged name f"
    using on_planD[OF on d] by metis
  have "lock_last (bt_remove name (ad_files d))"
    using next_planned_cases[OF name[unfolded p] d] lock_last_drop[OF facts(4,3), of name]
    by (auto simp: lock_last_def)
  then show ?thesis
    using p facts files d by (auto simp: on_plan_def drop_file_def bt_ordered_remove split: if_splits)
qed

text \<open>What one step does, whatever fault it meets.\<close>

lemma remove_next_effect:
  assumes "remove_next C fault (s, fs) = (r, (s', fs'))"
  shows "ses_plan s' = ses_plan s \<and> fs_group fs' = fs_group fs \<and>
    ((fs' = fs \<and> s' = s \<and> r \<noteq> Inr False) \<or>
     (\<exists>d plan name f e. ses_open s \<and> fs_dir fs = Some d \<and> s' = s \<and>
        next_planned (dp_metadata (ses_plan s)) fs = Some (plan, name) \<and>
        bt_get name (ad_files d) = Some f \<and> bt_get name plan = Some e \<and> file_entry C f = Inr e \<and>
        fs' = drop_file name fs) \<or>
     (\<exists>d. ses_open s \<and> fs_dir fs = Some d \<and> ad_files d = [] \<and> \<not> ses_open s' \<and> fs_dir fs' = None \<and>
        r \<noteq> Inr False))"
proof (cases "ses_open s")
  case True
  show ?thesis
  proof (cases "next_planned (dp_metadata (ses_plan s)) fs")
    case None
    then show ?thesis using assms True
      by (cases "fs_dir fs")
        (auto simp: remove_next_def remove_directory_def sbind_def ensure_def split: if_splits)
  next
    case (Some x)
    obtain plan name where x: "x = (plan, name)" by (cases x)
    from assms True Some have q: "unlink_planned C fault plan name fs = (r, fs')" "s' = s"
      by (auto simp: remove_next_def sbind_def on_fs_def x split: prod.splits)
    show ?thesis
    proof (cases "fs' = fs \<and> r \<noteq> Inr False")
      case False
      obtain f where f: "dir_file name fs = Some f"
        using q False by (cases "dir_file name fs") (auto simp: unlink_planned_def sbind_def)
      obtain e where e: "bt_get name plan = Some e"
        using q False f by (cases "bt_get name plan") (auto simp: unlink_planned_def sbind_def)
      have same: "same_entry C f e = Inr ()"
        using q False f e by (cases "same_entry C f e") (auto simp: unlink_planned_def sbind_def)
      have "fs' = drop_file name fs"
        using q False f e same by (auto simp: unlink_planned_def sbind_def ensure_def split: if_splits)
      moreover obtain d where "fs_dir fs = Some d" "bt_get name (ad_files d) = Some f"
        using f by (auto simp: dir_file_def split: option.splits)
      moreover have "file_entry C f = Inr e" using same by (auto simp: same_entry_def)
      ultimately show ?thesis using True Some x q e by (simp add: drop_file_def)
    qed (use q in simp)
  qed
next
  case False
  then show ?thesis using assms by (auto simp: remove_next_def sbind_def ensure_def split: if_splits)
qed

definition session_ok :: "crates \<Rightarrow> session \<times> alloc_fs \<Rightarrow> bool" where
  "session_ok C x =
     (case x of (s, fs) \<Rightarrow> on_plan C (ses_plan s) fs \<and> ses_open s = (fs_dir fs \<noteq> None) \<and> \<not> fs_group fs)"

lemma remove_next_ok: "preserves (session_ok C) (remove_next C fault)"
proof (rule preservesI)
  fix x assume ok: "session_ok C x"
  obtain s fs where x: "x = (s, fs)" by (cases x)
  obtain r s' fs' where run: "remove_next C fault (s, fs) = (r, (s', fs'))" by (metis prod.exhaust)
  show "session_ok C (snd (remove_next C fault x))"
    using remove_next_effect[OF run] ok on_plan_drop on_plan_gone unfolding x run
    by (auto simp: session_ok_def drop_file_def split: option.splits)
qed

section \<open>The loop over the steps\<close>

lemma bt_remove_shorter:
  "bt_get name m = Some f \<Longrightarrow> length (bt_remove name m) < length m"
  unfolding bt_remove_def by (rule length_filter_less[of "(name, f)"]) (auto dest: bt_get_in_set)

lemma remove_next_shrinks:
  assumes "remove_next C fault (s, fs) = (Inr False, (s', fs'))"
  shows "length (files_of fs') < length (files_of fs)"
  using remove_next_effect[OF assms] bt_remove_shorter by (auto simp: files_of_def drop_file_def)

text \<open>
  \<open>while !session.remove_next()? {}\<close> of \<open>host/metadata_retirement.rs\<close>; \<open>faults k\<close> is what
  befalls the \<open>k\<close>-th step.
\<close>

function remove_all ::
    "crates \<Rightarrow> (nat \<Rightarrow> unlink_fault) \<Rightarrow> nat \<Rightarrow> session \<times> alloc_fs \<Rightarrow> (unit + unit) \<times> (session \<times> alloc_fs)" where
  "remove_all C faults k x =
     (case remove_next C (faults k) x of
        (Inl e, y) \<Rightarrow> (Inl e, y)
      | (Inr b, y) \<Rightarrow> if b then (Inr (), y) else remove_all C faults (Suc k) y)"
  by pat_completeness auto
termination
proof (relation "measure (\<lambda>(C, faults, k, x). length (files_of (snd x)))", goal_cases)
  case (2 C faults k x r y b)
  obtain s fs s' fs' where "x = (s, fs)" "y = (s', fs')" by (metis prod.exhaust)
  then show ?case using 2 remove_next_shrinks[of C "faults k" s fs s' fs'] by simp
qed simp

declare remove_all.simps [simp del]

lemma remove_all_ok: "session_ok C x \<Longrightarrow> session_ok C (snd (remove_all C faults k x))"
proof (induction C faults k x rule: remove_all.induct)
  case (1 C faults k x)
  have step: "session_ok C (snd (remove_next C (faults k) x))"
    using preservesD[OF remove_next_ok 1(2)] .
  obtain r y where r: "remove_next C (faults k) x = (r, y)" by (metis prod.exhaust)
  show ?case
  proof (cases r)
    case (Inl e)
    then show ?thesis using step r by (simp add: remove_all.simps[of C faults k x])
  next
    case (Inr b)
    then show ?thesis using step r 1(1)[OF r[symmetric] _ , of b]
      by (cases b) (simp_all add: remove_all.simps[of C faults k x])
  qed
qed

text \<open>A fault-free step on a directory that is on its plan succeeds.\<close>

lemma remove_next_fine:
  assumes "session_ok C (s, fs)" "plan_validate C K M G (ses_plan s) i manifest = Inr ()"
  obtains (again) s' fs' where "remove_next C UnlinkFine (s, fs) = (Inr False, (s', fs'))"
      "ses_plan s' = ses_plan s"
    | (finished) s' fs' where "remove_next C UnlinkFine (s, fs) = (Inr True, (s', fs'))"
      "fs_dir fs' = None" "ses_plan s' = ses_plan s"
proof (cases "fs_dir fs")
  case None
  then have "remove_next C UnlinkFine (s, fs) = (Inr True, (s, fs))"
    using assms(1) by (simp add: session_ok_def remove_next_def sbind_def)
  then show thesis using finished None by blast
next
  case (Some d)
  have on: "on_plan C (ses_plan s) fs" and op: "ses_open s" using assms(1) Some by (auto simp: session_ok_def)
  obtain dir r files staged where p: "dp_metadata (ses_plan s) = PlanStopped dir r files staged"
    and files: "\<And>name f. bt_get name (ad_files d) = Some f \<Longrightarrow> planned_file C files staged name f"
    using on_planD[OF on Some] by metis
  show thesis
  proof (cases "next_planned (PlanStopped dir r files staged) fs")
    case None
    have "bt_get n (ad_files d) = None" for n
    proof (rule ccontr)
      assume "bt_get n (ad_files d) \<noteq> None"
      then obtain f where f: "bt_get n (ad_files d) = Some f" by blast
      have "n \<notin> set metadata_names" "n \<notin> fst ` set staged"
        using None f by (auto simp: next_planned_def present_iff[OF Some] find_None_iff bt_contains_def
            split: option.splits)
      then obtain e where "bt_get n staged = Some e" using files[OF f] by (auto simp: planned_file_def)
      then show False using \<open>n \<notin> fst ` set staged\<close> bt_get_in_set by (metis fst_conv image_eqI)
    qed
    then have "ad_files d = []"
      by (metis bt_get_simps(2) list.exhaust option.distinct(1) prod.exhaust)
    then have "remove_next C UnlinkFine (s, fs) = (Inr True, (s\<lparr>ses_open := False\<rparr>, fs\<lparr>fs_dir := None\<rparr>))"
      using None op Some p by (simp add: remove_next_def sbind_def remove_directory_def)
    then show thesis using finished by simp
  next
    case (Some x)
    obtain plan name where x: "x = (plan, name)" by (cases x)
    note cases = next_planned_cases[OF Some[unfolded x] \<open>fs_dir fs = Some d\<close>]
    obtain f where f: "bt_get name (ad_files d) = Some f"
      using next_planned_present[OF Some[unfolded x] \<open>fs_dir fs = Some d\<close>] by (auto simp: bt_contains_def)
    have "\<exists>e. bt_get name plan = Some e \<and> file_entry C f = Inr e"
      using cases files[OF f] f by (auto simp: planned_file_def find_Some_iff bt_contains_def split: if_splits)
    then have "remove_next C UnlinkFine (s, fs) = (Inr False, (s, drop_file name fs))"
      using Some op p f x \<open>fs_dir fs = Some d\<close>
      by (auto simp: remove_next_def sbind_def on_fs_def unlink_planned_def dir_file_def same_entry_def)
    then show thesis using again by blast
  qed
qed

lemma remove_all_fine:
  assumes "session_ok C x" "plan_validate C K M G (ses_plan (fst x)) i manifest = Inr ()"
    "\<forall>k. faults k = UnlinkFine"
  shows "fst (remove_all C faults k x) = Inr () \<and> fs_dir (snd (snd (remove_all C faults k x))) = None"
  using assms
proof (induction C faults k x rule: remove_all.induct)
  case (1 C faults k x)
  obtain s fs where x: "x = (s, fs)" by (cases x)
  have fault: "faults k = UnlinkFine" using 1 by blast
  from 1(2,3)[unfolded x fst_conv] show ?case
  proof (cases rule: remove_next_fine)
    case (again s' fs')
    have "session_ok C (s', fs')"
      using preservesD[OF remove_next_ok 1(2), of UnlinkFine] again(1) x by simp
    then show ?thesis
      using 1(1)[of "Inr False" "(s', fs')" False] again 1(3,4) x fault
      by (simp add: remove_all.simps[of C _ k])
  next
    case (finished s' fs')
    then show ?thesis using fault x by (simp add: remove_all.simps[of C _ k])
  qed
qed

section \<open>Opening establishes the relation, and can be repeated\<close>

lemma take_lifecycle_held:
  assumes "take_lifecycle C lk saved d = Inr held"
  shows "held = bt_contains lock_name (ad_files d)"
  using assms by (auto simp: take_lifecycle_def bt_contains_def split: option.splits flock_answer.splits)

lemma examine_dirD:
  assumes "examine_dir C lk manifest saved d = Inr s"
  shows "scan_dir C d = Inr s" "manifest \<noteq> None" "bt_contains lock_name (ad_files d) \<or> ff_actual s = []"
    "\<And>p. saved = Some p \<Longrightarrow> plan_matches_dir C p d s = Inr ()"
  using assms by (auto simp: examine_dir_def dest: take_lifecycle_held)

lemma lock_last_scan:
  assumes "scan_dir C d = Inr s" "bt_ordered (ad_files d)"
    "bt_contains lock_name (ad_files d) \<or> ff_actual s = []"
  shows "lock_last (ad_files d)"
proof (cases "bt_contains lock_name (ad_files d)")
  case False
  then have none: "ff_actual s = []" using assms(3) by blast
  have "\<not> bt_contains n (ad_files d)" if "n \<in> set metadata_names" for n
  proof
    assume "bt_contains n (ad_files d)"
    then obtain f where "bt_get n (ad_files d) = Some f" by (auto simp: bt_contains_def)
    from scan_dirD(1)[OF assms(1,2) this] that none show False by (auto simp: slot_def)
  qed
  then show ?thesis by (simp add: lock_last_def)
qed (simp add: lock_last_def)

lemma planned_same:
  assumes "planned C d plan n = Inr ()" "bt_get n (ad_files d) = Some f"
  shows "\<exists>e. bt_get n plan = Some e \<and> file_entry C f = Inr e"
  using assms by (auto simp: planned_def same_entry_def)

lemma examined_on_plan:
  assumes ex: "examine_dir C lk manifest saved d = Inr s" and ord: "bt_ordered (ad_files d)"
    and own: "ad_owned d" "ad_identity d = dir" and p: "dp_metadata p = PlanStopped dir r files staged"
    and plan: "saved = Some p \<or> (files = ff_actual s \<and> staged = ff_staged s)"
    and here: "fs_dir fs = Some d"
  shows "on_plan C p fs"
proof -
  note scan = examine_dirD(1)[OF ex]
  have "planned_file C files staged n f" if f: "bt_get n (ad_files d) = Some f" for n f
  proof -
    obtain e where e: "file_entry C f = Inr e" "bt_get n (slot s n) = Some e"
      and kind: "n \<in> set metadata_names \<or> is_staging_name C n"
      using scan_dirD(1)[OF scan ord f] by blast
    show ?thesis
    proof (cases "saved = Some p")
      case True
      have "plan_matches_dir C p d s = Inr ()" using examine_dirD(4)[OF ex True] .
      then have "planned C d files n = Inr ()" if "n \<in> set metadata_names"
        using that e(2) bt_get_in_set[of n _ e] p
        by (force simp: plan_matches_dir_def slot_def)
      moreover have "planned C d staged n = Inr ()" if "n \<notin> set metadata_names"
        using that e(2) bt_get_in_set[of n _ e] p \<open>plan_matches_dir C p d s = Inr ()\<close>
        by (force simp: plan_matches_dir_def slot_def)
      ultimately show ?thesis
        using planned_same[of C d files n f] planned_same[of C d staged n f] f kind
        by (cases "n \<in> set metadata_names") (simp_all add: planned_file_def)
    next
      case False
      then show ?thesis using plan e kind by (auto simp: planned_file_def slot_def split: if_splits)
    qed
  qed
  then show ?thesis
    using p ord own here lock_last_scan[OF scan ord examine_dirD(3)[OF ex]] by (simp add: on_plan_def)
qed

lemma new_metadata_stopped:
  assumes "new_metadata C M G manifest fs e = Inr p" "manifest = Some m" "fs_dir fs = Some d"
  shows "\<exists>r. p = PlanStopped (ad_identity d) r (ff_actual e) (ff_staged e)"
  using assms by (auto simp: new_metadata_def)

definition plan_ordered :: "deletion_plan \<Rightarrow> bool" where
  "plan_ordered p =
     (case dp_metadata p of PlanAbsent \<Rightarrow> True | PlanStopped _ _ _ staged \<Rightarrow> bt_ordered staged)"

lemma session_open_ok:
  assumes run: "session_open C K M G is_root root gp authorized lk i manifest saved fs = Inr s"
    and ord: "bt_ordered (files_of fs)"
  shows "session_ok C (s, fs)" "plan_validate C K M G (ses_plan s) i manifest = Inr ()"
    "\<And>p. saved = Some p \<Longrightarrow> ses_plan s = p"
proof -
  obtain e where group: "\<not> fs_group fs" and dir: "check_directory manifest saved fs = Inr ()"
    and ex: "(case fs_dir fs of None \<Rightarrow> Inr \<lparr>ff_actual = [], ff_staged = []\<rparr>
        | Some d \<Rightarrow> examine_dir C lk manifest saved d) = Inr e"
    and s: "ses_open s = (fs_dir fs \<noteq> None)" and valid: "plan_validate C K M G (ses_plan s) i manifest = Inr ()"
    and plan: "saved = Some (ses_plan s) \<or>
      (saved = None \<and> new_metadata C M G manifest fs e = Inr (dp_metadata (ses_plan s)))"
    using run by (auto simp: session_open_def split: option.splits)
  show "plan_validate C K M G (ses_plan s) i manifest = Inr ()" by (rule valid)
  show "ses_plan s = p" if "saved = Some p" for p using plan that by auto
  have "on_plan C (ses_plan s) fs"
  proof (cases "fs_dir fs")
    case (Some d)
    have exd: "examine_dir C lk manifest saved d = Inr e" using ex Some by simp
    obtain dir r files staged where p: "dp_metadata (ses_plan s) = PlanStopped dir r files staged"
      and id: "ad_owned d" "ad_identity d = dir"
      and new: "saved = Some (ses_plan s) \<or> (files = ff_actual e \<and> staged = ff_staged e)"
      using plan
    proof
      assume saved: "saved = Some (ses_plan s)"
      then show thesis using that dir Some
        by (cases "dp_metadata (ses_plan s)") (auto simp: check_directory_def)
    next
      assume "saved = None \<and> new_metadata C M G manifest fs e = Inr (dp_metadata (ses_plan s))"
      then obtain r where "dp_metadata (ses_plan s) = PlanStopped (ad_identity d) r (ff_actual e) (ff_staged e)"
        using Some examine_dirD(2)[OF exd] new_metadata_stopped by fastforce
      moreover have "ad_owned d" using dir Some by (auto simp: check_directory_def)
      ultimately show thesis using that by simp
    qed
    show ?thesis
      using examined_on_plan[OF exd _ id p new Some] ord Some by (simp add: files_of_def)
  qed (rule on_plan_gone)
  then show "session_ok C (s, fs)" using s group by (simp add: session_ok_def)
qed

section \<open>A session can be opened again\<close>

lemma scan_again:
  assumes "\<forall>(n, f) \<in> set xs. planned_file C files staged n f" "distinct (map fst xs)"
    and "bt_ordered staged" "length staged \<le> max_staged_files" "within_staged (staged_total 0 staged)"
    and "bt_ordered (ff_staged s)" "submap (ff_staged s) staged"
    and "\<forall>n \<in> fst ` set xs. bt_get n (ff_staged s) = None"
  shows "\<exists>t. try_fold (scan_file C) s xs = Inr t"
  using assms
proof (induction xs arbitrary: s)
  case (Cons x xs)
  obtain n f where x: "x = (n, f)" by (cases x)
  have pf: "planned_file C files staged n f" using Cons.prems(1) by (simp add: x)
  show ?case
  proof (cases "n \<in> set metadata_names")
    case True
    then obtain e where "file_entry C f = Inr e" using pf by (auto simp: planned_file_def)
    then show ?thesis using True Cons by (simp add: x scan_file_def)
  next
    case False
    then obtain e where e: "file_entry C f = Inr e" "bt_get n staged = Some e" "is_staging_name C n"
      using pf by (auto simp: planned_file_def)
    let ?next = "bt_insert n e (ff_staged s)"
    have none: "bt_get n (ff_staged s) = None" using Cons.prems(8) by (simp add: x)
    have sub: "submap ?next staged" "bt_ordered ?next"
      using submap_insert[OF Cons.prems(7) e(2)] Cons.prems(6) by (simp_all add: bt_ordered_insert)
    have len: "length ?next = Suc (length (ff_staged s))"
      using length_bt_insert[OF Cons.prems(6), of n e] none by (simp add: bt_contains_def)
    have "length (ff_staged s) < max_staged_files"
      using submap_length[OF sub(2) Cons.prems(3) sub(1)] len Cons.prems(4) by simp
    moreover have "sum_list (map pe_len (bt_values ?next)) \<le> sum_list (map pe_len (bt_values staged))"
      using submap_sum[OF sub(2) Cons.prems(3) sub(1), of "\<lambda>e. pe_len (snd e)"]
      by (simp add: bt_values_def comp_def)
    then have "within_staged (staged_total (pe_len e) (ff_staged s))"
      using Cons.prems(5) sum_bt_insert[OF Cons.prems(6) none, of pe_len e] by (simp add: within_staged_total)
    ultimately have "scan_file C s (n, f) = Inr (s\<lparr>ff_staged := ?next\<rparr>)"
      using e False by (simp add: scan_file_def)
    moreover have "\<exists>t. try_fold (scan_file C) (s\<lparr>ff_staged := ?next\<rparr>) xs = Inr t"
    proof (rule Cons.IH)
      show "\<forall>m \<in> fst ` set xs. bt_get m (ff_staged (s\<lparr>ff_staged := ?next\<rparr>)) = None"
        using Cons.prems(2,8) by (auto simp: x)
    qed (use Cons.prems sub in \<open>auto simp: x\<close>)
    ultimately show ?thesis by (simp add: x)
  qed
qed simp

lemma session_open_ordered:
  assumes run: "session_open C K M G is_root root gp authorized lk i manifest None fs = Inr s"
    and ord: "bt_ordered (files_of fs)"
  shows "plan_ordered (ses_plan s)"
proof -
  obtain e where ex: "(case fs_dir fs of None \<Rightarrow> Inr \<lparr>ff_actual = [], ff_staged = []\<rparr>
        | Some d \<Rightarrow> examine_dir C lk manifest None d) = Inr e"
    and new: "new_metadata C M G manifest fs e = Inr (dp_metadata (ses_plan s))"
    using run by (auto simp: session_open_def)
  show ?thesis
  proof (cases "dp_metadata (ses_plan s)")
    case PlanAbsent
    then show ?thesis by (simp add: plan_ordered_def)
  next
    case (PlanStopped dir r files staged)
    then obtain d where d: "fs_dir fs = Some d" "staged = ff_staged e"
      using new by (auto simp: new_metadata_def split: option.splits)
    then have "scan_dir C d = Inr e" using ex examine_dirD(1) by fastforce
    then show ?thesis
      using PlanStopped d scan_dirD(6) ord by (auto simp: plan_ordered_def files_of_def)
  qed
qed

lemma plan_validate_stopped:
  assumes "plan_validate C K M G p i manifest = Inr ()" "dp_metadata p = PlanStopped dir r files staged"
  shows "manifest \<noteq> None" "length staged \<le> max_staged_files" "within_staged (staged_total 0 staged)"
    "\<exists>e. bt_get lock_name files = Some e \<and> pe_len e = 0"
  using assms by (auto simp: plan_validate_def inventory_validate_def content_matches_def split: option.splits)

lemma planned_of_file:
  "planned_file C files staged n f \<Longrightarrow> bt_get n (ad_files d) = Some f \<Longrightarrow>
    planned C d (if n \<in> set metadata_names then files else staged) n = Inr ()"
  by (auto simp: planned_file_def planned_def same_entry_def split: if_splits)

lemma bt_get_key: "n \<in> fst ` set m \<Longrightarrow> \<exists>e. bt_get n m = Some e"
  by (metis bt_get_def map_of_eq_None_iff not_Some_eq)

lemma examine_again:
  assumes on: "on_plan C p fs" and d: "fs_dir fs = Some d"
    and valid: "plan_validate C K M G p i manifest = Inr ()" and ord: "plan_ordered p"
  shows "\<exists>e. examine_dir C FlockHeld manifest (Some p) d = Inr e"
proof -
  obtain dir r files staged where p: "dp_metadata p = PlanStopped dir r files staged"
    and facts: "bt_ordered (ad_files d)" "lock_last (ad_files d)"
    and files: "\<And>name f. bt_get name (ad_files d) = Some f \<Longrightarrow> planned_file C files staged name f"
    using on_planD[OF on d] by metis
  note v = plan_validate_stopped[OF valid p]
  have pf: "\<forall>(n, f) \<in> set (ad_files d). planned_file C files staged n f"
    using files bt_get_iff_mem[OF facts(1)] by blast
  have "\<exists>t. try_fold (scan_file C) \<lparr>ff_actual = [], ff_staged = []\<rparr> (ad_files d) = Inr t"
    using ord p by (intro scan_again[OF pf bt_ordered_distinct[OF facts(1)] _ v(2,3)])
      (simp_all add: plan_ordered_def)
  then obtain t where t: "scan_dir C d = Inr t" by (auto simp: scan_dir_def)
  note scan = scan_dirD[OF t facts(1)]
  have held: "take_lifecycle C FlockHeld True d = Inr (bt_contains lock_name (ad_files d))"
    using files[of lock_name] v(4) by (cases "bt_get lock_name (ad_files d)")
      (auto simp: take_lifecycle_def bt_contains_def planned_file_def metadata_names_def)
  have "bt_contains lock_name (ad_files d) \<or> ff_actual t = []"
  proof (rule disjCI)
    assume "ff_actual t \<noteq> []"
    then obtain n e where "bt_get n (ff_actual t) = Some e"
      by (metis bt_get_simps(2) list.exhaust prod.exhaust)
    then have n: "n \<in> set metadata_names" "bt_get n (slot t n) = Some e"
      using scan(3) by (force simp: slot_def)+
    then have "bt_contains n (ad_files d)" using scan(2)[of n] by (auto simp: bt_contains_def)
    then show "bt_contains lock_name (ad_files d)" using facts(2) n(1) by (auto simp: lock_last_def)
  qed
  moreover have "planned C d files n = Inr ()" if in_map: "n \<in> fst ` set (ff_actual t)" for n
  proof -
    obtain e where e: "bt_get n (ff_actual t) = Some e" using bt_get_key[OF in_map] by blast
    then have n: "n \<in> set metadata_names" using scan(3) by force
    then obtain f where f: "bt_get n (ad_files d) = Some f" using e scan(2)[of n] by (auto simp: slot_def)
    show ?thesis using planned_of_file[OF files[OF f] f] n by simp
  qed
  moreover have "planned C d staged n = Inr ()" if in_map: "n \<in> fst ` set (ff_staged t)" for n
  proof -
    obtain e where e: "bt_get n (ff_staged t) = Some e" using bt_get_key[OF in_map] by blast
    then have n: "n \<notin> set metadata_names" using scan(4) by force
    then obtain f where f: "bt_get n (ad_files d) = Some f" using e scan(2)[of n] by (auto simp: slot_def)
    show ?thesis using planned_of_file[OF files[OF f] f] n by simp
  qed
  ultimately have "plan_matches_dir C p d t = Inr ()" by (simp add: plan_matches_dir_def p)
  then show ?thesis
    using v(1) held t \<open>bt_contains lock_name (ad_files d) \<or> ff_actual t = []\<close>
    by (simp add: examine_dir_def)
qed

lemma session_reopen:
  assumes ok: "session_ok C (s, fs)" and valid: "plan_validate C K M G (ses_plan s) i manifest = Inr ()"
    and ord: "plan_ordered (ses_plan s)"
    and scope: "retirement_group_ok gp" "scope_matches C M is_root root gp i manifest = Inr ()"
  shows "session_open C K M G is_root root gp (Inr lock) FlockHeld i manifest (Some (ses_plan s)) fs = Inr s"
proof -
  have on: "on_plan C (ses_plan s) fs" "ses_open s = (fs_dir fs \<noteq> None)" "\<not> fs_group fs"
    using ok by (auto simp: session_ok_def)
  have "check_directory manifest (Some (ses_plan s)) fs = Inr ()"
    using on(1) by (auto simp: check_directory_def on_plan_def split: option.splits plan_metadata.splits)
  moreover have "\<exists>e. (case fs_dir fs of None \<Rightarrow> Inr \<lparr>ff_actual = [], ff_staged = []\<rparr>
        | Some d \<Rightarrow> examine_dir C FlockHeld manifest (Some (ses_plan s)) d) = Inr e"
    using examine_again[OF on(1) _ valid ord] by (cases "fs_dir fs") auto
  ultimately show ?thesis using valid scope on(2,3) by (auto simp: session_open_def)
qed

end
