(* ===== verification/Deletion_Properties.thy ===== *)
theory Deletion_Properties
  imports Deletion_Laws Samples
begin

text \<open>
  What the removal of a retired allocation's metadata guarantees: the loop ends, an interrupted
  removal can be taken up again until the directory is gone, and no step removes a file that
  the plan does not list or leaves metadata without its lifecycle lock.
\<close>

section \<open>The steps of the loop\<close>

text \<open>The outcome of the \<open>n\<close>-th step, while the steps before it ask for another.\<close>

fun remove_steps ::
    "crates \<Rightarrow> (nat \<Rightarrow> unlink_fault) \<Rightarrow> nat \<Rightarrow> session \<times> alloc_fs \<Rightarrow> (unit + bool) \<times> (session \<times> alloc_fs)" where
  "remove_steps C faults 0 x = (Inr False, x)"
| "remove_steps C faults (Suc n) x =
     (case remove_steps C faults n x of
        (Inr False, y) \<Rightarrow> remove_next C (faults n) y
      | z \<Rightarrow> z)"

lemma steps_shrink:
  "fst (remove_steps C faults n x) = Inr False \<Longrightarrow>
    n + length (files_of (snd (snd (remove_steps C faults n x)))) \<le> length (files_of (snd x))"
proof (induction n)
  case (Suc n)
  obtain r s fs where at: "remove_steps C faults n x = (r, (s, fs))" by (metis prod.exhaust)
  obtain q t gs where step: "remove_next C (faults n) (s, fs) = (q, (t, gs))" by (metis prod.exhaust)
  have "r = Inr False" "q = Inr False"
    using Suc.prems at step by (cases r; auto split: bool.splits)+
  then show ?case
    using Suc.IH at step remove_next_shrinks[of C "faults n" s fs t gs] by simp
qed simp

lemma remove_all_from:
  "fst (remove_steps C faults n x) = Inr False \<Longrightarrow>
    remove_all C faults 0 x = remove_all C faults n (snd (remove_steps C faults n x))"
proof (induction n)
  case (Suc n)
  obtain r y where at: "remove_steps C faults n x = (r, y)" by (metis prod.exhaust)
  have r: "r = Inr False" using Suc.prems at by (cases r; auto split: bool.splits)
  then show ?case
    using Suc at by (cases "remove_next C (faults n) y") (simp add: remove_all.simps[of C faults n])
qed simp

text \<open>C34: The loop that removes the metadata ends: whatever befalls its steps, one of the first
  \<open>n + 1\<close> steps on a directory with \<open>n\<close> files fails or reports that all is removed, and what the
  loop returns is the outcome of that step.\<close>

theorem removal_terminates:
  "\<exists>n \<le> Suc (length (files_of (snd x))). fst (remove_steps C faults n x) \<noteq> Inr False \<and>
    remove_all C faults 0 x =
      (map_ok (\<lambda>_. ()) (fst (remove_steps C faults n x)), snd (remove_steps C faults n x))"
proof -
  define n where "n = (LEAST n. fst (remove_steps C faults n x) \<noteq> Inr False)"
  let ?bad = "\<lambda>n. fst (remove_steps C faults n x) \<noteq> Inr False"
  have ex: "?bad (Suc (length (files_of (snd x))))"
    using steps_shrink[of C faults "Suc (length (files_of (snd x)))" x] by linarith
  have bad: "?bad n" unfolding n_def by (rule LeastI[of ?bad, OF ex])
  have le: "n \<le> Suc (length (files_of (snd x)))" unfolding n_def by (rule Least_le[of ?bad, OF ex])
  then obtain m where m: "n = Suc m" using bad by (cases n) auto
  have "\<not> ?bad m" using not_less_Least[of m ?bad] unfolding n_def[symmetric] m by simp
  moreover obtain r y where step: "remove_next C (faults m) (snd (remove_steps C faults m x)) = (r, y)"
    by (metis prod.exhaust)
  ultimately have last: "remove_steps C faults n x = (r, y)"
    by (cases "remove_steps C faults m x") (simp add: m)
  then have "remove_all C faults m (snd (remove_steps C faults m x)) = (map_ok (\<lambda>_. ()) r, y)"
    using bad step by (cases r) (auto simp: remove_all.simps[of C faults m] split: bool.splits)
  then show ?thesis
    using remove_all_from[of C faults m x] \<open>\<not> ?bad m\<close> bad le last by auto
qed

section \<open>A stopped guardian's directory\<close>

definition stopped_manifest :: manifest where
  "stopped_manifest =
     (let a = \<lparr>art_path = ''/x'', art_sha256 = replicate 64 (CHR ''a'')\<rparr> in
      \<lparr>mn_launch_permit = Some (sample_permit 1),
       mn_config = \<lparr>gc_state_root = ''/s'', gc_cgroup_parent = ''/sys/fs/cgroup/h'', gc_firecracker = a, gc_jailer = a,
         gc_kernel = a, gc_rootfs = a, gc_jail_uid = 65534, gc_jail_gid = 65534\<rparr>,
       mn_start = \<lparr>gs_owner = \<lparr>go_host = sample_host, go_project = ProjectId (sample_uuid 2),
             go_sandbox = SandboxId (sample_uuid 3), go_allocation = AllocationId (sample_uuid 101),
             go_create_operation = OperationId (sample_uuid 201), go_generation = 1, go_epoch = 1\<rparr>,
           gs_vcpu = 1, gs_memory_mib = 512, gs_disk_mib = 1024, gs_expires = 2000\<rparr>\<rparr>)"

definition zero_digest :: string where "zero_digest = replicate 64 (CHR ''0'')"

definition stopped_receipt :: guardian_receipt where
  "stopped_receipt =
     \<lparr>gr_version = 1, gr_owner = gs_owner (mn_start stopped_manifest), gr_digest = zero_digest,
      gr_host_boot_id = [], gr_state = GStopped, gr_cleanup_confirmed = True, gr_renewal_revision = 0,
      gr_expires = 0, gr_guardian_pid = None, gr_guardian_ticks = None, gr_firecracker_pid = None,
      gr_cgroup_inode = None, gr_reason = None, gr_identity_digest = None, gr_identity_expires = None,
      gr_guest_boot_id = None\<rparr>"

definition stopped_dir :: alloc_dir where
  "stopped_dir =
     \<lparr>ad_identity = \<lparr>fi_device = 1, fi_inode = 7\<rparr>, ad_owned = True,
      ad_files = [(''lifecycle.lock'', new_file [] (1, 8)), (''manifest.json'', new_file [] (1, 9)),
        (''receipt.json'', new_file [] (1, 10))]\<rparr>"

definition stopped_entry :: "nat \<Rightarrow> plan_entry" where
  "stopped_entry n = \<lparr>pe_identity = \<lparr>fi_device = 1, fi_inode = n\<rparr>, pe_len = 0, pe_sha256 = zero_digest\<rparr>"

definition stopped_fs :: alloc_fs where "stopped_fs = \<lparr>fs_dir = Some stopped_dir, fs_group = False\<rparr>"

definition stopped_session :: session where
  "stopped_session =
     \<lparr>ses_plan = \<lparr>dp_version = 2, dp_intent_sha256 = zero_digest,
        dp_metadata = PlanStopped (ad_identity stopped_dir) stopped_receipt
          [(''lifecycle.lock'', stopped_entry 8), (''manifest.json'', stopped_entry 9), (''receipt.json'', stopped_entry 10)] []\<rparr>,
      ses_open = True\<rparr>"

lemma zero_digests: "ref_hex_encode (ref_sha256 []) = zero_digest"
proof -
  have "ref_hex_encode (replicate n 0) = replicate (2 * n) (CHR ''0'')" for n
    by (induction n) (simp_all add: hex_digit_def)
  from this[of 32] show ?thesis by (simp add: ref_sha256_def zero_digest_def)
qed

lemma stopped_file_entry: "file_entry ref_crates (new_file [] (1, n)) = Inr (stopped_entry n)"
  by (simp add: file_entry_def private_file_def new_file_def stopped_entry_def zero_digests max_metadata_bytes_def)

lemma stopped_opened:
  "session_open ref_crates sample_intent_json (table_json [stopped_manifest]) (table_json [stopped_receipt]) True ''/s''
     ''/sys/fs/cgroup/h'' (Inr (new_file [] (1, 6))) FlockHeld sample_intent (Some stopped_manifest) None stopped_fs =
   Inr stopped_session"
proof -
  have j: "to_vec (table_json [x]) x = Some []" "from_slice (table_json [x]) [] = Some x" for x
    by (simp_all add: table_json_def)
  have group: "retirement_group_ok ''/sys/fs/cgroup/h''"
  proof -
    have "path_components ''/sys/fs/cgroup/h'' = [''/'', ''sys'', ''fs'', ''cgroup'', ''h'']"
      "path_components ''/sys/fs/cgroup/'' = [''/'', ''sys'', ''fs'', ''cgroup'']"
      "path_components ''/sys/fs/cgroup'' = [''/'', ''sys'', ''fs'', ''cgroup'']"
      by code_simp+
    then show ?thesis by (simp add: retirement_group_ok_def path_starts_with_def path_eq_def)
  qed
  have scope: "scope_matches ref_crates (table_json [stopped_manifest]) True ''/s'' ''/sys/fs/cgroup/h'' sample_intent
      (Some stopped_manifest) = Inr ()"
  proof -
    have "length (manifest_socket ref_crates stopped_manifest) < 100"
      using uuid_lawsD(2)[OF ref_uuid_laws]
      by (simp add: manifest_socket_def manifest_directory_def path_join_def stopped_manifest_def show_allocation_def
          display_prefixed_def Let_def)
    moreover have "path_components ''/s'' = [''/'', ''s'']" by code_simp
    moreover have "permit_matches_owner (sample_permit 1) (gs_owner (mn_start stopped_manifest))"
      by (simp add: permit_matches_owner_def stopped_manifest_def sample_permit_def Let_def)
    moreover have "artifact_ok \<lparr>art_path = ''/x'', art_sha256 = replicate 64 (CHR ''a'')\<rparr>"
      by (simp add: artifact_ok_def path_absolute_def lower_hex_def list_all_iff ascii_digit_def)
    ultimately show ?thesis
      using group j(1)[of stopped_manifest]
      by (simp add: scope_matches_def manifest_validate_def stopped_manifest_def Let_def supported_iff path_absolute_def
          retirement_group_ok_def path_eq_def sample_intent_def)
  qed
  have digest: "manifest_digest ref_crates (table_json [stopped_manifest]) stopped_manifest = Inr zero_digest"
    by (simp add: manifest_digest_def j zero_digests)
  note entry = stopped_file_entry
  have intent: "intent_digest ref_crates sample_intent_json sample_intent = Inr (ref_sha256 [])"
    using sample_intent_ok by (simp add: intent_digest_def intent_encode_def retire_max_bytes_def)
  have scan: "scan_dir ref_crates stopped_dir = Inr \<lparr>ff_actual =
      [(''lifecycle.lock'', stopped_entry 8), (''manifest.json'', stopped_entry 9), (''receipt.json'', stopped_entry 10)],
      ff_staged = []\<rparr>"
    by (simp add: scan_dir_def stopped_dir_def scan_file_def metadata_names_def lock_name_def entry[simplified])
  have receipt: "manifest_validate_receipt ref_crates (table_json [stopped_manifest]) stopped_manifest stopped_receipt = Inr ()"
    by (simp add: manifest_validate_receipt_def digest stopped_receipt_def)
  have dir: "check_directory (Some stopped_manifest) None stopped_fs = Inr ()"
    "fs_dir stopped_fs = Some stopped_dir" "\<not> fs_group stopped_fs"
    by (simp_all add: check_directory_def stopped_fs_def stopped_dir_def)
  let ?files = "[(''lifecycle.lock'', stopped_entry 8), (''manifest.json'', stopped_entry 9),
    (''receipt.json'', stopped_entry 10)]"
  have examined: "examine_dir ref_crates FlockHeld (Some stopped_manifest) None stopped_dir =
      Inr \<lparr>ff_actual = ?files, ff_staged = []\<rparr>"
    by (simp add: examine_dir_def take_lifecycle_def scan metadata_names_def)
      (simp add: stopped_dir_def lock_name_def entry[simplified] stopped_entry_def ex_bool_eq)
  have new: "new_metadata ref_crates (table_json [stopped_manifest]) (table_json [stopped_receipt]) (Some stopped_manifest)
      stopped_fs \<lparr>ff_actual = ?files, ff_staged = []\<rparr> =
      Inr (PlanStopped (ad_identity stopped_dir) stopped_receipt ?files [])"
    by (simp add: new_metadata_def read_metadata_def dir receipt digest)
      (simp add: stopped_dir_def max_metadata_bytes_def j digest receipt stopped_receipt_def)
  have "plan_validate ref_crates sample_intent_json (table_json [stopped_manifest]) (table_json [stopped_receipt])
      (ses_plan stopped_session) sample_intent (Some stopped_manifest) = Inr ()"
    by (simp add: plan_validate_def stopped_session_def intent zero_digests inventory_validate_def receipt j
        content_matches_def metadata_names_def lock_name_def entry_digest_ok_def stopped_entry_def max_metadata_bytes_def)
      (simp add: zero_digest_def stopped_receipt_def stopped_dir_def bt_contains_def within_staged_total bt_values_def
        lower_hex_def ascii_digit_def list_all_iff)
  then show ?thesis
    by (simp add: session_open_def group scope dir examined new intent zero_digests stopped_session_def)
qed

section \<open>Attempts\<close>

text \<open>Attempts at the removal, each ended by a failure or a crash, or successful.\<close>

fun attempts :: "crates \<Rightarrow> (nat \<Rightarrow> unlink_fault) list \<Rightarrow> session \<times> alloc_fs \<Rightarrow> session \<times> alloc_fs" where
  "attempts C [] x = x"
| "attempts C (faults # fss) x = attempts C fss (snd (remove_all C faults 0 x))"

definition removed_since :: "crates \<Rightarrow> session \<times> alloc_fs \<Rightarrow> session \<times> alloc_fs \<Rightarrow> bool" where
  "removed_since C x y =
     (session_ok C y \<and> ses_plan (fst y) = ses_plan (fst x) \<and>
      (\<forall>d'. fs_dir (snd y) = Some d' \<longrightarrow>
         (\<exists>d. fs_dir (snd x) = Some d \<and> ad_identity d' = ad_identity d \<and> submap (ad_files d') (ad_files d))))"

lemma removed_since_next: "preserves (removed_since C x) (remove_next C fault)"
proof (rule preservesI)
  fix y assume y: "removed_since C x y"
  obtain s fs where yp: "y = (s, fs)" by (cases y)
  obtain r s' fs' where run: "remove_next C fault (s, fs) = (r, (s', fs'))" by (metis prod.exhaust)
  have "session_ok C (s', fs')"
    using preservesD[OF remove_next_ok, of C y fault] y run by (simp add: removed_since_def yp)
  moreover have "submap (bt_remove name m) m" for name and m :: "(string, meta_file) btmap"
    by (simp add: submap_def)
  then have "submap (bt_remove name m) m'" if "submap m m'" for name and m m' :: "(string, meta_file) btmap"
    using that by (simp add: submap_def)
  ultimately show "removed_since C x (snd (remove_next C fault y))"
    using remove_next_effect[OF run] y unfolding yp run
    by (auto simp: removed_since_def drop_file_def)
qed

lemma removed_since_all: "removed_since C x y \<Longrightarrow> removed_since C x (snd (remove_all C faults k y))"
proof (induction C faults k y rule: remove_all.induct)
  case (1 C faults k y)
  have step: "removed_since C x (snd (remove_next C (faults k) y))"
    using preservesD[OF removed_since_next 1(2)] .
  obtain r z where r: "remove_next C (faults k) y = (r, z)" by (metis prod.exhaust)
  show ?case
  proof (cases r)
    case (Inl e)
    then show ?thesis using step r by (simp add: remove_all.simps[of C faults k y])
  next
    case (Inr b)
    then show ?thesis using step r 1(1)[OF r[symmetric] _ , of b]
      by (cases b) (simp_all add: remove_all.simps[of C faults k y])
  qed
qed

lemma removed_since_attempts: "removed_since C x y \<Longrightarrow> removed_since C x (attempts C fss y)"
  by (induction fss arbitrary: y) (simp_all add: removed_since_all)

lemma opened_removed_since:
  assumes "session_open C K M G is_root root gp authorized lk i manifest None fs = Inr s" "bt_ordered (files_of fs)"
  shows "removed_since C (s, fs) (attempts C fss (s, fs))"
  using session_open_ok(1)[OF assms] by (intro removed_since_attempts) (auto simp: removed_since_def submap_def)

text \<open>C32: After a session was opened and its plan retained, any number of attempts at the removal may
  fail at any step: the retained plan opens the same session again, and an attempt without a
  failure then ends with the directory gone.\<close>

theorem removal_recovers:
  assumes "session_open C K M G is_root root gp authorized lk i manifest None fs = Inr s"
    and "bt_ordered (files_of fs)" "attempts C fss (s, fs) = (s', fs')"
  shows "session_open C K M G is_root root gp (Inr lock) FlockHeld i manifest (Some (ses_plan s)) fs' = Inr s' \<and>
    fst (remove_all C (\<lambda>_. UnlinkFine) 0 (s', fs')) = Inr () \<and>
    fs_dir (snd (snd (remove_all C (\<lambda>_. UnlinkFine) 0 (s', fs')))) = None"
proof -
  have kept: "session_ok C (s', fs')" "ses_plan s' = ses_plan s"
    using opened_removed_since[OF assms(1,2), of fss] assms(3) by (simp_all add: removed_since_def)
  have valid: "plan_validate C K M G (ses_plan s') i manifest = Inr ()"
    using session_open_ok(2)[OF assms(1,2)] kept(2) by simp
  have scope: "retirement_group_ok gp" "scope_matches C M is_root root gp i manifest = Inr ()"
    using assms(1) by (auto simp: session_open_def)
  have "plan_ordered (ses_plan s')" using session_open_ordered[OF assms(1,2)] kept(2) by simp
  then show ?thesis
    using session_reopen[OF kept(1) valid _ scope, of lock] remove_all_fine[OF kept(1), of K M G i manifest]
      valid kept(2) by simp
qed

theorem removal_recovers_witness:
  "fst (remove_all ref_crates (\<lambda>_. UnlinkFine) 0
     (attempts ref_crates [\<lambda>k. if k = 1 then UnlinkUnsynced else UnlinkFine, \<lambda>_. UnlinkRefused]
        (stopped_session, stopped_fs))) = Inr ()"
proof -
  obtain s' fs' where ran: "attempts ref_crates [\<lambda>k. if k = 1 then UnlinkUnsynced else UnlinkFine, \<lambda>_. UnlinkRefused]
      (stopped_session, stopped_fs) = (s', fs')"
    by (metis prod.exhaust)
  have "bt_ordered (files_of stopped_fs)" by (simp add: files_of_def stopped_fs_def stopped_dir_def)
  then show ?thesis unfolding ran using removal_recovers[OF stopped_opened _ ran] by blast
qed

text \<open>C33: However the attempts at the removal go, what is left of the directory is the directory the
  plan was drawn up for, each file left in it was there unchanged, a removed file is one of the
  plan, and as long as a manifest or a receipt is left, so is the lifecycle lock.\<close>

theorem removal_order:
  assumes "session_open C K M G is_root root gp authorized lk i manifest None fs = Inr s"
    and "bt_ordered (files_of fs)" "attempts C fss (s, fs) = (s', fs')" "fs_dir fs' = Some d'"
  shows "\<exists>d dir r files staged. fs_dir fs = Some d \<and> dp_metadata (ses_plan s) = PlanStopped dir r files staged \<and>
    ad_identity d' = dir \<and> (\<forall>n f. bt_get n (ad_files d') = Some f \<longrightarrow> bt_get n (ad_files d) = Some f) \<and>
    (\<forall>n. bt_contains n (ad_files d) \<longrightarrow> \<not> bt_contains n (ad_files d') \<longrightarrow> bt_contains n files \<or> bt_contains n staged) \<and>
    (bt_contains ''manifest.json'' (ad_files d') \<or> bt_contains ''receipt.json'' (ad_files d') \<longrightarrow>
      bt_contains ''lifecycle.lock'' (ad_files d'))"
proof -
  have since: "removed_since C (s, fs) (s', fs')"
    using opened_removed_since[OF assms(1,2), of fss] assms(3) by simp
  then obtain d where d: "fs_dir fs = Some d" "submap (ad_files d') (ad_files d)"
    using assms(4) by (auto simp: removed_since_def)
  have "on_plan C (ses_plan s) fs" "on_plan C (ses_plan s) fs'"
    using session_open_ok(1)[OF assms(1,2)] since by (auto simp: removed_since_def session_ok_def)
  note on = this
  obtain dir r files staged where p: "dp_metadata (ses_plan s) = PlanStopped dir r files staged"
    and "ad_owned d" "ad_identity d = dir" "bt_ordered (ad_files d)" "lock_last (ad_files d)"
    and before: "\<And>n f. bt_get n (ad_files d) = Some f \<Longrightarrow> planned_file C files staged n f"
    by (rule on_planD[OF on(1) d(1)]) (rule that)
  have after: "ad_identity d' = dir" "lock_last (ad_files d')"
    using on(2) assms(4) p by (simp_all add: on_plan_def)
  have "bt_contains n files \<or> bt_contains n staged" if "bt_contains n (ad_files d)" for n
  proof -
    obtain f where "bt_get n (ad_files d) = Some f" using \<open>bt_contains n (ad_files d)\<close> by (auto simp: bt_contains_def)
    from before[OF this] show ?thesis by (auto simp: bt_contains_def planned_file_def split: if_splits)
  qed
  moreover have "bt_contains ''manifest.json'' (ad_files d') \<or> bt_contains ''receipt.json'' (ad_files d') \<Longrightarrow>
      bt_contains ''lifecycle.lock'' (ad_files d')"
    using after(2) unfolding lock_last_def metadata_names_def lock_name_def by auto
  ultimately show ?thesis
    using d(1) d(2)[unfolded submap_def] p after(1) by blast
qed

theorem removal_order_witness:
  "\<exists>d'. fs_dir (snd (attempts ref_crates [\<lambda>k. if k = 0 then UnlinkUnsynced else UnlinkFine]
        (stopped_session, stopped_fs))) = Some d' \<and>
     bt_contains ''manifest.json'' (ad_files d') \<and> bt_contains ''lifecycle.lock'' (ad_files d')"
proof -
  let ?at = "attempts ref_crates [\<lambda>k. if k = 0 then UnlinkUnsynced else UnlinkFine] (stopped_session, stopped_fs)"
  have at: "?at = (stopped_session, drop_file ''receipt.json'' stopped_fs)"
    by (simp add: remove_all.simps[of _ _ 0] remove_next_def sbind_def stopped_session_def stopped_fs_def stopped_dir_def
        next_planned_def present_def metadata_names_def on_fs_def unlink_planned_def dir_file_def same_entry_def
        stopped_file_entry[simplified] bt_contains_def)
  have "fs_dir (drop_file ''receipt.json'' stopped_fs) =
      Some (stopped_dir\<lparr>ad_files := bt_remove ''receipt.json'' (ad_files stopped_dir)\<rparr>)"
    by (simp add: drop_file_def stopped_fs_def)
  moreover have "bt_contains ''manifest.json'' (bt_remove ''receipt.json'' (ad_files stopped_dir))"
    by (simp add: stopped_dir_def bt_contains_def)
  moreover have "bt_ordered (files_of stopped_fs)" by (simp add: files_of_def stopped_fs_def stopped_dir_def)
  ultimately show ?thesis
    using removal_order[OF stopped_opened _ at] at by fastforce
qed

end
