(* ===== verification/Downloads.thy ===== *)
theory Downloads
  imports File_Access Ordered_Map
begin

text \<open>
  The tickets of files captured for download (\<open>file_downloads.rs\<close> of
  \<open>crates/sandbox-supervisor/src\<close>). A ticket lives for a minute of monotonic time; a path is
  never opened again to restore a missing one. Times are milliseconds.
\<close>

definition max_downloads :: nat where "max_downloads = 64"
definition max_allocation_downloads :: nat where "max_allocation_downloads = 8"
definition download_ttl :: nat where "download_ttl = 60000"

record ticket =
  dt_scope :: read_scope
  dt_context :: guest_context
  dt_path :: string
  dt_expires :: nat
  dt_expires_unix :: int
  dt_handle :: "download_handle option"
  dt_released :: bool

type_synonym registry = "(operation_id, ticket) btmap"
type_synonym 'a downloads = "(registry, host_status, 'a) proc"

abbreviation "dl_missing \<equiv> NotFound"
abbreviation "dl_invalid \<equiv> InvalidArgument"
abbreviation "dl_unavailable \<equiv> Unavailable"

definition dl_prune :: "nat \<Rightarrow> registry \<Rightarrow> registry" where
  "dl_prune now g = filter (\<lambda>e. now < dt_expires (snd e)) g"

definition ticket_pending :: "allocation_id \<Rightarrow> ticket \<Rightarrow> bool" where
  "ticket_pending a t = (rs_allocation (dt_scope t) = a \<and> \<not> dt_released t)"

definition dl_pending_allocation :: "allocation_id \<Rightarrow> nat \<Rightarrow> bool downloads" where
  "dl_pending_allocation a now =
     sbind (swrite (dl_prune now)) (\<lambda>_. sread (\<lambda>g. list_ex (ticket_pending a) (bt_values g)))"

definition dl_full :: "allocation_id \<Rightarrow> registry \<Rightarrow> bool" where
  "dl_full a g =
     (max_downloads \<le> length g \<or>
      max_allocation_downloads \<le> length (filter (\<lambda>t. rs_allocation (dt_scope t) = a) (bt_values g)))"

text \<open>\<open>fresh\<close> is the identity \<open>OperationId::generate\<close> returns.\<close>

definition dl_reserve ::
    "operation_id \<Rightarrow> read_scope \<Rightarrow> guest_context \<Rightarrow> string \<Rightarrow> int \<Rightarrow> nat \<Rightarrow> operation_id downloads" where
  "dl_reserve fresh s c path wall now =
     sbind (slift (map_err (\<lambda>_. dl_invalid) (read_scope_validate s))) (\<lambda>_.
     sbind (slift (map_err (\<lambda>_. dl_invalid) (validate_path path))) (\<lambda>_.
     sbind (sensure (\<not> (ctx_allocation c \<noteq> rs_allocation s \<or> ctx_generation c \<noteq> rs_generation s \<or>
        ctx_boot c = [] \<or> 64 < length (ctx_boot c))) dl_invalid) (\<lambda>_.
     sbind (swrite (dl_prune now)) (\<lambda>_.
     sbind (sread (dl_full (rs_allocation s))) (\<lambda>full.
     sbind (sensure (\<not> full) ResourceExhausted) (\<lambda>_.
     sbind (swrite (bt_insert fresh \<lparr>dt_scope = s, dt_context = c, dt_path = path,
        dt_expires = now + download_ttl, dt_expires_unix = saturating_add_i64 wall (int download_ttl),
        dt_handle = None, dt_released = False\<rparr>)) (\<lambda>_.
     sret fresh)))))))"

definition dl_handle :: "crates \<Rightarrow> operation_id \<Rightarrow> ticket \<Rightarrow> wire_file_capture \<Rightarrow> download_handle" where
  "dl_handle C i t capture =
     \<lparr>dh_id = show_operation C i, dh_context = Some (context_to_wire C (dt_context t)),
      dh_capture = Some capture, dh_expires = dt_expires_unix t\<rparr>"

definition dl_finish ::
    "crates \<Rightarrow> operation_id \<Rightarrow> wire_file_capture \<Rightarrow> nat \<Rightarrow> download_handle downloads" where
  "dl_finish C i capture now =
     sbind (swrite (dl_prune now)) (\<lambda>_.
     sbind (sread (bt_get i)) (\<lambda>x.
     sbind (slift (ok_or dl_missing x)) (\<lambda>t.
     sbind (slift (map_err (\<lambda>_. dl_unavailable) (validate_capture C capture))) (\<lambda>_.
     sbind (sensure (\<not> (wfc_path capture \<noteq> dt_path t \<or> dt_handle t \<noteq> None)) dl_unavailable) (\<lambda>_.
     let h = dl_handle C i t capture in
     sbind (swrite (bt_insert i (t\<lparr>dt_handle := Some h\<rparr>))) (\<lambda>_. sret h))))))"

definition dl_validate ::
    "crates \<Rightarrow> read_scope \<Rightarrow> download_handle \<Rightarrow> nat \<Rightarrow> bool downloads" where
  "dl_validate C s h now =
     sbind (slift (map_err (\<lambda>_. dl_invalid) (check_handle C h s))) (\<lambda>_.
     sbind (swrite (dl_prune now)) (\<lambda>_.
     sbind (slift (map_err (\<lambda>_. dl_invalid) (parse_operation C (dh_id h)))) (\<lambda>i.
     sbind (sread (bt_get i)) (\<lambda>x.
     sbind (slift (ok_or dl_missing x)) (\<lambda>t.
     sbind (sensure (\<not> (dt_scope t \<noteq> s \<or> dt_handle t \<noteq> Some h)) FailedPrecondition) (\<lambda>_.
     sret (dt_released t)))))))"

definition dl_released :: "crates \<Rightarrow> read_scope \<Rightarrow> download_handle \<Rightarrow> nat \<Rightarrow> unit downloads" where
  "dl_released C s h now =
     sbind (dl_validate C s h now) (\<lambda>_.
     sbind (slift (map_err (\<lambda>_. dl_invalid) (parse_operation C (dh_id h)))) (\<lambda>i.
     sbind (sread (bt_get i)) (\<lambda>x.
     sbind (slift (ok_or dl_missing x)) (\<lambda>t.
     swrite (bt_insert i (t\<lparr>dt_released := True\<rparr>))))))"

end
