(* ===== verification/Host_State.thy ===== *)
theory Host_State
  imports Guardian_Model Launch_Authority History Archive Downloads
begin

text \<open>
  The state of the supervisor's host (\<open>Record\<close> and \<open>Journal\<close> of \<open>host/journal.rs\<close>,
  \<open>Config\<close> of \<open>host/mod.rs\<close>, the retained retirements of \<open>host/history.rs\<close>,
  \<open>host/released_history.rs\<close> and \<open>host/metadata_retirement.rs\<close>, in
  \<open>crates/sandbox-supervisor/src\<close>), the wire messages it answers, and the machine it runs on.

  \<open>world\<close> is everything outside the process: clock readings, write faults, the answers of
  guardians and guests, process creation. Each interaction takes the answer at the current
  position of the world (\<open>hs_step\<close>) and advances it, so that a world is an arbitrary
  sequence of answers. \<open>hs_effects\<close> records the requests that leave the process and are not
  to be repeated: a command sent to a guest, a guardian process started, and the begin, the
  commit and the abort of an upload.
\<close>

section \<open>Configuration\<close>

record host_image =
  hi_kernel :: artifact
  hi_rootfs :: artifact

record host_capacity =
  hc_vcpu :: nat
  hc_memory_mib :: nat
  hc_disk_mib :: nat

record host_config =
  cfg_capabilities :: "capabilities option"
  cfg_permits_required :: bool
  cfg_host :: host_id
  cfg_epoch :: int
  cfg_state_root :: string
  cfg_cgroup_parent :: string
  cfg_guardian_binary :: string
  cfg_firecracker :: artifact
  cfg_jailer :: artifact
  cfg_images :: "(string, host_image) btmap"
  cfg_jail_uid :: nat
  cfg_jail_gid :: nat
  cfg_capacity :: host_capacity

definition guardian_config_of :: "host_config \<Rightarrow> host_image \<Rightarrow> guardian_config" where
  "guardian_config_of c img =
     \<lparr>gc_state_root = path_join (cfg_state_root c) ''a'', gc_cgroup_parent = cfg_cgroup_parent c,
      gc_firecracker = cfg_firecracker c, gc_jailer = cfg_jailer c, gc_kernel = hi_kernel img,
      gc_rootfs = hi_rootfs img, gc_jail_uid = cfg_jail_uid c, gc_jail_gid = cfg_jail_gid c\<rparr>"

section \<open>Messages\<close>

record wire_resources =
  res_vcpu :: nat
  res_memory_mib :: nat
  res_disk_mib :: nat

record create_request =
  cq_permit_json :: bytes
  cq_ownership :: "ownership option"
  cq_image :: string
  cq_resources :: "wire_resources option"
  cq_expires :: int

record lease_ownership =
  lo_host :: string
  lo_project :: string
  lo_sandbox :: string
  lo_allocation :: string
  lo_generation :: int
  lo_epoch :: int
  lo_revision :: int
  lo_expires :: int

datatype allocation_state =
    StateUnspecified | StateAbsent | StateReady | StateReleased | StateFencedAbsent

record observation =
  ob_ownership :: "ownership option"
  ob_state :: allocation_state
  ob_simulated :: bool
  ob_start_count :: nat
  ob_create_operation :: string
  ob_observed :: int
  ob_reason :: string

record lease_observation =
  lob_ownership :: "lease_ownership option"
  lob_state :: allocation_state
  lob_simulated :: bool
  lob_expires :: int
  lob_observed :: int

section \<open>Retained records\<close>

record archive_record =
  ar_ticket :: output_ticket
  ar_plans :: "output_plans option"
  ar_revision :: int

record live_retirement =
  lr_barrier :: barrier
  lr_revision :: int
  lr_requested_through :: operation_id
  lr_completed :: bool

record released_retirement =
  xr_version :: nat
  xr_through :: operation_id
  xr_requested_through :: operation_id
  xr_revision :: int
  xr_epoch :: int

record metadata_saved =
  ms_plan :: deletion_plan
  ms_removed :: bool

record host_record =
  rec_owner :: ownership
  rec_retirement :: "retire_request option"
  rec_metadata :: "metadata_saved option"
  rec_revisions :: "(string, int) btmap"
  rec_create :: "create_request option"
  rec_manifest :: "manifest option"
  rec_dispatched :: bool
  rec_stopped :: bool
  rec_released :: bool
  rec_commands :: "(string, command_record) btmap"
  rec_files :: "(string, file_record) btmap"
  rec_archives :: "(string, archive_record) btmap"
  rec_command_history :: "live_retirement option"
  rec_file_history :: "live_retirement option"
  rec_released_commands :: "released_retirement option"
  rec_released_files :: "released_retirement option"
  rec_lease_revision :: int
  rec_lease_request :: "(int \<times> int) option"

text \<open>\<open>poisoned\<close> is not serialised: \<open>retained\<close> is the part a write stores.\<close>

record retained =
  jr_authority :: "checkpoint option"
  jr_version :: nat
  jr_host :: host_id
  jr_epoch :: int
  jr_records :: "(string, host_record) btmap"

record journal =
  j_retained :: retained
  j_poisoned :: bool

definition journal_max_bytes :: nat where "journal_max_bytes = 16 * 1024 * 1024"
definition max_records :: nat where "max_records = 1024"

section \<open>The machine\<close>

datatype effect =
    SentExecute string string
  | StartedGuardian string
  | SentBegin string string
  | SentCommit string string
  | SentAbort string string

datatype cleanup_error = CleanupBusy | CleanupUncertain
datatype session_error = SessionBusy | SessionFailed

record world =
  w_wall :: "nat \<Rightarrow> int"
  w_save :: "nat \<Rightarrow> save_env"
  w_gate :: "nat \<Rightarrow> gate_env"
  w_control :: "nat \<Rightarrow> manifest \<Rightarrow> guardian_action \<Rightarrow> unit + guardian_response"
  w_fence :: "nat \<Rightarrow> manifest \<Rightarrow> cleanup_error + guardian_receipt"
  w_prepare :: "nat \<Rightarrow> manifest \<Rightarrow> bool"
  w_spawn :: "nat \<Rightarrow> bool"
  w_path_exists :: "nat \<Rightarrow> string \<Rightarrow> unit + bool"
  w_client :: "nat \<Rightarrow> manifest \<Rightarrow> unit + guest_context"
  w_execute :: "nat \<Rightarrow> execute \<Rightarrow> unit + receipt"
  w_inspect :: "nat \<Rightarrow> operation_id \<Rightarrow> unit + receipt"
  w_cancel :: "nat \<Rightarrow> operation_id \<Rightarrow> unit + receipt"
  w_fresh :: "nat \<Rightarrow> operation_id"
  w_turns :: "nat \<Rightarrow> nat"
  w_receipt :: "nat \<Rightarrow> manifest \<Rightarrow> unit + guardian_receipt"
  w_retire :: "nat \<Rightarrow> barrier \<Rightarrow> unit + unit"
  w_file_io :: "nat \<Rightarrow> bool"
  w_gate_free :: "nat \<Rightarrow> bool"
  w_readers_done :: "nat \<Rightarrow> bool"
  w_begin_upload :: "nat \<Rightarrow> upload \<Rightarrow> unit + file_receipt"
  w_commit_upload :: "nat \<Rightarrow> upload \<Rightarrow> unit + file_receipt"
  w_abort_upload :: "nat \<Rightarrow> upload \<Rightarrow> unit + file_receipt"
  w_inspect_upload :: "nat \<Rightarrow> upload \<Rightarrow> unit + file_receipt"
  w_write_file :: "nat \<Rightarrow> upload \<Rightarrow> nat \<Rightarrow> bytes \<Rightarrow> unit + nat"
  w_session :: "nat \<Rightarrow> intent \<Rightarrow> manifest option \<Rightarrow> deletion_plan option \<Rightarrow> session_error + deletion_plan \<times> bool"
  w_remove_all :: "nat \<Rightarrow> bool"
  w_plan_removed :: "nat \<Rightarrow> deletion_plan \<Rightarrow> intent \<Rightarrow> manifest option \<Rightarrow> bool"
  w_verify_absent :: "nat \<Rightarrow> intent \<Rightarrow> bool"
  w_root_sync :: "nat \<Rightarrow> bool"
  w_mono :: "nat \<Rightarrow> nat"
  w_pin :: "nat \<Rightarrow> bool"
  w_workers :: "nat \<Rightarrow> bool"
  w_source :: "nat \<Rightarrow> operation_id \<Rightarrow> out_source"
  w_store :: "nat \<Rightarrow> artifact_store"
  w_timely :: "nat \<Rightarrow> bool"
  w_output :: "nat \<Rightarrow> read_output \<Rightarrow> unit + output_chunk"
  w_capture :: "nat \<Rightarrow> string \<Rightarrow> unit + wire_file_capture"
  w_read_file :: "nat \<Rightarrow> wire_file_capture \<Rightarrow> nat \<Rightarrow> nat \<Rightarrow> unit + wire_file_chunk"
  w_release_file :: "nat \<Rightarrow> wire_file_capture \<Rightarrow> unit + unit"

text \<open>The codecs of the retained and received JSON.\<close>

record host_json =
  hj_retained :: "retained json"
  hj_record :: "host_record json"
  hj_permits :: "permit list json"
  hj_permit :: "permit json"
  hj_execute :: "execute json"
  hj_upload :: "upload json"
  hj_file :: "file_record json"
  hj_manifest :: "manifest json"
  hj_retire :: "retire_request json"
  hj_launch :: launch_json
  hj_ticket :: "output_ticket json"
  hj_plans :: "output_plans json"
  hj_refs :: "output_refs json"
  hj_live :: "live_output_scope json"
  hj_scope :: "read_scope json"
  hj_forget :: "forget_request json"

text \<open>The fixed surroundings of one host process.\<close>

record host_env =
  he_crates :: crates
  he_json :: host_json
  he_config :: host_config
  he_authority :: "authority_file option"
  he_artifacts :: bool
  he_world :: world

record host_state =
  hs_journal :: journal
  hs_files :: staged
  hs_launch :: launch_dir
  hs_downloads :: registry
  hs_step :: nat
  hs_effects :: "effect list"

type_synonym 'a host = "(host_state, host_status, 'a) proc"

text \<open>One interaction with the world: the answer at the current position.\<close>

definition ask :: "(nat \<Rightarrow> 'a) \<Rightarrow> 'a host" where
  "ask f s = (Inr (f (hs_step s)), s\<lparr>hs_step := Suc (hs_step s)\<rparr>)"

definition wall_ms :: "host_env \<Rightarrow> int host" where
  "wall_ms H = ask (w_wall (he_world H))"

definition emit :: "effect \<Rightarrow> unit host" where
  "emit e = swrite (\<lambda>s. s\<lparr>hs_effects := hs_effects s @ [e]\<rparr>)"

text \<open>An operation of the launch authority on the authority directory of the state root.\<close>

definition on_launch :: "(launch_error \<Rightarrow> host_status) \<Rightarrow> 'a launch \<Rightarrow> 'a host" where
  "on_launch f m s =
     (case m (hs_launch s) of
        (Inl e, d) \<Rightarrow> (Inl (f e), s\<lparr>hs_launch := d\<rparr>)
      | (Inr a, d) \<Rightarrow> (Inr a, s\<lparr>hs_launch := d\<rparr>))"

text \<open>An operation of the ticket registry.\<close>

definition on_downloads :: "'a downloads \<Rightarrow> 'a host" where
  "on_downloads m s =
     (case m (hs_downloads s) of
        (r, g) \<Rightarrow> (r, s\<lparr>hs_downloads := g\<rparr>))"

definition tickets_pending :: "host_env \<Rightarrow> allocation_id \<Rightarrow> bool host" where
  "tickets_pending H a =
     sbind (ask (w_mono (he_world H))) (\<lambda>now. on_downloads (dl_pending_allocation a now))"

lemma ask_simp [simp]: "ask f s = (Inr (f (hs_step s)), s\<lparr>hs_step := Suc (hs_step s)\<rparr>)"
  by (simp add: ask_def)

lemma wall_ms_simp [simp]:
  "wall_ms H s = (Inr (w_wall (he_world H) (hs_step s)), s\<lparr>hs_step := Suc (hs_step s)\<rparr>)"
  by (simp add: wall_ms_def)

lemma emit_simp [simp]: "emit e s = (Inr (), s\<lparr>hs_effects := hs_effects s @ [e]\<rparr>)"
  by (simp add: emit_def)

section \<open>Journal access and the durable save\<close>

definition uncertain :: host_status where "uncertain = Unavailable"

definition get_journal :: "retained host" where
  "get_journal =
     sbind (sread hs_journal) (\<lambda>j.
     if j_poisoned j then sfail Unavailable else sret (j_retained j))"

definition set_retained :: "retained \<Rightarrow> host_state \<Rightarrow> host_state" where
  "set_retained r = hs_journal_update (\<lambda>j. j\<lparr>j_retained := r\<rparr>)"

definition set_poisoned :: "bool \<Rightarrow> host_state \<Rightarrow> host_state" where
  "set_poisoned p = hs_journal_update (\<lambda>j. j\<lparr>j_poisoned := p\<rparr>)"

text \<open>The leftover staging file of an interrupted write is removed first.\<close>

definition journal_clear_next :: "fault \<Rightarrow> (staged, unit, unit) proc" where
  "journal_clear_next f =
     sbind (sread (\<lambda>s. s)) (\<lambda>s.
     case st_next s of
       None \<Rightarrow> sret ()
     | Some temp \<Rightarrow>
         sbind (sensure (private_file temp \<and> length (mf_bytes temp) \<le> journal_max_bytes) ()) (\<lambda>_.
         sbind (sensure (case st_main s of None \<Rightarrow> False | Some m \<Rightarrow> mf_private m) ()) (\<lambda>_.
         sbind (sensure (f \<noteq> FaultRemove) ()) (\<lambda>_.
         swrite (st_next_update (\<lambda>_. None))))))"

definition journal_write :: "retained json \<Rightarrow> save_env \<Rightarrow> retained \<Rightarrow> (staged, unit, unit) proc" where
  "journal_write J env r =
     sbind (slift (ok_or () (to_vec J r))) (\<lambda>b.
     sbind (sensure (length b \<le> journal_max_bytes) ()) (\<lambda>_.
     sbind (journal_clear_next (se_fault env)) (\<lambda>_.
     publish (se_fault env) (new_file b (se_id env)))))"

text \<open>
  \<open>save\<close>: the journal is poisoned while the write is in progress, and stays poisoned when
  any step of it fails.
\<close>

definition save_journal :: "host_env \<Rightarrow> unit host" where
  "save_journal H =
     sbind (sread hs_journal) (\<lambda>j.
     sbind (sensure (\<not> j_poisoned j) uncertain) (\<lambda>_.
     sbind (swrite (set_poisoned True)) (\<lambda>_.
     sbind (ask (w_save (he_world H))) (\<lambda>env.
     sbind (\<lambda>s. case journal_write (hj_retained (he_json H)) env (j_retained j) (hs_files s) of
                  (Inl _, fs) \<Rightarrow> (Inl uncertain, s\<lparr>hs_files := fs\<rparr>)
                | (Inr _, fs) \<Rightarrow> (Inr (), s\<lparr>hs_files := fs\<rparr>)) (\<lambda>_.
     swrite (set_poisoned False))))))"

definition put_journal :: "host_env \<Rightarrow> retained \<Rightarrow> unit host" where
  "put_journal H r = sbind (swrite (set_retained r)) (\<lambda>_. save_journal H)"

definition find_record :: "string \<Rightarrow> retained \<Rightarrow> host_record option" where
  "find_record key r = bt_get key (jr_records r)"

definition put_record :: "string \<Rightarrow> host_record \<Rightarrow> retained \<Rightarrow> retained" where
  "put_record key x = jr_records_update (bt_insert key x)"

end
