(* ===== verification/Host_Core.thy ===== *)
theory Host_Core
  imports Host_State
begin

text \<open>
  The lifecycle of allocations (\<open>host/mod.rs\<close> and \<open>host/authority.rs\<close> of
  \<open>crates/sandbox-supervisor/src\<close>): claims, the allocation gate, revision fences, stop and
  release, capacity admission, create, inspect, stop, lease renewal and the maintenance pass.
  Taking a mutex is not a step of the model: an operation on one allocation is atomic with
  respect to the others on it, as the allocation gate makes it.
\<close>

section \<open>Claims\<close>

definition check_deadline :: "host_env \<Rightarrow> int \<Rightarrow> unit host" where
  "check_deadline H until =
     sbind (wall_ms H) (\<lambda>now.
     let remaining = (case checked_sub_i64 until now of None \<Rightarrow> 0 | Some r \<Rightarrow> r) in
     if \<not> (1 \<le> remaining \<and> remaining \<le> 300000) then sfail FailedPrecondition else sret ())"

definition same_allocation :: "ownership \<Rightarrow> ownership \<Rightarrow> bool" where
  "same_allocation a b =
     (own_host a = own_host b \<and> own_project a = own_project b \<and> own_sandbox a = own_sandbox b \<and>
      own_allocation a = own_allocation b \<and> own_generation a = own_generation b \<and>
      own_epoch a = own_epoch b)"

definition check_owner :: "host_env \<Rightarrow> ownership option \<Rightarrow> ownership host" where
  "check_owner H owner =
     (let C = he_crates H; cfg = he_config H in
      sbind (slift (ok_or InvalidArgument owner)) (\<lambda>w.
      sbind (sensure (is_ok (parse_host C (own_host w)) \<and> is_ok (parse_project C (own_project w)) \<and>
         is_ok (parse_sandbox C (own_sandbox w)) \<and> is_ok (parse_allocation C (own_allocation w)) \<and>
         is_ok (parse_operation C (own_operation w))) InvalidArgument) (\<lambda>_.
      sbind (sensure (0 < own_generation w \<and> 0 < own_revision w) InvalidArgument) (\<lambda>_.
      sbind (sensure (own_host w = show_host C (cfg_host cfg) \<and> own_epoch w = cfg_epoch cfg)
               FailedPrecondition) (\<lambda>_.
      sbind (check_deadline H (own_expires w)) (\<lambda>_.
      sret w))))))"

definition retirement_check :: "host_record \<Rightarrow> host_status + unit" where
  "retirement_check r = (if rec_retirement r \<noteq> None then Inl FailedPrecondition else Inr ())"

section \<open>The allocation gate\<close>

definition fresh_record :: "ownership \<Rightarrow> host_record" where
  "fresh_record w =
     \<lparr>rec_owner = w, rec_retirement = None, rec_metadata = None, rec_revisions = [],
      rec_create = None, rec_manifest = None, rec_dispatched = False, rec_stopped = False,
      rec_released = False, rec_commands = [], rec_files = [], rec_archives = [],
      rec_command_history = None, rec_file_history = None, rec_released_commands = None,
      rec_released_files = None, rec_lease_revision = 0, rec_lease_request = None\<rparr>"

text \<open>A missing row is admitted only for a registered active allocation of this owner.\<close>

definition authorize_new :: "host_env \<Rightarrow> retained \<Rightarrow> ownership \<Rightarrow> unit host" where
  "authorize_new H j w =
     (case he_authority H of
        None \<Rightarrow> sret ()
      | Some _ \<Rightarrow>
          let C = he_crates H in
          sbind (slift (ok_or uncertain (jr_authority j))) (\<lambda>ck.
          sbind (slift (map_err (\<lambda>_. uncertain) (parse_allocation C (own_allocation w)))) (\<lambda>a.
          sbind (ask (w_gate (he_world H))) (\<lambda>g.
          sbind (on_launch (\<lambda>_. FailedPrecondition)
            (authorize_registered_allocation C (hj_launch (he_json H)) g (cfg_host (he_config H))
              (cfg_epoch (he_config H)) (ck_through ck) a)) (\<lambda>(p, _).
          sensure (show_project C (permit_project p) = own_project w \<and>
                   show_sandbox C (permit_sandbox p) = own_sandbox w \<and>
                   permit_generation p = own_generation w) FailedPrecondition)))))"

definition host_gate :: "host_env \<Rightarrow> ownership \<Rightarrow> unit host" where
  "host_gate H w =
     sbind get_journal (\<lambda>j.
     case find_record (own_allocation w) j of
       Some r \<Rightarrow>
         sbind (sensure (same_allocation (rec_owner r) w) FailedPrecondition) (\<lambda>_.
         slift (retirement_check r))
     | None \<Rightarrow>
         sbind (sensure (length (jr_records j) < max_records) ResourceExhausted) (\<lambda>_.
         sbind (authorize_new H j w) (\<lambda>_.
         put_journal H (put_record (own_allocation w) (fresh_record w) j))))"

section \<open>Fences\<close>

text \<open>
  \<open>entry(operation).or_default()\<close> creates the entry before the claim is compared, so a
  refused claim with a negative revision leaves a zero entry in memory.
\<close>

definition host_fence :: "host_env \<Rightarrow> ownership \<Rightarrow> host_record host" where
  "host_fence H w =
     sbind (check_deadline H (own_expires w)) (\<lambda>_.
     sbind get_journal (\<lambda>j.
     sbind (slift (ok_or uncertain (find_record (own_allocation w) j))) (\<lambda>r.
     sbind (sensure (same_allocation (rec_owner r) w) FailedPrecondition) (\<lambda>_.
     sbind (slift (retirement_check r)) (\<lambda>_.
     sbind (sensure (bt_contains (own_operation w) (rec_revisions r) \<or> length (rec_revisions r) < 64)
              ResourceExhausted) (\<lambda>_.
     let revision = (case bt_get (own_operation w) (rec_revisions r) of None \<Rightarrow> 0 | Some n \<Rightarrow> n);
         entered = r\<lparr>rec_revisions := bt_insert (own_operation w) revision (rec_revisions r)\<rparr>;
         fenced = r\<lparr>rec_revisions := bt_insert (own_operation w) (own_revision w) (rec_revisions r)\<rparr> in
     if own_revision w < revision
     then sbind (swrite (set_retained (put_record (own_allocation w) entered j))) (\<lambda>_.
          sfail FailedPrecondition)
     else sbind (put_journal H (put_record (own_allocation w) fenced j)) (\<lambda>_. sret fenced)))))))"

definition host_stopped :: "host_env \<Rightarrow> string \<Rightarrow> unit host" where
  "host_stopped H key =
     sbind get_journal (\<lambda>j.
     sbind (slift (ok_or uncertain (find_record key j))) (\<lambda>r.
     put_journal H (put_record key (r\<lparr>rec_stopped := True\<rparr>) j)))"

definition host_released :: "host_env \<Rightarrow> string \<Rightarrow> unit host" where
  "host_released H key =
     sbind get_journal (\<lambda>j.
     sbind (slift (ok_or uncertain (find_record key j))) (\<lambda>r.
     if rec_released r then sret ()
     else put_journal H (put_record key (r\<lparr>rec_stopped := True, rec_released := True\<rparr>) j)))"

section \<open>Admission\<close>

definition host_manifest :: "host_env \<Rightarrow> ownership \<Rightarrow> create_request \<Rightarrow> manifest host" where
  "host_manifest H w q =
     (let C = he_crates H; cfg = he_config H in
      sbind (slift (ok_or PermissionDenied (bt_get (cq_image q) (cfg_images cfg)))) (\<lambda>img.
      sbind (slift (ok_or InvalidArgument (cq_resources q))) (\<lambda>r.
      sbind (sensure (supported (int (res_vcpu r)) (int (res_memory_mib r)) (int (res_disk_mib r)))
               InvalidArgument) (\<lambda>_.
      sbind (sensure (case cfg_capabilities cfg of None \<Rightarrow> True
               | Some c \<Rightarrow> cap_supports c (cq_image q) (res_vcpu r) (res_memory_mib r) (res_disk_mib r))
               FailedPrecondition) (\<lambda>_.
      sbind (check_deadline H (cq_expires q)) (\<lambda>_.
      sbind (slift (case he_authority H of
               None \<Rightarrow> Inr None
             | Some _ \<Rightarrow> map_ok Some (ok_or InvalidArgument
                          (from_slice (hj_permit (he_json H)) (cq_permit_json q))))) (\<lambda>permit.
      sbind (slift (map_err (\<lambda>_. uncertain) (parse_project C (own_project w)))) (\<lambda>project.
      sbind (slift (map_err (\<lambda>_. uncertain) (parse_sandbox C (own_sandbox w)))) (\<lambda>sandbox.
      sbind (slift (map_err (\<lambda>_. uncertain) (parse_allocation C (own_allocation w)))) (\<lambda>allocation.
      sbind (slift (map_err (\<lambda>_. uncertain) (parse_operation C (own_operation w)))) (\<lambda>operation.
      sret \<lparr>mn_launch_permit = permit, mn_config = guardian_config_of cfg img,
            mn_start = \<lparr>gs_owner = \<lparr>go_host = cfg_host cfg, go_project = project, go_sandbox = sandbox,
                          go_allocation = allocation, go_create_operation = operation,
                          go_generation = own_generation w, go_epoch = own_epoch w\<rparr>,
                        gs_vcpu = res_vcpu r, gs_memory_mib = res_memory_mib r,
                        gs_disk_mib = res_disk_mib r, gs_expires = cq_expires q\<rparr>\<rparr>)))))))))))"

text \<open>The totals of the loop of \<open>admit\<close>: cpu, memory and disk of the unreleased manifests.\<close>

record totals =
  tot_cpu :: nat
  tot_memory :: nat
  tot_disk :: nat

definition add_manifest :: "totals \<Rightarrow> guardian_start \<Rightarrow> totals" where
  "add_manifest t s =
     \<lparr>tot_cpu = saturating_add_u64 (tot_cpu t) (gs_vcpu s),
      tot_memory = saturating_add_u64 (tot_memory t) (gs_memory_mib s + 128),
      tot_disk = saturating_add_u64 (tot_disk t) (gs_disk_mib s + 401)\<rparr>"

definition admit_scan :: "ownership \<Rightarrow> totals \<Rightarrow> string \<times> host_record \<Rightarrow> host_status + totals" where
  "admit_scan w t e =
     (case e of (key, r) \<Rightarrow>
        if key \<noteq> own_allocation w \<and> own_sandbox (rec_owner r) = own_sandbox w \<and>
           (own_project (rec_owner r) \<noteq> own_project w \<or> own_generation w \<le> own_generation (rec_owner r) \<or>
            (rec_manifest r \<noteq> None \<and> \<not> rec_released r) \<or> \<not> rec_stopped r)
        then Inl FailedPrecondition
        else Inr (case rec_manifest r of
                    None \<Rightarrow> t
                  | Some m \<Rightarrow> if rec_released r then t else add_manifest t (mn_start m)))"

definition host_admit :: "host_env \<Rightarrow> ownership \<Rightarrow> create_request \<Rightarrow> manifest \<Rightarrow> host_record host" where
  "host_admit H w q m =
     sbind get_journal (\<lambda>j.
     sbind (slift (try_fold (admit_scan w) \<lparr>tot_cpu = 0, tot_memory = 0, tot_disk = 0\<rparr> (jr_records j))) (\<lambda>t.
     let cap = cfg_capacity (he_config H); s = mn_start m in
     sbind (sensure (\<not> (saturating_sub_u64 (hc_vcpu cap) (tot_cpu t) < gs_vcpu s \<or>
                        saturating_sub_u64 (hc_memory_mib cap) (tot_memory t) < gs_memory_mib s + 128 \<or>
                        saturating_sub_u64 (hc_disk_mib cap) (tot_disk t) < gs_disk_mib s + 401))
              ResourceExhausted) (\<lambda>_.
     sbind (slift (ok_or uncertain (find_record (own_allocation w) j))) (\<lambda>r.
     let r' = r\<lparr>rec_create := Some q, rec_manifest := Some m\<rparr> in
     sbind (put_journal H (put_record (own_allocation w) r' j)) (\<lambda>_. sret r')))))"

section \<open>Observation\<close>

definition host_cleanup :: "host_env \<Rightarrow> host_record \<Rightarrow> guardian_receipt option host" where
  "host_cleanup H r =
     (let C = he_crates H; cfg = he_config H; W = he_world H in
      case rec_manifest r of
        None \<Rightarrow>
          sbind (slift (map_err (\<lambda>_. uncertain) (parse_allocation C (own_allocation (rec_owner r))))) (\<lambda>a.
          sbind (ask (\<lambda>n. w_path_exists W n (path_join (path_join (cfg_state_root cfg) ''a'') (show_allocation C a)))) (\<lambda>x.
          sbind (slift (map_err (\<lambda>_. uncertain) x)) (\<lambda>dir.
          if dir then sfail uncertain
          else sbind (ask (\<lambda>n. w_path_exists W n (path_join (cfg_cgroup_parent cfg) (uuid_hyphenated C (allocation_uuid a))))) (\<lambda>y.
               sbind (slift (map_err (\<lambda>_. uncertain) y)) (\<lambda>group.
               if group then sfail uncertain else sret None)))))
      | Some m \<Rightarrow>
          sbind (ask (\<lambda>n. w_control W n m ActionStop)) (\<lambda>_.
          sbind (ask (\<lambda>n. w_fence W n m)) (\<lambda>x.
          sbind (slift (map_err (\<lambda>_. uncertain) x)) (\<lambda>g.
          sbind (sensure (gr_state g = GStopped \<and> gr_cleanup_confirmed g) uncertain) (\<lambda>_.
          sbind (host_released H (own_allocation (rec_owner r))) (\<lambda>_.
          sret (Some g)))))))"

text \<open>An authenticated guest boot of a running, unexpired guardian.\<close>

definition bind_guest :: "host_env \<Rightarrow> manifest \<Rightarrow> guardian_receipt option host" where
  "bind_guest H m =
     sbind (ask (\<lambda>n. w_control (he_world H) n m ActionBindGuest)) (\<lambda>x.
     case x of
       Inr reply \<Rightarrow>
         (case (gresp_error reply, gresp_receipt reply) of
            (None, Some g) \<Rightarrow>
              if gr_state g = GRunning \<and> gr_guest_boot_id g \<noteq> None
              then sbind (wall_ms H) (\<lambda>now. sret (if now < gr_expires g then Some g else None))
              else sret None
          | _ \<Rightarrow> sret None)
     | Inl _ \<Rightarrow> sret None)"

definition observe_record ::
    "host_env \<Rightarrow> host_record \<Rightarrow> (allocation_state \<times> guardian_receipt option) host" where
  "observe_record H r =
     sbind (slift (retirement_check r)) (\<lambda>_.
     if rec_stopped r
     then sbind (host_cleanup H r) (\<lambda>g.
          sret (if rec_manifest r \<noteq> None then StateReleased else StateFencedAbsent, g))
     else case rec_manifest r of
       None \<Rightarrow> sret (StateAbsent, None)
     | Some m \<Rightarrow>
         sbind (bind_guest H m) (\<lambda>b.
         case b of
           Some g \<Rightarrow> sret (StateReady, Some g)
         | None \<Rightarrow>
             sbind (ask (\<lambda>n. w_fence (he_world H) n m)) (\<lambda>x.
             sbind (slift (map_err (\<lambda>_. uncertain) x)) (\<lambda>g.
             sbind (host_released H (own_allocation (rec_owner r))) (\<lambda>_.
             sret (StateReleased, Some g))))))"

definition reason_of :: "allocation_state \<Rightarrow> string" where
  "reason_of s =
     (case s of
        StateReady \<Rightarrow> ''authenticated guest boot bound''
      | StateReleased \<Rightarrow> ''owned cgroup and runtime files cleaned''
      | StateFencedAbsent \<Rightarrow> ''durable stop before create''
      | _ \<Rightarrow> ''no allocation execution evidence'')"

definition make_observation ::
    "host_env \<Rightarrow> ownership \<Rightarrow> host_record \<Rightarrow> allocation_state \<Rightarrow> guardian_receipt option \<Rightarrow> observation host"
where
  "make_observation H w r s g =
     sbind (wall_ms H) (\<lambda>now.
     sret \<lparr>ob_ownership = Some w, ob_state = s, ob_simulated = False,
           ob_start_count = (case g of None \<Rightarrow> 0 | Some x \<Rightarrow> if gr_firecracker_pid x \<noteq> None then 1 else 0),
           ob_create_operation = (case rec_manifest r of None \<Rightarrow> []
             | Some m \<Rightarrow> show_operation (he_crates H) (go_create_operation (gs_owner (mn_start m)))),
           ob_observed = now, ob_reason = reason_of s\<rparr>)"

definition observe_and_report :: "host_env \<Rightarrow> ownership \<Rightarrow> host_record \<Rightarrow> observation host" where
  "observe_and_report H w r =
     sbind (observe_record H r) (\<lambda>(s, g). make_observation H w r s g)"

section \<open>Create\<close>

definition authorize_create :: "host_env \<Rightarrow> ownership \<Rightarrow> create_request \<Rightarrow> unit host" where
  "authorize_create H w q =
     (let C = he_crates H in
      case he_authority H of
        None \<Rightarrow> sensure (cq_permit_json q = []) FailedPrecondition
      | Some _ \<Rightarrow>
          sbind (sensure (length (cq_permit_json q) \<le> 4096) InvalidArgument) (\<lambda>_.
          sbind (slift (ok_or InvalidArgument (from_slice (hj_permit (he_json H)) (cq_permit_json q)))) (\<lambda>p.
          sbind (sensure (show_host C (permit_host p) = own_host w \<and>
             show_project C (permit_project p) = own_project w \<and>
             show_sandbox C (permit_sandbox p) = own_sandbox w \<and>
             show_allocation C (permit_allocation p) = own_allocation w \<and>
             show_operation C (permit_create_operation p) = own_operation w \<and>
             permit_generation p = own_generation w \<and> permit_original_epoch p = own_epoch w)
             FailedPrecondition) (\<lambda>_.
          sbind (ask (w_gate (he_world H))) (\<lambda>g.
          sbind (on_launch (\<lambda>_. uncertain) (launch_authorize C (hj_launch (he_json H)) g (Some p))) (\<lambda>_.
          sret ()))))))"

text \<open>
  The readiness loop polls once and again until four seconds have passed; how many turns
  that is, is the world's answer.
\<close>

fun await_ready :: "host_env \<Rightarrow> manifest \<Rightarrow> nat \<Rightarrow> guardian_receipt host" where
  "await_ready H m 0 = sfail uncertain"
| "await_ready H m (Suc turns) =
     sbind (bind_guest H m) (\<lambda>b.
     case b of Some g \<Rightarrow> sret g | None \<Rightarrow> await_ready H m turns)"

definition stop_and_report :: "host_env \<Rightarrow> ownership \<Rightarrow> host_record \<Rightarrow> observation host" where
  "stop_and_report H w r =
     sbind (host_stopped H (own_allocation w)) (\<lambda>_.
     observe_and_report H w (r\<lparr>rec_stopped := True\<rparr>))"

definition mark_dispatched :: "host_env \<Rightarrow> string \<Rightarrow> unit host" where
  "mark_dispatched H key =
     sbind get_journal (\<lambda>j.
     sbind (slift (ok_or uncertain (find_record key j))) (\<lambda>r.
     put_journal H (put_record key (r\<lparr>rec_dispatched := True\<rparr>) j)))"

text \<open>\<open>prepare().is_err() || deadline().is_err()\<close>\<close>

definition not_prepared :: "host_env \<Rightarrow> ownership \<Rightarrow> manifest \<Rightarrow> bool host" where
  "not_prepared H w m =
     sbind (ask (\<lambda>n. w_prepare (he_world H) n m)) (\<lambda>prepared.
     if \<not> prepared then sret True
     else (\<lambda>s. case check_deadline H (own_expires w) s of (x, s') \<Rightarrow> (Inr (\<not> is_ok x), s')))"

definition launch_guardian :: "host_env \<Rightarrow> ownership \<Rightarrow> host_record \<Rightarrow> manifest \<Rightarrow> observation host" where
  "launch_guardian H w r m =
     sbind (not_prepared H w m) (\<lambda>bad.
     if bad then stop_and_report H w r
     else sbind (mark_dispatched H (own_allocation w)) (\<lambda>_.
          sbind (ask (w_spawn (he_world H))) (\<lambda>spawned.
          if \<not> spawned then stop_and_report H w r
          else sbind (emit (StartedGuardian (own_allocation w))) (\<lambda>_.
               sbind (ask (w_turns (he_world H))) (\<lambda>turns.
               sbind (await_ready H m (Suc turns)) (\<lambda>g.
               make_observation H w r StateReady (Some g)))))))"

definition create_sync :: "host_env \<Rightarrow> create_request \<Rightarrow> observation host" where
  "create_sync H q =
     sbind (check_owner H (cq_ownership q)) (\<lambda>w.
     sbind (authorize_create H w q) (\<lambda>_.
     sbind (host_gate H w) (\<lambda>_.
     sbind (host_fence H w) (\<lambda>r.
     case rec_create r of
       Some original \<Rightarrow>
         sbind (sensure (map_option own_operation (cq_ownership original) = Some (own_operation w) \<and>
            cq_permit_json original = cq_permit_json q \<and> cq_image original = cq_image q \<and>
            cq_resources original = cq_resources q \<and> cq_expires original = cq_expires q)
            AlreadyExists) (\<lambda>_.
         observe_and_report H w r)
     | None \<Rightarrow>
         sbind (sensure (\<not> rec_stopped r) FailedPrecondition) (\<lambda>_.
         sbind (host_manifest H w q) (\<lambda>m.
         sbind (host_admit H w q m) (\<lambda>r'.
         launch_guardian H w r' m)))))))"

section \<open>Inspect, stop and lease\<close>

definition inspect_sync :: "host_env \<Rightarrow> ownership option \<Rightarrow> bool \<Rightarrow> observation host" where
  "inspect_sync H owner stop =
     sbind (check_owner H owner) (\<lambda>w.
     sbind (host_gate H w) (\<lambda>_.
     sbind (host_fence H w) (\<lambda>r.
     if stop then stop_and_report H w r else observe_and_report H w r)))"

definition lease_claim :: "host_env \<Rightarrow> lease_ownership \<Rightarrow> ownership host" where
  "lease_claim H l =
     sbind (ask (w_fresh (he_world H))) (\<lambda>i.
     check_owner H (Some \<lparr>own_host = lo_host l, own_project = lo_project l, own_sandbox = lo_sandbox l,
       own_allocation = lo_allocation l, own_operation = show_operation (he_crates H) i,
       own_generation = lo_generation l, own_epoch = lo_epoch l, own_revision = lo_revision l,
       own_expires = lo_expires l\<rparr>))"

definition lease_update :: "host_env \<Rightarrow> lease_ownership \<Rightarrow> ownership \<Rightarrow> int option \<Rightarrow> host_record host" where
  "lease_update H l w until =
     sbind get_journal (\<lambda>j.
     sbind (slift (ok_or uncertain (find_record (own_allocation w) j))) (\<lambda>r.
     sbind (sensure (same_allocation (rec_owner r) w \<and> rec_lease_revision r \<le> lo_revision l)
              FailedPrecondition) (\<lambda>_.
     sbind (sensure (case (until, rec_lease_request r) of
               (Some t, Some (prior, expiry)) \<Rightarrow> \<not> (prior = lo_revision l \<and> expiry \<noteq> t)
             | _ \<Rightarrow> True) AlreadyExists) (\<lambda>_.
     let r' = r\<lparr>rec_lease_request := (case until of None \<Rightarrow> rec_lease_request r
                                     | Some t \<Rightarrow> Some (lo_revision l, t)),
                rec_lease_revision := lo_revision l\<rparr> in
     sbind (put_journal H (put_record (own_allocation w) r' j)) (\<lambda>_. sret r')))))"

definition lease_sync :: "host_env \<Rightarrow> lease_ownership option \<Rightarrow> int option \<Rightarrow> lease_observation host" where
  "lease_sync H owner until =
     sbind (slift (ok_or InvalidArgument owner)) (\<lambda>l.
     sbind (lease_claim H l) (\<lambda>w.
     sbind (case until of None \<Rightarrow> sret () | Some t \<Rightarrow> check_deadline H t) (\<lambda>_.
     sbind get_journal (\<lambda>j.
     case find_record (own_allocation w) j of
       None \<Rightarrow>
         sbind (wall_ms H) (\<lambda>now.
         sret \<lparr>lob_ownership = Some l, lob_state = StateAbsent, lob_simulated = False,
               lob_expires = 0, lob_observed = now\<rparr>)
     | Some _ \<Rightarrow>
         sbind (check_deadline H (lo_expires l)) (\<lambda>_.
         sbind (lease_update H l w until) (\<lambda>r.
         sbind (case (until, rec_stopped r, rec_manifest r) of
                  (Some t, False, Some m) \<Rightarrow>
                    sbind (ask (\<lambda>n. w_control (he_world H) n m (ActionRenew (nat (lo_revision l)) t))) (\<lambda>x.
                    sbind (slift (map_err (\<lambda>_. uncertain) x)) (\<lambda>reply.
                    sensure (gresp_error reply = None) uncertain))
                | _ \<Rightarrow> sret ()) (\<lambda>_.
         sbind (observe_record H r) (\<lambda>(s, g).
         sbind (wall_ms H) (\<lambda>now.
         sret \<lparr>lob_ownership = Some l, lob_state = s, lob_simulated = False,
               lob_expires = (case g of None \<Rightarrow> 0 | Some x \<Rightarrow> gr_expires x), lob_observed = now\<rparr>)))))))))"

section \<open>Maintenance\<close>

text \<open>Whether a record is a recovery target: unreleased, launched, and not visibly running.\<close>

definition recovery_target :: "host_env \<Rightarrow> host_record \<Rightarrow> bool host" where
  "recovery_target H r =
     (case rec_manifest r of
        None \<Rightarrow> sret False
      | Some m \<Rightarrow>
          if rec_released r then sret False
          else if rec_stopped r then sret True
          else sbind (ask (\<lambda>n. w_receipt (he_world H) n m)) (\<lambda>x.
               case x of
                 Inl _ \<Rightarrow> sret True
               | Inr g \<Rightarrow>
                   if gr_state g \<noteq> GRunning then sret True
                   else sbind (wall_ms H) (\<lambda>now. sret (\<not> now < gr_expires g))))"

fun recovery_targets :: "host_env \<Rightarrow> host_record list \<Rightarrow> host_record list host" where
  "recovery_targets H [] = sret []"
| "recovery_targets H (r # rs) =
     sbind (recovery_target H r) (\<lambda>b.
     sbind (recovery_targets H rs) (\<lambda>xs.
     sret (if b then r # xs else xs)))"

text \<open>
  \<open>cursor\<close> is the value of the atomic cursor, \<open>free\<close> the outcome of \<open>try_lock\<close> on the
  record's gate; the outcome of the observation is discarded.
\<close>

definition reconcile_one :: "host_env \<Rightarrow> nat \<Rightarrow> bool \<Rightarrow> unit host" where
  "reconcile_one H cursor free =
     sbind get_journal (\<lambda>j.
     sbind (recovery_targets H (bt_values (jr_records j))) (\<lambda>rs.
     if rs = [] \<or> \<not> free then sret ()
     else (\<lambda>s. (Inr (), snd (observe_record H (rs ! (cursor mod length rs)) s)))))"

end
