(* ===== verification/Host_History.thy ===== *)
theory Host_History
  imports Host_Core
begin

text \<open>
  Retirement of retained history on the host (\<open>crates/sandbox-supervisor/src/host\<close>): the
  barriers of a live allocation (\<open>history.rs\<close>), the prefixes of a destroyed one
  (\<open>released_history.rs\<close>), and the frozen scope of a whole allocation (\<open>retirement.rs\<close>).
  The pure functions on a record come first, then the three requests that use them.
\<close>

section \<open>Barriers of a live allocation\<close>

definition live_slot :: "host_record \<Rightarrow> domain \<Rightarrow> live_retirement option" where
  "live_slot r d = (case d of Commands \<Rightarrow> rec_command_history r | FilesDomain \<Rightarrow> rec_file_history r)"

definition set_live_slot :: "domain \<Rightarrow> live_retirement option \<Rightarrow> host_record \<Rightarrow> host_record" where
  "set_live_slot d x r =
     (case d of Commands \<Rightarrow> r\<lparr>rec_command_history := x\<rparr> | FilesDomain \<Rightarrow> r\<lparr>rec_file_history := x\<rparr>)"

definition released_slot :: "host_record \<Rightarrow> domain \<Rightarrow> released_retirement option" where
  "released_slot r d = (case d of Commands \<Rightarrow> rec_released_commands r | FilesDomain \<Rightarrow> rec_released_files r)"

definition set_released_slot :: "domain \<Rightarrow> released_retirement option \<Rightarrow> host_record \<Rightarrow> host_record" where
  "set_released_slot d x r =
     (case d of Commands \<Rightarrow> r\<lparr>rec_released_commands := x\<rparr> | FilesDomain \<Rightarrow> r\<lparr>rec_released_files := x\<rparr>)"

definition released_check :: "host_record \<Rightarrow> domain \<Rightarrow> operation_id \<Rightarrow> host_status + unit" where
  "released_check r d i =
     (case released_slot r d of
        None \<Rightarrow> Inr ()
      | Some x \<Rightarrow> if i \<le> xr_through x then Inl FailedPrecondition else Inr ())"

definition history_check :: "host_record \<Rightarrow> domain \<Rightarrow> operation_id \<Rightarrow> host_status + unit" where
  "history_check r d i =
     rbind (retirement_check r) (\<lambda>_.
     rbind (released_check r d i) (\<lambda>_.
     case live_slot r d of
       None \<Rightarrow> Inr ()
     | Some v \<Rightarrow> if covers (lr_barrier v) i then Inl FailedPrecondition else Inr ()))"

definition eligible_command :: "crates \<Rightarrow> barrier \<Rightarrow> string \<times> command_record \<Rightarrow> unit + unit" where
  "eligible_command C b e =
     rbind (map_err (\<lambda>_. ()) (parse_operation C (fst e))) (\<lambda>i.
     if \<not> covers b i then Inr ()
     else rbind (ensure (command_finished (snd e)) ()) (\<lambda>_.
          if cmd_not_started (snd e) then Inr ()
          else rbind (ensure (cmd_context (snd e) = Some (bar_context b)) ()) (\<lambda>_.
               rbind (ok_or () (cmd_receipt (snd e))) (\<lambda>t.
               command_validate_receipt (snd e) i t))))"

definition eligible_file :: "crates \<Rightarrow> file_record json \<Rightarrow> barrier \<Rightarrow> string \<times> file_record \<Rightarrow> unit + unit" where
  "eligible_file C K b e =
     rbind (map_err (\<lambda>_. ()) (parse_operation C (fst e))) (\<lambda>i.
     if \<not> covers b i then Inr ()
     else rbind (file_record_validate K (snd e)) (\<lambda>_.
          rbind (ensure (file_not_started (snd e) \<or> file_status (snd e) \<in> {3, 5}) ()) (\<lambda>_.
          ensure (file_not_started (snd e) \<or> file_context (snd e) = Some (bar_context b)) ())))"

definition eligible :: "crates \<Rightarrow> file_record json \<Rightarrow> host_record \<Rightarrow> barrier \<Rightarrow> unit + unit" where
  "eligible C K r b =
     (case bar_domain b of
        Commands \<Rightarrow> try_all (eligible_command C b) (rec_commands r)
      | FilesDomain \<Rightarrow> try_all (eligible_file C K b) (rec_files r))"

text \<open>The result is the retirement and the record with its slot set.\<close>

definition history_prepare_new ::
    "crates \<Rightarrow> file_record json \<Rightarrow> host_record \<Rightarrow> barrier \<Rightarrow> int \<Rightarrow> unit + live_retirement \<times> host_record" where
  "history_prepare_new C K r requested revision =
     rbind (eligible C K r requested) (\<lambda>_.
     let x = \<lparr>lr_barrier = requested, lr_revision = revision,
              lr_requested_through = bar_through requested, lr_completed = False\<rparr> in
     Inr (x, set_live_slot (bar_domain requested) (Some x) r))"

definition history_prepare ::
    "crates \<Rightarrow> file_record json \<Rightarrow> host_record \<Rightarrow> barrier \<Rightarrow> int \<Rightarrow> unit + live_retirement \<times> host_record" where
  "history_prepare C K r requested revision =
     rbind (ensure (0 < revision) ()) (\<lambda>_.
     rbind (barrier_validate C requested (bar_context requested) (bar_domain requested)) (\<lambda>_.
     rbind (ensure (show_allocation C (ctx_allocation (bar_context requested)) = own_allocation (rec_owner r) \<and>
        ctx_generation (bar_context requested) = own_generation (rec_owner r)) ()) (\<lambda>_.
     case live_slot r (bar_domain requested) of
       None \<Rightarrow> history_prepare_new C K r requested revision
     | Some current \<Rightarrow>
         rbind (ensure (bar_context (lr_barrier current) = bar_context requested) ()) (\<lambda>_.
         rbind (ensure (lr_revision current \<le> revision) ()) (\<lambda>_.
         rbind (ensure (revision \<noteq> lr_revision current \<or>
            bar_through requested = lr_requested_through current) ()) (\<lambda>_.
         if bar_through requested \<le> bar_through (lr_barrier current)
         then let x = current\<lparr>lr_revision := revision, lr_requested_through := bar_through requested\<rparr> in
              Inr (x, set_live_slot (bar_domain requested) (Some x) r)
         else rbind (ensure (lr_completed current) ()) (\<lambda>_. history_prepare_new C K r requested revision)))))))"

text \<open>The names of a domain with whether the barrier covers each.\<close>

definition domain_names :: "host_record \<Rightarrow> domain \<Rightarrow> string list" where
  "domain_names r d = (case d of Commands \<Rightarrow> map fst (rec_commands r) | FilesDomain \<Rightarrow> map fst (rec_files r))"

definition drop_name :: "domain \<Rightarrow> host_record \<Rightarrow> string \<Rightarrow> host_record" where
  "drop_name d r name =
     (case d of
        Commands \<Rightarrow> r\<lparr>rec_commands := bt_remove name (rec_commands r),
                      rec_archives := bt_remove name (rec_archives r),
                      rec_revisions := bt_remove name (rec_revisions r)\<rparr>
      | FilesDomain \<Rightarrow> r\<lparr>rec_files := bt_remove name (rec_files r),
                        rec_revisions := bt_remove name (rec_revisions r)\<rparr>)"

definition keep_covered :: "crates \<Rightarrow> (operation_id \<Rightarrow> bool) \<Rightarrow> string list \<Rightarrow> string \<Rightarrow> unit + string list" where
  "keep_covered C inside found name =
     rbind (map_err (\<lambda>_. ()) (parse_operation C name)) (\<lambda>i.
     Inr (if inside i then found @ [name] else found))"

definition history_complete :: "crates \<Rightarrow> file_record json \<Rightarrow> host_record \<Rightarrow> live_retirement \<Rightarrow> unit + host_record" where
  "history_complete C K r x =
     (let d = bar_domain (lr_barrier x) in
      rbind (ok_or () (live_slot r d)) (\<lambda>current.
      rbind (ensure (lr_barrier current = lr_barrier x \<and> lr_revision current = lr_revision x) ()) (\<lambda>_.
      rbind (eligible C K r (lr_barrier x)) (\<lambda>_.
      rbind (try_fold (keep_covered C (covers (lr_barrier x))) [] (domain_names r d)) (\<lambda>names.
      Inr (set_live_slot d (Some (current\<lparr>lr_completed := True\<rparr>)) (foldl (drop_name d) r names)))))))"

section \<open>Prefixes of a destroyed allocation\<close>

definition retired_id_check :: "crates \<Rightarrow> operation_id \<Rightarrow> unit + unit" where
  "retired_id_check C i = rbind (advance_operation_id C i None) (\<lambda>_. Inr ())"

definition keep_retired :: "crates \<Rightarrow> operation_id \<Rightarrow> string list \<Rightarrow> string \<Rightarrow> unit + string list" where
  "keep_retired C through found name =
     rbind (map_err (\<lambda>_. ()) (parse_operation C name)) (\<lambda>i.
     rbind (retired_id_check C i) (\<lambda>_.
     Inr (if i \<le> through then found @ [name] else found)))"

definition retired_names :: "crates \<Rightarrow> host_record \<Rightarrow> domain \<Rightarrow> operation_id \<Rightarrow> unit + string list" where
  "retired_names C r d through = try_fold (keep_retired C through) [] (domain_names r d)"

text \<open>
  The context an outcome was observed in; \<open>None\<close> for one that never started. \<open>boot\<close> is the
  boot of the retained guardian receipt.
\<close>

definition outcome_context ::
    "crates \<Rightarrow> file_record json \<Rightarrow> host_record \<Rightarrow> domain \<Rightarrow> string \<Rightarrow> unit + guest_context option option" where
  "outcome_context C K r d name =
     (case d of
        Commands \<Rightarrow>
          rbind (ok_or () (bt_get name (rec_commands r))) (\<lambda>c.
          rbind (ensure (command_finished c) ()) (\<lambda>_.
          if cmd_not_started c then Inr None
          else rbind (map_err (\<lambda>_. ()) (parse_operation C name)) (\<lambda>i.
               rbind (ok_or () (cmd_receipt c)) (\<lambda>t.
               rbind (command_validate_receipt c i t) (\<lambda>_.
               Inr (Some (cmd_context c)))))))
      | FilesDomain \<Rightarrow>
          rbind (ok_or () (bt_get name (rec_files r))) (\<lambda>f.
          rbind (file_record_validate K f) (\<lambda>_.
          if file_not_started f then Inr None
          else rbind (ensure (file_status f \<in> {3, 5}) ()) (\<lambda>_.
               Inr (Some (file_context f))))))"

definition outcome_check ::
    "crates \<Rightarrow> file_record json \<Rightarrow> string option \<Rightarrow> host_record \<Rightarrow> domain \<Rightarrow> string \<Rightarrow> unit + unit" where
  "outcome_check C K boot r d name =
     rbind (outcome_context C K r d name) (\<lambda>x.
     case x of
       None \<Rightarrow> Inr ()
     | Some context \<Rightarrow>
         rbind (ok_or () context) (\<lambda>c.
         ensure (show_allocation C (ctx_allocation c) = own_allocation (rec_owner r) \<and>
                 ctx_generation c = own_generation (rec_owner r) \<and> boot = Some (ctx_boot c)) ()))"

definition reclaim ::
    "crates \<Rightarrow> file_record json \<Rightarrow> unit + string option \<Rightarrow> host_record \<Rightarrow> domain \<Rightarrow> operation_id \<Rightarrow> int \<Rightarrow> int \<Rightarrow>
     unit + operation_id \<times> host_record" where
  "reclaim C K boot r d through revision epoch =
     rbind (retired_id_check C through) (\<lambda>_.
     rbind (ensure (rec_stopped r \<and> 0 < revision \<and> own_epoch (rec_owner r) \<le> epoch) ()) (\<lambda>_.
     rbind (case released_slot r d of
              None \<Rightarrow> Inr through
            | Some old \<Rightarrow>
                rbind (ensure (xr_revision old \<le> revision \<and> xr_epoch old \<le> epoch) ()) (\<lambda>_.
                rbind (ensure (revision \<noteq> xr_revision old \<or>
                   (through = xr_requested_through old \<and> epoch = xr_epoch old)) ()) (\<lambda>_.
                Inr (max through (xr_through old))))) (\<lambda>completed.
     rbind (retired_names C r d completed) (\<lambda>names.
     rbind boot (\<lambda>b.
     rbind (try_all (outcome_check C K b r d) names) (\<lambda>_.
     Inr (completed,
       set_released_slot d (Some \<lparr>xr_version = 1, xr_through = completed, xr_requested_through = through,
           xr_revision = revision, xr_epoch = epoch\<rparr>)
         (foldl (drop_name d) r names))))))))"

section \<open>The closed scope of an allocation\<close>

definition history_closure :: "host_record \<Rightarrow> domain \<Rightarrow> unit + operation_id option" where
  "history_closure r d =
     (let live = live_slot r d;
          done_live = (case live of None \<Rightarrow> None
                       | Some h \<Rightarrow> if lr_completed h then Some (bar_through (lr_barrier h)) else None);
          released = map_option xr_through (released_slot r d);
          completed = (case (done_live, released) of
             (None, x) \<Rightarrow> x | (Some a, None) \<Rightarrow> Some a | (Some a, Some b) \<Rightarrow> Some (max a b)) in
      rbind (ensure (case live of None \<Rightarrow> True
               | Some h \<Rightarrow> (case completed of None \<Rightarrow> False | Some c \<Rightarrow> bar_through (lr_barrier h) \<le> c)) ()) (\<lambda>_.
      Inr completed))"

definition retire_scope :: "crates \<Rightarrow> host_record \<Rightarrow> retire_request \<Rightarrow> unit + unit" where
  "retire_scope C r q =
     (let p = intent_permit (req_intent q); w = rec_owner r in
      rbind (ensure (own_host w = show_host C (permit_host p) \<and> own_project w = show_project C (permit_project p) \<and>
         own_sandbox w = show_sandbox C (permit_sandbox p) \<and>
         own_allocation w = show_allocation C (permit_allocation p) \<and>
         own_generation w = permit_generation p \<and> own_epoch w = permit_original_epoch p) ()) (\<lambda>_.
      rbind (case rec_manifest r of
               None \<Rightarrow> Inr ()
             | Some m \<Rightarrow> ensure (mn_launch_permit m = Some p \<and>
                 go_create_operation (gs_owner (mn_start m)) = permit_create_operation p) ()) (\<lambda>_.
      rbind (ensure (rec_stopped r \<or> (rec_create r = None \<and> rec_manifest r = None \<and> \<not> rec_dispatched r)) ()) (\<lambda>_.
      rbind (ensure (rec_commands r = [] \<and> rec_files r = [] \<and> rec_archives r = []) ()) (\<lambda>_.
      try_all (\<lambda>(d, expected).
        rbind (history_closure r d) (\<lambda>actual.
        ensure (case expected of EmptyClosure \<Rightarrow> actual = None | RetiredThrough t \<Rightarrow> actual = Some t) ()))
        [(Commands, intent_commands (req_intent q)), (FilesDomain, intent_files (req_intent q))])))))"

definition retirement_validate_retained :: "crates \<Rightarrow> host_record \<Rightarrow> int \<Rightarrow> unit + unit" where
  "retirement_validate_retained C r epoch =
     (case rec_retirement r of
        None \<Rightarrow> Inr ()
      | Some q \<Rightarrow>
          rbind (map_err (\<lambda>_. ()) (intent_validate C (req_intent q))) (\<lambda>_.
          rbind (ensure (\<not> intent_simulated (req_intent q) \<and> 0 < req_revision q \<and> 0 < req_expires_unix_ms q \<and>
             permit_original_epoch (intent_permit (req_intent q)) \<le> req_reporting_epoch q \<and>
             req_reporting_epoch q \<le> epoch \<and> rec_stopped r) ()) (\<lambda>_.
          retire_scope C r q)))"

definition empty_retired :: "crates \<Rightarrow> retire_request \<Rightarrow> host_record" where
  "empty_retired C q =
     (let p = intent_permit (req_intent q) in
      (fresh_record \<lparr>own_host = show_host C (permit_host p), own_project = show_project C (permit_project p),
         own_sandbox = show_sandbox C (permit_sandbox p), own_allocation = show_allocation C (permit_allocation p),
         own_operation = show_operation C (permit_create_operation p), own_generation = permit_generation p,
         own_epoch = permit_original_epoch p, own_revision = req_revision q,
         own_expires = req_expires_unix_ms q\<rparr>)\<lparr>rec_stopped := True\<rparr>)"

section \<open>Requests\<close>

record history_request =
  hq_ownership :: "lease_ownership option"
  hq_barrier :: "wire_barrier option"

record history_observation =
  hob_request :: "history_request option"
  hob_completed :: "wire_barrier option"
  hob_simulated :: bool
  hob_observed :: int

definition history_binding_sync ::
    "host_env \<Rightarrow> lease_ownership option \<Rightarrow> (lease_ownership option \<times> wire_context option \<times> bool \<times> int) host"
where
  "history_binding_sync H request =
     sbind (slift (ok_or InvalidArgument request)) (\<lambda>l.
     sbind (lease_claim H l) (\<lambda>validated.
     sbind get_journal (\<lambda>j.
     sbind (slift (ok_or NotFound (find_record (lo_allocation l) j))) (\<lambda>_.
     sbind (check_deadline H (lo_expires l)) (\<lambda>_.
     sbind get_journal (\<lambda>j.
     sbind (slift (ok_or uncertain (find_record (lo_allocation l) j))) (\<lambda>r.
     sbind (sensure (same_allocation (rec_owner r) validated \<and> \<not> rec_stopped r \<and> \<not> rec_released r)
              FailedPrecondition) (\<lambda>_.
     sbind (slift (ok_or uncertain (rec_manifest r))) (\<lambda>m.
     sbind (ask (\<lambda>n. w_client (he_world H) n m)) (\<lambda>x.
     sbind (slift (map_err (\<lambda>_. uncertain) x)) (\<lambda>context.
     sbind (check_deadline H (lo_expires l)) (\<lambda>_.
     sbind (wall_ms H) (\<lambda>now.
     sret (request, Some (context_to_wire (he_crates H) context), False, now))))))))))))))"

text \<open>The room a record may take: the journal's encoding with the old record replaced.\<close>

definition headroom :: "host_json \<Rightarrow> retained \<Rightarrow> host_record \<Rightarrow> host_record \<Rightarrow> host_status + unit" where
  "headroom J j old new =
     rbind (ok_or uncertain (to_vec (hj_record J) old)) (\<lambda>before.
     rbind (ok_or uncertain (to_vec (hj_record J) new)) (\<lambda>after.
     rbind (ok_or uncertain (to_vec (hj_retained J) j)) (\<lambda>total.
     if journal_max_bytes
          < saturating_add_u64 (saturating_sub_u64 (length total) (length before)) (length after)
     then Inl ResourceExhausted else Inr ())))"

text \<open>The live guest an unfinished retirement needs, bound to the barrier's boot.\<close>

definition retirement_client :: "host_env \<Rightarrow> host_record \<Rightarrow> live_retirement \<Rightarrow> unit host" where
  "retirement_client H r x =
     sbind (sensure (\<not> (rec_stopped r \<or> rec_released r)) FailedPrecondition) (\<lambda>_.
     sbind (slift (ok_or uncertain (rec_manifest r))) (\<lambda>m.
     sbind (ask (\<lambda>n. w_client (he_world H) n m)) (\<lambda>c.
     sbind (slift (map_err (\<lambda>_. uncertain) c)) (\<lambda>context.
     slift (map_err (\<lambda>_. FailedPrecondition)
       (barrier_validate (he_crates H) (lr_barrier x) context (bar_domain (lr_barrier x))))))))"

definition save_retirement :: "host_env \<Rightarrow> string \<Rightarrow> live_retirement \<Rightarrow> host_record \<Rightarrow> unit host" where
  "save_retirement H key x r =
     sbind get_journal (\<lambda>j.
     sbind (slift (ok_or uncertain (find_record key j))) (\<lambda>old.
     sbind (slift (headroom (he_json H) j old r)) (\<lambda>_.
     put_journal H (put_record key (set_live_slot (bar_domain (lr_barrier x)) (Some x) old) j))))"

definition finish_retirement :: "host_env \<Rightarrow> string \<Rightarrow> int \<Rightarrow> live_retirement \<Rightarrow> unit host" where
  "finish_retirement H key expires x =
     sbind (check_deadline H expires) (\<lambda>_.
     sbind (ask (\<lambda>n. w_retire (he_world H) n (lr_barrier x))) (\<lambda>y.
     sbind (slift (map_err (\<lambda>_. uncertain) y)) (\<lambda>_.
     sbind (check_deadline H expires) (\<lambda>_.
     sbind get_journal (\<lambda>j.
     sbind (slift (ok_or uncertain (find_record key j))) (\<lambda>r.
     sbind (slift (map_err (\<lambda>_. uncertain) (history_complete (he_crates H) (hj_file (he_json H)) r x))) (\<lambda>r'.
     put_journal H (put_record key r' j))))))))"

definition retire_history_sync :: "host_env \<Rightarrow> history_request \<Rightarrow> history_observation host" where
  "retire_history_sync H q =
     sbind (slift (ok_or InvalidArgument (hq_ownership q))) (\<lambda>l.
     sbind (lease_claim H l) (\<lambda>validated.
     sbind (slift (ok_or InvalidArgument (hq_barrier q))) (\<lambda>wb.
     sbind (slift (map_err (\<lambda>_. InvalidArgument) (barrier_of_wire (he_crates H) wb))) (\<lambda>b.
     sbind get_journal (\<lambda>j.
     sbind (slift (ok_or NotFound (find_record (lo_allocation l) j))) (\<lambda>_.
     sbind (check_deadline H (lo_expires l)) (\<lambda>_.
     sbind get_journal (\<lambda>j.
     sbind (slift (ok_or uncertain (find_record (lo_allocation l) j))) (\<lambda>r.
     sbind (sensure (same_allocation (rec_owner r) validated) FailedPrecondition) (\<lambda>_.
     sbind (slift (map_err (\<lambda>_. FailedPrecondition)
       (history_prepare (he_crates H) (hj_file (he_json H)) r b (lo_revision l)))) (\<lambda>(x, r').
     sbind (if lr_completed x then sret () else retirement_client H r' x) (\<lambda>_.
     sbind (if bar_domain (lr_barrier x) = FilesDomain \<and> \<not> lr_completed x
            then sbind (ask (w_file_io (he_world H))) (\<lambda>free. sensure free ResourceExhausted)
            else sret ()) (\<lambda>_.
     sbind (save_retirement H (lo_allocation l) x r') (\<lambda>_.
     sbind (if lr_completed x then sret ()
            else finish_retirement H (lo_allocation l) (lo_expires l) x) (\<lambda>_.
     sbind (check_deadline H (lo_expires l)) (\<lambda>_.
     sbind (wall_ms H) (\<lambda>now.
     sret \<lparr>hob_request = Some q, hob_completed = Some (barrier_to_wire (he_crates H) (lr_barrier x)),
           hob_simulated = False, hob_observed = now\<rparr>)))))))))))))))))"

record released_request =
  xq_ownership :: "lease_ownership option"
  xq_reporting_epoch :: int
  xq_domain :: int
  xq_through :: string

definition released_claim :: "host_env \<Rightarrow> lease_ownership \<Rightarrow> int \<Rightarrow> ownership host" where
  "released_claim H l epoch =
     sbind (ask (w_fresh (he_world H))) (\<lambda>i.
     sbind (check_owner H (Some \<lparr>own_host = lo_host l, own_project = lo_project l, own_sandbox = lo_sandbox l,
       own_allocation = lo_allocation l, own_operation = show_operation (he_crates H) i,
       own_generation = lo_generation l, own_epoch = epoch, own_revision = lo_revision l,
       own_expires = lo_expires l\<rparr>)) (\<lambda>w.
     sret (w\<lparr>own_epoch := lo_epoch l\<rparr>)))"

text \<open>The boot of the original guardian's receipt, which \<open>reclaim\<close> reads.\<close>

definition retained_boot :: "host_env \<Rightarrow> host_record \<Rightarrow> (unit + string option) host" where
  "retained_boot H r =
     (case rec_manifest r of
        None \<Rightarrow> sret (Inr None)
      | Some m \<Rightarrow> sbind (ask (\<lambda>n. w_receipt (he_world H) n m)) (\<lambda>x. sret (map_ok gr_guest_boot_id x)))"

definition retire_released_sync ::
    "host_env \<Rightarrow> released_request \<Rightarrow> (released_request \<times> string \<times> allocation_state \<times> bool \<times> int) host" where
  "retire_released_sync H q =
     (let C = he_crates H in
      sbind (slift (ok_or InvalidArgument (xq_ownership q))) (\<lambda>l.
      sbind (sensure (xq_reporting_epoch q = cfg_epoch (he_config H) \<and> 0 < lo_epoch l \<and>
         lo_epoch l \<le> xq_reporting_epoch q) FailedPrecondition) (\<lambda>_.
      sbind (released_claim H l (xq_reporting_epoch q)) (\<lambda>validated.
      sbind (slift (map_err (\<lambda>_. InvalidArgument) (domain_of_code (xq_domain q)))) (\<lambda>d.
      sbind (slift (map_err (\<lambda>_. InvalidArgument) (parse_operation C (xq_through q)))) (\<lambda>through.
      sbind (slift (map_err (\<lambda>_. InvalidArgument) (retired_id_check C through))) (\<lambda>_.
      sbind get_journal (\<lambda>j.
      sbind (slift (ok_or FailedPrecondition (find_record (lo_allocation l) j))) (\<lambda>_.
      sbind (check_deadline H (lo_expires l)) (\<lambda>_.
      sbind get_journal (\<lambda>j.
      sbind (slift (ok_or uncertain (find_record (lo_allocation l) j))) (\<lambda>r.
      sbind (sensure (same_allocation (rec_owner r) validated \<and> rec_stopped r) FailedPrecondition) (\<lambda>_.
      sbind (slift (retirement_check r)) (\<lambda>_.
      sbind (observe_record H r) (\<lambda>(state, _).
      sbind (sensure (state \<in> {StateReleased, StateFencedAbsent}) uncertain) (\<lambda>_.
      sbind (check_deadline H (lo_expires l)) (\<lambda>_.
      sbind get_journal (\<lambda>j.
      sbind (slift (ok_or uncertain (find_record (lo_allocation l) j))) (\<lambda>old.
      sbind (retained_boot H old) (\<lambda>boot.
      sbind (slift (map_err (\<lambda>_. FailedPrecondition)
        (reclaim C (hj_file (he_json H)) boot old d through (lo_revision l) (xq_reporting_epoch q)))) (\<lambda>(completed, new).
      sbind (slift (headroom (he_json H) j old new)) (\<lambda>_.
      sbind (check_deadline H (lo_expires l)) (\<lambda>_.
      sbind (put_journal H (put_record (lo_allocation l) new j)) (\<lambda>_.
      sbind (wall_ms H) (\<lambda>now.
      sret (q, show_operation C completed, state, False, now))))))))))))))))))))))))))"

section \<open>Allocations of a previous epoch\<close>

definition unstopped_original :: "host_record \<Rightarrow> ownership \<Rightarrow> bool" where
  "unstopped_original r w = (\<not> same_allocation (rec_owner r) w \<or> \<not> rec_stopped r)"

definition previous_allocation ::
    "host_env \<Rightarrow> ownership option \<Rightarrow> int \<Rightarrow> observation host" where
  "previous_allocation H owner reporting_epoch =
     sbind (slift (ok_or InvalidArgument owner)) (\<lambda>w.
     sbind (sensure (reporting_epoch = cfg_epoch (he_config H) \<and> 0 < own_epoch w \<and>
        own_epoch w < reporting_epoch) FailedPrecondition) (\<lambda>_.
     sbind (check_owner H (Some (w\<lparr>own_epoch := reporting_epoch\<rparr>))) (\<lambda>_.
     sbind get_journal (\<lambda>j.
     sbind (slift (ok_or FailedPrecondition (find_record (own_allocation w) j))) (\<lambda>r.
     sbind (sensure (\<not> unstopped_original r w) FailedPrecondition) (\<lambda>_.
     sbind (ask (w_gate_free (he_world H))) (\<lambda>free.
     sbind (sensure free Unavailable) (\<lambda>_.
     sbind (check_deadline H (own_expires w)) (\<lambda>_.
     sbind get_journal (\<lambda>j.
     sbind (slift (ok_or uncertain (find_record (own_allocation w) j))) (\<lambda>r.
     sbind (sensure (\<not> unstopped_original r w) uncertain) (\<lambda>_.
     sbind (slift (retirement_check r)) (\<lambda>_.
     sbind (observe_record H r) (\<lambda>(state, receipt).
     sbind (sensure (state \<in> {StateReleased, StateFencedAbsent}) uncertain) (\<lambda>_.
     sbind (check_deadline H (own_expires w)) (\<lambda>_.
     make_observation H w r state receipt))))))))))))))))"

end
