(* ===== verification/Host_Commands.thy ===== *)
theory Host_Commands
  imports Host_History
begin

text \<open>
  Commands on the host (\<open>crates/sandbox-supervisor/src/host/commands.rs\<close>): the intent of a
  command is retained before it is sent to the guest, and every retry reconciles the retained
  record. Sending is the effect \<open>SentExecute\<close>. Then the two requests of the allocation
  authority: registering permits (\<open>host/authority.rs\<close>) and fencing an allocation for its
  retirement (\<open>host/retirement.rs\<close>).
\<close>

section \<open>Retained commands\<close>

definition save_command :: "host_env \<Rightarrow> ownership \<Rightarrow> command_record \<Rightarrow> unit host" where
  "save_command H w c =
     sbind get_journal (\<lambda>j.
     sbind (slift (ok_or uncertain (find_record (own_allocation w) j))) (\<lambda>r.
     put_journal H (put_record (own_allocation w)
       (r\<lparr>rec_commands := bt_insert (own_operation w) c (rec_commands r)\<rparr>) j)))"

definition command_room :: "host_record \<Rightarrow> ownership \<Rightarrow> host_status + unit" where
  "command_room r w =
     rbind (ensure (\<not> bt_contains (own_operation w) (rec_files r)) AlreadyExists) (\<lambda>_.
     ensure (\<not> (\<not> bt_contains (own_operation w) (rec_commands r) \<and> max_commands \<le> length (rec_commands r)))
       ResourceExhausted)"

definition command_gate :: "host_env \<Rightarrow> ownership \<Rightarrow> unit host" where
  "command_gate H w =
     sbind (host_gate H w) (\<lambda>_.
     sbind get_journal (\<lambda>j.
     sbind (slift (ok_or uncertain (find_record (own_allocation w) j))) (\<lambda>r.
     slift (command_room r w))))"

definition command_fence :: "host_env \<Rightarrow> ownership \<Rightarrow> host_record host" where
  "command_fence H w =
     sbind get_journal (\<lambda>j.
     sbind (slift (ok_or uncertain (find_record (own_allocation w) j))) (\<lambda>r.
     sbind (slift (map_err (\<lambda>_. uncertain) (parse_operation (he_crates H) (own_operation w)))) (\<lambda>i.
     sbind (slift (history_check r Commands i)) (\<lambda>_.
     sbind (slift (command_room r w)) (\<lambda>_.
     host_fence H w)))))"

section \<open>Observing\<close>

definition guest_report :: "host_env \<Rightarrow> operation_id \<Rightarrow> bool \<Rightarrow> (unit + receipt) host" where
  "guest_report H i cancel =
     (if cancel then ask (\<lambda>n. w_cancel (he_world H) n i) else ask (\<lambda>n. w_inspect (he_world H) n i))"

text \<open>A refreshed record and whether its receipt is current.\<close>

definition refresh_command ::
    "host_env \<Rightarrow> ownership \<Rightarrow> host_record \<Rightarrow> command_record \<Rightarrow> bool \<Rightarrow> (command_record \<times> bool) host" where
  "refresh_command H w r c cancel =
     (case rec_manifest r of
        None \<Rightarrow> sret (c, command_finished c)
      | Some m \<Rightarrow>
          if command_finished c \<or> rec_stopped r then sret (c, command_finished c)
          else
            sbind (ask (\<lambda>n. w_client (he_world H) n m)) (\<lambda>client.
            case client of
              Inl _ \<Rightarrow> sret (c, False)
            | Inr _ \<Rightarrow>
                sbind (slift (map_err (\<lambda>_. uncertain) (parse_operation (he_crates H) (own_operation w)))) (\<lambda>i.
                sbind (guest_report H i cancel) (\<lambda>response.
                case response of
                  Inl _ \<Rightarrow> sret (c, False)
                | Inr t \<Rightarrow>
                    sbind (slift (map_err (\<lambda>_. uncertain) (command_validate_receipt c i t))) (\<lambda>_.
                    let c' = c\<lparr>cmd_receipt := Some t\<rparr> in
                    sbind (save_command H w c') (\<lambda>_. sret (c', True)))))))"

definition observe_command ::
    "host_env \<Rightarrow> ownership \<Rightarrow> host_record \<Rightarrow> command_record \<Rightarrow> bool \<Rightarrow> command_observation host" where
  "observe_command H w r c cancel =
     sbind (refresh_command H w r c cancel) (\<lambda>(c', current).
     sbind (wall_ms H) (\<lambda>now.
     let ob = command_observe (he_crates H) c' w False now in
     sret (if current then ob else ob\<lparr>cobs_receipt := None\<rparr>)))"

record command_inspection =
  ciq_ownership :: "ownership option"
  ciq_digest :: bytes

definition command_tombstone :: "host_env \<Rightarrow> ownership \<Rightarrow> bytes \<Rightarrow> command_record host" where
  "command_tombstone H w d =
     sbind (save_command H w (command_fenced d)) (\<lambda>_. sret (command_fenced d))"

definition inspect_or_cancel :: "host_env \<Rightarrow> command_inspection \<Rightarrow> bool \<Rightarrow> command_observation host" where
  "inspect_or_cancel H q cancel =
     sbind (check_owner H (ciq_ownership q)) (\<lambda>w.
     sbind (slift (map_err (\<lambda>_. InvalidArgument) (array32 (ciq_digest q)))) (\<lambda>d.
     sbind (command_gate H w) (\<lambda>_.
     sbind (command_fence H w) (\<lambda>r.
     sbind (case bt_get (own_operation w) (rec_commands r) of
              Some c \<Rightarrow> if cmd_digest c = d then sret c else sfail AlreadyExists
            | None \<Rightarrow>
                if max_commands \<le> length (rec_commands r) then sfail ResourceExhausted
                else command_tombstone H w d) (\<lambda>c.
     observe_command H w r c cancel)))))"

section \<open>Executing\<close>

record command_request =
  cmdq_ownership :: "ownership option"
  cmdq_command :: "wire_execute option"

definition command_eligible :: "host_record \<Rightarrow> execute \<Rightarrow> int \<Rightarrow> bool" where
  "command_eligible r x now =
     (let remaining = (case checked_sub_i64 (exec_deadline x) now of None \<Rightarrow> 0 | Some n \<Rightarrow> n);
          reserved = sum_list (map cmd_output_limit (bt_values (rec_commands r))) in
      \<not> rec_stopped r \<and> \<not> rec_released r \<and> list_all command_finished (bt_values (rec_commands r)) \<and>
      1 \<le> remaining \<and> remaining \<le> max_duration_ms \<and>
      saturating_add_u64 reserved (exec_output_limit x) \<le> guest_max_reserved)"

text \<open>The context of a guest that may be asked to run the command.\<close>

definition command_client :: "host_env \<Rightarrow> host_record \<Rightarrow> execute \<Rightarrow> guest_context option host" where
  "command_client H r x =
     sbind (wall_ms H) (\<lambda>now.
     if \<not> command_eligible r x now then sret None
     else case rec_manifest r of
       None \<Rightarrow> sret None
     | Some m \<Rightarrow> sbind (ask (\<lambda>n. w_client (he_world H) n m)) (\<lambda>c.
                 sret (case c of Inl _ \<Rightarrow> None | Inr context \<Rightarrow> Some context)))"

definition dispatch_command ::
    "host_env \<Rightarrow> ownership \<Rightarrow> execute \<Rightarrow> guest_context \<Rightarrow> command_record host" where
  "dispatch_command H w x context =
     sbind (check_deadline H (own_expires w)) (\<lambda>_.
     sbind (slift (map_err (\<lambda>_. uncertain)
       (command_pending (he_crates H) (hj_execute (he_json H)) x context))) (\<lambda>c.
     sbind (save_command H w c) (\<lambda>_.
     sbind (check_deadline H (own_expires w)) (\<lambda>_.
     sbind (emit (SentExecute (own_allocation w) (own_operation w))) (\<lambda>_.
     sbind (ask (\<lambda>n. w_execute (he_world H) n x)) (\<lambda>response.
     case response of
       Inl _ \<Rightarrow> sret c
     | Inr t \<Rightarrow>
         sbind (slift (map_err (\<lambda>_. uncertain) (command_validate_receipt c (exec_operation x) t))) (\<lambda>_.
         let c' = c\<lparr>cmd_receipt := Some t\<rparr> in
         sbind (save_command H w c') (\<lambda>_. sret c'))))))))"

definition execute_request ::
    "host_env \<Rightarrow> ownership \<Rightarrow> command_request \<Rightarrow> host_status + execute \<times> bytes" where
  "execute_request H w q =
     rbind (ok_or InvalidArgument (cmdq_command q)) (\<lambda>wx.
     rbind (map_err (\<lambda>_. InvalidArgument) (execute_of_wire (he_crates H) (hj_execute (he_json H)) wx)) (\<lambda>x.
     rbind (ensure (show_operation (he_crates H) (exec_operation x) = own_operation w \<and>
        exec_output_limit x \<le> max_output) InvalidArgument) (\<lambda>_.
     rbind (map_err (\<lambda>_. uncertain) (execute_digest (he_crates H) (hj_execute (he_json H)) x)) (\<lambda>d.
     Inr (x, d)))))"

definition execute_new :: "host_env \<Rightarrow> ownership \<Rightarrow> host_record \<Rightarrow> execute \<Rightarrow> bytes \<Rightarrow> command_record host" where
  "execute_new H w r x d =
     sbind (sensure (length (rec_commands r) < max_commands) ResourceExhausted) (\<lambda>_.
     sbind (command_client H r x) (\<lambda>client.
     case client of
       None \<Rightarrow> command_tombstone H w d
     | Some context \<Rightarrow> dispatch_command H w x context))"

definition execute_command_sync :: "host_env \<Rightarrow> command_request \<Rightarrow> command_observation host" where
  "execute_command_sync H q =
     sbind (check_owner H (cmdq_ownership q)) (\<lambda>w.
     sbind (slift (execute_request H w q)) (\<lambda>(x, d).
     sbind (command_gate H w) (\<lambda>_.
     sbind (command_fence H w) (\<lambda>r.
     case bt_get (own_operation w) (rec_commands r) of
       Some previous \<Rightarrow>
         sbind (sensure (cmd_digest previous = d) AlreadyExists) (\<lambda>_.
         observe_command H w r previous False)
     | None \<Rightarrow>
         sbind (execute_new H w r x d) (\<lambda>c.
         sbind (wall_ms H) (\<lambda>now.
         sret (command_observe (he_crates H) c w False now)))))))"

section \<open>The allocation authority\<close>

definition allocation_authority_sync ::
    "host_env \<Rightarrow> string \<Rightarrow> int \<Rightarrow> bytes \<Rightarrow> (string \<times> int \<times> nat) host" where
  "allocation_authority_sync H host epoch permits =
     (let C = he_crates H; L = hj_launch (he_json H); W = he_world H in
      sbind (sensure (host = show_host C (cfg_host (he_config H)) \<and> epoch = cfg_epoch (he_config H))
               FailedPrecondition) (\<lambda>_.
      sbind (slift (ok_or FailedPrecondition (he_authority H))) (\<lambda>a.
      sbind get_journal (\<lambda>j.
      sbind (if permits = []
             then sbind (ask (w_gate W)) (\<lambda>g. sbind (ask (w_save W)) (\<lambda>env.
                  on_launch (\<lambda>_. uncertain) (launch_checkpoint C L a g env epoch)))
             else sbind (sensure (length permits \<le> 65536) InvalidArgument) (\<lambda>_.
                  sbind (slift (ok_or InvalidArgument (from_slice (hj_permits (he_json H)) permits))) (\<lambda>ps.
                  sbind (ask (w_gate W)) (\<lambda>g. sbind (ask (w_save W)) (\<lambda>env.
                  on_launch (\<lambda>_. uncertain) (launch_register C L a g env epoch ps)))))) (\<lambda>ck.
      sbind (slift (ok_or uncertain (jr_authority j))) (\<lambda>prior.
      sbind (sensure (\<not> ck_through ck < ck_through prior) uncertain) (\<lambda>_.
      sbind (if prior \<noteq> ck then put_journal H (j\<lparr>jr_authority := Some ck\<rparr>) else sret ()) (\<lambda>_.
      sret (show_host C (ck_host ck), ck_epoch ck, ck_through ck)))))))))"

text \<open>The record a retirement freezes: the retained one, or an empty one for an absent owner.\<close>

definition retirement_record :: "host_env \<Rightarrow> retained \<Rightarrow> retire_request \<Rightarrow> string \<Rightarrow> host_status + host_record" where
  "retirement_record H j q key =
     (case find_record key j of
        Some r \<Rightarrow> Inr r
      | None \<Rightarrow>
          if max_records \<le> length (jr_records j) then Inl ResourceExhausted
          else Inr (empty_retired (he_crates H) q))"

definition retirement_claim :: "host_env \<Rightarrow> host_record \<Rightarrow> retire_request \<Rightarrow> unit host" where
  "retirement_claim H r q =
     (case rec_retirement r of
        None \<Rightarrow> sret ()
      | Some old \<Rightarrow>
          sbind (wall_ms H) (\<lambda>now.
          sbind (slift (map_err (\<lambda>_. FailedPrecondition)
            (request_validate (he_crates H) q (req_intent old) (cfg_epoch (he_config H)) (req_revision old) now))) (\<lambda>_.
          sensure (\<not> (req_revision q = req_revision old \<and> q \<noteq> old)) FailedPrecondition)))"

definition busy_or :: "host_status \<Rightarrow> launch_error \<Rightarrow> host_status" where
  "busy_or s e = (if is_lock_contended e then Unavailable else s)"

definition fence_root :: "host_env \<Rightarrow> checkpoint \<Rightarrow> retire_request \<Rightarrow> unit host" where
  "fence_root H ck q =
     (let C = he_crates H; L = hj_launch (he_json H); W = he_world H; cfg = he_config H in
      sbind (ask (w_gate W)) (\<lambda>g.
      sbind (on_launch (\<lambda>_. uncertain) (launch_open C L g (cfg_host cfg) (cfg_epoch cfg) (ck_through ck))) (\<lambda>a.
      sbind (ask (w_gate W)) (\<lambda>g.
      sbind (ask (w_save W)) (\<lambda>env.
      on_launch (busy_or uncertain)
        (launch_fence C L a g env (cfg_epoch cfg) (intent_permit (req_intent q))
           (intent_retirement (req_intent q))))))))"

definition fence_allocation_sync :: "host_env \<Rightarrow> bytes \<Rightarrow> (bytes \<times> int) host" where
  "fence_allocation_sync H json =
     (let C = he_crates H; L = hj_launch (he_json H); W = he_world H; cfg = he_config H in
      sbind (slift (map_err (\<lambda>_. InvalidArgument) (request_decode C (hj_retire (he_json H)) json))) (\<lambda>q.
      let i = req_intent q; key = show_allocation C (permit_allocation (intent_permit i)) in
      sbind (sensure (he_authority H \<noteq> None \<and> \<not> intent_simulated i \<and>
         permit_host (intent_permit i) = cfg_host cfg) FailedPrecondition) (\<lambda>_.
      sbind (check_deadline H (req_expires_unix_ms q)) (\<lambda>_.
      sbind (wall_ms H) (\<lambda>now.
      sbind (slift (map_err (\<lambda>_. FailedPrecondition) (request_validate C q i (cfg_epoch cfg) 1 now))) (\<lambda>_.
      sbind get_journal (\<lambda>j.
      sbind (slift (ok_or uncertain (jr_authority j))) (\<lambda>ck.
      sbind (ask (w_gate W)) (\<lambda>g.
      sbind (on_launch (busy_or FailedPrecondition)
        (authorize_retirement C L g (cfg_host cfg) (cfg_epoch cfg) (ck_through ck) i)) (\<lambda>_.
      sbind (slift (retirement_record H j q key)) (\<lambda>r.
      sbind (ask (w_gate_free W)) (\<lambda>free.
      sbind (sensure free Unavailable) (\<lambda>_.
      sbind (slift (map_err (\<lambda>_. FailedPrecondition) (retire_scope C r q))) (\<lambda>_.
      sbind (retirement_claim H r q) (\<lambda>_.
      sbind (put_journal H (put_record key (r\<lparr>rec_retirement := Some q, rec_stopped := True\<rparr>) j)) (\<lambda>_.
      sbind (fence_root H ck q) (\<lambda>_.
      sbind (ask (w_readers_done W)) (\<lambda>done_reading.
      sbind (sensure done_reading Unavailable) (\<lambda>_.
      sbind (tickets_pending H (permit_allocation (intent_permit i))) (\<lambda>pending.
      sbind (sensure (\<not> pending) Unavailable) (\<lambda>_.
      sbind (check_deadline H (req_expires_unix_ms q)) (\<lambda>_.
      sbind (wall_ms H) (\<lambda>at_time.
      sret (json, at_time))))))))))))))))))))))))"

end
