(* ===== verification/Host_Journal.thy ===== *)
theory Host_Journal
  imports Host_Commands
begin

text \<open>
  Starting the host (\<open>open\<close> of \<open>host/journal.rs\<close> and \<open>host/authority.rs\<close>): the retained
  journal is read, every record is validated, every retained allocation is stopped, the epoch
  advances, and the result is saved before anything is served. A start that fails serves
  nothing: the journal in memory is then poisoned.

  \<open>open_env\<close> is what the machine answers while the host starts. The physical checks of
  retained deletions (\<open>Plan::verify_removed\<close>, \<open>Session::open\<close> of \<open>guardian/retirement.rs\<close>)
  and the receipt files of the guardians are among the answers.
\<close>

section \<open>Validation of a retained record\<close>

definition record_receipt ::
    "crates \<Rightarrow> manifest json \<Rightarrow> (manifest \<Rightarrow> unit + guardian_receipt) \<Rightarrow> host_record \<Rightarrow> unit + guardian_receipt" where
  "record_receipt C J file_receipt r =
     rbind (ok_or () (rec_manifest r)) (\<lambda>m.
     case rec_metadata r of
       None \<Rightarrow> file_receipt m
     | Some s \<Rightarrow>
         rbind (ok_or () (plan_receipt (ms_plan s))) (\<lambda>g.
         rbind (manifest_validate_receipt C J m g) (\<lambda>_. Inr g)))"

text \<open>\<open>history::validate_retained\<close>; \<open>receipt\<close> is \<open>metadata_retirement::receipt\<close> of the record.\<close>

definition history_validate_slot ::
    "crates \<Rightarrow> file_record json \<Rightarrow> unit + guardian_receipt \<Rightarrow> host_record \<Rightarrow> domain \<Rightarrow> unit + unit" where
  "history_validate_slot C K receipt r d =
     (case live_slot r d of
        None \<Rightarrow> Inr ()
      | Some x \<Rightarrow>
          let b = lr_barrier x; context = bar_context b in
          rbind (barrier_validate C b context d) (\<lambda>_.
          rbind (barrier_validate C (b\<lparr>bar_through := lr_requested_through x\<rparr>) context d) (\<lambda>_.
          rbind (ensure (lr_requested_through x \<le> bar_through b) ()) (\<lambda>_.
          rbind (ensure (0 < lr_revision x \<and>
             show_allocation C (ctx_allocation context) = own_allocation (rec_owner r) \<and>
             ctx_generation context = own_generation (rec_owner r)) ()) (\<lambda>_.
          rbind receipt (\<lambda>g.
          rbind (ensure (gr_guest_boot_id g = Some (ctx_boot context)) ()) (\<lambda>_.
          rbind (eligible C K r b) (\<lambda>_.
          if \<not> lr_completed x then Inr ()
          else try_all (\<lambda>name.
            rbind (map_err (\<lambda>_. ()) (parse_operation C name)) (\<lambda>i. ensure (\<not> covers b i) ()))
            (domain_names r d)))))))))"

definition released_validate_slot :: "crates \<Rightarrow> host_record \<Rightarrow> int \<Rightarrow> domain \<Rightarrow> unit + unit" where
  "released_validate_slot C r epoch d =
     (case released_slot r d of
        None \<Rightarrow> Inr ()
      | Some x \<Rightarrow>
          rbind (retired_id_check C (xr_through x)) (\<lambda>_.
          rbind (retired_id_check C (xr_requested_through x)) (\<lambda>_.
          rbind (ensure (rec_stopped r \<and> xr_version x = 1 \<and> 0 < xr_revision x \<and>
             xr_requested_through x \<le> xr_through x \<and> own_epoch (rec_owner r) \<le> xr_epoch x \<and>
             xr_epoch x \<le> epoch) ()) (\<lambda>_.
          rbind (retired_names C r d (xr_through x)) (\<lambda>names. ensure (names = []) ())))))"

definition command_validate_retained :: "crates \<Rightarrow> host_record \<Rightarrow> string \<times> command_record \<Rightarrow> unit + unit" where
  "command_validate_retained C r e =
     (case e of (name, c) \<Rightarrow>
        rbind (map_err (\<lambda>_. ()) (parse_operation C name)) (\<lambda>i.
        if cmd_not_started c
        then ensure (cmd_context c = None \<and> cmd_receipt c = None \<and> cmd_output_limit c = 0 \<and> cmd_deadline c = 0) ()
        else rbind (ok_or () (cmd_context c)) (\<lambda>x.
             rbind (ensure (show_allocation C (ctx_allocation x) = own_allocation (rec_owner r) \<and>
                ctx_generation x = own_generation (rec_owner r) \<and> ctx_boot x \<noteq> [] \<and> length (ctx_boot x) \<le> 64 \<and>
                1 \<le> cmd_output_limit c \<and> cmd_output_limit c \<le> max_output) ()) (\<lambda>_.
             case cmd_receipt c of None \<Rightarrow> Inr () | Some t \<Rightarrow> command_validate_receipt c i t))))"

definition file_validate_retained ::
    "crates \<Rightarrow> file_record json \<Rightarrow> unit + guardian_receipt \<Rightarrow> host_record \<Rightarrow> string \<times> file_record \<Rightarrow> unit + unit" where
  "file_validate_retained C K receipt r e =
     (case e of (name, f) \<Rightarrow>
        rbind (map_err (\<lambda>_. ()) (parse_operation C name)) (\<lambda>_.
        rbind (file_record_validate K f) (\<lambda>_.
        rbind (ensure (bt_contains name (rec_revisions r) \<and> \<not> bt_contains name (rec_commands r)) ()) (\<lambda>_.
        case file_context f of
          None \<Rightarrow> Inr ()
        | Some x \<Rightarrow>
            rbind (ensure (show_allocation C (ctx_allocation x) = own_allocation (rec_owner r) \<and>
               ctx_generation x = own_generation (rec_owner r)) ()) (\<lambda>_.
            rbind receipt (\<lambda>g. ensure (gr_guest_boot_id g = Some (ctx_boot x)) ()))))))"

definition archive_validate_retained ::
    "crates \<Rightarrow> host_record \<Rightarrow> string \<times> archive_record \<Rightarrow> unit + unit" where
  "archive_validate_retained C r e =
     (case e of (name, a) \<Rightarrow>
        rbind (ok_or () (bt_get name (rec_commands r))) (\<lambda>c.
        rbind (ticket_validate (ar_ticket a)) (\<lambda>_.
        rbind (ensure (0 < ar_revision a \<and> show_operation C (oo_operation (tk_owner (ar_ticket a))) = name) ()) (\<lambda>_.
        rbind (map_err (\<lambda>_. ()) (archive_validate_owner C (rec_owner r) (ar_ticket a))) (\<lambda>_.
        rbind (ok_or () (cmd_receipt c)) (\<lambda>t.
        rbind (map_err (\<lambda>_. ()) (archive_validate_receipt (ar_ticket a) t)) (\<lambda>_.
        case ar_plans a of
          None \<Rightarrow> Inr ()
        | Some ps \<Rightarrow> map_err (\<lambda>_. ()) (archive_validate_plans (ar_ticket a) ps t))))))))"

definition ownership_validate :: "host_env \<Rightarrow> string \<Rightarrow> host_record \<Rightarrow> unit + unit" where
  "ownership_validate H key r =
     (let w = rec_owner r; cfg = he_config H in
      rbind (ensure (key = own_allocation w \<and> own_host w = show_host (he_crates H) (cfg_host cfg) \<and>
         own_epoch w < cfg_epoch cfg \<and> length (rec_revisions r) \<le> 64) ()) (\<lambda>_.
      rbind (ensure (\<not> rec_released r \<or> (rec_stopped r \<and> rec_manifest r \<noteq> None)) ()) (\<lambda>_.
      rbind (ensure ((rec_create r \<noteq> None) = (rec_manifest r \<noteq> None) \<and>
         (\<not> rec_dispatched r \<or> rec_manifest r \<noteq> None)) ()) (\<lambda>_.
      retirement_validate_retained (he_crates H) r (cfg_epoch cfg)))))"

definition manifest_validate_retained ::
    "host_env \<Rightarrow> bool \<Rightarrow> unit + guardian_receipt \<Rightarrow> string \<Rightarrow> host_record \<Rightarrow> unit + unit" where
  "manifest_validate_retained H is_root receipt key r =
     (let C = he_crates H; cfg = he_config H; w = rec_owner r in
      case rec_manifest r of
        None \<Rightarrow> Inr ()
      | Some m \<Rightarrow>
          let g = gs_owner (mn_start m) in
          rbind (ensure (show_allocation C (go_allocation g) = key \<and> go_host g = cfg_host cfg \<and>
             path_eq (gc_state_root (mn_config m)) (path_join (cfg_state_root cfg) ''a'')) ()) (\<lambda>_.
          rbind (manifest_validate C (hj_manifest (he_json H)) is_root m) (\<lambda>_.
          rbind (ensure (show_project C (go_project g) = own_project w \<and> show_sandbox C (go_sandbox g) = own_sandbox w \<and>
             go_generation g = own_generation w \<and> go_epoch g = own_epoch w) ()) (\<lambda>_.
          if \<not> rec_released r then Inr ()
          else rbind receipt (\<lambda>x. ensure (gr_cleanup_confirmed x \<and> gr_state x = GStopped) ())))))"

definition contents_validate_retained ::
    "host_env \<Rightarrow> unit + guardian_receipt \<Rightarrow> host_record \<Rightarrow> unit + unit" where
  "contents_validate_retained H receipt r =
     (let C = he_crates H; K = hj_file (he_json H) in
      rbind (ensure (length (rec_commands r) \<le> max_commands) ()) (\<lambda>_.
      rbind (ensure (length (rec_archives r) \<le> length (rec_commands r)) ()) (\<lambda>_.
      rbind (try_all (archive_validate_retained C r) (rec_archives r)) (\<lambda>_.
      rbind (try_all (command_validate_retained C r) (rec_commands r)) (\<lambda>_.
      rbind (ensure (length (rec_files r) \<le> max_files \<and>
         sum_list (map file_size (bt_values (rec_files r))) \<le> max_reserved_bytes) ()) (\<lambda>_.
      rbind (try_all (file_validate_retained C K receipt r) (rec_files r)) (\<lambda>_.
      rbind (try_all (history_validate_slot C K receipt r) [Commands, FilesDomain]) (\<lambda>_.
      try_all (released_validate_slot C r (cfg_epoch (he_config H))) [Commands, FilesDomain]))))))))"

section \<open>Opening\<close>

record open_env =
  oe_config_ok :: bool
  oe_root :: bool
  oe_lock :: bool
  oe_entries :: nat
  oe_is_root :: bool
  oe_receipt :: "manifest \<Rightarrow> unit + guardian_receipt"
  oe_removed :: "deletion_plan \<Rightarrow> intent \<Rightarrow> manifest option \<Rightarrow> bool"
  oe_session :: "deletion_plan \<Rightarrow> intent \<Rightarrow> manifest option \<Rightarrow> bool"
  oe_required :: save_env

text \<open>The part of \<open>Host::open\<close> that reads only the configuration.\<close>

definition host_config_ok :: "host_config \<Rightarrow> bool" where
  "host_config_ok c =
     (0 < cfg_epoch c \<and> cfg_images c \<noteq> [] \<and> length (cfg_images c) \<le> 64 \<and>
      list_all valid_image_digest (map fst (cfg_images c)) \<and>
      0 < hc_vcpu (cfg_capacity c) \<and> 0 < hc_memory_mib (cfg_capacity c) \<and> 0 < hc_disk_mib (cfg_capacity c) \<and>
      path_absolute (cfg_state_root c) \<and> path_absolute (cfg_guardian_binary c))"

text \<open>An operation of the authority with its gate and write answers.\<close>

definition with_gate :: "host_env \<Rightarrow> (gate_env \<Rightarrow> 'a launch) \<Rightarrow> 'a host" where
  "with_gate H m = sbind (ask (w_gate (he_world H))) (\<lambda>g. on_launch (\<lambda>_. uncertain) (m g))"

definition with_gate_save :: "host_env \<Rightarrow> (gate_env \<Rightarrow> save_env \<Rightarrow> 'a launch) \<Rightarrow> 'a host" where
  "with_gate_save H m =
     sbind (ask (w_gate (he_world H))) (\<lambda>g.
     sbind (ask (w_save (he_world H))) (\<lambda>env. on_launch (\<lambda>_. uncertain) (m g env)))"

definition deletion_validate :: "host_env \<Rightarrow> open_env \<Rightarrow> checkpoint option \<Rightarrow> host_record \<Rightarrow> unit host" where
  "deletion_validate H oe ck r =
     (let C = he_crates H; L = hj_launch (he_json H); cfg = he_config H in
      if rec_retirement r = None \<and> rec_metadata r = None then sret ()
      else
        sbind (slift (ok_or uncertain (rec_retirement r))) (\<lambda>q.
        sbind (slift (ok_or uncertain ck)) (\<lambda>ck.
        sbind (with_gate H (\<lambda>g. launch_open C L g (cfg_host cfg) (req_reporting_epoch q) (ck_through ck))) (\<lambda>a.
        sbind (with_gate_save H (retained_checkpoint C L a)) (\<lambda>kept.
        sbind (sensure (ck_epoch kept \<le> cfg_epoch cfg \<and> cfg_permits_required cfg) uncertain) (\<lambda>_.
        case rec_metadata r of
          None \<Rightarrow>
            sbind (with_gate H (\<lambda>g. authorize_retirement C L g (cfg_host cfg) (ck_epoch kept) (ck_through ck) (req_intent q))) (\<lambda>_.
            sret ())
        | Some s \<Rightarrow>
            if ms_removed s
            then sbind (with_gate_save H (\<lambda>g env. launch_retirement_guard C L a g env (ck_epoch kept) (req_intent q))) (\<lambda>guard.
                 sbind (sensure (rg_phase guard \<noteq> PhaseClosed) uncertain) (\<lambda>_.
                 sensure (oe_removed oe (ms_plan s) (req_intent q) (rec_manifest r)) uncertain))
            else sensure (oe_session oe (ms_plan s) (req_intent q) (rec_manifest r)) uncertain))))))"

text \<open>One turn of the loop over the records: validated, and stopped from here on.\<close>

definition open_record ::
    "host_env \<Rightarrow> open_env \<Rightarrow> checkpoint option \<Rightarrow> string \<times> host_record \<Rightarrow> (string \<times> host_record) host" where
  "open_record H oe ck e =
     (case e of (key, r) \<Rightarrow>
        let receipt = record_receipt (he_crates H) (hj_manifest (he_json H)) (oe_receipt oe) r in
        sbind (slift (map_err (\<lambda>_. uncertain) (ownership_validate H key r))) (\<lambda>_.
        sbind (deletion_validate H oe ck r) (\<lambda>_.
        sbind (slift (map_err (\<lambda>_. uncertain) (manifest_validate_retained H (oe_is_root oe) receipt key r))) (\<lambda>_.
        sbind (slift (map_err (\<lambda>_. uncertain) (contents_validate_retained H receipt r))) (\<lambda>_.
        sret (key, r\<lparr>rec_stopped := True\<rparr>))))))"

fun open_records ::
    "host_env \<Rightarrow> open_env \<Rightarrow> checkpoint option \<Rightarrow> (string \<times> host_record) list \<Rightarrow> (string \<times> host_record) list host" where
  "open_records H oe ck [] = sret []"
| "open_records H oe ck (e # es) =
     sbind (open_record H oe ck e) (\<lambda>x.
     sbind (open_records H oe ck es) (\<lambda>xs. sret (x # xs)))"

definition journal_read :: "host_env \<Rightarrow> meta_file \<Rightarrow> host_status + retained" where
  "journal_read H f =
     rbind (ensure (mf_private f \<and> length (mf_bytes f) \<le> journal_max_bytes) uncertain) (\<lambda>_.
     rbind (ok_or uncertain (from_slice (hj_retained (he_json H)) (mf_bytes f))) (\<lambda>j.
     rbind (ensure (jr_version j = 1 \<and> jr_host j = cfg_host (he_config H) \<and>
        jr_epoch j < cfg_epoch (he_config H) \<and> length (jr_records j) \<le> max_records) uncertain) (\<lambda>_.
     Inr j)))"

definition journal_initial :: "host_env \<Rightarrow> open_env \<Rightarrow> retained host" where
  "journal_initial H oe =
     (let C = he_crates H; L = hj_launch (he_json H); cfg = he_config H in
      sbind (sensure (oe_entries oe = 1) uncertain) (\<lambda>_.
      sbind (if cfg_permits_required cfg
             then sbind (with_gate_save H (\<lambda>g env. launch_initialize C L g env (cfg_host cfg) (cfg_epoch cfg) (oe_required oe))) (\<lambda>a.
                  sbind (with_gate_save H (\<lambda>g env. launch_checkpoint C L a g env (cfg_epoch cfg))) (\<lambda>ck.
                  sret (Some ck)))
             else sret None) (\<lambda>ck.
      sret \<lparr>jr_authority = ck, jr_version = 1, jr_host = cfg_host cfg, jr_epoch = cfg_epoch cfg, jr_records = []\<rparr>)))"

definition journal_open :: "host_env \<Rightarrow> open_env \<Rightarrow> retained host" where
  "journal_open H oe =
     sbind (sensure (oe_root oe \<and> oe_lock oe) uncertain) (\<lambda>_.
     sbind (sread (\<lambda>s. st_main (hs_files s))) (\<lambda>main.
     sbind (case main of Some f \<Rightarrow> slift (journal_read H f) | None \<Rightarrow> journal_initial H oe) (\<lambda>j.
     sbind (sensure (sum_list (map (\<lambda>r. length (rec_files r)) (bt_values (jr_records j))) \<le> max_host_files) uncertain) (\<lambda>_.
     sbind (open_records H oe (jr_authority j) (jr_records j)) (\<lambda>rs.
     let j' = j\<lparr>jr_epoch := cfg_epoch (he_config H), jr_records := rs\<rparr> in
     sbind (put_journal H j') (\<lambda>_. sret j'))))))"

definition authority_open :: "host_env \<Rightarrow> retained \<Rightarrow> authority_file option host" where
  "authority_open H j =
     (let C = he_crates H; L = hj_launch (he_json H); cfg = he_config H in
      sbind (sensure (cfg_permits_required cfg = (jr_authority j \<noteq> None)) uncertain) (\<lambda>_.
      case jr_authority j of
        None \<Rightarrow> sret None
      | Some kept \<Rightarrow>
          sbind (sensure (ck_host kept = cfg_host cfg \<and> 0 < ck_epoch kept \<and> ck_epoch kept \<le> cfg_epoch cfg) uncertain) (\<lambda>_.
          sbind (with_gate H (\<lambda>g. launch_open C L g (cfg_host cfg) (ck_epoch kept) (ck_through kept))) (\<lambda>a.
          sbind (with_gate_save H (retained_checkpoint C L a)) (\<lambda>current.
          sbind (sensure (ck_epoch current \<le> cfg_epoch cfg) uncertain) (\<lambda>_.
          sbind (if ck_epoch current < cfg_epoch cfg
                 then with_gate_save H (\<lambda>g env. launch_advance_epoch C L a g env (ck_epoch current) (cfg_epoch cfg))
                 else sret ()) (\<lambda>_.
          sbind (with_gate_save H (\<lambda>g env. launch_checkpoint C L a g env (cfg_epoch cfg))) (\<lambda>ck.
          sbind (put_journal H (j\<lparr>jr_authority := Some ck\<rparr>)) (\<lambda>_.
          sret (Some a))))))))))"

text \<open>
  A start: the process of the previous epoch is gone, with what it held in memory. Only the
  saves clear \<open>poisoned\<close>, so a failed start leaves a journal that serves nothing. The tickets
  of the previous process are gone.
\<close>

definition host_open :: "host_env \<Rightarrow> open_env \<Rightarrow> authority_file option host" where
  "host_open H oe s =
     (case sbind (sensure (oe_config_ok oe \<and> host_config_ok (he_config H)) uncertain) (\<lambda>_.
           sbind (swrite (set_poisoned False)) (\<lambda>_.
           sbind (journal_open H oe) (\<lambda>j. authority_open H j))) s of
        (Inr a, t) \<Rightarrow> (Inr a, t\<lparr>hs_downloads := []\<rparr>)
      | (Inl e, t) \<Rightarrow> (Inl e, set_poisoned True t))"

end
