(* ===== verification/Host_Deletion.thy ===== *)
theory Host_Deletion
  imports Host_Journal
begin

text \<open>
  The end of an allocation on the host (\<open>crates/sandbox-supervisor/src/host\<close>): removing the
  guardian's metadata under a retained plan (\<open>metadata_retirement.rs\<close>), and forgetting the row
  once the authority has recorded the completion (\<open>forgetting.rs\<close>). The session that removes
  the files is modelled in \<open>Deletion\<close>; here its outcome is an answer of the world.
\<close>

section \<open>Removing the metadata\<close>

definition open_session ::
    "host_env \<Rightarrow> retire_request \<Rightarrow> host_record \<Rightarrow> (deletion_plan \<times> bool) host" where
  "open_session H q r =
     sbind (ask (\<lambda>n. w_session (he_world H) n (req_intent q) (rec_manifest r) (map_option ms_plan (rec_metadata r)))) (\<lambda>x.
     slift (map_err (\<lambda>e. case e of SessionBusy \<Rightarrow> Unavailable | SessionFailed \<Rightarrow> uncertain) x))"

text \<open>The record this request works on: the frozen one, with its claim not superseded.\<close>

definition retiring_record :: "host_env \<Rightarrow> retire_request \<Rightarrow> string \<Rightarrow> host_record host" where
  "retiring_record H q key =
     sbind get_journal (\<lambda>j.
     sbind (slift (ok_or uncertain (find_record key j))) (\<lambda>_.
     sbind (ask (w_gate_free (he_world H))) (\<lambda>free.
     sbind (sensure free Unavailable) (\<lambda>_.
     sbind get_journal (\<lambda>j.
     sbind (slift (ok_or uncertain (find_record key j))) (\<lambda>r.
     sbind (slift (ok_or uncertain (jr_authority j))) (\<lambda>_.
     sbind (sensure (rec_retirement r = Some q) FailedPrecondition) (\<lambda>_.
     sret r))))))))"

definition replace_record :: "host_env \<Rightarrow> string \<Rightarrow> host_record \<Rightarrow> unit host" where
  "replace_record H key r = sbind get_journal (\<lambda>j. put_journal H (put_record key r j))"

text \<open>The plan is retained before the first unlink; the result is the record that holds it.\<close>

definition retain_plan ::
    "host_env \<Rightarrow> string \<Rightarrow> host_record \<Rightarrow> deletion_plan \<times> bool \<Rightarrow> host_record host" where
  "retain_plan H key r session =
     (case rec_metadata r of
        Some s \<Rightarrow> sbind (sensure (\<not> (ms_removed s \<and> \<not> snd session)) uncertain) (\<lambda>_. sret r)
      | None \<Rightarrow>
          let r' = r\<lparr>rec_metadata := Some \<lparr>ms_plan = fst session, ms_removed = False\<rparr>\<rparr> in
          sbind (replace_record H key r') (\<lambda>_. sret r'))"

definition retire_metadata_sync :: "host_env \<Rightarrow> bytes \<Rightarrow> (bytes \<times> int) host" where
  "retire_metadata_sync H json =
     (let C = he_crates H; W = he_world H in
      sbind (fence_allocation_sync H json) (\<lambda>_.
      sbind (slift (map_err (\<lambda>_. uncertain) (request_decode C (hj_retire (he_json H)) json))) (\<lambda>q.
      let a = permit_allocation (intent_permit (req_intent q)); key = show_allocation C a in
      sbind (retiring_record H q key) (\<lambda>r.
      sbind (ask (w_readers_done W)) (\<lambda>done_reading.
      sbind (sensure done_reading Unavailable) (\<lambda>_.
      sbind (tickets_pending H a) (\<lambda>pending.
      sbind (sensure (\<not> pending) Unavailable) (\<lambda>_.
      sbind (check_deadline H (req_expires_unix_ms q)) (\<lambda>_.
      sbind (case rec_manifest r of
               None \<Rightarrow> sret ()
             | Some m \<Rightarrow> sbind (ask (\<lambda>n. w_control W n m ActionStop)) (\<lambda>_. sret ())) (\<lambda>_.
      sbind (open_session H q r) (\<lambda>session.
      sbind (retain_plan H key r session) (\<lambda>r.
      sbind (ask (w_remove_all W)) (\<lambda>removed.
      sbind (sensure removed uncertain) (\<lambda>_.
      sbind (slift (ok_or uncertain (rec_metadata r))) (\<lambda>s.
      sbind (replace_record H key (r\<lparr>rec_metadata := Some (s\<lparr>ms_removed := True\<rparr>)\<rparr>)) (\<lambda>_.
      sbind (check_deadline H (req_expires_unix_ms q)) (\<lambda>_.
      sbind (wall_ms H) (\<lambda>now.
      sret (json, now)))))))))))))))))))"

section \<open>Forgetting the row\<close>

definition verify_forgetting :: "host_env \<Rightarrow> host_record \<Rightarrow> forget_request \<Rightarrow> unit host" where
  "verify_forgetting H r f =
     sbind (sensure (rec_retirement r = Some (forget_metadata f)) uncertain) (\<lambda>_.
     sbind (slift (map_err (\<lambda>_. uncertain)
       (retirement_validate_retained (he_crates H) r (cfg_epoch (he_config H))))) (\<lambda>_.
     sbind (slift (ok_or uncertain (rec_metadata r))) (\<lambda>s.
     sbind (sensure (ms_removed s) uncertain) (\<lambda>_.
     sbind (ask (\<lambda>n. w_plan_removed (he_world H) n (ms_plan s) (req_intent (forget_claim f)) (rec_manifest r))) (\<lambda>gone.
     sensure gone uncertain)))))"

text \<open>A step of the retirement guard; its lock is held from the opening on.\<close>

definition on_guard ::
    "(retirement_guard \<Rightarrow> launch_dir \<Rightarrow> (launch_error + unit) \<times> retirement_guard \<times> launch_dir) \<Rightarrow>
     retirement_guard \<Rightarrow> retirement_guard host" where
  "on_guard m g s =
     (case m g (hs_launch s) of
        (Inl _, _, d) \<Rightarrow> (Inl uncertain, s\<lparr>hs_launch := d\<rparr>)
      | (Inr _, g', d) \<Rightarrow> (Inr g', s\<lparr>hs_launch := d\<rparr>))"

definition guard_completed :: "host_env \<Rightarrow> retirement_guard \<Rightarrow> retirement_guard host" where
  "guard_completed H g =
     (if rg_phase g = PhaseFenced
      then sbind (ask (w_save (he_world H))) (\<lambda>env.
           on_guard (guard_complete (he_crates H) (hj_launch (he_json H)) env) g)
      else sret g)"

definition remove_record :: "string \<Rightarrow> retained \<Rightarrow> retained" where
  "remove_record key = jr_records_update (bt_remove key)"

definition forget_row ::
    "host_env \<Rightarrow> forget_request \<Rightarrow> retained \<Rightarrow> string \<Rightarrow> retirement_guard \<Rightarrow> retirement_guard host" where
  "forget_row H f j key g =
     (case find_record key j of
        Some r \<Rightarrow>
          sbind (sensure (rg_phase g \<noteq> PhaseClosed) uncertain) (\<lambda>_.
          sbind (verify_forgetting H r f) (\<lambda>_.
          sbind (guard_completed H g) (\<lambda>g'.
          sbind (check_deadline H (req_expires_unix_ms (forget_claim f))) (\<lambda>_.
          sbind (put_journal H (remove_record key j)) (\<lambda>_.
          sret g')))))
      | None \<Rightarrow>
          sbind (sensure (rg_phase g \<noteq> PhaseFenced) uncertain) (\<lambda>_.
          sbind (ask (\<lambda>n. w_verify_absent (he_world H) n (req_intent (forget_claim f)))) (\<lambda>absent.
          sbind (sensure absent uncertain) (\<lambda>_.
          sret g))))"

datatype forget_outcome = ForgetRetired | ForgetForgotten

definition forget_guard :: "host_env \<Rightarrow> forget_request \<Rightarrow> retirement_guard \<Rightarrow> forget_outcome host" where
  "forget_guard H f g =
     (if rg_phase g = PhaseClosed then sret ForgetRetired
      else sbind (ask (w_root_sync (he_world H))) (\<lambda>synced.
           sbind (sensure synced uncertain) (\<lambda>_.
           sbind (check_deadline H (req_expires_unix_ms (forget_claim f))) (\<lambda>_.
           sbind (ask (w_save (he_world H))) (\<lambda>env.
           sbind (on_guard (guard_forget (he_crates H) (hj_launch (he_json H)) env) g) (\<lambda>_.
           sret ForgetForgotten))))))"

text \<open>The gate and the readers of a row that is still there.\<close>

definition row_free :: "host_env \<Rightarrow> host_record option \<Rightarrow> unit host" where
  "row_free H r =
     (case r of
        None \<Rightarrow> sret ()
      | Some _ \<Rightarrow>
          sbind (ask (w_gate_free (he_world H))) (\<lambda>free.
          sbind (sensure free Unavailable) (\<lambda>_.
          sbind (ask (w_readers_done (he_world H))) (\<lambda>done_reading.
          sensure done_reading Unavailable))))"

definition forget_allocation_sync :: "host_env \<Rightarrow> bytes \<Rightarrow> (bytes \<times> forget_outcome \<times> int) host" where
  "forget_allocation_sync H json =
     (let C = he_crates H; L = hj_launch (he_json H); W = he_world H; cfg = he_config H in
      sbind (slift (map_err (\<lambda>_. InvalidArgument) (forget_decode C (hj_forget (he_json H)) json))) (\<lambda>f.
      let q = forget_claim f; i = req_intent q; a = permit_allocation (intent_permit i); key = show_allocation C a in
      sbind (wall_ms H) (\<lambda>now.
      sbind (slift (map_err (\<lambda>_. FailedPrecondition) (forget_validate C f (cfg_epoch cfg) now))) (\<lambda>_.
      sbind (sensure (cfg_permits_required cfg \<and> permit_host (intent_permit i) = cfg_host cfg) FailedPrecondition) (\<lambda>_.
      sbind get_journal (\<lambda>j.
      sbind (slift (ok_or uncertain (jr_authority j))) (\<lambda>ck.
      sbind (row_free H (find_record key j)) (\<lambda>_.
      sbind (tickets_pending H a) (\<lambda>pending.
      sbind (sensure (\<not> pending) Unavailable) (\<lambda>_.
      sbind (with_gate H (\<lambda>g. launch_open C L g (cfg_host cfg) (cfg_epoch cfg) (ck_through ck))) (\<lambda>authority.
      sbind (with_gate_save H (\<lambda>g env. launch_retirement_guard C L authority g env (cfg_epoch cfg) i)) (\<lambda>guard.
      sbind (check_deadline H (req_expires_unix_ms q)) (\<lambda>_.
      sbind (forget_row H f j key guard) (\<lambda>guard.
      sbind (forget_guard H f guard) (\<lambda>outcome.
      sbind (check_deadline H (req_expires_unix_ms q)) (\<lambda>_.
      sbind (wall_ms H) (\<lambda>now.
      sret (json, outcome, now))))))))))))))))))"

end
