(* ===== verification/Host_Archive.thy ===== *)
theory Host_Archive
  imports Host_Commands
begin

text \<open>
  Publishing and reading output on the host (\<open>host/archive.rs\<close>, \<open>host/live_output.rs\<close> of
  \<open>crates/sandbox-supervisor/src\<close>). The journal sections run under the allocation gate; the
  guest reads and the object writes between them run without it, so each half checks the
  ownership and the plans again.
\<close>

section \<open>The journal sections of a publication\<close>

definition archive_request_ok :: "host_env \<Rightarrow> output_request \<Rightarrow> (output_ticket \<times> output_plans option) host" where
  "archive_request_ok H q =
     sbind (wall_ms H) (\<lambda>now.
     slift (archive_decode (hj_ticket (he_json H)) (hj_plans (he_json H)) q now))"

text \<open>The receipt the ticket publishes, and the archive entry this request retains.\<close>

definition archive_entry ::
    "crates \<Rightarrow> host_record \<Rightarrow> output_request \<Rightarrow> output_ticket \<Rightarrow> output_plans option \<Rightarrow>
     host_status + receipt \<times> archive_record" where
  "archive_entry C r q k ps =
     (let op = show_operation C (oo_operation (tk_owner k)) in
      rbind (archive_validate_owner C (rec_owner r) k) (\<lambda>_.
      rbind (history_check r Commands (oo_operation (tk_owner k))) (\<lambda>_.
      rbind (ok_or NotFound (bt_get op (rec_commands r))) (\<lambda>c.
      rbind (ok_or FailedPrecondition (cmd_receipt c)) (\<lambda>t.
      rbind (map_err (\<lambda>_. uncertain) (command_validate_receipt c (oo_operation (tk_owner k)) t)) (\<lambda>_.
      rbind (archive_validate_receipt k t) (\<lambda>_.
      rbind (case ps of None \<Rightarrow> Inr () | Some p \<Rightarrow> archive_validate_plans k p t) (\<lambda>_.
      let old = bt_get op (rec_archives r) in
      rbind (case old of
               Some a \<Rightarrow>
                 ensure (\<not> (ar_ticket a \<noteq> k \<or> oq_revision q < ar_revision a \<or>
                   (case ps of None \<Rightarrow> False | Some p \<Rightarrow> ar_plans a \<noteq> Some p))) FailedPrecondition
             | None \<Rightarrow> ensure (ps = None) FailedPrecondition) (\<lambda>_.
      Inr (t, \<lparr>ar_ticket = k, ar_plans = (case old of None \<Rightarrow> None | Some a \<Rightarrow> ar_plans a),
               ar_revision = oq_revision q\<rparr>))))))))))"

text \<open>A guest of this epoch that was started with the boot of the ticket.\<close>

definition archive_source :: "host_env \<Rightarrow> manifest option \<Rightarrow> output_ticket \<Rightarrow> out_source option host" where
  "archive_source H manifest k =
     (case manifest of
        None \<Rightarrow> sret None
      | Some m \<Rightarrow>
          sbind (ask (\<lambda>n. w_client (he_world H) n m)) (\<lambda>c.
          sbind (ask (\<lambda>n. w_source (he_world H) n (oo_operation (tk_owner k)))) (\<lambda>src.
          sret (case c of
                  Inl _ \<Rightarrow> None
                | Inr context \<Rightarrow> if ctx_boot context = oo_boot (tk_owner k) then Some src else None))))"

definition output_setup ::
    "host_env \<Rightarrow> output_request \<Rightarrow> (archive_record \<times> receipt \<times> out_source option) host" where
  "output_setup H q =
     (let C = he_crates H in
      sbind (archive_request_ok H q) (\<lambda>(k, ps).
      sbind (sensure (he_artifacts H) FailedPrecondition) (\<lambda>_.
      sbind (sensure (oo_host (tk_owner k) = cfg_host (he_config H)) FailedPrecondition) (\<lambda>_.
      let key = show_allocation C (oo_allocation (tk_owner k)); op = show_operation C (oo_operation (tk_owner k)) in
      sbind get_journal (\<lambda>j.
      sbind (slift (ok_or NotFound (find_record key j))) (\<lambda>_.
      sbind get_journal (\<lambda>j.
      sbind (slift (ok_or uncertain (find_record key j))) (\<lambda>r.
      sbind (slift (archive_entry C r q k ps)) (\<lambda>(t, a).
      sbind (put_journal H (put_record key (r\<lparr>rec_archives := bt_insert op a (rec_archives r)\<rparr>) j)) (\<lambda>_.
      sbind (archive_request_ok H q) (\<lambda>_.
      sbind (archive_source H
        (if \<not> rec_stopped r \<and> own_epoch (rec_owner r) = cfg_epoch (he_config H) then rec_manifest r else None) k) (\<lambda>src.
      sret (a, t, src)))))))))))))"

definition archive_finished ::
    "crates \<Rightarrow> host_record \<Rightarrow> output_request \<Rightarrow> output_ticket \<Rightarrow> output_plans \<Rightarrow> host_status + archive_record" where
  "archive_finished C r q k ps =
     (let op = show_operation C (oo_operation (tk_owner k)) in
      rbind (archive_validate_owner C (rec_owner r) k) (\<lambda>_.
      rbind (history_check r Commands (oo_operation (tk_owner k))) (\<lambda>_.
      rbind (ok_or uncertain (case bt_get op (rec_commands r) of None \<Rightarrow> None | Some c \<Rightarrow> cmd_receipt c)) (\<lambda>t.
      rbind (archive_validate_plans k ps t) (\<lambda>_.
      rbind (ok_or uncertain (bt_get op (rec_archives r))) (\<lambda>a.
      rbind (ensure (\<not> (ar_ticket a \<noteq> k \<or> ar_revision a \<noteq> oq_revision q \<or>
         (case ar_plans a of None \<Rightarrow> False | Some p \<Rightarrow> p \<noteq> ps))) FailedPrecondition) (\<lambda>_.
      Inr (a\<lparr>ar_plans := Some ps\<rparr>))))))))"

definition output_finish :: "host_env \<Rightarrow> output_request \<Rightarrow> output_plans \<Rightarrow> unit host" where
  "output_finish H q ps =
     (let C = he_crates H in
      sbind (archive_request_ok H q) (\<lambda>(k, _).
      let key = show_allocation C (oo_allocation (tk_owner k)); op = show_operation C (oo_operation (tk_owner k)) in
      sbind get_journal (\<lambda>j.
      sbind (slift (ok_or uncertain (find_record key j))) (\<lambda>_.
      sbind get_journal (\<lambda>j.
      sbind (slift (ok_or uncertain (find_record key j))) (\<lambda>r.
      sbind (slift (archive_finished C r q k ps)) (\<lambda>a.
      sbind (put_journal H (put_record key (r\<lparr>rec_archives := bt_insert op a (rec_archives r)\<rparr>) j)) (\<lambda>_.
      sbind (archive_request_ok H q) (\<lambda>_.
      sret ())))))))))"

definition output_report ::
    "host_env \<Rightarrow> output_request \<Rightarrow> output_plans \<Rightarrow> output_refs option \<Rightarrow> output_observation host" where
  "output_report H q ps refs =
     sbind (wall_ms H) (\<lambda>now.
     slift (archive_observation (hj_plans (he_json H)) (hj_refs (he_json H)) q
       (show_host (he_crates H) (cfg_host (he_config H))) (cfg_epoch (he_config H)) False now ps refs))"

definition output_worker :: "host_env \<Rightarrow> unit host" where
  "output_worker H = sbind (ask (w_workers (he_world H))) (\<lambda>free. sensure free ResourceExhausted)"

definition prepare_output :: "host_env \<Rightarrow> output_request \<Rightarrow> output_observation host" where
  "prepare_output H q =
     sbind (sensure (oq_plans q = []) InvalidArgument) (\<lambda>_.
     sbind (output_worker H) (\<lambda>_.
     sbind (output_setup H q) (\<lambda>(a, t, src).
     sbind (case ar_plans a of
              Some ps \<Rightarrow> sret ps
            | None \<Rightarrow>
                sbind (slift (ok_or Unavailable src)) (\<lambda>s.
                sbind (ask (w_timely (he_world H))) (\<lambda>timely.
                sbind (slift (archive_collect (he_crates H) (ar_ticket a) t s timely)) (\<lambda>got.
                sret (cap_plans got))))) (\<lambda>ps.
     sbind (output_finish H q ps) (\<lambda>_.
     output_report H q ps None)))))"

text \<open>
  The clock of \<open>archive_output\<close>: after the claim has expired it reads \<open>i64::MAX\<close>. The readings
  of the upload are those of the world from the current position on.
\<close>

definition claim_clock :: "host_env \<Rightarrow> output_request \<Rightarrow> nat \<Rightarrow> nat \<Rightarrow> int" where
  "claim_clock H q from i =
     (let now = w_wall (he_world H) (from + i) in if oq_expires q \<le> now then i64_max else now)"

text \<open>\<open>in_time\<close>: the whole upload ends before the archive timeout, \<open>timely\<close>: so does its capture.\<close>

definition archive_output :: "host_env \<Rightarrow> output_request \<Rightarrow> output_observation host" where
  "archive_output H q =
     sbind (sensure (oq_plans q \<noteq> []) InvalidArgument) (\<lambda>_.
     sbind (output_worker H) (\<lambda>_.
     sbind (output_setup H q) (\<lambda>(a, t, src).
     sbind (slift (ok_or FailedPrecondition (ar_plans a))) (\<lambda>ps.
     sbind (sensure (he_artifacts H) FailedPrecondition) (\<lambda>_.
     sbind (ask (\<lambda>n. (w_store (he_world H) n, w_timely (he_world H) n))) (\<lambda>(S, in_time).
     sbind (sensure in_time Unavailable) (\<lambda>_.
     sbind (ask (\<lambda>n. (claim_clock H q n, w_timely (he_world H) n))) (\<lambda>(clock, timely).
     sbind (slift (archive_upload (he_crates H) S (ar_ticket a) ps t src timely clock)) (\<lambda>refs.
     sbind (output_finish H q ps) (\<lambda>_.
     output_report H q ps (Some refs)))))))))))"

section \<open>Live output\<close>

text \<open>\<open>readers::pin\<close>: a read pins the allocation while it is neither stopped nor retiring.\<close>

definition reader_pin :: "host_env \<Rightarrow> host_record \<Rightarrow> unit host" where
  "reader_pin H r =
     sbind (slift (retirement_check r)) (\<lambda>_.
     sbind (sensure (\<not> (rec_stopped r \<or> rec_released r)) Unavailable) (\<lambda>_.
     sbind (ask (w_pin (he_world H))) (\<lambda>free. sensure free Unavailable)))"

definition live_record :: "host_env \<Rightarrow> live_output_scope \<Rightarrow> (command_record \<times> manifest) host" where
  "live_record H s =
     (let C = he_crates H; w = los_owner s in
      sbind (sensure (\<not> (oo_host w \<noteq> cfg_host (he_config H) \<or> oo_epoch w \<noteq> cfg_epoch (he_config H)))
               FailedPrecondition) (\<lambda>_.
      sbind get_journal (\<lambda>j.
      sbind (slift (ok_or NotFound (find_record (show_allocation C (oo_allocation w)) j))) (\<lambda>r.
      sbind (slift (history_check r Commands (oo_operation w))) (\<lambda>_.
      sbind (slift (ok_or NotFound (bt_get (show_operation C (oo_operation w)) (rec_commands r)))) (\<lambda>c.
      sbind (slift (live_validate_owner C s (rec_owner r) c)) (\<lambda>_.
      sbind (sensure (\<not> (rec_stopped r \<or> rec_released r)) Unavailable) (\<lambda>_.
      sbind (slift (ok_or Unavailable (rec_manifest r))) (\<lambda>m.
      sbind (reader_pin H r) (\<lambda>_.
      sret (c, m)))))))))))"

record live_observation =
  vob_request :: "live_request option"
  vob_host :: string
  vob_epoch :: int
  vob_simulated :: bool
  vob_observed :: int
  vob_chunk :: "output_chunk option"
  vob_receipt :: "wire_receipt option"

definition live_request_ok :: "host_env \<Rightarrow> live_request \<Rightarrow> (live_output_scope \<times> read_output) host" where
  "live_request_ok H q =
     sbind (wall_ms H) (\<lambda>now. slift (live_decode (he_crates H) (hj_live (he_json H)) q now))"

definition live_observation_of ::
    "host_env \<Rightarrow> live_request \<Rightarrow> output_chunk \<Rightarrow> receipt \<Rightarrow> live_observation host" where
  "live_observation_of H q ch t =
     sbind (wall_ms H) (\<lambda>now.
     sbind (slift (live_decode (he_crates H) (hj_live (he_json H)) q now)) (\<lambda>_.
     sret \<lparr>vob_request = Some q, vob_host = show_host (he_crates H) (cfg_host (he_config H)),
           vob_epoch = cfg_epoch (he_config H), vob_simulated = False, vob_observed = now,
           vob_chunk = Some ch, vob_receipt = Some (receipt_to_wire (he_crates H) t)\<rparr>))"

text \<open>
  The guest is asked for the bytes and the receipt without the journal, so a read has a part
  before the guest is asked and a part after it has answered, each a step of its own.
\<close>

definition live_begin ::
    "host_env \<Rightarrow> live_request \<Rightarrow> (live_output_scope \<times> read_output \<times> command_record) host" where
  "live_begin H q =
     sbind (output_worker H) (\<lambda>_.
     sbind (live_request_ok H q) (\<lambda>(s, r).
     sbind (live_record H s) (\<lambda>(c, m).
     sbind (ask (\<lambda>n. w_client (he_world H) n m)) (\<lambda>client.
     sbind (slift (map_err (\<lambda>_. Unavailable) client)) (\<lambda>context.
     sbind (slift (ok_or Unavailable (cmd_context c))) (\<lambda>bound.
     sbind (sensure (context = bound) FailedPrecondition) (\<lambda>_.
     sbind (live_request_ok H q) (\<lambda>_.
     sret (s, r, c)))))))))"

definition live_end ::
    "host_env \<Rightarrow> live_request \<Rightarrow> live_output_scope \<times> read_output \<times> command_record \<Rightarrow>
     output_chunk \<Rightarrow> receipt \<Rightarrow> live_observation host" where
  "live_end H q src ch t =
     (let (s, r, c) = src in
      sbind (slift (live_validate_chunk s r c ch t)) (\<lambda>_.
      sbind (live_record H s) (\<lambda>(current, _).
      sbind (slift (map_err (\<lambda>_. uncertain) (command_validate_receipt current (oo_operation (los_owner s)) t))) (\<lambda>_.
      live_observation_of H q ch t))))"

definition live_read :: "host_env \<Rightarrow> live_request \<Rightarrow> live_observation host" where
  "live_read H q =
     (let W = he_world H in
      sbind (live_begin H q) (\<lambda>(s, r, c).
      sbind (ask (\<lambda>n. w_output W n r)) (\<lambda>x.
      sbind (slift (map_err (\<lambda>_. Unavailable) x)) (\<lambda>ch.
      sbind (ask (\<lambda>n. w_inspect W n (oo_operation (los_owner s)))) (\<lambda>y.
      sbind (slift (map_err (\<lambda>_. Unavailable) y)) (\<lambda>t.
      live_end H q (s, r, c) ch t))))))"

end
