(* ===== verification/Host_Reads.thy ===== *)
theory Host_Reads
  imports Host_Archive
begin

text \<open>
  Downloading files from a running allocation (\<open>host/file_downloads.rs\<close> of
  \<open>crates/sandbox-supervisor/src\<close>): capture, read and release of a ticket of the registry in
  \<open>Downloads\<close>. Every request is checked before and after the guest is asked; the guest is
  asked without the journal, so a request has a part before (\<open>_begin\<close>) and a part after
  (\<open>_end\<close>), each a step of its own.
\<close>

definition download_record :: "host_env \<Rightarrow> read_scope \<Rightarrow> host_record host" where
  "download_record H s =
     (let C = he_crates H in
      sbind get_journal (\<lambda>j.
      sbind (sensure (\<not> (rs_host s \<noteq> cfg_host (he_config H) \<or> rs_epoch s \<noteq> cfg_epoch (he_config H)))
               FailedPrecondition) (\<lambda>_.
      sbind (slift (ok_or dl_missing (find_record (show_allocation C (rs_allocation s)) j))) (\<lambda>r.
      sbind (sensure (matches_owner C s (rec_owner r)) FailedPrecondition) (\<lambda>_.
      sbind (sensure (\<not> (rec_stopped r \<or> rec_released r)) dl_unavailable) (\<lambda>_.
      sret r))))))"

definition download_client_of :: "host_env \<Rightarrow> manifest \<Rightarrow> guest_context host" where
  "download_client_of H m =
     sbind (ask (\<lambda>n. w_client (he_world H) n m)) (\<lambda>c. slift (map_err (\<lambda>_. dl_unavailable) c))"

definition download_prepare :: "host_env \<Rightarrow> read_scope \<Rightarrow> guest_context host" where
  "download_prepare H s =
     sbind (download_record H s) (\<lambda>r.
     sbind (slift (ok_or dl_missing (rec_manifest r))) (\<lambda>m.
     sbind (reader_pin H r) (\<lambda>_.
     sbind (ask (w_file_io (he_world H))) (\<lambda>free.
     sbind (sensure free ResourceExhausted) (\<lambda>_.
     download_client_of H m)))))"

definition check_download_current :: "host_env \<Rightarrow> read_scope \<Rightarrow> guest_context \<Rightarrow> unit host" where
  "check_download_current H s c =
     sbind (download_record H s) (\<lambda>r.
     sbind (slift (ok_or dl_missing (rec_manifest r))) (\<lambda>m.
     sbind (download_client_of H m) (\<lambda>now.
     sensure (now = c) FailedPrecondition)))"

definition current_request :: "host_env \<Rightarrow> (int \<Rightarrow> unit + read_scope) \<Rightarrow> read_scope host" where
  "current_request H check =
     sbind (wall_ms H) (\<lambda>now. slift (map_err (\<lambda>_. dl_invalid) (check now)))"

definition mono_now :: "host_env \<Rightarrow> nat host" where
  "mono_now H = ask (w_mono (he_world H))"

definition access_observation_of :: "host_env \<Rightarrow> bytes \<Rightarrow> access_result \<Rightarrow> access_observation host" where
  "access_observation_of H scope x =
     sbind (wall_ms H) (\<lambda>now.
     sret \<lparr>ao_scope = scope, ao_simulated = False, ao_observed = now, ao_result = Some x\<rparr>)"

definition capture_begin :: "host_env \<Rightarrow> capture_request \<Rightarrow> (read_scope \<times> guest_context \<times> operation_id) host" where
  "capture_begin H q =
     (let check = check_capture_request (hj_scope (he_json H)) q in
      sbind (current_request H check) (\<lambda>s.
      sbind (download_prepare H s) (\<lambda>context.
      sbind (current_request H check) (\<lambda>_.
      sbind (wall_ms H) (\<lambda>wall.
      sbind (mono_now H) (\<lambda>now.
      sbind (ask (w_fresh (he_world H))) (\<lambda>fresh.
      sbind (on_downloads (dl_reserve fresh s context (cr_path q) wall now)) (\<lambda>i.
      sret (s, context, i)))))))))"

definition capture_end ::
    "host_env \<Rightarrow> capture_request \<Rightarrow> read_scope \<times> guest_context \<times> operation_id \<Rightarrow>
     wire_file_capture \<Rightarrow> access_observation host" where
  "capture_end H q ticket capture =
     (let (s, context, i) = ticket in
      sbind (check_download_current H s context) (\<lambda>_.
      sbind (current_request H (check_capture_request (hj_scope (he_json H)) q)) (\<lambda>_.
      sbind (mono_now H) (\<lambda>now.
      sbind (on_downloads (dl_finish (he_crates H) i capture now)) (\<lambda>h.
      access_observation_of H (cr_scope q) (Captured h))))))"

definition capture_download :: "host_env \<Rightarrow> capture_request \<Rightarrow> access_observation host" where
  "capture_download H q =
     sbind (capture_begin H q) (\<lambda>ticket.
     sbind (ask (\<lambda>n. w_capture (he_world H) n (cr_path q))) (\<lambda>x.
     sbind (slift (map_err (\<lambda>_. dl_unavailable) x)) (\<lambda>capture.
     capture_end H q ticket capture)))"

text \<open>The context and the capture of a handle that names a ticket of this scope.\<close>

definition handle_context :: "crates \<Rightarrow> download_handle \<Rightarrow> host_status + guest_context" where
  "handle_context C h =
     rbind (ok_or dl_missing (dh_context h)) (\<lambda>wc. map_err (\<lambda>_. dl_invalid) (context_of_wire C wc))"

definition ticket_released :: "host_env \<Rightarrow> read_scope \<Rightarrow> download_handle \<Rightarrow> bool host" where
  "ticket_released H s h =
     sbind (mono_now H) (\<lambda>now. on_downloads (dl_validate (he_crates H) s h now))"

definition download_bound :: "host_env \<Rightarrow> read_scope \<Rightarrow> download_handle \<Rightarrow> guest_context host" where
  "download_bound H s h =
     sbind (slift (handle_context (he_crates H) h)) (\<lambda>context.
     sbind (download_prepare H s) (\<lambda>client.
     sbind (sensure (client = context) FailedPrecondition) (\<lambda>_.
     sret context)))"

definition read_begin ::
    "host_env \<Rightarrow> download_request \<Rightarrow> (read_scope \<times> download_handle \<times> guest_context \<times> wire_file_capture) host" where
  "read_begin H q =
     (let check = check_read_request (he_crates H) (hj_scope (he_json H)) q in
      sbind (current_request H check) (\<lambda>s.
      sbind (slift (ok_or dl_missing (dr_handle q))) (\<lambda>h.
      sbind (ticket_released H s h) (\<lambda>released.
      sbind (sensure (\<not> released) dl_missing) (\<lambda>_.
      sbind (download_bound H s h) (\<lambda>context.
      sbind (current_request H check) (\<lambda>_.
      sbind (slift (ok_or dl_missing (dh_capture h))) (\<lambda>capture.
      sret (s, h, context, capture)))))))))"

definition read_end ::
    "host_env \<Rightarrow> download_request \<Rightarrow> read_scope \<times> download_handle \<times> guest_context \<Rightarrow>
     wire_file_chunk \<Rightarrow> access_observation host" where
  "read_end H q ticket chunk =
     (let (s, h, context) = ticket in
      sbind (check_download_current H s context) (\<lambda>_.
      sbind (current_request H (check_read_request (he_crates H) (hj_scope (he_json H)) q)) (\<lambda>_.
      sbind (ticket_released H s h) (\<lambda>released.
      sbind (sensure (\<not> released) dl_missing) (\<lambda>_.
      access_observation_of H (dr_scope q) (Chunk chunk))))))"

definition read_download :: "host_env \<Rightarrow> download_request \<Rightarrow> access_observation host" where
  "read_download H q =
     sbind (read_begin H q) (\<lambda>(s, h, context, capture).
     sbind (ask (\<lambda>n. w_read_file (he_world H) n capture (dr_offset q) (dr_limit q))) (\<lambda>x.
     sbind (slift (map_err (\<lambda>_. dl_unavailable) x)) (\<lambda>chunk.
     read_end H q (s, h, context) chunk)))"

definition release_begin ::
    "host_env \<Rightarrow> release_request \<Rightarrow> (read_scope \<times> download_handle \<times> guest_context \<times> bool) host" where
  "release_begin H q =
     (let check = check_release_request (he_crates H) (hj_scope (he_json H)) q in
      sbind (current_request H check) (\<lambda>s.
      sbind (slift (ok_or dl_missing (rr_handle q))) (\<lambda>h.
      sbind (ticket_released H s h) (\<lambda>released.
      sbind (download_bound H s h) (\<lambda>context.
      sbind (current_request H check) (\<lambda>_.
      sret (s, h, context, released)))))))"

definition release_end ::
    "host_env \<Rightarrow> release_request \<Rightarrow> read_scope \<times> download_handle \<times> guest_context \<Rightarrow>
     access_observation host" where
  "release_end H q ticket =
     (let (s, h, context) = ticket in
      sbind (check_download_current H s context) (\<lambda>_.
      sbind (current_request H (check_release_request (he_crates H) (hj_scope (he_json H)) q)) (\<lambda>_.
      sbind (mono_now H) (\<lambda>now.
      sbind (on_downloads (dl_released (he_crates H) s h now)) (\<lambda>_.
      access_observation_of H (rr_scope q) (ReleasedHandle h))))))"

definition release_download :: "host_env \<Rightarrow> release_request \<Rightarrow> access_observation host" where
  "release_download H q =
     sbind (release_begin H q) (\<lambda>(s, h, context, released).
     sbind (if released then sret ()
            else sbind (slift (ok_or dl_missing (dh_capture h))) (\<lambda>capture.
                 sbind (ask (\<lambda>n. w_release_file (he_world H) n capture)) (\<lambda>x.
                 slift (map_err (\<lambda>_. dl_unavailable) x)))) (\<lambda>_.
     release_end H q (s, h, context)))"

end
