(* ===== verification/Host_Files.thy ===== *)
theory Host_Files
  imports Host_Commands
begin

text \<open>
  Uploads on the host (\<open>host/files.rs\<close> of \<open>crates/sandbox-supervisor/src\<close>): admission of a new
  transfer with its journal headroom, the retained intents, and the requests that reach the
  guest. A begin, a commit and an abort are sent once, after the journal holds them.
\<close>

datatype file_action = FileBegin | FileInspect | FileCommit | FileAbort | FileWrite nat bytes

record file_request =
  flq_ownership :: "ownership option"
  flq_upload :: "wire_upload option"

section \<open>Retaining a transfer\<close>

definition save_file :: "host_env \<Rightarrow> ownership \<Rightarrow> file_record \<Rightarrow> unit host" where
  "save_file H w f =
     (let K = hj_file (he_json H) in
      sbind (slift (map_err (\<lambda>_. uncertain) (file_record_validate K f))) (\<lambda>_.
      sbind get_journal (\<lambda>j.
      sbind (slift (ok_or uncertain (find_record (own_allocation w) j))) (\<lambda>r.
      sbind (case bt_get (own_operation w) (rec_files r) of
               None \<Rightarrow> sret ()
             | Some old \<Rightarrow>
                 sbind (slift (ok_or uncertain (to_vec K f))) (\<lambda>b.
                 sbind (slift (ok_or uncertain (to_vec K old))) (\<lambda>a.
                 sensure (length b \<le> length a) uncertain))) (\<lambda>_.
      put_journal H (put_record (own_allocation w)
        (r\<lparr>rec_files := bt_insert (own_operation w) f (rec_files r)\<rparr>) j))))))"

definition file_capacity :: "retained \<Rightarrow> host_record \<Rightarrow> file_record \<Rightarrow> host_status + unit" where
  "file_capacity j r f =
     rbind (ensure (length (rec_revisions r) < 64) ResourceExhausted) (\<lambda>_.
     ensure (\<not> (max_files \<le> length (rec_files r) \<or>
        max_host_files \<le> sum_list (map (\<lambda>x. length (rec_files x)) (bt_values (jr_records j))) \<or>
        max_reserved_bytes
          < saturating_add_u64 (sum_list (map file_size (bt_values (rec_files r)))) (file_size f)))
       ResourceExhausted)"

text \<open>The record with the largest revision the transfer can have, for the headroom check.\<close>

definition file_reserved :: "host_record \<Rightarrow> ownership \<Rightarrow> file_record \<Rightarrow> host_record" where
  "file_reserved r w f =
     r\<lparr>rec_files := bt_insert (own_operation w) f (rec_files r),
       rec_revisions := bt_insert (own_operation w) i64_max (rec_revisions r)\<rparr>"

definition file_headroom :: "host_json \<Rightarrow> retained \<Rightarrow> host_record \<Rightarrow> host_record \<Rightarrow> host_status + unit" where
  "file_headroom J j old new =
     rbind (ok_or uncertain (to_vec (hj_record J) old)) (\<lambda>before.
     rbind (ok_or uncertain (to_vec (hj_record J) new)) (\<lambda>after.
     rbind (ok_or uncertain (to_vec (hj_retained J) j)) (\<lambda>total.
     if journal_max_bytes
          < saturating_add_u64
              (saturating_add_u64 (saturating_sub_u64 (length total) (length before)) (length after))
              (256 * 1024)
     then Inl ResourceExhausted else Inr ())))"

definition admit_file :: "host_env \<Rightarrow> ownership \<Rightarrow> host_record \<Rightarrow> file_record \<Rightarrow> unit host" where
  "admit_file H w r f =
     sbind (check_deadline H (own_expires w)) (\<lambda>_.
     sbind (slift (map_err (\<lambda>_. uncertain) (file_record_validate (hj_file (he_json H)) f))) (\<lambda>_.
     sbind get_journal (\<lambda>j.
     sbind (slift (file_capacity j r f)) (\<lambda>_.
     sbind (sensure (\<not> (bt_contains (own_operation w) (rec_revisions r) \<or>
              bt_contains (own_operation w) (rec_commands r))) AlreadyExists) (\<lambda>_.
     sbind (slift (file_headroom (he_json H) j r (file_reserved r w f))) (\<lambda>_.
     sbind (slift (ok_or uncertain (find_record (own_allocation w) j))) (\<lambda>kept.
     put_journal H (put_record (own_allocation w)
       (kept\<lparr>rec_revisions := bt_insert (own_operation w) (own_revision w) (rec_revisions kept),
             rec_files := bt_insert (own_operation w) f (rec_files kept)\<rparr>) j))))))))"

section \<open>One request\<close>

definition file_client :: "host_env \<Rightarrow> host_record \<Rightarrow> guest_context option host" where
  "file_client H r =
     (if \<not> rec_stopped r \<and> \<not> rec_released r
      then case rec_manifest r of
             None \<Rightarrow> sret None
           | Some m \<Rightarrow> sbind (ask (\<lambda>n. w_client (he_world H) n m)) (\<lambda>c.
                       sret (case c of Inl _ \<Rightarrow> None | Inr context \<Rightarrow> Some context))
      else sret None)"

text \<open>The retained transfer of the operation, or the one this request would admit.\<close>

definition file_lookup ::
    "host_env \<Rightarrow> ownership \<Rightarrow> host_record \<Rightarrow> upload \<Rightarrow> bytes \<Rightarrow> file_action \<Rightarrow> guest_context option \<Rightarrow>
     host_status + file_record" where
  "file_lookup H w r u digest action client =
     (let C = he_crates H; J = hj_upload (he_json H) in
      case bt_get (own_operation w) (rec_files r) of
        Some f \<Rightarrow> rbind (map_err (\<lambda>_. AlreadyExists) (file_validate_identity C J f (up_operation u) u)) (\<lambda>_. Inr f)
      | None \<Rightarrow>
          (case (action, client) of
             (FileBegin, Some context) \<Rightarrow>
               map_err (\<lambda>_. uncertain) (file_pending C J (hj_file (he_json H)) u context)
           | _ \<Rightarrow> Inr (file_fenced digest)))"

definition file_request_check ::
    "host_env \<Rightarrow> ownership \<Rightarrow> file_request \<Rightarrow> file_action \<Rightarrow> host_status + upload \<times> bytes" where
  "file_request_check H w q action =
     rbind (ok_or InvalidArgument (flq_upload q)) (\<lambda>wu.
     rbind (map_err (\<lambda>_. InvalidArgument) (upload_of_wire (he_crates H) wu)) (\<lambda>u.
     rbind (ensure (show_operation (he_crates H) (up_operation u) = own_operation w) InvalidArgument) (\<lambda>_.
     rbind (case action of
              FileWrite offset data \<Rightarrow>
                ensure (case checked_add_u64 offset (length data) of None \<Rightarrow> False | Some n \<Rightarrow> n \<le> up_size u)
                  InvalidArgument
            | _ \<Rightarrow> Inr ()) (\<lambda>_.
     rbind (map_err (\<lambda>_. uncertain) (upload_digest (he_crates H) (hj_upload (he_json H)) u)) (\<lambda>d.
     Inr (u, d))))))"

text \<open>What the host answers, with the state it may report.\<close>

definition file_report ::
    "host_env \<Rightarrow> ownership \<Rightarrow> file_record \<Rightarrow> bool \<Rightarrow> nat option \<Rightarrow> file_observation host" where
  "file_report H w f known stored =
     sbind (wall_ms H) (\<lambda>now.
     let ob = file_observation_of (he_crates H) f w False now stored in
     sret (if known then ob else ob\<lparr>fobs_state := 0\<rparr>))"

definition observe_run ::
    "host_env \<Rightarrow> upload \<Rightarrow> file_receipt \<Rightarrow> file_record \<Rightarrow> unit + file_record" where
  "observe_run H u t f =
     (case file_observe (he_crates H) (hj_upload (he_json H)) (hj_file (he_json H)) u t f of
        (Inl _, _) \<Rightarrow> Inl ()
      | (Inr _, f') \<Rightarrow> Inr f')"

definition file_response ::
    "host_env \<Rightarrow> ownership \<Rightarrow> upload \<Rightarrow> file_record \<Rightarrow> unit + file_receipt \<Rightarrow> file_observation host" where
  "file_response H w u f response =
     (case response of
        Inl _ \<Rightarrow> file_report H w f False None
      | Inr t \<Rightarrow>
          sbind (slift (map_err (\<lambda>_. uncertain) (observe_run H u t f))) (\<lambda>f'.
          sbind (save_file H w f') (\<lambda>_.
          file_report H w f' True None)))"

definition file_inspect :: "host_env \<Rightarrow> ownership \<Rightarrow> upload \<Rightarrow> file_record \<Rightarrow> file_observation host" where
  "file_inspect H w u f =
     sbind (ask (\<lambda>n. w_inspect_upload (he_world H) n u)) (\<lambda>x. file_response H w u f x)"

text \<open>\<open>new\<close>: this request admitted the transfer.\<close>

definition file_act ::
    "host_env \<Rightarrow> ownership \<Rightarrow> upload \<Rightarrow> bool \<Rightarrow> file_record \<Rightarrow> file_action \<Rightarrow> file_observation host" where
  "file_act H w u new f action =
     (let W = he_world H; key = own_allocation w; op = own_operation w in
      case action of
        FileBegin \<Rightarrow>
          if new
          then sbind (emit (SentBegin key op)) (\<lambda>_.
               sbind (ask (\<lambda>n. w_begin_upload W n u)) (\<lambda>x. file_response H w u f x))
          else file_inspect H w u f
      | FileCommit \<Rightarrow>
          if \<not> file_commit_requested f \<and> \<not> file_abort_requested f \<and> file_status f = 1
          then let f' = f\<lparr>file_commit_requested := True\<rparr> in
               sbind (save_file H w f') (\<lambda>_.
               sbind (emit (SentCommit key op)) (\<lambda>_.
               sbind (ask (\<lambda>n. w_commit_upload W n u)) (\<lambda>x. file_response H w u f' x)))
          else file_inspect H w u f
      | FileAbort \<Rightarrow>
          if \<not> file_abort_requested f
          then let f' = f\<lparr>file_abort_requested := True\<rparr> in
               sbind (save_file H w f') (\<lambda>_.
               sbind (emit (SentAbort key op)) (\<lambda>_.
               sbind (ask (\<lambda>n. w_abort_upload W n u)) (\<lambda>x. file_response H w u f' x)))
          else file_inspect H w u f
      | FileWrite offset data \<Rightarrow>
          if \<not> file_commit_requested f \<and> \<not> file_abort_requested f \<and> file_status f = 1
          then sbind (ask (\<lambda>n. w_write_file W n u offset data)) (\<lambda>x.
               case x of
                 Inr stored \<Rightarrow> file_report H w f True (Some stored)
               | Inl _ \<Rightarrow> file_report H w f False None)
          else file_inspect H w u f
      | FileInspect \<Rightarrow> file_inspect H w u f)"

definition file_sync :: "host_env \<Rightarrow> file_request \<Rightarrow> file_action \<Rightarrow> file_observation host" where
  "file_sync H q action =
     sbind (check_owner H (flq_ownership q)) (\<lambda>w.
     sbind (slift (file_request_check H w q action)) (\<lambda>(u, digest).
     sbind (host_gate H w) (\<lambda>_.
     sbind get_journal (\<lambda>j.
     sbind (slift (ok_or uncertain (find_record (own_allocation w) j))) (\<lambda>r.
     sbind (slift (history_check r FilesDomain (up_operation u))) (\<lambda>_.
     sbind (ask (w_file_io (he_world H))) (\<lambda>free.
     sbind (sensure free ResourceExhausted) (\<lambda>_.
     sbind (file_client H r) (\<lambda>client.
     sbind (slift (file_lookup H w r u digest action client)) (\<lambda>f.
     let new = (\<not> bt_contains (own_operation w) (rec_files r)) in
     sbind (if new then admit_file H w r f else sbind (host_fence H w) (\<lambda>_. sret ())) (\<lambda>_.
     if file_finished f then file_report H w f True None
     else case client of
       None \<Rightarrow> file_report H w f False None
     | Some context \<Rightarrow>
         sbind (sensure (file_context f = Some context) uncertain) (\<lambda>_.
         sbind (check_deadline H (own_expires w)) (\<lambda>_.
         file_act H w u new f action)))))))))))))"

definition file_write_sync :: "host_env \<Rightarrow> file_request option \<Rightarrow> nat \<Rightarrow> bytes \<Rightarrow> file_observation host" where
  "file_write_sync H request offset data =
     sbind (slift (ok_or InvalidArgument request)) (\<lambda>q.
     sbind (sensure (data \<noteq> [] \<and> length data \<le> max_chunk_bytes \<and>
        (case checked_add_u64 offset (length data) of None \<Rightarrow> False | Some n \<Rightarrow> n \<le> max_file_bytes))
        InvalidArgument) (\<lambda>_.
     file_sync H q (FileWrite offset data)))"

end
