(* ===== verification/Host_Laws.thy ===== *)
theory Host_Laws
  imports Host_Deletion Host_Reads Host_Files
begin

text \<open>
  A calculus for the host's methods. \<open>hview\<close> is what the durable state of a host amounts to:
  the journal in memory, whether it serves requests, the journal the main file holds, and the
  requests that have left the process. \<open>advances\<close> is the order in which a journal may change
  while no row is forgotten, and \<open>good\<close> the invariant that ties the four parts: the memory of a serving host is
  never behind the disk, every request that left the process is recorded on the disk, and none
  left twice. \<open>tri\<close> is a triple over methods that keeps \<open>good\<close> on every outcome.
\<close>

section \<open>What a record has spent\<close>

definition closed_op :: "crates \<Rightarrow> host_record \<Rightarrow> domain \<Rightarrow> string \<Rightarrow> bool" where
  "closed_op C r d op =
     (case parse_operation C op of Inl _ \<Rightarrow> False | Inr i \<Rightarrow> history_check r d i \<noteq> Inr ())"

fun effect_key :: "effect \<Rightarrow> string" where
  "effect_key (SentExecute key op) = key"
| "effect_key (StartedGuardian key) = key"
| "effect_key (SentBegin key op) = key"
| "effect_key (SentCommit key op) = key"
| "effect_key (SentAbort key op) = key"

definition file_flag :: "(file_record \<Rightarrow> bool) \<Rightarrow> host_record \<Rightarrow> string \<Rightarrow> bool" where
  "file_flag p r op = (case bt_get op (rec_files r) of None \<Rightarrow> False | Some f \<Rightarrow> p f)"

text \<open>Whether the record rules the request out for good.\<close>

fun spent :: "crates \<Rightarrow> host_record \<Rightarrow> effect \<Rightarrow> bool" where
  "spent C r (SentExecute key op) = (bt_contains op (rec_commands r) \<or> closed_op C r Commands op)"
| "spent C r (StartedGuardian key) = (rec_create r \<noteq> None)"
| "spent C r (SentBegin key op) = (bt_contains op (rec_files r) \<or> closed_op C r FilesDomain op)"
| "spent C r (SentCommit key op) = (file_flag file_commit_requested r op \<or> closed_op C r FilesDomain op)"
| "spent C r (SentAbort key op) = (file_flag file_abort_requested r op \<or> closed_op C r FilesDomain op)"

definition spent_in :: "crates \<Rightarrow> effect \<Rightarrow> retained \<Rightarrow> bool" where
  "spent_in C e j = (case find_record (effect_key e) j of None \<Rightarrow> False | Some r \<Rightarrow> spent C r e)"

section \<open>Well-formed rows\<close>

definition well_keyed :: "crates \<Rightarrow> (string, 'a) btmap \<Rightarrow> bool" where
  "well_keyed C m = (bt_ordered m \<and> (\<forall>op. bt_contains op m \<longrightarrow> is_ok (parse_operation C op)))"

text \<open>What every row a host serves satisfies; a start checks it again (\<open>Host_Journal\<close>).\<close>

definition wf_record :: "crates \<Rightarrow> string \<Rightarrow> host_record \<Rightarrow> bool" where
  "wf_record C key r =
     (own_allocation (rec_owner r) = key \<and>
      (rec_released r \<longrightarrow> rec_stopped r \<and> rec_manifest r \<noteq> None) \<and>
      ((rec_create r \<noteq> None) = (rec_manifest r \<noteq> None)) \<and>
      (rec_dispatched r \<longrightarrow> rec_manifest r \<noteq> None) \<and>
      (rec_retirement r \<noteq> None \<longrightarrow> rec_stopped r) \<and>
      bt_ordered (rec_revisions r) \<and> length (rec_revisions r) \<le> 64 \<and>
      well_keyed C (rec_commands r) \<and> length (rec_commands r) \<le> max_commands \<and>
      well_keyed C (rec_files r) \<and> length (rec_files r) \<le> max_files \<and>
      bt_ordered (rec_archives r) \<and>
      (\<forall>op. bt_contains op (rec_archives r) \<longrightarrow> bt_contains op (rec_commands r)) \<and>
      (\<forall>d x. live_slot r d = Some x \<longrightarrow> bar_domain (lr_barrier x) = d))"

definition wf_journal :: "crates \<Rightarrow> retained \<Rightarrow> bool" where
  "wf_journal C j =
     (bt_ordered (jr_records j) \<and> length (jr_records j) \<le> max_records \<and>
      (\<forall>key r. find_record key j = Some r \<longrightarrow> wf_record C key r))"

section \<open>The order of records and journals\<close>

definition keeps :: "'a option \<Rightarrow> 'a option \<Rightarrow> bool" where
  "keeps a b = (a = None \<or> b = a)"

definition record_advances :: "crates \<Rightarrow> host_record \<Rightarrow> host_record \<Rightarrow> bool" where
  "record_advances C r r' =
     (rec_owner r' = rec_owner r \<and> (rec_stopped r \<longrightarrow> rec_stopped r') \<and>
      (rec_released r \<longrightarrow> rec_released r') \<and> (rec_dispatched r \<longrightarrow> rec_dispatched r') \<and>
      keeps (rec_create r) (rec_create r') \<and> keeps (rec_manifest r) (rec_manifest r') \<and>
      (rec_retirement r \<noteq> None \<longrightarrow> rec_retirement r' \<noteq> None) \<and>
      (\<forall>e. spent C r e \<longrightarrow> spent C r' e))"

definition advances :: "crates \<Rightarrow> string set \<Rightarrow> retained \<Rightarrow> retained \<Rightarrow> bool" where
  "advances C K j j' =
     ((\<forall>key r. key \<in> K \<longrightarrow> find_record key j = Some r \<longrightarrow>
        (\<exists>r'. find_record key j' = Some r' \<and> record_advances C r r')) \<and>
      (wf_journal C j \<longrightarrow> wf_journal C j'))"

definition disk_advances :: "crates \<Rightarrow> string set \<Rightarrow> retained option \<Rightarrow> retained option \<Rightarrow> bool" where
  "disk_advances C K d d' =
     (case d of None \<Rightarrow> True | Some j \<Rightarrow> (case d' of None \<Rightarrow> False | Some j' \<Rightarrow> advances C K j j'))"

lemma keeps_simps [simp]: "keeps a a" "keeps None b" "keeps (Some x) b = (b = Some x)"
  by (auto simp: keeps_def)

lemma keeps_trans: "keeps a b \<Longrightarrow> keeps b c \<Longrightarrow> keeps a c"
  by (auto simp: keeps_def)

lemma record_advances_refl [simp]: "record_advances C r r"
  by (simp add: record_advances_def)

lemma record_advances_trans:
  "record_advances C r s \<Longrightarrow> record_advances C s t \<Longrightarrow> record_advances C r t"
  unfolding record_advances_def by (simp, blast intro: keeps_trans)

lemma advances_refl [simp]: "advances C K j j"
  by (simp add: advances_def)

lemma advances_trans: "advances C K j k \<Longrightarrow> advances C K k l \<Longrightarrow> advances C K j l"
  unfolding advances_def by (meson record_advances_trans)

lemma disk_advances_simps [simp]:
  "disk_advances C K None d" "disk_advances C K d d" "disk_advances C K (Some j) (Some j') = advances C K j j'"
  by (auto simp: disk_advances_def split: option.splits)

lemma disk_advances_trans:
  "disk_advances C K c d \<Longrightarrow> disk_advances C K d e \<Longrightarrow> disk_advances C K c e"
  by (auto simp: disk_advances_def split: option.splits intro: advances_trans)

lemma spent_in_advances: "spent_in C e j \<Longrightarrow> effect_key e \<in> K \<Longrightarrow> advances C K j j' \<Longrightarrow> spent_in C e j'"
  by (fastforce simp: spent_in_def advances_def record_advances_def split: option.splits)

lemma find_put [simp]:
  "find_record k (put_record key r j) = (if k = key then Some r else find_record k j)"
  by (simp add: find_record_def put_record_def)

text \<open>A change of one row that a well-formed row may make.\<close>

definition row_step :: "crates \<Rightarrow> string \<Rightarrow> host_record \<Rightarrow> host_record \<Rightarrow> bool" where
  "row_step C key r r' = (wf_record C key r \<longrightarrow> record_advances C r r' \<and> wf_record C key r')"

lemma wf_journal_record: "wf_journal C j \<Longrightarrow> find_record key j = Some r \<Longrightarrow> wf_record C key r"
  by (simp add: wf_journal_def)

lemma wf_journal_put:
  assumes "wf_journal C j" "wf_record C key r'"
    and "find_record key j = None \<Longrightarrow> length (jr_records j) < max_records"
  shows "wf_journal C (put_record key r' j)"
proof -
  have "length (jr_records (put_record key r' j)) \<le> max_records"
    using assms length_bt_insert[of "jr_records j" key r']
    by (auto simp: wf_journal_def put_record_def bt_contains_def find_record_def)
  then show ?thesis
    using assms by (auto simp: wf_journal_def bt_ordered_insert put_record_def find_record_def)
qed

lemma advances_put:
  assumes "wf_journal C j" "find_record key j = Some r" "row_step C key r r'"
  shows "advances C K j (put_record key r' j)"
proof -
  have "wf_record C key r" using assms(1,2) by (rule wf_journal_record)
  then show ?thesis
    using assms wf_journal_put[OF assms(1), of key r'] by (auto simp: advances_def row_step_def)
qed

lemma advances_new:
  assumes "wf_journal C j" "find_record key j = None" "length (jr_records j) < max_records" "wf_record C key r"
  shows "advances C K j (put_record key r j)"
  using assms wf_journal_put[OF assms(1,4)] by (auto simp: advances_def)

lemma advances_authority [simp]: "advances C K j (j\<lparr>jr_authority := a\<rparr>)"
  by (auto simp: advances_def find_record_def wf_journal_def)

section \<open>Views and triples\<close>

record hview =
  hv_mem :: retained
  hv_ok :: bool
  hv_disk :: "retained option"
  hv_sent :: "effect list"

definition disk_of :: "retained json \<Rightarrow> staged \<Rightarrow> retained option" where
  "disk_of J fs = (case st_main fs of None \<Rightarrow> None | Some f \<Rightarrow> from_slice J (mf_bytes f))"

definition view :: "string set \<Rightarrow> retained json \<Rightarrow> host_state \<Rightarrow> hview" where
  "view K J s =
     \<lparr>hv_mem = j_retained (hs_journal s), hv_ok = (\<not> j_poisoned (hs_journal s)),
      hv_disk = disk_of J (hs_files s), hv_sent = filter (\<lambda>e. effect_key e \<in> K) (hs_effects s)\<rparr>"

definition recorded :: "crates \<Rightarrow> string set \<Rightarrow> effect list \<Rightarrow> retained option \<Rightarrow> bool" where
  "recorded C K es d =
     (\<forall>e \<in> set es. effect_key e \<in> K \<and> (case d of None \<Rightarrow> False | Some j \<Rightarrow> spent_in C e j))"

definition good :: "crates \<Rightarrow> string set \<Rightarrow> retained option \<Rightarrow> hview \<Rightarrow> bool" where
  "good C K d v =
     (disk_advances C K d (hv_disk v) \<and> distinct (hv_sent v) \<and> recorded C K (hv_sent v) (hv_disk v) \<and>
      (hv_ok v \<longrightarrow> disk_advances C K (hv_disk v) (Some (hv_mem v)) \<and> wf_journal C (hv_mem v)))"

lemma recorded_advances: "recorded C K es d \<Longrightarrow> disk_advances C K d d' \<Longrightarrow> recorded C K es d'"
  by (fastforce simp: recorded_def disk_advances_def split: option.splits intro: spent_in_advances)

lemma good_unspent: "good C K d v \<Longrightarrow> hv_ok v \<Longrightarrow> \<not> spent_in C e (hv_mem v) \<Longrightarrow> e \<notin> set (hv_sent v)"
  by (fastforce simp: good_def recorded_def disk_advances_def split: option.splits intro: spent_in_advances)

definition tri ::
    "string set \<Rightarrow> host_env \<Rightarrow> (hview \<Rightarrow> bool) \<Rightarrow> 'a host \<Rightarrow> ('a \<Rightarrow> hview \<Rightarrow> bool) \<Rightarrow> bool" where
  "tri K H P m Q =
     (\<forall>d s. json_faithful (hj_retained (he_json H)) \<and> good (he_crates H) K d (view K (hj_retained (he_json H)) s) \<and>
        P (view K (hj_retained (he_json H)) s) \<longrightarrow>
        good (he_crates H) K d (view K (hj_retained (he_json H)) (snd (m s))) \<and>
        (\<forall>a. fst (m s) = Inr a \<longrightarrow> Q a (view K (hj_retained (he_json H)) (snd (m s)))))"

definition quiet :: "'a host \<Rightarrow> bool" where
  "quiet m =
     (\<forall>s. hs_journal (snd (m s)) = hs_journal s \<and> hs_files (snd (m s)) = hs_files s \<and>
          hs_effects (snd (m s)) = hs_effects s)"

named_theorems quiet_intro \<open>methods that leave the journal, its file and the sent requests alone\<close>
named_theorems tri_intro \<open>triples of the host's methods\<close>

lemma quietI:
  "(\<And>s. hs_journal (snd (m s)) = hs_journal s \<and> hs_files (snd (m s)) = hs_files s \<and>
     hs_effects (snd (m s)) = hs_effects s) \<Longrightarrow> quiet m"
  by (simp add: quiet_def)

lemma quiet_pure [quiet_intro]:
  "quiet (sret a)" "quiet (sfail e)" "quiet (slift r)" "quiet (sread f)" "quiet (sensure c e')"
  "quiet (ask g)"
  by (simp_all add: quiet_def)

lemma quiet_sbind [quiet_intro]:
  "quiet m \<Longrightarrow> (\<And>a. quiet (f a)) \<Longrightarrow> quiet (sbind m f)"
  unfolding quiet_def sbind_def by (auto split: prod.splits sum.splits) (metis snd_conv)+

lemma quiet_if [quiet_intro]: "(b \<Longrightarrow> quiet m) \<Longrightarrow> (\<not> b \<Longrightarrow> quiet n) \<Longrightarrow> quiet (if b then m else n)"
  by simp

lemma quiet_case_option [quiet_intro]:
  "quiet m \<Longrightarrow> (\<And>a. quiet (f a)) \<Longrightarrow> quiet (case x of None \<Rightarrow> m | Some a \<Rightarrow> f a)"
  by (cases x) simp_all

lemma quiet_case_sum [quiet_intro]:
  "(\<And>a. quiet (f a)) \<Longrightarrow> (\<And>b. quiet (g b)) \<Longrightarrow> quiet (case x of Inl a \<Rightarrow> f a | Inr b \<Rightarrow> g b)"
  by (cases x) simp_all

lemma quiet_case_prod [quiet_intro]:
  "(\<And>a b. quiet (f a b)) \<Longrightarrow> quiet (case x of (a, b) \<Rightarrow> f a b)"
  by (cases x) simp

lemma quiet_let [quiet_intro]: "(\<And>a. quiet (f a)) \<Longrightarrow> quiet (let a = x in f a)"
  by simp

lemma quiet_wrapped [quiet_intro]:
  "quiet (wall_ms H)" "quiet (on_launch f m)" "quiet (on_downloads n)" "quiet (on_guard k g)" "quiet get_journal"
  by (simp_all add: quiet_def on_launch_def on_downloads_def on_guard_def get_journal_def sbind_def
      split: prod.splits sum.splits)

lemma tri_quiet: "quiet m \<Longrightarrow> tri K H P m (\<lambda>_. P)"
  by (simp add: tri_def quiet_def view_def)

lemma tri_bind: "tri K H P m Q \<Longrightarrow> (\<And>a. tri K H (Q a) (f a) R) \<Longrightarrow> tri K H P (sbind m f) R"
  unfolding tri_def sbind_def by (auto split: prod.splits sum.splits) (metis fst_conv snd_conv)+

lemma tri_weaken:
  "tri K H P' m Q' \<Longrightarrow> (\<And>v. P v \<Longrightarrow> P' v) \<Longrightarrow> (\<And>a v. Q' a v \<Longrightarrow> Q a v) \<Longrightarrow> tri K H P m Q"
  unfolding tri_def by blast

lemma tri_pre: "tri K H P' m Q \<Longrightarrow> (\<And>v. P v \<Longrightarrow> P' v) \<Longrightarrow> tri K H P m Q"
  unfolding tri_def by blast

lemma tri_post: "tri K H P m Q' \<Longrightarrow> (\<And>a v. Q' a v \<Longrightarrow> Q a v) \<Longrightarrow> tri K H P m Q"
  unfolding tri_def by blast

lemma tri_if: "(b \<Longrightarrow> tri K H P m Q) \<Longrightarrow> (\<not> b \<Longrightarrow> tri K H P n Q) \<Longrightarrow> tri K H P (if b then m else n) Q"
  by simp

lemma tri_case_option:
  "(x = None \<Longrightarrow> tri K H P m Q) \<Longrightarrow> (\<And>a. x = Some a \<Longrightarrow> tri K H P (f a) Q) \<Longrightarrow>
    tri K H P (case x of None \<Rightarrow> m | Some a \<Rightarrow> f a) Q"
  by (cases x) simp_all

lemma tri_case_sum:
  "(\<And>a. x = Inl a \<Longrightarrow> tri K H P (f a) Q) \<Longrightarrow> (\<And>b. x = Inr b \<Longrightarrow> tri K H P (g b) Q) \<Longrightarrow>
    tri K H P (case x of Inl a \<Rightarrow> f a | Inr b \<Rightarrow> g b) Q"
  by (cases x) simp_all

lemma tri_case_prod: "(\<And>a b. x = (a, b) \<Longrightarrow> tri K H P (f a b) Q) \<Longrightarrow> tri K H P (case x of (a, b) \<Rightarrow> f a b) Q"
  by (cases x) simp

lemma tri_pure:
  "tri K H P (sret a) (\<lambda>b v. P v \<and> b = a)" "tri K H P (sfail e) Q"
  "tri K H P (slift x) (\<lambda>a v. P v \<and> x = Inr a)" "tri K H P (sensure c e') (\<lambda>_ v. P v \<and> c)"
  by (simp_all add: tri_def)

lemma tri_ret: "(\<And>v. P v \<Longrightarrow> Q a v) \<Longrightarrow> tri K H P (sret a) Q"
  by (simp add: tri_def)

lemma tri_get: "tri K H P get_journal (\<lambda>j v. P v \<and> hv_ok v \<and> hv_mem v = j)"
  by (auto simp: tri_def get_journal_def sbind_def view_def)

text \<open>A request that the memory does not rule out has not left the process.\<close>

lemma tri_unspent:
  assumes "\<And>v. P v \<Longrightarrow> hv_ok v \<and> \<not> spent_in (he_crates H) e (hv_mem v)"
    and "tri K H (\<lambda>v. P v \<and> e \<notin> set (hv_sent v)) m Q"
  shows "tri K H P m Q"
  using assms good_unspent unfolding tri_def by metis

lemma tri_emit:
  assumes "\<And>v. P v \<Longrightarrow> e \<notin> set (hv_sent v) \<and> (\<exists>j. hv_disk v = Some j \<and> spent_in (he_crates H) e j)"
  shows "tri K H P (emit e)
    (\<lambda>_ v. \<exists>v0. P v0 \<and> v = v0\<lparr>hv_sent := hv_sent v0 @ (if effect_key e \<in> K then [e] else [])\<rparr>)"
proof -
  have "good (he_crates H) K d (v\<lparr>hv_sent := hv_sent v @ (if effect_key e \<in> K then [e] else [])\<rparr>)"
    if "good (he_crates H) K d v" "P v" for d v
    using that assms[OF that(2)] by (auto simp: good_def recorded_def)
  then show ?thesis unfolding tri_def by (force simp: view_def)
qed

section \<open>The save\<close>

lemma journal_clear_next_main:
  "journal_clear_next f s = (r, s') \<Longrightarrow> st_main s' = st_main s"
  by (auto simp: journal_clear_next_def sbind_def split: prod.splits sum.splits option.splits)

lemma journal_write_cases:
  assumes "json_faithful J" "journal_write J env r fs = (x, fs')"
  shows "disk_of J fs' = disk_of J fs \<or> disk_of J fs' = Some r"
    and "x = Inr () \<Longrightarrow> disk_of J fs' = Some r"
proof -
  have "(x \<noteq> Inr () \<and> st_main fs' = st_main fs) \<or>
    (\<exists>b. to_vec J r = Some b \<and> st_main fs' = Some (new_file b (se_id env))) \<or> (x \<noteq> Inr () \<and> fs' = fs)"
    using assms(2) unfolding journal_write_def
  proof (rule sbindE)
    fix b s1 assume b: "slift (ok_or () (to_vec J r)) fs = (Inr b, s1)"
      and rest: "sbind (sensure (length b \<le> journal_max_bytes) ())
        (\<lambda>_. sbind (journal_clear_next (se_fault env)) (\<lambda>_. publish (se_fault env) (new_file b (se_id env)))) s1 =
        (x, fs')"
    then have s1: "s1 = fs" "to_vec J r = Some b" by auto
    from rest show ?thesis
    proof (rule sbindE)
      fix u s2 assume u: "sensure (length b \<le> journal_max_bytes) () s1 = (Inr u, s2)"
        and rest: "sbind (journal_clear_next (se_fault env))
          (\<lambda>_. publish (se_fault env) (new_file b (se_id env))) s2 = (x, fs')"
      from rest show ?thesis
      proof (rule sbindE)
        fix e assume "journal_clear_next (se_fault env) s2 = (Inl e, fs')" "x = Inl e"
        then show ?thesis using journal_clear_next_main u s1(1) by fastforce
      next
        fix w s3 assume c: "journal_clear_next (se_fault env) s2 = (Inr w, s3)"
          and p: "publish (se_fault env) (new_file b (se_id env)) s3 = (x, fs')"
        have "st_main s3 = st_main fs" using journal_clear_next_main[OF c] u s1(1) by simp
        then have "st_main fs' = st_main fs \<or> st_main fs' = Some (new_file b (se_id env))"
          using publish_main[OF p] by simp
        moreover have "x = Inr () \<Longrightarrow> st_main fs' = Some (new_file b (se_id env))"
          using publish_ok p by blast
        ultimately show ?thesis using s1(2) by (cases "x = Inr ()") auto
      qed
    qed (use s1 in auto)
  qed auto
  then show "disk_of J fs' = disk_of J fs \<or> disk_of J fs' = Some r"
    and "x = Inr () \<Longrightarrow> disk_of J fs' = Some r"
    using json_faithfulD[OF assms(1)] by (auto simp: disk_of_def)
qed

text \<open>The journal file is a durable store, with the laws of \<open>Staged_File\<close>.\<close>

interpretation journal_store: durable_store "disk_of J" "journal_write J" "\<lambda>_. json_faithful J" "\<lambda>_. True" for J
  by unfold_locales (auto dest: journal_write_cases)

lemma tri_put:
  assumes "\<And>v. P v \<Longrightarrow> hv_ok v"
    "\<And>v. P v \<Longrightarrow> wf_journal (he_crates H) (hv_mem v) \<Longrightarrow> advances (he_crates H) K (hv_mem v) r"
  shows "tri K H P (put_journal H r)
    (\<lambda>_ v. hv_ok v \<and> hv_mem v = r \<and> hv_disk v = Some r \<and> (\<exists>v0. P v0 \<and> hv_sent v = hv_sent v0))"
  unfolding tri_def
proof (intro allI impI)
  let ?J = "hj_retained (he_json H)"
  fix d and s :: host_state
  let ?es = "filter (\<lambda>e. effect_key e \<in> K) (hs_effects s)"
  assume asm: "json_faithful ?J \<and> good (he_crates H) K d (view K ?J s) \<and> P (view K ?J s)"
  have ok: "\<not> j_poisoned (hs_journal s)" using assms(1) asm by (fastforce simp: view_def)
  let ?env = "w_save (he_world H) (hs_step s)"
  obtain x fs where w: "journal_write ?J ?env r (hs_files s) = (x, fs)" by (metis surj_pair)
  let ?t = "snd (put_journal H r s)"
  have t: "view K ?J ?t = \<lparr>hv_mem = r, hv_ok = is_ok x, hv_disk = disk_of ?J fs, hv_sent = filter (\<lambda>e. effect_key e \<in> K) (hs_effects s)\<rparr>"
    "is_ok (fst (put_journal H r s)) = is_ok x"
    using ok w by (cases x; simp add: put_journal_def save_journal_def sbind_def view_def set_retained_def
        set_poisoned_def)+
  have wf: "wf_journal (he_crates H) (j_retained (hs_journal s))"
    using asm ok by (simp add: good_def view_def)
  then have adv: "advances (he_crates H) K (j_retained (hs_journal s)) r"
    using assms(2) asm by (fastforce simp: view_def)
  then have wf': "wf_journal (he_crates H) r" using wf by (simp add: advances_def)
  have disk: "disk_of ?J fs = disk_of ?J (hs_files s) \<or> disk_of ?J fs = Some r"
    using journal_write_cases(1)[OF _ w] asm by blast
  have old: "disk_advances (he_crates H) K d (disk_of ?J (hs_files s))"
    "disk_advances (he_crates H) K (disk_of ?J (hs_files s)) (Some r)"
    "distinct ?es" "recorded (he_crates H) K ?es (disk_of ?J (hs_files s))"
    using asm ok adv disk_advances_trans by (auto simp: good_def view_def)
  have "good (he_crates H) K d (view K ?J ?t)"
    using disk
  proof
    assume "disk_of ?J fs = disk_of ?J (hs_files s)"
    then show ?thesis using old wf' by (simp add: good_def t)
  next
    assume "disk_of ?J fs = Some r"
    then show ?thesis
      using old wf' disk_advances_trans[OF old(1,2)] recorded_advances[OF old(4,2)] by (simp add: good_def t)
  qed
  moreover have "is_ok x \<Longrightarrow> disk_of ?J fs = Some r"
    using journal_write_cases(2)[OF _ w] asm by (cases x) auto
  ultimately show "good (he_crates H) K d (view K ?J ?t) \<and> (\<forall>a. fst (put_journal H r s) = Inr a \<longrightarrow>
      hv_ok (view K ?J ?t) \<and> hv_mem (view K ?J ?t) = r \<and> hv_disk (view K ?J ?t) = Some r \<and>
      (\<exists>v0. P v0 \<and> hv_sent (view K ?J ?t) = hv_sent v0))"
    using asm t by (auto simp: view_def is_ok_def)
qed

lemma tri_put_record:
  assumes "\<And>v. P v \<Longrightarrow> hv_ok v \<and> hv_mem v = j" "find_record key j = Some r"
    "row_step (he_crates H) key r r'"
  shows "tri K H P (put_journal H (put_record key r' j))
    (\<lambda>_ v. hv_ok v \<and> hv_mem v = put_record key r' j \<and> hv_disk v = Some (put_record key r' j) \<and>
      (\<exists>v0. P v0 \<and> hv_sent v = hv_sent v0))"
  using assms(1) advances_put[OF _ assms(2,3)] by (intro tri_put) auto

text \<open>The memory may also move ahead of the disk without a write.\<close>

lemma tri_memory:
  assumes "\<And>v. P v \<Longrightarrow> hv_ok v \<and> hv_mem v = j" "wf_journal (he_crates H) j \<Longrightarrow> advances (he_crates H) K j r"
  shows "tri K H P (swrite (set_retained r)) (\<lambda>_ v. hv_ok v \<and> hv_mem v = r)"
  unfolding tri_def
proof (intro allI impI)
  let ?J = "hj_retained (he_json H)"
  fix d s assume asm: "json_faithful ?J \<and> good (he_crates H) K d (view K ?J s) \<and> P (view K ?J s)"
  have v: "hv_ok (view K ?J s)" "hv_mem (view K ?J s) = j" using assms(1) asm by auto
  then have wf: "wf_journal (he_crates H) j" using asm by (simp add: good_def)
  then have adv: "advances (he_crates H) K j r" by (rule assms(2))
  then have "wf_journal (he_crates H) r" using wf by (simp add: advances_def)
  moreover have "disk_advances (he_crates H) K (hv_disk (view K ?J s)) (Some r)"
    using asm v adv disk_advances_trans[of "he_crates H" K _ "Some j" "Some r"] by (simp add: good_def)
  ultimately show "good (he_crates H) K d (view K ?J (snd (swrite (set_retained r) s))) \<and>
      (\<forall>a. fst (swrite (set_retained r) s) = Inr a \<longrightarrow>
        hv_ok (view K ?J (snd (swrite (set_retained r) s))) \<and> hv_mem (view K ?J (snd (swrite (set_retained r) s))) = r)"
    using asm v by (auto simp: good_def view_def set_retained_def)
qed

end
