(* ===== verification/Host_Frame.thy ===== *)
theory Host_Frame
  imports Host_Laws
begin

text \<open>
  The methods of the host that leave the journal, its file and the sent requests alone:
  checks, observations, reads and the calls to the launch authority. A pinned read (live
  output, file download) is such a method as a whole.
\<close>

lemma quiet_check_deadline [quiet_intro]: "quiet (check_deadline H t)"
  unfolding check_deadline_def by (intro quiet_intro)

lemma quiet_check_owner [quiet_intro]: "quiet (check_owner H w)"
  unfolding check_owner_def by (intro quiet_intro)

lemma quiet_authorize_new [quiet_intro]: "quiet (authorize_new H j w)"
  unfolding authorize_new_def by (intro quiet_intro)

lemma quiet_host_manifest [quiet_intro]: "quiet (host_manifest H w q)"
  unfolding host_manifest_def by (intro quiet_intro)

lemma quiet_bind_guest [quiet_intro]: "quiet (bind_guest H m)"
  unfolding bind_guest_def by (intro quiet_intro)

lemma quiet_make_observation [quiet_intro]: "quiet (make_observation H w r s g)"
  unfolding make_observation_def by (intro quiet_intro)

lemma quiet_authorize_create [quiet_intro]: "quiet (authorize_create H w q)"
  unfolding authorize_create_def by (intro quiet_intro)

lemma quiet_lease_claim [quiet_intro]: "quiet (lease_claim H l)"
  unfolding lease_claim_def by (intro quiet_intro)

lemma quiet_recovery_target [quiet_intro]: "quiet (recovery_target H r)"
  unfolding recovery_target_def by (intro quiet_intro)

lemma quiet_guest_report [quiet_intro]: "quiet (guest_report H i c)"
  unfolding guest_report_def by (intro quiet_intro)

lemma quiet_command_client [quiet_intro]: "quiet (command_client H r x)"
  unfolding command_client_def by (intro quiet_intro)

lemma quiet_retirement_client [quiet_intro]: "quiet (retirement_client H r y)"
  unfolding retirement_client_def by (intro quiet_intro)

lemma quiet_released_claim [quiet_intro]: "quiet (released_claim H l e)"
  unfolding released_claim_def by (intro quiet_intro)

lemma quiet_retained_boot [quiet_intro]: "quiet (retained_boot H r)"
  unfolding retained_boot_def by (intro quiet_intro)

lemma quiet_fence_root [quiet_intro]: "quiet (fence_root H ck rq)"
  unfolding fence_root_def by (intro quiet_intro)

lemma quiet_retirement_claim [quiet_intro]: "quiet (retirement_claim H r rq)"
  unfolding retirement_claim_def by (intro quiet_intro)

lemma quiet_tickets_pending [quiet_intro]: "quiet (tickets_pending H a)"
  unfolding tickets_pending_def by (intro quiet_intro)

lemma quiet_file_client [quiet_intro]: "quiet (file_client H r)"
  unfolding file_client_def by (intro quiet_intro)

lemma quiet_file_report [quiet_intro]: "quiet (file_report H w f b st)"
  unfolding file_report_def by (intro quiet_intro)

lemma quiet_archive_request_ok [quiet_intro]: "quiet (archive_request_ok H oq)"
  unfolding archive_request_ok_def by (intro quiet_intro)

lemma quiet_archive_source [quiet_intro]: "quiet (archive_source H mo k)"
  unfolding archive_source_def by (intro quiet_intro)

lemma quiet_output_report [quiet_intro]: "quiet (output_report H oq ps refs)"
  unfolding output_report_def by (intro quiet_intro)

lemma quiet_output_worker [quiet_intro]: "quiet (output_worker H)"
  unfolding output_worker_def by (intro quiet_intro)

lemma quiet_reader_pin [quiet_intro]: "quiet (reader_pin H r)"
  unfolding reader_pin_def by (intro quiet_intro)

lemma quiet_live_record [quiet_intro]: "quiet (live_record H s)"
  unfolding live_record_def by (intro quiet_intro)

lemma quiet_live_request_ok [quiet_intro]: "quiet (live_request_ok H lq)"
  unfolding live_request_ok_def by (intro quiet_intro)

lemma quiet_live_observation_of [quiet_intro]: "quiet (live_observation_of H lq ch t)"
  unfolding live_observation_of_def by (intro quiet_intro)

lemma quiet_open_session [quiet_intro]: "quiet (open_session H rq r)"
  unfolding open_session_def by (intro quiet_intro)

lemma quiet_with_gate [quiet_intro]: "quiet (with_gate H f)"
  unfolding with_gate_def by (intro quiet_intro)

lemma quiet_with_gate_save [quiet_intro]: "quiet (with_gate_save H g)"
  unfolding with_gate_save_def by (intro quiet_intro)

lemma quiet_verify_forgetting [quiet_intro]: "quiet (verify_forgetting H r fq)"
  unfolding verify_forgetting_def by (intro quiet_intro)

lemma quiet_row_free [quiet_intro]: "quiet (row_free H ro)"
  unfolding row_free_def by (intro quiet_intro)

lemma quiet_guard_completed [quiet_intro]: "quiet (guard_completed H g)"
  unfolding guard_completed_def by (intro quiet_intro)

lemma quiet_forget_guard [quiet_intro]: "quiet (forget_guard H fq g)"
  unfolding forget_guard_def by (intro quiet_intro)

lemma quiet_retiring_record [quiet_intro]: "quiet (retiring_record H rq key)"
  unfolding retiring_record_def by (intro quiet_intro)

lemma quiet_history_binding_sync [quiet_intro]: "quiet (history_binding_sync H lo)"
  unfolding history_binding_sync_def by (intro quiet_intro)

lemma quiet_download_record [quiet_intro]: "quiet (download_record H s)"
  unfolding download_record_def by (intro quiet_intro)

lemma quiet_download_client_of [quiet_intro]: "quiet (download_client_of H m)"
  unfolding download_client_of_def by (intro quiet_intro)

lemma quiet_download_prepare [quiet_intro]: "quiet (download_prepare H s)"
  unfolding download_prepare_def by (intro quiet_intro)

lemma quiet_check_download_current [quiet_intro]: "quiet (check_download_current H s c)"
  unfolding check_download_current_def by (intro quiet_intro)

lemma quiet_current_request [quiet_intro]: "quiet (current_request H check)"
  unfolding current_request_def by (intro quiet_intro)

lemma quiet_mono_now [quiet_intro]: "quiet (mono_now H)"
  unfolding mono_now_def by (intro quiet_intro)

lemma quiet_access_observation_of [quiet_intro]: "quiet (access_observation_of H b x)"
  unfolding access_observation_of_def by (intro quiet_intro)

lemma quiet_ticket_released [quiet_intro]: "quiet (ticket_released H s h)"
  unfolding ticket_released_def by (intro quiet_intro)

lemma quiet_download_bound [quiet_intro]: "quiet (download_bound H s h)"
  unfolding download_bound_def by (intro quiet_intro)

lemma quiet_capture_begin [quiet_intro]: "quiet (capture_begin H q)"
  unfolding capture_begin_def by (intro quiet_intro)

lemma quiet_capture_end [quiet_intro]: "quiet (capture_end H q ticket x)"
  unfolding capture_end_def by (intro quiet_intro)

lemma quiet_read_begin [quiet_intro]: "quiet (read_begin H q)"
  unfolding read_begin_def by (intro quiet_intro)

lemma quiet_read_end [quiet_intro]: "quiet (read_end H q ticket x)"
  unfolding read_end_def by (intro quiet_intro)

lemma quiet_release_begin [quiet_intro]: "quiet (release_begin H q)"
  unfolding release_begin_def by (intro quiet_intro)

lemma quiet_release_end [quiet_intro]: "quiet (release_end H q ticket)"
  unfolding release_end_def by (intro quiet_intro)

lemma quiet_live_begin [quiet_intro]: "quiet (live_begin H q)"
  unfolding live_begin_def by (intro quiet_intro)

lemma quiet_live_end [quiet_intro]: "quiet (live_end H q src ch t)"
  unfolding live_end_def by (intro quiet_intro)

lemma quiet_capture_download [quiet_intro]: "quiet (capture_download H q)"
  unfolding capture_download_def by (intro quiet_intro)

lemma quiet_read_download [quiet_intro]: "quiet (read_download H q)"
  unfolding read_download_def by (intro quiet_intro)

lemma quiet_release_download [quiet_intro]: "quiet (release_download H q)"
  unfolding release_download_def by (intro quiet_intro)

lemma quiet_live_read [quiet_intro]: "quiet (live_read H lq)"
  unfolding live_read_def by (intro quiet_intro)

lemma quiet_not_prepared [quiet_intro]: "quiet (not_prepared H w m)"
proof -
  have "quiet (\<lambda>s. case check_deadline H (own_expires w) s of (x, s') \<Rightarrow> (Inr (\<not> is_ok x), s'))"
    using quiet_check_deadline unfolding quiet_def by (auto split: prod.splits) (metis snd_conv)+
  then show ?thesis unfolding not_prepared_def by (intro quiet_intro) simp_all
qed

lemma quiet_await_ready [quiet_intro]: "quiet (await_ready H m turns)"
proof (induction turns)
  case 0
  show ?case unfolding await_ready.simps by (intro quiet_intro)
next
  case (Suc turns)
  then show ?case unfolding await_ready.simps by (intro quiet_intro)
qed

lemma quiet_recovery_targets [quiet_intro]: "quiet (recovery_targets H rs)"
proof (induction rs)
  case Nil
  show ?case unfolding recovery_targets.simps by (intro quiet_intro)
next
  case (Cons r rs)
  then show ?case unfolding recovery_targets.simps by (intro quiet_intro)
qed

end
