(* ===== verification/Host_Rows.thy ===== *)
theory Host_Rows
  imports Host_Laws
begin

text \<open>
  The changes a host makes to one row, each a step of a well-formed row: fences, stops and
  releases, admission, leases, retained commands, transfers and archives, and the retirements
  that drop retained names. A dropped name stays ruled out by the retirement that covers it.
\<close>

section \<open>Rules for one row\<close>

definition same_slots :: "host_record \<Rightarrow> host_record \<Rightarrow> bool" where
  "same_slots r r' =
     (rec_retirement r' = rec_retirement r \<and>
      (\<forall>d. live_slot r' d = live_slot r d \<and> released_slot r' d = released_slot r d))"

lemma closed_op_same: "same_slots r r' \<Longrightarrow> closed_op C r' d op = closed_op C r d op"
  by (auto simp: same_slots_def closed_op_def history_check_def retirement_check_def released_check_def
      split: sum.splits)

lemma record_advancesI:
  assumes "rec_owner r' = rec_owner r" "rec_stopped r \<Longrightarrow> rec_stopped r'"
    "rec_released r \<Longrightarrow> rec_released r'" "rec_dispatched r \<Longrightarrow> rec_dispatched r'"
    "keeps (rec_create r) (rec_create r')" "keeps (rec_manifest r) (rec_manifest r')"
    "rec_retirement r \<noteq> None \<Longrightarrow> rec_retirement r' \<noteq> None"
    and closed: "\<And>d op. closed_op C r d op \<Longrightarrow> closed_op C r' d op"
    and "\<And>op. bt_contains op (rec_commands r) \<Longrightarrow> bt_contains op (rec_commands r') \<or> closed_op C r' Commands op"
    and "\<And>op. bt_contains op (rec_files r) \<Longrightarrow> bt_contains op (rec_files r') \<or> closed_op C r' FilesDomain op"
    and "\<And>op. file_flag file_commit_requested r op \<Longrightarrow>
           file_flag file_commit_requested r' op \<or> closed_op C r' FilesDomain op"
    and "\<And>op. file_flag file_abort_requested r op \<Longrightarrow>
           file_flag file_abort_requested r' op \<or> closed_op C r' FilesDomain op"
  shows "record_advances C r r'"
proof -
  have "spent C r e \<longrightarrow> spent C r' e" for e
  proof (cases e)
    case (StartedGuardian key)
    then show ?thesis using assms(5) by (auto simp: keeps_def)
  qed (use assms in auto)
  then show ?thesis using assms by (auto simp: record_advances_def)
qed

text \<open>The same for a change that touches no history.\<close>

lemma record_advances_same:
  assumes "same_slots r r'" "rec_owner r' = rec_owner r" "rec_stopped r \<Longrightarrow> rec_stopped r'"
    "rec_released r \<Longrightarrow> rec_released r'" "rec_dispatched r \<Longrightarrow> rec_dispatched r'"
    "keeps (rec_create r) (rec_create r')" "keeps (rec_manifest r) (rec_manifest r')"
    "\<And>op. bt_contains op (rec_commands r) \<Longrightarrow> bt_contains op (rec_commands r')"
    "\<And>op. bt_contains op (rec_files r) \<Longrightarrow> bt_contains op (rec_files r')"
    "\<And>op. file_flag file_commit_requested r op \<Longrightarrow> file_flag file_commit_requested r' op"
    "\<And>op. file_flag file_abort_requested r op \<Longrightarrow> file_flag file_abort_requested r' op"
  shows "record_advances C r r'"
proof (rule record_advancesI)
  show "rec_retirement r \<noteq> None \<Longrightarrow> rec_retirement r' \<noteq> None" using assms(1) by (simp add: same_slots_def)
qed (use assms closed_op_same[OF assms(1)] in auto)

lemma slot_frames [simp]:
  "live_slot (r\<lparr>rec_revisions := a\<rparr>) d = live_slot r d" "released_slot (r\<lparr>rec_revisions := a\<rparr>) d = released_slot r d"
  "live_slot (r\<lparr>rec_stopped := b\<rparr>) d = live_slot r d" "released_slot (r\<lparr>rec_stopped := b\<rparr>) d = released_slot r d"
  "live_slot (r\<lparr>rec_released := b\<rparr>) d = live_slot r d" "released_slot (r\<lparr>rec_released := b\<rparr>) d = released_slot r d"
  "live_slot (r\<lparr>rec_dispatched := b\<rparr>) d = live_slot r d" "released_slot (r\<lparr>rec_dispatched := b\<rparr>) d = released_slot r d"
  "live_slot (r\<lparr>rec_create := q\<rparr>) d = live_slot r d" "released_slot (r\<lparr>rec_create := q\<rparr>) d = released_slot r d"
  "live_slot (r\<lparr>rec_manifest := m\<rparr>) d = live_slot r d" "released_slot (r\<lparr>rec_manifest := m\<rparr>) d = released_slot r d"
  "live_slot (r\<lparr>rec_lease_request := l\<rparr>) d = live_slot r d"
  "released_slot (r\<lparr>rec_lease_request := l\<rparr>) d = released_slot r d"
  "live_slot (r\<lparr>rec_lease_revision := n\<rparr>) d = live_slot r d"
  "released_slot (r\<lparr>rec_lease_revision := n\<rparr>) d = released_slot r d"
  "live_slot (r\<lparr>rec_commands := c\<rparr>) d = live_slot r d" "released_slot (r\<lparr>rec_commands := c\<rparr>) d = released_slot r d"
  "live_slot (r\<lparr>rec_files := f\<rparr>) d = live_slot r d" "released_slot (r\<lparr>rec_files := f\<rparr>) d = released_slot r d"
  "live_slot (r\<lparr>rec_archives := s\<rparr>) d = live_slot r d" "released_slot (r\<lparr>rec_archives := s\<rparr>) d = released_slot r d"
  "live_slot (r\<lparr>rec_metadata := t\<rparr>) d = live_slot r d" "released_slot (r\<lparr>rec_metadata := t\<rparr>) d = released_slot r d"
  "live_slot (r\<lparr>rec_retirement := u\<rparr>) d = live_slot r d" "released_slot (r\<lparr>rec_retirement := u\<rparr>) d = released_slot r d"
  by (cases d; simp add: live_slot_def released_slot_def)+

lemma file_flag_frames [simp]:
  "file_flag p (r\<lparr>rec_revisions := a\<rparr>) = file_flag p r" "file_flag p (r\<lparr>rec_commands := c\<rparr>) = file_flag p r"
  "file_flag p (r\<lparr>rec_stopped := b\<rparr>) = file_flag p r" "file_flag p (r\<lparr>rec_released := b\<rparr>) = file_flag p r"
  "file_flag p (r\<lparr>rec_dispatched := b\<rparr>) = file_flag p r" "file_flag p (r\<lparr>rec_create := q\<rparr>) = file_flag p r"
  "file_flag p (r\<lparr>rec_manifest := m\<rparr>) = file_flag p r" "file_flag p (r\<lparr>rec_archives := s\<rparr>) = file_flag p r"
  "file_flag p (r\<lparr>rec_lease_request := l\<rparr>) = file_flag p r" "file_flag p (r\<lparr>rec_lease_revision := n\<rparr>) = file_flag p r"
  "file_flag p (r\<lparr>rec_metadata := t\<rparr>) = file_flag p r" "file_flag p (r\<lparr>rec_retirement := u\<rparr>) = file_flag p r"
  by (rule ext, simp add: file_flag_def)+

section \<open>Fences, stops and leases\<close>

lemma row_fence:
  assumes "bt_contains op (rec_revisions r) \<or> length (rec_revisions r) < 64"
  shows "row_step C key r (r\<lparr>rec_revisions := bt_insert op n (rec_revisions r)\<rparr>)"
  using assms length_bt_insert[of "rec_revisions r" op n]
  by (auto simp: row_step_def wf_record_def bt_ordered_insert same_slots_def intro!: record_advances_same)

lemma row_stopped: "row_step C key r (r\<lparr>rec_stopped := True\<rparr>)"
  by (auto simp: row_step_def wf_record_def same_slots_def intro!: record_advances_same)

lemma row_released:
  "rec_manifest r \<noteq> None \<Longrightarrow> row_step C key r (r\<lparr>rec_stopped := True, rec_released := True\<rparr>)"
  by (auto simp: row_step_def wf_record_def same_slots_def intro!: record_advances_same)

lemma row_dispatched: "rec_manifest r \<noteq> None \<Longrightarrow> row_step C key r (r\<lparr>rec_dispatched := True\<rparr>)"
  by (auto simp: row_step_def wf_record_def same_slots_def intro!: record_advances_same)

lemma row_lease: "row_step C key r (r\<lparr>rec_lease_request := l, rec_lease_revision := n\<rparr>)"
  by (auto simp: row_step_def wf_record_def same_slots_def intro!: record_advances_same)

lemma row_created:
  "rec_create r = None \<Longrightarrow> row_step C key r (r\<lparr>rec_create := Some q, rec_manifest := Some m\<rparr>)"
  by (auto simp: row_step_def wf_record_def same_slots_def intro!: record_advances_same)

lemma row_metadata: "row_step C key r (r\<lparr>rec_metadata := m\<rparr>)"
  by (auto simp: row_step_def wf_record_def same_slots_def intro!: record_advances_same)

section \<open>Retained work\<close>

lemma well_keyed_insert:
  "well_keyed C m \<Longrightarrow> is_ok (parse_operation C op) \<Longrightarrow> well_keyed C (bt_insert op x m)"
  by (auto simp: well_keyed_def bt_ordered_insert)

lemma row_command:
  assumes "is_ok (parse_operation C op)" "bt_contains op (rec_commands r) \<or> length (rec_commands r) < max_commands"
  shows "row_step C key r (r\<lparr>rec_commands := bt_insert op c (rec_commands r)\<rparr>)"
  using assms length_bt_insert[of "rec_commands r" op c]
  by (auto simp: row_step_def wf_record_def well_keyed_insert well_keyed_def bt_ordered_insert same_slots_def
      intro!: record_advances_same)

lemma row_archive:
  assumes "bt_contains op (rec_commands r)"
  shows "row_step C key r (r\<lparr>rec_archives := bt_insert op a (rec_archives r)\<rparr>)"
  using assms
  by (auto simp: row_step_def wf_record_def bt_ordered_insert same_slots_def intro!: record_advances_same)

text \<open>A retained transfer is only replaced by one with the same or more intents.\<close>

definition file_extends :: "file_record \<Rightarrow> file_record \<Rightarrow> bool" where
  "file_extends f g =
     ((file_commit_requested f \<longrightarrow> file_commit_requested g) \<and> (file_abort_requested f \<longrightarrow> file_abort_requested g))"

lemma row_file:
  assumes "is_ok (parse_operation C op)" "bt_contains op (rec_files r) \<or> length (rec_files r) < max_files"
    "\<And>g. bt_get op (rec_files r) = Some g \<Longrightarrow> file_extends g f"
  shows "row_step C key r (r\<lparr>rec_files := bt_insert op f (rec_files r)\<rparr>)"
proof -
  let ?r = "r\<lparr>rec_files := bt_insert op f (rec_files r)\<rparr>"
  have flags: "file_flag p r k \<Longrightarrow> file_flag p ?r k"
    if "p = file_commit_requested \<or> p = file_abort_requested" for p k
    using assms(3) that by (auto simp: file_flag_def file_extends_def split: option.splits if_splits)
  have "record_advances C r ?r"
    by (rule record_advances_same) (auto simp: same_slots_def flags)
  then show ?thesis
    using assms(1,2) length_bt_insert[of "rec_files r" op f]
    by (auto simp: row_step_def wf_record_def well_keyed_insert well_keyed_def bt_ordered_insert)
qed

lemma row_step_trans: "row_step C key r s \<Longrightarrow> row_step C key s t \<Longrightarrow> row_step C key r t"
  by (auto simp: row_step_def intro: record_advances_trans)

section \<open>Retirement\<close>

lemma retired_closes: "rec_retirement r \<noteq> None \<Longrightarrow> is_ok (parse_operation C op) \<Longrightarrow> closed_op C r d op"
  by (auto simp: closed_op_def history_check_def retirement_check_def is_ok_iff)

lemma closed_op_parsed: "closed_op C r d op \<Longrightarrow> is_ok (parse_operation C op)"
  by (auto simp: closed_op_def split: sum.splits)

lemma row_frozen: "row_step C key r (r\<lparr>rec_retirement := Some q, rec_stopped := True\<rparr>)"
proof -
  have "record_advances C r (r\<lparr>rec_retirement := Some q, rec_stopped := True\<rparr>)"
    by (rule record_advancesI) (auto intro: retired_closes dest: closed_op_parsed)
  then show ?thesis by (auto simp: row_step_def wf_record_def)
qed

lemma slot_updates [simp]:
  "live_slot (set_live_slot d x r) e = (if e = d then x else live_slot r e)"
  "live_slot (set_released_slot d y r) e = live_slot r e"
  "released_slot (set_live_slot d x r) e = released_slot r e"
  "released_slot (set_released_slot d y r) e = (if e = d then y else released_slot r e)"
  by (cases d; cases e; simp add: live_slot_def released_slot_def set_live_slot_def set_released_slot_def)+

lemma slot_update_fields [simp]:
  "rec_owner (set_live_slot d x r) = rec_owner r" "rec_stopped (set_live_slot d x r) = rec_stopped r"
  "rec_released (set_live_slot d x r) = rec_released r" "rec_dispatched (set_live_slot d x r) = rec_dispatched r"
  "rec_create (set_live_slot d x r) = rec_create r" "rec_manifest (set_live_slot d x r) = rec_manifest r"
  "rec_retirement (set_live_slot d x r) = rec_retirement r" "rec_commands (set_live_slot d x r) = rec_commands r"
  "rec_files (set_live_slot d x r) = rec_files r" "rec_archives (set_live_slot d x r) = rec_archives r"
  "rec_revisions (set_live_slot d x r) = rec_revisions r"
  "rec_owner (set_released_slot d y r) = rec_owner r" "rec_stopped (set_released_slot d y r) = rec_stopped r"
  "rec_released (set_released_slot d y r) = rec_released r"
  "rec_dispatched (set_released_slot d y r) = rec_dispatched r"
  "rec_create (set_released_slot d y r) = rec_create r" "rec_manifest (set_released_slot d y r) = rec_manifest r"
  "rec_retirement (set_released_slot d y r) = rec_retirement r"
  "rec_commands (set_released_slot d y r) = rec_commands r" "rec_files (set_released_slot d y r) = rec_files r"
  "rec_archives (set_released_slot d y r) = rec_archives r"
  "rec_revisions (set_released_slot d y r) = rec_revisions r"
  by (cases d; simp add: set_live_slot_def set_released_slot_def)+

lemma closed_op_iff:
  "closed_op C r d op \<longleftrightarrow> (\<exists>i. parse_operation C op = Inr i \<and>
     (rec_retirement r \<noteq> None \<or> (\<exists>x. released_slot r d = Some x \<and> i \<le> xr_through x) \<or>
      (\<exists>v. live_slot r d = Some v \<and> covers (lr_barrier v) i)))"
  by (auto simp: closed_op_def history_check_def retirement_check_def released_check_def
      split: sum.splits option.splits if_splits)

lemma wf_record_slot: "wf_record C key r \<Longrightarrow> live_slot r d = Some x \<Longrightarrow> bar_domain (lr_barrier x) = d"
  by (simp add: wf_record_def)

lemma closes_live:
  assumes "rec_retirement r' = rec_retirement r" "\<And>e. released_slot r' e = released_slot r e"
    "\<And>e v. live_slot r e = Some v \<Longrightarrow> \<exists>v'. live_slot r' e = Some v' \<and> bar_through (lr_barrier v) \<le> bar_through (lr_barrier v')"
    "closed_op C r e op"
  shows "closed_op C r' e op"
  using assms unfolding closed_op_iff covers_def by (metis order_trans)

lemma closes_released:
  assumes "rec_retirement r' = rec_retirement r" "\<And>e. live_slot r' e = live_slot r e"
    "\<And>e v. released_slot r e = Some v \<Longrightarrow> \<exists>v'. released_slot r' e = Some v' \<and> xr_through v \<le> xr_through v'"
    "closed_op C r e op"
  shows "closed_op C r' e op"
  using assms unfolding closed_op_iff by (metis order_trans)

text \<open>The slot a prepared retirement takes covers what the old one covered.\<close>

lemma history_prepare_slot:
  assumes "history_prepare C K r b n = Inr (x, r')" "wf_record C key r"
  shows "bar_domain (lr_barrier x) = bar_domain b"
    and "live_slot r (bar_domain b) = Some v \<Longrightarrow> bar_through (lr_barrier v) \<le> bar_through (lr_barrier x)"
  using assms by (auto simp: history_prepare_def history_prepare_new_def wf_record_def Let_def split: option.splits if_splits)

lemma row_prepared:
  assumes "history_prepare C K r b n = Inr (x, r')"
  shows "row_step C key r (set_live_slot (bar_domain (lr_barrier x)) (Some x) r)"
proof -
  let ?d = "bar_domain b"
  let ?r = "set_live_slot ?d (Some x) r"
  {
    assume wf: "wf_record C key r"
    note slot = history_prepare_slot[OF assms wf]
    have closes: "closed_op C r e op \<Longrightarrow> closed_op C ?r e op" for e op
      by (rule closes_live[of ?r r]) (auto simp: slot(2) split: if_splits)
    have "record_advances C r ?r"
      by (rule record_advancesI) (auto simp: closes file_flag_def)
    moreover have "wf_record C key ?r" using wf slot(1) by (auto simp: wf_record_def)
    ultimately have "record_advances C r ?r \<and> wf_record C key ?r" "bar_domain (lr_barrier x) = ?d"
      using slot(1) by auto
  }
  then show ?thesis by (auto simp: row_step_def)
qed

text \<open>A row from which the names \<open>N\<close> of a domain are dropped.\<close>

definition drops :: "domain \<Rightarrow> string set \<Rightarrow> host_record \<Rightarrow> host_record \<Rightarrow> bool" where
  "drops d N r r' =
     (rec_owner r' = rec_owner r \<and> rec_stopped r' = rec_stopped r \<and> rec_released r' = rec_released r \<and>
      rec_dispatched r' = rec_dispatched r \<and> rec_create r' = rec_create r \<and>
      rec_manifest r' = rec_manifest r \<and> rec_retirement r' = rec_retirement r \<and>
      (bt_ordered (rec_revisions r) \<longrightarrow> bt_ordered (rec_revisions r')) \<and>
      length (rec_revisions r') \<le> length (rec_revisions r) \<and>
      (bt_ordered (rec_commands r) \<longrightarrow> bt_ordered (rec_commands r')) \<and>
      length (rec_commands r') \<le> length (rec_commands r) \<and>
      (bt_ordered (rec_files r) \<longrightarrow> bt_ordered (rec_files r')) \<and>
      length (rec_files r') \<le> length (rec_files r) \<and>
      (bt_ordered (rec_archives r) \<longrightarrow> bt_ordered (rec_archives r')) \<and>
      (\<forall>op. bt_get op (rec_commands r') =
        (if d = Commands \<and> op \<in> N then None else bt_get op (rec_commands r))) \<and>
      (\<forall>op. bt_get op (rec_files r') =
        (if d = FilesDomain \<and> op \<in> N then None else bt_get op (rec_files r))) \<and>
      (\<forall>op. bt_get op (rec_archives r') =
        (if d = Commands \<and> op \<in> N then None else bt_get op (rec_archives r))))"

lemma drops_refl: "drops d {} r r"
  by (simp add: drops_def)

lemma drops_name: "drops d N r s \<Longrightarrow> drops d (insert n N) r (drop_name d s n)"
  by (cases d) (auto simp: drops_def drop_name_def bt_ordered_remove intro: le_trans[OF length_bt_remove])

lemma drops_fold: "drops d N r s \<Longrightarrow> drops d (N \<union> set names) r (foldl (drop_name d) s names)"
proof (induction names arbitrary: N s)
  case (Cons n names)
  show ?case using Cons.IH[OF drops_name[OF Cons.prems, of n]] by simp
qed simp

lemma drops_slots:
  "drops d N r s \<Longrightarrow> drops d N r (set_live_slot e x s)"
  "drops d N r s \<Longrightarrow> drops d N r (set_released_slot e y s)"
  by (cases e; simp add: drops_def set_live_slot_def set_released_slot_def)+

lemma drop_slots [simp]:
  "live_slot (foldl (drop_name d) r names) e = live_slot r e"
  "released_slot (foldl (drop_name d) r names) e = released_slot r e"
proof -
  have "live_slot (drop_name d s n) e = live_slot s e" "released_slot (drop_name d s n) e = released_slot s e" for s n
    by (cases d; cases e; simp add: drop_name_def live_slot_def released_slot_def)+
  then show "live_slot (foldl (drop_name d) r names) e = live_slot r e"
    "released_slot (foldl (drop_name d) r names) e = released_slot r e"
    by (induction names arbitrary: r) simp_all
qed

lemma row_dropped:
  assumes drops: "drops d N r r'" and wf: "wf_record C key r"
    and closes: "\<And>e op. closed_op C r e op \<Longrightarrow> closed_op C r' e op"
    and ruled: "\<And>op. op \<in> N \<Longrightarrow> closed_op C r' d op"
    and slots: "\<And>e x. live_slot r' e = Some x \<Longrightarrow> bar_domain (lr_barrier x) = e"
  shows "record_advances C r r' \<and> wf_record C key r'"
proof -
  have "record_advances C r r'"
    by (rule record_advancesI)
      (use drops closes ruled in \<open>auto simp: drops_def bt_contains_def file_flag_def split: option.splits if_splits\<close>)
  moreover have "wf_record C key r'"
    using drops wf slots
    by (auto simp: drops_def wf_record_def well_keyed_def bt_contains_def)
  ultimately show ?thesis by simp
qed

lemma kept_covered:
  "try_fold (keep_covered C inside) [] ns = Inr names \<Longrightarrow> n \<in> set names \<Longrightarrow>
    \<exists>i. parse_operation C n = Inr i \<and> inside i"
  using try_fold_invariant[of "keep_covered C inside" "[]" ns names
      "\<lambda>found. \<forall>n \<in> set found. \<exists>i. parse_operation C n = Inr i \<and> inside i"]
  by (fastforce simp: keep_covered_def split: if_splits)

lemma kept_retired:
  "try_fold (keep_retired C through) [] ns = Inr names \<Longrightarrow> n \<in> set names \<Longrightarrow>
    \<exists>i. parse_operation C n = Inr i \<and> i \<le> through"
  using try_fold_invariant[of "keep_retired C through" "[]" ns names
      "\<lambda>found. \<forall>n \<in> set found. \<exists>i. parse_operation C n = Inr i \<and> i \<le> through"]
  by (fastforce simp: keep_retired_def split: if_splits)

lemma row_completed:
  assumes "history_complete C K r x = Inr r'"
  shows "row_step C key r r'"
proof -
  let ?d = "bar_domain (lr_barrier x)"
  from assms obtain v names where v: "live_slot r ?d = Some v" "lr_barrier v = lr_barrier x"
    and names: "try_fold (keep_covered C (covers (lr_barrier x))) [] (domain_names r ?d) = Inr names"
    and r': "r' = set_live_slot ?d (Some (v\<lparr>lr_completed := True\<rparr>)) (foldl (drop_name ?d) r names)"
    by (auto simp: history_complete_def Let_def)
  have drops: "drops ?d (set names) r r'"
    using drops_slots(1)[OF drops_fold[OF drops_refl]] by (simp add: r')
  have keep: "rec_retirement r' = rec_retirement r" using drops by (simp add: drops_def)
  have closes: "closed_op C r e op \<Longrightarrow> closed_op C r' e op" for e op
    by (rule closes_live[OF keep]) (auto simp: r' v)
  have "closed_op C r' ?d op" if "op \<in> set names" for op
    using kept_covered[OF names that] v(2) by (auto simp: closed_op_iff r')
  moreover have "bar_domain (lr_barrier y) = e" if "wf_record C key r" "live_slot r' e = Some y" for e y
    using that(2) wf_record_slot[OF that(1), of e y] v(2) by (auto simp: r' split: if_splits)
  ultimately show ?thesis using row_dropped[OF drops _ closes] by (auto simp: row_step_def)
qed

lemma row_reclaimed:
  assumes "reclaim C K boot r d through n epoch = Inr (completed, r')"
  shows "row_step C key r r'"
proof -
  from assms obtain names where names: "try_fold (keep_retired C completed) [] (domain_names r d) = Inr names"
    and later: "\<And>y. released_slot r d = Some y \<Longrightarrow> xr_through y \<le> completed"
    and r': "r' = set_released_slot d (Some \<lparr>xr_version = 1, xr_through = completed,
      xr_requested_through = through, xr_revision = n, xr_epoch = epoch\<rparr>) (foldl (drop_name d) r names)"
    by (auto simp: reclaim_def retired_names_def split: option.splits)
  have drops: "drops d (set names) r r'"
    using drops_slots(2)[OF drops_fold[OF drops_refl]] by (simp add: r')
  have keep: "rec_retirement r' = rec_retirement r" using drops by (simp add: drops_def)
  have closes: "closed_op C r e op \<Longrightarrow> closed_op C r' e op" for e op
    by (rule closes_released[OF keep]) (auto simp: r' later)
  have "closed_op C r' d op" if "op \<in> set names" for op
    using kept_retired[OF names that] by (auto simp: closed_op_iff r')
  moreover have "bar_domain (lr_barrier y) = e" if "wf_record C key r" "live_slot r' e = Some y" for e y
    using that(2) wf_record_slot[OF that(1), of e y] by (auto simp: r')
  ultimately show ?thesis using row_dropped[OF drops _ closes] by (auto simp: row_step_def)
qed

section \<open>New rows\<close>

lemma wf_fresh: "wf_record C (own_allocation w) (fresh_record w)"
  by (simp add: wf_record_def fresh_record_def well_keyed_def bt_contains_def live_slot_def split: domain.splits)

lemma wf_empty_retired:
  "key = show_allocation C (permit_allocation (intent_permit (req_intent q))) \<Longrightarrow>
    wf_record C key ((empty_retired C q)\<lparr>rec_retirement := rq\<rparr>)"
  by (simp add: wf_record_def empty_retired_def fresh_record_def well_keyed_def bt_contains_def live_slot_def Let_def
      split: domain.splits)

end
