(* ===== verification/Host_Steps.thy ===== *)
theory Host_Steps
  imports Host_Frame Host_Rows
begin

text \<open>
  Triples for the methods that write the journal. The rules at the start follow the shape of
  the code, so that a method's triple is proved by its structure; \<open>safe\<close> is the triple without
  a condition. \<open>holds\<close> and \<open>backs\<close> say what a method knows of the row it was given a copy of.
\<close>

section \<open>Structural rules\<close>

definition safe :: "string set \<Rightarrow> host_env \<Rightarrow> 'a host \<Rightarrow> bool" where
  "safe K H m = tri K H (\<lambda>_. True) m (\<lambda>_ _. True)"

named_theorems safe_intro \<open>methods that keep the journal's invariant from every state\<close>

lemma tri_safe: "safe K H m \<Longrightarrow> tri K H P m (\<lambda>_ _. True)"
  unfolding safe_def by (rule tri_pre) simp_all

lemma safe_tri: "tri K H (\<lambda>_. True) m Q \<Longrightarrow> safe K H m"
  unfolding safe_def by (rule tri_post) simp_all

lemma safe_quiet [safe_intro]: "quiet m \<Longrightarrow> safe K H m"
  unfolding safe_def by (rule tri_post[OF tri_quiet]) simp_all

lemma tri_seq: "tri K H P m Q \<Longrightarrow> (\<And>a. tri K H (Q a) (f a) R) \<Longrightarrow> tri K H P (sbind m f) R"
  by (rule tri_bind)

lemma tri_then_quiet: "quiet m \<Longrightarrow> (\<And>a. tri K H P (f a) R) \<Longrightarrow> tri K H P (sbind m f) R"
  by (rule tri_bind[OF tri_quiet])

lemma tri_then_get: "(\<And>j. tri K H (\<lambda>v. P v \<and> hv_ok v \<and> hv_mem v = j) (f j) R) \<Longrightarrow> tri K H P (sbind get_journal f) R"
  by (rule tri_bind[OF tri_get])

lemma tri_false: "(\<And>v. \<not> P v) \<Longrightarrow> tri K H P m Q"
  by (simp add: tri_def)

lemma tri_then_lift: "(\<And>a. x = Inr a \<Longrightarrow> tri K H P (f a) R) \<Longrightarrow> tri K H P (sbind (slift x) f) R"
  unfolding tri_def sbind_def by (auto split: sum.splits)

lemma tri_then_ensure: "(c \<Longrightarrow> tri K H P (f ()) R) \<Longrightarrow> tri K H P (sbind (sensure c e') f) R"
  unfolding tri_def sbind_def by (auto split: sum.splits simp: ensure_def)

lemma tri_then_ok_or: "(\<And>a. x = Some a \<Longrightarrow> tri K H P (f a) R) \<Longrightarrow> tri K H P (sbind (slift (ok_or e x)) f) R"
  by (rule tri_then_lift) simp

lemma tri_let: "tri K H P (f x) R \<Longrightarrow> tri K H P (let a = x in f a) R"
  by simp

lemmas tri_steps = tri_then_get tri_then_ok_or tri_then_lift tri_then_ensure tri_case_prod

lemma tri_fail: "tri K H P (sfail e) Q"
  by (rule tri_pure)

lemma tri_done: "quiet m \<Longrightarrow> tri K H P m (\<lambda>_ _. True)"
  by (rule tri_post[OF tri_quiet]) simp_all

text \<open>A serving host holds a well-formed journal.\<close>

lemma tri_wf:
  assumes "\<And>v. P v \<Longrightarrow> hv_ok v" "tri K H (\<lambda>v. P v \<and> wf_journal (he_crates H) (hv_mem v)) m Q"
  shows "tri K H P m Q"
  using assms unfolding tri_def good_def by blast

lemma safe_sbind [safe_intro]: "safe K H m \<Longrightarrow> (\<And>a. safe K H (f a)) \<Longrightarrow> safe K H (sbind m f)"
  unfolding safe_def by (rule tri_bind)

lemma safe_if [safe_intro]: "(b \<Longrightarrow> safe K H m) \<Longrightarrow> (\<not> b \<Longrightarrow> safe K H n) \<Longrightarrow> safe K H (if b then m else n)"
  by simp

lemma safe_case_option [safe_intro]:
  "safe K H m \<Longrightarrow> (\<And>a. safe K H (f a)) \<Longrightarrow> safe K H (case x of None \<Rightarrow> m | Some a \<Rightarrow> f a)"
  by (cases x) simp_all

lemma safe_case_sum [safe_intro]:
  "(\<And>a. safe K H (f a)) \<Longrightarrow> (\<And>b. safe K H (g b)) \<Longrightarrow> safe K H (case x of Inl a \<Rightarrow> f a | Inr b \<Rightarrow> g b)"
  by (cases x) simp_all

lemma safe_case_prod [safe_intro]:
  "(\<And>a b. safe K H (f a b)) \<Longrightarrow> safe K H (case x of (a, b) \<Rightarrow> f a b)"
  by (cases x) simp

lemma safe_let [safe_intro]: "(\<And>a. safe K H (f a)) \<Longrightarrow> safe K H (let a = x in f a)"
  by simp

section \<open>Rows of the memory\<close>

text \<open>The row of \<open>key\<close> satisfies \<open>P\<close>, in a serving host.\<close>

definition holds :: "string \<Rightarrow> (host_record \<Rightarrow> bool) \<Rightarrow> hview \<Rightarrow> bool" where
  "holds key P v = (hv_ok v \<and> (\<exists>r. find_record key (hv_mem v) = Some r \<and> P r))"

text \<open>The row of \<open>key\<close> satisfies \<open>P\<close>, and the file holds the same journal.\<close>

definition stored :: "string \<Rightarrow> (host_record \<Rightarrow> bool) \<Rightarrow> hview \<Rightarrow> bool" where
  "stored key P v = (holds key P v \<and> hv_disk v = Some (hv_mem v))"

lemma holds_weaken: "holds key P v \<Longrightarrow> (\<And>r. P r \<Longrightarrow> Q r) \<Longrightarrow> holds key Q v"
  by (auto simp: holds_def)

lemma stored_holds: "stored key P v \<Longrightarrow> holds key P v"
  by (simp add: stored_def)

lemma holds_sent [simp]: "holds key P (v\<lparr>hv_sent := es\<rparr>) = holds key P v"
  by (simp add: holds_def)

text \<open>One write of one row: what the row was, what it is, and the requests unchanged.\<close>

lemma tri_write:
  assumes "\<And>v. P v \<Longrightarrow> hv_ok v \<and> hv_mem v = j \<and> F (hv_sent v)" "find_record key j = Some r"
    "(\<exists>v. P v) \<Longrightarrow> row_step (he_crates H) key r r'" "(\<exists>v. P v) \<Longrightarrow> Q r'"
  shows "tri K H P (put_journal H (put_record key r' j)) (\<lambda>_ v. stored key Q v \<and> F (hv_sent v))"
proof (cases "\<exists>v. P v")
  case True
  have "tri K H P (put_journal H (put_record key r' j))
    (\<lambda>_ v. hv_ok v \<and> hv_mem v = put_record key r' j \<and> hv_disk v = Some (put_record key r' j) \<and>
      (\<exists>v0. P v0 \<and> hv_sent v = hv_sent v0))"
    by (rule tri_put_record) (use assms True in auto)
  then show ?thesis
    by (rule tri_post) (use assms(1) assms(4)[OF True] in \<open>fastforce simp: stored_def holds_def\<close>)
qed (auto simp: tri_def)

lemma tri_write_safe:
  assumes "\<And>v. P v \<Longrightarrow> hv_ok v \<and> hv_mem v = j" "find_record key j = Some r"
    "(\<exists>v. P v) \<Longrightarrow> row_step (he_crates H) key r r'"
  shows "tri K H P (put_journal H (put_record key r' j)) (\<lambda>_ _. True)"
  by (rule tri_post[OF tri_write[where F = "\<lambda>_. True" and Q = "\<lambda>_. True"]]) (use assms in auto)

section \<open>Claims and the gate\<close>

lemma tri_check_owner:
  "tri K H P (check_owner H x) (\<lambda>w v. P v \<and> is_ok (parse_operation (he_crates H) (own_operation w)))"
proof -
  have "quiet (check_owner H x)" by (rule quiet_check_owner)
  moreover have "is_ok (parse_operation (he_crates H) (own_operation w))"
    if "fst (check_owner H x s) = Inr w" for w s
  proof -
    have "check_owner H x s = (Inr w, snd (check_owner H x s))" using that by (metis prod.collapse)
    then show ?thesis by (auto simp: check_owner_def Let_def)
  qed
  ultimately show ?thesis unfolding tri_def quiet_def view_def by simp
qed

lemma safe_host_gate [safe_intro]: "safe K H (host_gate H w)"
  unfolding safe_def host_gate_def
proof (rule tri_then_get, rule tri_case_option)
  fix j
  assume new: "find_record (own_allocation w) j = None"
  show "tri K H (\<lambda>v. True \<and> hv_ok v \<and> hv_mem v = j)
    (sbind (sensure (length (jr_records j) < max_records) ResourceExhausted) (\<lambda>_.
     sbind (authorize_new H j w) (\<lambda>_.
     put_journal H (put_record (own_allocation w) (fresh_record w) j)))) (\<lambda>_ _. True)"
    by (rule tri_then_ensure, rule tri_then_quiet, rule quiet_intro, rule tri_post, rule tri_put)
      (use new in \<open>auto intro: advances_new wf_fresh\<close>)
qed (intro tri_done quiet_intro)

section \<open>Fences\<close>

text \<open>A fence changes the retained revisions only.\<close>

lemma tri_host_fence:
  assumes F: "\<And>v. P v \<Longrightarrow> F (hv_sent v)"
    and Q: "\<And>v r n. P v \<Longrightarrow> hv_ok v \<Longrightarrow> find_record (own_allocation w) (hv_mem v) = Some r \<Longrightarrow>
          Q (r\<lparr>rec_revisions := bt_insert (own_operation w) n (rec_revisions r)\<rparr>)"
  shows "tri K H P (host_fence H w) (\<lambda>r v.
    stored (own_allocation w) (\<lambda>x. x = r \<and> own_allocation (rec_owner r) = own_allocation w \<and> Q r) v \<and> F (hv_sent v))"
  unfolding host_fence_def Let_def
proof (rule tri_then_quiet, rule quiet_intro, rule tri_then_get, rule tri_then_ok_or, rule tri_then_ensure,
    rule tri_then_lift, rule tri_then_ensure, rule tri_if)
  fix j r
  assume r: "find_record (own_allocation w) j = Some r" and same: "same_allocation (rec_owner r) w"
    and room: "bt_contains (own_operation w) (rec_revisions r) \<or> length (rec_revisions r) < 64"
  let ?P = "\<lambda>v. P v \<and> hv_ok v \<and> hv_mem v = j"
  let ?r = "\<lambda>n. r\<lparr>rec_revisions := bt_insert (own_operation w) n (rec_revisions r)\<rparr>"
  have step: "row_step (he_crates H) (own_allocation w) r (?r n)" for n
    using room by (rule row_fence)
  let ?n = "case bt_get (own_operation w) (rec_revisions r) of None \<Rightarrow> 0 | Some n \<Rightarrow> n"
  show "tri K H ?P (sbind (swrite (set_retained (put_record (own_allocation w) (?r ?n) j))) (\<lambda>_. sfail FailedPrecondition))
    (\<lambda>r v. stored (own_allocation w)
      (\<lambda>x. x = r \<and> own_allocation (rec_owner r) = own_allocation w \<and> Q r) v \<and> F (hv_sent v))"
    by (rule tri_bind[OF tri_memory[of ?P j]], blast, rule advances_put, assumption, rule r, rule step, rule tri_fail)
  let ?Q = "\<lambda>x. x = ?r (own_revision w) \<and> own_allocation (rec_owner x) = own_allocation w \<and> Q x"
  have "tri K H ?P (put_journal H (put_record (own_allocation w) (?r (own_revision w)) j))
    (\<lambda>_ v. stored (own_allocation w) ?Q v \<and> F (hv_sent v))"
    by (rule tri_write[OF _ r step]) (use F Q r same in \<open>auto simp: same_allocation_def\<close>)
  then show "tri K H ?P (sbind (put_journal H (put_record (own_allocation w) (?r (own_revision w)) j))
      (\<lambda>_. sret (?r (own_revision w))))
    (\<lambda>r v. stored (own_allocation w)
      (\<lambda>x. x = r \<and> own_allocation (rec_owner r) = own_allocation w \<and> Q r) v \<and> F (hv_sent v))"
    by (rule tri_bind, intro tri_ret) (auto simp: stored_def holds_def)
qed

lemma safe_host_fence [safe_intro]: "safe K H (host_fence H w)"
  by (rule safe_tri, rule tri_host_fence[where F = "\<lambda>_. True" and Q = "\<lambda>_. True"]) simp_all

section \<open>Stop and release\<close>

text \<open>The row a method holds a copy of is still there, with the copy's manifest.\<close>

definition backs :: "host_record \<Rightarrow> hview \<Rightarrow> bool" where
  "backs r = holds (own_allocation (rec_owner r)) (\<lambda>x. rec_manifest r \<noteq> None \<longrightarrow> rec_manifest x \<noteq> None)"

lemma tri_host_stopped:
  "tri K H (holds key (\<lambda>x. m \<longrightarrow> rec_manifest x \<noteq> None)) (host_stopped H key)
    (\<lambda>_. holds key (\<lambda>x. m \<longrightarrow> rec_manifest x \<noteq> None))"
  unfolding host_stopped_def
proof (rule tri_then_get, rule tri_then_ok_or)
  fix j r assume r: "find_record key j = Some r"
  let ?P = "\<lambda>v. holds key (\<lambda>x. m \<longrightarrow> rec_manifest x \<noteq> None) v \<and> hv_ok v \<and> hv_mem v = j"
  show "tri K H ?P (put_journal H (put_record key (r\<lparr>rec_stopped := True\<rparr>) j))
    (\<lambda>_. holds key (\<lambda>x. m \<longrightarrow> rec_manifest x \<noteq> None))"
    by (rule tri_post[OF tri_write[where F = "\<lambda>_. True" and Q = "\<lambda>x. m \<longrightarrow> rec_manifest x \<noteq> None"]])
      (use r in \<open>auto simp: holds_def row_stopped stored_def\<close>)
qed

lemma safe_host_stopped [safe_intro]: "safe K H (host_stopped H key)"
  unfolding safe_def host_stopped_def
  by (rule tri_then_get, rule tri_then_ok_or, rule tri_write_safe) (auto simp: row_stopped)

lemma tri_host_released:
  "tri K H (holds key (\<lambda>x. rec_manifest x \<noteq> None)) (host_released H key) (\<lambda>_ _. True)"
  unfolding host_released_def
  by (rule tri_then_get, rule tri_then_ok_or, rule tri_if, rule tri_done, rule quiet_intro, rule tri_write_safe)
    (auto simp: holds_def row_released)

lemma tri_host_cleanup: "tri K H (backs r) (host_cleanup H r) (\<lambda>_ _. True)"
proof (cases "rec_manifest r")
  case None
  have "quiet (host_cleanup H r)" unfolding host_cleanup_def Let_def None option.case by (intro quiet_intro)
  then show ?thesis by (rule tri_done)
next
  case (Some m)
  show ?thesis
    unfolding host_cleanup_def Let_def Some option.case
    by (rule tri_then_quiet, rule quiet_intro, rule tri_then_quiet, rule quiet_intro, rule tri_then_lift,
        rule tri_then_ensure, rule tri_bind, rule tri_pre[OF tri_host_released], simp add: backs_def Some,
        intro tri_done quiet_intro)
qed

lemma tri_observe_record: "tri K H (backs r) (observe_record H r) (\<lambda>_ _. True)"
proof -
  have released: "tri K H (backs r) (sbind (host_released H (own_allocation (rec_owner r)))
    (\<lambda>_. sret (StateReleased, Some g))) (\<lambda>_ _. True)" if "rec_manifest r = Some m" for m g
    by (rule tri_bind, rule tri_pre[OF tri_host_released], simp add: backs_def that, intro tri_done quiet_intro)
  show ?thesis
    unfolding observe_record_def
    apply (rule tri_then_lift, rule tri_if)
     apply (rule tri_bind, rule tri_host_cleanup, intro tri_done quiet_intro)
    apply (rule tri_case_option, intro tri_done quiet_intro)
    apply (rule tri_then_quiet, rule quiet_intro, rule tri_case_option)
     apply (rule tri_then_quiet, rule quiet_intro, rule tri_then_lift, erule released)
    apply (intro tri_done quiet_intro)
    done
qed

lemma tri_observe_and_report: "tri K H (backs r) (observe_and_report H w r) (\<lambda>_ _. True)"
  unfolding observe_and_report_def
  by (rule tri_bind, rule tri_observe_record, intro tri_case_prod tri_done quiet_intro)

lemma tri_stop_and_report:
  "own_allocation (rec_owner r) = own_allocation w \<Longrightarrow> tri K H (backs r) (stop_and_report H w r) (\<lambda>_ _. True)"
  unfolding stop_and_report_def
  by (rule tri_bind, rule tri_pre[OF tri_host_stopped[where m = "rec_manifest r \<noteq> None"]], simp add: backs_def,
      rule tri_pre[OF tri_observe_and_report]) (simp add: backs_def)

section \<open>Sending a request\<close>

text \<open>A request may leave once the file holds a row that rules it out from then on.\<close>

lemma tri_then_emit:
  assumes "\<And>v. P v \<Longrightarrow> e \<notin> set (hv_sent v) \<and> stored (effect_key e) Q v" "\<And>r. Q r \<Longrightarrow> spent (he_crates H) r e"
    "tri K H (holds (effect_key e) Q) (f ()) R"
  shows "tri K H P (sbind (emit e) f) R"
proof (rule tri_bind, rule tri_emit)
  fix v assume "P v"
  then show "e \<notin> set (hv_sent v) \<and> (\<exists>j. hv_disk v = Some j \<and> spent_in (he_crates H) e j)"
    using assms(1,2) by (fastforce simp: stored_def holds_def spent_in_def)
next
  fix a :: unit
  have "a = ()" by simp
  show "tri K H (\<lambda>v. \<exists>v0. P v0 \<and> v = v0\<lparr>hv_sent := hv_sent v0 @ (if effect_key e \<in> K then [e] else [])\<rparr>) (f a) R"
    unfolding \<open>a = ()\<close> using assms(3) by (rule tri_pre) (auto dest!: assms(1) stored_holds)
qed

section \<open>Create\<close>

lemma tri_host_admit:
  assumes "rec_create r = None" "own_allocation (rec_owner r) = own_allocation w"
  shows "tri K H (\<lambda>v. holds (own_allocation w) (\<lambda>x. x = r) v \<and> F (hv_sent v)) (host_admit H w q m)
    (\<lambda>r' v. own_allocation (rec_owner r') = own_allocation w \<and>
      stored (own_allocation w) (\<lambda>x. x = r' \<and> rec_create x \<noteq> None \<and> rec_manifest x \<noteq> None) v \<and> F (hv_sent v))"
  unfolding host_admit_def Let_def
proof (rule tri_then_get, rule tri_then_lift, rule tri_then_ensure, rule tri_then_ok_or)
  fix j r0 assume r0: "find_record (own_allocation w) j = Some r0"
  let ?r = "r0\<lparr>rec_create := Some q, rec_manifest := Some m\<rparr>"
  let ?P = "\<lambda>v. (holds (own_allocation w) (\<lambda>x. x = r) v \<and> F (hv_sent v)) \<and> hv_ok v \<and> hv_mem v = j"
  have same: "r0 = r" if "?P v" for v using that r0 by (auto simp: holds_def)
  have "tri K H ?P (put_journal H (put_record (own_allocation w) ?r j))
    (\<lambda>_ v. stored (own_allocation w) (\<lambda>x. x = ?r \<and> rec_create x \<noteq> None \<and> rec_manifest x \<noteq> None \<and>
        own_allocation (rec_owner x) = own_allocation w) v \<and> F (hv_sent v))"
    by (rule tri_write[OF _ r0]) (use same assms in \<open>auto simp: row_created\<close>)
  then show "tri K H ?P (sbind (put_journal H (put_record (own_allocation w) ?r j)) (\<lambda>_. sret ?r))
    (\<lambda>r' v. own_allocation (rec_owner r') = own_allocation w \<and>
      stored (own_allocation w) (\<lambda>x. x = r' \<and> rec_create x \<noteq> None \<and> rec_manifest x \<noteq> None) v \<and> F (hv_sent v))"
    by (rule tri_bind, intro tri_ret) (auto simp: stored_def holds_def)
qed

lemma tri_mark_dispatched:
  "tri K H (\<lambda>v. holds key (\<lambda>x. rec_create x \<noteq> None \<and> rec_manifest x \<noteq> None) v \<and> F (hv_sent v)) (mark_dispatched H key)
    (\<lambda>_ v. stored key (\<lambda>x. rec_create x \<noteq> None \<and> rec_manifest x \<noteq> None) v \<and> F (hv_sent v))"
  unfolding mark_dispatched_def
proof (rule tri_then_get, rule tri_then_ok_or)
  fix j r assume r: "find_record key j = Some r"
  let ?Q = "\<lambda>x. rec_create x \<noteq> None \<and> rec_manifest x \<noteq> None"
  show "tri K H (\<lambda>v. (holds key ?Q v \<and> F (hv_sent v)) \<and> hv_ok v \<and> hv_mem v = j)
    (put_journal H (put_record key (r\<lparr>rec_dispatched := True\<rparr>) j)) (\<lambda>_ v. stored key ?Q v \<and> F (hv_sent v))"
    by (rule tri_write[OF _ r]) (use r in \<open>auto simp: holds_def row_dispatched\<close>)
qed

lemma tri_launch_guardian:
  assumes "own_allocation (rec_owner r) = own_allocation w"
  shows "tri K H (\<lambda>v. holds (own_allocation w) (\<lambda>x. x = r \<and> rec_create x \<noteq> None \<and> rec_manifest x \<noteq> None) v \<and>
      StartedGuardian (own_allocation w) \<notin> set (hv_sent v)) (launch_guardian H w r m) (\<lambda>_ _. True)"
proof -
  let ?K = "\<lambda>x. rec_create x \<noteq> None \<and> rec_manifest x \<noteq> None"
  have stop: "tri K H (\<lambda>v. holds (own_allocation w) ?K v \<and> G v) (stop_and_report H w r) (\<lambda>_ _. True)" for G :: "hview \<Rightarrow> bool"
    by (rule tri_pre[OF tri_stop_and_report[OF assms]]) (auto simp: backs_def holds_def assms)
  show ?thesis
    unfolding launch_guardian_def
    apply (rule tri_then_quiet, rule quiet_intro, rule tri_if)
     apply (rule tri_pre[OF stop[of "\<lambda>_. True"]], force simp: holds_def)
    apply (rule tri_bind, rule tri_pre[OF tri_mark_dispatched[where F = "\<lambda>s. StartedGuardian (own_allocation w) \<notin> set s"]])
     apply (force simp: holds_def)
    apply (rule tri_then_quiet, rule quiet_intro, rule tri_if)
     apply (rule tri_pre[OF stop[of "\<lambda>_. True"]], force simp: stored_def)
    apply (rule tri_then_emit[where Q = ?K], simp_all)
    apply (intro tri_done quiet_intro)
    done
qed

lemma safe_create_sync [safe_intro]: "safe K H (create_sync H q)"
proof -
  have launch: "tri K H (\<lambda>v. stored (own_allocation w) (\<lambda>x. x = r) v)
      (sbind (host_admit H w q m) (\<lambda>r'. launch_guardian H w r' m)) (\<lambda>_ _. True)"
    if "rec_create r = None" "own_allocation (rec_owner r) = own_allocation w" for r w m
  proof (rule tri_unspent[where e = "StartedGuardian (own_allocation w)"])
    show "hv_ok v \<and> \<not> spent_in (he_crates H) (StartedGuardian (own_allocation w)) (hv_mem v)"
      if "stored (own_allocation w) (\<lambda>x. x = r) v" for v
      using that \<open>rec_create r = None\<close> by (auto simp: stored_def holds_def spent_in_def)
    show "tri K H (\<lambda>v. stored (own_allocation w) (\<lambda>x. x = r) v \<and> StartedGuardian (own_allocation w) \<notin> set (hv_sent v))
      (sbind (host_admit H w q m) (\<lambda>r'. launch_guardian H w r' m)) (\<lambda>_ _. True)"
    proof (rule tri_bind, rule tri_pre[OF tri_host_admit[OF that, where F = "\<lambda>s. StartedGuardian (own_allocation w) \<notin> set s"]])
      fix r' 
      show "tri K H (\<lambda>v. own_allocation (rec_owner r') = own_allocation w \<and>
          stored (own_allocation w) (\<lambda>x. x = r' \<and> rec_create x \<noteq> None \<and> rec_manifest x \<noteq> None) v \<and>
          StartedGuardian (own_allocation w) \<notin> set (hv_sent v)) (launch_guardian H w r' m) (\<lambda>_ _. True)"
        by (cases "own_allocation (rec_owner r') = own_allocation w")
          (auto intro: tri_false tri_pre[OF tri_launch_guardian] simp: stored_def)
    qed (auto simp: stored_def)
  qed
  show ?thesis
    unfolding safe_def create_sync_def
  proof (rule tri_then_quiet, rule quiet_intro, rule tri_then_quiet, rule quiet_intro,
      rule tri_bind, rule safe_host_gate[unfolded safe_def], rule tri_bind,
      rule tri_host_fence[where F = "\<lambda>_. True" and Q = "\<lambda>_. True"], simp, simp)
    fix w :: ownership and r :: host_record
    let ?P = "\<lambda>v. stored (own_allocation w) (\<lambda>x. x = r \<and> own_allocation (rec_owner r) = own_allocation w \<and> True) v \<and> True"
    show "tri K H ?P (case rec_create r of
        Some original \<Rightarrow>
          sbind (sensure (map_option own_operation (cq_ownership original) = Some (own_operation w) \<and>
             cq_permit_json original = cq_permit_json q \<and> cq_image original = cq_image q \<and>
             cq_resources original = cq_resources q \<and> cq_expires original = cq_expires q)
             AlreadyExists) (\<lambda>_. observe_and_report H w r)
      | None \<Rightarrow>
          sbind (sensure (\<not> rec_stopped r) FailedPrecondition) (\<lambda>_.
          sbind (host_manifest H w q) (\<lambda>m.
          sbind (host_admit H w q m) (\<lambda>r'. launch_guardian H w r' m)))) (\<lambda>_ _. True)"
    proof (cases "own_allocation (rec_owner r) = own_allocation w")
      case True
      have report: "tri K H ?P (observe_and_report H w r) (\<lambda>_ _. True)"
        by (rule tri_pre[OF tri_observe_and_report]) (auto simp: backs_def stored_def holds_def True)
      show ?thesis
        apply (rule tri_case_option)
         apply (rule tri_then_ensure, rule tri_then_quiet, rule quiet_intro)
         apply (rule tri_pre[OF launch], assumption, rule True, simp add: stored_def holds_def)
        apply (rule tri_then_ensure, rule report)
        done
    qed (auto intro: tri_false simp: stored_def holds_def)
  qed
qed

section \<open>Inspect, stop and lease\<close>

lemma tri_fenced_row:
  assumes "\<And>r. own_allocation (rec_owner r) = own_allocation w \<Longrightarrow> tri K H (holds (own_allocation w) (\<lambda>x. x = r)) (f r) (\<lambda>_ _. True)"
  shows "safe K H (sbind (host_fence H w) f)"
  unfolding safe_def
proof (rule tri_bind, rule tri_host_fence[where F = "\<lambda>_. True" and Q = "\<lambda>_. True"], simp, simp)
  fix r
  show "tri K H (\<lambda>v. stored (own_allocation w) (\<lambda>x. x = r \<and> own_allocation (rec_owner r) = own_allocation w \<and> True) v \<and> True)
    (f r) (\<lambda>_ _. True)"
    by (cases "own_allocation (rec_owner r) = own_allocation w")
      (auto intro: tri_false tri_pre[OF assms] simp: stored_def holds_def)
qed

lemma safe_inspect_sync [safe_intro]: "safe K H (inspect_sync H owner stop)"
  unfolding inspect_sync_def
proof (rule safe_sbind, intro safe_intro quiet_intro, rule safe_sbind, rule safe_host_gate, rule tri_fenced_row)
  fix w :: ownership and r :: host_record
  assume r: "own_allocation (rec_owner r) = own_allocation w"
  show "tri K H (holds (own_allocation w) (\<lambda>x. x = r))
    (if stop then stop_and_report H w r else observe_and_report H w r) (\<lambda>_ _. True)"
    by (rule tri_if; rule tri_pre, (rule tri_stop_and_report[OF r] tri_observe_and_report)?)
      (auto simp: backs_def holds_def r)
qed

lemma tri_lease_update:
  "tri K H P (lease_update H l w until) (\<lambda>r v. backs r v)"
  unfolding lease_update_def Let_def
proof (rule tri_then_get, rule tri_then_ok_or, rule tri_then_ensure, rule tri_then_ensure)
  fix j r
  assume r: "find_record (own_allocation w) j = Some r"
    and same: "same_allocation (rec_owner r) w \<and> rec_lease_revision r \<le> lo_revision l"
  let ?r = "r\<lparr>rec_lease_request := (case until of None \<Rightarrow> rec_lease_request r | Some t \<Rightarrow> Some (lo_revision l, t)),
              rec_lease_revision := lo_revision l\<rparr>"
  have "tri K H (\<lambda>v. P v \<and> hv_ok v \<and> hv_mem v = j) (put_journal H (put_record (own_allocation w) ?r j))
    (\<lambda>_ v. stored (own_allocation w) (\<lambda>x. x = ?r) v \<and> True)"
    by (rule tri_write[OF _ r]) (simp_all add: row_lease)
  then show "tri K H (\<lambda>v. P v \<and> hv_ok v \<and> hv_mem v = j)
      (sbind (put_journal H (put_record (own_allocation w) ?r j)) (\<lambda>_. sret ?r)) (\<lambda>r v. backs r v)"
    by (rule tri_bind, intro tri_ret) (use same in \<open>auto simp: stored_def holds_def backs_def same_allocation_def\<close>)
qed

lemma safe_lease_sync [safe_intro]: "safe K H (lease_sync H owner until)"
proof -
  have rest: "tri K H (backs r) (sbind (case (until, rec_stopped r, rec_manifest r) of
        (Some t, False, Some m) \<Rightarrow>
          sbind (ask (\<lambda>n. w_control (he_world H) n m (ActionRenew (nat (lo_revision l)) t))) (\<lambda>x.
          sbind (slift (map_err (\<lambda>_. uncertain) x)) (\<lambda>reply.
          sensure (gresp_error reply = None) uncertain))
      | _ \<Rightarrow> sret ()) (\<lambda>_.
     sbind (observe_record H r) (\<lambda>(s, g).
     sbind (wall_ms H) (\<lambda>now.
     sret \<lparr>lob_ownership = Some l, lob_state = s, lob_simulated = False,
           lob_expires = (case g of None \<Rightarrow> 0 | Some x \<Rightarrow> gr_expires x), lob_observed = now\<rparr>))))
     (\<lambda>_ _. True)" for r l
  proof (rule tri_then_quiet)
    show "quiet (case (until, rec_stopped r, rec_manifest r) of
        (Some t, False, Some m) \<Rightarrow>
          sbind (ask (\<lambda>n. w_control (he_world H) n m (ActionRenew (nat (lo_revision l)) t))) (\<lambda>x.
          sbind (slift (map_err (\<lambda>_. uncertain) x)) (\<lambda>reply.
          sensure (gresp_error reply = None) uncertain))
      | _ \<Rightarrow> sret ())"
      by (cases until; cases "rec_stopped r"; cases "rec_manifest r"; simp) (intro quiet_intro)+
  qed (rule tri_bind, rule tri_observe_record, intro tri_done quiet_intro)
  show ?thesis
    unfolding safe_def lease_sync_def
    apply (rule tri_then_lift, rule tri_then_quiet, rule quiet_intro, rule tri_then_quiet, intro quiet_intro)
    apply (rule tri_then_get, rule tri_case_option, intro tri_done quiet_intro)
    apply (rule tri_then_quiet, rule quiet_intro, rule tri_bind, rule tri_lease_update, rule rest)
    done
qed

section \<open>Maintenance\<close>

lemma tri_recovery_targets:
  "tri K H P (recovery_targets H rs) (\<lambda>ys v. P v \<and> set ys \<subseteq> set rs)"
proof -
  have "set ys \<subseteq> set rs" if "fst (recovery_targets H rs s) = Inr ys" for ys s
    using that
  proof (induction rs arbitrary: s ys)
    case (Cons r rs)
    from Cons.prems have "recovery_targets H (r # rs) s = (Inr ys, snd (recovery_targets H (r # rs) s))"
      by (metis prod.collapse)
    then obtain b t xs u where "recovery_targets H rs t = (Inr xs, u)" "ys = (if b then r # xs else xs)"
      by auto
    then show ?case using Cons.IH[of t xs] by auto
  qed simp
  then show ?thesis using quiet_recovery_targets[of H rs] unfolding tri_def quiet_def view_def by simp
qed

lemma tri_discard: "tri K H P m (\<lambda>_ _. True) \<Longrightarrow> tri K H P (\<lambda>s. (Inr (), snd (m s))) (\<lambda>_ _. True)"
  by (simp add: tri_def)

lemma backs_row:
  assumes "wf_journal C (hv_mem v)" "hv_ok v" "r \<in> set (bt_values (jr_records (hv_mem v)))"
  shows "backs r v"
proof -
  obtain key where "(key, r) \<in> set (jr_records (hv_mem v))" using assms(3) by (auto simp: bt_values_def)
  then have row: "find_record key (hv_mem v) = Some r"
    using assms(1) bt_get_iff_mem[of "jr_records (hv_mem v)"] by (simp add: find_record_def wf_journal_def)
  then have "own_allocation (rec_owner r) = key"
    using assms(1) wf_journal_record wf_record_def by blast
  then show ?thesis using row assms(2) by (simp add: backs_def holds_def)
qed

lemma safe_reconcile_one [safe_intro]: "safe K H (reconcile_one H cursor free)"
  unfolding safe_def reconcile_one_def
proof (rule tri_then_get, rule tri_bind, rule tri_recovery_targets, rule tri_if, rule tri_done, rule quiet_intro)
  fix j and rs :: "host_record list"
  assume some: "\<not> (rs = [] \<or> \<not> free)"
  let ?r = "rs ! (cursor mod length rs)"
  have "?r \<in> set rs" using some by simp
  then show "tri K H (\<lambda>v. (True \<and> hv_ok v \<and> hv_mem v = j) \<and> set rs \<subseteq> set (bt_values (jr_records j)))
    (\<lambda>s. (Inr (), snd (observe_record H ?r s))) (\<lambda>_ _. True)"
    by (intro tri_discard tri_wf[OF _ tri_pre[OF tri_observe_record]]) (auto intro: backs_row)
qed

end
