(* ===== verification/Host_Requests.thy ===== *)
theory Host_Requests
  imports Host_Steps
begin

text \<open>
  Every request of the host keeps the journal's invariant: history, command inspection, permits
  and fences, output, and the removal of metadata. What is sent to a guest follows in \<open>Host_Sends\<close>.
\<close>

section \<open>History\<close>

lemma backs_found:
  assumes "wf_journal C (hv_mem v)" "hv_ok v" "find_record key (hv_mem v) = Some r"
  shows "backs r v"
  using assms wf_journal_record[OF assms(1,3)] by (simp add: backs_def holds_def wf_record_def)

lemma tri_observe_found:
  "(\<And>v. P v \<Longrightarrow> hv_ok v \<and> find_record key (hv_mem v) = Some r) \<Longrightarrow> tri K H P (observe_record H r) (\<lambda>_ _. True)"
  by (rule tri_wf, blast, rule tri_pre[OF tri_observe_record]) (auto intro: backs_found)

lemma tri_save_retirement:
  assumes "history_prepare C F r b n = Inr (x, r')" "he_crates H = C"
    "\<And>v. P v \<Longrightarrow> holds key (\<lambda>y. y = r) v"
  shows "tri K H P (save_retirement H key x r') (\<lambda>_ _. True)"
  unfolding save_retirement_def
  apply (rule tri_steps | rule tri_then_quiet, (intro quiet_intro; fail))+
  apply (rule tri_write_safe, blast, assumption)
  subgoal for j old
    using assms(1,2) row_prepared[OF assms(1), of key] assms(3) by (force simp: holds_def)
  done

lemma safe_finish_retirement [safe_intro]: "safe K H (finish_retirement H key t x)"
  unfolding safe_def finish_retirement_def
  by (rule tri_then_quiet, rule quiet_intro, rule tri_then_quiet, rule quiet_intro, rule tri_then_lift,
      rule tri_then_quiet, rule quiet_intro, rule tri_then_get, rule tri_then_ok_or, rule tri_then_lift,
      rule tri_write_safe, blast, assumption, rule row_completed) auto

lemma safe_retire_history_sync [safe_intro]: "safe K H (retire_history_sync H q)"
proof -
  have rest: "tri K H P (sbind (if lr_completed x then sret () else finish_retirement H key t x) (\<lambda>_.
     sbind (check_deadline H t) (\<lambda>_. sbind (wall_ms H) (\<lambda>now. sret (f now))))) (\<lambda>_ _. True)"
    for P key t x and f :: "int \<Rightarrow> history_observation"
    by (rule tri_safe, rule safe_sbind, rule safe_if, rule safe_quiet, intro quiet_intro, rule safe_finish_retirement,
        rule safe_quiet, intro quiet_intro)
  show ?thesis
    unfolding safe_def retire_history_sync_def
    apply (rule tri_steps | rule tri_then_quiet, (intro quiet_intro; fail))+
    apply (rule tri_bind, rule tri_save_retirement[where C = "he_crates H"], simp, rule refl)
     apply (simp add: holds_def)
    apply (rule rest)
    done
qed

lemma safe_retire_released_sync [safe_intro]: "safe K H (retire_released_sync H q)"
  unfolding safe_def retire_released_sync_def Let_def
  apply (rule tri_steps | rule tri_then_quiet, (intro quiet_intro; fail))+
  apply (rule tri_bind, rule tri_observe_found, force, rule tri_case_prod)
  apply (rule tri_steps | rule tri_then_quiet, (intro quiet_intro; fail))+
  apply (rule tri_bind, rule tri_write_safe, blast, assumption)
   apply (rule row_reclaimed, simp)
  apply (intro tri_done quiet_intro)
  done

lemma safe_previous_allocation [safe_intro]: "safe K H (previous_allocation H w e)"
  unfolding safe_def previous_allocation_def
  apply (rule tri_steps | rule tri_then_quiet, (intro quiet_intro; fail))+
  apply (rule tri_bind, rule tri_observe_found, force, rule tri_case_prod)
  apply (intro tri_done quiet_intro)
  done

section \<open>Permits and fences\<close>

lemma safe_allocation_authority_sync [safe_intro]: "safe K H (allocation_authority_sync H host e ps)"
  unfolding safe_def allocation_authority_sync_def Let_def
  apply (rule tri_steps | rule tri_then_quiet, (intro quiet_intro; fail))+
  apply (rule tri_bind, rule tri_if, rule tri_post, rule tri_put)
     apply (simp, simp, simp)
   apply (intro tri_done quiet_intro)+
  done

lemma advances_retire:
  assumes "wf_journal C j" "retirement_record H j q key = Inr r" "he_crates H = C"
    "key = show_allocation C (permit_allocation (intent_permit (req_intent q)))"
  shows "advances C K j (put_record key (r\<lparr>rec_retirement := Some q, rec_stopped := True\<rparr>) j)"
proof (cases "find_record key j")
  case None
  then have r: "r = empty_retired C q" and room: "length (jr_records j) < max_records"
    using assms(2,3) by (auto simp: retirement_record_def split: if_splits)
  have "r\<lparr>rec_retirement := Some q, rec_stopped := True\<rparr> = (empty_retired C q)\<lparr>rec_retirement := Some q\<rparr>"
    by (simp add: r empty_retired_def Let_def)
  then show ?thesis using advances_new[OF assms(1) None room] wf_empty_retired[OF assms(4)] by simp
next
  case (Some r0)
  then have "r0 = r" using assms(2) by (simp add: retirement_record_def)
  then show ?thesis using advances_put[OF assms(1) Some row_frozen] by simp
qed

lemma safe_fence_allocation_sync [safe_intro]: "safe K H (fence_allocation_sync H json)"
  unfolding safe_def fence_allocation_sync_def Let_def
  apply (rule tri_steps | rule tri_then_quiet, (intro quiet_intro; fail))+
  apply (rule tri_bind, rule tri_put, simp)
   apply (auto intro: advances_retire)[1]
  apply (intro tri_done quiet_intro)
  done

section \<open>Output\<close>

lemma safe_output_setup [safe_intro]: "safe K H (output_setup H q)"
  unfolding safe_def output_setup_def Let_def
  apply (rule tri_steps | rule tri_then_quiet, (intro quiet_intro; fail))+
  apply (rule tri_bind, rule tri_write_safe, blast, assumption, rule row_archive)
   apply (force simp: archive_entry_def Let_def bt_contains_def)
  apply (intro tri_done quiet_intro)
  done

lemma safe_output_finish [safe_intro]: "safe K H (output_finish H q ps)"
  unfolding safe_def output_finish_def Let_def
  apply (rule tri_steps | rule tri_then_quiet, (intro quiet_intro; fail))+
  apply (rule tri_bind, rule tri_write_safe, blast, assumption, rule row_archive)
   apply (force simp: archive_finished_def Let_def bt_contains_def split: option.splits)
  apply (intro tri_done quiet_intro)
  done

lemma safe_prepare_output [safe_intro]: "safe K H (prepare_output H q)"
  unfolding prepare_output_def
  apply (rule safe_case_prod | rule safe_sbind,
    (rule safe_output_setup | rule safe_output_finish | rule safe_quiet, (intro quiet_intro; fail)))+
  apply (rule safe_quiet, intro quiet_intro)
  done

lemma safe_archive_output [safe_intro]: "safe K H (archive_output H q)"
  unfolding archive_output_def
  apply (rule safe_case_prod | rule safe_sbind,
    (rule safe_output_setup | rule safe_output_finish | rule safe_quiet, (intro quiet_intro; fail)))+
  apply (rule safe_quiet, intro quiet_intro)
  done

section \<open>Removing the metadata\<close>

lemma tri_retiring_record:
  "tri K H P (retiring_record H q key) (\<lambda>r v. hv_ok v \<and> find_record key (hv_mem v) = Some r)"
  unfolding retiring_record_def
  apply (rule tri_steps | rule tri_then_quiet, (intro quiet_intro; fail))+
  apply (rule tri_ret, simp)
  done

lemma tri_replace_record:
  assumes "row_step (he_crates H) key r0 r"
  shows "tri K H (\<lambda>v. hv_ok v \<and> find_record key (hv_mem v) = Some r0) (replace_record H key r)
    (\<lambda>_ v. hv_ok v \<and> find_record key (hv_mem v) = Some r)"
  unfolding replace_record_def
proof (rule tri_then_get)
  fix j
  let ?P = "\<lambda>v. (hv_ok v \<and> find_record key (hv_mem v) = Some r0) \<and> hv_ok v \<and> hv_mem v = j"
  show "tri K H ?P (put_journal H (put_record key r j)) (\<lambda>_ v. hv_ok v \<and> find_record key (hv_mem v) = Some r)"
  proof (cases "find_record key j = Some r0")
    case True
    show ?thesis
      by (rule tri_post[OF tri_write[where F = "\<lambda>_. True" and Q = "\<lambda>x. x = r"]])
        (use True assms in \<open>auto simp: stored_def holds_def\<close>)
  qed (auto intro: tri_false)
qed

lemma tri_retain_plan:
  "tri K H (\<lambda>v. hv_ok v \<and> find_record key (hv_mem v) = Some r) (retain_plan H key r s)
    (\<lambda>r' v. hv_ok v \<and> find_record key (hv_mem v) = Some r')"
  unfolding retain_plan_def Let_def
proof (rule tri_case_option)
  let ?r = "r\<lparr>rec_metadata := Some \<lparr>ms_plan = fst s, ms_removed = False\<rparr>\<rparr>"
  show "tri K H (\<lambda>v. hv_ok v \<and> find_record key (hv_mem v) = Some r) (sbind (replace_record H key ?r) (\<lambda>_. sret ?r))
    (\<lambda>r' v. hv_ok v \<and> find_record key (hv_mem v) = Some r')"
    by (rule tri_bind, rule tri_replace_record, rule row_metadata, rule tri_ret, simp)
qed (rule tri_then_ensure, rule tri_ret, simp)

lemma safe_retire_metadata_sync [safe_intro]: "safe K H (retire_metadata_sync H json)"
  unfolding safe_def retire_metadata_sync_def Let_def
  apply (rule tri_bind, rule safe_fence_allocation_sync[unfolded safe_def], rule tri_then_lift)
  apply (rule tri_bind, rule tri_retiring_record)
  apply (rule tri_steps | rule tri_then_quiet, (intro quiet_intro; fail))+
  apply (rule tri_bind, rule tri_retain_plan)
  apply (rule tri_steps | rule tri_then_quiet, (intro quiet_intro; fail))+
  apply (rule tri_bind, rule tri_replace_record, rule row_metadata)
  apply (intro tri_done quiet_intro)
  done

end
