(* ===== verification/Host_Sends.thy ===== *)
theory Host_Sends
  imports Host_Requests
begin

text \<open>
  The requests that send something to a guest: commands and uploads. Each is sent from a state
  in which the file already rules it out, and only if it had not been ruled out before; so the
  invariant of \<open>Host_Laws\<close> keeps every sent request apart.
\<close>

lemma tri_fact: "(b \<Longrightarrow> tri K H P m Q) \<Longrightarrow> tri K H (\<lambda>v. P v \<and> b) m Q"
  by (cases b) (auto intro: tri_false tri_pre)

lemma tri_then_owner:
  assumes "\<And>w. is_ok (parse_operation (he_crates H) (own_operation w)) \<Longrightarrow> tri K H P (f w) R"
  shows "tri K H P (sbind (check_owner H x) f) R"
  by (rule tri_bind, rule tri_check_owner, rule tri_fact, rule assms)

section \<open>Commands\<close>

definition command_kept :: "ownership \<Rightarrow> host_record \<Rightarrow> bool" where
  "command_kept w r = bt_contains (own_operation w) (rec_commands r)"

definition command_fits :: "ownership \<Rightarrow> host_record \<Rightarrow> bool" where
  "command_fits w r = (command_kept w r \<or> length (rec_commands r) < max_commands)"

lemma tri_save_command:
  assumes "is_ok (parse_operation (he_crates H) (own_operation w))"
  shows "tri K H (\<lambda>v. holds (own_allocation w) (command_fits w) v \<and> F (hv_sent v)) (save_command H w c)
    (\<lambda>_ v. stored (own_allocation w) (command_kept w) v \<and> F (hv_sent v))"
  unfolding save_command_def
  apply (rule tri_then_get, rule tri_then_ok_or, rule tri_write[where F = F], blast, assumption)
   apply (rule row_command, rule assms)
   apply (auto simp: holds_def command_fits_def command_kept_def)
  done

lemma tri_command_fence:
  "tri K H P (command_fence H w) (\<lambda>r. holds (own_allocation w)
    (\<lambda>x. x = r \<and> command_fits w r \<and> \<not> closed_op (he_crates H) r Commands (own_operation w)))"
  unfolding command_fence_def
proof (rule tri_then_get, rule tri_then_ok_or, rule tri_then_lift, rule tri_then_lift, rule tri_then_lift)
  fix j r i u v
  assume r: "find_record (own_allocation w) j = Some r"
    and i: "map_err (\<lambda>_. uncertain) (parse_operation (he_crates H) (own_operation w)) = Inr i"
    and check: "history_check r Commands i = Inr u" and room: "command_room r w = Inr v"
  let ?Q = "\<lambda>x. command_fits w x \<and> \<not> closed_op (he_crates H) x Commands (own_operation w)"
  have Q: "?Q (r\<lparr>rec_revisions := n\<rparr>)" for n
  proof -
    have "\<not> closed_op (he_crates H) r Commands (own_operation w)"
      using i check by (simp add: closed_op_def)
    moreover have "same_slots r (r\<lparr>rec_revisions := n\<rparr>)" by (simp add: same_slots_def)
    ultimately have "\<not> closed_op (he_crates H) (r\<lparr>rec_revisions := n\<rparr>) Commands (own_operation w)"
      using closed_op_same by blast
    then show ?thesis using room by (auto simp: command_room_def command_fits_def command_kept_def)
  qed
  show "tri K H (\<lambda>v. P v \<and> hv_ok v \<and> hv_mem v = j) (host_fence H w)
    (\<lambda>r. holds (own_allocation w) (\<lambda>x. x = r \<and> ?Q r))"
    by (rule tri_post[OF tri_host_fence[where F = "\<lambda>_. True" and Q = ?Q]])
      (use Q r in \<open>auto simp: stored_def holds_def\<close>)
qed

lemma tri_observe_command:
  assumes "is_ok (parse_operation (he_crates H) (own_operation w))"
  shows "tri K H (holds (own_allocation w) (command_kept w)) (observe_command H w r c cancel) (\<lambda>_ _. True)"
proof -
  have save: "tri K H (holds (own_allocation w) (command_kept w)) (sbind (save_command H w x) (\<lambda>_. sret y)) (\<lambda>_ _. True)"
    for x and y :: "command_record \<times> bool"
    by (rule tri_bind, rule tri_pre[OF tri_save_command[OF assms, where F = "\<lambda>_. True"]])
      (auto simp: holds_def command_fits_def intro: tri_done quiet_intro)
  show ?thesis
    unfolding observe_command_def refresh_command_def Let_def
    apply (rule tri_bind[where Q = "\<lambda>_ _. True"])
     apply (rule tri_case_option, intro tri_done quiet_intro, rule tri_if, intro tri_done quiet_intro)
     apply (rule tri_then_quiet, rule quiet_intro, rule tri_case_sum, intro tri_done quiet_intro)
     apply (rule tri_then_lift, rule tri_then_quiet, rule quiet_intro, rule tri_case_sum, intro tri_done quiet_intro)
     apply (rule tri_then_lift, rule save)
    apply (intro tri_done quiet_intro)
    done
qed

lemma tri_command_tombstone:
  assumes "is_ok (parse_operation (he_crates H) (own_operation w))"
  shows "tri K H (holds (own_allocation w) (command_fits w)) (command_tombstone H w d)
    (\<lambda>_. holds (own_allocation w) (command_kept w))"
  unfolding command_tombstone_def
  by (rule tri_bind, rule tri_pre[OF tri_save_command[OF assms, where F = "\<lambda>_. True"]], simp,
      rule tri_ret, simp add: stored_def)

lemma safe_command_gate [safe_intro]: "safe K H (command_gate H w)"
  unfolding command_gate_def
  by (rule safe_sbind, rule safe_host_gate, rule safe_quiet, intro quiet_intro)

lemma safe_inspect_or_cancel [safe_intro]: "safe K H (inspect_or_cancel H q cancel)"
  unfolding safe_def inspect_or_cancel_def
proof (rule tri_then_owner, rule tri_then_lift, rule tri_bind, rule safe_command_gate[unfolded safe_def],
    rule tri_bind, rule tri_command_fence)
  fix w :: ownership and d and r :: host_record
  assume op: "is_ok (parse_operation (he_crates H) (own_operation w))"
  let ?P = "holds (own_allocation w) (\<lambda>x. x = r \<and> command_fits w r \<and>
    \<not> closed_op (he_crates H) r Commands (own_operation w))"
  let ?find = "case bt_get (own_operation w) (rec_commands r) of
      Some c \<Rightarrow> if cmd_digest c = d then sret c else sfail AlreadyExists
    | None \<Rightarrow> if max_commands \<le> length (rec_commands r) then sfail ResourceExhausted else command_tombstone H w d"
  have "tri K H ?P ?find (\<lambda>_. holds (own_allocation w) (command_kept w))"
    by (intro tri_case_option tri_if tri_fail, rule tri_pre[OF tri_command_tombstone[OF op]])
      (auto intro!: tri_ret simp: holds_def command_kept_def bt_contains_def)
  then show "tri K H ?P (sbind ?find (\<lambda>c. observe_command H w r c cancel)) (\<lambda>_ _. True)"
    by (rule tri_bind, intro tri_observe_command[OF op])
qed

lemma tri_dispatch_command:
  assumes "is_ok (parse_operation (he_crates H) (own_operation w))"
  shows "tri K H (\<lambda>v. holds (own_allocation w) (command_fits w) v \<and>
      SentExecute (own_allocation w) (own_operation w) \<notin> set (hv_sent v)) (dispatch_command H w x context) (\<lambda>_ _. True)"
proof -
  let ?e = "SentExecute (own_allocation w) (own_operation w)"
  have again: "tri K H (holds (own_allocation w) (command_kept w)) (sbind (save_command H w c) (\<lambda>_. sret c)) (\<lambda>_ _. True)" for c
    by (rule tri_bind, rule tri_pre[OF tri_save_command[OF assms, where F = "\<lambda>_. True"]])
      (auto simp: holds_def command_fits_def intro: tri_done quiet_intro)
  show ?thesis
    unfolding dispatch_command_def Let_def
    apply (rule tri_then_quiet, rule quiet_intro, rule tri_then_lift)
    apply (rule tri_bind, rule tri_save_command[OF assms, where F = "\<lambda>es. ?e \<notin> set es"])
    apply (rule tri_then_quiet, rule quiet_intro)
    apply (rule tri_then_emit[where Q = "command_kept w"], simp, simp add: command_kept_def)
    apply (rule tri_then_quiet, rule quiet_intro, rule tri_case_sum, intro tri_done quiet_intro)
    apply (rule tri_then_lift, simp add: again)
    done
qed

lemma tri_execute_new:
  assumes "is_ok (parse_operation (he_crates H) (own_operation w))"
    "bt_get (own_operation w) (rec_commands r) = None" "\<not> closed_op (he_crates H) r Commands (own_operation w)"
  shows "tri K H (holds (own_allocation w) (\<lambda>y. y = r \<and> command_fits w r)) (execute_new H w r x d) (\<lambda>_ _. True)"
    (is "tri K H ?P _ _")
proof (rule tri_unspent[where e = "SentExecute (own_allocation w) (own_operation w)"])
  let ?e = "SentExecute (own_allocation w) (own_operation w)"
  show "hv_ok v \<and> \<not> spent_in (he_crates H) ?e (hv_mem v)" if "?P v" for v
    using that assms(2,3) by (auto simp: holds_def spent_in_def bt_contains_def)
  show "tri K H (\<lambda>v. ?P v \<and> ?e \<notin> set (hv_sent v)) (execute_new H w r x d) (\<lambda>_ _. True)"
    unfolding execute_new_def
    by (rule tri_then_ensure, rule tri_then_quiet, rule quiet_intro, rule tri_case_option,
        rule tri_post[OF tri_pre[OF tri_command_tombstone[OF assms(1)]]], force simp: holds_def, simp,
        rule tri_pre[OF tri_dispatch_command[OF assms(1)]], force simp: holds_def)
qed

lemma safe_execute_command_sync [safe_intro]: "safe K H (execute_command_sync H q)"
  unfolding safe_def execute_command_sync_def
  apply (rule tri_then_owner, rule tri_then_lift, rule tri_case_prod)
  apply (rule tri_bind, rule safe_command_gate[unfolded safe_def], rule tri_bind, rule tri_command_fence)
  apply (rule tri_case_option)
  subgoal for w x y d u r
  proof (cases "closed_op (he_crates H) r Commands (own_operation w)")
    case False
    assume "is_ok (parse_operation (he_crates H) (own_operation w))" "bt_get (own_operation w) (rec_commands r) = None"
    then show ?thesis
      by (intro tri_bind[OF tri_pre[OF tri_execute_new]]) (auto simp: False holds_def intro!: tri_done quiet_intro)
  qed (auto intro: tri_false simp: holds_def)
  subgoal for w x y d u r c
    by (rule tri_then_ensure, rule tri_pre[OF tri_observe_command])
      (auto simp: holds_def command_kept_def bt_contains_def)
  done

section \<open>Uploads\<close>

definition file_kept :: "crates \<Rightarrow> ownership \<Rightarrow> file_record \<Rightarrow> host_record \<Rightarrow> bool" where
  "file_kept C w f r = (bt_get (own_operation w) (rec_files r) = Some f \<and> \<not> closed_op C r FilesDomain (own_operation w))"

lemma closed_op_frames [simp]:
  "closed_op C (r\<lparr>rec_revisions := a\<rparr>) d op = closed_op C r d op"
  "closed_op C (r\<lparr>rec_files := b\<rparr>) d op = closed_op C r d op"
  "closed_op C (r\<lparr>rec_revisions := a, rec_files := b\<rparr>) d op = closed_op C r d op"
  by (intro closed_op_same, simp add: same_slots_def)+

lemma tri_save_file:
  assumes "is_ok (parse_operation (he_crates H) (own_operation w))" "file_extends f f'"
  shows "tri K H (\<lambda>v. holds (own_allocation w) (file_kept (he_crates H) w f) v \<and> F (hv_sent v)) (save_file H w f')
    (\<lambda>_ v. stored (own_allocation w) (file_kept (he_crates H) w f') v \<and> F (hv_sent v))"
  unfolding save_file_def Let_def
  apply (rule tri_steps | rule tri_then_quiet, (intro quiet_intro; fail))+
  apply (rule tri_write[where F = F], blast, assumption)
   apply (rule row_file, rule assms)
    apply (auto simp: holds_def file_kept_def bt_contains_def assms(2))
  done

lemma observe_run_extends: "observe_run H u t f = Inr f' \<Longrightarrow> file_extends f f'"
  by (auto simp: observe_run_def file_observe_def file_extends_def Let_def split: prod.splits sum.splits)

lemma tri_file_response:
  assumes "is_ok (parse_operation (he_crates H) (own_operation w))"
  shows "tri K H (holds (own_allocation w) (file_kept (he_crates H) w f)) (file_response H w u f x) (\<lambda>_ _. True)"
  unfolding file_response_def
  apply (rule tri_case_sum, intro tri_done quiet_intro, rule tri_then_lift, rule tri_bind)
   apply (rule tri_pre[OF tri_save_file[OF assms, where F = "\<lambda>_. True"]], rule observe_run_extends, auto)[1]
  apply (intro tri_done quiet_intro)
  done

lemma tri_file_inspect:
  assumes "is_ok (parse_operation (he_crates H) (own_operation w))"
  shows "tri K H (holds (own_allocation w) (file_kept (he_crates H) w f)) (file_inspect H w u f) (\<lambda>_ _. True)"
  unfolding file_inspect_def by (rule tri_then_quiet, rule quiet_intro, rule tri_file_response[OF assms])

text \<open>An intent is saved, and then sent once.\<close>

lemma tri_file_intent:
  assumes op: "is_ok (parse_operation (he_crates H) (own_operation w))" and "file_extends f f'"
    and key: "effect_key e = own_allocation w"
    and before: "\<And>r. file_kept (he_crates H) w f r \<Longrightarrow> \<not> spent (he_crates H) r e"
    and after: "\<And>r. file_kept (he_crates H) w f' r \<Longrightarrow> spent (he_crates H) r e"
  shows "tri K H (holds (own_allocation w) (file_kept (he_crates H) w f))
    (sbind (save_file H w f') (\<lambda>_. sbind (emit e) (\<lambda>_. sbind (ask g) (\<lambda>x. file_response H w u f' x)))) (\<lambda>_ _. True)"
proof (rule tri_unspent[where e = e])
  show "hv_ok v \<and> \<not> spent_in (he_crates H) e (hv_mem v)"
    if "holds (own_allocation w) (file_kept (he_crates H) w f) v" for v
    using that before key by (auto simp: holds_def spent_in_def)
  show "tri K H (\<lambda>v. holds (own_allocation w) (file_kept (he_crates H) w f) v \<and> e \<notin> set (hv_sent v))
    (sbind (save_file H w f') (\<lambda>_. sbind (emit e) (\<lambda>_. sbind (ask g) (\<lambda>x. file_response H w u f' x)))) (\<lambda>_ _. True)"
    by (rule tri_bind, rule tri_save_file[OF op assms(2), where F = "\<lambda>es. e \<notin> set es"],
        rule tri_then_emit[where Q = "file_kept (he_crates H) w f'"], simp add: key, erule after, simp add: key,
        rule tri_then_quiet, rule quiet_intro, rule tri_file_response[OF op])
qed

lemma tri_file_act:
  assumes op: "is_ok (parse_operation (he_crates H) (own_operation w))"
  shows "tri K H (\<lambda>v. stored (own_allocation w) (file_kept (he_crates H) w f) v \<and>
      (new \<longrightarrow> SentBegin (own_allocation w) (own_operation w) \<notin> set (hv_sent v)))
    (file_act H w u new f action) (\<lambda>_ _. True)" (is "tri K H ?P _ _")
proof -
  let ?K = "holds (own_allocation w) (file_kept (he_crates H) w f)"
  have K: "?K v" if "?P v" for v using that by (simp add: stored_def)
  note inspect = tri_pre[OF tri_file_inspect[OF op, of K f u] K]
  show ?thesis
  proof (cases action)
    case FileBegin
    show ?thesis
      unfolding file_act_def Let_def FileBegin file_action.case
    proof (rule tri_if, rule tri_then_emit[where Q = "file_kept (he_crates H) w f"])
      show "tri K H (holds (effect_key (SentBegin (own_allocation w) (own_operation w))) (file_kept (he_crates H) w f))
        (sbind (ask (\<lambda>n. w_begin_upload (he_world H) n u)) (\<lambda>x. file_response H w u f x)) (\<lambda>_ _. True)"
        unfolding effect_key.simps by (rule tri_then_quiet, rule quiet_intro, rule tri_file_response[OF op])
    qed (auto simp: file_kept_def bt_contains_def intro: inspect)
  next
    case FileCommit
    show ?thesis
      unfolding file_act_def Let_def FileCommit file_action.case
      by (rule tri_if, rule tri_pre[OF tri_file_intent[OF op]])
        (auto simp: file_extends_def file_kept_def file_flag_def stored_def intro: inspect)
  next
    case FileAbort
    show ?thesis
      unfolding file_act_def Let_def FileAbort file_action.case
      by (rule tri_if, rule tri_pre[OF tri_file_intent[OF op]])
        (auto simp: file_extends_def file_kept_def file_flag_def stored_def intro: inspect)
  next
    case (FileWrite offset data)
    show ?thesis
      unfolding file_act_def Let_def FileWrite file_action.case
      by (rule tri_if, intro tri_done quiet_intro, rule inspect)
  next
    case FileInspect
    show ?thesis unfolding file_act_def Let_def FileInspect file_action.case by (rule inspect)
  qed
qed

lemma tri_admit_file:
  assumes op: "is_ok (parse_operation (he_crates H) (own_operation w))"
    and new: "\<not> bt_contains (own_operation w) (rec_files r)"
    and closed: "\<not> closed_op (he_crates H) r FilesDomain (own_operation w)"
  shows "tri K H (\<lambda>v. holds (own_allocation w) (\<lambda>x. x = r) v \<and> F (hv_sent v)) (admit_file H w r f)
    (\<lambda>_ v. stored (own_allocation w) (file_kept (he_crates H) w f) v \<and> F (hv_sent v))"
  unfolding admit_file_def
proof (rule tri_then_quiet, rule quiet_intro, rule tri_then_lift, rule tri_then_get, rule tri_then_lift,
    rule tri_then_ensure, rule tri_then_lift, rule tri_then_ok_or)
  fix j kept u
  assume kept: "find_record (own_allocation w) j = Some kept" and room: "file_capacity j r f = Inr u"
  let ?P = "\<lambda>v. (holds (own_allocation w) (\<lambda>x. x = r) v \<and> F (hv_sent v)) \<and> hv_ok v \<and> hv_mem v = j"
  let ?s = "kept\<lparr>rec_revisions := bt_insert (own_operation w) (own_revision w) (rec_revisions kept)\<rparr>"
  let ?r = "kept\<lparr>rec_revisions := bt_insert (own_operation w) (own_revision w) (rec_revisions kept),
    rec_files := bt_insert (own_operation w) f (rec_files kept)\<rparr>"
  have same: "kept = r" if "?P v" for v using that kept by (auto simp: holds_def)
  have r: "?r = ?s\<lparr>rec_files := bt_insert (own_operation w) f (rec_files ?s)\<rparr>" by simp
  have step: "row_step (he_crates H) (own_allocation w) kept ?r" if "kept = r"
  proof (rule row_step_trans[OF row_fence])
    show "bt_contains (own_operation w) (rec_revisions kept) \<or> length (rec_revisions kept) < 64"
      using room that by (auto simp: file_capacity_def)
    show "row_step (he_crates H) (own_allocation w) ?s ?r"
      unfolding r by (rule row_file, rule op) (use room that new in \<open>auto simp: file_capacity_def bt_contains_def\<close>)
  qed
  show "tri K H ?P (put_journal H (put_record (own_allocation w) ?r j))
    (\<lambda>_ v. stored (own_allocation w) (file_kept (he_crates H) w f) v \<and> F (hv_sent v))"
    by (rule tri_write[OF _ kept]) (use same step closed in \<open>auto simp: file_kept_def\<close>)
qed

text \<open>The transfer a request works on, admitted or fenced.\<close>

lemma tri_file_claim:
  assumes op: "is_ok (parse_operation (he_crates H) (own_operation w))"
    and closed: "\<not> closed_op (he_crates H) r FilesDomain (own_operation w)"
    and look: "file_lookup H w r u d action client = Inr f"
  defines "new \<equiv> \<not> bt_contains (own_operation w) (rec_files r)"
  shows "tri K H (holds (own_allocation w) (\<lambda>x. x = r))
    (if new then admit_file H w r f else sbind (host_fence H w) (\<lambda>_. sret ()))
    (\<lambda>_ v. stored (own_allocation w) (file_kept (he_crates H) w f) v \<and>
      (new \<longrightarrow> SentBegin (own_allocation w) (own_operation w) \<notin> set (hv_sent v)))"
proof (rule tri_if)
  let ?e = "SentBegin (own_allocation w) (own_operation w)"
  assume new
  show "tri K H (holds (own_allocation w) (\<lambda>x. x = r)) (admit_file H w r f)
    (\<lambda>_ v. stored (own_allocation w) (file_kept (he_crates H) w f) v \<and> (new \<longrightarrow> ?e \<notin> set (hv_sent v)))"
  proof (rule tri_unspent[where e = ?e])
    show "hv_ok v \<and> \<not> spent_in (he_crates H) ?e (hv_mem v)" if "holds (own_allocation w) (\<lambda>x. x = r) v" for v
      using that closed \<open>new\<close> by (auto simp: holds_def spent_in_def new_def)
    show "tri K H (\<lambda>v. holds (own_allocation w) (\<lambda>x. x = r) v \<and> ?e \<notin> set (hv_sent v)) (admit_file H w r f)
      (\<lambda>_ v. stored (own_allocation w) (file_kept (he_crates H) w f) v \<and> (new \<longrightarrow> ?e \<notin> set (hv_sent v)))"
      by (rule tri_post[OF tri_admit_file[where F = "\<lambda>es. ?e \<notin> set es"]])
        (use op closed \<open>new\<close> in \<open>simp_all add: new_def\<close>)
  qed
next
  assume old: "\<not> new"
  then have kept: "bt_get (own_operation w) (rec_files r) = Some f"
    using look by (auto simp: new_def bt_contains_def file_lookup_def Let_def)
  have "tri K H (holds (own_allocation w) (\<lambda>x. x = r)) (host_fence H w)
    (\<lambda>a v. stored (own_allocation w) (\<lambda>x. x = a \<and> own_allocation (rec_owner a) = own_allocation w \<and>
      file_kept (he_crates H) w f a) v \<and> True)"
    by (rule tri_host_fence) (use kept closed in \<open>auto simp: holds_def file_kept_def\<close>)
  then show "tri K H (holds (own_allocation w) (\<lambda>x. x = r)) (sbind (host_fence H w) (\<lambda>_. sret ()))
    (\<lambda>_ v. stored (own_allocation w) (file_kept (he_crates H) w f) v \<and>
      (new \<longrightarrow> SentBegin (own_allocation w) (own_operation w) \<notin> set (hv_sent v)))"
    by (rule tri_bind, intro tri_ret) (use old in \<open>auto simp: stored_def holds_def\<close>)
qed

lemma open_operation:
  assumes "uuid_laws C" "is_ok (parse_operation C op)" "show_operation C i = op" "history_check r d i = Inr u"
  shows "\<not> closed_op C r d op"
proof -
  obtain k where k: "parse_operation C op = Inr k" using assms(2) by (auto simp: is_ok_iff)
  then have "show_operation C k = show_operation C i" using operation.show_parse assms(3) by metis
  then have "k = i" using operation.show_inj[OF assms(1)] by blast
  then show ?thesis using k assms(4) by (simp add: closed_op_def)
qed

lemma safe_file_sync [safe_intro]:
  assumes "uuid_laws (he_crates H)"
  shows "safe K H (file_sync H q action)"
  unfolding safe_def file_sync_def Let_def
proof (rule tri_then_owner, rule tri_then_lift, rule tri_case_prod, rule tri_bind, rule safe_host_gate[unfolded safe_def],
    rule tri_then_get, rule tri_then_ok_or, rule tri_then_lift, rule tri_then_quiet, rule quiet_intro,
    rule tri_then_ensure, rule tri_then_quiet, rule quiet_intro, rule tri_then_lift)
  fix w x u d j r v n client f
  assume op: "is_ok (parse_operation (he_crates H) (own_operation w))"
    and x: "file_request_check H w q action = Inr x" "x = (u, d)"
    and r: "find_record (own_allocation w) j = Some r" and check: "history_check r FilesDomain (up_operation u) = Inr n"
    and look: "file_lookup H w r u d action client = Inr f"
  let ?new = "\<not> bt_contains (own_operation w) (rec_files r)"
  have "show_operation (he_crates H) (up_operation u) = own_operation w"
    using x by (auto simp: file_request_check_def)
  then have closed: "\<not> closed_op (he_crates H) r FilesDomain (own_operation w)"
    using open_operation[OF assms op] check by blast
  have act: "tri K H (\<lambda>v. stored (own_allocation w) (file_kept (he_crates H) w f) v \<and>
      (?new \<longrightarrow> SentBegin (own_allocation w) (own_operation w) \<notin> set (hv_sent v)))
    (if file_finished f then file_report H w f True None
     else case client of None \<Rightarrow> file_report H w f False None
       | Some context \<Rightarrow> sbind (sensure (file_context f = Some context) uncertain) (\<lambda>_.
           sbind (check_deadline H (own_expires w)) (\<lambda>_. file_act H w u ?new f action))) (\<lambda>_ _. True)"
    by (rule tri_if, intro tri_done quiet_intro, rule tri_case_option, intro tri_done quiet_intro,
        rule tri_then_ensure, rule tri_then_quiet, rule quiet_intro, rule tri_file_act[OF op])
  show "tri K H (\<lambda>v. True \<and> hv_ok v \<and> hv_mem v = j)
    (sbind (if ?new then admit_file H w r f else sbind (host_fence H w) (\<lambda>_. sret ())) (\<lambda>_.
     if file_finished f then file_report H w f True None
     else case client of None \<Rightarrow> file_report H w f False None
       | Some context \<Rightarrow> sbind (sensure (file_context f = Some context) uncertain) (\<lambda>_.
           sbind (check_deadline H (own_expires w)) (\<lambda>_. file_act H w u ?new f action)))) (\<lambda>_ _. True)"
    by (rule tri_bind, rule tri_pre[OF tri_file_claim[OF op closed look]], simp add: holds_def r, rule act)
qed

lemma safe_file_write_sync [safe_intro]:
  "uuid_laws (he_crates H) \<Longrightarrow> safe K H (file_write_sync H q offset data)"
  unfolding file_write_sync_def
  by (rule safe_sbind, rule safe_quiet, rule quiet_intro, rule safe_sbind, rule safe_quiet, rule quiet_intro,
      rule safe_file_sync)

end
