(* ===== verification/Host_Start.thy ===== *)
theory Host_Start
  imports Host_Sends
begin

text \<open>
  The start of a host (\<open>host_open\<close> of \<open>Host_Journal\<close>) keeps the invariant of \<open>Host_Laws\<close>: what
  the memory held before is given up, the retained journal is read back, and the checks of the
  start establish that every row is well formed. The codec is assumed to decode maps as maps
  (\<open>json_ordered\<close>), which the type \<open>BTreeMap\<close> guarantees.
\<close>

section \<open>What the checks establish\<close>

definition ordered_row :: "host_record \<Rightarrow> bool" where
  "ordered_row r =
     (bt_ordered (rec_revisions r) \<and> bt_ordered (rec_commands r) \<and> bt_ordered (rec_files r) \<and>
      bt_ordered (rec_archives r))"

definition json_ordered :: "retained json \<Rightarrow> bool" where
  "json_ordered J =
     (\<forall>b j. from_slice J b = Some j \<longrightarrow>
        bt_ordered (jr_records j) \<and> (\<forall>e \<in> set (jr_records j). ordered_row (snd e)))"

lemma bt_contains_mem: "bt_contains k m \<Longrightarrow> \<exists>v. (k, v) \<in> set m"
  by (auto simp: bt_contains_def dest: bt_get_in_set)

lemma checked_commands:
  assumes "contents_validate_retained H receipt r = Inr ()" "bt_contains op (rec_commands r)"
  shows "is_ok (parse_operation (he_crates H) op)"
proof -
  obtain c where "(op, c) \<in> set (rec_commands r)" using bt_contains_mem[OF assms(2)] by blast
  then have "command_validate_retained (he_crates H) r (op, c) = Inr ()"
    using assms(1) by (auto simp: contents_validate_retained_def Let_def)
  then show ?thesis by (auto simp: command_validate_retained_def is_ok_iff)
qed

lemma checked_files:
  assumes "contents_validate_retained H receipt r = Inr ()" "bt_contains op (rec_files r)"
  shows "is_ok (parse_operation (he_crates H) op)"
proof -
  obtain f where "(op, f) \<in> set (rec_files r)" using bt_contains_mem[OF assms(2)] by blast
  then have "file_validate_retained (he_crates H) (hj_file (he_json H)) receipt r (op, f) = Inr ()"
    using assms(1) by (auto simp: contents_validate_retained_def Let_def)
  then show ?thesis by (auto simp: file_validate_retained_def is_ok_iff)
qed

lemma checked_archives:
  assumes "contents_validate_retained H receipt r = Inr ()" "bt_contains op (rec_archives r)"
  shows "bt_contains op (rec_commands r)"
proof -
  obtain a where "(op, a) \<in> set (rec_archives r)" using bt_contains_mem[OF assms(2)] by blast
  then have "archive_validate_retained (he_crates H) r (op, a) = Inr ()"
    using assms(1) by (auto simp: contents_validate_retained_def Let_def)
  then show ?thesis by (auto simp: archive_validate_retained_def bt_contains_def)
qed

lemma checked_slots:
  assumes "contents_validate_retained H receipt r = Inr ()" "live_slot r d = Some x"
  shows "bar_domain (lr_barrier x) = d"
proof -
  have "history_validate_slot (he_crates H) (hj_file (he_json H)) receipt r d = Inr ()"
    using assms(1) by (cases d) (auto simp: contents_validate_retained_def Let_def)
  then show ?thesis using assms(2) by (auto simp: history_validate_slot_def barrier_validate_def Let_def)
qed

lemma checked_row:
  assumes own: "ownership_validate H key r = Inr ()" and contents: "contents_validate_retained H receipt r = Inr ()"
    and ordered: "ordered_row r"
  shows "wf_record (he_crates H) key r"
proof -
  have "rec_retirement r \<noteq> None \<longrightarrow> rec_stopped r"
    using own by (auto simp: ownership_validate_def retirement_validate_retained_def Let_def)
  moreover have "length (rec_commands r) \<le> max_commands \<and> length (rec_files r) \<le> max_files"
    using contents by (auto simp: contents_validate_retained_def Let_def)
  ultimately show ?thesis
    using own ordered checked_commands[OF contents] checked_files[OF contents] checked_archives[OF contents]
      checked_slots[OF contents]
    unfolding wf_record_def well_keyed_def ordered_row_def
    by (auto simp: ownership_validate_def Let_def)
qed

section \<open>Reading the journal\<close>

definition stop_row :: "string \<times> host_record \<Rightarrow> string \<times> host_record" where
  "stop_row e = (fst e, (snd e)\<lparr>rec_stopped := True\<rparr>)"

lemma quiet_deletion_validate [quiet_intro]: "quiet (deletion_validate H oe ck r)"
  unfolding deletion_validate_def by (intro quiet_intro)

lemma quiet_open_record [quiet_intro]: "quiet (open_record H oe ck e)"
  unfolding open_record_def by (intro quiet_intro)

lemma quiet_open_records [quiet_intro]: "quiet (open_records H oe ck es)"
proof (induction es)
  case Nil
  show ?case unfolding open_records.simps by (intro quiet_intro)
next
  case (Cons e es)
  then show ?case unfolding open_records.simps by (intro quiet_intro)
qed

lemma quiet_journal_initial [quiet_intro]: "quiet (journal_initial H oe)"
  unfolding journal_initial_def by (intro quiet_intro)

lemma open_record_row:
  assumes "open_record H oe ck e s = (Inr x, t)"
  shows "x = stop_row e" "ordered_row (snd e) \<Longrightarrow> wf_record (he_crates H) (fst e) (snd e)"
  using assms by (auto simp: open_record_def Let_def stop_row_def intro: checked_row split: prod.splits)

lemma open_records_rows:
  "open_records H oe ck es s = (Inr xs, t) \<Longrightarrow>
    xs = map stop_row es \<and> (\<forall>e \<in> set es. ordered_row (snd e) \<longrightarrow> wf_record (he_crates H) (fst e) (snd e))"
proof (induction es arbitrary: s xs)
  case (Cons e es)
  then show ?case using open_record_row[of H oe ck e] by (auto simp: open_records.simps)
qed simp

text \<open>The part of \<open>journal_open\<close> before its write.\<close>

definition journal_checked :: "host_env \<Rightarrow> open_env \<Rightarrow> retained host" where
  "journal_checked H oe =
     sbind (sensure (oe_root oe \<and> oe_lock oe) uncertain) (\<lambda>_.
     sbind (sread (\<lambda>s. st_main (hs_files s))) (\<lambda>main.
     sbind (case main of Some f \<Rightarrow> slift (journal_read H f) | None \<Rightarrow> journal_initial H oe) (\<lambda>j.
     sbind (sensure (sum_list (map (\<lambda>r. length (rec_files r)) (bt_values (jr_records j))) \<le> max_host_files) uncertain) (\<lambda>_.
     sbind (open_records H oe (jr_authority j) (jr_records j)) (\<lambda>rs.
     sret (j\<lparr>jr_epoch := cfg_epoch (he_config H), jr_records := rs\<rparr>))))))"

lemma sbind_assoc: "sbind (sbind m f) g = sbind m (\<lambda>a. sbind (f a) g)"
  by (rule ext) (auto simp: sbind_def split: prod.splits sum.splits)

lemma sbind_sret: "sbind (sret a) f = f a"
  by (rule ext) (simp add: sbind_def)

lemma journal_open_checked:
  "journal_open H oe = sbind (journal_checked H oe) (\<lambda>j. sbind (put_journal H j) (\<lambda>_. sret j))"
  by (simp add: journal_open_def journal_checked_def sbind_assoc sbind_sret Let_def)

lemma quiet_journal_checked: "quiet (journal_checked H oe)"
  unfolding journal_checked_def by (intro quiet_intro)

lemma get_stop_rows [simp]:
  "bt_get k (map stop_row m) = map_option (\<lambda>r. r\<lparr>rec_stopped := True\<rparr>) (bt_get k m)"
  by (induction m) (auto simp: stop_row_def)

lemma advances_stop_rows:
  assumes "wf_journal C j"
  shows "advances C K j (j\<lparr>jr_epoch := e, jr_records := map stop_row (jr_records j)\<rparr>)"
proof -
  have "bt_ordered (map stop_row (jr_records j))"
    using assms by (simp add: wf_journal_def bt_ordered_def stop_row_def comp_def)
  then show ?thesis
    using assms row_stopped[of C] unfolding advances_def
    by (fastforce simp: wf_journal_def find_record_def row_step_def)
qed

lemma journal_checked_source:
  assumes "json_ordered (hj_retained (he_json H))" "journal_checked H oe s = (Inr j', t)"
  obtains j where "wf_journal (he_crates H) j" "advances (he_crates H) K j j'"
    "disk_of (hj_retained (he_json H)) (hs_files s) = None \<or>
     disk_of (hj_retained (he_json H)) (hs_files s) = Some j"
proof -
  from assms(2) obtain j s1 s2 rs where
    read: "(case st_main (hs_files s) of Some f \<Rightarrow> slift (journal_read H f) | None \<Rightarrow> journal_initial H oe) s = (Inr j, s1)"
    and rows: "open_records H oe (jr_authority j) (jr_records j) s1 = (Inr rs, s2)"
    and j': "j' = j\<lparr>jr_epoch := cfg_epoch (he_config H), jr_records := rs\<rparr>"
    by (auto simp: journal_checked_def)
  have rs: "rs = map stop_row (jr_records j)"
    and wf: "\<forall>e \<in> set (jr_records j). ordered_row (snd e) \<longrightarrow> wf_record (he_crates H) (fst e) (snd e)"
    using open_records_rows[OF rows] by auto
  have src: "wf_journal (he_crates H) j \<and> (disk_of (hj_retained (he_json H)) (hs_files s) = None \<or>
     disk_of (hj_retained (he_json H)) (hs_files s) = Some j)"
  proof (cases "st_main (hs_files s)")
    case None
    then have "jr_records j = []" using read by (auto simp: journal_initial_def Let_def)
    then show ?thesis using None by (simp add: wf_journal_def find_record_def disk_of_def)
  next
    case (Some f)
    then have b: "from_slice (hj_retained (he_json H)) (mf_bytes f) = Some j" "length (jr_records j) \<le> max_records"
      using read by (auto simp: journal_read_def)
    then have ordered: "bt_ordered (jr_records j)" "\<forall>e \<in> set (jr_records j). ordered_row (snd e)"
      using assms(1) by (auto simp: json_ordered_def)
    have "wf_record (he_crates H) key r" if "find_record key j = Some r" for key r
    proof -
      have "(key, r) \<in> set (jr_records j)" using that by (auto simp: find_record_def dest: bt_get_in_set)
      then show ?thesis using wf ordered(2) by force
    qed
    then show ?thesis using b ordered(1) Some by (simp add: wf_journal_def disk_of_def)
  qed
  then show ?thesis using that[of j] advances_stop_rows[of "he_crates H" j K] by (auto simp: j' rs)
qed

section \<open>The start\<close>

lemma good_poison: "good C K d v \<Longrightarrow> good C K d (v\<lparr>hv_ok := False\<rparr>)"
  by (simp add: good_def)

lemma view_poisoned: "view K J (set_poisoned True s) = (view K J s)\<lparr>hv_ok := False\<rparr>"
  by (simp add: view_def set_poisoned_def)

lemma view_downloads [simp]: "view K J (s\<lparr>hs_downloads := g\<rparr>) = view K J s"
  by (simp add: view_def)

lemma tri_authority_open:
  "tri K H (\<lambda>v. hv_ok v \<and> hv_mem v = j) (authority_open H j) (\<lambda>_ _. True)"
  unfolding authority_open_def Let_def
  apply (rule tri_then_ensure, rule tri_case_option, intro tri_done quiet_intro)
  apply (rule tri_steps | rule tri_then_quiet, (intro quiet_intro; fail))+
  apply (rule tri_bind, rule tri_post, rule tri_put)
     apply (simp, simp, rule TrueI)
  apply (intro tri_done quiet_intro)
  done

lemma good_journal_open:
  assumes J: "json_faithful (hj_retained (he_json H))" "json_ordered (hj_retained (he_json H))"
    and good: "good (he_crates H) K d (view K (hj_retained (he_json H)) s)"
    and fin: "journal_open H oe (set_poisoned False s) = (x, t)"
  shows "good (he_crates H) K d ((view K (hj_retained (he_json H)) t)\<lparr>hv_ok := False\<rparr>)"
    and "x = Inr j \<Longrightarrow> good (he_crates H) K d (view K (hj_retained (he_json H)) t) \<and>
      hv_ok (view K (hj_retained (he_json H)) t) \<and> hv_mem (view K (hj_retained (he_json H)) t) = j"
proof -
  let ?J = "hj_retained (he_json H)" and ?s = "set_poisoned False s"
  obtain y u where y: "journal_checked H oe ?s = (y, u)" by (metis surj_pair)
  have u: "hs_journal u = hs_journal ?s" "hs_files u = hs_files s" "hs_effects u = hs_effects s"
    using spec[OF quiet_journal_checked[of H oe, unfolded quiet_def], of ?s] y by (simp_all add: set_poisoned_def)
  have "good (he_crates H) K d ((view K ?J t)\<lparr>hv_ok := False\<rparr>) \<and> (\<forall>j. x = Inr j \<longrightarrow>
    good (he_crates H) K d (view K ?J t) \<and> hv_ok (view K ?J t) \<and> hv_mem (view K ?J t) = j)"
  proof (cases y)
    case (Inl e)
    then have "t = u" "x = Inl e" using fin y by (simp_all add: journal_open_checked sbind_def)
    then show ?thesis using good u by (simp add: good_def view_def)
  next
    case (Inr k)
    obtain j where j: "wf_journal (he_crates H) j" "advances (he_crates H) K j k"
      "disk_of ?J (hs_files ?s) = None \<or> disk_of ?J (hs_files ?s) = Some j"
      using journal_checked_source[OF J(2)] y Inr by metis
    let ?u = "set_retained j u"
    have disk: "disk_of ?J (hs_files u) = None \<or> disk_of ?J (hs_files u) = Some j"
      using j(3) u(2) by (simp add: set_poisoned_def)
    have ok: "hv_ok (view K ?J ?u) \<and> hv_mem (view K ?J ?u) = j"
      using u(1) by (simp add: view_def set_retained_def set_poisoned_def)
    have "good (he_crates H) K d (view K ?J ?u)"
      using good u disk j(1) by (auto simp: good_def view_def set_retained_def)
    moreover have "tri K H (\<lambda>v. hv_ok v \<and> hv_mem v = j) (put_journal H k)
      (\<lambda>_ v. hv_ok v \<and> hv_mem v = k)"
      by (rule tri_post, rule tri_put) (use j(2) in auto)
    moreover have "put_journal H k ?u = put_journal H k u"
      by (simp add: put_journal_def sbind_def set_retained_def comp_def)
    ultimately have put: "good (he_crates H) K d (view K ?J (snd (put_journal H k u)))"
      "fst (put_journal H k u) = Inr () \<Longrightarrow>
        hv_ok (view K ?J (snd (put_journal H k u))) \<and> hv_mem (view K ?J (snd (put_journal H k u))) = k"
      using J(1) ok unfolding tri_def by metis+
    have "x = (case fst (put_journal H k u) of Inl e \<Rightarrow> Inl e | Inr _ \<Rightarrow> Inr k)" "t = snd (put_journal H k u)"
      using fin y Inr by (auto simp: journal_open_checked sbind_def split: prod.splits sum.splits)
    then show ?thesis using put good_poison by (auto split: sum.splits)
  qed
  then show "good (he_crates H) K d ((view K ?J t)\<lparr>hv_ok := False\<rparr>)"
    and "x = Inr j \<Longrightarrow> good (he_crates H) K d (view K ?J t) \<and> hv_ok (view K ?J t) \<and> hv_mem (view K ?J t) = j"
    by auto
qed

lemma good_host_open:
  assumes J: "json_faithful (hj_retained (he_json H))" "json_ordered (hj_retained (he_json H))"
    and good: "good (he_crates H) K d (view K (hj_retained (he_json H)) s)"
  shows "good (he_crates H) K d (view K (hj_retained (he_json H)) (snd (host_open H oe s)))"
proof -
  let ?J = "hj_retained (he_json H)"
  obtain x t where o: "journal_open H oe (set_poisoned False s) = (x, t)" by (metis surj_pair)
  note opened = good_journal_open[OF J good o]
  show ?thesis
  proof (cases "oe_config_ok oe \<and> host_config_ok (he_config H)")
    case False
    then have "snd (host_open H oe s) = set_poisoned True s" by (auto simp: host_open_def sbind_def)
    then show ?thesis using good good_poison by (simp add: view_poisoned)
  next
    case ok: True
    show ?thesis
    proof (cases x)
      case (Inl e)
      then have "snd (host_open H oe s) = set_poisoned True t" using ok o by (simp add: host_open_def sbind_def)
      then show ?thesis using opened(1) by (simp add: view_poisoned)
    next
      case (Inr j)
      obtain y u where y: "authority_open H j t = (y, u)" by (metis surj_pair)
      have "good (he_crates H) K d (view K ?J u)"
        using tri_authority_open[of K H j] opened(2)[OF Inr] J(1) y unfolding tri_def by (metis snd_conv)
      moreover have "snd (host_open H oe s) = (case y of Inl _ \<Rightarrow> set_poisoned True u | Inr _ \<Rightarrow> u\<lparr>hs_downloads := []\<rparr>)"
        using ok o Inr y by (simp add: host_open_def sbind_def split: sum.splits)
      ultimately show ?thesis using good_poison by (auto simp: view_poisoned split: sum.splits)
    qed
  qed
qed

end
