(* ===== verification/Host_Runs.thy ===== *)
theory Host_Runs
  imports Host_Start
begin

text \<open>
  Runs of a host: any sequence of requests, each with its own surroundings (clock readings,
  write faults, answers of guardians and guests), and restarts among them. What runs under
  the allocation gate and the journal's mutex is one step. Publications, live reads and
  downloads let go of both while the guest or the object store is asked: besides the request
  run without interruption they are two steps, the part before the answer and the part after
  it, between which a run may do anything else. The part after takes what the first part
  handed on, and the answer, as arbitrary values. The invariant of
  \<open>Host_Laws\<close> holds along every run, for the rows that the run does not forget.
\<close>

section \<open>Forgetting\<close>

text \<open>The row a forget request names.\<close>

definition forget_key :: "host_env \<Rightarrow> bytes \<Rightarrow> string option" where
  "forget_key H json =
     (case forget_decode (he_crates H) (hj_forget (he_json H)) json of
        Inl _ \<Rightarrow> None
      | Inr f \<Rightarrow> Some (show_allocation (he_crates H)
          (permit_allocation (intent_permit (req_intent (forget_claim f))))))"

lemma find_remove [simp]:
  "find_record k (remove_record key j) = (if k = key then None else find_record k j)"
  by (simp add: find_record_def remove_record_def)

lemma advances_remove:
  assumes "key \<notin> K" shows "advances C K j (remove_record key j)"
proof -
  have "wf_journal C j \<Longrightarrow> wf_journal C (remove_record key j)"
    by (auto simp: wf_journal_def remove_record_def bt_ordered_remove find_record_def
        intro: order_trans[OF length_bt_remove])
  moreover have "\<exists>r'. find_record k (remove_record key j) = Some r' \<and> record_advances C r r'"
    if "k \<in> K" "find_record k j = Some r" for k r
    using that assms by auto
  ultimately show ?thesis unfolding advances_def by blast
qed

lemma tri_forget_row:
  assumes "key \<notin> K"
  shows "tri K H (\<lambda>v. hv_ok v \<and> hv_mem v = j) (forget_row H f j key g) (\<lambda>_ _. True)"
  unfolding forget_row_def
  apply (rule tri_case_option, intro tri_done quiet_intro)
  apply (rule tri_steps | rule tri_then_quiet, (intro quiet_intro; fail))+
  apply (rule tri_bind, rule tri_post, rule tri_put)
     apply (simp, simp add: advances_remove[OF assms], rule TrueI)
  apply (intro tri_done quiet_intro)
  done

lemma safe_forget_allocation_sync:
  assumes "\<And>key. forget_key H json = Some key \<Longrightarrow> key \<notin> K"
  shows "safe K H (forget_allocation_sync H json)"
proof -
  have key: "show_allocation (he_crates H) (permit_allocation (intent_permit (req_intent (forget_claim f)))) \<notin> K"
    if "map_err (\<lambda>_. InvalidArgument) (forget_decode (he_crates H) (hj_forget (he_json H)) json) = Inr f" for f
    using that by (intro assms) (simp add: forget_key_def)
  show ?thesis
    unfolding safe_def forget_allocation_sync_def Let_def
    apply (rule tri_steps | rule tri_then_quiet, (intro quiet_intro; fail))+
    apply (rule tri_bind, rule tri_pre[OF tri_forget_row[OF key]], assumption, simp)
    apply (intro tri_done quiet_intro)
    done
qed

section \<open>Requests\<close>

text \<open>
  Whole requests, then the parts of those that are interrupted. Between the two parts of a
  publication the guest and the object store are asked and the journal is not touched.
\<close>

datatype host_op =
    OpOpen open_env
  | OpCreate create_request
  | OpInspect "ownership option" bool
  | OpLease "lease_ownership option" "int option"
  | OpReconcile nat bool
  | OpPrevious "ownership option" int
  | OpHistoryBinding "lease_ownership option"
  | OpRetireHistory history_request
  | OpRetireReleased released_request
  | OpExecute command_request
  | OpCommand command_inspection bool
  | OpAuthority string int bytes
  | OpFence bytes
  | OpRetireMetadata bytes
  | OpForget bytes
  | OpFile file_request file_action
  | OpFileWrite "file_request option" nat bytes
  | OpPrepareOutput output_request
  | OpArchiveOutput output_request
  | OpLiveRead live_request
  | OpCapture capture_request
  | OpRead download_request
  | OpRelease release_request
  | OpOutputSetup output_request
  | OpOutputFinish output_request output_plans
  | OpLiveBegin live_request
  | OpLiveEnd live_request "live_output_scope \<times> read_output \<times> command_record" output_chunk receipt
  | OpCaptureBegin capture_request
  | OpCaptureEnd capture_request "read_scope \<times> guest_context \<times> operation_id" wire_file_capture
  | OpReadBegin download_request
  | OpReadEnd download_request "read_scope \<times> download_handle \<times> guest_context" wire_file_chunk
  | OpReleaseBegin release_request
  | OpReleaseEnd release_request "read_scope \<times> download_handle \<times> guest_context"

text \<open>Whether the request succeeds; what it answers is left out.\<close>

definition served :: "'a host \<Rightarrow> unit host" where
  "served m = sbind m (\<lambda>_. sret ())"

fun host_serve :: "host_env \<Rightarrow> host_op \<Rightarrow> unit host" where
  "host_serve H (OpOpen oe) = served (host_open H oe)"
| "host_serve H (OpCreate q) = served (create_sync H q)"
| "host_serve H (OpInspect w stop) = served (inspect_sync H w stop)"
| "host_serve H (OpLease w until) = served (lease_sync H w until)"
| "host_serve H (OpReconcile cursor free) = reconcile_one H cursor free"
| "host_serve H (OpPrevious w e) = served (previous_allocation H w e)"
| "host_serve H (OpHistoryBinding w) = served (history_binding_sync H w)"
| "host_serve H (OpRetireHistory q) = served (retire_history_sync H q)"
| "host_serve H (OpRetireReleased q) = served (retire_released_sync H q)"
| "host_serve H (OpExecute q) = served (execute_command_sync H q)"
| "host_serve H (OpCommand q cancel) = served (inspect_or_cancel H q cancel)"
| "host_serve H (OpAuthority host e ps) = served (allocation_authority_sync H host e ps)"
| "host_serve H (OpFence json) = served (fence_allocation_sync H json)"
| "host_serve H (OpRetireMetadata json) = served (retire_metadata_sync H json)"
| "host_serve H (OpForget json) = served (forget_allocation_sync H json)"
| "host_serve H (OpFile q action) = served (file_sync H q action)"
| "host_serve H (OpFileWrite q offset data) = served (file_write_sync H q offset data)"
| "host_serve H (OpPrepareOutput q) = served (prepare_output H q)"
| "host_serve H (OpArchiveOutput q) = served (archive_output H q)"
| "host_serve H (OpLiveRead q) = served (live_read H q)"
| "host_serve H (OpCapture q) = served (capture_download H q)"
| "host_serve H (OpRead q) = served (read_download H q)"
| "host_serve H (OpRelease q) = served (release_download H q)"
| "host_serve H (OpOutputSetup q) = served (output_setup H q)"
| "host_serve H (OpOutputFinish q ps) = served (output_finish H q ps)"
| "host_serve H (OpLiveBegin q) = served (live_begin H q)"
| "host_serve H (OpLiveEnd q src ch t) = served (live_end H q src ch t)"
| "host_serve H (OpCaptureBegin q) = served (capture_begin H q)"
| "host_serve H (OpCaptureEnd q ticket x) = served (capture_end H q ticket x)"
| "host_serve H (OpReadBegin q) = served (read_begin H q)"
| "host_serve H (OpReadEnd q ticket x) = served (read_end H q ticket x)"
| "host_serve H (OpReleaseBegin q) = served (release_begin H q)"
| "host_serve H (OpReleaseEnd q ticket) = served (release_end H q ticket)"

definition is_open :: "host_op \<Rightarrow> bool" where
  "is_open op = (case op of OpOpen _ \<Rightarrow> True | _ \<Rightarrow> False)"

definition forgets :: "host_env \<Rightarrow> host_op \<Rightarrow> string option" where
  "forgets H op = (case op of OpForget json \<Rightarrow> forget_key H json | _ \<Rightarrow> None)"

lemma safe_served: "safe K H m \<Longrightarrow> safe K H (served m)"
  unfolding served_def by (rule safe_sbind, assumption, rule safe_quiet, intro quiet_intro)

lemma safe_host_serve:
  assumes "uuid_laws (he_crates H)" "\<not> is_open op" "\<And>key. forgets H op = Some key \<Longrightarrow> key \<notin> K"
  shows "safe K H (host_serve H op)"
  using assms
  by (cases op)
    (auto simp: is_open_def forgets_def intro!: safe_served safe_forget_allocation_sync
      intro: safe_intro safe_quiet quiet_intro)

section \<open>Runs\<close>

type_synonym host_run = "(host_env \<times> host_op) list"

fun host_run :: "host_run \<Rightarrow> host_state \<Rightarrow> host_state" where
  "host_run [] s = s"
| "host_run ((H, op) # run) s = host_run run (snd (host_serve H op s))"

text \<open>All the surroundings of a run share the encoders and the journal codec.\<close>

definition run_of :: "crates \<Rightarrow> retained json \<Rightarrow> host_run \<Rightarrow> bool" where
  "run_of C J run = (\<forall>(H, op) \<in> set run. he_crates H = C \<and> hj_retained (he_json H) = J)"

definition run_forgets :: "host_run \<Rightarrow> string set" where
  "run_forgets run = {key. \<exists>(H, op) \<in> set run. forgets H op = Some key}"

text \<open>What the theorems assume of the encoders.\<close>

definition host_codecs :: "crates \<Rightarrow> retained json \<Rightarrow> bool" where
  "host_codecs C J = (uuid_laws C \<and> json_faithful J \<and> json_ordered J)"

lemma good_serve:
  assumes "host_codecs C J" "he_crates H = C" "hj_retained (he_json H) = J"
    "\<And>key. forgets H op = Some key \<Longrightarrow> key \<notin> K" "good C K d (view K J s)"
  shows "good C K d (view K J (snd (host_serve H op s)))"
proof (cases "is_open op")
  case True
  then obtain oe where op: "op = OpOpen oe" by (auto simp: is_open_def split: host_op.splits)
  have "snd (host_serve H op s) = snd (host_open H oe s)"
    by (simp add: op served_def sbind_def split: prod.splits sum.splits)
  then show ?thesis using good_host_open[of H K d s oe] assms by (simp add: host_codecs_def)
next
  case False
  then have "safe K H (host_serve H op)" using assms by (intro safe_host_serve) (auto simp: host_codecs_def)
  then show ?thesis using assms by (simp add: safe_def tri_def host_codecs_def)
qed

lemma kept_run:
  assumes "host_codecs C J" "run_of C J run" "K \<inter> run_forgets run = {}" "good C K d (view K J s)"
  shows "good C K d (view K J (host_run run s))"
  using assms(2-4)
proof (induction run arbitrary: s)
  case (Cons x run)
  obtain H op where x: "x = (H, op)" by (cases x)
  have "good C K d (view K J (snd (host_serve H op s)))"
    using Cons.prems x by (intro good_serve[OF assms(1)]) (auto simp: run_of_def run_forgets_def)
  moreover have "run_of C J run" "K \<inter> run_forgets run = {}"
    using Cons.prems x by (auto simp: run_of_def run_forgets_def)
  ultimately show ?case using Cons.IH x by simp
qed simp

text \<open>A process that has not started: whatever the disk holds, nothing has been sent.\<close>

lemma good_cold:
  assumes "j_poisoned (hs_journal s)" "filter (\<lambda>e. effect_key e \<in> K) (hs_effects s) = []"
  shows "good C K (disk_of J (hs_files s)) (view K J s)"
  using assms by (simp add: good_def view_def recorded_def)

end
