(* ===== verification/Host_Refusals.thy ===== *)
theory Host_Refusals
  imports Host_Runs
begin

text \<open>
  What a host whose journal is poisoned does with a request: it fails before anything is
  written or sent. Every request reads the journal first (\<open>get_journal\<close>), after methods that
  leave journal, file and sent requests alone.
\<close>

definition refuses :: "'a host \<Rightarrow> bool" where
  "refuses m =
     (\<forall>s. j_poisoned (hs_journal s) \<longrightarrow>
        \<not> is_ok (fst (m s)) \<and> hs_journal (snd (m s)) = hs_journal s \<and>
        hs_files (snd (m s)) = hs_files s \<and> hs_effects (snd (m s)) = hs_effects s)"

lemma refuses_get: "refuses (sbind get_journal f)"
  by (simp add: refuses_def get_journal_def sbind_def)

lemma refuses_bind: "refuses m \<Longrightarrow> refuses (sbind m f)"
  unfolding refuses_def sbind_def by (auto split: prod.splits sum.splits simp: is_ok_def)

lemma refuses_after: "quiet m \<Longrightarrow> (\<And>a. refuses (f a)) \<Longrightarrow> refuses (sbind m f)"
  unfolding refuses_def quiet_def sbind_def
  by (auto split: prod.splits sum.splits) (metis fst_conv snd_conv)+

lemma refuses_after_lift: "(\<And>a. refuses (f a)) \<Longrightarrow> refuses (sbind (slift x) f)"
  by (rule refuses_after) (rule quiet_intro)

lemma refuses_case_prod: "(\<And>a b. refuses (f a b)) \<Longrightarrow> refuses (case x of (a, b) \<Rightarrow> f a b)"
  by (cases x) simp

lemma refuses_served: "refuses m \<Longrightarrow> refuses (served m)"
  unfolding served_def by (rule refuses_bind)

lemmas refuses_steps =
  refuses_get refuses_case_prod refuses_after[OF quiet_check_owner] refuses_after[OF quiet_authorize_create]
  refuses_after[OF quiet_pure(3)] refuses_after[OF quiet_pure(5)] refuses_after[OF quiet_pure(6)]
  refuses_after[OF quiet_check_deadline] refuses_after[OF quiet_lease_claim] refuses_after[OF quiet_wrapped(1)]
  refuses_after[OF quiet_released_claim] refuses_after[OF quiet_archive_request_ok]
  refuses_after[OF quiet_output_worker] refuses_after[OF quiet_live_request_ok] refuses_after[OF quiet_current_request]

lemma refuses_gate: "refuses (host_gate H w)"
  unfolding host_gate_def by (rule refuses_get)

lemma refuses_fence: "refuses (fence_allocation_sync H json)"
  unfolding fence_allocation_sync_def Let_def by (rule refuses_steps)+

lemma refuses_setup: "refuses (output_setup H q)"
  unfolding output_setup_def Let_def by (rule refuses_steps)+

lemma refuses_file_sync: "refuses (file_sync H q action)"
  unfolding file_sync_def by (rule refuses_steps refuses_bind[OF refuses_gate])+

lemma refuses_download_prepare: "refuses (download_prepare H s)"
  unfolding download_prepare_def download_record_def Let_def by (rule refuses_bind, rule refuses_get)

lemma refuses_download_bound: "refuses (download_bound H s h)"
  unfolding download_bound_def by (rule refuses_steps, rule refuses_bind, rule refuses_download_prepare)

lemma refuses_command_gate: "refuses (command_gate H w)"
  unfolding command_gate_def by (rule refuses_bind, rule refuses_gate)

lemma refuses_lease: "refuses (lease_sync H w until)"
  unfolding lease_sync_def
  by (rule refuses_steps)+ (rule refuses_after, intro quiet_intro, rule refuses_get)

lemma refuses_live_record: "refuses (live_record H s)"
  unfolding live_record_def Let_def by (rule refuses_steps, rule refuses_get)

lemma refuses_live_begin: "refuses (live_begin H q)"
  unfolding live_begin_def by (rule refuses_steps)+ (rule refuses_bind, rule refuses_live_record)

lemma refuses_live_read: "refuses (live_read H q)"
  unfolding live_read_def Let_def by (rule refuses_bind, rule refuses_live_begin)

lemma refuses_live_end: "refuses (live_end H q src ch t)"
  unfolding live_end_def Let_def
  by (rule refuses_steps)+ (rule refuses_bind, rule refuses_live_record)

lemma refuses_output_finish: "refuses (output_finish H q ps)"
  unfolding output_finish_def Let_def by (rule refuses_steps)+

lemma refuses_check_download_current: "refuses (check_download_current H s c)"
  unfolding check_download_current_def download_record_def Let_def by (rule refuses_bind, rule refuses_get)

lemma refuses_capture_begin: "refuses (capture_begin H q)"
  unfolding capture_begin_def Let_def by (rule refuses_steps, rule refuses_bind, rule refuses_download_prepare)

lemma refuses_capture_end: "refuses (capture_end H q ticket x)"
  unfolding capture_end_def Let_def
  by (rule refuses_steps)+ (rule refuses_bind, rule refuses_check_download_current)

lemma refuses_read_begin: "refuses (read_begin H q)"
  unfolding read_begin_def Let_def
  by ((rule refuses_steps refuses_after[OF quiet_ticket_released])+, rule refuses_bind, rule refuses_download_bound)

lemma refuses_read_end: "refuses (read_end H q ticket x)"
  unfolding read_end_def Let_def
  by (rule refuses_steps)+ (rule refuses_bind, rule refuses_check_download_current)

lemma refuses_release_begin: "refuses (release_begin H q)"
  unfolding release_begin_def Let_def
  by ((rule refuses_steps refuses_after[OF quiet_ticket_released])+, rule refuses_bind, rule refuses_download_bound)

lemma refuses_release_end: "refuses (release_end H q ticket)"
  unfolding release_end_def Let_def
  by (rule refuses_steps)+ (rule refuses_bind, rule refuses_check_download_current)

lemma refuses_serve: "\<not> is_open op \<Longrightarrow> refuses (host_serve H op)"
proof (cases op)
  case (OpCreate q)
  show ?thesis
    unfolding OpCreate host_serve.simps create_sync_def
    by (intro refuses_served) (rule refuses_steps refuses_bind[OF refuses_gate])+
next
  case (OpInspect w stop)
  show ?thesis
    unfolding OpInspect host_serve.simps inspect_sync_def
    by (intro refuses_served) (rule refuses_steps refuses_bind[OF refuses_gate])+
next
  case (OpLease w until)
  show ?thesis unfolding OpLease host_serve.simps by (intro refuses_served refuses_lease)
next
  case (OpReconcile cursor free)
  show ?thesis unfolding OpReconcile host_serve.simps reconcile_one_def by (rule refuses_get)
next
  case (OpPrevious w e)
  show ?thesis
    unfolding OpPrevious host_serve.simps previous_allocation_def by (intro refuses_served) (rule refuses_steps)+
next
  case (OpHistoryBinding w)
  show ?thesis
    unfolding OpHistoryBinding host_serve.simps history_binding_sync_def
    by (intro refuses_served) (rule refuses_steps)+
next
  case (OpRetireHistory q)
  show ?thesis
    unfolding OpRetireHistory host_serve.simps retire_history_sync_def by (intro refuses_served) (rule refuses_steps)+
next
  case (OpRetireReleased q)
  show ?thesis
    unfolding OpRetireReleased host_serve.simps retire_released_sync_def Let_def
    by (intro refuses_served) (rule refuses_steps)+
next
  case (OpExecute q)
  show ?thesis
    unfolding OpExecute host_serve.simps execute_command_sync_def
    by (intro refuses_served) (rule refuses_steps refuses_bind[OF refuses_command_gate])+
next
  case (OpCommand q cancel)
  show ?thesis
    unfolding OpCommand host_serve.simps inspect_or_cancel_def
    by (intro refuses_served) (rule refuses_steps refuses_bind[OF refuses_command_gate])+
next
  case (OpAuthority host e ps)
  show ?thesis
    unfolding OpAuthority host_serve.simps allocation_authority_sync_def Let_def
    by (intro refuses_served) (rule refuses_steps)+
next
  case (OpFence json)
  show ?thesis unfolding OpFence host_serve.simps by (intro refuses_served refuses_fence)
next
  case (OpRetireMetadata json)
  show ?thesis
    unfolding OpRetireMetadata host_serve.simps retire_metadata_sync_def Let_def
    by (intro refuses_served refuses_bind refuses_fence)
next
  case (OpForget json)
  show ?thesis
    unfolding OpForget host_serve.simps forget_allocation_sync_def Let_def
    by (intro refuses_served) (rule refuses_steps)+
next
  case (OpFile q action)
  show ?thesis unfolding OpFile host_serve.simps by (intro refuses_served refuses_file_sync)
next
  case (OpFileWrite q offset data)
  show ?thesis
    unfolding OpFileWrite host_serve.simps file_write_sync_def
    by (intro refuses_served, (rule refuses_steps)+, rule refuses_file_sync)
next
  case (OpPrepareOutput q)
  show ?thesis
    unfolding OpPrepareOutput host_serve.simps prepare_output_def
    by (intro refuses_served, (rule refuses_steps)+, rule refuses_bind, rule refuses_setup)
next
  case (OpArchiveOutput q)
  show ?thesis
    unfolding OpArchiveOutput host_serve.simps archive_output_def
    by (intro refuses_served, (rule refuses_steps)+, rule refuses_bind, rule refuses_setup)
next
  case (OpLiveRead q)
  show ?thesis unfolding OpLiveRead host_serve.simps by (intro refuses_served refuses_live_read)
next
  case (OpCapture q)
  show ?thesis
    unfolding OpCapture host_serve.simps capture_download_def
    by (intro refuses_served refuses_bind refuses_capture_begin)
next
  case (OpRead q)
  show ?thesis
    unfolding OpRead host_serve.simps read_download_def
    by (intro refuses_served refuses_bind refuses_read_begin)
next
  case (OpRelease q)
  show ?thesis
    unfolding OpRelease host_serve.simps release_download_def
    by (intro refuses_served refuses_bind refuses_release_begin)
qed (simp_all add: is_open_def refuses_served refuses_setup refuses_output_finish refuses_live_begin
  refuses_live_end refuses_capture_begin refuses_capture_end refuses_read_begin refuses_read_end
  refuses_release_begin refuses_release_end)

end
