(* ===== verification/Host_Recovery.thy ===== *)
theory Host_Recovery
  imports Host_Refusals
begin

text \<open>
  Maintenance of a started host: in a machine that answers (\<open>healthy\<close>), every pass of
  \<open>reconcile_one\<close> that finds a recovery target releases one, so the passes run out of targets.
\<close>

section \<open>Releasing rows\<close>

definition release_row :: "host_record \<Rightarrow> host_record" where
  "release_row r = r\<lparr>rec_stopped := True, rec_released := True\<rparr>"

definition release_at :: "string set \<Rightarrow> string \<times> host_record \<Rightarrow> string \<times> host_record" where
  "release_at S e = (fst e, if fst e \<in> S then release_row (snd e) else snd e)"

text \<open>The journal with the rows of the keys in \<open>S\<close> released.\<close>

definition releases :: "string set \<Rightarrow> retained \<Rightarrow> retained" where
  "releases S j = j\<lparr>jr_records := map (release_at S) (jr_records j)\<rparr>"

lemma release_row_simps [simp]:
  "release_row (release_row r) = release_row r" "rec_stopped (release_row r)" "rec_released (release_row r)"
  "rec_retirement (release_row r) = rec_retirement r"
  by (simp_all add: release_row_def)

lemma release_at_pair [simp]: "release_at S (k, r) = (k, if k \<in> S then release_row r else r)"
  by (simp add: release_at_def)

lemma releases_more: "releases S (releases T j) = releases (S \<union> T) j"
proof -
  have "release_at S \<circ> release_at T = release_at (S \<union> T)"
    by (rule ext) (simp add: release_at_def)
  then show ?thesis by (simp add: releases_def)
qed

lemma releases_none: "releases {} j = j"
proof -
  have "release_at {} = id" by (rule ext) (simp add: release_at_def)
  then show ?thesis by (simp add: releases_def)
qed

lemma insert_release:
  assumes "bt_ordered m" "bt_get key m = Some r"
  shows "bt_insert key (release_row r) m = map (release_at {key}) m"
  using assms
proof (induction m)
  case (Cons e m)
  obtain k x where e: "e = (k, x)" by (cases e)
  show ?case
  proof (cases "key = k")
    case True
    then have "map (release_at {key}) m = m"
      using Cons.prems(1) by (intro map_idI) (auto simp: e release_at_def)
    then show ?thesis using True Cons.prems by (simp add: e)
  next
    case False
    then have "key \<in> fst ` set m" using Cons.prems by (force simp: e dest: bt_get_in_set)
    then have "k < key" using Cons.prems(1) by (auto simp: e)
    then show ?thesis using Cons False by (auto simp: e)
  qed
qed simp

lemma put_release:
  assumes "wf_journal C j" "find_record key j = Some r"
  shows "put_record key (release_row r) j = releases {key} j"
  using assms insert_release[of "jr_records j" key r]
  by (simp add: put_record_def releases_def wf_journal_def find_record_def)

section \<open>Targets\<close>

definition is_target :: "host_record \<Rightarrow> bool" where
  "is_target r = (rec_manifest r \<noteq> None \<and> \<not> rec_released r)"

definition targets :: "retained \<Rightarrow> host_record list" where
  "targets j = filter is_target (bt_values (jr_records j))"

text \<open>Every row is stopped, and none that is still to be released is frozen.\<close>

definition recovering :: "retained \<Rightarrow> bool" where
  "recovering j =
     (\<forall>r \<in> set (bt_values (jr_records j)). rec_stopped r \<and> (is_target r \<longrightarrow> rec_retirement r = None))"

lemma recovery_target_stopped: "rec_stopped r \<Longrightarrow> recovery_target H r s = (Inr (is_target r), s)"
  by (simp add: recovery_target_def is_target_def split: option.splits)

lemma recovery_targets_stopped:
  "\<forall>r \<in> set rs. rec_stopped r \<Longrightarrow> recovery_targets H rs s = (Inr (filter is_target rs), s)"
  by (induction rs) (simp_all add: sbind_def recovery_target_stopped)

lemma target_released [simp]: "\<not> is_target (release_row r)"
  by (simp add: is_target_def)

lemma recovering_releases: "recovering j \<Longrightarrow> recovering (releases S j)"
  by (force simp: recovering_def releases_def bt_values_def release_at_def)

lemma fewer_targets:
  assumes "wf_journal C j" "find_record key j = Some r" "is_target r"
  shows "length (targets (releases {key} j)) < length (targets j)"
proof -
  have le: "length (filter is_target (map (snd \<circ> release_at {key}) m)) \<le> length (filter is_target (map snd m))" for m
    by (induction m) (auto simp: release_at_def)
  have less: "length (filter is_target (map (snd \<circ> release_at {key}) m)) < length (filter is_target (map snd m))"
    if "(key, r) \<in> set m" for m
    using that
  proof (induction m)
    case (Cons e m)
    show ?case
    proof (cases "e = (key, r)")
      case True
      then show ?thesis using le[of m] assms(3) by (simp add: comp_def less_Suc_eq_le)
    next
      case False
      then show ?thesis using Cons by (cases e) auto
    qed
  qed simp
  have "(key, r) \<in> set (jr_records j)" using assms(2) by (auto simp: find_record_def dest: bt_get_in_set)
  then show ?thesis using less by (simp add: targets_def releases_def bt_values_def)
qed

section \<open>A machine that answers\<close>

text \<open>
  Cleanup fences and confirms, writes do not fail, and the journal stays encodable while rows
  are released.
\<close>

definition healthy :: "host_env \<Rightarrow> retained \<Rightarrow> bool" where
  "healthy H j =
     ((\<forall>n m. \<exists>g. w_fence (he_world H) n m = Inr g \<and> gr_state g = GStopped \<and> gr_cleanup_confirmed g) \<and>
      (\<forall>n. se_fault (w_save (he_world H) n) = NoFault) \<and>
      (\<forall>S. \<exists>b. to_vec (hj_retained (he_json H)) (releases S j) = Some b \<and> length b \<le> journal_max_bytes))"

text \<open>A host that serves: its journal is well formed and no write is pending.\<close>

definition serving :: "crates \<Rightarrow> host_state \<Rightarrow> bool" where
  "serving C s =
     (\<not> j_poisoned (hs_journal s) \<and> wf_journal C (j_retained (hs_journal s)) \<and> st_next (hs_files s) = None)"

lemma put_journal_clean:
  assumes "serving C s" "se_fault (w_save (he_world H) (hs_step s)) = NoFault"
    "to_vec (hj_retained (he_json H)) j = Some b" "length b \<le> journal_max_bytes" "wf_journal C j"
  shows "\<exists>t. put_journal H j s = (Inr (), t) \<and> serving C t \<and> j_retained (hs_journal t) = j"
  using assms
  by (simp add: put_journal_def save_journal_def journal_write_def journal_clear_next_def serving_def sbind_def
      set_retained_def set_poisoned_def publish_clean ok_or_def)

lemma host_released_clean:
  assumes "serving C s" "find_record key (j_retained (hs_journal s)) = Some r" "is_target r"
    "healthy H (j_retained (hs_journal s))"
  shows "\<exists>t. host_released H key s = (Inr (), t) \<and> serving C t \<and>
    j_retained (hs_journal t) = releases {key} (j_retained (hs_journal s))"
proof -
  let ?j = "j_retained (hs_journal s)"
  have wf: "wf_journal C ?j" using assms(1) by (simp add: serving_def)
  have put: "put_record key (r\<lparr>rec_stopped := True, rec_released := True\<rparr>) ?j = releases {key} ?j"
    using put_release[OF wf assms(2)] by (simp add: release_row_def)
  have "rec_manifest r \<noteq> None" using assms(3) by (simp add: is_target_def)
  then have "wf_journal C (releases {key} ?j)"
    using advances_put[OF wf assms(2) row_released] wf unfolding put advances_def by blast
  then obtain t where "put_journal H (releases {key} ?j) s = (Inr (), t)" "serving C t"
    "j_retained (hs_journal t) = releases {key} ?j"
    using put_journal_clean[OF assms(1)] assms(4) unfolding healthy_def by metis
  moreover have "host_released H key s = put_journal H (releases {key} ?j) s"
    using assms(1-3) put by (simp add: host_released_def get_journal_def sbind_def serving_def is_target_def)
  ultimately show ?thesis by simp
qed

lemma healthy_releases: "healthy H j \<Longrightarrow> healthy H (releases S j)"
  by (simp add: healthy_def releases_more)

lemma serving_step [simp]: "serving C (s\<lparr>hs_step := n\<rparr>) = serving C s"
  by (simp add: serving_def)

text \<open>One pass over a journal with targets releases one of them.\<close>

lemma reconcile_releases:
  assumes "serving C s" "healthy H (j_retained (hs_journal s))" "recovering (j_retained (hs_journal s))"
    "targets (j_retained (hs_journal s)) \<noteq> []"
  shows "\<exists>key r t. find_record key (j_retained (hs_journal s)) = Some r \<and> is_target r \<and>
    reconcile_one H cursor True s = (Inr (), t) \<and> serving C t \<and>
    j_retained (hs_journal t) = releases {key} (j_retained (hs_journal s))"
proof -
  let ?j = "j_retained (hs_journal s)"
  have wf: "wf_journal C ?j" "\<not> j_poisoned (hs_journal s)" using assms(1) by (simp_all add: serving_def)
  let ?r = "targets ?j ! (cursor mod length (targets ?j))"
  have mem: "?r \<in> set (targets ?j)" using assms(4) by simp
  then have r: "?r \<in> set (bt_values (jr_records ?j))" "is_target ?r" by (simp_all add: targets_def)
  obtain key where key: "find_record key ?j = Some ?r" "own_allocation (rec_owner ?r) = key"
  proof -
    obtain k where "(k, ?r) \<in> set (jr_records ?j)" using r(1) by (auto simp: bt_values_def)
    then have "find_record k ?j = Some ?r"
      using wf(1) bt_get_iff_mem[of "jr_records ?j"] by (simp add: find_record_def wf_journal_def)
    moreover from this have "own_allocation (rec_owner ?r) = k"
      using wf(1) wf_journal_record wf_record_def by blast
    ultimately show ?thesis using that by blast
  qed
  obtain m where m: "rec_manifest ?r = Some m" using r(2) by (auto simp: is_target_def)
  have stopped: "rec_stopped ?r" "rec_retirement ?r = None"
    using r assms(3) by (auto simp: recovering_def)
  obtain g where g: "w_fence (he_world H) (Suc (hs_step s)) m = Inr g" "gr_state g = GStopped" "gr_cleanup_confirmed g"
    using assms(2) unfolding healthy_def by blast
  let ?s = "s\<lparr>hs_step := Suc (Suc (hs_step s))\<rparr>"
  obtain t where t: "host_released H key ?s = (Inr (), t)" "serving C t" "j_retained (hs_journal t) = releases {key} ?j"
    using host_released_clean[of C ?s key ?r H] assms(1,2) key(1) r(2) by auto
  have "snd (observe_record H ?r s) = t"
    using g t(1) m key(2) stopped
    by (simp add: observe_record_def retirement_check_def host_cleanup_def sbind_def Let_def)
  moreover have "recovery_targets H (bt_values (jr_records ?j)) s = (Inr (targets ?j), s)"
    using assms(3) by (simp add: recovering_def recovery_targets_stopped targets_def)
  ultimately have "reconcile_one H cursor True s = (Inr (), t)"
    using assms(4) wf(2) by (simp add: reconcile_one_def get_journal_def sbind_def)
  then show ?thesis using key(1) r(2) t by blast
qed

lemma reconcile_idle:
  assumes "serving C s" "recovering (j_retained (hs_journal s))" "targets (j_retained (hs_journal s)) = []"
  shows "reconcile_one H cursor True s = (Inr (), s)"
proof -
  let ?j = "j_retained (hs_journal s)"
  have "recovery_targets H (bt_values (jr_records ?j)) s = (Inr [], s)"
    using assms(2,3) by (simp add: recovering_def recovery_targets_stopped targets_def)
  then show ?thesis using assms(1) by (simp add: reconcile_one_def get_journal_def sbind_def serving_def)
qed

text \<open>A pass that finds the gate of its record taken changes nothing.\<close>

lemma reconcile_busy:
  assumes "serving C s" "recovering (j_retained (hs_journal s))"
  shows "reconcile_one H cursor False s = (Inr (), s)"
proof -
  let ?j = "j_retained (hs_journal s)"
  have "recovery_targets H (bt_values (jr_records ?j)) s = (Inr (targets ?j), s)"
    using assms(2) by (simp add: recovering_def recovery_targets_stopped targets_def)
  then show ?thesis using assms(1) by (simp add: reconcile_one_def get_journal_def sbind_def serving_def)
qed

text \<open>A series of maintenance passes: the value of the cursor and whether the gate is free.\<close>

fun reconcile_passes :: "host_env \<Rightarrow> (nat \<times> bool) list \<Rightarrow> host_state \<Rightarrow> host_state" where
  "reconcile_passes H [] s = s"
| "reconcile_passes H ((c, free) # cs) s = reconcile_passes H cs (snd (reconcile_one H c free s))"

definition target_keys :: "retained \<Rightarrow> string set" where
  "target_keys j = {key. \<exists>r. (key, r) \<in> set (jr_records j) \<and> is_target r}"

lemma target_keys_releases: "target_keys (releases S j) \<subseteq> target_keys j"
  by (force simp: target_keys_def releases_def release_at_def split: if_splits)

lemma passes_release_all:
  assumes "serving C s" "healthy H (j_retained (hs_journal s))" "recovering (j_retained (hs_journal s))"
    "length (targets (j_retained (hs_journal s))) \<le> length (filter snd passes)"
  shows "serving C (reconcile_passes H passes s) \<and>
    targets (j_retained (hs_journal (reconcile_passes H passes s))) = [] \<and>
    (\<exists>S \<subseteq> target_keys (j_retained (hs_journal s)).
       j_retained (hs_journal (reconcile_passes H passes s)) = releases S (j_retained (hs_journal s)))"
  using assms
proof (induction passes arbitrary: s)
  case Nil
  then show ?case by (auto intro!: exI[of _ "{}"] simp: releases_none)
next
  case (Cons x cs)
  obtain c free where x: "x = (c, free)" by (cases x)
  let ?j = "j_retained (hs_journal s)"
  show ?case
  proof (cases "targets ?j = [] \<or> \<not> free")
    case True
    then have "reconcile_one H c free s = (Inr (), s)"
      using Cons.prems reconcile_idle[of C s H c] reconcile_busy[of C s H c] by (cases free) auto
    then have "reconcile_passes H (x # cs) s = reconcile_passes H cs s" by (simp add: x)
    moreover have "length (targets ?j) \<le> length (filter snd cs)" using Cons.prems(4) True by (auto simp: x)
    ultimately show ?thesis using Cons.IH[OF Cons.prems(1-3)] by simp
  next
    case False
    obtain key r t where step: "find_record key ?j = Some r" "is_target r" "reconcile_one H c True s = (Inr (), t)"
      "serving C t" "j_retained (hs_journal t) = releases {key} ?j"
      using reconcile_releases[OF Cons.prems(1-3)] False by blast
    have less: "length (targets (releases {key} ?j)) < length (targets ?j)"
      using fewer_targets step(1,2) Cons.prems(1) unfolding serving_def by blast
    have "serving C (reconcile_passes H cs t) \<and> targets (j_retained (hs_journal (reconcile_passes H cs t))) = [] \<and>
      (\<exists>S \<subseteq> target_keys (j_retained (hs_journal t)).
         j_retained (hs_journal (reconcile_passes H cs t)) = releases S (j_retained (hs_journal t)))"
      using Cons.IH[OF step(4)] Cons.prems healthy_releases recovering_releases step(5) less False x by simp
    then obtain S where S: "S \<subseteq> target_keys (releases {key} ?j)"
      "j_retained (hs_journal (reconcile_passes H cs t)) = releases (insert key S) ?j"
      "serving C (reconcile_passes H cs t)" "targets (j_retained (hs_journal (reconcile_passes H cs t))) = []"
      by (auto simp: step(5) releases_more)
    moreover have "key \<in> target_keys ?j"
      using step(1,2) by (auto simp: target_keys_def find_record_def dest: bt_get_in_set)
    ultimately show ?thesis using step(3) False x target_keys_releases by (auto intro!: exI[of _ "insert key S"])
  qed
qed

text \<open>So the rows that were to be released are, and the others are as they were.\<close>

lemma released_rows:
  assumes "recovering j" "targets (releases S j) = []" "S \<subseteq> target_keys j" "wf_journal C j"
  shows "jr_records (releases S j) = map (\<lambda>(key, r). (key, if rec_manifest r = None then r else release_row r)) (jr_records j)"
proof -
  have "release_at S (key, r) = (key, if rec_manifest r = None then r else release_row r)"
    if row: "(key, r) \<in> set (jr_records j)" for key r
  proof -
    have stopped: "rec_stopped r" using assms(1) row by (force simp: recovering_def bt_values_def)
    have key: "key \<in> S \<longleftrightarrow> is_target r"
    proof
      assume "key \<in> S"
      then obtain r' where "(key, r') \<in> set (jr_records j)" "is_target r'" using assms(3) by (auto simp: target_keys_def)
      then show "is_target r" using row assms(4) by (simp add: wf_journal_def) (metis bt_get_iff_mem option.inject)
    next
      assume target: "is_target r"
      show "key \<in> S"
      proof (rule ccontr)
        assume "key \<notin> S"
        then have "(key, r) \<in> set (jr_records (releases S j))"
          using row by (auto simp: releases_def intro!: rev_image_eqI[OF row])
        then have "r \<in> set (targets (releases S j))" using target by (force simp: targets_def bt_values_def)
        then show False using assms(2) by simp
      qed
    qed
    have "release_row r = r" if "rec_released r" using that stopped by (simp add: release_row_def)
    then show ?thesis using key by (auto simp: is_target_def)
  qed
  then show ?thesis by (auto simp: releases_def intro!: map_cong)
qed

end
