(* ===== verification/Host_Admission.thy ===== *)
theory Host_Admission
  imports Host_Recovery
begin

text \<open>
  What a successful start and a successful admission establish: every retained row is stopped
  under the new epoch, and the machines that run fit the capacity of the host.
\<close>

section \<open>A successful save\<close>

lemma put_journal_ok:
  assumes "json_faithful (hj_retained (he_json H))" "put_journal H j s = (Inr (), t)"
  shows "\<not> j_poisoned (hs_journal t)" "j_retained (hs_journal t) = j"
    "disk_of (hj_retained (he_json H)) (hs_files t) = Some j"
proof -
  obtain x fs where w: "journal_write (hj_retained (he_json H)) (w_save (he_world H) (hs_step s)) j (hs_files s) = (x, fs)"
    by (metis surj_pair)
  have ok: "\<not> j_poisoned (hs_journal s)" "x = Inr ()"
    and t: "t = set_poisoned False (set_poisoned True (set_retained j s)\<lparr>hs_step := Suc (hs_step s), hs_files := fs\<rparr>)"
    using assms(2) w
    by (auto simp: put_journal_def save_journal_def set_retained_def set_poisoned_def split: sum.splits)
  show "\<not> j_poisoned (hs_journal t)" "j_retained (hs_journal t) = j"
    by (simp_all add: t set_retained_def set_poisoned_def)
  show "disk_of (hj_retained (he_json H)) (hs_files t) = Some j"
    using journal_write_cases(2)[OF assms(1) w] ok(2) by (simp add: t set_poisoned_def)
qed

lemma put_journal_kept:
  "put_journal H j s = (Inr (), t) \<Longrightarrow> j_retained (hs_journal t) = j"
  by (auto simp: put_journal_def save_journal_def sbind_def set_retained_def set_poisoned_def
      split: prod.splits sum.splits if_splits)

lemma put_journal_poisons:
  "put_journal H j s = (Inl e, t) \<Longrightarrow> j_poisoned (hs_journal t)"
  by (auto simp: put_journal_def save_journal_def sbind_def set_retained_def set_poisoned_def sensure_def
      split: prod.splits sum.splits if_splits)

section \<open>A successful start\<close>

lemma journal_open_rows:
  assumes "json_faithful (hj_retained (he_json H))" "journal_open H oe s = (Inr j, t)"
  shows "\<not> j_poisoned (hs_journal t)" "j_retained (hs_journal t) = j"
    "disk_of (hj_retained (he_json H)) (hs_files t) = Some j" "jr_epoch j = cfg_epoch (he_config H)"
    "\<forall>r \<in> set (bt_values (jr_records j)). rec_stopped r"
    "\<And>k. disk_of (hj_retained (he_json H)) (hs_files s) = Some k \<Longrightarrow>
      jr_epoch k < cfg_epoch (he_config H) \<and> jr_host k = cfg_host (he_config H) \<and>
      jr_records j = map stop_row (jr_records k)"
proof -
  obtain s1 where c: "journal_checked H oe s = (Inr j, s1)" and p: "put_journal H j s1 = (Inr (), t)"
    using assms(2) by (auto simp: journal_open_checked)
  show "\<not> j_poisoned (hs_journal t)" "j_retained (hs_journal t) = j"
    "disk_of (hj_retained (he_json H)) (hs_files t) = Some j"
    using put_journal_ok[OF assms(1) p] by simp_all
  obtain k s2 s3 rs where
    read: "(case st_main (hs_files s) of Some f \<Rightarrow> slift (journal_read H f) | None \<Rightarrow> journal_initial H oe) s = (Inr k, s2)"
    and rows: "open_records H oe (jr_authority k) (jr_records k) s2 = (Inr rs, s3)"
    and j: "j = k\<lparr>jr_epoch := cfg_epoch (he_config H), jr_records := rs\<rparr>"
    using c by (auto simp: journal_checked_def)
  have rs: "rs = map stop_row (jr_records k)" using open_records_rows[OF rows] by simp
  show "jr_epoch j = cfg_epoch (he_config H)" by (simp add: j)
  show "\<forall>r \<in> set (bt_values (jr_records j)). rec_stopped r"
    by (auto simp: j rs bt_values_def stop_row_def)
  show "jr_epoch k' < cfg_epoch (he_config H) \<and> jr_host k' = cfg_host (he_config H) \<and>
      jr_records j = map stop_row (jr_records k')"
    if "disk_of (hj_retained (he_json H)) (hs_files s) = Some k'" for k'
    using that read by (auto simp: disk_of_def journal_read_def j rs split: option.splits)
qed

lemma authority_open_rows:
  assumes "json_faithful (hj_retained (he_json H))" "authority_open H j s = (Inr a, t)"
    "\<not> j_poisoned (hs_journal s)" "j_retained (hs_journal s) = j"
    "disk_of (hj_retained (he_json H)) (hs_files s) = Some j"
  shows "\<not> j_poisoned (hs_journal t) \<and> (\<exists>c. j_retained (hs_journal t) = j\<lparr>jr_authority := c\<rparr>) \<and>
    disk_of (hj_retained (he_json H)) (hs_files t) = Some (j_retained (hs_journal t))"
proof (cases "jr_authority j")
  case None
  then have "t = s" using assms(2) by (auto simp: authority_open_def Let_def)
  moreover have "j = j\<lparr>jr_authority := None\<rparr>" using None by simp
  ultimately show ?thesis using assms(3-5) by metis
next
  case (Some kept)
  then obtain c s1 where "put_journal H (j\<lparr>jr_authority := c\<rparr>) s1 = (Inr (), t)"
    using assms(2) by (auto simp: authority_open_def Let_def)
  from put_journal_ok[OF assms(1) this] show ?thesis by auto
qed

lemma host_open_rows:
  assumes "json_faithful (hj_retained (he_json H))" "host_open H oe s = (Inr a, t)"
  defines "r \<equiv> j_retained (hs_journal t)"
  shows "\<not> j_poisoned (hs_journal t)" "disk_of (hj_retained (he_json H)) (hs_files t) = Some r"
    "jr_epoch r = cfg_epoch (he_config H)" "\<forall>x \<in> set (bt_values (jr_records r)). rec_stopped x"
    "\<And>k. disk_of (hj_retained (he_json H)) (hs_files s) = Some k \<Longrightarrow>
      jr_epoch k < cfg_epoch (he_config H) \<and> jr_host k = cfg_host (he_config H) \<and>
      jr_records r = map stop_row (jr_records k)"
proof -
  obtain j s1 t' where o: "journal_open H oe (set_poisoned False s) = (Inr j, s1)"
    and a: "authority_open H j s1 = (Inr a, t')" and t: "t = t'\<lparr>hs_downloads := []\<rparr>"
    using assms(2) by (auto simp: host_open_def split: prod.splits sum.splits)
  note opened = journal_open_rows[OF assms(1) o]
  note res = authority_open_rows[OF assms(1) a opened(1-3)]
  then obtain c where c: "r = j\<lparr>jr_authority := c\<rparr>" unfolding r_def t by auto
  show "\<not> j_poisoned (hs_journal t)" "disk_of (hj_retained (he_json H)) (hs_files t) = Some r"
    using res by (simp_all add: t r_def)
  show "jr_epoch r = cfg_epoch (he_config H)" "\<forall>x \<in> set (bt_values (jr_records r)). rec_stopped x"
    using opened(4,5) by (simp_all add: c)
  show "jr_epoch k < cfg_epoch (he_config H) \<and> jr_host k = cfg_host (he_config H) \<and>
      jr_records r = map stop_row (jr_records k)"
    if "disk_of (hj_retained (he_json H)) (hs_files s) = Some k" for k
    using opened(6)[of k] that by (simp add: c set_poisoned_def)
qed

section \<open>Capacity\<close>

text \<open>What the unreleased machines of a journal take, with the overhead the host adds to each.\<close>

definition in_use :: "(guardian_start \<Rightarrow> nat) \<Rightarrow> host_record \<Rightarrow> nat" where
  "in_use f r = (case rec_manifest r of None \<Rightarrow> 0 | Some m \<Rightarrow> if rec_released r then 0 else f (mn_start m))"

definition used :: "(guardian_start \<Rightarrow> nat) \<Rightarrow> retained \<Rightarrow> nat" where
  "used f j = sum_list (map (in_use f) (bt_values (jr_records j)))"

lemma saturating_add_min:
  "saturating_add_u64 (min a m) b = min (a + b) m" if "m = u64_limit - 1"
  using that by (simp add: saturating_add_u64_def)

lemma admit_totals:
  assumes "try_fold (admit_scan w) t rs = Inr t'"
    "tot_cpu t = min a (u64_limit - 1)" "tot_memory t = min b (u64_limit - 1)" "tot_disk t = min c (u64_limit - 1)"
  shows "tot_cpu t' = min (a + sum_list (map (in_use gs_vcpu) (bt_values rs))) (u64_limit - 1)"
    "tot_memory t' = min (b + sum_list (map (in_use (\<lambda>s. gs_memory_mib s + 128)) (bt_values rs))) (u64_limit - 1)"
    "tot_disk t' = min (c + sum_list (map (in_use (\<lambda>s. gs_disk_mib s + 401)) (bt_values rs))) (u64_limit - 1)"
proof -
  have "tot_cpu t' = min (a + sum_list (map (in_use gs_vcpu) (bt_values rs))) (u64_limit - 1) \<and>
    tot_memory t' = min (b + sum_list (map (in_use (\<lambda>s. gs_memory_mib s + 128)) (bt_values rs))) (u64_limit - 1) \<and>
    tot_disk t' = min (c + sum_list (map (in_use (\<lambda>s. gs_disk_mib s + 401)) (bt_values rs))) (u64_limit - 1)"
    using assms
  proof (induction rs arbitrary: t a b c)
    case Nil
    then show ?case by (simp add: bt_values_def)
  next
    case (Cons e rs)
    obtain key r where e: "e = (key, r)" by (cases e)
    obtain u where u: "admit_scan w t (key, r) = Inr u" "try_fold (admit_scan w) u rs = Inr t'"
      using Cons.prems(1) by (auto simp: e)
    define m where "m = u64_limit - 1"
    have "tot_cpu u = min (a + in_use gs_vcpu r) m"
      "tot_memory u = min (b + in_use (\<lambda>s. gs_memory_mib s + 128) r) m"
      "tot_disk u = min (c + in_use (\<lambda>s. gs_disk_mib s + 401) r) m"
      using u(1) Cons.prems(2-4)[folded m_def]
      by (auto simp: admit_scan_def in_use_def add_manifest_def saturating_add_min[OF m_def]
          split: option.splits if_splits)
    then show ?case using Cons.IH[OF u(2)] by (simp add: e bt_values_def add.assoc m_def)
  qed
  then show "tot_cpu t' = min (a + sum_list (map (in_use gs_vcpu) (bt_values rs))) (u64_limit - 1)"
    "tot_memory t' = min (b + sum_list (map (in_use (\<lambda>s. gs_memory_mib s + 128)) (bt_values rs))) (u64_limit - 1)"
    "tot_disk t' = min (c + sum_list (map (in_use (\<lambda>s. gs_disk_mib s + 401)) (bt_values rs))) (u64_limit - 1)"
    by simp_all
qed

lemma sum_insert_row:
  assumes "bt_ordered m" "bt_get key m = Some r"
  shows "sum_list (map f (bt_values (bt_insert key r' m))) + f r = sum_list (map f (bt_values m)) + (f r' :: nat)"
  using assms
proof (induction m)
  case (Cons e m)
  obtain k x where e: "e = (k, x)" by (cases e)
  show ?case
  proof (cases "key = k")
    case False
    then have "(key, r) \<in> set m" using Cons.prems(2) by (auto simp: e dest: bt_get_in_set)
    then have "k < key" using Cons.prems(1) by (auto simp: e)
    then show ?thesis using Cons False by (auto simp: e bt_values_def)
  qed (use Cons.prems in \<open>auto simp: e bt_values_def\<close>)
qed simp

text \<open>A check that saturates is exact once it passes.\<close>

lemma saturating_room:
  assumes "\<not> saturating_sub_u64 cap (min n (u64_limit - 1)) < need" "0 < need" "cap < u64_limit"
  shows "n + need \<le> cap"
  using assms by (auto simp: saturating_sub_u64_def min_def split: if_splits)

lemma used_admitted:
  assumes "wf_journal C j" "find_record key j = Some r" "in_use f r = 0"
    "rec_manifest r' = Some m" "\<not> rec_released r'"
  shows "used f (put_record key r' j) = used f j + f (mn_start m)"
  using sum_insert_row[of "jr_records j" key r "in_use f" r'] assms
  by (simp add: used_def put_record_def wf_journal_def find_record_def in_use_def)

text \<open>The rows of a sandbox other than the one that is admitted.\<close>

definition superseded :: "ownership \<Rightarrow> host_record \<Rightarrow> bool" where
  "superseded w r =
     (own_project (rec_owner r) = own_project w \<and> own_generation (rec_owner r) < own_generation w \<and>
      rec_stopped r \<and> (rec_manifest r = None \<or> rec_released r))"

lemma admit_scan_others:
  assumes "try_fold (admit_scan w) t rs = Inr t'" "(key, r) \<in> set rs"
    "key \<noteq> own_allocation w" "own_sandbox (rec_owner r) = own_sandbox w"
  shows "superseded w r"
  using assms
proof (induction rs arbitrary: t)
  case (Cons e rs)
  then obtain u where u: "admit_scan w t e = Inr u" "try_fold (admit_scan w) u rs = Inr t'" by auto
  show ?case
  proof (cases "e = (key, r)")
    case True
    then show ?thesis using u(1) Cons.prems(3,4) by (auto simp: admit_scan_def superseded_def split: if_splits)
  next
    case False
    then show ?thesis using Cons.IH[OF u(2)] Cons.prems by simp
  qed
qed simp

end
