(* ===== verification/Host_Samples.thy ===== *)
theory Host_Samples
  imports Host_Admission Samples
begin

text \<open>
  A small host for the witnesses of the host's properties: one image, a world that answers
  without faults, and one allocation. The journal's encoder knows the journals the witnesses
  go through.
\<close>

section \<open>The world\<close>

definition sample_world :: world where
  "sample_world =
     \<lparr>w_wall = (\<lambda>_. 1000), w_save = (\<lambda>n. \<lparr>se_fault = NoFault, se_id = (1, n)\<rparr>),
      w_gate = (\<lambda>_. \<lparr>ge_root = True, ge_flock = (\<lambda>_. Locked),
        ge_new_lock = \<lparr>mf_bytes = [], mf_private = True, mf_links = 1, mf_id = (1, 0)\<rparr>, ge_path_id = None\<rparr>),
      w_control = (\<lambda>_ _ _. Inl ()),
      w_fence = (\<lambda>_ m. Inr \<lparr>gr_version = 1, gr_owner = gs_owner (mn_start m), gr_digest = [], gr_host_boot_id = [],
        gr_state = GStopped, gr_cleanup_confirmed = True, gr_renewal_revision = 0, gr_expires = 0,
        gr_guardian_pid = None, gr_guardian_ticks = None, gr_firecracker_pid = None, gr_cgroup_inode = None,
        gr_reason = None, gr_identity_digest = None, gr_identity_expires = None, gr_guest_boot_id = None\<rparr>),
      w_prepare = (\<lambda>_ _. True), w_spawn = (\<lambda>_. True), w_path_exists = (\<lambda>_ _. Inr False),
      w_client = (\<lambda>_ _. Inl ()), w_execute = (\<lambda>_ _. Inl ()), w_inspect = (\<lambda>_ _. Inl ()), w_cancel = (\<lambda>_ _. Inl ()),
      w_fresh = (\<lambda>_. OperationId (sample_uuid 900)), w_turns = (\<lambda>_. 0), w_receipt = (\<lambda>_ _. Inl ()),
      w_retire = (\<lambda>_ _. Inl ()), w_file_io = (\<lambda>_. True), w_gate_free = (\<lambda>_. True), w_readers_done = (\<lambda>_. True),
      w_begin_upload = (\<lambda>_ _. Inl ()), w_commit_upload = (\<lambda>_ _. Inl ()), w_abort_upload = (\<lambda>_ _. Inl ()),
      w_inspect_upload = (\<lambda>_ _. Inl ()), w_write_file = (\<lambda>_ _ _ _. Inl ()),
      w_session = (\<lambda>_ _ _ _. Inl SessionFailed), w_remove_all = (\<lambda>_. False), w_plan_removed = (\<lambda>_ _ _ _. False),
      w_verify_absent = (\<lambda>_ _. False), w_root_sync = (\<lambda>_. True), w_mono = (\<lambda>n. n), w_pin = (\<lambda>_. True),
      w_workers = (\<lambda>_. True), w_source = (\<lambda>_ _ _ _ _ _. Inl Unavailable),
      w_store = (\<lambda>_. \<lparr>as_reconcile = (\<lambda>_ _ _. Inl StoreMissing), as_upload = (\<lambda>_ _ _ _. Inl ())\<rparr>),
      w_timely = (\<lambda>_. True), w_output = (\<lambda>_ _. Inl ()), w_capture = (\<lambda>_ _. Inl ()),
      w_read_file = (\<lambda>_ _ _ _. Inl ()), w_release_file = (\<lambda>_ _. Inl ())\<rparr>"

lemma sample_answers [simp]:
  "w_wall sample_world n = 1000" "w_save sample_world n = \<lparr>se_fault = NoFault, se_id = (1, n)\<rparr>"
  "w_control sample_world n m a = Inl ()" "w_prepare sample_world n m" "w_spawn sample_world n"
  "w_turns sample_world n = 0"
  by (simp_all add: sample_world_def)

definition sample_artifact :: "string \<Rightarrow> artifact" where
  "sample_artifact p = \<lparr>art_path = p, art_sha256 = replicate 64 (CHR ''a'')\<rparr>"

definition sample_image :: string where "sample_image = ''sha256:'' @ replicate 64 (CHR ''b'')"

definition sample_config :: "int \<Rightarrow> host_config" where
  "sample_config e =
     \<lparr>cfg_capabilities = None, cfg_permits_required = False, cfg_host = sample_host, cfg_epoch = e,
      cfg_state_root = ''/s'', cfg_cgroup_parent = ''/sys/fs/cgroup/s'', cfg_guardian_binary = ''/g'',
      cfg_firecracker = sample_artifact ''/f'', cfg_jailer = sample_artifact ''/j'',
      cfg_images = [(sample_image, \<lparr>hi_kernel = sample_artifact ''/k'', hi_rootfs = sample_artifact ''/r''\<rparr>)],
      cfg_jail_uid = 65534, cfg_jail_gid = 65534,
      cfg_capacity = \<lparr>hc_vcpu = 8, hc_memory_mib = 16384, hc_disk_mib = 65536\<rparr>\<rparr>"

section \<open>One allocation\<close>

definition sample_key :: string where
  "sample_key = show_allocation ref_crates (AllocationId (sample_uuid 101))"

definition sample_owner :: ownership where
  "sample_owner =
     \<lparr>own_host = show_host ref_crates sample_host, own_project = show_project ref_crates (ProjectId (sample_uuid 2)),
      own_sandbox = show_sandbox ref_crates (SandboxId (sample_uuid 3)), own_allocation = sample_key,
      own_operation = show_operation ref_crates (OperationId (sample_uuid 201)), own_generation = 1, own_epoch = 1,
      own_revision = 1, own_expires = 2000\<rparr>"

definition sample_create :: create_request where
  "sample_create =
     \<lparr>cq_permit_json = [], cq_ownership = Some sample_owner, cq_image = sample_image,
      cq_resources = Some \<lparr>res_vcpu = 1, res_memory_mib = 512, res_disk_mib = 1024\<rparr>, cq_expires = 2000\<rparr>"

definition sample_manifest :: manifest where
  "sample_manifest =
     \<lparr>mn_launch_permit = None,
      mn_config = guardian_config_of (sample_config 1)
        \<lparr>hi_kernel = sample_artifact ''/k'', hi_rootfs = sample_artifact ''/r''\<rparr>,
      mn_start = \<lparr>gs_owner = \<lparr>go_host = sample_host, go_project = ProjectId (sample_uuid 2),
                    go_sandbox = SandboxId (sample_uuid 3), go_allocation = AllocationId (sample_uuid 101),
                    go_create_operation = OperationId (sample_uuid 201), go_generation = 1, go_epoch = 1\<rparr>,
                  gs_vcpu = 1, gs_memory_mib = 512, gs_disk_mib = 1024, gs_expires = 2000\<rparr>\<rparr>"

section \<open>Its journals\<close>

text \<open>The row after each step of a create, of a stop and of a release.\<close>

definition row_fresh :: host_record where "row_fresh = fresh_record sample_owner"
definition row_fenced :: host_record where
  "row_fenced = row_fresh\<lparr>rec_revisions := [(own_operation sample_owner, 1)]\<rparr>"
definition row_admitted :: host_record where
  "row_admitted = row_fenced\<lparr>rec_create := Some sample_create, rec_manifest := Some sample_manifest\<rparr>"
definition row_launched :: host_record where "row_launched = row_admitted\<lparr>rec_dispatched := True\<rparr>"
definition row_halted :: host_record where "row_halted = row_launched\<lparr>rec_stopped := True\<rparr>"
definition row_freed :: host_record where "row_freed = row_halted\<lparr>rec_released := True\<rparr>"
definition row_kept :: host_record where "row_kept = row_fenced\<lparr>rec_stopped := True\<rparr>"

definition sample_journal :: "int \<Rightarrow> host_record list \<Rightarrow> retained" where
  "sample_journal e rs =
     \<lparr>jr_authority = None, jr_version = 1, jr_host = sample_host, jr_epoch = e,
      jr_records = map (Pair sample_key) rs\<rparr>"

definition sample_retained_json :: "retained json" where
  "sample_retained_json =
     table_json [sample_journal 1 [], sample_journal 1 [row_fresh], sample_journal 1 [row_fenced],
       sample_journal 1 [row_admitted], sample_journal 1 [row_launched], sample_journal 1 [row_halted],
       sample_journal 1 [row_freed], sample_journal 2 [row_kept], sample_journal 2 [row_halted], sample_journal 2 [row_freed]]"

definition sample_json :: host_json where
  "sample_json =
     \<lparr>hj_retained = sample_retained_json, hj_record = table_json [], hj_permits = table_json [],
      hj_permit = table_json [], hj_execute = table_json [], hj_upload = table_json [], hj_file = table_json [],
      hj_manifest = table_json [sample_manifest], hj_retire = table_json [],
      hj_launch = \<lparr>lj_required = table_json [], lj_saved = table_json [], lj_ledger = table_json [],
        lj_intent = table_json []\<rparr>,
      hj_ticket = table_json [], hj_plans = table_json [], hj_refs = table_json [], hj_live = table_json [],
      hj_scope = table_json [], hj_forget = table_json []\<rparr>"

definition sample_env :: "int \<Rightarrow> host_env" where
  "sample_env e =
     \<lparr>he_crates = ref_crates, he_json = sample_json, he_config = sample_config e, he_authority = None,
      he_artifacts = False, he_world = sample_world\<rparr>"

definition sample_open :: open_env where
  "sample_open =
     \<lparr>oe_config_ok = True, oe_root = True, oe_lock = True, oe_entries = 1, oe_is_root = True,
      oe_receipt = (\<lambda>_. Inl ()), oe_removed = (\<lambda>_ _ _. False), oe_session = (\<lambda>_ _ _. False), oe_required = \<lparr>se_fault = NoFault, se_id = (1, 1)\<rparr>\<rparr>"

text \<open>A process that has not started, and a host that serves the journal it last saved.\<close>

definition sample_saved :: "retained option \<Rightarrow> nat \<Rightarrow> staged" where
  "sample_saved d k =
     \<lparr>st_main = (case d of None \<Rightarrow> None
        | Some j \<Rightarrow> map_option (\<lambda>b. new_file b (1, k)) (to_vec sample_retained_json j)),
      st_next = None\<rparr>"

definition sample_cold :: "retained option \<Rightarrow> host_state" where
  "sample_cold d =
     \<lparr>hs_journal = \<lparr>j_retained = sample_journal 0 [], j_poisoned = True\<rparr>, hs_files = sample_saved d 0,
      hs_launch = \<lparr>ld_lock = None, ld_required = None, ld_files = \<lparr>st_main = None, st_next = None\<rparr>, ld_others = 0\<rparr>,
      hs_downloads = [], hs_step = 0, hs_effects = []\<rparr>"

definition sample_at :: "retained \<Rightarrow> nat \<Rightarrow> nat \<Rightarrow> effect list \<Rightarrow> host_state" where
  "sample_at j k n es =
     (sample_cold None)\<lparr>hs_journal := \<lparr>j_retained = j, j_poisoned = False\<rparr>,
       hs_files := sample_saved (Some j) k, hs_step := n, hs_effects := es\<rparr>"

section \<open>A run: start, create, and the same create again\<close>

lemma sample_shows [simp]:
  "parse_host ref_crates (show_host ref_crates sample_host) = Inr sample_host"
  "n < 2^62 \<Longrightarrow> parse_project ref_crates (show_project ref_crates (ProjectId (sample_uuid n))) = Inr (ProjectId (sample_uuid n))"
  "n < 2^62 \<Longrightarrow> parse_sandbox ref_crates (show_sandbox ref_crates (SandboxId (sample_uuid n))) = Inr (SandboxId (sample_uuid n))"
  "n < 2^62 \<Longrightarrow> parse_allocation ref_crates (show_allocation ref_crates (AllocationId (sample_uuid n))) = Inr (AllocationId (sample_uuid n))"
  "n < 2^62 \<Longrightarrow> parse_operation ref_crates (show_operation ref_crates (OperationId (sample_uuid n))) = Inr (OperationId (sample_uuid n))"
  by (simp_all add: id_roundtrips[OF ref_uuid_laws] sample_host_def)

lemma sample_env_simps [simp]:
  "he_crates (sample_env e) = ref_crates" "he_json (sample_env e) = sample_json"
  "he_config (sample_env e) = sample_config e" "he_authority (sample_env e) = None"
  "he_world (sample_env e) = sample_world" "hj_retained sample_json = sample_retained_json"
  by (simp_all add: sample_env_def sample_json_def)

lemma sample_config_simps [simp]:
  "cfg_host (sample_config e) = sample_host" "cfg_epoch (sample_config e) = e"
  "cfg_capabilities (sample_config e) = None" "\<not> cfg_permits_required (sample_config e)"
  "hc_vcpu (cfg_capacity (sample_config e)) = 8" "hc_memory_mib (cfg_capacity (sample_config e)) = 16384"
  "hc_disk_mib (cfg_capacity (sample_config e)) = 65536"
  by (simp_all add: sample_config_def)

lemma sample_config_ok: "0 < e \<Longrightarrow> host_config_ok (sample_config e)"
  by (simp add: host_config_ok_def sample_config_def valid_image_digest_def sample_image_def path_absolute_def
     strip_prefix_def lower_hex_def list_all_iff ascii_digit_def)

lemma sample_journal_simps [simp]:
  "jr_authority (sample_journal e rs) = None" "jr_version (sample_journal e rs) = 1"
  "jr_host (sample_journal e rs) = sample_host" "jr_epoch (sample_journal e rs) = e"
  "jr_records (sample_journal e rs) = map (Pair sample_key) rs"
  "put_record sample_key r (sample_journal e []) = sample_journal e [r]"
  "put_record sample_key r (sample_journal e [q]) = sample_journal e [r]"
  "find_record sample_key (sample_journal e []) = None"
  "find_record sample_key (sample_journal e [q]) = Some q"
  "(sample_journal e rs)\<lparr>jr_epoch := f, jr_records := []\<rparr> = sample_journal f []"
  "(sample_journal e rs)\<lparr>jr_epoch := f, jr_records := [(sample_key, r)]\<rparr> = sample_journal f [r]"
  by (simp_all add: sample_journal_def put_record_def find_record_def)


lemma row_steps [simp]:
  "fresh_record sample_owner = row_fresh"
  "row_fresh\<lparr>rec_revisions := [(show_operation ref_crates (OperationId (sample_uuid 201)), 1)]\<rparr> = row_fenced"
  "row_fenced\<lparr>rec_create := Some sample_create, rec_manifest := Some sample_manifest\<rparr> = row_admitted"
  "row_admitted\<lparr>rec_dispatched := True\<rparr> = row_launched"
  by (simp_all add: row_fresh_def row_fenced_def row_admitted_def row_launched_def sample_owner_def)

lemmas row_defs = row_fresh_def row_fenced_def row_admitted_def row_launched_def row_halted_def row_freed_def
  row_kept_def fresh_record_def

lemma row_fields [simp]:
  "rec_owner row_fresh = sample_owner" "rec_retirement row_fresh = None" "rec_revisions row_fresh = []"
  "rec_create row_fresh = None" "rec_create row_fenced = None" "rec_manifest row_fenced = None"
  "\<not> rec_stopped row_fenced" "rec_owner row_fenced = sample_owner"
  by (simp_all add: row_defs)

lemma sample_encoded [simp]:
  "to_vec sample_retained_json (sample_journal 1 []) = Some []"
  "to_vec sample_retained_json (sample_journal 1 [row_fresh]) = Some [1]"
  "to_vec sample_retained_json (sample_journal 1 [row_fenced]) = Some [1, 1]"
  "to_vec sample_retained_json (sample_journal 1 [row_admitted]) = Some [1, 1, 1]"
  "to_vec sample_retained_json (sample_journal 1 [row_launched]) = Some [1, 1, 1, 1]"
  "to_vec sample_retained_json (sample_journal 1 [row_halted]) = Some [1, 1, 1, 1, 1]"
  "to_vec sample_retained_json (sample_journal 1 [row_freed]) = Some [1, 1, 1, 1, 1, 1]"
  "to_vec sample_retained_json (sample_journal 2 [row_kept]) = Some [1, 1, 1, 1, 1, 1, 1]"
  "to_vec sample_retained_json (sample_journal 2 [row_halted]) = Some [1, 1, 1, 1, 1, 1, 1, 1]"
  "to_vec sample_retained_json (sample_journal 2 [row_freed]) = Some [1, 1, 1, 1, 1, 1, 1, 1, 1]"
  by (simp_all add: sample_retained_json_def table_json_def sample_journal_def row_defs numeral_eq_Suc)
lemma sample_at_simps [simp]:
  "hs_journal (sample_at j k n es) = \<lparr>j_retained = j, j_poisoned = False\<rparr>"
  "hs_step (sample_at j k n es) = n" "hs_effects (sample_at j k n es) = es"
  "(sample_at j k n es)\<lparr>hs_step := m\<rparr> = sample_at j k m es"
  "(sample_at j k n es)\<lparr>hs_effects := fs\<rparr> = sample_at j k n fs"
  by (simp_all add: sample_at_def)

lemma put_sample [simp]:
  assumes "to_vec sample_retained_json i = Some b" "length b < 20"
  shows "put_journal (sample_env e) i (sample_at j k n es) = (Inr (), sample_at i n (Suc n) es)"
  using assms
  by (simp add: sample_at_def put_journal_def save_journal_def journal_write_def journal_clear_next_def sbind_def
      set_retained_def set_poisoned_def publish_clean ok_or_def sample_cold_def sample_saved_def journal_max_bytes_def)

lemma get_sample [simp]: "get_journal (sample_at j k n es) = (Inr j, sample_at j k n es)"
  by (simp add: get_journal_def sbind_def)


lemma sample_open_simps [simp]:
  "oe_config_ok sample_open" "oe_root sample_open" "oe_lock sample_open" "oe_entries sample_open = 1"
  by (simp_all add: sample_open_def)

lemma sample_authority:
  "authority_open (sample_env e) (sample_journal f rs) s = (Inr None, s)"
  by (simp add: authority_open_def sbind_def Let_def)

lemma put_cold:
  assumes "to_vec sample_retained_json j = Some b" "length b < 20"
  shows "put_journal (sample_env e) j (set_poisoned False (sample_cold d)) = (Inr (), sample_at j 0 1 [])"
  using assms
  by (simp add: sample_at_def put_journal_def save_journal_def journal_write_def journal_clear_next_def sbind_def
      set_retained_def set_poisoned_def publish_clean ok_or_def sample_cold_def sample_saved_def journal_max_bytes_def)

lemma cold_simps [simp]:
  "hs_files (set_poisoned False (sample_cold d)) = sample_saved d 0"
  "hs_files (sample_cold d) = sample_saved d 0" "hs_effects (sample_cold d) = []"
  "j_poisoned (hs_journal (sample_cold d))" "st_main (sample_saved None k) = None"
  "st_main (sample_saved (Some j) k) = map_option (\<lambda>b. new_file b (1, k)) (to_vec sample_retained_json j)"
  by (simp_all add: set_poisoned_def sample_cold_def sample_saved_def)

lemma sample_opened:
  assumes "journal_open (sample_env e) sample_open (set_poisoned False (sample_cold d)) =
    (Inr (sample_journal e rs), sample_at (sample_journal e rs) 0 1 [])" "0 < e"
  shows "host_open (sample_env e) sample_open (sample_cold d) = (Inr None, sample_at (sample_journal e rs) 0 1 [])"
proof -
  have "(sample_at j k n es)\<lparr>hs_downloads := []\<rparr> = sample_at j k n es" for j k n es
    by (simp add: sample_at_def sample_cold_def)
  then show ?thesis using assms
    by (simp add: host_open_def sbind_def sample_config_ok sample_authority)
qed

lemma sample_started:
  "host_open (sample_env 1) sample_open (sample_cold None) =
     (Inr None, sample_at (sample_journal 1 []) 0 1 [])"
proof (rule sample_opened)
  have "journal_initial (sample_env 1) sample_open s = (Inr (sample_journal 1 []), s)" for s
    by (simp add: journal_initial_def sbind_def sample_journal_def)
  then show "journal_open (sample_env 1) sample_open (set_poisoned False (sample_cold None)) =
      (Inr (sample_journal 1 []), sample_at (sample_journal 1 []) 0 1 [])"
    by (simp add: journal_open_def sbind_def bt_values_def Let_def put_cold)
qed simp

lemma sample_deadline [simp]: "check_deadline (sample_env e) 2000 (sample_at j k n es) = (Inr (), sample_at j k (Suc n) es)"
  by (simp add: check_deadline_def sbind_def Let_def checked_sub_i64_def in_i64_def)

lemma sample_owner_simps [simp]:
  "own_allocation sample_owner = sample_key" "own_expires sample_owner = 2000" "own_revision sample_owner = 1"
  "own_generation sample_owner = 1" "own_epoch sample_owner = 1" "own_host sample_owner = show_host ref_crates sample_host"
  "own_operation sample_owner = show_operation ref_crates (OperationId (sample_uuid 201))"
  "own_project sample_owner = show_project ref_crates (ProjectId (sample_uuid 2))"
  "own_sandbox sample_owner = show_sandbox ref_crates (SandboxId (sample_uuid 3))"
  by (simp_all add: sample_owner_def)

lemma sample_key_parsed [simp]: "parse_allocation ref_crates sample_key = Inr (AllocationId (sample_uuid 101))"
  by (simp add: sample_key_def)

lemma sample_image_known [simp]:
  "bt_get sample_image (cfg_images (sample_config e)) =
     Some \<lparr>hi_kernel = sample_artifact ''/k'', hi_rootfs = sample_artifact ''/r''\<rparr>"
  by (simp add: sample_config_def)

lemma sample_config_same: "guardian_config_of (sample_config e) = guardian_config_of (sample_config 1)"
  by (rule ext) (simp add: guardian_config_of_def sample_config_def)

lemma sample_machine [simp]:
  "gs_vcpu (mn_start sample_manifest) = 1" "gs_memory_mib (mn_start sample_manifest) = 512"
  "gs_disk_mib (mn_start sample_manifest) = 1024"
  by (simp_all add: sample_manifest_def)

lemma sample_create_simps [simp]:
  "cq_permit_json sample_create = []" "cq_ownership sample_create = Some sample_owner"
  "cq_expires sample_create = 2000" "cq_image sample_create = sample_image"
  "cq_resources sample_create = Some \<lparr>res_vcpu = 1, res_memory_mib = 512, res_disk_mib = 1024\<rparr>"
  by (simp_all add: sample_create_def)

lemma sample_checked [simp]:
  "check_owner (sample_env 1) (Some sample_owner) (sample_at j k n es) = (Inr sample_owner, sample_at j k (Suc n) es)"
  by (simp add: check_owner_def sbind_def Let_def)

lemma sample_gate: "host_gate (sample_env 1) sample_owner (sample_at (sample_journal 1 []) k n es) =
   (Inr (), sample_at (sample_journal 1 [row_fresh]) n (Suc n) es)"
  by (simp add: host_gate_def sbind_def max_records_def authorize_new_def )

lemma sample_host_fence: "host_fence (sample_env 1) sample_owner (sample_at (sample_journal 1 [row_fresh]) k n es) =
   (Inr (row_fenced), sample_at (sample_journal 1 [row_fenced]) (Suc n) (Suc (Suc n)) es)"
  by (simp add: host_fence_def sbind_def   same_allocation_def retirement_check_def Let_def)

lemma sample_manifested: "host_manifest (sample_env 1) sample_owner sample_create (sample_at j k n es) =
   (Inr sample_manifest, sample_at j k (Suc n) es)"
  by (simp add: host_manifest_def sbind_def Let_def supported_iff sample_manifest_def) 

lemma sample_admitted: "host_admit (sample_env 1) sample_owner sample_create sample_manifest (sample_at (sample_journal 1 [row_fenced]) k n es) =
   (Inr (row_admitted), sample_at (sample_journal 1 [row_admitted]) n (Suc n) es)"
  by (simp add: host_admit_def sbind_def Let_def admit_scan_def saturating_sub_u64_def) 

lemma sample_launched: "launch_guardian (sample_env 1) sample_owner (row_admitted) sample_manifest (sample_at (sample_journal 1 [row_admitted]) k n es) =
   (Inl uncertain, sample_at (sample_journal 1 [row_launched]) (n + 2) (n + 6) (es @ [StartedGuardian sample_key]))"
  by (simp add: launch_guardian_def not_prepared_def mark_dispatched_def bind_guest_def sbind_def Let_def numeral_eq_Suc)

lemma row_launched_fields [simp]:
  "rec_owner row_launched = sample_owner" "rec_retirement row_launched = None"
  "rec_revisions row_launched = [(own_operation sample_owner, 1)]"
  "rec_create row_launched = Some sample_create" "rec_manifest row_launched = Some sample_manifest"
  "\<not> rec_stopped row_launched" "\<not> rec_released row_launched"
  "row_launched\<lparr>rec_revisions := [(show_operation ref_crates (OperationId (sample_uuid 201)), 1)]\<rparr> = row_launched"
  "row_launched\<lparr>rec_stopped := True, rec_released := True\<rparr> = row_freed"
  by (simp_all add: row_defs)

lemma sample_created:
  "snd (create_sync (sample_env 1) sample_create (sample_at (sample_journal 1 []) k n es)) =
     sample_at (sample_journal 1 [row_launched]) (n + 8) (n + 12) (es @ [StartedGuardian sample_key])"
  by (simp add: create_sync_def sbind_def authorize_create_def sample_gate sample_host_fence sample_manifested
      sample_admitted sample_launched numeral_eq_Suc)

text \<open>The same request again: the guardian is not started twice, and without an answer from it
  the allocation is released.\<close>

lemma sample_repeated:
  "snd (create_sync (sample_env 1) sample_create (sample_at (sample_journal 1 [row_launched]) k n es)) =
     sample_at (sample_journal 1 [row_freed]) (n + 5) (n + 7) es"
proof -
  have gate: "host_gate (sample_env 1) sample_owner (sample_at (sample_journal 1 [row_launched]) k n es) =
      (Inr (), sample_at (sample_journal 1 [row_launched]) k n es)" for k n
    by (simp add: host_gate_def sbind_def same_allocation_def retirement_check_def)
  have fence: "host_fence (sample_env 1) sample_owner (sample_at (sample_journal 1 [row_launched]) k n es) =
      (Inr row_launched, sample_at (sample_journal 1 [row_launched]) (Suc n) (Suc (Suc n)) es)" for k n
    using row_launched_fields(8)
    by (simp add: host_fence_def sbind_def same_allocation_def retirement_check_def Let_def)
  have "\<exists>g. w_fence sample_world n m = Inr g" for n m by (simp add: sample_world_def)
  then obtain g where g: "\<And>n m. w_fence sample_world n m = Inr (g n m)" by metis
  have "snd (observe_and_report (sample_env 1) sample_owner row_launched
      (sample_at (sample_journal 1 [row_launched]) k n es)) =
      sample_at (sample_journal 1 [row_freed]) (n + 2) (n + 4) es" for k n
    using g by (simp add: observe_and_report_def observe_record_def bind_guest_def host_released_def make_observation_def
        sbind_def retirement_check_def numeral_eq_Suc)
  then show ?thesis
    by (simp add: create_sync_def sbind_def authorize_create_def gate fence numeral_eq_Suc)
qed


definition sample_run :: host_run where
  "sample_run =
     map (Pair (sample_env 1)) [OpOpen sample_open, OpCreate sample_create, OpCreate sample_create]"

lemma snd_served: "snd (served m s) = snd (m s)"
  by (simp add: served_def sbind_def split: prod.splits sum.splits)

lemma sample_ran:
  "host_run sample_run (sample_cold None) = sample_at (sample_journal 1 [row_freed]) 18 20 [StartedGuardian sample_key]"
  by (simp add: sample_run_def snd_served sample_started sample_created sample_repeated)

lemma table_decoded: "from_slice (table_json xs) b = Some x \<Longrightarrow> x \<in> set xs"
  by (auto simp: table_json_def split: if_splits)

lemma sample_host_codecs: "host_codecs ref_crates sample_retained_json"
proof -
  have "json_ordered sample_retained_json"
    unfolding json_ordered_def sample_retained_json_def
    by (auto dest!: table_decoded simp: ordered_row_def row_defs)
  then show ?thesis
    by (simp add: host_codecs_def ref_uuid_laws sample_retained_json_def table_json_faithful)
qed

lemma sample_disk:
  "to_vec sample_retained_json j = Some b \<Longrightarrow> disk_of sample_retained_json (hs_files (sample_at j k n es)) = Some j"
  "to_vec sample_retained_json j = Some b \<Longrightarrow> disk_of sample_retained_json (sample_saved (Some j) k) = Some j"
  using json_faithfulD[OF table_json_faithful]
  by (auto simp: disk_of_def sample_at_def sample_saved_def sample_retained_json_def)

lemma sample_unknown: "to_vec sample_retained_json (sample_journal 9 []) = None"
  by (simp add: sample_retained_json_def table_json_def sample_journal_def)

lemma sample_run_of: "run_of ref_crates sample_retained_json sample_run" "run_forgets sample_run = {}"
  by (simp_all add: run_of_def run_forgets_def sample_run_def forgets_def)

section \<open>A restart\<close>

lemma row_fenced_fields:
  "\<not> rec_released row_fenced" "\<not> rec_dispatched row_fenced" "rec_retirement row_fenced = None"
  "rec_commands row_fenced = []" "rec_files row_fenced = []" "rec_archives row_fenced = []"
  "rec_metadata row_fenced = None" "live_slot row_fenced d = None" "released_slot row_fenced d = None"
  "length (rec_revisions row_fenced) = 1" "row_fenced\<lparr>rec_stopped := True\<rparr> = row_kept"
  by (cases d; simp add: row_defs live_slot_def released_slot_def)+

lemma sample_row_opened:
  "open_record (sample_env 2) sample_open None (sample_key, row_fenced) s = (Inr (sample_key, row_kept), s)"
  by (simp add: open_record_def sbind_def Let_def row_fenced_fields ownership_validate_def
      retirement_validate_retained_def deletion_validate_def manifest_validate_retained_def
      contents_validate_retained_def history_validate_slot_def released_validate_slot_def max_commands_def
      max_files_def max_reserved_bytes_def bt_values_def)

lemma sample_restarted:
  "host_open (sample_env 2) sample_open (sample_cold (Some (sample_journal 1 [row_fenced]))) =
     (Inr None, sample_at (sample_journal 2 [row_kept]) 0 1 [])"
proof (rule sample_opened)
  have "from_slice sample_retained_json [1, 1] = Some (sample_journal 1 [row_fenced])"
    by (simp add: sample_retained_json_def table_json_def)
  then have "journal_read (sample_env 2) (new_file [1, 1] (1, 0)) = Inr (sample_journal 1 [row_fenced])"
    by (simp add: journal_read_def max_records_def journal_max_bytes_def)
  then show "journal_open (sample_env 2) sample_open
      (set_poisoned False (sample_cold (Some (sample_journal 1 [row_fenced])))) =
      (Inr (sample_journal 2 [row_kept]), sample_at (sample_journal 2 [row_kept]) 0 1 [])"
    by (simp add: journal_open_def sbind_def Let_def put_cold sample_row_opened bt_values_def row_fenced_fields
        max_host_files_def)
qed simp

text \<open>A restart after a launch: the machine is to be released.\<close>

lemma row_launched_contents:
  "rec_commands row_launched = []" "rec_files row_launched = []" "rec_archives row_launched = []"
  "rec_metadata row_launched = None" "live_slot row_launched d = None" "released_slot row_launched d = None"
  "length (rec_revisions row_launched) = 1" "row_launched\<lparr>rec_stopped := True\<rparr> = row_halted"
  by (cases d; simp add: row_defs live_slot_def released_slot_def)+

lemma sample_manifest_ok: "manifest_validate ref_crates (table_json [sample_manifest]) True sample_manifest = Inr ()"
proof -
  have "path_components ''/sys/fs/cgroup/s'' = [''/'', ''sys'', ''fs'', ''cgroup'', ''s'']"
    "path_components ''/sys/fs/cgroup/'' = [''/'', ''sys'', ''fs'', ''cgroup'']"
    "path_components ''/sys/fs/cgroup'' = [''/'', ''sys'', ''fs'', ''cgroup'']"
    "path_components ''/s/a'' = [''/'', ''s'', ''a'']"
    by code_simp+
  moreover have "length (manifest_socket ref_crates sample_manifest) < 100"
    using uuid_lawsD(2)[OF ref_uuid_laws]
    by (simp add: manifest_socket_def manifest_directory_def path_join_def sample_manifest_def guardian_config_of_def
        sample_config_def show_allocation_def display_prefixed_def Let_def)
  moreover have "artifact_ok (sample_artifact p)" if "take 1 p = ''/''" for p
    using that by (simp add: sample_artifact_def artifact_ok_def path_absolute_def lower_hex_def list_all_iff ascii_digit_def)
  moreover have "to_vec (table_json [x]) x = Some []" for x :: manifest by (simp add: table_json_def)
  ultimately show ?thesis
    by (simp add: manifest_validate_def sample_manifest_def guardian_config_of_def sample_config_def path_join_def Let_def
        supported_iff path_absolute_def path_starts_with_def path_eq_def)
qed

lemma sample_manifest_opened:
  "manifest_validate_retained (sample_env 2) True receipt sample_key row_launched = Inr ()"
proof -
  have "path_eq (gc_state_root (mn_config sample_manifest)) (path_join (cfg_state_root (sample_config 2)) ''a'')"
    by (simp add: sample_manifest_def guardian_config_of_def sample_config_def path_eq_def)
  moreover have "gs_owner (mn_start sample_manifest) = \<lparr>go_host = sample_host, go_project = ProjectId (sample_uuid 2),
      go_sandbox = SandboxId (sample_uuid 3), go_allocation = AllocationId (sample_uuid 101),
      go_create_operation = OperationId (sample_uuid 201), go_generation = 1, go_epoch = 1\<rparr>"
    by (simp add: sample_manifest_def)
  ultimately show ?thesis
    using sample_manifest_ok by (simp add: manifest_validate_retained_def Let_def sample_json_def sample_key_def)
qed

lemma sample_launched_opened:
  "open_record (sample_env 2) sample_open None (sample_key, row_launched) s = (Inr (sample_key, row_halted), s)"
proof -
  have "oe_is_root sample_open" by (simp add: sample_open_def)
  then show ?thesis
    using sample_manifest_opened
    by (simp add: open_record_def sbind_def Let_def row_launched_contents ownership_validate_def
        retirement_validate_retained_def deletion_validate_def
        contents_validate_retained_def history_validate_slot_def released_validate_slot_def max_commands_def
        max_files_def max_reserved_bytes_def bt_values_def)
qed

lemma sample_reopened:
  "host_open (sample_env 2) sample_open (sample_cold (Some (sample_journal 1 [row_launched]))) =
     (Inr None, sample_at (sample_journal 2 [row_halted]) 0 1 [])"
proof (rule sample_opened)
  have "from_slice sample_retained_json [1, 1, 1, 1] = Some (sample_journal 1 [row_launched])"
    by (simp add: sample_retained_json_def table_json_def)
  then have "journal_read (sample_env 2) (new_file [1, 1, 1, 1] (1, 0)) = Inr (sample_journal 1 [row_launched])"
    by (simp add: journal_read_def max_records_def journal_max_bytes_def)
  then show "journal_open (sample_env 2) sample_open
      (set_poisoned False (sample_cold (Some (sample_journal 1 [row_launched])))) =
      (Inr (sample_journal 2 [row_halted]), sample_at (sample_journal 2 [row_halted]) 0 1 [])"
    by (simp add: journal_open_def sbind_def Let_def put_cold sample_launched_opened bt_values_def row_launched_contents
        max_host_files_def)
qed simp

lemma sample_wf:
  assumes "r = row_fenced \<or> r = row_halted" shows "wf_journal ref_crates (sample_journal e [r])"
proof -
  have "live_slot row_halted d = None" for d by (cases d; simp add: row_defs live_slot_def)
  moreover have "wf_record ref_crates sample_key r"
    using assms row_fenced_fields(8) calculation
    by (auto simp: wf_record_def well_keyed_def bt_contains_def row_defs)
  then show ?thesis
    by (auto simp: wf_journal_def max_records_def find_record_def sample_journal_def)
qed

end
