(* ===== verification/Host_Properties.thy ===== *)
theory Host_Properties
  imports Host_Samples
begin

text \<open>
  What the host guarantees along any run of requests and restarts: requests that leave the
  process leave it once, rows only advance, the journal it serves is well formed, a failed save
  stops it, a start stops every allocation, maintenance releases what a start stopped, and
  admission stays within the capacity.
\<close>

section \<open>Runs\<close>

text \<open>C1: From a process that has not started, whatever the disk holds and however its writes and
  the answers of guardians and guests turn out over a run of requests and restarts, no request
  about an allocation that the run does not forget leaves the process twice: no command is sent
  to a guest twice, no guardian is started twice, and no upload is begun, committed or aborted
  twice.\<close>

theorem host_sends_once:
  assumes "host_codecs C J" "run_of C J run" "key \<notin> run_forgets run"
    and "j_poisoned (hs_journal s)" "hs_effects s = []"
  shows "distinct (filter (\<lambda>e. effect_key e = key) (hs_effects (host_run run s)))"
proof -
  have "good C {key} (disk_of J (hs_files s)) (view {key} J (host_run run s))"
    using assms by (intro kept_run good_cold) auto
  then show ?thesis by (simp add: good_def view_def)
qed

theorem host_sends_once_witness:
  "hs_effects (host_run sample_run (sample_cold None)) = [StartedGuardian sample_key] \<and>
   distinct (filter (\<lambda>e. effect_key e = sample_key) (hs_effects (host_run sample_run (sample_cold None))))"
  using host_sends_once[OF sample_host_codecs sample_run_of(1), of sample_key "sample_cold None"] sample_run_of(2)
  by (simp add: sample_ran)

text \<open>C2: Once the file of the journal holds a row, every later file of the run holds a row of the
  same allocation with the same owner, in which a stop, a release, a dispatch, a create with its
  manifest and a retirement are never taken back, and no operation that was ruled out is open
  again, as long as the run does not forget the allocation.\<close>

theorem host_rows_advance:
  assumes "host_codecs C J" "run_of C J (before @ run)" "key \<notin> run_forgets (before @ run)"
    and "j_poisoned (hs_journal s)" "hs_effects s = []"
    and "disk_of J (hs_files (host_run before s)) = Some j" "find_record key j = Some r"
  shows "\<exists>j' r'. disk_of J (hs_files (host_run run (host_run before s))) = Some j' \<and>
    find_record key j' = Some r' \<and> record_advances C r r'"
proof -
  have runs: "run_of C J before" "run_of C J run" "{key} \<inter> run_forgets before = {}" "{key} \<inter> run_forgets run = {}"
    using assms(2,3) by (auto simp: run_of_def run_forgets_def)
  have "good C {key} (disk_of J (hs_files s)) (view {key} J (host_run before s))"
    using assms runs by (intro kept_run good_cold) auto
  then have "good C {key} (Some j) (view {key} J (host_run before s))"
    using assms(6) by (simp add: good_def view_def)
  from kept_run[OF assms(1) runs(2,4) this]
  have "good C {key} (Some j) (view {key} J (host_run run (host_run before s)))" .
  then show ?thesis
    using assms(7) by (auto simp: good_def view_def disk_advances_def advances_def split: option.splits)
qed

theorem host_rows_advance_witness:
  "\<exists>r'. find_record sample_key (sample_journal 1 [row_freed]) = Some r' \<and>
    record_advances ref_crates row_launched r'"
proof -
  let ?before = "map (Pair (sample_env 1)) [OpOpen sample_open, OpCreate sample_create]"
  let ?run = "[(sample_env 1, OpCreate sample_create)]"
  have "host_run ?before (sample_cold None) = sample_at (sample_journal 1 [row_launched]) 9 13 [StartedGuardian sample_key]"
    by (simp add: snd_served sample_started sample_created)
  moreover have "host_run ?run (sample_at (sample_journal 1 [row_launched]) 9 13 [StartedGuardian sample_key]) =
      sample_at (sample_journal 1 [row_freed]) 18 20 [StartedGuardian sample_key]"
    by (simp add: snd_served sample_repeated)
  moreover have "?before @ ?run = sample_run" by (simp add: sample_run_def)
  ultimately show ?thesis
    using host_rows_advance[OF sample_host_codecs, of ?before ?run sample_key "sample_cold None" "sample_journal 1 [row_launched]"
        row_launched] sample_run_of
    by (simp add: sample_disk)
qed

text \<open>C3: The journal in the memory of a host that serves is well formed at every point of a run:
  ordered and within its bounds, each row under its own allocation, released only when stopped
  and launched, with a manifest exactly when it has a create, and with its operations, uploads
  and archives ordered, bounded and named by operations.\<close>

theorem host_journal_typed:
  assumes "host_codecs C J" "run_of C J run" "j_poisoned (hs_journal s)"
    and "\<not> j_poisoned (hs_journal (host_run run s))"
  shows "wf_journal C (j_retained (hs_journal (host_run run s)))"
proof -
  have "good C {} (disk_of J (hs_files s)) (view {} J (host_run run s))"
    using assms by (intro kept_run good_cold) auto
  then show ?thesis using assms(4) by (simp add: good_def view_def)
qed

theorem host_journal_typed_witness: "wf_journal ref_crates (sample_journal 1 [row_freed])"
  using host_journal_typed[OF sample_host_codecs sample_run_of(1), of "sample_cold None"]
  by (simp add: sample_ran)

section \<open>Failure\<close>

lemma refused_run:
  assumes "j_poisoned (hs_journal t)" "\<forall>(H, op) \<in> set run. \<not> is_open op"
  shows "hs_journal (host_run run t) = hs_journal t \<and> hs_files (host_run run t) = hs_files t \<and>
    hs_effects (host_run run t) = hs_effects t"
  using assms
proof (induction run arbitrary: t)
  case (Cons x run)
  obtain H op where x: "x = (H, op)" by (cases x)
  have "refuses (host_serve H op)" using Cons.prems(2) x by (intro refuses_serve) auto
  then have "hs_journal (snd (host_serve H op t)) = hs_journal t \<and> hs_files (snd (host_serve H op t)) = hs_files t \<and>
      hs_effects (snd (host_serve H op t)) = hs_effects t"
    using Cons.prems(1) by (simp add: refuses_def)
  then show ?case using Cons.IH[of "snd (host_serve H op t)"] Cons.prems x by simp
qed simp

text \<open>C4: After a save that fails, every request fails until the process starts again, and none of
  them changes the journal or its file or sends anything.\<close>

theorem failed_save_stops:
  assumes "put_journal H r s = (Inl e, t)" "\<forall>(H', op) \<in> set run. \<not> is_open op" "\<not> is_open op"
  shows "\<not> is_ok (fst (host_serve H'' op (host_run run t))) \<and>
    hs_journal (host_run run t) = hs_journal t \<and> hs_files (host_run run t) = hs_files t \<and>
    hs_effects (host_run run t) = hs_effects t"
proof -
  have "j_poisoned (hs_journal t)" using assms(1) by (rule put_journal_poisons)
  then show ?thesis
    using refused_run[OF _ assms(2)] refuses_serve[OF assms(3), of H''] by (simp add: refuses_def)
qed

theorem failed_save_stops_witness:
  "\<not> is_ok (fst (host_serve (sample_env 1) (OpCreate sample_create)
     (snd (put_journal (sample_env 1) (sample_journal 9 []) (sample_at (sample_journal 1 []) 0 0 [])))))"
proof -
  let ?s = "sample_at (sample_journal 1 []) 0 0 []"
  obtain e t where put: "put_journal (sample_env 1) (sample_journal 9 []) ?s = (Inl e, t)"
    by (simp add: put_journal_def save_journal_def journal_write_def sbind_def set_retained_def set_poisoned_def
        sample_unknown ok_or_def)
  then show ?thesis
    using failed_save_stops[OF put, of "[]" "OpCreate sample_create" "sample_env 1"] by (simp add: is_open_def)
qed

section \<open>Starts\<close>

text \<open>C5: A start that succeeds serves the journal that its file holds, under the epoch of the
  configuration, with every row stopped; its rows are those of the file it read, which was saved
  by the same host under an earlier epoch.\<close>

theorem host_start_stops:
  assumes "json_faithful (hj_retained (he_json H))" "host_open H oe s = (Inr a, t)"
  shows "\<not> j_poisoned (hs_journal t) \<and>
    disk_of (hj_retained (he_json H)) (hs_files t) = Some (j_retained (hs_journal t)) \<and>
    jr_epoch (j_retained (hs_journal t)) = cfg_epoch (he_config H) \<and>
    (\<forall>r \<in> set (bt_values (jr_records (j_retained (hs_journal t)))). rec_stopped r) \<and>
    (\<forall>j. disk_of (hj_retained (he_json H)) (hs_files s) = Some j \<longrightarrow>
      jr_epoch j < cfg_epoch (he_config H) \<and> jr_host j = cfg_host (he_config H) \<and>
      jr_records (j_retained (hs_journal t)) = map (\<lambda>(key, r). (key, r\<lparr>rec_stopped := True\<rparr>)) (jr_records j))"
proof -
  have "stop_row = (\<lambda>(key, r). (key, r\<lparr>rec_stopped := True\<rparr>))" by (rule ext) (simp add: stop_row_def split: prod.splits)
  then show ?thesis using host_open_rows[OF assms] by simp
qed

theorem host_start_stops_witness:
  "jr_records (sample_journal 2 [row_kept]) = [(sample_key, row_fenced\<lparr>rec_stopped := True\<rparr>)] \<and>
   rec_stopped row_kept"
  using host_start_stops[OF _ sample_restarted] sample_host_codecs
  by (simp add: host_codecs_def sample_disk bt_values_def)

lemma put_journal_settled: "put_journal H j s = (Inr (), t) \<Longrightarrow> st_next (hs_files t) = None"
  by (auto simp: put_journal_def save_journal_def journal_write_def sbind_def set_retained_def set_poisoned_def
      split: prod.splits sum.splits if_splits dest!: publish_ok)

lemma authority_open_settled:
  assumes "authority_open H j s = (Inr a, t)" "st_next (hs_files s) = None"
  shows "st_next (hs_files t) = None"
proof (cases "jr_authority j")
  case None
  then show ?thesis using assms by (auto simp: authority_open_def Let_def)
next
  case (Some kept)
  then obtain c s1 where "put_journal H (j\<lparr>jr_authority := c\<rparr>) s1 = (Inr (), t)"
    using assms(1) by (auto simp: authority_open_def Let_def)
  then show ?thesis by (rule put_journal_settled)
qed

text \<open>A host that has started serves.\<close>

lemma started_serving:
  assumes "host_codecs C J" "he_crates H = C" "hj_retained (he_json H) = J"
    and "j_poisoned (hs_journal s)" "host_open H oe s = (Inr a, t)"
  shows "serving C t"
proof -
  have J: "json_faithful J" "json_ordered J" using assms(1) by (simp_all add: host_codecs_def)
  have ok: "\<not> j_poisoned (hs_journal t)" using host_open_rows(1)[of H oe s a t] J(1) assms(3,5) by simp
  have "good C {} (disk_of J (hs_files s)) (view {} J (snd (host_open H oe s)))"
    using good_host_open[of H "{}" "disk_of J (hs_files s)" s oe] good_cold[of s "{}" C J] J assms(2-4) by simp
  then have wf: "wf_journal C (j_retained (hs_journal t))" using assms(5) ok by (simp add: good_def view_def)
  obtain j s1 t' where o: "journal_open H oe (set_poisoned False s) = (Inr j, s1)"
    and a: "authority_open H j s1 = (Inr a, t')" and t: "t = t'\<lparr>hs_downloads := []\<rparr>"
    using assms(5) by (auto simp: host_open_def split: prod.splits sum.splits)
  obtain s0 where "put_journal H j s0 = (Inr (), s1)" using o by (auto simp: journal_open_checked)
  then have "st_next (hs_files t) = None"
    using authority_open_settled[OF a] put_journal_settled by (simp add: t)
  then show ?thesis using ok wf by (simp add: serving_def)
qed

text \<open>C6: Maintenance finishes what a start leaves. After a successful start from a process that had
  not started, which stops every row, take a machine in which cleanup fences and confirms, no write
  fails, and the journal stays within its size while rows are released; and let no row that is
  still to be released be frozen by a retirement. Then a series of maintenance passes, with any
  cursors and with whichever gates taken, among which at least as many find the gate of their
  record free as there are rows to release, leaves the host serving with every machine that was ever launched
  released, and every other row as it was.\<close>

theorem recovery_completes:
  assumes "host_codecs C J" "he_crates H = C" "hj_retained (he_json H) = J"
    and "j_poisoned (hs_journal s)" "host_open H oe s = (Inr a, t)"
    and "healthy H (j_retained (hs_journal t))"
    and "\<forall>r \<in> set (bt_values (jr_records (j_retained (hs_journal t)))).
      rec_manifest r \<noteq> None \<and> \<not> rec_released r \<longrightarrow> rec_retirement r = None"
    and "length (targets (j_retained (hs_journal t))) \<le> length (filter snd passes)"
  shows "serving C (reconcile_passes H passes t) \<and>
    jr_records (j_retained (hs_journal (reconcile_passes H passes t))) =
      map (\<lambda>(key, r). (key, if rec_manifest r = None then r else r\<lparr>rec_stopped := True, rec_released := True\<rparr>))
        (jr_records (j_retained (hs_journal t)))"
proof -
  let ?j = "j_retained (hs_journal t)"
  have up: "serving C t" using started_serving[OF assms(1-5)] .
  have "json_faithful (hj_retained (he_json H))" using assms(1,3) by (simp add: host_codecs_def)
  then have "recovering ?j"
    using host_open_rows(4)[OF _ assms(5)] assms(7) by (auto simp: recovering_def is_target_def)
  then show ?thesis
    using passes_release_all[OF up assms(6) _ assms(8)] released_rows[of ?j _ C] up
    by (auto simp: serving_def[of C t] release_row_def)
qed

theorem recovery_completes_witness:
  "jr_records (j_retained (hs_journal (reconcile_passes (sample_env 2) [(5, False), (7, True)]
     (sample_at (sample_journal 2 [row_halted]) 0 1 [])))) = [(sample_key, row_freed)] \<and> \<not> rec_released row_halted"
proof -
  let ?j = "sample_journal 2 [row_halted]"
  have released: "releases S ?j = sample_journal 2 [if sample_key \<in> S then row_freed else row_halted]" for S
    by (simp add: releases_def sample_journal_def release_row_def row_defs)
  have "\<exists>b. to_vec sample_retained_json (releases S ?j) = Some b \<and> length b \<le> journal_max_bytes" for S
    by (simp add: released journal_max_bytes_def)
  moreover have "\<exists>g. w_fence sample_world n m = Inr g \<and> gr_state g = GStopped \<and> gr_cleanup_confirmed g" for n m
    by (simp add: sample_world_def)
  ultimately have "healthy (sample_env 2) ?j"
    by (simp add: healthy_def)
  moreover have "length (targets ?j) \<le> 1" "\<forall>r \<in> set (bt_values (jr_records ?j)). rec_retirement r = None"
    by (simp_all add: targets_def bt_values_def row_defs)
  moreover have "j_poisoned (hs_journal (sample_cold (Some (sample_journal 1 [row_launched]))))" by (simp add: sample_cold_def)
  ultimately show ?thesis
    using recovery_completes[OF sample_host_codecs _ _ _ sample_reopened, of "[(5, False), (7, True)]"]
    by (simp add: row_defs)
qed

section \<open>Admission\<close>

text \<open>C7: An admitted allocation leaves the host within its capacity: the processors, the memory with
  128 MiB and the disk with 401 MiB for each unreleased machine sum to no more than what the
  configuration grants, although the code adds with saturation; and every other allocation of the
  sandbox is an earlier generation of the same project, stopped, and released if it was launched.\<close>

theorem admission_within_capacity:
  assumes "host_admit H w q m s = (Inr r, t)"
    and "wf_journal C (j_retained (hs_journal s))"
    and "find_record (own_allocation w) (j_retained (hs_journal s)) = Some r0" "rec_manifest r0 = None"
    and "0 < gs_vcpu (mn_start m)" "hc_vcpu (cfg_capacity (he_config H)) < u64_limit"
    and "hc_memory_mib (cfg_capacity (he_config H)) < u64_limit" "hc_disk_mib (cfg_capacity (he_config H)) < u64_limit"
  shows "used gs_vcpu (j_retained (hs_journal t)) \<le> hc_vcpu (cfg_capacity (he_config H)) \<and>
    used (\<lambda>x. gs_memory_mib x + 128) (j_retained (hs_journal t)) \<le> hc_memory_mib (cfg_capacity (he_config H)) \<and>
    used (\<lambda>x. gs_disk_mib x + 401) (j_retained (hs_journal t)) \<le> hc_disk_mib (cfg_capacity (he_config H)) \<and>
    (\<forall>(key, x) \<in> set (jr_records (j_retained (hs_journal s))).
       key \<noteq> own_allocation w \<and> own_sandbox (rec_owner x) = own_sandbox w \<longrightarrow> superseded w x)"
proof -
  let ?j = "j_retained (hs_journal s)" and ?cap = "cfg_capacity (he_config H)"
  obtain u where u: "try_fold (admit_scan w) \<lparr>tot_cpu = 0, tot_memory = 0, tot_disk = 0\<rparr> (jr_records ?j) = Inr u"
    and room: "\<not> saturating_sub_u64 (hc_vcpu ?cap) (tot_cpu u) < gs_vcpu (mn_start m)"
      "\<not> saturating_sub_u64 (hc_memory_mib ?cap) (tot_memory u) < gs_memory_mib (mn_start m) + 128"
      "\<not> saturating_sub_u64 (hc_disk_mib ?cap) (tot_disk u) < gs_disk_mib (mn_start m) + 401"
    and put: "put_journal H (put_record (own_allocation w) (r0\<lparr>rec_create := Some q, rec_manifest := Some m\<rparr>) ?j) s = (Inr (), t)"
    using assms(1,3) by (auto simp: host_admit_def get_journal_def Let_def elim!: sbindE split: if_splits)
  have "\<not> rec_released r0"
    using wf_journal_record[OF assms(2,3)] assms(4) by (simp add: wf_record_def)
  then have used: "used f (j_retained (hs_journal t)) = used f ?j + f (mn_start m)" for f
    using put_journal_kept[OF put] used_admitted[OF assms(2,3)] assms(4) by (simp add: in_use_def)
  have totals: "tot_cpu u = min (used gs_vcpu ?j) (u64_limit - 1)"
    "tot_memory u = min (used (\<lambda>x. gs_memory_mib x + 128) ?j) (u64_limit - 1)"
    "tot_disk u = min (used (\<lambda>x. gs_disk_mib x + 401) ?j) (u64_limit - 1)"
    using admit_totals[OF u, of 0 0 0] by (simp_all add: used_def)
  show ?thesis
    using saturating_room[OF room(1)[unfolded totals(1)] assms(5,6)]
      saturating_room[OF room(2)[unfolded totals(2)] _ assms(7)]
      saturating_room[OF room(3)[unfolded totals(3)] _ assms(8)] admit_scan_others[OF u]
    by (auto simp: used)
qed

theorem admission_within_capacity_witness:
  "used gs_vcpu (sample_journal 1 [row_admitted]) \<le> 8"
proof -
  show ?thesis
    using admission_within_capacity[where C = ref_crates and ?r0.0 = row_fenced, OF sample_admitted[of 0 0 "[]"]] sample_wf
    by simp
qed

end
