(* ===== verification/State_Directory.thy ===== *)
theory State_Directory
  imports History "HOL-Library.AList"
begin

text \<open>
  A directory in which a guest engine keeps its records (\<open>runner.rs\<close> and \<open>files/fs.rs\<close> of
  \<open>crates/sandbox-guest/src\<close>): its entries in the order a listing returns them, the steps at
  which writing a record can fail, the text operations on names, and the calculus of outcomes in which both engines
  are proved.
\<close>

section \<open>Entries\<close>

datatype state_entry = PlainFile bytes | DirEntry | OtherEntry

type_synonym state_dir = "(string \<times> state_entry) list"

definition dir_get :: "string \<Rightarrow> state_dir \<Rightarrow> state_entry option" where
  "dir_get name d = map_of d name"

definition dir_put :: "string \<Rightarrow> state_entry \<Rightarrow> state_dir \<Rightarrow> state_dir" where
  "dir_put name e d = AList.update name e d"

definition dir_drop :: "string \<Rightarrow> state_dir \<Rightarrow> state_dir" where
  "dir_drop name d = AList.delete name d"

definition dir_names :: "state_dir \<Rightarrow> string list" where
  "dir_names d = map fst d"

lemma dir_get_put [simp]: "dir_get n (dir_put m e d) = (if n = m then Some e else dir_get n d)"
  by (simp add: dir_get_def dir_put_def AList.update_conv')

lemma dir_get_drop [simp]: "dir_get n (dir_drop m d) = (if n = m then None else dir_get n d)"
  by (simp add: dir_get_def dir_drop_def AList.delete_conv')

lemma dir_get_nil [simp]: "dir_get n [] = None"
  by (simp add: dir_get_def)

lemma dir_names_iff: "n \<in> set (dir_names d) \<longleftrightarrow> dir_get n d \<noteq> None"
  by (induction d) (auto simp: dir_names_def dir_get_def)

lemma dir_ext: "(\<And>n. dir_get n d = dir_get n e) \<Longrightarrow> map_of d = map_of e"
  by (rule ext) (simp add: dir_get_def)

section \<open>Writing a record\<close>

text \<open>
  A record is written to a new temporary file, synced, renamed over its name, and the directory
  is synced. A write that fails leaves nothing, leaves the temporary file, or has renamed it.
\<close>

datatype write_fault = WriteFine | WriteNothing | WriteLeft | WriteUnsynced

section \<open>Names\<close>

definition strip_suffix :: "string \<Rightarrow> string \<Rightarrow> string option" where
  "strip_suffix p s =
     (let n = length s - length p in
      if length p \<le> length s \<and> drop n s = p then Some (take n s) else None)"

fun strip_any :: "string list \<Rightarrow> string \<Rightarrow> string option" where
  "strip_any [] s = None"
| "strip_any (p # ps) s = (case strip_suffix p s of Some t \<Rightarrow> Some t | None \<Rightarrow> strip_any ps s)"

text \<open>\<open>Path::extension\<close> of a file name: after the last dot, unless that is the first character.\<close>

definition extension :: "string \<Rightarrow> string option" where
  "extension name =
     (let parts = split_on (CHR ''.'') name in
      if length parts < 2 \<or> (length parts = 2 \<and> hd parts = []) then None else Some (last parts))"

lemma strip_suffix_append [simp]: "strip_suffix p (s @ p) = Some s"
  by (simp add: strip_suffix_def)

lemma strip_suffix_Some: "strip_suffix p s = Some t \<longleftrightarrow> s = t @ p"
  by (auto simp: strip_suffix_def Let_def) (metis append_take_drop_id)

lemma extension_append:
  "CHR ''.'' \<notin> set s \<Longrightarrow> CHR ''.'' \<notin> set t \<Longrightarrow> s \<noteq> [] \<Longrightarrow> extension (s @ CHR ''.'' # t) = Some t"
  by (simp add: extension_def)

text \<open>The text of an identity, from which the names of its files are formed.\<close>

lemma operation_plain:
  assumes "uuid_laws C"
  shows "CHR ''.'' \<notin> set (show_operation C i)" "show_operation C i \<noteq> []"
    "4 \<le> length (show_operation C i)"
proof -
  have "CHR ''.'' \<notin> set (uuid_hyphenated C (operation_uuid i))"
  proof
    assume "CHR ''.'' \<in> set (uuid_hyphenated C (operation_uuid i))"
    then have "hyphen_hex (CHR ''.'')" using uuid_lawsD(3)[OF assms] unfolding list_all_iff by blast
    then show False by code_simp
  qed
  then show "CHR ''.'' \<notin> set (show_operation C i)" by (simp add: show_operation_def display_prefixed_def)
  show "show_operation C i \<noteq> []" "4 \<le> length (show_operation C i)"
    using uuid_lawsD(2)[OF assms, of "operation_uuid i"] by (simp_all add: show_operation_def display_prefixed_def)
qed

section \<open>What a stored barrier covers\<close>

definition covered :: "barrier option \<Rightarrow> operation_id \<Rightarrow> bool" where
  "covered b i = (case b of None \<Rightarrow> False | Some x \<Rightarrow> covers x i)"

lemma covered_simps [simp]: "\<not> covered None i" "covered (Some b) i = covers b i"
  by (simp_all add: covered_def)

text \<open>A barrier above the one in force.\<close>

definition above :: "barrier \<Rightarrow> barrier option \<Rightarrow> bool" where
  "above b c = (case c of None \<Rightarrow> True | Some x \<Rightarrow> bar_through x < bar_through b)"

lemma above_covers: "above b c \<Longrightarrow> covered c i \<Longrightarrow> covers b i"
  by (auto simp: above_def covered_def covers_def split: option.splits)

lemma get_uncovered [simp]:
  "bt_get i (filter (\<lambda>(j, _). \<not> covers b j) m) = (if covers b i then None else bt_get i m)"
  by (induction m) (auto split: if_splits)

lemma contains_uncovered [simp]:
  "bt_contains i (filter (\<lambda>(j, _). \<not> covers b j) m) = (\<not> covers b i \<and> bt_contains i m)"
  by (simp add: bt_contains_def)

section \<open>Outcomes\<close>

text \<open>\<open>outcome s m Q E\<close>: \<open>m\<close> from \<open>s\<close> succeeds in a state satisfying \<open>Q\<close> or fails in one satisfying \<open>E\<close>.\<close>

definition outcome ::
    "'s \<Rightarrow> ('s, unit, 'a) proc \<Rightarrow> ('a \<Rightarrow> 's \<Rightarrow> bool) \<Rightarrow> ('s \<Rightarrow> bool) \<Rightarrow> bool" where
  "outcome s m Q E = (case m s of (Inl _, t) \<Rightarrow> E t | (Inr a, t) \<Rightarrow> Q a t)"

named_theorems outcome_simps \<open>outcomes, by the structure of a method\<close>

lemma outcome_basic [outcome_simps]:
  "outcome s (sret a) Q E = Q a s" "outcome s (sfail ()) Q E = E s"
  "outcome s (sread f) Q\<^sub>1 E = Q\<^sub>1 (f s) s" "outcome s (swrite g) Q\<^sub>2 E = Q\<^sub>2 () (g s)"
  "outcome s (sensure c e) Q\<^sub>2 E = (if c then Q\<^sub>2 () s else E s)"
  by (simp_all add: outcome_def ensure_def)

lemma outcome_pair [outcome_simps]:
  "outcome s (Pair (Inr a)) Q E = Q a s" "outcome s (Pair (Inl e)) Q E = E s"
  by (simp_all add: outcome_def)

lemma outcome_sbind [outcome_simps]: "outcome s (sbind m f) Q E = outcome s m (\<lambda>a t. outcome t (f a) Q E) E"
  by (auto simp: outcome_def sbind_def split: prod.splits sum.splits)

lemma outcome_slift [outcome_simps]:
  "outcome s (slift x) Q E = ((\<forall>a. x = Inr a \<longrightarrow> Q a s) \<and> (x = Inl () \<longrightarrow> E s))"
  by (cases x) (auto simp: outcome_def)

lemma outcomeI: "(\<And>t. m s = (Inl (), t) \<Longrightarrow> E t) \<Longrightarrow> (\<And>a t. m s = (Inr a, t) \<Longrightarrow> Q a t) \<Longrightarrow> outcome s m Q E"
  by (auto simp: outcome_def split: prod.splits sum.splits)

lemma outcomeD:
  assumes "outcome s m Q E"
  shows "m s = (Inl e, t) \<Longrightarrow> E t" "m s = (Inr a, t) \<Longrightarrow> Q a t"
  using assms by (auto simp: outcome_def)

lemma outcome_mono:
  "outcome s m Q E \<Longrightarrow> (\<And>a t. Q a t \<Longrightarrow> Q' a t) \<Longrightarrow> (\<And>t. E t \<Longrightarrow> E' t) \<Longrightarrow> outcome s m Q' E'"
  by (auto simp: outcome_def split: prod.splits sum.splits)

lemma outcome_snd: "outcome s m (\<lambda>_. P) P \<longleftrightarrow> P (snd (m s))"
  by (auto simp: outcome_def split: prod.splits sum.splits)

lemma outcome_catch [outcome_simps]:
  "outcome t (\<lambda>s. case m s of (Inl e, s') \<Rightarrow> f s' | (Inr a, s') \<Rightarrow> g a s') Q E =
     outcome t m (\<lambda>a s'. outcome s' (g a) Q E) (\<lambda>s'. outcome s' f Q E)"
  by (auto simp: outcome_def split: prod.split sum.split)

section \<open>Engines over a directory\<close>

text \<open>
  An engine keeps its records in a directory and the rest of what it knows in memory. The client
  is the reasoning about which entries a method may change: \<open>touches P s t\<close> when the memory is as
  it was and only entries whose names satisfy \<open>P\<close> may have changed, \<open>reach P m\<close> when every outcome
  of \<open>m\<close> is such a step.
\<close>

named_theorems reach_intro \<open>the entries a method may change, by its structure\<close>

locale engine =
  fixes dir :: "'s \<Rightarrow> state_dir" and upd :: "(state_dir \<Rightarrow> state_dir) \<Rightarrow> 's \<Rightarrow> 's" and memory :: "'s \<Rightarrow> 'm"
  assumes dir_upd: "dir (upd f s) = f (dir s)" and memory_upd: "memory (upd f s) = memory s"
begin

definition aside :: "'s \<Rightarrow> 's \<Rightarrow> bool" where
  "aside s t = (memory t = memory s)"

definition touches :: "(string \<Rightarrow> bool) \<Rightarrow> 's \<Rightarrow> 's \<Rightarrow> bool" where
  "touches P s t = (aside s t \<and> (\<forall>n. \<not> P n \<longrightarrow> dir_get n (dir t) = dir_get n (dir s)))"

definition reach :: "(string \<Rightarrow> bool) \<Rightarrow> ('s, unit, 'a) proc \<Rightarrow> bool" where
  "reach P m = (\<forall>s. touches P s (snd (m s)))"

lemma aside_refl [simp]: "aside s s"
  by (simp add: aside_def)

lemma aside_trans: "aside s t \<Longrightarrow> aside t u \<Longrightarrow> aside s u"
  by (simp add: aside_def)

lemma touches_refl [simp]: "touches P s s"
  by (simp add: touches_def)

lemma touches_trans: "touches P s t \<Longrightarrow> touches P t u \<Longrightarrow> touches P s u"
  by (simp add: touches_def aside_def)

lemma touches_mono: "touches P s t \<Longrightarrow> (\<And>n. P n \<Longrightarrow> Q n) \<Longrightarrow> touches Q s t"
  by (auto simp: touches_def)

lemma touches_aside: "touches P s t \<Longrightarrow> aside s t"
  by (simp add: touches_def)

lemma reachD: "reach P m \<Longrightarrow> m s = (r, t) \<Longrightarrow> touches P s t"
  by (metis reach_def snd_conv)

lemma reach_pure [simp, reach_intro]:
  "reach P (sret a)" "reach P (sfail e)" "reach P (slift x)" "reach P (sread f)" "reach P (sensure c e')"
  by (simp_all add: reach_def)

lemma reach_sbind [reach_intro]:
  assumes m: "reach P m" and f: "\<And>a. reach P (f a)"
  shows "reach P (sbind m f)"
proof -
  have "touches P s (snd (sbind m f s))" for s
  proof (cases "m s")
    case (Pair x u)
    then have u: "touches P s u" using m by (rule reachD[rotated])
    show ?thesis
    proof (cases x)
      case (Inr a)
      have "touches P u (snd (f a u))" using f by (simp add: reach_def)
      then show ?thesis using u touches_trans by (simp add: sbind_def Pair Inr)
    qed (use u in \<open>simp add: sbind_def Pair\<close>)
  qed
  then show ?thesis by (simp add: reach_def)
qed

lemma reach_if [reach_intro]: "(b \<Longrightarrow> reach P m) \<Longrightarrow> (\<not> b \<Longrightarrow> reach P n) \<Longrightarrow> reach P (if b then m else n)"
  by simp

lemma reach_option [reach_intro]:
  "(x = None \<Longrightarrow> reach P m) \<Longrightarrow> (\<And>a. x = Some a \<Longrightarrow> reach P (f a)) \<Longrightarrow>
    reach P (case x of None \<Rightarrow> m | Some a \<Rightarrow> f a)"
  by (cases x) simp_all

lemma reach_pair [reach_intro]: "(\<And>a b. reach P (f a b)) \<Longrightarrow> reach P (case x of (a, b) \<Rightarrow> f a b)"
  by (cases x) simp

lemma reach_entry [reach_intro]:
  "(\<And>b. reach P (f b)) \<Longrightarrow> reach P m \<Longrightarrow> reach P n \<Longrightarrow>
    reach P (case e of PlainFile b \<Rightarrow> f b | DirEntry \<Rightarrow> m | OtherEntry \<Rightarrow> n)"
  by (cases e) simp_all

lemma reach_put [reach_intro]: "P n \<Longrightarrow> reach P (swrite (upd (dir_put n e)))"
  by (simp add: reach_def touches_def aside_def dir_upd memory_upd)

lemma reach_drop [reach_intro]: "P n \<Longrightarrow> reach P (swrite (upd (dir_drop n)))"
  by (simp add: reach_def touches_def aside_def dir_upd memory_upd)

lemma reach_rename [reach_intro]:
  "P n \<Longrightarrow> P k \<Longrightarrow> reach P (swrite (upd (\<lambda>d. dir_put n e (dir_drop k d))))"
  by (auto simp: reach_def touches_def aside_def dir_upd memory_upd)

lemma reach_aside: "(\<And>s. memory (g s) = memory s) \<Longrightarrow> (\<And>s. dir (g s) = dir s) \<Longrightarrow> reach P (swrite g)"
  by (simp add: reach_def touches_def aside_def)

lemma outcome_reach:
  "reach R m \<Longrightarrow> (\<And>t. touches R s t \<Longrightarrow> E t) \<Longrightarrow> (\<And>a t. touches R s t \<Longrightarrow> Q a t) \<Longrightarrow> outcome s m Q E"
  by (rule outcomeI) (auto dest: reachD)

end

end
