(* ===== verification/Guest_Runner.thy ===== *)
theory Guest_Runner
  imports State_Directory Archive
begin

text \<open>
  The command runner inside a guest (\<open>crates/sandbox-guest/src/runner.rs\<close>): admission with a
  durable intent, the task that runs one command, cancellation, retirement of history, and the
  recovery of a restarted agent.

  The task of a command runs beside the requests. It is split where it waits: \<open>run_begin\<close> up to
  the spawn of the launcher, \<open>run_capture\<close> for every chunk a capture reads, \<open>run_stop\<close> when the
  wait ends, \<open>run_collect\<close> when the captures have ended; each takes the registry's lock at most
  once. \<open>guest_world\<close> answers the calls that leave the process, at the position \<open>gu_step\<close>.
  \<open>gu_spawned\<close> records the launches.
\<close>

section \<open>State\<close>

record exit_report =
  er_version :: nat
  er_exit_code :: "int option"
  er_signal :: "int option"

record guest_json =
  gj_execute :: "execute json"
  gj_receipt :: "receipt json"
  gj_binding :: "binding json"
  gj_report :: "exit_report json"

record guest_world =
  gw_now :: "nat \<Rightarrow> int"
  gw_fresh :: "nat \<Rightarrow> operation_id"
  gw_write :: "nat \<Rightarrow> write_fault"
  gw_kill :: "nat \<Rightarrow> bool"
  gw_remove :: "nat \<Rightarrow> bool"
  gw_prepare :: "nat \<Rightarrow> bool"
  gw_spawn :: "nat \<Rightarrow> bool"
  gw_store :: "nat \<Rightarrow> bool"
  gw_drained :: "nat \<Rightarrow> bool"
  gw_read :: "nat \<Rightarrow> nat"

record guest_env =
  gx_crates :: crates
  gx_json :: guest_json
  gx_context :: guest_context
  gx_world :: guest_world

text \<open>What the two captures share and publish; \<open>cap_failed\<close>: one of them has failed.\<close>

record capture_state =
  cap_left :: nat
  cap_stdout_stats :: output_stats
  cap_stderr_stats :: output_stats
  cap_failed :: bool

datatype phase =
    Queued
  | Running capture_state
  | Stopping run_state bool capture_state

record guest_state =
  gu_dir :: state_dir
  gu_groups :: "(string \<times> bool) list"
  gu_up :: bool
  gu_barrier :: "barrier option"
  gu_receipts :: "(operation_id, receipt) btmap"
  gu_active :: "(operation_id \<times> bool) option"
  gu_failed :: bool
  gu_closed :: bool
  gu_task :: "(execute \<times> phase) option"
  gu_step :: nat
  gu_spawned :: "operation_id list"

type_synonym 'a guest = "(guest_state, unit, 'a) proc"

definition gask :: "(nat \<Rightarrow> 'a) \<Rightarrow> 'a guest" where
  "gask f s = (Inr (f (gu_step s)), s\<lparr>gu_step := Suc (gu_step s)\<rparr>)"

lemma gask_simp [simp]: "gask f s = (Inr (f (gu_step s)), s\<lparr>gu_step := Suc (gu_step s)\<rparr>)"
  by (simp add: gask_def)

definition guest_metadata_max :: nat where "guest_metadata_max = 16384"
definition guest_max_entries :: nat where "guest_max_entries = guest_max_records * 5 + 2"

definition no_output :: output_stats where
  "no_output = \<lparr>out_seen = 0, out_stored = 0, out_truncated = False\<rparr>"

text \<open>\<open>on_failure f m\<close> runs \<open>f\<close> when \<open>m\<close> fails, and fails.\<close>

definition on_failure :: "unit guest \<Rightarrow> 'a guest \<Rightarrow> 'a guest" where
  "on_failure f m s =
     (case m s of
        (Inl e, s') \<Rightarrow> (Inl e, snd (f s'))
      | (Inr a, s') \<Rightarrow> (Inr a, s'))"

section \<open>Files and control groups\<close>

definition receipt_name :: "crates \<Rightarrow> operation_id \<Rightarrow> string" where
  "receipt_name C i = show_operation C i @ ''.json''"

definition group_name :: "crates \<Rightarrow> operation_id \<Rightarrow> string" where
  "group_name C i = show_operation C i"

definition stream_name :: "crates \<Rightarrow> bool \<Rightarrow> operation_id \<Rightarrow> string" where
  "stream_name C out i = show_operation C i @ (if out then ''.stdout'' else ''.stderr'')"

definition report_name :: "crates \<Rightarrow> operation_id \<Rightarrow> string" where
  "report_name C i = show_operation C i @ ''.exit''"

definition guest_read_json :: "'a json \<Rightarrow> string \<Rightarrow> guest_state \<Rightarrow> unit + 'a" where
  "guest_read_json J name s =
     (case dir_get name (gu_dir s) of
        Some (PlainFile b) \<Rightarrow>
          rbind (ensure (length b \<le> guest_metadata_max) ()) (\<lambda>_. ok_or () (from_slice J b))
      | _ \<Rightarrow> Inl ())"

definition guest_write_json :: "guest_env \<Rightarrow> 'a json \<Rightarrow> string \<Rightarrow> 'a \<Rightarrow> unit guest" where
  "guest_write_json G J name x =
     sbind (gask (gw_fresh (gx_world G))) (\<lambda>i.
     sbind (gask (gw_write (gx_world G))) (\<lambda>fault.
     let temp = show_operation (gx_crates G) i @ ''.tmp'' in
     sbind (sread (\<lambda>s. dir_get temp (gu_dir s))) (\<lambda>old.
     sbind (sensure (fault \<noteq> WriteNothing \<and> old = None) ()) (\<lambda>_.
     sbind (swrite (gu_dir_update (dir_put temp (PlainFile [])))) (\<lambda>_.
     sbind (slift (ok_or () (to_vec J x))) (\<lambda>b.
     sbind (swrite (gu_dir_update (dir_put temp (PlainFile b)))) (\<lambda>_.
     sbind (sread (\<lambda>s. dir_get name (gu_dir s))) (\<lambda>target.
     sbind (sensure (fault \<noteq> WriteLeft \<and> target \<noteq> Some DirEntry) ()) (\<lambda>_.
     sbind (swrite (gu_dir_update (\<lambda>d. dir_put name (PlainFile b) (dir_drop temp d)))) (\<lambda>_.
     sensure (fault \<noteq> WriteUnsynced) ()))))))))))"

text \<open>\<open>absent\<close>: an entry that is not a directory is an error.\<close>

definition group_absent :: "string \<Rightarrow> guest_state \<Rightarrow> unit + bool" where
  "group_absent name s =
     (case map_of (gu_groups s) name of None \<Rightarrow> Inr True | Some d \<Rightarrow> if d then Inr False else Inl ())"

text \<open>The process tree is killed, its end awaited, and the group removed; \<open>gw_kill\<close> says whether
  all of it succeeded.\<close>

definition guest_cleanup :: "guest_env \<Rightarrow> string \<Rightarrow> unit guest" where
  "guest_cleanup G name =
     sbind (sread (group_absent name)) (\<lambda>x.
     sbind (slift x) (\<lambda>gone.
     if gone then sret ()
     else sbind (gask (gw_kill (gx_world G))) (\<lambda>ok.
          sbind (sensure ok ()) (\<lambda>_.
          swrite (gu_groups_update (AList.delete name))))))"

section \<open>History\<close>

definition history_entries :: "guest_state \<Rightarrow> unit + string list" where
  "history_entries s =
     rbind (ensure (length (dir_names (gu_dir s)) \<le> guest_max_entries) ()) (\<lambda>_. Inr (dir_names (gu_dir s)))"

definition history_id :: "crates \<Rightarrow> string \<Rightarrow> unit + operation_id option" where
  "history_id C name =
     (if name = ''lock'' \<or> name = ''context.json'' then Inr None
      else rbind (ok_or () (strip_any [''.json'', ''.stdout'', ''.stderr'', ''.exit'', ''.tmp''] name)) (\<lambda>stem.
           rbind (map_err (\<lambda>_. ()) (parse_operation C stem)) (\<lambda>i. Inr (Some i))))"

definition history_entry_ok :: "crates \<Rightarrow> guest_state \<Rightarrow> barrier \<Rightarrow> string \<Rightarrow> unit + unit" where
  "history_entry_ok C s b name =
     rbind (history_id C name) (\<lambda>x.
     case x of
       None \<Rightarrow> Inr ()
     | Some i \<Rightarrow>
         if covers b i
         then rbind (group_absent (group_name C i) s) (\<lambda>gone.
              rbind (ensure gone ()) (\<lambda>_.
              rbind (ok_or () (dir_get name (gu_dir s))) (\<lambda>e. ensure (e \<noteq> DirEntry) ())))
         else Inr ())"

definition validate_history_entries :: "crates \<Rightarrow> string list \<Rightarrow> barrier \<Rightarrow> unit guest" where
  "validate_history_entries C names b =
     sbind (sread (\<lambda>s. try_all (history_entry_ok C s b) names)) slift"

definition guest_remove :: "guest_env \<Rightarrow> string \<Rightarrow> unit guest" where
  "guest_remove G name =
     sbind (sread (\<lambda>s. dir_get name (gu_dir s))) (\<lambda>e.
     case e of
       None \<Rightarrow> sret ()
     | Some x \<Rightarrow>
         sbind (gask (gw_remove (gx_world G))) (\<lambda>ok.
         sbind (sensure (ok \<and> x \<noteq> DirEntry) ()) (\<lambda>_.
         swrite (gu_dir_update (dir_drop name)))))"

fun prune_names :: "guest_env \<Rightarrow> barrier \<Rightarrow> string list \<Rightarrow> unit guest" where
  "prune_names G b [] = sret ()"
| "prune_names G b (name # names) =
     sbind (slift (history_id (gx_crates G) name)) (\<lambda>x.
     sbind (case x of None \<Rightarrow> sret () | Some i \<Rightarrow> if covers b i then guest_remove G name else sret ()) (\<lambda>_.
     prune_names G b names))"

definition prune_history :: "guest_env \<Rightarrow> string list \<Rightarrow> barrier \<Rightarrow> unit guest" where
  "prune_history G names b =
     sbind (validate_history_entries (gx_crates G) names b) (\<lambda>_.
     sbind (prune_names G b names) (\<lambda>_.
     sbind (gask (gw_remove (gx_world G))) (\<lambda>synced. sensure synced ())))"

section \<open>Opening\<close>

text \<open>What the machine answers while the runner opens: the boot identity, whether the control
  group root, the launcher and the directory are as required, and the lock.\<close>

record guest_boot =
  gb_boot :: string
  gb_ready :: bool
  gb_locked :: bool

definition read_binding :: "guest_env \<Rightarrow> barrier option guest" where
  "read_binding G =
     sbind (sread (\<lambda>s. dir_get ''context.json'' (gu_dir s))) (\<lambda>e.
     if e \<noteq> None
     then sbind (sread (guest_read_json (gj_binding (gx_json G)) ''context.json'')) (\<lambda>x.
          sbind (slift x) (\<lambda>bound.
          slift (binding_validate (gx_crates G) bound (gx_context G) Commands)))
     else sbind (sread (\<lambda>s. length (gu_dir s))) (\<lambda>n.
          sbind (sensure (n = 1) ()) (\<lambda>_.
          sbind (guest_write_json G (gj_binding (gx_json G)) ''context.json'' (Legacy (gx_context G))) (\<lambda>_.
          sret None))))"

definition recovered :: "receipt \<Rightarrow> receipt" where
  "recovered r =
     r\<lparr>rcpt_state := Unknown, rcpt_cleanup_confirmed := True, rcpt_exit_code := None, rcpt_signal := None,
       rcpt_reason := Some ''agent_restart_after_launch_intent''\<rparr>"

definition recover_receipt :: "guest_env \<Rightarrow> string \<Rightarrow> receipt \<Rightarrow> receipt guest" where
  "recover_receipt G name r =
     (if \<not> run_terminal (rcpt_state r) \<or> \<not> rcpt_cleanup_confirmed r
      then sbind (guest_cleanup G (group_name (gx_crates G) (rcpt_operation r))) (\<lambda>_.
           sbind (guest_write_json G (gj_receipt (gx_json G)) name (recovered r)) (\<lambda>_.
           sret (recovered r)))
      else sret r)"

text \<open>One turn over the directory: the reserved output and the receipts so far.\<close>

definition open_entry ::
    "guest_env \<Rightarrow> nat \<times> (operation_id, receipt) btmap \<Rightarrow> string \<Rightarrow> (nat \<times> (operation_id, receipt) btmap) guest" where
  "open_entry G acc name =
     (if extension name = Some ''tmp'' then sbind (guest_remove G name) (\<lambda>_. sret acc)
      else if name = ''context.json'' \<or> extension name \<noteq> Some ''json'' then sret acc
      else
        sbind (sread (guest_read_json (gj_receipt (gx_json G)) name)) (\<lambda>x.
        sbind (slift x) (\<lambda>r.
        sbind (sensure (rcpt_version r = 1 \<and> rcpt_context r = gx_context G \<and>
                 name = receipt_name (gx_crates G) (rcpt_operation r)) ()) (\<lambda>_.
        sbind (slift (receipt_validate r)) (\<lambda>_.
        sbind (slift (ok_or () (checked_add_u64 (fst acc) (rcpt_output_limit r)))) (\<lambda>reserved.
        sbind (sensure (reserved \<le> guest_max_reserved \<and> length (snd acc) < guest_max_records) ()) (\<lambda>_.
        sbind (recover_receipt G name r) (\<lambda>r'.
        sbind (sensure (\<not> bt_contains (rcpt_operation r) (snd acc)) ()) (\<lambda>_.
        sret (reserved, bt_insert (rcpt_operation r) r' (snd acc)))))))))))"

fun open_entries ::
    "guest_env \<Rightarrow> nat \<times> (operation_id, receipt) btmap \<Rightarrow> string list \<Rightarrow> (nat \<times> (operation_id, receipt) btmap) guest" where
  "open_entries G acc [] = sret acc"
| "open_entries G acc (name # names) = sbind (open_entry G acc name) (\<lambda>acc'. open_entries G acc' names)"

definition load_registry :: "guest_env \<Rightarrow> barrier option \<Rightarrow> unit guest" where
  "load_registry G barrier =
     sbind (sread history_entries) (\<lambda>names.
     sbind (slift names) (\<lambda>names.
     sbind (open_entries G (0, []) names) (\<lambda>(reserved, receipts).
     sbind (sread (\<lambda>s. list_all (\<lambda>(_, d). \<not> d) (gu_groups s))) (\<lambda>clean.
     sbind (sensure clean ()) (\<lambda>_.
     swrite (\<lambda>s. s\<lparr>gu_up := True, gu_barrier := barrier, gu_receipts := receipts, gu_active := None,
       gu_failed := False, gu_closed := False\<rparr>))))))"

definition runner_open :: "guest_env \<Rightarrow> guest_boot \<Rightarrow> unit guest" where
  "runner_open G b =
     sbind (sensure (0 < ctx_generation (gx_context G)) ()) (\<lambda>_.
     sbind (sensure (ctx_boot (gx_context G) = gb_boot b \<and> gb_ready b) ()) (\<lambda>_.
     sbind (swrite (gu_dir_update (\<lambda>d. if dir_get ''lock'' d = None then dir_put ''lock'' (PlainFile []) d else d))) (\<lambda>_.
     sbind (sensure (gb_locked b) ()) (\<lambda>_.
     sbind (read_binding G) (\<lambda>barrier.
     sbind (case barrier of
              None \<Rightarrow> sret ()
            | Some x \<Rightarrow>
                sbind (sread history_entries) (\<lambda>names.
                sbind (slift names) (\<lambda>names. prune_history G names x))) (\<lambda>_.
     load_registry G barrier))))))"

text \<open>A restart: the process of the previous agent is gone, with its task.\<close>

definition guest_restart :: "guest_env \<Rightarrow> guest_boot \<Rightarrow> unit guest" where
  "guest_restart G b = sbind (swrite (\<lambda>s. s\<lparr>gu_up := False, gu_task := None, gu_active := None\<rparr>)) (\<lambda>_. runner_open G b)"

section \<open>Requests\<close>

definition guest_retire_history :: "guest_env \<Rightarrow> barrier \<Rightarrow> barrier guest" where
  "guest_retire_history G requested =
     sbind (slift (barrier_validate (gx_crates G) requested (gx_context G) Commands)) (\<lambda>_.
     sbind (sread (\<lambda>s. s)) (\<lambda>s.
     sbind (sensure (\<not> gu_failed s \<and> \<not> gu_closed s) ()) (\<lambda>_.
     case (case gu_barrier s of None \<Rightarrow> None | Some b \<Rightarrow> if bar_through requested \<le> bar_through b then Some b else None) of
       Some current \<Rightarrow> sret current
     | None \<Rightarrow>
         sbind (sensure (case gu_active s of None \<Rightarrow> True | Some (i, _) \<Rightarrow> \<not> covers requested i) ()) (\<lambda>_.
         sbind (sensure (list_all (\<lambda>r. covers requested (rcpt_operation r) \<longrightarrow>
                  run_terminal (rcpt_state r) \<and> rcpt_state r \<noteq> Unknown \<and> rcpt_cleanup_confirmed r)
                  (bt_values (gu_receipts s))) ()) (\<lambda>_.
         sbind (slift (history_entries s)) (\<lambda>names.
         sbind (validate_history_entries (gx_crates G) names requested) (\<lambda>_.
         sbind (on_failure (swrite (gu_failed_update (\<lambda>_. True)))
           (guest_write_json G (gj_binding (gx_json G)) ''context.json'' (Retired requested))) (\<lambda>_.
         sbind (swrite (gu_barrier_update (\<lambda>_. Some requested))) (\<lambda>_.
         sbind (on_failure (swrite (gu_failed_update (\<lambda>_. True))) (prune_history G names requested)) (\<lambda>_.
         sbind (swrite (gu_receipts_update (filter (\<lambda>(i, _). \<not> covers requested i)))) (\<lambda>_.
         sret requested)))))))))))"

definition launch_intent :: "guest_env \<Rightarrow> execute \<Rightarrow> bytes \<Rightarrow> receipt" where
  "launch_intent G x digest =
     \<lparr>rcpt_version = 1, rcpt_context = gx_context G, rcpt_operation = exec_operation x, rcpt_digest = digest,
      rcpt_state = LaunchIntent, rcpt_deadline = exec_deadline x, rcpt_output_limit = exec_output_limit x,
      rcpt_cancel_requested = False, rcpt_cleanup_confirmed = False, rcpt_exit_code = None, rcpt_signal = None,
      rcpt_stdout = no_output, rcpt_stderr = no_output, rcpt_reason = None\<rparr>"

definition guest_start :: "guest_env \<Rightarrow> execute \<Rightarrow> receipt guest" where
  "guest_start G x =
     (let C = gx_crates G; J = gx_json G; i = exec_operation x in
      sbind (slift (execute_validate (gj_execute J) x)) (\<lambda>_.
      sbind (slift (execute_digest C (gj_execute J) x)) (\<lambda>digest.
      sbind (sread (\<lambda>s. s)) (\<lambda>s.
      sbind (sensure (case gu_barrier s of None \<Rightarrow> True | Some b \<Rightarrow> \<not> covers b i) ()) (\<lambda>_.
      case bt_get i (gu_receipts s) of
        Some existing \<Rightarrow> sbind (sensure (rcpt_digest existing = digest) ()) (\<lambda>_. sret existing)
      | None \<Rightarrow>
          sbind (sensure (\<not> gu_closed s) ()) (\<lambda>_.
          sbind (sensure (\<not> gu_failed s) ()) (\<lambda>_.
          sbind (sensure (gu_active s = None) ()) (\<lambda>_.
          sbind (gask (gw_now (gx_world G))) (\<lambda>now.
          sbind (slift (ok_or () (checked_sub_i64 (exec_deadline x) now))) (\<lambda>remaining.
          sbind (sensure (0 < remaining \<and> remaining \<le> 6 * 60 * 60 * 1000) ()) (\<lambda>_.
          sbind (sensure (length (gu_receipts s) < guest_max_records) ()) (\<lambda>_.
          sbind (sensure (sum_list (map rcpt_output_limit (bt_values (gu_receipts s))) + exec_output_limit x
                   \<le> guest_max_reserved) ()) (\<lambda>_.
          let r = launch_intent G x digest in
          sbind (guest_write_json G (gj_receipt J) (receipt_name C i) r) (\<lambda>_.
          sbind (swrite (\<lambda>s. s\<lparr>gu_receipts := bt_insert i r (gu_receipts s), gu_active := Some (i, False),
                                gu_task := Some (x, Queued)\<rparr>)) (\<lambda>_.
          sret r)))))))))))))))"

definition guest_inspect :: "operation_id \<Rightarrow> receipt option guest" where
  "guest_inspect i = sread (\<lambda>s. bt_get i (gu_receipts s))"

definition guest_history_barrier :: "barrier option guest" where
  "guest_history_barrier = sread gu_barrier"

definition guest_cancel :: "guest_env \<Rightarrow> operation_id \<Rightarrow> receipt guest" where
  "guest_cancel G i =
     sbind (sread (\<lambda>s. bt_get i (gu_receipts s))) (\<lambda>x.
     sbind (slift (ok_or () x)) (\<lambda>r.
     if run_terminal (rcpt_state r) then sret r
     else
       let r' = r\<lparr>rcpt_cancel_requested := True\<rparr> in
       sbind (guest_write_json G (gj_receipt (gx_json G)) (receipt_name (gx_crates G) i) r') (\<lambda>_.
       sbind (swrite (gu_receipts_update (bt_insert i r'))) (\<lambda>_.
       sbind (sread gu_active) (\<lambda>active.
       sbind (case active of
                None \<Rightarrow> sret ()
              | Some (j, _) \<Rightarrow>
                  sbind (sensure (j = i) ()) (\<lambda>_. swrite (gu_active_update (\<lambda>_. Some (j, True))))) (\<lambda>_.
       sret r'))))))"

text \<open>Admission is fenced before the active command is cancelled; the wait for its end is left
  out.\<close>

definition guest_shutdown :: "guest_env \<Rightarrow> unit guest" where
  "guest_shutdown G =
     sbind (swrite (gu_closed_update (\<lambda>_. True))) (\<lambda>_.
     sbind (sread gu_active) (\<lambda>active.
     case active of None \<Rightarrow> sret () | Some (i, _) \<Rightarrow> sbind (guest_cancel G i) (\<lambda>_. sret ())))"

section \<open>The task\<close>

type_synonym run_result = "run_state \<times> exit_report option \<times> output_stats \<times> output_stats"

definition settled :: "bool \<Rightarrow> unit + run_result \<Rightarrow> receipt \<Rightarrow> receipt" where
  "settled cleaned result r =
     (case result of
        Inr (state, report, out, err) \<Rightarrow>
          if cleaned
          then r\<lparr>rcpt_cleanup_confirmed := True, rcpt_state := state,
                 rcpt_exit_code := (case report of None \<Rightarrow> None | Some e \<Rightarrow> er_exit_code e),
                 rcpt_signal := (case report of None \<Rightarrow> None | Some e \<Rightarrow> er_signal e),
                 rcpt_stdout := out, rcpt_stderr := err\<rparr>
          else r\<lparr>rcpt_cleanup_confirmed := False, rcpt_state := Unknown,
                 rcpt_reason := Some ''execution_or_cleanup_unconfirmed''\<rparr>
      | Inl _ \<Rightarrow> r\<lparr>rcpt_cleanup_confirmed := cleaned, rcpt_state := Unknown,
                   rcpt_reason := Some ''execution_or_cleanup_unconfirmed''\<rparr>)"

definition uncommitted :: "receipt \<Rightarrow> receipt" where
  "uncommitted r =
     r\<lparr>rcpt_state := Unknown, rcpt_exit_code := None, rcpt_signal := None,
       rcpt_reason := Some ''receipt_commit_unconfirmed''\<rparr>"

definition succeeds :: "unit guest \<Rightarrow> bool guest" where
  "succeeds m s = (case m s of (r, s') \<Rightarrow> (Inr (is_ok r), s'))"

text \<open>The rest of \<open>run\<close> once \<open>execute\<close> has returned. A missing receipt leaves the command
  active.\<close>

definition run_finish :: "guest_env \<Rightarrow> execute \<Rightarrow> unit + run_result \<Rightarrow> unit guest" where
  "run_finish G x result =
     (let C = gx_crates G; i = exec_operation x in
      sbind (swrite (gu_task_update (\<lambda>_. None))) (\<lambda>_.
      sbind (succeeds (guest_cleanup G (group_name C i))) (\<lambda>cleaned.
      sbind (sread (\<lambda>s. bt_get i (gu_receipts s))) (\<lambda>found.
      case found of
        None \<Rightarrow> swrite (gu_failed_update (\<lambda>_. True))
      | Some r \<Rightarrow>
          let r' = settled cleaned result r in
          sbind (succeeds (guest_write_json G (gj_receipt (gx_json G)) (receipt_name C i) r')) (\<lambda>saved.
          swrite (\<lambda>s. s\<lparr>gu_receipts := bt_insert i (if saved then r' else uncommitted r') (gu_receipts s),
                       gu_failed := (gu_failed s \<or> \<not> saved \<or> \<not> cleaned), gu_active := None\<rparr>))))))"

definition create_stream :: "guest_env \<Rightarrow> string \<Rightarrow> unit guest" where
  "create_stream G name =
     sbind (sread (\<lambda>s. dir_get name (gu_dir s))) (\<lambda>e.
     sbind (gask (gw_store (gx_world G))) (\<lambda>ok.
     sbind (sensure (e = None \<and> ok) ()) (\<lambda>_.
     swrite (gu_dir_update (dir_put name (PlainFile []))))))"

definition run_prepare :: "guest_env \<Rightarrow> execute \<Rightarrow> unit guest" where
  "run_prepare G x =
     (let C = gx_crates G; i = exec_operation x in
      sbind (sread (\<lambda>s. map_of (gu_groups s) (group_name C i))) (\<lambda>g.
      sbind (sensure (g = None) ()) (\<lambda>_.
      sbind (swrite (gu_groups_update (AList.update (group_name C i) True))) (\<lambda>_.
      sbind (gask (gw_prepare (gx_world G))) (\<lambda>ok.
      sbind (sensure ok ()) (\<lambda>_.
      sbind (create_stream G (stream_name C True i)) (\<lambda>_.
      sbind (create_stream G (stream_name C False i)) (\<lambda>_.
      sbind (gask (gw_spawn (gx_world G))) (\<lambda>spawned.
      sensure spawned ())))))))))"

definition run_begin :: "guest_env \<Rightarrow> unit guest" where
  "run_begin G =
     sbind (sread (\<lambda>s. (gu_task s, gu_active s))) (\<lambda>t.
     case t of
       (Some (x, Queued), Some (_, cancelled)) \<Rightarrow>
         if cancelled then run_finish G x (Inr (Cancelled, None, no_output, no_output))
         else sbind (gask (gw_now (gx_world G))) (\<lambda>now.
              if exec_deadline x \<le> now then run_finish G x (Inr (TimedOut, None, no_output, no_output))
              else sbind (succeeds (run_prepare G x)) (\<lambda>spawned.
                   if \<not> spawned then run_finish G x (Inl ())
                   else swrite (\<lambda>s. s\<lparr>gu_spawned := gu_spawned s @ [exec_operation x],
                     gu_task := Some (x, Running \<lparr>cap_left = exec_output_limit x, cap_stdout_stats = no_output,
                       cap_stderr_stats = no_output, cap_failed = False\<rparr>)\<rparr>)))
     | _ \<Rightarrow> sret ())"

text \<open>One chunk of a capture; the kept prefix is appended to the retained file before the
  counters are published.\<close>

definition counted :: "nat \<Rightarrow> nat \<Rightarrow> output_stats \<Rightarrow> output_stats" where
  "counted count keep o' =
     \<lparr>out_seen = saturating_add_u64 (out_seen o') count, out_stored = out_stored o' + keep,
      out_truncated = (out_truncated o' \<or> keep < count)\<rparr>"

definition append_file :: "guest_env \<Rightarrow> string \<Rightarrow> bytes \<Rightarrow> unit guest" where
  "append_file G name data =
     sbind (gask (gw_store (gx_world G))) (\<lambda>ok.
     sbind (sread (\<lambda>s. dir_get name (gu_dir s))) (\<lambda>e.
     case e of
       Some (PlainFile b) \<Rightarrow>
         sbind (sensure ok ()) (\<lambda>_. swrite (gu_dir_update (dir_put name (PlainFile (b @ data)))))
     | _ \<Rightarrow> sensure ok ()))"

definition publish_stats :: "bool \<Rightarrow> operation_id \<Rightarrow> output_stats \<Rightarrow> unit guest" where
  "publish_stats out i o' =
     sbind (sread (\<lambda>s. bt_get i (gu_receipts s))) (\<lambda>x.
     sbind (slift (ok_or () x)) (\<lambda>r.
     swrite (gu_receipts_update (bt_insert i (if out then r\<lparr>rcpt_stdout := o'\<rparr> else r\<lparr>rcpt_stderr := o'\<rparr>)))))"

definition capture_chunk :: "guest_env \<Rightarrow> bool \<Rightarrow> bytes \<Rightarrow> execute \<Rightarrow> capture_state \<Rightarrow> capture_state guest" where
  "capture_chunk G out data x c =
     (let count = length data; keep = min count (cap_left c);
          stats = counted count keep (if out then cap_stdout_stats c else cap_stderr_stats c);
          spent = c\<lparr>cap_left := saturating_sub_u64 (cap_left c) count\<rparr>;
          c' = (if out then spent\<lparr>cap_stdout_stats := stats\<rparr> else spent\<lparr>cap_stderr_stats := stats\<rparr>) in
      sbind (succeeds (append_file G (stream_name (gx_crates G) out (exec_operation x)) (take keep data))) (\<lambda>stored.
      if \<not> stored then sret (spent\<lparr>cap_failed := True\<rparr>)
      else sbind (succeeds (publish_stats out (exec_operation x) stats)) (\<lambda>published.
           sret (if published then c' else spent\<lparr>cap_failed := True\<rparr>))))"

definition run_capture :: "guest_env \<Rightarrow> bool \<Rightarrow> bytes \<Rightarrow> unit guest" where
  "run_capture G out data =
     sbind (sread gu_task) (\<lambda>t.
     if data = [] \<or> 8192 < length data then sret ()
     else case t of
       Some (x, Running c) \<Rightarrow>
         if cap_failed c then sret ()
         else sbind (capture_chunk G out data x c) (\<lambda>c'. swrite (gu_task_update (\<lambda>_. Some (x, Running c'))))
     | Some (x, Stopping st cleaned c) \<Rightarrow>
         if cap_failed c then sret ()
         else sbind (capture_chunk G out data x c) (\<lambda>c'. swrite (gu_task_update (\<lambda>_. Some (x, Stopping st cleaned c'))))
     | _ \<Rightarrow> sret ())"

text \<open>The launcher writes its report before it exits.\<close>

definition launcher_report :: "guest_env \<Rightarrow> bytes \<Rightarrow> unit guest" where
  "launcher_report G b =
     sbind (sread gu_task) (\<lambda>t.
     case t of
       Some (x, Running c) \<Rightarrow>
         swrite (gu_dir_update (\<lambda>d. if dir_get (report_name (gx_crates G) (exec_operation x)) d = None
           then dir_put (report_name (gx_crates G) (exec_operation x)) (PlainFile b) d else d))
     | _ \<Rightarrow> sret ())"

datatype stop_reason = StopDeadline | StopCapture | StopExit bool

text \<open>The wait is biased: a cancellation that has been sent wins over the other reasons.\<close>

definition run_stop :: "guest_env \<Rightarrow> stop_reason \<Rightarrow> unit guest" where
  "run_stop G why =
     sbind (sread (\<lambda>s. (gu_task s, gu_active s))) (\<lambda>t.
     case t of
       (Some (x, Running c), Some (_, cancelled)) \<Rightarrow>
         let st = (if cancelled then Cancelled
                   else case why of StopDeadline \<Rightarrow> TimedOut | StopCapture \<Rightarrow> Unknown
                        | StopExit success \<Rightarrow> if success then Exited else Unknown) in
         sbind (succeeds (guest_cleanup G (group_name (gx_crates G) (exec_operation x)))) (\<lambda>cleaned.
         swrite (gu_task_update (\<lambda>_. Some (x, Stopping st cleaned c))))
     | _ \<Rightarrow> sret ())"

definition run_report :: "guest_env \<Rightarrow> run_state \<Rightarrow> operation_id \<Rightarrow> exit_report option guest" where
  "run_report G st i =
     (if st = Exited
      then sbind (sread (guest_read_json (gj_report (gx_json G)) (report_name (gx_crates G) i))) (\<lambda>x.
           sbind (slift x) (\<lambda>e.
           sbind (sensure (er_version e = 1 \<and> (er_exit_code e \<noteq> None) \<noteq> (er_signal e \<noteq> None)) ()) (\<lambda>_.
           sret (Some e))))
      else sret None)"

definition run_collect :: "guest_env \<Rightarrow> unit guest" where
  "run_collect G =
     sbind (sread gu_task) (\<lambda>t.
     case t of
       Some (x, Stopping st cleaned c) \<Rightarrow>
         sbind (gask (gw_drained (gx_world G))) (\<lambda>drained.
         if \<not> drained \<or> cap_failed c \<or> \<not> cleaned then run_finish G x (Inl ())
         else (\<lambda>s. case run_report G st (exec_operation x) s of
                     (Inl e, s') \<Rightarrow> run_finish G x (Inl ()) s'
                   | (Inr report, s') \<Rightarrow>
                       run_finish G x (Inr (st, report, cap_stdout_stats c, cap_stderr_stats c)) s'))
     | _ \<Rightarrow> sret ())"

section \<open>Output\<close>

definition guest_output :: "guest_env \<Rightarrow> read_output \<Rightarrow> output_chunk guest" where
  "guest_output G q =
     (let C = gx_crates G in
      sbind (slift (map_err (\<lambda>_. ()) (parse_operation C (ro_operation q)))) (\<lambda>i.
      sbind (sensure (0 < ro_limit q \<and> ro_limit q \<le> guest_max_chunk) ()) (\<lambda>_.
      sbind (sensure (ro_stream q = 1 \<or> ro_stream q = 2) ()) (\<lambda>_.
      sbind (guest_inspect i) (\<lambda>x.
      sbind (slift (ok_or () x)) (\<lambda>r.
      let stored = out_stored (if ro_stream q = 1 then rcpt_stdout r else rcpt_stderr r) in
      sbind (sensure (ro_offset q \<le> rcpt_output_limit r) ()) (\<lambda>_.
      sbind (sread (\<lambda>s. dir_get (stream_name C (ro_stream q = 1) i) (gu_dir s))) (\<lambda>e.
      sbind (case e of
               Some (PlainFile b) \<Rightarrow>
                 sbind (sensure (length b \<le> rcpt_output_limit r) ()) (\<lambda>_.
                 sbind (sensure (stored \<le> length b \<and> ro_offset q \<le> stored) ()) (\<lambda>_.
                 sbind (gask (gw_read (gx_world G))) (\<lambda>n.
                 sret (take (min n (min (stored - ro_offset q) (ro_limit q))) (drop (ro_offset q) b), stored))))
             | None \<Rightarrow> sbind (sensure (stored = 0 \<and> ro_offset q = 0) ()) (\<lambda>_. sret ([], 0))
             | _ \<Rightarrow> sfail ()) (\<lambda>(data, len).
      let next_offset = ro_offset q + length data in
      sret \<lparr>oc_operation = show_operation C i, oc_stream = ro_stream q, oc_offset = ro_offset q, oc_data = data,
            oc_next = next_offset, oc_at_end = (len \<le> next_offset),
            oc_complete = (run_terminal (rcpt_state r) \<and> rcpt_state r \<noteq> Unknown \<and> rcpt_cleanup_confirmed r)\<rparr>)))))))))"

end
