(* ===== verification/Guest_Laws.thy ===== *)
theory Guest_Laws
  imports Guest_Runner
begin

text \<open>
  How the runner of \<open>Guest_Runner\<close> touches its directory. The files of distinct commands have
  distinct names, no name of a temporary file is the name of a record, and each method that
  leaves the registry alone is described by the entries it may change.
\<close>

section \<open>Names\<close>

lemma receipt_name_inj [simp]: "uuid_laws C \<Longrightarrow> receipt_name C i = receipt_name C j \<longleftrightarrow> i = j"
  by (simp add: receipt_name_def operation.show_inj)

lemma extension_names:
  assumes "uuid_laws C"
  shows "extension (receipt_name C i) = Some ''json''" "extension (show_operation C i @ ''.tmp'') = Some ''tmp''"
    "extension (report_name C i) = Some ''exit''"
    "extension (stream_name C out i) = Some (if out then ''stdout'' else ''stderr'')"
    "extension ''context.json'' = Some ''json''" "extension ''lock'' = None"
proof -
  show "extension ''context.json'' = Some ''json''" "extension ''lock'' = None" by code_simp+
qed (use operation_plain[OF assms, of i] in
      \<open>simp_all add: receipt_name_def report_name_def stream_name_def extension_append\<close>)

lemma receipt_name_not_context:
  assumes "uuid_laws C"
  shows "receipt_name C i \<noteq> ''context.json''"
proof
  assume a: "receipt_name C i = ''context.json''"
  have "length (receipt_name C i) = length ''context.json''" by (simp only: a)
  then have "length (show_operation C i) = 7" by (simp add: receipt_name_def)
  then show False using uuid_lawsD(2)[OF assms, of "operation_uuid i"]
    by (simp add: show_operation_def display_prefixed_def)
qed

lemma history_id_receipt:
  assumes "uuid_laws C" "history_id C (receipt_name C i) = Inr (Some j)"
  shows "j = i"
proof -
  have "strip_any [''.json'', ''.stdout'', ''.stderr'', ''.exit'', ''.tmp''] (receipt_name C i) =
      Some (show_operation C i)"
    using strip_suffix_append[of "''.json''" "show_operation C i"] by (simp add: receipt_name_def)
  then have "parse_operation C (show_operation C i) = Inr j"
    using assms(2) by (auto simp: history_id_def split: if_splits)
  then show ?thesis using operation.show_parse[of C "show_operation C i" j] operation.show_inj[OF assms(1)] by simp
qed

lemma history_id_context [simp]: "history_id C ''context.json'' = Inr None" "history_id C ''lock'' = Inr None"
  by (simp_all add: history_id_def)

section \<open>Frames\<close>

text \<open>What the runner keeps in memory. The control groups are beside the directory.\<close>

definition gu_memory :: "guest_state \<Rightarrow> guest_state" where
  "gu_memory s = s\<lparr>gu_dir := [], gu_groups := [], gu_step := 0\<rparr>"

interpretation runner: engine gu_dir gu_dir_update gu_memory
  by unfold_locales (simp_all add: gu_memory_def)

abbreviation "aside \<equiv> runner.aside"
abbreviation "touches \<equiv> runner.touches"
abbreviation "reach \<equiv> runner.reach"

lemma gu_memory_updates [simp]:
  "gu_memory (s\<lparr>gu_dir := d\<rparr>) = gu_memory s" "gu_memory (s\<lparr>gu_groups := g\<rparr>) = gu_memory s"
  "gu_memory (s\<lparr>gu_step := k\<rparr>) = gu_memory s" "gu_memory (gu_groups_update f s) = gu_memory s"
  "gu_memory (gu_dir_update h s) = gu_memory s"
  by (simp_all add: gu_memory_def)

lemma aside_fields:
  assumes "aside s t"
  shows "gu_up t = gu_up s" "gu_barrier t = gu_barrier s" "gu_receipts t = gu_receipts s"
    "gu_active t = gu_active s" "gu_failed t = gu_failed s" "gu_closed t = gu_closed s"
    "gu_task t = gu_task s" "gu_spawned t = gu_spawned s"
  using assms unfolding runner.aside_def gu_memory_def by (cases s; cases t; simp)+

lemma aside_updates [simp]:
  "aside s (s\<lparr>gu_dir := d\<rparr>)" "aside s (s\<lparr>gu_groups := g\<rparr>)" "aside s (s\<lparr>gu_step := k\<rparr>)"
  by (simp_all add: runner.aside_def)

lemma reach_gask [simp, reach_intro]: "reach P (gask g)"
  by (simp add: runner.reach_def runner.touches_def runner.aside_def)

lemma reach_groups [reach_intro]: "reach P (swrite (gu_groups_update g))"
  by (rule runner.reach_aside) simp_all

lemma outcome_gask [outcome_simps]:
  "outcome s (gask h) Q E = Q (h (gu_step s)) (s\<lparr>gu_step := Suc (gu_step s)\<rparr>)"
  by (simp add: outcome_def)

lemma outcome_succeeds [outcome_simps]:
  "outcome s (succeeds m) Q E = outcome s m (\<lambda>_. Q True) (Q False)"
  by (auto simp: outcome_def succeeds_def is_ok_def split: prod.splits sum.splits)

lemma outcome_on_failure [outcome_simps]:
  "outcome s (on_failure (swrite g) m) Q E = outcome s m Q (\<lambda>t. E (g t))"
  by (auto simp: outcome_def on_failure_def split: prod.splits sum.splits)

section \<open>The methods that leave the registry alone\<close>

lemma reach_cleanup [reach_intro]: "reach P (guest_cleanup G name)"
  unfolding guest_cleanup_def by (intro reach_intro)

lemma reach_remove [reach_intro]: "P name \<Longrightarrow> reach P (guest_remove G name)"
  unfolding guest_remove_def by (intro reach_intro)

lemma reach_validate [reach_intro]: "reach P (validate_history_entries C names b)"
  unfolding validate_history_entries_def by (intro reach_intro)

text \<open>What a barrier may remove.\<close>

definition prunable :: "crates \<Rightarrow> barrier \<Rightarrow> string \<Rightarrow> bool" where
  "prunable C b n = (\<exists>i. history_id C n = Inr (Some i) \<and> covers b i)"

lemma reach_prune_names: "reach (prunable (gx_crates G) b) (prune_names G b names)"
proof (induction names)
  case (Cons n names)
  have "reach (prunable (gx_crates G) b) (sbind (slift (history_id (gx_crates G) n)) (\<lambda>x.
     sbind (case x of None \<Rightarrow> sret () | Some i \<Rightarrow> if covers b i then guest_remove G n else sret ()) (\<lambda>_.
     prune_names G b names)))"
  proof -
    have "touches (prunable (gx_crates G) b) s (snd (sbind (slift (history_id (gx_crates G) n)) (\<lambda>x.
       sbind (case x of None \<Rightarrow> sret () | Some i \<Rightarrow> if covers b i then guest_remove G n else sret ()) (\<lambda>_.
       prune_names G b names)) s))" for s
    proof (cases "history_id (gx_crates G) n")
      case (Inr x)
      then have "reach (prunable (gx_crates G) b)
          (case x of None \<Rightarrow> sret () | Some i \<Rightarrow> if covers b i then guest_remove G n else sret ())"
        by (intro reach_intro) (auto simp: prunable_def)
      from runner.reach_sbind[OF this Cons.IH] show ?thesis by (simp add: runner.reach_def sbind_def Inr)
    qed (simp add: sbind_def)
    then show ?thesis by (simp add: runner.reach_def)
  qed
  then show ?case by simp
qed (simp add: runner.reach_def)

lemma reach_prune [reach_intro]: "reach (prunable (gx_crates G) b) (prune_history G names b)"
  unfolding prune_history_def by (intro reach_intro reach_prune_names)

text \<open>Names of temporary files, and of the record that is being written.\<close>

definition temp_or :: "string \<Rightarrow> string \<Rightarrow> bool" where
  "temp_or name n = (extension n = Some ''tmp'' \<or> n = name)"

lemma reach_write [reach_intro]: "uuid_laws (gx_crates G) \<Longrightarrow> reach (temp_or name) (guest_write_json G J name x)"
proof -
  assume laws: "uuid_laws (gx_crates G)"
  have temp: "temp_or name (show_operation (gx_crates G) i @ ''.tmp'')" for i
    by (simp add: temp_or_def extension_names(2)[OF laws])
  show ?thesis
    unfolding guest_write_json_def Let_def by (intro reach_intro temp) (simp add: temp_or_def)
qed

lemma write_result:
  assumes "extension name \<noteq> Some ''tmp''" "uuid_laws (gx_crates G)"
  shows "outcome s (guest_write_json G J name x)
     (\<lambda>_ t. touches (temp_or name) s t \<and> gu_groups t = gu_groups s \<and>
        (\<exists>b. to_vec J x = Some b \<and> dir_get name (gu_dir t) = Some (PlainFile b)))
     (\<lambda>t. touches (temp_or name) s t \<and> gu_groups t = gu_groups s \<and>
        (dir_get name (gu_dir t) = dir_get name (gu_dir s) \<or>
        (\<exists>b. to_vec J x = Some b \<and> dir_get name (gu_dir t) = Some (PlainFile b))))"
proof -
  have differ: "name \<noteq> show_operation (gx_crates G) i @ ''.tmp''" for i
    using assms extension_names(2)[OF assms(2), of i] by metis
  have temp: "temp_or name (show_operation (gx_crates G) i @ ''.tmp'')" "temp_or name name" for i
    by (simp_all add: temp_or_def extension_names(2)[OF assms(2)])
  show ?thesis
    unfolding guest_write_json_def Let_def using differ temp
    by (auto simp: outcome_simps runner.touches_def runner.aside_def split: option.split)
qed

lemma outcome_write:
  assumes "extension name \<noteq> Some ''tmp''" "uuid_laws (gx_crates G)"
    and "\<And>t. touches (temp_or name) s t \<Longrightarrow> gu_groups t = gu_groups s \<Longrightarrow>
      dir_get name (gu_dir t) = dir_get name (gu_dir s) \<Longrightarrow> E t"
    and "\<And>t b. touches (temp_or name) s t \<Longrightarrow> gu_groups t = gu_groups s \<Longrightarrow> to_vec J x = Some b \<Longrightarrow>
      dir_get name (gu_dir t) = Some (PlainFile b) \<Longrightarrow> E t \<and> Q () t"
  shows "outcome s (guest_write_json G J name x) Q E"
  by (rule outcome_mono[OF write_result[OF assms(1,2)]]) (use assms(3,4) in auto)

lemma reach_stream [reach_intro]: "P name \<Longrightarrow> reach P (create_stream G name)"
  unfolding create_stream_def by (intro reach_intro)

lemma reach_append [reach_intro]: "P name \<Longrightarrow> reach P (append_file G name b)"
  unfolding append_file_def by (intro reach_intro)

lemma reach_prepare:
  "reach (\<lambda>n. \<exists>out. n = stream_name (gx_crates G) out (exec_operation x)) (run_prepare G x)"
  unfolding run_prepare_def Let_def by (intro reach_intro) auto

end
