(* ===== verification/Guest_Runs.thy ===== *)
theory Guest_Runs
  imports Guest_Laws
begin

text \<open>
  Runs of a guest agent: requests, the steps of the task of the running command, and restarts, in
  any order. \<open>guest_inv\<close> ties the directory, the registry and the launches that happened.
\<close>

section \<open>Runs\<close>

datatype guest_op =
    RqStart execute
  | RqCancel operation_id
  | RqRetire barrier
  | RqOutput read_output
  | RqShutdown
  | TaskBegin
  | TaskChunk bool bytes
  | TaskReport bytes
  | TaskStop stop_reason
  | TaskCollect
  | Restart guest_boot

text \<open>A request reaches an agent that is up; a task ends with its agent.\<close>

definition served :: "'a guest \<Rightarrow> guest_state \<Rightarrow> guest_state" where
  "served m s = (if gu_up s then snd (m s) else s)"

fun guest_step :: "guest_env \<Rightarrow> guest_op \<Rightarrow> guest_state \<Rightarrow> guest_state" where
  "guest_step G (RqStart x) s = served (guest_start G x) s"
| "guest_step G (RqCancel i) s = served (guest_cancel G i) s"
| "guest_step G (RqRetire b) s = served (guest_retire_history G b) s"
| "guest_step G (RqOutput q) s = served (guest_output G q) s"
| "guest_step G RqShutdown s = served (guest_shutdown G) s"
| "guest_step G TaskBegin s = snd (run_begin G s)"
| "guest_step G (TaskChunk out b) s = snd (run_capture G out b s)"
| "guest_step G (TaskReport b) s = snd (launcher_report G b s)"
| "guest_step G (TaskStop why) s = snd (run_stop G why s)"
| "guest_step G TaskCollect s = snd (run_collect G s)"
| "guest_step G (Restart b) s = snd (guest_restart G b s)"

fun guest_run :: "guest_env \<Rightarrow> guest_op list \<Rightarrow> guest_state \<Rightarrow> guest_state" where
  "guest_run G [] s = s"
| "guest_run G (x # xs) s = guest_run G xs (guest_step G x s)"

lemma guest_run_append: "guest_run G (xs @ ys) s = guest_run G ys (guest_run G xs s)"
  by (induction xs arbitrary: s) simp_all

lemma guest_run_invariant:
  assumes "\<And>x s. x \<in> set xs \<Longrightarrow> P s \<Longrightarrow> P (guest_step G x s)"
  shows "P s \<Longrightarrow> P (guest_run G xs s)"
  using assms by (induction xs arbitrary: s) auto

section \<open>What the directory says\<close>

definition disk_barrier :: "guest_env \<Rightarrow> state_dir \<Rightarrow> barrier option" where
  "disk_barrier G d =
     (case dir_get ''context.json'' d of
        Some (PlainFile b) \<Rightarrow>
          (case from_slice (gj_binding (gx_json G)) b of Some (Retired x) \<Rightarrow> Some x | _ \<Rightarrow> None)
      | _ \<Rightarrow> None)"

definition has_receipt :: "guest_env \<Rightarrow> state_dir \<Rightarrow> operation_id \<Rightarrow> bool" where
  "has_receipt G d i = (dir_get (receipt_name (gx_crates G) i) d \<noteq> None)"

definition disk_receipt :: "guest_env \<Rightarrow> state_dir \<Rightarrow> operation_id \<Rightarrow> receipt option" where
  "disk_receipt G d i =
     (case dir_get (receipt_name (gx_crates G) i) d of
        Some (PlainFile b) \<Rightarrow> from_slice (gj_receipt (gx_json G)) b
      | _ \<Rightarrow> None)"

text \<open>An outcome that is final: the command ended as the record says.\<close>

definition final_receipt :: "receipt \<Rightarrow> bool" where
  "final_receipt r = (rcpt_state r \<in> {Exited, TimedOut, Cancelled})"

lemma final_terminal: "final_receipt r \<Longrightarrow> run_terminal (rcpt_state r)"
  by (auto simp: final_receipt_def run_terminal_def)

definition guest_laws :: "guest_env \<Rightarrow> bool" where
  "guest_laws G =
     (uuid_laws (gx_crates G) \<and> json_faithful (gj_binding (gx_json G)) \<and> json_faithful (gj_receipt (gx_json G)))"

lemma guest_lawsD [simp]:
  assumes "guest_laws G"
  shows "uuid_laws (gx_crates G)"
    "to_vec (gj_binding (gx_json G)) x = Some b \<Longrightarrow> from_slice (gj_binding (gx_json G)) b = Some x"
    "to_vec (gj_receipt (gx_json G)) r = Some b \<Longrightarrow> from_slice (gj_receipt (gx_json G)) b = Some r"
  using assms by (auto simp: guest_laws_def dest: json_faithfulD)

section \<open>The invariant\<close>

text \<open>Every launch has left a receipt on the disk, until a barrier covers it.\<close>

definition launches_recorded :: "guest_env \<Rightarrow> state_dir \<Rightarrow> operation_id list \<Rightarrow> bool" where
  "launches_recorded G d ids =
     (distinct ids \<and> (\<forall>i \<in> set ids. covered (disk_barrier G d) i \<or> has_receipt G d i))"

text \<open>The registry of a serving agent knows them, and its barrier is the one on the disk.\<close>

definition registry_knows :: "guest_env \<Rightarrow> guest_state \<Rightarrow> bool" where
  "registry_knows G s =
     ((\<forall>i \<in> set (gu_spawned s). covered (gu_barrier s) i \<or> bt_contains i (gu_receipts s)) \<and>
      (\<not> gu_failed s \<longrightarrow> gu_barrier s = disk_barrier G (gu_dir s)))"

text \<open>An outcome is that is final final on the disk and in memory.\<close>

definition outcomes_agree :: "guest_env \<Rightarrow> state_dir \<Rightarrow> (operation_id, receipt) btmap \<Rightarrow> bool" where
  "outcomes_agree G d m =
     (\<forall>i. \<not> covered (disk_barrier G d) i \<longrightarrow>
        (\<forall>r. disk_receipt G d i = Some r \<longrightarrow> final_receipt r \<longrightarrow>
           (\<exists>r'. bt_get i m = Some r' \<and> run_terminal (rcpt_state r'))) \<and>
        (\<forall>r. bt_get i m = Some r \<longrightarrow> final_receipt r \<longrightarrow> disk_receipt G d i = Some r))"

text \<open>The task's command is the active one, undecided, and not launched before its first step.\<close>

fun phase_ok :: "phase \<Rightarrow> bool" where
  "phase_ok (Stopping st cleaned c) = run_terminal st"
| "phase_ok p = True"

definition task_owned :: "guest_env \<Rightarrow> guest_state \<Rightarrow> bool" where
  "task_owned G s =
     (case gu_task s of
        None \<Rightarrow> True
      | Some (x, p) \<Rightarrow>
          gu_up s \<and> phase_ok p \<and> (\<exists>c. gu_active s = Some (exec_operation x, c)) \<and>
          (\<exists>r. bt_get (exec_operation x) (gu_receipts s) = Some r \<and> \<not> run_terminal (rcpt_state r)) \<and>
          (p = Queued \<longrightarrow> exec_operation x \<notin> set (gu_spawned s) \<and> has_receipt G (gu_dir s) (exec_operation x)))"

text \<open>The outcomes in \<open>K\<close>, final when they were recorded, are still the ones on the disk.\<close>

definition outcomes_kept :: "guest_env \<Rightarrow> (operation_id \<times> receipt) set \<Rightarrow> state_dir \<Rightarrow> bool" where
  "outcomes_kept G K d =
     (\<forall>(i, r) \<in> K. final_receipt r \<and> (covered (disk_barrier G d) i \<or> disk_receipt G d i = Some r))"

definition guest_inv :: "guest_env \<Rightarrow> (operation_id \<times> receipt) set \<Rightarrow> guest_state \<Rightarrow> bool" where
  "guest_inv G K s =
     (launches_recorded G (gu_dir s) (gu_spawned s) \<and> task_owned G s \<and> outcomes_kept G K (gu_dir s) \<and>
      (gu_up s \<longrightarrow> registry_knows G s \<and> outcomes_agree G (gu_dir s) (gu_receipts s)))"

lemmas guest_inv_defs = guest_inv_def outcomes_kept_def launches_recorded_def registry_knows_def outcomes_agree_def task_owned_def

lemma task_owned_updates [simp]:
  "task_owned G (s\<lparr>gu_failed := f\<rparr>) = task_owned G s" "task_owned G (s\<lparr>gu_barrier := c\<rparr>) = task_owned G s"
  "task_owned G (s\<lparr>gu_closed := f\<rparr>) = task_owned G s" "task_owned G (s\<lparr>gu_step := k\<rparr>) = task_owned G s"
  by (simp_all add: task_owned_def split: option.split prod.split)

text \<open>The entries the invariant is about.\<close>

definition same_records :: "guest_env \<Rightarrow> state_dir \<Rightarrow> state_dir \<Rightarrow> bool" where
  "same_records G d d' =
     (dir_get ''context.json'' d' = dir_get ''context.json'' d \<and>
      (\<forall>i. dir_get (receipt_name (gx_crates G) i) d' = dir_get (receipt_name (gx_crates G) i) d))"

lemma same_recordsD:
  assumes "same_records G d d'"
  shows "disk_barrier G d' = disk_barrier G d" "has_receipt G d' i = has_receipt G d i"
    "disk_receipt G d' i = disk_receipt G d i"
  using assms by (simp_all add: same_records_def disk_barrier_def has_receipt_def disk_receipt_def)

lemma inv_aside:
  assumes "guest_inv G K s" "aside s t" "same_records G (gu_dir s) (gu_dir t)"
  shows "guest_inv G K t"
  using assms(1)
  by (simp add: guest_inv_defs aside_fields[OF assms(2)] same_recordsD[OF assms(3)]
      split: option.splits prod.splits)

lemma touches_same:
  assumes "touches P s t" "\<not> P ''context.json''" "\<And>i. \<not> P (receipt_name (gx_crates G) i)"
  shows "same_records G (gu_dir s) (gu_dir t)"
  using assms by (simp add: runner.touches_def same_records_def)

lemma touches_inv:
  assumes "guest_inv G K s" "touches P s t" "\<not> P ''context.json''" "\<And>i. \<not> P (receipt_name (gx_crates G) i)"
  shows "guest_inv G K t"
proof (rule inv_aside[OF assms(1)])
  show "aside s t" using assms(2) by (simp add: runner.touches_def)
  show "same_records G (gu_dir s) (gu_dir t)" by (rule touches_same[OF assms(2-4)])
qed

section \<open>Writing a receipt\<close>

lemma write_disk:
  assumes "uuid_laws (gx_crates G)" "touches (temp_or (receipt_name (gx_crates G) i)) s t"
  shows "disk_barrier G (gu_dir t) = disk_barrier G (gu_dir s)"
    "j \<noteq> i \<Longrightarrow> has_receipt G (gu_dir t) j = has_receipt G (gu_dir s) j"
    "j \<noteq> i \<Longrightarrow> disk_receipt G (gu_dir t) j = disk_receipt G (gu_dir s) j"
proof -
  have "\<not> temp_or (receipt_name (gx_crates G) i) ''context.json''"
    using receipt_name_not_context[OF assms(1), of i] extension_names(5)[OF assms(1)] by (auto simp: temp_or_def)
  then show "disk_barrier G (gu_dir t) = disk_barrier G (gu_dir s)"
    using assms(2) by (simp add: runner.touches_def disk_barrier_def)
  have "j \<noteq> i \<Longrightarrow> \<not> temp_or (receipt_name (gx_crates G) i) (receipt_name (gx_crates G) j)"
    using extension_names(1)[OF assms(1), of j] assms(1) by (simp add: temp_or_def)
  then show "j \<noteq> i \<Longrightarrow> has_receipt G (gu_dir t) j = has_receipt G (gu_dir s) j"
    "j \<noteq> i \<Longrightarrow> disk_receipt G (gu_dir t) j = disk_receipt G (gu_dir s) j"
    using assms(2) by (simp_all add: runner.touches_def has_receipt_def disk_receipt_def)
qed

lemma write_disk_new:
  assumes "guest_laws G" "to_vec (gj_receipt (gx_json G)) r = Some b"
    "dir_get (receipt_name (gx_crates G) i) d = Some (PlainFile b)"
  shows "has_receipt G d i" "disk_receipt G d i = Some r"
  using assms by (simp_all add: has_receipt_def disk_receipt_def)

lemma write_unchanged:
  assumes "guest_laws G" "guest_inv G K s" "touches (temp_or (receipt_name (gx_crates G) i)) s t"
    "dir_get (receipt_name (gx_crates G) i) (gu_dir t) = dir_get (receipt_name (gx_crates G) i) (gu_dir s)"
  shows "guest_inv G K t"
proof (rule inv_aside[OF assms(2)])
  show "aside s t" using assms(3) by (simp add: runner.touches_def)
  have "dir_get (receipt_name (gx_crates G) j) (gu_dir t) = dir_get (receipt_name (gx_crates G) j) (gu_dir s)" for j
    using assms extension_names(1)[OF guest_lawsD(1)[OF assms(1)], of j]
    by (cases "j = i") (auto simp: runner.touches_def temp_or_def)
  moreover have "\<not> temp_or (receipt_name (gx_crates G) i) ''context.json''"
    using receipt_name_not_context[OF guest_lawsD(1)[OF assms(1)], of i] extension_names(5)[OF guest_lawsD(1)[OF assms(1)]]
    by (auto simp: temp_or_def)
  ultimately show "same_records G (gu_dir s) (gu_dir t)"
    using assms(3) by (simp add: same_records_def runner.touches_def)
qed

text \<open>While the memory has no outcome of a command, its receipt may be replaced by any that is not
  final, and memory and disk together by any.\<close>

lemma undecided:
  assumes "guest_inv G K s" "gu_up s" "\<And>m. bt_get i (gu_receipts s) = Some m \<Longrightarrow> \<not> run_terminal (rcpt_state m)"
  shows "covered (disk_barrier G (gu_dir s)) i \<or> (\<forall>r. disk_receipt G (gu_dir s) i = Some r \<longrightarrow> \<not> final_receipt r)"
  using assms unfolding guest_inv_def outcomes_agree_def by blast

lemma write_open:
  assumes "guest_laws G" "guest_inv G K s" "gu_up s"
    "\<And>m. bt_get i (gu_receipts s) = Some m \<Longrightarrow> \<not> run_terminal (rcpt_state m)"
    "touches (temp_or (receipt_name (gx_crates G) i)) s t"
    "to_vec (gj_receipt (gx_json G)) r = Some b" "\<not> final_receipt r"
    "dir_get (receipt_name (gx_crates G) i) (gu_dir t) = Some (PlainFile b)"
  shows "guest_inv G K t"
proof -
  have a: "aside s t" using assms(5) by (simp add: runner.touches_def)
  note w = write_disk[OF guest_lawsD(1)[OF assms(1)] assms(5)]
  note n = write_disk_new[OF assms(1,6,8)]
  have has: "has_receipt G (gu_dir s) j \<Longrightarrow> has_receipt G (gu_dir t) j" for j using w(2)[of j] n(1) by (cases "j = i") auto
  have "launches_recorded G (gu_dir t) (gu_spawned t)"
    using assms(2) has by (auto simp: guest_inv_def launches_recorded_def aside_fields[OF a] w(1))
  moreover have "task_owned G t"
    using assms(2) has by (auto simp: guest_inv_def task_owned_def aside_fields[OF a] split: option.splits prod.splits)
  moreover have "registry_knows G t"
    using assms(2,3) by (simp add: guest_inv_def registry_knows_def aside_fields[OF a] w(1))
  moreover have "outcomes_agree G (gu_dir t) (gu_receipts t)"
    unfolding outcomes_agree_def aside_fields[OF a] w(1)
  proof (intro allI impI)
    fix j assume "\<not> covered (disk_barrier G (gu_dir s)) j"
    then show "(\<forall>r. disk_receipt G (gu_dir t) j = Some r \<longrightarrow> final_receipt r \<longrightarrow>
           (\<exists>r'. bt_get j (gu_receipts s) = Some r' \<and> run_terminal (rcpt_state r'))) \<and>
        (\<forall>r. bt_get j (gu_receipts s) = Some r \<longrightarrow> final_receipt r \<longrightarrow> disk_receipt G (gu_dir t) j = Some r)"
      using assms(2,3,4,7) n(2) w(3)[of j]
      by (cases "j = i") (auto simp: guest_inv_def outcomes_agree_def dest: final_terminal)
  qed
  moreover have "outcomes_kept G K (gu_dir t)"
    unfolding outcomes_kept_def w(1)
  proof (clarify, intro conjI)
    fix j q assume q: "(j, q) \<in> K"
    then show "final_receipt q" using assms(2) by (auto simp: guest_inv_def outcomes_kept_def)
    have "covered (disk_barrier G (gu_dir s)) j \<or> disk_receipt G (gu_dir s) j = Some q"
      using q assms(2) by (auto simp: guest_inv_def outcomes_kept_def)
    then show "covered (disk_barrier G (gu_dir s)) j \<or> disk_receipt G (gu_dir t) j = Some q"
      using undecided[OF assms(2-4)] \<open>final_receipt q\<close> w(3)[of j] by (cases "j = i") auto
  qed
  ultimately show ?thesis by (simp add: guest_inv_def)
qed

text \<open>An update of the registry that replaces the receipt of one command by one the disk has.\<close>

lemma insert_agrees:
  assumes "outcomes_agree G d m" "final_receipt r \<longrightarrow> disk_receipt G d i = Some r"
    "\<And>r'. \<not> covered (disk_barrier G d) i \<Longrightarrow> disk_receipt G d i = Some r' \<Longrightarrow> final_receipt r' \<Longrightarrow>
      run_terminal (rcpt_state r)"
  shows "outcomes_agree G d (bt_insert i r m)"
  using assms by (auto simp: outcomes_agree_def)

section \<open>Requests\<close>

lemma receipt_not_temp: "uuid_laws C \<Longrightarrow> extension (receipt_name C i) \<noteq> Some ''tmp''"
  by (simp add: extension_names(1))

lemma inv_step [simp]: "guest_inv G K (s\<lparr>gu_step := k\<rparr>) = guest_inv G K s"
  by (simp add: guest_inv_defs split: option.split prod.split)

lemma launch_intent_open: "\<not> run_terminal (rcpt_state (launch_intent G x digest))"
  by (simp add: launch_intent_def run_terminal_def)

lemma not_final_open: "\<not> run_terminal (rcpt_state r) \<Longrightarrow> \<not> final_receipt r"
  using final_terminal by blast

text \<open>A written intent may be queued.\<close>

lemma queue_intent:
  assumes "guest_inv G K s" "gu_up s"
    "exec_operation x \<notin> set (gu_spawned s)" "has_receipt G (gu_dir s) (exec_operation x)"
    "\<not> run_terminal (rcpt_state r)"
    "\<And>r'. disk_receipt G (gu_dir s) (exec_operation x) = Some r' \<Longrightarrow> \<not> final_receipt r'"
  shows "guest_inv G K (s\<lparr>gu_receipts := bt_insert (exec_operation x) r (gu_receipts s),
    gu_active := Some (exec_operation x, c), gu_task := Some (x, Queued)\<rparr>)"
proof -
  have "outcomes_agree G (gu_dir s) (bt_insert (exec_operation x) r (gu_receipts s))"
    using assms by (intro insert_agrees) (auto simp: guest_inv_def dest: final_terminal)
  then show ?thesis
    using assms by (auto simp: guest_inv_def launches_recorded_def task_owned_def registry_knows_def)
qed

lemma start_inv:
  assumes L: "guest_laws G" and I: "guest_inv G K s" and up: "gu_up s"
  shows "guest_inv G K (snd (guest_start G x s))"
proof -
  let ?i = "exec_operation x"
  have "outcome s (guest_start G x) (\<lambda>_. guest_inv G K) (guest_inv G K)"
  proof -
    have fresh: "outcome (s\<lparr>gu_step := k\<rparr>) (guest_write_json G (gj_receipt (gx_json G)) (receipt_name (gx_crates G) ?i) r)
        (\<lambda>_ t. guest_inv G K (t\<lparr>gu_receipts := bt_insert ?i r (gu_receipts t), gu_active := Some (?i, False),
           gu_task := Some (x, Queued)\<rparr>)) (guest_inv G K)"
      if free: "bt_get ?i (gu_receipts s) = None" "\<not> covered (gu_barrier s) ?i" "\<not> gu_failed s"
        and r: "\<not> run_terminal (rcpt_state r)" for r k
    proof (rule outcome_write[OF receipt_not_temp])
      fix t b assume t: "touches (temp_or (receipt_name (gx_crates G) ?i)) (s\<lparr>gu_step := k\<rparr>) t"
        "to_vec (gj_receipt (gx_json G)) r = Some b"
        "dir_get (receipt_name (gx_crates G) ?i) (gu_dir t) = Some (PlainFile b)"
      have a: "aside (s\<lparr>gu_step := k\<rparr>) t" using t(1) by (simp add: runner.touches_def)
      have It: "guest_inv G K t"
        by (rule write_open[OF L _ _ _ t(1,2) not_final_open[OF r] t(3)]) (use I up free in auto)
      note n = write_disk_new[OF L t(2,3)]
      have "?i \<notin> set (gu_spawned s)"
        using I up free by (auto simp: guest_inv_def registry_knows_def bt_contains_def)
      then have "guest_inv G K (t\<lparr>gu_receipts := bt_insert ?i r (gu_receipts t), gu_active := Some (?i, False),
           gu_task := Some (x, Queued)\<rparr>)"
        using up n r not_final_open[OF r] by (intro queue_intent[OF It]) (auto simp: aside_fields[OF a])
      then show "guest_inv G K t \<and> guest_inv G K (t\<lparr>gu_receipts := bt_insert ?i r (gu_receipts t),
           gu_active := Some (?i, False), gu_task := Some (x, Queued)\<rparr>)" using It by simp
    qed (use write_unchanged[OF L, of _ "s\<lparr>gu_step := k\<rparr>" ?i] L I in auto)
    show ?thesis
      unfolding guest_start_def Let_def
      using I fresh launch_intent_open
      by (auto simp: outcome_simps covered_def split: option.splits)
  qed
  then show ?thesis by (simp add: outcome_snd)
qed

text \<open>Replacing the receipt of an undecided command, on the disk and then in memory.\<close>

lemma replace_receipt:
  assumes "guest_inv G K s" "gu_up s" "bt_get i (gu_receipts s) = Some m" "\<not> run_terminal (rcpt_state m)"
    "\<not> run_terminal (rcpt_state r)"
  shows "guest_inv G K (gu_receipts_update (bt_insert i r) s)"
proof -
  have "outcomes_agree G (gu_dir s) (bt_insert i r (gu_receipts s))"
  proof (rule insert_agrees)
    show "outcomes_agree G (gu_dir s) (gu_receipts s)" using assms(1,2) by (simp add: guest_inv_def)
  qed (use undecided[OF assms(1,2), of i] assms(3,4) not_final_open[OF assms(5)] in auto)
  moreover have "task_owned G (gu_receipts_update (bt_insert i r) s)"
    using assms(1,5) by (auto simp: guest_inv_def task_owned_def split: option.splits prod.splits)
  moreover have "registry_knows G (gu_receipts_update (bt_insert i r) s)"
    using assms(1,2) by (auto simp: guest_inv_def registry_knows_def)
  ultimately show ?thesis using assms(1) by (simp add: guest_inv_def)
qed

lemma write_receipt_inv:
  assumes L: "guest_laws G" and I: "guest_inv G K s" and up: "gu_up s"
    and m: "bt_get i (gu_receipts s) = Some m" "\<not> run_terminal (rcpt_state m)"
    and r: "\<not> run_terminal (rcpt_state r)"
    and Q: "\<And>t. guest_inv G K t \<Longrightarrow> aside s t \<Longrightarrow> Q () t"
  shows "outcome s (guest_write_json G (gj_receipt (gx_json G)) (receipt_name (gx_crates G) i) r) Q (guest_inv G K)"
proof (rule outcome_write[OF receipt_not_temp])
  fix t b assume t: "touches (temp_or (receipt_name (gx_crates G) i)) s t"
    "to_vec (gj_receipt (gx_json G)) r = Some b"
    "dir_get (receipt_name (gx_crates G) i) (gu_dir t) = Some (PlainFile b)"
  have "guest_inv G K t"
    by (rule write_open[OF L I up _ t(1,2) not_final_open[OF r] t(3)]) (use m in auto)
  then show "guest_inv G K t \<and> Q () t" using Q t(1) by (simp add: runner.touches_def)
qed (use write_unchanged[OF L I, of i] L in auto)

lemma active_flag_inv:
  assumes "guest_inv G K s" "gu_active s = Some (i, c)"
  shows "guest_inv G K (s\<lparr>gu_active := Some (i, d)\<rparr>)"
  using assms by (auto simp: guest_inv_def task_owned_def registry_knows_def split: option.splits prod.splits)

lemma cancel_inv:
  assumes L: "guest_laws G" and I: "guest_inv G K s" and up: "gu_up s"
  shows "outcome s (guest_cancel G i) (\<lambda>_. guest_inv G K) (guest_inv G K)"
proof (cases "bt_get i (gu_receipts s)")
  case (Some m)
  show ?thesis
  proof (cases "run_terminal (rcpt_state m)")
    case False
    let ?r = "m\<lparr>rcpt_cancel_requested := True\<rparr>"
    have "outcome s (guest_write_json G (gj_receipt (gx_json G)) (receipt_name (gx_crates G) i) ?r)
        (\<lambda>_ t. guest_inv G K (gu_receipts_update (bt_insert i ?r) t)) (guest_inv G K)"
    proof (rule write_receipt_inv[OF L I up Some False])
      fix t assume t: "guest_inv G K t" "aside s t"
      show "guest_inv G K (gu_receipts_update (bt_insert i ?r) t)"
        using replace_receipt[OF t(1), of i m ?r] up Some False by (simp add: aside_fields[OF t(2)])
    qed (use False in simp)
    from outcome_mono[OF this] have w: "outcome s (guest_write_json G (gj_receipt (gx_json G)) (receipt_name (gx_crates G) i) ?r)
        Q' (guest_inv G K)"
      if "\<And>t. guest_inv G K (gu_receipts_update (bt_insert i ?r) t) \<Longrightarrow> Q' () t" for Q' using that by simp
    show ?thesis
      using Some False unfolding guest_cancel_def Let_def
      by (simp add: outcome_simps split: option.split, intro w) (auto intro: active_flag_inv)
  qed (use I Some in \<open>simp add: guest_cancel_def outcome_simps\<close>)
qed (use I in \<open>simp add: guest_cancel_def outcome_simps\<close>)

lemma closed_inv [simp]:
  "guest_inv G K (s\<lparr>gu_closed := c\<rparr>) = guest_inv G K s"
  by (simp add: guest_inv_defs split: option.split prod.split)

lemma failed_inv: "guest_inv G K s \<Longrightarrow> guest_inv G K (s\<lparr>gu_failed := True\<rparr>)"
  by (auto simp: guest_inv_def task_owned_def registry_knows_def split: option.splits prod.splits)

lemma shutdown_inv:
  assumes "guest_laws G" "guest_inv G K s" "gu_up s"
  shows "outcome s (guest_shutdown G) (\<lambda>_. guest_inv G K) (guest_inv G K)"
  unfolding guest_shutdown_def using assms cancel_inv[OF assms(1), of _ "s\<lparr>gu_closed := True\<rparr>"]
  by (auto simp: outcome_simps split: option.split)

lemma output_inv:
  assumes "guest_inv G K s"
  shows "guest_inv G K (snd (guest_output G q s))"
proof -
  have "reach (\<lambda>_. False) (guest_output G q)"
    unfolding guest_output_def Let_def guest_inspect_def
    by (intro reach_intro)
  then have "touches (\<lambda>_. False) s (snd (guest_output G q s))" by (simp add: runner.reach_def)
  then show ?thesis by (rule touches_inv[OF assms]) simp_all
qed

section \<open>Retirement\<close>

lemma prunable_names:
  assumes "uuid_laws (gx_crates G)"
  shows "\<not> prunable (gx_crates G) b ''context.json''"
    "prunable (gx_crates G) b (receipt_name (gx_crates G) i) \<Longrightarrow> covers b i"
  using history_id_receipt[OF assms] by (auto simp: prunable_def)

text \<open>Once a barrier is on the disk, removing what it covers changes nothing the invariant needs.\<close>

lemma prune_disk:
  assumes "uuid_laws (gx_crates G)" "touches (prunable (gx_crates G) b) s t"
  shows "disk_barrier G (gu_dir t) = disk_barrier G (gu_dir s)"
    "\<not> covers b i \<Longrightarrow> has_receipt G (gu_dir t) i = has_receipt G (gu_dir s) i"
    "\<not> covers b i \<Longrightarrow> disk_receipt G (gu_dir t) i = disk_receipt G (gu_dir s) i"
  using assms(2) prunable_names[OF assms(1)]
  by (simp add: runner.touches_def disk_barrier_def, metis runner.touches_def has_receipt_def, metis runner.touches_def disk_receipt_def)

lemma prune_recorded:
  assumes "uuid_laws (gx_crates G)" "touches (prunable (gx_crates G) b) s t"
    "disk_barrier G (gu_dir s) = Some b" "launches_recorded G (gu_dir s) ids"
  shows "launches_recorded G (gu_dir t) ids"
  using assms(3,4) prune_disk[OF assms(1,2)] by (auto simp: launches_recorded_def)

lemma prune_inv:
  assumes "uuid_laws (gx_crates G)" "touches (prunable (gx_crates G) b) s t"
    "disk_barrier G (gu_dir s) = Some b" "guest_inv G K s" "\<And>i c. gu_active s = Some (i, c) \<Longrightarrow> \<not> covers b i"
  shows "guest_inv G K t"
proof -
  have a: "aside s t" using assms(2) by (simp add: runner.touches_def)
  note p = prune_disk[OF assms(1,2)]
  have "launches_recorded G (gu_dir t) (gu_spawned t)"
    using prune_recorded[OF assms(1-3)] assms(4) by (simp add: guest_inv_def aside_fields[OF a])
  moreover have "task_owned G t"
    using assms(4,5) p(2) by (auto simp: guest_inv_def task_owned_def aside_fields[OF a] split: option.splits prod.splits)
  moreover have "gu_up s \<Longrightarrow> registry_knows G t"
    using assms(4) p(1) by (simp add: guest_inv_def registry_knows_def aside_fields[OF a])
  moreover have "gu_up s \<Longrightarrow> outcomes_agree G (gu_dir t) (gu_receipts t)"
    using assms(3,4) p(1,3) by (simp add: guest_inv_def outcomes_agree_def aside_fields[OF a])
  moreover have "outcomes_kept G K (gu_dir t)"
    using assms(3,4) p(1,3) by (fastforce simp: guest_inv_def outcomes_kept_def)
  ultimately show ?thesis by (simp add: guest_inv_def aside_fields[OF a])
qed

lemma context_written:
  assumes "uuid_laws (gx_crates G)" "touches (temp_or ''context.json'') s t"
  shows "has_receipt G (gu_dir t) i = has_receipt G (gu_dir s) i"
    "disk_receipt G (gu_dir t) i = disk_receipt G (gu_dir s) i"
proof -
  have "\<not> temp_or ''context.json'' (receipt_name (gx_crates G) i)"
    using receipt_name_not_context[OF assms(1), of i] extension_names(1)[OF assms(1), of i] by (simp add: temp_or_def)
  then show "has_receipt G (gu_dir t) i = has_receipt G (gu_dir s) i"
    "disk_receipt G (gu_dir t) i = disk_receipt G (gu_dir s) i"
    using assms(2) by (simp_all add: runner.touches_def has_receipt_def disk_receipt_def)
qed

lemma barrier_written:
  assumes "uuid_laws (gx_crates G)" "guest_inv G K s" "gu_up s" "above b (gu_barrier s)" "\<not> gu_failed s"
    "touches (temp_or ''context.json'') s t" "disk_barrier G (gu_dir t) = Some b"
  shows "guest_inv G K (t\<lparr>gu_failed := True\<rparr>)" "guest_inv G K (t\<lparr>gu_barrier := Some b\<rparr>)"
proof -
  have a: "aside s t" using assms(6) by (simp add: runner.touches_def)
  note w = context_written[OF assms(1,6)]
  have same: "gu_barrier s = disk_barrier G (gu_dir s)" using assms(2,3,5) by (simp add: guest_inv_def registry_knows_def)
  have mono: "covered (disk_barrier G (gu_dir s)) i \<Longrightarrow> covers b i" for i
    using above_covers[OF assms(4)] same by simp
  have rec: "launches_recorded G (gu_dir t) (gu_spawned s)"
    using assms(2,7) w mono by (auto simp: guest_inv_def launches_recorded_def)
  have agree: "outcomes_agree G (gu_dir t) (gu_receipts s)"
    using assms(2,3,7) w mono by (fastforce simp: guest_inv_def outcomes_agree_def)
  have kept: "outcomes_kept G K (gu_dir t)"
    using assms(2,7) w mono by (fastforce simp: guest_inv_def outcomes_kept_def)
  have task: "task_owned G t"
    using assms(2) w by (simp add: guest_inv_def task_owned_def aside_fields[OF a] split: option.splits prod.splits)
  have knows: "covered (gu_barrier s) i \<or> bt_contains i (gu_receipts s)" if "i \<in> set (gu_spawned s)" for i
    using assms(2,3) that by (simp add: guest_inv_def registry_knows_def)
  show "guest_inv G K (t\<lparr>gu_failed := True\<rparr>)"
    using rec agree kept task knows
    by (simp add: guest_inv_def registry_knows_def aside_fields[OF a])
  show "guest_inv G K (t\<lparr>gu_barrier := Some b\<rparr>)"
    using rec agree kept task knows mono same assms(7)
    by (auto simp: guest_inv_def registry_knows_def aside_fields[OF a])
qed

lemma forget_inv:
  assumes "guest_inv G K s" "gu_barrier s = Some b" "disk_barrier G (gu_dir s) = Some b"
    "\<And>i c. gu_active s = Some (i, c) \<Longrightarrow> \<not> covers b i"
  shows "guest_inv G K (gu_receipts_update (filter (\<lambda>(i, _). \<not> covers b i)) s)"
proof -
  let ?t = "gu_receipts_update (filter (\<lambda>(i, _). \<not> covers b i)) s"
  have "task_owned G ?t"
    using assms(1,4) by (auto simp: guest_inv_def task_owned_def split: option.splits prod.splits)
  moreover have "gu_up s \<Longrightarrow> registry_knows G ?t"
    using assms(1-3) by (auto simp: guest_inv_def registry_knows_def)
  moreover have "gu_up s \<Longrightarrow> outcomes_agree G (gu_dir s) (gu_receipts ?t)"
    using assms(1,3) by (simp add: guest_inv_def outcomes_agree_def)
  ultimately show ?thesis using assms(1) by (simp add: guest_inv_def)
qed

lemma disk_barrier_written:
  assumes "guest_laws G" "to_vec (gj_binding (gx_json G)) (Retired b) = Some x"
    "dir_get ''context.json'' d = Some (PlainFile x)"
  shows "disk_barrier G d = Some b"
  using assms by (simp add: disk_barrier_def)

lemma context_unchanged:
  assumes "uuid_laws (gx_crates G)" "guest_inv G K s" "touches (temp_or ''context.json'') s t"
    "dir_get ''context.json'' (gu_dir t) = dir_get ''context.json'' (gu_dir s)"
  shows "guest_inv G K t"
proof (rule inv_aside[OF assms(2)])
  show "aside s t" using assms(3) by (simp add: runner.touches_def)
  have "\<not> temp_or ''context.json'' (receipt_name (gx_crates G) i)" for i
    using receipt_name_not_context[OF assms(1), of i] extension_names(1)[OF assms(1), of i] by (simp add: temp_or_def)
  then show "same_records G (gu_dir s) (gu_dir t)" using assms(3,4) by (simp add: same_records_def runner.touches_def)
qed

lemma retire_inv:
  assumes L: "guest_laws G" and I: "guest_inv G K s" and up: "gu_up s"
  shows "outcome s (guest_retire_history G b) (\<lambda>_. guest_inv G K) (guest_inv G K)"
proof -
  have laws: "uuid_laws (gx_crates G)" using L by simp
  have prune: "outcome t (prune_history G names b)
      (\<lambda>_ u. guest_inv G K (gu_receipts_update (filter (\<lambda>(i, _). \<not> covers b i)) u)) (\<lambda>u. guest_inv G K (u\<lparr>gu_failed := True\<rparr>))"
    if t: "guest_inv G K t" "gu_barrier t = Some b" "disk_barrier G (gu_dir t) = Some b"
      and active: "\<And>i c. gu_active t = Some (i, c) \<Longrightarrow> \<not> covers b i" for t names
  proof (rule runner.outcome_reach[OF reach_prune])
    fix u assume u: "touches (prunable (gx_crates G) b) t u"
    have a: "aside t u" using u by (simp add: runner.touches_def)
    have Iu: "guest_inv G K u" by (rule prune_inv[OF laws u t(3,1) active])
    show "guest_inv G K (u\<lparr>gu_failed := True\<rparr>)" by (rule failed_inv[OF Iu])
    show "guest_inv G K (gu_receipts_update (filter (\<lambda>(i, _). \<not> covers b i)) u)"
      by (rule forget_inv[OF Iu]) (use t active prune_disk(1)[OF laws u] in \<open>auto simp: aside_fields[OF a]\<close>)
  qed
  have saved: "outcome s (guest_write_json G (gj_binding (gx_json G)) ''context.json'' (Retired b))
      (\<lambda>_ t. outcome (t\<lparr>gu_barrier := Some b\<rparr>) (prune_history G names b)
        (\<lambda>_ u. guest_inv G K (gu_receipts_update (filter (\<lambda>(i, _). \<not> covers b i)) u))
        (\<lambda>u. guest_inv G K (u\<lparr>gu_failed := True\<rparr>)))
      (\<lambda>t. guest_inv G K (t\<lparr>gu_failed := True\<rparr>))"
    if ok: "above b (gu_barrier s)" "\<not> gu_failed s" "\<And>i c. gu_active s = Some (i, c) \<Longrightarrow> \<not> covers b i" for names
  proof (rule outcome_write)
    fix t x assume t: "touches (temp_or ''context.json'') s t" "to_vec (gj_binding (gx_json G)) (Retired b) = Some x"
      "dir_get ''context.json'' (gu_dir t) = Some (PlainFile x)"
    have a: "aside s t" using t(1) by (simp add: runner.touches_def)
    note d = disk_barrier_written[OF L t(2,3)]
    note w = barrier_written[OF laws I up ok(1,2) t(1) d]
    show "guest_inv G K (t\<lparr>gu_failed := True\<rparr>) \<and> outcome (t\<lparr>gu_barrier := Some b\<rparr>) (prune_history G names b)
        (\<lambda>_ u. guest_inv G K (gu_receipts_update (filter (\<lambda>(i, _). \<not> covers b i)) u))
        (\<lambda>u. guest_inv G K (u\<lparr>gu_failed := True\<rparr>))"
      using w prune[OF w(2), of names] d ok(3) by (simp add: aside_fields[OF a])
  qed (use extension_names(5)[OF laws] laws context_unchanged[OF laws I] failed_inv in auto)
  show ?thesis
    unfolding guest_retire_history_def
    using I saved
    by (auto simp: outcome_simps validate_history_entries_def above_def not_le split: option.splits if_splits)
qed

section \<open>The task\<close>

lemma other_names:
  assumes "uuid_laws (gx_crates G)"
  shows "\<not> (\<exists>out. ''context.json'' = stream_name (gx_crates G) out j)"
    "\<not> (\<exists>out. receipt_name (gx_crates G) i = stream_name (gx_crates G) out j)"
    "''context.json'' \<noteq> report_name (gx_crates G) j" "receipt_name (gx_crates G) i \<noteq> report_name (gx_crates G) j"
proof -
  have e: "extension ''context.json'' \<noteq> extension (stream_name (gx_crates G) out j)"
    "extension (receipt_name (gx_crates G) i) \<noteq> extension (stream_name (gx_crates G) out j)"
    "extension ''context.json'' \<noteq> extension (report_name (gx_crates G) j)"
    "extension (receipt_name (gx_crates G) i) \<noteq> extension (report_name (gx_crates G) j)" for out
    by (simp_all add: extension_names[OF assms])
  show "\<not> (\<exists>out. ''context.json'' = stream_name (gx_crates G) out j)"
    "\<not> (\<exists>out. receipt_name (gx_crates G) i = stream_name (gx_crates G) out j)" using e(1,2) by metis+
  show "''context.json'' \<noteq> report_name (gx_crates G) j" "receipt_name (gx_crates G) i \<noteq> report_name (gx_crates G) j"
    using e(3,4) by metis+
qed

lemma cleanup_inv:
  assumes "guest_inv G K s" "\<And>t. guest_inv G K t \<Longrightarrow> aside s t \<Longrightarrow> gu_dir t = gu_dir s \<Longrightarrow> Q () t"
    "\<And>t. guest_inv G K t \<Longrightarrow> aside s t \<Longrightarrow> gu_dir t = gu_dir s \<Longrightarrow> E t"
  shows "outcome s (guest_cleanup G name) Q E"
proof -
  have "outcome s (guest_cleanup G name) (\<lambda>_ t. aside s t \<and> gu_dir t = gu_dir s) (\<lambda>t. aside s t \<and> gu_dir t = gu_dir s)"
    by (auto simp: guest_cleanup_def outcome_simps runner.aside_def)
  then show ?thesis
    by (rule outcome_mono) (use assms inv_aside[OF assms(1)] in \<open>auto simp: same_records_def\<close>)
qed

lemma drop_task: "guest_inv G K s \<Longrightarrow> guest_inv G K (s\<lparr>gu_task := None\<rparr>)"
  by (simp add: guest_inv_def task_owned_def registry_knows_def)

lemma next_phase:
  "guest_inv G K s \<Longrightarrow> gu_task s = Some (x, p) \<Longrightarrow> q \<noteq> Queued \<Longrightarrow> phase_ok q \<Longrightarrow>
    guest_inv G K (s\<lparr>gu_task := Some (x, q)\<rparr>)"
  by (simp add: guest_inv_def task_owned_def registry_knows_def)

lemma task_phase: "guest_inv G K s \<Longrightarrow> gu_task s = Some (x, p) \<Longrightarrow> phase_ok p"
  by (simp add: guest_inv_def task_owned_def)

lemma same_phase:
  "guest_inv G K s \<Longrightarrow> gu_task s = Some (x, Stopping st b c) \<Longrightarrow>
    guest_inv G K (s\<lparr>gu_task := Some (x, Stopping st b d)\<rparr>)"
  using task_phase[of G K s x "Stopping st b c"] by (intro next_phase) auto

lemma settle_inv:
  assumes L: "guest_laws G" and I: "guest_inv G K s" and up: "gu_up s" and idle: "gu_task s = None"
    and t: "touches (temp_or (receipt_name (gx_crates G) i)) s t"
    and has: "has_receipt G (gu_dir s) i \<Longrightarrow> has_receipt G (gu_dir t) i"
    and r: "run_terminal (rcpt_state r)" "final_receipt r \<Longrightarrow> disk_receipt G (gu_dir t) i = Some r"
    and failed: "gu_failed s \<Longrightarrow> f" and und: "\<And>q. (i, q) \<in> K \<Longrightarrow> covered (disk_barrier G (gu_dir s)) i"
  shows "guest_inv G K (t\<lparr>gu_receipts := bt_insert i r (gu_receipts t), gu_failed := f, gu_active := None\<rparr>)"
proof -
  have a: "aside s t" using t by (simp add: runner.touches_def)
  note w = write_disk[OF guest_lawsD(1)[OF L] t]
  have has': "has_receipt G (gu_dir s) j \<Longrightarrow> has_receipt G (gu_dir t) j" for j
    using w(2)[of j] has by (cases "j = i") auto
  have "launches_recorded G (gu_dir t) (gu_spawned s)"
    using I has' w(1) by (auto simp: guest_inv_def launches_recorded_def)
  moreover have "outcomes_agree G (gu_dir t) (bt_insert i r (gu_receipts s))"
    unfolding outcomes_agree_def w(1)
  proof (intro allI impI)
    fix j assume "\<not> covered (disk_barrier G (gu_dir s)) j"
    then show "(\<forall>r'. disk_receipt G (gu_dir t) j = Some r' \<longrightarrow> final_receipt r' \<longrightarrow>
           (\<exists>m. bt_get j (bt_insert i r (gu_receipts s)) = Some m \<and> run_terminal (rcpt_state m))) \<and>
        (\<forall>m. bt_get j (bt_insert i r (gu_receipts s)) = Some m \<longrightarrow> final_receipt m \<longrightarrow>
           disk_receipt G (gu_dir t) j = Some m)"
      using I up r w(3)[of j] by (cases "j = i") (auto simp: guest_inv_def outcomes_agree_def)
  qed
  moreover have "outcomes_kept G K (gu_dir t)"
    unfolding outcomes_kept_def w(1)
  proof (clarify, intro conjI)
    fix j q assume q: "(j, q) \<in> K"
    then show "final_receipt q" using I by (auto simp: guest_inv_def outcomes_kept_def)
    have "covered (disk_barrier G (gu_dir s)) j \<or> disk_receipt G (gu_dir s) j = Some q"
      using q I by (auto simp: guest_inv_def outcomes_kept_def)
    then show "covered (disk_barrier G (gu_dir s)) j \<or> disk_receipt G (gu_dir t) j = Some q"
      using q und w(3)[of j] by (cases "j = i") auto
  qed
  ultimately show ?thesis
    using I up idle failed w(1)
    by (auto simp: guest_inv_def task_owned_def registry_knows_def aside_fields[OF a])
qed

lemma settled_terminal:
  assumes "\<And>st rep out err. result = Inr (st, rep, out, err) \<Longrightarrow> run_terminal st"
  shows "run_terminal (rcpt_state (settled cleaned result r))"
  using assms by (auto simp: settled_def run_terminal_def split: sum.split prod.split)

lemma uncommitted_terminal [simp]:
  "run_terminal (rcpt_state (uncommitted r))" "\<not> final_receipt (uncommitted r)"
  by (simp_all add: uncommitted_def run_terminal_def final_receipt_def)

lemma finish_inv:
  assumes L: "guest_laws G" and I: "guest_inv G K s" and task: "gu_task s = Some (x, p)"
    and ended: "\<And>st rep out err. result = Inr (st, rep, out, err) \<Longrightarrow> run_terminal st"
  shows "outcome s (run_finish G x result) (\<lambda>_. guest_inv G K) (guest_inv G K)"
proof -
  let ?i = "exec_operation x" and ?n = "receipt_name (gx_crates G) (exec_operation x)"
  have up: "gu_up s" using I task by (simp add: guest_inv_def task_owned_def)
  have und: "covered (disk_barrier G (gu_dir s)) ?i" if "(?i, q) \<in> K" for q
    using undecided[OF I up, of ?i] I task that
    by (auto simp: guest_inv_def task_owned_def outcomes_kept_def)
  let ?w = "\<lambda>r'. succeeds (guest_write_json G (gj_receipt (gx_json G)) ?n r')"
  have saved: "outcome u (guest_write_json G (gj_receipt (gx_json G)) ?n r')
      (\<lambda>_ t. guest_inv G K (t\<lparr>gu_receipts := bt_insert ?i r' (gu_receipts t), gu_failed := gu_failed t \<or> f, gu_active := None\<rparr>))
      (\<lambda>t. guest_inv G K (t\<lparr>gu_receipts := bt_insert ?i (uncommitted r') (gu_receipts t), gu_failed := True, gu_active := None\<rparr>))"
    if u: "guest_inv G K u" "gu_up u" "gu_task u = None" and same: "gu_dir u = gu_dir s" and r': "run_terminal (rcpt_state r')" for u r' f
  proof (rule outcome_write[OF receipt_not_temp])
    fix t b assume t: "touches (temp_or ?n) u t" "to_vec (gj_receipt (gx_json G)) r' = Some b"
      "dir_get ?n (gu_dir t) = Some (PlainFile b)"
    note n = write_disk_new[OF L t(2,3)]
    have a: "aside u t" using t(1) by (simp add: runner.touches_def)
    show "guest_inv G K (t\<lparr>gu_receipts := bt_insert ?i (uncommitted r') (gu_receipts t), gu_failed := True, gu_active := None\<rparr>) \<and>
      guest_inv G K (t\<lparr>gu_receipts := bt_insert ?i r' (gu_receipts t), gu_failed := gu_failed t \<or> f, gu_active := None\<rparr>)"
      using n r' by (intro conjI settle_inv[OF L u t(1)]) (auto simp: aside_fields[OF a] same und)
  next
    fix t assume t: "touches (temp_or ?n) u t" "dir_get ?n (gu_dir t) = dir_get ?n (gu_dir u)"
    show "guest_inv G K (t\<lparr>gu_receipts := bt_insert ?i (uncommitted r') (gu_receipts t), gu_failed := True, gu_active := None\<rparr>)"
      by (rule settle_inv[OF L u t(1)]) (use t(2) und in \<open>auto simp: has_receipt_def same\<close>)
  qed (use L in auto)
  have rest: "outcome t (guest_write_json G (gj_receipt (gx_json G)) ?n (settled c result m)) Q E"
    if t: "guest_inv G K t" "aside (s\<lparr>gu_task := None\<rparr>) t" "gu_dir t = gu_dir s"
      and Q: "\<And>u. guest_inv G K (u\<lparr>gu_receipts := bt_insert ?i (settled c result m) (gu_receipts u),
        gu_failed := gu_failed u \<or> \<not> c, gu_active := None\<rparr>) \<Longrightarrow> Q () u"
      and E: "\<And>u. guest_inv G K (u\<lparr>gu_receipts := bt_insert ?i (uncommitted (settled c result m)) (gu_receipts u),
        gu_failed := True, gu_active := None\<rparr>) \<Longrightarrow> E u" for t c m Q E
    by (rule outcome_mono[OF saved[OF t(1), of "settled c result m" "\<not> c"]])
      (use settled_terminal[OF ended] up Q E t(3) in \<open>auto simp: aside_fields[OF t(2)]\<close>)
  show ?thesis
    unfolding run_finish_def Let_def
    by (simp add: outcome_simps, rule cleanup_inv[OF drop_task[OF I]])
      (auto simp: outcome_simps failed_inv split: option.split intro!: rest)
qed

lemma stream_reach_inv:
  assumes "uuid_laws (gx_crates G)" "guest_inv G K s"
    "reach (\<lambda>n. \<exists>out. n = stream_name (gx_crates G) out j) m"
    "\<And>a t. guest_inv G K t \<Longrightarrow> aside s t \<Longrightarrow> Q a t" "\<And>t. guest_inv G K t \<Longrightarrow> aside s t \<Longrightarrow> E t"
  shows "outcome s m Q E"
proof (rule runner.outcome_reach[OF assms(3)])
  fix t assume t: "touches (\<lambda>n. \<exists>out. n = stream_name (gx_crates G) out j) s t"
  have "guest_inv G K t" by (rule touches_inv[OF assms(2) t other_names(1,2)[OF assms(1)]])
  then show "E t" "Q a t" for a using assms(4,5) t by (simp_all add: runner.touches_def)
qed

lemma spawn_inv:
  assumes "guest_inv G K s" "gu_task s = Some (x, Queued)"
  shows "guest_inv G K (s\<lparr>gu_spawned := gu_spawned s @ [exec_operation x], gu_task := Some (x, Running c)\<rparr>)"
  using assms by (auto simp: guest_inv_def task_owned_def registry_knows_def launches_recorded_def bt_contains_def)

lemma begin_inv:
  assumes L: "guest_laws G" and I: "guest_inv G K s"
  shows "outcome s (run_begin G) (\<lambda>_. guest_inv G K) (guest_inv G K)"
proof (cases "\<exists>x c i. gu_task s = Some (x, Queued) \<and> gu_active s = Some (i, c)")
  case True
  then obtain x c i where s: "gu_task s = Some (x, Queued)" "gu_active s = Some (i, c)" by blast
  have stop: "outcome t (run_finish G x result) (\<lambda>_. guest_inv G K) (guest_inv G K)"
    if "guest_inv G K t" "gu_task t = Some (x, Queued)"
      "\<And>st rep out err. result = Inr (st, rep, out, err) \<Longrightarrow> run_terminal st" for t result
    by (rule finish_inv[OF L that])
  show ?thesis
    unfolding run_begin_def
    using I s stop
    by (auto simp: outcome_simps run_terminal_def
        intro!: stream_reach_inv[OF guest_lawsD(1)[OF L] _ reach_prepare] stop spawn_inv dest: aside_fields)
next
  case False
  then show ?thesis
    unfolding run_begin_def using I by (auto simp: outcome_simps split: option.split prod.split phase.split)
qed

lemma publish_inv:
  assumes I: "guest_inv G K s" and up: "gu_up s" and m: "bt_get i (gu_receipts s) = Some m" "\<not> run_terminal (rcpt_state m)"
    and Q: "\<And>a t. guest_inv G K t \<Longrightarrow> gu_task t = gu_task s \<Longrightarrow> Q a t"
  shows "outcome s (publish_stats out i o') Q E"
proof -
  have "guest_inv G K (gu_receipts_update (bt_insert i (if out then m\<lparr>rcpt_stdout := o'\<rparr> else m\<lparr>rcpt_stderr := o'\<rparr>)) s)"
    by (rule replace_receipt[OF I up m]) (use m in simp)
  then show ?thesis using m Q by (auto simp: publish_stats_def outcome_simps)
qed

lemma chunk_inv:
  assumes L: "guest_laws G" and I: "guest_inv G K s" and task: "gu_task s = Some (x, p)"
    and Q: "\<And>c t. guest_inv G K t \<Longrightarrow> gu_task t = gu_task s \<Longrightarrow> Q c t"
  shows "outcome s (capture_chunk G out data x c) Q E"
proof -
  let ?i = "exec_operation x"
  have r: "reach (\<lambda>n. \<exists>out. n = stream_name (gx_crates G) out ?i) (append_file G (stream_name (gx_crates G) out ?i) d)" for d
    by (intro reach_intro) blast
  obtain m where m: "bt_get ?i (gu_receipts s) = Some m" "\<not> run_terminal (rcpt_state m)" and up: "gu_up s"
    using I task by (auto simp: guest_inv_def task_owned_def)
  have pub: "outcome t (publish_stats out ?i o') Q' E'"
    if "guest_inv G K t" "aside s t" "\<And>a u. guest_inv G K u \<Longrightarrow> gu_task u = gu_task s \<Longrightarrow> Q' a u" for t o' Q' E' out
    by (rule publish_inv[OF that(1) _ _ m(2)]) (use that(3) up m in \<open>auto simp: aside_fields[OF that(2)]\<close>)
  show ?thesis
    unfolding capture_chunk_def Let_def outcome_sbind outcome_succeeds
    by (rule stream_reach_inv[OF guest_lawsD(1)[OF L] I r])
      (auto simp: outcome_simps intro!: pub Q dest: aside_fields)
qed

lemma capture_inv:
  assumes L: "guest_laws G" and I: "guest_inv G K s"
  shows "outcome s (run_capture G out data) (\<lambda>_. guest_inv G K) (guest_inv G K)"
  unfolding run_capture_def
  using I by (auto simp: outcome_simps split: option.split prod.split phase.split
      intro!: chunk_inv[OF L I] intro: next_phase same_phase)

lemma report_inv:
  assumes L: "guest_laws G" and I: "guest_inv G K s"
  shows "outcome s (launcher_report G b) (\<lambda>_. guest_inv G K) (guest_inv G K)"
proof -
  have "touches (\<lambda>n. \<exists>j. n = report_name (gx_crates G) j) s (snd (launcher_report G b s))"
    by (auto simp: launcher_report_def sbind_def runner.touches_def runner.aside_def split: option.split prod.split phase.split)
  from touches_inv[OF I this] other_names(3,4)[OF guest_lawsD(1)[OF L]] show ?thesis
    by (simp add: outcome_snd)
qed

lemma stop_inv:
  assumes I: "guest_inv G K s"
  shows "outcome s (run_stop G why) (\<lambda>_. guest_inv G K) (guest_inv G K)"
proof (cases "\<exists>x c a. gu_task s = Some (x, Running c) \<and> gu_active s = Some a")
  case True
  then obtain x c i f where s: "gu_task s = Some (x, Running c)" "gu_active s = Some (i, f)" by auto
  have step: "guest_inv G K (gu_task_update (\<lambda>_. Some (x, Stopping st b c)) t)"
    if "guest_inv G K t" "aside s t" "run_terminal st" for t st b
    using next_phase[OF that(1), of x "Running c" "Stopping st b c"] s that(3) by (simp add: aside_fields[OF that(2)])
  show ?thesis
    unfolding run_stop_def Let_def
    using s by (auto simp: outcome_simps run_terminal_def split: stop_reason.split intro!: cleanup_inv[OF I] step)
next
  case False
  then show ?thesis
    unfolding run_stop_def using I by (auto simp: outcome_simps split: option.split prod.split phase.split)
qed

lemma outcome_report [outcome_simps]:
  "outcome t (run_report G st i) Q E =
     (case fst (run_report G st i t) of Inl _ \<Rightarrow> E t | Inr a \<Rightarrow> Q a t)"
proof -
  have "snd (run_report G st i t) = t"
    by (auto simp: run_report_def sbind_def split: sum.split option.split prod.split)
  then show ?thesis by (cases "run_report G st i t") (auto simp: outcome_def split: sum.split)
qed

lemma collect_inv:
  assumes L: "guest_laws G" and I: "guest_inv G K s"
  shows "outcome s (run_collect G) (\<lambda>_. guest_inv G K) (guest_inv G K)"
proof (cases "\<exists>x st b c. gu_task s = Some (x, Stopping st b c)")
  case True
  then obtain x st b c where s: "gu_task s = Some (x, Stopping st b c)" by blast
  have fin: "outcome t (run_finish G x result) (\<lambda>_. guest_inv G K) (guest_inv G K)"
    if "guest_inv G K t" "gu_task t = Some (x, Stopping st b c)"
      "\<And>st rep out err. result = Inr (st, rep, out, err) \<Longrightarrow> run_terminal st" for t result
    by (rule finish_inv[OF L that])
  have "run_terminal st" using I s by (auto simp: guest_inv_def task_owned_def)
  then show ?thesis
    unfolding run_collect_def using I s
    by (auto simp: outcome_simps split: sum.split intro!: fin)
next
  case False
  then show ?thesis
    unfolding run_collect_def using I by (auto simp: outcome_simps split: option.split prod.split phase.split)
qed

section \<open>Restarts\<close>

text \<open>What an opened registry knows of a command, and what it reads from the directory.\<close>

definition opened :: "guest_env \<Rightarrow> state_dir \<Rightarrow> (operation_id, receipt) btmap \<Rightarrow> bool" where
  "opened G d m =
     (\<forall>i r. bt_get i m = Some r \<longrightarrow>
        disk_receipt G d i = Some r \<and> run_terminal (rcpt_state r) \<and> rcpt_cleanup_confirmed r \<and>
        rcpt_operation r = i \<and> rcpt_context r = gx_context G \<and> receipt_validate r = Inr ())"

definition reads :: "guest_env \<Rightarrow> string \<Rightarrow> (operation_id, receipt) btmap \<Rightarrow> bool" where
  "reads G name m =
     (extension name = Some ''json'' \<longrightarrow> name = ''context.json'' \<or>
        (\<exists>i. bt_contains i m \<and> name = receipt_name (gx_crates G) i))"

text \<open>The names of receipts that are on the disk stay, and no receipt appears.\<close>

definition same_names :: "guest_env \<Rightarrow> guest_state \<Rightarrow> guest_state \<Rightarrow> bool" where
  "same_names G s t =
     (aside s t \<and> (\<forall>i. has_receipt G (gu_dir t) i = has_receipt G (gu_dir s) i) \<and>
      disk_barrier G (gu_dir t) = disk_barrier G (gu_dir s) \<and>
      (\<forall>i r. final_receipt r \<longrightarrow> disk_receipt G (gu_dir s) i = Some r \<longrightarrow> disk_receipt G (gu_dir t) i = Some r))"

lemma same_names_trans: "same_names G s t \<Longrightarrow> same_names G t u \<Longrightarrow> same_names G s u"
  by (auto simp: same_names_def intro: runner.aside_trans)

lemma same_names_refl [simp]: "same_names G s s" "same_names G s (s\<lparr>gu_step := k\<rparr>)"
  by (simp_all add: same_names_def)

lemma recovered_valid:
  "receipt_validate r = Inr u \<Longrightarrow> receipt_validate (recovered r) = Inr ()"
  by (simp add: receipt_valid_iff recovered_def)

lemma recovered_simps [simp]:
  "run_terminal (rcpt_state (recovered r))" "rcpt_cleanup_confirmed (recovered r)"
  "rcpt_operation (recovered r) = rcpt_operation r" "rcpt_context (recovered r) = rcpt_context r"
  by (simp_all add: recovered_def run_terminal_def)

lemma read_json_Inr:
  "guest_read_json J name s = Inr x \<Longrightarrow> \<exists>b. dir_get name (gu_dir s) = Some (PlainFile b) \<and> from_slice J b = Some x"
  by (auto simp: guest_read_json_def split: option.splits state_entry.splits)

lemma read_receipt:
  assumes "guest_read_json (gj_receipt (gx_json G)) (receipt_name (gx_crates G) i) s = Inr r"
  shows "disk_receipt G (gu_dir s) i = Some r" "has_receipt G (gu_dir s) i"
  using read_json_Inr[OF assms] by (auto simp: disk_receipt_def has_receipt_def)

text \<open>One entry.\<close>

definition entry_done :: "guest_env \<Rightarrow> guest_state \<Rightarrow> (operation_id, receipt) btmap \<Rightarrow> string \<Rightarrow>
    nat \<times> (operation_id, receipt) btmap \<Rightarrow> guest_state \<Rightarrow> bool" where
  "entry_done G s m name acc t =
     (same_names G s t \<and> opened G (gu_dir t) (snd acc) \<and> reads G name (snd acc) \<and>
      (\<forall>i. bt_contains i m \<longrightarrow> bt_contains i (snd acc)))"

lemma opened_other:
  assumes "opened G d m" "\<And>j. bt_contains j m \<Longrightarrow> disk_receipt G d' j = disk_receipt G d j"
  shows "opened G d' m"
  using assms by (auto simp: opened_def bt_contains_def)

lemma opened_insert:
  assumes "opened G d m" "disk_receipt G d i = Some r" "run_terminal (rcpt_state r)" "rcpt_cleanup_confirmed r"
    "rcpt_operation r = i" "rcpt_context r = gx_context G" "receipt_validate r = Inr ()"
  shows "opened G d (bt_insert i r m)"
  using assms by (auto simp: opened_def)

lemma opened_tmp:
  assumes L: "guest_laws G" and o: "opened G (gu_dir s) (snd acc)" and n: "extension name = Some ''tmp''"
  shows "outcome s (sbind (guest_remove G name) (\<lambda>_. sret acc)) (entry_done G s (snd acc) name) (same_names G s)"
proof -
  have "reach (\<lambda>n. extension n = Some ''tmp'') (guest_remove G name)" using n by (intro reach_intro) simp
  then show ?thesis
    unfolding outcome_sbind
  proof (rule runner.outcome_reach)
    fix t assume t: "touches (\<lambda>n. extension n = Some ''tmp'') s t"
    have "same_records G (gu_dir s) (gu_dir t)"
      by (rule touches_same[OF t]) (use extension_names(1,5)[OF guest_lawsD(1)[OF L]] in auto)
    note sr = same_recordsD[OF this]
    show "same_names G s t" using t sr by (simp add: same_names_def runner.touches_def)
    then show "outcome t (sret acc) (entry_done G s (snd acc) name) (same_names G s)"
      using opened_other[OF o, of "gu_dir t"] sr n by (simp add: outcome_simps entry_done_def reads_def)
  qed
qed

lemma open_receipt:
  assumes L: "guest_laws G" and o: "opened G (gu_dir s) m"
    and r: "disk_receipt G (gu_dir s) i = Some r" "has_receipt G (gu_dir s) i" "receipt_validate r = Inr ()"
      "rcpt_context r = gx_context G" "rcpt_operation r = i"
    and Q: "\<And>r' t. same_names G s t \<Longrightarrow> (\<not> bt_contains i m \<Longrightarrow> opened G (gu_dir t) (bt_insert i r' m)) \<Longrightarrow> Q r' t"
    and E: "\<And>t. same_names G s t \<Longrightarrow> E t"
  shows "outcome s (recover_receipt G (receipt_name (gx_crates G) i) r) Q E"
proof (cases "\<not> run_terminal (rcpt_state r) \<or> \<not> rcpt_cleanup_confirmed r")
  case False
  then show ?thesis using Q[of s r] opened_insert[OF o r(1)] r by (simp add: recover_receipt_def outcome_simps)
next
  case True
  let ?n = "receipt_name (gx_crates G) i"
  have saved: "outcome t (guest_write_json G (gj_receipt (gx_json G)) ?n (recovered r)) (\<lambda>_. Q (recovered r)) E"
    if t: "aside s t" "gu_dir t = gu_dir s" for t
  proof (rule outcome_write[OF receipt_not_temp])
    fix u b assume u: "touches (temp_or ?n) t u" "to_vec (gj_receipt (gx_json G)) (recovered r) = Some b"
      "dir_get ?n (gu_dir u) = Some (PlainFile b)"
    note n = write_disk_new[OF L u(2,3)]
    note w = write_disk[OF guest_lawsD(1)[OF L] u(1), unfolded t(2)]
    have a: "aside s u" using t(1) u(1) by (auto simp: runner.touches_def intro: runner.aside_trans)
    have has: "has_receipt G (gu_dir u) j = has_receipt G (gu_dir s) j" for j
      using n(1) r(2) w(2)[of j] by (cases "j = i") auto
    have "disk_receipt G (gu_dir u) j = Some q" if "final_receipt q" "disk_receipt G (gu_dir s) j = Some q" for j q
      using that True r(1,3) w(3)[of j] by (cases "j = i") (auto simp: final_receipt_def receipt_valid_iff run_terminal_def)
    then have "same_names G s u" using a w(1) has by (simp add: same_names_def)
    moreover have "opened G (gu_dir u) (bt_insert i (recovered r) m)" if "\<not> bt_contains i m"
      using that opened_other[OF o, of "gu_dir u"] w(3) n(2) recovered_valid[OF r(3)] r(4,5)
      by (intro opened_insert) (metis, simp_all)
    ultimately show "E u \<and> Q (recovered r) u" using E Q by blast
  next
    fix u assume u: "touches (temp_or ?n) t u" "dir_get ?n (gu_dir u) = dir_get ?n (gu_dir t)"
    note w = write_disk[OF guest_lawsD(1)[OF L] u(1), unfolded t(2)]
    have a: "aside s u" using t(1) u(1) by (auto simp: runner.touches_def intro: runner.aside_trans)
    have "has_receipt G (gu_dir u) j = has_receipt G (gu_dir s) j" for j
      using u(2) t(2) w(2)[of j] by (cases "j = i") (auto simp: has_receipt_def)
    moreover have "disk_receipt G (gu_dir u) j = disk_receipt G (gu_dir s) j" for j
      using u(2) t(2) w(3)[of j] by (cases "j = i") (auto simp: disk_receipt_def)
    ultimately show "E u" using E a w(1) by (simp add: same_names_def)
  qed (use L in simp_all)
  have "outcome s (guest_cleanup G (group_name (gx_crates G) (rcpt_operation r)))
      (\<lambda>_ t. aside s t \<and> gu_dir t = gu_dir s) (\<lambda>t. aside s t \<and> gu_dir t = gu_dir s)"
    by (auto simp: guest_cleanup_def outcome_simps runner.aside_def)
  from outcome_mono[OF this] show ?thesis
    using True saved E by (simp add: recover_receipt_def outcome_simps) (auto simp: same_names_def intro: outcome_mono)
qed

lemma open_entry_done:
  assumes L: "guest_laws G" and o: "opened G (gu_dir s) (snd acc)"
  shows "outcome s (open_entry G acc name) (entry_done G s (snd acc) name) (same_names G s)"
proof (cases "extension name = Some ''tmp''")
  case True
  then show ?thesis using opened_tmp[OF L o True] by (simp add: open_entry_def)
next
  case no_tmp: False
  show ?thesis
  proof (cases "name = ''context.json'' \<or> extension name \<noteq> Some ''json''")
    case True
    then have "open_entry G acc name = sret acc" using no_tmp by (auto simp: open_entry_def)
    then show ?thesis using True o by (auto simp: outcome_simps entry_done_def reads_def)
  next
    case False
    have step: "outcome s (recover_receipt G (receipt_name (gx_crates G) (rcpt_operation r)) r) Q E"
      if r: "guest_read_json (gj_receipt (gx_json G)) (receipt_name (gx_crates G) (rcpt_operation r)) s = Inr r"
        "rcpt_context r = gx_context G"
        "receipt_validate r = Inr ()"
      and Q: "\<And>r' t. same_names G s t \<Longrightarrow>
          (\<not> bt_contains (rcpt_operation r) (snd acc) \<Longrightarrow>
             opened G (gu_dir t) (bt_insert (rcpt_operation r) r' (snd acc))) \<Longrightarrow> Q r' t"
      and E: "\<And>t. same_names G s t \<Longrightarrow> E t" for r Q E
    proof -
      note d = read_receipt[OF r(1)]
      show ?thesis by (rule open_receipt[OF L o d r(3,2) refl Q E])
    qed
    show ?thesis
      using no_tmp False unfolding open_entry_def
      by (auto simp: outcome_simps entry_done_def reads_def intro!: step)
  qed
qed

definition entries_done :: "guest_env \<Rightarrow> guest_state \<Rightarrow> (operation_id, receipt) btmap \<Rightarrow> string list \<Rightarrow>
    nat \<times> (operation_id, receipt) btmap \<Rightarrow> guest_state \<Rightarrow> bool" where
  "entries_done G s m names acc t =
     (same_names G s t \<and> opened G (gu_dir t) (snd acc) \<and> (\<forall>n \<in> set names. reads G n (snd acc)) \<and>
      (\<forall>i. bt_contains i m \<longrightarrow> bt_contains i (snd acc)))"

lemma reads_mono: "reads G n m \<Longrightarrow> (\<And>i. bt_contains i m \<Longrightarrow> bt_contains i m') \<Longrightarrow> reads G n m'"
  by (auto simp: reads_def)

lemma open_entries_done:
  assumes L: "guest_laws G"
  shows "opened G (gu_dir s) (snd acc) \<Longrightarrow>
    outcome s (open_entries G acc names) (entries_done G s (snd acc) names) (same_names G s)"
proof (induction names arbitrary: s acc)
  case Nil
  then show ?case by (simp add: outcome_simps entries_done_def)
next
  case (Cons n names)
  have "outcome t (open_entries G acc' names) (entries_done G s (snd acc) (n # names)) (same_names G s)"
    if e: "entry_done G s (snd acc) n acc' t" for acc' t
  proof -
    have "opened G (gu_dir t) (snd acc')" "same_names G s t" using e by (simp_all add: entry_done_def)
    then show ?thesis
      using e by (intro outcome_mono[OF Cons.IH])
        (auto simp: entries_done_def entry_done_def intro: same_names_trans reads_mono)
  qed
  then show ?case
    using outcome_mono[OF open_entry_done[OF L Cons.prems, of n]] by (simp add: outcome_simps)
qed

text \<open>The binding.\<close>

lemma read_binding_done:
  assumes L: "guest_laws G"
  shows "outcome s (read_binding G)
    (\<lambda>b t. same_names G s t \<and> b = disk_barrier G (gu_dir t) \<and>
       (\<forall>x. b = Some x \<longrightarrow> barrier_validate (gx_crates G) x (gx_context G) Commands = Inr ()))
    (same_names G s)"
proof (cases "dir_get ''context.json'' (gu_dir s) = None")
  case True
  have laws: "uuid_laws (gx_crates G)" using L by simp
  have none: "disk_barrier G (gu_dir s) = None" using True by (simp add: disk_barrier_def)
  have "outcome s (guest_write_json G (gj_binding (gx_json G)) ''context.json'' (Legacy (gx_context G)))
      (\<lambda>_ t. same_names G s t \<and> disk_barrier G (gu_dir t) = None) (same_names G s)"
  proof (rule outcome_write)
    fix t b assume t: "touches (temp_or ''context.json'') s t"
      "to_vec (gj_binding (gx_json G)) (Legacy (gx_context G)) = Some b"
      "dir_get ''context.json'' (gu_dir t) = Some (PlainFile b)"
    have "disk_barrier G (gu_dir t) = None" using L t(2,3) by (simp add: disk_barrier_def)
    then show "same_names G s t \<and> same_names G s t \<and> disk_barrier G (gu_dir t) = None"
      using none t(1) context_written[OF laws t(1)] by (simp add: same_names_def runner.touches_def)
  next
    fix t assume t: "touches (temp_or ''context.json'') s t"
      "dir_get ''context.json'' (gu_dir t) = dir_get ''context.json'' (gu_dir s)"
    then show "same_names G s t"
      using none True context_written[OF laws t(1)] by (simp add: same_names_def runner.touches_def disk_barrier_def)
  qed (use laws extension_names(5)[OF laws] in simp_all)
  from outcome_mono[OF this] show ?thesis
    using True unfolding read_binding_def by (auto simp: outcome_simps)
next
  case False
  have "disk_barrier G (gu_dir s) = (case x of Retired b \<Rightarrow> Some b | Legacy c \<Rightarrow> None)"
    if "guest_read_json (gj_binding (gx_json G)) ''context.json'' s = Inr x" for x
    using read_json_Inr[OF that] by (auto simp: disk_barrier_def)
  then show ?thesis
    using False unfolding read_binding_def
    by (auto simp: outcome_simps binding_validate_def split: binding.splits)
qed

text \<open>The whole of an opening.\<close>

definition closed_state :: "guest_env \<Rightarrow> (operation_id \<times> receipt) set \<Rightarrow> guest_state \<Rightarrow> bool" where
  "closed_state G K s = (\<not> gu_up s \<and> gu_task s = None \<and> launches_recorded G (gu_dir s) (gu_spawned s) \<and>
      outcomes_kept G K (gu_dir s))"

definition open_state :: "guest_env \<Rightarrow> (operation_id \<times> receipt) set \<Rightarrow> guest_state \<Rightarrow> bool" where
  "open_state G K s =
     (guest_inv G K s \<and> gu_up s \<and> gu_task s = None \<and> gu_active s = None \<and> \<not> gu_failed s \<and>
      opened G (gu_dir s) (gu_receipts s) \<and> list_all (\<lambda>(_, d). \<not> d) (gu_groups s))"

lemma closed_names: "closed_state G K s \<Longrightarrow> same_names G s t \<Longrightarrow> closed_state G K t"
  by (auto simp: closed_state_def same_names_def launches_recorded_def aside_fields) (fastforce simp: outcomes_kept_def)

lemma closed_state_inv: "closed_state G K s \<Longrightarrow> guest_inv G K s"
  by (simp add: closed_state_def guest_inv_def task_owned_def)

lemma lock_names:
  assumes "uuid_laws (gx_crates G)"
  shows "same_names G s (gu_dir_update (\<lambda>d. if dir_get ''lock'' d = None then dir_put ''lock'' (PlainFile []) d else d) s)"
proof -
  have "receipt_name (gx_crates G) i \<noteq> ''lock''" for i
    using extension_names(1)[OF assms, of i] extension_names(6)[OF assms] by (metis option.distinct(1))
  then show ?thesis by (simp add: same_names_def has_receipt_def disk_receipt_def disk_barrier_def runner.aside_def)
qed

lemma entries_open:
  assumes L: "guest_laws G" and c: "closed_state G K s"
  shows "outcome s (open_entries G (0, []) (dir_names (gu_dir s)))
    (\<lambda>acc t. closed_state G K t \<and> (\<forall>b. b = disk_barrier G (gu_dir s) \<longrightarrow> list_all (\<lambda>(_, d). \<not> d) (gu_groups t) \<longrightarrow>
       open_state G K (t\<lparr>gu_up := True, gu_barrier := b, gu_receipts := snd acc, gu_active := None,
         gu_failed := False, gu_closed := False\<rparr>)))
    (closed_state G K)"
proof -
  have "opened G (gu_dir s) (snd (0 :: nat, []))" by (simp add: opened_def)
  from open_entries_done[OF L this] show ?thesis
  proof (rule outcome_mono)
    fix acc t assume e: "entries_done G s (snd (0 :: nat, [])) (dir_names (gu_dir s)) acc t"
    have n: "same_names G s t" and o: "opened G (gu_dir t) (snd acc)"
      and all: "\<And>n. n \<in> set (dir_names (gu_dir s)) \<Longrightarrow> reads G n (snd acc)"
      using e by (simp_all add: entries_done_def)
    have laws: "uuid_laws (gx_crates G)" using L by simp
    have found: "bt_contains i (snd acc)" if "has_receipt G (gu_dir t) i" for i
    proof -
      have "has_receipt G (gu_dir s) i" using that n by (simp add: same_names_def)
      then have "reads G (receipt_name (gx_crates G) i) (snd acc)"
        by (intro all) (simp add: has_receipt_def dir_names_iff)
      then show ?thesis
        using receipt_name_not_context[OF laws, of i] extension_names(1)[OF laws, of i] laws by (auto simp: reads_def)
    qed
    have "outcomes_agree G (gu_dir t) (snd acc)"
      unfolding outcomes_agree_def
    proof (intro allI impI conjI)
      fix i r assume "disk_receipt G (gu_dir t) i = Some r"
      then have "has_receipt G (gu_dir t) i"
        by (auto simp: disk_receipt_def has_receipt_def split: option.splits)
      then show "\<exists>r'. bt_get i (snd acc) = Some r' \<and> run_terminal (rcpt_state r')"
        using found[of i] o by (auto simp: bt_contains_def opened_def)
    next
      fix i r assume "bt_get i (snd acc) = Some r"
      then show "disk_receipt G (gu_dir t) i = Some r" using o by (simp add: opened_def)
    qed
    moreover have "closed_state G K t" by (rule closed_names[OF c n])
    moreover have "disk_barrier G (gu_dir t) = disk_barrier G (gu_dir s)" using n by (simp add: same_names_def)
    ultimately show "closed_state G K t \<and> (\<forall>b. b = disk_barrier G (gu_dir s) \<longrightarrow> list_all (\<lambda>(_, d). \<not> d) (gu_groups t) \<longrightarrow>
       open_state G K (t\<lparr>gu_up := True, gu_barrier := b, gu_receipts := snd acc, gu_active := None,
         gu_failed := False, gu_closed := False\<rparr>))"
      using found o by (auto simp: open_state_def closed_state_def guest_inv_def task_owned_def registry_knows_def
          launches_recorded_def)
  qed (rule closed_names[OF c])
qed

lemma prune_closed:
  assumes L: "guest_laws G" and c: "closed_state G K s" and b: "disk_barrier G (gu_dir s) = Some b"
    and Q: "\<And>t. closed_state G K t \<Longrightarrow> disk_barrier G (gu_dir t) = Some b \<Longrightarrow> Q () t"
  shows "outcome s (prune_history G names b) Q (closed_state G K)"
proof (rule runner.outcome_reach[OF reach_prune])
  fix t assume t: "touches (prunable (gx_crates G) b) s t"
  have laws: "uuid_laws (gx_crates G)" using L by simp
  have a: "aside s t" using t by (simp add: runner.touches_def)
  have "launches_recorded G (gu_dir t) (gu_spawned s)"
    using prune_recorded[OF laws t b] c by (simp add: closed_state_def)
  moreover have "outcomes_kept G K (gu_dir t)"
    using c b prune_disk(1,3)[OF laws t] by (fastforce simp: closed_state_def outcomes_kept_def)
  ultimately show "closed_state G K t" using c by (simp add: closed_state_def aside_fields[OF a])
  then show "Q x t" for x using Q prune_disk(1)[OF laws t] b by simp
qed

lemma open_done:
  assumes L: "guest_laws G" and c: "closed_state G K s"
  shows "outcome s (runner_open G b) (\<lambda>_. open_state G K) (closed_state G K)"
proof -
  let ?lock = "gu_dir_update (\<lambda>d. if dir_get ''lock'' d = None then dir_put ''lock'' (PlainFile []) d else d) s"
  have laws: "uuid_laws (gx_crates G)" using L by simp
  have c1: "closed_state G K ?lock" by (rule closed_names[OF c lock_names[OF laws]])
  have rest: "outcome t (load_registry G (disk_barrier G (gu_dir t))) (\<lambda>_. open_state G K) (closed_state G K)"
    if t: "closed_state G K t" for t
    unfolding load_registry_def
    using entries_open[OF L t] t
    by (auto simp: outcome_simps history_entries_def elim!: outcome_mono)
  have tail: "outcome t (case disk_barrier G (gu_dir t) of None \<Rightarrow> sret ()
            | Some x \<Rightarrow> sbind (sread history_entries) (\<lambda>names. sbind (slift names) (\<lambda>names. prune_history G names x)))
      (\<lambda>_ u. outcome u (load_registry G (disk_barrier G (gu_dir t))) (\<lambda>_. open_state G K) (closed_state G K))
      (closed_state G K)" if t: "closed_state G K t" for t
  proof (cases "disk_barrier G (gu_dir t)")
    case None
    then show ?thesis using rest[OF t] by (simp add: outcome_simps)
  next
    case (Some x)
    have "outcome t (prune_history G names x)
        (\<lambda>_ u. outcome u (load_registry G (disk_barrier G (gu_dir t))) (\<lambda>_. open_state G K) (closed_state G K))
        (closed_state G K)" for names
      by (rule prune_closed[OF L t Some]) (use rest Some in metis)
    then show ?thesis using Some t by (simp add: outcome_simps)
  qed
  show ?thesis
    unfolding runner_open_def
    using c c1 closed_names[OF c1]
    by (auto simp: outcome_simps intro!: outcome_mono[OF read_binding_done[OF L]] tail)
qed

text \<open>A restart, and every step.\<close>

lemma restart_done:
  assumes L: "guest_laws G" and I: "guest_inv G K s"
  shows "outcome s (guest_restart G b) (\<lambda>_. open_state G K) (closed_state G K)"
proof -
  have "closed_state G K (s\<lparr>gu_up := False, gu_task := None, gu_active := None\<rparr>)"
    using I by (simp add: closed_state_def guest_inv_def)
  from open_done[OF L this] show ?thesis by (simp add: guest_restart_def outcome_simps)
qed

lemma served_inv:
  "(gu_up s \<Longrightarrow> outcome s m (\<lambda>_. guest_inv G K) (guest_inv G K)) \<Longrightarrow> guest_inv G K s \<Longrightarrow> guest_inv G K (served m s)"
  by (simp add: served_def outcome_snd)

theorem guest_step_inv:
  assumes L: "guest_laws G" and I: "guest_inv G K s"
  shows "guest_inv G K (guest_step G x s)"
proof (cases x)
  case (Restart b)
  have "outcome s (guest_restart G b) (\<lambda>_. guest_inv G K) (guest_inv G K)"
    by (rule outcome_mono[OF restart_done[OF L I]]) (auto simp: open_state_def intro: closed_state_inv)
  then show ?thesis using Restart by (simp add: outcome_snd)
next
  case (RqStart y)
  then show ?thesis using start_inv[OF L I] I by (simp add: served_def)
next
  case (RqOutput q)
  then show ?thesis using output_inv[OF I] I by (simp add: served_def)
next
  case (RqCancel i)
  then show ?thesis using served_inv[OF cancel_inv[OF L I] I] by simp
next
  case (RqRetire b)
  then show ?thesis using served_inv[OF retire_inv[OF L I] I] by simp
next
  case RqShutdown
  then show ?thesis using served_inv[OF shutdown_inv[OF L I] I] by simp
qed (use begin_inv[OF L I] capture_inv[OF L I] report_inv[OF L I] stop_inv[OF I] collect_inv[OF L I] in
      \<open>simp_all add: outcome_snd\<close>)

theorem guest_run_inv: "guest_laws G \<Longrightarrow> guest_inv G K s \<Longrightarrow> guest_inv G K (guest_run G xs s)"
  by (rule guest_run_invariant) (rule guest_step_inv)

end
