(* ===== verification/Guest_Samples.thy ===== *)
theory Guest_Samples
  imports Guest_Runs Samples
begin

text \<open>A guest on which the witnesses of \<open>Guest_Properties\<close> run one command.\<close>

definition sample_context :: guest_context where
  "sample_context = \<lparr>ctx_allocation = AllocationId (sample_uuid 101), ctx_generation = 1, ctx_boot = ''b''\<rparr>"

definition sample_execute :: execute where
  "sample_execute =
     \<lparr>exec_operation = OperationId (sample_uuid 7), exec_argv = [''/x''], exec_env = [], exec_cwd = ''/'',
      exec_deadline = 5000, exec_output_limit = 4\<rparr>"

definition sample_digest :: bytes where
  "sample_digest = sha256 ref_crates (as_bytes (''hudson-guest-execute-v1'' @ [CHR 0x00]))"

definition sample_receipt :: "run_state \<Rightarrow> receipt" where
  "sample_receipt st =
     \<lparr>rcpt_version = 1, rcpt_context = sample_context, rcpt_operation = OperationId (sample_uuid 7),
      rcpt_digest = sample_digest, rcpt_state = st, rcpt_deadline = 5000, rcpt_output_limit = 4,
      rcpt_cancel_requested = False, rcpt_cleanup_confirmed = (st \<noteq> LaunchIntent),
      rcpt_exit_code = (if st = Exited then Some 0 else None), rcpt_signal = None,
      rcpt_stdout = (if st = LaunchIntent then no_output else \<lparr>out_seen = 6, out_stored = 4, out_truncated = True\<rparr>),
      rcpt_stderr = no_output, rcpt_reason = None\<rparr>"

definition sample_guest_json :: guest_json where
  "sample_guest_json =
     \<lparr>gj_execute = table_json [sample_execute],
      gj_receipt = table_json [sample_receipt LaunchIntent, sample_receipt Exited, recovered (sample_receipt LaunchIntent)],
      gj_binding = table_json [Legacy sample_context],
      gj_report = table_json [\<lparr>er_version = 1, er_exit_code = Some 0, er_signal = None\<rparr>]\<rparr>"

definition sample_guest_world :: guest_world where
  "sample_guest_world =
     \<lparr>gw_now = (\<lambda>_. 1000), gw_fresh = (\<lambda>_. OperationId (sample_uuid 8)), gw_write = (\<lambda>_. WriteFine),
      gw_kill = (\<lambda>_. True), gw_remove = (\<lambda>_. True), gw_prepare = (\<lambda>_. True), gw_spawn = (\<lambda>_. True),
      gw_store = (\<lambda>_. True), gw_drained = (\<lambda>_. True), gw_read = (\<lambda>_. 4)\<rparr>"

definition sample_guest :: guest_env where
  "sample_guest =
     \<lparr>gx_crates = ref_crates, gx_json = sample_guest_json, gx_context = sample_context,
      gx_world = sample_guest_world\<rparr>"

definition new_guest :: guest_state where
  "new_guest =
     \<lparr>gu_dir = [], gu_groups = [], gu_up = False, gu_barrier = None, gu_receipts = [], gu_active = None,
      gu_failed = False, gu_closed = False, gu_task = None, gu_step = 0, gu_spawned = []\<rparr>"

definition sample_boot :: guest_boot where
  "sample_boot = \<lparr>gb_boot = ''b'', gb_ready = True, gb_locked = True\<rparr>"

definition sample_ops :: "guest_op list" where
  "sample_ops =
     [Restart sample_boot, RqStart sample_execute, TaskBegin, TaskChunk True [1, 2, 3, 4, 5, 6], TaskReport [],
      TaskStop (StopExit True), TaskCollect]"

lemmas sample_guest_defs =
  sample_guest_def sample_guest_json_def sample_guest_world_def sample_boot_def

lemma sample_guest_simps [simp]:
  "gx_crates sample_guest = ref_crates" "gx_context sample_guest = sample_context"
  "gw_now (gx_world sample_guest) n = 1000" "gw_fresh (gx_world sample_guest) n = OperationId (sample_uuid 8)"
  "gw_write (gx_world sample_guest) n = WriteFine" "gw_kill (gx_world sample_guest) n"
  "gw_remove (gx_world sample_guest) n" "gw_prepare (gx_world sample_guest) n" "gw_spawn (gx_world sample_guest) n"
  "gw_store (gx_world sample_guest) n" "gw_drained (gx_world sample_guest) n"
  "to_vec (gj_execute (gx_json sample_guest)) sample_execute = Some []"
  "to_vec (gj_binding (gx_json sample_guest)) (Legacy sample_context) = Some []"
  "from_slice (gj_binding (gx_json sample_guest)) [] = Some (Legacy sample_context)"
  "to_vec (gj_receipt (gx_json sample_guest)) (sample_receipt LaunchIntent) = Some []"
  "to_vec (gj_receipt (gx_json sample_guest)) (sample_receipt Exited) = Some [1]"
  "to_vec (gj_receipt (gx_json sample_guest)) (recovered (sample_receipt LaunchIntent)) = Some [1, 1]"
  "from_slice (gj_receipt (gx_json sample_guest)) [] = Some (sample_receipt LaunchIntent)"
  "from_slice (gj_receipt (gx_json sample_guest)) [1] = Some (sample_receipt Exited)"
  "from_slice (gj_report (gx_json sample_guest)) [] = Some \<lparr>er_version = 1, er_exit_code = Some 0, er_signal = None\<rparr>"
  by (simp_all add: sample_guest_defs table_json_def sample_receipt_def recovered_def)

lemma sample_command_simps [simp]:
  "ctx_generation sample_context = 1" "ctx_boot sample_context = ''b''"
  "exec_operation sample_execute = OperationId (sample_uuid 7)" "exec_deadline sample_execute = 5000"
  "exec_output_limit sample_execute = 4"
  by (simp_all add: sample_context_def sample_execute_def)

lemma sample_command_admitted [simp]:
  "execute_validate (gj_execute (gx_json sample_guest)) sample_execute = Inr ()"
  "execute_digest ref_crates (gj_execute (gx_json sample_guest)) sample_execute = Inr sample_digest"
  by (simp_all add: execute_validate_def execute_digest_def sample_digest_def guest_max_output_def)
    (simp_all add: sample_execute_def no_nul_def)

lemma sample_receipts [simp]:
  "launch_intent sample_guest sample_execute sample_digest = sample_receipt LaunchIntent"
  "rcpt_output_limit (sample_receipt st) = 4" "rcpt_state (sample_receipt st) = st"
  "rcpt_operation (sample_receipt st) = OperationId (sample_uuid 7)"
  by (simp_all add: launch_intent_def sample_receipt_def)

lemma sample_boot_simps [simp]: "gb_boot sample_boot = ''b''" "gb_ready sample_boot" "gb_locked sample_boot"
  by (simp_all add: sample_boot_def)

lemma sample_guest_laws: "guest_laws sample_guest"
  by (simp add: guest_laws_def sample_guest_defs ref_uuid_laws table_json_faithful)

text \<open>The names of the files of the two identities, kept as they are.\<close>

lemma extension_neq: "extension a \<noteq> extension b \<Longrightarrow> (a = b) = False"
  by auto

lemma sample_names:
  "(receipt_name ref_crates i = show_operation ref_crates j @ ''.tmp'') = False"
  "(receipt_name ref_crates i = stream_name ref_crates True k) = False"
  "(receipt_name ref_crates i = stream_name ref_crates False k) = False"
  "(receipt_name ref_crates i = report_name ref_crates l) = False"
  "(show_operation ref_crates j @ ''.tmp'' = receipt_name ref_crates i) = False"
  "(show_operation ref_crates j @ ''.tmp'' = stream_name ref_crates True k) = False"
  "(show_operation ref_crates j @ ''.tmp'' = stream_name ref_crates False k) = False"
  "(show_operation ref_crates j @ ''.tmp'' = report_name ref_crates l) = False"
  "(stream_name ref_crates True k = receipt_name ref_crates i) = False"
  "(stream_name ref_crates True k = show_operation ref_crates j @ ''.tmp'') = False"
  "(stream_name ref_crates True k = stream_name ref_crates False k) = False"
  "(stream_name ref_crates True k = report_name ref_crates l) = False"
  "(stream_name ref_crates False k = receipt_name ref_crates i) = False"
  "(stream_name ref_crates False k = show_operation ref_crates j @ ''.tmp'') = False"
  "(stream_name ref_crates False k = stream_name ref_crates True k) = False"
  "(stream_name ref_crates False k = report_name ref_crates l) = False"
  "(report_name ref_crates l = receipt_name ref_crates i) = False"
  "(report_name ref_crates l = show_operation ref_crates j @ ''.tmp'') = False"
  "(report_name ref_crates l = stream_name ref_crates True k) = False"
  "(report_name ref_crates l = stream_name ref_crates False k) = False"
  "(receipt_name ref_crates i = ''lock'') = False" "(''lock'' = receipt_name ref_crates i) = False"
  "(show_operation ref_crates j @ ''.tmp'' = ''lock'') = False" "(''lock'' = show_operation ref_crates j @ ''.tmp'') = False"
  "(stream_name ref_crates True k = ''lock'') = False" "(''lock'' = stream_name ref_crates True k) = False"
  "(stream_name ref_crates False k = ''lock'') = False" "(''lock'' = stream_name ref_crates False k) = False"
  "(report_name ref_crates l = ''lock'') = False" "(''lock'' = report_name ref_crates l) = False"
  "(show_operation ref_crates j @ ''.tmp'' = ''context.json'') = False" "(''context.json'' = show_operation ref_crates j @ ''.tmp'') = False"
  "(stream_name ref_crates True k = ''context.json'') = False" "(''context.json'' = stream_name ref_crates True k) = False"
  "(stream_name ref_crates False k = ''context.json'') = False" "(''context.json'' = stream_name ref_crates False k) = False"
  "(report_name ref_crates l = ''context.json'') = False" "(''context.json'' = report_name ref_crates l) = False"
  by (rule extension_neq, simp add: extension_names[OF ref_uuid_laws] extension_names(5,6)[OF ref_uuid_laws])+

lemma sample_context_names:
  "(receipt_name ref_crates i = ''context.json'') = False" "(''context.json'' = receipt_name ref_crates i) = False"
  using receipt_name_not_context[OF ref_uuid_laws] by metis+

lemmas sample_extensions = extension_names(1-4)[OF ref_uuid_laws]

lemmas sample_eval =
  sbind_def on_failure_def succeeds_def gask_def slift_def sensure_def ensure_def ok_or_def is_ok_def Let_def
  dir_get_def dir_put_def dir_drop_def dir_names_def sample_names sample_context_names sample_extensions
  extension_names(5,6)[OF ref_uuid_laws] guest_write_json_def guest_read_json_def served_def new_guest_def
  guest_max_records_def guest_max_reserved_def guest_metadata_max_def guest_max_entries_def

section \<open>The states of one run\<close>

definition guest_opened :: guest_state where
  "guest_opened =
     new_guest\<lparr>gu_dir := [(''lock'', PlainFile []), (''context.json'', PlainFile [])], gu_up := True, gu_step := 2\<rparr>"

definition guest_queued :: guest_state where
  "guest_queued =
     guest_opened\<lparr>gu_dir := gu_dir guest_opened @ [(receipt_name ref_crates (OperationId (sample_uuid 7)), PlainFile [])],
       gu_receipts := [(OperationId (sample_uuid 7), sample_receipt LaunchIntent)],
       gu_active := Some (OperationId (sample_uuid 7), False), gu_task := Some (sample_execute, Queued), gu_step := 5\<rparr>"

lemma sample_open: "guest_step sample_guest (Restart sample_boot) new_guest = guest_opened"
  by (simp add: guest_restart_def runner_open_def read_binding_def load_registry_def history_entries_def
      open_entry_def guest_opened_def sample_eval)

lemma sample_start: "guest_step sample_guest (RqStart sample_execute) guest_opened = guest_queued"
  by (simp add: guest_start_def guest_opened_def guest_queued_def sample_eval bt_values_def checked_sub_i64_def in_i64_def)

definition guest_running :: guest_state where
  "guest_running =
     guest_queued\<lparr>gu_dir := gu_dir guest_queued @
         [(stream_name ref_crates True (OperationId (sample_uuid 7)), PlainFile []),
          (stream_name ref_crates False (OperationId (sample_uuid 7)), PlainFile [])],
       gu_groups := [(group_name ref_crates (OperationId (sample_uuid 7)), True)],
       gu_task := Some (sample_execute, Running \<lparr>cap_left = 4, cap_stdout_stats = no_output,
         cap_stderr_stats = no_output, cap_failed = False\<rparr>),
       gu_step := 10, gu_spawned := [OperationId (sample_uuid 7)]\<rparr>"

definition sample_captured :: output_stats where
  "sample_captured = \<lparr>out_seen = 6, out_stored = 4, out_truncated = True\<rparr>"

definition guest_captured :: guest_state where
  "guest_captured =
     guest_running\<lparr>gu_dir := gu_dir guest_queued @
         [(stream_name ref_crates True (OperationId (sample_uuid 7)), PlainFile [1, 2, 3, 4]),
          (stream_name ref_crates False (OperationId (sample_uuid 7)), PlainFile [])],
       gu_receipts := [(OperationId (sample_uuid 7), (sample_receipt LaunchIntent)\<lparr>rcpt_stdout := sample_captured\<rparr>)],
       gu_task := Some (sample_execute, Running \<lparr>cap_left = 0, cap_stdout_stats = sample_captured,
         cap_stderr_stats = no_output, cap_failed = False\<rparr>),
       gu_step := 11\<rparr>"

definition guest_exited :: guest_state where
  "guest_exited =
     guest_captured\<lparr>gu_dir := gu_dir guest_opened @
         [(receipt_name ref_crates (OperationId (sample_uuid 7)), PlainFile [1]),
          (stream_name ref_crates True (OperationId (sample_uuid 7)), PlainFile [1, 2, 3, 4]),
          (stream_name ref_crates False (OperationId (sample_uuid 7)), PlainFile []),
          (report_name ref_crates (OperationId (sample_uuid 7)), PlainFile [])],
       gu_groups := [], gu_receipts := [(OperationId (sample_uuid 7), sample_receipt Exited)],
       gu_active := None, gu_task := None, gu_step := 15\<rparr>"

lemmas sample_states = guest_opened_def guest_queued_def guest_running_def guest_captured_def guest_exited_def

lemma sample_begin: "guest_step sample_guest TaskBegin guest_queued = guest_running"
  by (simp add: run_begin_def run_prepare_def create_stream_def sample_states sample_eval)

lemma sample_chunk: "guest_step sample_guest (TaskChunk True [1, 2, 3, 4, 5, 6]) guest_running = guest_captured"
  by (simp add: run_capture_def capture_chunk_def append_file_def publish_stats_def counted_def sample_captured_def
      saturating_add_u64_def saturating_sub_u64_def no_output_def sample_states sample_eval)

lemma sample_settled:
  "settled True (Inr (Exited, Some \<lparr>er_version = 1, er_exit_code = Some 0, er_signal = None\<rparr>, sample_captured, no_output))
     ((sample_receipt LaunchIntent)\<lparr>rcpt_stdout := sample_captured\<rparr>) = sample_receipt Exited"
  by (simp add: settled_def sample_receipt_def sample_captured_def)

lemma sample_end:
  "guest_run sample_guest [TaskReport [], TaskStop (StopExit True), TaskCollect] guest_captured = guest_exited"
  using sample_settled
  by (simp add: launcher_report_def run_stop_def run_collect_def run_report_def run_finish_def guest_cleanup_def
      group_absent_def sample_states sample_eval)

lemma sample_guest_run: "guest_run sample_guest sample_ops new_guest = guest_exited"
  using sample_end
  by (simp add: sample_ops_def sample_open sample_start sample_begin sample_chunk del: guest_step.simps)

lemma sample_exited [simp]:
  "gu_spawned guest_exited = [OperationId (sample_uuid 7)]" "gu_up guest_exited"
  "bt_get (OperationId (sample_uuid 7)) (gu_receipts guest_exited) = Some (sample_receipt Exited)"
  by (simp_all add: sample_states new_guest_def)

text \<open>A restart while the command runs.\<close>

definition guest_recovered :: guest_state where
  "guest_recovered =
     guest_opened\<lparr>gu_dir := gu_dir guest_opened @
         [(receipt_name ref_crates (OperationId (sample_uuid 7)), PlainFile [1, 1]),
          (stream_name ref_crates True (OperationId (sample_uuid 7)), PlainFile []),
          (stream_name ref_crates False (OperationId (sample_uuid 7)), PlainFile [])],
       gu_receipts := [(OperationId (sample_uuid 7), recovered (sample_receipt LaunchIntent))],
       gu_step := 13, gu_spawned := [OperationId (sample_uuid 7)]\<rparr>"

lemma sample_receipt_checked:
  "rcpt_version (sample_receipt st) = 1" "rcpt_context (sample_receipt st) = sample_context"
  "receipt_validate (sample_receipt LaunchIntent) = Inr ()"
  by (simp_all add: sample_receipt_def receipt_valid_iff no_output_def guest_max_output_def)

lemma sample_recover: "guest_restart sample_guest sample_boot guest_running = (Inr (), guest_recovered)"
  by (simp add: guest_restart_def runner_open_def read_binding_def load_registry_def history_entries_def
      open_entry_def recover_receipt_def guest_cleanup_def group_absent_def run_terminal_def sample_receipt_checked binding_validate_def
      checked_add_u64_def bt_contains_def
      guest_recovered_def sample_states sample_eval)

end
