(* ===== verification/Guest_Properties.thy ===== *)
theory Guest_Properties
  imports Guest_Samples
begin

text \<open>
  What the guest agent promises about commands, over every run of requests, task steps and
  restarts (\<open>Guest_Runs\<close>), with the files in whatever state earlier faults left them.
\<close>

definition cold_guest :: "guest_state \<Rightarrow> bool" where
  "cold_guest s = (\<not> gu_up s \<and> gu_task s = None \<and> gu_spawned s = [])"

lemma cold_inv: "cold_guest s \<Longrightarrow> guest_inv G {} s"
  by (simp add: cold_guest_def guest_inv_def launches_recorded_def task_owned_def outcomes_kept_def)

text \<open>
  C8: An agent launches a command at most once, whatever is requested of it, wherever a write, a
  removal or a cleanup fails and however often the agent is restarted: the launches of any run
  are of distinct operations. Each launched operation has a receipt in the state directory, or
  the retirement barrier stored there covers it.
\<close>

theorem guest_starts_once:
  assumes "guest_laws G" "cold_guest s"
  shows "distinct (gu_spawned (guest_run G ops s)) \<and>
    (\<forall>i. i \<in> set (gu_spawned (guest_run G ops s)) \<longrightarrow>
       has_receipt G (gu_dir (guest_run G ops s)) i \<or> covered (disk_barrier G (gu_dir (guest_run G ops s))) i)"
proof -
  have "guest_inv G {} (guest_run G ops s)" by (rule guest_run_inv[OF assms(1) cold_inv[OF assms(2)]])
  then show ?thesis by (auto simp: guest_inv_def launches_recorded_def)
qed

theorem guest_starts_once_witness:
  "gu_spawned (guest_run sample_guest sample_ops new_guest) = [OperationId (sample_uuid 7)] \<and>
   distinct (gu_spawned (guest_run sample_guest (sample_ops @ sample_ops) new_guest))"
proof -
  have "cold_guest new_guest" by (simp add: cold_guest_def new_guest_def)
  from guest_starts_once[OF sample_guest_laws this] show ?thesis by (simp add: sample_guest_run)
qed

text \<open>
  C9: Once an inspection has reported that a command exited, timed out or was cancelled, the
  receipt file holds exactly that receipt after every further run, faults and restarts included,
  until the retirement barrier in the state directory covers the command.
\<close>

theorem guest_outcome_durable:
  assumes "guest_laws G" "cold_guest s" "gu_up (guest_run G xs s)"
    and "fst (guest_inspect i (guest_run G xs s)) = Inr (Some r)" "final_receipt r"
  shows "disk_receipt G (gu_dir (guest_run G (xs @ ys) s)) i = Some r \<or>
    covered (disk_barrier G (gu_dir (guest_run G (xs @ ys) s))) i"
proof -
  let ?t = "guest_run G xs s"
  have I: "guest_inv G {} ?t" by (rule guest_run_inv[OF assms(1) cold_inv[OF assms(2)]])
  have "bt_get i (gu_receipts ?t) = Some r" using assms(4) by (simp add: guest_inspect_def)
  then have "guest_inv G {(i, r)} ?t"
    using I assms(3,5) by (auto simp: guest_inv_def outcomes_agree_def outcomes_kept_def)
  from guest_run_inv[OF assms(1) this, of ys] show ?thesis
    by (auto simp: guest_run_append guest_inv_def outcomes_kept_def)
qed

theorem guest_outcome_durable_witness:
  "disk_receipt sample_guest (gu_dir (guest_run sample_guest (sample_ops @ [Restart sample_boot, RqShutdown]) new_guest))
     (OperationId (sample_uuid 7)) = Some (sample_receipt Exited) \<or>
   covered (disk_barrier sample_guest (gu_dir (guest_run sample_guest (sample_ops @ [Restart sample_boot, RqShutdown]) new_guest)))
     (OperationId (sample_uuid 7))"
proof -
  have "cold_guest new_guest" by (simp add: cold_guest_def new_guest_def)
  from guest_outcome_durable[OF sample_guest_laws this, of sample_ops "OperationId (sample_uuid 7)" "sample_receipt Exited"]
  show ?thesis by (simp add: sample_guest_run guest_inspect_def final_receipt_def)
qed

text \<open>
  C10: When an agent has opened its state directory, nothing is left running or undecided: no
  command is active, every receipt is valid, terminal, cleaned up and equal to its file, the
  control group directory has no group, and every operation ever launched has such a receipt or
  is covered by the barrier in force.
\<close>

theorem guest_reopen_settles:
  assumes "guest_laws G" "cold_guest s" "guest_restart G b (guest_run G ops s) = (Inr u, t)"
  shows "gu_active t = None \<and> list_all (\<lambda>(_, d). \<not> d) (gu_groups t) \<and>
    (\<forall>i r. bt_get i (gu_receipts t) = Some r \<longrightarrow>
       run_terminal (rcpt_state r) \<and> rcpt_cleanup_confirmed r \<and> receipt_validate r = Inr () \<and>
       disk_receipt G (gu_dir t) i = Some r) \<and>
    (\<forall>i. i \<in> set (gu_spawned t) \<longrightarrow> covered (gu_barrier t) i \<or> bt_contains i (gu_receipts t))"
proof -
  have "guest_inv G {} (guest_run G ops s)" by (rule guest_run_inv[OF assms(1) cold_inv[OF assms(2)]])
  from outcomeD(2)[OF restart_done[OF assms(1) this] assms(3)] show ?thesis
    by (auto simp: open_state_def opened_def guest_inv_def registry_knows_def)
qed

theorem guest_reopen_settles_witness:
  "gu_active guest_recovered = None \<and> gu_spawned guest_recovered = [OperationId (sample_uuid 7)] \<and>
   receipt_validate (recovered (sample_receipt LaunchIntent)) = Inr () \<and>
   list_all (\<lambda>(_, d). \<not> d) (gu_groups guest_recovered)"
proof -
  have c: "cold_guest new_guest" by (simp add: cold_guest_def new_guest_def)
  have "guest_run sample_guest [Restart sample_boot, RqStart sample_execute, TaskBegin] new_guest = guest_running"
    by (simp add: sample_open sample_start sample_begin del: guest_step.simps)
  then have "guest_restart sample_guest sample_boot (guest_run sample_guest
      [Restart sample_boot, RqStart sample_execute, TaskBegin] new_guest) = (Inr (), guest_recovered)"
    by (simp add: sample_recover)
  from guest_reopen_settles[OF sample_guest_laws c this] show ?thesis
    by (simp add: guest_recovered_def guest_opened_def new_guest_def)
qed

end
