(* ===== verification/Guest_Files.thy ===== *)
theory Guest_Files
  imports State_Directory Files
begin

text \<open>
  The file engine inside a guest (\<open>files/mod.rs\<close> and \<open>files/fs.rs\<close> of
  \<open>crates/sandbox-guest/src\<close>): uploads staged in the state directory and published by one rename,
  captures of workspace files, retirement of history and recovery.

  The state directory is a \<open>state_dir\<close>; the workspace beside it maps the paths that resolve to
  their entries. \<open>transfer_world\<close> answers, at the position \<open>ft_step\<close>, how each call of the file
  system ends. \<open>ft_published\<close> records the renames into the workspace. A mode is kept for the
  workspace only: a staged file gets it just before it is published.
\<close>

section \<open>State\<close>

datatype work_entry = WorkFile bytes nat | WorkDir | WorkOther

type_synonym workspace = "(string \<times> work_entry) list"

record transfer_world =
  tw_fresh :: "nat \<Rightarrow> operation_id"
  tw_write :: "nat \<Rightarrow> write_fault"
  tw_remove :: "nat \<Rightarrow> write_fault"
  tw_create :: "nat \<Rightarrow> write_fault"
  tw_publish :: "nat \<Rightarrow> write_fault"
  tw_parent :: "nat \<Rightarrow> string \<Rightarrow> bool"
  tw_append :: "nat \<Rightarrow> nat option"
  tw_sync :: "nat \<Rightarrow> bool"
  tw_stable :: "nat \<Rightarrow> bool"

record file_json =
  fj_upload :: "upload json"
  fj_receipt :: "file_receipt json"
  fj_binding :: "binding json"

record transfer_env =
  tx_crates :: crates
  tx_json :: file_json
  tx_context :: guest_context
  tx_world :: transfer_world

record transfer_state =
  ft_dir :: state_dir
  ft_tree :: workspace
  ft_up :: bool
  ft_barrier :: "barrier option"
  ft_receipts :: "(operation_id, file_receipt) btmap"
  ft_failed :: bool
  ft_downloads :: nat
  ft_step :: nat
  ft_published :: "(upload \<times> bytes) list"

type_synonym 'a transfer = "(transfer_state, unit, 'a) proc"

definition fask :: "(nat \<Rightarrow> 'a) \<Rightarrow> 'a transfer" where
  "fask f s = (Inr (f (ft_step s)), s\<lparr>ft_step := Suc (ft_step s)\<rparr>)"

definition metadata_bound :: nat where "metadata_bound = 16384"

section \<open>The state directory\<close>

definition record_name :: "crates \<Rightarrow> operation_id \<Rightarrow> string" where
  "record_name C i = show_operation C i @ ''.json''"

definition stage_name :: "crates \<Rightarrow> operation_id \<Rightarrow> string" where
  "stage_name C i = show_operation C i @ ''.data''"

definition file_names :: "transfer_state \<Rightarrow> unit + string list" where
  "file_names s =
     rbind (ensure (length (dir_names (ft_dir s)) \<le> max_transfers * 3 + 3) ()) (\<lambda>_. Inr (dir_names (ft_dir s)))"

text \<open>\<open>regular\<close>: the entry is a regular file with one link.\<close>

definition regular :: "string \<Rightarrow> transfer_state \<Rightarrow> unit + bytes" where
  "regular name s = (case dir_get name (ft_dir s) of Some (PlainFile b) \<Rightarrow> Inr b | _ \<Rightarrow> Inl ())"

definition file_read_json :: "'a json \<Rightarrow> string \<Rightarrow> transfer_state \<Rightarrow> unit + 'a" where
  "file_read_json J name s =
     rbind (regular name s) (\<lambda>b.
     rbind (ensure (length b \<le> metadata_bound) ()) (\<lambda>_.
     ok_or () (from_slice J b)))"

definition file_write_json :: "transfer_env \<Rightarrow> 'a json \<Rightarrow> string \<Rightarrow> 'a \<Rightarrow> unit transfer" where
  "file_write_json G J name x =
     sbind (slift (ok_or () (to_vec J x))) (\<lambda>b.
     sbind (sensure (length b \<le> metadata_bound) ()) (\<lambda>_.
     sbind (fask (tw_fresh (tx_world G))) (\<lambda>i.
     sbind (fask (tw_write (tx_world G))) (\<lambda>fault.
     let temp = show_operation (tx_crates G) i @ ''.tmp'' in
     sbind (sread (\<lambda>s. (dir_get temp (ft_dir s), dir_get name (ft_dir s)))) (\<lambda>(old, target).
     sbind (sensure (fault \<noteq> WriteNothing \<and> old = None) ()) (\<lambda>_.
     sbind (swrite (ft_dir_update (dir_put temp (PlainFile b)))) (\<lambda>_.
     sbind (sensure (fault \<noteq> WriteLeft \<and> target \<noteq> Some DirEntry) ()) (\<lambda>_.
     sbind (swrite (ft_dir_update (\<lambda>d. dir_put name (PlainFile b) (dir_drop temp d)))) (\<lambda>_.
     sensure (fault \<noteq> WriteUnsynced) ())))))))))"

definition file_remove :: "transfer_env \<Rightarrow> string \<Rightarrow> unit transfer" where
  "file_remove G name =
     sbind (sread (\<lambda>s. dir_get name (ft_dir s))) (\<lambda>e.
     case e of
       None \<Rightarrow> sret ()
     | Some x \<Rightarrow>
         sbind (fask (tw_remove (tx_world G))) (\<lambda>fault.
         sbind (sensure (x \<noteq> DirEntry \<and> fault \<in> {WriteFine, WriteUnsynced}) ()) (\<lambda>_.
         sbind (swrite (ft_dir_update (dir_drop name))) (\<lambda>_.
         sensure (fault = WriteFine) ()))))"

definition retired_name :: "crates \<Rightarrow> barrier \<Rightarrow> string \<Rightarrow> unit + bool" where
  "retired_name C b name =
     (if name = ''lock'' \<or> name = ''context.json'' then Inr False
      else rbind (ok_or () (strip_any [''.json'', ''.data'', ''.tmp''] name)) (\<lambda>stem.
           rbind (map_err (\<lambda>_. ()) (parse_operation C stem)) (\<lambda>i. Inr (covers b i))))"

fun prune_files :: "transfer_env \<Rightarrow> barrier \<Rightarrow> string list \<Rightarrow> unit transfer" where
  "prune_files G b [] = sret ()"
| "prune_files G b (name # names) =
     sbind (slift (retired_name (tx_crates G) b name)) (\<lambda>retired.
     sbind (if retired then file_remove G name else sret ()) (\<lambda>_.
     prune_files G b names))"

definition file_prune :: "transfer_env \<Rightarrow> string list \<Rightarrow> barrier \<Rightarrow> unit transfer" where
  "file_prune G names b =
     sbind (slift (try_all (\<lambda>n. map_ok (\<lambda>_. ()) (retired_name (tx_crates G) b n)) names)) (\<lambda>_.
     sbind (prune_files G b names) (\<lambda>_.
     sbind (fask (tw_sync (tx_world G))) (\<lambda>synced. sensure synced ())))"

section \<open>Opening\<close>

record workspace_boot =
  wb_absolute :: bool
  wb_ready :: bool
  wb_locked :: bool

definition root_open :: "transfer_env \<Rightarrow> workspace_boot \<Rightarrow> unit transfer" where
  "root_open G w =
     sbind (sensure (wb_absolute w \<and> wb_ready w) ()) (\<lambda>_.
     sbind (sread (\<lambda>s. dir_get ''lock'' (ft_dir s))) (\<lambda>e.
     sbind (case e of
              None \<Rightarrow>
                sbind (swrite (ft_dir_update (dir_put ''lock'' (PlainFile [])))) (\<lambda>_.
                sbind (fask (tw_sync (tx_world G))) (\<lambda>synced. sensure synced ()))
            | Some x \<Rightarrow> sensure (case x of PlainFile _ \<Rightarrow> True | _ \<Rightarrow> False) ()) (\<lambda>_.
     sensure (wb_locked w) ())))"

definition file_binding :: "transfer_env \<Rightarrow> string list \<Rightarrow> barrier option transfer" where
  "file_binding G names =
     (if list_ex (\<lambda>n. n = ''context.json'') names
      then sbind (sread (file_read_json (fj_binding (tx_json G)) ''context.json'')) (\<lambda>x.
           sbind (slift x) (\<lambda>bound.
           slift (binding_validate (tx_crates G) bound (tx_context G) FilesDomain)))
      else sbind (sensure (list_all (\<lambda>n. n = ''lock'') names) ()) (\<lambda>_.
           sbind (file_write_json G (fj_binding (tx_json G)) ''context.json'' (Legacy (tx_context G))) (\<lambda>_.
           sret None)))"

type_synonym loaded = "nat \<times> (operation_id, file_receipt) btmap"

definition recover_intent :: "transfer_env \<Rightarrow> string \<Rightarrow> file_receipt \<Rightarrow> file_receipt transfer" where
  "recover_intent G name r =
     (if frcpt_state r = CommitIntent
      then sbind (file_write_json G (fj_receipt (tx_json G)) name (r\<lparr>frcpt_state := FileUnknown\<rparr>)) (\<lambda>_.
           sret (r\<lparr>frcpt_state := FileUnknown\<rparr>))
      else sret r)"

definition load_receipt :: "transfer_env \<Rightarrow> loaded \<Rightarrow> string \<Rightarrow> operation_id \<Rightarrow> loaded transfer" where
  "load_receipt G acc name i =
     sbind (sread (file_read_json (fj_receipt (tx_json G)) name)) (\<lambda>x.
     sbind (slift x) (\<lambda>r.
     sbind (slift (file_receipt_validate (tx_crates G) (fj_upload (tx_json G)) r)) (\<lambda>_.
     sbind (sensure (frcpt_context r = tx_context G \<and> up_operation (frcpt_upload r) = i) ()) (\<lambda>_.
     sbind (slift (ok_or () (checked_add_u64 (fst acc) (up_size (frcpt_upload r))))) (\<lambda>reserved.
     sbind (sensure (reserved \<le> max_reserved_bytes \<and> length (snd acc) < max_transfers) ()) (\<lambda>_.
     sbind (recover_intent G name r) (\<lambda>r'.
     sbind (sensure (\<not> bt_contains i (snd acc)) ()) (\<lambda>_.
     sret (reserved, bt_insert i r' (snd acc))))))))))"

definition load_entry :: "transfer_env \<Rightarrow> loaded \<Rightarrow> string \<Rightarrow> loaded transfer" where
  "load_entry G acc name =
     (if name = ''lock'' \<or> name = ''context.json'' then sret acc
      else case strip_suffix ''.json'' name of
        Some stem \<Rightarrow>
          sbind (slift (map_err (\<lambda>_. ()) (parse_operation (tx_crates G) stem))) (\<lambda>i. load_receipt G acc name i)
      | None \<Rightarrow>
          sbind (slift (ok_or () (strip_any [''.data'', ''.tmp''] name))) (\<lambda>stem.
          sbind (slift (map_err (\<lambda>_. ()) (parse_operation (tx_crates G) stem))) (\<lambda>_.
          sret acc)))"

fun load_entries :: "transfer_env \<Rightarrow> loaded \<Rightarrow> string list \<Rightarrow> loaded transfer" where
  "load_entries G acc [] = sret acc"
| "load_entries G acc (name # names) = sbind (load_entry G acc name) (\<lambda>acc'. load_entries G acc' names)"

text \<open>Staged bytes and temporary files without a staging receipt are removed.\<close>

definition clean_entry :: "transfer_env \<Rightarrow> (operation_id, file_receipt) btmap \<Rightarrow> string \<Rightarrow> unit transfer" where
  "clean_entry G receipts name =
     (case strip_suffix ''.data'' name of
        Some stem \<Rightarrow>
          sbind (slift (map_err (\<lambda>_. ()) (parse_operation (tx_crates G) stem))) (\<lambda>i.
          case bt_get i receipts of
            Some r \<Rightarrow>
              if frcpt_state r \<noteq> Staging then file_remove G name
              else sbind (sread (regular (stage_name (tx_crates G) i))) (\<lambda>x.
                   sbind (slift x) (\<lambda>b. sensure (length b \<le> up_size (frcpt_upload r)) ()))
          | None \<Rightarrow> file_remove G name)
      | None \<Rightarrow> if strip_suffix ''.tmp'' name \<noteq> None then file_remove G name else sret ())"

fun clean_entries :: "transfer_env \<Rightarrow> (operation_id, file_receipt) btmap \<Rightarrow> string list \<Rightarrow> unit transfer" where
  "clean_entries G receipts [] = sret ()"
| "clean_entries G receipts (name # names) =
     sbind (clean_entry G receipts name) (\<lambda>_. clean_entries G receipts names)"

definition staging_present :: "transfer_env \<Rightarrow> transfer_state \<Rightarrow> file_receipt \<Rightarrow> unit + unit" where
  "staging_present G s r =
     (if frcpt_state r = Staging
      then map_ok (\<lambda>_. ()) (regular (stage_name (tx_crates G) (up_operation (frcpt_upload r))) s)
      else Inr ())"

definition load_transfers :: "transfer_env \<Rightarrow> barrier option \<Rightarrow> unit transfer" where
  "load_transfers G barrier =
     sbind (sread file_names) (\<lambda>names.
     sbind (slift names) (\<lambda>names.
     sbind (load_entries G (0, []) names) (\<lambda>(reserved, receipts).
     sbind (clean_entries G receipts names) (\<lambda>_.
     sbind (sread (\<lambda>s. try_all (staging_present G s) (bt_values receipts))) (\<lambda>staged.
     sbind (slift staged) (\<lambda>_.
     swrite (\<lambda>s. s\<lparr>ft_up := True, ft_barrier := barrier, ft_receipts := receipts, ft_failed := False,
                   ft_downloads := 0\<rparr>)))))))"

definition transfers_open :: "transfer_env \<Rightarrow> workspace_boot \<Rightarrow> unit transfer" where
  "transfers_open G w =
     sbind (sensure (0 < ctx_generation (tx_context G) \<and> ctx_boot (tx_context G) \<noteq> [] \<and>
        length (ctx_boot (tx_context G)) \<le> 64) ()) (\<lambda>_.
     sbind (root_open G w) (\<lambda>_.
     sbind (sread file_names) (\<lambda>names.
     sbind (slift names) (\<lambda>names.
     sbind (file_binding G names) (\<lambda>barrier.
     sbind (case barrier of None \<Rightarrow> sret () | Some b \<Rightarrow> file_prune G names b) (\<lambda>_.
     load_transfers G barrier))))))"

definition transfers_restart :: "transfer_env \<Rightarrow> workspace_boot \<Rightarrow> unit transfer" where
  "transfers_restart G w = sbind (swrite (ft_up_update (\<lambda>_. False))) (\<lambda>_. transfers_open G w)"

section \<open>Operations\<close>

definition healthy :: "unit transfer" where
  "healthy = sbind (sread ft_failed) (\<lambda>failed. sensure (\<not> failed) ())"

text \<open>A failing step fences the engine.\<close>

definition fencing :: "'a transfer \<Rightarrow> 'a transfer" where
  "fencing m s =
     (case m s of
        (Inl e, s') \<Rightarrow> (Inl e, s'\<lparr>ft_failed := True\<rparr>)
      | (Inr a, s') \<Rightarrow> (Inr a, s'))"

definition files_retire :: "transfer_env \<Rightarrow> barrier \<Rightarrow> barrier transfer" where
  "files_retire G requested =
     sbind healthy (\<lambda>_.
     sbind (slift (barrier_validate (tx_crates G) requested (tx_context G) FilesDomain)) (\<lambda>_.
     sbind (sread (\<lambda>s. s)) (\<lambda>s.
     case (case ft_barrier s of None \<Rightarrow> None | Some b \<Rightarrow> if bar_through requested \<le> bar_through b then Some b else None) of
       Some current \<Rightarrow> sret current
     | None \<Rightarrow>
         sbind (sensure (list_all (\<lambda>r. covers requested (up_operation (frcpt_upload r)) \<longrightarrow>
                  frcpt_state r \<in> {Committed, Aborted}) (bt_values (ft_receipts s))) ()) (\<lambda>_.
         sbind (slift (file_names s)) (\<lambda>names.
         sbind (slift (try_all (\<lambda>n. map_ok (\<lambda>_. ()) (retired_name (tx_crates G) requested n)) names)) (\<lambda>_.
         sbind (fencing (file_write_json G (fj_binding (tx_json G)) ''context.json'' (Retired requested))) (\<lambda>_.
         sbind (swrite (ft_barrier_update (\<lambda>_. Some requested))) (\<lambda>_.
         sbind (fencing (file_prune G names requested)) (\<lambda>_.
         sbind (swrite (ft_receipts_update (filter (\<lambda>(i, _). \<not> covers requested i)))) (\<lambda>_.
         sret requested))))))))))"

definition files_barrier :: "barrier option transfer" where
  "files_barrier = sread ft_barrier"

definition files_save :: "transfer_env \<Rightarrow> file_receipt \<Rightarrow> file_receipt transfer" where
  "files_save G r =
     (let i = up_operation (frcpt_upload r) in
      sbind (fencing (file_write_json G (fj_receipt (tx_json G)) (record_name (tx_crates G) i) r)) (\<lambda>_.
      sbind (swrite (ft_receipts_update (bt_insert i r))) (\<lambda>_.
      sret r)))"

definition files_inspect :: "operation_id \<Rightarrow> file_receipt option transfer" where
  "files_inspect i = sbind healthy (\<lambda>_. sread (\<lambda>s. bt_get i (ft_receipts s)))"

definition root_parent :: "transfer_env \<Rightarrow> string \<Rightarrow> unit transfer" where
  "root_parent G path =
     sbind (slift (validate_path path)) (\<lambda>_.
     sbind (fask (\<lambda>n. tw_parent (tx_world G) n path)) (\<lambda>ok. sensure ok ()))"

definition create_stage :: "transfer_env \<Rightarrow> operation_id \<Rightarrow> unit transfer" where
  "create_stage G i =
     sbind (sread (\<lambda>s. dir_get (stage_name (tx_crates G) i) (ft_dir s))) (\<lambda>old.
     sbind (fask (tw_create (tx_world G))) (\<lambda>fault.
     sbind (sensure (old = None \<and> fault \<noteq> WriteNothing) ()) (\<lambda>_.
     sbind (swrite (ft_dir_update (dir_put (stage_name (tx_crates G) i) (PlainFile [])))) (\<lambda>_.
     sensure (fault = WriteFine) ()))))"

definition files_begin :: "transfer_env \<Rightarrow> upload \<Rightarrow> file_receipt transfer" where
  "files_begin G u =
     sbind healthy (\<lambda>_.
     sbind (slift (upload_validate u)) (\<lambda>_.
     sbind (sread (\<lambda>s. s)) (\<lambda>s.
     sbind (sensure (case ft_barrier s of None \<Rightarrow> True | Some b \<Rightarrow> \<not> covers b (up_operation u)) ()) (\<lambda>_.
     sbind (slift (upload_digest (tx_crates G) (fj_upload (tx_json G)) u)) (\<lambda>digest.
     case bt_get (up_operation u) (ft_receipts s) of
       Some r \<Rightarrow> sbind (sensure (frcpt_digest r = digest \<and> frcpt_upload r = u) ()) (\<lambda>_. sret r)
     | None \<Rightarrow>
         sbind (sensure (length (ft_receipts s) < max_transfers \<and>
            sum_list (map (\<lambda>r. up_size (frcpt_upload r)) (bt_values (ft_receipts s))) + up_size u \<le> max_reserved_bytes) ()) (\<lambda>_.
         sbind (root_parent G (up_path u)) (\<lambda>_.
         sbind (fencing (create_stage G (up_operation u))) (\<lambda>_.
         files_save G \<lparr>frcpt_version = 1, frcpt_context = tx_context G, frcpt_upload = u, frcpt_digest = digest,
           frcpt_state = Staging\<rparr>))))))))"

text \<open>An append may stop after some bytes.\<close>

definition append_stage :: "transfer_env \<Rightarrow> string \<Rightarrow> bytes \<Rightarrow> bytes \<Rightarrow> unit transfer" where
  "append_stage G name old data =
     sbind (fask (tw_append (tx_world G))) (\<lambda>stop.
     case stop of
       None \<Rightarrow> swrite (ft_dir_update (dir_put name (PlainFile (old @ data))))
     | Some k \<Rightarrow>
         sbind (swrite (ft_dir_update (dir_put name (PlainFile (old @ take k data))))) (\<lambda>_. sfail ()))"

definition files_write :: "transfer_env \<Rightarrow> operation_id \<Rightarrow> nat \<Rightarrow> bytes \<Rightarrow> nat transfer" where
  "files_write G i offset data =
     sbind healthy (\<lambda>_.
     sbind (sensure (data \<noteq> [] \<and> length data \<le> max_chunk_bytes) ()) (\<lambda>_.
     sbind (sread (\<lambda>s. bt_get i (ft_receipts s))) (\<lambda>x.
     sbind (slift (ok_or () x)) (\<lambda>r.
     sbind (sensure (frcpt_state r = Staging) ()) (\<lambda>_.
     sbind (slift (ok_or () (checked_add_u64 offset (length data)))) (\<lambda>stop.
     sbind (sensure (stop \<le> up_size (frcpt_upload r)) ()) (\<lambda>_.
     sbind (sread (regular (stage_name (tx_crates G) i))) (\<lambda>e.
     sbind (slift e) (\<lambda>old.
     sbind (sensure (length old \<le> up_size (frcpt_upload r) \<and> offset \<le> length old) ()) (\<lambda>_.
     let overlap = min (length old - offset) (length data) in
     sbind (sensure (take overlap (drop offset old) = take overlap data) ()) (\<lambda>_.
     sbind (if overlap < length data then append_stage G (stage_name (tx_crates G) i) old (drop overlap data) else sret ()) (\<lambda>_.
     sbind (fask (tw_sync (tx_world G))) (\<lambda>synced.
     sbind (sensure synced ()) (\<lambda>_.
     sret (max (length old) stop)))))))))))))))"

text \<open>The rename may fail, or have happened and not be synced.\<close>

definition publish_stage :: "transfer_env \<Rightarrow> upload \<Rightarrow> unit transfer" where
  "publish_stage G u =
     (let name = stage_name (tx_crates G) (up_operation u) in
      sbind (sread (regular name)) (\<lambda>e.
      sbind (slift e) (\<lambda>b.
      sbind (sread (\<lambda>s. map_of (ft_tree s) (up_path u))) (\<lambda>target.
      sbind (fask (tw_publish (tx_world G))) (\<lambda>fault.
      sbind (sensure (target \<noteq> Some WorkDir \<and> fault \<in> {WriteFine, WriteUnsynced}) ()) (\<lambda>_.
      sbind (swrite (\<lambda>s. s\<lparr>ft_dir := dir_drop name (ft_dir s),
        ft_tree := AList.update (up_path u) (WorkFile b (up_mode u)) (ft_tree s),
        ft_published := ft_published s @ [(u, b)]\<rparr>)) (\<lambda>_.
      sensure (fault = WriteFine) ())))))))"

definition check_stage :: "transfer_env \<Rightarrow> upload \<Rightarrow> unit transfer" where
  "check_stage G u =
     sbind (sread (regular (stage_name (tx_crates G) (up_operation u)))) (\<lambda>e.
     sbind (slift e) (\<lambda>b.
     sbind (sensure (length b = up_size u) ()) (\<lambda>_.
     sbind (fask (tw_stable (tx_world G))) (\<lambda>stable.
     sbind (sensure (length (take (max_file_bytes + 1) b) = up_size u \<and> stable \<and>
        sha256 (tx_crates G) (take (max_file_bytes + 1) b) = up_sha256 u) ()) (\<lambda>_.
     sbind (root_parent G (up_path u)) (\<lambda>_.
     sbind (fask (tw_sync (tx_world G))) (\<lambda>synced. sensure synced ())))))))"

definition files_commit :: "transfer_env \<Rightarrow> operation_id \<Rightarrow> file_receipt transfer" where
  "files_commit G i =
     sbind healthy (\<lambda>_.
     sbind (sread (\<lambda>s. bt_get i (ft_receipts s))) (\<lambda>x.
     sbind (slift (ok_or () x)) (\<lambda>r.
     if frcpt_state r \<noteq> Staging then sret r
     else
       sbind (check_stage G (frcpt_upload r)) (\<lambda>_.
       sbind (files_save G (r\<lparr>frcpt_state := CommitIntent\<rparr>)) (\<lambda>_.
       (\<lambda>s. case publish_stage G (frcpt_upload r) s of
               (Inl e, s') \<Rightarrow> sbind (files_save G (r\<lparr>frcpt_state := FileUnknown\<rparr>)) (\<lambda>_. sfail ()) s'
             | (Inr _, s') \<Rightarrow> files_save G (r\<lparr>frcpt_state := Committed\<rparr>) s'))))))"

definition files_abort :: "transfer_env \<Rightarrow> operation_id \<Rightarrow> file_receipt transfer" where
  "files_abort G i =
     sbind healthy (\<lambda>_.
     sbind (sread (\<lambda>s. bt_get i (ft_receipts s))) (\<lambda>x.
     sbind (slift (ok_or () x)) (\<lambda>r.
     if frcpt_state r \<noteq> Staging then sret r
     else
       sbind (files_save G (r\<lparr>frcpt_state := Aborted\<rparr>)) (\<lambda>r'.
       sbind (file_remove G (stage_name (tx_crates G) i)) (\<lambda>_.
       sret r')))))"

section \<open>Captures\<close>

record download =
  dl_bytes :: bytes
  dl_sha256 :: bytes

definition download_chunk :: "download \<Rightarrow> nat \<Rightarrow> nat \<Rightarrow> unit + bytes" where
  "download_chunk d offset limit =
     rbind (ensure (1 \<le> limit \<and> limit \<le> max_chunk_bytes \<and> offset \<le> length (dl_bytes d)) ()) (\<lambda>_.
     Inr (take (min (length (dl_bytes d)) (offset + limit) - offset) (drop offset (dl_bytes d))))"

definition acquire_permit :: "unit transfer" where
  "acquire_permit =
     sbind (sread ft_downloads) (\<lambda>n.
     sbind (sensure (n < 8) ()) (\<lambda>_.
     swrite (ft_downloads_update (\<lambda>n. n + 1))))"

definition release_permit :: "unit transfer" where
  "release_permit = swrite (ft_downloads_update (\<lambda>n. n - 1))"

text \<open>A change noticed while the file is read drops the permit.\<close>

definition files_capture :: "transfer_env \<Rightarrow> string \<Rightarrow> download transfer" where
  "files_capture G path =
     sbind healthy (\<lambda>_.
     sbind (slift (validate_path path)) (\<lambda>_.
     sbind (sread (\<lambda>s. map_of (ft_tree s) path)) (\<lambda>e.
     case e of
       Some (WorkFile b _) \<Rightarrow>
         sbind (sensure (length b \<le> max_file_bytes) ()) (\<lambda>_.
         sbind acquire_permit (\<lambda>_.
         sbind (fask (tw_stable (tx_world G))) (\<lambda>stable.
         if stable then sret \<lparr>dl_bytes = b, dl_sha256 = sha256 (tx_crates G) b\<rparr>
         else sbind release_permit (\<lambda>_. sfail ()))))
     | _ \<Rightarrow> sfail ())))"

end
