(* ===== verification/Guest_File_Laws.thy ===== *)
theory Guest_File_Laws
  imports Guest_Files
begin

text \<open>
  Runs of the file engine: requests, changes of the workspace by others and reopenings, in any
  order. \<open>file_inv\<close> ties the state directory, the registry and the renames that happened.
\<close>

section \<open>Runs\<close>

datatype file_op =
    FileBegin upload
  | FileWrite operation_id nat bytes
  | FileCommit operation_id
  | FileAbort operation_id
  | FileInspect operation_id
  | FileCapture string
  | FileRelease
  | FileRetire barrier
  | FileOutside workspace
  | FileReopen workspace_boot

definition answered :: "'a transfer \<Rightarrow> transfer_state \<Rightarrow> transfer_state" where
  "answered m s = (if ft_up s then snd (m s) else s)"

fun file_step :: "transfer_env \<Rightarrow> file_op \<Rightarrow> transfer_state \<Rightarrow> transfer_state" where
  "file_step G (FileBegin u) s = answered (files_begin G u) s"
| "file_step G (FileWrite i offset data) s = answered (files_write G i offset data) s"
| "file_step G (FileCommit i) s = answered (files_commit G i) s"
| "file_step G (FileAbort i) s = answered (files_abort G i) s"
| "file_step G (FileInspect i) s = answered (files_inspect i) s"
| "file_step G (FileCapture p) s = answered (files_capture G p) s"
| "file_step G FileRelease s = answered release_permit s"
| "file_step G (FileRetire b) s = answered (files_retire G b) s"
| "file_step G (FileOutside w) s = s\<lparr>ft_tree := w\<rparr>"
| "file_step G (FileReopen w) s = snd (transfers_restart G w s)"

fun file_run :: "transfer_env \<Rightarrow> file_op list \<Rightarrow> transfer_state \<Rightarrow> transfer_state" where
  "file_run G [] s = s"
| "file_run G (x # xs) s = file_run G xs (file_step G x s)"

lemma file_run_append: "file_run G (xs @ ys) s = file_run G ys (file_run G xs s)"
  by (induction xs arbitrary: s) simp_all

section \<open>Names\<close>

lemma data_names:
  assumes "uuid_laws C"
  shows "extension (record_name C i) = Some ''json''" "extension (stage_name C i) = Some ''data''"
    "extension (show_operation C i @ ''.tmp'') = Some ''tmp''"
    "extension ''context.json'' = Some ''json''" "extension ''lock'' = None"
proof -
  show "extension ''context.json'' = Some ''json''" "extension ''lock'' = None" by code_simp+
qed (use operation_plain[OF assms, of i] in \<open>simp_all add: record_name_def stage_name_def extension_append\<close>)

lemma record_name_inj [simp]: "uuid_laws C \<Longrightarrow> record_name C i = record_name C j \<longleftrightarrow> i = j"
  by (simp add: record_name_def operation.show_inj)

lemma record_name_special:
  assumes "uuid_laws C"
  shows "record_name C i \<noteq> ''context.json''" "record_name C i \<noteq> ''lock''"
proof
  assume a: "record_name C i = ''context.json''"
  have "length (record_name C i) = length ''context.json''" by (simp only: a)
  then have "length (show_operation C i) = 7" by (simp add: record_name_def)
  then show False using uuid_lawsD(2)[OF assms, of "operation_uuid i"]
    by (simp add: show_operation_def display_prefixed_def)
next
  show "record_name C i \<noteq> ''lock''" using data_names(1,5)[OF assms] by (metis option.distinct(1))
qed

lemma record_stem: "strip_suffix ''.json'' (record_name C i) = Some (show_operation C i)"
  using strip_suffix_append[of "''.json''" "show_operation C i"] by (simp add: record_name_def)

lemma record_retired:
  assumes "uuid_laws C" "retired_name C b (record_name C i) = Inr True"
  shows "covers b i"
proof -
  obtain j where "parse_operation C (show_operation C i) = Inr j" "covers b j"
    using assms(2) record_stem[of C i] by (auto simp: retired_name_def split: if_splits)
  moreover from this(1) have "j = i"
    using operation.show_parse[of C "show_operation C i" j] operation.show_inj[OF assms(1)] by simp
  ultimately show ?thesis by simp
qed

section \<open>Frames\<close>

definition ft_memory :: "transfer_state \<Rightarrow> transfer_state" where
  "ft_memory s = s\<lparr>ft_dir := [], ft_downloads := 0, ft_step := 0\<rparr>"

interpretation transfers: engine ft_dir ft_dir_update ft_memory
  by unfold_locales (simp_all add: ft_memory_def)

abbreviation "fside \<equiv> transfers.aside"
abbreviation "ftouches \<equiv> transfers.touches"
abbreviation "freach \<equiv> transfers.reach"

lemma ft_memory_updates [simp]:
  "ft_memory (s\<lparr>ft_dir := d\<rparr>) = ft_memory s" "ft_memory (s\<lparr>ft_downloads := n\<rparr>) = ft_memory s"
  "ft_memory (s\<lparr>ft_step := k\<rparr>) = ft_memory s" "ft_memory (ft_dir_update h s) = ft_memory s"
  "ft_memory (ft_downloads_update g s) = ft_memory s"
  by (simp_all add: ft_memory_def)

lemma fside_fields:
  assumes "fside s t"
  shows "ft_up t = ft_up s" "ft_barrier t = ft_barrier s" "ft_receipts t = ft_receipts s"
    "ft_failed t = ft_failed s" "ft_tree t = ft_tree s" "ft_published t = ft_published s"
  using assms unfolding transfers.aside_def ft_memory_def by (cases s; cases t; simp)+

lemma fside_updates [simp]: "fside s (s\<lparr>ft_dir := d\<rparr>)" "fside s (s\<lparr>ft_step := k\<rparr>)"
  by (simp_all add: transfers.aside_def)

lemma freach_fask [simp, reach_intro]: "freach P (fask g)"
  by (simp add: transfers.reach_def transfers.touches_def transfers.aside_def fask_def)

lemma freach_downloads [reach_intro]: "freach P (swrite (ft_downloads_update g))"
  by (rule transfers.reach_aside) simp_all

lemma outcome_fask [outcome_simps]:
  "outcome s (fask h) Q E = Q (h (ft_step s)) (s\<lparr>ft_step := Suc (ft_step s)\<rparr>)"
  by (simp add: outcome_def fask_def)

lemma outcome_fencing [outcome_simps]:
  "outcome s (fencing m) Q E = outcome s m Q (\<lambda>t. E (t\<lparr>ft_failed := True\<rparr>))"
  by (auto simp: outcome_def fencing_def split: prod.splits sum.splits)

lemma outcome_healthy [outcome_simps]: "outcome s healthy Q E = (if ft_failed s then E s else Q () s)"
  by (simp add: healthy_def outcome_simps)

lemma freach_healthy [reach_intro]: "freach P healthy"
  unfolding healthy_def by (intro reach_intro)

lemma freach_remove [reach_intro]: "P name \<Longrightarrow> freach P (file_remove G name)"
  unfolding file_remove_def by (intro reach_intro)

lemma freach_stage [reach_intro]: "P (stage_name (tx_crates G) i) \<Longrightarrow> freach P (create_stage G i)"
  unfolding create_stage_def by (intro reach_intro)

lemma freach_parent [reach_intro]: "freach P (root_parent G p)"
  unfolding root_parent_def by (intro reach_intro)

lemma freach_check [reach_intro]: "freach P (check_stage G u)"
  unfolding check_stage_def by (intro reach_intro)

lemma freach_append [reach_intro]: "P name \<Longrightarrow> freach P (append_stage G name old data)"
  unfolding append_stage_def by (intro reach_intro)

lemma freach_write [reach_intro]: "P (stage_name (tx_crates G) i) \<Longrightarrow> freach P (files_write G i offset data)"
  unfolding files_write_def Let_def by (intro reach_intro)

lemma freach_work [reach_intro]:
  "(\<And>b k. freach P (f b k)) \<Longrightarrow> freach P m \<Longrightarrow> freach P n \<Longrightarrow>
    freach P (case e of WorkFile b k \<Rightarrow> f b k | WorkDir \<Rightarrow> m | WorkOther \<Rightarrow> n)"
  by (cases e) simp_all

lemma freach_capture [reach_intro]: "freach P (files_capture G p)"
  unfolding files_capture_def acquire_permit_def release_permit_def by (intro reach_intro)

definition retirable :: "crates \<Rightarrow> barrier \<Rightarrow> string \<Rightarrow> bool" where
  "retirable C b n = (retired_name C b n = Inr True)"

lemma freach_prune_files: "freach (retirable (tx_crates G) b) (prune_files G b names)"
proof (induction names)
  case (Cons n names)
  have "ftouches (retirable (tx_crates G) b) s (snd (prune_files G b (n # names) s))" for s
  proof (cases "retired_name (tx_crates G) b n")
    case (Inr x)
    then have "freach (retirable (tx_crates G) b) (if x then file_remove G n else sret ())"
      by (intro reach_intro) (simp add: retirable_def)
    from transfers.reach_sbind[OF this Cons.IH] show ?thesis
      by (simp add: transfers.reach_def sbind_def Inr)
  qed (simp add: sbind_def)
  then show ?case by (simp add: transfers.reach_def)
qed (simp add: transfers.reach_def)

lemma freach_prune [reach_intro]: "freach (retirable (tx_crates G) b) (file_prune G names b)"
  unfolding file_prune_def by (intro reach_intro freach_prune_files)

section \<open>Writing a record\<close>

definition temp_name :: "string \<Rightarrow> string \<Rightarrow> bool" where
  "temp_name name n = (extension n = Some ''tmp'' \<or> n = name)"

lemma file_write_result:
  assumes "extension name \<noteq> Some ''tmp''" "uuid_laws (tx_crates G)"
  shows "outcome s (file_write_json G J name x)
     (\<lambda>_ t. ftouches (temp_name name) s t \<and>
        (\<exists>b. to_vec J x = Some b \<and> dir_get name (ft_dir t) = Some (PlainFile b)))
     (\<lambda>t. ftouches (temp_name name) s t \<and>
        (dir_get name (ft_dir t) = dir_get name (ft_dir s) \<or>
        (\<exists>b. to_vec J x = Some b \<and> dir_get name (ft_dir t) = Some (PlainFile b))))"
proof -
  have differ: "name \<noteq> show_operation (tx_crates G) i @ ''.tmp''" for i
    using assms data_names(3)[OF assms(2), of i] by metis
  have temp: "temp_name name (show_operation (tx_crates G) i @ ''.tmp'')" "temp_name name name" for i
    by (simp_all add: temp_name_def data_names(3)[OF assms(2)])
  show ?thesis
    unfolding file_write_json_def Let_def using differ temp
    by (auto simp: outcome_simps transfers.touches_def transfers.aside_def split: option.split)
qed

lemma file_write_outcome:
  assumes "extension name \<noteq> Some ''tmp''" "uuid_laws (tx_crates G)"
    and "\<And>t. ftouches (temp_name name) s t \<Longrightarrow> dir_get name (ft_dir t) = dir_get name (ft_dir s) \<Longrightarrow> E t"
    and "\<And>t b. ftouches (temp_name name) s t \<Longrightarrow> to_vec J x = Some b \<Longrightarrow>
      dir_get name (ft_dir t) = Some (PlainFile b) \<Longrightarrow> E t \<and> Q () t"
  shows "outcome s (file_write_json G J name x) Q E"
  by (rule outcome_mono[OF file_write_result[OF assms(1,2)]]) (use assms(3,4) in auto)

section \<open>The invariant\<close>

definition transfer_laws :: "transfer_env \<Rightarrow> bool" where
  "transfer_laws G =
     (uuid_laws (tx_crates G) \<and> json_faithful (fj_binding (tx_json G)) \<and> json_faithful (fj_receipt (tx_json G)))"

lemma transfer_lawsD [simp]:
  assumes "transfer_laws G"
  shows "uuid_laws (tx_crates G)"
    "to_vec (fj_binding (tx_json G)) x = Some b \<Longrightarrow> from_slice (fj_binding (tx_json G)) b = Some x"
    "to_vec (fj_receipt (tx_json G)) r = Some b \<Longrightarrow> from_slice (fj_receipt (tx_json G)) b = Some r"
  using assms by (auto simp: transfer_laws_def dest: json_faithfulD)

definition file_barrier :: "transfer_env \<Rightarrow> state_dir \<Rightarrow> barrier option" where
  "file_barrier G d =
     (case dir_get ''context.json'' d of
        Some (PlainFile b) \<Rightarrow>
          (case from_slice (fj_binding (tx_json G)) b of Some (Retired x) \<Rightarrow> Some x | _ \<Rightarrow> None)
      | _ \<Rightarrow> None)"

definition disk_file :: "transfer_env \<Rightarrow> state_dir \<Rightarrow> operation_id \<Rightarrow> file_receipt option" where
  "disk_file G d i =
     (case dir_get (record_name (tx_crates G) i) d of
        Some (PlainFile b) \<Rightarrow> from_slice (fj_receipt (tx_json G)) b
      | _ \<Rightarrow> None)"

definition settled_file :: "file_receipt \<Rightarrow> bool" where
  "settled_file r = (frcpt_state r \<in> {Committed, Aborted, FileUnknown})"

text \<open>A publication is of the declared bytes, at most one per operation, and a receipt that is past
  staging records it until a barrier covers the operation.\<close>

definition publication_ok :: "transfer_env \<Rightarrow> state_dir \<Rightarrow> upload \<times> bytes \<Rightarrow> bool" where
  "publication_ok G d p =
     (length (snd p) = up_size (fst p) \<and> sha256 (tx_crates G) (snd p) = up_sha256 (fst p) \<and>
      (covered (file_barrier G d) (up_operation (fst p)) \<or> disk_file G d (up_operation (fst p)) \<noteq> None) \<and>
      (\<forall>r. disk_file G d (up_operation (fst p)) = Some r \<longrightarrow>
         frcpt_upload r = fst p \<and> frcpt_state r \<notin> {Staging, Aborted}))"

definition publications_ok :: "transfer_env \<Rightarrow> state_dir \<Rightarrow> (upload \<times> bytes) list \<Rightarrow> bool" where
  "publications_ok G d ps =
     (distinct (map (\<lambda>p. up_operation (fst p)) ps) \<and> (\<forall>p \<in> set ps. publication_ok G d p))"

definition files_kept :: "transfer_env \<Rightarrow> (operation_id \<times> file_receipt) set \<Rightarrow> state_dir \<Rightarrow> bool" where
  "files_kept G K d =
     (\<forall>(i, r) \<in> K. settled_file r \<and> (covered (file_barrier G d) i \<or> disk_file G d i = Some r))"

text \<open>A healthy engine has in memory what is on the disk.\<close>

definition memory_exact :: "transfer_env \<Rightarrow> transfer_state \<Rightarrow> bool" where
  "memory_exact G s =
     (ft_barrier s = file_barrier G (ft_dir s) \<and>
      (\<forall>i r. bt_get i (ft_receipts s) = Some r \<longrightarrow>
         disk_file G (ft_dir s) i = Some r \<and> up_operation (frcpt_upload r) = i) \<and>
      (\<forall>i r. disk_file G (ft_dir s) i = Some r \<longrightarrow> \<not> covered (ft_barrier s) i \<longrightarrow>
         bt_get i (ft_receipts s) = Some r))"

definition file_inv :: "transfer_env \<Rightarrow> (operation_id \<times> file_receipt) set \<Rightarrow> transfer_state \<Rightarrow> bool" where
  "file_inv G K s =
     (publications_ok G (ft_dir s) (ft_published s) \<and> files_kept G K (ft_dir s) \<and>
      (ft_up s \<longrightarrow> \<not> ft_failed s \<longrightarrow> memory_exact G s))"

definition same_files :: "transfer_env \<Rightarrow> state_dir \<Rightarrow> state_dir \<Rightarrow> bool" where
  "same_files G d d' = (file_barrier G d' = file_barrier G d \<and> disk_file G d' = disk_file G d)"

lemma same_files_inv:
  assumes "file_inv G K s" "fside s t" "same_files G (ft_dir s) (ft_dir t)"
  shows "file_inv G K t"
proof -
  have d: "file_barrier G (ft_dir t) = file_barrier G (ft_dir s)" "disk_file G (ft_dir t) = disk_file G (ft_dir s)"
    using assms(3) by (simp_all add: same_files_def)
  have "publications_ok G (ft_dir t) = publications_ok G (ft_dir s)" "files_kept G K (ft_dir t) = files_kept G K (ft_dir s)"
    unfolding publications_ok_def publication_ok_def files_kept_def d by simp_all
  moreover have "memory_exact G t = memory_exact G s"
    unfolding memory_exact_def d fside_fields[OF assms(2)] ..
  ultimately show ?thesis using assms(1) by (simp add: file_inv_def fside_fields[OF assms(2)])
qed

lemma untouched_files:
  assumes "ftouches P s t" "\<not> P ''context.json''" "\<And>i. \<not> P (record_name (tx_crates G) i)"
  shows "same_files G (ft_dir s) (ft_dir t)"
  using assms by (auto simp: transfers.touches_def same_files_def file_barrier_def disk_file_def)

lemma untouched_inv:
  assumes "file_inv G K s" "ftouches P s t" "\<not> P ''context.json''" "\<And>i. \<not> P (record_name (tx_crates G) i)"
  shows "file_inv G K t"
  using same_files_inv[OF assms(1) transfers.touches_aside[OF assms(2)] untouched_files[OF assms(2-4)]] .

lemma stage_apart:
  assumes "uuid_laws C"
  shows "''context.json'' \<noteq> stage_name C j" "record_name C i \<noteq> stage_name C j"
proof -
  have "extension ''context.json'' \<noteq> extension (stage_name C j)" "extension (record_name C i) \<noteq> extension (stage_name C j)"
    by (simp_all add: data_names[OF assms] data_names(4)[OF assms])
  then show "''context.json'' \<noteq> stage_name C j" "record_name C i \<noteq> stage_name C j" by metis+
qed

lemma failed_file_inv: "file_inv G K s \<Longrightarrow> file_inv G K (s\<lparr>ft_failed := True\<rparr>)"
  by (simp add: file_inv_def)

lemma file_inv_step [simp]: "file_inv G K (s\<lparr>ft_step := k\<rparr>) = file_inv G K s"
  by (simp add: file_inv_def memory_exact_def)

section \<open>Saving a receipt\<close>

lemma record_written:
  assumes "uuid_laws (tx_crates G)" "ftouches (temp_name (record_name (tx_crates G) i)) s t"
  shows "file_barrier G (ft_dir t) = file_barrier G (ft_dir s)"
    "j \<noteq> i \<Longrightarrow> disk_file G (ft_dir t) j = disk_file G (ft_dir s) j"
    "dir_get (stage_name (tx_crates G) j) (ft_dir t) = dir_get (stage_name (tx_crates G) j) (ft_dir s)"
proof -
  have "\<not> temp_name (record_name (tx_crates G) i) ''context.json''"
    using record_name_special(1)[OF assms(1), of i] data_names(4)[OF assms(1)] by (auto simp: temp_name_def)
  then show "file_barrier G (ft_dir t) = file_barrier G (ft_dir s)"
    using assms(2) by (simp add: transfers.touches_def file_barrier_def)
  have "j \<noteq> i \<Longrightarrow> \<not> temp_name (record_name (tx_crates G) i) (record_name (tx_crates G) j)"
    using data_names(1)[OF assms(1), of j] assms(1) by (simp add: temp_name_def)
  then show "j \<noteq> i \<Longrightarrow> disk_file G (ft_dir t) j = disk_file G (ft_dir s) j"
    using assms(2) by (simp add: transfers.touches_def disk_file_def)
  have "\<not> temp_name (record_name (tx_crates G) i) (stage_name (tx_crates G) j)"
    using data_names(2)[OF assms(1), of j] stage_apart(2)[OF assms(1), of i j] by (auto simp: temp_name_def)
  then show "dir_get (stage_name (tx_crates G) j) (ft_dir t) = dir_get (stage_name (tx_crates G) j) (ft_dir s)"
    using assms(2) by (simp add: transfers.touches_def)
qed

text \<open>What must hold of a receipt that replaces the one of its operation.\<close>

definition may_save :: "transfer_env \<Rightarrow> (operation_id \<times> file_receipt) set \<Rightarrow> transfer_state \<Rightarrow> file_receipt \<Rightarrow> bool" where
  "may_save G K s r =
     ((\<forall>q. (up_operation (frcpt_upload r), q) \<in> K \<longrightarrow>
         covered (file_barrier G (ft_dir s)) (up_operation (frcpt_upload r))) \<and>
      (\<forall>p \<in> set (ft_published s). up_operation (fst p) = up_operation (frcpt_upload r) \<longrightarrow>
         frcpt_upload r = fst p \<and> frcpt_state r \<notin> {Staging, Aborted}))"

lemma saved_disk:
  assumes L: "transfer_laws G" and I: "file_inv G K s" and m: "may_save G K s r"
    and t: "ftouches (temp_name (record_name (tx_crates G) (up_operation (frcpt_upload r)))) s t"
    and d: "disk_file G (ft_dir t) (up_operation (frcpt_upload r)) \<in> {Some r, disk_file G (ft_dir s) (up_operation (frcpt_upload r))}"
  shows "publications_ok G (ft_dir t) (ft_published t)" "files_kept G K (ft_dir t)"
proof -
  have a: "fside s t" using t by (rule transfers.touches_aside)
  note w = record_written[OF transfer_lawsD(1)[OF L] t]
  have "publication_ok G (ft_dir t) p" if p: "p \<in> set (ft_published s)" for p
  proof (cases "up_operation (fst p) = up_operation (frcpt_upload r)")
    case True
    have "publication_ok G (ft_dir s) p" using I p by (simp add: file_inv_def publications_ok_def)
    then show ?thesis using d m p True by (auto simp: publication_ok_def may_save_def w(1))
  next
    case False
    then show ?thesis
      using I p w(2) by (simp add: file_inv_def publications_ok_def publication_ok_def w(1))
  qed
  then show "publications_ok G (ft_dir t) (ft_published t)"
    using I by (simp add: file_inv_def publications_ok_def fside_fields[OF a])
  show "files_kept G K (ft_dir t)"
    unfolding files_kept_def w(1)
  proof (clarify, intro conjI)
    fix j q assume q: "(j, q) \<in> K"
    then show "settled_file q" using I by (auto simp: file_inv_def files_kept_def)
    have "covered (file_barrier G (ft_dir s)) j \<or> disk_file G (ft_dir s) j = Some q"
      using q I by (auto simp: file_inv_def files_kept_def)
    then show "covered (file_barrier G (ft_dir s)) j \<or> disk_file G (ft_dir t) j = Some q"
      using q m w(2)[of j] by (cases "j = up_operation (frcpt_upload r)") (auto simp: may_save_def)
  qed
qed

text \<open>What is the same after a save besides the record.\<close>

definition saves :: "transfer_env \<Rightarrow> file_receipt \<Rightarrow> transfer_state \<Rightarrow> transfer_state \<Rightarrow> bool" where
  "saves G r s t =
     (ft_up t = ft_up s \<and> ft_failed t = ft_failed s \<and> ft_published t = ft_published s \<and> ft_tree t = ft_tree s \<and>
      ft_barrier t = ft_barrier s \<and> file_barrier G (ft_dir t) = file_barrier G (ft_dir s) \<and>
      bt_get (up_operation (frcpt_upload r)) (ft_receipts t) = Some r \<and>
      disk_file G (ft_dir t) (up_operation (frcpt_upload r)) = Some r \<and>
      (\<forall>j. dir_get (stage_name (tx_crates G) j) (ft_dir t) = dir_get (stage_name (tx_crates G) j) (ft_dir s)))"

lemma save_outcome:
  assumes L: "transfer_laws G" and I: "file_inv G K s" and ok: "ft_up s" "\<not> ft_failed s" and m: "may_save G K s r"
  shows "outcome s (files_save G r) (\<lambda>x t. x = r \<and> file_inv G K t \<and> saves G r s t) (file_inv G K)"
proof -
  let ?i = "up_operation (frcpt_upload r)" and ?n = "record_name (tx_crates G) (up_operation (frcpt_upload r))"
  have laws: "uuid_laws (tx_crates G)" using L by simp
  have "outcome s (file_write_json G (fj_receipt (tx_json G)) ?n r)
      (\<lambda>_ t. file_inv G K (ft_receipts_update (bt_insert ?i r) t) \<and> saves G r s (ft_receipts_update (bt_insert ?i r) t))
      (\<lambda>t. file_inv G K (t\<lparr>ft_failed := True\<rparr>))"
  proof (rule file_write_outcome)
    fix t assume t: "ftouches (temp_name ?n) s t" "dir_get ?n (ft_dir t) = dir_get ?n (ft_dir s)"
    have "disk_file G (ft_dir t) ?i \<in> {Some r, disk_file G (ft_dir s) ?i}" using t(2) by (simp add: disk_file_def)
    from saved_disk[OF L I m t(1) this] show "file_inv G K (t\<lparr>ft_failed := True\<rparr>)" by (simp add: file_inv_def)
  next
    fix t b assume t: "ftouches (temp_name ?n) s t" "to_vec (fj_receipt (tx_json G)) r = Some b"
      "dir_get ?n (ft_dir t) = Some (PlainFile b)"
    have a: "fside s t" using t(1) by (rule transfers.touches_aside)
    note w = record_written[OF laws t(1)]
    have d: "disk_file G (ft_dir t) ?i = Some r" using L t(2,3) by (simp add: disk_file_def)
    then have sd: "publications_ok G (ft_dir t) (ft_published t)" "files_kept G K (ft_dir t)"
      using saved_disk[OF L I m t(1)] by simp_all
    have e: "memory_exact G s" using I ok by (simp add: file_inv_def)
    note e1 = e[unfolded memory_exact_def, THEN conjunct1]
      and e2 = e[unfolded memory_exact_def, THEN conjunct2, THEN conjunct1, rule_format]
      and e3 = e[unfolded memory_exact_def, THEN conjunct2, THEN conjunct2, rule_format]
    have "memory_exact G (ft_receipts_update (bt_insert ?i r) t)"
      unfolding memory_exact_def
    proof (intro conjI allI impI)
      show "ft_barrier (ft_receipts_update (bt_insert ?i r) t) = file_barrier G (ft_dir (ft_receipts_update (bt_insert ?i r) t))"
        using e1 by (simp add: w(1) fside_fields[OF a])
    next
      fix j q assume "bt_get j (ft_receipts (ft_receipts_update (bt_insert ?i r) t)) = Some q"
      then have "if j = ?i then q = r else bt_get j (ft_receipts s) = Some q"
        by (simp add: fside_fields[OF a] split: if_splits)
      then have "disk_file G (ft_dir t) j = Some q \<and> up_operation (frcpt_upload q) = j"
        using e2[of j q] d w(2)[of j] by (cases "j = ?i") auto
      then show "disk_file G (ft_dir (ft_receipts_update (bt_insert ?i r) t)) j = Some q" "up_operation (frcpt_upload q) = j"
        by simp_all
    next
      fix j q assume "disk_file G (ft_dir (ft_receipts_update (bt_insert ?i r) t)) j = Some q"
        "\<not> covered (ft_barrier (ft_receipts_update (bt_insert ?i r) t)) j"
      then have "disk_file G (ft_dir t) j = Some q" "\<not> covered (ft_barrier s) j" by (simp_all add: fside_fields[OF a])
      then have "if j = ?i then q = r else bt_get j (ft_receipts s) = Some q"
        using e3[of j q] d w(2)[of j] by (cases "j = ?i") auto
      then show "bt_get j (ft_receipts (ft_receipts_update (bt_insert ?i r) t)) = Some q"
        by (simp add: fside_fields[OF a] split: if_splits)
    qed
    then have "file_inv G K (ft_receipts_update (bt_insert ?i r) t)" using sd by (simp add: file_inv_def)
    moreover have "saves G r s (ft_receipts_update (bt_insert ?i r) t)"
      using d w(1,3) by (simp add: saves_def fside_fields[OF a])
    ultimately show "file_inv G K (t\<lparr>ft_failed := True\<rparr>) \<and> file_inv G K (ft_receipts_update (bt_insert ?i r) t) \<and>
        saves G r s (ft_receipts_update (bt_insert ?i r) t)"
      using sd by (simp add: file_inv_def)
  qed (use laws data_names(1)[OF laws] in simp_all)
  then show ?thesis by (simp add: files_save_def Let_def outcome_simps)
qed

end
