(* ===== verification/Guest_File_Runs.thy ===== *)
theory Guest_File_Runs
  imports Guest_File_Laws
begin

text \<open>
  Every request of the file engine, every change of the workspace by others and every reopening
  keeps \<open>file_inv\<close>.
\<close>

section \<open>Requests\<close>

text \<open>A receipt that is still staging binds neither a kept outcome nor a publication.\<close>

lemma staging_free:
  assumes "file_inv G K s" "ft_up s" "\<not> ft_failed s" "bt_get i (ft_receipts s) = Some r" "frcpt_state r = Staging"
  shows "up_operation (frcpt_upload r) = i" "disk_file G (ft_dir s) i = Some r"
    "(i, q) \<in> K \<Longrightarrow> covered (file_barrier G (ft_dir s)) i"
    "p \<in> set (ft_published s) \<Longrightarrow> up_operation (fst p) \<noteq> i"
proof -
  have e: "memory_exact G s" using assms(1-3) by (simp add: file_inv_def)
  then show u: "up_operation (frcpt_upload r) = i" and d: "disk_file G (ft_dir s) i = Some r"
    using assms(4) unfolding memory_exact_def by blast+
  show "covered (file_barrier G (ft_dir s)) i" if "(i, q) \<in> K"
  proof -
    have "settled_file q" "covered (file_barrier G (ft_dir s)) i \<or> disk_file G (ft_dir s) i = Some q"
      using that assms(1) by (auto simp: file_inv_def files_kept_def)
    then show ?thesis using d assms(5) by (auto simp: settled_file_def)
  qed
  show "up_operation (fst p) \<noteq> i" if "p \<in> set (ft_published s)"
    using that assms(1,5) d by (auto simp: file_inv_def publications_ok_def publication_ok_def)
qed

lemma check_done:
  "outcome s (check_stage G u)
    (\<lambda>_ t. \<exists>k b. t = s\<lparr>ft_step := k\<rparr> \<and> dir_get (stage_name (tx_crates G) (up_operation u)) (ft_dir s) = Some (PlainFile b) \<and>
       length b = up_size u \<and> sha256 (tx_crates G) b = up_sha256 u)
    (\<lambda>t. \<exists>k. t = s\<lparr>ft_step := k\<rparr>)"
proof -
  have full: "take n b = b" if "length (take n b) = length b" for n and b :: bytes
    using that by simp
  have same: "\<exists>k. s = s\<lparr>ft_step := k\<rparr>" by (rule exI[of _ "ft_step s"]) simp
  show ?thesis
    unfolding check_stage_def root_parent_def regular_def
    using same full
    by (auto simp: outcome_simps split: option.split state_entry.split)
qed

definition renamed :: "transfer_env \<Rightarrow> upload \<Rightarrow> bytes \<Rightarrow> transfer_state \<Rightarrow> transfer_state" where
  "renamed G u b s =
     s\<lparr>ft_dir := dir_drop (stage_name (tx_crates G) (up_operation u)) (ft_dir s),
       ft_tree := AList.update (up_path u) (WorkFile b (up_mode u)) (ft_tree s),
       ft_published := ft_published s @ [(u, b)]\<rparr>"

lemma publish_done:
  assumes "dir_get (stage_name (tx_crates G) (up_operation u)) (ft_dir s) = Some (PlainFile b)"
  shows "outcome s (publish_stage G u) (\<lambda>_ t. \<exists>k. t = (renamed G u b s)\<lparr>ft_step := k\<rparr>)
    (\<lambda>t. \<exists>k. t = s\<lparr>ft_step := k\<rparr> \<or> t = (renamed G u b s)\<lparr>ft_step := k\<rparr>)"
  using assms unfolding publish_stage_def Let_def regular_def renamed_def
  by (auto simp: outcome_simps intro!: exI[of _ "Suc (ft_step s)"])

lemma renamed_fields:
  assumes "uuid_laws (tx_crates G)"
  shows "file_barrier G (ft_dir (renamed G u b s)) = file_barrier G (ft_dir s)"
    "disk_file G (ft_dir (renamed G u b s)) = disk_file G (ft_dir s)"
    "ft_up (renamed G u b s) = ft_up s" "ft_failed (renamed G u b s) = ft_failed s"
    "ft_barrier (renamed G u b s) = ft_barrier s" "ft_receipts (renamed G u b s) = ft_receipts s"
    "ft_published (renamed G u b s) = ft_published s @ [(u, b)]"
  using stage_apart[OF assms] by (auto simp: renamed_def file_barrier_def disk_file_def fun_eq_iff)

lemma renamed_inv:
  assumes L: "transfer_laws G" and I: "file_inv G K s"
    and u: "length b = up_size u" "sha256 (tx_crates G) b = up_sha256 u"
    and d: "disk_file G (ft_dir s) (up_operation u) = Some r" "frcpt_upload r = u" "frcpt_state r = CommitIntent"
    and free: "\<And>p. p \<in> set (ft_published s) \<Longrightarrow> up_operation (fst p) \<noteq> up_operation u"
  shows "file_inv G K (renamed G u b s)"
proof -
  note f = renamed_fields[OF transfer_lawsD(1)[OF L], of u b s]
  have "publication_ok G (ft_dir (renamed G u b s)) = publication_ok G (ft_dir s)"
    unfolding publication_ok_def f(1,2) ..
  moreover have "publication_ok G (ft_dir s) (u, b)"
    using u d by (simp add: publication_ok_def)
  moreover have "up_operation u \<notin> (\<lambda>p. up_operation (fst p)) ` set (ft_published s)"
    using free by force
  moreover have "publications_ok G (ft_dir s) (ft_published s)" using I by (simp add: file_inv_def)
  ultimately have p: "publications_ok G (ft_dir (renamed G u b s)) (ft_published (renamed G u b s))"
    unfolding f(7) by (simp add: publications_ok_def)
  have k: "files_kept G K (ft_dir (renamed G u b s)) = files_kept G K (ft_dir s)"
    unfolding files_kept_def f(1,2) ..
  have m: "memory_exact G (renamed G u b s) = memory_exact G s"
    unfolding memory_exact_def f ..
  show ?thesis using I p unfolding file_inv_def f(3,4) k m by blast
qed

text \<open>Saving the end of a commit. Its operation has no kept outcome and at most its own publication.\<close>

lemma settles:
  assumes L: "transfer_laws G" and t: "file_inv G K t" "ft_up t" "\<not> ft_failed t"
    and free: "\<And>q. (i, q) \<in> K \<Longrightarrow> covered (file_barrier G (ft_dir t)) i"
    and own: "\<And>p. p \<in> set (ft_published t) \<Longrightarrow> up_operation (fst p) = i \<Longrightarrow> fst p = frcpt_upload r"
    and i: "up_operation (frcpt_upload r) = i" and st: "st = Committed \<or> st = FileUnknown"
  shows "outcome t (files_save G (r\<lparr>frcpt_state := st\<rparr>)) (\<lambda>_. file_inv G K) (file_inv G K)"
proof -
  have "may_save G K t (r\<lparr>frcpt_state := st\<rparr>)"
    unfolding may_save_def
  proof (intro conjI allI impI ballI)
    fix q assume "(up_operation (frcpt_upload (r\<lparr>frcpt_state := st\<rparr>)), q) \<in> K"
    then show "covered (file_barrier G (ft_dir t)) (up_operation (frcpt_upload (r\<lparr>frcpt_state := st\<rparr>)))"
      using free[of q] i by simp
  next
    fix p assume "p \<in> set (ft_published t)" "up_operation (fst p) = up_operation (frcpt_upload (r\<lparr>frcpt_state := st\<rparr>))"
    then show "frcpt_upload (r\<lparr>frcpt_state := st\<rparr>) = fst p" using own[of p] i by simp
  next
    show "frcpt_state (r\<lparr>frcpt_state := st\<rparr>) \<notin> {Staging, Aborted}" using st by auto
  qed
  from save_outcome[OF L t this] show ?thesis by (rule outcome_mono) simp_all
qed

lemma publish_settles:
  assumes L: "transfer_laws G" and t: "file_inv G K t" "ft_up t" "\<not> ft_failed t"
    and free: "\<And>q. (i, q) \<in> K \<Longrightarrow> covered (file_barrier G (ft_dir t)) i"
      "\<And>p. p \<in> set (ft_published t) \<Longrightarrow> up_operation (fst p) \<noteq> i"
    and i: "up_operation (frcpt_upload r) = i"
    and disk: "disk_file G (ft_dir t) i = Some (r\<lparr>frcpt_state := CommitIntent\<rparr>)"
    and b: "dir_get (stage_name (tx_crates G) i) (ft_dir t) = Some (PlainFile b)"
      "length b = up_size (frcpt_upload r)" "sha256 (tx_crates G) b = up_sha256 (frcpt_upload r)"
  shows "outcome t (publish_stage G (frcpt_upload r))
     (\<lambda>_ u. outcome u (files_save G (r\<lparr>frcpt_state := Committed\<rparr>)) (\<lambda>_. file_inv G K) (file_inv G K))
     (\<lambda>u. outcome u (files_save G (r\<lparr>frcpt_state := FileUnknown\<rparr>)) (\<lambda>_. file_inv G K) (file_inv G K))"
proof -
  let ?v = "renamed G (frcpt_upload r) b t"
  note f = renamed_fields[OF transfer_lawsD(1)[OF L], of "frcpt_upload r" b t]
  have R: "file_inv G K ?v"
    by (rule renamed_inv[OF L t(1) b(2,3), of "r\<lparr>frcpt_state := CommitIntent\<rparr>"]) (use disk free(2) i in simp_all)
  have own: "fst p = frcpt_upload r" if "p \<in> set (ft_published ?v)" "up_operation (fst p) = i" for p
    using that free(2)[of p] unfolding f(7) by auto
  have A: "outcome (t\<lparr>ft_step := n\<rparr>) (files_save G (r\<lparr>frcpt_state := st\<rparr>)) (\<lambda>_. file_inv G K) (file_inv G K)"
    if "st = Committed \<or> st = FileUnknown" for n st
    by (rule settles[OF L, where i=i]) (use t free i that in simp_all)
  have B: "outcome (?v\<lparr>ft_step := n\<rparr>) (files_save G (r\<lparr>frcpt_state := st\<rparr>)) (\<lambda>_. file_inv G K) (file_inv G K)"
    if "st = Committed \<or> st = FileUnknown" for n st
    by (rule settles[OF L, where i=i]) (use R t own free(1) i that in \<open>simp_all add: f(1,3,4)\<close>)
  have "dir_get (stage_name (tx_crates G) (up_operation (frcpt_upload r))) (ft_dir t) = Some (PlainFile b)"
    using b(1) i by simp
  from publish_done[OF this] show ?thesis
    by (rule outcome_mono) (use A B in \<open>elim exE disjE; simp\<close>)+
qed

lemma commit_file_inv:
  assumes L: "transfer_laws G" and I: "file_inv G K s" and up: "ft_up s"
  shows "outcome s (files_commit G i) (\<lambda>_. file_inv G K) (file_inv G K)"
proof (cases "\<not> ft_failed s \<and> (\<exists>r. bt_get i (ft_receipts s) = Some r \<and> frcpt_state r = Staging)")
  case False
  then show ?thesis unfolding files_commit_def using I by (auto simp: outcome_simps split: option.split)
next
  case True
  then obtain r where r: "bt_get i (ft_receipts s) = Some r" "frcpt_state r = Staging" and ok: "\<not> ft_failed s" by blast
  let ?C = "\<lambda>t st. outcome t (files_save G (r\<lparr>frcpt_state := st\<rparr>)) (\<lambda>_. file_inv G K) (file_inv G K)"
  let ?P = "\<lambda>t. outcome t (publish_stage G (frcpt_upload r)) (\<lambda>_ u. ?C u Committed) (\<lambda>u. ?C u FileUnknown)"
  note free = staging_free[OF I up ok r]
  have may: "may_save G K (s\<lparr>ft_step := k\<rparr>) (r\<lparr>frcpt_state := CommitIntent\<rparr>)" for k
    using free(3,4) by (fastforce simp: may_save_def free(1))
  have "outcome s (check_stage G (frcpt_upload r))
      (\<lambda>_ t. outcome t (files_save G (r\<lparr>frcpt_state := CommitIntent\<rparr>)) (\<lambda>_. ?P) (file_inv G K)) (file_inv G K)"
  proof (rule outcome_mono[OF check_done], elim exE conjE)
    fix t k b assume t: "t = s\<lparr>ft_step := k\<rparr>"
      and b: "dir_get (stage_name (tx_crates G) (up_operation (frcpt_upload r))) (ft_dir s) = Some (PlainFile b)"
        "length b = up_size (frcpt_upload r)" "sha256 (tx_crates G) b = up_sha256 (frcpt_upload r)"
    have now: "file_inv G K (s\<lparr>ft_step := k\<rparr>)" "ft_up (s\<lparr>ft_step := k\<rparr>)" "\<not> ft_failed (s\<lparr>ft_step := k\<rparr>)"
      using I up ok by simp_all
    have go: "?P v" if v: "file_inv G K v" "saves G (r\<lparr>frcpt_state := CommitIntent\<rparr>) (s\<lparr>ft_step := k\<rparr>) v" for v
    proof (rule publish_settles[OF L v(1), where i=i])
      show "ft_up v" "\<not> ft_failed v" "disk_file G (ft_dir v) i = Some (r\<lparr>frcpt_state := CommitIntent\<rparr>)"
        "dir_get (stage_name (tx_crates G) i) (ft_dir v) = Some (PlainFile b)"
        using v(2) up ok b(1) free(1) by (simp_all add: saves_def)
      show "covered (file_barrier G (ft_dir v)) i" if "(i, q) \<in> K" for q
        using v(2) free(3)[OF that] by (simp add: saves_def)
      show "up_operation (fst p) \<noteq> i" if "p \<in> set (ft_published v)" for p
        using v(2) free(4)[of p] that by (simp add: saves_def)
    qed (use free(1) b(2,3) in simp_all)
    have sv: "outcome (s\<lparr>ft_step := k\<rparr>) (files_save G (r\<lparr>frcpt_state := CommitIntent\<rparr>))
       (\<lambda>x u. x = r\<lparr>frcpt_state := CommitIntent\<rparr> \<and> file_inv G K u \<and>
          saves G (r\<lparr>frcpt_state := CommitIntent\<rparr>) (s\<lparr>ft_step := k\<rparr>) u) (file_inv G K)"
      by (rule save_outcome[OF L now may])
    show "outcome t (files_save G (r\<lparr>frcpt_state := CommitIntent\<rparr>)) (\<lambda>_. ?P) (file_inv G K)"
      unfolding t by (rule outcome_mono[OF sv]) (use go in blast, assumption)
  qed (use I in auto)
  then show ?thesis
    unfolding files_commit_def using r ok I by (simp add: outcome_simps)
qed

lemma memory_exactD:
  assumes "memory_exact G s"
  shows "ft_barrier s = file_barrier G (ft_dir s)"
    "bt_get i (ft_receipts s) = Some r \<Longrightarrow> disk_file G (ft_dir s) i = Some r \<and> up_operation (frcpt_upload r) = i"
    "disk_file G (ft_dir s) i = Some r \<Longrightarrow> \<not> covered (ft_barrier s) i \<Longrightarrow> bt_get i (ft_receipts s) = Some r"
  using assms unfolding memory_exact_def by blast+

text \<open>An operation that neither the registry nor the barrier knows has left nothing.\<close>

lemma fresh_free:
  assumes I: "file_inv G K s" "ft_up s" "\<not> ft_failed s"
    and i: "bt_get i (ft_receipts s) = None" "\<not> covered (ft_barrier s) i"
  shows "(i, q) \<notin> K" "p \<in> set (ft_published s) \<Longrightarrow> up_operation (fst p) \<noteq> i"
proof -
  have e: "memory_exact G s" using I by (simp add: file_inv_def)
  have c: "\<not> covered (file_barrier G (ft_dir s)) i" using memory_exactD(1)[OF e] i(2) by (simp only: not_False_eq_True)
  have d: "disk_file G (ft_dir s) i = None"
  proof (cases "disk_file G (ft_dir s) i")
    case (Some r)
    then show ?thesis using memory_exactD(3)[OF e Some i(2)] i(1) by simp
  qed
  note none = c d
  show "(i, q) \<notin> K" using I(1) none by (auto simp: file_inv_def files_kept_def)
  show "up_operation (fst p) \<noteq> i" if "p \<in> set (ft_published s)"
    using I(1) none that by (auto simp: file_inv_def publications_ok_def publication_ok_def)
qed

lemma save_inv:
  assumes "transfer_laws G" "file_inv G K s" "ft_up s" "\<not> ft_failed s" "may_save G K s r"
  shows "outcome s (files_save G r) (\<lambda>_. file_inv G K) (file_inv G K)"
  by (rule outcome_mono[OF save_outcome[OF assms]]) simp_all

lemma begin_file_inv:
  assumes L: "transfer_laws G" and I: "file_inv G K s" and up: "ft_up s"
  shows "outcome s (files_begin G u) (\<lambda>_. file_inv G K) (file_inv G K)"
proof -
  have laws: "uuid_laws (tx_crates G)" using L by simp
  have go: "outcome (s\<lparr>ft_step := k\<rparr>) (create_stage G (up_operation u))
      (\<lambda>_ t. outcome t (files_save G r) (\<lambda>_. file_inv G K) (file_inv G K)) (\<lambda>t. file_inv G K (t\<lparr>ft_failed := True\<rparr>))"
    if ok: "\<not> ft_failed s" and n: "bt_get (up_operation u) (ft_receipts s) = None" "\<not> covered (ft_barrier s) (up_operation u)"
      and r: "frcpt_upload r = u" for k r
  proof (rule transfers.outcome_reach[OF freach_stage])
    fix t assume t: "ftouches ((=) (stage_name (tx_crates G) (up_operation u))) (s\<lparr>ft_step := k\<rparr>) t"
    have It: "file_inv G K t"
      by (rule untouched_inv[OF _ t]) (use I stage_apart[OF laws] in \<open>auto dest: sym\<close>)
    then show "file_inv G K (t\<lparr>ft_failed := True\<rparr>)" by (rule failed_file_inv)
    note f = fside_fields[OF transfers.touches_aside[OF t]]
    have "may_save G K t r"
      using fresh_free[OF I up ok n] by (auto simp: may_save_def r f)
    then show "outcome t (files_save G r) (\<lambda>_. file_inv G K) (file_inv G K)" for x
      by (intro save_inv[OF L It]) (use f up ok in simp_all)
  qed simp
  show ?thesis
    unfolding files_begin_def root_parent_def
    using I go
    by (auto simp: outcome_simps covered_def split: option.splits)
qed

lemma write_file_inv:
  assumes L: "transfer_laws G" and I: "file_inv G K s"
  shows "outcome s (files_write G i offset data) (\<lambda>_. file_inv G K) (file_inv G K)"
proof (rule transfers.outcome_reach[OF freach_write])
  fix t assume "ftouches ((=) (stage_name (tx_crates G) i)) s t"
  then show "file_inv G K t"
    by (rule untouched_inv[OF I]) (use stage_apart[OF transfer_lawsD(1)[OF L]] in \<open>auto dest: sym\<close>)
  then show "file_inv G K t" for x .
qed simp

lemma abort_file_inv:
  assumes L: "transfer_laws G" and I: "file_inv G K s" and up: "ft_up s"
  shows "outcome s (files_abort G i) (\<lambda>_. file_inv G K) (file_inv G K)"
proof (cases "\<not> ft_failed s \<and> (\<exists>r. bt_get i (ft_receipts s) = Some r \<and> frcpt_state r = Staging)")
  case False
  then show ?thesis unfolding files_abort_def using I by (auto simp: outcome_simps split: option.split)
next
  case True
  then obtain r where r: "bt_get i (ft_receipts s) = Some r" "frcpt_state r = Staging" and ok: "\<not> ft_failed s" by blast
  note free = staging_free[OF I up ok r]
  have may: "may_save G K s (r\<lparr>frcpt_state := Aborted\<rparr>)"
    using free(3,4) by (fastforce simp: may_save_def free(1))
  have rm: "outcome t (file_remove G (stage_name (tx_crates G) i)) (\<lambda>_. file_inv G K) (file_inv G K)"
    if "file_inv G K t" for t
  proof (rule transfers.outcome_reach[OF freach_remove])
    fix u assume "ftouches ((=) (stage_name (tx_crates G) i)) t u"
    then show "file_inv G K u"
      by (rule untouched_inv[OF that]) (use stage_apart[OF transfer_lawsD(1)[OF L]] in \<open>auto dest: sym\<close>)
    then show "file_inv G K u" for x .
  qed simp
  have "outcome s (files_save G (r\<lparr>frcpt_state := Aborted\<rparr>))
      (\<lambda>_ t. outcome t (file_remove G (stage_name (tx_crates G) i)) (\<lambda>_. file_inv G K) (file_inv G K)) (file_inv G K)"
    by (rule outcome_mono[OF save_inv[OF L I up ok may]]) (use rm in blast, assumption)
  then show ?thesis
    unfolding files_abort_def using r ok I by (simp add: outcome_simps)
qed

lemma capture_file_inv:
  assumes I: "file_inv G K s"
  shows "outcome s (files_capture G p) (\<lambda>_. file_inv G K) (file_inv G K)"
proof (rule transfers.outcome_reach[OF freach_capture])
  fix t assume "ftouches (\<lambda>_. False) s t"
  then show "file_inv G K t" by (rule untouched_inv[OF I]) simp_all
  then show "file_inv G K t" for x .
qed

lemma inspect_file_inv: "file_inv G K s \<Longrightarrow> outcome s (files_inspect i) (\<lambda>_. file_inv G K) (file_inv G K)"
  by (simp add: files_inspect_def outcome_simps)

lemma release_file_inv: "file_inv G K s \<Longrightarrow> outcome s release_permit (\<lambda>_. file_inv G K) (file_inv G K)"
  by (simp add: release_permit_def outcome_simps, erule same_files_inv) (simp_all add: same_files_def transfers.aside_def)

section \<open>Retirement\<close>

lemma retirable_names:
  assumes "uuid_laws C"
  shows "\<not> retirable C b ''context.json''" "retirable C b (record_name C i) \<Longrightarrow> covers b i"
  using record_retired[OF assms, of b i] by (auto simp: retirable_def retired_name_def)

text \<open>Pruning only removes.\<close>

definition removes :: "(string \<Rightarrow> bool) \<Rightarrow> transfer_state \<Rightarrow> transfer_state \<Rightarrow> bool" where
  "removes P s t = (ftouches P s t \<and>
     (\<forall>n. dir_get n (ft_dir t) = dir_get n (ft_dir s) \<or> dir_get n (ft_dir t) = None))"

lemma removes_refl [simp]: "removes P s s" "removes P s (s\<lparr>ft_step := k\<rparr>)"
  by (simp_all add: removes_def transfers.touches_def)

lemma removes_trans: "removes P s t \<Longrightarrow> removes P t u \<Longrightarrow> removes P s u"
  unfolding removes_def by (metis transfers.touches_trans)

lemma remove_removes: "P n \<Longrightarrow> outcome s (file_remove G n) (\<lambda>_. removes P s) (removes P s)"
  unfolding file_remove_def
  by (auto simp: outcome_simps removes_def transfers.touches_def transfers.aside_def split: option.split)

lemma prune_files_removes:
  "outcome s (prune_files G b names) (\<lambda>_. removes (retirable (tx_crates G) b) s) (removes (retirable (tx_crates G) b) s)"
proof (induction names arbitrary: s)
  case (Cons n names)
  let ?R = "removes (retirable (tx_crates G) b)"
  have rest: "outcome t (prune_files G b names) (\<lambda>_. ?R s) (?R s)" if "?R s t" for t
    by (rule outcome_mono[OF Cons.IH]) (use that removes_trans in blast)+
  have "outcome s (file_remove G n) (\<lambda>_ t. outcome t (prune_files G b names) (\<lambda>_. ?R s) (?R s)) (?R s)"
    if "retirable (tx_crates G) b n"
    by (rule outcome_mono[OF remove_removes[where P = "retirable (tx_crates G) b", OF that]]) (use rest in blast, assumption)
  moreover have "retirable (tx_crates G) b n \<longleftrightarrow> retired_name (tx_crates G) b n = Inr True" by (simp add: retirable_def)
  ultimately show ?case using rest[of s] by (auto simp: outcome_simps)
qed (simp add: outcome_simps)

lemma prune_removes:
  "outcome s (file_prune G names b) (\<lambda>_. removes (retirable (tx_crates G) b) s) (removes (retirable (tx_crates G) b) s)"
proof -
  let ?R = "removes (retirable (tx_crates G) b)"
  have "?R s (t\<lparr>ft_step := k\<rparr>)" if "?R s t" for t k by (rule removes_trans[OF that]) simp
  then show ?thesis
    unfolding file_prune_def
    by (simp add: outcome_simps) (rule impI, rule outcome_mono[OF prune_files_removes]; simp)
qed

lemma pruned_disk:
  assumes "uuid_laws (tx_crates G)" "removes (retirable (tx_crates G) b) s t"
  shows "file_barrier G (ft_dir t) = file_barrier G (ft_dir s)"
    "\<not> covers b i \<Longrightarrow> disk_file G (ft_dir t) i = disk_file G (ft_dir s) i"
    "disk_file G (ft_dir t) i = Some r \<Longrightarrow> disk_file G (ft_dir s) i = Some r"
proof -
  have t: "ftouches (retirable (tx_crates G) b) s t" using assms(2) by (simp add: removes_def)
  show "file_barrier G (ft_dir t) = file_barrier G (ft_dir s)"
    using t retirable_names[OF assms(1)] by (simp add: transfers.touches_def file_barrier_def)
  show "\<not> covers b i \<Longrightarrow> disk_file G (ft_dir t) i = disk_file G (ft_dir s) i"
    using t retirable_names(2)[OF assms(1), of b i] unfolding transfers.touches_def disk_file_def by metis
  have "dir_get (record_name (tx_crates G) i) (ft_dir t) = dir_get (record_name (tx_crates G) i) (ft_dir s) \<or>
      dir_get (record_name (tx_crates G) i) (ft_dir t) = None" using assms(2) by (simp add: removes_def)
  then show "disk_file G (ft_dir t) i = Some r \<Longrightarrow> disk_file G (ft_dir s) i = Some r"
    by (auto simp: disk_file_def)
qed

text \<open>With a barrier on the disk, what it covers may change or go.\<close>

lemma retired_disk:
  assumes P: "publications_ok G d ps" "files_kept G K d"
    and b: "file_barrier G d' = Some b" "\<And>i. covered (file_barrier G d) i \<Longrightarrow> covers b i"
    and d: "\<And>i. \<not> covers b i \<Longrightarrow> disk_file G d' i = disk_file G d i"
    and gone: "\<And>i r. disk_file G d' i = Some r \<Longrightarrow> disk_file G d i = Some r"
  shows "publications_ok G d' ps" "files_kept G K d'"
proof -
  have "publication_ok G d' p" if p: "publication_ok G d p" for p
  proof -
    let ?i = "up_operation (fst p)"
    have "covers b ?i \<or> disk_file G d' ?i \<noteq> None"
      using p b(2)[of ?i] d[of ?i] by (cases "covers b ?i") (auto simp: publication_ok_def)
    then show ?thesis using p gone[of ?i] by (simp add: publication_ok_def b(1))
  qed
  then show "publications_ok G d' ps" using P(1) by (simp add: publications_ok_def)
  show "files_kept G K d'"
    unfolding files_kept_def
  proof (clarify, intro conjI)
    fix i r assume k: "(i, r) \<in> K"
    then have "settled_file r \<and> (covered (file_barrier G d) i \<or> disk_file G d i = Some r)"
      using P(2) unfolding files_kept_def by blast
    then show "settled_file r" "covered (file_barrier G d') i \<or> disk_file G d' i = Some r"
      using b(2)[of i] d[of i] by (cases "covers b i"; auto simp: b(1))+
  qed
qed

lemma context_put:
  assumes "uuid_laws (tx_crates G)" "ftouches (temp_name ''context.json'') s t"
  shows "disk_file G (ft_dir t) = disk_file G (ft_dir s)"
proof
  fix i
  have "\<not> temp_name ''context.json'' (record_name (tx_crates G) i)"
    using record_name_special(1)[OF assms(1), of i] data_names(1)[OF assms(1), of i] by (simp add: temp_name_def)
  then show "disk_file G (ft_dir t) i = disk_file G (ft_dir s) i"
    using assms(2) by (simp add: transfers.touches_def disk_file_def)
qed

text \<open>After the barrier is on the disk and until the registry has forgotten what it covers.\<close>

definition retiring :: "transfer_env \<Rightarrow> (operation_id \<times> file_receipt) set \<Rightarrow> barrier \<Rightarrow> transfer_state \<Rightarrow> transfer_state \<Rightarrow> bool" where
  "retiring G K b s t =
     (publications_ok G (ft_dir t) (ft_published t) \<and> files_kept G K (ft_dir t) \<and> file_barrier G (ft_dir t) = Some b \<and>
      ft_receipts t = ft_receipts s \<and>
      (\<forall>i. \<not> covers b i \<longrightarrow> disk_file G (ft_dir t) i = disk_file G (ft_dir s) i))"

lemma retiring_prune:
  assumes "uuid_laws (tx_crates G)" "retiring G K b s t" "removes (retirable (tx_crates G) b) t u"
  shows "retiring G K b s u" "ft_barrier u = ft_barrier t"
proof -
  have r: "publications_ok G (ft_dir t) (ft_published t)" "files_kept G K (ft_dir t)" "file_barrier G (ft_dir t) = Some b"
      "ft_receipts t = ft_receipts s" "\<And>i. \<not> covers b i \<Longrightarrow> disk_file G (ft_dir t) i = disk_file G (ft_dir s) i"
    using assms(2) unfolding retiring_def by blast+
  note p = pruned_disk[OF assms(1,3)]
  have f: "fside t u" using assms(3) by (auto simp: removes_def intro: transfers.touches_aside)
  have b: "file_barrier G (ft_dir u) = Some b" using r(3) p(1) by simp
  have m: "covered (file_barrier G (ft_dir t)) i \<Longrightarrow> covers b i" for i using r(3) by simp
  note d = retired_disk[OF r(1,2) b m p(2) p(3)]
  show "retiring G K b s u"
    unfolding retiring_def fside_fields[OF f]
  proof (intro conjI allI impI)
    show "disk_file G (ft_dir u) i = disk_file G (ft_dir s) i" if "\<not> covers b i" for i
      using p(2)[OF that] r(5)[OF that] by simp
  qed (use d b r(4) in simp_all)
  show "ft_barrier u = ft_barrier t" by (simp add: fside_fields[OF f])
qed

lemma retiring_done:
  assumes e: "memory_exact G s" and r: "retiring G K b s t" and bar: "above b (ft_barrier s)" "ft_barrier t = Some b"
  shows "file_inv G K (ft_receipts_update (filter (\<lambda>(i, _). \<not> covers b i)) t)"
proof -
  let ?t = "ft_receipts_update (filter (\<lambda>(i, _). \<not> covers b i)) t"
  have r: "publications_ok G (ft_dir t) (ft_published t)" "files_kept G K (ft_dir t)" "file_barrier G (ft_dir t) = Some b"
      "ft_receipts t = ft_receipts s" "\<And>i. \<not> covers b i \<Longrightarrow> disk_file G (ft_dir t) i = disk_file G (ft_dir s) i"
    using r unfolding retiring_def by blast+
  have "memory_exact G ?t"
    unfolding memory_exact_def
  proof (intro conjI allI impI)
    show "ft_barrier ?t = file_barrier G (ft_dir ?t)" using r(3) bar(2) by simp
  next
    fix i q assume "bt_get i (ft_receipts ?t) = Some q"
    then have "\<not> covers b i" "bt_get i (ft_receipts s) = Some q" by (simp_all add: r(4) split: if_splits)
    then show "disk_file G (ft_dir ?t) i = Some q" "up_operation (frcpt_upload q) = i"
      using memory_exactD(2)[OF e, of i q] r(5)[of i] by simp_all
  next
    fix i q assume a: "disk_file G (ft_dir ?t) i = Some q" "\<not> covered (ft_barrier ?t) i"
    have q: "\<not> covers b i" using a(2) bar(2) by simp
    then have d: "disk_file G (ft_dir s) i = Some q" using a(1) r(5)[of i] by simp
    have "\<not> covered (ft_barrier s) i" using above_covers[OF bar(1)] q by blast
    from memory_exactD(3)[OF e d this] show "bt_get i (ft_receipts ?t) = Some q" using q by (simp add: r(4))
  qed
  then show ?thesis using r(1,2) by (simp add: file_inv_def)
qed

lemma retiring_start:
  assumes L: "transfer_laws G" and I: "file_inv G K s" "ft_up s" "\<not> ft_failed s" and ab: "above b (ft_barrier s)"
    and t: "ftouches (temp_name ''context.json'') s t" and b: "file_barrier G (ft_dir t) = Some b"
  shows "retiring G K b s t"
proof -
  have e: "memory_exact G s" using I by (simp add: file_inv_def)
  note d = context_put[OF transfer_lawsD(1)[OF L] t] and f = fside_fields[OF transfers.touches_aside[OF t]]
  have mono: "covered (file_barrier G (ft_dir s)) i \<Longrightarrow> covers b i" for i
    using above_covers[OF ab] memory_exactD(1)[OF e] by metis
  have I': "publications_ok G (ft_dir s) (ft_published s)" "files_kept G K (ft_dir s)" using I(1) by (simp_all add: file_inv_def)
  have "disk_file G (ft_dir t) i = disk_file G (ft_dir s) i"
    "disk_file G (ft_dir t) i = Some r \<Longrightarrow> disk_file G (ft_dir s) i = Some r" for i r
    by (simp_all only: d)
  note rd = retired_disk[OF I' b mono this]
  show ?thesis using rd b by (simp add: retiring_def f d)
qed

lemma retiring_failed: "retiring G K b s t \<Longrightarrow> file_inv G K (t\<lparr>ft_failed := True\<rparr>)"
  by (simp add: retiring_def file_inv_def)

lemma retire_file_inv:
  assumes L: "transfer_laws G" and I: "file_inv G K s" and up: "ft_up s"
  shows "outcome s (files_retire G b) (\<lambda>_. file_inv G K) (file_inv G K)"
proof -
  have laws: "uuid_laws (tx_crates G)" using L by simp
  let ?forget = "ft_receipts_update (filter (\<lambda>(i, _). \<not> covers b i))"
  have prune: "outcome (t\<lparr>ft_barrier := Some b\<rparr>) (file_prune G names b)
      (\<lambda>_ u. file_inv G K (?forget u)) (\<lambda>u. file_inv G K (u\<lparr>ft_failed := True\<rparr>))"
    if e: "memory_exact G s" and ab: "above b (ft_barrier s)" and t: "retiring G K b s t" for t names
  proof (rule outcome_mono[OF prune_removes])
    have r: "retiring G K b s (t\<lparr>ft_barrier := Some b\<rparr>)" using t by (simp add: retiring_def)
    fix u assume u: "removes (retirable (tx_crates G) b) (t\<lparr>ft_barrier := Some b\<rparr>) u"
    note p = retiring_prune[OF laws r u]
    show "file_inv G K (u\<lparr>ft_failed := True\<rparr>)" by (rule retiring_failed[OF p(1)])
    show "file_inv G K (?forget u)" by (rule retiring_done[OF e p(1) ab]) (simp add: p(2))
  qed
  have saved: "outcome s (file_write_json G (fj_binding (tx_json G)) ''context.json'' (Retired b))
      (\<lambda>_ t. outcome (t\<lparr>ft_barrier := Some b\<rparr>) (file_prune G names b)
        (\<lambda>_ u. file_inv G K (?forget u)) (\<lambda>u. file_inv G K (u\<lparr>ft_failed := True\<rparr>)))
      (\<lambda>t. file_inv G K (t\<lparr>ft_failed := True\<rparr>))"
    if ok: "\<not> ft_failed s" and ab: "above b (ft_barrier s)" for names
  proof (rule file_write_outcome)
    fix t assume t: "ftouches (temp_name ''context.json'') s t"
      "dir_get ''context.json'' (ft_dir t) = dir_get ''context.json'' (ft_dir s)"
    have "same_files G (ft_dir s) (ft_dir t)"
      using context_put[OF laws t(1)] t(2) by (simp add: same_files_def file_barrier_def)
    then show "file_inv G K (t\<lparr>ft_failed := True\<rparr>)"
      by (intro failed_file_inv same_files_inv[OF I]) (use t in \<open>auto intro: transfers.touches_aside\<close>)
  next
    fix t x assume t: "ftouches (temp_name ''context.json'') s t" "to_vec (fj_binding (tx_json G)) (Retired b) = Some x"
      "dir_get ''context.json'' (ft_dir t) = Some (PlainFile x)"
    have "file_barrier G (ft_dir t) = Some b" using L t(2,3) by (simp add: file_barrier_def)
    note r = retiring_start[OF L I up ok ab t(1) this]
    have "memory_exact G s" using I up ok by (simp add: file_inv_def)
    then show "file_inv G K (t\<lparr>ft_failed := True\<rparr>) \<and> outcome (t\<lparr>ft_barrier := Some b\<rparr>) (file_prune G names b)
        (\<lambda>_ u. file_inv G K (?forget u)) (\<lambda>u. file_inv G K (u\<lparr>ft_failed := True\<rparr>))"
      using retiring_failed[OF r] prune[OF _ ab r] by blast
  qed (use laws data_names(4)[OF laws] in simp_all)
  show ?thesis
    unfolding files_retire_def
    using I saved
    by (auto simp: outcome_simps above_def not_le split: option.splits if_splits)
qed

end
