(* ===== verification/Guest_File_Recovery.thy ===== *)
theory Guest_File_Recovery
  imports Guest_File_Runs
begin

text \<open>
  Opening the file engine: the binding, the removal of what the barrier covers, the receipts with
  the intents that recovery turns into unknown outcomes, and the staged bytes. An opening that
  succeeds ends in a healthy state of \<open>file_inv\<close>, one that fails in a closed one.
\<close>

section \<open>Closed states\<close>

definition closed_files :: "transfer_env \<Rightarrow> (operation_id \<times> file_receipt) set \<Rightarrow> transfer_state \<Rightarrow> bool" where
  "closed_files G K s = (file_inv G K s \<and> \<not> ft_up s)"

lemma closed_filesI:
  assumes "publications_ok G (ft_dir t) (ft_published t)" "files_kept G K (ft_dir t)" "\<not> ft_up t"
  shows "closed_files G K t"
  using assms by (simp add: closed_files_def file_inv_def)

lemma closed_same: "closed_files G K s \<Longrightarrow> fside s t \<Longrightarrow> same_files G (ft_dir s) (ft_dir t) \<Longrightarrow> closed_files G K t"
  using same_files_inv by (auto simp: closed_files_def fside_fields)

lemma closed_step [simp]: "closed_files G K (s\<lparr>ft_step := k\<rparr>) = closed_files G K s"
  by (simp add: closed_files_def)

lemma same_files_refl [simp]: "same_files G d d"
  by (simp add: same_files_def)

lemma lock_closed:
  assumes "uuid_laws (tx_crates G)" "closed_files G K s"
  shows "closed_files G K (ft_dir_update (dir_put ''lock'' (PlainFile [])) s)"
  by (rule closed_same[OF assms(2)])
    (use record_name_special(2)[OF assms(1)] in \<open>auto simp: transfers.aside_def same_files_def file_barrier_def disk_file_def\<close>)

lemma root_open_closed:
  assumes "uuid_laws (tx_crates G)" "closed_files G K s"
  shows "outcome s (root_open G w) (\<lambda>_. closed_files G K) (closed_files G K)"
  unfolding root_open_def
  using assms(2) lock_closed[OF assms] by (auto simp: outcome_simps split: option.split)

section \<open>The binding\<close>

lemma file_read_Inr:
  "file_read_json J name s = Inr x \<Longrightarrow> \<exists>b. dir_get name (ft_dir s) = Some (PlainFile b) \<and> from_slice J b = Some x"
  by (auto simp: file_read_json_def regular_def split: option.splits state_entry.splits)

lemma binding_read:
  assumes "file_read_json (fj_binding (tx_json G)) ''context.json'' s = Inr x"
    and "binding_validate (tx_crates G) x c d = Inr y"
  shows "file_barrier G (ft_dir s) = y"
  using file_read_Inr[OF assms(1)] assms(2) by (auto simp: file_barrier_def binding_validate_def split: binding.splits)

lemma bind_done:
  assumes L: "transfer_laws G" and c: "closed_files G K s"
  shows "outcome s (file_binding G (dir_names (ft_dir s)))
    (\<lambda>b t. closed_files G K t \<and> b = file_barrier G (ft_dir t)) (closed_files G K)"
proof (cases "dir_get ''context.json'' (ft_dir s) = None")
  case True
  have laws: "uuid_laws (tx_crates G)" using L by simp
  have none: "file_barrier G (ft_dir s) = None" using True by (simp add: file_barrier_def)
  have "outcome s (file_write_json G (fj_binding (tx_json G)) ''context.json'' (Legacy (tx_context G)))
      (\<lambda>_ t. closed_files G K t \<and> None = file_barrier G (ft_dir t)) (closed_files G K)"
  proof (rule file_write_outcome)
    fix t assume t: "ftouches (temp_name ''context.json'') s t"
      "dir_get ''context.json'' (ft_dir t) = dir_get ''context.json'' (ft_dir s)"
    have "same_files G (ft_dir s) (ft_dir t)"
      using context_put[OF laws t(1)] t(2) by (simp add: same_files_def file_barrier_def)
    then show "closed_files G K t" by (rule closed_same[OF c transfers.touches_aside[OF t(1)]])
  next
    fix t b assume t: "ftouches (temp_name ''context.json'') s t"
      "to_vec (fj_binding (tx_json G)) (Legacy (tx_context G)) = Some b"
      "dir_get ''context.json'' (ft_dir t) = Some (PlainFile b)"
    have b: "file_barrier G (ft_dir t) = None" using L t(2,3) by (simp add: file_barrier_def)
    then have "same_files G (ft_dir s) (ft_dir t)"
      using context_put[OF laws t(1)] none by (simp add: same_files_def)
    then have "closed_files G K t" by (rule closed_same[OF c transfers.touches_aside[OF t(1)]])
    then show "closed_files G K t \<and> closed_files G K t \<and> None = file_barrier G (ft_dir t)" using b by simp
  qed (use laws data_names(4)[OF laws] in simp_all)
  moreover have "\<not> list_ex (\<lambda>n. n = ''context.json'') (dir_names (ft_dir s))"
    using True by (simp add: list_ex_iff dir_names_iff)
  ultimately show ?thesis
    using c unfolding file_binding_def by (auto simp: outcome_simps intro: outcome_mono)
next
  case False
  then have "list_ex (\<lambda>n. n = ''context.json'') (dir_names (ft_dir s))"
    by (simp add: list_ex_iff dir_names_iff)
  then show ?thesis
    unfolding file_binding_def using c binding_read by (auto simp: outcome_simps)
qed

lemma prune_closed_files:
  assumes L: "transfer_laws G" and c: "closed_files G K s" and b: "file_barrier G (ft_dir s) = Some b"
  shows "outcome s (file_prune G names b) (\<lambda>_ t. closed_files G K t \<and> file_barrier G (ft_dir t) = Some b) (closed_files G K)"
proof -
  have "closed_files G K t \<and> file_barrier G (ft_dir t) = Some b" if t: "removes (retirable (tx_crates G) b) s t" for t
  proof -
    note p = pruned_disk[OF transfer_lawsD(1)[OF L] t]
    have f: "fside s t" using t by (auto simp: removes_def intro: transfers.touches_aside)
    have bt: "file_barrier G (ft_dir t) = Some b" using p(1) b by simp
    have I: "publications_ok G (ft_dir s) (ft_published s)" "files_kept G K (ft_dir s)"
      using c by (simp_all add: closed_files_def file_inv_def)
    have m: "covered (file_barrier G (ft_dir s)) i \<Longrightarrow> covers b i" for i using b by simp
    note r = retired_disk[OF I bt m p(2) p(3)]
    have "\<not> ft_up t" using c by (simp add: fside_fields[OF f] closed_files_def)
    then show ?thesis using r bt by (simp add: closed_filesI fside_fields[OF f])
  qed
  then show ?thesis by (intro outcome_mono[OF prune_removes]) blast+
qed

section \<open>The receipts\<close>

lemma file_record_named:
  assumes "strip_suffix ''.json'' name = Some stem" "parse_operation C stem = Inr i"
  shows "name = record_name C i"
  using assms(1) operation.show_parse[OF assms(2)] by (simp add: strip_suffix_Some record_name_def)

text \<open>The registry read so far: every entry is on the disk, under its own operation, and no commit is pending.\<close>

definition files_read :: "transfer_env \<Rightarrow> state_dir \<Rightarrow> (operation_id, file_receipt) btmap \<Rightarrow> bool" where
  "files_read G d m =
     (\<forall>i r. bt_get i m = Some r \<longrightarrow>
        disk_file G d i = Some r \<and> up_operation (frcpt_upload r) = i \<and> frcpt_state r \<noteq> CommitIntent)"

definition same_listing :: "transfer_env \<Rightarrow> transfer_state \<Rightarrow> transfer_state \<Rightarrow> bool" where
  "same_listing G s t =
     (file_barrier G (ft_dir t) = file_barrier G (ft_dir s) \<and>
      (\<forall>i. disk_file G (ft_dir t) i \<noteq> None \<longrightarrow> dir_get (record_name (tx_crates G) i) (ft_dir s) \<noteq> None))"

definition loading :: "transfer_env \<Rightarrow> (operation_id \<times> file_receipt) set \<Rightarrow> transfer_state \<Rightarrow>
    (operation_id, file_receipt) btmap \<Rightarrow> transfer_state \<Rightarrow> bool" where
  "loading G K s m t = (closed_files G K t \<and> same_listing G s t \<and> files_read G (ft_dir t) m)"

lemma intent_free:
  assumes "file_inv G K s" "disk_file G (ft_dir s) (up_operation (frcpt_upload r)) = Some r" "frcpt_state r = CommitIntent"
  shows "may_save G K s (r\<lparr>frcpt_state := FileUnknown\<rparr>)"
  unfolding may_save_def
proof (intro conjI allI impI ballI)
  fix q assume "(up_operation (frcpt_upload (r\<lparr>frcpt_state := FileUnknown\<rparr>)), q) \<in> K"
  then have "settled_file q \<and> (covered (file_barrier G (ft_dir s)) (up_operation (frcpt_upload r)) \<or>
      disk_file G (ft_dir s) (up_operation (frcpt_upload r)) = Some q)"
    using assms(1) by (auto simp: file_inv_def files_kept_def)
  then show "covered (file_barrier G (ft_dir s)) (up_operation (frcpt_upload (r\<lparr>frcpt_state := FileUnknown\<rparr>)))"
    using assms(2,3) by (auto simp: settled_file_def)
next
  fix p assume p: "p \<in> set (ft_published s)"
    and i: "up_operation (fst p) = up_operation (frcpt_upload (r\<lparr>frcpt_state := FileUnknown\<rparr>))"
  have "publication_ok G (ft_dir s) p" using assms(1) p by (simp add: file_inv_def publications_ok_def)
  then have "\<And>q. disk_file G (ft_dir s) (up_operation (fst p)) = Some q \<Longrightarrow> frcpt_upload q = fst p"
    unfolding publication_ok_def by blast
  from this[unfolded i, of r] show "frcpt_upload (r\<lparr>frcpt_state := FileUnknown\<rparr>) = fst p" using assms(2) by simp
qed simp

lemma recover_done:
  assumes L: "transfer_laws G" and l: "loading G K s m t"
    and r: "disk_file G (ft_dir t) i = Some r" "up_operation (frcpt_upload r) = i"
  shows "outcome t (recover_intent G (record_name (tx_crates G) i) r)
     (\<lambda>r' u. loading G K s (if bt_contains i m then [] else bt_insert i r' m) u) (closed_files G K)"
proof -
  have laws: "uuid_laws (tx_crates G)" using L by simp
  let ?n = "record_name (tx_crates G) i" and ?r = "r\<lparr>frcpt_state := FileUnknown\<rparr>"
  have l': "closed_files G K t" "same_listing G s t" "files_read G (ft_dir t) m"
    using l by (simp_all add: loading_def)
  show ?thesis
  proof (cases "frcpt_state r = CommitIntent")
    case False
    then show ?thesis
      using l' r by (simp add: recover_intent_def outcome_simps loading_def) (auto simp: files_read_def)
  next
    case True
    have I: "file_inv G K t" "\<not> ft_up t" using l' by (simp_all add: closed_files_def)
    have m: "may_save G K t ?r" by (rule intent_free[OF I(1) _ True]) (use r in simp)
    have op: "up_operation (frcpt_upload ?r) = i" using r(2) by simp
    have "outcome t (file_write_json G (fj_receipt (tx_json G)) ?n ?r)
       (\<lambda>_ u. loading G K s (if bt_contains i m then [] else bt_insert i ?r m) u) (closed_files G K)"
    proof (rule file_write_outcome)
      fix u assume u: "ftouches (temp_name ?n) t u" "dir_get ?n (ft_dir u) = dir_get ?n (ft_dir t)"
      have d: "disk_file G (ft_dir u) i \<in> {Some ?r, disk_file G (ft_dir t) i}" using u(2) by (simp add: disk_file_def)
      have up: "\<not> ft_up u" using I(2) by (simp add: fside_fields[OF transfers.touches_aside[OF u(1)]])
      show "closed_files G K u"
        using saved_disk[OF L I(1) m, unfolded op, OF u(1) d] up by (rule closed_filesI)
    next
      fix u b assume u: "ftouches (temp_name ?n) t u" "to_vec (fj_receipt (tx_json G)) ?r = Some b"
        "dir_get ?n (ft_dir u) = Some (PlainFile b)"
      have d: "disk_file G (ft_dir u) i = Some ?r" using L u(2,3) by (simp add: disk_file_def)
      then have d': "disk_file G (ft_dir u) i \<in> {Some ?r, disk_file G (ft_dir t) i}" by simp
      have up: "\<not> ft_up u" using I(2) by (simp add: fside_fields[OF transfers.touches_aside[OF u(1)]])
      have c: "closed_files G K u"
        using saved_disk[OF L I(1) m, unfolded op, OF u(1) d'] up by (rule closed_filesI)
      note w = record_written[OF laws u(1)]
      have sl: "same_listing G s u"
        unfolding same_listing_def
      proof (intro conjI allI impI)
        show "file_barrier G (ft_dir u) = file_barrier G (ft_dir s)" using l'(2) w(1) by (simp add: same_listing_def)
        fix j assume "disk_file G (ft_dir u) j \<noteq> None"
        then have "disk_file G (ft_dir t) j \<noteq> None" using w(2)[of j] r(1) by (cases "j = i") auto
        then show "dir_get (record_name (tx_crates G) j) (ft_dir s) \<noteq> None" using l'(2) by (simp add: same_listing_def)
      qed
      have fr: "files_read G (ft_dir u) (bt_insert i ?r m)" if "\<not> bt_contains i m"
        unfolding files_read_def
      proof (intro allI impI)
        fix j q assume "bt_get j (bt_insert i ?r m) = Some q"
        then have "if j = i then q = ?r else bt_get j m = Some q" by (simp split: if_splits)
        then show "disk_file G (ft_dir u) j = Some q \<and> up_operation (frcpt_upload q) = j \<and> frcpt_state q \<noteq> CommitIntent"
          using l'(3) d w(2)[of j] r(2) by (cases "j = i") (auto simp: files_read_def)
      qed
      show "closed_files G K u \<and> loading G K s (if bt_contains i m then [] else bt_insert i ?r m) u"
        using c sl fr by (simp add: loading_def) (simp add: files_read_def)
    qed (use laws data_names(1)[OF laws] in simp_all)
    then show ?thesis using True by (simp add: recover_intent_def outcome_simps)
  qed
qed

lemma read_record:
  assumes "file_read_json (fj_receipt (tx_json G)) (record_name (tx_crates G) i) s = Inr r"
  shows "disk_file G (ft_dir s) i = Some r"
  using file_read_Inr[OF assms] by (auto simp: disk_file_def)

text \<open>After an entry: the registry has what it had, and the operation of a receipt file.\<close>

definition entry_loaded :: "transfer_env \<Rightarrow> (operation_id \<times> file_receipt) set \<Rightarrow> transfer_state \<Rightarrow>
    (operation_id, file_receipt) btmap \<Rightarrow> string list \<Rightarrow> loaded \<Rightarrow> transfer_state \<Rightarrow> bool" where
  "entry_loaded G K s m names acc t =
     (loading G K s (snd acc) t \<and> (\<forall>i. bt_contains i m \<longrightarrow> bt_contains i (snd acc)) \<and>
      (\<forall>i. record_name (tx_crates G) i \<in> set names \<longrightarrow> bt_contains i (snd acc)))"

lemma load_receipt_done:
  assumes L: "transfer_laws G" and l: "loading G K s (snd acc) t"
  shows "outcome t (load_receipt G acc (record_name (tx_crates G) i) i)
     (entry_loaded G K s (snd acc) [record_name (tx_crates G) i]) (closed_files G K)"
proof -
  have laws: "uuid_laws (tx_crates G)" using L by simp
  have c: "closed_files G K t" using l by (simp add: loading_def)
  have go: "outcome t (recover_intent G (record_name (tx_crates G) i) r)
      (\<lambda>r' u. (\<not> bt_contains i (snd acc) \<longrightarrow>
           entry_loaded G K s (snd acc) [record_name (tx_crates G) i] (n, bt_insert i r' (snd acc)) u) \<and>
         (bt_contains i (snd acc) \<longrightarrow> closed_files G K u)) (closed_files G K)"
    if r: "file_read_json (fj_receipt (tx_json G)) (record_name (tx_crates G) i) t = Inr r" "up_operation (frcpt_upload r) = i" for r n
  proof (rule outcome_mono[OF recover_done[OF L l read_record[OF r(1)] r(2)]])
    fix r' u assume u: "loading G K s (if bt_contains i (snd acc) then [] else bt_insert i r' (snd acc)) u"
    then have "closed_files G K u" by (simp add: loading_def)
    then show "(\<not> bt_contains i (snd acc) \<longrightarrow>
           entry_loaded G K s (snd acc) [record_name (tx_crates G) i] (n, bt_insert i r' (snd acc)) u) \<and>
         (bt_contains i (snd acc) \<longrightarrow> closed_files G K u)"
      using u laws by (auto simp: entry_loaded_def)
  qed
  show ?thesis
    unfolding load_receipt_def using c go by (auto simp: outcome_simps)
qed

text \<open>Other names leave the registry as it is.\<close>

lemma entry_kept:
  assumes "loading G K s m t" "\<And>i. name \<noteq> record_name (tx_crates G) i"
  shows "entry_loaded G K s m [name] (n, m) t"
  using assms by (auto simp: entry_loaded_def)

lemma load_entry_done:
  assumes L: "transfer_laws G" and l: "loading G K s (snd acc) t"
  shows "outcome t (load_entry G acc name) (entry_loaded G K s (snd acc) [name]) (closed_files G K)"
proof -
  have laws: "uuid_laws (tx_crates G)" using L by simp
  have c: "closed_files G K t" using l by (simp add: loading_def)
  have keep: "entry_loaded G K s (snd acc) [name] acc t" if "\<And>i. name \<noteq> record_name (tx_crates G) i"
    using entry_kept[OF l that, of "fst acc"] by simp
  have rec: "strip_suffix ''.json'' name = Some (show_operation (tx_crates G) i)" if "name = record_name (tx_crates G) i" for i
    using that by (simp add: record_stem)
  show ?thesis
  proof (cases "name = ''lock'' \<or> name = ''context.json''")
    case True
    then have "\<And>i. name \<noteq> record_name (tx_crates G) i" using record_name_special[OF laws] by auto
    from keep[OF this] show ?thesis using True by (simp add: load_entry_def outcome_simps)
  next
    case False
    show ?thesis
    proof (cases "strip_suffix ''.json'' name")
      case None
      then have "\<And>i. name \<noteq> record_name (tx_crates G) i" using rec by auto
      from keep[OF this] show ?thesis using False None c by (simp add: load_entry_def outcome_simps)
    next
      case (Some stem)
      have "outcome t (load_receipt G acc name i) (entry_loaded G K s (snd acc) [name]) (closed_files G K)"
        if "parse_operation (tx_crates G) stem = Inr i" for i
        unfolding file_record_named[OF Some that] by (rule load_receipt_done[OF L l])
      then show ?thesis using False Some c
        by (auto simp: load_entry_def outcome_simps map_err_def split: sum.split)
    qed
  qed
qed

lemma load_entries_done:
  assumes L: "transfer_laws G"
  shows "loading G K s (snd acc) t \<Longrightarrow>
    outcome t (load_entries G acc names) (entry_loaded G K s (snd acc) names) (closed_files G K)"
proof (induction names arbitrary: acc t)
  case Nil
  then show ?case by (simp add: outcome_simps entry_loaded_def)
next
  case (Cons n names)
  have "outcome u (load_entries G acc' names) (entry_loaded G K s (snd acc) (n # names)) (closed_files G K)"
    if e: "entry_loaded G K s (snd acc) [n] acc' u" for acc' u
  proof -
    have "loading G K s (snd acc') u" using e by (simp add: entry_loaded_def)
    from Cons.IH[OF this] show ?thesis
      by (rule outcome_mono) (use e in \<open>auto simp: entry_loaded_def\<close>)
  qed
  then show ?case
    using outcome_mono[OF load_entry_done[OF L Cons.prems, of n]] by (simp add: outcome_simps)
qed

section \<open>The staged bytes\<close>

definition cleanable :: "string \<Rightarrow> bool" where
  "cleanable n = (strip_suffix ''.data'' n \<noteq> None \<or> strip_suffix ''.tmp'' n \<noteq> None)"

lemma cleanable_records: "\<not> cleanable ''context.json''" "\<not> cleanable (record_name C i)"
proof -
  have no: "last n \<noteq> CHR ''n''" if "cleanable n" for n
    using that by (auto simp: cleanable_def strip_suffix_Some)
  show "\<not> cleanable ''context.json''" "\<not> cleanable (record_name C i)"
    using no[of "''context.json''"] no[of "record_name C i"] by (auto simp: record_name_def)
qed

lemma freach_regular_entry [reach_intro]: "freach cleanable (clean_entry G m name)"
  unfolding clean_entry_def by (intro reach_intro) (auto simp: cleanable_def)

lemma freach_clean [reach_intro]: "freach cleanable (clean_entries G m names)"
  by (induction names) (simp only: clean_entries.simps, intro reach_intro, assumption?)+

lemma clean_done:
  assumes c: "closed_files G K t" and Q: "\<And>u. closed_files G K u \<Longrightarrow> same_files G (ft_dir t) (ft_dir u) \<Longrightarrow> Q () u"
  shows "outcome t (clean_entries G m names) Q (closed_files G K)"
proof (rule transfers.outcome_reach[OF freach_clean])
  fix u assume u: "ftouches cleanable t u"
  have sf: "same_files G (ft_dir t) (ft_dir u)"
    by (rule untouched_files[OF u]) (rule cleanable_records)+
  show c': "closed_files G K u" by (rule closed_same[OF c transfers.touches_aside[OF u] sf])
  show "Q x u" for x using Q[OF c' sf] by simp
qed

section \<open>The whole of an opening\<close>

definition open_files :: "transfer_env \<Rightarrow> (operation_id \<times> file_receipt) set \<Rightarrow> transfer_state \<Rightarrow> bool" where
  "open_files G K s = (file_inv G K s \<and> ft_up s \<and> \<not> ft_failed s \<and>
     (\<forall>i r. bt_get i (ft_receipts s) = Some r \<longrightarrow> frcpt_state r \<noteq> CommitIntent))"

lemma opened_files:
  assumes l: "entry_loaded G K s (snd (0 :: nat, [])) (dir_names (ft_dir s)) acc t" and c: "closed_files G K u"
    and sf: "same_files G (ft_dir t) (ft_dir u)" and b: "b = file_barrier G (ft_dir s)"
  shows "open_files G K (u\<lparr>ft_up := True, ft_barrier := b, ft_receipts := snd acc, ft_failed := False, ft_downloads := 0\<rparr>)"
proof -
  let ?u = "u\<lparr>ft_up := True, ft_barrier := b, ft_receipts := snd acc, ft_failed := False, ft_downloads := 0\<rparr>"
  have l: "loading G K s (snd acc) t" and all: "\<And>i. record_name (tx_crates G) i \<in> set (dir_names (ft_dir s)) \<Longrightarrow> bt_contains i (snd acc)"
    using l by (simp_all add: entry_loaded_def)
  have d: "file_barrier G (ft_dir u) = file_barrier G (ft_dir t)" "disk_file G (ft_dir u) = disk_file G (ft_dir t)"
    using sf by (simp_all add: same_files_def)
  have fr: "disk_file G (ft_dir t) i = Some r" "up_operation (frcpt_upload r) = i" "frcpt_state r \<noteq> CommitIntent"
    if "bt_get i (snd acc) = Some r" for i r
    using l that unfolding loading_def files_read_def by blast+
  have "memory_exact G ?u"
    unfolding memory_exact_def
  proof (intro conjI allI impI)
    show "ft_barrier ?u = file_barrier G (ft_dir ?u)" using l b d(1) by (simp add: loading_def same_listing_def)
  next
    fix i r assume "bt_get i (ft_receipts ?u) = Some r"
    then show "disk_file G (ft_dir ?u) i = Some r" "up_operation (frcpt_upload r) = i" using fr[of i r] d(2) by simp_all
  next
    fix i r assume "disk_file G (ft_dir ?u) i = Some r"
    then have r: "disk_file G (ft_dir t) i = Some r" using d(2) by simp
    then have "dir_get (record_name (tx_crates G) i) (ft_dir s) \<noteq> None" using l by (simp add: loading_def same_listing_def)
    then have "bt_contains i (snd acc)" by (intro all) (simp add: dir_names_iff)
    then obtain q where q: "bt_get i (snd acc) = Some q" by (auto simp: bt_contains_def)
    then show "bt_get i (ft_receipts ?u) = Some r" using fr(1)[OF q] r by simp
  qed
  then show ?thesis using c fr(3) by (auto simp: open_files_def closed_files_def file_inv_def)
qed

lemma load_done:
  assumes L: "transfer_laws G" and c: "closed_files G K s"
  shows "outcome s (load_transfers G (file_barrier G (ft_dir s))) (\<lambda>_. open_files G K) (closed_files G K)"
proof -
  let ?b = "file_barrier G (ft_dir s)"
  have "loading G K s (snd (0 :: nat, [])) s"
    using c by (auto simp: loading_def same_listing_def files_read_def disk_file_def split: option.splits)
  note e = load_entries_done[OF L this, of "dir_names (ft_dir s)"]
  have tail: "outcome t (clean_entries G (snd acc) names)
      (\<lambda>_ u. (\<forall>x. try_all (staging_present G u) (bt_values (snd acc)) = Inr x \<longrightarrow>
           open_files G K (u\<lparr>ft_up := True, ft_barrier := ?b, ft_receipts := snd acc, ft_failed := False, ft_downloads := 0\<rparr>)) \<and>
         (try_all (staging_present G u) (bt_values (snd acc)) = Inl () \<longrightarrow> closed_files G K u)) (closed_files G K)"
    if l: "entry_loaded G K s (snd (0 :: nat, [])) (dir_names (ft_dir s)) acc t" for acc t names
  proof (rule clean_done)
    show "closed_files G K t" using l by (simp add: entry_loaded_def loading_def)
  qed (use opened_files[OF l _ _ refl] in auto)
  have "outcome s (load_entries G (0, []) (dir_names (ft_dir s)))
     (\<lambda>acc t. outcome t (clean_entries G (snd acc) (dir_names (ft_dir s)))
      (\<lambda>_ u. (\<forall>x. try_all (staging_present G u) (bt_values (snd acc)) = Inr x \<longrightarrow>
           open_files G K (u\<lparr>ft_up := True, ft_barrier := ?b, ft_receipts := snd acc, ft_failed := False, ft_downloads := 0\<rparr>)) \<and>
         (try_all (staging_present G u) (bt_values (snd acc)) = Inl () \<longrightarrow> closed_files G K u)) (closed_files G K))
     (closed_files G K)"
    by (rule outcome_mono[OF e]) (erule tail, assumption)
  then show ?thesis
    unfolding load_transfers_def using c
    by (simp add: outcome_simps file_names_def ensure_def case_prod_unfold)
qed

lemma transfers_open_done:
  assumes L: "transfer_laws G" and c: "closed_files G K s"
  shows "outcome s (transfers_open G w) (\<lambda>_. open_files G K) (closed_files G K)"
proof -
  have laws: "uuid_laws (tx_crates G)" using L by simp
  let ?load = "\<lambda>t b. outcome t (load_transfers G b) (\<lambda>_. open_files G K) (closed_files G K)"
  have prune: "outcome t (file_prune G names x) (\<lambda>_ u. ?load u (Some x)) (closed_files G K)"
    if t: "closed_files G K t" "Some x = file_barrier G (ft_dir t)" for t x names
    by (rule outcome_mono[OF prune_closed_files[OF L t(1) t(2)[symmetric]]]) (use load_done[OF L] in metis, assumption)
  have bound: "outcome t (file_binding G (dir_names (ft_dir t)))
      (\<lambda>b u. closed_files G K u \<and> b = file_barrier G (ft_dir u)) (closed_files G K)" if "closed_files G K t" for t
    by (rule bind_done[OF L that])
  have rest: "outcome t (file_binding G (dir_names (ft_dir t)))
      (\<lambda>b u. outcome u (case b of None \<Rightarrow> sret () | Some x \<Rightarrow> file_prune G (dir_names (ft_dir t)) x)
        (\<lambda>_ v. ?load v b) (closed_files G K)) (closed_files G K)" if t: "closed_files G K t" for t
  proof (rule outcome_mono[OF bound[OF t]], elim conjE)
    fix b u assume u: "closed_files G K u" "b = file_barrier G (ft_dir u)"
    show "outcome u (case b of None \<Rightarrow> sret () | Some x \<Rightarrow> file_prune G (dir_names (ft_dir t)) x)
        (\<lambda>_ v. ?load v b) (closed_files G K)"
    proof (cases b)
      case None
      then show ?thesis using load_done[OF L u(1)] u(2) by (simp add: outcome_simps)
    next
      case (Some x)
      then show ?thesis using prune[OF u(1), of x] u(2) by simp
    qed
  qed
  have "outcome s (root_open G w)
      (\<lambda>_ t. outcome t (file_binding G (dir_names (ft_dir t)))
      (\<lambda>b u. outcome u (case b of None \<Rightarrow> sret () | Some x \<Rightarrow> file_prune G (dir_names (ft_dir t)) x)
        (\<lambda>_ v. ?load v b) (closed_files G K)) (closed_files G K) \<and> closed_files G K t) (closed_files G K)"
    by (rule outcome_mono[OF root_open_closed[OF laws c]]) (use rest in blast, assumption)
  then have "outcome s (root_open G w)
      (\<lambda>_ t. (length (dir_names (ft_dir t)) \<le> max_transfers * 3 + 3 \<longrightarrow> outcome t (file_binding G (dir_names (ft_dir t)))
      (\<lambda>b u. outcome u (case b of None \<Rightarrow> sret () | Some x \<Rightarrow> file_prune G (dir_names (ft_dir t)) x)
        (\<lambda>_ v. ?load v b) (closed_files G K)) (closed_files G K)) \<and>
        (\<not> length (dir_names (ft_dir t)) \<le> max_transfers * 3 + 3 \<longrightarrow> closed_files G K t)) (closed_files G K)"
    by (rule outcome_mono) blast+
  then show ?thesis
    unfolding transfers_open_def using c
    by (simp add: outcome_simps file_names_def ensure_def)
qed

lemma transfers_restart_done:
  assumes L: "transfer_laws G" and I: "file_inv G K s"
  shows "outcome s (transfers_restart G w) (\<lambda>_. open_files G K) (closed_files G K)"
proof -
  have "closed_files G K (ft_up_update (\<lambda>_. False) s)" using I by (simp add: closed_files_def file_inv_def)
  from transfers_open_done[OF L this] show ?thesis by (simp add: transfers_restart_def outcome_simps)
qed

section \<open>Every step\<close>

lemma answered_inv:
  "(ft_up s \<Longrightarrow> outcome s m (\<lambda>_. file_inv G K) (file_inv G K)) \<Longrightarrow> file_inv G K s \<Longrightarrow> file_inv G K (answered m s)"
  by (simp add: answered_def outcome_snd)

lemma outside_inv [simp]: "file_inv G K (s\<lparr>ft_tree := w\<rparr>) = file_inv G K s"
  by (simp add: file_inv_def memory_exact_def)

theorem file_step_inv:
  assumes L: "transfer_laws G" and I: "file_inv G K s"
  shows "file_inv G K (file_step G x s)"
proof (cases x)
  case (FileBegin u)
  then show ?thesis using answered_inv[OF begin_file_inv[OF L I] I] by simp
next
  case (FileWrite i n d)
  then show ?thesis using answered_inv[OF write_file_inv[OF L I] I] by simp
next
  case (FileCommit i)
  then show ?thesis using answered_inv[OF commit_file_inv[OF L I] I] by simp
next
  case (FileAbort i)
  then show ?thesis using answered_inv[OF abort_file_inv[OF L I] I] by simp
next
  case (FileInspect i)
  then show ?thesis using answered_inv[OF inspect_file_inv[OF I] I] by simp
next
  case (FileCapture p)
  then show ?thesis using answered_inv[OF capture_file_inv[OF I] I] by simp
next
  case FileRelease
  then show ?thesis using answered_inv[OF release_file_inv[OF I] I] by simp
next
  case (FileRetire b)
  then show ?thesis using answered_inv[OF retire_file_inv[OF L I] I] by simp
next
  case (FileOutside w)
  then show ?thesis using I by simp
next
  case (FileReopen w)
  have "outcome s (transfers_restart G w) (\<lambda>_. file_inv G K) (file_inv G K)"
    by (rule outcome_mono[OF transfers_restart_done[OF L I]]) (simp_all add: open_files_def closed_files_def)
  then show ?thesis using FileReopen by (simp add: outcome_snd)
qed

theorem file_run_inv: "transfer_laws G \<Longrightarrow> file_inv G K s \<Longrightarrow> file_inv G K (file_run G xs s)"
  by (induction xs arbitrary: s) (simp_all add: file_step_inv)

end
