(* ===== verification/Guest_File_Samples.thy ===== *)
theory Guest_File_Samples
  imports Guest_File_Recovery Samples
begin

text \<open>A guest on which the witnesses of \<open>Guest_File_Properties\<close> upload one file.\<close>

definition staged_context :: guest_context where
  "staged_context = \<lparr>ctx_allocation = AllocationId (sample_uuid 101), ctx_generation = 1, ctx_boot = ''b''\<rparr>"

definition file_upload :: upload where
  "file_upload =
     \<lparr>up_operation = OperationId (sample_uuid 7), up_path = ''a'', up_size = 3,
      up_sha256 = sha256 ref_crates [1, 2, 3], up_mode = 0x1A4\<rparr>"

definition staged_digest :: bytes where
  "staged_digest = sha256 ref_crates (as_bytes (''hudson-file-upload-v1'' @ [CHR 0x00]))"

definition file_sample :: "file_state \<Rightarrow> file_receipt" where
  "file_sample st =
     \<lparr>frcpt_version = 1, frcpt_context = staged_context, frcpt_upload = file_upload, frcpt_digest = staged_digest,
      frcpt_state = st\<rparr>"

definition sample_file_json :: file_json where
  "sample_file_json =
     \<lparr>fj_upload = table_json [file_upload],
      fj_receipt = table_json [file_sample Staging, file_sample CommitIntent, file_sample Committed, file_sample FileUnknown],
      fj_binding = table_json [Legacy staged_context]\<rparr>"

text \<open>\<open>stop\<close>: the write at this step fails.\<close>

definition sample_transfer :: "nat \<Rightarrow> transfer_env" where
  "sample_transfer stop =
     \<lparr>tx_crates = ref_crates, tx_json = sample_file_json, tx_context = staged_context,
      tx_world = \<lparr>tw_fresh = (\<lambda>_. OperationId (sample_uuid 8)),
        tw_write = (\<lambda>n. if n = stop then WriteNothing else WriteFine), tw_remove = (\<lambda>_. WriteFine),
        tw_create = (\<lambda>_. WriteFine), tw_publish = (\<lambda>_. WriteFine), tw_parent = (\<lambda>_ _. True),
        tw_append = (\<lambda>_. None), tw_sync = (\<lambda>_. True), tw_stable = (\<lambda>_. True)\<rparr>\<rparr>"

definition new_transfers :: transfer_state where
  "new_transfers =
     \<lparr>ft_dir = [], ft_tree = [], ft_up = False, ft_barrier = None, ft_receipts = [], ft_failed = False,
      ft_downloads = 0, ft_step = 0, ft_published = []\<rparr>"

definition workspace_sample :: workspace_boot where
  "workspace_sample = \<lparr>wb_absolute = True, wb_ready = True, wb_locked = True\<rparr>"

lemma sample_transfer_simps [simp]:
  "tx_crates (sample_transfer k) = ref_crates" "tx_context (sample_transfer k) = staged_context"
  "tw_fresh (tx_world (sample_transfer k)) n = OperationId (sample_uuid 8)"
  "tw_write (tx_world (sample_transfer k)) n = (if n = k then WriteNothing else WriteFine)"
  "tw_remove (tx_world (sample_transfer k)) n = WriteFine" "tw_create (tx_world (sample_transfer k)) n = WriteFine"
  "tw_publish (tx_world (sample_transfer k)) n = WriteFine" "tw_parent (tx_world (sample_transfer k)) n p"
  "tw_append (tx_world (sample_transfer k)) n = None" "tw_sync (tx_world (sample_transfer k)) n"
  "tw_stable (tx_world (sample_transfer k)) n"
  "fj_upload (tx_json (sample_transfer k)) = table_json [file_upload]"
  "to_vec (table_json [file_upload]) file_upload = Some []"
  "to_vec (fj_binding (tx_json (sample_transfer k))) (Legacy staged_context) = Some []"
  "from_slice (fj_binding (tx_json (sample_transfer k))) [] = Some (Legacy staged_context)"
  "to_vec (fj_receipt (tx_json (sample_transfer k))) (file_sample Staging) = Some []"
  "to_vec (fj_receipt (tx_json (sample_transfer k))) (file_sample CommitIntent) = Some [1]"
  "to_vec (fj_receipt (tx_json (sample_transfer k))) (file_sample Committed) = Some [1, 1]"
  "to_vec (fj_receipt (tx_json (sample_transfer k))) (file_sample FileUnknown) = Some [1, 1, 1]"
  "from_slice (fj_receipt (tx_json (sample_transfer k))) [] = Some (file_sample Staging)"
  "from_slice (fj_receipt (tx_json (sample_transfer k))) [1] = Some (file_sample CommitIntent)"
  "from_slice (fj_receipt (tx_json (sample_transfer k))) [1, 1] = Some (file_sample Committed)"
  by (simp_all add: sample_transfer_def sample_file_json_def table_json_def file_sample_def)

lemma file_sample_simps [simp]:
  "ctx_generation staged_context = 1" "ctx_boot staged_context = ''b''"
  "up_operation file_upload = OperationId (sample_uuid 7)" "up_path file_upload = ''a''" "up_size file_upload = 3"
  "up_sha256 file_upload = sha256 ref_crates [1, 2, 3]" "up_mode file_upload = 0x1A4"
  "frcpt_state (file_sample st) = st" "frcpt_upload (file_sample st) = file_upload"
  "frcpt_context (file_sample st) = staged_context" "(file_sample st)\<lparr>frcpt_state := st'\<rparr> = file_sample st'"
  "wb_absolute workspace_sample" "wb_ready workspace_sample" "wb_locked workspace_sample"
  by (simp_all add: staged_context_def file_upload_def file_sample_def workspace_sample_def)

lemma file_sample_fold [simp]:
  "\<lparr>frcpt_version = Suc 0, frcpt_context = staged_context, frcpt_upload = file_upload, frcpt_digest = staged_digest,
     frcpt_state = st\<rparr> = file_sample st"
  by (simp add: file_sample_def)

lemma sample_path [simp]: "validate_path ''a'' = Inr ()"
  by code_simp

lemma file_upload_valid [simp]:
  "upload_validate file_upload = Inr ()"
  "upload_digest ref_crates (table_json [file_upload]) file_upload = Inr staged_digest"
  "file_receipt_validate ref_crates (table_json [file_upload]) (file_sample st) = Inr ()"
proof -
  show v: "upload_validate file_upload = Inr ()" by (simp add: upload_validate_def max_file_bytes_def ensure_def)
  show d: "upload_digest ref_crates (table_json [file_upload]) file_upload = Inr staged_digest"
    by (simp add: upload_digest_def v staged_digest_def ok_or_def)
  show "file_receipt_validate ref_crates (table_json [file_upload]) (file_sample st) = Inr ()"
    using d by (simp add: file_receipt_validate_def file_sample_def staged_context_def ensure_def)
qed

lemma sample_transfer_laws: "transfer_laws (sample_transfer k)"
  by (simp add: transfer_laws_def sample_transfer_def sample_file_json_def ref_uuid_laws table_json_faithful)

lemmas file_extensions = data_names(1-3)[OF ref_uuid_laws] data_names(4,5)[OF ref_uuid_laws]

lemma extension_apart: "extension a \<noteq> extension b \<Longrightarrow> (a = b) = False"
  by auto

lemma sample_file_names [simp]:
  "(record_name ref_crates i = show_operation ref_crates j @ ''.tmp'') = False"
  "(show_operation ref_crates j @ ''.tmp'' = record_name ref_crates i) = False"
  "(record_name ref_crates i = stage_name ref_crates j) = False"
  "(stage_name ref_crates j = record_name ref_crates i) = False"
  "(stage_name ref_crates i = show_operation ref_crates j @ ''.tmp'') = False"
  "(show_operation ref_crates j @ ''.tmp'' = stage_name ref_crates i) = False"
  "(show_operation ref_crates j @ ''.tmp'' = ''lock'') = False" "(''lock'' = show_operation ref_crates j @ ''.tmp'') = False"
  "(record_name ref_crates i = ''lock'') = False" "(''lock'' = record_name ref_crates i) = False"
  "(stage_name ref_crates i = ''lock'') = False" "(''lock'' = stage_name ref_crates i) = False"
  "(show_operation ref_crates j @ ''.tmp'' = ''context.json'') = False"
  "(''context.json'' = show_operation ref_crates j @ ''.tmp'') = False"
  "(stage_name ref_crates i = ''context.json'') = False" "(''context.json'' = stage_name ref_crates i) = False"
  by (rule extension_apart, simp add: file_extensions file_extensions(4,5))+

lemma sample_record_context [simp]:
  "(record_name ref_crates i = ''context.json'') = False" "(''context.json'' = record_name ref_crates i) = False"
  using record_name_special(1)[OF ref_uuid_laws, of i] by metis+

lemmas file_eval =
  sbind_def fask_def slift_def sensure_def ensure_def ok_or_def Let_def dir_get_def dir_put_def dir_drop_def
  dir_names_def file_write_json_def file_read_json_def regular_def answered_def new_transfers_def
  metadata_bound_def max_transfers_def max_reserved_bytes_def max_file_bytes_def max_chunk_bytes_def

section \<open>The states of one run\<close>

definition files_opened :: transfer_state where
  "files_opened =
     new_transfers\<lparr>ft_dir := [(''lock'', PlainFile []), (''context.json'', PlainFile [])], ft_up := True, ft_step := 3\<rparr>"

definition files_staging :: transfer_state where
  "files_staging =
     files_opened\<lparr>ft_dir := ft_dir files_opened @
         [(stage_name ref_crates (OperationId (sample_uuid 7)), PlainFile []),
          (record_name ref_crates (OperationId (sample_uuid 7)), PlainFile [])],
       ft_receipts := [(OperationId (sample_uuid 7), file_sample Staging)], ft_step := 7\<rparr>"

definition files_written :: transfer_state where
  "files_written =
     files_staging\<lparr>ft_dir := ft_dir files_opened @
         [(stage_name ref_crates (OperationId (sample_uuid 7)), PlainFile [1, 2, 3]),
          (record_name ref_crates (OperationId (sample_uuid 7)), PlainFile [])], ft_step := 9\<rparr>"

definition files_published :: "bytes \<Rightarrow> file_state \<Rightarrow> transfer_state" where
  "files_published b st =
     files_written\<lparr>ft_dir := ft_dir files_opened @ [(record_name ref_crates (OperationId (sample_uuid 7)), PlainFile b)],
       ft_tree := [(''a'', WorkFile [1, 2, 3] 0x1A4)],
       ft_receipts := [(OperationId (sample_uuid 7), file_sample st)],
       ft_published := [(file_upload, [1, 2, 3])], ft_step := 17\<rparr>"

lemmas file_states = files_opened_def files_staging_def files_written_def files_published_def

lemma file_open: "4 < k \<Longrightarrow> transfers_restart (sample_transfer k) workspace_sample new_transfers = (Inr (), files_opened)"
  by (simp add: transfers_restart_def transfers_open_def root_open_def file_binding_def load_transfers_def file_names_def
      load_entry_def clean_entry_def strip_suffix_def files_opened_def bt_values_def file_eval)

lemma file_begin: "8 < k \<Longrightarrow> files_begin (sample_transfer k) file_upload files_opened = (Inr (file_sample Staging), files_staging)"
  by (simp add: files_begin_def healthy_def root_parent_def fencing_def create_stage_def files_save_def bt_values_def
      file_states file_eval)

lemma file_write: "files_write (sample_transfer k) (OperationId (sample_uuid 7)) 0 [1, 2, 3] files_staging = (Inr 3, files_written)"
  by (simp add: files_write_def healthy_def append_stage_def checked_add_u64_def file_states file_eval)

lemma file_commit:
  "17 < k \<Longrightarrow> files_commit (sample_transfer k) (OperationId (sample_uuid 7)) files_written =
     (Inr (file_sample Committed), files_published [1, 1] Committed)"
  by (simp add: files_commit_def healthy_def check_stage_def root_parent_def fencing_def publish_stage_def files_save_def
      file_states file_eval)

text \<open>The receipt cannot be written after the rename.\<close>

lemma file_commit_stopped:
  "files_commit (sample_transfer 16) (OperationId (sample_uuid 7)) files_written =
     (Inl (), (files_published [1] CommitIntent)\<lparr>ft_failed := True\<rparr>)"
  by (simp add: files_commit_def healthy_def check_stage_def root_parent_def fencing_def publish_stage_def files_save_def
      file_states file_eval)

text \<open>Opening again after that.\<close>

definition files_recovered :: transfer_state where
  "files_recovered = (files_published [1, 1, 1] FileUnknown)\<lparr>ft_step := 19\<rparr>"

lemma file_suffixes [simp]:
  "strip_suffix ''.data'' (record_name C i) = None" "strip_suffix ''.tmp'' (record_name C i) = None"
  "strip_suffix ''.data'' ''lock'' = None" "strip_suffix ''.tmp'' ''lock'' = None"
  "strip_suffix ''.data'' ''context.json'' = None" "strip_suffix ''.tmp'' ''context.json'' = None"
proof -
  show "strip_suffix ''.data'' ''lock'' = None" "strip_suffix ''.tmp'' ''lock'' = None" by code_simp+
qed (use cleanable_records in \<open>simp_all add: cleanable_def\<close>)

lemma file_reopen:
  "transfers_restart (sample_transfer 16) workspace_sample ((files_published [1] CommitIntent)\<lparr>ft_failed := True\<rparr>) =
     (Inr (), files_recovered)"
  by (simp add: transfers_restart_def transfers_open_def root_open_def file_binding_def load_transfers_def file_names_def
      binding_validate_def load_entry_def load_receipt_def recover_intent_def clean_entry_def record_stem
      operation.parse_show[OF ref_uuid_laws] map_err_def checked_add_u64_def bt_contains_def staging_present_def
      files_recovered_def bt_values_def file_states file_eval)

lemmas sample_file_steps = file_open file_begin file_write file_commit file_commit_stopped file_reopen

definition file_ops :: "file_op list" where
  "file_ops = [FileReopen workspace_sample, FileBegin file_upload, FileWrite (OperationId (sample_uuid 7)) 0 [1, 2, 3],
     FileCommit (OperationId (sample_uuid 7))]"

lemma file_states_up [simp]: "ft_up files_opened" "ft_up files_staging" "ft_up files_written" "ft_up (files_published b st)"
  by (simp_all add: file_states new_transfers_def)

lemma sample_file_run: "17 < k \<Longrightarrow> file_run (sample_transfer k) file_ops new_transfers = files_published [1, 1] Committed"
  by (simp add: file_ops_def answered_def sample_file_steps)

lemma sample_file_stopped:
  "file_run (sample_transfer 16) file_ops new_transfers = (files_published [1] CommitIntent)\<lparr>ft_failed := True\<rparr>"
  by (simp add: file_ops_def answered_def sample_file_steps)

lemma sample_file_written:
  "17 < k \<Longrightarrow> file_run (sample_transfer k) (butlast file_ops) new_transfers = files_written"
  by (simp add: file_ops_def answered_def sample_file_steps)

end
