(* ===== verification/Guest_File_Properties.thy ===== *)
theory Guest_File_Properties
  imports Guest_File_Samples
begin

text \<open>
  What the file engine of a guest promises, over every run of requests, outside changes of the
  workspace and reopenings, wherever a write, a rename, a removal or a sync fails.
\<close>

definition cold_files :: "transfer_state \<Rightarrow> bool" where
  "cold_files s = (\<not> ft_up s \<and> ft_published s = [])"

lemma cold_files_inv: "cold_files s \<Longrightarrow> file_inv G {} s"
  by (simp add: cold_files_def file_inv_def publications_ok_def files_kept_def)

lemma cold_sample [simp]: "cold_files new_transfers"
  by (simp add: cold_files_def new_transfers_def)

lemma sample_inspected: "fst (files_inspect (OperationId (sample_uuid 7)) (files_published b st)) = Inr (Some (file_sample st))"
  by (simp add: files_inspect_def file_states file_eval healthy_def)

text \<open>What an accepted chunk does to the staged bytes.\<close>

definition chunk_written :: "transfer_env \<Rightarrow> operation_id \<Rightarrow> nat \<Rightarrow> bytes \<Rightarrow> transfer_state \<Rightarrow> nat \<Rightarrow> transfer_state \<Rightarrow> bool" where
  "chunk_written G i offset data s n t =
    (\<exists>r old new. bt_get i (ft_receipts s) = Some r \<and> frcpt_state r = Staging \<and>
    dir_get (stage_name (tx_crates G) i) (ft_dir s) = Some (PlainFile old) \<and>
    dir_get (stage_name (tx_crates G) i) (ft_dir t) = Some (PlainFile new) \<and>
    take (length old) new = old \<and> take (length data) (drop offset new) = data \<and>
    length new = n \<and> n = max (length old) (offset + length data) \<and> n \<le> up_size (frcpt_upload r))"

lemma chunk_bytes:
  fixes old data :: bytes
  assumes same: "take k (drop offset old) = take k data" and k: "k = min (length old - offset) (length data)"
    and at: "offset \<le> length old"
  defines "new \<equiv> if k < length data then old @ drop k data else old"
  shows "take (length old) new = old" "take (length data) (drop offset new) = data"
    "length new = max (length old) (offset + length data)"
proof -
  show "take (length old) new = old" by (simp add: new_def)
  show "length new = max (length old) (offset + length data)" using k at by (auto simp: new_def)
  show "take (length data) (drop offset new) = data"
  proof (cases "k < length data")
    case True
    then have "k = length old - offset" using k by simp
    then have "drop offset old = take k data" using same by simp
    then have "drop offset new = data" using True at by (simp add: new_def)
    then show ?thesis by simp
  qed (use k same in \<open>simp add: new_def min_def split: if_splits\<close>)
qed

lemma chunk_stored:
  assumes r: "bt_get i (ft_receipts s) = Some r" "frcpt_state r = Staging"
    and old: "regular (stage_name (tx_crates G) i) s = Inr old" "length old \<le> up_size (frcpt_upload r)" "offset \<le> length old"
    and fits: "offset + length data \<le> up_size (frcpt_upload r)"
    and same: "take (min (length old - offset) (length data)) (drop offset old) = take (min (length old - offset) (length data)) data"
    and t: "dir_get (stage_name (tx_crates G) i) (ft_dir t) =
      Some (PlainFile (if min (length old - offset) (length data) < length data
        then old @ drop (min (length old - offset) (length data)) data else old))"
    and n: "n = max (length old) (offset + length data)"
  shows "chunk_written G i offset data s n t"
proof -
  have "dir_get (stage_name (tx_crates G) i) (ft_dir s) = Some (PlainFile old)"
    using old(1) by (auto simp: regular_def split: option.splits state_entry.splits)
  then show ?thesis
    unfolding chunk_written_def n
    using r old(2) fits t chunk_bytes[OF same refl old(3)] by (intro exI[of _ r] exI[of _ old] exI) (intro conjI, auto)
qed

text \<open>What a successful save and a successful commit do to the directory and the workspace.\<close>

lemma save_exact:
  assumes L: "transfer_laws G"
  shows "outcome s (files_save G r)
    (\<lambda>x t. x = r \<and> ft_tree t = ft_tree s \<and> disk_file G (ft_dir t) (up_operation (frcpt_upload r)) = Some r \<and>
       (\<forall>j. dir_get (stage_name (tx_crates G) j) (ft_dir t) = dir_get (stage_name (tx_crates G) j) (ft_dir s)))
    (\<lambda>_. True)"
proof -
  let ?n = "record_name (tx_crates G) (up_operation (frcpt_upload r))"
  have laws: "uuid_laws (tx_crates G)" using L by simp
  have "outcome s (file_write_json G (fj_receipt (tx_json G)) ?n r)
    (\<lambda>_ t. ft_tree t = ft_tree s \<and> disk_file G (ft_dir t) (up_operation (frcpt_upload r)) = Some r \<and>
       (\<forall>j. dir_get (stage_name (tx_crates G) j) (ft_dir t) = dir_get (stage_name (tx_crates G) j) (ft_dir s))) (\<lambda>_. True)"
  proof (rule file_write_outcome)
    fix t b assume t: "ftouches (temp_name ?n) s t" "to_vec (fj_receipt (tx_json G)) r = Some b"
      "dir_get ?n (ft_dir t) = Some (PlainFile b)"
    have "disk_file G (ft_dir t) (up_operation (frcpt_upload r)) = Some r" using L t(2,3) by (simp add: disk_file_def)
    then show "True \<and> ft_tree t = ft_tree s \<and> disk_file G (ft_dir t) (up_operation (frcpt_upload r)) = Some r \<and>
       (\<forall>j. dir_get (stage_name (tx_crates G) j) (ft_dir t) = dir_get (stage_name (tx_crates G) j) (ft_dir s))"
      using record_written(3)[OF laws t(1)] fside_fields(5)[OF transfers.touches_aside[OF t(1)]] by simp
  qed (use laws data_names(1)[OF laws] in simp_all)
  then show ?thesis by (simp add: files_save_def Let_def outcome_simps)
qed

definition committed_file :: "transfer_env \<Rightarrow> file_receipt \<Rightarrow> transfer_state \<Rightarrow> file_receipt \<Rightarrow> transfer_state \<Rightarrow> bool" where
  "committed_file G r s q t =
     (q = r\<lparr>frcpt_state := Committed\<rparr> \<and> disk_file G (ft_dir t) (up_operation (frcpt_upload r)) = Some q \<and>
      dir_get (stage_name (tx_crates G) (up_operation (frcpt_upload r))) (ft_dir t) = None \<and>
      (\<exists>b. dir_get (stage_name (tx_crates G) (up_operation (frcpt_upload r))) (ft_dir s) = Some (PlainFile b) \<and>
         length b = up_size (frcpt_upload r) \<and> sha256 (tx_crates G) b = up_sha256 (frcpt_upload r) \<and>
         map_of (ft_tree t) = (map_of (ft_tree s))(up_path (frcpt_upload r) \<mapsto> WorkFile b (up_mode (frcpt_upload r)))))"

lemma commit_exact:
  assumes L: "transfer_laws G" and r: "bt_get i (ft_receipts s) = Some r" "frcpt_state r = Staging"
  shows "outcome s (files_commit G i) (committed_file G r s) (\<lambda>_. True)"
proof -
  let ?u = "frcpt_upload r" and ?n = "stage_name (tx_crates G) (up_operation (frcpt_upload r))"
  let ?Q = "committed_file G r s" and ?T = "\<lambda>_ :: transfer_state. True"
  have saved: "outcome v (files_save G (r\<lparr>frcpt_state := Committed\<rparr>)) ?Q ?T"
    if b: "dir_get ?n (ft_dir s) = Some (PlainFile b)" "length b = up_size ?u" "sha256 (tx_crates G) b = up_sha256 ?u"
      and v: "ft_tree v = AList.update (up_path ?u) (WorkFile b (up_mode ?u)) (ft_tree s)" "dir_get ?n (ft_dir v) = None" for b v
    by (rule outcome_mono[OF save_exact[OF L]]) (use b v in \<open>simp_all add: committed_file_def AList.update_conv'\<close>)
  have pub: "outcome v (publish_stage G ?u) (\<lambda>_ w. outcome w (files_save G (r\<lparr>frcpt_state := Committed\<rparr>)) ?Q ?T) ?T"
    if b: "dir_get ?n (ft_dir s) = Some (PlainFile b)" "length b = up_size ?u" "sha256 (tx_crates G) b = up_sha256 ?u"
      and v: "ft_tree v = ft_tree s" "dir_get ?n (ft_dir v) = Some (PlainFile b)" for b v
  proof (rule outcome_mono[OF publish_done[OF v(2)]])
    fix w assume "\<exists>k. w = (renamed G ?u b v)\<lparr>ft_step := k\<rparr>"
    then show "outcome w (files_save G (r\<lparr>frcpt_state := Committed\<rparr>)) ?Q ?T"
      by (intro saved[OF b]) (auto simp: renamed_def v(1))
  qed simp
  have "outcome s (check_stage G ?u) (\<lambda>_ t. outcome t (files_save G (r\<lparr>frcpt_state := CommitIntent\<rparr>))
      (\<lambda>_ v. outcome v (publish_stage G ?u) (\<lambda>_ w. outcome w (files_save G (r\<lparr>frcpt_state := Committed\<rparr>)) ?Q ?T) ?T) ?T) ?T"
  proof (rule outcome_mono[OF check_done], elim exE conjE)
    fix t k b assume b: "dir_get ?n (ft_dir s) = Some (PlainFile b)" "length b = up_size ?u" "sha256 (tx_crates G) b = up_sha256 ?u"
      and t: "t = s\<lparr>ft_step := k\<rparr>"
    show "outcome t (files_save G (r\<lparr>frcpt_state := CommitIntent\<rparr>))
      (\<lambda>_ v. outcome v (publish_stage G ?u) (\<lambda>_ w. outcome w (files_save G (r\<lparr>frcpt_state := Committed\<rparr>)) ?Q ?T) ?T) ?T"
      by (rule outcome_mono[OF save_exact[OF L]]) (use pub[OF b] b t in simp_all)
  qed simp
  moreover have "outcome v (files_save G q) (\<lambda>_. ?T) ?T" for v q by (rule outcome_mono[OF save_exact[OF L]]) simp_all
  ultimately show ?thesis
    unfolding files_commit_def healthy_def using r
    by (auto simp: outcome_simps elim!: outcome_mono)
qed

text \<open>
  C11: A guest publishes an upload into the workspace at most once, whatever is requested of it,
  wherever a step fails and however often it is reopened, and only bytes of the declared size and
  digest. A receipt that the state directory holds for a published upload is of that upload and
  never staging or aborted.
\<close>

theorem file_published_once:
  assumes "transfer_laws G" "cold_files s"
  shows "distinct (map (\<lambda>p. up_operation (fst p)) (ft_published (file_run G ops s))) \<and>
    (\<forall>u b. (u, b) \<in> set (ft_published (file_run G ops s)) \<longrightarrow>
       length b = up_size u \<and> sha256 (tx_crates G) b = up_sha256 u \<and>
       (\<forall>r. disk_file G (ft_dir (file_run G ops s)) (up_operation u) = Some r \<longrightarrow>
          frcpt_upload r = u \<and> frcpt_state r \<noteq> Staging \<and> frcpt_state r \<noteq> Aborted))"
proof -
  have "file_inv G {} (file_run G ops s)" by (rule file_run_inv[OF assms(1) cold_files_inv[OF assms(2)]])
  then show ?thesis unfolding file_inv_def publications_ok_def publication_ok_def by fastforce
qed

theorem file_published_once_witness:
  "ft_published (file_run (sample_transfer 16) file_ops new_transfers) = [(file_upload, [1, 2, 3])] \<and>
   distinct (map (\<lambda>p. up_operation (fst p))
     (ft_published (file_run (sample_transfer 16) (file_ops @ file_ops @ file_ops) new_transfers)))"
proof
  show "ft_published (file_run (sample_transfer 16) file_ops new_transfers) = [(file_upload, [1, 2, 3])]"
    by (simp add: sample_file_stopped files_published_def)
qed (use file_published_once[OF sample_transfer_laws cold_sample, of 16 "file_ops @ file_ops @ file_ops"] in blast)

text \<open>
  C12: Once an inspection has reported an upload committed, aborted or unknown, its receipt file
  holds exactly that receipt after every further run, faults and reopenings included, until the
  retirement barrier in the state directory covers the upload.
\<close>

theorem file_outcome_durable:
  assumes "transfer_laws G" "cold_files s" "ft_up (file_run G xs s)"
    and "fst (files_inspect i (file_run G xs s)) = Inr (Some r)" "settled_file r"
  shows "disk_file G (ft_dir (file_run G (xs @ ys) s)) i = Some r \<or>
    covered (file_barrier G (ft_dir (file_run G (xs @ ys) s))) i"
proof -
  let ?t = "file_run G xs s"
  have I: "file_inv G {} ?t" by (rule file_run_inv[OF assms(1) cold_files_inv[OF assms(2)]])
  have "bt_get i (ft_receipts ?t) = Some r" "\<not> ft_failed ?t"
    using assms(4) by (auto simp: files_inspect_def healthy_def sbind_def ensure_def split: if_splits)
  then have "disk_file G (ft_dir ?t) i = Some r"
    using I assms(3) memory_exactD(2) by (auto simp: file_inv_def)
  then have "file_inv G {(i, r)} ?t"
    using I assms(5) by (simp add: file_inv_def files_kept_def)
  from file_run_inv[OF assms(1) this, of ys] show ?thesis
    by (auto simp: file_run_append file_inv_def files_kept_def)
qed

theorem file_outcome_durable_witness:
  "disk_file (sample_transfer 20) (ft_dir (file_run (sample_transfer 20) (file_ops @ [FileReopen workspace_sample]) new_transfers))
     (OperationId (sample_uuid 7)) = Some (file_sample Committed) \<or>
   covered (file_barrier (sample_transfer 20)
     (ft_dir (file_run (sample_transfer 20) (file_ops @ [FileReopen workspace_sample]) new_transfers))) (OperationId (sample_uuid 7))"
  by (rule file_outcome_durable[OF sample_transfer_laws cold_sample])
    (simp_all add: sample_file_run sample_inspected settled_file_def)

text \<open>
  C14: When a guest has opened its state directory, no commit is left pending: each receipt in
  memory is the one on the disk and not a commit intent, and every publication that ever happened
  is recorded as committed or unknown, unless the barrier in force covers its upload.
\<close>

theorem file_reopen_decides:
  assumes "transfer_laws G" "cold_files s" "transfers_restart G w (file_run G ops s) = (Inr x, t)"
  shows "(\<forall>i r. bt_get i (ft_receipts t) = Some r \<longrightarrow>
      disk_file G (ft_dir t) i = Some r \<and> up_operation (frcpt_upload r) = i \<and> frcpt_state r \<noteq> CommitIntent) \<and>
    (\<forall>u b. (u, b) \<in> set (ft_published t) \<longrightarrow> covered (ft_barrier t) (up_operation u) \<or>
      (\<exists>r. bt_get (up_operation u) (ft_receipts t) = Some r \<and> frcpt_upload r = u \<and>
         frcpt_state r \<in> {Committed, FileUnknown}))"
proof -
  have "file_inv G {} (file_run G ops s)" by (rule file_run_inv[OF assms(1) cold_files_inv[OF assms(2)]])
  from outcomeD(2)[OF transfers_restart_done[OF assms(1) this] assms(3)]
  have I: "file_inv G {} t" "ft_up t" "\<not> ft_failed t"
    and n: "\<And>i r. bt_get i (ft_receipts t) = Some r \<Longrightarrow> frcpt_state r \<noteq> CommitIntent"
    unfolding open_files_def by blast+
  then have e: "memory_exact G t" by (simp add: file_inv_def)
  have "\<exists>r. bt_get (up_operation u) (ft_receipts t) = Some r \<and> frcpt_upload r = u \<and> frcpt_state r \<in> {Committed, FileUnknown}"
    if p: "(u, b) \<in> set (ft_published t)" and c: "\<not> covered (ft_barrier t) (up_operation u)" for u b
  proof -
    have ok: "publication_ok G (ft_dir t) (u, b)" using I(1) p by (auto simp: file_inv_def publications_ok_def)
    have "\<not> covered (file_barrier G (ft_dir t)) (up_operation u)" using c memory_exactD(1)[OF e] by metis
    then obtain r where r: "disk_file G (ft_dir t) (up_operation u) = Some r"
      using ok unfolding publication_ok_def by auto
    have m: "bt_get (up_operation u) (ft_receipts t) = Some r" by (rule memory_exactD(3)[OF e r c])
    have "frcpt_upload r = u" "frcpt_state r \<notin> {Staging, Aborted}" using ok r unfolding publication_ok_def by auto
    then show ?thesis using m n[OF m] by (cases "frcpt_state r") auto
  qed
  then show ?thesis using memory_exactD(2)[OF e] n by blast
qed

theorem file_reopen_decides_witness:
  "ft_published files_recovered = [(file_upload, [1, 2, 3])] \<and>
   (\<exists>r. bt_get (up_operation file_upload) (ft_receipts files_recovered) = Some r \<and> frcpt_state r \<in> {Committed, FileUnknown})"
proof -
  have p: "ft_published files_recovered = [(file_upload, [1, 2, 3])]" "ft_barrier files_recovered = None"
    by (simp_all add: files_recovered_def file_states new_transfers_def)
  have "transfers_restart (sample_transfer 16) workspace_sample (file_run (sample_transfer 16) file_ops new_transfers) =
      (Inr (), files_recovered)"
    by (simp add: sample_file_stopped file_reopen)
  from file_reopen_decides[OF sample_transfer_laws cold_sample this] show ?thesis
    using p by (metis covered_simps(1) list.set_intros(1))
qed

text \<open>
  A chunk that is accepted leaves the staged file with the bytes it had and the chunk at its
  offset, and nothing else: the new length, which is what the guest answers, is the larger of the
  old length and the end of the chunk, and never more than the declared size.
\<close>

theorem file_write_exact:
  assumes "files_write G i offset data s = (Inr n, t)"
  shows "\<exists>r old new. bt_get i (ft_receipts s) = Some r \<and> frcpt_state r = Staging \<and>
    dir_get (stage_name (tx_crates G) i) (ft_dir s) = Some (PlainFile old) \<and>
    dir_get (stage_name (tx_crates G) i) (ft_dir t) = Some (PlainFile new) \<and>
    take (length old) new = old \<and> take (length data) (drop offset new) = data \<and>
    length new = n \<and> n = max (length old) (offset + length data) \<and> n \<le> up_size (frcpt_upload r)"
proof -
  have kept: "dir_get n (ft_dir s) = Some (PlainFile b)" if "regular n s = Inr b" for n b
    using that by (auto simp: regular_def split: option.splits state_entry.splits)
  have "outcome s (files_write G i offset data) (chunk_written G i offset data s) (\<lambda>_. True)"
    unfolding files_write_def Let_def append_stage_def checked_add_u64_def
    by (auto simp: outcome_simps kept split: option.splits intro!: chunk_stored)
  from outcomeD(2)[OF this assms] show ?thesis by (simp add: chunk_written_def)
qed

theorem file_write_exact_witness:
  "dir_get (stage_name ref_crates (OperationId (sample_uuid 7))) (ft_dir files_written) = Some (PlainFile [1, 2, 3])"
  using file_write_exact[OF file_write, of 20]
  by (auto simp: files_staging_def files_opened_def dir_get_def)

text \<open>
  C13: A commit of a staging upload that succeeds has put exactly the staged bytes, of the declared
  size, digest and mode, at the declared path and changed no other path of the workspace; the
  staged file is gone, and the committed receipt is on the disk.
\<close>

theorem file_commit_exact:
  assumes "transfer_laws G" "cold_files s" "ft_up (file_run G ops s)" "\<not> ft_failed (file_run G ops s)"
    and "bt_get i (ft_receipts (file_run G ops s)) = Some r" "frcpt_state r = Staging"
    and "files_commit G i (file_run G ops s) = (Inr q, t)"
  shows "q = r\<lparr>frcpt_state := Committed\<rparr> \<and> disk_file G (ft_dir t) i = Some q \<and>
    dir_get (stage_name (tx_crates G) i) (ft_dir t) = None \<and>
    (\<exists>b. dir_get (stage_name (tx_crates G) i) (ft_dir (file_run G ops s)) = Some (PlainFile b) \<and>
       length b = up_size (frcpt_upload r) \<and> sha256 (tx_crates G) b = up_sha256 (frcpt_upload r) \<and>
       map_of (ft_tree t) = (map_of (ft_tree (file_run G ops s)))
         (up_path (frcpt_upload r) \<mapsto> WorkFile b (up_mode (frcpt_upload r))))"
proof -
  have "file_inv G {} (file_run G ops s)" by (rule file_run_inv[OF assms(1) cold_files_inv[OF assms(2)]])
  from staging_free(1)[OF this assms(3-6)] have "up_operation (frcpt_upload r) = i" .
  then show ?thesis
    using outcomeD(2)[OF commit_exact[OF assms(1,5,6)] assms(7)] by (simp add: committed_file_def)
qed

theorem file_commit_exact_witness:
  "map_of (ft_tree (files_published [1, 1] Committed)) ''a'' = Some (WorkFile [1, 2, 3] 0x1A4) \<and>
   disk_file (sample_transfer 20) (ft_dir (files_published [1, 1] Committed)) (OperationId (sample_uuid 7)) =
     Some (file_sample Committed)"
proof -
  have run: "file_run (sample_transfer 20) (butlast file_ops) new_transfers = files_written"
    by (rule sample_file_written) simp
  have w: "\<not> ft_failed files_written" "bt_get (OperationId (sample_uuid 7)) (ft_receipts files_written) = Some (file_sample Staging)"
    "dir_get (stage_name ref_crates (OperationId (sample_uuid 7))) (ft_dir files_written) = Some (PlainFile [1, 2, 3])"
    by (simp_all add: file_states new_transfers_def dir_get_def)
  have c: "files_commit (sample_transfer 20) (OperationId (sample_uuid 7)) files_written =
     (Inr (file_sample Committed), files_published [1, 1] Committed)" by (rule file_commit) simp
  from file_commit_exact[OF sample_transfer_laws cold_sample, of 20 "butlast file_ops", unfolded run, OF file_states_up(3) w(1,2) _ c]
  show ?thesis using w(3) by auto
qed

end
