(* ===== verification/Guest_Service.thy ===== *)
theory Guest_Service
  imports Guest_File_Recovery Guest_Runs
begin

text \<open>
  The service in front of a guest's engines (\<open>file_service.rs\<close> and \<open>server.rs\<close> of
  \<open>crates/sandbox-guest/src\<close>): captures held for reading, one worker for all file work, and the
  dispatch of every request of the guest protocol to the runner or the file engine.

  A worker runs to its end whether or not its caller still waits, so its effect is atomic and its
  answer may be lost; \<open>service_world\<close> says so at each step, with the clocks and the fresh handles.
  Instants are in nanoseconds.
\<close>

section \<open>The file service\<close>

record held_capture =
  hc_descriptor :: wire_file_capture
  hc_bytes :: download
  hc_until :: nat

record service_world =
  sv_free :: "nat \<Rightarrow> bool"
  sv_in_time :: "nat \<Rightarrow> bool"
  sv_instant :: "nat \<Rightarrow> nat"
  sv_now :: "nat \<Rightarrow> int"
  sv_handle :: "nat \<Rightarrow> operation_id"

record file_service =
  fv_files :: transfer_state
  fv_captures :: "(operation_id, held_capture) btmap"
  fv_closed :: bool
  fv_tick :: nat

record service_env =
  se_files :: transfer_env
  se_world :: service_world

type_synonym 'a service = "(file_service, unit, 'a) proc"

definition capture_ttl_secs :: nat where "capture_ttl_secs = 60"

definition vask :: "(nat \<Rightarrow> 'a) \<Rightarrow> 'a service" where
  "vask f s = (Inr (f (fv_tick s)), s\<lparr>fv_tick := Suc (fv_tick s)\<rparr>)"

definition in_files :: "'a transfer \<Rightarrow> 'a service" where
  "in_files m s = (case m (fv_files s) of (r, t) \<Rightarrow> (r, s\<lparr>fv_files := t\<rparr>))"

text \<open>Dropping a capture drops its permit.\<close>

fun drop_captures :: "nat \<Rightarrow> transfer_state \<Rightarrow> transfer_state" where
  "drop_captures 0 t = t"
| "drop_captures (Suc n) t = drop_captures n (snd (release_permit t))"

definition keep_captures :: "(operation_id \<times> held_capture \<Rightarrow> bool) \<Rightarrow> unit service" where
  "keep_captures P = swrite (\<lambda>s. s\<lparr>
     fv_files := drop_captures (length (filter (\<lambda>c. \<not> P c) (fv_captures s))) (fv_files s),
     fv_captures := filter P (fv_captures s)\<rparr>)"

definition service_prune :: "service_env \<Rightarrow> unit service" where
  "service_prune V =
     sbind (vask (sv_instant (se_world V))) (\<lambda>now.
     keep_captures (\<lambda>(_, c). now < hc_until c))"

definition service_upload :: "service_env \<Rightarrow> wire_file_operation \<Rightarrow> file_receipt service" where
  "service_upload V w =
     sbind (slift (validate_operation (tx_crates (se_files V)) w)) (\<lambda>i.
     sbind (in_files (files_inspect i)) (\<lambda>x.
     sbind (slift (ok_or () x)) (\<lambda>r.
     sbind (sensure (frcpt_digest r = wfo_digest w) ()) (\<lambda>_.
     sret r))))"

definition service_capture :: "service_env \<Rightarrow> wire_file_handle \<Rightarrow> held_capture service" where
  "service_capture V h =
     sbind (slift (validate_handle (tx_crates (se_files V)) h)) (\<lambda>i.
     sbind (sread (\<lambda>s. bt_get i (fv_captures s))) (\<lambda>x.
     sbind (slift (ok_or () x)) (\<lambda>c.
     sbind (sensure (wfc_sha256 (hc_descriptor c) = wfh_sha256 h) ()) (\<lambda>_.
     sret c))))"

section \<open>Requests and answers\<close>

datatype guest_action =
    AskHello
  | AskExecute wire_execute
  | AskInspect string
  | AskCancel string
  | AskOutput read_output
  | AskBeginUpload wire_upload
  | AskWriteFile wire_write_file
  | AskInspectUpload wire_file_operation
  | AskCommitUpload wire_file_operation
  | AskAbortUpload wire_file_operation
  | AskCaptureFile string
  | AskReadFile wire_read_file
  | AskReleaseFile wire_file_handle
  | AskRetireHistory wire_barrier

datatype guest_error = ErrInvalid | ErrNotFound | ErrRejected | ErrUncertain

record wire_file_chunk =
  wck_handle :: "wire_file_handle option"
  wck_offset :: nat
  wck_data :: bytes
  wck_next :: nat
  wck_size :: nat
  wck_at_end :: bool

datatype guest_result =
    GotHello
  | GotReceipt wire_receipt
  | GotOutput output_chunk
  | GotError guest_error
  | GotFileReceipt wire_file_receipt
  | GotFileProgress "wire_file_operation option" nat
  | GotFileCapture wire_file_capture
  | GotFileChunk wire_file_chunk
  | GotFileReleased wire_file_handle
  | GotHistoryRetired wire_barrier

text \<open>An insertion under a handle in use drops the capture it replaces.\<close>

definition hold_capture :: "operation_id \<Rightarrow> held_capture \<Rightarrow> unit service" where
  "hold_capture i c =
     sbind (keep_captures (\<lambda>(j, _). j \<noteq> i)) (\<lambda>_.
     swrite (fv_captures_update (bt_insert i c)))"

definition file_answer :: "service_env \<Rightarrow> file_receipt \<Rightarrow> guest_result" where
  "file_answer V r = GotFileReceipt (file_receipt_to_wire (tx_crates (se_files V)) r)"

fun file_dispatch :: "service_env \<Rightarrow> guest_action \<Rightarrow> guest_result service" where
  "file_dispatch V (AskBeginUpload w) =
     sbind (slift (upload_of_wire (tx_crates (se_files V)) w)) (\<lambda>u.
     sbind (in_files (files_begin (se_files V) u)) (\<lambda>r.
     sret (file_answer V r)))"
| "file_dispatch V (AskWriteFile w) =
     sbind (slift (validate_write (tx_crates (se_files V)) w)) (\<lambda>_.
     sbind (slift (ok_or () (wwf_operation w))) (\<lambda>operation.
     sbind (service_upload V operation) (\<lambda>r.
     sbind (in_files (files_write (se_files V) (up_operation (frcpt_upload r)) (wwf_offset w) (wwf_data w))) (\<lambda>stored.
     sret (GotFileProgress (Some operation) stored)))))"
| "file_dispatch V (AskInspectUpload w) =
     sbind (service_upload V w) (\<lambda>r. sret (file_answer V r))"
| "file_dispatch V (AskCommitUpload w) =
     sbind (service_upload V w) (\<lambda>r.
     sbind (in_files (files_commit (se_files V) (up_operation (frcpt_upload r)))) (\<lambda>r'.
     sret (file_answer V r')))"
| "file_dispatch V (AskAbortUpload w) =
     sbind (service_upload V w) (\<lambda>r.
     sbind (in_files (files_abort (se_files V) (up_operation (frcpt_upload r)))) (\<lambda>r'.
     sret (file_answer V r')))"
| "file_dispatch V (AskCaptureFile path) =
     sbind (slift (validate_path path)) (\<lambda>_.
     sbind (sread (\<lambda>s. length (fv_captures s))) (\<lambda>n.
     sbind (sensure (n < 8) ()) (\<lambda>_.
     sbind (in_files (files_capture (se_files V) path)) (\<lambda>b.
     sbind (vask (sv_handle (se_world V))) (\<lambda>i.
     sbind (vask (sv_now (se_world V))) (\<lambda>now.
     sbind (vask (sv_instant (se_world V))) (\<lambda>instant.
     let d = \<lparr>wfc_capture = show_operation (tx_crates (se_files V)) i, wfc_path = path, wfc_size = length (dl_bytes b),
              wfc_sha256 = dl_sha256 b, wfc_expires = now + int capture_ttl_secs * 1000\<rparr> in
     sbind (hold_capture i \<lparr>hc_descriptor = d, hc_bytes = b, hc_until = instant + capture_ttl_secs * 1000000000\<rparr>) (\<lambda>_.
     sret (GotFileCapture d)))))))))"
| "file_dispatch V (AskReadFile w) =
     sbind (slift (validate_read (tx_crates (se_files V)) w)) (\<lambda>_.
     sbind (slift (ok_or () (wrf_handle w))) (\<lambda>h.
     sbind (service_capture V h) (\<lambda>c.
     sbind (slift (download_chunk (hc_bytes c) (wrf_offset w) (wrf_limit w))) (\<lambda>data.
     let next_offset = wrf_offset w + length data in
     sret (GotFileChunk \<lparr>wck_handle = Some h, wck_offset = wrf_offset w, wck_data = data, wck_next = next_offset,
       wck_size = wfc_size (hc_descriptor c), wck_at_end = (next_offset = wfc_size (hc_descriptor c))\<rparr>)))))"
| "file_dispatch V (AskReleaseFile h) =
     sbind (slift (validate_handle (tx_crates (se_files V)) h)) (\<lambda>i.
     sbind (sread (\<lambda>s. bt_contains i (fv_captures s))) (\<lambda>held.
     sbind (if held then sbind (service_capture V h) (\<lambda>_. keep_captures (\<lambda>(j, _). j \<noteq> i)) else sret ()) (\<lambda>_.
     sret (GotFileReleased h))))"
| "file_dispatch V _ = sfail ()"

text \<open>
  \<open>run\<close>: the worker takes the only permit, prunes and works; a caller that has waited too long
  gets an error.
\<close>

definition service_run :: "service_env \<Rightarrow> 'a service \<Rightarrow> 'a service" where
  "service_run V work =
     sbind (sread fv_closed) (\<lambda>closed.
     sbind (sensure (\<not> closed) ()) (\<lambda>_.
     sbind (vask (sv_free (se_world V))) (\<lambda>free.
     sbind (sensure free ()) (\<lambda>_.
     sbind (service_prune V) (\<lambda>_.
     sbind work (\<lambda>a.
     sbind (vask (sv_in_time (se_world V))) (\<lambda>in_time.
     sbind (sensure in_time ()) (\<lambda>_.
     sret a))))))))"

definition service_retire :: "service_env \<Rightarrow> barrier \<Rightarrow> barrier service" where
  "service_retire V b = service_run V (in_files (files_retire (se_files V) b))"

definition service_shutdown :: "service_env \<Rightarrow> unit service" where
  "service_shutdown V =
     sbind (swrite (fv_closed_update (\<lambda>_. True))) (\<lambda>_.
     sbind (vask (sv_in_time (se_world V))) (\<lambda>free.
     sbind (sensure free ()) (\<lambda>_.
     keep_captures (\<lambda>_. False))))"

definition service_open :: "service_env \<Rightarrow> workspace_boot \<Rightarrow> unit service" where
  "service_open V w =
     sbind (in_files (transfers_restart (se_files V) w)) (\<lambda>_.
     swrite (\<lambda>s. s\<lparr>fv_captures := [], fv_closed := False\<rparr>))"

section \<open>The server\<close>

record guest_request =
  gq_version :: nat
  gq_id :: string
  gq_context :: "wire_context option"
  gq_action :: "guest_action option"

record guest_response =
  ga_version :: nat
  ga_id :: string
  ga_context :: wire_context
  ga_result :: guest_result

text \<open>An agent without a workspace has no file service.\<close>

record guest_server =
  sg_runner :: guest_state
  sg_files :: "file_service option"

record server_env =
  sx_runner :: guest_env
  sx_files :: service_env

type_synonym 'a server = "(guest_server, unit, 'a) proc"

definition on_runner :: "'a guest \<Rightarrow> 'a server" where
  "on_runner m s = (case m (sg_runner s) of (r, t) \<Rightarrow> (r, s\<lparr>sg_runner := t\<rparr>))"

definition on_files :: "'a service \<Rightarrow> 'a server" where
  "on_files m s =
     (case sg_files s of
        None \<Rightarrow> (Inl (), s)
      | Some f \<Rightarrow> (case m f of (r, g) \<Rightarrow> (r, s\<lparr>sg_files := Some g\<rparr>)))"

text \<open>\<open>answer_or\<close>: an error of the engine is answered, not returned.\<close>

definition answer_or :: "guest_error \<Rightarrow> 'a server \<Rightarrow> ('a \<Rightarrow> guest_result) \<Rightarrow> guest_result server" where
  "answer_or e m f s =
     (case m s of
        (Inl _, t) \<Rightarrow> (Inr (GotError e), t)
      | (Inr a, t) \<Rightarrow> (Inr (f a), t))"

definition server_retire :: "server_env \<Rightarrow> wire_barrier \<Rightarrow> barrier server" where
  "server_retire X w =
     sbind (slift (barrier_of_wire (gx_crates (sx_runner X)) w)) (\<lambda>b.
     sbind (slift (barrier_validate (gx_crates (sx_runner X)) b (gx_context (sx_runner X)) (bar_domain b))) (\<lambda>_.
     case bar_domain b of
       Commands \<Rightarrow> on_runner (guest_retire_history (sx_runner X) b)
     | FilesDomain \<Rightarrow> on_files (service_retire (sx_files X) b)))"

definition server_files :: "server_env \<Rightarrow> guest_action \<Rightarrow> guest_result server" where
  "server_files X a =
     sbind (sread sg_files) (\<lambda>files.
     case files of
       Some _ \<Rightarrow> answer_or ErrUncertain (on_files (service_run (sx_files X) (file_dispatch (sx_files X) a))) (\<lambda>r. r)
     | None \<Rightarrow> sret (GotError ErrRejected))"

definition server_action :: "server_env \<Rightarrow> guest_action \<Rightarrow> guest_result server" where
  "server_action X a =
     (let G = sx_runner X; C = gx_crates G in
      case a of
        AskRetireHistory w \<Rightarrow>
          answer_or ErrUncertain (server_retire X w) (\<lambda>b. GotHistoryRetired (barrier_to_wire C b))
      | AskHello \<Rightarrow> sret GotHello
      | AskExecute w \<Rightarrow>
          (case execute_of_wire C (gj_execute (gx_json G)) w of
             Inr x \<Rightarrow> answer_or ErrUncertain (on_runner (guest_start G x)) (\<lambda>r. GotReceipt (receipt_to_wire C r))
           | Inl _ \<Rightarrow> sret (GotError ErrInvalid))
      | AskInspect i \<Rightarrow>
          (case parse_operation C i of
             Inr i \<Rightarrow> sbind (on_runner (guest_inspect i)) (\<lambda>x. sret (case x of
               Some r \<Rightarrow> GotReceipt (receipt_to_wire C r) | None \<Rightarrow> GotError ErrNotFound))
           | Inl _ \<Rightarrow> sret (GotError ErrInvalid))
      | AskCancel i \<Rightarrow>
          (case parse_operation C i of
             Inr i \<Rightarrow> answer_or ErrUncertain (on_runner (guest_cancel G i)) (\<lambda>r. GotReceipt (receipt_to_wire C r))
           | Inl _ \<Rightarrow> sret (GotError ErrInvalid))
      | AskOutput q \<Rightarrow> answer_or ErrRejected (on_runner (guest_output G q)) GotOutput
      | _ \<Rightarrow> server_files X a)"

text \<open>Everything that is checked before an action: a request that fails here is not answered.\<close>

definition server_admits :: "server_env \<Rightarrow> guest_request \<Rightarrow> guest_server \<Rightarrow> unit + guest_action" where
  "server_admits X q s =
     (let G = sx_runner X; actual = gx_context G in
      rbind (ensure (gq_version q = guest_wire_version) ()) (\<lambda>_.
      rbind (map_err (\<lambda>_. ()) (parse_operation (gx_crates G) (gq_id q))) (\<lambda>_.
      rbind (ok_or () (gq_context q)) (\<lambda>w.
      rbind (context_of_wire (gx_crates G) w) (\<lambda>c.
      rbind (ok_or () (gq_action q)) (\<lambda>a.
      rbind (ensure (ctx_allocation c = ctx_allocation actual \<and> ctx_generation c = ctx_generation actual) ()) (\<lambda>_.
      rbind (ensure (ctx_boot c = ctx_boot actual \<or> (a = AskHello \<and> ctx_boot c = [])) ()) (\<lambda>_.
      rbind (ensure (sg_files s \<noteq> None \<longrightarrow> tx_context (se_files (sx_files X)) = actual) ()) (\<lambda>_.
      Inr a)))))))))"

definition server_dispatch :: "server_env \<Rightarrow> guest_request \<Rightarrow> guest_response server" where
  "server_dispatch X q =
     sbind (sread (server_admits X q)) (\<lambda>x.
     sbind (slift x) (\<lambda>a.
     sbind (server_action X a) (\<lambda>r.
     sret \<lparr>ga_version = guest_wire_version, ga_id = gq_id q,
           ga_context = context_to_wire (gx_crates (sx_runner X)) (gx_context (sx_runner X)), ga_result = r\<rparr>)))"

text \<open>A connection carries one framed request and its framed answer.\<close>

definition serve_connection ::
    "server_env \<Rightarrow> (bytes \<Rightarrow> guest_request option) \<Rightarrow> (guest_response \<Rightarrow> bytes) \<Rightarrow> bytes \<Rightarrow> bytes server" where
  "serve_connection X decode encode stream =
     sbind (slift (read_frame decode stream)) (\<lambda>(q, _).
     sbind (server_dispatch X q) (\<lambda>r.
     slift (write_frame encode r)))"

end
