(* ===== verification/Guest_Service_Runs.thy ===== *)
theory Guest_Service_Runs
  imports Guest_Service
begin

text \<open>
  Runs of the whole guest: requests, the steps of a running command, changes of the workspace by
  others, expiry of captures and reboots. Every run is, for the runner and for the file engine, a
  run of theirs, so what is proved of the engines holds of the guest.
\<close>

section \<open>Runs\<close>

datatype server_op =
    SvRequest guest_request
  | SvTask guest_op
  | SvOutside workspace
  | SvReap
  | SvClose
  | SvReboot guest_boot workspace_boot

definition server_up :: "guest_server \<Rightarrow> bool" where
  "server_up s = (gu_up (sg_runner s) \<and> (case sg_files s of None \<Rightarrow> True | Some f \<Rightarrow> ft_up (fv_files f)))"

fun server_step :: "server_env \<Rightarrow> server_op \<Rightarrow> guest_server \<Rightarrow> guest_server" where
  "server_step X (SvRequest q) s = (if server_up s then snd (server_dispatch X q s) else s)"
| "server_step X (SvTask x) s = s\<lparr>sg_runner := guest_step (sx_runner X) x (sg_runner s)\<rparr>"
| "server_step X (SvOutside w) s = s\<lparr>sg_files := map_option (\<lambda>f. f\<lparr>fv_files := (fv_files f)\<lparr>ft_tree := w\<rparr>\<rparr>) (sg_files s)\<rparr>"
| "server_step X SvReap s = (if server_up s then snd (on_files (service_prune (sx_files X)) s) else s)"
| "server_step X SvClose s = (if server_up s then snd (on_files (service_shutdown (sx_files X)) s) else s)"
| "server_step X (SvReboot b w) s =
     s\<lparr>sg_runner := snd (guest_restart (sx_runner X) b (sg_runner s)),
       sg_files := map_option (\<lambda>f. snd (service_open (sx_files X) w f)) (sg_files s)\<rparr>"

fun server_run :: "server_env \<Rightarrow> server_op list \<Rightarrow> guest_server \<Rightarrow> guest_server" where
  "server_run X [] s = s"
| "server_run X (x # xs) s = server_run X xs (server_step X x s)"

section \<open>What the file engine's operations leave alone\<close>

definition transfer_core :: "transfer_state \<Rightarrow> bool \<times> nat" where
  "transfer_core s = (ft_up s, ft_downloads s)"

lemma transfer_core_updates [simp]:
  "transfer_core (s\<lparr>ft_dir := d\<rparr>) = transfer_core s" "transfer_core (ft_dir_update h s) = transfer_core s"
  "transfer_core (s\<lparr>ft_step := k\<rparr>) = transfer_core s" "transfer_core (s\<lparr>ft_failed := b\<rparr>) = transfer_core s"
  "transfer_core (s\<lparr>ft_barrier := x\<rparr>) = transfer_core s" "transfer_core (ft_barrier_update g s) = transfer_core s"
  "transfer_core (s\<lparr>ft_receipts := m\<rparr>) = transfer_core s" "transfer_core (ft_receipts_update g' s) = transfer_core s"
  "transfer_core (s\<lparr>ft_tree := t\<rparr>) = transfer_core s" "transfer_core (s\<lparr>ft_published := p\<rparr>) = transfer_core s"
  by (simp_all add: transfer_core_def)

abbreviation "core_kept c \<equiv> preserves (\<lambda>s. transfer_core s = c)"

lemma core_write [preserves_intro]: "(\<And>s. transfer_core (g s) = transfer_core s) \<Longrightarrow> core_kept c (swrite g)"
  by (simp add: preserves_def)

lemma core_fask [preserves_intro]: "core_kept c (fask h)"
  by (simp add: preserves_def fask_def)

lemma core_fencing [preserves_intro]: "core_kept c m \<Longrightarrow> core_kept c (fencing m)"
  by (fastforce simp: preserves_def fencing_def split: prod.splits sum.splits)

lemma core_healthy [preserves_intro]: "core_kept c healthy"
  unfolding healthy_def by (intro preserves_intro)

lemma core_write_json [preserves_intro]: "core_kept c (file_write_json G J n x)"
  unfolding file_write_json_def Let_def by (intro preserves_intro) simp_all

lemma core_remove [preserves_intro]: "core_kept c (file_remove G n)"
  unfolding file_remove_def by (intro preserves_intro) simp_all

lemma core_prune_files [preserves_intro]: "core_kept c (prune_files G b names)"
  by (induction names) (simp only: prune_files.simps, intro preserves_intro, assumption?)+

lemma core_prune [preserves_intro]: "core_kept c (file_prune G names b)"
  unfolding file_prune_def by (intro preserves_intro)

lemma core_save [preserves_intro]: "core_kept c (files_save G r)"
  unfolding files_save_def Let_def by (intro preserves_intro) simp

lemma core_parent [preserves_intro]: "core_kept c (root_parent G p)"
  unfolding root_parent_def by (intro preserves_intro)

lemma core_stage [preserves_intro]: "core_kept c (create_stage G i)"
  unfolding create_stage_def by (intro preserves_intro) simp

lemma core_append [preserves_intro]: "core_kept c (append_stage G n old data)"
  unfolding append_stage_def by (intro preserves_intro) simp_all

lemma core_check [preserves_intro]: "core_kept c (check_stage G u)"
  unfolding check_stage_def by (intro preserves_intro)

lemma core_publish [preserves_intro]: "core_kept c (publish_stage G u)"
  unfolding publish_stage_def Let_def by (intro preserves_intro) simp

lemma core_catch [preserves_intro]:
  assumes "core_kept c m" "core_kept c f" "\<And>a. core_kept c (g a)"
  shows "core_kept c (\<lambda>s. case m s of (Inl e, s') \<Rightarrow> f s' | (Inr a, s') \<Rightarrow> g a s')"
  using assms by (fastforce simp: preserves_def split: prod.splits sum.splits)

lemma core_begin [preserves_intro]: "core_kept c (files_begin G u)"
  unfolding files_begin_def by (intro preserves_intro)

lemma core_files_write [preserves_intro]: "core_kept c (files_write G i offset data)"
  unfolding files_write_def Let_def by (intro preserves_intro)

lemma core_commit [preserves_intro]: "core_kept c (files_commit G i)"
  unfolding files_commit_def by (intro preserves_intro)

lemma core_abort [preserves_intro]: "core_kept c (files_abort G i)"
  unfolding files_abort_def by (intro preserves_intro)

lemma core_inspect [preserves_intro]: "core_kept c (files_inspect i)"
  unfolding files_inspect_def by (intro preserves_intro)

lemma core_retire [preserves_intro]: "core_kept c (files_retire G b)"
  unfolding files_retire_def by (intro preserves_intro) simp_all

section \<open>What a request asks of the engines\<close>

text \<open>The action of a request that passes every guard of the server.\<close>

definition request_action :: "server_env \<Rightarrow> guest_request \<Rightarrow> guest_server \<Rightarrow> guest_action option" where
  "request_action X q s =
     (let C = gx_crates (sx_runner X); actual = gx_context (sx_runner X) in
      case (gq_context q, gq_action q) of
        (Some w, Some a) \<Rightarrow>
          (case context_of_wire C w of
             Inr c \<Rightarrow>
               if gq_version q = 1 \<and> is_ok (parse_operation C (gq_id q)) \<and>
                  ctx_allocation c = ctx_allocation actual \<and> ctx_generation c = ctx_generation actual \<and>
                  (ctx_boot c = ctx_boot actual \<or> a = AskHello \<and> ctx_boot c = []) \<and>
                  (sg_files s = None \<or> tx_context (se_files (sx_files X)) = actual)
               then Some a else None
           | Inl _ \<Rightarrow> None)
      | _ \<Rightarrow> None)"

text \<open>The barrier that a request to retire history names, when it is valid for this guest.\<close>

definition retired_barrier :: "server_env \<Rightarrow> wire_barrier \<Rightarrow> barrier option" where
  "retired_barrier X w =
     (case barrier_of_wire (gx_crates (sx_runner X)) w of
        Inl _ \<Rightarrow> None
      | Inr b \<Rightarrow>
          if is_ok (barrier_validate (gx_crates (sx_runner X)) b (gx_context (sx_runner X)) (bar_domain b))
          then Some b else None)"

definition runner_ops :: "server_env \<Rightarrow> guest_action \<Rightarrow> guest_op list" where
  "runner_ops X a =
     (let C = gx_crates (sx_runner X) in
      case a of
        AskExecute w \<Rightarrow>
          (case execute_of_wire C (gj_execute (gx_json (sx_runner X))) w of Inr x \<Rightarrow> [RqStart x] | Inl _ \<Rightarrow> [])
      | AskCancel i \<Rightarrow> (case parse_operation C i of Inr i \<Rightarrow> [RqCancel i] | Inl _ \<Rightarrow> [])
      | AskOutput q \<Rightarrow> [RqOutput q]
      | AskRetireHistory w \<Rightarrow>
          (case retired_barrier X w of
             Some b \<Rightarrow> if bar_domain b = Commands then [RqRetire b] else []
           | None \<Rightarrow> [])
      | _ \<Rightarrow> [])"

text \<open>The upload that a request names: its operation, under the digest the request carries.\<close>

definition upload_named :: "service_env \<Rightarrow> file_service \<Rightarrow> wire_file_operation \<Rightarrow> file_receipt option" where
  "upload_named V f w =
     (case validate_operation (tx_crates (se_files V)) w of
        Inl _ \<Rightarrow> None
      | Inr i \<Rightarrow>
          (case bt_get i (ft_receipts (fv_files f)) of
             Some r \<Rightarrow> if frcpt_digest r = wfo_digest w \<and> \<not> ft_failed (fv_files f) then Some r else None
           | None \<Rightarrow> None))"

definition on_upload :: "service_env \<Rightarrow> file_service \<Rightarrow> wire_file_operation \<Rightarrow> (operation_id \<Rightarrow> file_op) \<Rightarrow> file_op list" where
  "on_upload V f w h = (case upload_named V f w of Some r \<Rightarrow> [h (up_operation (frcpt_upload r))] | None \<Rightarrow> [])"

text \<open>Each capture that is given up is one release.\<close>

definition releases_of :: "(operation_id \<times> held_capture \<Rightarrow> bool) \<Rightarrow> file_service \<Rightarrow> file_op list" where
  "releases_of P f = replicate (length (filter P (fv_captures f))) FileRelease"

definition file_action_ops :: "service_env \<Rightarrow> guest_action \<Rightarrow> file_service \<Rightarrow> file_op list" where
  "file_action_ops V a f =
     (let G = se_files V; C = tx_crates G in
      case a of
        AskBeginUpload w \<Rightarrow> (case upload_of_wire C w of Inr u \<Rightarrow> [FileBegin u] | Inl _ \<Rightarrow> [])
      | AskWriteFile w \<Rightarrow>
          (case wwf_operation w of
             Some o' \<Rightarrow>
               if is_ok (validate_write C w) then on_upload V f o' (\<lambda>i. FileWrite i (wwf_offset w) (wwf_data w)) else []
           | None \<Rightarrow> [])
      | AskCommitUpload w \<Rightarrow> on_upload V f w FileCommit
      | AskAbortUpload w \<Rightarrow> on_upload V f w FileAbort
      | AskCaptureFile path \<Rightarrow>
          if is_ok (validate_path path) \<and> length (fv_captures f) < 8
          then FileCapture path #
            (if is_ok (fst (files_capture G path (fv_files f)))
             then releases_of (\<lambda>(i, _). i = sv_handle (se_world V) (fv_tick f)) f else [])
          else []
      | AskReleaseFile h \<Rightarrow>
          (case validate_handle C h of
             Inr i \<Rightarrow>
               (case bt_get i (fv_captures f) of
                  Some c \<Rightarrow> if wfc_sha256 (hc_descriptor c) = wfh_sha256 h then releases_of (\<lambda>(j, _). j = i) f else []
                | None \<Rightarrow> [])
           | Inl _ \<Rightarrow> [])
      | _ \<Rightarrow> [])"

text \<open>The worker, when it is free and open, first gives up what has expired, and then works.\<close>

definition pruned :: "service_env \<Rightarrow> file_service \<Rightarrow> file_service" where
  "pruned V f = snd (service_prune V f)"

definition expired :: "service_env \<Rightarrow> file_service \<Rightarrow> operation_id \<times> held_capture \<Rightarrow> bool" where
  "expired V f e = (hc_until (snd e) \<le> sv_instant (se_world V) (fv_tick f))"

definition worker_ops :: "service_env \<Rightarrow> (file_service \<Rightarrow> file_op list) \<Rightarrow> file_service \<Rightarrow> file_op list" where
  "worker_ops V work f =
     (if fv_closed f \<or> \<not> sv_free (se_world V) (fv_tick f) then []
      else let g = f\<lparr>fv_tick := Suc (fv_tick f)\<rparr> in releases_of (expired V g) g @ work (pruned V g))"

definition service_ops :: "server_env \<Rightarrow> guest_action \<Rightarrow> file_service \<Rightarrow> file_op list" where
  "service_ops X a f =
     (case a of
        AskRetireHistory w \<Rightarrow>
          (case retired_barrier X w of
             Some b \<Rightarrow> if bar_domain b = Commands then [] else worker_ops (sx_files X) (\<lambda>_. [FileRetire b]) f
           | None \<Rightarrow> [])
      | AskHello \<Rightarrow> []
      | AskExecute _ \<Rightarrow> []
      | AskInspect _ \<Rightarrow> []
      | AskCancel _ \<Rightarrow> []
      | AskOutput _ \<Rightarrow> []
      | _ \<Rightarrow> worker_ops (sx_files X) (file_action_ops (sx_files X) a) f)"

section \<open>The service performs exactly these operations\<close>

definition performs :: "service_env \<Rightarrow> 'a service \<Rightarrow> (file_service \<Rightarrow> file_op list) \<Rightarrow> bool" where
  "performs V m ops = (\<forall>f. ft_up (fv_files f) \<longrightarrow>
     ft_up (fv_files (snd (m f))) \<and> fv_files (snd (m f)) = file_run (se_files V) (ops f) (fv_files f))"

lemma performsD:
  assumes "performs V m ops" "ft_up (fv_files f)"
  shows "ft_up (fv_files (snd (m f)))" "fv_files (snd (m f)) = file_run (se_files V) (ops f) (fv_files f)"
  using assms unfolding performs_def by blast+

lemma in_files_snd: "in_files m f = (fst (m (fv_files f)), f\<lparr>fv_files := snd (m (fv_files f))\<rparr>)"
  by (simp add: in_files_def split: prod.split)

lemma core_up: "(\<And>c. core_kept c m) \<Longrightarrow> ft_up t \<Longrightarrow> ft_up (snd (m t))"
  using preservesD[of _ m t] unfolding transfer_core_def by blast

text \<open>Captures take a permit, and dropping one gives it back.\<close>

lemma capture_core:
  "outcome s (files_capture G p)
     (\<lambda>b t. t = s\<lparr>ft_downloads := Suc (ft_downloads s), ft_step := Suc (ft_step s)\<rparr> \<and>
        dl_sha256 b = sha256 (tx_crates G) (dl_bytes b))
     (\<lambda>t. ft_downloads t = ft_downloads s \<and> ft_up t = ft_up s)"
  unfolding files_capture_def acquire_permit_def release_permit_def
  by (auto simp: outcome_simps split: option.split work_entry.split)

lemma drop_captures_run:
  "ft_up t \<Longrightarrow> ft_up (drop_captures n t) \<and> drop_captures n t = file_run G (replicate n FileRelease) t"
proof (induction n arbitrary: t)
  case (Suc n)
  have "ft_up (snd (release_permit t))" using Suc.prems by (simp add: release_permit_def)
  from Suc.IH[OF this] show ?case using Suc.prems by (metis answered_def drop_captures.simps(2) file_run.simps(2) file_step.simps(7) replicate_Suc)
qed simp

lemma engine_up:
  assumes "ft_up t"
  shows "ft_up (snd (files_begin G u t))" "ft_up (snd (files_write G i n d t))" "ft_up (snd (files_commit G i t))"
    "ft_up (snd (files_abort G i t))" "ft_up (snd (files_retire G b t))"
  using assms by (auto intro!: core_up intro: preserves_intro)

lemma capture_up: "ft_up t \<Longrightarrow> ft_up (snd (files_capture G p t))"
  using capture_core[of t G p] by (auto simp: outcome_def split: prod.splits sum.splits)

lemma inspect_same: "files_inspect i t = (if ft_failed t then Inl () else Inr (bt_get i (ft_receipts t)), t)"
  by (simp add: files_inspect_def healthy_def sbind_def)

lemma upload_found:
  "service_upload V w f = (case upload_named V f w of Some r \<Rightarrow> (Inr r, f) | None \<Rightarrow> (Inl (), f))"
  by (auto simp: service_upload_def upload_named_def sbind_def in_files_snd inspect_same
      split: sum.split option.split)

lemma performs_keep: "performs V (keep_captures P) (releases_of (\<lambda>e. \<not> P e))"
  using drop_captures_run unfolding performs_def keep_captures_def releases_of_def by (fastforce simp: comp_def)

lemma performs_prune: "performs V (service_prune V) (\<lambda>f. releases_of (expired V f) f)"
  unfolding performs_def
proof (intro allI impI)
  fix f :: file_service assume up: "ft_up (fv_files f)"
  let ?P = "\<lambda>(_, c). sv_instant (se_world V) (fv_tick f) < hc_until c" and ?g = "f\<lparr>fv_tick := Suc (fv_tick f)\<rparr>"
  have "releases_of (\<lambda>e. \<not> ?P e) ?g = releases_of (expired V f) f"
    by (simp add: releases_of_def expired_def[abs_def] case_prod_unfold not_less)
  moreover have "snd (service_prune V f) = snd (keep_captures ?P ?g)"
    by (simp add: service_prune_def sbind_def vask_def)
  ultimately show "ft_up (fv_files (snd (service_prune V f))) \<and>
      fv_files (snd (service_prune V f)) = file_run (se_files V) (releases_of (expired V f) f) (fv_files f)"
    using performsD[OF performs_keep[of V ?P], of ?g] up by simp
qed

lemma performs_dispatch: "performs V (file_dispatch V a) (file_action_ops V a)"
  unfolding performs_def
proof (intro allI impI)
  fix f :: file_service assume up: "ft_up (fv_files f)"
  note step = answered_def engine_up capture_up in_files_snd sbind_def file_action_ops_def Let_def upload_found on_upload_def
  show "ft_up (fv_files (snd (file_dispatch V a f))) \<and>
      fv_files (snd (file_dispatch V a f)) = file_run (se_files V) (file_action_ops V a f) (fv_files f)"
  proof (cases a)
    case (AskCaptureFile path)
    let ?t = "snd (files_capture (se_files V) path (fv_files f))"
    show ?thesis
    proof (cases "is_ok (validate_path path) \<and> length (fv_captures f) < 8")
      case False
      then show ?thesis using up AskCaptureFile by (auto simp: step is_ok_def split: sum.split)
    next
      case ok: True
      show ?thesis
      proof (cases "files_capture (se_files V) path (fv_files f)")
        case (Pair r t)
        have t: "ft_up t" using capture_up[OF up, of "se_files V" path] Pair by simp
        show ?thesis
        proof (cases r)
          case (Inl e)
          then show ?thesis using up ok Pair t AskCaptureFile by (auto simp: step is_ok_def split: sum.splits)
        next
          case (Inr b)
          let ?i = "sv_handle (se_world V) (fv_tick f)"
          let ?g = "f\<lparr>fv_files := t, fv_tick := Suc (Suc (Suc (fv_tick f)))\<rparr>"
          have "fv_files (snd (file_dispatch V a f)) = fv_files (snd (keep_captures (\<lambda>(j, _). j \<noteq> ?i) ?g))"
          proof -
            obtain v where "validate_path path = Inr v" "length (fv_captures f) < 8" using ok by (auto simp: is_ok_iff)
            then show ?thesis using Pair Inr AskCaptureFile
              by (simp add: sbind_def in_files_snd vask_def hold_capture_def keep_captures_def Let_def ensure_def)
          qed
          moreover have "releases_of (\<lambda>e. \<not> (case e of (j, _) \<Rightarrow> j \<noteq> ?i)) ?g = releases_of (\<lambda>(j, _). j = ?i) f"
            by (simp add: releases_of_def case_prod_unfold)
          ultimately show ?thesis
            using performsD[OF performs_keep[of V "\<lambda>(j, _). j \<noteq> ?i"], of ?g] t up ok Pair Inr AskCaptureFile
            by (simp add: file_action_ops_def Let_def answered_def is_ok_def)
        qed
      qed
    qed
  next
    case (AskReleaseFile h)
    show ?thesis
    proof (cases "validate_handle (tx_crates (se_files V)) h")
      case (Inl e)
      then show ?thesis using up AskReleaseFile by (simp add: step)
    next
      case (Inr i)
      have r: "releases_of (\<lambda>e. \<not> (case e of (j, _) \<Rightarrow> j \<noteq> i)) f = releases_of (\<lambda>(j, _). j = i) f"
        by (simp add: releases_of_def case_prod_unfold)
      show ?thesis using up AskReleaseFile Inr performsD[OF performs_keep[of V "\<lambda>(j, _). j \<noteq> i"] up] r
        by (auto simp: sbind_def file_action_ops_def Let_def service_capture_def bt_contains_def split: option.split)
          (auto simp: keep_captures_def)
    qed
  qed (use up in \<open>auto simp: step is_ok_def service_capture_def validate_write_def split: sum.split option.split\<close>)
qed

lemma performs_worker:
  assumes "performs V m ops"
  shows "performs V (service_run V m) (worker_ops V ops)"
  unfolding performs_def
proof (intro allI impI)
  fix f :: file_service assume up: "ft_up (fv_files f)"
  show "ft_up (fv_files (snd (service_run V m f))) \<and>
      fv_files (snd (service_run V m f)) = file_run (se_files V) (worker_ops V ops f) (fv_files f)"
  proof (cases "fv_closed f \<or> \<not> sv_free (se_world V) (fv_tick f)")
    case True
    then show ?thesis using up
      by (cases "fv_closed f") (auto simp: service_run_def worker_ops_def sbind_def vask_def ensure_def)
  next
    case False
    let ?g = "f\<lparr>fv_tick := Suc (fv_tick f)\<rparr>"
    have g: "ft_up (fv_files ?g)" using up by simp
    obtain u h where h: "service_prune V ?g = (Inr u, h)"
      by (simp add: service_prune_def sbind_def vask_def keep_captures_def)
    have "ft_up (fv_files h)" "fv_files h = file_run (se_files V) (releases_of (expired V ?g) ?g) (fv_files f)"
      using performsD[OF performs_prune[of V] g] h by simp_all
    moreover have "fv_files (snd (service_run V m f)) = fv_files (snd (m h))"
      using False h by (auto simp: service_run_def sbind_def vask_def split: prod.split sum.split)
    ultimately show ?thesis using False performsD[OF assms, of h] h
      by (simp add: worker_ops_def Let_def pruned_def file_run_append)
  qed
qed

lemma performs_retire: "performs V (service_retire V b) (worker_ops V (\<lambda>_. [FileRetire b]))"
  unfolding service_retire_def
  by (rule performs_worker) (simp add: performs_def in_files_snd answered_def engine_up)

section \<open>The whole guest as runs of its engines\<close>

text \<open>
  The operations of the runner and of the file engine in a step of the guest, and the file
  service after it.
\<close>

definition step_runner_ops :: "server_env \<Rightarrow> server_op \<Rightarrow> guest_server \<Rightarrow> guest_op list" where
  "step_runner_ops X x s =
     (case x of
        SvRequest q \<Rightarrow>
          (case request_action X q s of Some a \<Rightarrow> if server_up s then runner_ops X a else [] | None \<Rightarrow> [])
      | SvTask y \<Rightarrow> [y]
      | SvReboot b w \<Rightarrow> [Restart b]
      | _ \<Rightarrow> [])"

definition step_file_ops :: "server_env \<Rightarrow> server_op \<Rightarrow> guest_server \<Rightarrow> file_op list" where
  "step_file_ops X x s =
     (case sg_files s of
        None \<Rightarrow> []
      | Some f \<Rightarrow>
          (case x of
             SvRequest q \<Rightarrow>
               (case request_action X q s of Some a \<Rightarrow> if server_up s then service_ops X a f else [] | None \<Rightarrow> [])
           | SvTask y \<Rightarrow> []
           | SvOutside w \<Rightarrow> [FileOutside w]
           | SvReap \<Rightarrow> if server_up s then releases_of (expired (sx_files X) f) f else []
           | SvClose \<Rightarrow>
               if server_up s \<and> sv_in_time (se_world (sx_files X)) (fv_tick f) then releases_of (\<lambda>_. True) f else []
           | SvReboot b w \<Rightarrow> [FileReopen w]))"

fun runner_trace :: "server_env \<Rightarrow> server_op list \<Rightarrow> guest_server \<Rightarrow> guest_op list" where
  "runner_trace X [] s = []"
| "runner_trace X (x # xs) s = step_runner_ops X x s @ runner_trace X xs (server_step X x s)"

fun file_trace :: "server_env \<Rightarrow> server_op list \<Rightarrow> guest_server \<Rightarrow> file_op list" where
  "file_trace X [] s = []"
| "file_trace X (x # xs) s = step_file_ops X x s @ file_trace X xs (server_step X x s)"

definition acts :: "server_env \<Rightarrow> guest_server \<Rightarrow> guest_op list \<Rightarrow> file_op list \<Rightarrow> guest_server \<Rightarrow> bool" where
  "acts X s ys xs t =
     (sg_runner t = guest_run (sx_runner X) ys (sg_runner s) \<and>
      (case sg_files s of
         None \<Rightarrow> sg_files t = None
       | Some f \<Rightarrow> \<exists>g. sg_files t = Some g \<and> fv_files g = file_run (se_files (sx_files X)) xs (fv_files f)))"

lemma acts_none: "acts X s [] [] s"
  by (simp add: acts_def split: option.split)

lemma acts_append: "acts X s ys xs t \<Longrightarrow> acts X t ys' xs' u \<Longrightarrow> acts X s (ys @ ys') (xs @ xs') u"
  unfolding acts_def by (auto simp: guest_run_append file_run_append split: option.splits)

lemma acts_files:
  assumes "performs (sx_files X) m ops" "server_up s"
  shows "acts X s [] (case sg_files s of None \<Rightarrow> [] | Some f \<Rightarrow> ops f) (snd (on_files m s))"
proof (cases "sg_files s")
  case None
  then show ?thesis by (simp add: on_files_def acts_def)
next
  case (Some f)
  then have "ft_up (fv_files f)" using assms(2) by (simp add: server_up_def)
  from performsD(2)[OF assms(1) this] Some show ?thesis
    by (auto simp: on_files_def acts_def split: prod.split)
qed

lemma acts_runner:
  assumes "snd (m (sg_runner s)) = guest_run (sx_runner X) ys (sg_runner s)"
  shows "acts X s ys [] (snd (on_runner m s))"
  using assms by (auto simp: on_runner_def acts_def split: prod.split option.split)

lemma answer_or_snd [simp]: "snd (answer_or e m g s) = snd (m s)"
  by (simp add: answer_or_def split: prod.split sum.split)

lemma sbind_read_snd [simp]: "snd (sbind (sread g) f s) = snd (f (g s) s)"
  by (simp add: sbind_def)

lemma sbind_lift_snd: "snd (sbind (slift x) f s) = (case x of Inl _ \<Rightarrow> s | Inr a \<Rightarrow> snd (f a s))"
  by (simp add: sbind_def split: sum.split)

lemma sbind_ret_snd: "snd (sbind m (\<lambda>a. sret (g a)) s) = snd (m s)"
  by (simp add: sbind_def split: prod.split sum.split)

lemma option_none: "(case z of None \<Rightarrow> [] | Some f \<Rightarrow> []) = []"
  by (cases z) simp_all

lemma acts_retire:
  assumes "server_up s"
  shows "acts X s (runner_ops X (AskRetireHistory w))
    (case sg_files s of None \<Rightarrow> [] | Some f \<Rightarrow> service_ops X (AskRetireHistory w) f) (snd (server_retire X w s))"
proof (cases "retired_barrier X w")
  case None
  then show ?thesis using acts_none[of X s]
    by (auto simp: server_retire_def sbind_lift_snd runner_ops_def service_ops_def retired_barrier_def option_none is_ok_def
        split: sum.splits if_splits cong: option.case_cong)
next
  case (Some b)
  then have guards: "barrier_of_wire (gx_crates (sx_runner X)) w = Inr b"
    "is_ok (barrier_validate (gx_crates (sx_runner X)) b (gx_context (sx_runner X)) (bar_domain b))"
    by (auto simp: retired_barrier_def split: sum.splits if_splits)
  show ?thesis
  proof (cases "bar_domain b")
    case Commands
    have "acts X s [RqRetire b] [] (snd (on_runner (guest_retire_history (sx_runner X) b) s))"
      using assms by (intro acts_runner) (simp add: served_def server_up_def)
    then show ?thesis using Some guards Commands
      by (auto simp: server_retire_def sbind_lift_snd runner_ops_def service_ops_def option_none is_ok_def split: sum.splits cong: option.case_cong)
  next
    case FilesDomain
    from acts_files[OF performs_retire assms, of X b] show ?thesis using Some guards FilesDomain
      by (auto simp: server_retire_def sbind_lift_snd runner_ops_def service_ops_def is_ok_def split: sum.splits cong: option.case_cong)
  qed
qed

lemma acts_action:
  assumes up: "server_up s"
  shows "acts X s (runner_ops X a) (case sg_files s of None \<Rightarrow> [] | Some f \<Rightarrow> service_ops X a f)
    (snd (server_action X a s))"
proof -
  have r: "gu_up (sg_runner s)" using up by (simp add: server_up_def)
  have st: "acts X s [RqStart x] [] (snd (on_runner (guest_start (sx_runner X) x) s))"
    and ca: "acts X s [RqCancel i] [] (snd (on_runner (guest_cancel (sx_runner X) i) s))"
    and ou: "acts X s [RqOutput q] [] (snd (on_runner (guest_output (sx_runner X) q) s))"
    and ins: "acts X s [] [] (snd (on_runner (guest_inspect i) s))" for x i q
    using r by (auto intro!: acts_runner simp: served_def guest_inspect_def)
  have fi: "acts X s [] (case sg_files s of None \<Rightarrow> [] | Some f \<Rightarrow> worker_ops (sx_files X) (file_action_ops (sx_files X) a) f)
      (snd (server_files X a s))"
    using acts_files[OF performs_worker[OF performs_dispatch] up, of X a] acts_none[of X s]
    by (auto simp: server_files_def split: option.splits)
  show ?thesis
    using acts_retire[OF up] fi st ca ou ins acts_none[of X s]
    by (cases a) (auto simp: server_action_def runner_ops_def service_ops_def Let_def sbind_ret_snd option_none split: sum.split cong: option.case_cong)
qed

lemma admits_action: "server_admits X q s = (case request_action X q s of Some a \<Rightarrow> Inr a | None \<Rightarrow> Inl ())"
  by (cases "gq_action q"; cases "gq_context q"; cases "context_of_wire (gx_crates (sx_runner X)) (the (gq_context q))")
    (auto simp: server_admits_def request_action_def Let_def guest_wire_version_def is_ok_def map_err_def ensure_def ok_or_def
      split: option.splits sum.splits)

lemma acts_step: "acts X s (step_runner_ops X x s) (step_file_ops X x s) (server_step X x s)"
proof (cases x)
  case (SvRequest q)
  show ?thesis
  proof (cases "request_action X q s")
    case None
    then show ?thesis using SvRequest acts_none[of X s]
      by (simp add: step_runner_ops_def step_file_ops_def server_dispatch_def sbind_lift_snd admits_action option_none cong: option.case_cong)
  next
    case (Some a)
    then show ?thesis using SvRequest acts_action[of s X a] acts_none[of X s]
      by (auto simp: step_runner_ops_def step_file_ops_def server_dispatch_def sbind_lift_snd sbind_ret_snd admits_action
          option_none split: option.split cong: option.case_cong)
  qed
next
  case (SvTask y)
  then show ?thesis by (simp add: acts_def step_runner_ops_def step_file_ops_def split: option.split)
next
  case (SvOutside w)
  then show ?thesis by (simp add: acts_def step_runner_ops_def step_file_ops_def split: option.split)
next
  case SvReap
  then show ?thesis using acts_files[OF performs_prune, of s X] acts_none[of X s]
    by (auto simp: step_runner_ops_def step_file_ops_def option_none split: option.splits cong: option.case_cong)
next
  case SvClose
  have "performs V (service_shutdown V) (\<lambda>f. if sv_in_time (se_world V) (fv_tick f) then releases_of (\<lambda>_. True) f else [])" for V
    unfolding performs_def
  proof (intro allI impI)
    fix f :: file_service assume up: "ft_up (fv_files f)"
    let ?g = "f\<lparr>fv_closed := True, fv_tick := Suc (fv_tick f)\<rparr>"
    have "releases_of (\<lambda>e. \<not> False) ?g = releases_of (\<lambda>_. True) f" by (simp add: releases_of_def)
    then show "ft_up (fv_files (snd (service_shutdown V f))) \<and> fv_files (snd (service_shutdown V f)) =
        file_run (se_files V) (if sv_in_time (se_world V) (fv_tick f) then releases_of (\<lambda>_. True) f else []) (fv_files f)"
      using performsD[OF performs_keep[of V "\<lambda>_. False"], of ?g] up
      by (simp add: service_shutdown_def sbind_def vask_def ensure_def)
  qed
  from acts_files[OF this, of s X] SvClose acts_none[of X s] show ?thesis
    by (auto simp: step_runner_ops_def step_file_ops_def option_none split: option.splits cong: option.case_cong)
next
  case (SvReboot b w)
  have "fv_files (snd (service_open (sx_files X) w f)) = snd (transfers_restart (se_files (sx_files X)) w (fv_files f))" for f
    by (simp add: service_open_def in_files_def sbind_def split: prod.split sum.split)
  then show ?thesis using SvReboot by (simp add: acts_def step_runner_ops_def step_file_ops_def split: option.split)
qed

lemma acts_run: "acts X s (runner_trace X ops s) (file_trace X ops s) (server_run X ops s)"
  by (induction ops arbitrary: s) (auto intro: acts_none acts_append acts_step)

end
