(* ===== verification/Guest_Captures.thy ===== *)
theory Guest_Captures
  imports Guest_Service_Runs
begin

text \<open>
  What a guest holds of captured files: each handle names bytes with the digest it shows, and the
  permits that are out are exactly those of the captures.
\<close>

section \<open>The invariant\<close>

definition capture_ok :: "service_env \<Rightarrow> operation_id \<times> held_capture \<Rightarrow> bool" where
  "capture_ok V e =
     (case e of (i, c) \<Rightarrow>
        wfc_capture (hc_descriptor c) = show_operation (tx_crates (se_files V)) i \<and>
        wfc_sha256 (hc_descriptor c) = sha256 (tx_crates (se_files V)) (dl_bytes (hc_bytes c)) \<and>
        wfc_size (hc_descriptor c) = length (dl_bytes (hc_bytes c)))"

definition captures_ok :: "service_env \<Rightarrow> file_service \<Rightarrow> bool" where
  "captures_ok V f =
     (list_all (capture_ok V) (fv_captures f) \<and> ft_downloads (fv_files f) = length (fv_captures f) \<and>
      length (fv_captures f) \<le> 8)"

lemma drop_captures_downloads: "ft_downloads (drop_captures n t) = ft_downloads t - n"
  by (induction n arbitrary: t) (simp_all add: release_permit_def)

lemma captures_keep [preserves_intro]: "preserves (captures_ok V) (keep_captures P)"
proof (rule preservesI)
  fix f assume f: "captures_ok V f"
  have "length (filter P (fv_captures f)) + length (filter (\<lambda>c. \<not> P c) (fv_captures f)) = length (fv_captures f)"
    by (rule sum_length_filter_compl)
  then show "captures_ok V (snd (keep_captures P f))"
    using f by (auto simp: keep_captures_def captures_ok_def drop_captures_downloads list_all_iff)
qed

lemma captures_ask [preserves_intro]: "preserves (captures_ok V) (vask h)"
  by (simp add: preserves_def vask_def captures_ok_def)

lemma captures_write [preserves_intro]:
  "(\<And>f. fv_files (g f) = fv_files f \<and> fv_captures (g f) = fv_captures f) \<Longrightarrow> preserves (captures_ok V) (swrite g)"
  by (simp add: preserves_def captures_ok_def)

lemma captures_files:
  assumes "\<And>c. core_kept c m"
  shows "preserves (captures_ok V) (in_files m)"
proof (rule preservesI)
  fix f assume f: "captures_ok V f"
  have "transfer_core (snd (m (fv_files f))) = transfer_core (fv_files f)" using preservesD[OF assms] by blast
  then show "captures_ok V (snd (in_files m f))"
    using f by (cases "m (fv_files f)") (simp add: in_files_def captures_ok_def transfer_core_def)
qed

lemma captures_engine [preserves_intro]:
  "preserves (captures_ok V) (in_files (files_begin G u))" "preserves (captures_ok V) (in_files (files_write G i offset data))"
  "preserves (captures_ok V) (in_files (files_commit G i))" "preserves (captures_ok V) (in_files (files_abort G i))"
  "preserves (captures_ok V) (in_files (files_inspect i))" "preserves (captures_ok V) (in_files (files_retire G b))"
  by (rule captures_files, intro preserves_intro)+

lemma captures_prune [preserves_intro]: "preserves (captures_ok V) (service_prune V')"
  unfolding service_prune_def by (intro preserves_intro)

lemma captures_upload [preserves_intro]: "preserves (captures_ok V) (service_upload V' w)"
  unfolding service_upload_def by (intro preserves_intro)

lemma captures_held [preserves_intro]: "preserves (captures_ok V) (service_capture V' h)"
  unfolding service_capture_def by (intro preserves_intro)

section \<open>Holding a capture\<close>

lemma insert_fresh_length: "\<not> bt_contains i m \<Longrightarrow> length (bt_insert i c m) = Suc (length m)"
  by (induction i c m rule: bt_insert.induct) (auto simp: bt_contains_def split: if_splits)

lemma insert_all: "P (i, c) \<Longrightarrow> list_all P m \<Longrightarrow> list_all P (bt_insert i c m)"
  by (induction i c m rule: bt_insert.induct) auto

lemma hold_captures:
  assumes all: "list_all (capture_ok V) (fv_captures f)" and n: "ft_downloads (fv_files f) = Suc (length (fv_captures f))"
    and room: "length (fv_captures f) < 8" and c: "capture_ok V (i, c)"
  shows "captures_ok V (snd (hold_capture i c f))"
proof -
  let ?m = "filter (\<lambda>(j, _). j \<noteq> i) (fv_captures f)"
  have part: "length ?m + length (filter (\<lambda>e. \<not> (case e of (j, _) \<Rightarrow> j \<noteq> i)) (fv_captures f)) = length (fv_captures f)"
    by (rule sum_length_filter_compl)
  have "bt_get i (filter (\<lambda>(j, _). j \<noteq> i) m) = None" for m :: "(operation_id, held_capture) btmap"
    by (induction m) auto
  then have "length (bt_insert i c ?m) = Suc (length ?m)" by (intro insert_fresh_length) (simp add: bt_contains_def)
  moreover have "list_all (capture_ok V) (bt_insert i c ?m)"
    using all c by (intro insert_all) (auto simp: list_all_iff)
  ultimately show ?thesis
    using n room part
    by (simp add: hold_capture_def keep_captures_def sbind_def captures_ok_def drop_captures_downloads)
qed

lemma captures_dispatch_capture: "preserves (captures_ok V) (file_dispatch V (AskCaptureFile p))"
proof (rule preservesI)
  fix f assume f: "captures_ok V f"
  have cap: "outcome f (in_files (files_capture (se_files V) p))
      (\<lambda>b g. fv_captures g = fv_captures f \<and> ft_downloads (fv_files g) = Suc (ft_downloads (fv_files f)) \<and>
         dl_sha256 b = sha256 (tx_crates (se_files V)) (dl_bytes b))
      (\<lambda>g. fv_captures g = fv_captures f \<and> ft_downloads (fv_files g) = ft_downloads (fv_files f))"
    using capture_core[of "fv_files f" "se_files V" p]
    by (auto simp: outcome_def in_files_def split: prod.splits sum.splits)
  have ask: "outcome g (vask h) Q E = Q (h (fv_tick g)) (g\<lparr>fv_tick := Suc (fv_tick g)\<rparr>)" for g h Q E
    by (simp add: outcome_def vask_def)
  have hold: "outcome g (hold_capture i c) Q E = Q () (snd (hold_capture i c g))" for g i c Q E
    by (simp add: outcome_def hold_capture_def keep_captures_def sbind_def)
  let ?hold = "\<lambda>b. sbind (vask (sv_handle (se_world V))) (\<lambda>i. sbind (vask (sv_now (se_world V))) (\<lambda>now.
     sbind (vask (sv_instant (se_world V))) (\<lambda>instant.
     let d = \<lparr>wfc_capture = show_operation (tx_crates (se_files V)) i, wfc_path = p, wfc_size = length (dl_bytes b),
              wfc_sha256 = dl_sha256 b, wfc_expires = now + int capture_ttl_secs * 1000\<rparr> in
     sbind (hold_capture i \<lparr>hc_descriptor = d, hc_bytes = b, hc_until = instant + capture_ttl_secs * 1000000000\<rparr>) (\<lambda>_.
     sret (GotFileCapture d)))))"
  have "outcome f (in_files (files_capture (se_files V) p)) (\<lambda>b g. outcome g (?hold b) (\<lambda>_. captures_ok V) (captures_ok V))
      (captures_ok V)" if room: "length (fv_captures f) < 8"
  proof (rule outcome_mono[OF cap])
    fix b :: download and g :: file_service assume g: "fv_captures g = fv_captures f \<and> ft_downloads (fv_files g) = Suc (ft_downloads (fv_files f)) \<and>
         dl_sha256 b = sha256 (tx_crates (se_files V)) (dl_bytes b)"
    show "outcome g (?hold b) (\<lambda>_. captures_ok V) (captures_ok V)"
      unfolding Let_def outcome_sbind ask hold outcome_basic(1)
      by (rule hold_captures) (use f g room in \<open>simp_all add: captures_ok_def capture_ok_def\<close>)
  qed (use f in \<open>simp add: captures_ok_def\<close>)
  then have "outcome f (file_dispatch V (AskCaptureFile p)) (\<lambda>_. captures_ok V) (captures_ok V)"
    using f by (auto simp: outcome_simps)
  then show "captures_ok V (snd (file_dispatch V (AskCaptureFile p) f))" by (simp only: outcome_snd)
qed

lemma captures_dispatch [preserves_intro]: "preserves (captures_ok V) (file_dispatch V a)"
proof (cases a)
  case (AskCaptureFile p)
  then show ?thesis by (simp only: captures_dispatch_capture)
qed (simp_all only: file_dispatch.simps Let_def, (intro preserves_intro)+)

lemma captures_run [preserves_intro]: "preserves (captures_ok V) m \<Longrightarrow> preserves (captures_ok V) (service_run V m)"
  unfolding service_run_def by (intro preserves_intro)

section \<open>Every step\<close>

lemma captures_on_files:
  assumes m: "preserves (captures_ok V) m" and s: "pred_option (captures_ok V) (sg_files s)"
  shows "pred_option (captures_ok V) (sg_files (snd (on_files m s)))"
proof (cases "sg_files s")
  case (Some f)
  then have "captures_ok V (snd (m f))" using m s by (simp add: preserves_def)
  then show ?thesis using Some by (cases "m f") (simp add: on_files_def)
qed (simp add: on_files_def)

lemma files_on_runner [simp]: "sg_files (snd (on_runner m s)) = sg_files s"
  by (simp add: on_runner_def split: prod.split)

lemma captures_action:
  assumes "pred_option (captures_ok (sx_files X)) (sg_files s)"
  shows "pred_option (captures_ok (sx_files X)) (sg_files (snd (server_action X a s)))"
proof -
  have f: "pred_option (captures_ok (sx_files X)) (sg_files (snd (server_files X a s)))" for a
    unfolding server_files_def using assms
    by (auto split: option.split intro!: captures_on_files preserves_intro)
  have r: "pred_option (captures_ok (sx_files X)) (sg_files (snd (server_retire X w s)))" for w
    unfolding server_retire_def service_retire_def using assms
    by (auto simp: sbind_lift_snd split: sum.split domain.split intro!: captures_on_files preserves_intro)
  show ?thesis
    using assms f r by (cases a) (auto simp: server_action_def Let_def sbind_ret_snd split: sum.split)
qed

lemma core_outcome: "core_kept (transfer_core s) m \<Longrightarrow> outcome s m (\<lambda>_ t. transfer_core t = transfer_core s) (\<lambda>t. transfer_core t = transfer_core s)"
  by (simp add: outcome_snd preserves_def)

text \<open>An opening releases every permit.\<close>

lemma core_root [preserves_intro]: "core_kept c (root_open G w)"
  unfolding root_open_def by (intro preserves_intro) simp

lemma core_binding [preserves_intro]: "core_kept c (file_binding G names)"
  unfolding file_binding_def by (intro preserves_intro)

lemma core_load_entry [preserves_intro]: "core_kept c (load_entry G acc name)"
  unfolding load_entry_def load_receipt_def recover_intent_def by (intro preserves_intro)

lemma core_load_entries [preserves_intro]: "core_kept c (load_entries G acc names)"
  by (induction names arbitrary: acc) (simp only: load_entries.simps, intro preserves_intro, assumption?)+

lemma core_clean [preserves_intro]: "core_kept c (clean_entries G m names)"
proof -
  have "core_kept c (clean_entry G m name)" for name
    unfolding clean_entry_def by (intro preserves_intro)
  note e = this
  show ?thesis
    by (induction names) (simp_all only: clean_entries.simps preserves_pure(1), intro preserves_intro e)
qed

lemma keep_then:
  assumes "core_kept (transfer_core s) m"
    and "\<And>a t. transfer_core t = transfer_core s \<Longrightarrow> outcome t (f a) Q E"
    and "\<And>t. transfer_core t = transfer_core s \<Longrightarrow> E t"
  shows "outcome s (sbind m f) Q E"
  unfolding outcome_sbind by (rule outcome_mono[OF core_outcome[OF assms(1)]]) (use assms(2,3) in auto)

lemma restart_downloads:
  "outcome s (transfers_restart G w) (\<lambda>_ t. ft_downloads t = 0) (\<lambda>t. ft_downloads t = ft_downloads s)"
proof -
  let ?c = "transfer_core (ft_up_update (\<lambda>_. False) s)"
  have E: "ft_downloads t = ft_downloads s" if "transfer_core t = ?c" for t
    using that by (simp add: transfer_core_def)
  have ld: "outcome t (load_transfers G b) (\<lambda>_ t. ft_downloads t = 0) (\<lambda>t. ft_downloads t = ft_downloads s)"
    if t: "transfer_core t = ?c" for t b
    unfolding load_transfers_def case_prod_unfold
    using t by (intro keep_then preserves_intro; (intro E)?; simp add: outcome_simps)
  have op: "outcome t (transfers_open G w) (\<lambda>_ t. ft_downloads t = 0) (\<lambda>t. ft_downloads t = ft_downloads s)"
    if t: "transfer_core t = ?c" for t
    unfolding transfers_open_def
    using t by (intro keep_then preserves_intro ld; (intro E)?; simp)
  show ?thesis unfolding transfers_restart_def outcome_sbind outcome_basic(4) by (rule op) simp
qed

lemma captures_open: "captures_ok V f \<Longrightarrow> captures_ok V (snd (service_open V w f))"
  using restart_downloads[of "fv_files f" "se_files V" w]
  by (auto simp: service_open_def sbind_def in_files_def captures_ok_def outcome_def split: prod.splits sum.splits)

theorem captures_step:
  assumes "pred_option (captures_ok (sx_files X)) (sg_files s)"
  shows "pred_option (captures_ok (sx_files X)) (sg_files (server_step X x s))"
proof (cases x)
  case (SvRequest q)
  then show ?thesis using assms captures_action
    by (auto simp: server_dispatch_def sbind_lift_snd sbind_ret_snd split: sum.split)
next
  case (SvOutside w)
  then show ?thesis using assms by (cases "sg_files s") (simp_all add: captures_ok_def)
next
  case SvReap
  then show ?thesis using assms captures_on_files[OF captures_prune] by simp
next
  case SvClose
  have "preserves (captures_ok (sx_files X)) (service_shutdown (sx_files X))"
    unfolding service_shutdown_def by (intro preserves_intro) simp
  from captures_on_files[OF this assms] show ?thesis using SvClose assms by simp
next
  case (SvReboot b w)
  then show ?thesis using assms captures_open by (cases "sg_files s") simp_all
qed (use assms in simp)

theorem captures_run_inv:
  "pred_option (captures_ok (sx_files X)) (sg_files s) \<Longrightarrow> pred_option (captures_ok (sx_files X)) (sg_files (server_run X xs s))"
  by (induction xs arbitrary: s) (simp_all add: captures_step)

section \<open>Reading\<close>

text \<open>What a chunk shows of the bytes whose digest its handle carries.\<close>

definition chunk_of :: "crates \<Rightarrow> wire_file_chunk \<Rightarrow> bytes \<Rightarrow> bool" where
  "chunk_of C k b =
     (\<exists>h. wck_handle k = Some h \<and> sha256 C b = wfh_sha256 h \<and> wck_size k = length b \<and>
        wck_data k = take (length (wck_data k)) (drop (wck_offset k) b) \<and>
        wck_next k = wck_offset k + length (wck_data k) \<and> wck_next k \<le> length b \<and>
        (wck_at_end k \<longleftrightarrow> wck_next k = length b) \<and> (wck_data k = [] \<longrightarrow> wck_at_end k))"

lemma bt_get_all: "list_all P m \<Longrightarrow> bt_get i m = Some c \<Longrightarrow> P (i, c)"
  by (auto simp: list_all_iff dest: bt_get_in_set)

lemma read_chunk:
  assumes c: "capture_ok V (i, c)" and d: "download_chunk (hc_bytes c) n limit = Inr data"
    and h: "wfc_sha256 (hc_descriptor c) = wfh_sha256 h"
  shows "chunk_of (tx_crates (se_files V)) \<lparr>wck_handle = Some h, wck_offset = n, wck_data = data, wck_next = n + length data,
       wck_size = wfc_size (hc_descriptor c), wck_at_end = (n + length data = wfc_size (hc_descriptor c))\<rparr> (dl_bytes (hc_bytes c))"
proof -
  let ?b = "dl_bytes (hc_bytes c)"
  have lim: "1 \<le> limit" "n \<le> length ?b" and data: "data = take (min (length ?b) (n + limit) - n) (drop n ?b)"
    using d by (auto simp: download_chunk_def)
  have "length data = min (length ?b) (n + limit) - n" using lim by (simp add: data)
  then show ?thesis using c h lim by (auto simp: chunk_of_def capture_ok_def data)
qed

lemma dispatch_chunk:
  assumes "captures_ok V f" "file_dispatch V a f = (Inr (GotFileChunk k), g)"
  shows "\<exists>b. chunk_of (tx_crates (se_files V)) k b"
proof (cases a)
  case (AskReadFile w)
  then obtain h i c data where "wrf_handle w = Some h" "bt_get i (fv_captures f) = Some c"
    "wfc_sha256 (hc_descriptor c) = wfh_sha256 h" "download_chunk (hc_bytes c) (wrf_offset w) (wrf_limit w) = Inr data"
    "k = \<lparr>wck_handle = Some h, wck_offset = wrf_offset w, wck_data = data, wck_next = wrf_offset w + length data,
       wck_size = wfc_size (hc_descriptor c), wck_at_end = (wrf_offset w + length data = wfc_size (hc_descriptor c))\<rparr>"
    using assms(2) by (auto simp: service_capture_def Let_def)
  moreover from this have "capture_ok V (i, c)"
    using assms(1) by (auto simp: captures_ok_def intro: bt_get_all)
  ultimately show ?thesis using read_chunk by blast
qed (use assms(2) in \<open>auto simp: file_answer_def Let_def split: if_splits\<close>)

lemma service_chunk:
  assumes f: "captures_ok V f" and r: "service_run V (file_dispatch V a) f = (Inr (GotFileChunk k), g)"
  shows "\<exists>b. chunk_of (tx_crates (se_files V)) k b"
proof -
  obtain f1 f2 u f3 where "vask (sv_free (se_world V)) f = (Inr u, f1)" "service_prune V f1 = (Inr (), f2)"
    "file_dispatch V a f2 = (Inr (GotFileChunk k), f3)"
    using r unfolding service_run_def by (auto simp: vask_def)
  moreover from this have "captures_ok V f2"
    using f preservesD[OF captures_ask] preservesD[OF captures_prune] by (metis snd_conv)
  ultimately show ?thesis using dispatch_chunk by blast
qed

lemma server_chunk:
  assumes s: "pred_option (captures_ok (sx_files X)) (sg_files s)"
    and r: "server_dispatch X q s = (Inr r, t)" "ga_result r = GotFileChunk k"
  shows "\<exists>b. chunk_of (tx_crates (se_files (sx_files X))) k b"
proof -
  obtain a where a: "server_action X a s = (Inr (GotFileChunk k), t)"
    using r by (auto simp: server_dispatch_def)
  have "\<exists>b. chunk_of (tx_crates (se_files (sx_files X))) k b" if "server_files X a s = (Inr (GotFileChunk k), t)" for a
  proof (cases "sg_files s")
    case (Some f)
    obtain x g where x: "service_run (sx_files X) (file_dispatch (sx_files X) a) f = (x, g)" by fastforce
    then show ?thesis using that Some s service_chunk[of "sx_files X" f a k g]
      by (cases x) (auto simp: server_files_def answer_or_def on_files_def)
  qed (use that in \<open>simp add: server_files_def\<close>)
  then show ?thesis using a
    by (cases a) (auto simp: server_action_def Let_def answer_or_def split: sum.splits prod.splits option.splits)
qed

end
