(* ===== verification/Guest_Service_Properties.thy ===== *)
theory Guest_Service_Properties
  imports Guest_Captures Guest_Samples Guest_File_Samples
begin

text \<open>What the whole guest promises to whoever speaks its protocol.\<close>

section \<open>A guest on which the witnesses read a file\<close>

definition sample_service :: service_env where
  "sample_service =
     \<lparr>se_files = sample_transfer 20,
      se_world = \<lparr>sv_free = (\<lambda>_. True), sv_in_time = (\<lambda>_. True), sv_instant = (\<lambda>_. 0), sv_now = (\<lambda>_. 1000),
        sv_handle = (\<lambda>_. OperationId (sample_uuid 9))\<rparr>\<rparr>"

definition sample_server :: server_env where
  "sample_server = \<lparr>sx_runner = sample_guest, sx_files = sample_service\<rparr>"

definition sample_agent :: guest_server where
  "sample_agent =
     \<lparr>sg_runner = guest_opened,
      sg_files = Some \<lparr>fv_files = files_published [1, 1] Committed, fv_captures = [], fv_closed = False, fv_tick = 0\<rparr>\<rparr>"

definition sample_ask :: "guest_action \<Rightarrow> guest_request" where
  "sample_ask a =
     \<lparr>gq_version = 1, gq_id = show_operation ref_crates (OperationId (sample_uuid 12)),
      gq_context = Some (context_to_wire ref_crates sample_context), gq_action = Some a\<rparr>"

definition sample_handle :: wire_file_handle where
  "sample_handle =
     \<lparr>wfh_capture = show_operation ref_crates (OperationId (sample_uuid 9)), wfh_sha256 = sha256 ref_crates [1, 2, 3]\<rparr>"

definition sample_held :: held_capture where
  "sample_held =
     \<lparr>hc_descriptor = \<lparr>wfc_capture = show_operation ref_crates (OperationId (sample_uuid 9)), wfc_path = ''a'', wfc_size = 3,
        wfc_sha256 = sha256 ref_crates [1, 2, 3], wfc_expires = 61000\<rparr>,
      hc_bytes = \<lparr>dl_bytes = [1, 2, 3], dl_sha256 = sha256 ref_crates [1, 2, 3]\<rparr>, hc_until = 60000000000\<rparr>"

definition sample_reading :: guest_server where
  "sample_reading =
     sample_agent\<lparr>sg_files := Some \<lparr>fv_files = (files_published [1, 1] Committed)\<lparr>ft_downloads := 1, ft_step := 18\<rparr>,
       fv_captures = [(OperationId (sample_uuid 9), sample_held)], fv_closed = False, fv_tick = 6\<rparr>\<rparr>"

lemma sample_contexts: "staged_context = sample_context"
  by (simp add: staged_context_def sample_context_def)

lemma sample_server_simps [simp]:
  "sx_runner sample_server = sample_guest" "sx_files sample_server = sample_service"
  "se_files sample_service = sample_transfer 20"
  "sv_free (se_world sample_service) n" "sv_in_time (se_world sample_service) n"
  "sv_instant (se_world sample_service) n = 0" "sv_now (se_world sample_service) n = 1000"
  "sv_handle (se_world sample_service) n = OperationId (sample_uuid 9)"
  by (simp_all add: sample_server_def sample_service_def)

lemma sample_admits [simp]:
  "server_admits sample_server (sample_ask a) s = Inr a"
proof -
  have "context_wire_ok ref_crates sample_context"
    by (simp add: context_wire_ok_def sample_context_def)
  then have "context_of_wire ref_crates (context_to_wire ref_crates sample_context) = Inr sample_context"
    by (rule context_wire.of_to[OF ref_uuid_laws])
  moreover have "parse_operation ref_crates (show_operation ref_crates (OperationId (sample_uuid 12))) = Inr (OperationId (sample_uuid 12))"
    by (rule operation.parse_show[OF ref_uuid_laws]) simp
  ultimately show ?thesis
    by (simp add: server_admits_def sample_ask_def guest_wire_version_def map_err_def sample_contexts)
qed

lemma sample_handle_digest [simp]: "wfh_sha256 sample_handle = sha256 ref_crates [1, 2, 3]"
  by (simp add: sample_handle_def)

lemma sample_validate_handle [simp]:
  "validate_handle ref_crates sample_handle = Inr (OperationId (sample_uuid 9))"
proof -
  have "parse_operation ref_crates (show_operation ref_crates (OperationId (sample_uuid 9))) = Inr (OperationId (sample_uuid 9))"
    by (rule operation.parse_show[OF ref_uuid_laws]) simp
  moreover have "length (sha256 ref_crates [1, 2, 3]) = 32" by (rule hash_lawsD(1)[OF ref_hash_laws])
  ultimately show ?thesis by (simp add: validate_handle_def sample_handle_def map_err_def ensure_def)
qed

lemma sample_captured: "server_step sample_server (SvRequest (sample_ask (AskCaptureFile ''a''))) sample_agent = sample_reading"
proof -
  have up: "server_up sample_agent"
    by (simp add: server_up_def sample_agent_def guest_opened_def)
  have cap: "files_capture (sample_transfer 20) ''a'' (files_published [1, 1] Committed) =
      (Inr \<lparr>dl_bytes = [1, 2, 3], dl_sha256 = sha256 ref_crates [1, 2, 3]\<rparr>,
       (files_published [1, 1] Committed)\<lparr>ft_downloads := 1, ft_step := 18\<rparr>)"
    by (simp add: files_capture_def acquire_permit_def healthy_def file_states file_eval)
  show ?thesis using up
    by (simp add: server_dispatch_def sbind_def server_action_def server_files_def answer_or_def on_files_def service_run_def
        service_prune_def vask_def keep_captures_def in_files_def cap hold_capture_def capture_ttl_secs_def
        sample_agent_def sample_reading_def sample_held_def ensure_def Let_def)
qed

text \<open>The second and third byte, however the file has changed by then.\<close>

definition sample_read :: wire_read_file where
  "sample_read = \<lparr>wrf_handle = Some sample_handle, wrf_offset = 1, wrf_limit = 5\<rparr>"

definition sample_chunk :: wire_file_chunk where
  "sample_chunk =
     \<lparr>wck_handle = Some sample_handle, wck_offset = 1, wck_data = [2, 3], wck_next = 3, wck_size = 3, wck_at_end = True\<rparr>"

lemma sample_answer:
  "\<exists>r t. server_dispatch sample_server (sample_ask (AskReadFile sample_read)) sample_reading = (Inr r, t) \<and>
     ga_result r = GotFileChunk sample_chunk"
  by (simp add: server_dispatch_def sbind_def server_action_def server_files_def answer_or_def on_files_def service_run_def
      service_prune_def service_capture_def validate_read_def vask_def keep_captures_def sample_read_def sample_chunk_def
      sample_reading_def sample_held_def sample_agent_def download_chunk_def max_chunk_bytes_def max_file_bytes_def
      ensure_def ok_or_def Let_def)

section \<open>Properties\<close>

text \<open>
  C15: Whatever is asked of a guest, in any order with the steps of its commands, outside changes,
  expiries, failures and reboots, its command engine and its file engine perform exactly the
  operations that the requests name: an operation of an engine for each request whose version,
  identity, allocation, generation and boot are right and which is well formed, none for any other;
  a write, commit or abort only of the upload registered under the digest that the request
  carries; a barrier on the engine of its domain; and, when the one worker is open and free, one
  release for each capture that has expired, is released, replaced or closed.
\<close>

theorem server_refines:
  "sg_runner (server_run X ops s) = guest_run (sx_runner X) (runner_trace X ops s) (sg_runner s) \<and>
   (case sg_files s of
      None \<Rightarrow> sg_files (server_run X ops s) = None
    | Some f \<Rightarrow> \<exists>g. sg_files (server_run X ops s) = Some g \<and>
        fv_files g = file_run (se_files (sx_files X)) (file_trace X ops s) (fv_files f))"
  using acts_run[of X s ops] by (simp add: acts_def)

text \<open>A capture is asked for, and then again by a request that names another boot.\<close>

definition sample_stale :: guest_request where
  "sample_stale = (sample_ask (AskCaptureFile ''a''))
     \<lparr>gq_context := Some (context_to_wire ref_crates (sample_context\<lparr>ctx_boot := []\<rparr>))\<rparr>"

lemma sample_action [simp]: "request_action sample_server (sample_ask a) s = Some a"
  using admits_action[of sample_server "sample_ask a" s] by (simp split: option.splits)

theorem server_refines_witness:
  "file_trace sample_server [SvRequest (sample_ask (AskCaptureFile ''a'')), SvRequest sample_stale] sample_agent =
     [FileCapture ''a''] \<and>
   (\<exists>g. sg_files (server_run sample_server [SvRequest (sample_ask (AskCaptureFile ''a'')), SvRequest sample_stale] sample_agent) = Some g \<and>
      fv_files g = file_run (sample_transfer 20) [FileCapture ''a''] (files_published [1, 1] Committed))"
proof -
  let ?ops = "[SvRequest (sample_ask (AskCaptureFile ''a'')), SvRequest sample_stale]"
  have up: "server_up sample_agent" by (simp add: server_up_def sample_agent_def guest_opened_def)
  have stale: "request_action sample_server sample_stale s = None" for s
    by (auto simp: request_action_def sample_stale_def sample_ask_def context_of_wire_def context_to_wire_def
        sample_context_def Let_def split: option.splits sum.splits)
  have "file_trace sample_server ?ops sample_agent = [FileCapture ''a'']"
    using up by (simp add: step_file_ops_def stale sample_agent_def service_ops_def worker_ops_def releases_of_def pruned_def
        service_prune_def keep_captures_def sbind_def vask_def file_action_ops_def is_ok_def split: option.split sum.split)
  then show ?thesis
    using server_refines[of sample_server ?ops sample_agent] by (auto simp: sample_agent_def)
qed

definition cold_server :: "guest_server \<Rightarrow> bool" where
  "cold_server s = pred_option (\<lambda>f. fv_captures f = [] \<and> ft_downloads (fv_files f) = 0) (sg_files s)"

lemma cold_captures: "cold_server s \<Longrightarrow> pred_option (captures_ok V) (sg_files s)"
  by (cases "sg_files s") (simp_all add: cold_server_def captures_ok_def)

text \<open>
  C17: Every chunk that a guest returns from a captured file is the slice at its offset of one
  sequence of bytes, whose digest is the one the handle carries and whose length is the size it
  reports; the end is flagged exactly at the end of those bytes, and a chunk before the end is not
  empty. So the chunks read with one handle fit together, whatever has happened to the file since.
\<close>

theorem guest_reads_exact:
  assumes "cold_server s" "server_dispatch X q (server_run X ops s) = (Inr r, t)" "ga_result r = GotFileChunk k"
  shows "\<exists>h b. wck_handle k = Some h \<and> sha256 (tx_crates (se_files (sx_files X))) b = wfh_sha256 h \<and>
     wck_size k = length b \<and> wck_data k = take (length (wck_data k)) (drop (wck_offset k) b) \<and>
     wck_next k = wck_offset k + length (wck_data k) \<and> wck_next k \<le> length b \<and>
     (wck_at_end k \<longleftrightarrow> wck_next k = length b) \<and> (wck_data k \<noteq> [] \<or> wck_at_end k)"
  using server_chunk[OF captures_run_inv[OF cold_captures[OF assms(1)]] assms(2,3)]
  unfolding chunk_of_def by blast

theorem guest_reads_exact_witness:
  "\<exists>h b. wck_handle sample_chunk = Some h \<and> sha256 ref_crates b = wfh_sha256 h \<and>
     wck_data sample_chunk = take (length (wck_data sample_chunk)) (drop (wck_offset sample_chunk) b)"
proof -
  have c: "cold_server sample_agent"
    by (simp add: cold_server_def sample_agent_def file_states new_transfers_def)
  obtain r t where r: "server_dispatch sample_server (sample_ask (AskReadFile sample_read)) sample_reading = (Inr r, t)"
    "ga_result r = GotFileChunk sample_chunk" using sample_answer by blast
  have run: "server_run sample_server [SvRequest (sample_ask (AskCaptureFile ''a''))] sample_agent = sample_reading"
    using sample_captured by (simp del: server_step.simps)
  have "server_dispatch sample_server (sample_ask (AskReadFile sample_read))
      (server_run sample_server [SvRequest (sample_ask (AskCaptureFile ''a''))] sample_agent) = (Inr r, t)"
    unfolding run by (rule r(1))
  from guest_reads_exact[OF c this r(2)] show ?thesis by auto
qed

text \<open>
  C18: The permits that are out are those of the captures that are held, at most eight, after any
  run: a capture that fails, expires, is released or replaced, or is lost with its process, gives
  its permit back exactly once.
\<close>

theorem guest_permits_exact:
  assumes "cold_server s" "sg_files (server_run X ops s) = Some f"
  shows "ft_downloads (fv_files f) = length (fv_captures f) \<and> length (fv_captures f) \<le> 8"
  using captures_run_inv[OF cold_captures[OF assms(1)], of X ops] assms(2) by (simp add: captures_ok_def)

theorem guest_permits_exact_witness:
  "\<exists>f. sg_files sample_reading = Some f \<and> ft_downloads (fv_files f) = length (fv_captures f) \<and> fv_captures f \<noteq> []"
proof -
  have c: "cold_server sample_agent"
    by (simp add: cold_server_def sample_agent_def file_states new_transfers_def)
  have run: "server_run sample_server [SvRequest (sample_ask (AskCaptureFile ''a''))] sample_agent = sample_reading"
    using sample_captured by (simp del: server_step.simps)
  obtain f where f: "sg_files sample_reading = Some f" "fv_captures f \<noteq> []" by (simp add: sample_reading_def)
  from guest_permits_exact[OF c, of sample_server "[SvRequest (sample_ask (AskCaptureFile ''a''))]" f, unfolded run, OF f(1)]
  show ?thesis using f by blast
qed

text \<open>
  C16: A request that is answered, or that changes anything in the guest, is of the protocol's
  version, has a well-formed identity and names the guest's own allocation and generation; it
  names its boot as well, except a greeting, which changes nothing. The answer repeats the
  request's identity and the guest's context.
\<close>

theorem guest_request_guarded:
  assumes "server_dispatch X q s = (x, t)" "t \<noteq> s \<or> x = Inr r"
  shows "\<exists>w c. gq_version q = guest_wire_version \<and> gq_context q = Some w \<and>
      context_of_wire (gx_crates (sx_runner X)) w = Inr c \<and> is_ok (parse_operation (gx_crates (sx_runner X)) (gq_id q)) \<and>
      ctx_allocation c = ctx_allocation (gx_context (sx_runner X)) \<and>
      ctx_generation c = ctx_generation (gx_context (sx_runner X)) \<and>
      (c = gx_context (sx_runner X) \<or> gq_action q = Some AskHello \<and> t = s) \<and>
      (x = Inl () \<or> (\<exists>r. x = Inr r \<and> ga_id r = gq_id q \<and>
         ga_context r = context_to_wire (gx_crates (sx_runner X)) (gx_context (sx_runner X))))"
proof (cases "server_admits X q s")
  case (Inl e)
  then have "x = Inl e" "t = s" using assms(1) by (auto simp: server_dispatch_def sbind_def)
  then show ?thesis using assms(2) by simp
next
  case (Inr a)
  have hello: "t = s" if "a = AskHello"
    using assms(1) Inr that by (auto simp: server_dispatch_def sbind_def server_action_def Let_def)
  have ans: "x = Inl () \<or> (\<exists>r. x = Inr r \<and> ga_id r = gq_id q \<and>
      ga_context r = context_to_wire (gx_crates (sx_runner X)) (gx_context (sx_runner X)))"
    using assms(1) Inr by (cases x) (auto simp: server_dispatch_def sbind_def split: prod.splits sum.splits)
  obtain w c where w: "gq_version q = guest_wire_version" "gq_context q = Some w"
    "context_of_wire (gx_crates (sx_runner X)) w = Inr c" "is_ok (parse_operation (gx_crates (sx_runner X)) (gq_id q))"
    "gq_action q = Some a" "ctx_allocation c = ctx_allocation (gx_context (sx_runner X))"
    "ctx_generation c = ctx_generation (gx_context (sx_runner X))"
    "ctx_boot c = ctx_boot (gx_context (sx_runner X)) \<or> a = AskHello"
    using Inr by (auto simp: server_admits_def Let_def map_err_def is_ok_def split: sum.splits)
  have "c = gx_context (sx_runner X)" if "a \<noteq> AskHello"
    using w(6-8) that by (intro guest_context.equality) auto
  then show ?thesis using w hello ans by auto
qed

theorem guest_request_guarded_witness:
  "gq_version (sample_ask (AskCaptureFile ''a'')) = guest_wire_version \<and>
   sg_files (snd (server_dispatch sample_server (sample_ask (AskCaptureFile ''a'')) sample_agent)) \<noteq> sg_files sample_agent"
proof -
  let ?d = "server_dispatch sample_server (sample_ask (AskCaptureFile ''a'')) sample_agent"
  have up: "server_up sample_agent" by (simp add: server_up_def sample_agent_def guest_opened_def)
  then have t: "snd ?d = sample_reading" using sample_captured by simp
  have ne: "sg_files (snd ?d) \<noteq> sg_files sample_agent" unfolding t by (simp add: sample_reading_def sample_agent_def)
  then have "snd ?d \<noteq> sample_agent" by metis
  from guest_request_guarded[OF prod.collapse[symmetric] disjI1, OF this] ne show ?thesis by blast
qed

end
