(* ===== verification/Controller.thy ===== *)
theory Controller
  imports Host_Files Host_History
begin

text \<open>
  The controller of one host (\<open>crates/sandbox-controller/src\<close>: \<open>lib.rs\<close>,
  \<open>allocation_authority.rs\<close>, \<open>recovery.rs\<close>, \<open>uploads.rs\<close>): one tick claims work from the
  store, has the store prepare it, calls the host, and has the store record what came back.

  The store (SQL transactions) and the host (RPCs) are a \<open>ctl_world\<close>: their \<open>n\<close>-th answer is
  given at the \<open>n\<close>-th question. A call that the host does not answer is \<open>None\<close>; inside a
  \<open>tokio::time::timeout\<close> the bound may pass at any wait, which fails with \<open>Elapsed\<close>. The log keeps
  the order of what matters, oldest first: an answer of the store, with the changing call it lets
  the controller make; a call to the host or the source store; its answer; and evidence, or an
  unknown outcome, given to the store, once the store has answered. What the store commits with
  an answer is its own business and not modelled: an answer that lets a write go ahead, for one,
  is a check of the claim and no stored intent. Of the store's rows only the fields that the
  controller reads are here.
\<close>

section \<open>What the store answers\<close>

datatype operation_kind = KindCreate | KindExecute | KindDestroy | KindCancel | KindFileWrite

record claim =
  clm_operation :: operation_id
  clm_project :: project_id
  clm_sandbox :: sandbox_id
  clm_revision :: int

record allocation_claim =
  acl_allocation :: allocation_id
  acl_revision :: int

record allocation =
  alc_id :: allocation_id
  alc_host :: host_id
  alc_generation :: int
  alc_epoch :: int

datatype claim_error = InvalidLease | InvalidRetryDelay | ClaimLost | ClaimQuery

datatype dispatch_error =
    DispatchResources | DispatchLost | DispatchConflict | DispatchUnauthorized | DispatchImage
  | DispatchCompatibility | DispatchUnavailable | BadEvidence | SimulationDenied | InvalidData | DispatchQuery

datatype placement_error =
    PlacementLost | PlacementUnauthorized | PlacementReconcile | PlacementUnavailable
  | PlacementCompatibility | PlacementCapacity | PlacementQuota | PlacementResources | PlacementQuery

datatype create_rejection = HostEpochChanged | RejectUnauthorized | RejectImage | RejectResources

record authority_request =
  auq_host :: string
  auq_epoch :: int
  auq_permits :: bytes

record authority_observation =
  aub_host :: string
  aub_epoch :: int
  aub_through :: nat

record permit_batch =
  pbt_issued :: nat
  pbt_permits :: "permit list"
  pbt_unissued :: bool

record previous_request =
  pvq_ownership :: "ownership option"
  pvq_epoch :: int

record previous_observation =
  pvo_request :: "previous_request option"
  pvo_release :: "observation option"

record lease_request =
  lrq_ownership :: "lease_ownership option"
  lrq_expires :: int

record host_info =
  hin_capabilities :: bytes
  hin_permits_required :: bool
  hin_host :: string
  hin_epoch :: int
  hin_simulated :: bool

datatype reservation = Reserved allocation | Existing allocation

datatype create_action = CreateStart create_request | CreateInspect ownership
datatype destroy_action = DestroyStop ownership | DestroyInspect ownership
datatype execute_action =
    ExecuteDispatch ownership execute | ExecuteInspect ownership bytes | ExecuteCancel ownership bytes | ExecuteRejected
datatype previous_action = RejectUndispatched | ReconcilePrevious previous_request
datatype lease_action = LeaseRenew lease_request | LeaseInspect lease_ownership | LeaseCleanup operation_id
datatype lease_result = LeaseRenewed | LeaseCleaned operation_id
datatype upload_action =
    UploadSource source_plan | UploadBegin file_request | UploadWrite file_request source_ref nat nat
  | UploadCommit file_request | UploadAbort file_request | UploadInspect file_request | UploadRejected

section \<open>Calls and the log\<close>

datatype host_call =
    CallHealth
  | CallAuthority authority_request
  | CallCreate create_request
  | CallInspect ownership
  | CallStop ownership
  | CallPrevious previous_request
  | CallRenew lease_request
  | CallInspectLease lease_ownership
  | CallExecute ownership wire_execute
  | CallInspectCommand ownership bytes
  | CallCancelCommand ownership bytes
  | CallBegin file_request
  | CallCommit file_request
  | CallAbort file_request
  | CallInspectFile file_request
  | CallWrite file_request nat bytes
  | CallReconcileSource source_plan

datatype evidence =
    SeenInfo host_info
  | SeenAuthority authority_observation
  | SeenAllocation observation
  | SeenPrevious previous_observation
  | SeenLease lease_observation
  | SeenCommand command_observation
  | SeenFile file_observation
  | SeenSource source_ref

datatype ctl_event =
    Consulted "host_call option"
  | Called host_call
  | Answered evidence
  | Recorded evidence bool
  | Marked bool

datatype controller_error =
    ErrAuthority | ErrConfig | ErrWorkers | ErrIdentity | ErrHealth | ErrTransport
  | ErrClaim claim_error | ErrPlacement placement_error | ErrDispatch dispatch_error | Elapsed

datatype tick = Idle | Deferred | Rejected | Confirmed | OutcomeUnknown | LostOwnership | Maintained

record ctl_config =
  cc_host :: host_id
  cc_epoch :: int
  cc_images :: "string list"
  cc_simulated :: bool

datatype unknown_kind = CreateUnknown | DestroyUnknown | ExecuteUnknown | UploadUnknown | PreviousUnknown previous_request

record ctl_world =
  cw_expired :: "nat \<Rightarrow> bool"
  cw_clock :: "nat \<Rightarrow> int"
  cw_health :: "nat \<Rightarrow> host_info option"
  cw_authority :: "nat \<Rightarrow> authority_request \<Rightarrow> authority_observation option"
  cw_allocation :: "nat \<Rightarrow> host_call \<Rightarrow> observation option"
  cw_previous :: "nat \<Rightarrow> previous_request \<Rightarrow> previous_observation option"
  cw_lease :: "nat \<Rightarrow> host_call \<Rightarrow> lease_observation option"
  cw_command :: "nat \<Rightarrow> host_call \<Rightarrow> command_observation option"
  cw_file :: "nat \<Rightarrow> host_call \<Rightarrow> file_observation option"
  cw_reconcile_source :: "nat \<Rightarrow> source_plan \<Rightarrow> int \<Rightarrow> source_ref option"
  cw_read_source :: "nat \<Rightarrow> source_ref \<Rightarrow> int \<Rightarrow> bytes option"
  cw_register :: "nat \<Rightarrow> bool \<Rightarrow> nat \<Rightarrow> unit + unit"
  cw_permits_after :: "nat \<Rightarrow> nat \<Rightarrow> unit + permit_batch"
  cw_launch_permit :: "nat \<Rightarrow> ownership \<Rightarrow> unit + permit option"
  cw_observe_host :: "nat \<Rightarrow> bytes \<Rightarrow> bool \<Rightarrow> dispatch_error + unit"
  cw_invalidate :: "nat \<Rightarrow> dispatch_error + unit"
  cw_runtime_unknown :: "nat \<Rightarrow> dispatch_error + unit"
  cw_claim_next :: "nat \<Rightarrow> operation_kind \<Rightarrow> claim_error + claim option"
  cw_defer :: "nat \<Rightarrow> claim \<Rightarrow> claim_error + unit"
  cw_reject :: "nat \<Rightarrow> claim \<Rightarrow> create_rejection \<Rightarrow> dispatch_error + unit"
  cw_unknown :: "nat \<Rightarrow> unknown_kind \<Rightarrow> claim \<Rightarrow> dispatch_error + unit"
  cw_reconcile_cancel :: "nat \<Rightarrow> claim \<Rightarrow> dispatch_error + bool"
  cw_prepare_previous :: "nat \<Rightarrow> claim \<Rightarrow> dispatch_error + previous_action option"
  cw_record_previous :: "nat \<Rightarrow> claim \<Rightarrow> previous_observation \<Rightarrow> dispatch_error + unit"
  cw_prepare_destroy :: "nat \<Rightarrow> claim \<Rightarrow> bool \<Rightarrow> dispatch_error + destroy_action"
  cw_record_destroy :: "nat \<Rightarrow> claim \<Rightarrow> observation \<Rightarrow> dispatch_error + unit"
  cw_reserve :: "nat \<Rightarrow> claim \<Rightarrow> placement_error + reservation"
  cw_prepare_create :: "nat \<Rightarrow> claim \<Rightarrow> string list \<Rightarrow> dispatch_error + create_action"
  cw_record_create :: "nat \<Rightarrow> claim \<Rightarrow> observation \<Rightarrow> dispatch_error + unit"
  cw_prepare_execute :: "nat \<Rightarrow> claim \<Rightarrow> dispatch_error + execute_action"
  cw_record_execute :: "nat \<Rightarrow> claim \<Rightarrow> command_observation \<Rightarrow> dispatch_error + unit"
  cw_claim_allocation :: "nat \<Rightarrow> dispatch_error + allocation_claim option"
  cw_prepare_lease :: "nat \<Rightarrow> allocation_claim \<Rightarrow> dispatch_error + lease_action"
  cw_defer_allocation :: "nat \<Rightarrow> allocation_claim \<Rightarrow> dispatch_error + unit"
  cw_lease_unknown :: "nat \<Rightarrow> allocation_claim \<Rightarrow> dispatch_error + unit"
  cw_record_lease :: "nat \<Rightarrow> allocation_claim \<Rightarrow> lease_observation \<Rightarrow> dispatch_error + lease_result"
  cw_prepare_upload :: "nat \<Rightarrow> claim \<Rightarrow> dispatch_error + upload_action"
  cw_accept_source :: "nat \<Rightarrow> claim \<Rightarrow> source_ref \<Rightarrow> dispatch_error + unit"
  cw_confirm_write :: "nat \<Rightarrow> claim \<Rightarrow> file_request \<Rightarrow> source_ref \<Rightarrow> nat \<Rightarrow> dispatch_error + unit"
  cw_observe_upload :: "nat \<Rightarrow> claim \<Rightarrow> file_observation \<Rightarrow> nat option \<Rightarrow> dispatch_error + unit"

record ctl_env =
  ce_crates :: crates
  ce_permits_json :: "permit list json"
  ce_permit_json :: "permit json"
  ce_config :: ctl_config
  ce_sources :: bool
  ce_world :: ctl_world

record ctl_state =
  ct_step :: nat
  ct_timed :: bool
  ct_log :: "ctl_event list"
  ct_cursor :: nat
  ct_compatible :: bool
  ct_permits :: bool
  ct_cache :: "(source_ref \<times> bytes) option"

type_synonym 'a ctl = "(ctl_state, controller_error, 'a) proc"

definition note_ctl :: "ctl_event \<Rightarrow> unit ctl" where
  "note_ctl e = swrite (\<lambda>s. s\<lparr>ct_log := ct_log s @ [e]\<rparr>)"

text \<open>One wait for an answer.\<close>

definition await :: "ctl_env \<Rightarrow> (nat \<Rightarrow> 'a) \<Rightarrow> 'a ctl" where
  "await E f s =
     (let n = ct_step s; t = s\<lparr>ct_step := Suc n\<rparr> in
      if ct_timed s \<and> cw_expired (ce_world E) n then (Inl Elapsed, t) else (Inr (f n), t))"

text \<open>\<open>tokio::time::timeout(..).await\<close>: past the bound the future is dropped at its wait.\<close>

definition within :: "'a ctl \<Rightarrow> 'a ctl \<Rightarrow> 'a ctl" where
  "within m late s =
     (case m (s\<lparr>ct_timed := True\<rparr>) of
        (Inl Elapsed, t) \<Rightarrow> late (t\<lparr>ct_timed := False\<rparr>)
      | (r, t) \<Rightarrow> (r, t\<lparr>ct_timed := False\<rparr>))"

text \<open>
  A question to the store and its answer; \<open>asks\<close> is the changing call that the answer lets the
  controller make, if it does.
\<close>

definition prepare :: "ctl_env \<Rightarrow> (nat \<Rightarrow> 'e + 'a) \<Rightarrow> ('a \<Rightarrow> host_call option) \<Rightarrow> ('e + 'a) ctl" where
  "prepare E f asks =
     sbind (await E f) (\<lambda>r.
     sbind (note_ctl (Consulted (case r of Inl _ \<Rightarrow> None | Inr a \<Rightarrow> asks a))) (\<lambda>_.
     sret r))"

definition consult :: "ctl_env \<Rightarrow> (nat \<Rightarrow> 'e + 'a) \<Rightarrow> ('e + 'a) ctl" where
  "consult E f = prepare E f (\<lambda>_. None)"

text \<open>A call to the host and its answer.\<close>

definition call_host :: "ctl_env \<Rightarrow> host_call \<Rightarrow> ('a \<Rightarrow> evidence) \<Rightarrow> (nat \<Rightarrow> 'a option) \<Rightarrow> 'a option ctl" where
  "call_host E c seen f =
     sbind (note_ctl (Called c)) (\<lambda>_.
     sbind (await E f) (\<lambda>r.
     sbind (case r of None \<Rightarrow> sret () | Some a \<Rightarrow> note_ctl (Answered (seen a))) (\<lambda>_. sret r)))"

text \<open>Giving evidence to the store: the log says whether the store accepted it.\<close>

definition record_evidence :: "ctl_env \<Rightarrow> evidence \<Rightarrow> (nat \<Rightarrow> 'e + 'a) \<Rightarrow> ('e + 'a) ctl" where
  "record_evidence E v f =
     sbind (await E f) (\<lambda>r. sbind (note_ctl (Recorded v (is_ok r))) (\<lambda>_. sret r))"

definition fail_dispatch :: "dispatch_error \<Rightarrow> 'a ctl" where "fail_dispatch e = sfail (ErrDispatch e)"

text \<open>
  The ticks of the controller: the checks of its host, the allocation authority, recovery of a
  previous epoch, the four kinds of operation, lease maintenance, and the tick that combines them.
\<close>

section \<open>Outcomes of a claim\<close>

definition defer_claim :: "ctl_env \<Rightarrow> claim \<Rightarrow> tick ctl" where
  "defer_claim E k =
     sbind (consult E (\<lambda>n. cw_defer (ce_world E) n k)) (\<lambda>r.
     case r of
       Inr _ \<Rightarrow> sret Deferred
     | Inl ClaimLost \<Rightarrow> sret LostOwnership
     | Inl e \<Rightarrow> sfail (ErrClaim e))"

definition reject_claim :: "ctl_env \<Rightarrow> claim \<Rightarrow> create_rejection \<Rightarrow> tick ctl" where
  "reject_claim E k reason =
     sbind (consult E (\<lambda>n. cw_reject (ce_world E) n k reason)) (\<lambda>r.
     case r of
       Inr _ \<Rightarrow> sret Rejected
     | Inl DispatchConflict \<Rightarrow> defer_claim E k
     | Inl DispatchLost \<Rightarrow> sret LostOwnership
     | Inl e \<Rightarrow> fail_dispatch e)"

text \<open>\<open>unknown\<close>, \<open>destroy_unknown\<close>, \<open>execute_unknown\<close>, \<open>previous_unknown\<close>: alike but for the record.\<close>

definition mark_unknown :: "ctl_env \<Rightarrow> unknown_kind \<Rightarrow> claim \<Rightarrow> tick ctl" where
  "mark_unknown E u k =
     sbind (await E (\<lambda>n. cw_unknown (ce_world E) n u k)) (\<lambda>r.
     sbind (note_ctl (Marked (is_ok r))) (\<lambda>_.
     case r of
       Inr _ \<Rightarrow> sret OutcomeUnknown
     | Inl DispatchLost \<Rightarrow> sret LostOwnership
     | Inl DispatchConflict \<Rightarrow> (if u = UploadUnknown then fail_dispatch DispatchConflict else defer_claim E k)
     | Inl e \<Rightarrow> fail_dispatch e))"

definition evidence_result :: "ctl_env \<Rightarrow> unknown_kind \<Rightarrow> claim \<Rightarrow> dispatch_error + unit \<Rightarrow> tick ctl" where
  "evidence_result E u k r =
     (case r of
        Inr _ \<Rightarrow> sret Confirmed
      | Inl DispatchLost \<Rightarrow> sret LostOwnership
      | Inl BadEvidence \<Rightarrow> mark_unknown E u k
      | Inl SimulationDenied \<Rightarrow> mark_unknown E u k
      | Inl DispatchConflict \<Rightarrow>
          (if u \<in> {ExecuteUnknown, UploadUnknown} then fail_dispatch DispatchConflict else defer_claim E k)
      | Inl e \<Rightarrow> fail_dispatch e)"

definition foreign_owner :: "ctl_env \<Rightarrow> ownership \<Rightarrow> bool" where
  "foreign_owner E w =
     (own_host w \<noteq> show_host (ce_crates E) (cc_host (ce_config E)) \<or> own_epoch w \<noteq> cc_epoch (ce_config E))"

section \<open>The allocation authority\<close>

definition accept_registration :: "ctl_env \<Rightarrow> authority_observation \<Rightarrow> unit ctl" where
  "accept_registration E o' =
     sbind (sensure (\<not> (aub_host o' \<noteq> show_host (ce_crates E) (cc_host (ce_config E)) \<or>
        aub_epoch o' \<noteq> cc_epoch (ce_config E))) ErrIdentity) (\<lambda>_.
     sbind (record_evidence E (SeenAuthority o') (\<lambda>n. cw_register (ce_world E) n True (aub_through o'))) (\<lambda>r.
     slift (map_err (\<lambda>_. ErrAuthority) r)))"

definition ask_authority :: "ctl_env \<Rightarrow> authority_request \<Rightarrow> authority_observation ctl" where
  "ask_authority E q =
     sbind (call_host E (CallAuthority q) SeenAuthority (\<lambda>n. cw_authority (ce_world E) n q)) (\<lambda>r.
     slift (ok_or ErrHealth r))"

definition batch_asks :: "ctl_env \<Rightarrow> authority_request \<Rightarrow> permit_batch \<Rightarrow> host_call option" where
  "batch_asks E q batch =
     (if pbt_permits batch = [] then None
      else map_option (\<lambda>b. CallAuthority (q\<lparr>auq_permits := b\<rparr>)) (to_vec (ce_permits_json E) (pbt_permits batch)))"

definition sync_authority :: "ctl_env \<Rightarrow> nat ctl" where
  "sync_authority E =
     (let W = ce_world E; c = ce_config E in
      sbind (sread ct_permits) (\<lambda>required.
      if \<not> required
      then sbind (consult E (\<lambda>n. cw_register W n False 0)) (\<lambda>r.
           sbind (slift (map_err (\<lambda>_. ErrAuthority) r)) (\<lambda>_. sret 0))
      else
      let q = \<lparr>auq_host = show_host (ce_crates E) (cc_host c), auq_epoch = cc_epoch c, auq_permits = []\<rparr> in
      sbind (ask_authority E q) (\<lambda>observed.
      sbind (accept_registration E observed) (\<lambda>_.
      sbind (prepare E (\<lambda>n. cw_permits_after W n (aub_through observed)) (batch_asks E q)) (\<lambda>r.
      sbind (slift (map_err (\<lambda>_. ErrAuthority) r)) (\<lambda>batch.
      sbind (sensure (\<not> pbt_unissued batch) ErrIdentity) (\<lambda>_.
      if pbt_permits batch = [] then sret (aub_through observed)
      else
      let expected = permit_serial (last (pbt_permits batch)) in
      sbind (slift (ok_or ErrIdentity (to_vec (ce_permits_json E) (pbt_permits batch)))) (\<lambda>b.
      let register = q\<lparr>auq_permits := b\<rparr> in
      sbind (ask_authority E register) (\<lambda>ack.
      sbind (sensure (\<not> (aub_through ack < expected \<or> pbt_issued batch < aub_through ack)) ErrIdentity) (\<lambda>_.
      sbind (accept_registration E ack) (\<lambda>_.
      sret (aub_through ack))))))))))))"

definition launch_owner :: "ctl_env \<Rightarrow> claim \<Rightarrow> allocation \<Rightarrow> ownership" where
  "launch_owner E k a =
     (let C = ce_crates E in
      \<lparr>own_host = show_host C (alc_host a), own_project = show_project C (clm_project k),
       own_sandbox = show_sandbox C (clm_sandbox k), own_allocation = show_allocation C (alc_id a),
       own_operation = show_operation C (clm_operation k), own_generation = alc_generation a,
       own_epoch = alc_epoch a, own_revision = clm_revision k, own_expires = 0\<rparr>)"

definition prepare_permit :: "ctl_env \<Rightarrow> claim \<Rightarrow> allocation \<Rightarrow> bytes ctl" where
  "prepare_permit E k a =
     sbind (sync_authority E) (\<lambda>through.
     sbind (consult E (\<lambda>n. cw_launch_permit (ce_world E) n (launch_owner E k a))) (\<lambda>r.
     sbind (slift (map_err (\<lambda>_. ErrAuthority) r)) (\<lambda>found.
     sbind (slift (ok_or ErrIdentity found)) (\<lambda>p.
     sbind (sensure (permit_serial p \<le> through) ErrIdentity) (\<lambda>_.
     slift (ok_or ErrIdentity (to_vec (ce_permit_json E) p)))))))"

section \<open>The host\<close>

definition check_host :: "ctl_env \<Rightarrow> unit ctl" where
  "check_host E =
     (let W = ce_world E; c = ce_config E in
      sbind (call_host E CallHealth SeenInfo (cw_health W)) (\<lambda>r.
      sbind (slift (ok_or ErrHealth r)) (\<lambda>h.
      sbind (sensure (\<not> (hin_host h \<noteq> show_host (ce_crates E) (cc_host c) \<or> hin_epoch h \<noteq> cc_epoch c \<or>
         hin_simulated h \<and> \<not> cc_simulated c)) ErrIdentity) (\<lambda>_.
      sbind (swrite (\<lambda>s. s\<lparr>ct_permits := hin_permits_required h\<rparr>)) (\<lambda>_.
      sbind (sync_authority E) (\<lambda>_.
      sbind (consult E (\<lambda>n. cw_observe_host W n (hin_capabilities h) (hin_simulated h))) (\<lambda>observed.
      case observed of
        Inr _ \<Rightarrow> swrite (\<lambda>s. s\<lparr>ct_compatible := True\<rparr>)
      | Inl DispatchCompatibility \<Rightarrow>
          sbind (consult E (cw_invalidate W)) (\<lambda>r.
          sbind (slift (map_err ErrDispatch r)) (\<lambda>_.
          swrite (\<lambda>s. s\<lparr>ct_compatible := False\<rparr>)))
      | Inl e \<Rightarrow> fail_dispatch e)))))))"

section \<open>A previous epoch\<close>

fun previous_asks :: "previous_action option \<Rightarrow> host_call option" where
  "previous_asks (Some (ReconcilePrevious q)) = Some (CallPrevious q)"
| "previous_asks _ = None"

definition previous_inner :: "ctl_env \<Rightarrow> claim \<Rightarrow> tick option ctl" where
  "previous_inner E k =
     (let W = ce_world E in
      sbind (prepare E (\<lambda>n. cw_prepare_previous W n k) previous_asks) (\<lambda>r.
      case r of
        Inr None \<Rightarrow> sret None
      | Inl DispatchLost \<Rightarrow> sret (Some LostOwnership)
      | Inl DispatchConflict \<Rightarrow> sbind (defer_claim E k) (\<lambda>t. sret (Some t))
      | Inl e \<Rightarrow> fail_dispatch e
      | Inr (Some RejectUndispatched) \<Rightarrow> sbind (reject_claim E k HostEpochChanged) (\<lambda>t. sret (Some t))
      | Inr (Some (ReconcilePrevious q)) \<Rightarrow>
          sbind (call_host E (CallPrevious q) SeenPrevious (\<lambda>n. cw_previous W n q)) (\<lambda>answer.
          case answer of
            Some p \<Rightarrow>
              (if pvo_request p \<noteq> Some q
               then sbind (mark_unknown E (PreviousUnknown q) k) (\<lambda>t. sret (Some t))
               else sbind (record_evidence E (SeenPrevious p) (\<lambda>n. cw_record_previous W n k p)) (\<lambda>r.
                    sbind (evidence_result E (PreviousUnknown q) k r) (\<lambda>t. sret (Some t))))
          | None \<Rightarrow> sbind (mark_unknown E (PreviousUnknown q) k) (\<lambda>t. sret (Some t)))))"

definition previous_tick :: "ctl_env \<Rightarrow> claim \<Rightarrow> tick option ctl" where
  "previous_tick E k = within (previous_inner E k) (sret (Some Deferred))"

section \<open>Operations\<close>

definition call_allocation :: "ctl_env \<Rightarrow> host_call \<Rightarrow> observation option ctl" where
  "call_allocation E c = call_host E c SeenAllocation (\<lambda>n. cw_allocation (ce_world E) n c)"

definition prepared_error :: "ctl_env \<Rightarrow> claim \<Rightarrow> dispatch_error \<Rightarrow> tick ctl" where
  "prepared_error E k e =
     (case e of
        DispatchLost \<Rightarrow> sret LostOwnership
      | DispatchConflict \<Rightarrow> defer_claim E k
      | e \<Rightarrow> fail_dispatch e)"

definition observe_destroy :: "ctl_env \<Rightarrow> claim \<Rightarrow> observation option \<Rightarrow> tick ctl" where
  "observe_destroy E k response =
     (case response of
        None \<Rightarrow> mark_unknown E DestroyUnknown k
      | Some o' \<Rightarrow>
          sbind (record_evidence E (SeenAllocation o') (\<lambda>n. cw_record_destroy (ce_world E) n k o')) (\<lambda>r.
          evidence_result E DestroyUnknown k r))"

fun destroy_asks :: "destroy_action \<Rightarrow> host_call option" where
  "destroy_asks (DestroyStop w) = Some (CallStop w)"
| "destroy_asks (DestroyInspect _) = None"

definition still_there :: "ownership \<Rightarrow> observation option \<Rightarrow> bool" where
  "still_there w response =
     (case response of None \<Rightarrow> False
      | Some o' \<Rightarrow> ob_ownership o' = Some w \<and> ob_state o' \<in> {StateReady, StateAbsent})"

definition destroy_tick :: "ctl_env \<Rightarrow> claim \<Rightarrow> tick ctl" where
  "destroy_tick E k =
     (let W = ce_world E in
      sbind (previous_tick E k) (\<lambda>p.
      case p of Some t \<Rightarrow> sret t | None \<Rightarrow>
      sbind (prepare E (\<lambda>n. cw_prepare_destroy W n k False) destroy_asks) (\<lambda>r.
      case r of Inl e \<Rightarrow> prepared_error E k e | Inr action \<Rightarrow>
      if foreign_owner E (case action of DestroyStop w \<Rightarrow> w | DestroyInspect w \<Rightarrow> w) then defer_claim E k
      else (case action of
        DestroyStop w \<Rightarrow> sbind (call_allocation E (CallStop w)) (observe_destroy E k)
      | DestroyInspect w \<Rightarrow>
          sbind (call_allocation E (CallInspect w)) (\<lambda>response.
          if \<not> still_there w response then observe_destroy E k response
          else
          sbind (prepare E (\<lambda>n. cw_prepare_destroy W n k True) destroy_asks) (\<lambda>r.
          case r of
            Inl e \<Rightarrow> prepared_error E k e
          | Inr (DestroyInspect _) \<Rightarrow> mark_unknown E DestroyUnknown k
          | Inr (DestroyStop w') \<Rightarrow> sbind (call_allocation E (CallStop w')) (observe_destroy E k)))))))"

definition placed_allocation :: "reservation \<Rightarrow> allocation" where
  "placed_allocation r = (case r of Reserved a \<Rightarrow> a | Existing a \<Rightarrow> a)"

definition placement_refused :: "ctl_env \<Rightarrow> claim \<Rightarrow> placement_error \<Rightarrow> tick ctl" where
  "placement_refused E k e =
     (case e of
        PlacementUnauthorized \<Rightarrow> reject_claim E k RejectUnauthorized
      | PlacementResources \<Rightarrow> reject_claim E k RejectResources
      | PlacementLost \<Rightarrow> sret LostOwnership
      | PlacementQuery \<Rightarrow> sfail (ErrPlacement e)
      | _ \<Rightarrow> defer_claim E k)"

definition create_refused :: "ctl_env \<Rightarrow> claim \<Rightarrow> dispatch_error \<Rightarrow> tick ctl" where
  "create_refused E k e =
     (case e of
        DispatchUnauthorized \<Rightarrow> reject_claim E k RejectUnauthorized
      | DispatchImage \<Rightarrow> reject_claim E k RejectImage
      | DispatchResources \<Rightarrow> reject_claim E k RejectResources
      | DispatchUnavailable \<Rightarrow> defer_claim E k
      | DispatchCompatibility \<Rightarrow> defer_claim E k
      | DispatchConflict \<Rightarrow> defer_claim E k
      | DispatchLost \<Rightarrow> sret LostOwnership
      | e \<Rightarrow> fail_dispatch e)"

text \<open>The permit bytes of a create, or \<open>None\<close> when there is none to be had.\<close>

definition permit_of :: "ctl_env \<Rightarrow> claim \<Rightarrow> allocation \<Rightarrow> bytes option ctl" where
  "permit_of E k a s =
     (if \<not> ct_permits s then (Inr (Some []), s)
      else case prepare_permit E k a s of (Inr b, t) \<Rightarrow> (Inr (Some b), t) | (Inl _, t) \<Rightarrow> (Inr None, t))"

fun create_asks :: "create_action \<Rightarrow> host_call option" where
  "create_asks (CreateStart q) = Some (CallCreate q)"
| "create_asks (CreateInspect _) = None"

definition create_tick :: "ctl_env \<Rightarrow> claim \<Rightarrow> tick ctl" where
  "create_tick E k =
     (let W = ce_world E; c = ce_config E in
      sbind (previous_tick E k) (\<lambda>p.
      case p of Some t \<Rightarrow> sret t | None \<Rightarrow>
      sbind (consult E (\<lambda>n. cw_reserve W n k)) (\<lambda>r.
      case r of Inl e \<Rightarrow> placement_refused E k e | Inr reserved \<Rightarrow>
      let a = placed_allocation reserved in
      if alc_host a \<noteq> cc_host c \<or> alc_epoch a \<noteq> cc_epoch c then defer_claim E k
      else
      sbind (permit_of E k a) (\<lambda>permit.
      case permit of None \<Rightarrow> defer_claim E k | Some launch \<Rightarrow>
      sbind (prepare E (\<lambda>n. cw_prepare_create W n k (cc_images c)) create_asks) (\<lambda>r.
      case r of Inl e \<Rightarrow> create_refused E k e | Inr action \<Rightarrow>
      sbind (case action of
               CreateStart q \<Rightarrow> call_allocation E (CallCreate (q\<lparr>cq_permit_json := launch\<rparr>))
             | CreateInspect w \<Rightarrow> call_allocation E (CallInspect w)) (\<lambda>response.
      case response of
        None \<Rightarrow> mark_unknown E CreateUnknown k
      | Some o' \<Rightarrow>
          sbind (record_evidence E (SeenAllocation o') (\<lambda>n. cw_record_create W n k o')) (\<lambda>r.
          evidence_result E CreateUnknown k r)))))))"

definition call_command :: "ctl_env \<Rightarrow> host_call \<Rightarrow> command_observation option ctl" where
  "call_command E c = call_host E c SeenCommand (\<lambda>n. cw_command (ce_world E) n c)"

definition execute_owner :: "execute_action \<Rightarrow> ownership option" where
  "execute_owner a =
     (case a of
        ExecuteDispatch w _ \<Rightarrow> Some w
      | ExecuteInspect w _ \<Rightarrow> Some w
      | ExecuteCancel w _ \<Rightarrow> Some w
      | ExecuteRejected \<Rightarrow> None)"

fun execute_asks :: "ctl_env \<Rightarrow> execute_action \<Rightarrow> host_call option" where
  "execute_asks E (ExecuteDispatch w x) = Some (CallExecute w (execute_to_wire (ce_crates E) x))"
| "execute_asks E (ExecuteCancel w d) = Some (CallCancelCommand w d)"
| "execute_asks E _ = None"

definition execute_tick :: "ctl_env \<Rightarrow> claim \<Rightarrow> tick ctl" where
  "execute_tick E k =
     (let W = ce_world E in
      sbind (prepare E (\<lambda>n. cw_prepare_execute W n k) (execute_asks E)) (\<lambda>r.
      case r of
        Inl DispatchUnavailable \<Rightarrow> defer_claim E k
      | Inl e \<Rightarrow> prepared_error E k e
      | Inr action \<Rightarrow>
      (case execute_owner action of None \<Rightarrow> sret Rejected | Some w \<Rightarrow>
      if foreign_owner E w then mark_unknown E ExecuteUnknown k
      else
      sbind (case action of
               ExecuteDispatch w x \<Rightarrow> call_command E (CallExecute w (execute_to_wire (ce_crates E) x))
             | ExecuteInspect w d \<Rightarrow> call_command E (CallInspectCommand w d)
             | ExecuteCancel w d \<Rightarrow> call_command E (CallCancelCommand w d)
             | ExecuteRejected \<Rightarrow> sret None) (\<lambda>response.
      case response of
        None \<Rightarrow> mark_unknown E ExecuteUnknown k
      | Some o' \<Rightarrow>
          sbind (record_evidence E (SeenCommand o') (\<lambda>n. cw_record_execute W n k o')) (\<lambda>r.
          evidence_result E ExecuteUnknown k r)))))"

section \<open>Leases\<close>

definition lease_error :: "ctl_env \<Rightarrow> allocation_claim \<Rightarrow> dispatch_error \<Rightarrow> tick ctl" where
  "lease_error E a e =
     (case e of
        DispatchLost \<Rightarrow> sret LostOwnership
      | DispatchConflict \<Rightarrow>
          sbind (consult E (\<lambda>n. cw_defer_allocation (ce_world E) n a)) (\<lambda>r.
          case r of
            Inr _ \<Rightarrow> sret Deferred
          | Inl DispatchLost \<Rightarrow> sret LostOwnership
          | Inl e \<Rightarrow> fail_dispatch e)
      | e \<Rightarrow> fail_dispatch e)"

definition lease_unknown :: "ctl_env \<Rightarrow> allocation_claim \<Rightarrow> tick ctl" where
  "lease_unknown E a =
     sbind (await E (\<lambda>n. cw_lease_unknown (ce_world E) n a)) (\<lambda>r.
     sbind (note_ctl (Marked (is_ok r))) (\<lambda>_.
     case r of Inr _ \<Rightarrow> sret OutcomeUnknown | Inl e \<Rightarrow> lease_error E a e))"

definition call_lease :: "ctl_env \<Rightarrow> host_call \<Rightarrow> lease_observation option ctl" where
  "call_lease E c = call_host E c SeenLease (\<lambda>n. cw_lease (ce_world E) n c)"

definition observe_lease :: "ctl_env \<Rightarrow> allocation_claim \<Rightarrow> lease_observation option \<Rightarrow> tick ctl" where
  "observe_lease E a response =
     (case response of
        None \<Rightarrow> lease_unknown E a
      | Some o' \<Rightarrow>
          sbind (record_evidence E (SeenLease o') (\<lambda>n. cw_record_lease (ce_world E) n a o')) (\<lambda>r.
          case r of
            Inr _ \<Rightarrow> sret Maintained
          | Inl BadEvidence \<Rightarrow> lease_unknown E a
          | Inl SimulationDenied \<Rightarrow> lease_unknown E a
          | Inl e \<Rightarrow> lease_error E a e))"

fun lease_asks :: "lease_action \<Rightarrow> host_call option" where
  "lease_asks (LeaseRenew q) = Some (CallRenew q)"
| "lease_asks _ = None"

definition maintenance_tick :: "ctl_env \<Rightarrow> tick ctl" where
  "maintenance_tick E =
     (let W = ce_world E in
      sbind (consult E (cw_claim_allocation W)) (\<lambda>r.
      sbind (slift (map_err ErrDispatch r)) (\<lambda>found.
      case found of None \<Rightarrow> sret Idle | Some a \<Rightarrow>
      sbind (prepare E (\<lambda>n. cw_prepare_lease W n a) lease_asks) (\<lambda>r.
      case r of
        Inl e \<Rightarrow> lease_error E a e
      | Inr (LeaseCleanup _) \<Rightarrow> sret Maintained
      | Inr (LeaseRenew q) \<Rightarrow> sbind (call_lease E (CallRenew q)) (observe_lease E a)
      | Inr (LeaseInspect w) \<Rightarrow> sbind (call_lease E (CallInspectLease w)) (observe_lease E a)))))"

section \<open>Uploads\<close>

definition set_cache :: "(source_ref \<times> bytes) option \<Rightarrow> unit ctl" where
  "set_cache c = swrite (\<lambda>s. s\<lparr>ct_cache := c\<rparr>)"

definition call_file :: "ctl_env \<Rightarrow> host_call \<Rightarrow> file_observation option ctl" where
  "call_file E c = call_host E c SeenFile (\<lambda>n. cw_file (ce_world E) n c)"

definition observe_upload :: "ctl_env \<Rightarrow> claim \<Rightarrow> nat option \<Rightarrow> file_observation option \<Rightarrow> tick ctl" where
  "observe_upload E k written response =
     (case response of
        None \<Rightarrow> mark_unknown E UploadUnknown k
      | Some o' \<Rightarrow>
          sbind (record_evidence E (SeenFile o') (\<lambda>n. cw_observe_upload (ce_world E) n k o' written)) (\<lambda>r.
          sbind (if is_ok r \<and> (fobs_not_started o' \<or> fobs_state o' \<in> {3, 4, 5}) then set_cache None else sret ()) (\<lambda>_.
          evidence_result E UploadUnknown k r)))"

text \<open>The bytes of a source are verified before they are cached.\<close>

definition source_matches :: "crates \<Rightarrow> source_ref \<Rightarrow> bytes \<Rightarrow> bool" where
  "source_matches C r b =
     (length b = up_size (sp_upload (sr_plan r)) \<and> sha256 C b = up_sha256 (sp_upload (sr_plan r)))"

definition write_chunk :: "ctl_env \<Rightarrow> claim \<Rightarrow> file_request \<Rightarrow> source_ref \<Rightarrow> nat \<Rightarrow> nat \<Rightarrow> bytes \<Rightarrow> tick ctl" where
  "write_chunk E k q r offset limit b =
     sbind (set_cache (Some (r, b))) (\<lambda>_.
     sbind (slift (ok_or ErrConfig (checked_add_u64 offset limit))) (\<lambda>bound.
     sbind (sensure (bound \<le> length b) ErrConfig) (\<lambda>_.
     let data = take limit (drop offset b) in
     sbind (prepare E (\<lambda>n. cw_confirm_write (ce_world E) n k q r offset) (\<lambda>_. Some (CallWrite q offset data))) (\<lambda>confirmed.
     case confirmed of
       Inl e \<Rightarrow>
         sbind (set_cache None) (\<lambda>_.
         case e of
           DispatchLost \<Rightarrow> sret LostOwnership
         | DispatchUnauthorized \<Rightarrow> mark_unknown E UploadUnknown k
         | DispatchConflict \<Rightarrow> mark_unknown E UploadUnknown k
         | e \<Rightarrow> fail_dispatch e)
     | Inr _ \<Rightarrow> sbind (call_file E (CallWrite q offset data)) (observe_upload E k (Some bound))))))"

definition upload_write :: "ctl_env \<Rightarrow> claim \<Rightarrow> int \<Rightarrow> file_request \<Rightarrow> source_ref \<Rightarrow> nat \<Rightarrow> nat \<Rightarrow> tick ctl" where
  "upload_write E k now q r offset limit =
     (if sp_expires (sr_plan r) \<le> now
      then sbind (set_cache None) (\<lambda>_. mark_unknown E UploadUnknown k)
      else
      sbind (sread ct_cache) (\<lambda>cache.
      case (case cache of Some (old, b) \<Rightarrow> (if old = r then Some b else None) | None \<Rightarrow> None) of
        Some b \<Rightarrow> write_chunk E k q r offset limit b
      | None \<Rightarrow>
          sbind (set_cache None) (\<lambda>_.
          sbind (await E (\<lambda>n. cw_read_source (ce_world E) n r now)) (\<lambda>x.
          case x of None \<Rightarrow> mark_unknown E UploadUnknown k
          | Some b \<Rightarrow>
              if \<not> source_matches (ce_crates E) r b then mark_unknown E UploadUnknown k
              else write_chunk E k q r offset limit b))))"

definition upload_source :: "ctl_env \<Rightarrow> claim \<Rightarrow> int \<Rightarrow> source_plan \<Rightarrow> tick ctl" where
  "upload_source E k now p =
     sbind (call_host E (CallReconcileSource p) SeenSource (\<lambda>n. cw_reconcile_source (ce_world E) n p now)) (\<lambda>x.
     case x of
       None \<Rightarrow> mark_unknown E UploadUnknown k
     | Some r \<Rightarrow>
         sbind (record_evidence E (SeenSource r) (\<lambda>n. cw_accept_source (ce_world E) n k r)) (\<lambda>y.
         case y of
           Inr _ \<Rightarrow> sret Confirmed
         | Inl DispatchLost \<Rightarrow> sret LostOwnership
         | Inl BadEvidence \<Rightarrow> mark_unknown E UploadUnknown k
         | Inl DispatchConflict \<Rightarrow> mark_unknown E UploadUnknown k
         | Inl e \<Rightarrow> fail_dispatch e))"

fun upload_asks :: "upload_action \<Rightarrow> host_call option" where
  "upload_asks (UploadSource p) = Some (CallReconcileSource p)"
| "upload_asks (UploadBegin q) = Some (CallBegin q)"
| "upload_asks (UploadCommit q) = Some (CallCommit q)"
| "upload_asks (UploadAbort q) = Some (CallAbort q)"
| "upload_asks _ = None"

definition upload_step :: "ctl_env \<Rightarrow> claim \<Rightarrow> tick ctl" where
  "upload_step E k =
     (let W = ce_world E in
      sbind (sensure (ce_sources E) ErrConfig) (\<lambda>_.
      sbind (prepare E (\<lambda>n. cw_prepare_upload W n k) upload_asks) (\<lambda>r.
      case r of
        Inl DispatchUnavailable \<Rightarrow> defer_claim E k
      | Inl DispatchUnauthorized \<Rightarrow> defer_claim E k
      | Inl e \<Rightarrow> prepared_error E k e
      | Inr action \<Rightarrow>
      sbind (sread (\<lambda>s. cw_clock W (ct_step s))) (\<lambda>now.
      case action of
        UploadRejected \<Rightarrow> sbind (set_cache None) (\<lambda>_. sret Rejected)
      | UploadSource p \<Rightarrow> upload_source E k now p
      | UploadBegin q \<Rightarrow> sbind (call_file E (CallBegin q)) (observe_upload E k None)
      | UploadCommit q \<Rightarrow> sbind (call_file E (CallCommit q)) (observe_upload E k None)
      | UploadAbort q \<Rightarrow> sbind (set_cache None) (\<lambda>_. sbind (call_file E (CallAbort q)) (observe_upload E k None))
      | UploadInspect q \<Rightarrow> sbind (call_file E (CallInspectFile q)) (observe_upload E k None)
      | UploadWrite q r offset limit \<Rightarrow> upload_write E k now q r offset limit))))"

definition upload_tick :: "ctl_env \<Rightarrow> claim \<Rightarrow> tick ctl" where
  "upload_tick E k =
     within (upload_step E k) (sbind (set_cache None) (\<lambda>_. mark_unknown E UploadUnknown k))"

section \<open>The tick\<close>

definition serve_claim :: "ctl_env \<Rightarrow> operation_kind \<Rightarrow> claim \<Rightarrow> tick ctl" where
  "serve_claim E kind k =
     (case kind of
        KindDestroy \<Rightarrow> destroy_tick E k
      | KindExecute \<Rightarrow> execute_tick E k
      | KindFileWrite \<Rightarrow> upload_tick E k
      | _ \<Rightarrow> create_tick E k)"

definition queue_kinds :: "operation_kind list" where
  "queue_kinds = [KindDestroy, KindCreate, KindExecute, KindFileWrite]"

text \<open>The order in which a tick asks for work: every kind once, from the cursor on.\<close>

definition queue_order :: "nat \<Rightarrow> operation_kind list" where
  "queue_order first = map (\<lambda>i. queue_kinds ! ((first + i) mod 4)) [0..<4]"

text \<open>The loop over the kinds; \<open>None\<close> when no queue holds a claim.\<close>

fun take_work :: "ctl_env \<Rightarrow> operation_kind list \<Rightarrow> (operation_kind \<times> claim) option ctl" where
  "take_work E [] = sret None"
| "take_work E (kind # kinds) =
     (if kind = KindFileWrite \<and> \<not> ce_sources E then take_work E kinds
      else sbind (consult E (\<lambda>n. cw_claim_next (ce_world E) n kind)) (\<lambda>r.
           sbind (slift (map_err ErrClaim r)) (\<lambda>found.
           case found of Some k \<Rightarrow> sret (Some (kind, k)) | None \<Rightarrow> take_work E kinds)))"

definition cancel_tick :: "ctl_env \<Rightarrow> tick option ctl" where
  "cancel_tick E =
     within
       (sbind (consult E (\<lambda>n. cw_claim_next (ce_world E) n KindCancel)) (\<lambda>r.
        sbind (slift (map_err ErrClaim r)) (\<lambda>found.
        case found of None \<Rightarrow> sret None | Some k \<Rightarrow>
        sbind (consult E (\<lambda>n. cw_reconcile_cancel (ce_world E) n k)) (\<lambda>r.
        case r of
          Inr completed \<Rightarrow> sret (Some (if completed then Confirmed else Deferred))
        | Inl DispatchLost \<Rightarrow> sret (Some LostOwnership)
        | Inl e \<Rightarrow> fail_dispatch e))))
       (sret (Some Deferred))"

definition dispatch_tick :: "ctl_env \<Rightarrow> tick option \<Rightarrow> tick ctl" where
  "dispatch_tick E cancellation =
     sbind (maintenance_tick E) (\<lambda>maintenance.
     sbind (sread ct_cursor) (\<lambda>first.
     sbind (swrite (\<lambda>s. s\<lparr>ct_cursor := (first + 1) mod 4\<rparr>)) (\<lambda>_.
     sbind (take_work E (queue_order first)) (\<lambda>work.
     case work of
       Some (kind, k) \<Rightarrow> serve_claim E kind k
     | None \<Rightarrow> sret (case cancellation of None \<Rightarrow> maintenance | Some t \<Rightarrow> t)))))"

definition controller_tick :: "ctl_env \<Rightarrow> tick ctl" where
  "controller_tick E =
     sbind (cancel_tick E) (\<lambda>cancellation s.
     case check_host E s of
       (Inr _, t) \<Rightarrow> dispatch_tick E cancellation t
     | (Inl e, t) \<Rightarrow>
         sbind (consult E (cw_runtime_unknown (ce_world E))) (\<lambda>r.
         sbind (slift (map_err ErrDispatch r)) (\<lambda>_.
         case cancellation of None \<Rightarrow> sfail e | Some c \<Rightarrow> sret c)) t)"

end
