(* ===== verification/Controller_Laws.thy ===== *)
theory Controller_Laws
  imports Controller
begin

text \<open>
  The discipline of the controller's calls. \<open>stage_run\<close> reads a log: a changing call follows the
  answer of the store that lets the controller make that very call, with nothing in between; one
  answer serves one call; while a changing call is open, nothing but its answer, or what the store
  is told of it, follows; an answer belongs to the call before it, and only an answer that came is
  recorded. \<open>wp\<close> is a calculus of weakest preconditions over the stage a log has reached, by the
  structure of a method.
\<close>

section \<open>Stages\<close>

text \<open>\<open>Told\<close>: the last event is what the store said to evidence or to an unknown outcome.\<close>

datatype told = Accepted | Refused | UnknownKept | UnknownRefused

datatype stage = Quiet | Ready host_call | Waiting host_call | Seen host_call evidence | Told told

definition authorises :: "host_call \<Rightarrow> host_call \<Rightarrow> bool" where
  "authorises c d =
     (case (c, d) of
        (CallCreate q, CallCreate q') \<Rightarrow> q'\<lparr>cq_permit_json := cq_permit_json q\<rparr> = q
      | _ \<Rightarrow> c = d)"

fun reads :: "host_call \<Rightarrow> bool" where
  "reads CallHealth = True"
| "reads (CallAuthority q) = (auq_permits q = [])"
| "reads (CallInspect _) = True"
| "reads (CallInspectLease _) = True"
| "reads (CallInspectCommand _ _) = True"
| "reads (CallInspectFile _) = True"
| "reads _ = False"

text \<open>
  A call that may be left without its outcome: one that changes nothing, and a registration of
  permits, after which the next attempt first asks the host how far it got.
\<close>

fun may_rest :: "host_call \<Rightarrow> bool" where
  "may_rest (CallAuthority _) = True"
| "may_rest c = reads c"

fun resting :: "stage \<Rightarrow> bool" where
  "resting Quiet = True"
| "resting (Told _) = True"
| "resting (Ready _) = True"
| "resting (Waiting c) = may_rest c"
| "resting (Seen c _) = may_rest c"

text \<open>An outcome may be marked unknown at any time but right after evidence that was accepted.\<close>

fun stage_step :: "stage \<Rightarrow> ctl_event \<Rightarrow> stage option" where
  "stage_step st (Consulted asked) =
     (if resting st then Some (case asked of None \<Rightarrow> Quiet | Some c \<Rightarrow> Ready c) else None)"
| "stage_step st (Called c) =
     (if reads c then (if resting st then Some (Waiting c) else None)
      else (case st of Ready d \<Rightarrow> if authorises d c then Some (Waiting c) else None | _ \<Rightarrow> None))"
| "stage_step st (Answered v) = (case st of Waiting c \<Rightarrow> Some (Seen c v) | _ \<Rightarrow> None)"
| "stage_step st (Recorded v ok) =
     (case st of Seen _ w \<Rightarrow> if w = v then Some (Told (if ok then Accepted else Refused)) else None | _ \<Rightarrow> None)"
| "stage_step st (Marked ok) =
     (if st = Told Accepted then None else Some (Told (if ok then UnknownKept else UnknownRefused)))"

fun stage_run :: "stage \<Rightarrow> ctl_event list \<Rightarrow> stage option" where
  "stage_run st [] = Some st"
| "stage_run st (e # es) = Option.bind (stage_step st e) (\<lambda>st'. stage_run st' es)"

definition stage_of :: "ctl_state \<Rightarrow> stage option" where
  "stage_of s = stage_run Quiet (ct_log s)"

lemma stage_run_append: "stage_run st (xs @ ys) = Option.bind (stage_run st xs) (\<lambda>st'. stage_run st' ys)"
  by (induction xs arbitrary: st) (auto split: bind_splits)

section \<open>Weakest preconditions\<close>

text \<open>
  \<open>wp b m Q F st\<close>: from every state at stage \<open>st\<close>, under a time bound when \<open>b\<close>, \<open>m\<close> reaches a stage
  that satisfies \<open>Q\<close> with its result, or \<open>F\<close> with its error, and the bound is what it was.
\<close>

definition meets ::
    "bool \<Rightarrow> ('a \<Rightarrow> stage \<Rightarrow> bool) \<Rightarrow> (controller_error \<Rightarrow> stage \<Rightarrow> bool) \<Rightarrow> (controller_error + 'a) \<times> ctl_state \<Rightarrow> bool" where
  "meets b Q F p =
     (ct_timed (snd p) = b \<and>
      (\<exists>u. stage_of (snd p) = Some u \<and> (case fst p of Inl e \<Rightarrow> F e u | Inr a \<Rightarrow> Q a u)))"

definition wp :: "bool \<Rightarrow> 'a ctl \<Rightarrow> ('a \<Rightarrow> stage \<Rightarrow> bool) \<Rightarrow> (controller_error \<Rightarrow> stage \<Rightarrow> bool) \<Rightarrow> stage \<Rightarrow> bool" where
  "wp b m Q F st = (\<forall>s. ct_timed s = b \<longrightarrow> stage_of s = Some st \<longrightarrow> meets b Q F (m s))"

named_theorems wp_intro \<open>weakest preconditions, by the structure of a method\<close>

lemma wpD: "wp b m Q F st \<Longrightarrow> ct_timed s = b \<Longrightarrow> stage_of s = Some st \<Longrightarrow> meets b Q F (m s)"
  by (simp add: wp_def)

lemma meets_result:
  "meets b (\<lambda>a. P (Inr a)) (\<lambda>e. P (Inl e)) p \<Longrightarrow> \<exists>u. stage_of (snd p) = Some u \<and> P (fst p) u"
  by (cases "fst p") (auto simp: meets_def)

lemma meets_mono: "meets b Q F p \<Longrightarrow> (\<And>a u. Q a u \<Longrightarrow> Q' a u) \<Longrightarrow> (\<And>e u. F e u \<Longrightarrow> F' e u) \<Longrightarrow> meets b Q' F' p"
  by (auto simp: meets_def split: sum.splits)

lemma wp_mono:
  "wp b m Q F st \<Longrightarrow> (\<And>a u. Q a u \<Longrightarrow> Q' a u) \<Longrightarrow> (\<And>e u. F e u \<Longrightarrow> F' e u) \<Longrightarrow> wp b m Q' F' st"
  unfolding wp_def using meets_mono[of b Q F _ Q' F'] by blast

lemma wp_sbind [wp_intro]:
  assumes "wp b m (\<lambda>a. wp b (f a) Q F) F st"
  shows "wp b (sbind m f) Q F st"
  unfolding wp_def
proof (intro allI impI)
  fix s
  assume "ct_timed s = b" "stage_of s = Some st"
  then have m: "meets b (\<lambda>a. wp b (f a) Q F) F (m s)" by (rule wpD[OF assms])
  obtain r t where p: "m s = (r, t)" by (cases "m s")
  show "meets b Q F (sbind m f s)"
  proof (cases r)
    case (Inl e)
    with m p show ?thesis by (simp add: sbind_def meets_def)
  next
    case (Inr a)
    with m p obtain u where "ct_timed t = b" "stage_of t = Some u" "wp b (f a) Q F u" by (auto simp: meets_def)
    with p Inr show ?thesis using wpD by (simp add: sbind_def)
  qed
qed

lemma wp_sret [wp_intro]: "Q a st \<Longrightarrow> wp b (sret a) Q F st"
  and wp_sfail [wp_intro]: "F e st \<Longrightarrow> wp b (sfail e) Q F st"
  and wp_fail [wp_intro]: "F (ErrDispatch d) st \<Longrightarrow> wp b (fail_dispatch d) Q F st"
  and wp_sensure [wp_intro]: "(c \<Longrightarrow> Q1 () st) \<Longrightarrow> (\<not> c \<Longrightarrow> F e st) \<Longrightarrow> wp b (sensure c e) Q1 F st"
  and wp_sread [wp_intro]: "(\<And>a. Q2 a st) \<Longrightarrow> wp b (sread g) Q2 F st"
  by (auto simp: wp_def meets_def fail_dispatch_def ensure_def)

lemma wp_slift [wp_intro]: "(\<And>a. x = Inr a \<Longrightarrow> Q a st) \<Longrightarrow> (\<And>e. x = Inl e \<Longrightarrow> F e st) \<Longrightarrow> wp b (slift x) Q F st"
  by (cases x) (auto simp: wp_def meets_def)

lemma wp_swrite:
  "(\<And>s. ct_timed (g s) = ct_timed s \<and> ct_log (g s) = ct_log s) \<Longrightarrow> Q () st \<Longrightarrow> wp b (swrite g) Q F st"
  by (auto simp: wp_def meets_def stage_of_def)

lemma wp_cache [wp_intro]: "Q () st \<Longrightarrow> wp b (set_cache c) Q F st"
  unfolding set_cache_def by (rule wp_swrite) simp_all

lemma wp_await [wp_intro]: "(\<And>a. Q a st) \<Longrightarrow> (b \<Longrightarrow> F Elapsed st) \<Longrightarrow> wp b (await E f) Q F st"
  by (auto simp: wp_def meets_def await_def Let_def stage_of_def)

lemma wp_note: "stage_step st e = Some u \<Longrightarrow> Q () u \<Longrightarrow> wp b (note_ctl e) Q F st"
  by (auto simp: wp_def meets_def note_ctl_def stage_of_def stage_run_append)

text \<open>An answer of the store leaves what it lets the controller do.\<close>

definition asked :: "host_call option \<Rightarrow> stage" where
  "asked c = (case c of None \<Rightarrow> Quiet | Some c \<Rightarrow> Ready c)"

lemma asked_simps [simp]: "asked None = Quiet" "asked (Some c) = Ready c"
  by (simp_all add: asked_def)

lemma resting_asked [simp]: "resting (asked c)"
  by (cases c) simp_all

lemma wp_prepare:
  assumes "resting st" "\<And>e. Q (Inl e) Quiet" "\<And>a. Q (Inr a) (asked (i a))" "b \<Longrightarrow> F Elapsed st"
  shows "wp b (prepare E f i) Q F st"
proof -
  have "wp b (note_ctl (Consulted (case r of Inl _ \<Rightarrow> None | Inr a \<Rightarrow> i a))) (\<lambda>_. wp b (sret r) Q F) F st" for r
    by (rule wp_note[where u = "asked (case r of Inl _ \<Rightarrow> None | Inr a \<Rightarrow> i a)"])
      (use assms(1-3) in \<open>auto simp: asked_def intro!: wp_sret split: sum.split\<close>)
  then show ?thesis
    unfolding prepare_def by (intro wp_sbind wp_await assms(4))
qed

lemma wp_consult: "resting st \<Longrightarrow> (\<And>r. Q r Quiet) \<Longrightarrow> (b \<Longrightarrow> F Elapsed st) \<Longrightarrow> wp b (consult E f) Q F st"
  unfolding consult_def by (rule wp_prepare) simp_all

lemma wp_call:
  assumes "reads c \<and> resting st \<or> (\<exists>d. st = Ready d \<and> authorises d c)"
    and "\<And>a. Q (Some a) (Seen c (seen a))" and "Q None (Waiting c)" and "b \<Longrightarrow> F Elapsed (Waiting c)"
  shows "wp b (call_host E c seen f) Q F st"
proof -
  have called: "stage_step st (Called c) = Some (Waiting c)" using assms(1) by auto
  have answered: "wp b (case r of None \<Rightarrow> sret () | Some a \<Rightarrow> note_ctl (Answered (seen a))) (\<lambda>_. wp b (sret r) Q F) F (Waiting c)" for r
    using assms(2,3) by (cases r) (auto intro!: wp_sret intro: wp_note[where u = "Seen c (seen a)" for a])
  show ?thesis
    unfolding call_host_def
    by (intro wp_sbind wp_note[OF called] wp_await answered assms(4))
qed

lemma wp_record:
  assumes "\<And>r. Q r (Told (if is_ok r then Accepted else Refused))" "b \<Longrightarrow> F Elapsed (Seen c v)"
  shows "wp b (record_evidence E v f) Q F (Seen c v)"
proof -
  have "wp b (note_ctl (Recorded v (is_ok r))) (\<lambda>_. wp b (sret r) Q F) F (Seen c v)" for r
    by (intro wp_note[where u = "Told (if is_ok r then Accepted else Refused)"] wp_sret assms(1)) simp
  then show ?thesis
    unfolding record_evidence_def by (intro wp_sbind wp_await assms(2))
qed

lemma wp_marked:
  assumes "st \<noteq> Told Accepted" "Q () (Told (if ok then UnknownKept else UnknownRefused))"
  shows "wp b (note_ctl (Marked ok)) Q F st"
  using assms by (intro wp_note[where u = "Told (if ok then UnknownKept else UnknownRefused)"]) simp_all

lemma wp_within [wp_intro]:
  assumes "wp True m Q (\<lambda>e u. if e = Elapsed then wp False late Q F u else F e u) st"
  shows "wp False (within m late) Q F st"
  unfolding wp_def
proof (intro allI impI)
  fix s
  assume s: "ct_timed s = False" "stage_of s = Some st"
  let ?s = "s\<lparr>ct_timed := True\<rparr>"
  have "ct_timed ?s = True" "stage_of ?s = Some st" using s by (simp_all add: stage_of_def)
  from wpD[OF assms this] obtain r t u where m: "m ?s = (r, t)" "stage_of t = Some u"
    "case r of Inl e \<Rightarrow> if e = Elapsed then wp False late Q F u else F e u | Inr a \<Rightarrow> Q a u"
    by (cases "m ?s") (auto simp: meets_def)
  have u: "stage_of (t\<lparr>ct_timed := False\<rparr>) = Some u" using m(2) by (simp add: stage_of_def)
  show "meets False Q F (within m late s)"
  proof (cases "r = Inl Elapsed")
    case True
    with m u show ?thesis by (auto simp: within_def intro: wpD)
  next
    case False
    then have "within m late s = (r, t\<lparr>ct_timed := False\<rparr>)"
      using m(1) by (auto simp: within_def split: sum.split controller_error.split)
    with False m(3) u show ?thesis by (auto simp: meets_def split: sum.splits if_splits)
  qed
qed

lemma wp_case_option [wp_intro]:
  "(x = None \<Longrightarrow> wp b m Q F st) \<Longrightarrow> (\<And>a. x = Some a \<Longrightarrow> wp b (f a) Q F st) \<Longrightarrow>
    wp b (case x of None \<Rightarrow> m | Some a \<Rightarrow> f a) Q F st"
  by (cases x) simp_all

lemma wp_if [wp_intro]:
  "(c \<Longrightarrow> wp b m Q F st) \<Longrightarrow> (\<not> c \<Longrightarrow> wp b m' Q F st) \<Longrightarrow> wp b (if c then m else m') Q F st"
  by simp

text \<open>
  The ticks keep the discipline: what each method of the controller does to the stage of its log.
  \<open>closes\<close> says how a tick may end: confirmed exactly when the store's last word was to accept the
  evidence, unknown exactly when it was to keep the unknown outcome, and with no call open but
  that for a previous epoch, when its time bound has passed and the claim is deferred.
\<close>

section \<open>Outcomes\<close>

fun open_previous :: "stage \<Rightarrow> bool" where
  "open_previous (Waiting (CallPrevious _)) = True"
| "open_previous (Seen (CallPrevious _) _) = True"
| "open_previous _ = False"

definition closes :: "controller_error + tick \<Rightarrow> stage \<Rightarrow> bool" where
  "closes r st =
     ((r = Inr Confirmed \<longleftrightarrow> st = Told Accepted) \<and> (r = Inr OutcomeUnknown \<longleftrightarrow> st = Told UnknownKept) \<and>
      (st = Quiet \<or> (\<exists>x. st = Told x) \<or> open_previous st \<and> r = Inr Deferred))"

abbreviation "ends t \<equiv> closes (Inr t)"
abbreviation "aborts e \<equiv> closes (Inl e)"

text \<open>A stage at which a tick may end with any result but those two.\<close>

definition idle :: "stage \<Rightarrow> bool" where
  "idle st = (st \<in> {Quiet, Told Refused, Told UnknownRefused})"

lemma idle_simps [simp]: "idle Quiet" "idle (Told Refused)" "idle (Told UnknownRefused)"
  by (simp_all add: idle_def)

lemma idle_resting: "idle st \<Longrightarrow> resting st"
  by (auto simp: idle_def)

text \<open>What the outcomes need of the postcondition: \<open>settles b Q F\<close>.\<close>

definition fine :: "(tick \<Rightarrow> stage \<Rightarrow> bool) \<Rightarrow> (controller_error \<Rightarrow> stage \<Rightarrow> bool) \<Rightarrow> stage \<Rightarrow> bool" where
  "fine Q F st = ((\<forall>t. t \<notin> {Confirmed, OutcomeUnknown} \<longrightarrow> Q t st) \<and> (\<forall>e. F e st))"

definition settles :: "(tick \<Rightarrow> stage \<Rightarrow> bool) \<Rightarrow> (controller_error \<Rightarrow> stage \<Rightarrow> bool) \<Rightarrow> bool" where
  "settles Q F =
     ((\<forall>st. idle st \<longrightarrow> fine Q F st) \<and> Q Confirmed (Told Accepted) \<and> Q OutcomeUnknown (Told UnknownKept))"

lemma settlesD:
  assumes "settles Q F"
  shows "idle st \<Longrightarrow> t \<notin> {Confirmed, OutcomeUnknown} \<Longrightarrow> Q t st" "idle st \<Longrightarrow> F e st"
    "Q Confirmed (Told Accepted)" "Q OutcomeUnknown (Told UnknownKept)"
  using assms by (simp_all add: settles_def fine_def)

lemma wp_defer:
  assumes "settles Q F" "resting st" "b \<Longrightarrow> F Elapsed st"
  shows "wp b (defer_claim E k) Q F st"
  unfolding defer_claim_def
  by (rule wp_sbind, rule wp_consult)
    (use assms(2,3) settlesD(1,2)[OF assms(1), of Quiet] in \<open>auto split: sum.split claim_error.split intro!: wp_intro\<close>)

lemma wp_reject:
  assumes "settles Q F" "resting st" "b \<Longrightarrow> F Elapsed st"
  shows "wp b (reject_claim E k reason) Q F st"
  unfolding reject_claim_def
  by (rule wp_sbind, rule wp_consult)
    (use assms(2,3) settlesD(1,2)[OF assms(1), of Quiet] in
      \<open>auto split: sum.split dispatch_error.split intro!: wp_intro wp_defer[OF assms(1)]\<close>)

lemma wp_mark:
  assumes "settles Q F" "st \<noteq> Told Accepted" "b \<Longrightarrow> F Elapsed st"
  shows "wp b (mark_unknown E u k) Q F st"
proof -
  note s = settlesD(1,2)[OF assms(1), of "Told UnknownRefused"] settlesD(4)[OF assms(1)]
  have answer: "wp b (case r of
       Inr _ \<Rightarrow> sret OutcomeUnknown
     | Inl DispatchLost \<Rightarrow> sret LostOwnership
     | Inl DispatchConflict \<Rightarrow> (if u = UploadUnknown then fail_dispatch DispatchConflict else defer_claim E k)
     | Inl e \<Rightarrow> fail_dispatch e) Q F (Told (if is_ok r then UnknownKept else UnknownRefused))" for r :: "dispatch_error + unit"
    using s by (auto split: sum.split dispatch_error.split intro!: wp_intro wp_defer[OF assms(1)])
  show ?thesis
    unfolding mark_unknown_def
    by (rule wp_sbind, rule wp_await, rule wp_sbind, rule wp_marked[OF assms(2)], rule answer) (rule assms(3))
qed

lemma wp_prepared:
  assumes "settles Q F" "idle st" "b \<Longrightarrow> F Elapsed st"
  shows "wp b (prepared_error E k e) Q F st"
  unfolding prepared_error_def
  using settlesD(1,2)[OF assms(1,2)] assms(3) idle_resting[OF assms(2)]
  by (auto split: dispatch_error.split intro!: wp_intro wp_defer[OF assms(1)])

lemma wp_evidence:
  assumes "settles Q F"
  shows "wp b (evidence_result E u k r) Q F (Told (if is_ok r then Accepted else Refused))"
  unfolding evidence_result_def
  using settlesD(1,2)[OF assms, of "Told Refused"] settlesD(3)[OF assms]
  by (auto split: sum.split dispatch_error.split intro!: wp_intro wp_mark[OF assms] wp_defer[OF assms])

lemma wp_judge:
  assumes "settles Q F" "b \<Longrightarrow> F Elapsed (Seen c v)"
  shows "wp b (sbind (record_evidence E v f) (\<lambda>r. evidence_result E u k r)) Q F (Seen c v)"
  by (intro wp_sbind wp_record wp_evidence[OF assms(1)] assms(2))

lemma authorises_refl [simp]: "authorises c c"
  by (cases c) (simp_all add: authorises_def)

text \<open>A call the store has let go ahead, and what each answer of it leads to.\<close>

lemma wp_send:
  assumes "authorises d c" "\<And>a. Q (Some a) (Seen c (seen a))" "Q None (Waiting c)" "b \<Longrightarrow> F Elapsed (Waiting c)"
  shows "wp b (call_host E c seen f) Q F (Ready d)"
  by (intro wp_call) (auto intro: assms)

lemma wp_send_then:
  assumes "authorises d c" "\<And>a. wp b (g (Some a)) Q F (Seen c (seen a))" "wp b (g None) Q F (Waiting c)"
    "b \<Longrightarrow> F Elapsed (Waiting c)"
  shows "wp b (sbind (call_host E c seen f) g) Q F (Ready d)"
  by (intro wp_sbind wp_call) (auto intro: assms)

section \<open>The authority and the host\<close>

lemma wp_ask_authority:
  "auq_permits q = [] \<and> resting st \<or> (\<exists>d. st = Ready d \<and> authorises d (CallAuthority q)) \<Longrightarrow>
    (\<And>a. Q a (Seen (CallAuthority q) (SeenAuthority a))) \<Longrightarrow> (\<And>e. F e (Waiting (CallAuthority q))) \<Longrightarrow> wp b (ask_authority E q) Q F st"
  unfolding ask_authority_def by (intro wp_sbind wp_call) (auto intro!: wp_intro)

lemma wp_accept_registration:
  assumes "\<And>x. Q () (Told x)" "\<And>e x. F e (Told x)" "\<And>e. F e (Seen (CallAuthority q) (SeenAuthority a))"
  shows "wp b (accept_registration E a) Q F (Seen (CallAuthority q) (SeenAuthority a))"
  unfolding accept_registration_def
  by (intro wp_sbind wp_sensure wp_record wp_slift) (auto intro: assms)

abbreviation "rested \<equiv> (\<lambda>_. resting)"

lemma wp_sync:
  assumes "resting st"
  shows "wp b (sync_authority E) rested rested st"
  unfolding sync_authority_def Let_def
  by (intro wp_sbind wp_sread wp_if wp_consult wp_slift wp_sret wp_sensure wp_ask_authority wp_accept_registration wp_prepare)
    (auto simp: assms batch_asks_def ok_or_def split: option.splits)

lemma wp_prepare_permit: "resting st \<Longrightarrow> wp b (prepare_permit E k a) rested rested st"
  unfolding prepare_permit_def
  by (rule wp_sbind, rule wp_mono[OF wp_sync]) (auto intro!: wp_sbind wp_consult wp_slift wp_sensure)

lemma wp_permit_of:
  assumes "resting st"
  shows "wp b (permit_of E k a) rested rested st"
  unfolding wp_def
proof (intro allI impI)
  fix s
  assume s: "ct_timed s = b" "stage_of s = Some st"
  have p: "meets b rested rested (prepare_permit E k a s)" by (rule wpD[OF wp_prepare_permit[OF assms] s])
  obtain r t where rt: "prepare_permit E k a s = (r, t)" by (cases "prepare_permit E k a s")
  show "meets b rested rested (permit_of E k a s)"
    using s assms p rt by (cases r) (simp_all add: permit_of_def meets_def)
qed

lemma wp_permit_only: "wp b (permit_of E k a) rested (\<lambda>_ _. False) st" if "resting st"
proof -
  have "is_ok (fst (permit_of E k a s))" for s
    by (auto simp: permit_of_def is_ok_def split: prod.split sum.split)
  then show ?thesis
    using wp_permit_of[OF that, of b E k a] unfolding wp_def meets_def
    by (fastforce simp: is_ok_def split: sum.splits)
qed

lemma wp_check_host:
  assumes "resting st"
  shows "wp b (check_host E) rested rested st"
proof -
  have set: "wp b (swrite (ct_permits_update f)) Q F u" if "Q () u" for f Q F u
    using that by (intro wp_swrite) simp_all
  have keep: "wp b (swrite (ct_compatible_update f)) Q F u" if "Q () u" for f Q F u
    using that by (intro wp_swrite) simp_all
  have rest: "resting u \<Longrightarrow> wp b (sync_authority E) (\<lambda>_. wp b (sbind (consult E g) h) rested rested) rested u"
    if "\<And>x. wp b (h x) rested rested Quiet" for g h u
    by (rule wp_mono[OF wp_sync]) (auto intro!: wp_sbind wp_consult that)
  show ?thesis
    unfolding check_host_def Let_def
    by (intro wp_sbind wp_call wp_slift wp_sensure set rest)
      (auto simp: assms intro!: wp_intro wp_consult keep split: sum.split dispatch_error.split)
qed

section \<open>Operations\<close>

lemma settles_ends [simp]: "settles ends aborts"
  by (auto simp: settles_def fine_def closes_def idle_def)

lemma closes_idle [simp]: "idle st \<Longrightarrow> t \<notin> {Confirmed, OutcomeUnknown} \<Longrightarrow> closes (Inr t) st"
  "idle st \<Longrightarrow> closes (Inl e) st"
  by (auto simp: closes_def idle_def)

text \<open>
  Under the bound of the previous epoch, what may be left when it passes: nothing, or the call.
\<close>

definition cut :: "controller_error \<Rightarrow> stage \<Rightarrow> bool" where
  "cut e st = (if e = Elapsed then idle st \<or> open_previous st else idle st)"

definition previous_post :: "tick option \<Rightarrow> stage \<Rightarrow> bool" where
  "previous_post r st = (case r of None \<Rightarrow> st = Quiet | Some t \<Rightarrow> ends t st)"

lemma some_settles: "settles (\<lambda>t v. wp b (sret (Some t)) previous_post cut v) cut"
  by (auto simp: settles_def fine_def previous_post_def cut_def closes_def[of "Inr Confirmed"] closes_def[of "Inr OutcomeUnknown"] intro!: wp_sret)

lemma wp_previous_inner: "wp b (previous_inner E k) previous_post cut Quiet"
proof -
  have judged: "wp b (sbind (record_evidence E (SeenPrevious p) f) (\<lambda>r. sbind (evidence_result E u k r) (\<lambda>t. sret (Some t))))
      previous_post cut (Seen (CallPrevious q) (SeenPrevious p))" for p f u q
    by (intro wp_sbind wp_record wp_evidence some_settles) (simp add: cut_def)
  have some: "wp b (sret (Some t)) previous_post cut Quiet" if "t \<notin> {Confirmed, OutcomeUnknown}" for t
    using that by (auto simp: previous_post_def intro!: wp_sret)
  have send: "wp b (
          sbind (call_host E (CallPrevious q) SeenPrevious (\<lambda>n. cw_previous (ce_world E) n q)) (\<lambda>answer.
          case answer of
            Some p \<Rightarrow>
              (if pvo_request p \<noteq> Some q
               then sbind (mark_unknown E (PreviousUnknown q) k) (\<lambda>t. sret (Some t))
               else sbind (record_evidence E (SeenPrevious p) (\<lambda>n. cw_record_previous (ce_world E) n k p)) (\<lambda>r.
                    sbind (evidence_result E (PreviousUnknown q) k r) (\<lambda>t. sret (Some t))))
          | None \<Rightarrow> sbind (mark_unknown E (PreviousUnknown q) k) (\<lambda>t. sret (Some t)))) previous_post cut (Ready (CallPrevious q))" for q
    by (rule wp_send_then)
      (auto simp: cut_def[of Elapsed] intro!: judged wp_sbind[OF wp_mark[OF some_settles]])
  have answer: "wp b (case r of
        Inr None \<Rightarrow> sret None
      | Inl DispatchLost \<Rightarrow> sret (Some LostOwnership)
      | Inl DispatchConflict \<Rightarrow> sbind (defer_claim E k) (\<lambda>t. sret (Some t))
      | Inl e \<Rightarrow> fail_dispatch e
      | Inr (Some RejectUndispatched) \<Rightarrow> sbind (reject_claim E k HostEpochChanged) (\<lambda>t. sret (Some t))
      | Inr (Some (ReconcilePrevious q)) \<Rightarrow>
          sbind (call_host E (CallPrevious q) SeenPrevious (\<lambda>n. cw_previous (ce_world E) n q)) (\<lambda>answer.
          case answer of
            Some p \<Rightarrow>
              (if pvo_request p \<noteq> Some q
               then sbind (mark_unknown E (PreviousUnknown q) k) (\<lambda>t. sret (Some t))
               else sbind (record_evidence E (SeenPrevious p) (\<lambda>n. cw_record_previous (ce_world E) n k p)) (\<lambda>r.
                    sbind (evidence_result E (PreviousUnknown q) k r) (\<lambda>t. sret (Some t))))
          | None \<Rightarrow> sbind (mark_unknown E (PreviousUnknown q) k) (\<lambda>t. sret (Some t))))
        previous_post cut (case r of Inl _ \<Rightarrow> Quiet | Inr a \<Rightarrow> asked (previous_asks a))" (is "wp b (?m r) _ _ _") for r
    using send some
    by (auto split: sum.split option.split dispatch_error.split previous_action.split
        simp: cut_def previous_post_def[of None]
        intro!: wp_fail wp_sret wp_sbind[OF wp_defer[OF some_settles]] wp_sbind[OF wp_reject[OF some_settles]])
  have "wp b (prepare E (\<lambda>n. cw_prepare_previous (ce_world E) n k) previous_asks)
      (\<lambda>r. wp b (?m r) previous_post cut) cut Quiet"
    using answer[of "Inl e" for e] answer[of "Inr a" for a] by (intro wp_prepare) (simp_all add: cut_def)
  then show ?thesis unfolding previous_inner_def Let_def by (rule wp_sbind)
qed

lemma wp_previous_tick: "wp False (previous_tick E k) previous_post aborts Quiet"
  unfolding previous_tick_def
  by (rule wp_within, rule wp_mono[OF wp_previous_inner])
    (auto simp: cut_def previous_post_def closes_def idle_def intro!: wp_sret split: if_splits)

lemma wp_after_previous:
  assumes "wp False m ends aborts Quiet"
  shows "wp False (sbind (previous_tick E k) (\<lambda>p. case p of Some t \<Rightarrow> sret t | None \<Rightarrow> m)) ends aborts Quiet"
  by (rule wp_sbind, rule wp_mono[OF wp_previous_tick])
    (use assms in \<open>auto simp: previous_post_def split: option.splits intro!: wp_sret\<close>)

lemma wp_observe_destroy:
  "u \<noteq> Told Accepted \<Longrightarrow> (\<And>v. r = Some v \<Longrightarrow> u = Seen c (SeenAllocation v)) \<Longrightarrow>
    wp False (observe_destroy E k r) ends aborts u"
  unfolding observe_destroy_def by (auto split: option.split intro!: wp_mark wp_judge)

lemma wp_stop:
  "wp False (sbind (call_allocation E (CallStop w)) (observe_destroy E k)) ends aborts (Ready (CallStop w))"
  unfolding call_allocation_def
  by (rule wp_sbind, rule wp_send) (auto intro!: wp_observe_destroy)

lemma wp_destroy: "wp False (destroy_tick E k) ends aborts Quiet"
proof -
  have inspect: "wp False (sbind (call_allocation E (CallInspect w)) (\<lambda>response.
          if \<not> still_there w response then observe_destroy E k response
          else
          sbind (prepare E f destroy_asks) (\<lambda>r.
          case r of
            Inl e \<Rightarrow> prepared_error E k e
          | Inr (DestroyInspect _) \<Rightarrow> mark_unknown E DestroyUnknown k
          | Inr (DestroyStop w') \<Rightarrow> sbind (call_allocation E (CallStop w')) (observe_destroy E k)))) ends aborts Quiet" for w f
  proof -
    have again: "wp False (case x of DestroyInspect _ \<Rightarrow> mark_unknown E DestroyUnknown k
        | DestroyStop w' \<Rightarrow> sbind (call_allocation E (CallStop w')) (observe_destroy E k))
        ends aborts (asked (destroy_asks x))" for x
      by (cases x) (auto intro!: wp_mark wp_stop)
    show ?thesis
      unfolding call_allocation_def[of E "CallInspect w"]
      by (rule wp_sbind, rule wp_call)
        (auto intro!: wp_if wp_sbind[OF wp_prepare] wp_observe_destroy wp_prepared again)
  qed
  have act: "wp False (
      if foreign_owner E (case action of DestroyStop w \<Rightarrow> w | DestroyInspect w \<Rightarrow> w) then defer_claim E k
      else (case action of
        DestroyStop w \<Rightarrow> sbind (call_allocation E (CallStop w)) (observe_destroy E k)
      | DestroyInspect w \<Rightarrow>
          sbind (call_allocation E (CallInspect w)) (\<lambda>response.
          if \<not> still_there w response then observe_destroy E k response
          else
          sbind (prepare E (\<lambda>n. cw_prepare_destroy (ce_world E) n k True) destroy_asks) (\<lambda>r.
          case r of
            Inl e \<Rightarrow> prepared_error E k e
          | Inr (DestroyInspect _) \<Rightarrow> mark_unknown E DestroyUnknown k
          | Inr (DestroyStop w') \<Rightarrow> sbind (call_allocation E (CallStop w')) (observe_destroy E k)))))
      ends aborts (asked (destroy_asks action))" for action
    by (cases action) (auto intro!: wp_if wp_defer wp_stop inspect)
  show ?thesis
    unfolding destroy_tick_def Let_def
  proof (rule wp_after_previous, rule wp_sbind, rule wp_prepare, goal_cases)
    case (3 a)
    show ?case unfolding sum.case by (rule act)
  qed (auto intro!: wp_prepared)
qed

lemma authorises_permit: "authorises (CallCreate q) (CallCreate (q\<lparr>cq_permit_json := b\<rparr>))"
  by (simp add: authorises_def)

lemma wp_create: "wp False (create_tick E k) ends aborts Quiet"
proof -
  let ?W = "ce_world E" and ?c = "ce_config E"
  have refused: "wp False (create_refused E k e) ends aborts Quiet" for e
    unfolding create_refused_def
    by (auto split: dispatch_error.split intro!: wp_sret wp_fail wp_reject wp_defer)
  have placement: "wp False (placement_refused E k e) ends aborts Quiet" for e
    unfolding placement_refused_def
    by (auto split: placement_error.split intro!: wp_sret wp_sfail wp_reject wp_defer)
  let ?observe = "\<lambda>response. case response of
        None \<Rightarrow> mark_unknown E CreateUnknown k
      | Some o' \<Rightarrow> sbind (record_evidence E (SeenAllocation o') (\<lambda>n. cw_record_create ?W n k o')) (\<lambda>r.
          evidence_result E CreateUnknown k r)"
  have observe: "wp False (?observe r) ends aborts u"
    if "u \<noteq> Told Accepted" "\<And>v. r = Some v \<Longrightarrow> u = Seen c (SeenAllocation v)" for r u c
    using that by (auto split: option.split intro!: wp_mark wp_judge)
  have act: "wp False (sbind (case action of
               CreateStart q \<Rightarrow> call_allocation E (CallCreate (q\<lparr>cq_permit_json := launch\<rparr>))
             | CreateInspect w \<Rightarrow> call_allocation E (CallInspect w)) ?observe) ends aborts (asked (create_asks action))"
    for action launch
    unfolding call_allocation_def
    by (rule wp_sbind, cases action)
      (auto intro!: wp_send[OF authorises_permit] wp_call observe)
  have launch: "wp False (case permit of None \<Rightarrow> defer_claim E k | Some launch \<Rightarrow>
      sbind (prepare E (\<lambda>n. cw_prepare_create ?W n k (cc_images ?c)) create_asks) (\<lambda>r.
      case r of Inl e \<Rightarrow> create_refused E k e | Inr action \<Rightarrow>
      sbind (case action of
               CreateStart q \<Rightarrow> call_allocation E (CallCreate (q\<lparr>cq_permit_json := launch\<rparr>))
             | CreateInspect w \<Rightarrow> call_allocation E (CallInspect w)) ?observe)) ends aborts u"
    if "resting u" for permit u
    using that act refused by (auto split: option.split intro!: wp_defer wp_sbind[OF wp_prepare])
  have place: "wp False (sbind (consult E (\<lambda>n. cw_reserve ?W n k)) (\<lambda>r.
      case r of Inl e \<Rightarrow> placement_refused E k e | Inr reserved \<Rightarrow>
      if alc_host (placed_allocation reserved) \<noteq> cc_host ?c \<or> alc_epoch (placed_allocation reserved) \<noteq> cc_epoch ?c
      then defer_claim E k
      else
      sbind (permit_of E k (placed_allocation reserved)) (\<lambda>permit.
      case permit of None \<Rightarrow> defer_claim E k | Some launch \<Rightarrow>
      sbind (prepare E (\<lambda>n. cw_prepare_create ?W n k (cc_images ?c)) create_asks) (\<lambda>r.
      case r of Inl e \<Rightarrow> create_refused E k e | Inr action \<Rightarrow>
      sbind (case action of
               CreateStart q \<Rightarrow> call_allocation E (CallCreate (q\<lparr>cq_permit_json := launch\<rparr>))
             | CreateInspect w \<Rightarrow> call_allocation E (CallInspect w)) ?observe)))) ends aborts Quiet"
    using placement
    by (auto split: sum.split intro!: wp_sbind[OF wp_consult] wp_if wp_defer wp_sbind[OF wp_mono[OF wp_permit_only]] launch)
  show ?thesis
    unfolding create_tick_def Let_def by (rule wp_after_previous[OF place])
qed

lemma wp_execute: "wp False (execute_tick E k) ends aborts Quiet"
proof -
  let ?W = "ce_world E" and ?C = "ce_crates E"
  let ?observe = "\<lambda>response. case response of
        None \<Rightarrow> mark_unknown E ExecuteUnknown k
      | Some o' \<Rightarrow> sbind (record_evidence E (SeenCommand o') (\<lambda>n. cw_record_execute ?W n k o')) (\<lambda>r.
          evidence_result E ExecuteUnknown k r)"
  have observe: "wp False (?observe r) ends aborts u"
    if "u \<noteq> Told Accepted" "\<And>v. r = Some v \<Longrightarrow> u = Seen c (SeenCommand v)" for r u c
    using that by (auto split: option.split intro!: wp_mark wp_judge)
  have act: "wp False (sbind (case action of
               ExecuteDispatch w x \<Rightarrow> call_command E (CallExecute w (execute_to_wire ?C x))
             | ExecuteInspect w d \<Rightarrow> call_command E (CallInspectCommand w d)
             | ExecuteCancel w d \<Rightarrow> call_command E (CallCancelCommand w d)
             | ExecuteRejected \<Rightarrow> sret None) ?observe) ends aborts (asked (execute_asks E action))" for action
    unfolding call_command_def
    by (rule wp_sbind, cases action) (auto intro!: wp_send wp_call wp_sret observe)
  have foreign: "asked x \<noteq> Told Accepted" for x by (cases x) simp_all
  have rejected: "wp False (sret Rejected) ends aborts (asked (execute_asks E action))" if "execute_owner action = None" for action
    using that by (cases action) (auto simp: execute_owner_def intro!: wp_sret)
  show ?thesis
    unfolding execute_tick_def Let_def
    using act foreign rejected
    by (auto split: sum.split dispatch_error.split option.split
        intro!: wp_sbind[OF wp_prepare] wp_defer wp_prepared wp_if wp_mark)
qed

section \<open>Leases and uploads\<close>

lemma wp_lease_error: "resting st \<Longrightarrow> wp False (lease_error E a e) rested rested st"
  unfolding lease_error_def
  by (auto split: dispatch_error.split sum.split intro!: wp_intro wp_consult)

lemma wp_lease_unknown: "st \<noteq> Told Accepted \<Longrightarrow> wp False (lease_unknown E a) rested rested st"
  unfolding lease_unknown_def
  by (rule wp_sbind, rule wp_await, rule wp_sbind, rule wp_marked)
    (auto split: sum.split intro!: wp_intro wp_lease_error)

lemma wp_observe_lease:
  assumes "u \<noteq> Told Accepted" "\<And>v. r = Some v \<Longrightarrow> u = Seen c (SeenLease v)"
  shows "wp False (observe_lease E a r) rested rested u"
proof (cases r)
  case None
  then show ?thesis using assms(1) by (simp add: observe_lease_def wp_lease_unknown)
next
  case (Some v)
  then show ?thesis
    unfolding observe_lease_def using assms(2)
    by (auto split: sum.split dispatch_error.split intro!: wp_sbind[OF wp_record] wp_sret wp_lease_unknown wp_lease_error)
qed

lemma wp_maintenance:
  assumes "resting st"
  shows "wp False (maintenance_tick E) rested rested st"
proof -
  have read: "wp False (sbind (call_lease E (CallInspectLease w)) (observe_lease E a)) rested rested Quiet" for w a
    unfolding call_lease_def by (rule wp_sbind, rule wp_call) (auto intro!: wp_observe_lease)
  have send: "wp False (sbind (call_lease E (CallRenew q)) (observe_lease E a)) rested rested (Ready (CallRenew q))" for q a
    unfolding call_lease_def by (rule wp_send_then) (auto intro!: wp_observe_lease)
  show ?thesis
    unfolding maintenance_tick_def Let_def
    using assms by (auto split: sum.split lease_action.split
        intro!: wp_sbind[OF wp_consult] wp_sbind[OF wp_prepare] wp_sbind[OF wp_slift] wp_case_option wp_sret wp_lease_error send read)
qed

text \<open>A step of an upload, cut short by its time bound, is marked unknown whatever it had done.\<close>

definition upload_cut :: "controller_error \<Rightarrow> stage \<Rightarrow> bool" where
  "upload_cut e st = (if e = Elapsed then st \<noteq> Told Accepted else aborts e st)"

lemma upload_settles [simp]: "settles ends upload_cut"
  by (auto simp: settles_def fine_def upload_cut_def closes_def idle_def)

lemma upload_cut_simps [simp]: "st \<noteq> Told Accepted \<Longrightarrow> upload_cut Elapsed st" "idle st \<Longrightarrow> upload_cut e st"
  by (auto simp: upload_cut_def idle_def closes_def)

lemma wp_observe_upload:
  assumes "u \<noteq> Told Accepted" "\<And>v. r = Some v \<Longrightarrow> u = Seen c (SeenFile v)"
  shows "wp True (observe_upload E k w r) ends upload_cut u"
proof (cases r)
  case None
  then show ?thesis using assms(1) by (auto simp: observe_upload_def intro!: wp_mark)
next
  case (Some v)
  have cond: "wp True (if c then set_cache None else sret ()) Q F st" if "Q () st" for c Q F st
    using that by (auto intro!: wp_intro)
  show ?thesis
    unfolding observe_upload_def Some option.case assms(2)[OF Some]
    by (rule wp_sbind, rule wp_record, rule wp_sbind, rule cond, rule wp_evidence) simp_all
qed

lemma wp_send_file: "wp True (sbind (call_file E c) (observe_upload E k w)) ends upload_cut (Ready c)"
  unfolding call_file_def
  by (rule wp_sbind, rule wp_send) (auto intro!: wp_observe_upload)

lemma wp_write_chunk: "wp True (write_chunk E k q r off lim b) ends upload_cut Quiet"
  unfolding write_chunk_def Let_def
  by (auto split: sum.split dispatch_error.split
      intro!: wp_sbind[OF wp_cache] wp_sbind[OF wp_slift] wp_sbind[OF wp_sensure] wp_sbind[OF wp_prepare] wp_send_file
        wp_sret wp_mark wp_fail)

lemma wp_upload_write: "wp True (upload_write E k now q r off lim) ends upload_cut Quiet"
  unfolding upload_write_def
  by (auto split: option.split prod.split intro!: wp_if wp_sbind[OF wp_cache] wp_sbind[OF wp_sread] wp_sbind[OF wp_await]
      wp_mark wp_write_chunk)

lemma wp_upload_source: "wp True (upload_source E k now p) ends upload_cut (Ready (CallReconcileSource p))"
proof -
  have judged: "wp True (sbind (record_evidence E (SeenSource r) f) (\<lambda>y. case y of
           Inr _ \<Rightarrow> sret Confirmed
         | Inl DispatchLost \<Rightarrow> sret LostOwnership
         | Inl BadEvidence \<Rightarrow> mark_unknown E UploadUnknown k
         | Inl DispatchConflict \<Rightarrow> mark_unknown E UploadUnknown k
         | Inl e \<Rightarrow> fail_dispatch e)) ends upload_cut (Seen c (SeenSource r))" for r f c
    by (auto split: sum.split dispatch_error.split simp: closes_def[of "Inr Confirmed"]
        intro!: wp_sbind[OF wp_record] wp_sret wp_mark wp_fail)
  show ?thesis
    unfolding upload_source_def
    by (rule wp_send_then) (auto intro!: judged wp_mark)
qed

lemma wp_upload_step: "wp True (upload_step E k) ends upload_cut Quiet"
proof -
  have inspect: "wp True (sbind (call_file E (CallInspectFile q)) (observe_upload E k None)) ends upload_cut Quiet" for q
    unfolding call_file_def by (rule wp_sbind, rule wp_call) (auto intro!: wp_observe_upload)
  show ?thesis
    unfolding upload_step_def Let_def
    by (auto split: sum.split dispatch_error.split upload_action.split
        intro!: wp_sbind[OF wp_sensure] wp_sbind[OF wp_prepare] wp_sbind[OF wp_sread] wp_sbind[OF wp_cache] wp_sret wp_defer wp_prepared
          wp_send_file inspect wp_upload_source wp_upload_write)
qed

lemma wp_upload: "wp False (upload_tick E k) ends aborts Quiet"
  unfolding upload_tick_def
  by (rule wp_within, rule wp_mono[OF wp_upload_step])
    (auto simp: upload_cut_def intro!: wp_sbind[OF wp_cache] wp_mark)

section \<open>The tick\<close>

lemma wp_serve: "wp False (serve_claim E kind k) ends aborts Quiet"
  unfolding serve_claim_def
  by (auto split: operation_kind.split intro: wp_destroy wp_execute wp_upload wp_create)

lemma wp_take_work:
  "resting st \<Longrightarrow> wp False (take_work E kinds) (\<lambda>w u. resting u \<and> (w \<noteq> None \<longrightarrow> u = Quiet)) rested st"
  by (induction kinds arbitrary: st)
    (auto intro!: wp_sret wp_sbind[OF wp_consult] wp_sbind[OF wp_slift] wp_case_option)

lemma wp_cancel: "resting st \<Longrightarrow> wp False (cancel_tick E) rested rested st"
  unfolding cancel_tick_def
  by (rule wp_within)
    (auto split: sum.split dispatch_error.split option.split
      intro!: wp_sret wp_fail wp_sbind[OF wp_consult] wp_sbind[OF wp_slift])

text \<open>How the whole tick may end.\<close>

definition tick_ends :: "controller_error + tick \<Rightarrow> stage \<Rightarrow> bool" where
  "tick_ends r st = (resting st \<or> open_previous st \<and> r = Inr Deferred)"

lemma tick_rests [simp]: "resting st \<Longrightarrow> tick_ends r st"
  by (simp add: tick_ends_def)

lemma tick_closes: "closes r st \<Longrightarrow> tick_ends r st"
  by (auto simp: closes_def tick_ends_def)

abbreviation "tick_done t \<equiv> tick_ends (Inr t)"
abbreviation "tick_fails e \<equiv> tick_ends (Inl e)"

lemma wp_dispatch:
  assumes "resting st"
  shows "wp False (dispatch_tick E c) tick_done tick_fails st"
proof -
  have cursor: "wp False (swrite (\<lambda>s. s\<lparr>ct_cursor := n\<rparr>)) Q F u" if "Q () u" for n Q F u
    using that by (intro wp_swrite) simp_all
  have serve: "wp False (serve_claim E kind k) tick_done tick_fails Quiet" for kind k
    by (rule wp_mono[OF wp_serve]) (auto intro: tick_closes)
  have work: "wp False (sbind (take_work E kinds) (\<lambda>work. case work of
       Some (kind, k) \<Rightarrow> serve_claim E kind k | None \<Rightarrow> sret t)) tick_done tick_fails u" if "resting u" for kinds t u
    by (rule wp_sbind, rule wp_mono[OF wp_take_work[OF that]])
      (auto split: option.split intro!: wp_sret serve)
  show ?thesis
    unfolding dispatch_tick_def
    by (rule wp_sbind, rule wp_mono[OF wp_maintenance[OF assms]])
      (auto intro!: wp_sbind[OF wp_sread] wp_sbind[OF cursor] work)
qed

lemma wp_tick:
  assumes "resting st"
  shows "wp False (controller_tick E) tick_done tick_fails st"
proof -
  have rest: "wp False (\<lambda>s. case check_host E s of
       (Inr _, t) \<Rightarrow> dispatch_tick E c t
     | (Inl e, t) \<Rightarrow>
         sbind (consult E (cw_runtime_unknown (ce_world E))) (\<lambda>r.
         sbind (slift (map_err ErrDispatch r)) (\<lambda>_.
         case c of None \<Rightarrow> sfail e | Some x \<Rightarrow> sret x)) t) tick_done tick_fails u" (is "wp _ ?m _ _ _") if u: "resting u" for c u
    unfolding wp_def
  proof (intro allI impI)
    fix s
    assume s: "ct_timed s = False" "stage_of s = Some u"
    have late: "wp False (sbind (consult E (cw_runtime_unknown (ce_world E))) (\<lambda>r.
         sbind (slift (map_err ErrDispatch r)) (\<lambda>_. case c of None \<Rightarrow> sfail e | Some x \<Rightarrow> sret x)))
         tick_done tick_fails v" if "resting v" for e v
      using that by (auto split: option.split intro!: wp_intro wp_consult)
    have "meets False rested rested (check_host E s)" by (rule wpD[OF wp_check_host[OF u] s])
    then obtain r t v where t: "check_host E s = (r, t)" "ct_timed t = False" "stage_of t = Some v" "resting v"
      by (cases "check_host E s") (auto simp: meets_def split: sum.splits)
    show "meets False tick_done tick_fails (?m s)"
      using t wpD[OF wp_dispatch[OF t(4)] t(2,3)] wpD[OF late[OF t(4)] t(2,3)] by (cases r) simp_all
  qed
  show ?thesis
    unfolding controller_tick_def
    by (rule wp_sbind, rule wp_mono[OF wp_cancel[OF assms]]) (auto intro!: rest)
qed

end
