(* ===== verification/Controller_Properties.thy ===== *)
theory Controller_Properties
  imports Controller_Laws Samples
begin

text \<open>
  The controller is correct: a changing call is one that the store's last answer lets it make, the
  store is told what came of every call, a create carries a permit the host has acknowledged, and
  only verified bytes of its own source are written for an upload.
\<close>

section \<open>Calls and outcomes\<close>



section \<open>Launch permits\<close>











definition quiet_world :: ctl_world where
  "quiet_world =
     \<lparr>cw_expired = (\<lambda>_. False), cw_clock = (\<lambda>_. 0), cw_health = (\<lambda>_. None),
      cw_authority = (\<lambda>_ q. Some \<lparr>aub_host = auq_host q, aub_epoch = auq_epoch q, aub_through = 1\<rparr>),
      cw_allocation = (\<lambda>_ _. None), cw_previous = (\<lambda>_ _. None), cw_lease = (\<lambda>_ _. None),
      cw_command = (\<lambda>_ _. None), cw_file = (\<lambda>_ _. None), cw_reconcile_source = (\<lambda>_ _ _. None),
      cw_read_source = (\<lambda>_ _ _. None), cw_register = (\<lambda>_ _ _. Inr ()),
      cw_permits_after = (\<lambda>_ _. Inr \<lparr>pbt_issued = 1, pbt_permits = [], pbt_unissued = False\<rparr>),
      cw_launch_permit = (\<lambda>_ _. Inr (Some (sample_permit 1))),
      cw_observe_host = (\<lambda>_ _ _. Inr ()), cw_invalidate = (\<lambda>_. Inr ()), cw_runtime_unknown = (\<lambda>_. Inr ()),
      cw_claim_next = (\<lambda>_ _. Inr None), cw_defer = (\<lambda>_ _. Inr ()), cw_reject = (\<lambda>_ _ _. Inr ()),
      cw_unknown = (\<lambda>_ _ _. Inr ()), cw_reconcile_cancel = (\<lambda>_ _. Inr True),
      cw_prepare_previous = (\<lambda>_ _. Inr None), cw_record_previous = (\<lambda>_ _ _. Inr ()),
      cw_prepare_destroy = (\<lambda>_ _ _. Inl DispatchLost), cw_record_destroy = (\<lambda>_ _ _. Inr ()),
      cw_reserve = (\<lambda>_ _. Inl PlacementLost), cw_prepare_create = (\<lambda>_ _ _. Inl DispatchLost),
      cw_record_create = (\<lambda>_ _ _. Inr ()), cw_prepare_execute = (\<lambda>_ _. Inr ExecuteRejected),
      cw_record_execute = (\<lambda>_ _ _. Inr ()), cw_claim_allocation = (\<lambda>_. Inr None),
      cw_prepare_lease = (\<lambda>_ _. Inl DispatchLost), cw_defer_allocation = (\<lambda>_ _. Inr ()),
      cw_lease_unknown = (\<lambda>_ _. Inr ()), cw_record_lease = (\<lambda>_ _ _. Inr LeaseRenewed),
      cw_prepare_upload = (\<lambda>_ _. Inr UploadRejected), cw_accept_source = (\<lambda>_ _ _. Inr ()),
      cw_confirm_write = (\<lambda>_ _ _ _ _. Inr ()), cw_observe_upload = (\<lambda>_ _ _ _. Inr ())\<rparr>"

definition sample_ctl :: ctl_env where
  "sample_ctl =
     \<lparr>ce_crates = ref_crates, ce_permits_json = table_json [[]], ce_permit_json = table_json [sample_permit 1],
      ce_config = \<lparr>cc_host = sample_host, cc_epoch = 1, cc_images = [], cc_simulated = False\<rparr>,
      ce_sources = False, ce_world = quiet_world\<rparr>"

definition sample_ctl_state :: ctl_state where
  "sample_ctl_state =
     \<lparr>ct_step = 0, ct_timed = False, ct_log = [], ct_cursor = 0, ct_compatible = True, ct_permits = True, ct_cache = None\<rparr>"

definition sample_claim :: claim where
  "sample_claim = \<lparr>clm_operation = OperationId (sample_uuid 201), clm_project = ProjectId (sample_uuid 2),
     clm_sandbox = SandboxId (sample_uuid 3), clm_revision = 1\<rparr>"




section \<open>Uploads\<close>

text \<open>
  The cached source matches its reference, and every write called is one that the store prepared,
  and carries the bytes of the range it asks for of a source that matches the reference it names.
\<close>

definition write_ok :: "ctl_env \<Rightarrow> ctl_event \<Rightarrow> bool" where
  "write_ok E e =
     (case e of
        Called (CallWrite q off data) \<Rightarrow>
          (\<exists>n k r lim b. cw_prepare_upload (ce_world E) n k = Inr (UploadWrite q r off lim) \<and>
             source_matches (ce_crates E) r b \<and> off + lim \<le> length b \<and> data = take lim (drop off b))
      | _ \<Rightarrow> True)"

definition verified_writes :: "ctl_env \<Rightarrow> ctl_state \<Rightarrow> bool" where
  "verified_writes E s =
     ((case ct_cache s of None \<Rightarrow> True | Some (r, b) \<Rightarrow> source_matches (ce_crates E) r b) \<and>
      list_all (write_ok E) (ct_log s))"

lemma vw_note [preserves_intro]: "write_ok D e \<Longrightarrow> preserves (verified_writes D) (note_ctl e)"
  by (auto simp: preserves_def note_ctl_def verified_writes_def)

lemma vw_await [preserves_intro]: "preserves (verified_writes D) (await E f)"
  by (auto simp: preserves_def await_def Let_def verified_writes_def)

lemma vw_fail [preserves_intro]: "preserves (verified_writes D) (fail_dispatch e)"
  by (simp add: fail_dispatch_def)

lemma vw_call [preserves_intro]:
  assumes "write_ok D (Called c)"
  shows "preserves (verified_writes D) (call_host E c seen f)"
proof -
  have "write_ok D (Answered v)" for v by (simp add: write_ok_def)
  then show ?thesis unfolding call_host_def by (intro preserves_intro assms)
qed

lemma vw_prepare [preserves_intro]: "preserves (verified_writes D) (prepare E f i)"
  unfolding prepare_def by (auto intro!: preserves_intro simp: write_ok_def)

lemma vw_consult [preserves_intro]: "preserves (verified_writes D) (consult E f)"
  unfolding consult_def by (rule vw_prepare)

text \<open>What follows a question may use that the store has given the answer.\<close>

lemma vw_answered:
  assumes "\<And>n. preserves (verified_writes D) (g (f n))"
  shows "preserves (verified_writes D) (sbind (prepare E f i) g)"
proof (rule preservesI)
  fix s
  assume s: "verified_writes D s"
  obtain r t where p: "prepare E f i s = (r, t)" by (cases "prepare E f i s")
  then have t: "verified_writes D t" using preservesD[OF vw_prepare s, of E f i] by simp
  show "verified_writes D (snd (sbind (prepare E f i) g s))"
  proof (cases r)
    case (Inl e)
    then show ?thesis using p t by (simp add: sbind_def)
  next
    case (Inr a)
    then have "a = f (ct_step s)" using p by (auto simp: prepare_def await_def note_ctl_def Let_def split: if_splits)
    then show ?thesis using p t Inr preservesD[OF assms] by (simp add: sbind_def)
  qed
qed

lemma vw_record [preserves_intro]: "preserves (verified_writes D) (record_evidence E v f)"
  unfolding record_evidence_def by (intro preserves_intro) (simp add: write_ok_def)

lemma vw_timed [simp]: "verified_writes D (s\<lparr>ct_timed := b\<rparr>) = verified_writes D s"
  by (simp add: verified_writes_def)

lemma vw_within [preserves_intro]:
  assumes "preserves (verified_writes D) m" "preserves (verified_writes D) late"
  shows "preserves (verified_writes D) (within m late)"
proof (rule preservesI)
  fix s
  assume "verified_writes D s"
  then have m: "verified_writes D (snd (m (s\<lparr>ct_timed := True\<rparr>)))" by (intro preservesD[OF assms(1)]) simp
  obtain r t where t: "m (s\<lparr>ct_timed := True\<rparr>) = (r, t)" by (cases "m (s\<lparr>ct_timed := True\<rparr>)")
  show "verified_writes D (snd (within m late s))"
  proof (cases "r = Inl Elapsed")
    case True
    with m t show ?thesis using preservesD[OF assms(2)] by (simp add: within_def)
  next
    case False
    then have "within m late s = (r, t\<lparr>ct_timed := False\<rparr>)"
      using t by (auto simp: within_def split: sum.split controller_error.split)
    with m t show ?thesis by simp
  qed
qed

lemma vw_clear [preserves_intro]: "preserves (verified_writes D) (set_cache None)"
  by (auto simp: preserves_def set_cache_def verified_writes_def)

lemma vw_fill: "source_matches (ce_crates D) r b \<Longrightarrow> preserves (verified_writes D) (set_cache (Some (r, b)))"
  by (auto simp: preserves_def set_cache_def verified_writes_def)

lemma vw_set [preserves_intro]:
  "preserves (verified_writes D) (swrite (\<lambda>s. s\<lparr>ct_permits := p\<rparr>))"
  "preserves (verified_writes D) (swrite (\<lambda>s. s\<lparr>ct_compatible := c\<rparr>))"
  "preserves (verified_writes D) (swrite (\<lambda>s. s\<lparr>ct_cursor := n\<rparr>))"
  by (auto simp: preserves_def verified_writes_def)

text \<open>A call that is no write.\<close>

fun no_write :: "host_call \<Rightarrow> bool" where
  "no_write (CallWrite _ _ _) = False"
| "no_write c = True"

lemma no_write_ok [simp]: "no_write c \<Longrightarrow> write_ok D (Called c)" "write_ok D (Consulted x)" "write_ok D (Marked ok)"
  by (auto simp: write_ok_def split: host_call.split)

lemmas vw_splits = sum.split option.split prod.split dispatch_error.split claim_error.split placement_error.split
  previous_action.split destroy_action.split create_action.split execute_action.split lease_action.split
  reservation.split

lemma vw_outcomes [preserves_intro]:
  "preserves (verified_writes D) (defer_claim E k)" "preserves (verified_writes D) (reject_claim E k reason)"
  "preserves (verified_writes D) (mark_unknown E u k)"
proof -
  show d: "preserves (verified_writes D) (defer_claim E k)"
    unfolding defer_claim_def by (intro preserves_intro) (auto split: vw_splits intro!: preserves_intro)
  show "preserves (verified_writes D) (reject_claim E k reason)"
    unfolding reject_claim_def by (intro preserves_intro) (auto split: vw_splits intro!: preserves_intro d)
  show "preserves (verified_writes D) (mark_unknown E u k)"
    unfolding mark_unknown_def by (intro preserves_intro) (auto split: vw_splits intro!: preserves_intro d)
qed

lemma vw_results [preserves_intro]:
  "preserves (verified_writes D) (evidence_result E u k r)" "preserves (verified_writes D) (prepared_error E k e)"
  "preserves (verified_writes D) (placement_refused E k p)" "preserves (verified_writes D) (create_refused E k e)"
  "preserves (verified_writes D) (lease_error E a e)" "preserves (verified_writes D) (lease_unknown E a)"
  unfolding evidence_result_def prepared_error_def placement_refused_def create_refused_def lease_error_def lease_unknown_def
  by (auto split: vw_splits intro!: preserves_intro)

lemma vw_authority [preserves_intro]:
  "preserves (verified_writes D) (sync_authority E)" "preserves (verified_writes D) (prepare_permit E k a)"
proof -
  show s: "preserves (verified_writes D) (sync_authority E)"
    unfolding sync_authority_def Let_def ask_authority_def accept_registration_def
    by (auto intro!: preserves_intro)
  show "preserves (verified_writes D) (prepare_permit E k a)"
    unfolding prepare_permit_def by (auto intro!: preserves_intro s)
qed

lemma vw_permit [preserves_intro]: "preserves (verified_writes D) (permit_of E k a)"
proof (rule preservesI)
  fix s
  assume s: "verified_writes D s"
  then have "verified_writes D (snd (prepare_permit E k a s))" by (rule preservesD[OF vw_authority(2)])
  then show "verified_writes D (snd (permit_of E k a s))"
    using s by (cases "prepare_permit E k a s") (simp add: permit_of_def split: sum.split)
qed

lemma vw_host [preserves_intro]: "preserves (verified_writes D) (check_host E)"
  unfolding check_host_def Let_def by (auto split: vw_splits intro!: preserves_intro)

lemma vw_previous [preserves_intro]: "preserves (verified_writes D) (previous_tick E k)"
  unfolding previous_tick_def previous_inner_def Let_def by (auto split: vw_splits intro!: preserves_intro)

lemma vw_operations [preserves_intro]:
  "preserves (verified_writes D) (destroy_tick E k)" "preserves (verified_writes D) (create_tick E k)"
  "preserves (verified_writes D) (execute_tick E k)" "preserves (verified_writes D) (maintenance_tick E)"
  unfolding destroy_tick_def create_tick_def execute_tick_def maintenance_tick_def Let_def observe_destroy_def
    call_allocation_def call_command_def observe_lease_def call_lease_def
  by (auto split: vw_splits intro!: preserves_intro)

lemma vw_files [preserves_intro]:
  "preserves (verified_writes D) (observe_upload E k w r)" "write_ok D (Called c) \<Longrightarrow> preserves (verified_writes D) (call_file E c)"
  "preserves (verified_writes D) (upload_source E k now p)"
  unfolding observe_upload_def call_file_def upload_source_def
  by (auto split: vw_splits intro!: preserves_intro)

lemma vw_chunk:
  assumes "source_matches (ce_crates E) r b" "cw_prepare_upload (ce_world E) n k' = Inr (UploadWrite q r off lim)"
  shows "preserves (verified_writes E) (write_chunk E k q r off lim b)"
proof -
  have ok: "write_ok E (Called (CallWrite q off (take lim (drop off b))))" if "off + lim \<le> length b"
    using assms that unfolding write_ok_def ctl_event.case host_call.case by blast
  show ?thesis
    unfolding write_chunk_def Let_def
  proof (rule preserves_sbind[OF vw_fill[OF assms(1)]], goal_cases)
    case 1
    show ?case
    proof (cases "off + lim \<le> length b")
      case True
      then show ?thesis
        by (auto split: vw_splits intro!: preserves_intro ok)
    next
      case False
      then have "preserves (verified_writes E) (sbind (slift (ok_or ErrConfig (checked_add_u64 off lim))) (\<lambda>bound.
          sbind (sensure (bound \<le> length b) ErrConfig) (g bound)))" for g :: "nat \<Rightarrow> unit \<Rightarrow> tick ctl"
        by (auto simp: preserves_def sbind_def checked_add_u64_def ensure_def)
      then show ?thesis .
    qed
  qed
qed

lemma vw_write:
  assumes "cw_prepare_upload (ce_world E) n k' = Inr (UploadWrite q r off lim)"
  shows "preserves (verified_writes E) (upload_write E k now q r off lim)"
proof (rule preservesI)
  fix s
  let ?C = "ce_crates E"
  assume s: "verified_writes E s"
  let ?cached = "case ct_cache s of Some (old, b) \<Rightarrow> (if old = r then Some b else None) | None \<Rightarrow> None"
  have hit: "source_matches ?C r b" if "?cached = Some b" for b
    using s that by (auto simp: verified_writes_def split: option.splits if_splits)
  have go: "preserves (verified_writes E) (case ?cached of
        Some b \<Rightarrow> write_chunk E k q r off lim b
      | None \<Rightarrow>
          sbind (set_cache None) (\<lambda>_.
          sbind (await E (\<lambda>n. cw_read_source (ce_world E) n r now)) (\<lambda>x.
          case x of None \<Rightarrow> mark_unknown E UploadUnknown k
          | Some b \<Rightarrow>
              if \<not> source_matches ?C r b then mark_unknown E UploadUnknown k
              else write_chunk E k q r off lim b)))"
  proof (cases ?cached)
    case None
    then show ?thesis by (simp only: option.case) (auto split: option.split intro!: preserves_intro vw_chunk[OF _ assms])
  next
    case (Some b)
    show ?thesis unfolding Some option.case by (rule vw_chunk[OF hit[OF Some] assms])
  qed
  have expired: "preserves (verified_writes E) (sbind (set_cache None) (\<lambda>_. mark_unknown E UploadUnknown k))"
    by (intro preserves_intro)
  show "verified_writes E (snd (upload_write E k now q r off lim s))"
  proof (cases "sp_expires (sr_plan r) \<le> now")
    case True
    then show ?thesis using preservesD[OF expired s] by (simp add: upload_write_def)
  next
    case False
    then show ?thesis using preservesD[OF go s] by (simp add: upload_write_def sbind_def)
  qed
qed

lemma vw_upload: "preserves (verified_writes E) (upload_tick E k)"
proof -
  have "preserves (verified_writes E) (upload_step E k)"
    unfolding upload_step_def Let_def
    by (rule preserves_sbind, intro preserves_intro, rule vw_answered)
      (auto split: vw_splits upload_action.split intro!: preserves_intro vw_write)
  then show ?thesis unfolding upload_tick_def by (intro preserves_intro)
qed

lemma vw_work: "preserves (verified_writes D) (take_work E kinds)"
  by (induction kinds) (auto simp: preserves_def[of _ "Pair _"] intro!: preserves_intro)

lemma vw_tick: "preserves (verified_writes E) (controller_tick E)"
proof -
  have cancel: "preserves (verified_writes D) (cancel_tick E)" for D
    unfolding cancel_tick_def by (auto split: vw_splits intro!: preserves_intro)
  have serve: "preserves (verified_writes E) (serve_claim E kind k)" for kind k
    unfolding serve_claim_def by (auto split: operation_kind.split intro!: preserves_intro vw_upload)
  have dispatch: "preserves (verified_writes E) (dispatch_tick E c)" for c
    unfolding dispatch_tick_def by (auto split: vw_splits intro!: preserves_intro vw_work serve)
  have late: "preserves (verified_writes E) (sbind (consult E (cw_runtime_unknown (ce_world E))) (\<lambda>r.
         sbind (slift (map_err ErrDispatch r)) (\<lambda>_. case c of None \<Rightarrow> sfail e | Some x \<Rightarrow> sret x)))" for c e
    by (auto intro!: preserves_intro)
  have "preserves (verified_writes E) (\<lambda>s. case check_host E s of
       (Inr _, t) \<Rightarrow> dispatch_tick E c t
     | (Inl e, t) \<Rightarrow> sbind (consult E (cw_runtime_unknown (ce_world E))) (\<lambda>r.
         sbind (slift (map_err ErrDispatch r)) (\<lambda>_. case c of None \<Rightarrow> sfail e | Some x \<Rightarrow> sret x)) t)" for c
  proof (rule preservesI)
    fix s
    assume "verified_writes E s"
    then have "verified_writes E (snd (check_host E s))" by (rule preservesD[OF vw_host])
    then show "verified_writes E (snd (case check_host E s of
       (Inr _, t) \<Rightarrow> dispatch_tick E c t
     | (Inl e, t) \<Rightarrow> sbind (consult E (cw_runtime_unknown (ce_world E))) (\<lambda>r.
         sbind (slift (map_err ErrDispatch r)) (\<lambda>_. case c of None \<Rightarrow> sfail e | Some x \<Rightarrow> sret x)) t))"
      using preservesD[OF dispatch] preservesD[OF late] by (auto split: prod.split sum.split)
  qed
  then show ?thesis unfolding controller_tick_def by (intro preserves_sbind cancel)
qed

text \<open>
  C22: Over any number of ticks that start with nothing in the cache, or with bytes that match the
  reference they are kept under: the cache stays so, and every write sent to a guest is one that
  the store prepared, and carries exactly the range of bytes that the prepared write asks for, of
  content with the length and the digest of the source it names.
\<close>
theorem uploads_write_verified_bytes:
  assumes "verified_writes E s"
  shows "verified_writes E (((\<lambda>t. snd (controller_tick E t)) ^^ n) s)"
  by (induction n) (use assms preservesD[OF vw_tick] in auto)

text \<open>A tick whose queue of uploads comes first writes the second and third byte of a cached source.\<close>

definition sample_source :: source_ref where
  "sample_source =
     \<lparr>sr_plan =
        \<lparr>sp_version = 1,
         sp_owner = \<lparr>so_scope = \<lparr>rs_version = 1, rs_host = sample_host, rs_epoch = 1, rs_project = ProjectId (sample_uuid 2),
             rs_sandbox = SandboxId (sample_uuid 3), rs_allocation = AllocationId (sample_uuid 101), rs_generation = 1\<rparr>,
           so_operation = OperationId (sample_uuid 201)\<rparr>,
         sp_upload = \<lparr>up_operation = OperationId (sample_uuid 201), up_path = ''a'', up_size = 3,
           up_sha256 = sha256 ref_crates [1, 2, 3], up_mode = 0x1A4\<rparr>,
         sp_attempt = OperationId (sample_uuid 202), sp_created = 0, sp_write_expires = 50, sp_expires = 100,
         sp_delete_after = 200\<rparr>,
      sr_etag = ''e'', sr_object_version = None\<rparr>"

definition sample_request :: file_request where
  "sample_request = \<lparr>flq_ownership = None, flq_upload = None\<rparr>"

definition writing_world :: ctl_world where
  "writing_world = quiet_world
     \<lparr>cw_health := \<lambda>_. Some \<lparr>hin_capabilities = [], hin_permits_required = False,
        hin_host = show_host ref_crates sample_host, hin_epoch = 1, hin_simulated = False\<rparr>,
      cw_claim_next := \<lambda>_ kind. Inr (if kind = KindFileWrite then Some sample_claim else None),
      cw_prepare_upload := \<lambda>_ _. Inr (UploadWrite sample_request sample_source 1 2)\<rparr>"

definition writing_ctl :: ctl_env where
  "writing_ctl = sample_ctl\<lparr>ce_sources := True, ce_world := writing_world\<rparr>"

definition cached_state :: ctl_state where
  "cached_state = sample_ctl_state\<lparr>ct_cursor := 3, ct_cache := Some (sample_source, [1, 2, 3])\<rparr>"

lemma sample_written:
  "Called (CallWrite sample_request 1 [2, 3]) \<in> set (ct_log (snd (controller_tick writing_ctl cached_state)))"
  by (simp add: controller_tick_def cancel_tick_def within_def check_host_def sync_authority_def dispatch_tick_def maintenance_tick_def
      queue_order_def queue_kinds_def serve_claim_def upload_tick_def upload_step_def upload_write_def write_chunk_def
      set_cache_def call_file_def observe_upload_def mark_unknown_def call_host_def consult_def prepare_def note_ctl_def
      await_def sbind_def Let_def ensure_def ok_or_def checked_add_u64_def writing_ctl_def writing_world_def quiet_world_def
      sample_ctl_def sample_ctl_state_def cached_state_def sample_source_def upt_rec)

theorem uploads_write_verified_bytes_witness:
  "Called (CallWrite sample_request 1 [2, 3]) \<in> set (ct_log (snd (controller_tick writing_ctl cached_state))) \<and>
   write_ok writing_ctl (Called (CallWrite sample_request 1 [2, 3]))"
proof -
  have "source_matches ref_crates sample_source [1, 2, 3]" by (simp add: source_matches_def sample_source_def)
  then have "verified_writes writing_ctl cached_state"
    by (simp add: verified_writes_def writing_ctl_def sample_ctl_def cached_state_def sample_ctl_state_def)
  from uploads_write_verified_bytes[OF this, of 1] have "verified_writes writing_ctl (snd (controller_tick writing_ctl cached_state))"
    by simp
  then show ?thesis using sample_written by (auto simp: verified_writes_def list_all_iff)
qed

end
