(* ===== verification/Api.thy ===== *)
theory Api
  imports Token Host_Archive
begin

text \<open>
  The HTTP API's tenant boundary (\<open>problem.rs\<close>, \<open>auth.rs\<close> and \<open>outputs.rs\<close> in
  \<open>crates/sandbox-api/src\<close>): the problems a caller sees, bearer authentication and its
  revalidation, and the bounded read of archived output.

  A handler is a fallible method over \<open>api_state\<close>. The database, the object store, the live
  host, the clock and the response channel are an \<open>api_world\<close>: its \<open>n\<close>-th answer is given
  at the \<open>n\<close>-th question, so an answer may change between any two of them, and a timeout is
  the answer \<open>Inl\<close>. An instant is in nanoseconds, \<open>ms_of_ns\<close> is the code's division. The log
  keeps what matters for disclosure, oldest first: each credential check with its outcome, each
  metadata query, each read of output bytes, and each frame offered to the client.
\<close>

section \<open>Problems\<close>

datatype problem =
    P_BadRequest string
  | P_PayloadTooLarge
  | P_Unauthenticated
  | P_Forbidden
  | P_ImageDenied
  | P_NotFound
  | P_Gone
  | P_ResponseExpired operation_id
  | P_OutputNotReady
  | P_OutputExpired
  | P_OutputMissing
  | P_OutputCorrupt
  | P_OutputRange
  | P_FileMissing
  | P_FileCorrupt
  | P_FileRange
  | P_CommandInProgress operation_id
  | P_ExecutionCapacityExhausted
  | P_SandboxGenerationMismatch
  | P_Conflict string
  | P_TransitionInProgress operation_id
  | P_Unavailable
  | P_Internal

fun problem_status :: "problem \<Rightarrow> nat" where
  "problem_status (P_BadRequest _) = 400"
| "problem_status P_PayloadTooLarge = 413"
| "problem_status P_Unauthenticated = 401"
| "problem_status P_Forbidden = 403"
| "problem_status P_ImageDenied = 403"
| "problem_status P_NotFound = 404"
| "problem_status P_Gone = 410"
| "problem_status (P_ResponseExpired _) = 410"
| "problem_status P_OutputExpired = 410"
| "problem_status P_OutputMissing = 410"
| "problem_status P_FileMissing = 410"
| "problem_status P_FileCorrupt = 502"
| "problem_status P_FileRange = 416"
| "problem_status P_OutputNotReady = 409"
| "problem_status P_OutputCorrupt = 502"
| "problem_status P_OutputRange = 416"
| "problem_status (P_CommandInProgress _) = 409"
| "problem_status P_ExecutionCapacityExhausted = 409"
| "problem_status P_SandboxGenerationMismatch = 409"
| "problem_status (P_Conflict _) = 409"
| "problem_status (P_TransitionInProgress _) = 409"
| "problem_status P_Unavailable = 503"
| "problem_status P_Internal = 500"

fun problem_code :: "problem \<Rightarrow> string" where
  "problem_code (P_BadRequest _) = ''bad_request''"
| "problem_code P_PayloadTooLarge = ''payload_too_large''"
| "problem_code P_Unauthenticated = ''unauthenticated''"
| "problem_code P_Forbidden = ''forbidden''"
| "problem_code P_ImageDenied = ''image_not_allowed''"
| "problem_code P_NotFound = ''not_found''"
| "problem_code P_Gone = ''gone''"
| "problem_code (P_ResponseExpired _) = ''response_expired''"
| "problem_code P_OutputNotReady = ''output_not_ready''"
| "problem_code P_OutputExpired = ''output_expired''"
| "problem_code P_OutputMissing = ''output_missing''"
| "problem_code P_OutputCorrupt = ''output_corrupt''"
| "problem_code P_OutputRange = ''output_range_invalid''"
| "problem_code P_FileMissing = ''file_capture_missing''"
| "problem_code P_FileCorrupt = ''file_response_invalid''"
| "problem_code P_FileRange = ''file_range_invalid''"
| "problem_code (P_CommandInProgress _) = ''command_in_progress''"
| "problem_code P_ExecutionCapacityExhausted = ''execution_capacity_exhausted''"
| "problem_code P_SandboxGenerationMismatch = ''sandbox_generation_mismatch''"
| "problem_code (P_Conflict _) = ''conflict''"
| "problem_code (P_TransitionInProgress _) = ''conflict''"
| "problem_code P_Unavailable = ''unavailable''"
| "problem_code P_Internal = ''internal''"

fun problem_title :: "problem \<Rightarrow> string" where
  "problem_title (P_BadRequest detail) = detail"
| "problem_title P_PayloadTooLarge = ''The request body is too large''"
| "problem_title P_Unauthenticated = ''Authentication is required''"
| "problem_title P_Forbidden = ''This credential does not have the required access''"
| "problem_title P_ImageDenied = ''The requested image is not allowed''"
| "problem_title P_NotFound = ''No such resource''"
| "problem_title P_Gone = ''This sandbox has been destroyed''"
| "problem_title (P_ResponseExpired _) = ''Operation response retention has expired''"
| "problem_title P_OutputNotReady = ''Output is not ready yet''"
| "problem_title P_OutputExpired = ''Output retention has expired''"
| "problem_title P_OutputMissing = ''The requested output history is unavailable''"
| "problem_title P_OutputCorrupt = ''Output integrity verification failed''"
| "problem_title P_OutputRange = ''The offset exceeds the captured output size''"
| "problem_title P_FileMissing = ''The captured file is unavailable or expired''"
| "problem_title P_FileCorrupt = ''The file service returned an invalid response''"
| "problem_title P_FileRange = ''The offset exceeds the captured file size''"
| "problem_title (P_CommandInProgress _) = ''Another operation is still active or unresolved''"
| "problem_title P_ExecutionCapacityExhausted =
     ''Retained command capacity is exhausted; use a smaller output limit or a new sandbox''"
| "problem_title P_SandboxGenerationMismatch = ''Sandbox generation does not match the request''"
| "problem_title (P_Conflict detail) = detail"
| "problem_title (P_TransitionInProgress _) = ''Another lifecycle operation is in progress''"
| "problem_title P_Unavailable = ''The service is temporarily unable to handle this request''"
| "problem_title P_Internal = ''The request could not be completed''"

record problem_body =
  pb_operation :: "string option"
  pb_title :: string
  pb_status :: nat
  pb_code :: string

definition problem_response :: "crates \<Rightarrow> problem \<Rightarrow> problem_body" where
  "problem_response C p =
     \<lparr>pb_operation = (case p of
          P_TransitionInProgress i \<Rightarrow> Some (show_operation C i)
        | P_CommandInProgress i \<Rightarrow> Some (show_operation C i)
        | P_ResponseExpired i \<Rightarrow> Some (show_operation C i)
        | _ \<Rightarrow> None),
      pb_title = problem_title p, pb_status = problem_status p, pb_code = problem_code p\<rparr>"

section \<open>What the store answers\<close>

datatype project_status = ProjectActive | ProjectSuspendedStatus | ProjectDeletingStatus

record token_record =
  tkr_project :: project_id
  tkr_status :: project_status
  tkr_key :: string
  tkr_hash :: bytes
  tkr_expires :: "int option"
  tkr_revoked :: "int option"

record output_view =
  ov_simulated :: "bool option"
  ov_status :: string
  ov_owner :: "output_owner option"
  ov_references :: "output_refs option"
  ov_expires :: "int option"

datatype stream_source =
    SourcePending
  | SourceMissing
  | SourceExpired
  | SourceLive live_output_scope bool
  | SourceArchived output_view

record stream_view =
  sv_source :: stream_source
  sv_expires :: "int option"

datatype artifact_error =
    InvalidConfig | InvalidMetadata | OwnerMismatch | ArtifactExpired | ArtifactMissing
  | ArtifactCorrupt | ArtifactConflict | ArtifactBounds | ArtifactBusy | ArtifactUnavailable

record artifact_chunk =
  ac_bytes :: bytes
  ac_next :: nat
  ac_eof :: bool
  ac_truncated :: bool

datatype rpc_code = CodeNotFound | CodeFailedPrecondition | CodeOutOfRange | CodeOther

datatype live_failure = ConnectFailed | ReadFailed rpc_code

datatype send_result = SendDone | SendTimedOut | SendClosed

section \<open>Frames and the world\<close>

record output_event =
  oev_stream :: string
  oev_offset :: nat
  oev_next :: nat
  oev_data :: string
  oev_at_end :: bool
  oev_complete :: bool
  oev_stats :: output_stats
  oev_simulated :: bool

record end_event =
  eev_stdout :: output_stats
  eev_stderr :: output_stats
  eev_simulated :: bool

datatype frame =
    OutputFrame string output_event
  | EndFrame string end_event
  | GapFrame string
  | ErrorFrame string

datatype api_event = Checked bool | Queried | Fetched | Offered frame bool

record stream_cursor =
  cur_version :: nat
  cur_project :: project_id
  cur_operation :: operation_id
  cur_binding :: string
  cur_offsets :: "nat \<times> nat"

record api_world =
  aw_clock :: "nat \<Rightarrow> int"
  aw_token :: "nat \<Rightarrow> string \<Rightarrow> unit + token_record option"
  aw_stream :: "nat \<Rightarrow> project_id \<Rightarrow> operation_id \<Rightarrow> unit + stream_view option"
  aw_kind :: "nat \<Rightarrow> project_id \<Rightarrow> operation_id \<Rightarrow> unit + string option"
  aw_output :: "nat \<Rightarrow> project_id \<Rightarrow> operation_id \<Rightarrow> unit + output_view option"
  aw_archive ::
    "nat \<Rightarrow> output_ref \<Rightarrow> output_owner \<Rightarrow> int \<Rightarrow> nat \<Rightarrow> nat \<Rightarrow> (artifact_error + artifact_chunk) option"
  aw_live :: "nat \<Rightarrow> host_id \<Rightarrow> live_request \<Rightarrow> (live_failure + live_observation) option"
  aw_send :: "nat \<Rightarrow> frame \<Rightarrow> send_result"
  aw_permit :: "nat \<Rightarrow> bool"

record live_client =
  lc_host :: host_id
  lc_allow_simulated :: bool

record api_env =
  ae_crates :: crates
  ae_owner_json :: "output_owner json"
  ae_scope_json :: "live_output_scope json"
  ae_cursor_json :: "stream_cursor json"
  ae_url_encode :: "bytes \<Rightarrow> string"
  ae_url_decode :: "string \<Rightarrow> bytes option"
  ae_data_encode :: "bytes \<Rightarrow> string"
  ae_header_str :: "string \<Rightarrow> string option"
  ae_frame_json :: "frame \<Rightarrow> bool"
  ae_live :: "live_client option"
  ae_archive :: bool
  ae_world :: api_world

record api_state =
  as_step :: nat
  as_log :: "api_event list"
  as_denied :: bool
  as_expires :: int

type_synonym 'a api = "(api_state, problem, 'a) proc"

definition enquire :: "(nat \<Rightarrow> 'a) \<Rightarrow> 'a api" where
  "enquire f s = (Inr (f (as_step s)), s\<lparr>as_step := Suc (as_step s)\<rparr>)"

definition note_event :: "api_event \<Rightarrow> unit api" where
  "note_event e = swrite (\<lambda>s. s\<lparr>as_log := as_log s @ [e]\<rparr>)"

text \<open>An awaited result that is looked at later.\<close>

definition held :: "'a api \<Rightarrow> (problem + 'a) api" where
  "held m s = (case m s of (r, t) \<Rightarrow> (Inr r, t))"

lemma held_Inr [simp]: "(held m s = (Inr r, t)) = (m s = (r, t))"
  by (auto simp: held_def split: prod.splits)

definition instant_ns :: "api_env \<Rightarrow> int api" where
  "instant_ns E = enquire (aw_clock (ae_world E))"

text \<open>\<open>t.unix_timestamp_nanos() / 1_000_000\<close>: the division truncates towards zero.\<close>

definition ms_of_ns :: "int \<Rightarrow> int" where
  "ms_of_ns t = (if 0 \<le> t then t div 1000000 else - ((- t) div 1000000))"

definition now_ms :: "api_env \<Rightarrow> int api" where
  "now_ms E = sbind (instant_ns E) (\<lambda>t. sret (ms_of_ns t))"

section \<open>Authentication\<close>

datatype rejection =
    MissingHeader | NotBearer | MalformedToken | UnknownKeyId | WrongSecret | TokenExpired
  | TokenRevoked | ProjectSuspended | ProjectDeleting

definition passed :: "int option \<Rightarrow> int \<Rightarrow> bool" where
  "passed at now = (case at of None \<Rightarrow> False | Some t \<Rightarrow> t \<le> now)"

definition verify_hash :: "crates \<Rightarrow> bytes \<Rightarrow> token_record \<Rightarrow> int \<Rightarrow> rejection + unit" where
  "verify_hash C h r now =
     (if \<not> token_verify C h (tkr_hash r) then Inl WrongSecret
      else if passed (tkr_revoked r) now then Inl TokenRevoked
      else if passed (tkr_expires r) now then Inl TokenExpired
      else (case tkr_status r of
              ProjectActive \<Rightarrow> Inr ()
            | ProjectSuspendedStatus \<Rightarrow> Inl ProjectSuspended
            | ProjectDeletingStatus \<Rightarrow> Inl ProjectDeleting))"

record caller =
  cl_project :: project_id
  cl_key :: string
  cl_hash :: bytes

definition revalidate :: "api_env \<Rightarrow> caller \<Rightarrow> unit api" where
  "revalidate E c =
     sbind (enquire (\<lambda>n. aw_token (ae_world E) n (cl_key c))) (\<lambda>answer.
     sbind (slift (map_err (\<lambda>_. P_Unavailable) answer)) (\<lambda>found.
     sbind (slift (ok_or P_Unauthenticated found)) (\<lambda>r.
     sbind (sensure (\<not> (tkr_project r \<noteq> cl_project c \<or> tkr_key r \<noteq> cl_key c)) P_Unauthenticated) (\<lambda>_.
     sbind (instant_ns E) (\<lambda>now.
     slift (map_err (\<lambda>_. P_Unauthenticated) (verify_hash (ae_crates E) (cl_hash c) r now)))))))"

text \<open>\<open>str::trim\<close> of a header value, which \<open>to_str\<close> has found to be ASCII.\<close>

definition ascii_space :: "char \<Rightarrow> bool" where
  "ascii_space c = (c = CHR '' '' \<or> (9 \<le> (of_char c :: nat) \<and> (of_char c :: nat) \<le> 13))"

definition trim_ascii :: "string \<Rightarrow> string" where
  "trim_ascii s = rev (dropWhile ascii_space (rev (dropWhile ascii_space s)))"

definition extract_token :: "api_env \<Rightarrow> string option \<Rightarrow> rejection + project_token" where
  "extract_token E header =
     rbind (ok_or MissingHeader header) (\<lambda>h.
     rbind (ok_or MalformedToken (ae_header_str E h)) (\<lambda>value.
     rbind (ok_or NotBearer (strip_prefix ''Bearer '' value)) (\<lambda>raw.
     map_err (\<lambda>_. MalformedToken) (token_parse (ae_crates E) (trim_ascii raw)))))"

definition authenticate :: "api_env \<Rightarrow> string option \<Rightarrow> caller api" where
  "authenticate E header =
     (case extract_token E header of
        Inl _ \<Rightarrow> sfail P_Unauthenticated
      | Inr t \<Rightarrow>
          sbind (enquire (\<lambda>n. aw_token (ae_world E) n (token_key_id t))) (\<lambda>answer.
          case answer of
            Inl _ \<Rightarrow> sfail P_Unavailable
          | Inr None \<Rightarrow> sfail P_Unauthenticated
          | Inr (Some r) \<Rightarrow>
              sbind (instant_ns E) (\<lambda>now.
              let h = token_hash (ae_crates E) t in
              sbind (slift (map_err (\<lambda>_. P_Unauthenticated) (verify_hash (ae_crates E) h r now))) (\<lambda>_.
              sret \<lparr>cl_project = tkr_project r, cl_key = tkr_key r, cl_hash = h\<rparr>))))"

text \<open>The credential check of a handler, entered in the log with its outcome.\<close>

definition recheck :: "api_env \<Rightarrow> caller \<Rightarrow> unit api" where
  "recheck E c s =
     (case revalidate E c s of (r, s') \<Rightarrow> (r, s'\<lparr>as_log := as_log s' @ [Checked (is_ok r)]\<rparr>))"

section \<open>Reading archived output\<close>

definition selected :: "output_view \<Rightarrow> output_name \<Rightarrow> problem + output_owner \<times> output_ref \<times> bool \<times> int" where
  "selected v n =
     rbind (if ov_status v = ''expired'' then Inl P_OutputExpired
            else if ov_status v \<in> {''none'', ''pending'', ''uploading''} then Inl P_OutputNotReady
            else if ov_status v = ''published'' then Inr () else Inl P_Unavailable) (\<lambda>_.
     rbind (ok_or P_Unavailable (ov_simulated v)) (\<lambda>simulated.
     rbind (ok_or P_Unavailable (ov_owner v)) (\<lambda>owner.
     rbind (ok_or P_Unavailable (ov_references v)) (\<lambda>refs.
     rbind (ok_or P_Unavailable (ov_expires v)) (\<lambda>at.
     Inr (owner, (case n of Stdout \<Rightarrow> refs_stdout refs | Stderr \<Rightarrow> refs_stderr refs), simulated, at))))))"

fun storage_error :: "artifact_error \<Rightarrow> problem" where
  "storage_error ArtifactMissing = P_OutputMissing"
| "storage_error ArtifactExpired = P_OutputExpired"
| "storage_error ArtifactCorrupt = P_OutputCorrupt"
| "storage_error ArtifactConflict = P_OutputCorrupt"
| "storage_error ArtifactBounds = P_OutputRange"
| "storage_error _ = P_Unavailable"

definition archived_result :: "(artifact_error + artifact_chunk) option \<Rightarrow> problem + artifact_chunk" where
  "archived_result loaded =
     rbind (ok_or P_Unavailable loaded) (\<lambda>answer. map_err storage_error answer)"

text \<open>A reader's answer that is not the exact range of the plan.\<close>

definition archive_chunk_bad :: "output_plan \<Rightarrow> nat \<Rightarrow> nat \<Rightarrow> artifact_chunk \<Rightarrow> bool" where
  "archive_chunk_bad p offset limit c =
     (let expected = min (pl_size p - offset) limit in
      length (ac_bytes c) \<noteq> expected \<or> ac_next c \<noteq> offset + expected \<or>
      ac_eof c \<noteq> (ac_next c = pl_size p) \<or> ac_truncated c \<noteq> pl_truncated p)"

definition store_answer :: "unit + 'a option \<Rightarrow> problem + 'a" where
  "store_answer a = rbind (map_err (\<lambda>_. P_Unavailable) a) (\<lambda>found. ok_or P_NotFound found)"

text \<open>
  The request as the framework hands it over: the operation segment of the path (\<open>None\<close>
  when the path does not decode), the stream segment, the query parameters (\<open>None\<close> when they
  do not decode) and whether a \<open>Range\<close> header is present.
\<close>

record output_query =
  oq_operation :: "string option"
  oq_name :: string
  oq_params :: "(nat option \<times> nat option) option"
  oq_range :: bool

definition max_chunk :: nat where "max_chunk = 32 * 1024"

definition output_range_text :: string where
  "output_range_text = ''use offset and limit between 1 and 32768; Range is unsupported''"

definition output_request_of :: "crates \<Rightarrow> output_query \<Rightarrow> problem + operation_id \<times> output_name \<times> nat \<times> nat" where
  "output_request_of C q =
     rbind (ok_or (P_BadRequest ''invalid output path'') (oq_operation q)) (\<lambda>raw.
     rbind (map_err (\<lambda>_. P_BadRequest ''invalid operation id'') (parse_operation C raw)) (\<lambda>op.
     rbind (if oq_name q = ''stdout'' then Inr Stdout
            else if oq_name q = ''stderr'' then Inr Stderr else Inl P_NotFound) (\<lambda>name.
     rbind (ok_or (P_BadRequest ''invalid output query'') (oq_params q)) (\<lambda>(offset, limit).
     let offset = case_option 0 id offset; limit = case_option max_chunk id limit in
     rbind (ensure (\<not> (limit = 0 \<or> max_chunk < limit \<or> oq_range q)) (P_BadRequest output_range_text)) (\<lambda>_.
     Inr (op, name, offset, limit))))))"

definition output_now :: "api_env \<Rightarrow> int api" where
  "output_now E =
     sbind (now_ms E) (\<lambda>ms. sbind (sensure (in_i64 ms) P_Unavailable) (\<lambda>_. sret ms))"

definition query_output :: "api_env \<Rightarrow> caller \<Rightarrow> operation_id \<Rightarrow> (unit + output_view option) api" where
  "query_output E c op =
     sbind (enquire (\<lambda>n. aw_output (ae_world E) n (cl_project c) op)) (\<lambda>a.
     sbind (note_event Queried) (\<lambda>_. sret a))"

definition fetch_archived ::
    "api_env \<Rightarrow> output_ref \<Rightarrow> output_owner \<Rightarrow> int \<Rightarrow> nat \<Rightarrow> nat \<Rightarrow> (artifact_error + artifact_chunk) option api" where
  "fetch_archived E r w now offset limit =
     sbind (enquire (\<lambda>n. aw_archive (ae_world E) n r w now offset limit)) (\<lambda>a.
     sbind (note_event Fetched) (\<lambda>_. sret a))"

definition read_archived :: "api_env \<Rightarrow> caller \<Rightarrow> output_query \<Rightarrow> bytes api" where
  "read_archived E c q =
     sbind (slift (output_request_of (ae_crates E) q)) (\<lambda>(op, name, offset, limit).
     sbind (enquire (\<lambda>n. aw_kind (ae_world E) n (cl_project c) op)) (\<lambda>answer.
     sbind (note_event Queried) (\<lambda>_.
     sbind (slift (store_answer answer)) (\<lambda>kind.
     sbind (sensure (kind = ''execute'') P_NotFound) (\<lambda>_.
     sbind (query_output E c op) (\<lambda>answer.
     sbind (slift (store_answer answer)) (\<lambda>v.
     sbind (slift (selected v name)) (\<lambda>(owner, reference, simulated, _).
     sbind (sensure (offset \<le> pl_size (ref_plan reference)) P_OutputRange) (\<lambda>_.
     sbind (sensure (ae_archive E) P_Unavailable) (\<lambda>_.
     sbind (enquire (aw_permit (ae_world E))) (\<lambda>permit.
     sbind (sensure permit P_Unavailable) (\<lambda>_.
     sbind (output_now E) (\<lambda>now.
     sbind (fetch_archived E reference owner now offset limit) (\<lambda>loaded.
     sbind (query_output E c op) (\<lambda>answer.
     sbind (recheck E c) (\<lambda>_.
     sbind (slift (store_answer answer)) (\<lambda>latest.
     sbind (slift (selected latest name)) (\<lambda>(owner', reference', simulated', expires).
     sbind (sensure (\<not> (owner' \<noteq> owner \<or> reference' \<noteq> reference \<or> simulated' \<noteq> simulated)) P_Unavailable) (\<lambda>_.
     sbind (output_now E) (\<lambda>later.
     sbind (if pl_expires (ref_plan reference) \<le> later then sfail P_OutputExpired
            else sbind (instant_ns E) (\<lambda>t. sensure (\<not> expires \<le> t) P_OutputExpired)) (\<lambda>_.
     sbind (slift (archived_result loaded)) (\<lambda>chunk.
     sbind (sensure (\<not> archive_chunk_bad (ref_plan reference) offset limit chunk) P_OutputCorrupt) (\<lambda>_.
     sret (ac_bytes chunk))))))))))))))))))))))))"

end
