(* ===== verification/Api_Stream.thy ===== *)
theory Api_Stream
  imports Api
begin

text \<open>
  Streaming a command's output to a client (\<open>streams/cursor.rs\<close>, \<open>streams/live.rs\<close> and
  \<open>streams/mod.rs\<close> in \<open>crates/sandbox-api/src\<close>). \<open>produce\<close> is the producer task's loop:
  its fuel counts the turns of the loop, and running out of fuel (\<open>False\<close>) is the task being
  aborted, by the lifetime of the stream, the watchdog or the client. \<open>poll_session\<close> is the
  consumer's side, where a frame already queued is withheld once its history has expired.
\<close>

section \<open>The two streams\<close>

type_synonym 'a per_stream = "'a \<times> 'a"

definition pick :: "output_name \<Rightarrow> 'a per_stream \<Rightarrow> 'a" where
  "pick n p = (case n of Stdout \<Rightarrow> fst p | Stderr \<Rightarrow> snd p)"

definition put :: "output_name \<Rightarrow> 'a \<Rightarrow> 'a per_stream \<Rightarrow> 'a per_stream" where
  "put n x p = (case n of Stdout \<Rightarrow> (x, snd p) | Stderr \<Rightarrow> (fst p, x))"

text \<open>\<open>1 - index\<close>\<close>

definition other :: "output_name \<Rightarrow> output_name" where
  "other n = (case n of Stdout \<Rightarrow> Stderr | Stderr \<Rightarrow> Stdout)"

lemma pick_put [simp]: "pick n (put m x p) = (if n = m then x else pick n p)"
  by (cases n; cases m) (simp_all add: pick_def put_def)

lemma other_simps [simp]: "other n \<noteq> n" "n \<noteq> other n" "other (other n) = n" "other n = m \<longleftrightarrow> n = other m"
  by (cases n; cases m; simp add: other_def)+

lemma other_cases: "m = n \<or> m = other n"
  by (cases n; cases m) (simp_all add: other_def)

section \<open>Cursors\<close>

definition bad_cursor :: problem where "bad_cursor = P_BadRequest ''invalid stream cursor''"

definition cursor_new :: "api_env \<Rightarrow> output_owner \<Rightarrow> problem + stream_cursor" where
  "cursor_new E w =
     rbind (ok_or P_Internal (to_vec (ae_owner_json E) w)) (\<lambda>b.
     Inr \<lparr>cur_version = 1, cur_project = oo_project w, cur_operation = oo_operation w,
          cur_binding = hex_encode (ae_crates E) (sha256 (ae_crates E) b), cur_offsets = (0, 0)\<rparr>)"

definition offsets_bad :: "nat \<times> nat \<Rightarrow> bool" where
  "offsets_bad o' =
     (case checked_add_u64 (fst o') (snd o') of None \<Rightarrow> True | Some both \<Rightarrow> max_output < both)"

definition cursor_parse :: "api_env \<Rightarrow> string \<Rightarrow> output_owner \<Rightarrow> problem + stream_cursor" where
  "cursor_parse E raw w =
     rbind (ensure (length raw \<le> 2048) bad_cursor) (\<lambda>_.
     rbind (ok_or bad_cursor (Option.bind (ae_url_decode E raw) (from_slice (ae_cursor_json E)))) (\<lambda>c.
     rbind (cursor_new E w) (\<lambda>expected.
     rbind (ensure (\<not> (cur_version c \<noteq> 1 \<or> cur_project c \<noteq> oo_project w \<or>
        cur_operation c \<noteq> oo_operation w \<or> offsets_bad (cur_offsets c))) bad_cursor) (\<lambda>_.
     rbind (ensure (cur_binding c = cur_binding expected) P_OutputMissing) (\<lambda>_.
     Inr c)))))"

definition cursor_encode :: "api_env \<Rightarrow> stream_cursor \<Rightarrow> problem + string" where
  "cursor_encode E c =
     rbind (ok_or P_Internal (to_vec (ae_cursor_json E) c)) (\<lambda>b. Inr (ae_url_encode E b))"

definition cursor_matches :: "api_env \<Rightarrow> stream_cursor \<Rightarrow> output_owner \<Rightarrow> problem + bool" where
  "cursor_matches E c w = rbind (cursor_new E w) (\<lambda>x. Inr (cur_binding c = cur_binding x))"

section \<open>The live reader\<close>

definition live_read_failure :: "live_failure \<Rightarrow> problem" where
  "live_read_failure f =
     (case f of
        ConnectFailed \<Rightarrow> P_Unavailable
      | ReadFailed CodeNotFound \<Rightarrow> P_OutputMissing
      | ReadFailed CodeFailedPrecondition \<Rightarrow> P_OutputMissing
      | ReadFailed CodeOutOfRange \<Rightarrow> P_OutputRange
      | ReadFailed CodeOther \<Rightarrow> P_Unavailable)"

text \<open>\<open>LiveClient::read\<close> inside the ten seconds of \<open>load\<close>; no answer in time is unavailable.\<close>

definition live_client_read :: "api_env \<Rightarrow> live_client \<Rightarrow> host_id \<Rightarrow> live_request \<Rightarrow> live_observation api" where
  "live_client_read E l host q =
     sbind (sensure (host = lc_host l) P_Unavailable) (\<lambda>_.
     sbind (enquire (\<lambda>n. aw_live (ae_world E) n host q)) (\<lambda>answer.
     sbind (note_event Fetched) (\<lambda>_.
     sbind (slift (ok_or P_Unavailable answer)) (\<lambda>answer.
     sbind (slift (map_err live_read_failure answer)) (\<lambda>reply.
     sbind (sensure (\<not> (vob_simulated reply \<and> \<not> lc_allow_simulated l \<or>
        vob_host reply \<noteq> show_host (ae_crates E) (lc_host l))) P_Unavailable) (\<lambda>_.
     sret reply))))))"

section \<open>One read\<close>

definition view_owner :: "api_env \<Rightarrow> stream_view \<Rightarrow> output_owner api" where
  "view_owner E v =
     sbind (case sv_expires v of
              None \<Rightarrow> sret ()
            | Some t \<Rightarrow> sbind (instant_ns E) (\<lambda>now. sensure (\<not> t \<le> now) P_OutputExpired)) (\<lambda>_.
     slift (case sv_source v of
              SourceLive s _ \<Rightarrow> Inr (los_owner s)
            | SourceArchived o' \<Rightarrow> ok_or P_Unavailable (ov_owner o')
            | SourcePending \<Rightarrow> Inl P_OutputNotReady
            | SourceMissing \<Rightarrow> Inl P_OutputMissing
            | SourceExpired \<Rightarrow> Inl P_OutputExpired))"

definition query_stream :: "api_env \<Rightarrow> caller \<Rightarrow> operation_id \<Rightarrow> (problem + stream_view) api" where
  "query_stream E c op =
     sbind (enquire (\<lambda>n. aw_stream (ae_world E) n (cl_project c) op)) (\<lambda>a.
     sbind (note_event Queried) (\<lambda>_. sret (store_answer a)))"

record chunk =
  ck_bytes :: bytes
  ck_offset :: nat
  ck_next :: nat
  ck_at_end :: bool
  ck_complete :: bool
  ck_stats :: output_stats
  ck_simulated :: bool
  ck_expires :: int

definition load_archived :: "api_env \<Rightarrow> stream_view \<Rightarrow> output_view \<Rightarrow> output_name \<Rightarrow> nat \<Rightarrow> chunk api" where
  "load_archived E view v n offset =
     sbind (slift (ok_or P_Unavailable (ov_references v))) (\<lambda>refs.
     let reference = (case n of Stdout \<Rightarrow> refs_stdout refs | Stderr \<Rightarrow> refs_stderr refs);
         p = ref_plan reference in
     sbind (view_owner E view) (\<lambda>owner.
     sbind (sensure (offset \<le> pl_size p) P_OutputRange) (\<lambda>_.
     sbind (sensure (ae_archive E) P_Unavailable) (\<lambda>_.
     sbind (now_ms E) (\<lambda>now.
     sbind (fetch_archived E reference owner now offset max_chunk) (\<lambda>loaded.
     sbind (slift (archived_result loaded)) (\<lambda>result.
     sbind (sensure (\<not> archive_chunk_bad p offset max_chunk result) P_OutputCorrupt) (\<lambda>_.
     sbind (slift (ok_or P_Unavailable (ov_simulated v))) (\<lambda>simulated.
     sret \<lparr>ck_bytes = ac_bytes result, ck_offset = offset, ck_next = ac_next result,
           ck_at_end = ac_eof result, ck_complete = True,
           ck_stats = \<lparr>out_seen = pl_seen p, out_stored = pl_size p, out_truncated = pl_truncated p\<rparr>,
           ck_simulated = simulated, ck_expires = pl_expires p\<rparr>)))))))))"

definition stream_request :: "crates \<Rightarrow> live_output_scope \<Rightarrow> bytes \<Rightarrow> output_name \<Rightarrow> nat \<Rightarrow> int \<Rightarrow> live_request" where
  "stream_request C s scope n offset now =
     \<lparr>lq_scope = scope,
      lq_output = Some \<lparr>ro_operation = show_operation C (oo_operation (los_owner s)),
                        ro_stream = stream_code n, ro_offset = offset, ro_limit = max_chunk\<rparr>,
      lq_expires = now + 15000\<rparr>"

definition stream_command :: "live_output_scope \<Rightarrow> command_record" where
  "stream_command s =
     \<lparr>cmd_digest = los_command_digest s,
      cmd_context = Some \<lparr>ctx_allocation = oo_allocation (los_owner s),
                          ctx_generation = oo_generation (los_owner s),
                          ctx_boot = oo_boot (los_owner s)\<rparr>,
      cmd_deadline = los_deadline s, cmd_output_limit = los_output_limit s,
      cmd_not_started = False, cmd_receipt = None\<rparr>"

definition load_live :: "api_env \<Rightarrow> live_output_scope \<Rightarrow> bool \<Rightarrow> output_name \<Rightarrow> nat \<Rightarrow> chunk api" where
  "load_live E s simulated n offset =
     (let w = los_owner s in
      sbind (slift (ok_or P_Unavailable (ae_live E))) (\<lambda>reader.
      sbind (slift (ok_or P_Internal (to_vec (ae_scope_json E) s))) (\<lambda>scope.
      sbind (now_ms E) (\<lambda>now.
      let q = stream_request (ae_crates E) s scope n offset now in
      sbind (live_client_read E reader (oo_host w) q) (\<lambda>reply.
      sbind (sensure (\<not> (vob_request reply \<noteq> Some q \<or> vob_host reply \<noteq> show_host (ae_crates E) (oo_host w) \<or>
         vob_epoch reply \<noteq> oo_epoch w \<or> vob_simulated reply \<noteq> simulated)) P_OutputCorrupt) (\<lambda>_.
      sbind (now_ms E) (\<lambda>now.
      sbind (sensure (\<bar>vob_observed reply - now\<bar> \<le> 10000) P_OutputCorrupt) (\<lambda>_.
      sbind (now_ms E) (\<lambda>now.
      sbind (slift (map_err (\<lambda>_. P_Unavailable) (live_decode (ae_crates E) (ae_scope_json E) q now))) (\<lambda>(_, r).
      sbind (slift (ok_or P_OutputCorrupt (vob_receipt reply))) (\<lambda>wr.
      sbind (slift (map_err (\<lambda>_. P_OutputCorrupt) (receipt_of_wire (ae_crates E) wr))) (\<lambda>t.
      sbind (slift (ok_or P_OutputCorrupt (vob_chunk reply))) (\<lambda>ch.
      sbind (slift (map_err (\<lambda>_. P_OutputCorrupt) (live_validate_chunk s r (stream_command s) ch t))) (\<lambda>_.
      sret \<lparr>ck_bytes = oc_data ch, ck_offset = offset, ck_next = oc_next ch, ck_at_end = oc_at_end ch,
            ck_complete = oc_complete ch,
            ck_stats = (case n of Stdout \<Rightarrow> rcpt_stdout t | Stderr \<Rightarrow> rcpt_stderr t),
            ck_simulated = simulated, ck_expires = lq_expires q\<rparr>))))))))))))))"

definition load_chunk :: "api_env \<Rightarrow> stream_view \<Rightarrow> output_name \<Rightarrow> nat \<Rightarrow> chunk api" where
  "load_chunk E view n offset =
     (case sv_source view of
        SourceArchived v \<Rightarrow> load_archived E view v n offset
      | SourceLive s simulated \<Rightarrow> load_live E s simulated n offset
      | _ \<Rightarrow> sfail P_OutputNotReady)"

definition same_source :: "stream_view \<Rightarrow> stream_view \<Rightarrow> bool" where
  "same_source a b =
     (case (sv_source a, sv_source b) of
        (SourceLive s x, SourceLive t y) \<Rightarrow> s = t \<and> x = y
      | (SourceArchived v, SourceArchived w) \<Rightarrow>
          ov_owner v = ov_owner w \<and> ov_references v = ov_references w \<and> ov_simulated v = ov_simulated w
      | _ \<Rightarrow> False)"

definition is_live :: "stream_view \<Rightarrow> bool" where
  "is_live v = (case sv_source v of SourceLive _ _ \<Rightarrow> True | _ \<Rightarrow> False)"

definition is_archived :: "stream_view \<Rightarrow> bool" where
  "is_archived v = (case sv_source v of SourceArchived _ \<Rightarrow> True | _ \<Rightarrow> False)"

section \<open>The producer\<close>

definition retain_until :: "int option \<Rightarrow> unit api" where
  "retain_until at =
     (case at of None \<Rightarrow> sret ()
      | Some t \<Rightarrow> swrite (\<lambda>s. s\<lparr>as_expires := min (as_expires s) (ms_of_ns t)\<rparr>))"

definition emit_frame :: "api_env \<Rightarrow> frame \<Rightarrow> unit api" where
  "emit_frame E f =
     sbind (enquire (\<lambda>n. aw_send (ae_world E) n f)) (\<lambda>r.
     sbind (note_event (Offered f (r = SendDone))) (\<lambda>_.
     case r of
       SendDone \<Rightarrow> sret ()
     | SendTimedOut \<Rightarrow> sbind (swrite (\<lambda>s. s\<lparr>as_denied := True\<rparr>)) (\<lambda>_. sfail P_Unavailable)
     | SendClosed \<Rightarrow> sfail P_Unavailable))"

text \<open>The frame is built before it is offered: \<open>encode\<close> and \<open>json_data\<close> may fail.\<close>

definition emit_at :: "api_env \<Rightarrow> stream_cursor \<Rightarrow> (string \<Rightarrow> frame) \<Rightarrow> unit api" where
  "emit_at E c f =
     sbind (slift (cursor_encode E c)) (\<lambda>i.
     sbind (sensure (ae_frame_json E (f i)) P_Internal) (\<lambda>_. emit_frame E (f i)))"

record progress =
  pg_cursor :: stream_cursor
  pg_done :: "bool per_stream"
  pg_index :: output_name
  pg_previous :: "stream_view option"
  pg_stats :: "output_stats per_stream"

definition no_stats :: output_stats where
  "no_stats = \<lparr>out_seen = 0, out_stored = 0, out_truncated = False\<rparr>"

definition progress_start :: "stream_cursor \<Rightarrow> progress" where
  "progress_start c =
     \<lparr>pg_cursor = c, pg_done = (False, False), pg_index = Stdout, pg_previous = None,
      pg_stats = (no_stats, no_stats)\<rparr>"

definition output_event_of :: "api_env \<Rightarrow> output_name \<Rightarrow> chunk \<Rightarrow> output_event" where
  "output_event_of E n k =
     \<lparr>oev_stream = output_name_str n, oev_offset = ck_offset k, oev_next = ck_next k,
      oev_data = ae_data_encode E (ck_bytes k), oev_at_end = ck_at_end k, oev_complete = ck_complete k,
      oev_stats = ck_stats k, oev_simulated = ck_simulated k\<rparr>"

text \<open>
  What one turn of the loop does before it delivers: the view and the chunk it accepted, or
  \<open>None\<close> when the turn starts again (\<open>continue\<close>) because the archive won during a live read.
  \<open>accept_loaded\<close> is the part after the credential check, which asks nothing of the store.
\<close>

definition accept_loaded ::
    "api_env \<Rightarrow> progress \<Rightarrow> stream_view \<Rightarrow> problem + stream_view \<Rightarrow> problem + chunk \<Rightarrow> (progress \<times> chunk option) api" where
  "accept_loaded E p before answer loaded =
     sbind (slift answer) (\<lambda>after.
     sbind (retain_until (sv_expires after)) (\<lambda>_.
     sbind (view_owner E after) (\<lambda>owner.
     sbind (slift (cursor_matches E (pg_cursor p) owner)) (\<lambda>same.
     sbind (sensure same P_OutputMissing) (\<lambda>_.
     if \<not> same_source before after
     then (if is_live before \<and> is_archived after then sret (p, None) else sfail P_Unavailable)
     else
     sbind (slift loaded) (\<lambda>k.
     sbind (now_ms E) (\<lambda>now.
     sbind (sensure (now < ck_expires k) (if is_live before then P_Unavailable else P_OutputExpired)) (\<lambda>_.
     sret (p, Some k)))))))))"

text \<open>Both stream ends are confirmed again against newly selected final objects.\<close>

definition turn_done :: "progress \<Rightarrow> stream_view \<Rightarrow> bool per_stream" where
  "turn_done p before =
     (if (case pg_previous p of None \<Rightarrow> False | Some v \<Rightarrow> is_live v) \<and> is_archived before
      then (False, False) else pg_done p)"

definition turn_index :: "progress \<Rightarrow> bool per_stream \<Rightarrow> output_name" where
  "turn_index p finished = (if pick (pg_index p) finished then other (pg_index p) else pg_index p)"

definition turn_start :: "progress \<Rightarrow> stream_view \<Rightarrow> progress" where
  "turn_start p before =
     p\<lparr>pg_done := turn_done p before, pg_index := turn_index p (turn_done p before),
       pg_previous := Some before\<rparr>"

definition resolve ::
    "api_env \<Rightarrow> caller \<Rightarrow> operation_id \<Rightarrow> progress \<Rightarrow> (progress \<times> chunk option) api" where
  "resolve E c op p =
     sbind (query_stream E c op) (\<lambda>answer. sbind (slift answer) (\<lambda>before.
     sbind (retain_until (sv_expires before)) (\<lambda>_.
     sbind (view_owner E before) (\<lambda>owner.
     sbind (slift (cursor_matches E (pg_cursor p) owner)) (\<lambda>same.
     sbind (sensure same P_OutputMissing) (\<lambda>_.
     let q = turn_start p before; i = pg_index q in
     sbind (held (load_chunk E before i (pick i (cur_offsets (pg_cursor q))))) (\<lambda>loaded.
     sbind (query_stream E c op) (\<lambda>answer.
     sbind (recheck E c) (\<lambda>_.
     accept_loaded E q before answer loaded)))))))))"

definition settle :: "progress \<Rightarrow> chunk \<Rightarrow> progress" where
  "settle p k =
     (let i = pg_index p in
      p\<lparr>pg_done := put i (ck_complete k \<and> ck_at_end k) (pg_done p),
        pg_stats := put i (ck_stats k) (pg_stats p),
        pg_cursor := (pg_cursor p)\<lparr>cur_offsets := put i (ck_next k) (cur_offsets (pg_cursor p))\<rparr>\<rparr>)"

definition both_done :: "progress \<Rightarrow> bool" where
  "both_done p = (fst (pg_done p) \<and> snd (pg_done p))"

definition deliver :: "api_env \<Rightarrow> progress \<Rightarrow> chunk \<Rightarrow> bool api" where
  "deliver E p k =
     (let i = pg_index p; q = settle p k in
      sbind (if ck_bytes k \<noteq> [] \<or> pick i (pg_done q)
             then emit_at E (pg_cursor q) (\<lambda>x. OutputFrame x (output_event_of E i k)) else sret ()) (\<lambda>_.
      if both_done q
      then sbind (emit_at E (pg_cursor q) (\<lambda>x. EndFrame x
             \<lparr>eev_stdout = fst (pg_stats q), eev_stderr = snd (pg_stats q), eev_simulated = ck_simulated k\<rparr>))
             (\<lambda>_. sret True)
      else sret False))"

fun produce :: "nat \<Rightarrow> api_env \<Rightarrow> caller \<Rightarrow> operation_id \<Rightarrow> progress \<Rightarrow> bool api" where
  "produce 0 E c op p = sret False"
| "produce (Suc fuel) E c op p =
     sbind (resolve E c op p) (\<lambda>(q, loaded).
     case loaded of
       None \<Rightarrow> produce fuel E c op q
     | Some k \<Rightarrow>
         sbind (deliver E q k) (\<lambda>finished.
         if finished then sret True
         else produce fuel E c op ((settle q k)\<lparr>pg_index := other (pg_index q)\<rparr>)))"

text \<open>The spawned task: the producer, then the problem it ended with.\<close>

definition problem_frame :: "problem \<Rightarrow> frame" where
  "problem_frame p =
     (if p \<in> {P_OutputMissing, P_OutputExpired} then GapFrame (problem_code p) else ErrorFrame (problem_code p))"

definition stop_session :: "unit api" where
  "stop_session = swrite (\<lambda>s. s\<lparr>as_denied := True\<rparr>)"

definition report_problem :: "api_env \<Rightarrow> caller \<Rightarrow> problem \<Rightarrow> unit api" where
  "report_problem E c p s =
     (case recheck E c s of
        (Inl _, s') \<Rightarrow> stop_session s'
      | (Inr _, s') \<Rightarrow>
          (if ae_frame_json E (problem_frame p)
           then (case emit_frame E (problem_frame p) s' of (_, t) \<Rightarrow> (Inr (), t))
           else (Inr (), s')))"

definition stream_task :: "nat \<Rightarrow> api_env \<Rightarrow> caller \<Rightarrow> operation_id \<Rightarrow> stream_cursor \<Rightarrow> unit api" where
  "stream_task fuel E c op cur s =
     (case produce fuel E c op (progress_start cur) s of
        (Inr True, t) \<Rightarrow> (Inr (), t)
      | (Inr False, t) \<Rightarrow> stop_session t
      | (Inl p, t) \<Rightarrow>
          (if as_denied t then (Inr (), t)
           else if p \<in> {P_Unauthenticated, P_Forbidden, P_NotFound} then stop_session t
           else report_problem E c p t))"

section \<open>Opening a stream\<close>

text \<open>
  The request as the framework hands it over: the operation segment and the \<open>cursor\<close> parameter
  (\<open>None\<close> when they do not decode), the \<open>last-event-id\<close> headers with the text of each
  (\<open>None\<close> when it is not text), and whether a \<open>Range\<close> header is present.
\<close>

record stream_query =
  sq_operation :: "string option"
  sq_cursor :: "string option option"
  sq_last_ids :: "string option list"
  sq_range :: bool

definition stream_request_of :: "crates \<Rightarrow> stream_query \<Rightarrow> problem + operation_id \<times> string option" where
  "stream_request_of C q =
     rbind (ok_or (P_BadRequest ''invalid operation id'') (sq_operation q)) (\<lambda>raw.
     rbind (map_err (\<lambda>_. P_BadRequest ''invalid operation id'') (parse_operation C raw)) (\<lambda>op.
     rbind (ok_or (P_BadRequest ''invalid stream query'') (sq_cursor q)) (\<lambda>param.
     rbind (ensure (\<not> (1 < length (sq_last_ids q) \<or> sq_last_ids q \<noteq> [] \<and> param \<noteq> None \<or> sq_range q))
       (P_BadRequest ''ambiguous stream cursor'')) (\<lambda>_.
     case sq_last_ids q of
       [] \<Rightarrow> Inr (op, param)
     | header # _ \<Rightarrow> rbind (ok_or bad_cursor header) (\<lambda>v. Inr (op, Some v))))))"

definition open_stream :: "api_env \<Rightarrow> caller \<Rightarrow> stream_query \<Rightarrow> (operation_id \<times> stream_cursor) api" where
  "open_stream E c q =
     sbind (slift (stream_request_of (ae_crates E) q)) (\<lambda>(op, raw).
     sbind (query_stream E c op) (\<lambda>answer. sbind (slift answer) (\<lambda>v.
     sbind (recheck E c) (\<lambda>_.
     sbind (view_owner E v) (\<lambda>owner.
     sbind (slift (case raw of None \<Rightarrow> cursor_new E owner | Some r \<Rightarrow> cursor_parse E r owner)) (\<lambda>cur.
     sbind (sensure (\<not> (is_live v \<and> ae_live E = None)) P_Unavailable) (\<lambda>_.
     sbind (sensure (\<not> (is_archived v \<and> \<not> ae_archive E)) P_Unavailable) (\<lambda>_.
     sbind (enquire (aw_permit (ae_world E))) (\<lambda>permit.
     sbind (sensure permit P_Unavailable) (\<lambda>_.
     sbind (swrite (\<lambda>s. s\<lparr>as_denied := False, as_expires := i64_max\<rparr>)) (\<lambda>_.
     sbind (retain_until (sv_expires v)) (\<lambda>_.
     sret (op, cur)))))))))))))"

section \<open>The session the client polls\<close>

record session =
  ss_denied :: bool
  ss_expires :: int
  ss_queue :: "frame list"
  ss_open :: bool

datatype poll = Pending | Closed | Item frame

definition poll_session :: "int \<Rightarrow> session \<Rightarrow> poll \<times> session" where
  "poll_session now s =
     (if ss_denied s then (Closed, s)
      else if ss_expires s \<le> now
      then (Item (GapFrame ''output_expired''), s\<lparr>ss_denied := True\<rparr>)
      else (case ss_queue s of
              [] \<Rightarrow> (if ss_open s then Pending else Closed, s)
            | f # fs \<Rightarrow> (Item f, s\<lparr>ss_queue := fs\<rparr>)))"

end
