(* ===== verification/Api_Stream_Laws.thy ===== *)
theory Api_Stream_Laws
  imports Api_Stream
begin

text \<open>
  Laws of the streaming producer: a calculus of outcomes for methods of the API, what one read
  and one turn of the loop do, the guard every offered frame stands behind, and the client's
  reassembly of the frames of one stream.
\<close>

section \<open>Outcomes\<close>

text \<open>\<open>leads s m Q F\<close>: \<open>m\<close> from \<open>s\<close> succeeds in a state satisfying \<open>Q\<close> or fails in one satisfying \<open>F\<close>.\<close>

definition leads ::
    "'s \<Rightarrow> ('s, 'e, 'a) proc \<Rightarrow> ('a \<Rightarrow> 's \<Rightarrow> bool) \<Rightarrow> ('e \<Rightarrow> 's \<Rightarrow> bool) \<Rightarrow> bool" where
  "leads s m Q F = (case m s of (Inl e, t) \<Rightarrow> F e t | (Inr a, t) \<Rightarrow> Q a t)"

named_theorems leads_simps \<open>outcomes of a method of the API, by its structure\<close>

lemma leads_basic [leads_simps]:
  "leads s (sret a) Q F = Q a s" "leads s (sfail e) Q F = F e s"
  "leads s (sread f) Q1 F = Q1 (f s) s" "leads s (swrite g) Q2 F = Q2 () (g s)"
  "leads s (sensure c e) Q2 F = (if c then Q2 () s else F e s)"
  by (simp_all add: leads_def ensure_def)

lemma leads_slift [leads_simps]:
  "leads s (slift x) Q F = ((\<forall>a. x = Inr a \<longrightarrow> Q a s) \<and> (\<forall>e. x = Inl e \<longrightarrow> F e s))"
  by (cases x) (auto simp: leads_def)

lemma leads_sbind [leads_simps]: "leads s (sbind m f) Q F = leads s m (\<lambda>a t. leads t (f a) Q F) F"
  by (auto simp: leads_def sbind_def split: prod.splits sum.splits)

lemma leads_enquire [leads_simps]:
  "leads s (enquire f) Q F = Q (f (as_step s)) (s\<lparr>as_step := Suc (as_step s)\<rparr>)"
  by (simp add: leads_def enquire_def)

lemma leads_note [leads_simps]:
  "leads s (note_event e) Q F = Q () (s\<lparr>as_log := as_log s @ [e]\<rparr>)"
  by (simp add: note_event_def leads_simps)

lemma leads_if [leads_simps]:
  "leads s (if b then m else m') Q F = (if b then leads s m Q F else leads s m' Q F)"
  by simp

lemma leads_mono:
  "leads s m Q F \<Longrightarrow> (\<And>a t. Q a t \<Longrightarrow> Q' a t) \<Longrightarrow> (\<And>e t. F e t \<Longrightarrow> F' e t) \<Longrightarrow> leads s m Q' F'"
  by (auto simp: leads_def split: prod.splits sum.splits)

lemma leadsI:
  "(\<And>e t. m s = (Inl e, t) \<Longrightarrow> F e t) \<Longrightarrow> (\<And>a t. m s = (Inr a, t) \<Longrightarrow> Q a t) \<Longrightarrow> leads s m Q F"
  by (auto simp: leads_def split: prod.splits sum.splits)

lemma leadsD:
  assumes "leads s m Q F"
  shows "m s = (Inr a, t) \<Longrightarrow> Q a t" "m s = (Inl e, t) \<Longrightarrow> F e t"
  using assms by (auto simp: leads_def)

lemma leads_snd: "leads s m (\<lambda>_. P) (\<lambda>_. P) \<longleftrightarrow> P (snd (m s))"
  by (auto simp: leads_def split: prod.splits sum.splits)

lemma leads_held [leads_simps]:
  "leads s (held m) Q F = leads s m (\<lambda>a t. Q (Inr a) t) (\<lambda>e t. Q (Inl e) t)"
  by (auto simp: leads_def held_def split: prod.splits sum.splits)

section \<open>What a method adds to the log\<close>

text \<open>
  \<open>silent m\<close>: \<open>m\<close> adds nothing to the log. \<open>logs s l t\<close>: from \<open>s\<close> to \<open>t\<close> the log grew by \<open>l\<close>.
\<close>

definition logs :: "api_state \<Rightarrow> api_event list \<Rightarrow> api_state \<Rightarrow> bool" where
  "logs s l t = (as_log t = as_log s @ l)"

definition silent :: "'a api \<Rightarrow> bool" where
  "silent m = (\<forall>s. as_log (snd (m s)) = as_log s)"

lemma silent_simps [simp]:
  "silent (sret a)" "silent (sfail e)" "silent (slift r)" "silent (sensure b e)" "silent (enquire f)"
  "silent (instant_ns E)" "silent (now_ms E)" "silent (retain_until at)"
  by (auto simp: silent_def enquire_def instant_ns_def now_ms_def retain_until_def sbind_def split: option.split)

lemma silent_sbind: "silent m \<Longrightarrow> (\<And>a. silent (f a)) \<Longrightarrow> silent (sbind m f)"
  by (auto simp: silent_def sbind_def split: prod.splits sum.splits) (metis snd_conv)+

lemma silent_view_owner [simp]: "silent (view_owner E v)"
  unfolding view_owner_def by (intro silent_sbind) (auto intro: silent_sbind split: option.split)

lemma silent_revalidate: "silent (revalidate E c)"
  unfolding revalidate_def by (intro silent_sbind) simp_all

lemma silent_leads:
  assumes "silent m" "\<And>a t. as_log t = as_log s \<Longrightarrow> Q a t" "\<And>e t. as_log t = as_log s \<Longrightarrow> F e t"
  shows "leads s m Q F"
  using assms by (auto simp: leads_def silent_def split: prod.splits sum.splits) (metis snd_conv)+

lemma leads_recheck:
  assumes "\<And>t. as_log t = as_log s @ [Checked True] \<Longrightarrow> Q () t"
    and "\<And>e t. as_log t = as_log s @ [Checked False] \<Longrightarrow> F e t"
  shows "leads s (recheck E c) Q F"
proof -
  have "as_log (snd (revalidate E c s)) = as_log s" using silent_revalidate by (simp add: silent_def)
  then show ?thesis
    using assms by (auto simp: leads_def recheck_def split: prod.splits sum.splits)
qed


section \<open>One read\<close>

text \<open>A method that adds only reads of output to the log.\<close>

definition fetches :: "'a api \<Rightarrow> bool" where
  "fetches m = (\<forall>s. \<exists>l. as_log (snd (m s)) = as_log s @ l \<and> set l \<subseteq> {Fetched})"

lemma fetches_silent: "silent m \<Longrightarrow> fetches m"
  by (auto simp: fetches_def silent_def)

lemma fetches_sbind: "fetches m \<Longrightarrow> (\<And>a. fetches (f a)) \<Longrightarrow> fetches (sbind m f)"
  unfolding fetches_def
proof (intro allI)
  fix s
  assume m: "\<forall>s. \<exists>l. as_log (snd (m s)) = as_log s @ l \<and> set l \<subseteq> {Fetched}"
    and f: "\<And>a. \<forall>s. \<exists>l. as_log (snd (f a s)) = as_log s @ l \<and> set l \<subseteq> {Fetched}"
  show "\<exists>l. as_log (snd (sbind m f s)) = as_log s @ l \<and> set l \<subseteq> {Fetched}"
  proof (cases "m s")
    case (Pair r t)
    obtain l where l: "as_log t = as_log s @ l" "set l \<subseteq> {Fetched}" using m[rule_format, of s] Pair by auto
    show ?thesis
    proof (cases r)
      case (Inr a)
      obtain l' where "as_log (snd (f a t)) = as_log t @ l'" "set l' \<subseteq> {Fetched}"
        using f[of a, rule_format, of t] by auto
      then show ?thesis using l Pair Inr by (intro exI[of _ "l @ l'"]) (simp add: sbind_def)
    qed (use l Pair in \<open>auto simp: sbind_def\<close>)
  qed
qed

lemma fetches_note: "fetches (note_event Fetched)"
  by (auto simp: fetches_def note_event_def)

lemmas fetches_intros = fetches_sbind fetches_note fetches_silent

lemma fetches_live: "fetches (live_client_read E l h q)"
  unfolding live_client_read_def by (intro fetches_intros) simp_all

lemma fetches_load: "fetches (load_chunk E v n offset)"
proof -
  have "fetches (fetch_archived E r w now offset limit)" for r w now limit
    unfolding fetch_archived_def by (intro fetches_intros) simp_all
  then have "fetches (load_archived E v x n offset)" for x
    unfolding load_archived_def Let_def by (intro fetches_sbind) (simp_all add: fetches_silent)
  moreover have "fetches (load_live E s b n offset)" for s b
    unfolding load_live_def Let_def
    by (intro fetches_sbind) (auto simp: fetches_silent fetches_live intro!: fetches_sbind)
  ultimately show ?thesis
    unfolding load_chunk_def by (auto simp: fetches_silent split: stream_source.split)
qed

text \<open>
  Sources that serve the command's bytes: what the object store answers for the stream's object
  is a range of its content, and so is what the host reports for the stream; every archived view
  of the store names the same two objects.
\<close>

definition ref_of :: "output_name \<Rightarrow> output_refs \<Rightarrow> output_ref" where
  "ref_of n refs = (case n of Stdout \<Rightarrow> refs_stdout refs | Stderr \<Rightarrow> refs_stderr refs)"

definition range_of :: "bytes \<Rightarrow> nat \<Rightarrow> bytes \<Rightarrow> bool" where
  "range_of content offset b = (b = take (length b) (drop offset content))"

definition honest_outputs :: "api_world \<Rightarrow> output_refs \<Rightarrow> bytes per_stream \<Rightarrow> bool" where
  "honest_outputs W refs content =
     ((\<forall>k n w now offset limit c. aw_archive W k (ref_of n refs) w now offset limit = Some (Inr c) \<longrightarrow>
         range_of (pick n content) offset (ac_bytes c)) \<and>
      (\<forall>k h q x ch r n. aw_live W k h q = Some (Inr x) \<longrightarrow> vob_chunk x = Some ch \<longrightarrow> lq_output q = Some r \<longrightarrow>
         ro_stream r = stream_code n \<longrightarrow> range_of (pick n content) (ro_offset r) (oc_data ch)) \<and>
      (\<forall>k p i v x rs. aw_stream W k p i = Inr (Some v) \<longrightarrow> sv_source v = SourceArchived x \<longrightarrow>
         ov_references x = Some rs \<longrightarrow> rs = refs))"

text \<open>A chunk of a stream at an offset.\<close>

definition chunk_at :: "nat \<Rightarrow> chunk \<Rightarrow> bool" where
  "chunk_at offset k =
     (ck_offset k = offset \<and> ck_next k = offset + length (ck_bytes k) \<and>
      (ck_complete k \<and> ck_at_end k \<longrightarrow> out_stored (ck_stats k) = ck_next k))"

lemma load_archived_ok:
  assumes "load_archived E v x n offset s = (Inr k, t)"
  obtains rs m w now c where "ov_references x = Some rs" "chunk_at offset k" "ck_complete k"
    "aw_archive (ae_world E) m (ref_of n rs) w now offset max_chunk = Some (Inr c)" "ac_bytes c = ck_bytes k"
    "length (ck_bytes k) = min (pl_size (ref_plan (ref_of n rs)) - offset) max_chunk"
    "ck_at_end k = (ck_next k = pl_size (ref_plan (ref_of n rs)))"
    "out_stored (ck_stats k) = pl_size (ref_plan (ref_of n rs))"
proof -
  from assms obtain rs now m c w where c: "ov_references x = Some rs"
      "aw_archive (ae_world E) m (ref_of n rs) w now offset max_chunk = Some (Inr c)"
      "\<not> archive_chunk_bad (ref_plan (ref_of n rs)) offset max_chunk c"
      "ck_bytes k = ac_bytes c" "ck_offset k = offset" "ck_next k = ac_next c" "ck_at_end k = ac_eof c"
      "ck_complete k" "out_stored (ck_stats k) = pl_size (ref_plan (ref_of n rs))"
    by (auto simp: load_archived_def ref_of_def[symmetric] Let_def fetch_archived_def enquire_def note_event_def
        archived_result_def)
  have "length (ck_bytes k) = min (pl_size (ref_plan (ref_of n rs)) - offset) max_chunk"
    "ck_next k = offset + length (ck_bytes k)" "ck_at_end k = (ck_next k = pl_size (ref_plan (ref_of n rs)))"
    using c(3,4,6,7) unfolding archive_chunk_bad_def Let_def by argo+
  then show thesis using that[OF c(1) _ c(8) c(2) c(4)[symmetric]] c(5,9) by (simp add: chunk_at_def)
qed

lemma stream_code_inj [simp]: "stream_code n = stream_code m \<longleftrightarrow> n = m"
  by (cases n; cases m) (simp_all add: stream_code_def)

lemma live_chunk_ok:
  assumes "live_validate_chunk sc r c ch t = Inr ()" "ro_stream r = stream_code n"
  shows "oc_offset ch = ro_offset r" "oc_next ch = ro_offset r + length (oc_data ch)"
    "oc_complete ch \<Longrightarrow> oc_at_end ch \<Longrightarrow>
       out_stored (case n of Stdout \<Rightarrow> rcpt_stdout t | Stderr \<Rightarrow> rcpt_stderr t) = oc_next ch"
  using assms by (cases n; auto simp: live_validate_chunk_def Let_def stream_code_def)+

lemma live_decode_output: "live_decode C J q now = Inr (sc, r) \<Longrightarrow> lq_output q = Some r"
  by (auto simp: live_decode_def Let_def)

lemma load_live_ok:
  assumes "load_live E sc b n offset s = (Inr k, t)"
  obtains m h q x ch r where "aw_live (ae_world E) m h q = Some (Inr x)" "vob_chunk x = Some ch"
    "lq_output q = Some r" "ro_stream r = stream_code n" "ro_offset r = offset" "oc_data ch = ck_bytes k"
    "chunk_at offset k"
proof -
  let ?q = "\<lambda>scope now. stream_request (ae_crates E) sc scope n offset now"
  from assms obtain l s1 s2 scope now x now' sc' r wr tt ch where c:
      "live_client_read E l (oo_host (los_owner sc)) (?q scope now) s1 = (Inr x, s2)"
      "live_decode (ae_crates E) (ae_scope_json E) (?q scope now) now' = Inr (sc', r)"
      "vob_receipt x = Some wr" "vob_chunk x = Some ch"
      "live_validate_chunk sc r (stream_command sc) ch tt = Inr ()"
      "k = \<lparr>ck_bytes = oc_data ch, ck_offset = offset, ck_next = oc_next ch, ck_at_end = oc_at_end ch,
            ck_complete = oc_complete ch,
            ck_stats = (case n of Stdout \<Rightarrow> rcpt_stdout tt | Stderr \<Rightarrow> rcpt_stderr tt),
            ck_simulated = b, ck_expires = lq_expires (?q scope now)\<rparr>"
    unfolding load_live_def Let_def by (elim sbind_Inr[THEN iffD1, THEN exE]) (auto split: prod.splits)
  from c(1) obtain m where live: "aw_live (ae_world E) m (oo_host (los_owner sc)) (?q scope now) = Some (Inr x)"
    by (auto simp: live_client_read_def enquire_def note_event_def)
  have r: "lq_output (?q scope now) = Some r" "ro_stream r = stream_code n" "ro_offset r = offset"
    using live_decode_output[OF c(2)] by (auto simp: stream_request_def)
  show thesis
    using that[OF live c(4) r(1,2,3)] live_chunk_ok[OF c(5) r(2)] r(3) c(6) by (simp add: chunk_at_def)
qed

lemma load_chunk_ok: "load_chunk E v n offset s = (Inr k, t) \<Longrightarrow> chunk_at offset k"
  by (auto simp: load_chunk_def split: stream_source.splits elim: load_archived_ok load_live_ok)

lemma load_chunk_honest:
  assumes "honest_outputs (ae_world E) refs content" "aw_stream (ae_world E) m p i = Inr (Some v)"
    and k: "load_chunk E v n offset s = (Inr k, t)"
  shows "range_of (pick n content) offset (ck_bytes k)"
proof (cases "sv_source v")
  case (SourceArchived x)
  with k have "load_archived E v x n offset s = (Inr k, t)" by (simp add: load_chunk_def)
  then obtain rs m' w now c where c: "ov_references x = Some rs" "ac_bytes c = ck_bytes k"
      "aw_archive (ae_world E) m' (ref_of n rs) w now offset max_chunk = Some (Inr c)"
    by (rule load_archived_ok)
  have "rs = refs" using assms(1,2) SourceArchived c(1) unfolding honest_outputs_def by blast
  then show ?thesis using assms(1) c(2,3) unfolding honest_outputs_def by metis
next
  case (SourceLive sc b)
  with k have "load_live E sc b n offset s = (Inr k, t)" by (simp add: load_chunk_def)
  then obtain m' h q x ch r where c: "aw_live (ae_world E) m' h q = Some (Inr x)" "vob_chunk x = Some ch"
    "lq_output q = Some r" "ro_stream r = stream_code n" "ro_offset r = offset" "oc_data ch = ck_bytes k"
    by (rule load_live_ok)
  then show ?thesis using assms(1) unfolding honest_outputs_def by metis
qed (use k in \<open>auto simp: load_chunk_def\<close>)

section \<open>One turn\<close>

text \<open>A method that offers nothing to the client.\<close>

fun offered :: "api_event \<Rightarrow> bool" where
  "offered (Offered _ _) = True"
| "offered _ = False"

definition withholds :: "'a api \<Rightarrow> bool" where
  "withholds m = (\<forall>s. \<exists>l. as_log (snd (m s)) = as_log s @ l \<and> list_all (\<lambda>e. \<not> offered e) l)"

lemma withholds_fetches: "fetches m \<Longrightarrow> withholds m"
  unfolding fetches_def withholds_def list_all_iff
  by (intro allI) (metis (no_types) insertE offered.simps(4) singletonD subsetD)

lemma withholds_silent [simp]: "silent m \<Longrightarrow> withholds m"
  by (rule withholds_fetches) (rule fetches_silent)

lemma withholds_sbind:
  assumes m: "withholds m" and f: "\<And>a. withholds (f a)"
  shows "withholds (sbind m f)"
  unfolding withholds_def
proof
  fix s
  obtain l where l: "as_log (snd (m s)) = as_log s @ l" "list_all (\<lambda>e. \<not> offered e) l"
    using m unfolding withholds_def by blast
  show "\<exists>l. as_log (snd (sbind m f s)) = as_log s @ l \<and> list_all (\<lambda>e. \<not> offered e) l"
  proof (cases "m s")
    case (Pair r t)
    show ?thesis
    proof (cases r)
      case (Inr a)
      obtain l' where "as_log (snd (f a t)) = as_log t @ l'" "list_all (\<lambda>e. \<not> offered e) l'"
        using f[of a] unfolding withholds_def by blast
      then show ?thesis using l Pair Inr by (intro exI[of _ "l @ l'"]) (simp add: sbind_def)
    qed (use l Pair in \<open>auto simp: sbind_def\<close>)
  qed
qed

lemma withholds_recheck: "withholds (recheck E c)"
  unfolding withholds_def
proof
  fix s
  show "\<exists>l. as_log (snd (recheck E c s)) = as_log s @ l \<and> list_all (\<lambda>e. \<not> offered e) l"
    using leads_recheck[of s "\<lambda>_ t. \<exists>l. as_log t = as_log s @ l \<and> list_all (\<lambda>e. \<not> offered e) l"
      "\<lambda>_ t. \<exists>l. as_log t = as_log s @ l \<and> list_all (\<lambda>e. \<not> offered e) l" E c] by (simp add: leads_snd)
qed

lemma withholds_query: "withholds (query_stream E c op)"
  by (auto simp: withholds_def query_stream_def enquire_def note_event_def sbind_def)

lemma withholds_held: "withholds m \<Longrightarrow> withholds (held m)"
  by (auto simp: withholds_def held_def split: prod.splits) (metis snd_conv)

lemma withholds_if: "withholds m \<Longrightarrow> withholds m' \<Longrightarrow> withholds (if b then m else m')"
  by simp

lemma silent_accept [simp]: "silent (accept_loaded E p before answer loaded)"
  unfolding accept_loaded_def by (intro silent_sbind) (auto intro!: silent_sbind)

lemma withholds_resolve: "withholds (resolve E c op p)"
  unfolding resolve_def Let_def
  by (intro withholds_sbind withholds_held)
    (simp_all add: withholds_query withholds_recheck withholds_fetches fetches_load)

lemma recheck_ok: "recheck E c s = (Inr u, t) \<Longrightarrow> as_log t = as_log s @ [Checked True]"
  using leads_recheck[of s "\<lambda>_ t. as_log t = as_log s @ [Checked True]" "\<lambda>_ _. True" E c]
  by (auto dest: leadsD(1))

text \<open>What a turn that succeeded has established.\<close>

lemma resolve_ok:
  assumes "resolve E c op p s = (Inr (q, loaded), t)"
  obtains l m before s1 s2 where "as_log t = l @ [Checked True]"
    "aw_stream (ae_world E) m (cl_project c) op = Inr (Some before)" "q = turn_start p before"
    "\<And>k. loaded = Some k \<Longrightarrow>
       load_chunk E before (pg_index q) (pick (pg_index q) (cur_offsets (pg_cursor q))) s1 = (Inr k, s2)"
proof -
  let ?q = "turn_start p"
  from assms obtain m before r s1 s2 s3 u answer where a:
      "aw_stream (ae_world E) m (cl_project c) op = Inr (Some before)"
      "load_chunk E before (pg_index (?q before)) (pick (pg_index (?q before)) (cur_offsets (pg_cursor (?q before)))) s1 = (r, s2)"
      "recheck E c s3 = (Inr (), u)" "accept_loaded E (?q before) before answer r u = (Inr (q, loaded), t)"
    unfolding resolve_def Let_def query_stream_def
    by (auto simp: enquire_def note_event_def store_answer_def)
  have t: "as_log t = as_log s3 @ [Checked True]"
    using silent_accept a(4) recheck_ok[OF a(3)] by (metis silent_def snd_conv)
  have q: "q = ?q before" "\<And>k. loaded = Some k \<Longrightarrow> r = Inr k"
    using a(4) by (auto simp: accept_loaded_def split: if_splits)
  show thesis
    by (rule that[OF t a(1) q(1), of s1 s2]) (use a(2) q in auto)
qed

lemma turn_start_cursor [simp]:
  "pg_cursor (turn_start p v) = pg_cursor p" "pg_stats (turn_start p v) = pg_stats p"
  by (simp_all add: turn_start_def)

text \<open>A turn never reads the stream that is finished, when one is not.\<close>

lemma turn_start_open:
  assumes "\<not> both_done p"
  shows "\<not> pick (pg_index (turn_start p v)) (pg_done (turn_start p v))"
    and "\<not> both_done (turn_start p v)"
    and "pick n (pg_done (turn_start p v)) \<Longrightarrow> pick n (pg_done p)"
  using assms
  by (cases n; auto simp: turn_start_def turn_index_def turn_done_def both_done_def other_def pick_def
      split: output_name.splits if_splits)+

section \<open>The guard of a frame\<close>

text \<open>
  \<open>guard_run g l\<close> is \<open>None\<close> when some frame of \<open>l\<close> is offered while the credential check is
  not fresh: the check must have passed, and no metadata query and no read of output may have
  followed it. Otherwise it says whether the check is fresh at the end.
\<close>

fun guard_run :: "bool \<Rightarrow> api_event list \<Rightarrow> bool option" where
  "guard_run g [] = Some g"
| "guard_run g (Checked b # l) = guard_run b l"
| "guard_run g (Queried # l) = guard_run False l"
| "guard_run g (Fetched # l) = guard_run False l"
| "guard_run g (Offered f ok # l) = (if g then guard_run g l else None)"

definition guarded :: "api_event list \<Rightarrow> bool" where
  "guarded l = (guard_run False l \<noteq> None)"

lemma guard_run_append: "guard_run g (l @ m) = Option.bind (guard_run g l) (\<lambda>h. guard_run h m)"
  by (induction g l rule: guard_run.induct) auto

lemma guard_run_quiet: "list_all (\<lambda>e. \<not> offered e) l \<Longrightarrow> guard_run g l \<noteq> None"
  by (induction g l rule: guard_run.induct) auto

lemma guard_run_offers: "list_all offered l \<Longrightarrow> guard_run True l = Some True"
proof (induction l)
  case (Cons e l)
  then show ?case by (cases e) auto
qed simp

lemma guarded_quiet: "guarded l \<Longrightarrow> list_all (\<lambda>e. \<not> offered e) m \<Longrightarrow> guarded (l @ m)"
  using guard_run_quiet by (fastforce simp: guarded_def guard_run_append)

lemma guarded_checked: "guarded (l @ [Checked True]) \<Longrightarrow> list_all offered m \<Longrightarrow> guarded ((l @ [Checked True]) @ m)"
  using guard_run_offers[of m] by (auto simp: guarded_def guard_run_append split: Option.bind_splits)

lemma guarded_withholds: "withholds m \<Longrightarrow> guarded (as_log s) \<Longrightarrow> guarded (as_log (snd (m s)))"
  unfolding withholds_def using guarded_quiet by metis

section \<open>Delivering a chunk\<close>

lemma emit_frame_log:
  "\<exists>b. as_log (snd (emit_frame E f s)) = as_log s @ [Offered f b] \<and> (fst (emit_frame E f s) = Inr () \<longrightarrow> b)"
  by (auto simp: emit_frame_def enquire_def note_event_def sbind_def split: send_result.splits)

lemma emit_at_log:
  obtains (none) e where "emit_at E c f s = (Inl e, s)"
  | (some) x b t where "emit_at E c f s = (fst (emit_frame E (f x) s), t)" "as_log t = as_log s @ [Offered (f x) b]"
      "fst (emit_frame E (f x) s) = Inr () \<Longrightarrow> b"
proof (cases "cursor_encode E c")
  case (Inr x)
  obtain b where b: "as_log (snd (emit_frame E (f x) s)) = as_log s @ [Offered (f x) b]"
    "fst (emit_frame E (f x) s) = Inr () \<longrightarrow> b"
    using emit_frame_log by blast
  show thesis
  proof (cases "ae_frame_json E (f x)")
    case True
    with Inr have "emit_at E c f s = emit_frame E (f x) s" by (simp add: emit_at_def sbind_def)
    then show ?thesis using some[of x "snd (emit_frame E (f x) s)" b] b by (metis prod.collapse)
  qed (use none Inr in \<open>auto simp: emit_at_def sbind_def\<close>)
qed (use none in \<open>auto simp: emit_at_def sbind_def\<close>)

definition end_event_of :: "progress \<Rightarrow> chunk \<Rightarrow> end_event" where
  "end_event_of q k =
     \<lparr>eev_stdout = fst (pg_stats q), eev_stderr = snd (pg_stats q), eev_simulated = ck_simulated k\<rparr>"

text \<open>The frames of one delivery.\<close>

definition delivers :: "api_env \<Rightarrow> progress \<Rightarrow> chunk \<Rightarrow> api_event list \<Rightarrow> bool" where
  "delivers E p k l =
     ((ck_bytes k = [] \<and> l = []) \<or>
      (\<exists>x b. l = [Offered (OutputFrame x (output_event_of E (pg_index p) k)) b]) \<or>
      (\<exists>x y b. both_done (settle p k) \<and>
         l = [Offered (OutputFrame x (output_event_of E (pg_index p) k)) True,
              Offered (EndFrame y (end_event_of (settle p k) k)) b]))"

lemma deliver_log:
  "leads s (deliver E p k)
     (\<lambda>r t. \<exists>l. as_log t = as_log s @ l \<and> delivers E p k l \<and> r = both_done (settle p k) \<and>
              (r \<longrightarrow> (\<exists>x m. l = m @ [Offered (EndFrame x (end_event_of (settle p k) k)) True])))
     (\<lambda>_ t. \<exists>l. as_log t = as_log s @ l \<and> (l = [] \<or> delivers E p k l))"
  (is "leads s _ ?Q ?F")
proof -
  let ?q = "settle p k" and ?o = "\<lambda>x. OutputFrame x (output_event_of E (pg_index p) k)"
  let ?e = "\<lambda>x. EndFrame x (end_event_of (settle p k) k)"
  have d: "deliver E p k = sbind (if ck_bytes k \<noteq> [] \<or> pick (pg_index p) (pg_done ?q)
             then emit_at E (pg_cursor ?q) ?o else sret ()) (\<lambda>_.
      if both_done ?q then sbind (emit_at E (pg_cursor ?q) ?e) (\<lambda>_. sret True) else sret False)"
    by (simp add: deliver_def Let_def end_event_of_def)
  have both: "pick (pg_index p) (pg_done ?q)" if "both_done ?q"
    using that by (cases "pg_index p") (simp_all add: both_done_def pick_def)
  show ?thesis
  proof (cases "ck_bytes k \<noteq> [] \<or> pick (pg_index p) (pg_done ?q)")
    case False
    then show ?thesis using both by (auto simp: d leads_simps delivers_def)
  next
    case True
    then have d: "deliver E p k = sbind (emit_at E (pg_cursor ?q) ?o) (\<lambda>_.
      if both_done ?q then sbind (emit_at E (pg_cursor ?q) ?e) (\<lambda>_. sret True) else sret False)"
      by (simp add: d)
    show ?thesis
    proof (cases rule: emit_at_log[of E "pg_cursor ?q" ?o s])
      case (none e)
      then show ?thesis by (simp add: d leads_def sbind_def)
    next
      case o: (some x b t)
      show ?thesis
      proof (cases "fst (emit_frame E (?o x) s)")
        case (Inl e)
        with o show ?thesis by (auto simp: d leads_def sbind_def delivers_def)
      next
        case (Inr u)
        with o have b: "as_log t = as_log s @ [Offered (?o x) True]" "emit_at E (pg_cursor ?q) ?o s = (Inr (), t)" by auto
        show ?thesis
        proof (cases "both_done ?q")
          case False
          with b show ?thesis by (auto simp: d leads_def sbind_def delivers_def)
        next
          case True
          show ?thesis
          proof (cases rule: emit_at_log[of E "pg_cursor ?q" ?e t])
            case (none e)
            with b True show ?thesis by (auto simp: d leads_def sbind_def delivers_def)
          next
            case e: (some y c w)
            show ?thesis
              by (cases "fst (emit_frame E (?e y) t)") (use e b True in \<open>auto simp: d leads_def sbind_def delivers_def\<close>)
          qed
        qed
      qed
    qed
  qed
qed

lemma delivers_offered: "l = [] \<or> delivers E p k l \<Longrightarrow> list_all offered l"
  by (auto simp: delivers_def)

lemma deliver_grows:
  obtains l where "as_log (snd (deliver E p k s)) = as_log s @ l" "l = [] \<or> delivers E p k l"
  using deliver_log[of s E p k] by (auto simp: leads_def split: prod.splits sum.splits)

section \<open>The loop\<close>

text \<open>The state of the next turn.\<close>

definition next_turn :: "progress \<Rightarrow> chunk \<Rightarrow> progress" where
  "next_turn q k = (settle q k)\<lparr>pg_index := other (pg_index q)\<rparr>"

lemma produce_leads:
  assumes turn: "\<And>p s. I p s \<Longrightarrow> leads s (resolve E c op p)
      (\<lambda>a t. case snd a of None \<Rightarrow> I (fst a) t
        | Some k \<Rightarrow> leads t (deliver E (fst a) k) (\<lambda>b u. if b then Q True u else I (next_turn (fst a) k) u) F) F"
    and out: "\<And>p s. I p s \<Longrightarrow> Q False s"
  shows "I p s \<Longrightarrow> leads s (produce fuel E c op p) Q F"
proof (induction fuel arbitrary: p s)
  case 0
  then show ?case using out by (simp add: leads_def)
next
  case (Suc fuel)
  show ?case
    unfolding produce.simps leads_sbind
    by (rule leads_mono[OF turn[OF Suc.prems]])
      (auto simp: leads_simps next_turn_def intro!: Suc.IH split: option.splits elim!: leads_mono)
qed

lemma produce_guarded:
  assumes "guarded (as_log s)"
  shows "guarded (as_log (snd (produce fuel E c op p s)))"
proof -
  let ?G = "\<lambda>s. guarded (as_log s)"
  have turn: "leads s (resolve E c op p) (\<lambda>a t. case snd a of None \<Rightarrow> ?G t
      | Some k \<Rightarrow> leads t (deliver E (fst a) k) (\<lambda>b u. if b then ?G u else ?G u) (\<lambda>_. ?G)) (\<lambda>_. ?G)"
    if s: "guarded (as_log s)" for p s
  proof (rule leadsI)
    have r: "guarded (as_log (snd (resolve E c op p s)))" using guarded_withholds[OF withholds_resolve] s .
    then show "guarded (as_log t)" if "resolve E c op p s = (Inl e, t)" for e t using that by simp
    fix a t
    assume ok: "resolve E c op p s = (Inr a, t)"
    obtain q x where a: "a = (q, x)" by (cases a)
    obtain l where l: "as_log t = l @ [Checked True]" using resolve_ok ok a by metis
    have "guarded (as_log (snd (deliver E q k t)))" for k
      using deliver_grows[of E q k t] delivers_offered guarded_checked[of l] r ok l by (metis snd_conv)
    then show "case snd a of None \<Rightarrow> ?G t
      | Some k \<Rightarrow> leads t (deliver E (fst a) k) (\<lambda>b u. if b then ?G u else ?G u) (\<lambda>_. ?G)"
      using r ok a by (auto simp: leads_snd split: option.splits)
  qed
  show ?thesis
    using produce_leads[of "\<lambda>_. ?G" E c op "\<lambda>_. ?G" "\<lambda>_. ?G", OF turn _ assms]
    by (simp add: leads_snd)
qed

section \<open>What the client reassembles\<close>

text \<open>
  The bytes of stream \<open>n\<close> that a client at offset \<open>a\<close> gathers from the frames of a log, with
  \<open>D\<close> its decoder; \<open>None\<close> when a frame of the stream does not continue where the last ended.
\<close>

fun reassemble :: "(string \<Rightarrow> bytes option) \<Rightarrow> output_name \<Rightarrow> nat \<Rightarrow> api_event list \<Rightarrow> bytes option" where
  "reassemble D n a [] = Some []"
| "reassemble D n a (Offered (OutputFrame i v) ok # l) =
     (if oev_stream v = output_name_str n
      then (case D (oev_data v) of
              None \<Rightarrow> None
            | Some b \<Rightarrow>
                if oev_offset v = a \<and> oev_next v = a + length b
                then map_option ((@) b) (reassemble D n (oev_next v) l) else None)
      else reassemble D n a l)"
| "reassemble D n a (_ # l) = reassemble D n a l"

lemma reassemble_append:
  "reassemble D n a l = Some b \<Longrightarrow>
     reassemble D n a (l @ m) = map_option ((@) b) (reassemble D n (a + length b) m)"
proof (induction D n a l arbitrary: b rule: reassemble.induct)
  case (1 D n a)
  then show ?case by (simp add: option.map_ident)
next
  case (2 D n a i v ok l)
  have "(@) (x @ y) = (\<lambda>z. x @ y @ z)" for x y :: bytes by auto
  with 2 show ?case
    by (auto split: if_splits option.splits simp: option.map_comp comp_def add.assoc)
qed simp_all

lemma reassemble_quiet: "list_all (\<lambda>e. \<not> offered e) l \<Longrightarrow> reassemble D n a l = Some []"
  by (induction D n a l rule: reassemble.induct) auto

lemma range_of_append:
  "range_of c a b \<Longrightarrow> range_of c (a + length b) b' \<Longrightarrow> range_of c a (b @ b')"
  unfolding range_of_def by (metis append_take_drop_id drop_drop length_append take_add add.commute)

lemma range_of_Nil [simp]: "range_of c a []" by (simp add: range_of_def)

text \<open>The client of stream \<open>n\<close>, at offset \<open>a\<close>, has gathered \<open>b\<close>, a range of the content.\<close>

definition gathered :: "(string \<Rightarrow> bytes option) \<Rightarrow> bytes \<Rightarrow> output_name \<Rightarrow> nat \<Rightarrow> api_event list \<Rightarrow> bytes \<Rightarrow> bool" where
  "gathered D content n a l b = (reassemble D n a l = Some b \<and> range_of content a b)"

lemma gathered_quiet:
  "gathered D content n a l b \<Longrightarrow> list_all (\<lambda>e. \<not> offered e) m \<Longrightarrow> gathered D content n a (l @ m) b"
  by (simp add: gathered_def reassemble_append reassemble_quiet)

text \<open>A delivery extends what one stream has gathered and leaves the other.\<close>

lemma gathered_delivers:
  assumes "gathered D content n a l b" "delivers E p k m" "\<And>x. D (ae_data_encode E x) = Some x"
  shows "n \<noteq> pg_index p \<Longrightarrow> gathered D content n a (l @ m) b"
    and "n = pg_index p \<Longrightarrow> chunk_at (a + length b) k \<Longrightarrow> range_of content (a + length b) (ck_bytes k) \<Longrightarrow>
      gathered D content n a (l @ m) (b @ ck_bytes k)"
proof -
  have name: "output_name_str n = output_name_str n' \<longleftrightarrow> n = n'" for n'
    by (cases n; cases n') (simp_all add: output_name_str_def)
  show "gathered D content n a (l @ m) b" if "n \<noteq> pg_index p"
    using assms that name by (auto simp: gathered_def reassemble_append delivers_def output_event_of_def)
  show "gathered D content n a (l @ m) (b @ ck_bytes k)"
    if "n = pg_index p" "chunk_at (a + length b) k" "range_of content (a + length b) (ck_bytes k)"
    using assms that name
    by (auto simp: gathered_def reassemble_append delivers_def output_event_of_def chunk_at_def range_of_append)
qed

text \<open>The state at the head of the loop.\<close>

definition on_course ::
    "(string \<Rightarrow> bytes option) \<Rightarrow> bytes per_stream \<Rightarrow> nat per_stream \<Rightarrow> progress \<Rightarrow> api_event list \<Rightarrow> bool" where
  "on_course D content start p l =
     (\<not> both_done p \<and>
      (\<forall>n. (\<exists>b. gathered D (pick n content) n (pick n start) l b \<and>
              pick n (cur_offsets (pg_cursor p)) = pick n start + length b) \<and>
           (pick n (pg_done p) \<longrightarrow> out_stored (pick n (pg_stats p)) = pick n (cur_offsets (pg_cursor p)))))"

text \<open>Both streams delivered up to the sizes that the \<open>end\<close> frame reports.\<close>

definition ended ::
    "(string \<Rightarrow> bytes option) \<Rightarrow> bytes per_stream \<Rightarrow> nat per_stream \<Rightarrow> api_event list \<Rightarrow> bool" where
  "ended D content start l =
     (\<exists>m x v. l = m @ [Offered (EndFrame x v) True] \<and>
        (\<forall>n. \<exists>b. gathered D (pick n content) n (pick n start) l b \<and>
           pick n start + length b = out_stored (pick n (eev_stdout v, eev_stderr v))))"

definition in_order ::
    "(string \<Rightarrow> bytes option) \<Rightarrow> bytes per_stream \<Rightarrow> nat per_stream \<Rightarrow> api_event list \<Rightarrow> bool" where
  "in_order D content start l = (\<forall>n. \<exists>b. gathered D (pick n content) n (pick n start) l b)"

lemma on_course_turn: "on_course D content start p l \<Longrightarrow> on_course D content start (turn_start p v) l"
  using turn_start_open by (auto simp: on_course_def)

lemma settle_simps [simp]:
  "pick n (cur_offsets (pg_cursor (settle p k))) =
     (if n = pg_index p then ck_next k else pick n (cur_offsets (pg_cursor p)))"
  "pick n (pg_done (settle p k)) =
     (if n = pg_index p then ck_complete k \<and> ck_at_end k else pick n (pg_done p))"
  "pick n (pg_stats (settle p k)) = (if n = pg_index p then ck_stats k else pick n (pg_stats p))"
  by (simp_all add: settle_def Let_def)

lemma both_done_pick: "both_done p = (\<forall>n. pick n (pg_done p))"
  by (auto simp: both_done_def pick_def split: output_name.splits)

lemma settled_course:
  assumes p: "on_course D content start p l" and m: "delivers E p k m"
    and D: "\<And>x. D (ae_data_encode E x) = Some x"
    and k: "chunk_at (pick (pg_index p) (cur_offsets (pg_cursor p))) k"
    and b: "range_of (pick (pg_index p) content) (pick (pg_index p) (cur_offsets (pg_cursor p))) (ck_bytes k)"
  shows "\<exists>b. gathered D (pick n content) n (pick n start) (l @ m) b \<and>
           pick n (cur_offsets (pg_cursor (settle p k))) = pick n start + length b"
    and "pick n (pg_done (settle p k)) \<Longrightarrow>
           out_stored (pick n (pg_stats (settle p k))) = pick n (cur_offsets (pg_cursor (settle p k)))"
proof -
  obtain c where c: "gathered D (pick n content) n (pick n start) l c"
    "pick n (cur_offsets (pg_cursor p)) = pick n start + length c"
    using p by (auto simp: on_course_def)
  show "\<exists>b. gathered D (pick n content) n (pick n start) (l @ m) b \<and>
           pick n (cur_offsets (pg_cursor (settle p k))) = pick n start + length b"
  proof (cases "n = pg_index p")
    case True
    then show ?thesis
      using gathered_delivers(2)[OF c(1) m D True] c(2) k b
      by (intro exI[of _ "c @ ck_bytes k"]) (auto simp: chunk_at_def)
  qed (use gathered_delivers(1)[OF c(1) m D] c(2) in auto)
  show "out_stored (pick n (pg_stats (settle p k))) = pick n (cur_offsets (pg_cursor (settle p k)))"
    if "pick n (pg_done (settle p k))"
    using that p k by (cases "n = pg_index p") (auto simp: on_course_def chunk_at_def)
qed

lemma produce_in_order:
  assumes honest: "honest_outputs (ae_world E) refs content"
    and D: "\<And>x. D (ae_data_encode E x) = Some x"
    and p: "on_course D content start p (as_log s)"
  shows "leads s (produce fuel E c op p)
    (\<lambda>r t. if r then ended D content start (as_log t) else in_order D content start (as_log t))
    (\<lambda>_ t. in_order D content start (as_log t))"
  (is "leads s _ ?Q ?F")
proof -
  have weak: "in_order D content start l" if "on_course D content start p l" for p l
    using that by (auto simp: on_course_def in_order_def)
  have turn: "leads s (resolve E c op p)
      (\<lambda>a t. case snd a of None \<Rightarrow> on_course D content start (fst a) (as_log t)
        | Some k \<Rightarrow> leads t (deliver E (fst a) k)
            (\<lambda>b u. if b then ?Q True u else on_course D content start (next_turn (fst a) k) (as_log u)) ?F) ?F"
    if p: "on_course D content start p (as_log s)" for p s
  proof -
    obtain l where l: "as_log (snd (resolve E c op p s)) = as_log s @ l" "list_all (\<lambda>e. \<not> offered e) l"
      using withholds_resolve unfolding withholds_def by blast
    have kept: "on_course D content start p (as_log (snd (resolve E c op p s)))"
      using p l gathered_quiet unfolding on_course_def by metis
    show ?thesis
    proof (rule leadsI)
      show "?F e t" if "resolve E c op p s = (Inl e, t)" for e t using that weak[OF kept] by simp
    next
      fix a t
      assume ok: "resolve E c op p s = (Inr a, t)"
      obtain q x where a: "a = (q, x)" by (cases a)
      obtain m v s1 s2 where v: "aw_stream (ae_world E) m (cl_project c) op = Inr (Some v)" "q = turn_start p v"
        "\<And>k. x = Some k \<Longrightarrow> load_chunk E v (pg_index q) (pick (pg_index q) (cur_offsets (pg_cursor q))) s1 = (Inr k, s2)"
        using resolve_ok ok a by metis
      have q: "on_course D content start q (as_log t)" using on_course_turn kept ok v(2) by simp
      show "case snd a of None \<Rightarrow> on_course D content start (fst a) (as_log t)
        | Some k \<Rightarrow> leads t (deliver E (fst a) k)
            (\<lambda>b u. if b then ?Q True u else on_course D content start (next_turn (fst a) k) (as_log u)) ?F"
      proof (cases x)
        case None
        with q a show ?thesis by simp
      next
        case (Some k)
        note S = settled_course[OF q _ D load_chunk_ok[OF v(3)[OF Some]] load_chunk_honest[OF honest v(1) v(3)[OF Some]]]
        have nxt: "on_course D content start (next_turn q k) (as_log t @ l)"
          if "delivers E q k l" "\<not> both_done (settle q k)" for l
          using S[OF that(1)] that(2) unfolding on_course_def next_turn_def both_done_def by simp
        have fin: "ended D content start (as_log t @ l)"
          if d: "delivers E q k l" and f: "both_done (settle q k)" and e: "l = m' @ [Offered (EndFrame y (end_event_of (settle q k) k)) True]" for l m' y
        proof -
          have "\<exists>b. gathered D (pick n content) n (pick n start) (as_log t @ l) b \<and>
             pick n start + length b = out_stored (pick n (eev_stdout (end_event_of (settle q k) k),
               eev_stderr (end_event_of (settle q k) k)))" for n
          proof -
            obtain b where "gathered D (pick n content) n (pick n start) (as_log t @ l) b"
              "pick n (cur_offsets (pg_cursor (settle q k))) = pick n start + length b" using S(1)[OF d] by blast
            then show ?thesis
              using S(2)[OF d, of n] f by (auto simp: end_event_of_def both_done_pick)
          qed
          moreover have "as_log t @ l = (as_log t @ m') @ [Offered (EndFrame y (end_event_of (settle q k) k)) True]"
            using e by simp
          ultimately show ?thesis unfolding ended_def by blast
        qed
        have part: "in_order D content start (as_log t @ l)" if "delivers E q k l" for l
          using S(1)[OF that] by (auto simp: in_order_def)
        show ?thesis
          unfolding a snd_conv fst_conv Some option.case
          by (rule leads_mono[OF deliver_log]) (use nxt fin part weak[OF q] in auto)
      qed
    qed
  qed
  show ?thesis
  proof (rule produce_leads[where I = "\<lambda>p s. on_course D content start p (as_log s)" and Q = ?Q and F = ?F])
    show "on_course D content start p (as_log s)" by (rule p)
  qed (use turn weak in simp_all)
qed

end
