(* ===== verification/Api_Liveness.thy ===== *)
theory Api_Liveness
  imports Api_Stream_Laws
begin

text \<open>
  A stream of published output ends. \<open>archived_service\<close> says what the services do for it:
  the store keeps answering with the same published view, the credential stays valid, the
  reader answers each range and every frame is taken. \<open>turns_left\<close> counts the turns of the loop.
\<close>

section \<open>Methods that succeed\<close>

definition yields :: "('s, 'e, 'a) proc \<Rightarrow> ('a \<Rightarrow> bool) \<Rightarrow> bool" where
  "yields m P = (\<forall>s. \<exists>a t. m s = (Inr a, t) \<and> P a)"

named_theorems yields_intro \<open>methods that succeed, by their structure\<close>

lemma yields_sbind [yields_intro]:
  "yields m P \<Longrightarrow> (\<And>a. P a \<Longrightarrow> yields (f a) Q) \<Longrightarrow> yields (sbind m f) Q"
  unfolding yields_def sbind_def by (metis (mono_tags, lifting) old.prod.case sum.case(2))

lemma yields_basic [yields_intro]:
  "P a \<Longrightarrow> yields (sret a) P" "b \<Longrightarrow> yields (sensure b e) (\<lambda>_. True)" "yields (swrite g) (\<lambda>_. True)"
  "x = Inr a \<Longrightarrow> P a \<Longrightarrow> yields (slift x) P" "(\<And>n. P (f n)) \<Longrightarrow> yields (enquire f) P"
  by (auto simp: yields_def enquire_def)

lemma yields_mono: "yields m P \<Longrightarrow> (\<And>a. P a \<Longrightarrow> Q a) \<Longrightarrow> yields m Q"
  unfolding yields_def by blast

lemma yields_held: "yields m P \<Longrightarrow> yields (held m) (\<lambda>r. \<exists>a. r = Inr a \<and> P a)"
  unfolding yields_def held_def by (metis (mono_tags, lifting) old.prod.case)

lemma yields_note [simp]: "yields (note_event e) (\<lambda>_. True)"
  by (simp add: note_event_def yields_def)

lemma yields_retain [simp]: "yields (retain_until at) (\<lambda>_. True)"
  by (cases at) (simp_all add: retain_until_def yields_def)

section \<open>The services\<close>

definition archived_service ::
    "api_env \<Rightarrow> caller \<Rightarrow> operation_id \<Rightarrow> output_owner \<Rightarrow> output_refs \<Rightarrow> bool \<Rightarrow> stream_cursor \<Rightarrow> bool" where
  "archived_service E c op w refs simulated cur =
     (let W = ae_world E in
      (\<forall>k. \<exists>v x. aw_stream W k (cl_project c) op = Inr (Some v) \<and> sv_source v = SourceArchived x \<and>
         ov_owner x = Some w \<and> ov_references x = Some refs \<and> ov_simulated x = Some simulated \<and>
         (\<forall>t j. sv_expires v = Some t \<longrightarrow> aw_clock W j < t)) \<and>
      (\<forall>k. \<exists>r. aw_token W k (cl_key c) = Inr (Some r) \<and> tkr_project r = cl_project c \<and> tkr_key r = cl_key c \<and>
         (\<forall>j. verify_hash (ae_crates E) (cl_hash c) r (aw_clock W j) = Inr ())) \<and>
      ae_archive E \<and>
      (\<forall>k n now offset. offset \<le> pl_size (ref_plan (ref_of n refs)) \<longrightarrow>
         (\<exists>a. aw_archive W k (ref_of n refs) w now offset max_chunk = Some (Inr a) \<and>
              \<not> archive_chunk_bad (ref_plan (ref_of n refs)) offset max_chunk a)) \<and>
      (\<forall>n j. ms_of_ns (aw_clock W j) < pl_expires (ref_plan (ref_of n refs))) \<and>
      (\<forall>k f. aw_send W k f = SendDone) \<and> (\<forall>f. ae_frame_json E f) \<and>
      (\<forall>x. \<exists>b. to_vec (ae_cursor_json E) x = Some b) \<and>
      (\<exists>x. cursor_new E w = Inr x \<and> cur_binding x = cur_binding cur))"

text \<open>The turns that are left for one stream: one for each full range and one for the last.\<close>

definition turns_left :: "output_refs \<Rightarrow> progress \<Rightarrow> output_name \<Rightarrow> nat" where
  "turns_left refs p n =
     (if pick n (pg_done p) then 0
      else (pl_size (ref_plan (ref_of n refs)) - pick n (cur_offsets (pg_cursor p))) div max_chunk + 1)"

definition turns_total :: "output_refs \<Rightarrow> progress \<Rightarrow> nat" where
  "turns_total refs p = turns_left refs p Stdout + turns_left refs p Stderr"

definition at_ease :: "output_refs \<Rightarrow> stream_cursor \<Rightarrow> progress \<Rightarrow> bool" where
  "at_ease refs cur p =
     (\<not> both_done p \<and> (\<forall>v. pg_previous p = Some v \<longrightarrow> is_archived v) \<and>
      cur_binding (pg_cursor p) = cur_binding cur \<and>
      (\<forall>n. pick n (cur_offsets (pg_cursor p)) \<le> pl_size (ref_plan (ref_of n refs))))"

text \<open>A view the store answers with.\<close>

definition published :: "api_env \<Rightarrow> output_owner \<Rightarrow> output_refs \<Rightarrow> bool \<Rightarrow> stream_view \<Rightarrow> bool" where
  "published E w refs simulated v =
     (\<exists>x. sv_source v = SourceArchived x \<and> ov_owner x = Some w \<and> ov_references x = Some refs \<and>
        ov_simulated x = Some simulated \<and>
        (\<forall>t j. sv_expires v = Some t \<longrightarrow> aw_clock (ae_world E) j < t))"

lemma published_kind:
  "published E w refs simulated v \<Longrightarrow> is_archived v" "published E w refs simulated v \<Longrightarrow> \<not> is_live v"
  "published E w refs simulated v \<Longrightarrow> published E w refs simulated v' \<Longrightarrow> same_source v v'"
  by (auto simp: published_def is_archived_def is_live_def same_source_def)

lemma query_yields:
  assumes "archived_service E c op w refs simulated cur"
  shows "yields (query_stream E c op) (\<lambda>r. \<exists>v. r = Inr v \<and> published E w refs simulated v)" (is "yields _ ?P")
proof -
  have "?P (store_answer (aw_stream (ae_world E) n (cl_project c) op))" for n
    using assms unfolding archived_service_def published_def Let_def store_answer_def
    by (metis map_err_simps(2) ok_or_simps(2) rbind.simps(2))
  then show ?thesis
    unfolding query_stream_def
    by (intro yields_sbind[where P = "\<lambda>a. ?P (store_answer a)"] yields_sbind[where P = "\<lambda>_. True"] yields_basic) simp_all
qed

lemma owner_yields:
  assumes "published E w refs simulated v"
  shows "yields (view_owner E v) (\<lambda>x. x = w)"
proof -
  obtain x where x: "sv_source v = SourceArchived x" "ov_owner x = Some w"
    "\<And>t j. sv_expires v = Some t \<Longrightarrow> aw_clock (ae_world E) j < t"
    using assms by (auto simp: published_def)
  have "yields (case sv_expires v of None \<Rightarrow> sret ()
      | Some t \<Rightarrow> sbind (instant_ns E) (\<lambda>now. sensure (\<not> t \<le> now) P_OutputExpired)) (\<lambda>_. True)"
    using x(3) by (cases "sv_expires v")
      (auto simp: instant_ns_def not_le intro!: yields_basic yields_sbind[where P = "\<lambda>now. \<exists>j. now = aw_clock (ae_world E) j"])
  moreover have "yields (slift (case sv_source v of SourceLive sc _ \<Rightarrow> Inr (los_owner sc)
      | SourceArchived o' \<Rightarrow> ok_or P_Unavailable (ov_owner o') | SourcePending \<Rightarrow> Inl P_OutputNotReady
      | SourceMissing \<Rightarrow> Inl P_OutputMissing | SourceExpired \<Rightarrow> Inl P_OutputExpired)) (\<lambda>x. x = w)"
    using x(1,2) by (simp add: yields_def)
  ultimately show ?thesis
    unfolding view_owner_def by (rule yields_sbind)
qed

lemma recheck_yields:
  assumes "archived_service E c op w refs simulated cur"
  shows "yields (recheck E c) (\<lambda>_. True)"
proof -
  have "yields (revalidate E c) (\<lambda>_. True)"
    unfolding yields_def
  proof
    fix s :: api_state
    obtain r where "aw_token (ae_world E) (as_step s) (cl_key c) = Inr (Some r)" "tkr_project r = cl_project c"
      "tkr_key r = cl_key c" "\<And>j. verify_hash (ae_crates E) (cl_hash c) r (aw_clock (ae_world E) j) = Inr ()"
      using assms unfolding archived_service_def Let_def by meson
    then show "\<exists>a t. revalidate E c s = (Inr a, t) \<and> True"
      by (simp add: revalidate_def sbind_def enquire_def instant_ns_def ensure_def)
  qed
  then show ?thesis
    unfolding yields_def recheck_def by (metis (mono_tags, lifting) old.prod.case)
qed

text \<open>The chunk of a turn: a full range that ends before the object does, or the last range.\<close>

definition chunk_of_plan :: "output_plan \<Rightarrow> nat \<Rightarrow> chunk \<Rightarrow> bool" where
  "chunk_of_plan p offset k =
     (ck_complete k \<and> ck_expires k = pl_expires p \<and> ck_next k \<le> pl_size p \<and>
      ck_at_end k = (ck_next k = pl_size p) \<and> (\<not> ck_at_end k \<longrightarrow> ck_next k = offset + max_chunk))"

lemma load_yields:
  assumes "archived_service E c op w refs simulated cur" "published E w refs simulated v"
    and off: "offset \<le> pl_size (ref_plan (ref_of n refs))"
  shows "yields (load_chunk E v n offset) (chunk_of_plan (ref_plan (ref_of n refs)) offset)"
proof -
  let ?r = "ref_of n refs"
  let ?ok = "\<lambda>a. \<not> archive_chunk_bad (ref_plan ?r) offset max_chunk a"
  obtain x where x: "sv_source v = SourceArchived x" "ov_references x = Some refs" "ov_simulated x = Some simulated"
    using assms(2) by (auto simp: published_def)
  have ae: "ae_archive E" using assms(1) by (simp add: archived_service_def Let_def)
  have "\<exists>a. aw_archive (ae_world E) k ?r w now offset max_chunk = Some (Inr a) \<and> ?ok a" for k now
    using assms(1) off unfolding archived_service_def Let_def by blast
  then obtain A where A: "\<And>k now. aw_archive (ae_world E) k ?r w now offset max_chunk = Some (Inr (A k now))"
      "\<And>k now. ?ok (A k now)"
    by metis
  have size: "ac_next a \<le> pl_size (ref_plan ?r)" "ac_eof a = (ac_next a = pl_size (ref_plan ?r))"
      "\<not> ac_eof a \<longrightarrow> ac_next a = offset + max_chunk" if "?ok a" for a
    using that off by (auto simp: archive_chunk_bad_def Let_def min_def split: if_splits)
  have ref: "(case n of Stdout \<Rightarrow> refs_stdout refs | Stderr \<Rightarrow> refs_stderr refs) = ?r" by (simp add: ref_of_def)
  show ?thesis
    unfolding yields_def
  proof
    fix s
    obtain t where t: "view_owner E v s = (Inr w, t)"
      using owner_yields[OF assms(2)] unfolding yields_def by metis
    show "\<exists>k u. load_chunk E v n offset s = (Inr k, u) \<and> chunk_of_plan (ref_plan ?r) offset k"
      using A size[OF A(2)] t off ae
      by (simp add: load_chunk_def load_archived_def Let_def x ref sbind_def fetch_archived_def enquire_def note_event_def
          now_ms_def instant_ns_def archived_result_def ensure_def chunk_of_plan_def)
  qed
qed

section \<open>A turn\<close>

lemma at_ease_start:
  assumes "at_ease refs cur p" "published E w refs simulated v"
  shows "at_ease refs cur (turn_start p v)" "pg_done (turn_start p v) = pg_done p"
proof -
  have "turn_done p v = pg_done p" using assms(1)
    by (auto simp: turn_done_def at_ease_def is_live_def is_archived_def split: option.splits stream_source.splits)
  then show "pg_done (turn_start p v) = pg_done p" by (simp add: turn_start_def)
  then show "at_ease refs cur (turn_start p v)"
    using assms published_kind(1) by (auto simp: at_ease_def both_done_def turn_start_def)
qed

lemma matches_yields:
  assumes "archived_service E c op w refs simulated cur" "cur_binding x = cur_binding cur"
  shows "yields (slift (cursor_matches E x w)) (\<lambda>b. b)"
  using assms by (auto simp: archived_service_def Let_def cursor_matches_def yields_def)

lemma accept_yields:
  assumes "archived_service E c op w refs simulated cur" "published E w refs simulated before"
    "published E w refs simulated after" "cur_binding (pg_cursor q) = cur_binding cur"
    "ck_expires k = pl_expires (ref_plan (ref_of n refs))"
  shows "yields (accept_loaded E q before (Inr after) (Inr k)) (\<lambda>r. r = (q, Some k))"
proof -
  have now: "yields (now_ms E) (\<lambda>t. t < ck_expires k)"
    using assms(1,5) by (simp add: yields_def now_ms_def instant_ns_def enquire_def sbind_def archived_service_def Let_def)
  have same: "same_source before after" using published_kind(3)[OF assms(2,3)] .
  have after: "yields (slift (Inr after)) (\<lambda>v. v = after)" and k: "yields (slift (Inr k)) (\<lambda>x. x = k)"
    by (simp_all add: yields_def)
  show ?thesis
    unfolding accept_loaded_def
    by (rule yields_sbind[OF after], rule yields_sbind[OF yields_retain], hypsubst,
        rule yields_sbind[OF owner_yields[OF assms(3)]], hypsubst,
        rule yields_sbind[OF matches_yields[OF assms(1,4)]], rule yields_sbind[OF yields_basic(2)], assumption,
        simp only: same not_True_eq_False if_False, rule yields_sbind[OF k], hypsubst,
        rule yields_sbind[OF now], rule yields_sbind[OF yields_basic(2)], assumption)
      (simp add: yields_basic)
qed

lemma resolve_yields:
  assumes E: "archived_service E c op w refs simulated cur" and p: "at_ease refs cur p"
  shows "yields (resolve E c op p) (\<lambda>(q, x). \<exists>v k. published E w refs simulated v \<and> q = turn_start p v \<and>
     x = Some k \<and> chunk_of_plan (ref_plan (ref_of (pg_index q) refs)) (pick (pg_index q) (cur_offsets (pg_cursor q))) k)"
proof -
  have bind: "cur_binding (pg_cursor p) = cur_binding cur" using p by (simp add: at_ease_def)
  let ?q = "turn_start p"
  let ?ok = "\<lambda>v. chunk_of_plan (ref_plan (ref_of (pg_index (?q v)) refs)) (pick (pg_index (?q v)) (cur_offsets (pg_cursor p)))"
  have load: "yields (held (load_chunk E v (pg_index (?q v)) (pick (pg_index (?q v)) (cur_offsets (pg_cursor (?q v))))))
      (\<lambda>r. \<exists>k. r = Inr k \<and> ?ok v k)" if "published E w refs simulated v" for v
    using load_yields[OF E that] p by (intro yields_held) (simp add: at_ease_def)
  have rest: "yields (sbind (slift (Inr v)) (\<lambda>before.
     sbind (retain_until (sv_expires before)) (\<lambda>_.
     sbind (view_owner E before) (\<lambda>owner.
     sbind (slift (cursor_matches E (pg_cursor p) owner)) (\<lambda>same.
     sbind (sensure same P_OutputMissing) (\<lambda>_.
     let q = turn_start p before; i = pg_index q in
     sbind (held (load_chunk E before i (pick i (cur_offsets (pg_cursor q))))) (\<lambda>loaded.
     sbind (query_stream E c op) (\<lambda>answer.
     sbind (recheck E c) (\<lambda>_.
     accept_loaded E q before answer loaded)))))))))
     (\<lambda>(q, x). \<exists>v k. published E w refs simulated v \<and> q = turn_start p v \<and>
     x = Some k \<and> chunk_of_plan (ref_plan (ref_of (pg_index q) refs)) (pick (pg_index q) (cur_offsets (pg_cursor q))) k)"
    (is "yields _ ?R") if v: "published E w refs simulated v" for v
  proof -
    have one: "yields (slift (Inr v)) (\<lambda>x. x = v)" by (simp add: yields_def)
    have accept: "yields (accept_loaded E (?q v) v answer loaded) ?R"
      if acc: "\<exists>a. answer = Inr a \<and> published E w refs simulated a"
        "\<exists>k. loaded = Inr k \<and> ?ok v k" for answer loaded
    proof -
      obtain a k where a: "answer = Inr a" "published E w refs simulated a" "loaded = Inr k" "?ok v k"
        using acc(1,2) by blast
      show ?thesis unfolding a(1,3)
        by (rule yields_mono[OF accept_yields[OF E v a(2), where n = "pg_index (?q v)"]])
          (use a(4) v bind in \<open>auto simp: chunk_of_plan_def\<close>)
    qed
    show ?thesis
      by (rule yields_sbind[OF one], hypsubst, rule yields_sbind[OF yields_retain],
          rule yields_sbind[OF owner_yields[OF v]], hypsubst,
          rule yields_sbind[OF matches_yields[OF E bind]], rule yields_sbind[OF yields_basic(2)], assumption,
          unfold Let_def, rule yields_sbind[OF load[OF v]], rule yields_sbind[OF query_yields[OF E]],
          rule yields_sbind[OF recheck_yields[OF E]], rule accept)
  qed
  show ?thesis
    unfolding resolve_def by (rule yields_sbind[OF query_yields[OF E]]) (use rest in auto)
qed

lemma emit_yields: "archived_service E c op w refs simulated cur \<Longrightarrow> yields (emit_at E x f) (\<lambda>_. True)"
  unfolding yields_def
proof
  fix s
  assume E: "archived_service E c op w refs simulated cur"
  obtain b where "to_vec (ae_cursor_json E) x = Some b"
    using E unfolding archived_service_def Let_def by blast
  then show "\<exists>a t. emit_at E x f s = (Inr a, t) \<and> True"
    using E by (simp add: emit_at_def cursor_encode_def emit_frame_def sbind_def enquire_def note_event_def ensure_def
        archived_service_def Let_def)
qed

lemma deliver_yields:
  assumes "archived_service E c op w refs simulated cur"
  shows "yields (deliver E q k) (\<lambda>b. b = both_done (settle q k))"
  unfolding deliver_def Let_def
  by (intro yields_sbind[where P = "\<lambda>_. True"])
    (auto simp: emit_yields[OF assms] intro!: yields_sbind[OF emit_yields[OF assms]] yields_basic)

text \<open>A turn leaves one turn less for the stream it reads.\<close>

lemma turn_decreases:
  assumes p: "at_ease refs cur q" and i: "\<not> pick (pg_index q) (pg_done q)"
    and k: "chunk_of_plan (ref_plan (ref_of (pg_index q) refs)) (pick (pg_index q) (cur_offsets (pg_cursor q))) k"
  shows "turns_total refs (next_turn q k) < turns_total refs q"
    and "\<not> both_done (settle q k) \<Longrightarrow> at_ease refs cur (next_turn q k)"
proof -
  have keep: "turns_left refs (next_turn q k) n = turns_left refs q n" if "n \<noteq> pg_index q" for n
    using that by (simp add: turns_left_def next_turn_def)
  have less: "turns_left refs (next_turn q k) (pg_index q) < turns_left refs q (pg_index q)"
  proof (cases "ck_at_end k")
    case True
    then show ?thesis using i k by (simp add: turns_left_def next_turn_def chunk_of_plan_def)
  next
    case False
    let ?s = "pl_size (ref_plan (ref_of (pg_index q) refs))" and ?o = "pick (pg_index q) (cur_offsets (pg_cursor q))"
    have "ck_next k = ?o + max_chunk" "ck_next k \<le> ?s" using k False by (auto simp: chunk_of_plan_def)
    then have "?s - ?o = (?s - ck_next k) + max_chunk" by simp
    then have "(?s - ?o) div max_chunk = (?s - ck_next k) div max_chunk + 1" by (simp add: max_chunk_def)
    then show ?thesis using False i by (simp add: turns_left_def next_turn_def)
  qed
  show "turns_total refs (next_turn q k) < turns_total refs q"
    using less keep by (cases "pg_index q") (simp_all add: turns_total_def)
  show "at_ease refs cur (next_turn q k)" if "\<not> both_done (settle q k)"
    using p k that
    by (auto simp: at_ease_def next_turn_def chunk_of_plan_def both_done_def settle_def Let_def)
qed

lemma produce_yields:
  assumes E: "archived_service E c op w refs simulated cur"
  shows "at_ease refs cur p \<Longrightarrow> turns_total refs p \<le> fuel \<Longrightarrow> yields (produce fuel E c op p) (\<lambda>b. b)"
proof (induction fuel arbitrary: p)
  case 0
  then have "turns_left refs p Stdout = 0" "turns_left refs p Stderr = 0" by (simp_all add: turns_total_def)
  then have "both_done p" by (auto simp: turns_left_def both_done_def pick_def split: if_splits)
  with 0 show ?case by (simp add: at_ease_def)
next
  case (Suc fuel)
  have turn: "yields (case a of (q, loaded) \<Rightarrow> case loaded of
       None \<Rightarrow> produce fuel E c op q
     | Some k \<Rightarrow> sbind (deliver E q k) (\<lambda>finished. if finished then sret True
         else produce fuel E c op ((settle q k)\<lparr>pg_index := other (pg_index q)\<rparr>))) (\<lambda>b. b)"
    if a: "case a of (q, x) \<Rightarrow> \<exists>v k. published E w refs simulated v \<and> q = turn_start p v \<and> x = Some k \<and>
       chunk_of_plan (ref_plan (ref_of (pg_index q) refs)) (pick (pg_index q) (cur_offsets (pg_cursor q))) k" for a
  proof -
    obtain q v k where q: "a = (q, Some k)" "published E w refs simulated v" "q = turn_start p v"
       "chunk_of_plan (ref_plan (ref_of (pg_index q) refs)) (pick (pg_index q) (cur_offsets (pg_cursor q))) k"
      using a by (cases a) auto
    have ease: "at_ease refs cur q" "pg_done q = pg_done p" using at_ease_start[OF Suc.prems(1) q(2)] q(3) by auto
    have index: "\<not> pick (pg_index q) (pg_done q)"
      using turn_start_open(1) Suc.prems(1) q(3) by (simp add: at_ease_def)
    have total: "turns_total refs q = turns_total refs p"
      using ease(2) q(3) by (simp add: turns_total_def turns_left_def)
    have "yields (produce fuel E c op (next_turn q k)) (\<lambda>b. b)" if "\<not> both_done (settle q k)"
      using Suc.IH turn_decreases[OF ease(1) index q(4)] that total Suc.prems(2) by simp
    then show ?thesis
      unfolding q(1) by (auto simp: next_turn_def intro!: yields_sbind[OF deliver_yields[OF E]] yields_basic)
  qed
  show ?case
    unfolding produce.simps by (rule yields_sbind[OF resolve_yields[OF E Suc.prems(1)]]) (rule turn)
qed

end
