(* ===== verification/Api_Properties.thy ===== *)
theory Api_Properties
  imports Api_Liveness Samples
begin

text \<open>
  The API's output surface is correct: who is let in, that no frame leaves without a fresh
  credential check, that the frames of a stream are its bytes in order and end with the sizes
  they reached, that a published stream ends, and that a cursor resumes where it was taken.
\<close>

section \<open>A published command\<close>

definition sample_out_owner :: output_owner where
  "sample_out_owner =
     \<lparr>oo_project = ProjectId (sample_uuid 2), oo_sandbox = SandboxId (sample_uuid 3),
      oo_operation = OperationId (sample_uuid 400), oo_allocation = AllocationId (sample_uuid 100),
      oo_generation = 1, oo_host = sample_host, oo_epoch = 1, oo_boot = ''b''\<rparr>"

definition sample_content :: "bytes per_stream" where "sample_content = ([104, 105], [33])"

definition sample_out_ref :: "output_name \<Rightarrow> output_ref" where
  "sample_out_ref n =
     \<lparr>ref_plan = \<lparr>pl_version = 1, pl_owner = sample_out_owner, pl_attempt = OperationId (sample_uuid 401),
        pl_name = n, pl_size = length (pick n sample_content), pl_sha256 = [],
        pl_seen = length (pick n sample_content), pl_truncated = False, pl_created = 1, pl_expires = 100,
        pl_delete_after = 200\<rparr>,
      ref_etag = ''e'', ref_object_version = None\<rparr>"

definition sample_refs :: output_refs where
  "sample_refs = \<lparr>refs_stdout = sample_out_ref Stdout, refs_stderr = sample_out_ref Stderr\<rparr>"

definition sample_view :: output_view where
  "sample_view = \<lparr>ov_simulated = Some False, ov_status = ''published'', ov_owner = Some sample_out_owner,
     ov_references = Some sample_refs, ov_expires = Some 100000000\<rparr>"

definition sample_caller :: caller where
  "sample_caller = \<lparr>cl_project = ProjectId (sample_uuid 2), cl_key = ''k'', cl_hash = [9]\<rparr>"

definition sample_record :: token_record where
  "sample_record = \<lparr>tkr_project = ProjectId (sample_uuid 2), tkr_status = ProjectActive, tkr_key = ''k'',
     tkr_hash = [9], tkr_expires = None, tkr_revoked = None\<rparr>"

definition sample_serve :: "output_ref \<Rightarrow> nat \<Rightarrow> nat \<Rightarrow> artifact_chunk" where
  "sample_serve r offset limit =
     (let p = ref_plan r; b = take limit (drop offset (pick (pl_name p) sample_content)) in
      \<lparr>ac_bytes = b, ac_next = offset + length b, ac_eof = (offset + length b = pl_size p),
       ac_truncated = pl_truncated p\<rparr>)"

definition sample_api :: api_env where
  "sample_api =
     \<lparr>ae_crates = ref_crates, ae_owner_json = \<lparr>to_vec = (\<lambda>_. Some []), from_slice = (\<lambda>_. None)\<rparr>,
      ae_scope_json = table_json [], ae_cursor_json = \<lparr>to_vec = (\<lambda>_. Some []), from_slice = (\<lambda>_. None)\<rparr>,
      ae_url_encode = ref_hex_encode, ae_url_decode = ref_hex_decode, ae_data_encode = ref_hex_encode,
      ae_header_str = Some, ae_frame_json = (\<lambda>_. True), ae_live = None, ae_archive = True,
      ae_world =
        \<lparr>aw_clock = (\<lambda>_. 5000000), aw_token = (\<lambda>_ _. Inr (Some sample_record)),
         aw_stream = (\<lambda>_ _ _. Inr (Some \<lparr>sv_source = SourceArchived sample_view, sv_expires = None\<rparr>)),
         aw_kind = (\<lambda>_ _ _. Inr (Some ''execute'')), aw_output = (\<lambda>_ _ _. Inr (Some sample_view)),
         aw_archive = (\<lambda>_ r _ _ offset limit. Some (Inr (sample_serve r offset limit))),
         aw_live = (\<lambda>_ _ _. None), aw_send = (\<lambda>_ _. SendDone), aw_permit = (\<lambda>_. True)\<rparr>\<rparr>"

definition sample_state :: api_state where
  "sample_state = \<lparr>as_step = 0, as_log = [], as_denied = False, as_expires = i64_max\<rparr>"

definition sample_cursor :: stream_cursor where
  "sample_cursor = \<lparr>cur_version = 1, cur_project = oo_project sample_out_owner,
     cur_operation = oo_operation sample_out_owner, cur_binding = ref_hex_encode (ref_sha256 []), cur_offsets = (0, 0)\<rparr>"

lemma sample_api_simps [simp]:
  "ae_crates sample_api = ref_crates" "ae_archive sample_api" "ae_live sample_api = None"
  "ae_data_encode sample_api = ref_hex_encode" "ae_frame_json sample_api = (\<lambda>_. True)"
  "aw_archive (ae_world sample_api) k r w now offset limit = Some (Inr (sample_serve r offset limit))"
  "aw_live (ae_world sample_api) k h q = None" "aw_token (ae_world sample_api) k i = Inr (Some sample_record)"
  "aw_stream (ae_world sample_api) k p op = Inr (Some \<lparr>sv_source = SourceArchived sample_view, sv_expires = None\<rparr>)"
  "aw_clock (ae_world sample_api) k = 5000000" "aw_send (ae_world sample_api) k f = SendDone"
  "aw_kind (ae_world sample_api) k p op = Inr (Some ''execute'')"
  "aw_output (ae_world sample_api) k p op = Inr (Some sample_view)" "aw_permit (ae_world sample_api) k"
  "to_vec (ae_cursor_json sample_api) x = Some []" "to_vec (ae_owner_json sample_api) y = Some []"
  "ae_url_encode sample_api = ref_hex_encode" "ae_url_decode sample_api = ref_hex_decode"
  by (simp_all add: sample_api_def)

lemma sample_ref_of [simp]: "ref_of n sample_refs = sample_out_ref n"
  by (cases n) (simp_all add: ref_of_def sample_refs_def)

lemma sample_hex: "ref_hex_decode (ref_hex_encode b) = Some b"
  using hash_lawsD(2)[OF ref_hash_laws, of b] by simp

lemma sample_honest: "honest_outputs (ae_world sample_api) sample_refs sample_content"
  by (auto simp: honest_outputs_def sample_serve_def Let_def range_of_def sample_out_ref_def sample_view_def min_def)

lemma sample_service:
  "archived_service sample_api sample_caller op sample_out_owner sample_refs False sample_cursor"
  unfolding archived_service_def Let_def
  by (auto simp: sample_view_def sample_record_def sample_caller_def verify_hash_def token_verify_def passed_def
      sample_out_ref_def sample_serve_def archive_chunk_bad_def ms_of_ns_def cursor_new_def sample_cursor_def)

section \<open>Who is let in\<close>

definition admitted :: "crates \<Rightarrow> bytes \<Rightarrow> token_record \<Rightarrow> int \<Rightarrow> bool" where
  "admitted C h r now =
     (token_verify C h (tkr_hash r) \<and> \<not> passed (tkr_revoked r) now \<and> \<not> passed (tkr_expires r) now \<and>
      tkr_status r = ProjectActive)"

lemma verify_hash_ok [simp]: "verify_hash C h r now = Inr u \<longleftrightarrow> admitted C h r now"
  by (auto simp: verify_hash_def admitted_def split: project_status.splits)

text \<open>
  C28: A request is let in exactly when its header carries a token whose record, read from the
  store, holds the hash of the presented secret and is neither revoked nor expired in an active
  project; the caller it becomes is the record's project. Every other answer is the same
  refusal, but for a store that does not answer. A credential is revalidated exactly when the
  record read then still belongs to the caller and admits it.
\<close>
theorem credential_exact:
  "(fst (authenticate E header s) = Inr c) =
     (\<exists>t r. extract_token E header = Inr t \<and> aw_token (ae_world E) (as_step s) (token_key_id t) = Inr (Some r) \<and>
        admitted (ae_crates E) (token_hash (ae_crates E) t) r (aw_clock (ae_world E) (Suc (as_step s))) \<and>
        c = \<lparr>cl_project = tkr_project r, cl_key = tkr_key r, cl_hash = token_hash (ae_crates E) t\<rparr>) \<and>
   fst (authenticate E header s) \<in> range Inr \<union> {Inl P_Unauthenticated, Inl P_Unavailable} \<and>
   (fst (authenticate E header s) = Inl P_Unavailable) =
     (\<exists>t. extract_token E header = Inr t \<and> aw_token (ae_world E) (as_step s) (token_key_id t) = Inl ()) \<and>
   (fst (revalidate E c s) = Inr ()) =
     (\<exists>r. aw_token (ae_world E) (as_step s) (cl_key c) = Inr (Some r) \<and> tkr_project r = cl_project c \<and>
        tkr_key r = cl_key c \<and>
        admitted (ae_crates E) (cl_hash c) r (aw_clock (ae_world E) (Suc (as_step s))))"
proof -
  let ?W = "ae_world E" and ?C = "ae_crates E"
  have auth: "fst (authenticate E header s) =
    (case extract_token E header of Inl _ \<Rightarrow> Inl P_Unauthenticated
     | Inr t \<Rightarrow> (case aw_token ?W (as_step s) (token_key_id t) of
         Inl _ \<Rightarrow> Inl P_Unavailable | Inr None \<Rightarrow> Inl P_Unauthenticated
       | Inr (Some r) \<Rightarrow>
           if admitted ?C (token_hash ?C t) r (aw_clock ?W (Suc (as_step s)))
           then Inr \<lparr>cl_project = tkr_project r, cl_key = tkr_key r, cl_hash = token_hash ?C t\<rparr>
           else Inl P_Unauthenticated))"
  proof -
    have "verify_hash ?C h r now = Inr () \<or> (\<exists>e. verify_hash ?C h r now = Inl e)" for h r now
      by (cases "verify_hash ?C h r now") auto
    then have v: "map_err (\<lambda>_. P_Unauthenticated) (verify_hash ?C h r now) =
      (if admitted ?C h r now then Inr () else Inl P_Unauthenticated)" for h r now
      by (metis map_err_simps verify_hash_ok Inl_Inr_False old.sum.exhaust)
    show ?thesis
      by (simp add: authenticate_def enquire_def instant_ns_def sbind_def Let_def v split: sum.split option.split)
  qed
  have reval: "(fst (revalidate E c s) = Inr ()) =
     (\<exists>r. aw_token ?W (as_step s) (cl_key c) = Inr (Some r) \<and> tkr_project r = cl_project c \<and>
        tkr_key r = cl_key c \<and> admitted ?C (cl_hash c) r (aw_clock ?W (Suc (as_step s))))"
    by (auto simp: revalidate_def enquire_def instant_ns_def sbind_def ensure_def ok_or_def map_err_def
        split: sum.splits option.splits if_splits) (metis verify_hash_ok Inl_Inr_False old.unit.exhaust)+
  show ?thesis
    unfolding reval auth by (auto split: sum.splits option.splits if_splits)
qed

section \<open>Disclosure\<close>

text \<open>A request for a stream, served: the handler, then its producer task.\<close>

definition serve_stream :: "nat \<Rightarrow> api_env \<Rightarrow> caller \<Rightarrow> stream_query \<Rightarrow> unit api" where
  "serve_stream fuel E c q = sbind (open_stream E c q) (\<lambda>(op, cur). stream_task fuel E c op cur)"

lemma report_guarded: "guarded (as_log s) \<Longrightarrow> guarded (as_log (snd (report_problem E c p s)))"
proof -
  assume s: "guarded (as_log s)"
  have r: "guarded (as_log (snd (recheck E c s)))" using guarded_withholds[OF withholds_recheck] s .
  show ?thesis
  proof (cases "recheck E c s")
    case (Pair res t)
    show ?thesis
    proof (cases res)
      case (Inl e)
      with r Pair show ?thesis by (simp add: report_problem_def stop_session_def)
    next
      case (Inr u)
      obtain b where "as_log (snd (emit_frame E (problem_frame p) t)) = as_log t @ [Offered (problem_frame p) b]"
        using emit_frame_log by blast
      then have "guarded (as_log (snd (emit_frame E (problem_frame p) t)))"
        using guarded_checked[of "as_log s"] recheck_ok[of E c s u t] r Pair Inr by simp
      then show ?thesis using r Pair Inr
        by (cases "emit_frame E (problem_frame p) t") (simp add: report_problem_def)
    qed
  qed
qed

lemma task_guarded: "guarded (as_log s) \<Longrightarrow> guarded (as_log (snd (stream_task fuel E c op cur s)))"
  using produce_guarded[of s fuel E c op "progress_start cur"] report_guarded
  by (auto simp: stream_task_def stop_session_def split: prod.split sum.split bool.split)

lemma withholds_open: "withholds (open_stream E c q)"
  unfolding open_stream_def
  by (intro withholds_sbind) (auto simp: withholds_query withholds_recheck withholds_def[of "swrite _"]
      intro!: withholds_sbind)

text \<open>
  The client's side: frames that the producer has sent arrive, the expiry is lowered, the session
  is stopped or its producer ends, and the client polls, in any order.
\<close>

fun sent_frames :: "api_event list \<Rightarrow> frame list" where
  "sent_frames [] = []"
| "sent_frames (Offered f ok # l) = (if ok then f # sent_frames l else sent_frames l)"
| "sent_frames (_ # l) = sent_frames l"

datatype session_event = Arrives | Lowered int | Stopped | Ended | Polled int

definition session_start :: session where
  "session_start = \<lparr>ss_denied = False, ss_expires = i64_max, ss_queue = [], ss_open = True\<rparr>"

fun client_frames :: "frame list \<Rightarrow> session_event list \<Rightarrow> session \<Rightarrow> frame list" where
  "client_frames fs [] s = []"
| "client_frames fs (Arrives # es) s =
     (case fs of [] \<Rightarrow> client_frames fs es s | f # fs' \<Rightarrow> client_frames fs' es (s\<lparr>ss_queue := ss_queue s @ [f]\<rparr>))"
| "client_frames fs (Lowered t # es) s = client_frames fs es (s\<lparr>ss_expires := min (ss_expires s) t\<rparr>)"
| "client_frames fs (Stopped # es) s = client_frames fs es (s\<lparr>ss_denied := True\<rparr>)"
| "client_frames fs (Ended # es) s = client_frames fs es (s\<lparr>ss_open := False\<rparr>)"
| "client_frames fs (Polled now # es) s =
     (case poll_session now s of (r, s') \<Rightarrow> (case r of Item f \<Rightarrow> [f] | _ \<Rightarrow> []) @ client_frames fs es s')"

lemma denied_frames: "ss_denied s \<Longrightarrow> client_frames fs es s = []"
  by (induction fs es s rule: client_frames.induct) (auto simp: poll_session_def split: list.split)

lemma client_prefix:
  "\<exists>n tail. client_frames fs es s = take n (ss_queue s @ fs) @ tail \<and> (tail = [] \<or> tail = [GapFrame ''output_expired''])"
proof (induction fs es s rule: client_frames.induct)
  case (1 fs s)
  show ?case by (auto intro: exI[of _ 0])
next
  case (2 fs es s)
  then show ?case by (cases fs) simp_all
next
  case (4 fs es s)
  show ?case by (auto simp: denied_frames intro: exI[of _ 0])
next
  case (6 fs now es s)
  obtain r s' where p: "poll_session now s = (r, s')" by (cases "poll_session now s")
  have IH: "\<exists>n tail. client_frames fs es s' = take n (ss_queue s' @ fs) @ tail \<and> (tail = [] \<or> tail = [GapFrame ''output_expired''])"
    using "6.IH"[OF p[symmetric]] p by simp
  consider (denied) "ss_denied s" | (expired) "\<not> ss_denied s" "ss_expires s \<le> now" | (live) "\<not> ss_denied s" "now < ss_expires s"
    by linarith
  then show ?case
  proof cases
    case denied
    then have "client_frames fs (Polled now # es) s = []" by (rule denied_frames)
    then show ?thesis by (auto intro: exI[of _ 0])
  next
    case expired
    then have "client_frames fs (Polled now # es) s = [GapFrame ''output_expired'']"
      by (simp add: poll_session_def denied_frames)
    then show ?thesis by (auto intro: exI[of _ 0])
  next
    case live
    show ?thesis
    proof (cases "ss_queue s")
      case Nil
      then show ?thesis using live p IH by (auto simp: poll_session_def split: if_splits)
    next
      case (Cons f q)
      obtain n tail where "client_frames fs es s' = take n (ss_queue s' @ fs) @ tail"
        "tail = [] \<or> tail = [GapFrame ''output_expired'']" using IH by blast
      then show ?thesis using live p Cons
        by (auto simp: poll_session_def intro!: exI[of _ "Suc n"] exI[of _ tail])
    qed
  qed
qed simp_all

text \<open>
  C23: However the store, the readers, the clock and the client behave, every frame that the
  producer of a stream offers, its last problem included, is offered while a credential check
  that passed is fresh: no metadata query and no read of output came between the two. The client,
  whenever it polls and whenever the stream expires or is stopped, receives the frames sent, in
  order and none of another origin, but for one: the notice that the output has expired, always
  the same and without output, which the session makes up without a check and after which
  nothing comes.
\<close>
theorem stream_frames_guarded:
  "guarded (as_log (snd (serve_stream fuel E c q (s\<lparr>as_log := []\<rparr>)))) \<and>
   (\<exists>n tail. client_frames (sent_frames (as_log (snd (serve_stream fuel E c q (s\<lparr>as_log := []\<rparr>))))) es session_start =
        take n (sent_frames (as_log (snd (serve_stream fuel E c q (s\<lparr>as_log := []\<rparr>))))) @ tail \<and>
      (tail = [] \<or> tail = [GapFrame ''output_expired'']))"
proof
  let ?s = "s\<lparr>as_log := []\<rparr>"
  have "guarded (as_log ?s)" by (simp add: guarded_def)
  then have open_ok: "guarded (as_log (snd (open_stream E c q ?s)))" by (rule guarded_withholds[OF withholds_open])
  show "guarded (as_log (snd (serve_stream fuel E c q ?s)))"
    using open_ok task_guarded by (auto simp: serve_stream_def sbind_def split: prod.split sum.split)
qed (use client_prefix[of _ es session_start] in \<open>simp add: session_start_def\<close>)

section \<open>Delivery\<close>

lemma start_on_course: "on_course D content (cur_offsets cur) (progress_start cur) []"
  by (auto simp: on_course_def progress_start_def both_done_def gathered_def pick_def split: output_name.split)

text \<open>
  C24: When the readers return ranges of the two outputs, a client that starts at a cursor
  gathers, from the frames offered in any number of turns, live or published, a range of each
  output that starts at its offset, without gap, overlap or reordering; and when the producer
  ends, the last frame is the \<open>end\<close> frame and reports for each stream the size gathered up to.
\<close>
theorem stream_delivers_in_order:
  assumes "honest_outputs (ae_world E) refs content" and "\<And>b. D (ae_data_encode E b) = Some b" and "as_log s = []"
  shows "case produce fuel E c op (progress_start cur) s of (r, t) \<Rightarrow>
    in_order D content (cur_offsets cur) (as_log t) \<and>
    (r = Inr True \<longrightarrow> ended D content (cur_offsets cur) (as_log t))"
proof -
  have "in_order D content (cur_offsets cur) l" if "ended D content (cur_offsets cur) l" for l
    using that by (auto simp: in_order_def ended_def)
  then show ?thesis
    using produce_in_order[OF assms(1,2), where start = "cur_offsets cur" and p = "progress_start cur" and s = s
        and fuel = fuel and c = c and op = op] start_on_course[of D content cur] assms(3)
    by (auto simp: leads_def split: prod.splits sum.splits if_splits)
qed

lemma sample_turns:
  "at_ease sample_refs sample_cursor (progress_start sample_cursor)"
  "turns_total sample_refs (progress_start sample_cursor) \<le> 2"
  by (simp_all add: at_ease_def progress_start_def both_done_def sample_cursor_def pick_def turns_total_def
      turns_left_def sample_out_ref_def sample_content_def max_chunk_def split: output_name.split)

definition sample_op :: operation_id where "sample_op = oo_operation sample_out_owner"

theorem stream_delivers_in_order_witness:
  "\<exists>t. produce 2 sample_api sample_caller sample_op (progress_start sample_cursor) sample_state = (Inr True, t) \<and>
     ended ref_hex_decode sample_content (0, 0) (as_log t)"
proof -
  obtain t where t: "produce 2 sample_api sample_caller sample_op (progress_start sample_cursor) sample_state = (Inr True, t)"
    using produce_yields[OF sample_service sample_turns, of sample_op] unfolding yields_def by metis
  have "ended ref_hex_decode sample_content (cur_offsets sample_cursor) (as_log t)"
    using stream_delivers_in_order[OF sample_honest, where D = ref_hex_decode and s = sample_state and fuel = 2
        and c = sample_caller and op = sample_op and cur = sample_cursor] t
    by (simp add: sample_hex sample_state_def)
  then show ?thesis using t by (simp add: sample_cursor_def)
qed

text \<open>
  C25: A stream of published output ends. When the store keeps answering with the published view,
  the credential stays valid, the reader answers each range, retention has not passed and the
  client takes every frame, the producer returns within the turns that the remaining bytes take,
  one for each full range of 32768 bytes and one more for each stream.
\<close>
theorem published_stream_ends:
  assumes "archived_service E c op w refs simulated cur"
    and "fst (cur_offsets cur) \<le> pl_size (ref_plan (refs_stdout refs))"
    and "snd (cur_offsets cur) \<le> pl_size (ref_plan (refs_stderr refs))"
    and "fuel = (pl_size (ref_plan (refs_stdout refs)) - fst (cur_offsets cur)) div 32768 +
                (pl_size (ref_plan (refs_stderr refs)) - snd (cur_offsets cur)) div 32768 + 2"
  shows "\<exists>t. produce fuel E c op (progress_start cur) s = (Inr True, t)"
proof -
  have "at_ease refs cur (progress_start cur)" "turns_total refs (progress_start cur) \<le> fuel"
    using assms(2-4)
    by (simp_all add: at_ease_def progress_start_def both_done_def pick_def turns_total_def turns_left_def
        max_chunk_def ref_of_def split: output_name.split)
  then show ?thesis using produce_yields[OF assms(1)] unfolding yields_def by metis
qed

theorem published_stream_ends_witness:
  "\<exists>t. produce 2 sample_api sample_caller sample_op (progress_start sample_cursor) sample_state = (Inr True, t)"
  by (rule published_stream_ends[OF sample_service])
    (simp_all add: sample_cursor_def sample_refs_def sample_out_ref_def sample_content_def pick_def)

section \<open>Cursors\<close>

text \<open>
  C27: The identifier of a frame resumes the stream. Parsed for any owner, the text of a cursor
  whose offsets are within the output limit gives that cursor back exactly when it was taken for
  that project, operation and placement: another project or operation is a bad request, another
  placement of the operation is output that is no longer there.
\<close>
theorem cursor_resumes:
  assumes "json_faithful (ae_cursor_json E)" and "\<And>b. ae_url_decode E (ae_url_encode E b) = Some b"
    and "cursor_encode E x = Inr i" and "length i \<le> 2048" and "cursor_new E w = Inr y" and "cur_version x = 1"
    and "fst (cur_offsets x) + snd (cur_offsets x) \<le> max_output"
  shows "cursor_parse E i w =
    (if cur_project x \<noteq> oo_project w \<or> cur_operation x \<noteq> oo_operation w then Inl bad_cursor
     else if cur_binding x \<noteq> cur_binding y then Inl P_OutputMissing else Inr x)"
proof -
  obtain b where b: "to_vec (ae_cursor_json E) x = Some b" "i = ae_url_encode E b"
    using assms(3) by (auto simp: cursor_encode_def)
  have "from_slice (ae_cursor_json E) b = Some x" by (rule json_faithfulD[OF assms(1) b(1)])
  moreover have "\<not> offsets_bad (cur_offsets x)"
    using assms(7) by (simp add: offsets_bad_def checked_add_u64_def max_output_def)
  ultimately show ?thesis
    using assms(2,4,5,6) b(2) by (auto simp: cursor_parse_def ensure_def)
qed

definition cursor_api :: api_env where
  "cursor_api = sample_api\<lparr>ae_cursor_json := table_json [sample_cursor\<lparr>cur_offsets := (1, 0)\<rparr>]\<rparr>"

theorem cursor_resumes_witness:
  "cursor_parse cursor_api (ref_hex_encode []) sample_out_owner = Inr (sample_cursor\<lparr>cur_offsets := (1, 0)\<rparr>)"
proof -
  let ?x = "sample_cursor\<lparr>cur_offsets := (1, 0)\<rparr>"
  have E: "ae_cursor_json cursor_api = table_json [?x]" "ae_url_decode cursor_api = ref_hex_decode"
    "ae_url_encode cursor_api = ref_hex_encode" by (simp_all add: cursor_api_def)
  have enc: "cursor_encode cursor_api ?x = Inr (ref_hex_encode [])"
    by (simp add: cursor_encode_def E table_json_def)
  have new: "cursor_new cursor_api sample_out_owner = Inr sample_cursor"
    by (simp add: cursor_new_def cursor_api_def sample_cursor_def)
  have len: "length (ref_hex_encode []) \<le> 2048" using hash_lawsD(3)[OF ref_hash_laws, of "[]"] by simp
  show ?thesis
    using cursor_resumes[OF _ _ enc len new, unfolded E, OF table_json_faithful sample_hex]
    by (simp add: sample_cursor_def max_output_def)
qed

section \<open>Bounded reads\<close>

text \<open>
  C26: A read of archived output that answers gives exactly the requested range, as much of the
  limit as the object holds after the offset, of the object that the published view of the
  caller's own project names for that stream, before the read and after it; and the last thing
  it did before releasing the bytes was a credential check that passed.
\<close>
theorem archived_read_exact:
  assumes "read_archived E c q s = (Inr b, t)"
  shows "\<exists>op n offset limit w r sim i j m now a v v' x x'.
    output_request_of (ae_crates E) q = Inr (op, n, offset, limit) \<and> 0 < limit \<and> limit \<le> 32768 \<and>
    i < m \<and> m < j \<and>
    aw_output (ae_world E) i (cl_project c) op = Inr (Some v) \<and> selected v n = Inr (w, r, sim, x) \<and>
    aw_archive (ae_world E) m r w now offset limit = Some (Inr a) \<and>
    aw_output (ae_world E) j (cl_project c) op = Inr (Some v') \<and> selected v' n = Inr (w, r, sim, x') \<and>
    b = ac_bytes a \<and> length b = min (pl_size (ref_plan r) - offset) limit \<and>
    as_log t = as_log s @ [Queried, Queried, Fetched, Queried, Checked True]"
proof -
  have req: "0 < limit \<and> limit \<le> 32768" if "output_request_of (ae_crates E) q = Inr (op, n, offset, limit)" for op n offset limit
    using that by (auto simp: output_request_of_def Let_def max_chunk_def split: prod.splits)
  have bad: "length (ac_bytes a) = min (pl_size p - offset) limit" if "\<not> archive_chunk_bad p offset limit a" for a p offset limit
    using that by (auto simp: archive_chunk_bad_def Let_def)
  have ans: "store_answer z = Inr v \<longleftrightarrow> z = Inr (Some v)" for z :: "unit + 'z option" and v
    by (cases z) (auto simp: store_answer_def)
  from assms obtain op n offset limit v w r sim x now a u v' x' k j s1 where
      R: "output_request_of (ae_crates E) q = Inr (op, n, offset, limit)"
    and v: "aw_output (ae_world E) (Suc (as_step s)) (cl_project c) op = Inr (Some v)" "selected v n = Inr (w, r, sim, x)"
    and a: "aw_archive (ae_world E) k r w now offset limit = Some (Inr a)"
    and v': "aw_output (ae_world E) j (cl_project c) op = Inr (Some v')" "selected v' n = Inr (w, r, sim, x')"
    and k: "Suc (as_step s) < k" "k < j"
    and c: "recheck E c s1 = (Inr (), u)" "as_log s1 = as_log s @ [Queried, Queried, Fetched, Queried]"
    and b: "b = ac_bytes a" "\<not> archive_chunk_bad (ref_plan r) offset limit a" "as_log t = as_log u"
    unfolding read_archived_def
    by (auto simp: ans enquire_def note_event_def query_output_def fetch_archived_def output_now_def now_ms_def
        instant_ns_def archived_result_def split: if_splits)
  have "as_log t = as_log s @ [Queried, Queried, Fetched, Queried, Checked True]"
    using recheck_ok[OF c(1)] c(2) b(3) by simp
  moreover have "length b = min (pl_size (ref_plan r) - offset) limit" using bad[OF b(2)] b(1) by simp
  ultimately show ?thesis using R req[OF R] v a v' k b(1) by blast
qed

definition sample_query :: output_query where
  "sample_query = \<lparr>oq_operation = Some (show_operation ref_crates sample_op), oq_name = ''stdout'',
     oq_params = Some (Some 1, None), oq_range = False\<rparr>"

lemma sample_read:
  "fst (read_archived sample_api sample_caller sample_query sample_state) = Inr [105]"
proof -
  have req: "output_request_of ref_crates sample_query = Inr (sample_op, Stdout, 1, max_chunk)"
    by (simp add: output_request_of_def sample_query_def max_chunk_def operation.parse_show[OF ref_uuid_laws]
        sample_op_def sample_out_owner_def)
  have sel: "selected sample_view Stdout = Inr (sample_out_owner, sample_out_ref Stdout, False, 100000000)"
    by (simp add: selected_def sample_view_def sample_refs_def)
  have chk: "recheck sample_api sample_caller s = (Inr (), s\<lparr>as_step := as_step s + 2, as_log := as_log s @ [Checked True]\<rparr>)"
    for s :: api_state
    by (simp add: recheck_def revalidate_def enquire_def instant_ns_def sbind_def ensure_def sample_record_def
        sample_caller_def verify_hash_def token_verify_def passed_def)
  show ?thesis
    by (simp add: read_archived_def req sel chk sbind_def enquire_def note_event_def query_output_def store_answer_def
        fetch_archived_def output_now_def now_ms_def instant_ns_def ensure_def archived_result_def ms_of_ns_def in_i64_def
        sample_out_ref_def sample_serve_def sample_content_def pick_def Let_def archive_chunk_bad_def max_chunk_def)
qed

theorem archived_read_exact_witness:
  "\<exists>t. read_archived sample_api sample_caller sample_query sample_state = (Inr [105], t) \<and>
     as_log t = [Queried, Queried, Fetched, Queried, Checked True]"
proof -
  obtain t where t: "read_archived sample_api sample_caller sample_query sample_state = (Inr [105], t)"
    using sample_read by (metis prod.collapse)
  have "as_log t = as_log sample_state @ [Queried, Queried, Fetched, Queried, Checked True]"
    using archived_read_exact[OF t] by blast
  then show ?thesis using t by (simp add: sample_state_def)
qed

end
