(* ===== verification/Spec2Isabelle.thy ===== *)
theory Spec2Isabelle
  imports Protocol_Properties Authority_Properties Launch_Properties Archive_Properties Deletion_Properties
    Host_Properties Guest_Properties Guest_File_Properties Guest_Service_Properties
    Controller_Properties Api_Properties
begin

text \<open>
  A verification library for the Hudson sandbox.

  The program runs customers' commands in virtual machines. An HTTP API admits requests into a
  store (PostgreSQL). A controller claims admitted work from the store and calls the host it is
  configured for; the host (the supervisor, \<open>crates/sandbox-supervisor\<close>) keeps a journal of
  its allocations, starts one guardian process per virtual machine and talks to the agent inside
  (\<open>crates/sandbox-guest\<close>). All of them share the types and checks of
  \<open>crates/sandbox-protocol\<close>. What makes the system correct is what it writes before it acts:
  no command, upload or machine may be started twice, no capacity may be given out twice, and no
  evidence may be lost, although every process may crash, every write may fail and every answer
  may be missing. The library models that core and proves it.

  Paths below are relative to \<open>crates/\<close>; a definition has the name of its function in the
  code, with a prefix where two components share a name.
\<close>

section \<open>How code becomes definitions\<close>

text \<open>
  \<^item> \<open>Prelude\<close>: \<open>Result\<close> is a sum, a fallible method on a state is a \<open>('s, 'e, 'a) proc\<close>, which
    keeps the state reached before an error. \<open>u64\<close> is \<open>nat\<close> and \<open>i64\<close> is \<open>int\<close>, with each
    checked, wrapping or saturating operation written out with its bounds; bytes are \<open>8 word\<close>s
    and identities \<open>128 word\<close>s. Also \<open>irrevocable_denial\<close>, the locale for everything that once
    refused stays refused, which the ledger, the launch authority and the deadline cell interpret.
  \<^item> \<open>Crates\<close>: the third-party functions (\<open>uuid\<close>, \<open>sha2\<close>, \<open>hex\<close>, \<open>subtle\<close>, \<open>serde_json\<close>) are
    arguments of the definitions that call them. \<open>crates_laws\<close> and \<open>json_faithful\<close> are the
    documented behaviour that some properties assume; concrete functions satisfy them.
  \<^item> \<open>Ordered_Map\<close>: \<open>BTreeMap\<close> and \<open>BTreeSet\<close> as ascending lists, behind the locale \<open>keyed_map\<close>.
  \<^item> Everything outside a process is a record of answers, a world: clocks, system calls, peers,
    the store. The \<open>n\<close>-th question takes the \<open>n\<close>-th answer, so a theorem for every world holds
    however the clocks run, whichever write fails and whatever a peer answers.
  \<^item> Effects that must not be repeated, or whose order matters, are appended to a log in the
    state: \<open>hs_effects\<close> on the host, \<open>gu_spawned\<close> and \<open>ft_published\<close> in the guest, \<open>ct_log\<close> in the
    controller, \<open>as_log\<close> in the API. No operation reads its log.
\<close>

section \<open>The shared protocol (\<open>sandbox-protocol/src\<close>)\<close>

text \<open>
  \<^item> \<open>Ids\<close> (\<open>ids.rs\<close>), \<open>Token\<close> (\<open>token.rs\<close>), \<open>Idempotency\<close> (\<open>idempotency.rs\<close>), \<open>Capabilities\<close>
    (\<open>resources.rs\<close>, \<open>images.rs\<close>, \<open>host_capabilities.rs\<close>), \<open>Bootstrap\<close> (\<open>bootstrap.rs\<close>): parsing
    and printing of identities and tokens, canonical request digests, host limits, the device
    a machine boots from.
  \<^item> \<open>Guest_Model\<close> (\<open>guest_model.rs\<close>, \<open>guest_wire.rs\<close>), \<open>Command\<close> (\<open>command.rs\<close>), \<open>Output\<close>
    (\<open>output.rs\<close>, \<open>live_output.rs\<close>), \<open>Files\<close> (\<open>files.rs\<close>, \<open>file_wire.rs\<close>, \<open>supervisor_files.rs\<close>),
    \<open>File_Access\<close> (\<open>file_downloads.rs\<close>, \<open>file_sources.rs\<close>), \<open>History\<close> (\<open>history.rs\<close>): commands,
    receipts, transfers, archived output and retirement barriers with their validations and
    strict wire conversions. The locales \<open>wire_codec\<close>, \<open>canonical_wire\<close> and \<open>keyed_plan\<close> hold what
    the messages and the stored plans have in common.
  \<^item> \<open>Allocation_Scope\<close> (\<open>allocation_retirement.rs\<close>) and \<open>Authority\<close>
    (\<open>allocation_authority.rs\<close>): the messages that retire an allocation, and the ledger of
    permits with its operations. \<open>Authority_Laws\<close> and \<open>Authority_Runs\<close> show that every operation
    keeps \<open>ledger_ok\<close> and refines one on an abstract map from permits to owner states.

  \<open>Protocol_Properties\<close> and \<open>Authority_Properties\<close> state the round trips, the canonical forms and
  the refinements; \<open>Samples\<close> has the concrete values of all witnesses.
\<close>

section \<open>The supervisor (\<open>sandbox-supervisor/src\<close>)\<close>

text \<open>
  \<^item> \<open>Staged_File\<close>: the write both stores use (create, write, sync, rename, sync the directory);
    each step may fail and leaves the files as they then are. The locale \<open>durable_store\<close>.
  \<^item> \<open>Launch_Authority\<close> (\<open>launch_authority.rs\<close>) over the ledger, with \<open>Launch_Laws\<close> and
    \<open>Launch_Properties\<close>: saves are atomic, each call, the retirement guard's included,
    makes only its own transition of the ledger, an acknowledged fence is final. Activation
    (\<open>launch_initialize\<close>) writes \<open>launch.required\<close> and the first state with a fault at any step.
  \<^item> \<open>Lease\<close> (\<open>lease.rs\<close>): the deadline cell, as atomic steps of any number of threads.
  \<^item> \<open>Guardian_Model\<close> (\<open>guardian/mod.rs\<close>) and \<open>Deletion\<close> (\<open>guardian/retirement.rs\<close>), with
    \<open>Deletion_Laws\<close> and \<open>Deletion_Properties\<close>: the removal of a guardian's metadata, one file per
    step, ends, can be taken up again after any fault and removes only what was planned.
  \<^item> \<open>Archive\<close> (\<open>archive.rs\<close>, \<open>live_output.rs\<close>) and \<open>Downloads\<close> (\<open>file_downloads.rs\<close>).
  \<^item> The host (\<open>host/*.rs\<close>). \<open>Host_State\<close>: rows, journal, messages, world. \<open>Host_Core\<close>: claims, gate,
    admission, create, inspect, stop, leases, maintenance. \<open>Host_Commands\<close>, \<open>Host_Files\<close>,
    \<open>Host_History\<close>, \<open>Host_Archive\<close>, \<open>Host_Reads\<close>, \<open>Host_Deletion\<close>: the other requests.
    \<open>Host_Journal\<close>: the start of a host.
  \<^item> Its proofs. \<open>Host_Laws\<close>: the view of a host (memory, service, file, sent requests), the order
    \<open>advances\<close> on journals, the invariant \<open>good\<close> and triples \<open>tri\<close> over methods. \<open>Host_Frame\<close>,
    \<open>Host_Rows\<close>, \<open>Host_Steps\<close>, \<open>Host_Requests\<close>, \<open>Host_Sends\<close>, \<open>Host_Start\<close>: a triple for each
    method, request and start. \<open>Host_Runs\<close>: the relation of runs of requests and restarts.
    \<open>Host_Refusals\<close>, \<open>Host_Recovery\<close>, \<open>Host_Admission\<close>: what a poisoned host refuses, that
    maintenance finishes, that admissions fit. \<open>Host_Properties\<close> states the results.

  What runs under an allocation's gate is one step of a host; a crash is a restart after any save
  or answer. A publication, a live read and a download let go of the gate and the journal while
  the guest or the object store is asked: \<open>host_op\<close> has, besides the whole request, the part before
  the answer and the part after it (\<open>output_setup\<close> and \<open>output_finish\<close>, \<open>live_begin\<close> and
  \<open>live_end\<close>, and the like), so a run may put anything between them. The bound on the workers and
  the pins of readers that such a request holds meanwhile are answers of the world. An unsynced
  rename is taken to have happened, since the code's next step (syncing the directory) decides
  whether the write is acknowledged.
\<close>

section \<open>The guest agent (\<open>sandbox-guest/src\<close>)\<close>

text \<open>
  \<^item> \<open>State_Directory\<close>: a directory of records and its faults; the locale \<open>engine\<close> is the calculus
    in which both engines are proved.
  \<^item> \<open>Guest_Runner\<close> (\<open>runner.rs\<close>): admission, the task of a command split at its waits,
    cancellation, retirement, recovery. \<open>Guest_Laws\<close> and \<open>Guest_Runs\<close>: runs of requests, task steps
    and restarts keep \<open>guest_inv\<close>; \<open>Guest_Properties\<close>: launched once, outcomes durable, an opened
    agent is settled.
  \<^item> \<open>Guest_Files\<close> (\<open>files/mod.rs\<close>, \<open>files/fs.rs\<close>) with \<open>Guest_File_Laws\<close>, \<open>Guest_File_Runs\<close> and
    \<open>Guest_File_Recovery\<close>: runs of uploads, outside changes and reopenings keep \<open>file_inv\<close>;
    \<open>Guest_File_Properties\<close>: published once and exactly, outcomes durable.
  \<^item> \<open>Guest_Service\<close> (\<open>file_service.rs\<close>, \<open>server.rs\<close>): captures, permits, dispatch.
    \<open>Guest_Service_Runs\<close> gives the operations of each engine that a run of the whole guest performs,
    each read off its request under the guards written out again (\<open>runner_trace\<close>, \<open>file_trace\<close>);
    \<open>Guest_Captures\<close> and \<open>Guest_Service_Properties\<close> state what its clients see.

  A directory listing has an order, names are text, and the worker of the file service is atomic:
  it runs to its end whether or not its caller still waits.
\<close>

section \<open>The controller (\<open>sandbox-controller/src\<close>)\<close>

text \<open>
  \<open>Controller\<close> has the tick (\<open>lib.rs\<close>) with the allocation authority, the recovery of a previous
  epoch and the uploads. Each query of the store and each call of the host is one answer of
  \<open>ctl_world\<close>. The log has each answer of the store with the changing call it lets the controller
  make (\<open>Consulted\<close>), each call and its answer, and what the store said to evidence (\<open>Recorded\<close>) or
  to an unknown outcome (\<open>Marked\<close>), once it has said it. What the store commits with an answer is
  not modelled: some answers are a stored intent, others a check of the claim or a query only. A
  bound of \<open>tokio::time::timeout\<close> may strike at any wait inside it. \<open>Controller_Laws\<close> reads the
  log by the automaton \<open>stage_step\<close> and computes weakest preconditions over its stages; a method's
  lemma follows its structure. \<open>Controller_Properties\<close>: every changing call is one that the
  store's last answer lets the controller make; the store is told of every call but two kinds, a
  registration of permits, which the tick takes up again, and the recovery call of a previous
  epoch that outlasts its ten seconds; a create carries a permit the host has acknowledged; over
  any number of ticks a guest is written only verified bytes of the source the store prepared.
\<close>

section \<open>The API's output surface (\<open>sandbox-api/src\<close>)\<close>

text \<open>
  \<open>Api\<close>: problems (\<open>problem.rs\<close>), bearer authentication (\<open>auth.rs\<close>), the read of archived output
  (\<open>outputs.rs\<close>). \<open>Api_Stream\<close>: cursors, the live reader and the producer of a stream
  (\<open>streams/*.rs\<close>). \<open>Api_Stream_Laws\<close>: what a turn of the producer does, the check every frame
  stands behind, and the client's reassembly. The session the client polls ends by itself with the
  fixed frame \<open>output_expired\<close>, the only one that no credential check stands behind.
  \<open>Api_Liveness\<close>: a stream of published output ends. Instants are in nanoseconds, as the clock
  returns them.
\<close>

section \<open>Bounds and fuel\<close>

text \<open>
  \<^item> \<open>produce\<close> takes fuel, one unit per turn. Out of fuel is the producer aborted by its lifetime,
    the watchdog or the client; the safety properties hold for every amount. One turn for each
    full range of 32768 bytes left of a stream, and one more for each of the two, is enough for a
    published output (\<open>published_stream_ends\<close>).
  \<^item> Every other loop is total: over a list, by the measure of what is left to read
    (\<open>stream_from\<close>, \<open>canonical\<close>, \<open>search_serial\<close>), or of what is left to remove (\<open>remove_all\<close>, at
    most one step more than the directory has files). The periodic maintenance of the host is one
    pass in the model; \<open>recovery_completes\<close> counts the passes that suffice after a start.
\<close>

section \<open>Not modelled\<close>

text \<open>
  \<^item> The store (\<open>sandbox-store\<close>): SQL transactions; its types are in \<open>Controller\<close> and \<open>Api\<close>,
    its answers in their worlds.
  \<^item> The guardian process (\<open>guardian/process.rs\<close>), the guest's launcher and boot: control
    groups, mounts, jails and processes. Their outcomes are answers.
  \<^item> Transports, certificates and the preflight of a host: sockets, TLS and tools of the
    machine. Connecting, routing and response headers are the frameworks'.
  \<^item> The other routes of the API: each decodes a request for one transaction of the store.
  \<^item> The controller's background workers (\<open>archive.rs\<close>, \<open>history.rs\<close>, \<open>retirement.rs\<close>,
    \<open>wakeup.rs\<close>, \<open>workers.rs\<close>): a query, a call and a pause, repeated.
  \<^item> The object store (\<open>sandbox-artifacts\<close>), the cleanup workers, the client, the command line,
    the fake host and every \<open>main.rs\<close>.
  \<^item> Secrets and their erasure, messages of errors, logging, and file names that are not text.
\<close>

end
